(* ===== verification/Py_Base.thy ===== *)
theory Py_Base
  imports Complex_Main "HOL-Library.Sublist" "HOL-Library.List_Lexorder" "HOL-Library.Char_ord"
    "HOL-Library.Multiset"
    "HOL-Library.Code_Target_Nat"
begin

text \<open>
  Prelude: the Python built-ins the agents use on strings, lists and dictionaries, and the
  generic lemmas and \<^theory_text>\<open>named_theorems\<close> collections shared by the
  component theories.

  A Python \<open>str\<close> is a HOL \<open>string\<close> (a list of 8-bit characters). The model is exact for
  ASCII text; a character beyond ASCII stands as its UTF-8 bytes, and case mapping, digit
  and white-space tests look at ASCII characters only. A Python \<open>int\<close> is an \<open>int\<close>, an
  exception is the left side of a sum, and \<open>None\<close> is the option value of that name.
\<close>

named_theorems safe_intros \<open>facts: a validated string carries no line break\<close>
named_theorems line_simps \<open>counting the line breaks of rendered text\<close>
named_theorems py_evals \<open>definitions unfolded when a concrete call is evaluated\<close>

section \<open>Characters\<close>

definition newline :: char where "newline = CHR 0x0A"
definition carriage :: char where "carriage = CHR 0x0D"
definition backslash :: char where "backslash = CHR 0x5C"
definition dquote :: char where "dquote = CHR 0x22"

abbreviation nl :: string where "nl \<equiv> [newline]"
abbreviation dq :: string where "dq \<equiv> [dquote]"

lemmas char_defs [py_evals] = newline_def carriage_def backslash_def dquote_def

definition char_between :: "char \<Rightarrow> char \<Rightarrow> char \<Rightarrow> bool" where
  "char_between lo hi c \<longleftrightarrow> (of_char lo :: nat) \<le> of_char c \<and> (of_char c :: nat) \<le> of_char hi"

definition is_digit :: "char \<Rightarrow> bool" where
  "is_digit c \<longleftrightarrow> char_between CHR ''0'' CHR ''9'' c"

definition is_upper :: "char \<Rightarrow> bool" where
  "is_upper c \<longleftrightarrow> char_between CHR ''A'' CHR ''Z'' c"

definition is_lower :: "char \<Rightarrow> bool" where
  "is_lower c \<longleftrightarrow> char_between CHR ''a'' CHR ''z'' c"

definition is_alpha :: "char \<Rightarrow> bool" where
  "is_alpha c \<longleftrightarrow> is_upper c \<or> is_lower c"

definition is_alnum :: "char \<Rightarrow> bool" where
  "is_alnum c \<longleftrightarrow> is_alpha c \<or> is_digit c"

definition is_hexdigit :: "char \<Rightarrow> bool" where
  "is_hexdigit c \<longleftrightarrow> is_digit c \<or> char_between CHR ''a'' CHR ''f'' c
     \<or> char_between CHR ''A'' CHR ''F'' c"

text \<open>ASCII white space as \<open>str.isspace\<close> and \<open>\s\<close> see it.\<close>

definition is_space :: "char \<Rightarrow> bool" where
  "is_space c \<longleftrightarrow> c = CHR '' '' \<or> char_between (CHR 0x09) (CHR 0x0D) c
     \<or> char_between (CHR 0x1C) (CHR 0x1F) c"

definition lower_char :: "char \<Rightarrow> char" where
  "lower_char c = (if is_upper c then char_of ((of_char c :: nat) + 32) else c)"

definition upper_char :: "char \<Rightarrow> char" where
  "upper_char c = (if is_lower c then char_of ((of_char c :: nat) - 32) else c)"

lemmas char_class_defs [py_evals] = char_between_def is_digit_def is_upper_def is_lower_def
  is_alpha_def is_alnum_def is_hexdigit_def is_space_def lower_char_def upper_char_def

definition lower :: "string \<Rightarrow> string" where "lower s = map lower_char s"
definition upper :: "string \<Rightarrow> string" where "upper s = map upper_char s"

lemma digit_not_special [simp]:
  "is_digit c \<Longrightarrow> c \<noteq> newline" "is_digit c \<Longrightarrow> c \<noteq> carriage" "is_digit c \<Longrightarrow> c \<noteq> dquote"
  by (auto simp: char_class_defs char_defs)

lemma hexdigit_not_special [simp]:
  "is_hexdigit c \<Longrightarrow> c \<noteq> newline" "is_hexdigit c \<Longrightarrow> c \<noteq> carriage" "is_hexdigit c \<Longrightarrow> c \<noteq> dquote"
  by (auto simp: char_class_defs char_defs)

lemma alnum_not_special [simp]:
  "is_alnum c \<Longrightarrow> c \<noteq> newline" "is_alnum c \<Longrightarrow> c \<noteq> carriage" "is_alnum c \<Longrightarrow> c \<noteq> dquote"
  by (auto simp: char_class_defs char_defs)

lemma newline_is_space [simp]: "is_space newline"
  by (simp add: char_class_defs char_defs)

section \<open>String methods\<close>

text \<open>\<open>str.startswith\<close>, \<open>str.endswith\<close> and the \<open>in\<close> operator.\<close>

definition startswith :: "string \<Rightarrow> string \<Rightarrow> bool" where
  "startswith s p = (take (length p) s = p)"

definition endswith :: "string \<Rightarrow> string \<Rightarrow> bool" where
  "endswith s p = startswith (rev s) (rev p)"

fun contains :: "string \<Rightarrow> string \<Rightarrow> bool" where
  "contains p [] = (p = [])"
| "contains p (x # xs) = (startswith (x # xs) p \<or> contains p xs)"

lemma startswith_iff: "startswith s p \<longleftrightarrow> (\<exists>r. s = p @ r)"
proof
  assume "startswith s p"
  then have "s = p @ drop (length p) s"
    by (metis append_take_drop_id startswith_def)
  then show "\<exists>r. s = p @ r" by blast
qed (auto simp: startswith_def)

lemma startswith_code [code]:
  "startswith s [] = True"
  "startswith [] (c # p) = False"
  "startswith (x # s) (c # p) = (x = c \<and> startswith s p)"
  by (auto simp: startswith_def)

lemma startswith_append [simp]: "startswith (p @ r) p"
  by (auto simp: startswith_iff)

lemma contains_iff: "contains p s \<longleftrightarrow> (\<exists>a b. s = a @ p @ b)"
proof (induction s)
  case Nil
  then show ?case by auto
next
  case (Cons x xs)
  have "(\<exists>a b. x # xs = a @ p @ b) \<longleftrightarrow> startswith (x # xs) p \<or> (\<exists>a b. xs = a @ p @ b)"
    unfolding startswith_iff
    by (metis append_Cons append_Nil neq_Nil_conv list.inject)
  with Cons show ?case by auto
qed

lemma contains_set: "contains p s \<Longrightarrow> set p \<subseteq> set s"
  by (auto simp: contains_iff)

lemma contains_singleton: "contains [c] s \<longleftrightarrow> c \<in> set s"
  by (induction s) (auto simp: startswith_def)

text \<open>\<open>str.split(c)\<close> for a one-character separator, and \<open>sep.join(parts)\<close>.\<close>

fun split_on :: "char \<Rightarrow> string \<Rightarrow> string list" where
  "split_on c [] = [[]]"
| "split_on c (x # xs) =
     (if x = c then [] # split_on c xs
      else (case split_on c xs of [] \<Rightarrow> [[x]] | w # ws \<Rightarrow> (x # w) # ws))"

fun join :: "string \<Rightarrow> string list \<Rightarrow> string" where
  "join sep [] = []"
| "join sep [x] = x"
| "join sep (x # y # r) = x @ sep @ join sep (y # r)"

lemma split_on_not_Nil [simp]: "split_on c s \<noteq> []"
  by (cases s) (auto split: list.splits)

lemma split_on_no_sep: "w \<in> set (split_on c s) \<Longrightarrow> c \<notin> set w"
proof (induction s arbitrary: w)
  case (Cons x xs)
  then show ?case
    by (cases "split_on c xs") (auto split: if_splits)
qed simp

lemma split_on_chars: "w \<in> set (split_on c s) \<Longrightarrow> set w \<subseteq> set s"
proof (induction s arbitrary: w)
  case (Cons x xs)
  then show ?case
    by (cases "split_on c xs") (fastforce split: if_splits)+
qed simp

lemma split_on_none [simp]: "c \<notin> set s \<Longrightarrow> split_on c s = [s]"
  by (induction s) auto

lemma split_on_append: "c \<notin> set a \<Longrightarrow> split_on c (a @ c # b) = a # split_on c b"
  by (induction a) auto

lemma join_Cons: "r \<noteq> [] \<Longrightarrow> join sep (x # r) = x @ sep @ join sep r"
  by (cases r) auto

lemma join_split_on: "join [c] (split_on c s) = s"
proof (induction s)
  case (Cons x xs)
  then show ?case
    by (cases "split_on c xs" rule: list.exhaust; cases "tl (split_on c xs)") (auto simp: join_Cons)
qed simp

lemma split_on_join:
  assumes "ws \<noteq> []" "\<forall>w\<in>set ws. c \<notin> set w"
  shows "split_on c (join [c] ws) = ws"
  using assms by (induction "[c]" ws rule: join.induct) (auto simp: split_on_append)

lemma join_append:
  "xs \<noteq> [] \<Longrightarrow> ys \<noteq> [] \<Longrightarrow> join sep (xs @ ys) = join sep xs @ sep @ join sep ys"
  by (induction sep xs rule: join.induct) (auto simp: join_Cons)

lemma set_join_subset: "set (join sep ws) \<subseteq> set sep \<union> \<Union> (set ` set ws)"
  by (induction sep ws rule: join.induct) auto

text \<open>\<open>str.strip\<close>, \<open>lstrip\<close> and \<open>rstrip\<close>.\<close>

definition lstrip :: "string \<Rightarrow> string" where "lstrip s = dropWhile is_space s"
definition rstrip :: "string \<Rightarrow> string" where "rstrip s = rev (dropWhile is_space (rev s))"
definition strip :: "string \<Rightarrow> string" where "strip s = rstrip (lstrip s)"
definition rstrip_char :: "char \<Rightarrow> string \<Rightarrow> string" where
  "rstrip_char c s = rev (dropWhile ((=) c) (rev s))"

lemma set_strip: "set (strip s) \<subseteq> set s"
  unfolding strip_def rstrip_def lstrip_def by (metis set_dropWhileD set_rev subsetI)

lemma rstrip_char_id: "s = [] \<or> last s \<noteq> c \<Longrightarrow> rstrip_char c s = s"
  by (cases s rule: rev_cases) (auto simp: rstrip_char_def)

text \<open>\<open>str.partition(c)\<close> and \<open>str.rpartition(c)\<close> without the separator itself.\<close>

fun partition_at :: "char \<Rightarrow> string \<Rightarrow> string \<times> string" where
  "partition_at c [] = ([], [])"
| "partition_at c (x # xs) =
     (if x = c then ([], xs) else (let (a, b) = partition_at c xs in (x # a, b)))"

definition rpartition_at :: "char \<Rightarrow> string \<Rightarrow> string \<times> string" where
  "rpartition_at c s = (let (b, a) = partition_at c (rev s) in
     if c \<in> set s then (rev a, rev b) else ([], s))"

lemma partition_at_found: "c \<in> set s \<Longrightarrow> s = fst (partition_at c s) @ c # snd (partition_at c s)"
  by (induction s) (auto split: prod.splits)

lemma partition_at_fst: "c \<notin> set (fst (partition_at c s))"
  by (induction s) (auto split: prod.splits)

text \<open>\<open>str.replace(a, b)\<close> for a one-character \<open>a\<close>.\<close>

definition replace_char :: "char \<Rightarrow> string \<Rightarrow> string \<Rightarrow> string" where
  "replace_char c r s = concat (map (\<lambda>x. if x = c then r else [x]) s)"

text \<open>\<open>str.splitlines\<close> for line-feed separated text.\<close>

definition splitlines :: "string \<Rightarrow> string list" where
  "splitlines s = (let ls = split_on newline s in if last ls = [] then butlast ls else ls)"

section \<open>Numbers as text\<close>

definition digit_val :: "char \<Rightarrow> nat" where
  "digit_val c = (of_char c :: nat) - 48"

fun digits_val :: "nat \<Rightarrow> string \<Rightarrow> nat" where
  "digits_val acc [] = acc"
| "digits_val acc (c # cs) = digits_val (acc * 10 + digit_val c) cs"

definition digit_char :: "nat \<Rightarrow> char" where
  "digit_char d = char_of (48 + d)"

fun string_of_nat :: "nat \<Rightarrow> string" where
  "string_of_nat n =
     (if n < 10 then [digit_char n] else string_of_nat (n div 10) @ [digit_char (n mod 10)])"

declare string_of_nat.simps [simp del]
lemmas number_text_defs [py_evals] = digit_val_def digit_char_def

definition string_of_int :: "int \<Rightarrow> string" where
  "string_of_int i = (if i < 0 then ''-'' @ string_of_nat (nat (- i)) else string_of_nat (nat i))"

lemma digits_val_append: "digits_val acc (xs @ ys) = digits_val (digits_val acc xs) ys"
  by (induction xs arbitrary: acc) auto

lemma of_char_digit_char [simp]: "d < 10 \<Longrightarrow> (of_char (digit_char d) :: nat) = 48 + d"
  by (simp add: digit_char_def)

lemma digit_val_char [simp]: "d < 10 \<Longrightarrow> digit_val (digit_char d) = d"
  by (simp add: digit_val_def)

lemma is_digit_char [simp]: "d < 10 \<Longrightarrow> is_digit (digit_char d)"
  by (simp add: is_digit_def char_between_def)

lemma string_of_nat_digits: "c \<in> set (string_of_nat n) \<Longrightarrow> is_digit c"
proof (induction n rule: string_of_nat.induct)
  case (1 n)
  then show ?case
    by (subst (asm) string_of_nat.simps) (auto split: if_splits)
qed

lemma string_of_nat_not_Nil [simp]: "string_of_nat n \<noteq> []"
  by (subst string_of_nat.simps) simp

lemma digits_val_string_of_nat [simp]: "digits_val 0 (string_of_nat n) = n"
proof (induction n rule: string_of_nat.induct)
  case (1 n)
  show ?case
  proof (cases "n < 10")
    case True
    then show ?thesis by (subst string_of_nat.simps) simp
  next
    case False
    with 1 show ?thesis by (subst string_of_nat.simps) (simp add: digits_val_append)
  qed
qed

lemma string_of_nat_inj: "string_of_nat m = string_of_nat n \<longleftrightarrow> m = n"
  by (metis digits_val_string_of_nat)

lemma string_of_nat_no_newline [simp]: "newline \<notin> set (string_of_nat n)"
  by (metis digit_not_special(1) string_of_nat_digits)

lemma string_of_int_no_newline [simp]: "newline \<notin> set (string_of_int i)"
  by (auto simp: string_of_int_def) (simp add: char_defs)

text \<open>
  \<open>int(text)\<close> in base ten: surrounding white space, one sign, decimal digits with single
  underscores between them; anything else is \<open>ValueError\<close> (here \<open>None\<close>).
\<close>

fun int_body :: "bool \<Rightarrow> nat \<Rightarrow> string \<Rightarrow> nat option" where
  "int_body after_digit acc [] = (if after_digit then Some acc else None)"
| "int_body after_digit acc (c # cs) =
     (if is_digit c then int_body True (acc * 10 + digit_val c) cs
      else if c = CHR ''_'' \<and> after_digit then int_body False acc cs else None)"

definition py_int :: "string \<Rightarrow> int option" where
  "py_int text = (case strip text of
       [] \<Rightarrow> None
     | c # cs \<Rightarrow>
         (if c = CHR ''-'' then map_option (\<lambda>n. - int n) (int_body False 0 cs)
          else if c = CHR ''+'' then map_option int (int_body False 0 cs)
          else map_option int (int_body False 0 (c # cs))))"

lemma int_body_digits: "\<forall>c\<in>set s. is_digit c \<Longrightarrow> s \<noteq> [] \<or> b \<Longrightarrow> int_body b acc s = Some (digits_val acc s)"
  by (induction s arbitrary: b acc) auto

lemma dropWhile_digits: "\<forall>c\<in>set s. is_digit c \<Longrightarrow> dropWhile is_space s = s"
  by (cases s) (auto simp: char_class_defs)

lemma strip_digits: "\<forall>c\<in>set s. is_digit c \<Longrightarrow> strip s = s"
  by (simp add: strip_def lstrip_def rstrip_def dropWhile_digits)

lemma py_int_string_of_nat [simp]: "py_int (string_of_nat n) = Some (int n)"
proof -
  have d: "\<forall>c\<in>set (string_of_nat n). is_digit c" using string_of_nat_digits by blast
  obtain c cs where s: "string_of_nat n = c # cs" by (cases "string_of_nat n") auto
  have "c \<noteq> CHR ''-''" "c \<noteq> CHR ''+''" using d s by (auto simp: char_class_defs)
  moreover have "int_body False 0 (c # cs) = Some n"
    using int_body_digits[of "c # cs" False 0] d digits_val_string_of_nat[of n]
    unfolding s by simp
  ultimately show ?thesis
    using strip_digits[OF d] unfolding py_int_def s by simp
qed

section \<open>Recognisers\<close>

text \<open>Pieces of regular expressions: each consumes a prefix and returns the rest of the text.\<close>

definition eat_digits :: "string \<Rightarrow> string option" where
  "eat_digits s = (if s \<noteq> [] \<and> is_digit (hd s) then Some (dropWhile is_digit s) else None)"

definition eat_spaces1 :: "string \<Rightarrow> string option" where
  "eat_spaces1 s = (if s \<noteq> [] \<and> is_space (hd s) then Some (dropWhile is_space s) else None)"

definition eat_word :: "string \<Rightarrow> string \<Rightarrow> string option" where
  "eat_word w s = (if startswith s w then Some (drop (length w) s) else None)"

definition word_char :: "char \<Rightarrow> bool" where
  "word_char c \<longleftrightarrow> is_alnum c \<or> c = CHR ''_''"

section \<open>Lists and dictionaries\<close>

text \<open>
  A \<open>dict\<close> whose insertion order matters is an association list: \<open>d[k] = v\<close> keeps the
  place of an existing key and appends a new one.
\<close>

fun dict_put :: "'k \<Rightarrow> 'v \<Rightarrow> ('k \<times> 'v) list \<Rightarrow> ('k \<times> 'v) list" where
  "dict_put k v [] = [(k, v)]"
| "dict_put k v ((k', v') # r) = (if k' = k then (k, v) # r else (k', v') # dict_put k v r)"

definition dict_del :: "'k \<Rightarrow> ('k \<times> 'v) list \<Rightarrow> ('k \<times> 'v) list" where
  "dict_del k d = filter (\<lambda>p. fst p \<noteq> k) d"

definition dict_of :: "('a \<Rightarrow> 'k) \<Rightarrow> 'a list \<Rightarrow> ('k \<times> 'a) list" where
  "dict_of key xs = fold (\<lambda>x d. dict_put (key x) x d) xs []"

lemma map_of_dict_put: "map_of (dict_put k v d) = (map_of d)(k \<mapsto> v)"
  by (induction d) auto

lemma keys_dict_put: "fst ` set (dict_put k v d) = insert k (fst ` set d)"
  by (induction k v d rule: dict_put.induct) (auto split: if_splits)

lemma distinct_dict_put: "distinct (map fst d) \<Longrightarrow> distinct (map fst (dict_put k v d))"
  by (induction k v d rule: dict_put.induct) (auto simp: keys_dict_put)

lemma fold_dict_put:
  "distinct (map fst d) \<Longrightarrow> distinct (map fst (fold (\<lambda>x d. dict_put (key x) x d) xs d))"
  by (induction xs arbitrary: d) (auto simp: distinct_dict_put)

lemma distinct_dict_of: "distinct (map fst (dict_of key xs))"
  by (simp add: dict_of_def fold_dict_put)

lemma dict_put_values: "snd ` set (dict_put k v d) \<subseteq> insert v (snd ` set d)"
  by (induction k v d rule: dict_put.induct) auto

lemma dict_put_keyed:
  "\<forall>p\<in>set d. fst p = key (snd p) \<Longrightarrow> \<forall>p\<in>set (dict_put (key x) x d). fst p = key (snd p)"
  by (induction "key x" x d rule: dict_put.induct) auto

lemma fold_dict_keyed:
  "\<forall>p\<in>set d. fst p = key (snd p) \<Longrightarrow>
   \<forall>p\<in>set (fold (\<lambda>x d. dict_put (key x) x d) xs d). fst p = key (snd p)"
proof (induction xs arbitrary: d)
  case (Cons x xs)
  show ?case using Cons.IH[OF dict_put_keyed[OF Cons.prems]] by simp
qed simp

lemma fold_dict_values:
  "snd ` set (fold (\<lambda>x d. dict_put (key x) x d) xs d) \<subseteq> set xs \<union> snd ` set d"
proof (induction xs arbitrary: d)
  case (Cons x xs)
  show ?case using Cons.IH[of "dict_put (key x) x d"] dict_put_values[of "key x" x d]
    unfolding fold_Cons comp_apply list.set by blast
qed simp

lemma fold_dict_keys:
  "fst ` set (fold (\<lambda>x d. dict_put (key x) x d) xs d) = key ` set xs \<union> fst ` set d"
proof (induction xs arbitrary: d)
  case (Cons x xs)
  show ?case using Cons.IH[of "dict_put (key x) x d"]
    unfolding fold_Cons comp_apply list.set keys_dict_put by simp
qed simp

lemma dict_of_keyed: "p \<in> set (dict_of key xs) \<Longrightarrow> fst p = key (snd p)"
  using fold_dict_keyed[of "[]" key xs] by (auto simp: dict_of_def)

lemma dict_of_values: "snd ` set (dict_of key xs) \<subseteq> set xs"
  using fold_dict_values[of key xs "[]"] by (auto simp: dict_of_def)

lemma dict_of_keys: "key ` snd ` set (dict_of key xs) = key ` set xs"
proof -
  have "fst ` set (dict_of key xs) = key ` set xs"
    using fold_dict_keys[of key xs "[]"] by (simp add: dict_of_def)
  moreover have "fst ` set (dict_of key xs) = key ` snd ` set (dict_of key xs)"
    unfolding image_image by (rule image_cong) (auto dest: dict_of_keyed)
  ultimately show ?thesis by simp
qed

lemma find_SomeE: "List.find P xs = Some x \<Longrightarrow> x \<in> set xs \<and> P x"
  by (induction xs) (auto split: if_splits)

lemma find_None: "List.find P xs = None \<longleftrightarrow> (\<forall>x\<in>set xs. \<not> P x)"
  by (induction xs) auto

text \<open>\<open>list.sort(key=...)\<close> is stable, and filtering commutes with it.\<close>

lemma sort_key_filter:
  "filter (\<lambda>x. f k = f x) (sort_key f xs) = filter (\<lambda>x. f k = f x) xs"
  using sort_key_stable[of f "f k" xs] by (simp add: eq_commute[of "f k"])

lemma sort_key_snoc: "sort_key f (sort_key f xs @ ys) = sort_key f (xs @ ys)"
  by (rule properties_for_sort_key) (simp_all add: sort_key_filter)

lemma sort_key_idem [simp]: "sort_key f (sort_key f xs) = sort_key f xs"
  using sort_key_snoc[of f xs "[]"] by simp

lemma filter_sort_key: "filter P (sort_key f xs) = sort_key f (filter P xs)"
proof (rule properties_for_sort_key[symmetric])
  show "filter (\<lambda>x. f k = f x) (filter P (sort_key f xs)) = filter (\<lambda>x. f k = f x) (filter P xs)" for k
  proof -
    have "filter (\<lambda>x. f k = f x) (filter P (sort_key f xs)) = filter P (filter (\<lambda>x. f k = f x) (sort_key f xs))"
      by (simp add: conj_commute)
    also have "\<dots> = filter (\<lambda>x. f k = f x) (filter P xs)" by (simp only: sort_key_filter) (simp add: conj_commute)
    finally show ?thesis .
  qed
qed (simp_all add: sorted_filter)

lemma find_skip: "\<not> P x \<Longrightarrow> List.find P (a @ x # b) = List.find P (a @ b)"
  by (induction a) auto

text \<open>\<open>xs[:-k]\<close> for a positive \<open>k\<close>: everything but the last \<open>k\<close> elements.\<close>

definition but_last_n :: "nat \<Rightarrow> 'a list \<Rightarrow> 'a list" where
  "but_last_n k xs = take (length xs - k) xs"

lemma but_last_n_rest: "but_last_n k xs @ drop (length xs - k) xs = xs"
  by (simp add: but_last_n_def)

text \<open>Truth value of an optional string or number: \<open>None\<close>, the empty string and 0 are false.\<close>

definition truthy_str :: "string option \<Rightarrow> bool" where
  "truthy_str s = (case s of None \<Rightarrow> False | Some t \<Rightarrow> t \<noteq> [])"

definition truthy_int :: "int option \<Rightarrow> bool" where
  "truthy_int i = (case i of None \<Rightarrow> False | Some n \<Rightarrow> n \<noteq> 0)"

definition or_empty :: "string option \<Rightarrow> string" where
  "or_empty s = (case s of None \<Rightarrow> [] | Some t \<Rightarrow> t)"

lemma truthy_str_simps [simp]: "\<not> truthy_str None" "truthy_str (Some t) \<longleftrightarrow> t \<noteq> []"
  by (simp_all add: truthy_str_def)

lemma truthy_int_simps [simp]: "\<not> truthy_int None" "truthy_int (Some n) \<longleftrightarrow> n \<noteq> 0"
  by (simp_all add: truthy_int_def)

lemma or_empty_simps [simp]: "or_empty None = []" "or_empty (Some t) = t"
  by (simp_all add: or_empty_def)

section \<open>Line counting\<close>

definition newlines :: "string \<Rightarrow> nat" where
  "newlines s = count_list s newline"

lemma newlines_append [line_simps]: "newlines (a @ b) = newlines a + newlines b"
  by (simp add: newlines_def)

lemma newlines_Nil [line_simps]: "newlines [] = 0"
  by (simp add: newlines_def)

lemma newlines_Cons [line_simps]:
  "newlines (c # s) = (if c = newline then Suc (newlines s) else newlines s)"
  by (simp add: newlines_def)

lemma newlines_0_iff: "newlines s = 0 \<longleftrightarrow> newline \<notin> set s"
  by (simp add: newlines_def count_list_0_iff)

lemma newlines_join_nl:
  "ls \<noteq> [] \<Longrightarrow> newlines (join nl ls) = length ls - 1 + sum_list (map newlines ls)"
  by (induction nl ls rule: join.induct) (auto simp: line_simps)

lemma splitlines_render:
  assumes "ls \<noteq> []" "\<forall>l\<in>set ls. newline \<notin> set l"
  shows "splitlines (join nl ls @ nl) = ls"
proof -
  have "join nl ls @ nl = join nl (ls @ [[]])" using assms(1) by (simp add: join_append)
  moreover have "split_on newline (join nl (ls @ [[]])) = ls @ [[]]"
    using assms by (intro split_on_join) auto
  ultimately show ?thesis by (simp add: splitlines_def)
qed

section \<open>Interface: validated text\<close>

text \<open>
  Several components let a string into generated configuration only after a validator
  accepted it. The contract of such a validator is that an accepted string carries no line
  break; a client that splices accepted strings into a line then still emits one line.
\<close>

locale line_validator =
  fixes ok :: "string \<Rightarrow> bool"
  assumes ok_no_newline: "ok s \<Longrightarrow> newline \<notin> set s"
begin

lemma spliced_single_line:
  assumes "ok s" "newline \<notin> set pre" "newline \<notin> set post"
  shows "newline \<notin> set (pre @ s @ post)"
  using assms ok_no_newline by auto

lemma spliced_newlines: "ok s \<Longrightarrow> newlines (pre @ s @ post) = newlines pre + newlines post"
  using ok_no_newline[of s] by (simp add: newlines_append flip: newlines_0_iff)

lemma filtered_lines:
  "\<forall>l\<in>set (map (\<lambda>s. pre @ s) (filter ok xs)). newline \<notin> set pre \<longrightarrow> newline \<notin> set l"
  using ok_no_newline by auto

end

end
