(* ===== verification/Py_Ipaddress.thy ===== *)
theory Py_Ipaddress
  imports Py_Base "HOL-Library.Word"
begin

text \<open>
  The parts of Python's \<open>ipaddress\<close> module the agents rely on: parsing and printing of
  addresses (IPv4 dotted quads, IPv6 with \<open>::\<close> compression, an embedded IPv4 tail and a scope
  id), networks in strict and non-strict mode, interfaces, and membership. Addresses are
  machine words (\<open>32 word\<close>, \<open>128 word\<close>); a \<open>ValueError\<close> is \<open>None\<close>.
\<close>

unbundle bit_operations_syntax

datatype ip_addr = IPv4 "32 word" | IPv6 "128 word" "string option"
datatype ip_net = Net4 "32 word" nat | Net6 "128 word" "string option" nat

fun is_v6_net :: "ip_net \<Rightarrow> bool" where
  "is_v6_net (Net4 a p) = False"
| "is_v6_net (Net6 a s p) = True"

fun is_v6_addr :: "ip_addr \<Rightarrow> bool" where
  "is_v6_addr (IPv4 a) = False"
| "is_v6_addr (IPv6 a s) = True"

section \<open>Parsing addresses\<close>

definition all_digits :: "string \<Rightarrow> bool" where
  "all_digits s \<longleftrightarrow> s \<noteq> [] \<and> list_all is_digit s"

definition octet_of_string :: "string \<Rightarrow> nat option" where
  "octet_of_string s =
     (if all_digits s \<and> length s \<le> 3 \<and> (length s = 1 \<or> hd s \<noteq> CHR ''0'') \<and> digits_val 0 s \<le> 255
      then Some (digits_val 0 s) else None)"

definition ip4_of_string :: "string \<Rightarrow> 32 word option" where
  "ip4_of_string s =
     (case map octet_of_string (split_on CHR ''.'' s) of
        [Some a, Some b, Some c, Some d] \<Rightarrow> Some (word_of_nat (((a * 256 + b) * 256 + c) * 256 + d))
      | _ \<Rightarrow> None)"

definition hex_val :: "char \<Rightarrow> nat" where
  "hex_val c = (if is_digit c then digit_val c
                else if is_lower c then (of_char c :: nat) - 87 else (of_char c :: nat) - 55)"

definition hextet_of_string :: "string \<Rightarrow> nat option" where
  "hextet_of_string s =
     (if s \<noteq> [] \<and> length s \<le> 4 \<and> list_all is_hexdigit s
      then Some (foldl (\<lambda>a c. a * 16 + hex_val c) 0 s) else None)"

definition hex_char :: "nat \<Rightarrow> char" where
  "hex_char d = (if d < 10 then char_of (48 + d) else char_of (87 + d))"

fun hex_of_nat :: "nat \<Rightarrow> string" where
  "hex_of_nat n = (if n < 16 then [hex_char n] else hex_of_nat (n div 16) @ [hex_char (n mod 16)])"

declare hex_of_nat.simps [simp del]

text \<open>The values of a list of hextets, most significant first; \<open>None\<close> when one is malformed.\<close>

fun hextets_val :: "nat \<Rightarrow> string list \<Rightarrow> nat option" where
  "hextets_val acc [] = Some acc"
| "hextets_val acc (h # hs) =
     (case hextet_of_string h of None \<Rightarrow> None | Some v \<Rightarrow> hextets_val (acc * 65536 + v) hs)"

text \<open>Positions, from 1, of the empty strings strictly inside the list of parts.\<close>

definition inner_empties :: "string list \<Rightarrow> nat list" where
  "inner_empties parts = filter (\<lambda>i. parts ! i = []) [1..<length parts - 1]"

text \<open>\<open>_ip_int_from_string\<close> after the embedded IPv4 tail was rewritten to two hextets.\<close>

text \<open>The first \<open>hi\<close> and the last \<open>lo\<close> parts around the run of zeros that \<open>::\<close> stands for.\<close>

definition ip6_fill :: "nat \<Rightarrow> nat \<Rightarrow> string list \<Rightarrow> 128 word option" where
  "ip6_fill hi lo parts =
     (case hextets_val 0 (take hi parts) of
        None \<Rightarrow> None
      | Some v \<Rightarrow> map_option word_of_nat
          (hextets_val (v * 65536 ^ (8 - (hi + lo))) (drop (length parts - lo) parts)))"

definition ip6_of_parts :: "string list \<Rightarrow> 128 word option" where
  "ip6_of_parts parts =
     (let n = length parts in
      if n < 3 \<or> n > 9 then None
      else case inner_empties parts of
        [] \<Rightarrow> (if n \<noteq> 8 then None else map_option word_of_nat (hextets_val 0 parts))
      | [k] \<Rightarrow>
          (let hi = (if hd parts = [] then k - 1 else k);
               lo = (if last parts = [] then n - k - 2 else n - k - 1) in
           if hd parts = [] \<and> hi \<noteq> 0 \<or> last parts = [] \<and> lo \<noteq> 0 \<or> hi + lo \<ge> 8 then None
           else ip6_fill hi lo parts)
      | _ \<Rightarrow> None)"

definition ip6_value :: "string \<Rightarrow> 128 word option" where
  "ip6_value s =
     (let parts = split_on CHR '':'' s in
      if length parts < 3 then None
      else if CHR ''.'' \<in> set (last parts) then
        (case ip4_of_string (last parts) of
           None \<Rightarrow> None
         | Some v \<Rightarrow> ip6_of_parts
             (butlast parts @ [hex_of_nat (unat v div 65536), hex_of_nat (unat v mod 65536)]))
      else ip6_of_parts parts)"

text \<open>An address may carry a non-empty scope id after \<open>%\<close>; it is any text without \<open>%\<close> and \<open>/\<close>.\<close>

definition ip6_of_string :: "string \<Rightarrow> (128 word \<times> string option) option" where
  "ip6_of_string s =
     (if CHR ''/'' \<in> set s then None
      else if CHR ''%'' \<in> set s then
        (let (a, scope) = partition_at CHR ''%'' s in
         if scope = [] \<or> CHR ''%'' \<in> set scope then None
         else map_option (\<lambda>v. (v, Some scope)) (ip6_value a))
      else map_option (\<lambda>v. (v, None)) (ip6_value s))"

text \<open>\<open>ipaddress.ip_address\<close>: IPv4 first, then IPv6.\<close>

definition ip_address :: "string \<Rightarrow> ip_addr option" where
  "ip_address s =
     (case ip4_of_string s of
        Some v \<Rightarrow> Some (IPv4 v)
      | None \<Rightarrow> map_option (\<lambda>(v, sc). IPv6 v sc) (ip6_of_string s))"

section \<open>Networks\<close>

definition netmask4 :: "nat \<Rightarrow> 32 word" where "netmask4 p = NOT (mask (32 - p))"
definition netmask6 :: "nat \<Rightarrow> 128 word" where "netmask6 p = NOT (mask (128 - p))"

text \<open>\<open>_make_netmask\<close>: a prefix length, or for IPv4 also a netmask or a hostmask.\<close>

definition prefix_of_digits :: "nat \<Rightarrow> string \<Rightarrow> nat option" where
  "prefix_of_digits limit s =
     (if all_digits s \<and> digits_val 0 s \<le> limit then Some (digits_val 0 s) else None)"

definition prefix_of_mask :: "32 word \<Rightarrow> nat option" where
  "prefix_of_mask m = List.find (\<lambda>p. netmask4 p = m) [0..<33]"

definition prefix4_of_string :: "string \<Rightarrow> nat option" where
  "prefix4_of_string s =
     (case prefix_of_digits 32 s of
        Some p \<Rightarrow> Some p
      | None \<Rightarrow> (case ip4_of_string s of
          None \<Rightarrow> None
        | Some m \<Rightarrow> (case prefix_of_mask m of
            Some p \<Rightarrow> Some p
          | None \<Rightarrow> prefix_of_mask (NOT m))))"

text \<open>The address and the optional mask around at most one \<open>/\<close>.\<close>

definition split_mask :: "string \<Rightarrow> (string \<times> string option) option" where
  "split_mask s = (case split_on CHR ''/'' s of
       [a] \<Rightarrow> Some (a, None) | [a, m] \<Rightarrow> Some (a, Some m) | _ \<Rightarrow> None)"

definition addr_prefix4 :: "string \<Rightarrow> (32 word \<times> nat) option" where
  "addr_prefix4 s = (case split_mask s of
       None \<Rightarrow> None
     | Some (a, m) \<Rightarrow>
         (case (ip4_of_string a, case m of None \<Rightarrow> Some 32 | Some t \<Rightarrow> prefix4_of_string t) of
            (Some v, Some p) \<Rightarrow> Some (v, p) | _ \<Rightarrow> None))"

definition addr_prefix6 :: "string \<Rightarrow> (128 word \<times> string option \<times> nat) option" where
  "addr_prefix6 s = (case split_mask s of
       None \<Rightarrow> None
     | Some (a, m) \<Rightarrow>
         (case (ip6_of_string a, case m of None \<Rightarrow> Some 128 | Some t \<Rightarrow> prefix_of_digits 128 t) of
            (Some (v, sc), Some p) \<Rightarrow> Some (v, sc, p) | _ \<Rightarrow> None))"

text \<open>
  \<open>ipaddress.ip_network(text, strict)\<close>: with host bits set, strict mode is an error and
  non-strict mode masks them (and loses the scope id).
\<close>

definition net4_of :: "bool \<Rightarrow> 32 word \<Rightarrow> nat \<Rightarrow> ip_net option" where
  "net4_of strict v p =
     (if v AND netmask4 p = v then Some (Net4 v p)
      else if strict then None else Some (Net4 (v AND netmask4 p) p))"

definition net6_of :: "bool \<Rightarrow> 128 word \<Rightarrow> string option \<Rightarrow> nat \<Rightarrow> ip_net option" where
  "net6_of strict v sc p =
     (if v AND netmask6 p = v then Some (Net6 v sc p)
      else if strict then None else Some (Net6 (v AND netmask6 p) None p))"

definition ip_network :: "bool \<Rightarrow> string \<Rightarrow> ip_net option" where
  "ip_network strict s =
     (case addr_prefix4 s of
        Some (v, p) \<Rightarrow> net4_of strict v p
      | None \<Rightarrow> (case addr_prefix6 s of
          Some (v, sc, p) \<Rightarrow> net6_of strict v sc p
        | None \<Rightarrow> None))"

text \<open>\<open>ipaddress.ip_interface\<close>: the address and its (non-strict) network.\<close>

definition ip_interface :: "string \<Rightarrow> (ip_addr \<times> nat) option" where
  "ip_interface s =
     (case addr_prefix4 s of
        Some (v, p) \<Rightarrow> Some (IPv4 v, p)
      | None \<Rightarrow> map_option (\<lambda>(v, sc, p). (IPv6 v sc, p)) (addr_prefix6 s))"

fun ip_in :: "ip_addr \<Rightarrow> ip_net \<Rightarrow> bool" where
  "ip_in (IPv4 a) (Net4 n p) = (a AND netmask4 p = n)"
| "ip_in (IPv6 a s) (Net6 n t p) = (a AND netmask6 p = n)"
| "ip_in _ _ = False"

section \<open>Printing\<close>

definition ip4_str :: "32 word \<Rightarrow> string" where
  "ip4_str w = (let n = unat w in
     join ''.'' [string_of_nat (n div 16777216), string_of_nat (n div 65536 mod 256),
                 string_of_nat (n div 256 mod 256), string_of_nat (n mod 256)])"

fun zero_run :: "string list \<Rightarrow> nat" where
  "zero_run [] = 0"
| "zero_run (h # hs) = (if h = ''0'' then Suc (zero_run hs) else 0)"

text \<open>The start of the longest run of zero hextets (the first of equals) and its length.\<close>

fun best_run :: "nat \<Rightarrow> string list \<Rightarrow> nat \<times> nat" where
  "best_run i [] = (i, 0)"
| "best_run i (h # hs) =
     (let (j, m) = best_run (Suc i) hs; k = zero_run (h # hs) in if k \<ge> m then (i, k) else (j, m))"

definition compress_hextets :: "string list \<Rightarrow> string list" where
  "compress_hextets hs =
     (let (i, m) = best_run 0 hs in
      if m > 1 then
        (if i = 0 then [[]] else []) @ take i hs @ [[]] @
        (if i + m = length hs then [[]] else drop (i + m) hs)
      else hs)"

fun hextets_of :: "nat \<Rightarrow> nat \<Rightarrow> string list" where
  "hextets_of 0 n = []"
| "hextets_of (Suc k) n = hextets_of k (n div 65536) @ [hex_of_nat (n mod 65536)]"

definition hextets :: "128 word \<Rightarrow> string list" where
  "hextets w = hextets_of 8 (unat w)"

definition ip6_str :: "128 word \<Rightarrow> string option \<Rightarrow> string" where
  "ip6_str w sc = join '':'' (compress_hextets (hextets w)) @
     (case sc of None \<Rightarrow> [] | Some t \<Rightarrow> ''%'' @ t)"

fun ip_str :: "ip_addr \<Rightarrow> string" where
  "ip_str (IPv4 w) = ip4_str w"
| "ip_str (IPv6 w sc) = ip6_str w sc"

fun net_str :: "ip_net \<Rightarrow> string" where
  "net_str (Net4 w p) = ip4_str w @ ''/'' @ string_of_nat p"
| "net_str (Net6 w sc p) = ip6_str w sc @ ''/'' @ string_of_nat p"

section \<open>Characters of printed addresses\<close>

lemma hex_char_hexdigit: "d < 16 \<Longrightarrow> is_hexdigit (hex_char d)"
  by (auto simp: hex_char_def is_hexdigit_def is_digit_def char_between_def)

lemma hex_of_nat_chars: "c \<in> set (hex_of_nat n) \<Longrightarrow> is_hexdigit c"
proof (induction n rule: hex_of_nat.induct)
  case (1 n)
  then show ?case
    by (subst (asm) hex_of_nat.simps) (auto simp: hex_char_hexdigit split: if_splits)
qed

lemma hex_of_nat_not_Nil [simp]: "hex_of_nat n \<noteq> []"
  by (subst hex_of_nat.simps) simp

text \<open>Printed addresses and networks without a scope id use digits, \<open>a-f\<close>, dots, colons, slashes.\<close>

definition addr_char :: "char \<Rightarrow> bool" where
  "addr_char c \<longleftrightarrow> is_hexdigit c \<or> c \<in> {CHR ''.'', CHR '':'', CHR ''/''}"

lemma addr_char_seps [simp]: "addr_char CHR ''.''" "addr_char CHR '':''" "addr_char CHR ''/''"
  by (simp_all add: addr_char_def)

lemma addr_char_not_special: "addr_char c \<Longrightarrow> c \<notin> {newline, carriage, dquote, CHR '';'', CHR '' '', CHR ''%''}"
  by (auto simp: addr_char_def char_class_defs char_defs)

lemma addr_char_nat: "c \<in> set (string_of_nat n) \<Longrightarrow> addr_char c"
  by (auto simp: addr_char_def is_hexdigit_def dest: string_of_nat_digits)

lemma ip4_str_chars: "c \<in> set (ip4_str w) \<Longrightarrow> addr_char c"
  unfolding ip4_str_def Let_def by (auto simp: addr_char_nat)

lemma hextets_of_chars: "h \<in> set (hextets_of k n) \<Longrightarrow> c \<in> set h \<Longrightarrow> is_hexdigit c"
  by (induction k n rule: hextets_of.induct) (auto dest: hex_of_nat_chars)

lemma compress_hextets_subset: "h \<in> set (compress_hextets hs) \<Longrightarrow> h = [] \<or> h \<in> set hs"
  by (auto simp: compress_hextets_def Let_def split: prod.splits if_splits
      dest: in_set_takeD in_set_dropD)

lemma join_chars: "c \<in> set (join sep ws) \<Longrightarrow> c \<in> set sep \<or> (\<exists>w\<in>set ws. c \<in> set w)"
  using set_join_subset[of sep ws] by auto

lemma ip6_str_chars: "c \<in> set (ip6_str w None) \<Longrightarrow> addr_char c"
  unfolding ip6_str_def hextets_def addr_char_def
  by (auto dest!: join_chars compress_hextets_subset hextets_of_chars)

section \<open>Characters of accepted addresses\<close>

lemma split_on_set: "set s \<subseteq> insert c (\<Union> (set ` set (split_on c s)))"
  using set_join_subset[of "[c]" "split_on c s"] by (simp add: join_split_on)

lemma split_on_charsE:
  assumes "\<And>w d. w \<in> set (split_on c s) \<Longrightarrow> d \<in> set w \<Longrightarrow> P d" "P c" "x \<in> set s"
  shows "P x"
  using assms split_on_set[of s c] by blast

lemma octet_chars: "octet_of_string w \<noteq> None \<Longrightarrow> x \<in> set w \<Longrightarrow> addr_char x"
  by (auto simp: octet_of_string_def all_digits_def list_all_iff addr_char_def is_hexdigit_def
      split: if_splits)

lemma ip4_of_string_parts:
  "ip4_of_string s = Some v \<Longrightarrow> w \<in> set (split_on CHR ''.'' s) \<Longrightarrow> octet_of_string w \<noteq> None"
  by (auto simp: ip4_of_string_def split: list.splits option.splits)

lemma ip4_of_string_chars: "ip4_of_string s = Some v \<Longrightarrow> x \<in> set s \<Longrightarrow> addr_char x"
  by (rule split_on_charsE[of "CHR ''.''" s])
    (use ip4_of_string_parts octet_chars in fastforce)+

lemma hextets_val_chars:
  "hextets_val a hs = Some v \<Longrightarrow> h \<in> set hs \<Longrightarrow> x \<in> set h \<Longrightarrow> addr_char x"
  by (induction a hs rule: hextets_val.induct)
    (auto simp: hextet_of_string_def list_all_iff addr_char_def split: option.splits if_splits)

lemma inner_empties_single: "inner_empties parts = [k] \<Longrightarrow> parts ! k = [] \<and> 1 \<le> k \<and> k < length parts - 1"
proof -
  assume "inner_empties parts = [k]"
  then have "k \<in> set (inner_empties parts)" by simp
  then show ?thesis unfolding inner_empties_def by auto
qed

lemma ip6_of_parts_chars:
  assumes "ip6_of_parts parts = Some v" "h \<in> set parts" "x \<in> set h"
  shows "addr_char x"
proof -
  let ?n = "length parts"
  from assms(1) consider (full) w where "hextets_val 0 parts = Some w"
    | (skip) k where "inner_empties parts = [k]"
    by (auto simp: ip6_of_parts_def Let_def split: if_splits list.splits)
  then show ?thesis
  proof cases
    case full
    then show ?thesis using assms hextets_val_chars by blast
  next
    case skip
    define hi where "hi = (if hd parts = [] then k - 1 else k)"
    define lo where "lo = (if last parts = [] then ?n - k - 2 else ?n - k - 1)"
    from assms(1) skip have fill: "ip6_fill hi lo parts = Some v"
      and e: "hd parts = [] \<longrightarrow> hi = 0" "last parts = [] \<longrightarrow> lo = 0"
      by (auto simp: ip6_of_parts_def Let_def hi_def lo_def split: if_splits)
    then obtain a b where hl: "hextets_val 0 (take hi parts) = Some a"
      "hextets_val (a * 65536 ^ (8 - (hi + lo))) (drop (?n - lo) parts) = Some b"
      by (auto simp: ip6_fill_def split: option.splits)
    note k = inner_empties_single[OF skip]
    obtain i where i: "i < ?n" "parts ! i = h" using assms(2) by (auto simp: in_set_conv_nth)
    have "h \<noteq> []" using assms(3) by auto
    have "i \<noteq> k" using i k \<open>h \<noteq> []\<close> by auto
    show ?thesis
    proof (cases "i < k")
      case True
      moreover have "hd parts = [] \<Longrightarrow> i \<noteq> 0"
        using i \<open>h \<noteq> []\<close> by (metis hd_conv_nth list.size(3) not_less_zero)
      ultimately have "i < hi" using e(1) by (auto simp: hi_def split: if_splits)
      then have "h \<in> set (take hi parts)" using i by (auto simp: in_set_conv_nth)
      then show ?thesis using hl(1) assms(3) hextets_val_chars by blast
    next
      case False
      moreover have "last parts = [] \<Longrightarrow> i \<noteq> ?n - 1"
        using i \<open>h \<noteq> []\<close> by (metis last_conv_nth list.size(3) not_less_zero)
      ultimately have "?n - lo \<le> i"
        using i(1) k e(2) \<open>i \<noteq> k\<close> by (auto simp: lo_def split: if_splits)
      then have "h \<in> set (drop (?n - lo) parts)" using i
        by (auto simp: in_set_conv_nth intro!: exI[of _ "i - (?n - lo)"])
      then show ?thesis using hl(2) assms(3) hextets_val_chars by blast
    qed
  qed
qed

lemma ip6_value_chars: "ip6_value s = Some v \<Longrightarrow> x \<in> set s \<Longrightarrow> addr_char x"
proof (rule split_on_charsE[of "CHR '':''" s])
  fix w d
  assume v: "ip6_value s = Some v" and w: "w \<in> set (split_on CHR '':'' s)" "d \<in> set w"
  show "addr_char d"
  proof (cases "CHR ''.'' \<in> set (last (split_on CHR '':'' s)) \<and> w = last (split_on CHR '':'' s)")
    case True
    then obtain u where "ip4_of_string w = Some u"
      using v by (auto simp: ip6_value_def Let_def split: if_splits option.splits)
    then show ?thesis using w(2) ip4_of_string_chars by blast
  next
    case False
    let ?ps = "split_on CHR '':'' s"
    have w': "w \<in> set (butlast ?ps) \<or> w = last ?ps"
      using w(1) by (metis append_butlast_last_id rotate1.simps(2) set_ConsD set_rotate1 split_on_not_Nil)
    obtain parts where "ip6_of_parts parts = Some v" "w \<in> set parts"
    proof (cases "CHR ''.'' \<in> set (last ?ps)")
      case True
      with False w' have "w \<in> set (butlast ?ps)" by blast
      with True v show ?thesis
        by (auto simp: ip6_value_def Let_def split: if_splits option.splits intro: that)
    next
      case False
      with v w(1) show ?thesis by (auto simp: ip6_value_def Let_def split: if_splits intro: that)
    qed
    then show ?thesis using w(2) ip6_of_parts_chars by blast
  qed
qed auto

lemma ip6_of_string_chars:
  "ip6_of_string s = Some v \<Longrightarrow> CHR ''%'' \<notin> set s \<Longrightarrow> x \<in> set s \<Longrightarrow> addr_char x"
  by (auto simp: ip6_of_string_def dest: ip6_value_chars split: if_splits)

lemma ip_address_chars:
  "ip_address s = Some a \<Longrightarrow> CHR ''%'' \<notin> set s \<Longrightarrow> x \<in> set s \<Longrightarrow> addr_char x"
  by (auto simp: ip_address_def dest: ip4_of_string_chars ip6_of_string_chars split: option.splits)

lemma split_mask_parts:
  "split_mask s = Some (a, m) \<Longrightarrow> set s \<subseteq> insert CHR ''/'' (set a \<union> set (or_empty m)) \<and> set a \<subseteq> set s"
  using split_on_set[of s "CHR ''/''"] split_on_chars[of a "CHR ''/''" s]
  by (auto simp: split_mask_def split: list.splits)

lemma all_digits_chars: "all_digits s \<Longrightarrow> x \<in> set s \<Longrightarrow> addr_char x"
  by (auto simp: all_digits_def list_all_iff addr_char_def is_hexdigit_def)

lemma prefix4_chars: "prefix4_of_string m = Some p \<Longrightarrow> x \<in> set m \<Longrightarrow> addr_char x"
  by (auto simp: prefix4_of_string_def prefix_of_digits_def
      dest: ip4_of_string_chars all_digits_chars split: option.splits if_splits)

lemma addr_prefix4_chars:
  assumes "addr_prefix4 s = Some r" "x \<in> set s"
  shows "addr_char x"
proof -
  obtain a m where s: "split_mask s = Some (a, m)"
    using assms(1) by (auto simp: addr_prefix4_def split: option.splits)
  obtain v where v: "ip4_of_string a = Some v" and m: "\<And>t. m = Some t \<Longrightarrow> prefix4_of_string t \<noteq> None"
    using assms(1) s by (auto simp: addr_prefix4_def split: option.splits)
  have "x = CHR ''/'' \<or> x \<in> set a \<or> x \<in> set (or_empty m)" using split_mask_parts[OF s] assms(2) by auto
  then show ?thesis
    using ip4_of_string_chars[OF v] m prefix4_chars by (cases m) fastforce+
qed

lemma addr_prefix6_chars:
  assumes "addr_prefix6 s = Some r" "CHR ''%'' \<notin> set s" "x \<in> set s"
  shows "addr_char x"
proof -
  obtain a m where s: "split_mask s = Some (a, m)"
    using assms(1) by (auto simp: addr_prefix6_def split: option.splits)
  obtain v where v: "ip6_of_string a = Some v" and m: "\<And>t. m = Some t \<Longrightarrow> prefix_of_digits 128 t \<noteq> None"
    using assms(1) s by (auto simp: addr_prefix6_def split: option.splits)
  have "CHR ''%'' \<notin> set a" using split_mask_parts[OF s] assms(2) by auto
  moreover have "x = CHR ''/'' \<or> x \<in> set a \<or> x \<in> set (or_empty m)"
    using split_mask_parts[OF s] assms(3) by auto
  moreover have "all_digits t" if "m = Some t" for t
    using m[OF that] by (auto simp: prefix_of_digits_def split: if_splits)
  ultimately show ?thesis
    using ip6_of_string_chars[OF v] all_digits_chars by (cases m) fastforce+
qed

lemma ip_network_chars:
  "ip_network strict s = Some n \<Longrightarrow> CHR ''%'' \<notin> set s \<Longrightarrow> x \<in> set s \<Longrightarrow> addr_char x"
  by (auto simp: ip_network_def dest: addr_prefix4_chars addr_prefix6_chars split: option.splits)

section \<open>IPv4 round trip\<close>

lemma digit_char_nonzero: "0 < d \<Longrightarrow> d < 10 \<Longrightarrow> digit_char d \<noteq> CHR ''0''"
proof
  assume "0 < d" "d < 10" "digit_char d = CHR ''0''"
  then have "(of_char (digit_char d) :: nat) = of_char CHR ''0''" by simp
  with \<open>d < 10\<close> \<open>0 < d\<close> show False by simp
qed

lemma string_of_nat_octet:
  "n < 1000 \<Longrightarrow> length (string_of_nat n) \<le> 3
     \<and> (length (string_of_nat n) = 1 \<or> hd (string_of_nat n) \<noteq> CHR ''0'')"
proof -
  assume n: "n < 1000"
  consider "n < 10" | "10 \<le> n" "n < 100" | "100 \<le> n" by linarith
  then show ?thesis
  proof cases
    case 1
    then show ?thesis by (subst string_of_nat.simps) (simp add: string_of_nat.simps)
  next
    case 2
    then have "string_of_nat n = [digit_char (n div 10), digit_char (n mod 10)]"
      by (simp add: string_of_nat.simps[of n] string_of_nat.simps[of "n div 10"])
    with 2 show ?thesis by (simp add: digit_char_nonzero)
  next
    case 3
    with n have "n div 100 < 10" "\<not> n div 10 < 10" by (simp_all add: div_less_iff_less_mult)
    with 3 n have "string_of_nat n = [digit_char (n div 100), digit_char (n div 10 mod 10), digit_char (n mod 10)]"
      by (simp add: string_of_nat.simps[of n] string_of_nat.simps[of "n div 10"]
          string_of_nat.simps[of "n div 100"] div_mult2_eq[symmetric])
    with 3 n show ?thesis by (simp add: digit_char_nonzero)
  qed
qed

lemma octet_of_string_nat: "n \<le> 255 \<Longrightarrow> octet_of_string (string_of_nat n) = Some n"
  using string_of_nat_octet[of n] string_of_nat_digits[of _ n]
  by (auto simp: octet_of_string_def all_digits_def list_all_iff)

lemma dot_not_in_nat [simp]: "CHR ''.'' \<notin> set (string_of_nat n)"
  by (auto dest!: string_of_nat_digits simp: char_class_defs)

lemma ip4_of_string_str [simp]: "ip4_of_string (ip4_str w) = Some w"
proof -
  define n where "n = unat w"
  have n: "n < 4294967296" using unsigned_less[of w, where ?'a = nat] by (simp add: n_def)
  have "split_on CHR ''.'' (ip4_str w) = [string_of_nat (n div 16777216), string_of_nat (n div 65536 mod 256),
                 string_of_nat (n div 256 mod 256), string_of_nat (n mod 256)]"
    unfolding ip4_str_def Let_def n_def[symmetric] by (intro split_on_join) auto
  moreover have "n div 16777216 \<le> 255" using n by (simp add: less_mult_imp_div_less)
  moreover have "n mod 256 \<le> 255" "n div 256 mod 256 \<le> 255" "n div 65536 mod 256 \<le> 255"
    by (simp_all add: less_Suc_eq_le[symmetric])
  moreover have "((n div 16777216 * 256 + n div 65536 mod 256) * 256 + n div 256 mod 256) * 256 + n mod 256 = n"
  proof -
    have "n div 16777216 * 256 + n div 65536 mod 256 = n div 65536"
      using div_mult_mod_eq[of "n div 65536" 256] by (simp add: div_mult2_eq[symmetric])
    moreover have "n div 65536 * 256 + n div 256 mod 256 = n div 256"
      using div_mult_mod_eq[of "n div 256" 256] by (simp add: div_mult2_eq[symmetric])
    ultimately show ?thesis by simp
  qed
  ultimately show ?thesis
    by (simp add: ip4_of_string_def octet_of_string_nat n_def)
qed

end
