(* ===== verification/Nft_Rule.thy ===== *)
theory Nft_Rule
  imports Py_Ipaddress
begin

text \<open>
  \<open>nft.py\<close> of the firewall agent, first part: the rule records, the validators that decide
  which strings may reach a ruleset, NAT targets, the tag predicates and the translation of one
  firewall rule and one NAT rule to nftables syntax.

  The regular expressions are written out as recognisers. Two of them accept white space with
  \<open>\s\<close>, which includes line breaks.
\<close>

section \<open>Rules\<close>

datatype fw_action = A_ACCEPT | A_DROP | A_REJECT | A_LOG | A_QUEUE

fun fw_action_value :: "fw_action \<Rightarrow> string" where
  "fw_action_value A_ACCEPT = ''accept''"
| "fw_action_value A_DROP = ''drop''"
| "fw_action_value A_REJECT = ''reject''"
| "fw_action_value A_LOG = ''log''"
| "fw_action_value A_QUEUE = ''queue''"

record fw_rule =
  fr_id :: int
  fr_name :: string
  fr_chain :: string
  fr_source :: "string option"
  fr_destination :: "string option"
  fr_protocol :: "string option"
  fr_source_port :: "int option"
  fr_destination_port :: "int option"
  fr_interface_in :: "string option"
  fr_interface_out :: "string option"
  fr_action :: fw_action
  fr_log :: bool
  fr_state :: "string option"
  fr_limit :: "string option"
  fr_comment :: "string option"
  fr_order :: int
  fr_anti_spoof :: bool

definition plain_rule :: "int \<Rightarrow> string \<Rightarrow> string \<Rightarrow> fw_rule" where
  "plain_rule i name chain = \<lparr>fr_id = i, fr_name = name, fr_chain = chain, fr_source = None,
     fr_destination = None, fr_protocol = None, fr_source_port = None, fr_destination_port = None,
     fr_interface_in = None, fr_interface_out = None, fr_action = A_ACCEPT, fr_log = False,
     fr_state = None, fr_limit = None, fr_comment = None, fr_order = 0, fr_anti_spoof = False\<rparr>"

record nat_rule =
  nr_id :: int
  nr_name :: string
  nr_type :: string
  nr_chain :: string
  nr_source :: "string option"
  nr_destination :: "string option"
  nr_to_source :: "string option"
  nr_to_destination :: "string option"
  nr_protocol :: "string option"
  nr_port :: "int option"
  nr_interface :: "string option"
  nr_comment :: "string option"

definition plain_nat :: "int \<Rightarrow> string \<Rightarrow> string \<Rightarrow> string \<Rightarrow> nat_rule" where
  "plain_nat i name ty chain = \<lparr>nr_id = i, nr_name = name, nr_type = ty, nr_chain = chain,
     nr_source = None, nr_destination = None, nr_to_source = None, nr_to_destination = None,
     nr_protocol = None, nr_port = None, nr_interface = None, nr_comment = None\<rparr>"

section \<open>Constants\<close>

datatype port_spec = Port int | Port_Range int int

definition meter_specs :: "((string \<times> int) \<times> (string \<times> string)) list" where
  "meter_specs = [
     ((''tcp'', 22), (''ssh_limit'', ''10/minute'')),
     ((''tcp'', 80), (''http_limit'', ''100/minute'')),
     ((''tcp'', 443), (''https_limit'', ''100/minute'')),
     ((''udp'', 51820), (''wireguard_limit'', ''20/minute''))]"

definition mgmt_accepts :: "(string \<times> port_spec) list" where
  "mgmt_accepts = [
     (''tcp'', Port 22), (''tcp'', Port 80), (''tcp'', Port 443), (''udp'', Port 51820),
     (''tcp'', Port 25), (''tcp'', Port 53), (''tcp'', Port 110), (''tcp'', Port 143),
     (''tcp'', Port 993), (''tcp'', Port 995), (''tcp'', Port_Range 21114 21119),
     (''udp'', Port 53), (''udp'', Port 21116)]"

definition v6_open :: "(string \<times> port_spec) list" where
  "v6_open = [(''tcp'', Port 22), (''tcp'', Port 80), (''tcp'', Port 443), (''udp'', Port 51820)]"

definition default_wan :: string where "default_wan = ''enp0s31f6''"

definition default_internal_ports :: "int list" where
  "default_internal_ports = [5000, 5055, 5678, 8000, 8001, 8080, 8089, 8090, 8091,
     8096, 8100, 8201, 8502, 8888, 9090, 10000, 11434]"

definition proto_names :: "string list" where
  "proto_names = [''tcp'', ''udp'', ''icmp'', ''icmpv6'', ''sctp'', ''igmp'', ''esp'', ''ah'', ''gre'']"

definition ct_states :: "string list" where
  "ct_states = [''NEW'', ''ESTABLISHED'', ''RELATED'', ''INVALID'', ''UNTRACKED'']"

definition default_burst :: string where "default_burst = '' burst 5 packets''"

section \<open>Validators\<close>

definition quote :: "string \<Rightarrow> string" where
  "quote value = dq @ replace_char dquote [backslash, dquote]
                        (replace_char backslash [backslash, backslash] value) @ dq"

definition ifname_char :: "char \<Rightarrow> bool" where
  "ifname_char c \<longleftrightarrow> is_alnum c \<or> c \<in> set ''_.:*+@-''"

definition safe_ifname :: "string \<Rightarrow> bool" where
  "safe_ifname name \<longleftrightarrow> name \<noteq> [] \<and> list_all ifname_char name"

definition valid_net :: "string \<Rightarrow> bool" where
  "valid_net value \<longleftrightarrow> ip_network False value \<noteq> None"

text \<open>
  \<open>_LIMIT_RE\<close>: a number, a slash with optional white space around it, a unit, and optionally
  a burst clause separated by white space.
\<close>

definition eat_unit :: "string \<Rightarrow> string option" where
  "eat_unit s = (case List.find (startswith s) [''second'', ''minute'', ''hour'', ''day''] of
      None \<Rightarrow> None | Some u \<Rightarrow> eat_word u s)"

definition burst_clause :: "string \<Rightarrow> bool" where
  "burst_clause s \<longleftrightarrow>
     Option.bind (eat_spaces1 s) (\<lambda>s. Option.bind (eat_word ''burst'' s)
       (\<lambda>s. Option.bind (eat_spaces1 s) (\<lambda>s. Option.bind (eat_digits s)
       (\<lambda>s. Option.bind (eat_spaces1 s) (eat_word ''packets''))))) = Some []"

definition valid_limit :: "string \<Rightarrow> bool" where
  "valid_limit value =
     (case Option.bind (eat_digits value) (\<lambda>s. Option.bind (eat_word ''/'' (dropWhile is_space s))
             (\<lambda>s. eat_unit (dropWhile is_space s))) of
        None \<Rightarrow> False
      | Some rest \<Rightarrow> rest = [] \<or> burst_clause rest)"

definition valid_block_ip :: "string \<Rightarrow> bool" where
  "valid_block_ip value \<longleftrightarrow> ip_address value \<noteq> None"

definition valid_block_timeout :: "string \<Rightarrow> bool" where
  "valid_block_timeout value \<longleftrightarrow>
     all_digits (butlast value) \<and> last value \<in> set ''smhd''"

text \<open>\<open>\d{1,5}\<close> within 1..65535.\<close>

definition target_port_ok :: "string \<Rightarrow> bool" where
  "target_port_ok s \<longleftrightarrow> all_digits s \<and> length s \<le> 5 \<and> 1 \<le> digits_val 0 s \<and> digits_val 0 s \<le> 65535"

definition bracket_char :: "char \<Rightarrow> bool" where
  "bracket_char c \<longleftrightarrow> is_hexdigit c \<or> c \<in> set '':.%''"

text \<open>\<open>[addr]\<close> or \<open>[addr]:port\<close>: the address text and the port text.\<close>

definition split_bracketed :: "string \<Rightarrow> (string \<times> string option) option" where
  "split_bracketed value =
     (let (a, rest) = partition_at CHR '']'' (tl value) in
      if CHR '']'' \<notin> set (tl value) \<or> a = [] \<or> \<not> list_all bracket_char a then None
      else if rest = [] then Some (a, None)
      else if hd rest = CHR '':'' \<and> all_digits (tl rest) \<and> length (tl rest) \<le> 5 then Some (a, Some (tl rest))
      else None)"

definition normalize_to_addr :: "string \<Rightarrow> string option" where
  "normalize_to_addr value =
     (if value = [] \<or> (\<exists>c\<in>set value. c \<in> {newline, carriage, CHR ''=''}) then None
      else if hd value = CHR ''['' then
        (case split_bracketed value of
           None \<Rightarrow> None
         | Some (a, port) \<Rightarrow> (case ip6_of_string a of
             None \<Rightarrow> None
           | Some (v, sc) \<Rightarrow>
               (case port of
                  None \<Rightarrow> Some (''['' @ ip6_str v sc @ '']'')
                | Some t \<Rightarrow> if target_port_ok t then Some (''['' @ ip6_str v sc @ '']:'' @ t) else None)))
      else if CHR '':'' \<in> set value then
        (let (a, t) = rpartition_at CHR '':'' value in
         if \<not> target_port_ok t then None
         else map_option (\<lambda>v. ip4_str v @ '':'' @ t) (ip4_of_string a))
      else map_option ip4_str (ip4_of_string value))"

definition valid_to_addr :: "string \<Rightarrow> bool" where
  "valid_to_addr value \<longleftrightarrow> normalize_to_addr value \<noteq> None"

section \<open>Tags\<close>

definition in_chain :: "string \<Rightarrow> fw_rule \<Rightarrow> bool" where
  "in_chain chain r \<longleftrightarrow> lower (fr_chain r) = chain"

definition protocol_is :: "string \<Rightarrow> fw_rule \<Rightarrow> bool" where
  "protocol_is proto r \<longleftrightarrow> truthy_str (fr_protocol r) \<and> lower (or_empty (fr_protocol r)) = proto"

definition is_loopback_guard :: "fw_rule \<Rightarrow> bool" where
  "is_loopback_guard r \<longleftrightarrow>
     in_chain ''input'' r \<and> fr_action r = A_DROP
     \<and> truthy_str (fr_destination r) \<and> fr_destination r \<noteq> Some ''any''
     \<and> fst (partition_at CHR ''/'' (or_empty (fr_destination r))) = ''127.0.0.1''
     \<and> protocol_is ''tcp'' r \<and> truthy_int (fr_destination_port r)"

definition is_managed_meter :: "fw_rule \<Rightarrow> bool" where
  "is_managed_meter r \<longleftrightarrow>
     in_chain ''input'' r \<and> truthy_str (fr_limit r) \<and> truthy_str (fr_protocol r)
     \<and> truthy_int (fr_destination_port r)
     \<and> (case fr_destination_port r of None \<Rightarrow> False
        | Some p \<Rightarrow> map_of meter_specs (lower (or_empty (fr_protocol r)), p) \<noteq> None)"

definition tagged :: "string \<Rightarrow> fw_rule \<Rightarrow> bool" where
  "tagged tag r \<longleftrightarrow> contains tag (lower (fr_name r)) \<or> contains tag (lower (or_empty (fr_comment r)))"

definition is_anti_spoof :: "fw_rule \<Rightarrow> bool" where
  "is_anti_spoof r \<longleftrightarrow> fr_anti_spoof r \<or> tagged ''anti-spoof'' r"

definition is_internal_port :: "fw_rule \<Rightarrow> bool" where
  "is_internal_port r \<longleftrightarrow> tagged ''internal-port'' r"

section \<open>Translating one rule\<close>

definition ip_family :: "string option \<Rightarrow> string" where
  "ip_family addr =
     (case addr of
        None \<Rightarrow> ''ip''
      | Some a \<Rightarrow>
          if a = [] \<or> a = ''any'' then ''ip''
          else if CHR ''/'' \<in> set a then
            (case ip_network False a of Some n \<Rightarrow> (if is_v6_net n then ''ip6'' else ''ip'') | None \<Rightarrow> ''ip'')
          else (case ip_address a of Some i \<Rightarrow> (if is_v6_addr i then ''ip6'' else ''ip'') | None \<Rightarrow> ''ip''))"

definition port_in_range :: "int option \<Rightarrow> bool" where
  "port_in_range p = (case p of None \<Rightarrow> False | Some n \<Rightarrow> 1 \<le> n \<and> n \<le> 65535)"

definition port_text :: "int option \<Rightarrow> string" where
  "port_text p = (case p of None \<Rightarrow> [] | Some n \<Rightarrow> string_of_int n)"

definition ifname_cond :: "string \<Rightarrow> string option \<Rightarrow> string list" where
  "ifname_cond kind i =
     (if truthy_str i \<and> safe_ifname (or_empty i) then [kind @ '' '' @ dq @ or_empty i @ dq] else [])"

definition addr_cond :: "string \<Rightarrow> string \<Rightarrow> string option \<Rightarrow> string list" where
  "addr_cond family dir a =
     (if truthy_str a \<and> a \<noteq> Some ''any'' \<and> valid_net (or_empty a)
      then [family @ '' '' @ dir @ '' '' @ or_empty a] else [])"

definition proto_known :: "string option \<Rightarrow> bool" where
  "proto_known p \<longleftrightarrow> truthy_str p \<and> p \<noteq> Some ''any'' \<and> lower (or_empty p) \<in> set proto_names"

definition proto_cond :: "string \<Rightarrow> string \<Rightarrow> string \<Rightarrow> string" where
  "proto_cond src_family dst_family proto =
     (if src_family = ''ip6'' \<or> dst_family = ''ip6'' then ''ip6 nexthdr '' @ proto
      else ''ip protocol '' @ proto)"

definition port_cond :: "string \<Rightarrow> string \<Rightarrow> int option \<Rightarrow> string list" where
  "port_cond proto dir p = (if port_in_range p then [proto @ '' '' @ dir @ '' '' @ port_text p] else [])"

definition state_cond :: "string option \<Rightarrow> string list" where
  "state_cond st =
     (if \<not> truthy_str st then []
      else (let valid = filter (\<lambda>s. s \<in> set ct_states)
                          (map (\<lambda>s. upper (strip s)) (split_on CHR '','' (or_empty st))) in
            if valid \<noteq> [] then [''ct state '' @ join '','' valid] else []))"

definition limit_cond :: "string option \<Rightarrow> string list" where
  "limit_cond l =
     (if truthy_str l \<and> valid_limit (or_empty l) then [''limit rate '' @ or_empty l] else [])"

definition rule_conditions :: "fw_rule \<Rightarrow> string list" where
  "rule_conditions r =
     (let src_family = ip_family (fr_source r);
          dst_family = ip_family (fr_destination r);
          proto = lower (or_empty (fr_protocol r)) in
      ifname_cond ''iifname'' (fr_interface_in r) @ ifname_cond ''oifname'' (fr_interface_out r)
      @ addr_cond src_family ''saddr'' (fr_source r) @ addr_cond dst_family ''daddr'' (fr_destination r)
      @ (if proto_known (fr_protocol r) then
           proto_cond src_family dst_family proto
           # port_cond proto ''sport'' (fr_source_port r) @ port_cond proto ''dport'' (fr_destination_port r)
         else [])
      @ state_cond (fr_state r) @ limit_cond (fr_limit r))"

definition indent :: string where "indent = ''        ''"

definition with_conditions :: "string list \<Rightarrow> string" where
  "with_conditions conds = indent @ (if conds \<noteq> [] then join '' '' conds @ '' '' else [])"

definition comment_clause :: "string option \<Rightarrow> string" where
  "comment_clause c = (if truthy_str c then '' comment '' @ quote (or_empty c) else [])"

definition rule_verdict :: "fw_rule \<Rightarrow> string" where
  "rule_verdict r =
     (let name = quote (''[NFT '' @ fr_name r @ '']'') in
      if fr_action r = A_LOG then ''log prefix '' @ name @ '' accept''
      else (if fr_log r then ''log prefix '' @ name @ '' '' else []) @ fw_action_value (fr_action r))"

definition convert_rule_to_nft :: "fw_rule \<Rightarrow> string" where
  "convert_rule_to_nft r =
     with_conditions (rule_conditions r) @ rule_verdict r @ comment_clause (fr_comment r) @ nl"

definition nat_addr_cond :: "string \<Rightarrow> string \<Rightarrow> string option \<Rightarrow> string list" where
  "nat_addr_cond family dir a =
     (if truthy_str a \<and> valid_net (or_empty a) then [family @ '' '' @ dir @ '' '' @ or_empty a] else [])"

definition nat_conditions :: "nat_rule \<Rightarrow> string list" where
  "nat_conditions r =
     (let src_family = ip_family (nr_source r);
          dst_family = ip_family (nr_destination r);
          proto = lower (or_empty (nr_protocol r)) in
      ifname_cond ''iifname'' (nr_interface r)
      @ nat_addr_cond src_family ''saddr'' (nr_source r)
      @ nat_addr_cond dst_family ''daddr'' (nr_destination r)
      @ (if proto_known (nr_protocol r) then
           proto_cond src_family dst_family proto # port_cond proto ''dport'' (nr_port r)
         else []))"

definition nat_target :: "string option \<Rightarrow> string option" where
  "nat_target t = (if truthy_str t then normalize_to_addr (or_empty t) else None)"

text \<open>The statement part after the conditions; \<open>None\<close> when the target is unusable.\<close>

definition nat_statement :: "nat_rule \<Rightarrow> string option" where
  "nat_statement r =
     (if nr_type r = ''dnat'' then map_option (\<lambda>t. ''dnat to '' @ t) (nat_target (nr_to_destination r))
      else if nr_type r = ''snat'' then map_option (\<lambda>t. ''snat to '' @ t) (nat_target (nr_to_source r))
      else Some [])"

definition convert_nat_rule_to_nft :: "nat_rule \<Rightarrow> string" where
  "convert_nat_rule_to_nft r =
     (case nat_statement r of
        None \<Rightarrow> []
      | Some st \<Rightarrow> with_conditions (nat_conditions r) @ st @ comment_clause (nr_comment r) @ nl)"

section \<open>Quoting\<close>

text \<open>
  How a reader that honours backslash escapes consumes a double-quoted string: the contents and
  the text after the closing quote.
\<close>

fun read_body :: "string \<Rightarrow> (string \<times> string) option" where
  "read_body [] = None"
| "read_body (c # cs) =
     (if c = dquote then Some ([], cs)
      else if c = backslash then
        (case cs of [] \<Rightarrow> None | d # ds \<Rightarrow> map_option (\<lambda>(t, r). (d # t, r)) (read_body ds))
      else map_option (\<lambda>(t, r). (c # t, r)) (read_body cs))"

definition read_quoted :: "string \<Rightarrow> (string \<times> string) option" where
  "read_quoted s = (case s of [] \<Rightarrow> None | c # cs \<Rightarrow> if c = dquote then read_body cs else None)"

definition escape_char :: "char \<Rightarrow> string" where
  "escape_char c = (if c = backslash then [backslash, backslash]
                    else if c = dquote then [backslash, dquote] else [c])"

lemma quote_escape: "quote s = dq @ concat (map escape_char s) @ dq"
proof -
  have "replace_char dquote [backslash, dquote] (replace_char backslash [backslash, backslash] s)
      = concat (map escape_char s)"
    by (induction s) (auto simp: replace_char_def escape_char_def char_defs)
  then show ?thesis by (simp add: quote_def)
qed

lemma read_body_escape: "read_body (concat (map escape_char s) @ dquote # rest) = Some (s, rest)"
  by (induction s) (auto simp: escape_char_def char_defs)

text \<open>Quoting is exact and self-delimiting: a reader that honours the escapes gets back the original
  text of a rule name or comment and resumes right after the closing quote, so quotes and
  backslashes in it can never end the string early.\<close>

theorem quote_roundtrip: "read_quoted (quote s @ rest) = Some (s, rest)"
  by (simp add: read_quoted_def quote_escape read_body_escape)

lemma quote_no_newline [safe_intros]: "newline \<notin> set (quote s) \<longleftrightarrow> newline \<notin> set s"
proof -
  have "newline \<in> set (escape_char c) \<longleftrightarrow> c = newline" for c
    by (auto simp: escape_char_def char_defs)
  then show ?thesis by (auto simp: quote_escape char_defs)
qed

section \<open>Validated strings carry no line break\<close>

interpretation ifname: line_validator safe_ifname
proof unfold_locales
  have "\<not> ifname_char newline" by (simp add: ifname_char_def char_class_defs char_defs)
  then show "newline \<notin> set s" if "safe_ifname s" for s
    using that by (auto simp: safe_ifname_def list_all_iff)
qed

definition plain_net :: "string \<Rightarrow> bool" where
  "plain_net s \<longleftrightarrow> valid_net s \<and> CHR ''%'' \<notin> set s"

interpretation net: line_validator plain_net
  by unfold_locales
    (auto simp: plain_net_def valid_net_def dest!: ip_network_chars addr_char_not_special)

definition plain_block_ip :: "string \<Rightarrow> bool" where
  "plain_block_ip s \<longleftrightarrow> valid_block_ip s \<and> CHR ''%'' \<notin> set s"

interpretation block_ip: line_validator plain_block_ip
  by unfold_locales
    (auto simp: plain_block_ip_def valid_block_ip_def dest!: ip_address_chars addr_char_not_special)

lemma all_digits_no_newline: "all_digits s \<Longrightarrow> newline \<notin> set s"
  using digit_not_special(1)[of newline] by (auto simp: all_digits_def list_all_iff)

interpretation target_port: line_validator target_port_ok
  by unfold_locales (simp add: target_port_ok_def all_digits_no_newline)

interpretation block_timeout: line_validator valid_block_timeout
proof unfold_locales
  fix s assume ok: "valid_block_timeout s"
  then have "butlast s \<noteq> []" by (simp add: valid_block_timeout_def all_digits_def)
  then have "s = butlast s @ [last s]" by (cases s rule: rev_cases) auto
  moreover have "newline \<notin> set (butlast s)" "last s \<noteq> newline"
    using ok all_digits_no_newline by (auto simp: valid_block_timeout_def char_defs)
  ultimately show "newline \<notin> set s"
    by (metis Un_iff empty_iff empty_set list.set_intros(1) set_ConsD set_append)
qed

text \<open>Characters of a normalised NAT target: address characters, brackets, and a scope id of them.\<close>

definition target_char :: "char \<Rightarrow> bool" where
  "target_char c \<longleftrightarrow> addr_char c \<or> c \<in> set ''[]%''"

lemma target_char_not_special: "target_char c \<Longrightarrow> c \<notin> {newline, carriage, dquote, CHR '';'', CHR '' '', CHR ''='', CHR ''{''}"
  by (auto simp: target_char_def addr_char_def char_class_defs char_defs)

lemma target_char_intros [simp]:
  "target_char CHR ''[''" "target_char CHR '']''" "target_char CHR '':''" "target_char CHR ''%''"
  "addr_char c \<Longrightarrow> target_char c"
  by (auto simp: target_char_def)

lemma all_digits_target: "target_port_ok t \<Longrightarrow> c \<in> set t \<Longrightarrow> target_char c"
  by (auto simp: target_port_ok_def dest: all_digits_chars)

lemma scope_chars:
  assumes "ip6_of_string a = Some (v, Some sc)"
  shows "set sc \<subseteq> set a"
proof -
  have "CHR ''%'' \<in> set a" "sc = snd (partition_at CHR ''%'' a)"
    using assms by (auto simp: ip6_of_string_def split: if_splits prod.splits)
  then show ?thesis using partition_at_found[of "CHR ''%''" a] by (metis set_append set_subset_Cons subset_trans sup_ge2)
qed

lemma ip6_str_target:
  assumes "ip6_of_string a = Some (v, sc)" "list_all bracket_char a" "c \<in> set (ip6_str v sc)"
  shows "target_char c"
proof (cases sc)
  case None
  then show ?thesis using assms(3) ip6_str_chars by auto
next
  case (Some t)
  then have "c \<in> set (ip6_str v None) \<or> c = CHR ''%'' \<or> c \<in> set t" using assms(3) by (auto simp: ip6_str_def)
  moreover have "c \<in> set t \<Longrightarrow> bracket_char c"
    using scope_chars[OF assms(1)[unfolded Some]] assms(2) by (auto simp: list_all_iff)
  moreover have "bracket_char c \<Longrightarrow> target_char c"
    by (auto simp: bracket_char_def target_char_def addr_char_def)
  ultimately show ?thesis using ip6_str_chars by auto
qed

lemma split_bracketed_chars: "split_bracketed value = Some (a, p) \<Longrightarrow> list_all bracket_char a"
  by (auto simp: split_bracketed_def Let_def split: prod.splits if_splits)

lemma normalize_to_addr_chars:
  "normalize_to_addr value = Some t \<Longrightarrow>
     (\<forall>c\<in>set t. target_char c)
     \<and> set t \<inter> {newline, carriage, dquote, CHR '';'', CHR '' '', CHR ''='', CHR ''{''} = {}"
proof -
  assume n: "normalize_to_addr value = Some t"
  have "target_char c" if "c \<in> set t" for c
  proof -
    from n consider
      (v6) a v sc p where "split_bracketed value = Some (a, p)" "ip6_of_string a = Some (v, sc)"
        "t = ''['' @ ip6_str v sc @ '']'' \<or> (\<exists>q. p = Some q \<and> target_port_ok q \<and> t = ''['' @ ip6_str v sc @ '']:'' @ q)"
      | (v4_port) v q where "t = ip4_str v @ '':'' @ q" "target_port_ok q"
      | (v4) v where "t = ip4_str v"
      by (auto simp: normalize_to_addr_def split: if_splits option.splits prod.splits)
    then show ?thesis
    proof cases
      case v6
      then show ?thesis using that ip6_str_target[OF v6(2) split_bracketed_chars[OF v6(1)]]
        by (auto dest: all_digits_target)
    next
      case v4_port
      then show ?thesis using that by (auto dest: all_digits_target ip4_str_chars)
    next
      case v4
      then show ?thesis using that by (auto dest: ip4_str_chars)
    qed
  qed
  then show ?thesis using target_char_not_special by blast
qed

text \<open>A NAT target that is accepted is rendered in a canonical form made only of hexadecimal digits,
  dots, colons, brackets, slashes and percent signs: no line break, white space, semicolon, quote,
  brace or equals sign of the input can reach the ruleset.\<close>

theorem normalize_to_addr_safe:
  "normalize_to_addr value = Some t \<Longrightarrow>
     (\<forall>c\<in>set t. target_char c)
     \<and> set t \<inter> {newline, carriage, dquote, CHR '';'', CHR '' '', CHR ''='', CHR ''{''} = {}"
  by (rule normalize_to_addr_chars)

theorem normalize_to_addr_safe_witness:
  "normalize_to_addr ''[FE80::1%eb0]:443'' = Some ''[fe80::1%eb0]:443''
   \<and> set ''[fe80::1%eb0]:443'' \<inter> {newline, carriage, dquote, CHR '';'', CHR '' '', CHR ''='', CHR ''{''} = {}"
proof -
  have "normalize_to_addr ''[FE80::1%eb0]:443'' = Some ''[fe80::1%eb0]:443''" by code_simp
  with normalize_to_addr_safe[OF this] show ?thesis by simp
qed

section \<open>One rule, one line\<close>

lemma join_no_newline [safe_intros]:
  "newline \<notin> set sep \<Longrightarrow> \<forall>w\<in>set ws. newline \<notin> set w \<Longrightarrow> newline \<notin> set (join sep ws)"
  by (auto dest: join_chars)

lemma fixed_words_no_newline:
  "p \<in> set proto_names \<Longrightarrow> newline \<notin> set p" "c \<in> set ct_states \<Longrightarrow> newline \<notin> set c"
  by (auto simp: proto_names_def ct_states_def char_defs)

lemma port_text_no_newline [simp]: "newline \<notin> set (port_text p)"
  by (simp add: port_text_def split: option.splits)

lemma ifname_cond_no_newline:
  "newline \<notin> set kind \<Longrightarrow> c \<in> set (ifname_cond kind i) \<Longrightarrow> newline \<notin> set c"
  using ifname.ok_no_newline by (auto simp: ifname_cond_def char_defs split: if_splits)

lemma addr_cond_no_newline:
  "newline \<notin> set family \<Longrightarrow> newline \<notin> set dir \<Longrightarrow> CHR ''%'' \<notin> set (or_empty a) \<Longrightarrow>
   c \<in> set (addr_cond family dir a) \<union> set (nat_addr_cond family dir a) \<Longrightarrow> newline \<notin> set c"
  using net.ok_no_newline[of "or_empty a"]
  by (auto simp: addr_cond_def nat_addr_cond_def plain_net_def char_defs split: if_splits)

lemma port_cond_no_newline:
  "newline \<notin> set proto \<Longrightarrow> newline \<notin> set dir \<Longrightarrow> c \<in> set (port_cond proto dir p) \<Longrightarrow> newline \<notin> set c"
  using port_text_no_newline[of p] by (auto simp: port_cond_def char_defs split: if_splits)

lemma ip_family_cases: "ip_family a = ''ip'' \<or> ip_family a = ''ip6''"
  by (auto simp: ip_family_def split: option.splits)

lemma ip_family_no_newline [simp]: "newline \<notin> set (ip_family a)"
  using ip_family_cases[of a] by (auto simp: char_defs)

lemma proto_conds_no_newline:
  assumes "proto_known p" "c = proto_cond sf df (lower (or_empty p))
     \<or> c \<in> set (port_cond (lower (or_empty p)) ''sport'' sp) \<or> c \<in> set (port_cond (lower (or_empty p)) ''dport'' dp)"
  shows "newline \<notin> set c"
proof -
  have p: "newline \<notin> set (lower (or_empty p))" using assms(1) fixed_words_no_newline(1) by (simp add: proto_known_def)
  moreover have "newline \<notin> set ''sport''" "newline \<notin> set ''dport''" by (simp_all add: char_defs)
  moreover have "newline \<notin> set (proto_cond sf df (lower (or_empty p)))"
    using p by (simp add: proto_cond_def char_defs)
  ultimately show ?thesis using assms(2) port_cond_no_newline by blast
qed

lemma state_cond_no_newline: "c \<in> set (state_cond st) \<Longrightarrow> newline \<notin> set c"
proof -
  assume "c \<in> set (state_cond st)"
  then obtain valid where "c = ''ct state '' @ join '','' valid" "\<forall>v\<in>set valid. v \<in> set ct_states"
    by (auto simp: state_cond_def Let_def split: if_splits)
  moreover have "newline \<notin> set '',''" by (simp add: char_defs)
  ultimately show ?thesis
    using join_no_newline[of "'',''" valid] fixed_words_no_newline(2) by (auto simp: char_defs)
qed

lemma limit_cond_no_newline:
  "newline \<notin> set (or_empty l) \<Longrightarrow> c \<in> set (limit_cond l) \<Longrightarrow> newline \<notin> set c"
  by (auto simp: limit_cond_def char_defs split: if_splits)

text \<open>
  The free text of a rule: its name, its comment, white space of its limit, and the scope id of
  an IPv6 address (the part after a percent sign, which the address parser does not restrict).
\<close>

definition line_safe :: "fw_rule \<Rightarrow> bool" where
  "line_safe r \<longleftrightarrow> newline \<notin> set (fr_name r) \<and> newline \<notin> set (or_empty (fr_comment r))
     \<and> newline \<notin> set (or_empty (fr_limit r))
     \<and> CHR ''%'' \<notin> set (or_empty (fr_source r)) \<and> CHR ''%'' \<notin> set (or_empty (fr_destination r))"

lemma rule_conditions_no_newline:
  assumes "line_safe r" "c \<in> set (rule_conditions r)"
  shows "newline \<notin> set c"
proof -
  have words: "newline \<notin> set ''iifname''" "newline \<notin> set ''oifname''" "newline \<notin> set ''saddr''" "newline \<notin> set ''daddr''"
    by (simp_all add: char_defs)
  have safe: "newline \<notin> set (or_empty (fr_limit r))"
    "CHR ''%'' \<notin> set (or_empty (fr_source r))" "CHR ''%'' \<notin> set (or_empty (fr_destination r))"
    using assms(1) by (simp_all add: line_safe_def)
  from assms(2) consider "c \<in> set (ifname_cond ''iifname'' (fr_interface_in r))"
    | "c \<in> set (ifname_cond ''oifname'' (fr_interface_out r))"
    | "c \<in> set (addr_cond (ip_family (fr_source r)) ''saddr'' (fr_source r))"
    | "c \<in> set (addr_cond (ip_family (fr_destination r)) ''daddr'' (fr_destination r))"
    | "proto_known (fr_protocol r)" "c = proto_cond (ip_family (fr_source r)) (ip_family (fr_destination r)) (lower (or_empty (fr_protocol r)))
        \<or> c \<in> set (port_cond (lower (or_empty (fr_protocol r))) ''sport'' (fr_source_port r))
        \<or> c \<in> set (port_cond (lower (or_empty (fr_protocol r))) ''dport'' (fr_destination_port r))"
    | "c \<in> set (state_cond (fr_state r))" | "c \<in> set (limit_cond (fr_limit r))"
    unfolding rule_conditions_def Let_def by (auto split: if_splits)
  then show ?thesis
  proof cases
    case 1 then show ?thesis using ifname_cond_no_newline words by blast
  next
    case 2 then show ?thesis using ifname_cond_no_newline words by blast
  next
    case 3 then show ?thesis using addr_cond_no_newline[OF ip_family_no_newline words(3) safe(2)] by blast
  next
    case 4 then show ?thesis using addr_cond_no_newline[OF ip_family_no_newline words(4) safe(3)] by blast
  next
    case 5 then show ?thesis using proto_conds_no_newline by blast
  next
    case 6 then show ?thesis using state_cond_no_newline by blast
  next
    case 7 then show ?thesis using limit_cond_no_newline[OF safe(1)] by blast
  qed
qed

lemma with_conditions_no_newline:
  "\<forall>c\<in>set conds. newline \<notin> set c \<Longrightarrow> newline \<notin> set (with_conditions conds)"
  using join_no_newline[of "'' ''" conds] by (simp add: with_conditions_def indent_def char_defs)

lemma comment_clause_no_newline: "newline \<notin> set (or_empty c) \<Longrightarrow> newline \<notin> set (comment_clause c)"
  using quote_no_newline[of "or_empty c"] by (simp add: comment_clause_def char_defs)

lemma rule_verdict_no_newline:
  assumes "newline \<notin> set (fr_name r)"
  shows "newline \<notin> set (rule_verdict r)"
proof -
  have "newline \<notin> set (quote (''[NFT '' @ fr_name r @ '']''))"
    unfolding quote_no_newline using assms by (simp add: char_defs)
  moreover have "newline \<notin> set (fw_action_value a)" for a by (cases a) (simp_all add: char_defs)
  ultimately show ?thesis by (simp add: rule_verdict_def Let_def) (simp add: char_defs)
qed

lemma rule_line:
  assumes "line_safe r"
  obtains l where "convert_rule_to_nft r = l @ nl" "newline \<notin> set l" "startswith l indent"
proof
  let ?l = "with_conditions (rule_conditions r) @ rule_verdict r @ comment_clause (fr_comment r)"
  show "convert_rule_to_nft r = ?l @ nl" by (simp add: convert_rule_to_nft_def)
  show "newline \<notin> set ?l"
    using assms with_conditions_no_newline rule_conditions_no_newline[OF assms]
      rule_verdict_no_newline comment_clause_no_newline by (auto simp: line_safe_def)
  show "startswith ?l indent" by (simp add: with_conditions_def)
qed

text \<open>A rule whose name, comment and limit carry no line break and whose addresses carry no IPv6
  scope id renders to exactly one indented line, whatever its interface names, protocol, state
  list, ports and address texts are: invalid values are left out, never spliced.\<close>

theorem convert_rule_single_line:
  "line_safe r \<Longrightarrow> \<exists>l. convert_rule_to_nft r = l @ nl \<and> newline \<notin> set l \<and> startswith l indent"
  by (rule rule_line) blast+

text \<open>A rule whose interface name and state list try to break out of the line.\<close>

definition hostile_rule :: fw_rule where
  "hostile_rule = (plain_rule 1 ''web'' ''input'')\<lparr>fr_interface_in := Some (''eth0'' @ nl @ ''flush ruleset''),
     fr_source := Some (''10.0.0.0/8'' @ nl), fr_protocol := Some (''TCP'' @ nl),
     fr_state := Some (''new,'' @ nl @ ''bogus''), fr_comment := Some (''a '' @ [backslash] @ ''b'')\<rparr>"

theorem convert_rule_single_line_witness:
  "convert_rule_to_nft hostile_rule = indent @ ''ct state NEW accept comment '' @ quote (''a '' @ [backslash] @ ''b'') @ nl
   \<and> (\<exists>l. convert_rule_to_nft hostile_rule = l @ nl \<and> newline \<notin> set l \<and> startswith l indent)"
proof -
  have "line_safe hostile_rule" by code_simp
  moreover have "convert_rule_to_nft hostile_rule = indent @ ''ct state NEW accept comment '' @ quote (''a '' @ [backslash] @ ''b'') @ nl"
    by code_simp
  ultimately show ?thesis using convert_rule_single_line by blast
qed

text \<open>Free text is where the guarantee ends: the name of a rule, and the scope id of an address
  that the validator accepts, reach the ruleset with their line breaks, so one rule can render to
  a line of its author's choice.\<close>

theorem rule_text_injects_line:
  "''flush chain inet viswall input; #]\" accept'' \<in> set (splitlines (convert_rule_to_nft
      ((plain_rule 1 (''x'' @ nl @ ''flush chain inet viswall input; #'') ''input'')\<lparr>fr_log := True\<rparr>)))
   \<and> valid_net (''fe80::1%x'' @ nl @ ''flush ruleset #'')
   \<and> ''flush ruleset # accept'' \<in> set (splitlines (convert_rule_to_nft
       ((plain_rule 1 ''x'' ''input'')\<lparr>fr_source := Some (''fe80::1%x'' @ nl @ ''flush ruleset #'')\<rparr>)))"
  by code_simp

lemma ip_address_valid_net:
  assumes "ip_address a = Some i" "CHR ''/'' \<notin> set a"
  shows "valid_net a"
proof -
  have m: "split_mask a = Some (a, None)" using assms(2) by (simp add: split_mask_def)
  have n: "net4_of False v 32 \<noteq> None" "net6_of False w sc 128 \<noteq> None" for v w sc
    by (auto simp: net4_of_def net6_of_def)
  show ?thesis
    using assms(1) n by (auto simp: valid_net_def ip_address_def ip_network_def addr_prefix4_def
        addr_prefix6_def m split: option.splits)
qed

lemma invalid_net_conds:
  assumes "\<not> valid_net a"
  shows "addr_cond f d (Some a) = []" "ip_family (Some a) = ip_family None"
proof -
  show "addr_cond f d (Some a) = []" using assms by (simp add: addr_cond_def)
  show "ip_family (Some a) = ip_family None"
    using assms ip_address_valid_net[of a] by (auto simp: ip_family_def valid_net_def split: option.splits)
qed

text \<open>A source or destination that is not an address or network is not an error: the rule renders
  as if it had no such condition, so an accept rule for an address range accepts every source.\<close>

theorem invalid_address_widens:
  "\<not> valid_net a \<Longrightarrow>
     convert_rule_to_nft (r\<lparr>fr_source := Some a\<rparr>) = convert_rule_to_nft (r\<lparr>fr_source := None\<rparr>)
     \<and> convert_rule_to_nft (r\<lparr>fr_destination := Some a\<rparr>) = convert_rule_to_nft (r\<lparr>fr_destination := None\<rparr>)"
  using invalid_net_conds[of a]
  by (cases r) (simp add: convert_rule_to_nft_def rule_conditions_def rule_verdict_def addr_cond_def Let_def)

theorem invalid_address_widens_witness:
  "\<not> valid_net ''10.0.0.1-10.0.0.9''
   \<and> convert_rule_to_nft ((plain_rule 1 ''mgmt'' ''input'')\<lparr>fr_source := Some ''10.0.0.1-10.0.0.9''\<rparr>)
       = indent @ ''accept'' @ nl"
proof -
  have v: "\<not> valid_net ''10.0.0.1-10.0.0.9''" by code_simp
  have "convert_rule_to_nft ((plain_rule 1 ''mgmt'' ''input'')\<lparr>fr_source := None\<rparr>) = indent @ ''accept'' @ nl"
    by code_simp
  with invalid_address_widens[OF v] v show ?thesis by simp
qed

end
