(* ===== verification/Nft_Render.thy ===== *)
theory Nft_Render
  imports Nft_Rule
begin

text \<open>
  \<open>nft.py\<close> of the firewall agent, second part: the renderer of \<open>table inet viswall\<close>, chain by
  chain, as the lists of lines the code joins. The generation time in the header and the value of
  \<open>VALIDATION_MODE\<close> are parameters. The text constants are the code's, with the em dash of two
  comments as its UTF-8 bytes.
\<close>

section \<open>Helpers of the renderer\<close>

definition parse_addr_family :: "string \<Rightarrow> string option" where
  "parse_addr_family addr =
     (case ip_address addr of
        Some i \<Rightarrow> Some (if is_v6_addr i then ''ip6'' else ''ip'')
      | None \<Rightarrow> (case ip_network False addr of
          None \<Rightarrow> None
        | Some n \<Rightarrow> Some (if is_v6_net n then ''ip6'' else ''ip'')))"

fun port_key :: "port_spec \<Rightarrow> int" where
  "port_key (Port p) = p"
| "port_key (Port_Range a b) = a"

fun port_str :: "port_spec \<Rightarrow> string" where
  "port_str (Port p) = string_of_int p"
| "port_str (Port_Range a b) = string_of_int a @ ''-'' @ string_of_int b"

definition port_set :: "port_spec list \<Rightarrow> string" where
  "port_set ports = ''{'' @ join '', '' (map port_str (sort_key port_key ports)) @ ''}''"

definition feeds_meter :: "string \<Rightarrow> int \<Rightarrow> string \<Rightarrow> fw_rule \<Rightarrow> bool" where
  "feeds_meter proto port family r \<longleftrightarrow>
     in_chain ''input'' r \<and> protocol_is proto r
     \<and> fr_destination_port r = Some port \<and> truthy_str (fr_limit r)
     \<and> endswith (lower (fr_name r)) ''_v6'' = (family = ''ip6'')
     \<and> valid_limit (or_empty (fr_limit r))"

definition default_rate :: "string \<Rightarrow> int \<Rightarrow> string" where
  "default_rate proto port = (case map_of meter_specs (proto, port) of None \<Rightarrow> [] | Some (n, d) \<Rightarrow> d)"

definition meter_rate :: "fw_rule list \<Rightarrow> string \<Rightarrow> int \<Rightarrow> string \<Rightarrow> string" where
  "meter_rate rules proto port family =
     (case List.find (feeds_meter proto port family) rules of
        Some r \<Rightarrow> or_empty (fr_limit r) | None \<Rightarrow> default_rate proto port)"

definition with_burst :: "string \<Rightarrow> string" where
  "with_burst limit = (if contains '' burst '' limit then limit else limit @ default_burst)"

definition loopback_ports :: "fw_rule list \<Rightarrow> int list" where
  "loopback_ports rules =
     sort (remdups (List.map_filter fr_destination_port (filter is_loopback_guard rules)))"

definition internal_ports :: "fw_rule list \<Rightarrow> int list" where
  "internal_ports rules =
     (let ports = sort (remdups (List.map_filter fr_destination_port
            (filter (\<lambda>r. in_chain ''forward'' r \<and> protocol_is ''tcp'' r
                       \<and> truthy_int (fr_destination_port r) \<and> is_internal_port r) rules))) in
      if ports \<noteq> [] then ports else default_internal_ports)"

text \<open>
  \<open>_BRIDGE_VIA_RE.search\<close>: the leftmost word \<open>via\<close> that starts at a word boundary and is
  followed by white space and a token; the token is the result.
\<close>

definition via_token :: "string \<Rightarrow> string option" where
  "via_token s =
     (case Option.bind (eat_word ''via'' s) eat_spaces1 of
        None \<Rightarrow> None
      | Some r \<Rightarrow> (let t = takeWhile (\<lambda>c. \<not> is_space c) r in if t = [] then None else Some t))"

fun search_via :: "bool \<Rightarrow> string \<Rightarrow> string option" where
  "search_via after_word [] = None"
| "search_via after_word (c # cs) =
     (case (if after_word then None else via_token (c # cs)) of
        Some t \<Rightarrow> Some t | None \<Rightarrow> search_via (word_char c) cs)"

definition anti_spoof_bridge :: "fw_rule \<Rightarrow> string option" where
  "anti_spoof_bridge r =
     (if truthy_str (fr_interface_in r) \<and> safe_ifname (or_empty (fr_interface_in r)) then fr_interface_in r
      else (case search_via False (fr_name r) of
          None \<Rightarrow> None
        | Some t \<Rightarrow> if safe_ifname t then Some t else None))"

definition anti_spoof_line :: "fw_rule \<Rightarrow> string option" where
  "anti_spoof_line r =
     (if \<not> in_chain ''forward'' r \<or> \<not> is_anti_spoof r then None
      else (case anti_spoof_bridge r of
          None \<Rightarrow> None
        | Some bridge \<Rightarrow>
            (if \<not> truthy_str (fr_destination r) then None
             else map_option (\<lambda>family. indent @ ''iifname != '' @ dq @ bridge @ dq @ '' '' @ family
                    @ '' daddr '' @ or_empty (fr_destination r) @ '' drop'')
                  (parse_addr_family (or_empty (fr_destination r))))))"

definition anti_spoof_lines :: "fw_rule list \<Rightarrow> string list" where
  "anti_spoof_lines rules = List.map_filter anti_spoof_line rules"

text \<open>Rules with a dedicated section are left out of the generic pass over a chain.\<close>

definition dedicated :: "string \<Rightarrow> fw_rule \<Rightarrow> bool" where
  "dedicated chain r \<longleftrightarrow>
     chain = ''input'' \<and> (is_loopback_guard r \<or> is_managed_meter r)
     \<or> chain = ''forward'' \<and> (is_anti_spoof r \<or> in_chain ''forward'' r \<and> is_internal_port r)"

definition user_rules :: "fw_rule list \<Rightarrow> string \<Rightarrow> string list" where
  "user_rules rules chain =
     map (\<lambda>r. rstrip_char newline (convert_rule_to_nft r))
       (filter (\<lambda>r. in_chain chain r \<and> \<not> dedicated chain r) (sort_key fr_order rules))"

section \<open>Chains\<close>

definition emdash :: string where "emdash = [CHR 0xE2, CHR 0x80, CHR 0x94]"

definition render_header :: "string \<Rightarrow> string" where
  "render_header now =
     ''#!/usr/sbin/nft -f'' @ nl @ nl
     @ ''# Viswall Firewall Configuration (docker-safe renderer)'' @ nl
     @ ''# Generated: '' @ now @ nl
     @ ''# Replaces ONLY `table inet viswall`; Docker keeps its own tables.'' @ nl @ nl"

definition meter_lines :: "fw_rule list \<Rightarrow> (string \<times> int) \<times> (string \<times> string) \<Rightarrow> string list" where
  "meter_lines rules spec =
     (case spec of ((proto, port), (name, d)) \<Rightarrow>
        [indent @ ''meta nfproto ipv4 '' @ proto @ '' dport '' @ string_of_int port @ '' meter '' @ name
           @ '' { ip saddr limit rate over '' @ with_burst (meter_rate rules proto port ''ip'') @ '' } drop'',
         indent @ ''meta nfproto ipv6 '' @ proto @ '' dport '' @ string_of_int port @ '' meter '' @ name
           @ ''_v6 { ip6 saddr limit rate over '' @ with_burst (meter_rate rules proto port ''ip6'') @ '' } drop''])"

definition mgmt_ports :: "string \<Rightarrow> bool \<Rightarrow> port_spec list" where
  "mgmt_ports proto v6 = map snd (filter (\<lambda>e. fst e = proto \<and> (v6 \<longrightarrow> e \<in> set v6_open)) mgmt_accepts)"

definition conntrack_accept :: string where
  "conntrack_accept = indent @ ''ct state established,related accept''"

text \<open>The lines of the input chain before and after the user rules.\<close>

definition input_head :: "fw_rule list \<Rightarrow> bool \<Rightarrow> string list" where
  "input_head rules conntrack =
     [''    chain input {'', indent @ ''type filter hook input priority -200; policy drop;'']
     @ (if conntrack then [indent @ ''# Connection tracking'', conntrack_accept] else [])
     @ [indent @ ''# Blacklist (host INPUT only, pre-accept precedence)'',
        indent @ ''ip saddr @blacklist_v4 drop'',
        indent @ ''ip6 saddr @blacklist_v6 drop'',
        indent @ ''# Loopback'',
        indent @ ''iif '' @ dq @ ''lo'' @ dq @ '' accept'',
        indent @ ''# ICMP / ICMPv6 rate limited (deliberate addition '' @ emdash
          @ '' live drops all icmp; parity rows A05/A06)'',
        indent @ ''ip protocol icmp limit rate 5/second accept'',
        indent @ ''ip6 nexthdr icmpv6 limit rate 5/second accept'']
     @ concat (map (meter_lines rules) meter_specs)
     @ [indent @ ''meta nfproto ipv4 tcp dport '' @ port_set (mgmt_ports ''tcp'' False) @ '' accept'',
        indent @ ''meta nfproto ipv4 udp dport '' @ port_set (mgmt_ports ''udp'' False) @ '' accept'',
        indent @ ''meta nfproto ipv6 tcp dport '' @ port_set (mgmt_ports ''tcp'' True) @ '' accept'',
        indent @ ''meta nfproto ipv6 udp dport '' @ port_set (mgmt_ports ''udp'' True) @ '' accept'',
        indent @ ''# Container bridges (docker coexistence) '' @ emdash @ '' live INPUT accepts docker0 only'',
        indent @ ''iifname '' @ dq @ ''docker0'' @ dq @ '' accept'',
        indent @ ''iifname '' @ dq @ ''docker0'' @ dq @ '' tcp dport {8081, 8083, 8085} accept'',
        indent @ ''iifname '' @ dq @ ''br-*'' @ dq @ '' tcp dport {8081, 8083, 8085} accept'',
        indent @ ''# PostgreSQL never exposed'',
        indent @ ''tcp dport 5432 drop'']"

definition input_tail :: "bool \<Rightarrow> bool \<Rightarrow> string list" where
  "input_tail conntrack logging =
     (if conntrack then [indent @ ''ct state invalid drop''] else [])
     @ (if logging then [indent @ ''log prefix '' @ dq @ ''FIREWALL-DROP: '' @ dq @ '' limit rate 5/minute drop'']
        else [indent @ ''drop''])
     @ [''    }'']"

definition validation_chain :: "string \<Rightarrow> string \<Rightarrow> string list" where
  "validation_chain chain hook =
     [''    chain '' @ chain @ '' {'',
      indent @ ''type filter hook '' @ hook @ ''; policy accept;'',
      indent @ ''log prefix '' @ dq @ ''VW-VALIDATION: '' @ chain @ '' '' @ dq @ '' limit rate 10/minute accept'',
      ''    }'']"

definition input_lines :: "bool \<Rightarrow> fw_rule list \<Rightarrow> bool \<Rightarrow> bool \<Rightarrow> string list" where
  "input_lines validation rules conntrack logging =
     (if validation then validation_chain ''input'' ''input priority -200''
      else input_head rules conntrack @ user_rules rules ''input'' @ input_tail conntrack logging)"

definition render_input :: "bool \<Rightarrow> fw_rule list \<Rightarrow> bool \<Rightarrow> bool \<Rightarrow> string" where
  "render_input validation rules conntrack logging = join nl (input_lines validation rules conntrack logging)"

definition prerouting_lines :: "fw_rule list \<Rightarrow> string list" where
  "prerouting_lines rules =
     (let loop = loopback_ports rules; spoof = anti_spoof_lines rules in
      if loop = [] \<and> spoof = [] then []
      else [''    chain raw_prerouting {'', indent @ ''type filter hook prerouting priority -300; policy accept;'']
        @ (if loop \<noteq> [] then
             [indent @ ''# Loopback guards (live raw PREROUTING: -d 127.0.0.1/32 ! -i lo)'',
              indent @ ''iifname != '' @ dq @ ''lo'' @ dq @ '' ip daddr 127.0.0.1 tcp dport ''
                @ port_set (map Port loop) @ '' drop''] else [])
        @ (if spoof \<noteq> [] then
             (indent @ ''# Container-IP anti-spoof drops (live raw PREROUTING)'') # spoof else [])
        @ [''    }''])"

definition render_prerouting :: "bool \<Rightarrow> fw_rule list \<Rightarrow> string" where
  "render_prerouting validation rules = (if validation then [] else join nl (prerouting_lines rules))"

definition internal_drop :: "int list \<Rightarrow> string \<Rightarrow> string" where
  "internal_drop ports wan =
     indent @ ''iifname '' @ dq @ wan @ dq
     @ '' meta l4proto tcp ct direction original ct original proto-dst '' @ port_set (map Port ports) @ '' drop''"

definition forward_head :: "fw_rule list \<Rightarrow> string list \<Rightarrow> bool \<Rightarrow> string list" where
  "forward_head rules wan_ifaces conntrack =
     [''    chain forward {'', indent @ ''type filter hook forward priority -150; policy drop;'']
     @ (if conntrack then [conntrack_accept] else [])
     @ [indent @ ''# DOCKER-USER replacement: external access to internal ports'']
     @ map (internal_drop (internal_ports rules)) (if wan_ifaces \<noteq> [] then wan_ifaces else [default_wan])
     @ [indent @ ''# Container bridge traffic (docker coexistence)'',
        indent @ ''iifname '' @ dq @ ''docker0'' @ dq @ '' accept'',
        indent @ ''oifname '' @ dq @ ''docker0'' @ dq @ '' accept'',
        indent @ ''iifname '' @ dq @ ''br-*'' @ dq @ '' accept'',
        indent @ ''oifname '' @ dq @ ''br-*'' @ dq @ '' accept'']"

definition forward_lines :: "bool \<Rightarrow> fw_rule list \<Rightarrow> string list \<Rightarrow> bool \<Rightarrow> string list" where
  "forward_lines validation rules wan_ifaces conntrack =
     (if validation then validation_chain ''forward'' ''forward priority -150''
      else forward_head rules wan_ifaces conntrack @ user_rules rules ''forward''
           @ [indent @ ''accept'', ''    }''])"

definition render_forward :: "bool \<Rightarrow> fw_rule list \<Rightarrow> string list \<Rightarrow> bool \<Rightarrow> string" where
  "render_forward validation rules wan_ifaces conntrack =
     join nl (forward_lines validation rules wan_ifaces conntrack)"

definition output_lines :: "bool \<Rightarrow> bool \<Rightarrow> string list" where
  "output_lines validation conntrack =
     (if validation then validation_chain ''output'' ''output priority -200''
      else [''    chain output {'', indent @ ''type filter hook output priority -200; policy accept;'']
           @ (if conntrack then [conntrack_accept] else []) @ [''    }''])"

definition render_output :: "bool \<Rightarrow> bool \<Rightarrow> string" where
  "render_output validation conntrack = join nl (output_lines validation conntrack)"

definition nat_line :: "nat_rule \<Rightarrow> string list" where
  "nat_line r = (let l = rstrip_char newline (convert_nat_rule_to_nft r) in if l \<noteq> [] then [l] else [])"

definition target_usable :: "string option \<Rightarrow> bool" where
  "target_usable t \<longleftrightarrow> truthy_str t \<and> valid_to_addr (or_empty t)"

definition dnat_lines :: "nat_rule \<Rightarrow> string list" where
  "dnat_lines r = (if nr_type r = ''dnat'' \<and> target_usable (nr_to_destination r) then nat_line r else [])"

definition postrouting_lines :: "nat_rule \<Rightarrow> string list" where
  "postrouting_lines r =
     (if nr_type r = ''snat'' \<and> target_usable (nr_to_source r) then nat_line r
      else if nr_type r = ''masquerade'' then
        [indent @ ''# masquerade skipped (docker owns NAT): '' @ nr_name r]
      else [])"

definition render_nat :: "nat_rule list \<Rightarrow> string" where
  "render_nat nat_rules = join nl (
     [''    chain prerouting {'', indent @ ''type nat hook prerouting priority -110; policy accept;'']
     @ concat (map dnat_lines nat_rules) @ [''    }'']
     @ [''    chain postrouting {'', indent @ ''type nat hook postrouting priority 90; policy accept;'']
     @ concat (map postrouting_lines nat_rules) @ [''    }''])"

definition blacklist_sets :: string where
  "blacklist_sets =
     ''    set blacklist_v4 {'' @ nl @ indent @ ''type ipv4_addr'' @ nl @ indent @ ''flags timeout'' @ nl @ ''    }'' @ nl
     @ ''    set blacklist_v6 {'' @ nl @ indent @ ''type ipv6_addr'' @ nl @ indent @ ''flags timeout'' @ nl @ ''    }'' @ nl"

text \<open>An interface of the payload is a dictionary; \<open>None\<close> is an absent key.\<close>

record iface =
  if_name :: "string option"
  if_type :: "string option"

definition wan_names :: "iface list \<Rightarrow> string list" where
  "wan_names ifs = map (\<lambda>i. or_empty (if_name i))
     (filter (\<lambda>i. if_type i = Some ''wan'' \<and> safe_ifname (or_empty (if_name i))) ifs)"

definition generate_ruleset :: "bool \<Rightarrow> string \<Rightarrow> iface list \<Rightarrow> fw_rule list \<Rightarrow> nat_rule list \<Rightarrow>
    bool \<Rightarrow> bool \<Rightarrow> string" where
  "generate_ruleset validation now ifs rules nat_rules logging conntrack =
     join nl (
       [render_header now, ''table inet viswall {'', blacklist_sets,
        render_prerouting validation rules,
        render_input validation rules conntrack logging,
        render_forward validation rules (wan_names ifs) conntrack,
        render_output validation conntrack]
       @ (if nat_rules \<noteq> [] \<and> \<not> validation then [render_nat nat_rules] else [])
       @ [''}'']) @ nl"

end
