(* ===== verification/Nft_Render_Props.thy ===== *)
theory Nft_Render_Props
  imports Nft_Render "HOL-Library.Multiset"
begin

text \<open>
  What the rendered ruleset guarantees: the meters keep a well-formed rate, mandatory lines come
  before every user rule, the validation ruleset never drops, user content adds no line, and which
  rules a ruleset leaves out.
\<close>

section \<open>Meter rates\<close>

lemma eat_digits_append:
  "eat_digits s = Some r \<Longrightarrow> r \<noteq> [] \<Longrightarrow> eat_digits (s @ x) = Some (r @ x)"
  by (cases s) (auto simp: eat_digits_def dropWhile_append split: if_splits)

lemma dropWhile_spaces_append:
  "dropWhile is_space s \<noteq> [] \<Longrightarrow> dropWhile is_space (s @ x) = dropWhile is_space s @ x"
  by (auto simp: dropWhile_append)

lemma eat_word_append: "eat_word w s = Some r \<Longrightarrow> eat_word w (s @ x) = Some (r @ x)"
  by (auto simp: eat_word_def startswith_iff split: if_splits)

lemma eat_word_Some: "eat_word w s = Some r \<longleftrightarrow> s = w @ r"
  by (auto simp: eat_word_def startswith_iff split: if_splits)

lemma eat_unit_Some: "eat_unit s = Some r \<longleftrightarrow> s \<in> {u @ r | u. u \<in> {''second'', ''minute'', ''hour'', ''day''}}"
  by (auto simp: eat_unit_def eat_word_def startswith_iff split: if_splits)

lemma eat_unit_append: "eat_unit s = Some r \<Longrightarrow> eat_unit (s @ x) = Some (r @ x)"
  unfolding eat_unit_Some by auto

definition limit_rest :: "string \<Rightarrow> string option" where
  "limit_rest s = Option.bind (eat_digits s) (\<lambda>s. Option.bind (eat_word ''/'' (dropWhile is_space s))
             (\<lambda>s. eat_unit (dropWhile is_space s)))"

lemma valid_limit_rest:
  "valid_limit s \<longleftrightarrow> (case limit_rest s of None \<Rightarrow> False | Some r \<Rightarrow> r = [] \<or> burst_clause r)"
  by (simp add: valid_limit_def limit_rest_def)

lemma limit_rest_append:
  assumes "limit_rest s = Some r"
  shows "limit_rest (s @ x) = Some (r @ x)"
proof -
  from assms obtain a b where
    a: "eat_digits s = Some a" and b: "eat_word ''/'' (dropWhile is_space a) = Some b"
    and c: "eat_unit (dropWhile is_space b) = Some r"
    by (auto simp: limit_rest_def bind_eq_Some_conv)
  have "dropWhile is_space a \<noteq> []" using b by (auto simp: eat_word_Some simp del: dropWhile_eq_Nil_conv)
  moreover have "dropWhile is_space b \<noteq> []" using c by (auto simp: eat_unit_Some simp del: dropWhile_eq_Nil_conv)
  moreover have "a \<noteq> []" using \<open>dropWhile is_space a \<noteq> []\<close> by auto
  ultimately show ?thesis
    using eat_digits_append[OF a] eat_word_append[OF b] eat_unit_append[OF c]
    by (simp add: limit_rest_def dropWhile_spaces_append)
qed

lemma limit_rest_suffix: "limit_rest s = Some r \<Longrightarrow> \<exists>p. s = p @ r"
proof -
  assume "limit_rest s = Some r"
  then obtain a b where "a = dropWhile is_digit s" "dropWhile is_space a = ''/'' @ b"
    "\<exists>u. dropWhile is_space b = u @ r"
    by (auto simp: limit_rest_def bind_eq_Some_conv eat_digits_def eat_word_Some eat_unit_Some split: if_splits)
  then show ?thesis by (metis append.assoc takeWhile_dropWhile_id)
qed

lemma spaced_burst:
  assumes "burst_clause r" "\<forall>c\<in>set r. is_space c \<longrightarrow> c = CHR '' ''"
  shows "contains '' burst '' r"
proof -
  from assms(1) obtain a b c where
    a: "eat_spaces1 r = Some a" and b: "a = ''burst'' @ b" and c: "eat_spaces1 b = Some c"
    by (auto simp: burst_clause_def bind_eq_Some_conv eat_word_Some)
  have r: "r = takeWhile is_space r @ ''burst'' @ b"
    using a b by (metis eat_spaces1_def option.inject option.simps(3) takeWhile_dropWhile_id)
  have "takeWhile is_space r \<noteq> []"
    using a by (cases r) (auto simp: eat_spaces1_def split: if_splits)
  then obtain p where p: "takeWhile is_space r = p @ [last (takeWhile is_space r)]"
    by (metis append_butlast_last_id)
  have "is_space (last (takeWhile is_space r))" "last (takeWhile is_space r) \<in> set r"
    using \<open>takeWhile is_space r \<noteq> []\<close> by (meson last_in_set set_takeWhileD)+
  then have sp: "takeWhile is_space r = p @ '' ''" using p assms(2) by auto
  obtain h t where h: "b = h # t" "is_space h" using c by (cases b) (auto simp: eat_spaces1_def split: if_splits)
  then have "h = CHR '' ''" using r assms(2) by (metis in_set_conv_decomp Un_iff set_append)
  then have "r = p @ '' burst '' @ t" using r sp h by simp
  then show ?thesis by (auto simp: contains_iff)
qed

lemma default_burst_clause: "burst_clause default_burst" by code_simp

lemma with_burst_valid:
  assumes "valid_limit l" "\<forall>c\<in>set l. is_space c \<longrightarrow> c = CHR '' ''"
  shows "valid_limit (with_burst l)"
proof -
  from assms(1) obtain r where r: "limit_rest l = Some r" "r = [] \<or> burst_clause r"
    by (auto simp: valid_limit_rest split: option.splits)
  show ?thesis
  proof (cases "r = []")
    case True
    then show ?thesis
      using limit_rest_append[OF r(1), of default_burst] assms(1) default_burst_clause
      by (simp add: with_burst_def valid_limit_rest)
  next
    case False
    obtain p where "l = p @ r" using limit_rest_suffix[OF r(1)] by blast
    then have "\<forall>c\<in>set r. is_space c \<longrightarrow> c = CHR '' ''" using assms(2) by simp
    then obtain a b where "r = a @ '' burst '' @ b"
      using False r(2) spaced_burst unfolding contains_iff by blast
    then have "l = (p @ a) @ '' burst '' @ b" using \<open>l = p @ r\<close> by simp
    then have "contains '' burst '' l" unfolding contains_iff by blast
    then show ?thesis using assms(1) by (simp add: with_burst_def)
  qed
qed

lemma default_rates_valid:
  "((proto, port), v) \<in> set meter_specs \<Longrightarrow> valid_limit (default_rate proto port)
     \<and> (\<forall>c\<in>set (default_rate proto port). is_space c \<longrightarrow> c = CHR '' '')"
proof -
  have "list_all (\<lambda>e. valid_limit (default_rate (fst (fst e)) (snd (fst e)))
     \<and> list_all (\<lambda>c. is_space c \<longrightarrow> c = CHR '' '') (default_rate (fst (fst e)) (snd (fst e)))) meter_specs"
    by code_simp
  moreover assume "((proto, port), v) \<in> set meter_specs"
  ultimately show ?thesis by (auto simp: list_all_iff)
qed

text \<open>Every managed port keeps a meter with a well-formed limit that has a burst clause, whatever
  the rules are: a row overrides the default rate only with a limit the validator accepts, and the
  default burst is added exactly when the limit has none (limits whose white space is blanks).\<close>

theorem meter_rate_well_formed:
  "((proto, port), v) \<in> set meter_specs \<Longrightarrow>
   (\<forall>r\<in>set rules. \<forall>c\<in>set (or_empty (fr_limit r)). is_space c \<longrightarrow> c = CHR '' '') \<Longrightarrow>
     valid_limit (meter_rate rules proto port family)
     \<and> valid_limit (with_burst (meter_rate rules proto port family))
     \<and> contains '' burst '' (with_burst (meter_rate rules proto port family))"
proof -
  assume spec: "((proto, port), v) \<in> set meter_specs"
    and sp: "\<forall>r\<in>set rules. \<forall>c\<in>set (or_empty (fr_limit r)). is_space c \<longrightarrow> c = CHR '' ''"
  have "valid_limit (meter_rate rules proto port family)
      \<and> (\<forall>c\<in>set (meter_rate rules proto port family). is_space c \<longrightarrow> c = CHR '' '')"
  proof (cases "List.find (feeds_meter proto port family) rules")
    case None
    then show ?thesis using default_rates_valid[OF spec] by (simp add: meter_rate_def)
  next
    case (Some r)
    then have "r \<in> set rules" "valid_limit (or_empty (fr_limit r))"
      using find_SomeE[OF Some] by (auto simp: feeds_meter_def)
    with sp Some show ?thesis by (auto simp: meter_rate_def)
  qed
  moreover have "contains '' burst '' (l @ default_burst)" for l
    unfolding contains_iff by (intro exI[of _ l] exI[of _ "''5 packets''"]) (simp add: default_burst_def)
  ultimately show ?thesis using with_burst_valid by (auto simp: with_burst_def)
qed

definition ssh_row :: fw_rule where
  "ssh_row = (plain_rule 4 ''ssh_limit'' ''INPUT'')\<lparr>fr_protocol := Some ''TCP'',
     fr_destination_port := Some 22, fr_limit := Some ''3/minute'', fr_action := A_DROP\<rparr>"

theorem meter_rate_well_formed_witness:
  "meter_rate [ssh_row] ''tcp'' 22 ''ip'' = ''3/minute''
   \<and> meter_rate [ssh_row] ''tcp'' 22 ''ip6'' = ''10/minute''
   \<and> valid_limit (with_burst (meter_rate [ssh_row] ''tcp'' 22 ''ip''))"
proof -
  have spec: "((''tcp'', 22), (''ssh_limit'', ''10/minute'')) \<in> set meter_specs" by (simp add: meter_specs_def)
  have "\<forall>r\<in>set [ssh_row]. \<forall>c\<in>set (or_empty (fr_limit r)). is_space c \<longrightarrow> c = CHR '' ''" by code_simp
  from meter_rate_well_formed[OF spec this, of "''ip''"] show ?thesis
    by (intro conjI) (code_simp, code_simp, simp)
qed

text \<open>The burst test looks for the word between two blanks, but the limit validator accepts any
  white space: a limit whose burst clause is separated by a tab gets a second burst clause.\<close>

theorem with_burst_duplicates:
  "valid_limit (''10/minute'' @ [CHR 0x09] @ ''burst 5 packets'')
   \<and> with_burst (''10/minute'' @ [CHR 0x09] @ ''burst 5 packets'')
       = ''10/minute'' @ [CHR 0x09] @ ''burst 5 packets burst 5 packets''
   \<and> \<not> valid_limit (with_burst (''10/minute'' @ [CHR 0x09] @ ''burst 5 packets''))"
  by code_simp

section \<open>Order of the lines\<close>

text \<open>
  nftables evaluates a chain from top to bottom and the first line that gives a verdict decides.
  What a line says about a packet is the tool's business, so \<open>sem\<close> is a parameter:
  \<open>sem line packet\<close> is the verdict of the line (\<open>True\<close> accepts) or \<open>None\<close> when it does not match.
\<close>

fun first_verdict :: "(string \<Rightarrow> 'p \<Rightarrow> bool option) \<Rightarrow> 'p \<Rightarrow> string list \<Rightarrow> bool option" where
  "first_verdict sem p [] = None"
| "first_verdict sem p (l # ls) = (case sem l p of Some v \<Rightarrow> Some v | None \<Rightarrow> first_verdict sem p ls)"

lemma first_verdict_append:
  "first_verdict sem p (xs @ ys) =
     (case first_verdict sem p xs of Some v \<Rightarrow> Some v | None \<Rightarrow> first_verdict sem p ys)"
  by (induction xs) (auto split: option.splits)

lemma first_verdict_decided:
  "l \<in> set ls \<Longrightarrow> sem l p = Some v \<Longrightarrow> \<forall>l\<in>set ls. sem l p \<noteq> Some (\<not> v) \<Longrightarrow> first_verdict sem p ls = Some v"
  by (induction ls) (auto split: option.splits)

lemma first_verdict_None: "first_verdict sem p ls = None \<longleftrightarrow> (\<forall>l\<in>set ls. sem l p = None)"
  by (induction ls) (auto split: option.splits)

definition ssh_accept :: string where
  "ssh_accept = indent @ ''meta nfproto ipv4 tcp dport '' @ port_set (mgmt_ports ''tcp'' False) @ '' accept''"

lemma ssh_accept_ports:
  "port_set (mgmt_ports ''tcp'' False) = ''{22, 25, 53, 80, 110, 143, 443, 993, 995, 21114-21119}''"
  "port_set (mgmt_ports ''udp'' False) = ''{53, 21116, 51820}''"
  "port_set (mgmt_ports ''tcp'' True) = ''{22, 80, 443}''"
  "port_set (mgmt_ports ''udp'' True) = ''{51820}''"
  by code_simp+

text \<open>C11: no user rule can lock the administrator out or override the mandatory lines: a packet that the
  IPv4 management accept line accepts and no blacklist, meter or other mandatory line drops is
  accepted by the rendered input chain, and any packet some mandatory line decides gets that
  decision, whatever rules follow.\<close>

theorem mandatory_lines_first:
  "(sem ssh_accept p = Some True \<longrightarrow> (\<forall>l\<in>set (input_head rules conntrack). sem l p \<noteq> Some False) \<longrightarrow>
      first_verdict sem p (input_lines False rules conntrack logging) = Some True)
   \<and> (first_verdict sem p (input_head rules conntrack) = Some v \<longrightarrow>
      first_verdict sem p (input_lines False rules conntrack logging) = Some v)"
proof -
  have "ssh_accept \<in> set (input_head rules conntrack)"
    by (simp add: input_head_def ssh_accept_def)
  from first_verdict_decided[OF this, of sem p True] show ?thesis
    by (auto simp: input_lines_def first_verdict_append)
qed

text \<open>A line semantics for the witness: only the management line and a final drop give a verdict.\<close>

definition toy_sem :: "string \<Rightarrow> unit \<Rightarrow> bool option" where
  "toy_sem l p = (if l = ssh_accept then Some True
                  else if endswith l ''\" limit rate 5/minute drop'' then Some False else None)"

theorem mandatory_lines_first_witness:
  "first_verdict toy_sem () (input_lines False [(plain_rule 9 ''deny all'' ''input'')\<lparr>fr_action := A_DROP\<rparr>] True True) = Some True"
proof -
  have "toy_sem ssh_accept () = Some True" by (simp add: toy_sem_def)
  moreover have "list_all (\<lambda>l. toy_sem l () \<noteq> Some False)
      (input_head [(plain_rule 9 ''deny all'' ''input'')\<lparr>fr_action := A_DROP\<rparr>] True)" by code_simp
  ultimately show ?thesis
    using mandatory_lines_first[of toy_sem "()" "[(plain_rule 9 ''deny all'' ''input'')\<lparr>fr_action := A_DROP\<rparr>]" True True]
    by (simp add: list_all_iff)
qed

text \<open>The input chain denies by default: a packet that no mandatory line, no user rule and no
  invalid-state line decides is dropped, given that the closing drop line (with or without logging)
  drops every packet that reaches it.\<close>

theorem input_default_deny:
  "sem (indent @ ''log prefix '' @ dq @ ''FIREWALL-DROP: '' @ dq @ '' limit rate 5/minute drop'') p = Some False \<Longrightarrow>
   sem (indent @ ''drop'') p = Some False \<Longrightarrow>
   (\<forall>l\<in>set (input_head rules conntrack @ user_rules rules ''input''). sem l p = None) \<Longrightarrow>
   sem (indent @ ''ct state invalid drop'') p \<noteq> Some True \<Longrightarrow>
     first_verdict sem p (input_lines False rules conntrack logging) = Some False"
proof -
  assume d: "sem (indent @ ''log prefix '' @ dq @ ''FIREWALL-DROP: '' @ dq @ '' limit rate 5/minute drop'') p = Some False"
      "sem (indent @ ''drop'') p = Some False"
    and none: "\<forall>l\<in>set (input_head rules conntrack @ user_rules rules ''input''). sem l p = None"
    and inv: "sem (indent @ ''ct state invalid drop'') p \<noteq> Some True"
  have "first_verdict sem p (input_tail conntrack logging) = Some False"
    using d inv unfolding input_tail_def by (auto simp only: first_verdict.simps append.simps if_True if_False
        first_verdict_append split: option.splits if_splits)
  moreover have "first_verdict sem p (input_head rules conntrack @ user_rules rules ''input'') = None"
    using none by (simp add: first_verdict_None)
  ultimately show ?thesis
    by (simp add: input_lines_def first_verdict_append split: option.splits)
qed

theorem input_default_deny_witness:
  "first_verdict (\<lambda>l p. if endswith l ''drop'' \<and> \<not> contains ''dport'' l \<and> \<not> contains ''blacklist'' l
       then Some False else None) () (input_lines False [] False True) = Some False"
proof -
  let ?sem = "\<lambda>l (p :: unit). if endswith l ''drop'' \<and> \<not> contains ''dport'' l \<and> \<not> contains ''blacklist'' l
       then Some False else None"
  have "list_all (\<lambda>l. ?sem l () = None) (input_head [] False @ user_rules [] ''input'')" by code_simp
  then have none: "\<forall>l\<in>set (input_head [] False @ user_rules [] ''input''). ?sem l () = None"
    by (simp add: list_all_iff)
  show ?thesis
    by (rule input_default_deny[where sem = ?sem, OF _ _ none]) (code_simp, code_simp, simp)
qed

text \<open>The lines of the forward chain up to the internal-port lines.\<close>

definition shield_lines :: "fw_rule list \<Rightarrow> string list \<Rightarrow> bool \<Rightarrow> string list" where
  "shield_lines rules wans conntrack =
     [''    chain forward {'', indent @ ''type filter hook forward priority -150; policy drop;'']
     @ (if conntrack then [conntrack_accept] else [])
     @ [indent @ ''# DOCKER-USER replacement: external access to internal ports'']
     @ map (internal_drop (internal_ports rules)) (if wans \<noteq> [] then wans else [default_wan])"

lemma forward_lines_shield:
  "\<exists>rest. forward_lines False rules wans conntrack = shield_lines rules wans conntrack @ rest"
  by (simp add: forward_lines_def forward_head_def shield_lines_def)



section \<open>Validation mode\<close>

definition validation_body :: string where
  "validation_body = join nl [''table inet viswall {'', blacklist_sets, [],
     join nl (validation_chain ''input'' ''input priority -200''),
     join nl (validation_chain ''forward'' ''forward priority -150''),
     join nl (validation_chain ''output'' ''output priority -200''), ''}''] @ nl"

text \<open>In validation mode the ruleset is one fixed pass-through text: it does not depend on interfaces,
  firewall rules, NAT rules or the logging and tracking switches, every chain policy is accept, and
  the words drop, reject and meter do not occur after the header.\<close>

theorem validation_ruleset_passes_through:
  "generate_ruleset True now ifs rules nat_rules logging conntrack = render_header now @ nl @ validation_body
   \<and> \<not> contains ''drop'' validation_body \<and> \<not> contains ''reject'' validation_body
   \<and> \<not> contains ''meter'' validation_body"
proof (intro conjI)
  show "generate_ruleset True now ifs rules nat_rules logging conntrack = render_header now @ nl @ validation_body"
    by (simp add: generate_ruleset_def validation_body_def render_prerouting_def render_input_def
        render_forward_def render_output_def input_lines_def forward_lines_def output_lines_def)
qed (code_simp+)

section \<open>User content adds no line\<close>

lemma string_of_int_port_no_newline [simp]: "newline \<notin> set (port_str p)"
  by (cases p) (simp_all add: char_defs del: string_of_int_no_newline, simp_all add: char_defs[symmetric])

lemma port_set_no_newline [simp]: "newline \<notin> set (port_set ps)"
proof -
  have "newline \<notin> set (join '', '' (map port_str (sort_key port_key ps)))"
    by (rule join_no_newline) (simp_all add: char_defs, simp add: char_defs[symmetric])
  then show ?thesis by (simp add: port_set_def char_defs)
qed

lemma meter_rate_no_newline:
  assumes "\<forall>r\<in>set rules. newline \<notin> set (or_empty (fr_limit r))" "(spec, v) \<in> set meter_specs"
  shows "newline \<notin> set (meter_rate rules (fst spec) (snd spec) family)"
proof (cases "List.find (feeds_meter (fst spec) (snd spec) family) rules")
  case None
  have "list_all (\<lambda>e. newline \<notin> set (default_rate (fst (fst e)) (snd (fst e)))) meter_specs" by code_simp
  with None assms(2) show ?thesis by (auto simp: meter_rate_def list_all_iff)
next
  case (Some r)
  with find_SomeE[OF Some] assms(1) show ?thesis by (auto simp: meter_rate_def)
qed

lemma with_burst_no_newline: "newline \<notin> set l \<Longrightarrow> newline \<notin> set (with_burst l)"
  by (simp add: with_burst_def default_burst_def char_defs)

lemma meter_lines_no_newline:
  assumes "\<forall>r\<in>set rules. newline \<notin> set (or_empty (fr_limit r))" "e \<in> set meter_specs" "l \<in> set (meter_lines rules e)"
  shows "newline \<notin> set l"
proof -
  obtain proto port name d where e: "e = ((proto, port), (name, d))" by (metis surj_pair)
  have "list_all (\<lambda>e. newline \<notin> set (fst (fst e)) \<and> newline \<notin> set (fst (snd e))) meter_specs" by code_simp
  then have "newline \<notin> set proto" "newline \<notin> set name" using assms(2) e by (auto simp: list_all_iff)
  moreover have "newline \<notin> set (with_burst (meter_rate rules proto port f))" for f
    using meter_rate_no_newline[OF assms(1), of "(proto, port)"] assms(2) e with_burst_no_newline by auto
  moreover have "newline \<notin> set (string_of_int port)" by simp
  ultimately show ?thesis
    using assms(3) unfolding e meter_lines_def by (auto simp: indent_def char_defs)
qed

lemma input_head_no_newline:
  assumes "\<forall>r\<in>set rules. newline \<notin> set (or_empty (fr_limit r))" "l \<in> set (input_head rules conntrack)"
  shows "newline \<notin> set l"
proof -
  have parts: "input_head rules conntrack = input_head [] conntrack \<or>
      l \<in> set (concat (map (meter_lines rules) meter_specs)) \<or> l \<in> set (input_head [] conntrack)"
    using assms(2) unfolding input_head_def by (simp only: set_append Un_iff) blast
  have "list_all (\<lambda>l. newline \<notin> set l) (input_head [] True @ input_head [] False)" by code_simp
  then have base: "l \<in> set (input_head [] conntrack) \<Longrightarrow> newline \<notin> set l"
    by (cases conntrack) (auto simp: list_all_iff)
  from parts assms base show ?thesis using meter_lines_no_newline[OF assms(1)] by auto
qed

lemma input_tail_no_newline: "l \<in> set (input_tail conntrack logging) \<Longrightarrow> newline \<notin> set l"
proof -
  have "list_all (\<lambda>l. newline \<notin> set l)
     (input_tail True True @ input_tail True False @ input_tail False True @ input_tail False False)" by code_simp
  moreover assume "l \<in> set (input_tail conntrack logging)"
  ultimately show ?thesis by (cases conntrack; cases logging) (auto simp: list_all_iff)
qed

lemma user_rule_line:
  assumes "line_safe r"
  shows "newline \<notin> set (rstrip_char newline (convert_rule_to_nft r))"
proof -
  obtain l where l: "convert_rule_to_nft r = l @ nl" "newline \<notin> set l"
    using rule_line[OF assms] by blast
  have "set (rstrip_char newline (l @ nl)) \<subseteq> set l"
    by (simp add: rstrip_char_def) (metis set_dropWhileD set_rev subsetI)
  with l show ?thesis by auto
qed

lemma user_rules_no_newline:
  "\<forall>r\<in>set rules. line_safe r \<Longrightarrow> l \<in> set (user_rules rules chain) \<Longrightarrow> newline \<notin> set l"
  using user_rule_line by (auto simp: user_rules_def)

text \<open>With rules whose free text has no line break, the input chain reads back as exactly the lines
  the renderer composed: the mandatory head, one line per user rule, the closing lines; no rule can
  add a line of its own.\<close>

theorem render_input_shape:
  "\<forall>r\<in>set rules. line_safe r \<Longrightarrow>
     splitlines (render_input False rules conntrack logging @ nl)
       = input_head rules conntrack
         @ map (\<lambda>r. butlast (convert_rule_to_nft r))
             (filter (\<lambda>r. in_chain ''input'' r \<and> \<not> dedicated ''input'' r) (sort_key fr_order rules))
         @ input_tail conntrack logging"
proof -
  assume safe: "\<forall>r\<in>set rules. line_safe r"
  then have lim: "\<forall>r\<in>set rules. newline \<notin> set (or_empty (fr_limit r))" by (simp add: line_safe_def)
  have "input_lines False rules conntrack logging \<noteq> []" by (simp add: input_lines_def input_head_def)
  moreover have "\<forall>l\<in>set (input_lines False rules conntrack logging). newline \<notin> set l"
    using input_head_no_newline[OF lim] input_tail_no_newline user_rules_no_newline[OF safe]
    by (auto simp: input_lines_def)
  ultimately have "splitlines (render_input False rules conntrack logging @ nl) = input_lines False rules conntrack logging"
    by (simp add: render_input_def splitlines_render)
  moreover have "rstrip_char newline (convert_rule_to_nft r) = butlast (convert_rule_to_nft r)" if r: "line_safe r" for r
  proof -
    obtain l where "convert_rule_to_nft r = l @ nl" "newline \<notin> set l" using rule_line[OF r] by blast
    moreover from this have "rstrip_char newline (l @ nl) = l"
      using rstrip_char_id[of l newline] by (cases l rule: rev_cases) (auto simp: rstrip_char_def)
    ultimately show ?thesis by simp
  qed
  ultimately show ?thesis using safe by (simp add: input_lines_def user_rules_def)
qed

theorem render_input_shape_witness:
  "splitlines (render_input False [hostile_rule] False False @ nl)
     = input_head [hostile_rule] False @ [butlast (convert_rule_to_nft hostile_rule)] @ input_tail False False"
proof -
  have "line_safe hostile_rule" "in_chain ''input'' hostile_rule" "\<not> dedicated ''input'' hostile_rule" by code_simp+
  then show ?thesis using render_input_shape[of "[hostile_rule]" False False] by simp
qed

text \<open>The name of a masquerade rule is copied into a comment of the ruleset without quoting, so a
  line break in it starts a line of its author's choice.\<close>

theorem masquerade_name_injects_line:
  "''flush ruleset'' \<in> set (splitlines (render_nat
      [plain_nat 1 (''office'' @ nl @ ''flush ruleset'') ''masquerade'' ''postrouting'']))"
  by code_simp

section \<open>Rules that are left out\<close>

definition shields_internal :: "fw_rule \<Rightarrow> bool" where
  "shields_internal r \<longleftrightarrow> in_chain ''forward'' r \<and> protocol_is ''tcp'' r
     \<and> truthy_int (fr_destination_port r) \<and> is_internal_port r"

definition renders_nowhere :: "fw_rule \<Rightarrow> bool" where
  "renders_nowhere r \<longleftrightarrow> \<not> is_loopback_guard r \<and> anti_spoof_line r = None \<and> \<not> shields_internal r
     \<and> (\<forall>proto port family. \<not> feeds_meter proto port family r)
     \<and> (\<forall>chain\<in>{''input'', ''forward''}. in_chain chain r \<longrightarrow> dedicated chain r)"

lemma user_rules_skip:
  "in_chain chain r \<longrightarrow> dedicated chain r \<Longrightarrow> user_rules (a @ r # b) chain = user_rules (a @ b) chain"
  by (auto simp: user_rules_def filter_sort_key)

lemma renders_nowhere_skip:
  assumes "renders_nowhere r"
  shows "generate_ruleset v now ifs (a @ r # b) nat_rules logging conntrack
       = generate_ruleset v now ifs (a @ b) nat_rules logging conntrack"
proof -
  have u: "user_rules (a @ r # b) ''input'' = user_rules (a @ b) ''input''"
      "user_rules (a @ r # b) ''forward'' = user_rules (a @ b) ''forward''"
    using assms by (auto simp: renders_nowhere_def intro!: user_rules_skip)
  have l: "loopback_ports (a @ r # b) = loopback_ports (a @ b)"
    using assms by (simp add: loopback_ports_def renders_nowhere_def)
  have s: "anti_spoof_lines (a @ r # b) = anti_spoof_lines (a @ b)"
    using assms by (simp add: anti_spoof_lines_def renders_nowhere_def List.map_filter_def)
  have i: "internal_ports (a @ r # b) = internal_ports (a @ b)"
    using assms by (auto simp: internal_ports_def renders_nowhere_def shields_internal_def)
  have m: "meter_lines (a @ r # b) = meter_lines (a @ b)"
    using assms by (auto simp: meter_lines_def meter_rate_def renders_nowhere_def find_skip fun_eq_iff
        split: prod.splits)
  show ?thesis
    by (simp add: generate_ruleset_def render_prerouting_def prerouting_lines_def render_input_def
        input_lines_def input_head_def render_forward_def forward_lines_def forward_head_def u l s i m)
qed

lemma in_chain_unique: "in_chain c r \<Longrightarrow> in_chain d r \<longleftrightarrow> c = d"
  by (auto simp: in_chain_def)

text \<open>A rule for any chain other than input and forward (output, prerouting, postrouting) is left
  out of the ruleset altogether, whatever its action: the ruleset is the one without the rule.\<close>

theorem other_chains_left_out:
  "lower (fr_chain r) \<notin> {''input'', ''forward''} \<Longrightarrow>
     generate_ruleset v now ifs (a @ r # b) nat_rules logging conntrack
       = generate_ruleset v now ifs (a @ b) nat_rules logging conntrack"
  by (rule renders_nowhere_skip)
    (auto simp: renders_nowhere_def in_chain_def is_loopback_guard_def anti_spoof_line_def
      shields_internal_def feeds_meter_def)

theorem other_chains_left_out_witness:
  "generate_ruleset False ''today'' [] [(plain_rule 3 ''no smtp'' ''output'')\<lparr>fr_action := A_DROP\<rparr>] [] True True
     = generate_ruleset False ''today'' [] [] [] True True"
proof -
  have "lower (fr_chain ((plain_rule 3 ''no smtp'' ''output'')\<lparr>fr_action := A_DROP\<rparr>)) \<notin> {''input'', ''forward''}"
    by code_simp
  from other_chains_left_out[OF this, of False "''today''" "[]" "[]" "[]"] show ?thesis by simp
qed

text \<open>A forward rule tagged anti-spoof whose bridge cannot be determined, or whose destination does
  not parse, disappears from the ruleset (unless it is also an internal-port rule), even when it is
  an ordinary drop or accept that merely mentions the tag in its comment.\<close>

theorem anti_spoof_without_bridge_left_out:
  "in_chain ''forward'' r \<Longrightarrow> is_anti_spoof r \<Longrightarrow> \<not> is_internal_port r \<Longrightarrow>
   anti_spoof_bridge r = None \<or> parse_addr_family (or_empty (fr_destination r)) = None \<Longrightarrow>
     generate_ruleset v now ifs (a @ r # b) nat_rules logging conntrack
       = generate_ruleset v now ifs (a @ b) nat_rules logging conntrack"
  by (rule renders_nowhere_skip)
    (auto simp: renders_nowhere_def anti_spoof_line_def shields_internal_def feeds_meter_def
      is_loopback_guard_def dedicated_def in_chain_def split: option.splits)

definition untied_rule :: fw_rule where
  "untied_rule = (plain_rule 5 ''block db'' ''forward'')\<lparr>fr_action := A_DROP,
     fr_destination := Some ''172.18.0.3'', fr_comment := Some ''added by the Anti-Spoof review''\<rparr>"

theorem anti_spoof_without_bridge_left_out_witness:
  "generate_ruleset False ''today'' [] [untied_rule] [] True True = generate_ruleset False ''today'' [] [] [] True True"
proof -
  have "in_chain ''forward'' untied_rule" "is_anti_spoof untied_rule" "\<not> is_internal_port untied_rule"
    "anti_spoof_bridge untied_rule = None" by code_simp+
  from anti_spoof_without_bridge_left_out[OF this(1-3) disjI1[OF this(4)], of False "''today''" "[]" "[]" "[]"]
  show ?thesis by simp
qed

end
