(* ===== verification/Fw_Simulator.thy ===== *)
theory Fw_Simulator
  imports Py_Ipaddress "HOL-Library.Multiset"
begin

text \<open>
  \<open>shared/firewall_simulator.py\<close>: packets, simulation rules and one simulated firewall
  (\<open>FirewallSimulator\<close>): rule matching, chain selection, rule evaluation, NAT lookup and the
  test suite whose summary decides whether a configuration may be deployed.

  The clock readings of the code (\<open>processing_time_ms\<close>, \<open>execution_time_ms\<close>, the
  packet's \<open>timestamp\<close>) are left out: no decision depends on them. A percentage is an exact
  rational where the code has a float.
\<close>

section \<open>Data\<close>

datatype protocol = TCP | UDP | ICMP | ANY
datatype action = ACCEPT | DROP | REJECT | LOG | NAT

fun protocol_value :: "protocol \<Rightarrow> string" where
  "protocol_value TCP = ''tcp''"
| "protocol_value UDP = ''udp''"
| "protocol_value ICMP = ''icmp''"
| "protocol_value ANY = ''any''"

fun action_value :: "action \<Rightarrow> string" where
  "action_value ACCEPT = ''accept''"
| "action_value DROP = ''drop''"
| "action_value REJECT = ''reject''"
| "action_value LOG = ''log''"
| "action_value NAT = ''nat''"

text \<open>\<open>Protocol(text)\<close> and \<open>Action(text)\<close>: lookup by value, \<open>ValueError\<close> otherwise.\<close>

definition protocol_of :: "string \<Rightarrow> protocol option" where
  "protocol_of s = List.find (\<lambda>p. protocol_value p = s) [TCP, UDP, ICMP, ANY]"

definition action_of :: "string \<Rightarrow> action option" where
  "action_of s = List.find (\<lambda>a. action_value a = s) [ACCEPT, DROP, REJECT, LOG, NAT]"

text \<open>
  A destination address can become \<open>None\<close> on the way: a NAT rule without a destination
  translates it to nothing.
\<close>

record network_packet =
  pk_src_ip :: string
  pk_dst_ip :: "string option"
  pk_protocol :: protocol
  pk_src_port :: "int option"
  pk_dst_port :: "int option"
  pk_interface_in :: string
  pk_interface_out :: string
  pk_flags :: "string list"
  pk_payload_size :: int
  pk_connection_state :: string

definition default_packet :: "string \<Rightarrow> string \<Rightarrow> protocol \<Rightarrow> network_packet" where
  "default_packet src dst proto = \<lparr>pk_src_ip = src, pk_dst_ip = Some dst, pk_protocol = proto,
     pk_src_port = None, pk_dst_port = None, pk_interface_in = ''eth0'',
     pk_interface_out = ''eth1'', pk_flags = [], pk_payload_size = 64,
     pk_connection_state = ''NEW''\<rparr>"

record firewall_rule =
  r_id :: int
  r_name :: string
  r_chain :: string
  r_action :: action
  r_src_ip :: "string option"
  r_dst_ip :: "string option"
  r_protocol :: "protocol option"
  r_src_port :: "int option"
  r_dst_port :: "int option"
  r_interface_in :: "string option"
  r_interface_out :: "string option"
  r_state :: "string option"
  r_log :: bool
  r_order :: int
  r_enabled :: bool

definition default_rule :: "int \<Rightarrow> string \<Rightarrow> string \<Rightarrow> action \<Rightarrow> firewall_rule" where
  "default_rule i name chain act = \<lparr>r_id = i, r_name = name, r_chain = chain, r_action = act,
     r_src_ip = None, r_dst_ip = None, r_protocol = None, r_src_port = None, r_dst_port = None,
     r_interface_in = None, r_interface_out = None, r_state = None, r_log = False,
     r_order = 0, r_enabled = True\<rparr>"

section \<open>Matching\<close>

text \<open>\<open>_ip_in_network\<close>: the network is parsed in strict mode and every exception is \<open>False\<close>.\<close>

definition ip_in_network :: "string option \<Rightarrow> string \<Rightarrow> bool" where
  "ip_in_network ip network =
     (case Option.bind ip ip_address of
        None \<Rightarrow> False
      | Some a \<Rightarrow> (case ip_network True network of None \<Rightarrow> False | Some n \<Rightarrow> ip_in a n))"

definition addr_matches :: "string option \<Rightarrow> string option \<Rightarrow> bool" where
  "addr_matches wanted actual =
     (case wanted of
        None \<Rightarrow> True
      | Some w \<Rightarrow> w = [] \<or> w = ''any'' \<or>
          (if CHR ''/'' \<in> set w then ip_in_network actual w else actual = Some w))"

definition port_matches :: "int option \<Rightarrow> int option \<Rightarrow> bool" where
  "port_matches wanted actual \<longleftrightarrow> \<not> (truthy_int wanted \<and> actual \<noteq> wanted)"

definition text_matches :: "string option \<Rightarrow> string \<Rightarrow> bool" where
  "text_matches wanted actual \<longleftrightarrow> \<not> (truthy_str wanted \<and> Some actual \<noteq> wanted)"

definition protocol_matches :: "protocol option \<Rightarrow> protocol \<Rightarrow> bool" where
  "protocol_matches wanted actual \<longleftrightarrow>
     \<not> (wanted \<noteq> None \<and> wanted \<noteq> Some ANY \<and> Some actual \<noteq> wanted)"

definition matches :: "firewall_rule \<Rightarrow> network_packet \<Rightarrow> bool" where
  "matches r p \<longleftrightarrow>
     r_enabled r
     \<and> addr_matches (r_src_ip r) (Some (pk_src_ip p))
     \<and> addr_matches (r_dst_ip r) (pk_dst_ip p)
     \<and> protocol_matches (r_protocol r) (pk_protocol p)
     \<and> port_matches (r_src_port r) (pk_src_port p)
     \<and> port_matches (r_dst_port r) (pk_dst_port p)
     \<and> text_matches (r_interface_in r) (pk_interface_in p)
     \<and> text_matches (r_interface_out r) (pk_interface_out p)
     \<and> text_matches (r_state r) (pk_connection_state p)"

section \<open>One firewall\<close>

record firewall =
  fw_id :: string
  fw_name :: string
  fw_rules :: "firewall_rule list"
  fw_interfaces :: "(string \<times> string) list"
  fw_nat_rules :: "firewall_rule list"

definition new_firewall :: "string \<Rightarrow> string \<Rightarrow> firewall" where
  "new_firewall i name =
     \<lparr>fw_id = i, fw_name = name, fw_rules = [], fw_interfaces = [], fw_nat_rules = []\<rparr>"

text \<open>\<open>list.append\<close> then a stable \<open>list.sort\<close> on the order field.\<close>

definition add_rule :: "firewall_rule \<Rightarrow> firewall \<Rightarrow> firewall" where
  "add_rule r fw = fw\<lparr>fw_rules := sort_key r_order (fw_rules fw @ [r])\<rparr>"

definition add_nat_rule :: "firewall_rule \<Rightarrow> firewall \<Rightarrow> firewall" where
  "add_nat_rule r fw = fw\<lparr>fw_nat_rules := sort_key r_order (fw_nat_rules fw @ [r])\<rparr>"

definition set_interfaces :: "(string \<times> string) list \<Rightarrow> firewall \<Rightarrow> firewall" where
  "set_interfaces ifs fw = fw\<lparr>fw_interfaces := ifs\<rparr>"

text \<open>The \<open>nat_translation\<close> dictionary: the prerouting keys and the postrouting key.\<close>

record nat_translation =
  nt_pre :: "(string \<times> string option \<times> string option) option"
  nt_post :: "string option"

record simulation_result =
  res_packet :: network_packet
  res_matched_rule :: "firewall_rule option"
  res_action :: action
  res_chain_traversed :: "string list"
  res_rules_evaluated :: nat
  res_logs :: "string list"
  res_nat_translation :: "nat_translation option"

definition interface_type :: "firewall \<Rightarrow> string \<Rightarrow> string" where
  "interface_type fw name =
     (case map_of (fw_interfaces fw) name of None \<Rightarrow> ''unknown'' | Some t \<Rightarrow> t)"

definition determine_chain :: "firewall \<Rightarrow> network_packet \<Rightarrow> string" where
  "determine_chain fw p =
     (let src_type = interface_type fw (pk_interface_in p);
          dst_type = interface_type fw (pk_interface_out p) in
      if src_type = ''wan'' then ''input''
      else if src_type = ''lan'' \<and> dst_type = ''wan'' then ''forward''
      else ''output'')"

definition check_nat :: "firewall \<Rightarrow> network_packet \<Rightarrow> string \<Rightarrow> firewall_rule option" where
  "check_nat fw p nat_chain =
     List.find (\<lambda>r. r_chain r = nat_chain \<and> matches r p) (fw_nat_rules fw)"

definition apply_nat :: "network_packet \<Rightarrow> firewall_rule \<Rightarrow> nat_translation" where
  "apply_nat p r = \<lparr>nt_pre = Some (action_value (r_action r), pk_dst_ip p, r_dst_ip r), nt_post = None\<rparr>"

text \<open>
  The evaluation loop with its accumulators: the matched rule, the action, the number of rules
  evaluated and the log. A match does not end the loop unless it drops or rejects.
\<close>

definition terminal :: "action \<Rightarrow> bool" where
  "terminal a \<longleftrightarrow> a \<in> {DROP, REJECT}"

definition rule_log :: "firewall_rule \<Rightarrow> string" where
  "rule_log r = ''Rule '' @ string_of_int (r_id r) @ '' ('' @ r_name r @ ''): '' @ action_value (r_action r)"

fun eval_rules :: "string \<Rightarrow> network_packet \<Rightarrow> firewall_rule list \<Rightarrow>
    firewall_rule option \<Rightarrow> action \<Rightarrow> nat \<Rightarrow> string list \<Rightarrow>
    firewall_rule option \<times> action \<times> nat \<times> string list" where
  "eval_rules chain p [] matched act n logs = (matched, act, n, logs)"
| "eval_rules chain p (r # rs) matched act n logs =
     (if r_chain r \<noteq> chain then eval_rules chain p rs matched act n logs
      else if matches r p then
        (let logs' = logs @ (if r_log r then [rule_log r] else []) in
         if terminal (r_action r) then (Some r, r_action r, Suc n, logs')
         else eval_rules chain p rs (Some r) (r_action r) (Suc n) logs')
      else eval_rules chain p rs matched act (Suc n) logs)"

definition simulate_packet :: "firewall \<Rightarrow> network_packet \<Rightarrow> simulation_result" where
  "simulate_packet fw p =
     (let chain = determine_chain fw p;
          pre = (if chain = ''forward'' then check_nat fw p ''prerouting'' else None);
          nat1 = map_option (apply_nat p) pre;
          logs0 = (case pre of None \<Rightarrow> [] | Some r \<Rightarrow> [''NAT applied: '' @ r_name r]);
          (matched, act, n, logs) = eval_rules chain p (fw_rules fw) None ACCEPT 0 logs0;
          post = (if chain = ''forward'' \<and> act = ACCEPT then check_nat fw p ''postrouting'' else None);
          nat2 = (case post of None \<Rightarrow> nat1
                  | Some r \<Rightarrow> (case nat1 of
                      None \<Rightarrow> Some \<lparr>nt_pre = None, nt_post = Some (r_name r)\<rparr>
                    | Some t \<Rightarrow> Some (t\<lparr>nt_post := Some (r_name r)\<rparr>))) in
      \<lparr>res_packet = p, res_matched_rule = matched, res_action = act,
       res_chain_traversed = [chain], res_rules_evaluated = n, res_logs = logs,
       res_nat_translation = nat2\<rparr>)"

section \<open>Test suites\<close>

record test_case =
  tc_id :: string
  tc_name :: string
  tc_description :: string
  tc_packet :: network_packet
  tc_expected_action :: action
  tc_expected_chain :: "string option"
  tc_critical :: bool
  tc_tags :: "string list"

record test_result =
  tr_test_case :: test_case
  tr_passed :: bool
  tr_actual_action :: action
  tr_actual_rule :: "firewall_rule option"
  tr_error_message :: "string option"

record suite_summary =
  ss_total :: nat
  ss_passed :: nat
  ss_failed :: nat
  ss_pass_rate :: rat
  ss_critical_failures :: "string list"
  ss_can_deploy :: bool

text \<open>\<open>repr\<close> of the one-element list of traversed chains, as the error message prints it.\<close>

definition chains_repr :: "string list \<Rightarrow> string" where
  "chains_repr cs = ''['' @ join '', '' (map (\<lambda>c. [CHR 0x27] @ c @ [CHR 0x27]) cs) @ '']''"

definition run_single_test :: "firewall \<Rightarrow> test_case \<Rightarrow> test_result" where
  "run_single_test fw t =
     (let res = simulate_packet fw (tc_packet t);
          ok = (res_action res = tc_expected_action t);
          err = (if ok then None
                 else Some (''Expected '' @ action_value (tc_expected_action t) @ '', got '' @
                            action_value (res_action res)));
          wrong_chain = (case tc_expected_chain t of None \<Rightarrow> False
                         | Some c \<Rightarrow> c \<noteq> [] \<and> c \<notin> set (res_chain_traversed res)) in
      \<lparr>tr_test_case = t, tr_passed = (ok \<and> \<not> wrong_chain), tr_actual_action = res_action res,
       tr_actual_rule = res_matched_rule res,
       tr_error_message =
         (if wrong_chain then Some (''Expected chain '' @ or_empty (tc_expected_chain t) @
            '', traversed '' @ chains_repr (res_chain_traversed res)) else err)\<rparr>)"

text \<open>The loop of \<open>run_test_suite\<close> with its counters.\<close>

fun run_tests :: "firewall \<Rightarrow> test_case list \<Rightarrow> test_result list \<Rightarrow> nat \<Rightarrow> nat \<Rightarrow> string list \<Rightarrow>
    test_result list \<times> nat \<times> nat \<times> string list" where
  "run_tests fw [] results passed failed crit = (results, passed, failed, crit)"
| "run_tests fw (t # ts) results passed failed crit =
     (let res = run_single_test fw t in
      if tr_passed res then run_tests fw ts (results @ [res]) (Suc passed) failed crit
      else run_tests fw ts (results @ [res]) passed (Suc failed)
             (if tc_critical t then crit @ [tc_id t] else crit))"

definition run_test_suite :: "firewall \<Rightarrow> test_case list \<Rightarrow> test_result list \<times> suite_summary" where
  "run_test_suite fw ts =
     (let (results, passed, failed, crit) = run_tests fw ts [] 0 0 [] in
      (results,
       \<lparr>ss_total = length ts, ss_passed = passed, ss_failed = failed,
        ss_pass_rate = (if ts \<noteq> [] then of_nat passed / of_nat (length ts) * 100 else 0),
        ss_critical_failures = crit,
        ss_can_deploy = (crit = [] \<and> failed = 0)\<rparr>))"

section \<open>Reference verdict\<close>

text \<open>
  What the evaluation loop computes, without accumulators: the first matching rule of the
  chain that drops or rejects decides; without one, the last matching rule does.
\<close>

definition hits :: "string \<Rightarrow> network_packet \<Rightarrow> firewall_rule \<Rightarrow> bool" where
  "hits chain p r \<longleftrightarrow> r_chain r = chain \<and> matches r p"

definition blocks :: "string \<Rightarrow> network_packet \<Rightarrow> firewall_rule \<Rightarrow> bool" where
  "blocks chain p r \<longleftrightarrow> hits chain p r \<and> terminal (r_action r)"

definition verdict_rule :: "string \<Rightarrow> network_packet \<Rightarrow> firewall_rule list \<Rightarrow> firewall_rule option" where
  "verdict_rule chain p rs =
     (case List.find (blocks chain p) rs of
        Some r \<Rightarrow> Some r
      | None \<Rightarrow> (case rev (filter (hits chain p) rs) of [] \<Rightarrow> None | r # _ \<Rightarrow> Some r))"

definition evaluated :: "string \<Rightarrow> network_packet \<Rightarrow> firewall_rule list \<Rightarrow> nat" where
  "evaluated chain p rs =
     length (filter (\<lambda>r. r_chain r = chain) (takeWhile (\<lambda>r. \<not> blocks chain p r) rs))
     + (if \<exists>r\<in>set rs. blocks chain p r then 1 else 0)"

lemma eval_rules_count:
  "fst (snd (snd (eval_rules chain p rs m a n l))) = n + evaluated chain p rs"
  by (induction chain p rs m a n l rule: eval_rules.induct)
    (auto simp: evaluated_def blocks_def hits_def Let_def)

lemma eval_rules_verdict:
  "fst (eval_rules chain p rs m a n l) =
     (case verdict_rule chain p rs of None \<Rightarrow> m | Some r \<Rightarrow> Some r)"
  "fst (snd (eval_rules chain p rs m a n l)) =
     (case verdict_rule chain p rs of None \<Rightarrow> a | Some r \<Rightarrow> r_action r)"
  by (induction chain p rs m a n l rule: eval_rules.induct)
    (auto simp: verdict_rule_def blocks_def hits_def Let_def split: option.splits list.splits)

lemma simulate_packet_fields:
  "res_matched_rule (simulate_packet fw p) = verdict_rule (determine_chain fw p) p (fw_rules fw)"
  "res_action (simulate_packet fw p) =
     (case verdict_rule (determine_chain fw p) p (fw_rules fw) of None \<Rightarrow> ACCEPT | Some r \<Rightarrow> r_action r)"
  "res_rules_evaluated (simulate_packet fw p) = evaluated (determine_chain fw p) p (fw_rules fw)"
  "res_chain_traversed (simulate_packet fw p) = [determine_chain fw p]"
  by (simp_all add: simulate_packet_def Let_def case_prod_beta eval_rules_verdict eval_rules_count
      option.case_eq_if)

lemma verdict_rule_None:
  "verdict_rule chain p rs = None \<longleftrightarrow> filter (hits chain p) rs = []"
proof (cases "List.find (blocks chain p) rs")
  case None
  then show ?thesis
    by (cases "filter (hits chain p) rs" rule: rev_cases) (simp_all add: verdict_rule_def)
next
  case (Some r)
  then have "r \<in> set (filter (hits chain p) rs)" using find_SomeE[OF Some] by (simp add: blocks_def)
  then have "filter (hits chain p) rs \<noteq> []" by (metis empty_iff empty_set)
  with Some show ?thesis by (simp add: verdict_rule_def)
qed

lemma verdict_rule_last:
  "List.find (blocks chain p) rs = None \<Longrightarrow> verdict_rule chain p rs = Some r \<Longrightarrow>
   r \<in> set (filter (hits chain p) rs)"
  by (cases "filter (hits chain p) rs" rule: rev_cases) (simp_all add: verdict_rule_def)

lemma verdict_rule_terminal:
  "(\<exists>r. verdict_rule chain p rs = Some r \<and> terminal (r_action r)) \<longleftrightarrow> (\<exists>r\<in>set rs. blocks chain p r)"
proof (cases "List.find (blocks chain p) rs")
  case None
  then have no: "\<not> (\<exists>r\<in>set rs. blocks chain p r)" by (simp add: find_None)
  then show ?thesis using verdict_rule_last[OF None] by (auto simp: blocks_def)
next
  case (Some r)
  then have "verdict_rule chain p rs = Some r" by (simp add: verdict_rule_def)
  with find_SomeE[OF Some] show ?thesis by (auto simp: blocks_def)
qed

section \<open>Properties\<close>

text \<open>A simulated packet gets the verdict of the first matching rule of its chain that drops or
  rejects it, else of the last matching rule, else the default accept; and the number of rules
  evaluated is the number of the chain's rules up to and including the deciding drop.\<close>

theorem simulate_packet_verdict:
  "res_matched_rule (simulate_packet fw p) = verdict_rule (determine_chain fw p) p (fw_rules fw)
   \<and> res_action (simulate_packet fw p) =
       (case verdict_rule (determine_chain fw p) p (fw_rules fw) of None \<Rightarrow> ACCEPT | Some r \<Rightarrow> r_action r)
   \<and> res_rules_evaluated (simulate_packet fw p) = evaluated (determine_chain fw p) p (fw_rules fw)"
  by (simp add: simulate_packet_fields)

text \<open>The simulator blocks a packet exactly when some enabled rule of the packet's chain matches
  it and drops or rejects, wherever that rule stands: an earlier matching accept rule does not
  protect the packet, unlike in the generated nftables ruleset, where the first verdict is final.\<close>

theorem simulate_packet_blocked_iff:
  "terminal (res_action (simulate_packet fw p)) \<longleftrightarrow>
     (\<exists>r\<in>set (fw_rules fw). r_chain r = determine_chain fw p \<and> matches r p \<and> terminal (r_action r))"
  using verdict_rule_terminal[of "determine_chain fw p" p "fw_rules fw"]
  by (auto simp: simulate_packet_fields blocks_def hits_def terminal_def split: option.splits)

text \<open>Adding rules one at a time, each time with a stable sort, leaves the firewall with exactly
  the stable sort of all rules by order: rules of equal order stay in insertion order.\<close>

theorem add_rules_stable_sort:
  "fw_rules (fold add_rule rs (new_firewall i name)) = sort_key r_order rs"
proof -
  have "fw_rules (fold add_rule rs fw) = sort_key r_order (ys @ rs)"
    if "fw_rules fw = sort_key r_order ys" for fw ys
    using that
  proof (induction rs arbitrary: fw ys)
    case Nil
    then show ?case by simp
  next
    case (Cons r rs)
    have "fw_rules (add_rule r fw) = sort_key r_order (ys @ [r])"
      by (simp add: add_rule_def Cons.prems sort_key_snoc)
    from Cons.IH[OF this] show ?case by simp
  qed
  from this[of "new_firewall i name" "[]"] show ?thesis by (simp add: new_firewall_def)
qed

lemma run_tests_spec:
  "run_tests fw ts results passed failed crit =
     (results @ map (run_single_test fw) ts,
      passed + length (filter (\<lambda>t. tr_passed (run_single_test fw t)) ts),
      failed + length (filter (\<lambda>t. \<not> tr_passed (run_single_test fw t)) ts),
      crit @ map tc_id (filter (\<lambda>t. \<not> tr_passed (run_single_test fw t) \<and> tc_critical t) ts))"
  by (induction fw ts results passed failed crit rule: run_tests.induct) (auto simp: Let_def)

lemma single_test_passes:
  "tr_passed (run_single_test fw t) \<longleftrightarrow>
     res_action (simulate_packet fw (tc_packet t)) = tc_expected_action t
     \<and> or_empty (tc_expected_chain t) \<in> {[], determine_chain fw (tc_packet t)}"
  by (cases "tc_expected_chain t") (auto simp: run_single_test_def Let_def simulate_packet_fields(4))

lemma all_pass_iff:
  "filter (\<lambda>t. \<not> ok t \<and> crit t) ts = [] \<and> length (filter (\<lambda>t. \<not> ok t) ts) = 0 \<longleftrightarrow> (\<forall>t\<in>set ts. ok t)"
  by (auto simp: filter_empty_conv)

text \<open>The test-suite summary is consistent and fails closed: one result per test in order, passed
  and failed add up to the total, the critical failures are the failing critical tests, and a
  deployment is allowed exactly when every test got its expected action and chain.\<close>

theorem run_test_suite_summary:
  "run_test_suite fw ts = (results, s) \<Longrightarrow>
     results = map (run_single_test fw) ts
     \<and> ss_passed s + ss_failed s = ss_total s \<and> ss_total s = length ts
     \<and> ss_critical_failures s = map tc_id (filter (\<lambda>t. tc_critical t \<and> \<not> tr_passed (run_single_test fw t)) ts)
     \<and> (ss_can_deploy s \<longleftrightarrow> (\<forall>t\<in>set ts.
          res_action (simulate_packet fw (tc_packet t)) = tc_expected_action t
          \<and> or_empty (tc_expected_chain t) \<in> {[], determine_chain fw (tc_packet t)}))"
proof -
  assume "run_test_suite fw ts = (results, s)"
  note run = this[unfolded run_test_suite_def run_tests_spec Let_def prod.case prod.inject]
  note run = run[THEN conjunct1, symmetric] run[THEN conjunct2, symmetric]
  from run have "results = map (run_single_test fw) ts" by simp
  moreover from run have "ss_passed s + ss_failed s = ss_total s \<and> ss_total s = length ts"
    by (simp add: sum_length_filter_compl)
  moreover from run have "ss_critical_failures s =
      map tc_id (filter (\<lambda>t. tc_critical t \<and> \<not> tr_passed (run_single_test fw t)) ts)"
    by (simp add: conj_commute)
  moreover from run have "ss_can_deploy s \<longleftrightarrow> (\<forall>t\<in>set ts. tr_passed (run_single_test fw t))"
    using all_pass_iff[of "\<lambda>t. tr_passed (run_single_test fw t)" tc_critical ts] by simp
  ultimately show ?thesis by (simp only: single_test_passes simp_thms)
qed

text \<open>A simulated rule whose source is a CIDR with host bits set (or any unparsable CIDR) matches
  no packet at all, whatever its action: membership is tested with the strict network parser.\<close>

theorem unparsable_cidr_never_matches:
  "r_src_ip r = Some w \<Longrightarrow> CHR ''/'' \<in> set w \<Longrightarrow> ip_network True w = None \<Longrightarrow> \<not> matches r p"
  by (auto simp: matches_def addr_matches_def ip_in_network_def split: option.splits)

theorem unparsable_cidr_never_matches_witness:
  "ip_network False ''10.0.0.5/24'' = Some (Net4 0x0A000000 24)
   \<and> \<not> matches ((default_rule 1 ''lan'' ''input'' DROP)\<lparr>r_src_ip := Some ''10.0.0.5/24''\<rparr>)
        (default_packet ''10.0.0.5'' ''10.0.0.1'' TCP)"
proof -
  have "ip_network False ''10.0.0.5/24'' = Some (Net4 0x0A000000 24)"
    and strict: "ip_network True ''10.0.0.5/24'' = None" by code_simp+
  with unparsable_cidr_never_matches[OF _ _ strict,
      of "(default_rule 1 ''lan'' ''input'' DROP)\<lparr>r_src_ip := Some ''10.0.0.5/24''\<rparr>"]
  show ?thesis by simp
qed

end
