(* ===== verification/Fw_Test_Library.thy ===== *)
theory Fw_Test_Library
  imports Fw_Simulator
begin

text \<open>
  \<open>TestSuiteLibrary\<close> of \<open>shared/firewall_simulator.py\<close>: the predefined test cases a
  configuration is validated with, and the custom test case, whose random identifier and source
  port (drawn from the operating system) are parameters. The last section runs the suites on the
  example firewall at the end of the module.
\<close>

definition lib_test :: "string \<Rightarrow> string \<Rightarrow> string \<Rightarrow> network_packet \<Rightarrow> action \<Rightarrow> string option \<Rightarrow>
    bool \<Rightarrow> string list \<Rightarrow> test_case" where
  "lib_test i name descr p act chain crit tags =
     \<lparr>tc_id = i, tc_name = name, tc_description = descr, tc_packet = p, tc_expected_action = act,
      tc_expected_chain = chain, tc_critical = crit, tc_tags = tags\<rparr>"

definition lib_packet :: "string \<Rightarrow> string \<Rightarrow> protocol \<Rightarrow> int option \<Rightarrow> int option \<Rightarrow>
    string \<Rightarrow> string \<Rightarrow> string list \<Rightarrow> string \<Rightarrow> network_packet" where
  "lib_packet src dst proto sport dport iif oif flags state =
     (default_packet src dst proto)\<lparr>pk_src_port := sport, pk_dst_port := dport,
       pk_interface_in := iif, pk_interface_out := oif, pk_flags := flags,
       pk_connection_state := state\<rparr>"

definition basic_connectivity_tests :: "test_case list" where
  "basic_connectivity_tests = [
    lib_test ''basic-internet-http'' ''LAN to Internet HTTP''
      ''Verify HTTP traffic from LAN to internet works''
      (lib_packet ''192.168.1.100'' ''8.8.8.8'' TCP (Some 12345) (Some 80)
         ''eth1'' ''eth0'' [''SYN''] ''NEW'')
      ACCEPT (Some ''forward'') True [''basic'', ''http'', ''lan-wan''],
    lib_test ''basic-internet-https'' ''LAN to Internet HTTPS''
      ''Verify HTTPS traffic from LAN to internet works''
      (lib_packet ''192.168.1.100'' ''1.1.1.1'' TCP (Some 12345) (Some 443)
         ''eth1'' ''eth0'' [''SYN''] ''NEW'')
      ACCEPT (Some ''forward'') True [''basic'', ''https'', ''lan-wan''],
    lib_test ''wan-ping'' ''WAN Ping Response''
      ''Verify ping responses from firewall work''
      (lib_packet ''203.0.113.1'' ''192.0.2.1'' ICMP None None
         ''eth0'' ''lo'' [] ''NEW'')
      ACCEPT (Some ''input'') True [''basic'', ''icmp'', ''ping''],
    lib_test ''block-wan-ssh'' ''Block WAN SSH''
      ''Verify SSH from internet is blocked''
      (lib_packet ''203.0.113.100'' ''192.0.2.1'' TCP (Some 54321) (Some 22)
         ''eth0'' ''lo'' [''SYN''] ''NEW'')
      DROP None True [''security'', ''ssh'', ''wan-block''],
    lib_test ''established-allowed'' ''Established Connections Allowed''
      ''Verify established connections are allowed back in''
      (lib_packet ''8.8.8.8'' ''192.168.1.100'' TCP (Some 443) (Some 12345)
         ''eth0'' ''eth1'' [''SYN'', ''ACK''] ''ESTABLISHED'')
      ACCEPT None True [''basic'', ''established'', ''return-traffic'']]"

definition security_tests :: "test_case list" where
  "security_tests = [
    lib_test ''block-spoofed-internal'' ''Block Spoofed Internal Traffic''
      ''Block traffic claiming to be from internal network but coming from WAN''
      (lib_packet ''192.168.1.50'' ''192.168.1.100'' TCP (Some 12345) (Some 22)
         ''eth0'' ''eth1'' [''SYN''] ''NEW'')
      DROP None True [''security'', ''spoofing'', ''wan''],
    lib_test ''block-port-scan'' ''Block Port Scan''
      ''Block rapid port scanning attempts''
      (lib_packet ''203.0.113.200'' ''192.0.2.1'' TCP (Some 12345) (Some 23)
         ''eth0'' ''lo'' [''SYN''] ''NEW'')
      DROP None False [''security'', ''port-scan'', ''telnet''],
    lib_test ''block-invalid-state'' ''Block Invalid State Packets''
      ''Block packets with invalid connection state''
      (lib_packet ''203.0.113.50'' ''192.0.2.1'' TCP (Some 12345) (Some 443)
         ''eth0'' ''lo'' [''ACK''] ''INVALID'')
      DROP None True [''security'', ''invalid-state'', ''tcp'']]"

definition application_tests :: "test_case list" where
  "application_tests = [
    lib_test ''dns-udp'' ''DNS UDP Query'' ''Allow DNS queries over UDP''
      (lib_packet ''192.168.1.100'' ''8.8.8.8'' UDP (Some 12345) (Some 53)
         ''eth1'' ''eth0'' [] ''NEW'')
      ACCEPT None True [''dns'', ''udp'', ''essential''],
    lib_test ''smtp-outbound'' ''SMTP Outbound'' ''Allow outbound SMTP from mail server''
      (lib_packet ''192.168.1.10'' ''203.0.113.10'' TCP (Some 12345) (Some 25)
         ''eth1'' ''eth0'' [''SYN''] ''NEW'')
      ACCEPT None False [''mail'', ''smtp'', ''server''],
    lib_test ''voip-sip'' ''VoIP SIP Traffic'' ''Allow SIP signaling for VoIP''
      (lib_packet ''192.168.1.50'' ''203.0.113.20'' UDP (Some 5060) (Some 5060)
         ''eth1'' ''eth0'' [] ''NEW'')
      ACCEPT None False [''voip'', ''sip'', ''udp'']]"

text \<open>The keyword arguments of \<open>get_custom_test\<close>; \<open>None\<close> is an absent keyword.\<close>

record custom_kwargs =
  kw_description :: "string option"
  kw_src_port :: "int option option"
  kw_interface_in :: "string option"
  kw_interface_out :: "string option"
  kw_flags :: "string list option"
  kw_connection_state :: "string option"
  kw_critical :: "bool option"
  kw_tags :: "string list option"

definition or_default :: "'a \<Rightarrow> 'a option \<Rightarrow> 'a" where
  "or_default d x = (case x of None \<Rightarrow> d | Some v \<Rightarrow> v)"

text \<open>An unknown protocol or action name is a \<open>ValueError\<close> (\<open>None\<close>).\<close>

definition get_custom_test :: "int \<Rightarrow> int \<Rightarrow> string \<Rightarrow> string \<Rightarrow> string \<Rightarrow> string \<Rightarrow> int \<Rightarrow> string \<Rightarrow>
    custom_kwargs \<Rightarrow> test_case option" where
  "get_custom_test rand_id rand_port name src dst proto dport expected kw =
     (case protocol_of proto of
        None \<Rightarrow> None
      | Some pr \<Rightarrow> (case action_of expected of
          None \<Rightarrow> None
        | Some act \<Rightarrow>
            Some (lib_test (''custom-'' @ string_of_int rand_id) name
              (or_default [] (kw_description kw))
              (lib_packet src dst pr (or_default (Some rand_port) (kw_src_port kw)) (Some dport)
                 (or_default ''eth1'' (kw_interface_in kw)) (or_default ''eth0'' (kw_interface_out kw))
                 (or_default [''SYN''] (kw_flags kw)) (or_default ''NEW'' (kw_connection_state kw)))
              act None (or_default False (kw_critical kw)) (or_default [] (kw_tags kw)))))"

section \<open>The example firewall\<close>

definition example_firewall :: firewall where
  "example_firewall =
     add_rule ((default_rule 2 ''Block WAN SSH'' ''input'' DROP)
       \<lparr>r_protocol := Some TCP, r_dst_port := Some 22, r_interface_in := Some ''eth0'', r_order := 50\<rparr>)
     (add_rule ((default_rule 1 ''Allow LAN to WAN'' ''forward'' ACCEPT)
       \<lparr>r_interface_in := Some ''eth1'', r_interface_out := Some ''eth0'', r_order := 100\<rparr>)
     (set_interfaces [(''eth0'', ''wan''), (''eth1'', ''lan'')]
     (new_firewall ''fw-001'' ''Main Office Firewall'')))"

lemma example_suites:
  "ss_can_deploy (snd (run_test_suite example_firewall basic_connectivity_tests))"
  "ss_critical_failures (snd (run_test_suite example_firewall security_tests)) = [''block-invalid-state'']"
  "ss_failed (snd (run_test_suite example_firewall security_tests)) = 2"
  by code_simp+

theorem run_test_suite_summary_witness:
  "ss_total (snd (run_test_suite example_firewall security_tests)) = 3
   \<and> ss_passed (snd (run_test_suite example_firewall security_tests)) = 1
   \<and> \<not> ss_can_deploy (snd (run_test_suite example_firewall security_tests))"
proof -
  let ?s = "snd (run_test_suite example_firewall security_tests)"
  have "run_test_suite example_firewall security_tests = (fst (run_test_suite example_firewall security_tests), ?s)"
    by simp
  note sum = run_test_suite_summary[OF this]
  have "length security_tests = 3" by (simp add: security_tests_def)
  moreover have "\<not> ss_can_deploy ?s" by code_simp
  ultimately show ?thesis using sum example_suites(3) by simp
qed

end
