(* ===== verification/Multi_Fw.thy ===== *)
theory Multi_Fw
  imports Fw_Simulator
begin

text \<open>
  \<open>MultiFirewallSimulation\<close> of \<open>shared/firewall_simulator.py\<close>: the breadth-first search for
  a path between firewalls, the hop-by-hop simulation with NAT between the hops, and the
  multi-firewall test run. The search loop is a recursion with its own termination proof (every
  iteration visits a new firewall or shortens the queue).
\<close>

type_synonym topology = "(string \<times> string list) list"

definition neighbours :: "topology \<Rightarrow> string \<Rightarrow> string list" where
  "neighbours topo v = (case map_of topo v of None \<Rightarrow> [] | Some ns \<Rightarrow> ns)"

text \<open>The inner loop over one node's neighbours: a path when the target is met.\<close>

type_synonym bfs_queue = "(string \<times> string list) list"

fun expand :: "string \<Rightarrow> string list \<Rightarrow> string list \<Rightarrow> string set \<Rightarrow> bfs_queue \<Rightarrow>
    string list + string set \<times> bfs_queue" where
  "expand dest path [] visited queue = Inr (visited, queue)"
| "expand dest path (n # ns) visited queue =
     (if n = dest then Inl (path @ [n])
      else if n \<notin> visited then expand dest path ns (insert n visited) (queue @ [(n, path @ [n])])
      else expand dest path ns visited queue)"

lemma expand_visited:
  "expand dest path ns visited queue = Inr (visited', queue') \<Longrightarrow>
     dest \<notin> set ns \<and> visited' = visited \<union> set ns"
  by (induction dest path ns visited queue rule: expand.induct) (auto split: if_splits)

lemma expand_queue:
  "expand dest path ns visited queue = Inr (visited', queue') \<Longrightarrow>
     \<exists>new. queue' = queue @ map (\<lambda>n. (n, path @ [n])) new \<and> distinct new \<and> set new = set ns - visited"
proof (induction ns arbitrary: visited queue)
  case (Cons n ns)
  show ?case
  proof (cases "n \<in> visited")
    case True
    with Cons.prems have "expand dest path ns visited queue = Inr (visited', queue')"
      by (simp split: if_splits)
    from Cons.IH[OF this] True show ?thesis by auto
  next
    case False
    with Cons.prems have "expand dest path ns (insert n visited) (queue @ [(n, path @ [n])]) = Inr (visited', queue')"
      by (simp split: if_splits)
    from Cons.IH[OF this] obtain new where
      q: "queue' = (queue @ [(n, path @ [n])]) @ map (\<lambda>n. (n, path @ [n])) new" and
      new: "distinct new" "set new = set ns - insert n visited" by blast
    have "queue' = queue @ map (\<lambda>n. (n, path @ [n])) (n # new)" using q by simp
    moreover have "distinct (n # new)" "set (n # new) = set (n # ns) - visited" using new False by auto
    ultimately show ?thesis by blast
  qed
qed simp

lemma expand_Inl: "expand dest path ns visited queue = Inl p \<Longrightarrow> dest \<in> set ns \<and> p = path @ [dest]"
  by (induction dest path ns visited queue rule: expand.induct) (auto split: if_splits)

definition universe :: "topology \<Rightarrow> string set" where
  "universe topo = (\<Union>e\<in>set topo. set (snd e))"

lemma finite_universe [simp]: "finite (universe topo)"
  by (simp add: universe_def)

lemma neighbours_universe: "set (neighbours topo v) \<subseteq> universe topo"
  by (cases "map_of topo v") (force simp: neighbours_def universe_def dest: map_of_SomeD)+

text \<open>The outer loop; the empty list when the queue runs out.\<close>

function bfs :: "topology \<Rightarrow> string \<Rightarrow> string set \<Rightarrow> bfs_queue \<Rightarrow> string list" where
  "bfs topo dest visited [] = []"
| "bfs topo dest visited ((v, path) # queue) =
     (case expand dest path (neighbours topo v) visited queue of
        Inl p \<Rightarrow> p
      | Inr (visited', queue') \<Rightarrow> bfs topo dest visited' queue')"
  by pat_completeness auto

termination
proof (relation "measures [\<lambda>(topo, dest, visited, queue). card (universe topo - visited),
                           \<lambda>(topo, dest, visited, queue). length queue]")
  fix topo dest visited v path queue r visited' queue'
  assume e: "expand dest path (neighbours topo v) visited queue = Inr r" and r: "(visited', queue') = r"
  have v': "visited' = visited \<union> set (neighbours topo v)" using expand_visited[OF e[folded r]] by simp
  from expand_queue[OF e[folded r]] obtain new where
    q': "queue' = queue @ map (\<lambda>n. (n, path @ [n])) new" and
    new: "set new = set (neighbours topo v) - visited" by blast
  show "((topo, dest, visited', queue'), (topo, dest, visited, (v, path) # queue))
    \<in> measures [\<lambda>(topo, dest, visited, queue). card (universe topo - visited),
                \<lambda>(topo, dest, visited, queue). length queue]"
  proof (cases "new = []")
    case True
    with new have "set (neighbours topo v) \<subseteq> visited" by auto
    with v' q' True show ?thesis by (simp add: Un_absorb2)
  next
    case False
    then obtain n where "n \<in> set new" by (cases new) auto
    with new neighbours_universe[of topo v] v' have "universe topo - visited' \<subset> universe topo - visited"
      by blast
    then show ?thesis by (simp add: psubset_card_mono)
  qed
qed simp

definition calculate_path :: "topology \<Rightarrow> string \<Rightarrow> string \<Rightarrow> string list" where
  "calculate_path topo source dest =
     (if source = dest then [source] else bfs topo dest {source} [(source, [source])])"

section \<open>Hop-by-hop simulation\<close>

record multi_firewall =
  mf_firewalls :: "(string \<times> firewall) list"
  mf_topology :: topology

definition add_firewall :: "firewall \<Rightarrow> multi_firewall \<Rightarrow> multi_firewall" where
  "add_firewall fw m = m\<lparr>mf_firewalls := dict_put (fw_id fw) fw (mf_firewalls m)\<rparr>"

definition set_topology :: "topology \<Rightarrow> multi_firewall \<Rightarrow> multi_firewall" where
  "set_topology topo m = m\<lparr>mf_topology := topo\<rparr>"

text \<open>Only the destination is translated; a prerouting entry replaces it even by \<open>None\<close>.\<close>

definition apply_nat_to_packet :: "network_packet \<Rightarrow> nat_translation \<Rightarrow> network_packet" where
  "apply_nat_to_packet p t =
     (case nt_pre t of None \<Rightarrow> p | Some (_, _, dst) \<Rightarrow> p\<lparr>pk_dst_ip := dst\<rparr>)"

record hop =
  hop_firewall_id :: string
  hop_firewall_name :: string
  hop_result :: simulation_result

fun run_hops :: "multi_firewall \<Rightarrow> string list \<Rightarrow> network_packet \<Rightarrow> hop list" where
  "run_hops m [] p = []"
| "run_hops m (i # is) p =
     (case map_of (mf_firewalls m) i of
        None \<Rightarrow> run_hops m is p
      | Some fw \<Rightarrow>
          (let res = simulate_packet fw p;
               h = \<lparr>hop_firewall_id = i, hop_firewall_name = fw_name fw, hop_result = res\<rparr> in
           if terminal (res_action res) then [h]
           else h # run_hops m is (case res_nat_translation res of
                     None \<Rightarrow> p | Some t \<Rightarrow> apply_nat_to_packet p t)))"

datatype end_to_end =
    No_Path string string
  | Traversed "string list" nat string "hop list"

definition simulate_end_to_end :: "multi_firewall \<Rightarrow> string \<Rightarrow> string \<Rightarrow> network_packet \<Rightarrow> end_to_end" where
  "simulate_end_to_end m source dest p =
     (let path = calculate_path (mf_topology m) source dest in
      if path = [] then No_Path source dest
      else (let hops = run_hops m path p in
            Traversed path (length hops)
              (if hops \<noteq> [] then action_value (res_action (hop_result (last hops))) else ''unknown'') hops))"

fun final_action :: "end_to_end \<Rightarrow> string option" where
  "final_action (No_Path s d) = None"
| "final_action (Traversed path n act hops) = Some act"

text \<open>A multi-firewall test; an absent expectation is \<open>None\<close>, and so is the action without a path.\<close>

record multi_test =
  mt_name :: "string option"
  mt_source :: string
  mt_dest :: string
  mt_packet :: network_packet
  mt_expected :: "string option"

record multi_test_result =
  mr_name :: "string option"
  mr_source :: string
  mr_destination :: string
  mr_passed :: bool
  mr_result :: end_to_end

definition run_multi_test :: "multi_firewall \<Rightarrow> multi_test \<Rightarrow> multi_test_result" where
  "run_multi_test m t =
     (let res = simulate_end_to_end m (mt_source t) (mt_dest t) (mt_packet t) in
      \<lparr>mr_name = mt_name t, mr_source = mt_source t, mr_destination = mt_dest t,
       mr_passed = (final_action res = mt_expected t), mr_result = res\<rparr>)"

text \<open>\<open>all_passed\<close>, which is also \<open>can_deploy\<close>, and the results in order.\<close>

definition run_multi_firewall_tests :: "multi_firewall \<Rightarrow> multi_test list \<Rightarrow> bool \<times> multi_test_result list" where
  "run_multi_firewall_tests m ts =
     foldl (\<lambda>(all, rs) t. let r = run_multi_test m t in (all \<and> mr_passed r, rs @ [r])) (True, []) ts"

section \<open>The search invariant\<close>

fun walk :: "topology \<Rightarrow> string list \<Rightarrow> bool" where
  "walk topo (x # y # r) = (y \<in> set (neighbours topo x) \<and> walk topo (y # r))"
| "walk topo _ = True"

lemma walk_snoc: "p \<noteq> [] \<Longrightarrow> walk topo (p @ [n]) \<longleftrightarrow> walk topo p \<and> n \<in> set (neighbours topo (last p))"
  by (induction topo p rule: walk.induct) auto

lemma walk_nth: "walk topo q \<Longrightarrow> Suc i < length q \<Longrightarrow> q ! Suc i \<in> set (neighbours topo (q ! i))"
proof (induction topo q arbitrary: i rule: walk.induct)
  case (1 topo x y r)
  then show ?case by (cases i) auto
qed auto

text \<open>Fully processed nodes: visited and no longer in the queue.\<close>

definition processed :: "string set \<Rightarrow> bfs_queue \<Rightarrow> string set" where
  "processed visited queue = visited - fst ` set queue"

text \<open>
  \<open>queue_ok\<close>: entries carry walks from the source, sorted by length and spanning at most two
  levels. \<open>frontier_ok\<close>: on every walk from the source the first node that is not processed
  is in the queue, with a path no longer than the walk's prefix.
\<close>

definition queue_ok :: "topology \<Rightarrow> string \<Rightarrow> string set \<Rightarrow> bfs_queue \<Rightarrow> bool" where
  "queue_ok topo source visited queue \<longleftrightarrow>
     (\<forall>(v, p)\<in>set queue. v \<in> visited \<and> p \<noteq> [] \<and> hd p = source \<and> last p = v \<and> walk topo p)
     \<and> distinct (map fst queue) \<and> sorted (map (length \<circ> snd) queue)
     \<and> (\<forall>e\<in>set queue. length (snd e) \<le> Suc (length (snd (hd queue))))
     \<and> (\<forall>x\<in>processed visited queue. set (neighbours topo x) \<subseteq> visited)"

definition frontier_ok :: "topology \<Rightarrow> string \<Rightarrow> string set \<Rightarrow> bfs_queue \<Rightarrow> bool" where
  "frontier_ok topo source visited queue \<longleftrightarrow>
     (\<forall>q j. walk topo q \<longrightarrow> hd q = source \<longrightarrow> j < length q \<longrightarrow>
        (\<forall>i<j. q ! i \<in> processed visited queue) \<longrightarrow> q ! j \<notin> processed visited queue \<longrightarrow>
        (\<exists>p. (q ! j, p) \<in> set queue \<and> length p \<le> Suc j))"

lemma processed_step:
  assumes "queue_ok topo source visited ((v, p) # queue)" "set new \<inter> visited = {}"
  shows "processed (visited \<union> set new) (queue @ map (\<lambda>n. (n, p @ [n])) new)
           = insert v (processed visited ((v, p) # queue))"
proof -
  have "v \<in> visited" "v \<notin> fst ` set queue"
    using assms(1) by (auto simp: queue_ok_def)
  moreover have "fst ` set (queue @ map (\<lambda>n. (n, p @ [n])) new) = fst ` set queue \<union> set new"
    by (simp add: image_Un image_image)
  ultimately show ?thesis using assms(2) unfolding processed_def by auto
qed

lemma queue_ok_step:
  assumes ok: "queue_ok topo source visited ((v, p) # queue)"
    and new: "distinct new" "set new = set (neighbours topo v) - visited"
  shows "queue_ok topo source (visited \<union> set new) (queue @ map (\<lambda>n. (n, p @ [n])) new)"
proof -
  let ?q = "queue @ map (\<lambda>n. (n, p @ [n])) new"
  have p: "p \<noteq> []" "hd p = source" "last p = v" "walk topo p" "v \<in> visited"
    and len: "\<forall>e\<in>set queue. length p \<le> length (snd e) \<and> length (snd e) \<le> Suc (length p)"
    using ok by (auto simp: queue_ok_def)
  have "\<forall>(w, r)\<in>set ?q. w \<in> visited \<union> set new \<and> r \<noteq> [] \<and> hd r = source \<and> last r = w \<and> walk topo r"
    using ok p new(2) by (auto simp: queue_ok_def walk_snoc)
  moreover have "distinct (map fst ?q)"
  proof -
    have "fst ` set queue \<subseteq> visited" using ok by (auto simp: queue_ok_def)
    then show ?thesis using ok new by (auto simp: queue_ok_def comp_def)
  qed
  moreover have "sorted (map (length \<circ> snd) ?q)"
    using ok len by (auto simp: queue_ok_def sorted_append sorted_wrt_map)
  moreover have "\<forall>e\<in>set ?q. length (snd e) \<le> Suc (length (snd (hd ?q)))"
  proof -
    have "length p \<le> length (snd (hd ?q))" if "?q \<noteq> []"
      using that len by (cases queue; cases new) auto
    moreover have "\<forall>e\<in>set ?q. length (snd e) \<le> Suc (length p)" using len by auto
    ultimately show ?thesis by fastforce
  qed
  moreover have "\<forall>x\<in>processed (visited \<union> set new) ?q. set (neighbours topo x) \<subseteq> visited \<union> set new"
  proof -
    have "set new \<inter> visited = {}" using new(2) by auto
    from processed_step[OF ok this] show ?thesis using ok new(2) by (auto simp: queue_ok_def)
  qed
  ultimately show ?thesis unfolding queue_ok_def by blast
qed

lemma frontier_ok_step:
  assumes ok: "queue_ok topo source visited ((v, p) # queue)"
    and fr: "frontier_ok topo source visited ((v, p) # queue)"
    and new: "distinct new" "set new = set (neighbours topo v) - visited"
  shows "frontier_ok topo source (visited \<union> set new) (queue @ map (\<lambda>n. (n, p @ [n])) new)"
  unfolding frontier_ok_def
proof (intro allI impI)
  let ?Q = "queue @ map (\<lambda>n. (n, p @ [n])) new"
  let ?D = "processed visited ((v, p) # queue)"
  fix q j
  assume w: "walk topo q" "hd q = source" "j < length q"
    and before: "\<forall>i<j. q ! i \<in> processed (visited \<union> set new) ?Q"
    and at: "q ! j \<notin> processed (visited \<union> set new) ?Q"
  have D: "processed (visited \<union> set new) ?Q = insert v ?D"
    by (rule processed_step[OF ok]) (use new(2) in blast)
  have vD: "v \<notin> ?D" by (simp add: processed_def)
  show "\<exists>r. (q ! j, r) \<in> set ?Q \<and> length r \<le> Suc j"
  proof (cases "\<exists>i<j. q ! i = v")
    case False
    with before D have "\<forall>i<j. q ! i \<in> ?D" by auto
    moreover have nv: "q ! j \<notin> ?D" "q ! j \<noteq> v" using at D by auto
    ultimately obtain r where "(q ! j, r) \<in> set ((v, p) # queue)" "length r \<le> Suc j"
      using fr w unfolding frontier_ok_def by blast
    with nv(2) show ?thesis by auto
  next
    case True
    define i where "i = (LEAST i. i < j \<and> q ! i = v)"
    have i: "i < j" "q ! i = v" using LeastI_ex[OF True] by (auto simp: i_def)
    have "\<forall>k<i. q ! k \<in> ?D"
    proof (intro allI impI)
      fix k assume "k < i"
      then have "q ! k \<noteq> v" using not_less_Least[of k "\<lambda>i. i < j \<and> q ! i = v"] i(1)
        by (simp add: i_def)
      moreover have "k < j" using \<open>k < i\<close> i(1) by simp
      ultimately show "q ! k \<in> ?D" using before D by auto
    qed
    moreover have "q ! i \<notin> ?D" "i < length q" using i vD w(3) by auto
    ultimately obtain r where "(q ! i, r) \<in> set ((v, p) # queue)" "length r \<le> Suc i"
      using fr w(1,2) unfolding frontier_ok_def by blast
    moreover have "v \<notin> fst ` set queue" using ok by (simp add: queue_ok_def)
    ultimately have len: "length p \<le> Suc i" using i(2) by (auto simp: image_iff)
    obtain k where k: "j = Suc k" using i(1) by (cases j) auto
    have "q ! j \<in> visited \<union> set new"
    proof -
      have "q ! j \<in> set (neighbours topo (q ! k))" using walk_nth[of topo q k] w k by simp
      moreover have "q ! k \<in> insert v ?D" using before D k by auto
      ultimately show ?thesis using ok new(2) by (auto simp: queue_ok_def)
    qed
    with at have "q ! j \<in> fst ` set ?Q" unfolding processed_def by blast
    then obtain r where r: "(q ! j, r) \<in> set ?Q" unfolding image_iff by (metis prod.collapse)
    have "\<forall>e\<in>set ?Q. length (snd e) \<le> Suc (length p)" using ok by (auto simp: queue_ok_def)
    with r len i(1) show ?thesis by fastforce
  qed
qed

lemma bfs_correct:
  assumes "queue_ok topo source visited queue" "frontier_ok topo source visited queue"
    "dest \<notin> visited" "source \<noteq> dest"
  shows "(bfs topo dest visited queue \<noteq> [] \<longrightarrow>
            walk topo (bfs topo dest visited queue) \<and> hd (bfs topo dest visited queue) = source
            \<and> last (bfs topo dest visited queue) = dest)
         \<and> (\<forall>q. walk topo q \<and> q \<noteq> [] \<and> hd q = source \<and> last q = dest \<longrightarrow>
              bfs topo dest visited queue \<noteq> [] \<and> length (bfs topo dest visited queue) \<le> length q)"
  using assms
proof (induction topo dest visited queue rule: bfs.induct)
  case (1 topo dest visited)
  have "dest \<in> visited" if q: "walk topo q" "q \<noteq> []" "hd q = source" "last q = dest" for q
  proof -
    have "q ! j \<in> processed visited []" if "j < length q" for j
      using that
    proof (induction j rule: less_induct)
      case (less j)
      then show ?case using 1(2) q unfolding frontier_ok_def by fastforce
    qed
    from this[of "length q - 1"] q show ?thesis by (auto simp: last_conv_nth processed_def)
  qed
  with 1 show ?case by auto
next
  case (2 topo dest visited v path queue)
  have p: "path \<noteq> []" "hd path = source" "last path = v" "walk topo path"
    using 2(2) by (auto simp: queue_ok_def)
  show ?case
  proof (cases "expand dest path (neighbours topo v) visited queue")
    case (Inl r)
    from expand_Inl[OF this] have r: "dest \<in> set (neighbours topo v)" "r = path @ [dest]" by auto
    have "Suc (length path) \<le> length q"
      if q: "walk topo q" "q \<noteq> []" "hd q = source" "last q = dest" for q
    proof -
      let ?D = "processed visited ((v, path) # queue)"
      have "dest \<notin> ?D" using 2(4) by (simp add: processed_def)
      then have ex: "\<exists>j. j < length q \<and> q ! j \<notin> ?D"
        using q by (metis diff_less last_conv_nth length_greater_0_conv less_numeral_extra(1))
      define j where "j = (LEAST j. j < length q \<and> q ! j \<notin> ?D)"
      have j: "j < length q" "q ! j \<notin> ?D" using LeastI_ex[OF ex] by (auto simp: j_def)
      have "\<forall>i<j. q ! i \<in> ?D" using not_less_Least j(1) unfolding j_def by (metis less_trans)
      with 2(3) q j obtain r where r: "(q ! j, r) \<in> set ((v, path) # queue)" "length r \<le> Suc j"
        unfolding frontier_ok_def by blast
      have "q ! j \<in> visited" "length path \<le> length r"
        using 2(2) r(1) by (auto simp: queue_ok_def)
      moreover have "j \<noteq> length q - 1" using q 2(4) \<open>q ! j \<in> visited\<close> by (metis last_conv_nth)
      ultimately show ?thesis using j(1) r(2) by linarith
    qed
    with Inl r p show ?thesis by (auto simp: walk_snoc)
  next
    case (Inr s)
    then obtain visited' queue' where s: "expand dest path (neighbours topo v) visited queue = Inr (visited', queue')"
      by (cases s) auto
    from expand_queue[OF s] obtain new where
      q': "queue' = queue @ map (\<lambda>n. (n, path @ [n])) new" and
      new: "distinct new" "set new = set (neighbours topo v) - visited" by blast
    have v': "visited' = visited \<union> set new" and d: "dest \<notin> visited'"
      using expand_visited[OF s] new(2) 2(4) by auto
    have "queue_ok topo source visited' queue'" "frontier_ok topo source visited' queue'"
      unfolding q' v' using queue_ok_step[OF 2(2) new] frontier_ok_step[OF 2(2,3) new] by auto
    from 2(1)[OF s refl this d 2(5)] show ?thesis by (simp add: s)
  qed
qed

section \<open>Properties\<close>

text \<open>C31: the path search is total and exact: its result is empty exactly when no walk along the
  topology leads from the source to the target firewall; otherwise it is such a walk, and no walk
  is shorter.\<close>

theorem calculate_path_shortest:
  "(calculate_path topo source dest = [] \<longleftrightarrow>
      \<not> (\<exists>q. walk topo q \<and> q \<noteq> [] \<and> hd q = source \<and> last q = dest))
   \<and> (calculate_path topo source dest \<noteq> [] \<longrightarrow>
      walk topo (calculate_path topo source dest) \<and> hd (calculate_path topo source dest) = source
      \<and> last (calculate_path topo source dest) = dest
      \<and> (\<forall>q. walk topo q \<and> q \<noteq> [] \<and> hd q = source \<and> last q = dest \<longrightarrow>
            length (calculate_path topo source dest) \<le> length q))"
proof (cases "source = dest")
  case True
  have "walk topo [dest] \<and> [dest] \<noteq> [] \<and> hd [dest] = dest \<and> last [dest] = dest" by simp
  with True show ?thesis unfolding calculate_path_def by (force simp: Suc_le_eq)
next
  case False
  have "queue_ok topo source {source} [(source, [source])]"
    by (simp add: queue_ok_def processed_def)
  moreover have "frontier_ok topo source {source} [(source, [source])]"
    unfolding frontier_ok_def
  proof (intro allI impI)
    fix q j
    assume q: "hd q = source" "j < length q"
      and before: "\<forall>i<j. q ! i \<in> processed {source} [(source, [source])]"
    from before have "j = 0" by (cases j) (auto simp: processed_def)
    with q have "q ! j = source" by (cases q) auto
    then show "\<exists>p. (q ! j, p) \<in> set [(source, [source])] \<and> length p \<le> Suc j" by simp
  qed
  ultimately show ?thesis
    using bfs_correct[of topo source "{source}" "[(source, [source])]" dest] False
    unfolding calculate_path_def by auto
qed

definition known :: "multi_firewall \<Rightarrow> string list \<Rightarrow> string list" where
  "known m path = filter (\<lambda>i. map_of (mf_firewalls m) i \<noteq> None) path"

abbreviation stopped :: "hop \<Rightarrow> bool" where
  "stopped h \<equiv> terminal (res_action (hop_result h))"

lemma run_hops_prefix: "map hop_firewall_id (run_hops m path p) = take (length (run_hops m path p)) (known m path)"
  by (induction m path p rule: run_hops.induct)
    (auto simp: known_def Let_def split: option.splits)

lemma run_hops_stop:
  "\<forall>h\<in>set (butlast (run_hops m path p)). \<not> stopped h"
  "(\<forall>h\<in>set (run_hops m path p). \<not> stopped h) \<Longrightarrow> length (run_hops m path p) = length (known m path)"
  by (induction m path p rule: run_hops.induct)
    (auto simp: known_def Let_def split: option.splits if_splits)

lemma stopped_last:
  "xs \<noteq> [] \<Longrightarrow> \<forall>h\<in>set (butlast xs). \<not> P h \<Longrightarrow> (\<exists>h\<in>set xs. P h) \<longleftrightarrow> P (last xs)"
  by (cases xs rule: rev_cases) auto

text \<open>An end-to-end simulation visits the known firewalls of the path in order, never goes past a
  firewall that drops or rejects the packet, reports the action of the last firewall visited, and
  that action lets the packet through only if every known firewall on the path was visited and
  none of them blocked it.\<close>

theorem simulate_end_to_end_sound:
  "simulate_end_to_end m source dest p = Traversed path n act hops \<Longrightarrow>
     path = calculate_path (mf_topology m) source dest \<and> n = length hops
     \<and> map hop_firewall_id hops = take n (known m path)
     \<and> (\<forall>h\<in>set (butlast hops). \<not> stopped h)
     \<and> (hops \<noteq> [] \<longrightarrow> act = action_value (res_action (hop_result (last hops))))
     \<and> (act \<notin> {''drop'', ''reject''} \<longrightarrow>
          map hop_firewall_id hops = known m path \<and> (\<forall>h\<in>set hops. \<not> stopped h))"
proof -
  assume sim: "simulate_end_to_end m source dest p = Traversed path n act hops"
  then have h: "hops = run_hops m path p" "n = length hops"
      "path = calculate_path (mf_topology m) source dest"
    and act: "act = (if hops \<noteq> [] then action_value (res_action (hop_result (last hops))) else ''unknown'')"
    by (auto simp: simulate_end_to_end_def Let_def split: if_splits)
  have blocked: "terminal a \<longleftrightarrow> action_value a \<in> {''drop'', ''reject''}" for a
    by (cases a) (simp_all add: terminal_def)
  have "map hop_firewall_id hops = known m path \<and> (\<forall>x\<in>set hops. \<not> stopped x)"
    if "act \<notin> {''drop'', ''reject''}"
  proof -
    have "\<forall>x\<in>set hops. \<not> stopped x"
      using that act stopped_last[of hops stopped] run_hops_stop(1)[of m path p] h(1)
      by (cases "hops = []") (auto simp: blocked)
    then show ?thesis using run_hops_stop(2) run_hops_prefix[of m path p] h(1) by simp
  qed
  with h act show ?thesis using run_hops_stop(1)[of m path p] run_hops_prefix[of m path p] by auto
qed

lemma foldl_multi:
  "foldl (\<lambda>(all, rs) t. let r = run_multi_test m t in (all \<and> mr_passed r, rs @ [r])) (b, acc) ts =
     (b \<and> (\<forall>t\<in>set ts. mr_passed (run_multi_test m t)), acc @ map (run_multi_test m) ts)"
  by (induction ts arbitrary: b acc) (auto simp: Let_def)

text \<open>A multi-firewall run allows deployment exactly when every test met its expectation, and a
  test whose firewalls are not connected meets only the absent expectation.\<close>

theorem run_multi_firewall_tests_gate:
  "run_multi_firewall_tests m ts =
     (\<forall>t\<in>set ts. final_action (simulate_end_to_end m (mt_source t) (mt_dest t) (mt_packet t)) = mt_expected t,
      map (run_multi_test m) ts)
   \<and> (calculate_path (mf_topology m) (mt_source t) (mt_dest t) = [] \<longrightarrow>
        (mr_passed (run_multi_test m t) \<longleftrightarrow> mt_expected t = None))"
proof -
  have passed: "mr_passed (run_multi_test m t) \<longleftrightarrow>
      final_action (simulate_end_to_end m (mt_source t) (mt_dest t) (mt_packet t)) = mt_expected t" for t
    by (simp add: run_multi_test_def Let_def)
  moreover have "run_multi_firewall_tests m ts =
      (\<forall>t\<in>set ts. mr_passed (run_multi_test m t), map (run_multi_test m) ts)"
    unfolding run_multi_firewall_tests_def foldl_multi by simp
  moreover have "final_action (simulate_end_to_end m (mt_source t) (mt_dest t) (mt_packet t)) = None"
    if "calculate_path (mf_topology m) (mt_source t) (mt_dest t) = []"
    using that by (simp add: simulate_end_to_end_def)
  ultimately show ?thesis by auto
qed

section \<open>A two-site example\<close>

definition two_sites :: multi_firewall where
  "two_sites = add_firewall (add_rule ((default_rule 7 ''no telnet'' ''forward'' DROP)\<lparr>r_dst_port := Some 23\<rparr>)
       (set_interfaces [(''eth0'', ''lan''), (''eth1'', ''wan'')] (new_firewall ''b'' ''Branch'')))
     (add_firewall (new_firewall ''a'' ''Main'')
     (set_topology [(''a'', [''x'', ''b'']), (''b'', [''a'']), (''x'', [''c''])] \<lparr>mf_firewalls = [], mf_topology = []\<rparr>))"

definition telnet_packet :: network_packet where
  "telnet_packet = (default_packet ''10.0.0.1'' ''10.1.0.1'' TCP)\<lparr>pk_dst_port := Some 23\<rparr>"

lemma two_sites_run:
  "simulate_end_to_end two_sites ''a'' ''b'' telnet_packet =
     Traversed [''a'', ''b''] 2 ''drop'' (run_hops two_sites [''a'', ''b''] telnet_packet)"
  "calculate_path (mf_topology two_sites) ''a'' ''c'' = [''a'', ''x'', ''c'']"
  "calculate_path (mf_topology two_sites) ''b'' ''d'' = []"
  by code_simp+

theorem simulate_end_to_end_sound_witness:
  "known two_sites [''a'', ''b''] = [''a'', ''b'']
   \<and> map hop_firewall_id (run_hops two_sites [''a'', ''b''] telnet_packet) = [''a'', ''b'']"
proof -
  have "known two_sites [''a'', ''b''] = [''a'', ''b'']" by code_simp
  moreover have "map hop_firewall_id (run_hops two_sites [''a'', ''b''] telnet_packet)
      = take 2 (known two_sites [''a'', ''b''])"
    using simulate_end_to_end_sound[OF two_sites_run(1)] by blast
  ultimately show ?thesis by simp
qed

theorem run_multi_firewall_tests_gate_witness:
  "calculate_path (mf_topology two_sites) ''b'' ''d'' = []
   \<and> \<not> mr_passed (run_multi_test two_sites
        \<lparr>mt_name = None, mt_source = ''b'', mt_dest = ''d'', mt_packet = telnet_packet, mt_expected = Some ''drop''\<rparr>)"
  using run_multi_firewall_tests_gate[of two_sites "[]"
      "\<lparr>mt_name = None, mt_source = ''b'', mt_dest = ''d'', mt_packet = telnet_packet, mt_expected = Some ''drop''\<rparr>"]
    two_sites_run(3) by simp

text \<open>\<open>calculate_path_shortest\<close> at the example topology.\<close>

theorem calculate_path_shortest_witness:
  "calculate_path (mf_topology two_sites) ''a'' ''c'' = [''a'', ''x'', ''c'']
   \<and> \<not> (\<exists>q. walk (mf_topology two_sites) q \<and> q \<noteq> [] \<and> hd q = ''b'' \<and> last q = ''d'')"
  using calculate_path_shortest[of "mf_topology two_sites" "''b''" "''d''"] two_sites_run by simp

end
