(* ===== verification/Nft_Apply.thy ===== *)
theory Nft_Apply
  imports Nft_Rule
begin

text \<open>
  \<open>nft.py\<close>, third part: swapping the live ruleset (\<open>apply_ruleset\<close>) and the timed blacklist.

  The host state is the configuration file, its last-good copy and the live table, as the list of
  the files loaded into it since it was last deleted (empty: no table). The \<open>nft\<close> tool and the
  file system are parameters, collected in one record per call: whether a command could be started
  and how it ended, and whether a copy or a write succeeded. What the code relies on is written into
  the state changes: a failed load changes nothing, a successful one adds the file's rules.
\<close>

datatype 'a outcome = OS_Error | Ran 'a

record nft_host =
  conf :: "string option"
  last_good :: "string option"
  live :: "string list"

record nft_env =
  contained :: bool
  backup_ok :: bool
  write_left :: "string option"
  check_run :: "string \<Rightarrow> bool outcome"
  delete_run :: "bool outcome"
  load_run :: "string \<Rightarrow> bool outcome"
  restore_copy_ok :: bool
  reload_run :: "string \<Rightarrow> bool outcome"

text \<open>Restoring the last-good file after a failed load; the call reports failure in any case.\<close>

definition restore_last_good :: "nft_env \<Rightarrow> nft_host \<Rightarrow> nft_host" where
  "restore_last_good env h =
     (case last_good h of
        None \<Rightarrow> h
      | Some good \<Rightarrow>
          (if \<not> restore_copy_ok env then h
           else (let h' = h\<lparr>conf := Some good\<rparr> in
                 case reload_run env good of
                   Ran True \<Rightarrow> h'\<lparr>live := live h' @ [good]\<rparr>
                 | _ \<Rightarrow> h')))"

definition load_ruleset :: "nft_env \<Rightarrow> string \<Rightarrow> nft_host \<Rightarrow> bool \<times> nft_host" where
  "load_ruleset env ruleset h =
     (case load_run env ruleset of
        OS_Error \<Rightarrow> (False, h)
      | Ran True \<Rightarrow> (True, h\<lparr>live := live h @ [ruleset]\<rparr>)
      | Ran False \<Rightarrow> (False, restore_last_good env h))"

definition swap_ruleset :: "nft_env \<Rightarrow> string \<Rightarrow> nft_host \<Rightarrow> bool \<times> nft_host" where
  "swap_ruleset env ruleset h =
     (case check_run env ruleset of
        Ran True \<Rightarrow>
          (case delete_run env of
             OS_Error \<Rightarrow> (False, h)
           | Ran ok \<Rightarrow> load_ruleset env ruleset (if ok then h\<lparr>live := []\<rparr> else h))
      | _ \<Rightarrow> (False, h))"

definition apply_ruleset :: "nft_env \<Rightarrow> string \<Rightarrow> nft_host \<Rightarrow> bool \<times> nft_host" where
  "apply_ruleset env ruleset h =
     (if \<not> contained env then (False, h)
      else if conf h \<noteq> None \<and> \<not> backup_ok env then (False, h)
      else (let h1 = (if conf h \<noteq> None then h\<lparr>last_good := conf h\<rparr> else h) in
            case write_left env of
              Some part \<Rightarrow> (False, h1\<lparr>conf := Some part\<rparr>)
            | None \<Rightarrow> swap_ruleset env ruleset (h1\<lparr>conf := Some ruleset\<rparr>)))"

section \<open>Blacklist\<close>

definition block_set :: "string \<Rightarrow> string" where
  "block_set ip = (if ip_family (Some ip) = ''ip6'' then ''blacklist_v6'' else ''blacklist_v4'')"

definition block_argv :: "string \<Rightarrow> string \<Rightarrow> string list" where
  "block_argv ip timeout =
     [''nft'', ''add'', ''element'', ''inet'', ''viswall'', block_set ip, ''{'', ip, ''timeout'', timeout, ''}'']"

definition unblock_argv :: "string \<Rightarrow> string list" where
  "unblock_argv ip = [''nft'', ''delete'', ''element'', ''inet'', ''viswall'', block_set ip, ''{'', ip, ''}'']"

definition exit_ok :: "bool outcome \<Rightarrow> bool" where
  "exit_ok r \<longleftrightarrow> r = Ran True"

text \<open>The commands that were started and whether the call succeeded.\<close>

definition add_to_blacklist :: "(string list \<Rightarrow> bool outcome) \<Rightarrow> string \<Rightarrow> string \<Rightarrow> string list list \<times> bool" where
  "add_to_blacklist run ip timeout =
     (if \<not> valid_block_ip ip \<or> \<not> valid_block_timeout timeout then ([], False)
      else ([block_argv ip timeout], exit_ok (run (block_argv ip timeout))))"

definition remove_from_blacklist :: "(string list \<Rightarrow> bool outcome) \<Rightarrow> string \<Rightarrow> string list list \<times> bool" where
  "remove_from_blacklist run ip =
     (if \<not> valid_block_ip ip then ([], False)
      else ([unblock_argv ip], exit_ok (run (unblock_argv ip))))"

section \<open>Properties of the swap\<close>

lemmas apply_defs = apply_ruleset_def swap_ruleset_def load_ruleset_def restore_last_good_def

text \<open>Nothing is deleted before the new ruleset has passed validation: when the check rejects it or
  cannot run, or the backup or the write fails, the call reports failure and the live table is
  exactly what it was.\<close>

theorem apply_validates_first:
  "check_run env ruleset \<noteq> Ran True \<or> write_left env \<noteq> None \<or> \<not> contained env
     \<or> (conf h \<noteq> None \<and> \<not> backup_ok env) \<Longrightarrow>
   fst (apply_ruleset env ruleset h) = False \<and> live (snd (apply_ruleset env ruleset h)) = live h"
  by (auto simp: apply_ruleset_def swap_ruleset_def Let_def split: option.splits outcome.splits bool.splits)

text \<open>A host where every command succeeds, with a configuration in force.\<close>

definition healthy_env :: nft_env where
  "healthy_env = \<lparr>contained = True, backup_ok = True, write_left = None, check_run = (\<lambda>f. Ran True),
     delete_run = Ran True, load_run = (\<lambda>f. Ran True), restore_copy_ok = True, reload_run = (\<lambda>f. Ran True)\<rparr>"

definition running_host :: nft_host where
  "running_host = \<lparr>conf = Some ''old'', last_good = None, live = [''old'']\<rparr>"

theorem apply_validates_first_witness:
  "live (snd (apply_ruleset (healthy_env\<lparr>check_run := (\<lambda>f. Ran (f \<noteq> ''bad''))\<rparr>) ''bad'' running_host)) = [''old'']"
proof -
  have "check_run (healthy_env\<lparr>check_run := (\<lambda>f. Ran (f \<noteq> ''bad''))\<rparr>) ''bad'' \<noteq> Ran True" by simp
  from apply_validates_first[OF disjI1[OF this], of running_host] show ?thesis
    by (simp add: running_host_def)
qed

text \<open>The outcome of a swap. Success means the live table holds exactly the new ruleset (when the old
  table could be deleted or did not exist), the configuration file holds it and the previous file is
  the last-good copy; and when the load fails after a successful check, a previous configuration that
  still loads is back in force, in the file and in the table.\<close>

theorem apply_ruleset_outcome:
  "apply_ruleset env ruleset h = (ok, h') \<Longrightarrow> delete_run env = Ran True \<or> live h = [] \<Longrightarrow>
     (ok \<longrightarrow> live h' = [ruleset] \<and> conf h' = Some ruleset
            \<and> last_good h' = (if conf h = None then last_good h else conf h))
     \<and> (\<forall>old. \<not> ok \<longrightarrow> contained env \<longrightarrow> backup_ok env \<longrightarrow> write_left env = None \<longrightarrow> check_run env ruleset = Ran True
          \<longrightarrow> delete_run env \<noteq> OS_Error \<longrightarrow> load_run env ruleset = Ran False \<longrightarrow> restore_copy_ok env
          \<longrightarrow> conf h = Some old \<longrightarrow> reload_run env old = Ran True
          \<longrightarrow> live h' = [old] \<and> conf h' = Some old)"
  by (auto simp: apply_defs Let_def split: option.splits outcome.splits bool.splits if_splits)

theorem apply_ruleset_outcome_witness:
  "live (snd (apply_ruleset (healthy_env\<lparr>load_run := (\<lambda>f. Ran (f = ''old''))\<rparr>) ''new'' running_host)) = [''old'']"
proof -
  let ?env = "healthy_env\<lparr>load_run := (\<lambda>f. Ran (f = ''old''))\<rparr>"
  have "apply_ruleset ?env ''new'' running_host = (False, snd (apply_ruleset ?env ''new'' running_host))"
    by (simp add: apply_defs healthy_env_def running_host_def)
  from apply_ruleset_outcome[OF this] show ?thesis
    by (simp add: healthy_env_def running_host_def)
qed

definition picky_env :: nft_env where
  "picky_env = healthy_env\<lparr>check_run := (\<lambda>f. Ran (f \<noteq> ''bad'')), load_run := (\<lambda>f. Ran (f = ''old'')),
     reload_run := (\<lambda>f. Ran (f = ''old''))\<rparr>"

text \<open>A rejected ruleset poisons the undo point: the rejected text stays in the configuration file,
  so the next call saves it as last-good, and when that call's load fails the restore loads the
  rejected text and the host is left without a firewall table although it had one before both calls.\<close>

theorem rejected_ruleset_poisons_undo:
  "let (ok1, h1) = apply_ruleset picky_env ''bad'' running_host;
       (ok2, h2) = apply_ruleset picky_env ''new'' h1 in
   \<not> ok1 \<and> \<not> ok2 \<and> live h1 = [''old''] \<and> last_good h2 = Some ''bad'' \<and> live h2 = []"
  by (simp add: apply_defs picky_env_def healthy_env_def running_host_def)

section \<open>Reachable states\<close>

text \<open>
  A call gets to the delete when the backup, the write and the check succeed. A delete that exits with an error is
  expected when there is no table; with a table in place the load then adds to it. The number counts the calls in a row, since
  the table was last deleted or absent, that loaded over a table whose delete was refused.
\<close>

definition reaches_delete :: "nft_env \<Rightarrow> string \<Rightarrow> nft_host \<Rightarrow> bool" where
  "reaches_delete env ruleset h \<longleftrightarrow> contained env \<and> (conf h = None \<or> backup_ok env) \<and> write_left env = None \<and> check_run env ruleset = Ran True"

definition refused_in_a_row :: "nft_env \<Rightarrow> string \<Rightarrow> nft_host \<Rightarrow> nat \<Rightarrow> nat" where
  "refused_in_a_row env ruleset h n =
     (if \<not> reaches_delete env ruleset h \<or> delete_run env = OS_Error then n
      else if delete_run env = Ran False \<and> live h \<noteq> [] then Suc n else 0)"

text \<open>Any sequence of calls, each with an environment of its own.\<close>

inductive applied :: "nft_host \<Rightarrow> nat \<Rightarrow> nft_host \<Rightarrow> bool" for h0 where
  start: "applied h0 0 h0"
| call: "applied h0 n h \<Longrightarrow> applied h0 (refused_in_a_row env ruleset h n) (snd (apply_ruleset env ruleset h))"

lemma apply_live_cases:
  assumes "length (live h) \<le> Suc n"
  shows "length (live (snd (apply_ruleset env ruleset h))) \<le> Suc (refused_in_a_row env ruleset h n)"
  using assms by (auto simp: apply_defs refused_in_a_row_def reaches_delete_def Let_def split: option.splits outcome.splits bool.splits if_splits)

text \<open>C12: However often rulesets are applied, and however the calls fail, the live table holds the rules of at most one
  file, and of one more for each call in a row whose delete was refused although there was a table: it never mixes two
  rulesets unless the tool refuses to delete an existing table.\<close>

theorem live_table_never_mixes:
  "applied h0 n h \<Longrightarrow> length (live h0) \<le> 1 \<Longrightarrow> length (live h) \<le> Suc n"
proof (induction rule: applied.induct)
  case start
  then show ?case by simp
next
  case (call n h env ruleset)
  then show ?case using apply_live_cases by blast
qed

text \<open>A first apply, whose delete finds no table, and a second one whose load fails.\<close>

theorem live_table_never_mixes_witness:
  "length (live (snd (apply_ruleset picky_env ''new'' (snd (apply_ruleset (healthy_env\<lparr>delete_run := Ran False\<rparr>) ''v2'' (running_host\<lparr>live := []\<rparr>)))))) \<le> 1"
proof -
  let ?h0 = "running_host\<lparr>live := []\<rparr>"
  let ?h1 = "snd (apply_ruleset (healthy_env\<lparr>delete_run := Ran False\<rparr>) ''v2'' ?h0)"
  have n: "refused_in_a_row picky_env ''new'' ?h1 (refused_in_a_row (healthy_env\<lparr>delete_run := Ran False\<rparr>) ''v2'' ?h0 0) = 0"
    by (simp add: refused_in_a_row_def reaches_delete_def picky_env_def healthy_env_def running_host_def)
  have "applied ?h0 (refused_in_a_row picky_env ''new'' ?h1 (refused_in_a_row (healthy_env\<lparr>delete_run := Ran False\<rparr>) ''v2'' ?h0 0))
      (snd (apply_ruleset picky_env ''new'' ?h1))"
    by (intro applied.intros)
  from live_table_never_mixes[OF this[unfolded n]] show ?thesis by (simp add: running_host_def)
qed

text \<open>A refused delete does mix two rulesets.\<close>

theorem refused_delete_mixes:
  "live (snd (apply_ruleset (healthy_env\<lparr>delete_run := Ran False\<rparr>) ''new'' running_host)) = [''old'', ''new'']"
  by (simp add: apply_defs healthy_env_def running_host_def)

section \<open>Properties of the blacklist\<close>

text \<open>No command is started for an invalid address or timeout; the one command that is started names
  the set of the address's family and carries the address and a timeout of digits and one unit
  letter, and for an address without a scope id no argument contains a line break.\<close>

theorem blacklist_command_safe:
  "argv \<in> set (fst (add_to_blacklist run ip timeout)) \<Longrightarrow>
     (\<exists>a. ip_address ip = Some a \<and> argv ! 5 = (if is_v6_addr a then ''blacklist_v6'' else ''blacklist_v4''))
     \<and> argv ! 7 = ip \<and> argv ! 9 = timeout
     \<and> (\<exists>n u. timeout = n @ [u] \<and> all_digits n \<and> u \<in> set ''smhd'')
     \<and> (CHR ''%'' \<notin> set ip \<longrightarrow> (\<forall>w\<in>set argv. newline \<notin> set w))"
proof -
  assume "argv \<in> set (fst (add_to_blacklist run ip timeout))"
  then have ok: "valid_block_ip ip" "valid_block_timeout timeout" and argv: "argv = block_argv ip timeout"
    by (auto simp: add_to_blacklist_def split: if_splits)
  obtain a where a: "ip_address ip = Some a" using ok(1) by (auto simp: valid_block_ip_def)
  have n: "ip \<noteq> []" "ip \<noteq> ''any''" using a by (auto, code_simp+)
  have "ip_family (Some ip) = (if is_v6_addr a then ''ip6'' else ''ip'')"
  proof -
    have "CHR ''/'' \<notin> set ip"
    proof
      assume s: "CHR ''/'' \<in> set ip"
      have "ip4_of_string ip = None"
      proof (rule ccontr)
        assume "ip4_of_string ip \<noteq> None"
        then obtain v where v: "ip4_of_string ip = Some v" by blast
        obtain w where w: "w \<in> set (split_on CHR ''.'' ip)" "CHR ''/'' \<in> set w"
          using s split_on_set[of ip "CHR ''.''"] by auto
        from ip4_of_string_parts[OF v w(1)] w(2) show False
          by (auto simp: octet_of_string_def all_digits_def list_all_iff char_class_defs split: if_splits)
      qed
      with a s show False by (simp add: ip_address_def ip6_of_string_def)
    qed
    with a n show ?thesis by (simp add: ip_family_def)
  qed
  then have "argv ! 5 = (if is_v6_addr a then ''blacklist_v6'' else ''blacklist_v4'')"
    by (simp add: argv block_argv_def block_set_def)
  moreover have "\<exists>n u. timeout = n @ [u] \<and> all_digits n \<and> u \<in> set ''smhd''"
  proof -
    have "timeout \<noteq> []" using ok(2) by (auto simp: valid_block_timeout_def all_digits_def)
    then have "timeout = butlast timeout @ [last timeout]" by simp
    then show ?thesis using ok(2) unfolding valid_block_timeout_def by blast
  qed
  moreover have "\<forall>w\<in>set argv. newline \<notin> set w" if "CHR ''%'' \<notin> set ip"
    using that ok block_ip.ok_no_newline[of ip] block_timeout.ok_no_newline[of timeout]
    by (auto simp: argv block_argv_def block_set_def plain_block_ip_def char_defs)
  ultimately show ?thesis using a by (auto simp: argv block_argv_def)
qed

theorem blacklist_command_safe_witness:
  "add_to_blacklist (\<lambda>argv. Ran True) ''2001:db8::7'' ''30m'' = ([block_argv ''2001:db8::7'' ''30m''], True)
   \<and> block_argv ''2001:db8::7'' ''30m'' ! 5 = ''blacklist_v6''"
proof -
  have e: "add_to_blacklist (\<lambda>argv. Ran True) ''2001:db8::7'' ''30m'' = ([block_argv ''2001:db8::7'' ''30m''], True)"
    by code_simp
  then have m: "block_argv ''2001:db8::7'' ''30m'' \<in> set (fst (add_to_blacklist (\<lambda>argv. Ran True) ''2001:db8::7'' ''30m''))"
    by simp
  have "map_option is_v6_addr (ip_address ''2001:db8::7'') = Some True" by code_simp
  with blacklist_command_safe[OF m] e show ?thesis by auto
qed

end
