(* ===== verification/Fw_Payload.thy ===== *)
theory Fw_Payload
  imports Nft_Render
begin

text \<open>
  \<open>api.py\<close> of the firewall agent: converting the gateway's row payloads to renderer rules.

  A payload dictionary is a record of the keys the code reads; \<open>None\<close> is an absent key or a
  JSON \<open>null\<close>, which \<open>dict.get\<close> does not tell apart. Values have the JSON types the gateway
  sends (texts, integers, booleans). \<open>fe_name\<close> and \<open>ne_name\<close> keep the difference, because the
  code indexes them: the outer \<open>None\<close> is an absent key. \<open>FirewallApplyError\<close> is a datatype.
\<close>

datatype apply_error =
    Invalid_Rule nat string
  | Invalid_Nat nat string
  | Snapshot_Failed
  | Nft_Error string

record fw_entry =
  fe_id :: "int option"
  fe_name :: "string option option"
  fe_source_type :: "string option"
  fe_source_value :: "string option"
  fe_dest_type :: "string option"
  fe_dest_value :: "string option"
  fe_service_protocol :: "string option"
  fe_service_ports :: "string option"
  fe_interface_in :: "string option"
  fe_interface_out :: "string option"
  fe_action :: "string option"
  fe_log_enabled :: bool
  fe_limit :: "string option"
  fe_order_index :: "int option"

record nat_entry =
  ne_id :: "int option"
  ne_name :: "string option option"
  ne_type :: "string option"
  ne_source_network :: "string option"
  ne_dest_network :: "string option"
  ne_to_source :: "string option"
  ne_to_destination :: "string option"
  ne_service_protocol :: "string option"
  ne_service_ports :: "string option"
  ne_interface :: "string option"

definition empty_entry :: fw_entry where
  "empty_entry = \<lparr>fe_id = None, fe_name = None, fe_source_type = None, fe_source_value = None,
     fe_dest_type = None, fe_dest_value = None, fe_service_protocol = None, fe_service_ports = None,
     fe_interface_in = None, fe_interface_out = None, fe_action = None, fe_log_enabled = False,
     fe_limit = None, fe_order_index = None\<rparr>"

definition empty_nat_entry :: nat_entry where
  "empty_nat_entry = \<lparr>ne_id = None, ne_name = None, ne_type = None, ne_source_network = None,
     ne_dest_network = None, ne_to_source = None, ne_to_destination = None, ne_service_protocol = None,
     ne_service_ports = None, ne_interface = None\<rparr>"

section \<open>Service ports\<close>

definition port_expansion_cap :: int where "port_expansion_cap = 256"

datatype port_part = Skip | Ports "int list" | Too_Wide

definition parse_port_part :: "string \<Rightarrow> port_part" where
  "parse_port_part text =
     (let part = strip text in
      if part = [] then Skip
      else if CHR ''-'' \<in> set part then
        (let (low_text, high_text) = partition_at CHR ''-'' part in
         case (py_int low_text, py_int high_text) of
           (Some low, Some high) \<Rightarrow>
             (if \<not> (1 \<le> low \<and> low \<le> high \<and> high \<le> 65535) then Skip
              else if high - low + 1 > port_expansion_cap then Too_Wide
              else Ports [low..high])
         | _ \<Rightarrow> Skip)
      else (case py_int part of
          None \<Rightarrow> Skip
        | Some port \<Rightarrow> if 1 \<le> port \<and> port \<le> 65535 then Ports [port] else Skip))"

text \<open>The loop over the comma-separated parts; a range that is too wide empties the result.\<close>

fun collect_ports :: "string list \<Rightarrow> int list \<Rightarrow> int list" where
  "collect_ports [] ports = ports"
| "collect_ports (p # ps) ports =
     (case parse_port_part p of
        Skip \<Rightarrow> collect_ports ps ports
      | Ports qs \<Rightarrow> collect_ports ps (ports @ qs)
      | Too_Wide \<Rightarrow> [])"

definition parse_service_ports :: "string option \<Rightarrow> int list" where
  "parse_service_ports raw =
     (case raw of None \<Rightarrow> [] | Some t \<Rightarrow> collect_ports (split_on CHR '','' t) [])"

section \<open>Rules\<close>

definition rule_chain :: "string \<Rightarrow> string" where
  "rule_chain name =
     (if contains ''anti-spoof'' (lower name) \<or> contains ''internal-port'' (lower name)
      then ''forward'' else ''input'')"

definition source_types :: "string list" where
  "source_types = [''host'', ''network'', ''range'']"

definition typed_value :: "string option \<Rightarrow> string option \<Rightarrow> string option" where
  "typed_value ty v = (case ty of None \<Rightarrow> None | Some t \<Rightarrow> if t \<in> set source_types then v else None)"

definition fw_action_of :: "string \<Rightarrow> fw_action option" where
  "fw_action_of s = List.find (\<lambda>a. fw_action_value a = s) [A_ACCEPT, A_DROP, A_REJECT, A_LOG, A_QUEUE]"

definition nonempty :: "string option \<Rightarrow> string option" where
  "nonempty s = (if truthy_str s then s else None)"

definition action_text :: "fw_entry \<Rightarrow> string" where
  "action_text e = lower (if truthy_str (fe_action e) then or_empty (fe_action e) else ''accept'')"

definition base_rule :: "fw_entry \<Rightarrow> string \<Rightarrow> fw_action \<Rightarrow> fw_rule" where
  "base_rule e name act =
     \<lparr>fr_id = (case fe_id e of None \<Rightarrow> 0 | Some i \<Rightarrow> i), fr_name = name, fr_chain = rule_chain name,
      fr_source = typed_value (fe_source_type e) (fe_source_value e),
      fr_destination = typed_value (fe_dest_type e) (fe_dest_value e),
      fr_protocol = nonempty (fe_service_protocol e),
      fr_source_port = None, fr_destination_port = None,
      fr_interface_in = fe_interface_in e, fr_interface_out = fe_interface_out e,
      fr_action = act, fr_log = fe_log_enabled e, fr_state = None, fr_limit = fe_limit e,
      fr_comment = None, fr_order = (case fe_order_index e of None \<Rightarrow> 0 | Some i \<Rightarrow> i),
      fr_anti_spoof = contains ''anti-spoof'' (lower name)\<rparr>"

definition rules_from_payload :: "fw_entry \<Rightarrow> nat \<Rightarrow> apply_error + fw_rule list" where
  "rules_from_payload e index =
     (case fe_name e of
        None \<Rightarrow> Inl (Invalid_Rule index ''name'')
      | Some name \<Rightarrow>
          (case fw_action_of (action_text e) of
             None \<Rightarrow> Inl (Invalid_Rule index (action_text e))
           | Some act \<Rightarrow>
               (let base = base_rule e (or_empty name) act;
                    ports = parse_service_ports (fe_service_ports e) in
                if ports = [] then Inr [base]
                else Inr (map (\<lambda>p. base\<lparr>fr_destination_port := Some p\<rparr>) ports))))"

definition target_rejected :: "string option \<Rightarrow> bool" where
  "target_rejected t = (case t of None \<Rightarrow> False | Some v \<Rightarrow> \<not> valid_to_addr v)"

definition nat_from_payload :: "nat_entry \<Rightarrow> nat \<Rightarrow> apply_error + nat_rule" where
  "nat_from_payload e index =
     (let nat_type = lower (if truthy_str (ne_type e) then or_empty (ne_type e) else ''snat'');
          ports = parse_service_ports (ne_service_ports e) in
      if target_rejected (ne_to_source e) then Inl (Invalid_Nat index ''to_source'')
      else if target_rejected (ne_to_destination e) then Inl (Invalid_Nat index ''to_destination'')
      else (case ne_name e of
          None \<Rightarrow> Inl (Invalid_Nat index ''name'')
        | Some name \<Rightarrow> Inr
            \<lparr>nr_id = (case ne_id e of None \<Rightarrow> 0 | Some i \<Rightarrow> i),
             nr_name = (case name of None \<Rightarrow> ''None'' | Some t \<Rightarrow> t),
             nr_type = nat_type,
             nr_chain = (if nat_type \<in> {''snat'', ''masquerade''} then ''postrouting'' else ''prerouting''),
             nr_source = ne_source_network e, nr_destination = ne_dest_network e,
             nr_to_source = ne_to_source e, nr_to_destination = ne_to_destination e,
             nr_protocol = nonempty (ne_service_protocol e),
             nr_port = (if length ports = 1 then Some (hd ports) else None),
             nr_interface = ne_interface e, nr_comment = None\<rparr>))"

text \<open>The loops over the payload lists; the first invalid entry fails the whole conversion.\<close>

fun convert_rules :: "fw_entry list \<Rightarrow> nat \<Rightarrow> apply_error + fw_rule list" where
  "convert_rules [] index = Inr []"
| "convert_rules (e # es) index =
     (case rules_from_payload e index of
        Inl err \<Rightarrow> Inl err
      | Inr rs \<Rightarrow> (case convert_rules es (Suc index) of Inl err \<Rightarrow> Inl err | Inr rest \<Rightarrow> Inr (rs @ rest)))"

fun convert_nats :: "nat_entry list \<Rightarrow> nat \<Rightarrow> apply_error + nat_rule list" where
  "convert_nats [] index = Inr []"
| "convert_nats (e # es) index =
     (case nat_from_payload e index of
        Inl err \<Rightarrow> Inl err
      | Inr r \<Rightarrow> (case convert_nats es (Suc index) of Inl err \<Rightarrow> Inl err | Inr rest \<Rightarrow> Inr (r # rest)))"

section \<open>Properties\<close>

lemma parse_port_part_bounds:
  "parse_port_part t = Ports qs \<Longrightarrow> p \<in> set qs \<Longrightarrow> 1 \<le> p \<and> p \<le> 65535"
  by (auto simp: parse_port_part_def Let_def split: if_splits option.splits prod.splits)

lemma parse_port_part_length: "parse_port_part t = Ports qs \<Longrightarrow> length qs \<le> 256"
  by (auto simp: parse_port_part_def Let_def port_expansion_cap_def split: if_splits option.splits prod.splits)

definition part_ports :: "string \<Rightarrow> int list" where
  "part_ports p = (case parse_port_part p of Ports qs \<Rightarrow> qs | _ \<Rightarrow> [])"

lemma part_ports_simps [simp]:
  "parse_port_part p = Skip \<Longrightarrow> part_ports p = []" "parse_port_part p = Too_Wide \<Longrightarrow> part_ports p = []"
  "parse_port_part p = Ports qs \<Longrightarrow> part_ports p = qs"
  by (simp_all add: part_ports_def)

lemma part_ports_bounds: "q \<in> set (part_ports p) \<Longrightarrow> 1 \<le> q \<and> q \<le> 65535"
  using parse_port_part_bounds by (cases "parse_port_part p") auto

lemma part_ports_length: "length (part_ports p) \<le> 256"
  using parse_port_part_length by (cases "parse_port_part p") auto

lemma collect_ports_spec:
  "collect_ports ps acc =
     (if Too_Wide \<in> parse_port_part ` set ps then [] else acc @ concat (map part_ports ps))"
  by (induction ps acc rule: collect_ports.induct)
    (auto simp: image_iff split: port_part.splits)

text \<open>Parsing a service port list yields only ports in 1..65535, in the order of the text, and at most
  256 of them per part; the list is empty when it is absent, when no part parses, and also when any
  one part is a range wider than the cap, whatever the other parts say.\<close>

theorem parse_service_ports_bounds:
  "(\<forall>p\<in>set (parse_service_ports raw). 1 \<le> p \<and> p \<le> 65535)
   \<and> length (parse_service_ports raw) \<le> 256 * length (split_on CHR '','' (or_empty raw))
   \<and> parse_service_ports raw =
       (if raw = None \<or> Too_Wide \<in> parse_port_part ` set (split_on CHR '','' (or_empty raw)) then []
        else concat (map part_ports (split_on CHR '','' (or_empty raw))))"
proof -
  let ?ps = "split_on CHR '','' (or_empty raw)"
  have eq: "parse_service_ports raw =
      (if raw = None \<or> Too_Wide \<in> parse_port_part ` set ?ps then [] else concat (map part_ports ?ps))"
    by (cases raw) (simp_all add: parse_service_ports_def collect_ports_spec)
  have "\<forall>p\<in>set (concat (map part_ports ps)). 1 \<le> p \<and> p \<le> 65535" for ps
    using part_ports_bounds by auto
  moreover have "length (concat (map part_ports ps)) \<le> 256 * length ps" for ps
  proof (induction ps)
    case (Cons p ps)
    with part_ports_length[of p] show ?case by simp
  qed simp
  ultimately show ?thesis by (auto simp: eq)
qed

theorem parse_service_ports_bounds_witness:
  "parse_service_ports (Some ''22, 8000-8002,x'') = [22, 8000, 8001, 8002]
   \<and> parse_service_ports (Some ''22,1000-1300'') = []
   \<and> length (parse_service_ports (Some ''22, 8000-8002,x'')) \<le> 256 * 3"
proof -
  have "length (split_on CHR '','' (or_empty (Some ''22, 8000-8002,x''))) = 3" by code_simp
  moreover have "length (parse_service_ports (Some ''22, 8000-8002,x''))
      \<le> 256 * length (split_on CHR '','' (or_empty (Some ''22, 8000-8002,x'')))"
    using parse_service_ports_bounds by blast
  ultimately have "length (parse_service_ports (Some ''22, 8000-8002,x'')) \<le> 256 * 3" by (simp only:)
  moreover have "parse_service_ports (Some ''22, 8000-8002,x'') = [22, 8000, 8001, 8002]"
    "parse_service_ports (Some ''22,1000-1300'') = []" by code_simp+
  ultimately show ?thesis by blast
qed

lemma rules_from_payload_shape:
  "rules_from_payload e index = Inr rs \<Longrightarrow> r \<in> set rs \<Longrightarrow>
   \<exists>name act p. fe_name e = Some name \<and> fw_action_of (action_text e) = Some act
     \<and> r = (base_rule e (or_empty name) act)\<lparr>fr_destination_port := p\<rparr>
     \<and> (case p of None \<Rightarrow> parse_service_ports (fe_service_ports e) = []
                | Some q \<Rightarrow> q \<in> set (parse_service_ports (fe_service_ports e)))"
  by (fastforce simp: rules_from_payload_def Let_def base_rule_def split: option.splits if_splits)

lemma convert_rules_member:
  "convert_rules es index = Inr rs \<Longrightarrow> r \<in> set rs \<Longrightarrow>
   \<exists>e\<in>set es. \<exists>i ers. rules_from_payload e i = Inr ers \<and> r \<in> set ers"
proof (induction es arbitrary: index rs)
  case (Cons e es)
  then obtain ers rest where "rules_from_payload e index = Inr ers" "convert_rules es (Suc index) = Inr rest"
    "rs = ers @ rest" by (auto split: sum.splits)
  with Cons.IH[of "Suc index" rest] Cons.prems(2) show ?case by auto
qed simp

lemma rules_from_payload_bad:
  "fe_name e = None \<or> fw_action_of (action_text e) = None \<Longrightarrow> \<exists>err. rules_from_payload e i = Inl err"
  by (cases "fe_name e"; cases "fw_action_of (action_text e)") (auto simp: rules_from_payload_def)

lemma convert_rules_bad:
  "\<exists>e\<in>set es. fe_name e = None \<or> fw_action_of (action_text e) = None \<Longrightarrow> \<exists>err. convert_rules es i = Inl err"
proof (induction es arbitrary: i)
  case (Cons e es)
  show ?case
  proof (cases "fe_name e = None \<or> fw_action_of (action_text e) = None")
    case True
    then show ?thesis using rules_from_payload_bad[of e i] by auto
  next
    case False
    with Cons.prems have "\<exists>e\<in>set es. fe_name e = None \<or> fw_action_of (action_text e) = None" by auto
    from Cons.IH[OF this, of "Suc i"] show ?thesis by (auto split: sum.splits)
  qed
qed simp

text \<open>A payload that converts yields only rules for the input and forward chains, with a known action
  and a destination port that is absent or in 1..65535; a rule goes to the forward chain exactly
  when its name carries one of the two tags, and an entry without a name or with an unknown action
  fails the whole conversion.\<close>

theorem convert_rules_well_formed:
  "(convert_rules es 0 = Inr rs \<longrightarrow> r \<in> set rs \<longrightarrow>
      fr_chain r \<in> {''input'', ''forward''}
      \<and> (fr_chain r = ''forward'' \<longleftrightarrow> contains ''anti-spoof'' (lower (fr_name r)) \<or> contains ''internal-port'' (lower (fr_name r)))
      \<and> (fr_destination_port r = None \<or> port_in_range (fr_destination_port r))
      \<and> fr_state r = None \<and> fr_comment r = None)
   \<and> ((\<exists>e\<in>set es. fe_name e = None \<or> fw_action_of (action_text e) = None) \<longrightarrow> (\<exists>err. convert_rules es 0 = Inl err))"
proof (intro conjI impI)
  assume "convert_rules es 0 = Inr rs" "r \<in> set rs"
  from convert_rules_member[OF this] obtain e i ers where
    e: "rules_from_payload e i = Inr ers" "r \<in> set ers" by blast
  from rules_from_payload_shape[OF e] obtain name act p where
    r: "r = (base_rule e (or_empty name) act)\<lparr>fr_destination_port := p\<rparr>" and
    p: "case p of None \<Rightarrow> parse_service_ports (fe_service_ports e) = []
          | Some q \<Rightarrow> q \<in> set (parse_service_ports (fe_service_ports e))" by blast
  show "fr_chain r \<in> {''input'', ''forward''}"
    "fr_chain r = ''forward'' \<longleftrightarrow> contains ''anti-spoof'' (lower (fr_name r)) \<or> contains ''internal-port'' (lower (fr_name r))"
    "fr_state r = None" "fr_comment r = None"
    by (simp_all add: r base_rule_def rule_chain_def)
  have "\<forall>q\<in>set (parse_service_ports raw). 1 \<le> q \<and> q \<le> 65535" for raw
    using part_ports_bounds
    by (cases raw) (auto simp: parse_service_ports_def collect_ports_spec)
  with p show "fr_destination_port r = None \<or> port_in_range (fr_destination_port r)"
    by (cases p) (auto simp: r port_in_range_def)
qed (rule convert_rules_bad)

definition web_entry :: fw_entry where
  "web_entry = empty_entry\<lparr>fe_name := Some (Some ''web''), fe_service_protocol := Some ''tcp'',
     fe_service_ports := Some ''80,443'', fe_action := Some ''ACCEPT''\<rparr>"

theorem convert_rules_well_formed_witness:
  "(case convert_rules [web_entry] 0 of Inr rs \<Rightarrow> map fr_destination_port rs = [Some 80, Some 443] | Inl e \<Rightarrow> False)
   \<and> (\<exists>err. convert_rules [web_entry, empty_entry] 0 = Inl err)"
proof -
  have "fe_name empty_entry = None" by (simp add: empty_entry_def)
  then have "\<exists>e\<in>set [web_entry, empty_entry]. fe_name e = None \<or> fw_action_of (action_text e) = None" by simp
  with convert_rules_well_formed[of "[web_entry, empty_entry]"]
  have "\<exists>err. convert_rules [web_entry, empty_entry] 0 = Inl err" by blast
  moreover have "case convert_rules [web_entry] 0 of Inr rs \<Rightarrow> map fr_destination_port rs = [Some 80, Some 443] | Inl e \<Rightarrow> False"
    by code_simp
  ultimately show ?thesis by blast
qed

lemma nat_from_payload_targets:
  "nat_from_payload e i = Inr r \<Longrightarrow> \<not> target_rejected (nr_to_source r) \<and> \<not> target_rejected (nr_to_destination r)"
  by (auto simp: nat_from_payload_def Let_def split: if_splits option.splits)

lemma convert_nats_member:
  "convert_nats es index = Inr rs \<Longrightarrow> r \<in> set rs \<Longrightarrow> \<exists>e i. nat_from_payload e i = Inr r"
  by (induction es arbitrary: index rs) (fastforce split: sum.splits)+

text \<open>A NAT rule that survives the conversion is never dropped or altered by its target later: each of
  its targets is absent or normalises, so a destination rule with a target renders one dnat line.\<close>

theorem convert_nats_targets_render:
  "convert_nats es 0 = Inr rs \<Longrightarrow> r \<in> set rs \<Longrightarrow>
     (\<forall>t. nr_to_source r = Some t \<or> nr_to_destination r = Some t \<longrightarrow> normalize_to_addr t \<noteq> None)
     \<and> (nr_type r = ''dnat'' \<longrightarrow> nr_to_destination r \<noteq> None \<longrightarrow> length (dnat_lines r) = 1)"
proof -
  assume "convert_nats es 0 = Inr rs" "r \<in> set rs"
  then have ok: "\<not> target_rejected (nr_to_source r)" "\<not> target_rejected (nr_to_destination r)"
    using convert_nats_member nat_from_payload_targets by blast+
  have norm: "normalize_to_addr t \<noteq> None" if "nr_to_source r = Some t \<or> nr_to_destination r = Some t" for t
    using ok that by (auto simp: target_rejected_def valid_to_addr_def)
  have "length (dnat_lines r) = 1" if d: "nr_type r = ''dnat''" "nr_to_destination r \<noteq> None"
  proof -
    obtain t where t: "nr_to_destination r = Some t" using d(2) by blast
    with norm have n: "normalize_to_addr t \<noteq> None" by blast
    then have "t \<noteq> []" by (auto simp: normalize_to_addr_def)
    with n t have "target_usable (nr_to_destination r)" "nat_target (nr_to_destination r) \<noteq> None"
      by (auto simp: target_usable_def valid_to_addr_def nat_target_def)
    moreover from this d(1) obtain st where "nat_statement r = Some (''dnat to '' @ st)"
      by (auto simp: nat_statement_def)
    then have "CHR ''d'' \<in> set (convert_nat_rule_to_nft r)" by (simp add: convert_nat_rule_to_nft_def)
    then have "rstrip_char newline (convert_nat_rule_to_nft r) \<noteq> []"
      by (auto simp: rstrip_char_def char_defs dest!: spec)
    ultimately show ?thesis using d(1) by (simp add: dnat_lines_def nat_line_def)
  qed
  with norm show ?thesis by blast
qed

definition dnat_entry :: nat_entry where
  "dnat_entry = empty_nat_entry\<lparr>ne_name := Some (Some ''web''), ne_type := Some ''DNAT'',
     ne_to_destination := Some ''10.0.0.5:80''\<rparr>"

theorem convert_nats_targets_render_witness:
  "case convert_nats [dnat_entry] 0 of Inr rs \<Rightarrow> map (length \<circ> dnat_lines) rs = [1] | Inl e \<Rightarrow> False"
proof -
  have "case convert_nats [dnat_entry] 0 of
      Inr rs \<Rightarrow> length rs = 1 \<and> nr_type (hd rs) = ''dnat'' \<and> nr_to_destination (hd rs) = Some ''10.0.0.5:80''
    | Inl e \<Rightarrow> False" by code_simp
  then obtain r where r: "convert_nats [dnat_entry] 0 = Inr [r]" "nr_type r = ''dnat''"
    "nr_to_destination r = Some ''10.0.0.5:80''"
    by (auto simp: length_Suc_conv split: sum.splits)
  from convert_nats_targets_render[OF r(1)] r(2,3) have "length (dnat_lines r) = 1" by simp
  with r(1) show ?thesis by simp
qed

end
