(* ===== verification/Snapshots.thy ===== *)
theory Snapshots
  imports Py_Base
begin

text \<open>
  \<open>snapshots.py\<close> of the firewall agent and the snapshot part of the node agent's \<open>netcfg.py\<close>:
  capturing host state into a time-stamped directory and pruning the oldest directories.

  A snapshots directory is a list of directories (name and files) without repeated names. The capture
  commands, the clock and the removal of a directory are parameters. Both agents prune with the
  same rule; its contract is the locale \<open>retention\<close>.
\<close>

section \<open>Retention\<close>

locale retention =
  fixes stale :: "nat \<Rightarrow> string list \<Rightarrow> string list"
  assumes stale_split: "\<exists>kept. sort names = stale keep names @ kept \<and> length kept = min keep (length names)"
begin

lemma kept_count: "length names - length (stale keep names) = min keep (length names)"
proof -
  obtain kept where "sort names = stale keep names @ kept" "length kept = min keep (length names)"
    using stale_split by blast
  then show ?thesis by (metis add_diff_cancel_left' length_append length_sort)
qed

lemma stale_subset: "set (stale keep names) \<subseteq> set names"
  using stale_split[of names keep] by (metis Un_upper1 set_append set_sort)

lemma stale_oldest:
  assumes "distinct names" "s \<in> set (stale keep names)" "k \<in> set names" "k \<notin> set (stale keep names)"
  shows "s < k"
proof -
  obtain kept where k: "sort names = stale keep names @ kept" using stale_split by blast
  have "k \<in> set kept" using assms(3,4) k by (metis Un_iff set_append set_sort)
  moreover have "sorted (stale keep names @ kept)" "distinct (stale keep names @ kept)"
    using assms(1) k by (metis sorted_sort, metis distinct_sort)
  ultimately show ?thesis using assms(2) by (auto simp: sorted_append order.strict_iff_order)
qed

lemma newest_kept:
  assumes "0 < keep" "distinct names" "x \<in> set names" "\<forall>y\<in>set names. y \<le> x"
  shows "x \<notin> set (stale keep names)"
proof
  assume x: "x \<in> set (stale keep names)"
  obtain kept where k: "sort names = stale keep names @ kept" "length kept = min keep (length names)"
    using stale_split by blast
  have "kept \<noteq> []" using assms(1,3) k(2) by (cases names) auto
  then have "hd kept \<in> set names" "hd kept \<notin> set (stale keep names)"
    using k(1) assms(2) by (metis Un_iff hd_in_set set_append set_sort,
        metis distinct_append distinct_sort disjoint_iff hd_in_set)
  from stale_oldest[OF assms(2) x this] assms(4) \<open>hd kept \<in> set names\<close> show False by fastforce
qed

end

section \<open>Firewall agent\<close>

definition keep_snapshots :: nat where "keep_snapshots = 10"

text \<open>\<open>entries[:-keep] if keep > 0 else entries\<close> over the name-sorted directories.\<close>

definition stale_snapshots :: "nat \<Rightarrow> string list \<Rightarrow> string list" where
  "stale_snapshots keep names =
     (let entries = sort names in if keep > 0 then but_last_n keep entries else entries)"

interpretation fw_retention: retention stale_snapshots
proof unfold_locales
  fix names keep
  show "\<exists>kept. sort names = stale_snapshots keep names @ kept \<and> length kept = min keep (length names)"
  proof (cases "keep = 0")
    case True
    then show ?thesis by (simp add: stale_snapshots_def)
  next
    case False
    then have "sort names = stale_snapshots keep names @ drop (length names - keep) (sort names)"
      using but_last_n_rest[of keep "sort names"] by (simp add: stale_snapshots_def)
    then show ?thesis by (intro exI[of _ "drop (length names - keep) (sort names)"]) auto
  qed
qed

datatype capture = Cannot_Run string | Exited int string | Timed_Out | Captured string

definition capture_artifacts :: "(string \<times> string list) list" where
  "capture_artifacts = [
     (''rules.v4'', [''iptables-save'']),
     (''rules.v6'', [''ip6tables-save'']),
     (''nft-ruleset.txt'', [''nft'', ''list'', ''ruleset'']),
     (''ip-addr.json'', [''ip'', ''-j'', ''addr'']),
     (''ip-route.json'', [''ip'', ''-j'', ''route'']),
     (''ip-rule.json'', [''ip'', ''-j'', ''rule'']),
     (''tc-qdisc.txt'', [''tc'', ''qdisc'', ''show'']),
     (''wg-show.txt'', [''wg'', ''show''])]"

definition capture_command :: "(string list \<Rightarrow> capture) \<Rightarrow> string list \<Rightarrow> string + string" where
  "capture_command run argv =
     (case run argv of
        Cannot_Run e \<Rightarrow> Inl (''cannot run '' @ hd argv @ '': '' @ e)
      | Exited rc err \<Rightarrow> Inl (hd argv @ '' exited '' @ string_of_int rc @ '': '' @ take 200 err)
      | Timed_Out \<Rightarrow> Inl (hd argv @ '' timed out after 30s'')
      | Captured out \<Rightarrow> Inr out)"

type_synonym snapshot_dir = "string \<times> (string \<times> string) list"

text \<open>The files captured and the failures, artifact by artifact.\<close>

fun capture_all :: "(string list \<Rightarrow> capture) \<Rightarrow> (string \<times> string list) list \<Rightarrow>
    (string \<times> string) list \<times> string list" where
  "capture_all run [] = ([], [])"
| "capture_all run ((name, argv) # rest) =
     (let (files, fails) = capture_all run rest in
      case capture_command run argv of
        Inl e \<Rightarrow> (files, (name @ '': '' @ e) # fails)
      | Inr out \<Rightarrow> ((name, out) # files, fails))"

text \<open>
  Removing the stale directories one by one; the first one that cannot be removed is an
  \<open>OSError\<close> that ends the call, with the earlier ones already gone.
\<close>

fun remove_dirs :: "(string \<Rightarrow> bool) \<Rightarrow> string list \<Rightarrow> snapshot_dir list \<Rightarrow> bool \<times> snapshot_dir list" where
  "remove_dirs rm_ok [] snaps = (True, snaps)"
| "remove_dirs rm_ok (d # ds) snaps =
     (if rm_ok d then remove_dirs rm_ok ds (filter (\<lambda>e. fst e \<noteq> d) snaps) else (False, snaps))"

definition prune_old_snapshots :: "(string \<Rightarrow> bool) \<Rightarrow> nat \<Rightarrow> snapshot_dir list \<Rightarrow> bool \<times> snapshot_dir list" where
  "prune_old_snapshots rm_ok keep snaps = remove_dirs rm_ok (stale_snapshots keep (map fst snaps)) snaps"

text \<open>
  \<open>snapshot_state\<close>: \<open>netplan\<close> is the copy of \<open>/etc/netplan\<close> or the error of copying it.
  The result is the new directory's name, or \<open>None\<close> for an \<open>OSError\<close>.
\<close>

definition snapshot_files :: "(string list \<Rightarrow> capture) \<Rightarrow> string + (string \<times> string) list \<Rightarrow> (string \<times> string) list" where
  "snapshot_files run netplan =
     (let (files, fails0) = capture_all run capture_artifacts;
          fails = fails0 @ (case netplan of Inl e \<Rightarrow> [''netplan/: '' @ e] | Inr fs \<Rightarrow> []) in
      files @ (case netplan of Inl e \<Rightarrow> [] | Inr fs \<Rightarrow> map (\<lambda>(n, c). (''netplan/'' @ n, c)) fs)
      @ (if fails \<noteq> [] then [(''failures.txt'', join nl fails @ nl)] else []))"

definition snapshot_state :: "(string list \<Rightarrow> capture) \<Rightarrow> string + (string \<times> string) list \<Rightarrow> (string \<Rightarrow> bool) \<Rightarrow>
    string \<Rightarrow> snapshot_dir list \<Rightarrow> string option \<times> snapshot_dir list" where
  "snapshot_state run netplan rm_ok stamp snaps =
     (if stamp \<in> fst ` set snaps then (None, snaps)
      else (let (ok, snaps') = prune_old_snapshots rm_ok keep_snapshots
                                (snaps @ [(stamp, snapshot_files run netplan)]) in
            (if ok then Some stamp else None, snaps')))"

text \<open>\<open>_newest_snapshot_dir\<close>: the last of the sorted names.\<close>

definition newest_snapshot :: "snapshot_dir list \<Rightarrow> string option" where
  "newest_snapshot snaps = (let dirs = sort (map fst snaps) in if dirs \<noteq> [] then Some (last dirs) else None)"

section \<open>Node agent\<close>

definition stale_netplan_snapshots :: "nat \<Rightarrow> string list \<Rightarrow> string list" where
  "stale_netplan_snapshots keep names =
     (let entries = sort names in if keep > 0 then but_last_n keep entries else entries)"

interpretation node_retention: retention stale_netplan_snapshots
  using fw_retention.retention_axioms
  by (simp add: stale_netplan_snapshots_def[abs_def] stale_snapshots_def[abs_def])

text \<open>Removal errors are ignored here: a directory that cannot be removed stays.\<close>

definition prune_snapshots :: "(string \<Rightarrow> bool) \<Rightarrow> nat \<Rightarrow> snapshot_dir list \<Rightarrow> snapshot_dir list" where
  "prune_snapshots rm_ok keep snaps =
     (let gone = stale_netplan_snapshots keep (map fst snaps) in
      filter (\<lambda>e. \<not> (fst e \<in> set gone \<and> rm_ok (fst e))) snaps)"

text \<open>
  \<open>snapshot_netplan\<close>: \<open>None\<close> when persistence is disabled or the netplan directory is missing
  (\<open>source\<close> is \<open>None\<close>), an error (\<open>Inl\<close>) when the target directory exists.
\<close>

definition snapshot_netplan :: "(string \<times> string) list option \<Rightarrow> (string \<Rightarrow> bool) \<Rightarrow> string \<Rightarrow>
    snapshot_dir list \<Rightarrow> (unit + string option) \<times> snapshot_dir list" where
  "snapshot_netplan source rm_ok stamp snaps =
     (case source of
        None \<Rightarrow> (Inr None, snaps)
      | Some files \<Rightarrow>
          (if stamp \<in> fst ` set snaps then (Inl (), snaps)
           else (Inr (Some stamp), prune_snapshots rm_ok keep_snapshots (snaps @ [(stamp, files)]))))"

section \<open>Properties\<close>

lemma remove_dirs_ok:
  "fst (remove_dirs rm_ok ds snaps) \<Longrightarrow> snd (remove_dirs rm_ok ds snaps) = filter (\<lambda>e. fst e \<notin> set ds) snaps"
  by (induction rm_ok ds snaps rule: remove_dirs.induct) (auto simp: conj_commute split: if_splits)

lemma sorted_last_max: "sorted xs \<Longrightarrow> y \<in> set xs \<Longrightarrow> y \<le> last xs"
  by (cases xs rule: rev_cases) (auto simp: sorted_append)

lemma newest_snapshot_max:
  assumes "x \<in> fst ` set snaps" "\<forall>y\<in>fst ` set snaps. y \<le> x"
  shows "newest_snapshot snaps = Some x"
proof -
  let ?d = "sort (map fst snaps)"
  have x: "x \<in> set ?d" using assms(1) by simp
  then have "?d \<noteq> []" by (metis empty_iff empty_set)
  moreover have "x \<le> last ?d" using sorted_last_max[OF sorted_sort x] .
  moreover have "last ?d \<in> fst ` set snaps" using last_in_set[OF calculation(1)] by simp
  then have "last ?d \<le> x" using assms(2) by blast
  ultimately show ?thesis by (simp add: newest_snapshot_def Let_def)
qed

lemma length_filter_distinct:
  assumes "distinct (map fst snaps)" "set ds \<subseteq> fst ` set snaps" "distinct ds"
  shows "length (filter (\<lambda>e. fst e \<notin> set ds) snaps) = length snaps - length ds"
proof -
  let ?f = "filter (\<lambda>x. x \<notin> set ds) (map fst snaps)"
  have "length ?f = card (set ?f)" using assms(1) by (simp only: distinct_card distinct_filter)
  also have "set ?f = set (map fst snaps) - set ds" by auto
  also have "card \<dots> = card (set (map fst snaps)) - card (set ds)"
    using assms(2) by (intro card_Diff_subset) auto
  also have "\<dots> = length snaps - length ds"
    using distinct_card[OF assms(1)] distinct_card[OF assms(3)] by simp
  finally show ?thesis by (simp add: filter_map comp_def)
qed

lemma snapshot_facts:
  "distinct (map fst snaps) \<Longrightarrow> (\<forall>e\<in>set snaps. fst e < stamp) \<Longrightarrow>
   snapshot_state run netplan rm_ok stamp snaps = (Some d, snaps') \<Longrightarrow>
     d = stamp \<and> newest_snapshot snaps' = Some stamp
     \<and> length snaps' = min 10 (Suc (length snaps)) \<and> distinct (map fst snaps')
     \<and> (\<forall>e\<in>set snaps. e \<in> set snaps' \<or> (\<forall>k\<in>set snaps'. fst e < fst k))"
proof -
  assume dist: "distinct (map fst snaps)" and new: "\<forall>e\<in>set snaps. fst e < stamp"
    and run: "snapshot_state run netplan rm_ok stamp snaps = (Some d, snaps')"
  define all where "all = snaps @ [(stamp, snapshot_files run netplan)]"
  let ?gone = "stale_snapshots keep_snapshots (map fst all)"
  have fresh: "stamp \<notin> fst ` set snaps" using new by force
  have dall: "distinct (map fst all)" using dist fresh by (simp add: all_def)
  have stamp_all: "stamp \<in> set (map fst all)" "\<forall>y\<in>set (map fst all). y \<le> stamp"
    using new by (auto simp: all_def order.strict_implies_order)
  from run fresh have ok: "d = stamp" "fst (remove_dirs rm_ok ?gone all)" "snaps' = snd (remove_dirs rm_ok ?gone all)"
    unfolding snapshot_state_def prune_old_snapshots_def all_def by (auto split: prod.splits if_splits)
  then have snaps': "snaps' = filter (\<lambda>e. fst e \<notin> set ?gone) all" using remove_dirs_ok by blast
  have kept: "stamp \<notin> set ?gone"
    using fw_retention.newest_kept[OF _ dall stamp_all] by (simp add: keep_snapshots_def)
  have "newest_snapshot snaps' = Some stamp"
    using kept stamp_all by (intro newest_snapshot_max) (auto simp: snaps')
  moreover have "length snaps' = min 10 (Suc (length snaps))"
  proof -
    have "distinct ?gone" using dall fw_retention.stale_split[of "map fst all" keep_snapshots]
      by (metis distinct_append distinct_sort)
    then have "length snaps' = length all - length ?gone"
      using length_filter_distinct[OF dall] fw_retention.stale_subset[of keep_snapshots "map fst all"] snaps' by simp
    also have "\<dots> = min 10 (length all)"
      using fw_retention.kept_count[of "map fst all" keep_snapshots] by (simp add: keep_snapshots_def)
    finally show ?thesis by (simp add: all_def)
  qed
  moreover have "distinct (map fst snaps')" using dall by (simp add: snaps' distinct_map_filter)
  moreover have "e \<in> set snaps' \<or> (\<forall>k\<in>set snaps'. fst e < fst k)" if "e \<in> set snaps" for e
    using that fw_retention.stale_oldest[OF dall, of "fst e" keep_snapshots]
    by (auto simp: snaps' all_def)
  ultimately show ?thesis using ok(1) by blast
qed

lemma snapshot_content:
  assumes "distinct (map fst snaps)" "\<forall>e\<in>set snaps. fst e < stamp" "snapshot_state run netplan rm_ok stamp snaps = (Some d, snaps')"
  shows "map_of snaps' stamp = Some (snapshot_files run netplan)"
proof -
  let ?all = "snaps @ [(stamp, snapshot_files run netplan)]"
  let ?gone = "stale_snapshots keep_snapshots (map fst ?all)"
  have fresh: "stamp \<notin> fst ` set snaps" using assms(2) by force
  from assms(3) fresh have "fst (remove_dirs rm_ok ?gone ?all)" "snaps' = snd (remove_dirs rm_ok ?gone ?all)"
    unfolding snapshot_state_def prune_old_snapshots_def by (auto split: prod.splits if_splits)
  then have snaps': "snaps' = filter (\<lambda>e. fst e \<notin> set ?gone) ?all" using remove_dirs_ok by blast
  have f: "distinct (map fst snaps')" "newest_snapshot snaps' = Some stamp" using snapshot_facts[OF assms] by auto
  have "stamp \<in> fst ` set snaps'"
  proof -
    have "map fst snaps' \<noteq> []" "last (sort (map fst snaps')) = stamp" using f(2) by (auto simp: newest_snapshot_def Let_def split: if_splits)
    then have "stamp \<in> set (sort (map fst snaps'))" by (metis last_in_set set_empty set_sort)
    then show ?thesis by simp
  qed
  then have "(stamp, snapshot_files run netplan) \<in> set snaps'" using fresh by (auto simp: snaps')
  then show ?thesis using f(1) by (simp add: map_of_is_SomeI)
qed

lemma snapshot_newest:
  "distinct (map fst snaps) \<Longrightarrow> (\<forall>e\<in>set snaps. fst e < stamp) \<Longrightarrow>
   snapshot_state run netplan rm_ok stamp snaps = (Some d, snaps') \<Longrightarrow> newest_snapshot snaps' = Some stamp"
  using snapshot_facts by blast

text \<open>Taking a snapshot with a clock that moves forward leaves the new snapshot as the newest one (so
  a rollback restores the state right before the apply), keeps at most ten, and removes a snapshot
  only if everything kept is newer.\<close>

theorem snapshot_state_newest:
  "distinct (map fst snaps) \<Longrightarrow> (\<forall>e\<in>set snaps. fst e < stamp) \<Longrightarrow>
   snapshot_state run netplan rm_ok stamp snaps = (Some d, snaps') \<Longrightarrow>
     d = stamp \<and> newest_snapshot snaps' = Some stamp
     \<and> length snaps' = min 10 (Suc (length snaps)) \<and> distinct (map fst snaps')
     \<and> (\<forall>e\<in>set snaps. e \<in> set snaps' \<or> (\<forall>k\<in>set snaps'. fst e < fst k))"
  by (rule snapshot_facts)

definition eleven :: "snapshot_dir list" where
  "eleven = map (\<lambda>n. (''2025-'' @ string_of_nat (n + 10), [])) [0..<10]"

theorem snapshot_state_newest_witness:
  "newest_snapshot (snd (snapshot_state (\<lambda>argv. Timed_Out) (Inl ''gone'') (\<lambda>d. True) ''2025-30'' eleven)) = Some ''2025-30''
   \<and> length (snd (snapshot_state (\<lambda>argv. Timed_Out) (Inl ''gone'') (\<lambda>d. True) ''2025-30'' eleven)) = 10"
proof -
  let ?r = "snapshot_state (\<lambda>argv. Timed_Out) (Inl ''gone'') (\<lambda>d. True) ''2025-30'' eleven"
  have d: "distinct (map fst eleven)" by code_simp
  have "list_all (\<lambda>e. fst e < ''2025-30'') eleven" by code_simp
  then have lt: "\<forall>e\<in>set eleven. fst e < ''2025-30''" by (simp add: list_all_iff)
  have "fst ?r = Some ''2025-30''" by code_simp
  then have r: "?r = (Some ''2025-30'', snd ?r)" by (metis prod.collapse)
  have "length eleven = 10" by (simp add: eleven_def)
  with snapshot_state_newest[OF d lt r] show ?thesis by simp
qed

end
