(* ===== verification/Routing.thy ===== *)
theory Routing
  imports Py_Ipaddress
begin

text \<open>
  \<open>routing.py\<close> of the firewall agent: policy routing as a reconciliation of desired against live
  rules and routes, each owned object tagged, with the commands that close the gap.

  Payload values that may be a number or a text are \<open>jval\<close>; the outer \<open>None\<close> of a field is an
  absent key where \<open>dict.get\<close> has a default. The live listings of \<open>ip -j\<close>, the outcome of each
  command and of writing \<open>rt_tables\<close> are parameters. A \<open>ValueError\<close> that no handler catches
  is the left side of the result.
\<close>

section \<open>Values\<close>

datatype jval = JNone | JInt int | JStr string
datatype table_id = Tab_Num int | Tab_Name string

definition tag_protocol :: string where "tag_protocol = ''30''"
definition table_prefix :: string where "table_prefix = ''vw-table-''"

definition reserved_tables :: "int list" where "reserved_tables = [0, 253, 254, 255]"

definition reserved_names :: "(string \<times> int) list" where
  "reserved_names = [(''unspec'', 0), (''default'', 253), (''main'', 254), (''local'', 255)]"

fun reserved :: "table_id \<Rightarrow> bool" where
  "reserved (Tab_Num n) = (n \<in> set reserved_tables)"
| "reserved (Tab_Name s) = False"

record rt_rule =
  rr_priority :: int
  rr_table :: table_id
  rr_source :: "string option"
  rr_destination :: "string option"
  rr_mark :: "int option"
  rr_interface :: "string option"

record rt_route =
  ro_destination :: string
  ro_table :: table_id
  ro_gateway :: "string option"
  ro_interface :: "string option"
  ro_source :: "string option"
  ro_metric :: "int option"

fun jtext :: "jval \<Rightarrow> string" where
  "jtext JNone = ''None''"
| "jtext (JInt i) = string_of_int i"
| "jtext (JStr s) = s"

definition norm_net :: "string \<Rightarrow> string option" where
  "norm_net s = map_option net_str (ip_network False s)"

text \<open>The functions below return \<open>None\<close> for a \<open>ValueError\<close>.\<close>

definition prefix_of :: "jval \<Rightarrow> string option option" where
  "prefix_of v =
     (if v = JNone \<or> v = JStr [] \<or> v = JStr ''all'' then Some None
      else map_option Some (norm_net (jtext v)))"

definition live_prefix :: "string option \<Rightarrow> int option \<Rightarrow> string option option" where
  "live_prefix address len =
     (case address of
        None \<Rightarrow> Some None
      | Some a \<Rightarrow>
          (if a = [] \<or> a = ''all'' then Some None
           else map_option Some (norm_net
             (case len of None \<Rightarrow> a | Some l \<Rightarrow> a @ ''/'' @ string_of_int l))))"

definition route_prefix :: "string option \<Rightarrow> string option" where
  "route_prefix v =
     (let text = (if truthy_str v then or_empty v else ''default'') in
      if text \<in> {''default'', ''0.0.0.0/0'', ''::/0''} then Some ''default'' else norm_net text)"

text \<open>\<open>int(text, 0)\<close>: a prefix \<open>0x\<close>, \<open>0o\<close> or \<open>0b\<close> selects the base, a decimal
  number has no leading zero, and single underscores may separate digits.\<close>

definition radix_val :: "char \<Rightarrow> nat" where
  "radix_val c = (if is_hexdigit c then hex_val c else 16)"

fun radix_body :: "nat \<Rightarrow> bool \<Rightarrow> nat \<Rightarrow> string \<Rightarrow> nat option" where
  "radix_body b after_digit acc [] = (if after_digit then Some acc else None)"
| "radix_body b after_digit acc (c # cs) =
     (if radix_val c < b then radix_body b True (acc * b + radix_val c) cs
      else if c = CHR ''_'' \<and> after_digit then radix_body b False acc cs else None)"

definition prefixed_body :: "nat \<Rightarrow> string \<Rightarrow> nat option" where
  "prefixed_body b s = (case s of [] \<Rightarrow> None
     | c # cs \<Rightarrow> radix_body b False 0 (if c = CHR ''_'' then cs else s))"

definition unsigned_int0 :: "string \<Rightarrow> nat option" where
  "unsigned_int0 s =
     (let p = lower (take 2 s) in
      if p = ''0x'' then prefixed_body 16 (drop 2 s)
      else if p = ''0o'' then prefixed_body 8 (drop 2 s)
      else if p = ''0b'' then prefixed_body 2 (drop 2 s)
      else (case int_body False 0 s of
          None \<Rightarrow> None
        | Some n \<Rightarrow> if n \<noteq> 0 \<and> s \<noteq> [] \<and> hd s = CHR ''0'' then None else Some n))"

definition py_int0 :: "string \<Rightarrow> int option" where
  "py_int0 text = (case strip text of
       [] \<Rightarrow> None
     | c # cs \<Rightarrow>
         (if c = CHR ''-'' then map_option (\<lambda>n. - int n) (unsigned_int0 cs)
          else if c = CHR ''+'' then map_option int (unsigned_int0 cs)
          else map_option int (unsigned_int0 (c # cs))))"

definition mark_of :: "jval \<Rightarrow> int option option" where
  "mark_of v =
     (case v of
        JNone \<Rightarrow> Some None
      | JInt i \<Rightarrow> Some (if i = 0 then None else Some i)
      | JStr s \<Rightarrow> (if s = [] \<or> s = ''0'' then Some None
                 else map_option Some (py_int0 (hd (split_on CHR ''/'' s)))))"

definition table_of :: "jval \<Rightarrow> table_id" where
  "table_of v =
     (case v of
        JNone \<Rightarrow> Tab_Num 254
      | JInt i \<Rightarrow> Tab_Num i
      | JStr s \<Rightarrow>
          (if startswith s table_prefix then
             (case py_int (drop (length table_prefix) s) of Some n \<Rightarrow> Tab_Num n | None \<Rightarrow> Tab_Name s)
           else if all_digits s then Tab_Num (int (digits_val 0 s))
           else (case map_of reserved_names s of Some n \<Rightarrow> Tab_Num n | None \<Rightarrow> Tab_Name s)))"

section \<open>Live state\<close>

record live_rule =
  lr_priority :: "int option"
  lr_table :: jval
  lr_src :: "string option"
  lr_srclen :: "int option"
  lr_dst :: "string option"
  lr_dstlen :: "int option"
  lr_fwmark :: jval
  lr_iif :: "string option"
  lr_protocol :: jval

record live_route =
  lo_dst :: "string option"
  lo_table :: jval
  lo_gateway :: "string option"
  lo_dev :: "string option"
  lo_prefsrc :: "string option"
  lo_metric :: "int option"
  lo_protocol :: jval

definition tagged_owned :: "jval \<Rightarrow> jval \<Rightarrow> bool" where
  "tagged_owned protocol table \<longleftrightarrow> jtext protocol = tag_protocol
     \<or> (case table of JStr s \<Rightarrow> startswith s table_prefix | _ \<Rightarrow> False)"

definition live_rule_obj :: "live_rule \<Rightarrow> rt_rule option" where
  "live_rule_obj e =
     (case (live_prefix (lr_src e) (lr_srclen e), live_prefix (lr_dst e) (lr_dstlen e), mark_of (lr_fwmark e)) of
        (Some s, Some d, Some m) \<Rightarrow> Some
          \<lparr>rr_priority = (case lr_priority e of None \<Rightarrow> 0 | Some p \<Rightarrow> p), rr_table = table_of (lr_table e),
           rr_source = s, rr_destination = d, rr_mark = m, rr_interface = lr_iif e\<rparr>
      | _ \<Rightarrow> None)"

definition live_route_obj :: "live_route \<Rightarrow> rt_route option" where
  "live_route_obj e =
     (case route_prefix (lo_dst e) of
        None \<Rightarrow> None
      | Some d \<Rightarrow> Some \<lparr>ro_destination = d, ro_table = table_of (lo_table e), ro_gateway = lo_gateway e,
          ro_interface = lo_dev e, ro_source = lo_prefsrc e, ro_metric = lo_metric e\<rparr>)"

section \<open>Desired state\<close>

record rt_entry =
  re_enabled :: "bool option"
  re_kind :: "string option"
  re_table :: "jval option"
  re_priority :: "jval option"
  re_order_index :: "jval option"
  re_source :: "jval option"
  re_source_network :: jval
  re_destination :: "jval option"
  re_dest_network :: jval
  re_inbound_interface :: "string option"
  re_outbound_interface :: "string option"
  re_iif :: "string option"
  re_interface :: "string option"
  re_mark :: jval
  re_gateway :: "string option"
  re_metric :: "int option"
  re_route_destination :: "string option"
  re_route_source :: "string option"

definition py_or :: "string option \<Rightarrow> string option \<Rightarrow> string option" where
  "py_or a b = (if truthy_str a then a else b)"

definition get_or :: "jval option \<Rightarrow> jval \<Rightarrow> jval" where
  "get_or v d = (case v of None \<Rightarrow> d | Some x \<Rightarrow> x)"

text \<open>\<open>int(value or 100)\<close>\<close>

definition priority_of :: "jval \<Rightarrow> int option" where
  "priority_of v =
     (case v of
        JNone \<Rightarrow> Some 100
      | JInt i \<Rightarrow> Some (if i = 0 then 100 else i)
      | JStr s \<Rightarrow> if s = [] then Some 100 else py_int s)"

record parsed_entry =
  pe_table :: table_id
  pe_priority :: int
  pe_source :: "string option"
  pe_destination :: "string option"
  pe_mark :: "int option"

text \<open>The part of the loop body inside the exception handler.\<close>

definition parse_entry :: "rt_entry \<Rightarrow> parsed_entry option" where
  "parse_entry e =
     (case (priority_of (get_or (re_priority e) (get_or (re_order_index e) (JInt 100))),
            prefix_of (get_or (re_source e) (re_source_network e)),
            prefix_of (get_or (re_destination e) (re_dest_network e)),
            mark_of (re_mark e)) of
        (Some p, Some s, Some d, Some m) \<Rightarrow> Some
          \<lparr>pe_table = table_of (get_or (re_table e) (JInt 254)), pe_priority = p, pe_source = s,
           pe_destination = d, pe_mark = m\<rparr>
      | _ \<Rightarrow> None)"

definition inbound_of :: "rt_entry \<Rightarrow> string option" where
  "inbound_of e = py_or (re_inbound_interface e) (re_iif e)"

definition interface_of :: "rt_entry \<Rightarrow> string option" where
  "interface_of e = py_or (inbound_of e) (re_interface e)"

definition outbound_of :: "rt_entry \<Rightarrow> string option" where
  "outbound_of e = py_or (re_outbound_interface e) (re_interface e)"

definition jtruthy_text :: "jval option \<Rightarrow> string option" where
  "jtruthy_text v = (case v of None \<Rightarrow> None | Some JNone \<Rightarrow> None
     | Some (JInt i) \<Rightarrow> if i = 0 then None else Some (string_of_int i) | Some (JStr s) \<Rightarrow> Some s)"

definition route_of :: "rt_entry \<Rightarrow> parsed_entry \<Rightarrow> string \<Rightarrow> rt_route" where
  "route_of e p d =
     \<lparr>ro_destination = d, ro_table = pe_table p, ro_gateway = re_gateway e, ro_interface = outbound_of e,
      ro_source = py_or (re_route_source e) (pe_source p), ro_metric = re_metric e\<rparr>"

definition rule_of :: "rt_entry \<Rightarrow> parsed_entry \<Rightarrow> rt_rule" where
  "rule_of e p =
     \<lparr>rr_priority = pe_priority p, rr_table = pe_table p, rr_source = pe_source p,
      rr_destination = pe_destination p, rr_mark = pe_mark p, rr_interface = interface_of e\<rparr>"

definition entry_matched :: "rt_entry \<Rightarrow> parsed_entry \<Rightarrow> bool" where
  "entry_matched e p \<longleftrightarrow> truthy_str (pe_source p) \<or> truthy_str (pe_destination p)
     \<or> truthy_int (pe_mark p) \<or> truthy_str (interface_of e)"

text \<open>
  One entry: its rules and routes, or \<open>None\<close> for an uncaught \<open>ValueError\<close> (a route
  destination that does not parse is evaluated outside the handler).
\<close>

definition entry_objects :: "rt_entry \<Rightarrow> parsed_entry \<Rightarrow> (rt_rule list \<times> rt_route list) option" where
  "entry_objects e p =
     (if re_kind e = Some ''route'' then
        map_option (\<lambda>d. ([], [route_of e p d]))
          (route_prefix (py_or (re_route_destination e) (jtruthy_text (re_destination e))))
      else (let owns_route = re_kind e = None \<and> truthy_str (re_gateway e) \<and> \<not> reserved (pe_table p);
                skip_rule = re_kind e = None \<and> \<not> entry_matched e p
                  \<and> (truthy_str (re_gateway e) \<or> reserved (pe_table p));
                rules = (if skip_rule then [] else [rule_of e p]) in
            if owns_route then
              map_option (\<lambda>d. (rules, [route_of e p d])) (route_prefix (re_route_destination e))
            else Some (rules, [])))"

fun desired_loop :: "rt_entry list \<Rightarrow> nat \<Rightarrow> string list \<Rightarrow> (string list \<times> rt_rule list \<times> rt_route list) option" where
  "desired_loop [] index errs = Some (errs, [], [])"
| "desired_loop (e # es) index errs =
     (if re_enabled e = Some False then desired_loop es (Suc index) errs
      else (case parse_entry e of
          None \<Rightarrow> desired_loop es (Suc index) (errs @ [''routing rule '' @ string_of_nat index])
        | Some p \<Rightarrow> (case entry_objects e p of
            None \<Rightarrow> None
          | Some (rs, os) \<Rightarrow> map_option (\<lambda>(errs', rs', os'). (errs', rs @ rs', os @ os'))
              (desired_loop es (Suc index) errs))))"

definition rule_key :: "rt_rule \<Rightarrow> int \<times> string option \<times> string option \<times> int option \<times> string option \<times> table_id" where
  "rule_key r = (rr_priority r, rr_source r, rr_destination r, rr_mark r, rr_interface r, rr_table r)"

definition route_key :: "rt_route \<Rightarrow> string \<times> table_id \<times> string option \<times> string option \<times> string option \<times> int option" where
  "route_key r = (ro_destination r, ro_table r, ro_gateway r, ro_interface r, ro_source r, ro_metric r)"

definition desired :: "rt_entry list \<Rightarrow> (string list \<times> rt_rule list \<times> rt_route list) option" where
  "desired es = map_option (\<lambda>(errs, rs, os). (errs, map snd (dict_of rule_key rs), map snd (dict_of route_key os)))
     (desired_loop es 0 [])"

section \<open>Commands\<close>

text \<open>The table registry: the lines of \<open>rt_tables\<close> and the names read from or written to it.\<close>

record rt_state =
  rt_lines :: "string list"
  rt_names :: "(int \<times> string) list"
  mutations :: "string list list"
  file_mutations :: "string list"
  errors :: "string list"

fun words_aux :: "string \<Rightarrow> string \<Rightarrow> string list" where
  "words_aux acc [] = (if acc = [] then [] else [acc])"
| "words_aux acc (c # cs) =
     (if is_space c then (if acc = [] then words_aux [] cs else acc # words_aux [] cs)
      else words_aux (acc @ [c]) cs)"

definition words :: "string \<Rightarrow> string list" where "words s = words_aux [] s"

definition registered_name :: "string list \<Rightarrow> int \<Rightarrow> string option" where
  "registered_name ls number =
     map_option (\<lambda>f. f ! 1) (List.find (\<lambda>f. length f \<ge> 2 \<and> all_digits (hd f) \<and> int (digits_val 0 (hd f)) = number)
       (map words ls))"

definition ensure_table :: "bool \<Rightarrow> table_id \<Rightarrow> rt_state \<Rightarrow> bool \<times> rt_state" where
  "ensure_table write_ok table st =
     (case table of
        Tab_Name s \<Rightarrow> (True, st)
      | Tab_Num number \<Rightarrow>
          (if reserved table then (True, st)
           else (case registered_name (rt_lines st) number of
               Some name \<Rightarrow> (True, st\<lparr>rt_names := dict_put number name (rt_names st)\<rparr>)
             | None \<Rightarrow>
                 (let name = table_prefix @ string_of_int number;
                      line = string_of_int number @ '' '' @ name in
                  if \<not> write_ok then (False, st\<lparr>errors := errors st @ [''could not register '' @ name]\<rparr>)
                  else (True, st\<lparr>rt_lines := rt_lines st @ [line], rt_names := dict_put number name (rt_names st),
                                file_mutations := file_mutations st @ [line]\<rparr>)))))"

definition table_name :: "rt_state \<Rightarrow> table_id \<Rightarrow> string" where
  "table_name st table =
     (case table of
        Tab_Name s \<Rightarrow> s
      | Tab_Num n \<Rightarrow>
          (if n = 0 then ''unspec'' else if n = 253 then ''default'' else if n = 254 then ''main''
           else if n = 255 then ''local''
           else (case map_of (rt_names st) n of Some name \<Rightarrow> name | None \<Rightarrow> table_prefix @ string_of_int n)))"

definition opt_arg :: "string \<Rightarrow> string option \<Rightarrow> string list" where
  "opt_arg flag v = (if truthy_str v then [flag, or_empty v] else [])"

definition rule_args :: "rt_state \<Rightarrow> rt_rule \<Rightarrow> string \<Rightarrow> string list" where
  "rule_args st r act =
     [''rule'', act] @ opt_arg ''from'' (rr_source r) @ opt_arg ''to'' (rr_destination r)
     @ (if truthy_int (rr_mark r) then [''fwmark'', string_of_int (the (rr_mark r))] else [])
     @ opt_arg ''iif'' (rr_interface r)
     @ [''table'', table_name st (rr_table r), ''prio'', string_of_int (rr_priority r), ''protocol'', tag_protocol]"

definition route_args :: "rt_state \<Rightarrow> rt_route \<Rightarrow> string \<Rightarrow> string list" where
  "route_args st r act =
     [''route'', act, ro_destination r] @ opt_arg ''via'' (ro_gateway r) @ opt_arg ''dev'' (ro_interface r)
     @ opt_arg ''src'' (ro_source r)
     @ (case ro_metric r of None \<Rightarrow> [] | Some m \<Rightarrow> [''metric'', string_of_int m])
     @ [''table'', table_name st (ro_table r), ''proto'', tag_protocol]"

definition mutate :: "bool \<Rightarrow> (string list \<Rightarrow> bool) \<Rightarrow> string list \<Rightarrow> rt_state \<Rightarrow> bool \<times> rt_state" where
  "mutate dry_run run args st =
     (let command = ''ip'' # args; st' = st\<lparr>mutations := mutations st @ [command]\<rparr> in
      if dry_run \<or> run args then (True, st')
      else (False, st'\<lparr>errors := errors st' @ [join '' '' command @ '' failed'']\<rparr>))"

text \<open>\<open>ok = (await ...) and ok\<close> over a list of commands.\<close>

fun mutate_all :: "bool \<Rightarrow> (string list \<Rightarrow> bool) \<Rightarrow> string list list \<Rightarrow> bool \<times> rt_state \<Rightarrow> bool \<times> rt_state" where
  "mutate_all dry_run run [] s = s"
| "mutate_all dry_run run (a # as) (ok, st) =
     (let (ok', st') = mutate dry_run run a st in mutate_all dry_run run as (ok' \<and> ok, st'))"

fun ensure_all :: "bool \<Rightarrow> table_id list \<Rightarrow> bool \<times> rt_state \<Rightarrow> bool \<times> rt_state" where
  "ensure_all write_ok [] s = s"
| "ensure_all write_ok (t # ts) (ok, st) =
     (let (ok', st') = ensure_table write_ok t st in ensure_all write_ok ts (ok' \<and> ok, st'))"

fun table_str :: "table_id \<Rightarrow> string" where
  "table_str (Tab_Num n) = string_of_int n"
| "table_str (Tab_Name s) = s"

text \<open>A failed or unreadable listing is empty and leaves an error.\<close>

definition listed :: "string + 'a list \<Rightarrow> 'a list" where
  "listed l = (case l of Inl e \<Rightarrow> [] | Inr xs \<Rightarrow> xs)"

definition listing_error :: "string + 'a list \<Rightarrow> string list" where
  "listing_error l = (case l of Inl e \<Rightarrow> [e] | Inr xs \<Rightarrow> [])"

text \<open>The delta: owned live objects that are not desired, desired objects that are not live.\<close>

definition stale_of :: "('l \<Rightarrow> 'k) \<Rightarrow> ('d \<Rightarrow> 'k) \<Rightarrow> (bool \<times> 'l) list \<Rightarrow> 'd list \<Rightarrow> 'l list" where
  "stale_of lkey dkey live ds = map snd (filter (\<lambda>(own, l). own \<and> lkey l \<notin> dkey ` set ds) live)"

definition missing_of :: "('l \<Rightarrow> 'k) \<Rightarrow> ('d \<Rightarrow> 'k) \<Rightarrow> (bool \<times> 'l) list \<Rightarrow> 'd list \<Rightarrow> 'd list" where
  "missing_of lkey dkey live ds = filter (\<lambda>d. dkey d \<notin> lkey ` snd ` set live) ds"

definition parse_live :: "('e \<Rightarrow> bool) \<Rightarrow> ('e \<Rightarrow> 'o option) \<Rightarrow> 'e list \<Rightarrow> (bool \<times> 'o) list option" where
  "parse_live owned obj es =
     (if list_all (\<lambda>e. obj e \<noteq> None) es then Some (map (\<lambda>e. (owned e, the (obj e))) es) else None)"

definition routing_commands :: "rt_state \<Rightarrow> (bool \<times> rt_rule) list \<Rightarrow> (bool \<times> rt_route) list \<Rightarrow>
    rt_rule list \<Rightarrow> rt_route list \<Rightarrow> string list list" where
  "routing_commands st live_rs live_os rules routes =
     map (\<lambda>r. rule_args st r ''del'') (stale_of rule_key rule_key live_rs rules)
     @ map (\<lambda>r. route_args st r ''del'') (stale_of route_key route_key live_os routes)
     @ map (\<lambda>r. rule_args st r ''add'') (missing_of rule_key rule_key live_rs rules)
     @ map (\<lambda>r. route_args st r ''add'') (missing_of route_key route_key live_os routes)"

text \<open>\<open>None\<close> is an uncaught \<open>ValueError\<close>.\<close>

definition apply_routing :: "bool \<Rightarrow> bool \<Rightarrow> (string list \<Rightarrow> bool) \<Rightarrow> string + live_rule list \<Rightarrow>
    string + live_route list \<Rightarrow> rt_entry list \<Rightarrow> rt_state \<Rightarrow> (bool \<times> rt_state) option" where
  "apply_routing dry_run write_ok run live_rules live_routes es st0 =
     (case desired es of
        None \<Rightarrow> None
      | Some (errs, rules, routes) \<Rightarrow>
          (let st1 = st0\<lparr>errors := errs\<rparr>;
               tables = sort_key table_str (remdups (map rr_table rules @ map ro_table routes));
               (ok, st2) = ensure_all write_ok tables (True, st1);
               st3 = st2\<lparr>errors := errors st2 @ listing_error live_rules @ listing_error live_routes\<rparr> in
           case (parse_live (\<lambda>e. tagged_owned (lr_protocol e) (lr_table e)) live_rule_obj (listed live_rules),
                 parse_live (\<lambda>e. tagged_owned (lo_protocol e) (lo_table e)) live_route_obj (listed live_routes)) of
             (Some live_rs, Some live_os) \<Rightarrow>
               Some (mutate_all dry_run run (routing_commands st3 live_rs live_os rules routes) (ok, st3))
           | _ \<Rightarrow> None))"

end
