(* ===== verification/Routing_Props.thy ===== *)
theory Routing_Props
  imports Routing
begin

text \<open>
  The reconciliation contract of policy routing as a locale, its two interpretations (rules and
  routes), and the properties of \<open>apply_routing\<close>.
\<close>

section \<open>Reconciling keyed objects\<close>

locale reconciler =
  fixes lkey :: "'l \<Rightarrow> 'k" and dkey :: "'d \<Rightarrow> 'k"
  assumes dkey_inj: "dkey x = dkey y \<Longrightarrow> x = y"
begin

definition settled :: "(bool \<times> 'l) list \<Rightarrow> 'd list \<Rightarrow> bool" where
  "settled live ds \<longleftrightarrow> dkey ` set ds \<subseteq> lkey ` snd ` set live
     \<and> (\<forall>(own, l)\<in>set live. own \<longrightarrow> lkey l \<in> dkey ` set ds)"

lemma delta_empty_iff:
  "stale_of lkey dkey live ds = [] \<and> missing_of lkey dkey live ds = [] \<longleftrightarrow> settled live ds"
  by (auto simp: stale_of_def missing_of_def settled_def filter_empty_conv)

lemma stale_owned: "l \<in> set (stale_of lkey dkey live ds) \<Longrightarrow> (True, l) \<in> set live \<and> lkey l \<notin> dkey ` set ds"
  by (auto simp: stale_of_def)

lemma missing_distinct: "distinct ds \<Longrightarrow> distinct (map dkey (missing_of lkey dkey live ds))"
  by (auto simp: missing_of_def distinct_map inj_on_def dest: dkey_inj)

text \<open>The keys after the delta: all desired ones, no owned undesired one, every foreign one kept.\<close>

lemma after_delta:
  defines "after live ds \<equiv> (lkey ` snd ` set live - lkey ` set (stale_of lkey dkey live ds))
      \<union> dkey ` set (missing_of lkey dkey live ds)"
  shows "dkey ` set ds \<subseteq> after live ds"
    and "(True, l) \<in> set live \<Longrightarrow> lkey l \<in> after live ds \<Longrightarrow> lkey l \<in> dkey ` set ds"
    and "(own, l) \<in> set live \<Longrightarrow> lkey l \<notin> lkey ` {l. (True, l) \<in> set live} \<Longrightarrow> lkey l \<in> after live ds"
  by (force simp: after_def stale_of_def missing_of_def)+

end

lemma rule_key_inj: "rule_key x = rule_key y \<Longrightarrow> x = y"
  by (simp add: rule_key_def)

lemma route_key_inj: "route_key x = route_key y \<Longrightarrow> x = y"
  by (simp add: route_key_def)

interpretation rules: reconciler rule_key rule_key
  by unfold_locales (rule rule_key_inj)

interpretation routes: reconciler route_key route_key
  by unfold_locales (rule route_key_inj)

section \<open>Running the commands\<close>

lemma mutate_all_mutations:
  "mutations (snd (mutate_all dry_run run as (ok, st))) = mutations st @ map (\<lambda>a. ''ip'' # a) as"
  by (induction as arbitrary: ok st) (auto simp: mutate_def Let_def split: prod.splits)

lemma mutate_all_ok:
  "fst (mutate_all dry_run run as (ok, st)) \<longleftrightarrow> ok \<and> (dry_run \<or> (\<forall>a\<in>set as. run a))"
  by (induction as arbitrary: ok st) (auto simp: mutate_def Let_def split: prod.splits)

lemma ensure_table_mutations [simp]: "mutations (snd (ensure_table w t st)) = mutations st"
  by (auto simp: ensure_table_def Let_def split: table_id.splits option.splits)

lemma ensure_all_mutations [simp]: "mutations (snd (ensure_all w ts (ok, st))) = mutations st"
proof (induction ts arbitrary: ok st)
  case (Cons t ts)
  obtain ok' st' where e: "ensure_table w t st = (ok', st')" by fastforce
  then have "mutations st' = mutations st" using ensure_table_mutations[of w t st] by simp
  with Cons[of "ok' \<and> ok" st'] e show ?case by simp
qed simp

abbreviation owned_rules :: "live_rule list \<Rightarrow> (bool \<times> rt_rule) list option" where
  "owned_rules ls \<equiv> parse_live (\<lambda>e. tagged_owned (lr_protocol e) (lr_table e)) live_rule_obj ls"

abbreviation owned_routes :: "live_route list \<Rightarrow> (bool \<times> rt_route) list option" where
  "owned_routes ls \<equiv> parse_live (\<lambda>e. tagged_owned (lo_protocol e) (lo_table e)) live_route_obj ls"

lemma apply_routing_commands:
  assumes "desired es = Some (errs, rs, os)" "owned_rules (listed lr) = Some lrs" "owned_routes (listed lo) = Some los"
  obtains ok st' st3 where "apply_routing dry_run write_ok run lr lo es st = Some (ok, st')"
    "mutations st' = mutations st @ map (\<lambda>a. ''ip'' # a) (routing_commands st3 lrs los rs os)"
    "ok \<longrightarrow> dry_run \<or> (\<forall>a\<in>set (routing_commands st3 lrs los rs os). run a)"
proof -
  define tables where "tables = sort_key table_str (remdups (map rr_table rs @ map ro_table os))"
  obtain ok2 st2 where e: "ensure_all write_ok tables (True, st\<lparr>errors := errs\<rparr>) = (ok2, st2)" by fastforce
  have m2: "mutations st2 = mutations st"
    using ensure_all_mutations[of write_ok tables True "st\<lparr>errors := errs\<rparr>"] e by simp
  define st3 where "st3 = st2\<lparr>errors := errors st2 @ listing_error lr @ listing_error lo\<rparr>"
  let ?c = "routing_commands st3 lrs los rs os"
  have run: "apply_routing dry_run write_ok run lr lo es st = Some (mutate_all dry_run run ?c (ok2, st3))"
    unfolding apply_routing_def assms(1) option.case prod.case Let_def tables_def[symmetric] e
    by (simp add: assms(2,3) st3_def)
  show ?thesis
  proof (rule that)
    show "apply_routing dry_run write_ok run lr lo es st
        = Some (fst (mutate_all dry_run run ?c (ok2, st3)), snd (mutate_all dry_run run ?c (ok2, st3)))"
      using run by simp
    show "mutations (snd (mutate_all dry_run run ?c (ok2, st3))) = mutations st @ map (\<lambda>a. ''ip'' # a) ?c"
      by (simp add: mutate_all_mutations st3_def m2)
    show "fst (mutate_all dry_run run ?c (ok2, st3)) \<longrightarrow> dry_run \<or> (\<forall>a\<in>set ?c. run a)"
      by (simp add: mutate_all_ok)
  qed
qed

lemma routing_commands_Nil:
  "routing_commands st lrs los rs os = [] \<longleftrightarrow> rules.settled lrs rs \<and> routes.settled los os"
  using rules.delta_empty_iff[of lrs rs] routes.delta_empty_iff[of los os]
  by (auto simp: routing_commands_def)

section \<open>Properties\<close>

text \<open>C21: reconciliation is idempotent and minimal: for a payload and live listings that parse, no command
  is run exactly when every desired rule and route is already live and nothing owned is live that is
  not desired; re-applying an applied payload therefore changes nothing.\<close>

theorem apply_routing_idempotent:
  "desired es = Some (errs, rs, os) \<Longrightarrow> owned_rules (listed lr) = Some lrs \<Longrightarrow> owned_routes (listed lo) = Some los \<Longrightarrow>
     \<exists>ok st'. apply_routing dry_run write_ok run lr lo es st = Some (ok, st')
       \<and> (mutations st' = mutations st \<longleftrightarrow>
            rule_key ` set rs \<subseteq> rule_key ` snd ` set lrs \<and> (\<forall>(own, l)\<in>set lrs. own \<longrightarrow> rule_key l \<in> rule_key ` set rs)
            \<and> route_key ` set os \<subseteq> route_key ` snd ` set los \<and> (\<forall>(own, l)\<in>set los. own \<longrightarrow> route_key l \<in> route_key ` set os))"
proof -
  assume "desired es = Some (errs, rs, os)" "owned_rules (listed lr) = Some lrs" "owned_routes (listed lo) = Some los"
  then obtain ok st' st3 where r: "apply_routing dry_run write_ok run lr lo es st = Some (ok, st')"
    "mutations st' = mutations st @ map (\<lambda>a. ''ip'' # a) (routing_commands st3 lrs los rs os)"
    by (rule apply_routing_commands)
  have "mutations st' = mutations st \<longleftrightarrow> rules.settled lrs rs \<and> routes.settled los os"
    using r(2) routing_commands_Nil[of st3 lrs los rs os] by simp
  with r(1) show ?thesis by (auto simp: rules.settled_def routes.settled_def)
qed

definition office_entry :: rt_entry where
  "office_entry = \<lparr>re_enabled = None, re_kind = None, re_table = Some (JInt 100), re_priority = Some (JInt 500),
     re_order_index = None, re_source = Some (JStr ''10.0.0.7/24''), re_source_network = JNone, re_destination = None,
     re_dest_network = JNone, re_inbound_interface = None, re_outbound_interface = None, re_iif = None,
     re_interface = None, re_mark = JNone, re_gateway = None, re_metric = None, re_route_destination = None,
     re_route_source = None\<rparr>"

definition office_live :: live_rule where
  "office_live = \<lparr>lr_priority = Some 500, lr_table = JStr ''vw-table-100'', lr_src = Some ''10.0.0.0'', lr_srclen = Some 24,
     lr_dst = Some ''all'', lr_dstlen = None, lr_fwmark = JNone, lr_iif = None, lr_protocol = JStr ''30''\<rparr>"

definition idle_state :: rt_state where
  "idle_state = \<lparr>rt_lines = [''100 vw-table-100''], rt_names = [], mutations = [], file_mutations = [], errors = []\<rparr>"

definition office_rule :: rt_rule where
  "office_rule = \<lparr>rr_priority = 500, rr_table = Tab_Num 100, rr_source = Some ''10.0.0.0/24'', rr_destination = None,
     rr_mark = None, rr_interface = None\<rparr>"

lemma office_desired: "desired [office_entry] = Some ([], [office_rule], [])"
  by code_simp

lemma office_owned: "owned_rules (listed (Inr [office_live])) = Some [(True, office_rule)]"
  by code_simp

theorem apply_routing_idempotent_witness:
  "\<exists>ok st'. apply_routing False True (\<lambda>a. True) (Inr [office_live]) (Inr []) [office_entry] idle_state = Some (ok, st')
     \<and> mutations st' = []"
proof -
  have lo: "owned_routes (listed (Inr [])) = Some []" by (simp add: parse_live_def listed_def)
  from apply_routing_idempotent[OF office_desired office_owned lo, of False True "\<lambda>a. True" idle_state]
  show ?thesis by (auto simp: idle_state_def)
qed

text \<open>C22: foreign routing state is never deleted: every delete command the reconciliation runs names a live
  rule or route that carries the viswall tag and is not desired, and every command is tagged.\<close>

theorem apply_routing_deletes_only_owned:
  "desired es = Some (errs, rs, os) \<Longrightarrow> owned_rules (listed lr) = Some lrs \<Longrightarrow> owned_routes (listed lo) = Some los \<Longrightarrow>
   apply_routing dry_run write_ok run lr lo es st = Some (ok, st') \<Longrightarrow>
   c \<in> set (drop (length (mutations st)) (mutations st')) \<Longrightarrow>
     last c = tag_protocol
     \<and> (c ! 2 = ''del'' \<longrightarrow>
          (\<exists>l st3. (True, l) \<in> set lrs \<and> rule_key l \<notin> rule_key ` set rs \<and> c = ''ip'' # rule_args st3 l ''del'')
          \<or> (\<exists>l st3. (True, l) \<in> set los \<and> route_key l \<notin> route_key ` set os \<and> c = ''ip'' # route_args st3 l ''del''))"
proof -
  assume a: "desired es = Some (errs, rs, os)" "owned_rules (listed lr) = Some lrs" "owned_routes (listed lo) = Some los"
    and run: "apply_routing dry_run write_ok run lr lo es st = Some (ok, st')"
    and c: "c \<in> set (drop (length (mutations st)) (mutations st'))"
  obtain st3 where "mutations st' = mutations st @ map (\<lambda>a. ''ip'' # a) (routing_commands st3 lrs los rs os)"
    using apply_routing_commands[OF a, of dry_run write_ok run st] run by (metis option.inject prod.inject)
  with c obtain a where a: "c = ''ip'' # a" "a \<in> set (routing_commands st3 lrs los rs os)" by auto
  have tag: "last (rule_args st3 r act) = tag_protocol" "last (route_args st3 q act) = tag_protocol"
    "rule_args st3 r act \<noteq> []" "route_args st3 q act \<noteq> []" for r q act
    by (simp_all add: rule_args_def route_args_def)
  from a(2) consider (dr) l where "l \<in> set (stale_of rule_key rule_key lrs rs)" "a = rule_args st3 l ''del''"
    | (do) l where "l \<in> set (stale_of route_key route_key los os)" "a = route_args st3 l ''del''"
    | (ar) l where "a = rule_args st3 l ''add''" | (ao) l where "a = route_args st3 l ''add''"
    unfolding routing_commands_def by auto
  then show ?thesis
  proof cases
    case dr
    with rules.stale_owned[OF dr(1)] tag a(1) show ?thesis by auto
  next
    case do
    with routes.stale_owned[OF do(1)] tag a(1) show ?thesis by auto
  next
    case ar
    then show ?thesis using tag a(1) by (simp add: rule_args_def)
  next
    case ao
    then show ?thesis using tag a(1) by (simp add: route_args_def)
  qed
qed

theorem apply_routing_deletes_only_owned_witness:
  "\<exists>ok st'. apply_routing False True (\<lambda>a. True) (Inr [office_live]) (Inr []) [] idle_state = Some (ok, st')
     \<and> length (mutations st') = 1 \<and> last (hd (mutations st')) = tag_protocol"
proof -
  have d: "desired [] = Some ([], [], [])" by code_simp
  have lo: "owned_routes (listed (Inr [])) = Some []" by (simp add: parse_live_def listed_def)
  obtain ok st' st3 where r: "apply_routing False True (\<lambda>a. True) (Inr [office_live]) (Inr []) [] idle_state = Some (ok, st')"
    "mutations st' = mutations idle_state @ map (\<lambda>a. ''ip'' # a) (routing_commands st3 [(True, office_rule)] [] [] [])"
    by (rule apply_routing_commands[OF d office_owned lo])
  have m: "mutations idle_state = []" by (simp add: idle_state_def)
  have len: "length (mutations st') = 1"
    using r(2) by (simp add: m routing_commands_def stale_of_def missing_of_def)
  then have "hd (mutations st') \<in> set (drop (length (mutations idle_state)) (mutations st'))"
    by (cases "mutations st'") (auto simp: m)
  from apply_routing_deletes_only_owned[OF d office_owned lo r(1) this]
  have "last (hd (mutations st')) = tag_protocol" by blast
  with r(1) len show ?thesis by simp
qed

definition route_entry :: rt_entry where
  "route_entry = office_entry\<lparr>re_kind := Some ''route'', re_table := None, re_source := None,
     re_gateway := Some ''192.0.2.1''\<rparr>"

text \<open>The module promises never to create a default route in table main and to report a malformed
  entry as an error of that entry. An entry of kind route without a table breaks the first promise,
  a route destination that does not parse breaks the second: the error leaves the function.\<close>

theorem routing_promises_broken:
  "(\<exists>ok st'. apply_routing False True (\<lambda>a. True) (Inr []) (Inr []) [route_entry] idle_state = Some (ok, st')
      \<and> mutations st' = [[''ip'', ''route'', ''add'', ''default'', ''via'', ''192.0.2.1'', ''table'', ''main'', ''proto'', ''30'']])
   \<and> apply_routing False True (\<lambda>a. True) (Inr []) (Inr [])
       [route_entry\<lparr>re_route_destination := Some ''10.0.0.0/33''\<rparr>] idle_state = None"
proof -
  have "map_option (mutations \<circ> snd) (apply_routing False True (\<lambda>a. True) (Inr []) (Inr []) [route_entry] idle_state)
      = Some [[''ip'', ''route'', ''add'', ''default'', ''via'', ''192.0.2.1'', ''table'', ''main'', ''proto'', ''30'']]"
    by code_simp
  moreover have "apply_routing False True (\<lambda>a. True) (Inr []) (Inr [])
       [route_entry\<lparr>re_route_destination := Some ''10.0.0.0/33''\<rparr>] idle_state = None" by code_simp
  ultimately show ?thesis by auto
qed

text \<open>A policy entry with a source network and a gateway asks for a route whose preferred source is the
  network itself. The kernel lists a preferred source as a bare address, so the route is never
  found live and every apply adds it again.\<close>

theorem network_source_never_settles:
  "desired es = Some (errs, rs, os) \<Longrightarrow> r \<in> set os \<Longrightarrow> ro_source r = Some s \<Longrightarrow> CHR ''/'' \<in> set s \<Longrightarrow>
   owned_rules (listed lr) = Some lrs \<Longrightarrow> owned_routes (listed lo) = Some los \<Longrightarrow>
   (\<forall>l\<in>snd ` set los. CHR ''/'' \<notin> set (or_empty (ro_source l))) \<Longrightarrow>
     \<exists>ok st'. apply_routing dry_run write_ok run lr lo es st = Some (ok, st') \<and> mutations st' \<noteq> mutations st"
proof -
  assume d: "desired es = Some (errs, rs, os)" and r: "r \<in> set os" "ro_source r = Some s" "CHR ''/'' \<in> set s"
    and l: "owned_rules (listed lr) = Some lrs" "owned_routes (listed lo) = Some los"
    and bare: "\<forall>l\<in>snd ` set los. CHR ''/'' \<notin> set (or_empty (ro_source l))"
  obtain ok st' st3 where a: "apply_routing dry_run write_ok run lr lo es st = Some (ok, st')"
    "mutations st' = mutations st @ map (\<lambda>a. ''ip'' # a) (routing_commands st3 lrs los rs os)"
    by (rule apply_routing_commands[OF d l])
  have "route_key r \<notin> route_key ` snd ` set los"
  proof
    assume "route_key r \<in> route_key ` snd ` set los"
    then obtain q where "q \<in> snd ` set los" "route_key r = route_key q" by blast
    then have "ro_source q = Some s" using r(2) by (simp add: route_key_def)
    with bare \<open>q \<in> snd ` set los\<close> r(3) show False by fastforce
  qed
  then have "\<not> routes.settled los os" using r(1) by (auto simp: routes.settled_def)
  then have "routing_commands st3 lrs los rs os \<noteq> []" using routing_commands_Nil by blast
  with a show ?thesis by auto
qed

definition uplink_entry :: rt_entry where
  "uplink_entry = office_entry\<lparr>re_gateway := Some ''192.0.2.1'', re_outbound_interface := Some ''wan0''\<rparr>"

definition uplink_live :: live_route where
  "uplink_live = \<lparr>lo_dst = Some ''default'', lo_table = JStr ''vw-table-100'', lo_gateway = Some ''192.0.2.1'', lo_dev = Some ''wan0'',
     lo_prefsrc = Some ''10.0.0.7'', lo_metric = None, lo_protocol = JStr ''30''\<rparr>"

theorem network_source_never_settles_witness:
  "\<exists>ok st'. apply_routing False True (\<lambda>a. True) (Inr [office_live]) (Inr [uplink_live]) [uplink_entry] idle_state = Some (ok, st')
     \<and> mutations st' \<noteq> mutations idle_state"
proof -
  let ?r = "\<lparr>ro_destination = ''default'', ro_table = Tab_Num 100, ro_gateway = Some ''192.0.2.1'',
     ro_interface = Some ''wan0'', ro_source = Some ''10.0.0.0/24'', ro_metric = None\<rparr>"
  let ?l = "?r\<lparr>ro_source := Some ''10.0.0.7''\<rparr>"
  have d: "desired [uplink_entry] = Some ([], [office_rule], [?r])" by code_simp
  have lo: "owned_routes (listed (Inr [uplink_live])) = Some [(True, ?l)]" by code_simp
  show ?thesis
    by (rule network_source_never_settles[OF d _ _ _ office_owned lo, of ?r "''10.0.0.0/24''"]) simp_all
qed

end
