(* ===== verification/Qos.thy ===== *)
theory Qos
  imports Py_Base
begin

text \<open>
  \<open>qos.py\<close> of the firewall agent: validation of the gateway's class list, the \<open>tc\<close> commands of
  the three algorithms, their checked execution, and the statistics parser.

  A payload value is a \<open>qval\<close>. The tool \<open>tc\<close> is a parameter: \<open>run args\<close> is the outcome of one
  command. A share of the rate (\<open>int(rate * 0.3)\<close>) is the integer quotient, which the float
  expression equals for rates below \<open>2 ^ 50\<close>.
\<close>

section \<open>Class lists\<close>

datatype qval = QNone | QBool bool | QInt int | QFloat rat | QStr string | QList "qval list"

fun qtruthy :: "qval \<Rightarrow> bool" where
  "qtruthy QNone = False"
| "qtruthy (QBool b) = b"
| "qtruthy (QInt i) = (i \<noteq> 0)"
| "qtruthy (QFloat f) = (f \<noteq> 0)"
| "qtruthy (QStr s) = (s \<noteq> [])"
| "qtruthy (QList xs) = (xs \<noteq> [])"

text \<open>A class dictionary; \<open>None\<close> is an absent key.\<close>

record qos_entry =
  qe_name :: "string option"
  qe_priority :: "qval option"
  qe_min_rate_kbps :: "qval option"
  qe_min_rate :: "qval option"
  qe_max_rate_kbps :: "qval option"
  qe_max_rate :: "qval option"
  qe_match_ports :: "qval option"
  qe_match_protocol :: "qval option"

record qos_class =
  qc_name :: string
  qc_priority :: int
  qc_min_rate :: int
  qc_max_rate :: "int option"
  qc_ports :: "int list"
  qc_protocol :: string

definition htb_class_base_id :: nat where "htb_class_base_id = 10"

definition class_error :: "nat \<Rightarrow> string \<Rightarrow> string" where
  "class_error index text = ''class '' @ string_of_nat index @ '': '' @ text"

definition checked_number :: "string \<Rightarrow> nat \<Rightarrow> int \<Rightarrow> string + int" where
  "checked_number label index n =
     (if n < 1 then Inl (class_error index (label @ '' must be >= 1 (got '' @ string_of_int n @ '')''))
      else Inr n)"

definition number :: "qval \<Rightarrow> string \<Rightarrow> nat \<Rightarrow> string + int" where
  "number v label index =
     (case v of
        QInt i \<Rightarrow> checked_number label index i
      | QFloat f \<Rightarrow> (if of_int \<lfloor>f\<rfloor> = f then checked_number label index \<lfloor>f\<rfloor>
                   else Inl (class_error index (label @ '' must be an integer'')))
      | _ \<Rightarrow> Inl (class_error index (label @ '' must be a number'')))"

definition optional_number :: "qval \<Rightarrow> string \<Rightarrow> nat \<Rightarrow> string + int option" where
  "optional_number v label index =
     (if v = QNone then Inr None
      else (case number v label index of Inl e \<Rightarrow> Inl e | Inr n \<Rightarrow> Inr (Some n)))"

fun clean_ports :: "qval list \<Rightarrow> nat \<Rightarrow> string + int list" where
  "clean_ports [] index = Inr []"
| "clean_ports (p # ps) index =
     (case number p ''match_ports entry'' index of
        Inl e \<Rightarrow> Inl e
      | Inr n \<Rightarrow>
          (if n > 65535 then Inl (class_error index (''match_ports entry '' @ string_of_int n @ '' exceeds 65535''))
           else (case clean_ports ps index of Inl e \<Rightarrow> Inl e | Inr ns \<Rightarrow> Inr (n # ns))))"

definition ports_of :: "qval option \<Rightarrow> nat \<Rightarrow> string + int list" where
  "ports_of v index =
     (case v of
        None \<Rightarrow> Inr []
      | Some x \<Rightarrow>
          (if \<not> qtruthy x then Inr []
           else (case x of QList ps \<Rightarrow> clean_ports ps index
                 | _ \<Rightarrow> Inl (class_error index ''match_ports must be a list''))))"

definition squoted :: "string \<Rightarrow> string" where "squoted s = [CHR 0x27] @ s @ [CHR 0x27]"

definition protocol_text :: "qval option \<Rightarrow> nat \<Rightarrow> string + string" where
  "protocol_text v index =
     (case (case v of None \<Rightarrow> QStr ''any'' | Some x \<Rightarrow> if qtruthy x then x else QStr ''any'') of
        QStr s \<Rightarrow>
          (if lower s \<in> {''any'', ''tcp'', ''udp''} then Inr (lower s)
           else Inl (class_error index (''unsupported match_protocol '' @ squoted (lower s) @ '' (expected one of ['' @
                 join '', '' (map squoted [''any'', ''tcp'', ''udp'']) @ ''])'')))
      | _ \<Rightarrow> Inl (class_error index ''match_protocol must be a string''))"

definition priority_value :: "qval option \<Rightarrow> nat \<Rightarrow> string + int" where
  "priority_value v index =
     (case (case v of None \<Rightarrow> QInt (int index + 1) | Some x \<Rightarrow> x) of
        QInt p \<Rightarrow> (if 0 \<le> p \<and> p \<le> 7 then Inr p
                  else Inl (class_error index ''priority must be between 0 and 7''))
      | _ \<Rightarrow> Inl (class_error index ''priority must be an integer''))"

definition first_key :: "qval option \<Rightarrow> qval option \<Rightarrow> qval" where
  "first_key a b = (case a of Some x \<Rightarrow> x | None \<Rightarrow> (case b of Some y \<Rightarrow> y | None \<Rightarrow> QNone))"

text \<open>One entry, in the order of the code's checks; \<open>None\<close> stands for an entry that is no object.\<close>

definition normalize_class :: "qos_entry option \<Rightarrow> nat \<Rightarrow> string + qos_class" where
  "normalize_class entry index =
     (case entry of
        None \<Rightarrow> Inl (''class '' @ string_of_nat index @ '' must be an object'')
      | Some e \<Rightarrow>
          (let min_rate = first_key (qe_min_rate_kbps e) (qe_min_rate e);
               max_rate = first_key (qe_max_rate_kbps e) (qe_max_rate e) in
           if min_rate = QNone then Inl (class_error index ''min_rate_kbps is required'')
           else (case ports_of (qe_match_ports e) index of Inl err \<Rightarrow> Inl err | Inr ports \<Rightarrow>
             (case protocol_text (qe_match_protocol e) index of Inl err \<Rightarrow> Inl err | Inr proto \<Rightarrow>
             (case priority_value (qe_priority e) index of Inl err \<Rightarrow> Inl err | Inr prio \<Rightarrow>
             (case number min_rate ''min_rate_kbps'' index of Inl err \<Rightarrow> Inl err | Inr lo \<Rightarrow>
             (case optional_number max_rate ''max_rate_kbps'' index of Inl err \<Rightarrow> Inl err | Inr hi \<Rightarrow>
                Inr \<lparr>qc_name = (if truthy_str (qe_name e) then or_empty (qe_name e)
                                else ''class-'' @ string_of_nat index),
                     qc_priority = prio, qc_min_rate = lo, qc_max_rate = hi,
                     qc_ports = ports, qc_protocol = proto\<rparr>)))))))"

fun normalize_classes :: "qos_entry option list \<Rightarrow> nat \<Rightarrow> string + qos_class list" where
  "normalize_classes [] index = Inr []"
| "normalize_classes (e # es) index =
     (case normalize_class e index of
        Inl err \<Rightarrow> Inl err
      | Inr c \<Rightarrow> (case normalize_classes es (Suc index) of Inl err \<Rightarrow> Inl err | Inr cs \<Rightarrow> Inr (c # cs)))"

section \<open>Commands\<close>

definition kbit :: "int \<Rightarrow> string" where "kbit n = string_of_int n @ ''kbit''"

definition cake_add :: "string \<Rightarrow> int \<Rightarrow> string list" where
  "cake_add dev rate = [''qdisc'', ''add'', ''dev'', dev, ''root'', ''handle'', ''1:'', ''cake'', ''bandwidth'',
     kbit rate, ''diffserv4'', ''dual-srchost'', ''nat'', ''wash'']"

definition fq_codel_add :: "string \<Rightarrow> string list" where
  "fq_codel_add dev = [''qdisc'', ''add'', ''dev'', dev, ''root'', ''handle'', ''1:'', ''fq_codel'',
     ''flows'', ''1024'', ''quantum'', ''1514'']"

definition htb_root :: "string \<Rightarrow> string \<Rightarrow> string list" where
  "htb_root dev default_minor = [''qdisc'', ''add'', ''dev'', dev, ''root'', ''handle'', ''1:'', ''htb'', ''default'', default_minor]"

definition htb_root_class :: "string \<Rightarrow> int \<Rightarrow> string list" where
  "htb_root_class dev rate = [''class'', ''add'', ''dev'', dev, ''parent'', ''1:'', ''classid'', ''1:1'', ''htb'',
     ''rate'', kbit rate, ''burst'', ''15k'']"

definition htb_class :: "string \<Rightarrow> string \<Rightarrow> int \<Rightarrow> int \<Rightarrow> string \<Rightarrow> string list" where
  "htb_class dev classid rate ceil prio = [''class'', ''add'', ''dev'', dev, ''parent'', ''1:1'', ''classid'', classid,
     ''htb'', ''rate'', kbit rate, ''ceil'', kbit ceil, ''prio'', prio]"

definition leaf_add :: "string \<Rightarrow> string \<Rightarrow> string list" where
  "leaf_add dev classid = [''qdisc'', ''add'', ''dev'', dev, ''parent'', classid, ''fq_codel'']"

definition add_filter :: "string \<Rightarrow> string \<Rightarrow> string \<Rightarrow> string \<Rightarrow> string list" where
  "add_filter dev classid proto port = [''filter'', ''add'', ''dev'', dev, ''protocol'', ''ip'', ''parent'', ''1:0'',
     ''prio'', ''1'', ''u32'', ''match'', ''ip'', ''protocol'', (if proto = ''tcp'' then ''6'' else ''17''), ''0xff'',
     ''match'', proto, ''dport'', port, ''0xffff'', ''flowid'', classid]"

definition add_filter_ipv6 :: "string \<Rightarrow> string \<Rightarrow> string \<Rightarrow> string \<Rightarrow> string list" where
  "add_filter_ipv6 dev classid proto port = [''filter'', ''add'', ''dev'', dev, ''protocol'', ''ipv6'', ''parent'', ''1:0'',
     ''prio'', ''1'', ''flower'', ''ip_proto'', proto, ''dst_port'', port, ''flowid'', classid]"

definition both_filters :: "string \<Rightarrow> string \<Rightarrow> string \<Rightarrow> string \<Rightarrow> string list list" where
  "both_filters dev classid proto port = [add_filter dev classid proto port, add_filter_ipv6 dev classid proto port]"

definition classid_of :: "nat \<Rightarrow> string" where
  "classid_of index = ''1:'' @ string_of_nat (htb_class_base_id + index)"

definition class_protocols :: "qos_class \<Rightarrow> string list" where
  "class_protocols c = (if qc_protocol c = ''any'' then [''tcp'', ''udp''] else [qc_protocol c])"

text \<open>\<open>spec.get("max_rate_kbps") or root_rate\<close>\<close>

definition ceil_rate :: "int \<Rightarrow> qos_class \<Rightarrow> int" where
  "ceil_rate root_rate c = (case qc_max_rate c of None \<Rightarrow> root_rate | Some m \<Rightarrow> if m = 0 then root_rate else m)"

definition class_commands :: "string \<Rightarrow> int \<Rightarrow> nat \<Rightarrow> qos_class \<Rightarrow> string list list" where
  "class_commands dev root_rate index c =
     [htb_class dev (classid_of index) (qc_min_rate c) (ceil_rate root_rate c) (string_of_int (qc_priority c)),
      leaf_add dev (classid_of index)]
     @ concat (map (\<lambda>port. concat (map (\<lambda>proto. both_filters dev (classid_of index) proto (string_of_int port))
                                      (class_protocols c))) (qc_ports c))"

fun leaves_commands :: "string \<Rightarrow> int \<Rightarrow> nat \<Rightarrow> qos_class list \<Rightarrow> string list list" where
  "leaves_commands dev root_rate index [] = []"
| "leaves_commands dev root_rate index (c # cs) =
     class_commands dev root_rate index c @ leaves_commands dev root_rate (Suc index) cs"

definition default_classes :: "int \<Rightarrow> (string \<times> int \<times> string) list" where
  "default_classes rate = [(''1:10'', rate * 3 div 10, ''100''), (''1:11'', rate * 4 div 10, ''200''),
     (''1:12'', rate * 3 div 10, ''300'')]"

definition default_commands :: "string \<Rightarrow> int \<Rightarrow> string list list" where
  "default_commands dev rate =
     concat (map (\<lambda>(classid, class_rate, prio). [htb_class dev classid class_rate rate prio, leaf_add dev classid])
       (default_classes rate))
     @ both_filters dev ''1:10'' ''udp'' ''5060'' @ both_filters dev ''1:10'' ''udp'' ''53''
     @ both_filters dev ''1:10'' ''tcp'' ''22''"

definition htb_commands :: "string \<Rightarrow> int \<Rightarrow> qos_class list \<Rightarrow> string list list" where
  "htb_commands dev rate classes =
     [htb_root dev (if classes \<noteq> [] then string_of_nat (htb_class_base_id + length classes - 1) else ''12''),
      htb_root_class dev rate]
     @ (if classes \<noteq> [] then leaves_commands dev rate 0 classes else default_commands dev rate)"

definition qos_commands :: "string \<Rightarrow> int \<Rightarrow> string \<Rightarrow> qos_class list \<Rightarrow> string list list" where
  "qos_commands dev rate algorithm classes =
     (if algorithm = ''cake'' then [cake_add dev rate]
      else if algorithm = ''fq_codel'' then [fq_codel_add dev]
      else if algorithm = ''htb'' then htb_commands dev rate classes
      else [])"

definition root_delete :: "string \<Rightarrow> string list" where
  "root_delete dev = [''qdisc'', ''del'', ''dev'', dev, ''root'']"

section \<open>Execution\<close>

datatype tc_outcome = Tc_Missing | Tc_Exit bool

text \<open>Checked commands run one after the other; the first that fails ends the sequence. The result
  is the commands started and whether all succeeded.\<close>

fun run_checked :: "(string list \<Rightarrow> tc_outcome) \<Rightarrow> string list list \<Rightarrow> string list list \<times> bool" where
  "run_checked run [] = ([], True)"
| "run_checked run (c # cs) =
     (if run c = Tc_Exit True then (let (done, ok) = run_checked run cs in (c # done, ok)) else ([c], False))"

text \<open>A validation error (left) raises before any command.\<close>

definition setup_qos :: "(string list \<Rightarrow> tc_outcome) \<Rightarrow> string \<Rightarrow> int \<Rightarrow> int \<Rightarrow> string \<Rightarrow>
    qos_entry option list \<Rightarrow> string + string list list \<times> bool" where
  "setup_qos run dev download_rate upload_rate algorithm classes =
     (case normalize_classes classes 0 of
        Inl err \<Rightarrow> Inl err
      | Inr ncs \<Rightarrow> Inr
          (if run (root_delete dev) = Tc_Missing then ([root_delete dev], False)
           else (let (done, ok) = run_checked run (qos_commands dev download_rate algorithm ncs) in
                 (root_delete dev # done, ok))))"

section \<open>Statistics\<close>

record queue_stats =
  qs_name :: string
  qs_bytes :: int
  qs_packets :: int
  qs_dropped :: int
  qs_rate :: string

definition digits_of :: "string \<Rightarrow> int" where
  "digits_of s = int (digits_val 0 (takeWhile is_digit s))"

definition sent_at :: "string \<Rightarrow> (int \<times> int) option" where
  "sent_at s = Option.bind (eat_word ''Sent '' s) (\<lambda>a. Option.bind (eat_digits a) (\<lambda>b. Option.bind (eat_word '' bytes '' b)
     (\<lambda>c. Option.bind (eat_digits c) (\<lambda>d. Option.bind (eat_word '' pkt'' d) (\<lambda>e. Some (digits_of a, digits_of c))))))"

definition dropped_at :: "string \<Rightarrow> int option" where
  "dropped_at s = Option.bind (eat_word ''(dropped '' s) (\<lambda>a. map_option (\<lambda>b. digits_of a) (eat_digits a))"

text \<open>\<open>re.search\<close>: the first position where the pattern matches.\<close>

fun search_from :: "(string \<Rightarrow> 'a option) \<Rightarrow> string \<Rightarrow> 'a option" where
  "search_from m [] = m []"
| "search_from m (c # cs) = (case m (c # cs) of Some x \<Rightarrow> Some x | None \<Rightarrow> search_from m cs)"

definition rate_char :: "char \<Rightarrow> bool" where "rate_char c \<longleftrightarrow> is_digit c \<or> c = CHR ''.''"
definition unit_char :: "char \<Rightarrow> bool" where "unit_char c \<longleftrightarrow> is_alpha c \<or> c = CHR ''/''"

definition rate_value :: "string \<Rightarrow> string option" where
  "rate_value s =
     (let n = takeWhile rate_char s in
      if n = [] then None else Some (n @ takeWhile unit_char (drop (length n) s)))"

definition bandwidth_at :: "string \<Rightarrow> string option" where
  "bandwidth_at s =
     (case Option.bind (case eat_word ''bandwidth'' s of Some r \<Rightarrow> Some r | None \<Rightarrow> eat_word ''rate'' s) eat_spaces1 of
        None \<Rightarrow> None | Some r \<Rightarrow> rate_value r)"

fun search_bandwidth :: "bool \<Rightarrow> string \<Rightarrow> string option" where
  "search_bandwidth after_word [] = None"
| "search_bandwidth after_word (c # cs) =
     (case (if after_word then None else bandwidth_at (c # cs)) of
        Some t \<Rightarrow> Some t | None \<Rightarrow> search_bandwidth (word_char c) cs)"

definition non_space :: "char \<Rightarrow> bool" where "non_space c \<longleftrightarrow> \<not> is_space c"

text \<open>\<open>^qdisc\s+(\S+)\s+(\S+)\<close>\<close>

definition qdisc_line :: "string \<Rightarrow> (string \<times> string) option" where
  "qdisc_line line =
     (case Option.bind (eat_word ''qdisc'' line) eat_spaces1 of
        None \<Rightarrow> None
      | Some r \<Rightarrow>
          (let kind = takeWhile non_space r; r2 = dropWhile non_space r in
           case (if kind = [] then None else eat_spaces1 r2) of
             None \<Rightarrow> None
           | Some r3 \<Rightarrow> (let handle = takeWhile non_space r3 in if handle = [] then None else Some (kind, handle))))"

definition new_queue :: "string \<Rightarrow> string \<Rightarrow> string \<Rightarrow> queue_stats" where
  "new_queue line kind handle =
     \<lparr>qs_name = (if handle \<noteq> ''0:'' then handle else kind), qs_bytes = 0, qs_packets = 0, qs_dropped = 0,
      qs_rate = or_empty (search_bandwidth False line)\<rparr>"

definition update_queue :: "string \<Rightarrow> queue_stats \<Rightarrow> queue_stats" where
  "update_queue line q =
     (let q1 = (case search_from sent_at line of None \<Rightarrow> q | Some (b, p) \<Rightarrow> q\<lparr>qs_bytes := b, qs_packets := p\<rparr>) in
      case search_from dropped_at line of None \<Rightarrow> q1 | Some d \<Rightarrow> q1\<lparr>qs_dropped := d\<rparr>)"

fun parse_stats_lines :: "string list \<Rightarrow> queue_stats list \<Rightarrow> queue_stats list" where
  "parse_stats_lines [] queues = queues"
| "parse_stats_lines (raw # ls) queues =
     (let line = strip raw in
      case qdisc_line line of
        Some (kind, handle) \<Rightarrow> parse_stats_lines ls (queues @ [new_queue line kind handle])
      | None \<Rightarrow> parse_stats_lines ls
          (if queues = [] then [] else butlast queues @ [update_queue line (last queues)]))"

definition parse_qdisc_stats :: "string \<Rightarrow> queue_stats list" where
  "parse_qdisc_stats output = parse_stats_lines (splitlines output) []"

text \<open>The queues and the text they come from; \<open>None\<close> is a tool that cannot be started.\<close>

definition get_stats :: "string option \<Rightarrow> queue_stats list \<times> string" where
  "get_stats out = (case out of None \<Rightarrow> ([], []) | Some raw \<Rightarrow> (parse_qdisc_stats raw, raw))"

section \<open>The limit per address\<close>

definition limit_commands :: "string \<Rightarrow> string \<Rightarrow> string list list" where
  "limit_commands dev rate =
     [[''qdisc'', ''add'', ''dev'', dev, ''handle'', ''1:'', ''root'', ''htb''],
      [''class'', ''add'', ''dev'', dev, ''parent'', ''1:'', ''classid'', ''1:1'', ''htb'', ''rate'', rate]]
     @ map (\<lambda>proto. [''filter'', ''add'', ''dev'', dev, ''protocol'', proto, ''parent'', ''1:0'', ''prio'', ''1'', ''handle'', ''1:'', ''fw'', ''classid'', ''1:1''])
         [''ip'', ''ipv6'']"

text \<open>Exit codes are not read; only a tool that cannot be started ends the sequence.\<close>

fun run_unchecked :: "(string list \<Rightarrow> tc_outcome) \<Rightarrow> string list list \<Rightarrow> string list list \<times> bool" where
  "run_unchecked run [] = ([], True)"
| "run_unchecked run (c # cs) =
     (if run c = Tc_Missing then ([c], False) else (let (done, ok) = run_unchecked run cs in (c # done, ok)))"

definition limit_per_ip :: "(string list \<Rightarrow> tc_outcome) \<Rightarrow> string \<Rightarrow> string \<Rightarrow> string list list \<times> bool" where
  "limit_per_ip run dev rate = run_unchecked run (limit_commands dev rate)"

section \<open>Properties\<close>

lemma run_unchecked_True: "list_all (\<lambda>c. run c \<noteq> Tc_Missing) cs \<Longrightarrow> run_unchecked run cs = (cs, True)"
  by (induction cs) auto

text \<open>The limit is answered with success whatever the commands answer: also when each of them failed.\<close>

theorem limit_per_ip_ignores_failures: "limit_per_ip (\<lambda>c. Tc_Exit (f c)) dev rate = (limit_commands dev rate, True)"
  by (simp add: limit_per_ip_def run_unchecked_True list_all_iff)


lemma run_checked_prefix: "\<exists>rest. cs = fst (run_checked run cs) @ rest"
  by (induction cs) (auto split: prod.splits)

lemma run_checked_ok: "snd (run_checked run cs) \<longleftrightarrow> (\<forall>c\<in>set cs. run c = Tc_Exit True)"
  by (induction cs) (auto split: prod.splits)

lemma run_checked_all: "snd (run_checked run cs) \<Longrightarrow> fst (run_checked run cs) = cs"
  by (induction cs) (auto split: prod.splits if_splits)

lemma run_checked_stop:
  "\<not> snd (run_checked run cs) \<Longrightarrow>
     fst (run_checked run cs) \<noteq> [] \<and> run (last (fst (run_checked run cs))) \<noteq> Tc_Exit True"
  by (induction cs) (auto split: prod.splits if_splits)

text \<open>The outcome of setting up a queue. A malformed class list is an error before the first command.
  Otherwise success is reported exactly when the tool could be started and every command of the
  algorithm succeeded, and then all of them ran after the delete of the old root; a failure stops
  at the first failing command. An unknown algorithm only deletes the old root and reports success.\<close>

theorem setup_qos_outcome:
  "(case setup_qos run dev down up algorithm es of
      Inl err \<Rightarrow> normalize_classes es 0 = Inl err
    | Inr (cmds, ok) \<Rightarrow> (\<exists>ncs. normalize_classes es 0 = Inr ncs
        \<and> (ok \<longleftrightarrow> run (root_delete dev) \<noteq> Tc_Missing
               \<and> (\<forall>c\<in>set (qos_commands dev down algorithm ncs). run c = Tc_Exit True))
        \<and> (ok \<longrightarrow> cmds = root_delete dev # qos_commands dev down algorithm ncs)
        \<and> (\<not> ok \<longrightarrow> (\<exists>rest. root_delete dev # qos_commands dev down algorithm ncs = cmds @ rest)
                   \<and> run (last cmds) \<noteq> Tc_Exit True)))
   \<and> (algorithm \<notin> {''cake'', ''fq_codel'', ''htb''} \<longrightarrow> run (root_delete dev) \<noteq> Tc_Missing \<longrightarrow> normalize_classes es 0 = Inr ncs
        \<longrightarrow> setup_qos run dev down up algorithm es = Inr ([root_delete dev], True))"
proof (intro conjI impI)
  show "setup_qos run dev down up algorithm es = Inr ([root_delete dev], True)"
    if "algorithm \<notin> {''cake'', ''fq_codel'', ''htb''}" "run (root_delete dev) \<noteq> Tc_Missing" "normalize_classes es 0 = Inr ncs"
    using that by (simp add: setup_qos_def qos_commands_def)
next
  show "case setup_qos run dev down up algorithm es of
      Inl err \<Rightarrow> normalize_classes es 0 = Inl err
    | Inr (cmds, ok) \<Rightarrow> (\<exists>ncs. normalize_classes es 0 = Inr ncs
        \<and> (ok \<longleftrightarrow> run (root_delete dev) \<noteq> Tc_Missing
               \<and> (\<forall>c\<in>set (qos_commands dev down algorithm ncs). run c = Tc_Exit True))
        \<and> (ok \<longrightarrow> cmds = root_delete dev # qos_commands dev down algorithm ncs)
        \<and> (\<not> ok \<longrightarrow> (\<exists>rest. root_delete dev # qos_commands dev down algorithm ncs = cmds @ rest)
                   \<and> run (last cmds) \<noteq> Tc_Exit True))"
  proof (cases "normalize_classes es 0")
    case (Inr ncs)
    let ?c = "qos_commands dev down algorithm ncs"
    note p = run_checked_prefix[of ?c run] run_checked_ok[of run ?c] run_checked_all[of run ?c]
      run_checked_stop[of run ?c]
    show ?thesis
    proof (cases "run (root_delete dev) = Tc_Missing \<or> snd (run_checked run (qos_commands dev down algorithm ncs))")
      case True
      then show ?thesis using p(2,3) by (auto simp: setup_qos_def Inr split: prod.splits)
    next
      case False
      then show ?thesis using p(1,2,4) by (auto simp: setup_qos_def Inr split: prod.splits)
    qed
  qed (simp add: setup_qos_def)
qed

definition voip_class :: qos_entry where
  "voip_class = \<lparr>qe_name = Some ''voip'', qe_priority = None, qe_min_rate_kbps = Some (QInt 500), qe_min_rate = None,
     qe_max_rate_kbps = Some QNone, qe_max_rate = None, qe_match_ports = Some (QList [QInt 5060, QFloat 5061]),
     qe_match_protocol = Some (QStr ''UDP'')\<rparr>"

theorem setup_qos_outcome_witness:
  "setup_qos (\<lambda>c. Tc_Exit (c \<noteq> root_delete ''wan0'')) ''wan0'' 1000 500 ''cbq'' [Some voip_class] = Inr ([root_delete ''wan0''], True)"
proof -
  obtain ncs where "normalize_classes [Some voip_class] 0 = Inr ncs"
  proof -
    have "\<not> (case normalize_classes [Some voip_class] 0 of Inl e \<Rightarrow> True | Inr n \<Rightarrow> False)" by code_simp
    then show ?thesis by (cases "normalize_classes [Some voip_class] 0") (auto intro: that)
  qed
  with setup_qos_outcome[where run = "\<lambda>c. Tc_Exit (c \<noteq> root_delete ''wan0'')" and dev = "''wan0''" and down = 1000
      and up = 500 and algorithm = "''cbq''" and es = "[Some voip_class]"]
  show ?thesis by simp
qed

lemma clean_ports_range: "clean_ports ps index = Inr ns \<Longrightarrow> n \<in> set ns \<Longrightarrow> 1 \<le> n \<and> n \<le> 65535"
  by (induction ps index arbitrary: ns rule: clean_ports.induct)
    (auto simp: number_def checked_number_def split: qval.splits if_splits sum.splits)

lemma number_ge: "number v label index = Inr n \<Longrightarrow> 1 \<le> n"
  by (auto simp: number_def checked_number_def split: qval.splits if_splits)

definition class_ok :: "qos_class \<Rightarrow> bool" where
  "class_ok c \<longleftrightarrow> 0 \<le> qc_priority c \<and> qc_priority c \<le> 7 \<and> 1 \<le> qc_min_rate c
     \<and> (\<forall>p\<in>set (qc_ports c). 1 \<le> p \<and> p \<le> 65535) \<and> qc_protocol c \<in> {''any'', ''tcp'', ''udp''}"

lemma ports_of_range: "ports_of v index = Inr ps \<Longrightarrow> p \<in> set ps \<Longrightarrow> 1 \<le> p \<and> p \<le> 65535"
  using clean_ports_range by (auto simp: ports_of_def split: option.splits if_splits qval.splits)

lemma normalize_class_ok: "normalize_class e index = Inr c \<Longrightarrow> class_ok c"
proof -
  assume n: "normalize_class e index = Inr c"
  then obtain d where d: "e = Some d" by (cases e) (auto simp: normalize_class_def)
  from n obtain ports proto prio lo where
    p: "ports_of (qe_match_ports d) index = Inr ports" "protocol_text (qe_match_protocol d) index = Inr proto"
      "priority_value (qe_priority d) index = Inr prio" "number (first_key (qe_min_rate_kbps d) (qe_min_rate d)) ''min_rate_kbps'' index = Inr lo"
    and c: "qc_ports c = ports" "qc_protocol c = proto" "qc_priority c = prio" "qc_min_rate c = lo"
    unfolding d normalize_class_def Let_def by (auto split: if_splits sum.splits)
  have "proto \<in> {''any'', ''tcp'', ''udp''}"
    using p(2) unfolding protocol_text_def by (auto split: qval.splits if_splits option.splits)
  moreover have "0 \<le> prio \<and> prio \<le> 7"
    using p(3) unfolding priority_value_def by (auto split: qval.splits if_splits option.splits)
  ultimately show ?thesis using p(1,4) c ports_of_range number_ge by (auto simp: class_ok_def)
qed

lemma normalize_classes_ok:
  "normalize_classes es index = Inr cs \<Longrightarrow> length cs = length es \<and> (\<forall>c\<in>set cs. class_ok c)"
proof (induction es arbitrary: index cs)
  case (Cons e es)
  then obtain c rest where "normalize_class e index = Inr c" "normalize_classes es (Suc index) = Inr rest" "cs = c # rest"
    by (auto split: sum.splits)
  with Cons.IH[of "Suc index" rest] normalize_class_ok show ?case by auto
qed simp

lemma leaves_commands_nth:
  "i < length cs \<Longrightarrow> set (class_commands dev rate (index + i) (cs ! i)) \<subseteq> set (leaves_commands dev rate index cs)"
proof (induction cs arbitrary: index i)
  case (Cons c cs)
  then show ?case by (cases i) (auto dest!: Cons.IH[of _ "Suc index"])
qed simp

text \<open>The class tree is complete and well formed. A class list that passes validation keeps its length
  and has priorities in 0..7, rates of at least one kbit and ports in 1..65535; each class gets its
  leaf, its fair queue and an IPv4 and an IPv6 filter per port and protocol; the default minor of
  the root names a class that is created; and without classes the three default shares together
  never exceed the root rate.\<close>

theorem htb_tree_complete:
  "normalize_classes es 0 = Inr cs \<Longrightarrow>
     length cs = length es \<and> (\<forall>c\<in>set cs. class_ok c)
     \<and> (\<forall>i<length cs. htb_class dev (classid_of i) (qc_min_rate (cs ! i)) (ceil_rate rate (cs ! i))
              (string_of_int (qc_priority (cs ! i))) \<in> set (htb_commands dev rate cs)
          \<and> leaf_add dev (classid_of i) \<in> set (htb_commands dev rate cs)
          \<and> (\<forall>p\<in>set (qc_ports (cs ! i)). \<forall>proto\<in>set (class_protocols (cs ! i)).
               set (both_filters dev (classid_of i) proto (string_of_int p)) \<subseteq> set (htb_commands dev rate cs)))
     \<and> (\<exists>minor r c p. hd (htb_commands dev rate cs) = htb_root dev minor
          \<and> htb_class dev (''1:'' @ minor) r c p \<in> set (htb_commands dev rate cs))
     \<and> sum_list (map (fst \<circ> snd) (default_classes rate)) \<le> rate"
proof -
  assume n: "normalize_classes es 0 = Inr cs"
  have leaf: "htb_class dev (classid_of i) (qc_min_rate (cs ! i)) (ceil_rate rate (cs ! i)) (string_of_int (qc_priority (cs ! i)))
        \<in> set (htb_commands dev rate cs) \<and> leaf_add dev (classid_of i) \<in> set (htb_commands dev rate cs)
      \<and> (\<forall>p\<in>set (qc_ports (cs ! i)). \<forall>proto\<in>set (class_protocols (cs ! i)).
            set (both_filters dev (classid_of i) proto (string_of_int p)) \<subseteq> set (htb_commands dev rate cs))"
    if i: "i < length cs" for i
  proof -
    have "cs \<noteq> []" using i by auto
    then have "set (class_commands dev rate i (cs ! i)) \<subseteq> set (htb_commands dev rate cs)"
      using leaves_commands_nth[OF i, of dev rate 0] by (auto simp: htb_commands_def)
    then show ?thesis unfolding class_commands_def by (auto simp: subset_iff)
  qed
  have root: "\<exists>minor r c p. hd (htb_commands dev rate cs) = htb_root dev minor
          \<and> htb_class dev (''1:'' @ minor) r c p \<in> set (htb_commands dev rate cs)"
  proof (cases "cs = []")
    case True
    then show ?thesis
      by (intro exI[of _ "''12''"] exI[of _ "rate * 3 div 10"] exI[of _ rate] exI[of _ "''300''"])
        (simp add: htb_commands_def default_commands_def default_classes_def)
  next
    case False
    then have "length cs - 1 < length cs" by (cases cs) auto
    from leaf[OF this] False show ?thesis
      by (intro exI[of _ "string_of_nat (htb_class_base_id + length cs - 1)"] exI conjI)
        (auto simp: htb_commands_def classid_of_def Suc_leI)
  qed
  have "rate * 3 div 10 + (rate * 4 div 10 + rate * 3 div 10) \<le> rate" by linarith
  then have "sum_list (map (fst \<circ> snd) (default_classes rate)) \<le> rate" by (simp add: default_classes_def)
  with normalize_classes_ok[OF n] leaf root show ?thesis by blast
qed

theorem htb_tree_complete_witness:
  "case normalize_classes [Some voip_class] 0 of Inl e \<Rightarrow> False
   | Inr cs \<Rightarrow> map qc_priority cs = [1] \<and> leaf_add ''wan0'' (classid_of 0) \<in> set (htb_commands ''wan0'' 1000 cs)"
proof -
  have c: "case normalize_classes [Some voip_class] 0 of Inl e \<Rightarrow> False | Inr cs \<Rightarrow> map qc_priority cs = [1]" by code_simp
  then obtain cs where cs: "normalize_classes [Some voip_class] 0 = Inr cs" by (auto split: sum.splits)
  with c have "map qc_priority cs = [1]" by simp
  moreover from this have "0 < length cs" by (metis length_map length_Cons zero_less_Suc)
  ultimately show ?thesis using htb_tree_complete[OF cs, of "''wan0''" 1000] cs by auto
qed

end
