(* ===== verification/Fw_Deploy.thy ===== *)
theory Fw_Deploy
  imports Nft_Apply Fw_Payload Snapshots Routing_Props Qos
begin

text \<open>
  \<open>api.py\<close> of the firewall agent: the deployment pipeline, rollback, the key check of the HTTP
  layer and the endpoints over them.

  One record holds the agent's state: the nftables host, the snapshot directories, the marker of
  the last apply, the routing manager, the \<open>tc\<close> commands run so far and what iptables has loaded.
  Everything outside the process (clock, tools, file system) is in an environment record. A raised
  \<open>FirewallApplyError\<close> is \<open>Refused\<close>, any other exception that leaves the handler is \<open>Crashed\<close>.
\<close>

section \<open>State and environment\<close>

record agent_state =
  ag_nft :: nft_host
  ag_snapshots :: "snapshot_dir list"
  ag_marker :: "string option"
  ag_routing :: rt_state
  ag_tc :: "string list list"
  ag_v4 :: "string option"
  ag_v6 :: "string option"

datatype recheck = Check_Missing | Check_Exit bool string

record deploy_env =
  en_capture :: "string list \<Rightarrow> capture"
  en_netplan :: "string + (string \<times> string) list"
  en_rm_ok :: "string \<Rightarrow> bool"
  en_stamp :: string
  en_validation :: bool
  en_now :: string
  en_nft :: nft_env
  en_recheck :: recheck
  en_marker_ok :: bool
  en_tables_ok :: bool
  en_ip :: "string list \<Rightarrow> bool"
  en_live_rules :: "string + live_rule list"
  en_live_routes :: "string + live_route list"
  en_tc :: "string list \<Rightarrow> tc_outcome"

record qos_policy =
  qp_interface :: "string option"
  qp_download :: "int option"
  qp_upload :: "int option"
  qp_algorithm :: "string option"
  qp_classes :: "qos_entry option list"

record apply_request =
  rq_interfaces :: "iface list"
  rq_rules :: "fw_entry list"
  rq_nat_rules :: "nat_entry list"
  rq_routing_rules :: "rt_entry list"
  rq_qos :: "qos_policy list"

record deploy_report =
  dr_applied :: bool
  dr_validation_mode :: bool
  dr_errors :: "string list"

datatype deploy_result = Refused apply_error | Crashed | Done deploy_report

section \<open>Deployment\<close>

definition nft_validation_error :: "recheck \<Rightarrow> string" where
  "nft_validation_error r =
     (case r of
        Check_Missing \<Rightarrow> ''nftables apply failed (nft unavailable)''
      | Check_Exit ok err \<Rightarrow>
          (if \<not> ok \<and> strip err \<noteq> [] then ''nftables validation failed: '' @ strip err
           else ''nftables apply failed''))"

definition write_last_applied_at :: "deploy_env \<Rightarrow> agent_state \<Rightarrow> agent_state" where
  "write_last_applied_at env st = (if en_marker_ok env then st\<lparr>ag_marker := Some (en_now env)\<rparr> else st)"

definition read_last_applied_at :: "agent_state \<Rightarrow> string option" where
  "read_last_applied_at st =
     (case ag_marker st of None \<Rightarrow> None | Some v \<Rightarrow> if strip v = [] then None else Some (strip v))"

text \<open>One queue policy: the error texts it adds and the commands it ran.\<close>

definition policy_name :: "qos_policy \<Rightarrow> string" where
  "policy_name p = (if truthy_str (qp_interface p) then or_empty (qp_interface p) else ''?'')"

definition apply_policy :: "(string list \<Rightarrow> tc_outcome) \<Rightarrow> qos_policy \<Rightarrow> string list \<times> string list list" where
  "apply_policy run p =
     (let name = policy_name p; label = ''qos '' @ name @ '': '' in
      case (qp_download p, qp_upload p) of
        (Some down, Some up) \<Rightarrow>
          (case setup_qos run name down up
                  (if truthy_str (qp_algorithm p) then or_empty (qp_algorithm p) else ''cake'') (qp_classes p) of
             Inl err \<Rightarrow> ([label @ err], [])
           | Inr (cmds, ok) \<Rightarrow> (if ok then [] else [label @ ''setup failed''], cmds))
      | _ \<Rightarrow> ([label @ ''invalid policy''], []))"

fun apply_policies :: "(string list \<Rightarrow> tc_outcome) \<Rightarrow> qos_policy list \<Rightarrow> string list \<times> string list list" where
  "apply_policies run [] = ([], [])"
| "apply_policies run (p # ps) =
     (let (errs, cmds) = apply_policy run p; (errs', cmds') = apply_policies run ps in
      (errs @ errs', cmds @ cmds'))"

definition rendered :: "deploy_env \<Rightarrow> apply_request \<Rightarrow> apply_error + string" where
  "rendered env rq =
     (case convert_rules (rq_rules rq) 0 of
        Inl e \<Rightarrow> Inl e
      | Inr rules \<Rightarrow> (case convert_nats (rq_nat_rules rq) 0 of
          Inl e \<Rightarrow> Inl e
        | Inr nats \<Rightarrow> Inr (generate_ruleset (en_validation env) (en_now env) (rq_interfaces rq) rules nats True True)))"

definition finish_deploy :: "deploy_env \<Rightarrow> apply_request \<Rightarrow> agent_state \<Rightarrow> deploy_result \<times> agent_state" where
  "finish_deploy env rq st =
     (case apply_routing False (en_tables_ok env) (en_ip env) (en_live_rules env) (en_live_routes env)
             (rq_routing_rules rq) (ag_routing st) of
        None \<Rightarrow> (Crashed, st)
      | Some (ok, rt) \<Rightarrow>
          (let (qerrs, cmds) = apply_policies (en_tc env) (rq_qos rq) in
           (Done \<lparr>dr_applied = True, dr_validation_mode = en_validation env,
                  dr_errors = (if ok then [] else errors rt) @ qerrs\<rparr>,
            st\<lparr>ag_routing := rt, ag_tc := ag_tc st @ cmds\<rparr>)))"

definition deploy_firewall_config :: "deploy_env \<Rightarrow> apply_request \<Rightarrow> agent_state \<Rightarrow> deploy_result \<times> agent_state" where
  "deploy_firewall_config env rq st =
     (case snapshot_state (en_capture env) (en_netplan env) (en_rm_ok env) (en_stamp env) (ag_snapshots st) of
        (None, snaps) \<Rightarrow> (Refused Snapshot_Failed, st\<lparr>ag_snapshots := snaps\<rparr>)
      | (Some d, snaps) \<Rightarrow>
          (let st1 = st\<lparr>ag_snapshots := snaps\<rparr> in
           case rendered env rq of
             Inl err \<Rightarrow> (Refused err, st1)
           | Inr ruleset \<Rightarrow>
               (case apply_ruleset (en_nft env) ruleset (ag_nft st1) of
                  (False, h) \<Rightarrow> (Refused (Nft_Error (nft_validation_error (en_recheck env))), st1\<lparr>ag_nft := h\<rparr>)
                | (True, h) \<Rightarrow> finish_deploy env rq (write_last_applied_at env (st1\<lparr>ag_nft := h\<rparr>)))))"

section \<open>Rollback without the host script\<close>

text \<open>
  The tools of the restore: the dry run and the load of one artifact, the delete of the table, the
  reload of the last-good file. A tool that cannot be started raises an \<open>OSError\<close>, which is not a
  \<open>FirewallApplyError\<close>: it leaves the restore without the reload of the last-good file.
\<close>

record restore_env =
  rs_test :: "string \<Rightarrow> string \<Rightarrow> bool outcome"
  rs_load :: "string \<Rightarrow> string \<Rightarrow> bool outcome"
  rs_delete :: "bool outcome"
  rs_reload :: "string \<Rightarrow> bool outcome"

datatype restore_error = Artifact_Missing string | Test_Failed string | Load_Failed string | Tool_Error

definition restore_artifacts :: "(string \<times> string) list" where
  "restore_artifacts = [(''rules.v4'', ''iptables-restore''), (''rules.v6'', ''ip6tables-restore'')]"

fun validate_artifacts :: "restore_env \<Rightarrow> (string \<times> string) list \<Rightarrow> (string \<times> string) list \<Rightarrow> restore_error option" where
  "validate_artifacts env files [] = None"
| "validate_artifacts env files ((name, binary) # rest) =
     (case map_of files name of
        None \<Rightarrow> Some (Artifact_Missing name)
      | Some content \<Rightarrow>
          (case rs_test env binary content of
             OS_Error \<Rightarrow> Some Tool_Error
           | Ran ok \<Rightarrow> (if ok then validate_artifacts env files rest else Some (Test_Failed binary))))"

definition load_artifact :: "string \<Rightarrow> string \<Rightarrow> agent_state \<Rightarrow> agent_state" where
  "load_artifact binary content st =
     (if binary = ''iptables-restore'' then st\<lparr>ag_v4 := Some content\<rparr> else st\<lparr>ag_v6 := Some content\<rparr>)"

fun load_artifacts :: "restore_env \<Rightarrow> (string \<times> string) list \<Rightarrow> (string \<times> string) list \<Rightarrow> string list \<Rightarrow>
    agent_state \<Rightarrow> (restore_error + string list) \<times> agent_state" where
  "load_artifacts env files [] restored st = (Inr restored, st)"
| "load_artifacts env files ((name, binary) # rest) restored st =
     (case map_of files name of
        None \<Rightarrow> (Inl Tool_Error, st)
      | Some content \<Rightarrow>
          (case rs_load env binary content of
             OS_Error \<Rightarrow> (Inl Tool_Error, st)
           | Ran ok \<Rightarrow>
               (if ok then load_artifacts env files rest (restored @ [name]) (load_artifact binary content st)
                else (Inl (Load_Failed binary), st))))"

definition reapply_last_good :: "restore_env \<Rightarrow> agent_state \<Rightarrow> agent_state" where
  "reapply_last_good env st =
     (case last_good (ag_nft st) of
        None \<Rightarrow> st
      | Some good \<Rightarrow>
          (case rs_reload env good of
             Ran True \<Rightarrow> st\<lparr>ag_nft := (ag_nft st)\<lparr>live := live (ag_nft st) @ [good]\<rparr>\<rparr>
           | _ \<Rightarrow> st))"

definition rollback_direct :: "restore_env \<Rightarrow> (string \<times> string) list \<Rightarrow> agent_state \<Rightarrow>
    (restore_error + string list) \<times> agent_state" where
  "rollback_direct env files st =
     (case validate_artifacts env files restore_artifacts of
        Some err \<Rightarrow> (Inl err, st)
      | None \<Rightarrow>
          (case rs_delete env of
             OS_Error \<Rightarrow> (Inl Tool_Error, st)
           | Ran deleted \<Rightarrow>
               (let st1 = (if deleted then st\<lparr>ag_nft := (ag_nft st)\<lparr>live := []\<rparr>\<rparr> else st) in
                case load_artifacts env files restore_artifacts [] st1 of
                  (Inl err, st2) \<Rightarrow> (Inl err, if err = Tool_Error then st2 else reapply_last_good env st2)
                | (Inr names, st2) \<Rightarrow> (Inr names, st2))))"

text \<open>
  The rollback endpoint: the host's restore script when it is on the path (its effect on the state
  is a parameter, \<open>None\<close> when it fails), the direct restore of the newest snapshot otherwise. The
  answer is the status code.
\<close>

definition api_firewall_rollback :: "(string \<Rightarrow> agent_state \<Rightarrow> agent_state option) option \<Rightarrow> restore_env \<Rightarrow>
    agent_state \<Rightarrow> nat \<times> agent_state" where
  "api_firewall_rollback script env st =
     (case newest_snapshot (ag_snapshots st) of
        None \<Rightarrow> (500, st)
      | Some d \<Rightarrow>
          (case script of
             Some restore \<Rightarrow> (case restore d st of None \<Rightarrow> (500, st) | Some st' \<Rightarrow> (200, st'))
           | None \<Rightarrow>
               (case rollback_direct env (case map_of (ag_snapshots st) d of None \<Rightarrow> [] | Some files \<Rightarrow> files) st of
                  (Inl err, st') \<Rightarrow> (500, st')
                | (Inr names, st') \<Rightarrow> (200, st'))))"

text \<open>The apply endpoint: a refusal and an exception that leaves the pipeline are both answered 500.\<close>

definition api_firewall_apply :: "deploy_env \<Rightarrow> apply_request \<Rightarrow> agent_state \<Rightarrow> nat \<times> agent_state" where
  "api_firewall_apply env rq st =
     (case deploy_firewall_config env rq st of
        (Done rep, st') \<Rightarrow> (200, st')
      | (_, st') \<Rightarrow> (500, st'))"

section \<open>HTTP layer\<close>

datatype http_result = Passed | Status nat

text \<open>The middleware: the first header of that name counts, an absent one is the empty text.\<close>

definition provided_key :: "(string \<times> string) list \<Rightarrow> string" where
  "provided_key headers = or_empty (map_of headers ''x-instance-key'')"

definition authorize :: "string option \<Rightarrow> string \<Rightarrow> string \<Rightarrow> (string \<times> string) list \<Rightarrow> http_result" where
  "authorize key scope_type path headers =
     (if scope_type \<noteq> ''http'' \<or> path = ''/health'' then Passed
      else (case key of
          None \<Rightarrow> Status 401
        | Some k \<Rightarrow> if provided_key headers = k then Passed else Status 401))"

text \<open>The block endpoint: body validation (422), then the blacklist; a \<open>null\<close> timeout passes the
  validator and raises a \<open>TypeError\<close> in the blacklist's own check (an unhandled 500).\<close>

definition api_block_ip :: "(string list \<Rightarrow> bool outcome) \<Rightarrow> string \<Rightarrow> string option \<Rightarrow> string list list \<times> nat" where
  "api_block_ip run ip timeout =
     (if \<not> valid_block_ip ip then ([], 422)
      else (case timeout of
          None \<Rightarrow> ([], 500)
        | Some t \<Rightarrow>
            (if \<not> valid_block_timeout t then ([], 422)
             else (let (cmds, ok) = add_to_blacklist run ip t in (cmds, if ok then 200 else 500)))))"

definition api_unblock_ip :: "(string list \<Rightarrow> bool outcome) \<Rightarrow> string \<Rightarrow> string list list \<times> nat" where
  "api_unblock_ip run ip =
     (if \<not> valid_block_ip ip then ([], 422)
      else (let (cmds, ok) = remove_from_blacklist run ip in (cmds, if ok then 200 else 500)))"

section \<open>Properties\<close>

lemma finish_deploy_frame:
  "ag_nft (snd (finish_deploy env rq st)) = ag_nft st" "ag_snapshots (snd (finish_deploy env rq st)) = ag_snapshots st"
  "ag_marker (snd (finish_deploy env rq st)) = ag_marker st"
  "fst (finish_deploy env rq st) \<noteq> Refused e"
  by (auto simp: finish_deploy_def Let_def split: option.splits prod.splits)

text \<open>C20: The pipeline is ordered and fails early: when it refuses, neither routing nor queues nor the
  marker were touched; when it refuses before the nftables step (snapshot or payload), the firewall
  is untouched as well; when the check does not accept the ruleset generated for the request, the live table is unchanged.\<close>

theorem deploy_refusal_is_early:
  "deploy_firewall_config env rq st = (Refused err, st') \<Longrightarrow>
     ag_routing st' = ag_routing st \<and> ag_tc st' = ag_tc st \<and> ag_marker st' = ag_marker st
     \<and> (\<not> (\<exists>t. err = Nft_Error t) \<longrightarrow> ag_nft st' = ag_nft st)
     \<and> (\<forall>ruleset. rendered env rq = Inr ruleset \<longrightarrow> check_run (en_nft env) ruleset \<noteq> Ran True \<longrightarrow> live (ag_nft st') = live (ag_nft st))"
proof -
  assume d: "deploy_firewall_config env rq st = (Refused err, st')"
  obtain r snaps where s: "snapshot_state (en_capture env) (en_netplan env) (en_rm_ok env) (en_stamp env) (ag_snapshots st) = (r, snaps)"
    by fastforce
  show ?thesis
  proof (cases "r = None")
    case True
    with d s show ?thesis by (auto simp: deploy_firewall_config_def)
  next
    case False
    show ?thesis
    proof (cases "rendered env rq")
      case (Inl e)
      with d s False show ?thesis by (auto simp: deploy_firewall_config_def)
    next
      case (Inr ruleset)
      obtain ok h where a: "apply_ruleset (en_nft env) ruleset (ag_nft st) = (ok, h)" by fastforce
      have "\<not> ok"
        using d s False Inr a finish_deploy_frame(4)
        by (cases ok) (auto simp: deploy_firewall_config_def, metis fst_conv)
      with d s False Inr a have st': "st' = st\<lparr>ag_snapshots := snaps, ag_nft := h\<rparr>" "\<exists>t. err = Nft_Error t"
        by (auto simp: deploy_firewall_config_def)
      have "live h = live (ag_nft st)" if "check_run (en_nft env) ruleset \<noteq> Ran True"
        using a that by (auto simp: apply_ruleset_def swap_ruleset_def Let_def
            split: option.splits outcome.splits bool.splits if_splits)
      with st' Inr show ?thesis by auto
    qed
  qed
qed

definition calm_env :: deploy_env where
  "calm_env = \<lparr>en_capture = (\<lambda>argv. Captured ''''), en_netplan = Inr [], en_rm_ok = (\<lambda>d. True), en_stamp = ''20250101'',
     en_validation = False, en_now = ''2025-01-01'', en_nft = healthy_env, en_recheck = Check_Exit True [], en_marker_ok = True,
     en_tables_ok = True, en_ip = (\<lambda>a. True), en_live_rules = Inr [], en_live_routes = Inr [], en_tc = (\<lambda>c. Tc_Exit True)\<rparr>"

definition calm_state :: agent_state where
  "calm_state = \<lparr>ag_nft = running_host, ag_snapshots = [], ag_marker = None, ag_routing = idle_state, ag_tc = [],
     ag_v4 = None, ag_v6 = None\<rparr>"

definition empty_request :: apply_request where
  "empty_request = \<lparr>rq_interfaces = [], rq_rules = [], rq_nat_rules = [], rq_routing_rules = [], rq_qos = []\<rparr>"

lemma calm_snapshot:
  "snapshot_state (\<lambda>argv. Captured '''') (Inr []) (\<lambda>d. True) ''20250101'' []
      = (Some ''20250101'', [(''20250101'', snapshot_files (\<lambda>argv. Captured '''') (Inr []))])"
  by (simp add: snapshot_state_def prune_old_snapshots_def stale_snapshots_def but_last_n_def keep_snapshots_def)

text \<open>A tool that refuses one ruleset, the one of the request, and accepts any other.\<close>

definition strict_env :: deploy_env where
  "strict_env = calm_env\<lparr>en_validation := True, en_recheck := Check_Exit False ''line 7'',
     en_nft := healthy_env\<lparr>check_run := \<lambda>f. Ran (f \<noteq> generate_ruleset True ''2025-01-01'' [] [] [] True True)\<rparr>\<rparr>"

theorem deploy_refusal_is_early_witness:
  "fst (deploy_firewall_config strict_env empty_request calm_state) = Refused (Nft_Error ''nftables validation failed: line 7'')
   \<and> live (ag_nft (snd (deploy_firewall_config strict_env empty_request calm_state))) = live running_host"
proof -
  let ?d = "deploy_firewall_config strict_env empty_request calm_state"
  have r: "rendered strict_env empty_request = Inr (generate_ruleset True ''2025-01-01'' [] [] [] True True)"
    by (simp add: rendered_def empty_request_def strict_env_def calm_env_def)
  have c: "check_run (en_nft strict_env) (generate_ruleset True ''2025-01-01'' [] [] [] True True) \<noteq> Ran True"
    by (simp add: strict_env_def)
  have m: "nft_validation_error (Check_Exit False ''line 7'') = ''nftables validation failed: line 7''" by code_simp
  have "apply_ruleset (en_nft strict_env) (generate_ruleset True ''2025-01-01'' [] [] [] True True) running_host
      = (False, running_host\<lparr>last_good := Some ''old'', conf := Some (generate_ruleset True ''2025-01-01'' [] [] [] True True)\<rparr>)"
    by (simp add: apply_defs strict_env_def healthy_env_def running_host_def)
  then have f: "fst ?d = Refused (Nft_Error ''nftables validation failed: line 7'')"
    using r calm_snapshot m by (simp add: deploy_firewall_config_def strict_env_def calm_env_def calm_state_def)
  then have "?d = (Refused (Nft_Error ''nftables validation failed: line 7''), snd ?d)" by (metis prod.collapse)
  from deploy_refusal_is_early[OF this] r c f show ?thesis by (simp add: calm_state_def)
qed

lemma deploy_effect:
  assumes d: "deploy_firewall_config env rq st = (Done rep, st')" and dist: "distinct (map fst (ag_snapshots st))"
    and clock: "\<forall>e\<in>set (ag_snapshots st). fst e < en_stamp env"
  shows "\<exists>ruleset. rendered env rq = Inr ruleset \<and> conf (ag_nft st') = Some ruleset
       \<and> live (ag_nft st') = (if delete_run (en_nft env) = Ran True then [] else live (ag_nft st)) @ [ruleset]
       \<and> last_good (ag_nft st') = (if conf (ag_nft st) = None then last_good (ag_nft st) else conf (ag_nft st))
       \<and> newest_snapshot (ag_snapshots st') = Some (en_stamp env)
       \<and> map_of (ag_snapshots st') (en_stamp env) = Some (snapshot_files (en_capture env) (en_netplan env))
       \<and> dr_applied rep \<and> ag_marker st' = (if en_marker_ok env then Some (en_now env) else ag_marker st)"
proof -
  obtain dd snaps where s: "snapshot_state (en_capture env) (en_netplan env) (en_rm_ok env) (en_stamp env) (ag_snapshots st) = (Some dd, snaps)"
    using d by (auto simp: deploy_firewall_config_def split: prod.splits option.splits)
  obtain ruleset where r: "rendered env rq = Inr ruleset"
    using d s by (cases "rendered env rq") (auto simp: deploy_firewall_config_def Let_def)
  obtain h where a: "apply_ruleset (en_nft env) ruleset (ag_nft st) = (True, h)"
    using d s r by (cases "apply_ruleset (en_nft env) ruleset (ag_nft st)") (auto simp: deploy_firewall_config_def Let_def split: bool.splits)
  define st1 where "st1 = write_last_applied_at env (st\<lparr>ag_snapshots := snaps, ag_nft := h\<rparr>)"
  have f: "finish_deploy env rq st1 = (Done rep, st')"
    using d s r a by (simp add: deploy_firewall_config_def Let_def st1_def)
  have st1: "ag_nft st1 = h" "ag_snapshots st1 = snaps" "ag_marker st1 = (if en_marker_ok env then Some (en_now env) else ag_marker st)"
    by (simp_all add: st1_def write_last_applied_at_def)
  have "ag_nft st' = h" "ag_snapshots st' = snaps" "ag_marker st' = (if en_marker_ok env then Some (en_now env) else ag_marker st)"
    using finish_deploy_frame(1-3)[of env rq st1] st1 unfolding f by simp_all
  moreover have "live h = (if delete_run (en_nft env) = Ran True then [] else live (ag_nft st)) @ [ruleset]" "conf h = Some ruleset"
      "last_good h = (if conf (ag_nft st) = None then last_good (ag_nft st) else conf (ag_nft st))"
    using a by (auto simp: apply_defs Let_def split: option.splits outcome.splits bool.splits if_splits)
  moreover have "dr_applied rep"
    using f by (auto simp: finish_deploy_def Let_def split: option.splits prod.splits)
  ultimately show ?thesis using r snapshot_newest[OF dist clock s] snapshot_content[OF dist clock s] by simp
qed

lemma deploy_installs:
  "deploy_firewall_config env rq st = (Done rep, st') \<Longrightarrow> distinct (map fst (ag_snapshots st)) \<Longrightarrow>
   (\<forall>e\<in>set (ag_snapshots st). fst e < en_stamp env) \<Longrightarrow> delete_run (en_nft env) = Ran True \<or> live (ag_nft st) = [] \<Longrightarrow>
     \<exists>ruleset. rendered env rq = Inr ruleset \<and> live (ag_nft st') = [ruleset] \<and> conf (ag_nft st') = Some ruleset"
  by (frule (2) deploy_effect) (auto split: if_splits)

text \<open>C4: A deployment that reports success, on a clock that is past every stored snapshot: the configuration file is the
  ruleset generated for the request, and the file from before is the last-good one; the live table is that ruleset alone when
  the old table was deleted or there was none, and follows what the tool refused to delete otherwise; the newest snapshot is the
  one of this deployment and holds what the capture tools printed before anything was changed; and the marker is the time of the
  deployment, or the old one if it could not be written.\<close>

theorem deploy_success:
  assumes "deploy_firewall_config env rq st = (Done rep, st')" "distinct (map fst (ag_snapshots st))"
    "\<forall>e\<in>set (ag_snapshots st). fst e < en_stamp env"
  shows "\<exists>ruleset. rendered env rq = Inr ruleset \<and> conf (ag_nft st') = Some ruleset
       \<and> live (ag_nft st') = (if delete_run (en_nft env) = Ran True then [] else live (ag_nft st)) @ [ruleset]
       \<and> last_good (ag_nft st') = (if conf (ag_nft st) = None then last_good (ag_nft st) else conf (ag_nft st))
       \<and> newest_snapshot (ag_snapshots st') = Some (en_stamp env)
       \<and> map_of (ag_snapshots st') (en_stamp env) = Some (snapshot_files (en_capture env) (en_netplan env))
       \<and> dr_applied rep \<and> ag_marker st' = (if en_marker_ok env then Some (en_now env) else ag_marker st)"
  using assms by (rule deploy_effect)

theorem deploy_success_witness:
  "live (ag_nft (snd (deploy_firewall_config (calm_env\<lparr>en_validation := True\<rparr>) empty_request calm_state)))
     = [generate_ruleset True ''2025-01-01'' [] [] [] True True]"
proof -
  let ?e = "calm_env\<lparr>en_validation := True\<rparr>"
  let ?d = "deploy_firewall_config ?e empty_request calm_state"
  have r: "rendered ?e empty_request = Inr (generate_ruleset True ''2025-01-01'' [] [] [] True True)"
    by (simp add: rendered_def empty_request_def calm_env_def)
  note calm_snapshot
  moreover have "apply_ruleset healthy_env f running_host = (True, \<lparr>conf = Some f, last_good = Some ''old'', live = [f]\<rparr>)" for f
    by (simp add: apply_defs healthy_env_def running_host_def)
  moreover have "apply_routing False True (\<lambda>a. True) (Inr []) (Inr []) [] idle_state \<noteq> None" by code_simp
  ultimately obtain rep where "fst ?d = Done rep"
    using r by (auto simp: deploy_firewall_config_def calm_env_def calm_state_def empty_request_def finish_deploy_def
        write_last_applied_at_def Let_def)
  then have d: "?d = (Done rep, snd ?d)" by (metis prod.collapse)
  have "distinct (map fst (ag_snapshots calm_state))" "\<forall>e\<in>set (ag_snapshots calm_state). fst e < en_stamp ?e"
    by (simp_all add: calm_state_def)
  moreover have "delete_run (en_nft ?e) = Ran True" by (simp add: calm_env_def healthy_env_def)
  ultimately show ?thesis using deploy_success[OF d] r by auto
qed

text \<open>C32: A direct rollback first makes sure that both captured rule files are present and pass their dry run and that the tool
  to delete the table can be started; if not, it fails and nothing has changed. After that it succeeds exactly when both files load, and then they are in force and
  the table is gone, unless the tool refused to delete it; a load that exits with an error adds the last-good configuration,
  if there is one and it loads; and a load that cannot be started adds nothing to what the delete left.\<close>

theorem rollback_direct_safe:
  assumes "rollback_direct env files st = (r, st')"
  shows "let ready = (\<forall>(name, binary)\<in>set restore_artifacts. \<exists>c. map_of files name = Some c \<and> rs_test env binary c = Ran True) \<and> rs_delete env \<noteq> OS_Error;
           cleared = (if rs_delete env = Ran True then [] else live (ag_nft st)) in
     (\<not> ready \<longrightarrow> st' = st \<and> (\<exists>e. r = Inl e))
     \<and> (ready \<longrightarrow>
          ((\<exists>names. r = Inr names) \<longleftrightarrow> (\<forall>(name, binary)\<in>set restore_artifacts. rs_load env binary (the (map_of files name)) = Ran True))
          \<and> (case r of
          Inr names \<Rightarrow> names = [''rules.v4'', ''rules.v6''] \<and> live (ag_nft st') = cleared
            \<and> ag_v4 st' = map_of files ''rules.v4'' \<and> ag_v6 st' = map_of files ''rules.v6''
        | Inl (Load_Failed b) \<Rightarrow>
            live (ag_nft st') = cleared @ (case last_good (ag_nft st) of None \<Rightarrow> [] | Some good \<Rightarrow> if rs_reload env good = Ran True then [good] else [])
        | Inl e \<Rightarrow> e = Tool_Error \<and> live (ag_nft st') = cleared))"
  using assms
  by (auto simp: rollback_direct_def restore_artifacts_def load_artifact_def reapply_last_good_def Let_def
      split: option.splits outcome.splits bool.splits if_splits restore_error.splits)

definition half_restore :: restore_env where
  "half_restore = \<lparr>rs_test = \<lambda>b c. Ran True, rs_load = \<lambda>b c. Ran (b = ''iptables-restore''),
     rs_delete = Ran True, rs_reload = \<lambda>g. Ran True\<rparr>"

definition guarded_state :: agent_state where
  "guarded_state = calm_state\<lparr>ag_nft := \<lparr>conf = None, last_good = Some ''good'', live = [''table'']\<rparr>\<rparr>"

theorem rollback_direct_safe_witness:
  "live (ag_nft (snd (rollback_direct half_restore [(''rules.v4'', ''a''), (''rules.v6'', ''b'')] guarded_state))) = [''good'']"
proof -
  let ?r = "rollback_direct half_restore [(''rules.v4'', ''a''), (''rules.v6'', ''b'')] guarded_state"
  have f: "fst ?r = Inl (Load_Failed ''ip6tables-restore'')"
    by (simp add: rollback_direct_def restore_artifacts_def half_restore_def)
  then obtain st' where r: "?r = (Inl (Load_Failed ''ip6tables-restore''), st')" by (metis prod.collapse)
  from rollback_direct_safe[OF r] show ?thesis unfolding r
    by (simp add: Let_def restore_artifacts_def guarded_state_def half_restore_def)
qed

text \<open>A tool that disappears between the dry run and the load leaves the host without any Viswall
  table although a last-good configuration exists, because only a non-zero exit is handled.\<close>

theorem rollback_tool_error_leaves_no_table:
  "\<exists>env st. last_good (ag_nft st) = Some ''good'' \<and> rs_reload env ''good'' = Ran True
     \<and> live (ag_nft st) = [''table'']
     \<and> fst (rollback_direct env [(''rules.v4'', ''a''), (''rules.v6'', ''b'')] st) = Inl Tool_Error
     \<and> live (ag_nft (snd (rollback_direct env [(''rules.v4'', ''a''), (''rules.v6'', ''b'')] st))) = []"
proof -
  let ?e = "\<lparr>rs_test = \<lambda>b c. Ran True, rs_load = \<lambda>b c. OS_Error, rs_delete = Ran True, rs_reload = \<lambda>g. Ran True\<rparr>"
  let ?st = "calm_state\<lparr>ag_nft := \<lparr>conf = None, last_good = Some ''good'', live = [''table'']\<rparr>\<rparr>"
  show ?thesis
    by (rule exI[of _ ?e], rule exI[of _ ?st]) (simp add: rollback_direct_def restore_artifacts_def)
qed

text \<open>The key check is closed by default: without a configured key no HTTP request passes except the
  liveness probe, and with a key a request passes only with exactly that key in the first header of
  that name.\<close>

theorem authorize_closed:
  "authorize key scope_type path headers = Status 401 \<longleftrightarrow>
     scope_type = ''http'' \<and> path \<noteq> ''/health''
     \<and> \<not> (\<exists>k. key = Some k \<and> (map_of headers ''x-instance-key'' = Some k
            \<or> k = '''' \<and> map_of headers ''x-instance-key'' = None))"
  by (cases "map_of headers ''x-instance-key''") (auto simp: authorize_def provided_key_def split: option.splits)

text \<open>The block endpoint runs at most one \<open>nft\<close> command and only for an address and a timeout both
  validators accept; a body whose timeout is \<open>null\<close> passes the body validation and is answered by an
  internal error.\<close>

theorem api_block_ip_validated:
  "(fst (api_block_ip run ip timeout) \<noteq> [] \<longleftrightarrow>
      valid_block_ip ip \<and> (\<exists>t. timeout = Some t \<and> valid_block_timeout t))
   \<and> length (fst (api_block_ip run ip timeout)) \<le> 1
   \<and> (snd (api_block_ip run ip None) = (if valid_block_ip ip then 500 else 422))"
  by (auto simp: api_block_ip_def add_to_blacklist_def split: option.splits)

end
