(* ===== verification/Node_Plan.thy ===== *)
theory Node_Plan
  imports Py_Ipaddress "HOL-Library.Product_Lexorder"
begin

text \<open>
  The node agent, first part: the validated request (\<open>payloads.py\<close>), the parsing of what \<open>ip -j\<close>
  prints, the plan that brings the live interfaces to the requested state, and the soft guard
  (\<open>netcfg.py\<close>).

  A row of \<open>ip -j\<close> output is a record of optional fields (\<open>None\<close>: the key is absent or null).
\<close>

section \<open>Request models\<close>

record route_config =
  ro_to :: string
  ro_via :: "string option"
  ro_on_link :: bool

record iface_config =
  ic_name :: string
  ic_type :: string
  ic_ip :: "string option"
  ic_netmask :: "string option"
  ic_gateway :: "string option"
  ic_ip6 :: "string option"
  ic_gateway6 :: "string option"
  ic_dns :: "string list"
  ic_routes :: "route_config list"
  ic_mtu :: "int option"
  ic_enabled :: bool

text \<open>
  \<open>IFACE_NAME_PATTERN.match\<close>: one to fifteen of the allowed characters, then \<open>$\<close>, which also
  matches before a line feed at the very end.
\<close>

definition iface_char :: "char \<Rightarrow> bool" where
  "iface_char c \<longleftrightarrow> is_alnum c \<or> c = CHR ''.'' \<or> c = CHR ''_'' \<or> c = CHR ''-''"

definition plain_name :: "string \<Rightarrow> bool" where
  "plain_name s \<longleftrightarrow> 1 \<le> length s \<and> length s \<le> 15 \<and> list_all iface_char s"

definition iface_name_match :: "string \<Rightarrow> bool" where
  "iface_name_match s \<longleftrightarrow> plain_name s \<or> (s \<noteq> [] \<and> last s = newline \<and> plain_name (butlast s))"

definition valid_iface_name :: "string \<Rightarrow> bool" where
  "valid_iface_name s \<longleftrightarrow> s \<noteq> ''lo'' \<and> iface_name_match s"

definition valid_config_type :: "string \<Rightarrow> bool" where
  "valid_config_type s \<longleftrightarrow> s = ''static'' \<or> s = ''dhcp''"

definition valid_opt_ip :: "string option \<Rightarrow> bool" where
  "valid_opt_ip s \<longleftrightarrow> (case s of None \<Rightarrow> True | Some t \<Rightarrow> ip_address t \<noteq> None)"

definition netmask_prefix :: "string \<Rightarrow> nat option" where
  "netmask_prefix m = map_option snd (addr_prefix4 (''0.0.0.0/'' @ m))"

definition valid_netmask :: "string option \<Rightarrow> bool" where
  "valid_netmask s \<longleftrightarrow> (case s of None \<Rightarrow> True | Some m \<Rightarrow> netmask_prefix m \<noteq> None)"

definition valid_ipv6_address :: "string option \<Rightarrow> bool" where
  "valid_ipv6_address s \<longleftrightarrow>
     (case s of None \<Rightarrow> True | Some t \<Rightarrow> CHR ''/'' \<in> set t \<and> addr_prefix6 t \<noteq> None)"

definition valid_ipv6_gateway :: "string option \<Rightarrow> bool" where
  "valid_ipv6_gateway s \<longleftrightarrow> (case s of None \<Rightarrow> True | Some t \<Rightarrow> ip6_of_string t \<noteq> None)"

definition valid_dns_servers :: "string list \<Rightarrow> bool" where
  "valid_dns_servers ds \<longleftrightarrow> list_all (\<lambda>d. ip_address d \<noteq> None) ds"

definition valid_mtu :: "int option \<Rightarrow> bool" where
  "valid_mtu m \<longleftrightarrow> (case m of None \<Rightarrow> True | Some n \<Rightarrow> 68 \<le> n \<and> n \<le> 65535)"

definition valid_route_to :: "string \<Rightarrow> bool" where
  "valid_route_to t \<longleftrightarrow> t = ''default'' \<or> ip_network False t \<noteq> None"

definition valid_route :: "route_config \<Rightarrow> bool" where
  "valid_route r \<longleftrightarrow> valid_route_to (ro_to r) \<and> valid_opt_ip (ro_via r)"

definition valid_iface_config :: "iface_config \<Rightarrow> bool" where
  "valid_iface_config c \<longleftrightarrow>
     valid_iface_name (ic_name c) \<and> valid_config_type (ic_type c) \<and> valid_opt_ip (ic_ip c)
     \<and> valid_netmask (ic_netmask c) \<and> valid_opt_ip (ic_gateway c) \<and> valid_ipv6_address (ic_ip6 c)
     \<and> valid_ipv6_gateway (ic_gateway6 c) \<and> valid_dns_servers (ic_dns c)
     \<and> list_all valid_route (ic_routes c) \<and> valid_mtu (ic_mtu c)"

text \<open>The property \<open>prefixlen\<close>.\<close>

definition prefixlen :: "iface_config \<Rightarrow> nat option" where
  "prefixlen c = (case ic_netmask c of
       None \<Rightarrow> None
     | Some m \<Rightarrow> if m = [] then None else netmask_prefix m)"

definition valid_apply_request :: "iface_config list \<Rightarrow> bool" where
  "valid_apply_request cs \<longleftrightarrow> list_all valid_iface_config cs \<and> distinct (map ic_name cs)"

section \<open>Live state\<close>

record live_addr =
  la_address :: string
  la_prefix :: int
  la_family :: string

record live_iface =
  li_name :: string
  li_operstate :: string
  li_up :: bool
  li_mtu :: "int option"
  li_mac :: "string option"
  li_addresses :: "live_addr list"
  li_default :: bool

record addr_info =
  ai_local :: "string option"
  ai_prefixlen :: "int option"
  ai_family :: "string option"

record addr_row =
  ar_ifname :: "string option"
  ar_operstate :: "string option"
  ar_flags :: "string list"
  ar_mtu :: "int option"
  ar_mac :: "string option"
  ar_info :: "addr_info list"

record route_row =
  rr_dst :: "string option"
  rr_dev :: "string option"
  rr_gateway :: "string option"

record link_row =
  lr_ifname :: "string option"
  lr_master :: "string option"

text \<open>The addresses of a row; an address without a prefix length is a \<open>KeyError\<close> (\<open>None\<close>).\<close>

fun parse_addr_infos :: "addr_info list \<Rightarrow> live_addr list option" where
  "parse_addr_infos [] = Some []"
| "parse_addr_infos (i # is) =
     (if (ai_family i = Some ''inet'' \<or> ai_family i = Some ''inet6'') \<and> truthy_str (ai_local i)
      then (case ai_prefixlen i of
          None \<Rightarrow> None
        | Some p \<Rightarrow> map_option ((#) \<lparr>la_address = or_empty (ai_local i), la_prefix = p,
                                     la_family = or_empty (ai_family i)\<rparr>) (parse_addr_infos is))
      else parse_addr_infos is)"

fun parse_addr_json :: "addr_row list \<Rightarrow> live_iface list option" where
  "parse_addr_json [] = Some []"
| "parse_addr_json (row # rows) =
     (if \<not> truthy_str (ar_ifname row) then parse_addr_json rows
      else (case parse_addr_infos (ar_info row) of
          None \<Rightarrow> None
        | Some addrs \<Rightarrow>
            map_option ((#) \<lparr>li_name = or_empty (ar_ifname row),
              li_operstate = (case ar_operstate row of None \<Rightarrow> ''unknown'' | Some s \<Rightarrow> s),
              li_up = (''UP'' \<in> set (ar_flags row)), li_mtu = ar_mtu row, li_mac = ar_mac row,
              li_addresses = addrs, li_default = False\<rparr>) (parse_addr_json rows)))"

fun parse_default_route :: "route_row list \<Rightarrow> string option \<times> string option" where
  "parse_default_route [] = (None, None)"
| "parse_default_route (row # rows) =
     (if rr_dst row = Some ''default'' then (rr_dev row, rr_gateway row) else parse_default_route rows)"

fun link_master :: "link_row list \<Rightarrow> string \<Rightarrow> string option" where
  "link_master [] ifname = None"
| "link_master (row # rows) ifname =
     (if lr_ifname row = Some ifname then lr_master row else link_master rows ifname)"

text \<open>
  \<open>discover\<close>: the rows of both commands, or \<open>None\<close> when one of them failed; the result is \<open>None\<close>
  for a \<open>RuntimeError\<close> or \<open>KeyError\<close>.
\<close>

type_synonym discovery = "live_iface list \<times> string option \<times> string option"

definition discover :: "addr_row list option \<Rightarrow> route_row list option \<Rightarrow> discovery option" where
  "discover addrs routes =
     (case (addrs, routes) of
        (Some ar, Some rr) \<Rightarrow>
          (case parse_addr_json ar of
             None \<Rightarrow> None
           | Some ifs \<Rightarrow>
               (let (dev, gw) = parse_default_route rr in
                Some (map (\<lambda>i. i\<lparr>li_default := (Some (li_name i) = dev)\<rparr>) ifs, dev, gw)))
      | _ \<Rightarrow> None)"

section \<open>Planning\<close>

record planned_step =
  st_iface :: string
  st_action :: string
  st_detail :: string
  st_argv :: "string list"

datatype plan_error =
    Duplicate_Names
  | Unknown_Interface string
  | Netmask_Required string
  | Gateway_Without_Address string

definition addr_text :: "string \<times> int \<Rightarrow> string" where
  "addr_text a = fst a @ ''/'' @ string_of_int (snd a)"

definition manage_address :: "iface_config \<Rightarrow> bool" where
  "manage_address c \<longleftrightarrow> ic_enabled c \<and> ic_type c = ''static''"

definition desired_addr :: "iface_config \<Rightarrow> plan_error + (string \<times> int) option" where
  "desired_addr c =
     (if manage_address c then
        (if truthy_str (ic_ip c) \<and> (prefixlen c = None \<or> prefixlen c = Some 0)
         then Inl (Netmask_Required (ic_name c))
         else if truthy_str (ic_ip c)
         then Inr (Some (or_empty (ic_ip c), case prefixlen c of None \<Rightarrow> 0 | Some p \<Rightarrow> int p))
         else if truthy_str (ic_gateway c) then Inl (Gateway_Without_Address (ic_name c))
         else Inr None)
      else Inr None)"

definition current_addrs :: "live_iface \<Rightarrow> (string \<times> int) list" where
  "current_addrs i = map (\<lambda>a. (la_address a, la_prefix a)) (filter (\<lambda>a. la_family a = ''inet'') (li_addresses i))"

definition sorted_set :: "(string \<times> int) list \<Rightarrow> (string \<times> int) list" where
  "sorted_set xs = sort (remdups xs)"

definition remove_step :: "string \<Rightarrow> string \<Rightarrow> string \<times> int \<Rightarrow> planned_step" where
  "remove_step name note a =
     \<lparr>st_iface = name, st_action = ''stale-address'', st_detail = ''remove address '' @ addr_text a @ note,
      st_argv = [''addr'', ''del'', addr_text a, ''dev'', name]\<rparr>"

definition address_steps :: "iface_config \<Rightarrow> (string \<times> int) option \<Rightarrow> live_iface \<Rightarrow> planned_step list" where
  "address_steps c want cur =
     (case want of
        Some a \<Rightarrow>
          (if a \<in> set (current_addrs cur) then [] else
             [\<lparr>st_iface = ic_name c, st_action = ''address'', st_detail = ''set address '' @ addr_text a,
               st_argv = [''addr'', ''replace'', addr_text a, ''dev'', ic_name c]\<rparr>])
          @ map (remove_step (ic_name c) '''') (sorted_set (filter (\<lambda>b. b \<noteq> a) (current_addrs cur)))
      | None \<Rightarrow>
          (if ic_type c = ''static'' \<and> \<not> ic_enabled c
           then map (remove_step (ic_name c) '' (interface disabled)'') (sorted_set (current_addrs cur))
           else []))"

definition opt_int_text :: "int option \<Rightarrow> string" where
  "opt_int_text i = (case i of None \<Rightarrow> ''None'' | Some n \<Rightarrow> string_of_int n)"

definition mtu_steps :: "iface_config \<Rightarrow> live_iface \<Rightarrow> planned_step list" where
  "mtu_steps c cur =
     (if ic_mtu c \<noteq> None \<and> li_mtu cur \<noteq> ic_mtu c then
        [\<lparr>st_iface = ic_name c, st_action = ''mtu'',
          st_detail = ''set mtu '' @ opt_int_text (ic_mtu c) @ '' (current '' @ opt_int_text (li_mtu cur) @ '')'',
          st_argv = [''link'', ''set'', ''dev'', ic_name c, ''mtu'', opt_int_text (ic_mtu c)]\<rparr>]
      else [])"

definition link_steps :: "iface_config \<Rightarrow> live_iface \<Rightarrow> planned_step list" where
  "link_steps c cur =
     (if ic_enabled c \<and> \<not> li_up cur then
        [\<lparr>st_iface = ic_name c, st_action = ''link'', st_detail = ''bring interface up'',
          st_argv = [''link'', ''set'', ''dev'', ic_name c, ''up'']\<rparr>]
      else if \<not> ic_enabled c \<and> li_up cur then
        [\<lparr>st_iface = ic_name c, st_action = ''link'', st_detail = ''bring interface down'',
          st_argv = [''link'', ''set'', ''dev'', ic_name c, ''down'']\<rparr>]
      else [])"

definition gateway_steps :: "iface_config \<Rightarrow> string option \<Rightarrow> string option \<Rightarrow> planned_step list" where
  "gateway_steps c default_iface default_gw =
     (if manage_address c then
        (let here = (default_iface = Some (ic_name c)) in
         if truthy_str (ic_gateway c) \<and> (\<not> here \<or> default_gw \<noteq> ic_gateway c) then
           [\<lparr>st_iface = ic_name c, st_action = ''gateway'', st_detail = ''set default route via '' @ or_empty (ic_gateway c),
             st_argv = [''route'', ''replace'', ''default'', ''via'', or_empty (ic_gateway c), ''dev'', ic_name c]\<rparr>]
         else if \<not> truthy_str (ic_gateway c) \<and> here then
           [\<lparr>st_iface = ic_name c, st_action = ''gateway'', st_detail = ''remove default route'',
             st_argv = [''route'', ''del'', ''default'']\<rparr>]
         else [])
      else [])"

definition note_steps :: "iface_config \<Rightarrow> planned_step list" where
  "note_steps c =
     (if ic_type c = ''dhcp'' \<and> ic_enabled c then
        [\<lparr>st_iface = ic_name c, st_action = ''note'',
          st_detail = ''dhcp4 enabled in netplan; takes effect at next boot or netplan apply'', st_argv = []\<rparr>]
      else [])"

text \<open>The last live entry of a name wins, as in the dictionary.\<close>

definition live_lookup :: "live_iface list \<Rightarrow> string \<Rightarrow> live_iface option" where
  "live_lookup live name = List.find (\<lambda>i. li_name i = name) (rev live)"

definition plan_iface :: "live_iface list \<Rightarrow> string option \<Rightarrow> string option \<Rightarrow> iface_config \<Rightarrow>
    plan_error + planned_step list" where
  "plan_iface live dflt_if dflt_gw c =
     (case live_lookup live (ic_name c) of
        None \<Rightarrow> Inl (Unknown_Interface (ic_name c))
      | Some cur \<Rightarrow>
          (case desired_addr c of
             Inl e \<Rightarrow> Inl e
           | Inr want \<Rightarrow>
               Inr (address_steps c want cur @ mtu_steps c cur @ link_steps c cur
                    @ gateway_steps c dflt_if dflt_gw @ note_steps c)))"

fun plan_all :: "live_iface list \<Rightarrow> string option \<Rightarrow> string option \<Rightarrow> iface_config list \<Rightarrow>
    plan_error + planned_step list" where
  "plan_all live dflt_if dflt_gw [] = Inr []"
| "plan_all live dflt_if dflt_gw (c # cs) =
     (case plan_iface live dflt_if dflt_gw c of
        Inl e \<Rightarrow> Inl e
      | Inr steps \<Rightarrow> (case plan_all live dflt_if dflt_gw cs of Inl e \<Rightarrow> Inl e | Inr rest \<Rightarrow> Inr (steps @ rest)))"

definition plan_changes :: "live_iface list \<Rightarrow> string option \<Rightarrow> string option \<Rightarrow> iface_config list \<Rightarrow>
    plan_error + planned_step list" where
  "plan_changes live dflt_if dflt_gw desired =
     (if \<not> distinct (map ic_name desired) then Inl Duplicate_Names
      else plan_all live dflt_if dflt_gw desired)"

section \<open>Soft guard\<close>

definition touching :: "planned_step list \<Rightarrow> string \<Rightarrow> planned_step list" where
  "touching steps dev = filter (\<lambda>s. st_iface s = dev
     \<and> st_action s \<in> {''address'', ''stale-address'', ''gateway'', ''link''}) steps"

text \<open>The message of \<open>PlanRefused\<close>, or \<open>None\<close> when the plan may proceed.\<close>

definition guard_plan :: "planned_step list \<Rightarrow> string option \<Rightarrow> bool \<Rightarrow> string option" where
  "guard_plan steps default_iface force =
     (case (force, default_iface) of
        (False, Some dev) \<Rightarrow>
          (if touching steps dev = [] then None
           else Some (''interface '' @ dev @ '' carries the default route; the plan would alter it (''
             @ join ''; '' (map (\<lambda>s. st_action s @ '': '' @ st_detail s) (touching steps dev))
             @ ''). Retry with force to acknowledge possible loss of management connectivity.''))
      | _ \<Rightarrow> None)"

section \<open>Properties\<close>

text \<open>What a requested configuration promises about the live state.\<close>

definition addresses_settled :: "iface_config \<Rightarrow> live_iface \<Rightarrow> bool" where
  "addresses_settled c cur \<longleftrightarrow>
     (manage_address c \<and> truthy_str (ic_ip c) \<longrightarrow>
        set (current_addrs cur) = {(or_empty (ic_ip c), case prefixlen c of None \<Rightarrow> 0 | Some p \<Rightarrow> int p)})
     \<and> (ic_type c = ''static'' \<and> \<not> ic_enabled c \<longrightarrow> current_addrs cur = [])"

definition route_settled :: "iface_config \<Rightarrow> string option \<Rightarrow> string option \<Rightarrow> bool" where
  "route_settled c dflt_if dflt_gw \<longleftrightarrow>
     (manage_address c \<longrightarrow>
        (if truthy_str (ic_gateway c) then dflt_if = Some (ic_name c) \<and> dflt_gw = ic_gateway c
         else dflt_if \<noteq> Some (ic_name c)))"

definition settled :: "live_iface list \<Rightarrow> string option \<Rightarrow> string option \<Rightarrow> iface_config \<Rightarrow> bool" where
  "settled live dflt_if dflt_gw c \<longleftrightarrow>
     (\<exists>cur. live_lookup live (ic_name c) = Some cur \<and> addresses_settled c cur
        \<and> (ic_mtu c = None \<or> li_mtu cur = ic_mtu c) \<and> li_up cur = ic_enabled c
        \<and> route_settled c dflt_if dflt_gw)"

lemma set_sorted_set [simp]: "set (sorted_set xs) = set xs"
  by (simp add: sorted_set_def)

lemma filter_other_Nil: "(\<forall>b\<in>set xs. b = a) \<and> a \<in> set xs \<longleftrightarrow> set xs = {a}"
  by auto

lemma argv_remove_step [simp]: "st_argv (remove_step n t a) \<noteq> []" "st_iface (remove_step n t a) = n"
  by (simp_all add: remove_step_def)

lemmas step_defs = mtu_steps_def link_steps_def gateway_steps_def note_steps_def

lemma quiet_address_steps:
  "(\<forall>s\<in>set (address_steps c (Some a) cur). st_argv s = []) \<longleftrightarrow> set (current_addrs cur) = {a}"
  "(\<forall>s\<in>set (address_steps c None cur). st_argv s = []) \<longleftrightarrow>
     (ic_type c = ''static'' \<and> \<not> ic_enabled c \<longrightarrow> current_addrs cur = [])"
proof -
  show "(\<forall>s\<in>set (address_steps c (Some a) cur). st_argv s = []) \<longleftrightarrow> set (current_addrs cur) = {a}"
    by (simp add: address_steps_def ball_Un) (auto simp del: split_paired_All)
  have q: "(\<forall>s\<in>set (map (remove_step n t) (sorted_set xs)). st_argv s = []) \<longleftrightarrow> xs = []" for n t xs
    by (cases xs) auto
  show "(\<forall>s\<in>set (address_steps c None cur). st_argv s = []) \<longleftrightarrow>
     (ic_type c = ''static'' \<and> \<not> ic_enabled c \<longrightarrow> current_addrs cur = [])"
    by (cases "ic_type c = ''static'' \<and> \<not> ic_enabled c")
       (simp_all only: address_steps_def option.case if_True if_False q simp_thms list.set ball_empty)
qed

lemma addresses_quiet:
  "desired_addr c = Inr want \<Longrightarrow>
     (\<forall>s\<in>set (address_steps c want cur). st_argv s = []) \<longleftrightarrow> addresses_settled c cur"
  by (cases want) (auto simp: quiet_address_steps addresses_settled_def desired_addr_def manage_address_def
      split: if_splits)

lemma plan_iface_quiet:
  assumes "plan_iface live dflt_if dflt_gw c = Inr steps"
  shows "(\<forall>s\<in>set steps. st_argv s = []) \<longleftrightarrow> settled live dflt_if dflt_gw c"
proof -
  obtain cur want where p: "live_lookup live (ic_name c) = Some cur" "desired_addr c = Inr want"
    and s: "steps = address_steps c want cur @ mtu_steps c cur @ link_steps c cur
              @ gateway_steps c dflt_if dflt_gw @ note_steps c"
    using assms by (auto simp: plan_iface_def split: option.splits sum.splits)
  have "(\<forall>s\<in>set (mtu_steps c cur). st_argv s = []) \<longleftrightarrow> ic_mtu c = None \<or> li_mtu cur = ic_mtu c"
    "(\<forall>s\<in>set (link_steps c cur). st_argv s = []) \<longleftrightarrow> li_up cur = ic_enabled c"
    "(\<forall>s\<in>set (gateway_steps c dflt_if dflt_gw). st_argv s = []) \<longleftrightarrow> route_settled c dflt_if dflt_gw"
    "(\<forall>s\<in>set (note_steps c). st_argv s = [])"
    by (auto simp: step_defs route_settled_def Let_def)
  with addresses_quiet[OF p(2), of cur] show ?thesis
    unfolding s settled_def p(1) by (simp only: set_append ball_Un) auto
qed

lemma plan_all_quiet:
  "plan_all live dflt_if dflt_gw cs = Inr steps \<Longrightarrow>
     (\<forall>s\<in>set steps. st_argv s = []) \<longleftrightarrow> (\<forall>c\<in>set cs. settled live dflt_if dflt_gw c)"
proof (induction cs arbitrary: steps)
  case (Cons c cs)
  then obtain a b where s: "plan_iface live dflt_if dflt_gw c = Inr a" "plan_all live dflt_if dflt_gw cs = Inr b" "steps = a @ b"
    by (auto split: sum.splits)
  from plan_iface_quiet[OF s(1)] Cons.IH[OF s(2)] s(3) show ?case by auto
qed simp

lemma plan_changes_all: "plan_changes live dflt_if dflt_gw desired = Inr steps \<Longrightarrow> plan_all live dflt_if dflt_gw desired = Inr steps"
  by (auto simp: plan_changes_def split: if_splits)

lemma plan_all_member:
  "plan_all live dflt_if dflt_gw cs = Inr steps \<Longrightarrow> s \<in> set steps \<longleftrightarrow>
     (\<exists>c\<in>set cs. \<exists>ss. plan_iface live dflt_if dflt_gw c = Inr ss \<and> s \<in> set ss)"
proof (induction cs arbitrary: steps)
  case (Cons c cs)
  then obtain a b where s: "plan_iface live dflt_if dflt_gw c = Inr a" "plan_all live dflt_if dflt_gw cs = Inr b" "steps = a @ b"
    by (auto split: sum.splits)
  from Cons.IH[OF s(2)] s show ?case by simp
qed simp

lemma plan_all_each:
  "plan_all live dflt_if dflt_gw cs = Inr steps \<Longrightarrow> c \<in> set cs \<Longrightarrow> \<exists>ss. plan_iface live dflt_if dflt_gw c = Inr ss"
  by (induction cs arbitrary: steps) (auto split: sum.splits)

lemma plan_iface_iface:
  "plan_iface live dflt_if dflt_gw c = Inr ss \<Longrightarrow> s \<in> set ss \<Longrightarrow> st_iface s = ic_name c"
proof -
  assume p: "plan_iface live dflt_if dflt_gw c = Inr ss" and s: "s \<in> set ss"
  have "s \<in> set (address_steps c want cur) \<Longrightarrow> st_iface s = ic_name c"
    "s \<in> set (mtu_steps c cur) \<Longrightarrow> st_iface s = ic_name c" "s \<in> set (link_steps c cur) \<Longrightarrow> st_iface s = ic_name c"
    "s \<in> set (gateway_steps c dflt_if dflt_gw) \<Longrightarrow> st_iface s = ic_name c"
    "s \<in> set (note_steps c) \<Longrightarrow> st_iface s = ic_name c" for want cur
    by (auto simp: address_steps_def step_defs Let_def split: option.splits if_splits)
  with p s show ?thesis by (auto simp: plan_iface_def split: option.splits sum.splits)
qed

text \<open>C24: The plan is idempotent and complete: a plan contains a command to run exactly when the live
  state differs from what some requested configuration promises of the IPv4 addresses, the MTU, the link and the default
  route. IPv6 addresses, further routes and name servers are written to the netplan file only; the live plan does not compare them.\<close>

theorem plan_changes_settled:
  "plan_changes live dflt_if dflt_gw desired = Inr steps \<Longrightarrow>
     (\<forall>s\<in>set steps. st_argv s = []) \<longleftrightarrow> (\<forall>c\<in>set desired. settled live dflt_if dflt_gw c)"
  using plan_all_quiet plan_changes_all by blast

definition eth0_config :: iface_config where
  "eth0_config = \<lparr>ic_name = ''eth0'', ic_type = ''static'', ic_ip = Some ''10.0.0.5'', ic_netmask = Some ''255.255.255.0'',
     ic_gateway = Some ''10.0.0.1'', ic_ip6 = None, ic_gateway6 = None, ic_dns = [], ic_routes = [], ic_mtu = None, ic_enabled = True\<rparr>"

definition eth0_live :: live_iface where
  "eth0_live = \<lparr>li_name = ''eth0'', li_operstate = ''UP'', li_up = True, li_mtu = Some 1500, li_mac = None,
     li_addresses = [\<lparr>la_address = ''10.0.0.5'', la_prefix = 24, la_family = ''inet''\<rparr>], li_default = True\<rparr>"

theorem plan_changes_settled_witness:
  "plan_changes [eth0_live] (Some ''eth0'') (Some ''10.0.0.1'') [eth0_config] = Inr []
   \<and> settled [eth0_live] (Some ''eth0'') (Some ''10.0.0.1'') eth0_config"
proof -
  have p: "plan_changes [eth0_live] (Some ''eth0'') (Some ''10.0.0.1'') [eth0_config] = Inr []" by code_simp
  from plan_changes_settled[OF p] p show ?thesis by simp
qed

text \<open>The soft guard looks at the interface of a step, not at the default route: a request that only
  names other interfaces replaces the default route without \<open>force\<close>.\<close>

theorem default_route_moves_unforced:
  "plan_changes live (Some dev) dflt_gw desired = Inr steps \<Longrightarrow> dev \<notin> ic_name ` set desired \<Longrightarrow>
   c \<in> set desired \<Longrightarrow> manage_address c \<Longrightarrow> ic_gateway c = Some g \<Longrightarrow> g \<noteq> [] \<Longrightarrow>
     guard_plan steps (Some dev) False = None
     \<and> [''route'', ''replace'', ''default'', ''via'', g, ''dev'', ic_name c] \<in> st_argv ` set steps"
proof -
  assume p: "plan_changes live (Some dev) dflt_gw desired = Inr steps" and dev: "dev \<notin> ic_name ` set desired"
    and c: "c \<in> set desired" "manage_address c" "ic_gateway c = Some g" "g \<noteq> []"
  note all = plan_changes_all[OF p]
  have "touching steps dev = []"
    using plan_all_member[OF all] plan_iface_iface dev
    by (fastforce simp: touching_def filter_empty_conv)
  moreover obtain ss where ss: "plan_iface live (Some dev) dflt_gw c = Inr ss" using plan_all_each[OF all c(1)] by blast
  have "set (gateway_steps c (Some dev) dflt_gw) \<subseteq> set ss"
    using ss by (auto simp: plan_iface_def split: option.splits sum.splits)
  moreover have "[''route'', ''replace'', ''default'', ''via'', g, ''dev'', ic_name c] \<in> st_argv ` set (gateway_steps c (Some dev) dflt_gw)"
    using c dev by (auto simp: gateway_steps_def Let_def)
  ultimately show ?thesis using plan_all_member[OF all] c(1) ss by (fastforce simp: guard_plan_def)
qed

theorem default_route_moves_unforced_witness:
  "\<exists>steps. plan_changes [eth0_live] (Some ''wan0'') (Some ''46.4.63.193'') [eth0_config] = Inr steps
     \<and> guard_plan steps (Some ''wan0'') False = None"
proof -
  obtain steps where p: "plan_changes [eth0_live] (Some ''wan0'') (Some ''46.4.63.193'') [eth0_config] = Inr steps"
  proof -
    have "\<not> isl (plan_changes [eth0_live] (Some ''wan0'') (Some ''46.4.63.193'') [eth0_config])" by code_simp
    then show thesis using that by (cases "plan_changes [eth0_live] (Some ''wan0'') (Some ''46.4.63.193'') [eth0_config]") auto
  qed
  have "guard_plan steps (Some ''wan0'') False = None"
    using default_route_moves_unforced[OF p, of eth0_config "''10.0.0.1''"]
    by (simp add: eth0_config_def manage_address_def)
  with p show ?thesis by blast
qed

end
