(* ===== verification/Node_Netplan.thy ===== *)
theory Node_Netplan
  imports Node_Plan
begin

text \<open>
  The node agent, second part: reading interface names back from netplan files, the hard WAN
  guardrails, and rendering the managed netplan file (\<open>netcfg.py\<close>). The netplan directory is an
  association list of file names and contents.
\<close>

section \<open>Interface names in netplan files\<close>

text \<open>\<open>str.splitlines\<close> with every ASCII line boundary.\<close>

definition line_break :: "char \<Rightarrow> bool" where
  "line_break c \<longleftrightarrow> char_between (CHR 0x0A) (CHR 0x0D) c \<or> char_between (CHR 0x1C) (CHR 0x1E) c"

fun py_splitlines :: "string \<Rightarrow> string list" where
  "py_splitlines [] = []"
| "py_splitlines (c # s) =
     (if line_break c
      then (case s of
          [] \<Rightarrow> [[]]
        | d # s' \<Rightarrow> [] # (if c = carriage \<and> d = newline then py_splitlines s' else py_splitlines s))
      else (case py_splitlines s of [] \<Rightarrow> [[c]] | l # ls \<Rightarrow> (c # l) # ls))"

text \<open>\<open>Path.suffix\<close>: from the last dot of the name, unless it is the first or the last character.\<close>

definition path_suffix :: "string \<Rightarrow> string" where
  "path_suffix name =
     (let (pre, ext) = rpartition_at CHR ''.'' name in
      if CHR ''.'' \<in> set name \<and> pre \<noteq> [] \<and> ext \<noteq> [] then CHR ''.'' # ext else [])"

text \<open>The candidate of one line: a key at exactly four blanks of indentation.\<close>

definition key_at_four :: "string \<Rightarrow> string option" where
  "key_at_four line =
     (if startswith line ''    '' \<and> \<not> startswith line ''     '' \<and> endswith (strip line) '':''
      then Some (butlast (strip line)) else None)"

definition names_of_content :: "string \<Rightarrow> string list" where
  "names_of_content content =
     concat (map (\<lambda>line. case key_at_four line of
         None \<Rightarrow> [] | Some c \<Rightarrow> if iface_name_match c then [c] else []) (py_splitlines content))"

text \<open>\<open>files\<close> is \<open>None\<close> when the directory is not configured or missing; \<open>readable\<close> says which
  files can be read.\<close>

definition netplan_interface_names :: "(string \<Rightarrow> bool) \<Rightarrow> (string \<times> string) list option \<Rightarrow> string list" where
  "netplan_interface_names readable files =
     (case files of
        None \<Rightarrow> []
      | Some fs \<Rightarrow> concat (map (\<lambda>(name, content).
          if path_suffix name \<in> {''.yaml'', ''.yml''} \<and> readable name then names_of_content content else []) fs))"

definition has_default_route :: "string \<Rightarrow> bool" where
  "has_default_route content \<longleftrightarrow>
     contains ''to: default'' content \<or> contains ''to: 0.0.0.0/0'' content
     \<or> contains (''to: '' @ dq @ ''0.0.0.0/0'' @ dq) content"

section \<open>WAN guardrails\<close>

datatype guardrail =
    Removes_Wan string
  | Removes_Default_Route
  | Enslaved string string
  | Absent_From_Netplan string
  | Render_Drops_Wan
  | Render_Drops_Route

definition wan_bare :: "string \<Rightarrow> string" where
  "wan_bare wan_ip = hd (split_on CHR ''/'' wan_ip)"

definition bridge_master :: "string \<Rightarrow> bool" where
  "bridge_master m \<longleftrightarrow> m \<noteq> [] \<and> (m = ''docker0'' \<or> startswith m ''br-'')"

definition check_step :: "string \<Rightarrow> link_row list \<Rightarrow> planned_step \<Rightarrow> guardrail option" where
  "check_step wan_ip links s =
     (if st_action s = ''stale-address'' \<and> 3 \<le> length (st_argv s)
         \<and> (st_argv s ! 2 = wan_ip \<or> st_argv s ! 2 = wan_bare wan_ip)
      then Some (Removes_Wan (st_argv s ! 2))
      else if st_action s = ''gateway'' \<and> contains ''remove default route'' (st_detail s)
      then Some Removes_Default_Route
      else (case link_master links (st_iface s) of
          None \<Rightarrow> None
        | Some m \<Rightarrow> if bridge_master m then Some (Enslaved (st_iface s) m) else None))"

fun first_some :: "('a \<Rightarrow> 'b option) \<Rightarrow> 'a list \<Rightarrow> 'b option" where
  "first_some f [] = None"
| "first_some f (x # xs) = (case f x of Some y \<Rightarrow> Some y | None \<Rightarrow> first_some f xs)"

definition check_known :: "string list \<Rightarrow> iface_config list \<Rightarrow> guardrail option" where
  "check_known known desired =
     (if known = [] then None
      else map_option (\<lambda>c. Absent_From_Netplan (ic_name c)) (List.find (\<lambda>c. ic_name c \<notin> set known) desired))"

definition check_render :: "string \<Rightarrow> string option \<Rightarrow> string option \<Rightarrow> guardrail option" where
  "check_render wan_ip old_content new_render =
     (case (old_content, new_render) of
        (Some old, Some new) \<Rightarrow>
          (if old = [] then None
           else if contains (wan_bare wan_ip) old \<and> \<not> contains (wan_bare wan_ip) new then Some Render_Drops_Wan
           else if has_default_route old \<and> \<not> has_default_route new then Some Render_Drops_Route
           else None)
      | _ \<Rightarrow> None)"

record guardrail_context =
  gc_steps :: "planned_step list"
  gc_desired :: "iface_config list"
  gc_links :: "link_row list"
  gc_readable :: "string \<Rightarrow> bool"
  gc_files :: "(string \<times> string) list option"
  gc_old :: "string option"
  gc_new :: "string option"
  gc_wan_ip :: string

definition check_wan_guardrails :: "guardrail_context \<Rightarrow> guardrail option" where
  "check_wan_guardrails ctx =
     (case first_some (check_step (gc_wan_ip ctx) (gc_links ctx)) (gc_steps ctx) of
        Some g \<Rightarrow> Some g
      | None \<Rightarrow>
          (case check_known (netplan_interface_names (gc_readable ctx) (gc_files ctx)) (gc_desired ctx) of
             Some g \<Rightarrow> Some g
           | None \<Rightarrow> check_render (gc_wan_ip ctx) (gc_old ctx) (gc_new ctx)))"

section \<open>Rendering\<close>

definition yaml_scalar :: "string \<Rightarrow> string" where
  "yaml_scalar v = (if contains '':'' v then dq @ v @ dq else v)"

definition route_lines :: "string \<Rightarrow> string option \<Rightarrow> bool \<Rightarrow> string list" where
  "route_lines to via on_link =
     [''- to: '' @ yaml_scalar to]
     @ (if truthy_str via then [''  via: '' @ or_empty via] else [])
     @ (if on_link then [''  on-link: true''] else [])"

definition quoted_list :: "string list \<Rightarrow> string" where
  "quoted_list xs = join '', '' (map (\<lambda>x. dq @ x @ dq) xs)"

definition managed_static :: "iface_config \<Rightarrow> bool" where
  "managed_static c \<longleftrightarrow> ic_enabled c \<and> ic_type c = ''static'' \<and> (truthy_str (ic_ip c) \<or> truthy_str (ic_ip6 c))"

definition addresses_of :: "iface_config \<Rightarrow> string list" where
  "addresses_of c =
     (if managed_static c then
        (case (truthy_str (ic_ip c), prefixlen c) of
           (True, Some p) \<Rightarrow> [or_empty (ic_ip c) @ ''/'' @ string_of_nat p] | _ \<Rightarrow> [])
        @ (if truthy_str (ic_ip6 c) then [or_empty (ic_ip6 c)] else [])
      else [])"

definition route_entries :: "iface_config \<Rightarrow> string list" where
  "route_entries c =
     (if managed_static c then
        (if truthy_str (ic_gateway c) then route_lines ''default'' (ic_gateway c) False else [])
        @ (if truthy_str (ic_gateway6 c) then route_lines ''::/0'' (ic_gateway6 c) False else [])
      else [])
     @ concat (map (\<lambda>r. route_lines (ro_to r) (ro_via r) (ro_on_link r)) (ic_routes c))"

definition option_lines :: "iface_config \<Rightarrow> string list" where
  "option_lines c =
     [''      dhcp4: '' @ (if ic_enabled c \<and> ic_type c = ''dhcp'' then ''true'' else ''false'')]
     @ (if addresses_of c \<noteq> [] then [''      addresses: ['' @ quoted_list (addresses_of c) @ '']''] else [])
     @ (if route_entries c \<noteq> [] then ''      routes:'' # map (\<lambda>e. ''        '' @ e) (route_entries c) else [])
     @ (if ic_dns c \<noteq> [] then [''      nameservers: {addresses: ['' @ quoted_list (ic_dns c) @ '']}''] else [])
     @ (if \<not> ic_enabled c then [''      optional: true''] else [])
     @ (case ic_mtu c of None \<Rightarrow> [] | Some m \<Rightarrow> [''      mtu: '' @ string_of_int m])"

definition netplan_lines :: "iface_config list \<Rightarrow> string list" where
  "netplan_lines cs =
     [''network:'', ''  version: 2'', ''  ethernets:'']
     @ concat (map (\<lambda>c. (''    '' @ ic_name c @ '':'') # option_lines c) (sort_key ic_name cs))"

definition render_netplan :: "iface_config list \<Rightarrow> string" where
  "render_netplan cs = join nl (netplan_lines cs) @ nl"

end
