(* ===== verification/Node_Netplan_Props.thy ===== *)
theory Node_Netplan_Props
  imports Node_Netplan
begin

text \<open>
  Properties of the netplan rendering and of the WAN guardrails: the reader of interface names gets
  back exactly the interfaces that were rendered, what a passed guardrail check excludes, and the two
  ways around it.
\<close>

section \<open>Line structure\<close>

declare py_splitlines.simps(2) [simp del]

lemma line_break_newline: "line_break newline"
  by (simp add: line_break_def char_class_defs char_defs)

lemma splitlines_break: "py_splitlines (newline # s) = [] # py_splitlines s"
  using line_break_newline by (cases s) (simp_all add: py_splitlines.simps(2) char_defs)

lemma splitlines_char:
  "\<not> line_break c \<Longrightarrow> py_splitlines s = l # ls \<Longrightarrow> py_splitlines (c # s) = (c # l) # ls"
  by (simp add: py_splitlines.simps(2))

lemma py_splitlines_line:
  "\<forall>c\<in>set l. \<not> line_break c \<Longrightarrow> py_splitlines (l @ newline # s) = l # py_splitlines s"
  by (induction l) (auto simp: splitlines_break splitlines_char)

lemma join_nl_concat: "ls \<noteq> [] \<Longrightarrow> join nl ls @ nl = concat (map (\<lambda>l. l @ nl) ls)"
  by (induction nl ls rule: join.induct) auto

lemma py_splitlines_lines:
  "\<forall>l\<in>set ls. \<forall>c\<in>set l. \<not> line_break c \<Longrightarrow> py_splitlines (concat (map (\<lambda>l. l @ nl) ls)) = ls"
  by (induction ls) (auto simp: py_splitlines_line)

section \<open>Characters of rendered text\<close>

text \<open>Everything a validated address, prefix or number can contain is printable and is no line boundary.\<close>

definition inline_text :: "string \<Rightarrow> bool" where
  "inline_text s \<longleftrightarrow> (\<forall>c\<in>set s. \<not> line_break c)"

lemma inline_append [line_simps]: "inline_text (a @ b) \<longleftrightarrow> inline_text a \<and> inline_text b"
  by (auto simp: inline_text_def)

lemma inline_Cons [line_simps]: "inline_text (c # s) \<longleftrightarrow> \<not> line_break c \<and> inline_text s"
  by (auto simp: inline_text_def)

lemma inline_Nil [line_simps]: "inline_text []"
  by (simp add: inline_text_def)

lemma inline_join: "inline_text sep \<Longrightarrow> \<forall>w\<in>set ws. inline_text w \<Longrightarrow> inline_text (join sep ws)"
  by (induction sep ws rule: join.induct) (auto simp: line_simps)

lemma addr_char_inline: "addr_char c \<Longrightarrow> \<not> line_break c"
  by (auto simp: addr_char_def line_break_def char_class_defs)

lemma inline_nat: "inline_text (string_of_nat n)"
  by (auto simp: inline_text_def dest: addr_char_nat addr_char_inline)

lemma inline_int: "inline_text (string_of_int i)"
  by (auto simp: string_of_int_def line_simps inline_nat line_break_def char_class_defs)

lemma inline_name: "plain_name s \<Longrightarrow> inline_text s"
  by (auto simp: inline_text_def plain_name_def list_all_iff iface_char_def line_break_def char_class_defs)

definition no_scope :: "string \<Rightarrow> bool" where
  "no_scope s \<longleftrightarrow> CHR ''%'' \<notin> set s"

lemma inline_ip: "ip_address s \<noteq> None \<Longrightarrow> no_scope s \<Longrightarrow> inline_text s"
  by (auto simp: inline_text_def no_scope_def dest: ip_address_chars addr_char_inline)

lemma inline_ip6: "ip6_of_string s \<noteq> None \<Longrightarrow> no_scope s \<Longrightarrow> inline_text s"
  by (auto simp: inline_text_def no_scope_def dest: ip6_of_string_chars addr_char_inline)

lemma inline_prefix6: "addr_prefix6 s \<noteq> None \<Longrightarrow> no_scope s \<Longrightarrow> inline_text s"
  using addr_prefix6_chars addr_char_inline by (fastforce simp: inline_text_def no_scope_def)

lemma inline_network: "ip_network False s \<noteq> None \<Longrightarrow> no_scope s \<Longrightarrow> inline_text s"
  by (auto simp: inline_text_def no_scope_def dest: ip_network_chars addr_char_inline)

section \<open>Rendering and reading back\<close>

text \<open>A configuration the request model accepts, with a name without a trailing line feed and without scope
  ids in its addresses.\<close>

definition plain_config :: "iface_config \<Rightarrow> bool" where
  "plain_config c \<longleftrightarrow> valid_iface_config c \<and> plain_name (ic_name c)
     \<and> no_scope (or_empty (ic_ip c)) \<and> no_scope (or_empty (ic_gateway c)) \<and> no_scope (or_empty (ic_ip6 c))
     \<and> no_scope (or_empty (ic_gateway6 c)) \<and> list_all no_scope (ic_dns c)
     \<and> list_all (\<lambda>r. no_scope (ro_to r) \<and> no_scope (or_empty (ro_via r))) (ic_routes c)"

lemma plain_texts:
  assumes "plain_config c"
  shows "truthy_str (ic_ip c) \<Longrightarrow> inline_text (or_empty (ic_ip c))"
    "truthy_str (ic_gateway c) \<Longrightarrow> inline_text (or_empty (ic_gateway c))"
    "truthy_str (ic_ip6 c) \<Longrightarrow> inline_text (or_empty (ic_ip6 c))"
    "truthy_str (ic_gateway6 c) \<Longrightarrow> inline_text (or_empty (ic_gateway6 c))"
    "d \<in> set (ic_dns c) \<Longrightarrow> inline_text d"
    "r \<in> set (ic_routes c) \<Longrightarrow> inline_text (ro_to r)"
    "r \<in> set (ic_routes c) \<Longrightarrow> truthy_str (ro_via r) \<Longrightarrow> inline_text (or_empty (ro_via r))"
proof -
  note p = assms[unfolded plain_config_def valid_iface_config_def]
  show "truthy_str (ic_ip c) \<Longrightarrow> inline_text (or_empty (ic_ip c))"
    using p by (cases "ic_ip c") (auto simp: valid_opt_ip_def intro: inline_ip)
  show "truthy_str (ic_gateway c) \<Longrightarrow> inline_text (or_empty (ic_gateway c))"
    using p by (cases "ic_gateway c") (auto simp: valid_opt_ip_def intro: inline_ip)
  show "truthy_str (ic_ip6 c) \<Longrightarrow> inline_text (or_empty (ic_ip6 c))"
    using p by (cases "ic_ip6 c") (auto simp: valid_ipv6_address_def intro!: inline_prefix6)
  show "truthy_str (ic_gateway6 c) \<Longrightarrow> inline_text (or_empty (ic_gateway6 c))"
    using p by (cases "ic_gateway6 c") (auto simp: valid_ipv6_gateway_def intro!: inline_ip6)
  show "d \<in> set (ic_dns c) \<Longrightarrow> inline_text d"
    using p by (auto simp: valid_dns_servers_def list_all_iff intro!: inline_ip)
  show "inline_text (ro_to r)" if r: "r \<in> set (ic_routes c)"
  proof -
    have v: "valid_route_to (ro_to r)" "no_scope (ro_to r)" using p r by (auto simp: list_all_iff valid_route_def)
    have "inline_text ''default''" by code_simp
    then show ?thesis using v inline_network by (auto simp: valid_route_to_def)
  qed
  show "r \<in> set (ic_routes c) \<Longrightarrow> truthy_str (ro_via r) \<Longrightarrow> inline_text (or_empty (ro_via r))"
    using p by (cases "ro_via r") (auto simp: list_all_iff valid_route_def valid_opt_ip_def intro!: inline_ip)
qed

lemma inline_dquote [line_simps]: "\<not> line_break dquote"
  by (simp add: line_break_def char_class_defs char_defs)

lemma inline_yaml: "inline_text v \<Longrightarrow> inline_text (yaml_scalar v)"
  by (simp add: yaml_scalar_def line_simps)

lemmas inline_eval = line_simps line_break_def char_class_defs char_defs

lemma inline_quoted: "\<forall>x\<in>set xs. inline_text x \<Longrightarrow> inline_text (quoted_list xs)"
  unfolding quoted_list_def by (rule inline_join) (auto simp: inline_eval)

lemma inline_route_lines:
  "inline_text to \<Longrightarrow> (truthy_str via \<Longrightarrow> inline_text (or_empty via)) \<Longrightarrow> l \<in> set (route_lines to via on_link) \<Longrightarrow> inline_text l"
  by (auto simp: route_lines_def inline_eval inline_yaml split: if_splits)

lemma inline_addresses:
  assumes "plain_config c" "a \<in> set (addresses_of c)"
  shows "inline_text a"
  using assms(2) plain_texts(1,3)[OF assms(1)] inline_nat
  by (auto simp: addresses_of_def inline_append inline_eval split: if_splits bool.splits option.splits)

lemma inline_routes:
  assumes "plain_config c" "e \<in> set (route_entries c)"
  shows "inline_text e"
proof -
  have lit: "inline_text ''default''" "inline_text ''::/0''" by code_simp+
  consider "e \<in> set (route_lines ''default'' (ic_gateway c) False)" "truthy_str (ic_gateway c)"
    | "e \<in> set (route_lines ''::/0'' (ic_gateway6 c) False)" "truthy_str (ic_gateway6 c)"
    | r where "r \<in> set (ic_routes c)" "e \<in> set (route_lines (ro_to r) (ro_via r) (ro_on_link r))"
    using assms(2) by (auto simp: route_entries_def split: if_splits)
  then show ?thesis
    by cases (meson inline_route_lines lit plain_texts[OF assms(1)])+
qed

lemma option_line:
  assumes "plain_config c" "l \<in> set (option_lines c)"
  shows "inline_text l \<and> startswith l ''     ''"
proof -
  have q: "inline_text (quoted_list (addresses_of c))" "inline_text (quoted_list (ic_dns c))"
    using inline_addresses plain_texts(5) assms(1) by (auto intro: inline_quoted)
  have e: "e \<in> set (route_entries c) \<Longrightarrow> inline_text e" for e using inline_routes assms(1) .
  show ?thesis using assms(2) q e inline_int
    by (auto simp: option_lines_def inline_eval startswith_code split: if_splits option.splits)
qed

lemma strip_key:
  assumes "plain_name n"
  shows "strip (''    '' @ n @ '':'') = n @ '':''"
proof -
  obtain x xs where n: "n = x # xs" using assms by (cases n) (auto simp: plain_name_def)
  have "\<not> is_space x" using assms by (auto simp: n plain_name_def iface_char_def char_class_defs)
  moreover have "is_space CHR '' ''" "\<not> is_space CHR '':''" by (simp_all add: char_class_defs)
  ultimately show ?thesis by (simp add: strip_def lstrip_def rstrip_def n)
qed

lemma key_of_name: "plain_name n \<Longrightarrow> key_at_four (''    '' @ n @ '':'') = Some n"
proof -
  assume p: "plain_name n"
  then obtain x xs where n: "n = x # xs" by (cases n) (auto simp: plain_name_def)
  have "x \<noteq> CHR '' ''" using p by (auto simp: n plain_name_def iface_char_def char_class_defs)
  moreover have "endswith (n @ '':'') '':''" by (simp add: endswith_def startswith_def)
  ultimately show ?thesis unfolding key_at_four_def strip_key[OF p]
    by (simp add: startswith_code n)
qed

lemma key_of_option: "startswith l ''     '' \<Longrightarrow> key_at_four l = None"
  by (simp add: key_at_four_def)

lemma names_of_lines:
  "\<forall>l\<in>set ls. inline_text l \<Longrightarrow> ls \<noteq> [] \<Longrightarrow>
     names_of_content (join nl ls @ nl) =
     concat (map (\<lambda>l. case key_at_four l of None \<Rightarrow> [] | Some c \<Rightarrow> if iface_name_match c then [c] else []) ls)"
  by (simp add: names_of_content_def join_nl_concat py_splitlines_lines inline_text_def)

lemma iface_block_inline: "plain_config c \<Longrightarrow> l \<in> set ((''    '' @ ic_name c @ '':'') # option_lines c) \<Longrightarrow> inline_text l"
  using option_line inline_name[of "ic_name c"] by (auto simp: plain_config_def inline_eval)

lemma names_of_options: "plain_config c \<Longrightarrow>
   concat (map (\<lambda>l. case key_at_four l of None \<Rightarrow> [] | Some c \<Rightarrow> if iface_name_match c then [c] else []) (option_lines c)) = []"
  using option_line key_of_option by (auto simp: concat_eq_Nil_conv)

lemma concat_concat_map: "concat (concat (map f xs)) = concat (map (\<lambda>x. concat (f x)) xs)"
  by (induction xs) auto

text \<open>Rendering and reading back agree: for configurations without scope ids and line feeds, the names
  the guardrail reader finds in a rendered file are exactly the names of the rendered interfaces,
  in name order, whatever else the configurations contain.\<close>

theorem render_netplan_names:
  "\<forall>c\<in>set cs. plain_config c \<Longrightarrow> names_of_content (render_netplan cs) = map ic_name (sort_key ic_name cs)"
proof -
  assume p: "\<forall>c\<in>set cs. plain_config c"
  let ?f = "\<lambda>l. case key_at_four l of None \<Rightarrow> [] | Some c \<Rightarrow> if iface_name_match c then [c] else []"
  have "\<forall>l\<in>set [''network:'', ''  version: 2'', ''  ethernets:'']. inline_text l" by code_simp
  then have "\<forall>l\<in>set (netplan_lines cs). inline_text l"
    using p iface_block_inline by (fastforce simp: netplan_lines_def)
  moreover have "netplan_lines cs \<noteq> []" by (simp add: netplan_lines_def)
  ultimately have "names_of_content (render_netplan cs) = concat (map ?f (netplan_lines cs))"
    unfolding render_netplan_def by (rule names_of_lines)
  also have "concat (map ?f [''network:'', ''  version: 2'', ''  ethernets:'']) = []" by code_simp
  then have "concat (map ?f (netplan_lines cs)) =
      concat (map (\<lambda>c. concat (map ?f ((''    '' @ ic_name c @ '':'') # option_lines c))) (sort_key ic_name cs))"
    by (simp add: netplan_lines_def map_concat comp_def concat_concat_map del: list.map concat.simps append_Cons append_Nil)
  also have "\<dots> = concat (map (\<lambda>c. [ic_name c]) (sort_key ic_name cs))"
  proof (intro arg_cong[of _ _ concat] map_cong refl)
    fix c assume "c \<in> set (sort_key ic_name cs)"
    then have c: "plain_config c" using p by simp
    then have "key_at_four (''    '' @ ic_name c @ '':'') = Some (ic_name c)" "iface_name_match (ic_name c)"
      using key_of_name by (auto simp: plain_config_def iface_name_match_def)
    then show "concat (map ?f ((''    '' @ ic_name c @ '':'') # option_lines c)) = [ic_name c]"
      using names_of_options[OF c] by simp
  qed
  finally show ?thesis by simp
qed

definition eth1_config :: iface_config where
  "eth1_config = \<lparr>ic_name = ''eth1'', ic_type = ''dhcp'', ic_ip = None, ic_netmask = None, ic_gateway = None,
     ic_ip6 = None, ic_gateway6 = None, ic_dns = [''9.9.9.9''], ic_routes = [], ic_mtu = Some 1400, ic_enabled = True\<rparr>"

theorem render_netplan_names_witness:
  "names_of_content (render_netplan [eth1_config, eth0_config]) = [''eth0'', ''eth1'']"
proof -
  have "list_all plain_config [eth1_config, eth0_config]" by code_simp
  then have "\<forall>c\<in>set [eth1_config, eth0_config]. plain_config c" by (simp only: list_all_iff)
  moreover have "map ic_name (sort_key ic_name [eth1_config, eth0_config]) = [''eth0'', ''eth1'']" by code_simp
  ultimately show ?thesis using render_netplan_names by metis
qed

definition scoped_config :: iface_config where
  "scoped_config = eth0_config\<lparr>ic_gateway6 := Some (''fe80::1%x'' @ nl @ ''    wan0:'')\<rparr>"

text \<open>An accepted request can write lines of its own into the netplan file: the scope id of an IPv6
  gateway may hold any text, and a name may end in a line feed, because \<open>$\<close> matches before it.\<close>

theorem netplan_text_injects_line:
  "valid_iface_config scoped_config \<and> ''wan0'' \<in> set (names_of_content (render_netplan [scoped_config]))
   \<and> valid_iface_config (eth0_config\<lparr>ic_name := ''eth0'' @ nl\<rparr>)
   \<and> ''    eth0'' \<in> set (py_splitlines (render_netplan [eth0_config\<lparr>ic_name := ''eth0'' @ nl\<rparr>]))"
proof (intro conjI)
  show "valid_iface_config scoped_config" by code_simp
  show "valid_iface_config (eth0_config\<lparr>ic_name := ''eth0'' @ nl\<rparr>)" by code_simp
  have "List.member (names_of_content (render_netplan [scoped_config])) ''wan0''" by code_simp
  then show "''wan0'' \<in> set (names_of_content (render_netplan [scoped_config]))" by (simp only: List.member_iff)
  have "List.member (py_splitlines (render_netplan [eth0_config\<lparr>ic_name := ''eth0'' @ nl\<rparr>])) ''    eth0''" by code_simp
  then show "''    eth0'' \<in> set (py_splitlines (render_netplan [eth0_config\<lparr>ic_name := ''eth0'' @ nl\<rparr>]))"
    by (simp only: List.member_iff)
qed

end
