(* ===== verification/Node_Apply.thy ===== *)
theory Node_Apply
  imports Node_Netplan Snapshots Node_Netplan_Props
begin

text \<open>
  The node agent, third part: running commands, the health probes, the try-mode apply and the live
  apply (\<open>netcfg.py\<close>), and the HTTP layer over them (\<open>api.py\<close>).

  The host state is the netplan directory, the backups, the snapshots and the \<open>ip\<close> commands that
  were run. Everything else outside the process is in an environment record: what \<open>ip -j\<close> printed,
  how each command ends, whether files can be read and written, and how \<open>netplan try\<close> behaves.
\<close>

section \<open>Configuration, host and environment\<close>

record node_config =
  nc_key :: "string option"
  nc_netplan_dir :: string
  nc_netplan_file :: string
  nc_state_dir :: string
  nc_ssh_port :: int
  nc_gateway_url :: string
  nc_ping_target :: string
  nc_wan_ip :: string

text \<open>\<open>netplan_path\<close> for a plain file name.\<close>

definition netplan_path :: "node_config \<Rightarrow> string option" where
  "netplan_path cfg =
     (if nc_netplan_dir cfg = [] then None
      else Some (nc_netplan_dir cfg @ (if last (nc_netplan_dir cfg) = CHR ''/'' then [] else ''/'') @ nc_netplan_file cfg))"

record node_host =
  nh_files :: "(string \<times> string) list option"
  nh_backups :: "(string \<times> string) list"
  nh_snapshots :: "snapshot_dir list"
  nh_commands :: "string list list"

datatype proc_outcome = No_Spawn string | Slow | Ended int string string

datatype write_outcome = Write_Ok | Write_Failed | Write_Raised

text \<open>How one \<open>netplan try\<close> goes: whether it could be started, whether its input is open and takes
  the confirmation, and how it ends (killed after the time limit, or an exit code).\<close>

record try_run =
  tr_spawn_error :: "string option"
  tr_stdin :: bool
  tr_drain :: bool
  tr_exit :: "int option"
  tr_stderr :: string

record node_env =
  ne_addrs :: "addr_row list option"
  ne_routes :: "route_row list option"
  ne_links :: "link_row list option"
  ne_readable :: "string \<Rightarrow> bool"
  ne_rm_ok :: "string \<Rightarrow> bool"
  ne_stamp :: string
  ne_write :: write_outcome
  ne_backup_ok :: bool
  ne_ip :: "string list \<Rightarrow> proc_outcome"
  ne_ss :: proc_outcome
  ne_curl :: proc_outcome
  ne_ping :: proc_outcome
  ne_try :: try_run

text \<open>\<open>run_command\<close>: exit code, output and error text, both stripped.\<close>

definition run_command :: "proc_outcome \<Rightarrow> int \<times> string \<times> string" where
  "run_command p =
     (case p of
        No_Spawn e \<Rightarrow> (127, [], e)
      | Slow \<Rightarrow> (124, [], ''timeout'')
      | Ended rc out err \<Rightarrow> (rc, strip out, strip err))"

section \<open>Persistence\<close>

definition managed_file :: "node_config \<Rightarrow> node_host \<Rightarrow> string option" where
  "managed_file cfg h = (case nh_files h of None \<Rightarrow> None | Some fs \<Rightarrow> map_of fs (nc_netplan_file cfg))"

definition read_existing_netplan :: "node_config \<Rightarrow> node_env \<Rightarrow> node_host \<Rightarrow> string option" where
  "read_existing_netplan cfg env h =
     (if netplan_path cfg = None then None
      else if ne_readable env (nc_netplan_file cfg) then managed_file cfg h else None)"

text \<open>\<open>write_netplan\<close>: \<open>None\<close> is an exception (the temporary file cannot be created).\<close>

definition write_netplan :: "node_config \<Rightarrow> node_env \<Rightarrow> string \<Rightarrow> node_host \<Rightarrow> bool option \<times> node_host" where
  "write_netplan cfg env content h =
     (if netplan_path cfg = None then (Some False, h)
      else (case nh_files h of
          None \<Rightarrow> (Some False, h)
        | Some fs \<Rightarrow>
            (case ne_write env of
               Write_Ok \<Rightarrow> (Some True, h\<lparr>nh_files := Some (dict_put (nc_netplan_file cfg) content fs)\<rparr>)
             | Write_Failed \<Rightarrow> (Some False, h)
             | Write_Raised \<Rightarrow> (None, h))))"

section \<open>Health probes\<close>

record probe_result =
  pr_name :: string
  pr_ok :: bool
  pr_detail :: string

definition listening :: "int \<Rightarrow> string \<Rightarrow> bool" where
  "listening port out \<longleftrightarrow>
     list_ex (\<lambda>w. contains ('':'' @ string_of_int port @ [w]) out) [CHR '' '', CHR 0x09, CHR 0x0D, CHR 0x0A]"

definition probe_ssh_listener :: "node_config \<Rightarrow> node_env \<Rightarrow> probe_result" where
  "probe_ssh_listener cfg env =
     (let (rc, out, err) = run_command (ne_ss env); name = ''ssh-listener:'' @ string_of_int (nc_ssh_port cfg) in
      if rc \<noteq> 0 then \<lparr>pr_name = name, pr_ok = False, pr_detail = ''ss exited '' @ string_of_int rc @ '': '' @ take 200 err\<rparr>
      else if listening (nc_ssh_port cfg) out then \<lparr>pr_name = name, pr_ok = True, pr_detail = ''listener found''\<rparr>
      else \<lparr>pr_name = name, pr_ok = False, pr_detail = ''no listener on port '' @ string_of_int (nc_ssh_port cfg)\<rparr>)"

definition command_probe :: "string \<Rightarrow> string \<Rightarrow> proc_outcome \<Rightarrow> probe_result" where
  "command_probe name tool p =
     (let (rc, out, err) = run_command p in
      \<lparr>pr_name = name, pr_ok = (rc = 0),
        pr_detail = (if rc = 0 then ''ok'' else if take 200 err \<noteq> [] then take 200 err
                     else tool @ '' exited '' @ string_of_int rc)\<rparr>)"

definition probe_gateway_health :: "node_env \<Rightarrow> probe_result" where
  "probe_gateway_health env = command_probe ''gateway-health'' ''curl'' (ne_curl env)"

definition probe_ping_wan :: "node_config \<Rightarrow> node_env \<Rightarrow> probe_result" where
  "probe_ping_wan cfg env = command_probe (''ping-wan:'' @ nc_ping_target cfg) ''ping'' (ne_ping env)"

definition run_health_probes :: "node_config \<Rightarrow> node_env \<Rightarrow> probe_result list" where
  "run_health_probes cfg env = [probe_ssh_listener cfg env, probe_gateway_health env, probe_ping_wan cfg env]"

section \<open>Results\<close>

text \<open>The dash of the messages, as its UTF-8 bytes.\<close>

definition em_dash :: string where "em_dash = [CHR 0xE2, CHR 0x80, CHR 0x94]"

record apply_change =
  ch_iface :: string
  ch_action :: string
  ch_detail :: string
  ch_ok :: bool

datatype netplan_outcome = Accepted | Reverted | Confirm_Error

record apply_result =
  res_success :: bool
  res_changes :: "apply_change list"
  res_written :: bool
  res_message :: string
  res_try :: bool
  res_probes :: "probe_result list"
  res_outcome :: "netplan_outcome option"
  res_snapshot :: "string option"

datatype node_error =
    Discovery_Failed
  | Plan_Invalid plan_error
  | Plan_Refused string
  | Guardrail_Refused guardrail
  | Snapshot_Exists
  | Try_Failed string
  | Unhandled

definition outcome_text :: "netplan_outcome \<Rightarrow> string" where
  "outcome_text oc = (case oc of Accepted \<Rightarrow> ''accepted'' | Reverted \<Rightarrow> ''reverted'' | Confirm_Error \<Rightarrow> ''error'')"

section \<open>Try mode\<close>

text \<open>The confirmation step and the final outcome; the exit code of a killed process is -9.\<close>

definition confirm_step :: "try_run \<Rightarrow> bool \<Rightarrow> netplan_outcome" where
  "confirm_step t all_ok =
     (if \<not> tr_stdin t then Confirm_Error
      else if all_ok then (if tr_drain t then Accepted else Confirm_Error)
      else Reverted)"

definition try_exit :: "try_run \<Rightarrow> int" where
  "try_exit t = (case tr_exit t of None \<Rightarrow> - 9 | Some rc \<Rightarrow> rc)"

definition try_outcome :: "try_run \<Rightarrow> bool \<Rightarrow> netplan_outcome" where
  "try_outcome t all_ok =
     (if confirm_step t all_ok = Accepted \<and> try_exit t \<noteq> 0 then Confirm_Error else confirm_step t all_ok)"

definition try_stderr_text :: "try_run \<Rightarrow> string" where
  "try_stderr_text t =
     (let err = (case tr_exit t of None \<Rightarrow> ''netplan try did not finish; killed'' | Some rc \<Rightarrow> tr_stderr t) in
      if err \<noteq> [] then '' '' @ em_dash @ '' '' @ take 300 (strip err) else [])"

definition try_message :: "netplan_outcome \<Rightarrow> probe_result list \<Rightarrow> string" where
  "try_message oc probes =
     (if oc = Accepted then ''netplan try accepted and committed''
      else ''netplan try '' @ outcome_text oc @ ''; first failing probe: '' @
        (case filter (\<lambda>p. \<not> pr_ok p) probes of p # ps \<Rightarrow> pr_detail p | [] \<Rightarrow> ''netplan try errored''))"

text \<open>The backup of the previous file: \<open>None\<close> is an \<open>OSError\<close>.\<close>

definition backup_existing :: "node_config \<Rightarrow> node_env \<Rightarrow> node_host \<Rightarrow> (apply_change list \<times> node_host) option" where
  "backup_existing cfg env h =
     (case managed_file cfg h of
        None \<Rightarrow> Some ([], h)
      | Some content \<Rightarrow>
          (if \<not> ne_backup_ok env then None
           else Some ([\<lparr>ch_iface = ''*'', ch_action = ''netplan'',
                   ch_detail = ''previous file backed up to '' @ nc_state_dir cfg @ ''/backups/'' @ ne_stamp env @ ''/'' @ nc_netplan_file cfg, ch_ok = True\<rparr>],
                 h\<lparr>nh_backups := nh_backups h @ [(ne_stamp env, content)]\<rparr>)))"

definition apply_try_mode :: "node_config \<Rightarrow> node_env \<Rightarrow> string \<Rightarrow> string option \<Rightarrow> node_host \<Rightarrow>
    (node_error + apply_result) \<times> node_host" where
  "apply_try_mode cfg env content snap h =
     (if netplan_path cfg = None then (Inl (Try_Failed ''try mode requires netplan persistence (NETPLAN_DIR unset)''), h)
      else (case backup_existing cfg env h of
          None \<Rightarrow> (Inl Unhandled, h)
        | Some (changes, h1) \<Rightarrow>
            (case write_netplan cfg env content h1 of
               (None, h2) \<Rightarrow> (Inl Unhandled, h2)
             | (Some False, h2) \<Rightarrow> (Inl (Try_Failed (''cannot write netplan file '' @ or_empty (netplan_path cfg) @ ''; aborting try mode'')), h2)
             | (Some True, h2) \<Rightarrow>
                 (case tr_spawn_error (ne_try env) of
                    Some exc \<Rightarrow> (Inl (Try_Failed (''cannot spawn netplan try: '' @ exc)), h2)
                  | None \<Rightarrow> (let probes = run_health_probes cfg env;
                            oc = try_outcome (ne_try env) (list_all pr_ok probes) in
                        (Inr \<lparr>res_success = (oc = Accepted),
                           res_changes = changes @ [\<lparr>ch_iface = ''*'', ch_action = ''netplan'',
                             ch_detail = ''netplan try exited '' @ string_of_int (try_exit (ne_try env)) @ '': '' @ outcome_text oc
                               @ try_stderr_text (ne_try env),
                             ch_ok = (oc = Accepted)\<rparr>],
                           res_written = True, res_message = try_message oc probes, res_try = True,
                           res_probes = probes, res_outcome = Some oc, res_snapshot = snap\<rparr>, h2))))))"

section \<open>Live mode\<close>

fun run_steps :: "node_env \<Rightarrow> planned_step list \<Rightarrow> apply_change list \<times> string list list \<times> bool" where
  "run_steps env [] = ([], [], True)"
| "run_steps env (s # ss) =
     (let (changes, cmds, ok) = run_steps env ss in
      if st_argv s = [] then
        (\<lparr>ch_iface = st_iface s, ch_action = st_action s, ch_detail = st_detail s, ch_ok = True\<rparr> # changes, cmds, ok)
      else (let (rc, out, err) = run_command (ne_ip env (st_argv s)) in
        (\<lparr>ch_iface = st_iface s, ch_action = st_action s,
           ch_detail = st_detail s @ (if rc = 0 then [] else '' '' @ em_dash @ '' failed: '' @ err), ch_ok = (rc = 0)\<rparr> # changes,
         st_argv s # cmds, rc = 0 \<and> ok)))"

definition apply_live :: "node_config \<Rightarrow> node_env \<Rightarrow> planned_step list \<Rightarrow> string \<Rightarrow> string option \<Rightarrow> node_host \<Rightarrow>
    (node_error + apply_result) \<times> node_host" where
  "apply_live cfg env planned content snap h =
     (let (changes, cmds, ok) = run_steps env planned; h1 = h\<lparr>nh_commands := nh_commands h @ cmds\<rparr> in
      case write_netplan cfg env content h1 of
        (None, h2) \<Rightarrow> (Inl Unhandled, h2)
      | (Some written, h2) \<Rightarrow>
          (let lost = (\<not> written \<and> netplan_path cfg \<noteq> None); success = (ok \<and> \<not> lost) in
           (Inr \<lparr>res_success = success,
              res_changes = changes @ (if lost then [\<lparr>ch_iface = ''*'', ch_action = ''netplan'',
                ch_detail = ''netplan file not written ('' @ or_empty (netplan_path cfg) @ '' unavailable); changes are live-only'', ch_ok = False\<rparr>] else []),
              res_written = written,
              res_message = (if success then ''interface configuration applied'' else ''apply completed with errors''),
              res_try = False, res_probes = [], res_outcome = None, res_snapshot = snap\<rparr>, h2)))"

section \<open>The apply\<close>

definition netplan_source :: "node_config \<Rightarrow> node_host \<Rightarrow> (string \<times> string) list option" where
  "netplan_source cfg h = (if nc_netplan_dir cfg = [] then None else nh_files h)"

definition planned_for :: "node_config \<Rightarrow> node_env \<Rightarrow> node_host \<Rightarrow> iface_config list \<Rightarrow> bool \<Rightarrow> node_error + planned_step list" where
  "planned_for cfg env h cs force =
     (case (discover (ne_addrs env) (ne_routes env), ne_links env) of
        (Some (ifs, dflt_if, dflt_gw), Some links) \<Rightarrow>
          (case plan_changes ifs dflt_if dflt_gw cs of
             Inl e \<Rightarrow> Inl (Plan_Invalid e)
           | Inr steps \<Rightarrow>
               (case guard_plan steps dflt_if force of
                  Some msg \<Rightarrow> Inl (Plan_Refused msg)
                | None \<Rightarrow>
                    (case check_wan_guardrails \<lparr>gc_steps = steps, gc_desired = cs, gc_links = links,
                         gc_readable = ne_readable env, gc_files = netplan_source cfg h,
                         gc_old = read_existing_netplan cfg env h, gc_new = Some (render_netplan cs),
                         gc_wan_ip = nc_wan_ip cfg\<rparr> of
                       Some g \<Rightarrow> Inl (Guardrail_Refused g)
                     | None \<Rightarrow> Inr steps)))
      | _ \<Rightarrow> Inl Discovery_Failed)"

definition apply_interfaces :: "node_config \<Rightarrow> node_env \<Rightarrow> iface_config list \<Rightarrow> bool \<Rightarrow> bool \<Rightarrow> node_host \<Rightarrow>
    (node_error + apply_result) \<times> node_host" where
  "apply_interfaces cfg env cs force try_mode h =
     (case planned_for cfg env h cs force of
        Inl e \<Rightarrow> (Inl e, h)
      | Inr steps \<Rightarrow>
          (case snapshot_netplan (netplan_source cfg h) (ne_rm_ok env) (ne_stamp env) (nh_snapshots h) of
             (Inl u, snaps) \<Rightarrow> (Inl Snapshot_Exists, h)
           | (Inr snap, snaps) \<Rightarrow>
               (if try_mode then apply_try_mode cfg env (render_netplan cs) snap (h\<lparr>nh_snapshots := snaps\<rparr>)
                else apply_live cfg env steps (render_netplan cs) snap (h\<lparr>nh_snapshots := snaps\<rparr>))))"

text \<open>The endpoint: the key check (503 without a configured key), the body validation (422), then the
  status of each error; an error that is no \<open>ValueError\<close> is an unhandled 500.\<close>

definition require_instance_key :: "node_config \<Rightarrow> string option \<Rightarrow> nat option" where
  "require_instance_key cfg provided =
     (case nc_key cfg of
        None \<Rightarrow> Some 503
      | Some k \<Rightarrow> if or_empty provided = k then None else Some 401)"

definition error_status :: "node_error \<Rightarrow> nat" where
  "error_status e =
     (case e of Plan_Refused m \<Rightarrow> 409 | Guardrail_Refused g \<Rightarrow> 400 | Plan_Invalid p \<Rightarrow> 400 | Try_Failed m \<Rightarrow> 400 | _ \<Rightarrow> 500)"

definition api_apply :: "node_config \<Rightarrow> node_env \<Rightarrow> string option \<Rightarrow> iface_config list \<Rightarrow> bool \<Rightarrow> bool \<Rightarrow> node_host \<Rightarrow>
    nat \<times> node_host" where
  "api_apply cfg env provided cs force try_mode h =
     (case require_instance_key cfg provided of
        Some code \<Rightarrow> (code, h)
      | None \<Rightarrow>
          (if \<not> valid_apply_request cs then (422, h)
           else (case apply_interfaces cfg env cs force try_mode h of
               (Inl e, h') \<Rightarrow> (error_status e, h')
             | (Inr res, h') \<Rightarrow> (200, h'))))"

text \<open>
  Properties of the node agent's apply: no command gets past the guards, a refusal changes nothing,
  and when try mode commits.
\<close>

section \<open>Shape of planned steps\<close>

definition step_shape :: "planned_step \<Rightarrow> bool" where
  "step_shape s \<longleftrightarrow>
     (st_argv s = [''route'', ''del'', ''default''] \<longrightarrow> st_action s = ''gateway'' \<and> st_detail s = ''remove default route'')
     \<and> (take 2 (st_argv s) = [''addr'', ''del''] \<longrightarrow> st_action s = ''stale-address'' \<and> 3 \<le> length (st_argv s))
     \<and> (st_argv s \<noteq> [] \<longrightarrow> st_action s \<in> {''address'', ''stale-address'', ''gateway'', ''link'', ''mtu''})"

lemma shapes:
  "s \<in> set (address_steps c want cur) \<Longrightarrow> step_shape s" "s \<in> set (mtu_steps c cur) \<Longrightarrow> step_shape s"
  "s \<in> set (link_steps c cur) \<Longrightarrow> step_shape s" "s \<in> set (gateway_steps c dflt_if dflt_gw) \<Longrightarrow> step_shape s"
  "s \<in> set (note_steps c) \<Longrightarrow> step_shape s"
  by (auto simp: step_shape_def address_steps_def remove_step_def step_defs Let_def split: option.splits if_splits)

lemma plan_iface_steps:
  "plan_iface live dflt_if dflt_gw c = Inr ss \<Longrightarrow> s \<in> set ss \<Longrightarrow> step_shape s"
  by (auto simp: plan_iface_def split: option.splits sum.splits intro: shapes)

lemma plan_steps:
  "plan_changes live dflt_if dflt_gw cs = Inr steps \<Longrightarrow> s \<in> set steps \<Longrightarrow> step_shape s"
  using plan_all_member[OF plan_changes_all] plan_iface_steps by blast

text \<open>The commands on routes: the default route is deleted, or replaced by the gateway requested.\<close>

fun on_routes :: "string list \<Rightarrow> bool" where
  "on_routes [] = False"
| "on_routes (a # as) = (a = ''route'')"

definition route_shape :: "iface_config list \<Rightarrow> planned_step \<Rightarrow> bool" where
  "route_shape cs s \<longleftrightarrow> st_argv s = [''route'', ''del'', ''default'']
     \<or> (\<exists>c\<in>set cs. \<exists>g. manage_address c \<and> ic_gateway c = Some g \<and> st_iface s = ic_name c \<and> st_action s = ''gateway''
          \<and> st_argv s = [''route'', ''replace'', ''default'', ''via'', g, ''dev'', ic_name c])"

lemma gateway_route: "s \<in> set (gateway_steps c dflt_if dflt_gw) \<Longrightarrow> route_shape [c] s"
  by (cases "ic_gateway c") (auto simp: route_shape_def step_defs or_empty_def Let_def split: if_splits)

lemma no_route_steps:
  "s \<in> set (address_steps c want cur) \<Longrightarrow> \<not> on_routes (st_argv s)" "s \<in> set (mtu_steps c cur) \<Longrightarrow> \<not> on_routes (st_argv s)"
  "s \<in> set (link_steps c cur) \<Longrightarrow> \<not> on_routes (st_argv s)" "s \<in> set (note_steps c) \<Longrightarrow> \<not> on_routes (st_argv s)"
  by (auto simp: address_steps_def remove_step_def step_defs Let_def split: option.splits if_splits)

lemmas route_shapes = gateway_route no_route_steps

lemma plan_iface_routes:
  "plan_iface live dflt_if dflt_gw c = Inr ss \<Longrightarrow> s \<in> set ss \<Longrightarrow> on_routes (st_argv s) \<Longrightarrow> route_shape [c] s"
  by (auto simp: plan_iface_def split: option.splits sum.splits dest: route_shapes)

lemma plan_routes:
  "plan_changes live dflt_if dflt_gw cs = Inr steps \<Longrightarrow> s \<in> set steps \<Longrightarrow> on_routes (st_argv s) \<Longrightarrow> route_shape cs s"
  using plan_all_member[OF plan_changes_all] plan_iface_routes by (fastforce simp: route_shape_def)

lemma first_some_None: "first_some f xs = None \<longleftrightarrow> (\<forall>x\<in>set xs. f x = None)"
  by (induction xs) (auto split: option.splits)

lemma guard_plan_None:
  "guard_plan steps dflt False = None \<Longrightarrow> s \<in> set steps \<Longrightarrow> dflt = Some (st_iface s) \<Longrightarrow>
     st_action s \<notin> {''address'', ''stale-address'', ''gateway'', ''link''}"
  by (auto simp: guard_plan_def touching_def filter_empty_conv split: if_splits)

lemma check_step_None:
  assumes "check_step wan links s = None"
  shows "st_action s = ''stale-address'' \<Longrightarrow> 3 \<le> length (st_argv s) \<Longrightarrow> st_argv s ! 2 \<notin> {wan, wan_bare wan}"
    "st_action s = ''gateway'' \<Longrightarrow> st_detail s \<noteq> ''remove default route''"
    "link_master links (st_iface s) = Some m \<Longrightarrow> \<not> bridge_master m"
proof -
  have "contains ''remove default route'' ''remove default route''" by code_simp
  with assms show "st_action s = ''gateway'' \<Longrightarrow> st_detail s \<noteq> ''remove default route''"
    by (auto simp: check_step_def split: if_splits)
qed (use assms in \<open>auto simp: check_step_def split: if_splits option.splits\<close>)

lemma run_steps_commands: "run_steps env ss = (changes, cmds, ok) \<Longrightarrow> c \<in> set cmds \<Longrightarrow> \<exists>s\<in>set ss. st_argv s = c \<and> c \<noteq> []"
  by (induction ss arbitrary: changes cmds ok) (auto split: prod.splits if_splits)

lemma write_netplan_frame:
  "nh_commands (snd (write_netplan cfg env content h)) = nh_commands h"
  "nh_backups (snd (write_netplan cfg env content h)) = nh_backups h"
  "nh_snapshots (snd (write_netplan cfg env content h)) = nh_snapshots h"
  by (auto simp: write_netplan_def split: option.splits write_outcome.splits)

lemma backup_frame:
  "backup_existing cfg env h = Some (changes, h1) \<Longrightarrow> nh_commands h1 = nh_commands h \<and> nh_files h1 = nh_files h
     \<and> (\<forall>old. managed_file cfg h = Some old \<longrightarrow> (ne_stamp env, old) \<in> set (nh_backups h1))"
  by (auto simp: backup_existing_def split: option.splits if_splits)

lemma try_commands: "nh_commands (snd (apply_try_mode cfg env content snap h)) = nh_commands h"
proof (cases "backup_existing cfg env h")
  case (Some p)
  obtain changes h1 where p: "backup_existing cfg env h = Some (changes, h1)" using Some by (cases p) auto
  show ?thesis using backup_frame[OF p] write_netplan_frame(1)[of cfg env content h1] p
    by (auto simp: apply_try_mode_def Let_def split: prod.splits option.splits bool.splits)
qed (auto simp: apply_try_mode_def)

lemma live_commands:
  assumes "run_steps env planned = (changes, cmds, ok)"
  shows "nh_commands (snd (apply_live cfg env planned content snap h)) = nh_commands h @ cmds"
  using write_netplan_frame(1)[of cfg env content "h\<lparr>nh_commands := nh_commands h @ cmds\<rparr>"] assms
  by (auto simp: apply_live_def Let_def split: prod.splits option.splits)

lemma planned_forD:
  assumes "planned_for cfg env h cs force = Inr steps"
  obtains ifs dflt_if dflt_gw links where
    "discover (ne_addrs env) (ne_routes env) = Some (ifs, dflt_if, dflt_gw)" "ne_links env = Some links"
    "plan_changes ifs dflt_if dflt_gw cs = Inr steps" "guard_plan steps dflt_if force = None"
    "\<forall>s\<in>set steps. check_step (nc_wan_ip cfg) links s = None"
  using assms by (auto simp: planned_for_def check_wan_guardrails_def first_some_None
      split: prod.splits option.splits sum.splits)

section \<open>Properties\<close>

text \<open>C14: What gets past the guards of an interface apply. Every command it runs comes from a live apply and is a
  step of the plan for the state just read. It is never the deletion of the default route; it removes no address whose
  text is that of the WAN address as configured, with or without its prefix (the address with another prefix length has another
  text and is not protected); its interface is not enslaved to a docker bridge; and without \<open>force\<close> it changes of the
  interface that carries the default route at most the MTU. A command on routes replaces the default route by the gateway
  requested for an interface, which without \<open>force\<close> is another one than the interface that carries it now: so the default
  route as such is not protected, and \<open>default_route_moves_unforced\<close> shows that it moves.\<close>

theorem applied_commands_guarded:
  "apply_interfaces cfg env cs force try_mode h = (r, h') \<Longrightarrow>
   argv \<in> set (drop (length (nh_commands h)) (nh_commands h')) \<Longrightarrow>
   discover (ne_addrs env) (ne_routes env) = Some (ifs, dflt_if, dflt_gw) \<Longrightarrow> ne_links env = Some links \<Longrightarrow>
     \<not> try_mode \<and> argv \<noteq> [''route'', ''del'', ''default'']
     \<and> (take 2 argv = [''addr'', ''del''] \<longrightarrow> argv ! 2 \<noteq> nc_wan_ip cfg \<and> argv ! 2 \<noteq> wan_bare (nc_wan_ip cfg))
     \<and> (on_routes argv \<longrightarrow> (\<exists>c\<in>set cs. \<exists>g. manage_address c \<and> ic_gateway c = Some g
          \<and> argv = [''route'', ''replace'', ''default'', ''via'', g, ''dev'', ic_name c] \<and> (\<not> force \<longrightarrow> dflt_if \<noteq> Some (ic_name c))))
     \<and> (\<exists>steps s. plan_changes ifs dflt_if dflt_gw cs = Inr steps \<and> s \<in> set steps \<and> st_argv s = argv
          \<and> (\<forall>m. link_master links (st_iface s) = Some m \<longrightarrow> \<not> bridge_master m)
          \<and> (\<not> force \<longrightarrow> dflt_if = Some (st_iface s) \<longrightarrow> st_action s = ''mtu''))"
proof -
  assume run: "apply_interfaces cfg env cs force try_mode h = (r, h')"
    and argv: "argv \<in> set (drop (length (nh_commands h)) (nh_commands h'))"
    and d: "discover (ne_addrs env) (ne_routes env) = Some (ifs, dflt_if, dflt_gw)" "ne_links env = Some links"
  from run argv obtain steps where p: "planned_for cfg env h cs force = Inr steps"
    by (cases "planned_for cfg env h cs force") (auto simp: apply_interfaces_def)
  from planned_forD[OF p] d have pl: "plan_changes ifs dflt_if dflt_gw cs = Inr steps" "guard_plan steps dflt_if force = None"
    "\<forall>s\<in>set steps. check_step (nc_wan_ip cfg) links s = None" by auto
  obtain changes cmds ok where rs: "run_steps env steps = (changes, cmds, ok)" by (cases "run_steps env steps") auto
  have "\<not> try_mode \<and> argv \<in> set cmds"
  proof (cases "snapshot_netplan (netplan_source cfg h) (ne_rm_ok env) (ne_stamp env) (nh_snapshots h)")
    case (Pair res snaps)
    show ?thesis
    proof (cases res)
      case (Inl u)
      with run argv p Pair show ?thesis by (simp add: apply_interfaces_def)
    next
      case (Inr snap)
      let ?h = "h\<lparr>nh_snapshots := snaps\<rparr>"
      have "h' = snd (if try_mode then apply_try_mode cfg env (render_netplan cs) snap ?h
                      else apply_live cfg env steps (render_netplan cs) snap ?h)"
        using run p Pair Inr by (simp add: apply_interfaces_def)
      with argv try_commands[of cfg env _ snap ?h] live_commands[OF rs, of cfg _ snap ?h]
      show ?thesis by (auto split: if_splits)
    qed
  qed
  then have cmds: "\<not> try_mode" "argv \<in> set cmds" by auto
  then obtain s where s: "s \<in> set steps" "st_argv s = argv" "argv \<noteq> []" using run_steps_commands[OF rs] by blast
  note shape = plan_steps[OF pl(1) s(1), unfolded step_shape_def] and chk = check_step_None[OF pl(3)[rule_format, OF s(1)]]
  have "\<not> force \<longrightarrow> dflt_if = Some (st_iface s) \<longrightarrow> st_action s = ''mtu''"
    using guard_plan_None pl(2) s shape by fastforce
  moreover have "argv \<noteq> [''route'', ''del'', ''default'']" using s shape chk by blast
  moreover have "on_routes argv \<longrightarrow> route_shape cs s" using plan_routes[OF pl(1) s(1)] s(2) by simp
  moreover have "st_action s = ''gateway'' \<longrightarrow> \<not> force \<longrightarrow> dflt_if \<noteq> Some (st_iface s)"
    using guard_plan_None pl(2) s by fastforce
  ultimately have route: "on_routes argv \<longrightarrow> (\<exists>c\<in>set cs. \<exists>g. manage_address c \<and> ic_gateway c = Some g
      \<and> argv = [''route'', ''replace'', ''default'', ''via'', g, ''dev'', ic_name c] \<and> (\<not> force \<longrightarrow> dflt_if \<noteq> Some (ic_name c)))"
    using s(2) unfolding route_shape_def by metis
  from \<open>\<not> force \<longrightarrow> dflt_if = Some (st_iface s) \<longrightarrow> st_action s = ''mtu''\<close> show ?thesis using cmds s pl(1) shape chk route by blast
qed

text \<open>A host with one interface, everything working, and a request that changes its MTU.\<close>

definition lab_config :: node_config where
  "lab_config = \<lparr>nc_key = Some ''k'', nc_netplan_dir = ''/etc/netplan'', nc_netplan_file = ''60-viswall.yaml'',
     nc_state_dir = ''/var/lib/viswall-node'', nc_ssh_port = 22, nc_gateway_url = ''http://127.0.0.1:8010/health'',
     nc_ping_target = ''46.4.63.193'', nc_wan_ip = ''46.4.63.216/32''\<rparr>"

definition lab_env :: node_env where
  "lab_env = \<lparr>ne_addrs = Some [\<lparr>ar_ifname = Some ''eth0'', ar_operstate = Some ''UP'', ar_flags = [''UP''], ar_mtu = Some 1500,
       ar_mac = None, ar_info = [\<lparr>ai_local = Some ''10.0.0.5'', ai_prefixlen = Some 24, ai_family = Some ''inet''\<rparr>]\<rparr>],
     ne_routes = Some [\<lparr>rr_dst = Some ''default'', rr_dev = Some ''eth0'', rr_gateway = Some ''10.0.0.1''\<rparr>],
     ne_links = Some [], ne_readable = (\<lambda>f. True), ne_rm_ok = (\<lambda>d. True), ne_stamp = ''20250101'',
     ne_write = Write_Ok, ne_backup_ok = True, ne_ip = (\<lambda>a. Ended 0 '''' ''''),
     ne_ss = Ended 0 ''LISTEN 0 128 0.0.0.0:22 0.0.0.0:*'' '''', ne_curl = Ended 0 '''' '''', ne_ping = Ended 1 '''' ''no reply'',
     ne_try = \<lparr>tr_spawn_error = None, tr_stdin = True, tr_drain = True, tr_exit = Some 0, tr_stderr = ''''\<rparr>\<rparr>"

definition lab_host :: node_host where
  "lab_host = \<lparr>nh_files = Some [(''60-viswall.yaml'', ''old'')], nh_backups = [], nh_snapshots = [], nh_commands = []\<rparr>"

definition jumbo_request :: "iface_config list" where
  "jumbo_request = [eth0_config\<lparr>ic_mtu := Some 9000\<rparr>]"

theorem applied_commands_guarded_witness:
  "nh_commands (snd (apply_interfaces lab_config lab_env jumbo_request False False lab_host))
     = [[''link'', ''set'', ''dev'', ''eth0'', ''mtu'', ''9000'']]
   \<and> (\<exists>steps s. plan_changes [eth0_live] (Some ''eth0'') (Some ''10.0.0.1'') jumbo_request = Inr steps \<and> s \<in> set steps
        \<and> st_action s = ''mtu'')"
proof -
  let ?a = "apply_interfaces lab_config lab_env jumbo_request False False lab_host"
  have c: "nh_commands (snd ?a) = [[''link'', ''set'', ''dev'', ''eth0'', ''mtu'', ''9000'']]" by code_simp
  then have m: "[''link'', ''set'', ''dev'', ''eth0'', ''mtu'', ''9000''] \<in> set (drop (length (nh_commands lab_host)) (nh_commands (snd ?a)))"
    by (simp add: lab_host_def)
  have "discover (ne_addrs lab_env) (ne_routes lab_env) = Some ([eth0_live], Some ''eth0'', Some ''10.0.0.1'')"
    by (simp add: lab_env_def discover_def eth0_live_def)
  moreover have "ne_links lab_env = Some []" by (simp add: lab_env_def)
  ultimately obtain steps s where s: "plan_changes [eth0_live] (Some ''eth0'') (Some ''10.0.0.1'') jumbo_request = Inr steps"
    "s \<in> set steps" "Some ''eth0'' = Some (st_iface s) \<longrightarrow> st_action s = ''mtu''"
    using applied_commands_guarded[OF prod.collapse[symmetric] m] by blast
  have "st_iface s = ''eth0''"
    using plan_all_member[OF plan_changes_all[OF s(1)], of s] s(2) plan_iface_iface
    by (auto simp: jumbo_request_def eth0_config_def)
  with c s show ?thesis by auto
qed

text \<open>The guardrail of the WAN address compares texts: configured with the prefix length 32 and present on the host with
  another one, the address is removed, even without \<open>force\<close>.\<close>

definition two_nics_env :: node_env where
  "two_nics_env = lab_env\<lparr>ne_addrs := map_option (\<lambda>rows. rows @ [\<lparr>ar_ifname = Some ''wan1'', ar_operstate = Some ''UP'', ar_flags = [''UP''],
     ar_mtu = Some 1500, ar_mac = None,
     ar_info = [\<lparr>ai_local = Some ''46.4.63.216'', ai_prefixlen = Some 26, ai_family = Some ''inet''\<rparr>]\<rparr>]) (ne_addrs lab_env)\<rparr>"

lemma wan_address_other_prefix_removed:
  "[''addr'', ''del'', ''46.4.63.216/26'', ''dev'', ''wan1'']
     \<in> set (nh_commands (snd (apply_interfaces lab_config two_nics_env [eth0_config\<lparr>ic_name := ''wan1'', ic_enabled := False\<rparr>] False False lab_host)))"
  by code_simp

text \<open>A refused apply changes nothing at all: when discovery, planning, the soft guard or a guardrail
  refuses, or the snapshot directory already exists, no command ran and no file was written.\<close>

theorem apply_refusal_changes_nothing:
  "apply_interfaces cfg env cs force try_mode h = (Inl e, h') \<Longrightarrow>
   e \<noteq> Unhandled \<Longrightarrow> (\<forall>m. e \<noteq> Try_Failed m) \<Longrightarrow> h' = h"
proof -
  assume r: "apply_interfaces cfg env cs force try_mode h = (Inl e, h')" "e \<noteq> Unhandled" "\<forall>m. e \<noteq> Try_Failed m"
  have "fst (apply_try_mode cfg env content snap st) \<noteq> Inl e" for content snap st
    using r(2,3) by (auto simp: apply_try_mode_def Let_def split: prod.splits option.splits bool.splits)
  moreover have "fst (apply_live cfg env planned content snap st) \<noteq> Inl e" for planned content snap st
    using r(2) by (auto simp: apply_live_def Let_def split: prod.splits option.splits)
  ultimately show ?thesis using r(1)
    by (auto simp: apply_interfaces_def split: sum.splits prod.splits if_splits) (metis fst_conv)+
qed

theorem apply_refusal_changes_nothing_witness:
  "snd (apply_interfaces lab_config lab_env [eth0_config\<lparr>ic_enabled := False\<rparr>] False False lab_host) = lab_host"
proof -
  let ?a = "apply_interfaces lab_config lab_env [eth0_config\<lparr>ic_enabled := False\<rparr>] False False lab_host"
  have "(case fst ?a of Inl (Plan_Refused m) \<Rightarrow> True | _ \<Rightarrow> False)" by code_simp
  then obtain m where "fst ?a = Inl (Plan_Refused m)" by (auto split: sum.splits node_error.splits)
  then have "?a = (Inl (Plan_Refused m), snd ?a)" by (metis prod.collapse)
  from apply_refusal_changes_nothing[OF this] show ?thesis by simp
qed

text \<open>Try mode commits exactly when every probe passed, the confirmation was taken and the
  \<open>netplan try\<close> process exited with zero; no \<open>ip\<close> command is run. In every case, also when the change was reverted, the
  managed file holds the new rendering afterwards: the previous text is only in the backup.\<close>

theorem try_mode_commits:
  "apply_try_mode cfg env content snap h = (Inr res, h') \<Longrightarrow>
     (res_success res \<longleftrightarrow> (\<forall>p\<in>set (run_health_probes cfg env). pr_ok p) \<and> tr_stdin (ne_try env) \<and> tr_drain (ne_try env)
          \<and> tr_exit (ne_try env) = Some 0)
     \<and> (res_outcome res = Some Accepted \<longleftrightarrow> res_success res)
     \<and> (res_outcome res = Some Reverted \<longrightarrow> (\<exists>p\<in>set (res_probes res). \<not> pr_ok p))
     \<and> nh_commands h' = nh_commands h
     \<and> managed_file cfg h' = Some content
     \<and> (\<forall>old. managed_file cfg h = Some old \<longrightarrow> (ne_stamp env, old) \<in> set (nh_backups h'))"
proof -
  assume a: "apply_try_mode cfg env content snap h = (Inr res, h')"
  then obtain changes h1 where b: "backup_existing cfg env h = Some (changes, h1)"
    by (auto simp: apply_try_mode_def split: if_splits option.splits)
  have w: "write_netplan cfg env content h1 = (Some True, h')"
    using a b by (auto simp: apply_try_mode_def Let_def split: if_splits option.splits prod.splits bool.splits)
  have res: "res_success res = (try_outcome (ne_try env) (list_all pr_ok (run_health_probes cfg env)) = Accepted)"
    "res_outcome res = Some (try_outcome (ne_try env) (list_all pr_ok (run_health_probes cfg env)))"
    "res_probes res = run_health_probes cfg env"
    using a b w by (auto simp: apply_try_mode_def Let_def split: if_splits option.splits)
  have o: "try_outcome t ok = Accepted \<longleftrightarrow> ok \<and> tr_stdin t \<and> tr_drain t \<and> tr_exit t = Some 0"
    "try_outcome t ok = Reverted \<Longrightarrow> \<not> ok" for t ok
    by (auto simp: try_outcome_def confirm_step_def try_exit_def split: option.splits if_splits)
  have "managed_file cfg h' = Some content"
    using w by (auto simp: write_netplan_def managed_file_def map_of_dict_put split: if_splits option.splits write_outcome.splits)
  moreover have "nh_commands h' = nh_commands h" "nh_backups h' = nh_backups h1"
    using write_netplan_frame[of cfg env content h1] backup_frame[OF b] w by auto
  ultimately show ?thesis using res o backup_frame[OF b] by (simp add: list_all_iff) blast
qed

theorem try_mode_commits_witness:
  "(\<exists>res h'. apply_interfaces lab_config lab_env jumbo_request False True lab_host = (Inr res, h')
      \<and> \<not> res_success res \<and> res_outcome res = Some Reverted \<and> managed_file lab_config h' = Some (render_netplan jumbo_request))"
proof -
  let ?h = "lab_host\<lparr>nh_snapshots := [(''20250101'', [(''60-viswall.yaml'', ''old'')])]\<rparr>"
  let ?t = "apply_try_mode lab_config lab_env (render_netplan jumbo_request) (Some ''20250101'') ?h"
  have p: "\<exists>steps. planned_for lab_config lab_env lab_host jumbo_request False = Inr steps"
  proof -
    have "\<not> isl (planned_for lab_config lab_env lab_host jumbo_request False)" by code_simp
    then show ?thesis by (cases "planned_for lab_config lab_env lab_host jumbo_request False") auto
  qed
  have "snapshot_netplan (netplan_source lab_config lab_host) (ne_rm_ok lab_env) (ne_stamp lab_env) (nh_snapshots lab_host)
      = (Inr (Some ''20250101''), [(''20250101'', [(''60-viswall.yaml'', ''old'')])])" by code_simp
  with p have eq: "apply_interfaces lab_config lab_env jumbo_request False True lab_host = ?t"
    by (auto simp: apply_interfaces_def)
  have "(case fst ?t of Inr r \<Rightarrow> res_outcome r = Some Reverted | Inl e \<Rightarrow> False)" by code_simp
  then obtain res where r: "fst ?t = Inr res" "res_outcome res = Some Reverted" by (auto split: sum.splits)
  then have t: "?t = (Inr res, snd ?t)" by (metis prod.collapse)
  from try_mode_commits[OF this] r(2) have "managed_file lab_config (snd ?t) = Some (render_netplan jumbo_request)" "\<not> res_success res"
    by auto
  with t r(2) eq show ?thesis by auto
qed

end
