(* ===== verification/Gw_Base.thy ===== *)
theory Gw_Base
  imports Py_Base "HOL-Library.Product_Lexorder"
begin

text \<open>
  What the routers of the API gateway share: database tables, JSON bodies, the token checks
  (\<open>shared/security.py\<close>), the audit log (\<open>shared/audit_logger.py\<close>), the lookup of an agent's
  endpoint and the outcome of a request to it (\<open>utils/agent_client.py\<close>).

  A table is the list of its rows with their primary keys, in insertion order, and the next key of
  its sequence. The database itself is not modelled further: a commit always succeeds.
\<close>

section \<open>Tables\<close>

record 'r table =
  tb_rows :: "(nat \<times> 'r) list"
  tb_next :: nat

definition empty_table :: "'r table" where
  "empty_table = \<lparr>tb_rows = [], tb_next = 1\<rparr>"

definition row_get :: "'r table \<Rightarrow> nat \<Rightarrow> 'r option" where
  "row_get t k = map_of (tb_rows t) k"

definition row_add :: "'r \<Rightarrow> 'r table \<Rightarrow> nat \<times> 'r table" where
  "row_add r t = (tb_next t, t\<lparr>tb_rows := tb_rows t @ [(tb_next t, r)], tb_next := Suc (tb_next t)\<rparr>)"

definition row_set :: "nat \<Rightarrow> 'r \<Rightarrow> 'r table \<Rightarrow> 'r table" where
  "row_set k r t = t\<lparr>tb_rows := map (\<lambda>(i, q). if i = k then (i, r) else (i, q)) (tb_rows t)\<rparr>"

definition row_del :: "nat \<Rightarrow> 'r table \<Rightarrow> 'r table" where
  "row_del k t = t\<lparr>tb_rows := filter (\<lambda>e. fst e \<noteq> k) (tb_rows t)\<rparr>"

definition rows_where :: "('r \<Rightarrow> bool) \<Rightarrow> 'r table \<Rightarrow> (nat \<times> 'r) list" where
  "rows_where p t = filter (\<lambda>e. p (snd e)) (tb_rows t)"

text \<open>Keys are distinct and below the next key of the sequence.\<close>

definition table_ok :: "'r table \<Rightarrow> bool" where
  "table_ok t \<longleftrightarrow> distinct (map fst (tb_rows t)) \<and> (\<forall>e\<in>set (tb_rows t). fst e < tb_next t)"

text \<open>The contract of a keyed store, as the routers use it.\<close>

locale row_store =
  fixes get :: "'t \<Rightarrow> nat \<Rightarrow> 'r option"
    and add :: "'r \<Rightarrow> 't \<Rightarrow> nat \<times> 't"
    and put :: "nat \<Rightarrow> 'r \<Rightarrow> 't \<Rightarrow> 't"
    and del :: "nat \<Rightarrow> 't \<Rightarrow> 't"
    and ok :: "'t \<Rightarrow> bool"
  assumes add_fresh: "ok t \<Longrightarrow> add r t = (k, t') \<Longrightarrow> get t k = None"
    and get_add: "ok t \<Longrightarrow> add r t = (k, t') \<Longrightarrow> get t' i = (if i = k then Some r else get t i)"
    and get_put: "get (put k r t) i = (if i = k \<and> get t k \<noteq> None then Some r else get t i)"
    and get_del: "get (del k t) i = (if i = k then None else get t i)"
    and ok_add: "ok t \<Longrightarrow> add r t = (k, t') \<Longrightarrow> ok t'"
    and ok_put: "ok t \<Longrightarrow> ok (put k r t)"
    and ok_del: "ok t \<Longrightarrow> ok (del k t)"
begin

lemma added_keeps: "ok t \<Longrightarrow> add r t = (k, t') \<Longrightarrow> get t i = Some q \<Longrightarrow> get t' i = Some q"
  using get_add add_fresh by fastforce

lemma put_keeps_others: "i \<noteq> k \<Longrightarrow> get (put k r t) i = get t i"
  by (simp add: get_put)

lemma put_found: "get t k = Some q \<Longrightarrow> get (put k r t) k = Some r"
  by (simp add: get_put)

lemma del_gone: "get (del k t) k = None"
  by (simp add: get_del)

text \<open>A property of every row that an addition or update of a good row keeps.\<close>

lemma all_add:
  "ok t \<Longrightarrow> add r t = (k, t') \<Longrightarrow> (\<forall>i q. get t i = Some q \<longrightarrow> P q) \<Longrightarrow> P r \<Longrightarrow> get t' i = Some q \<Longrightarrow> P q"
  by (auto simp: get_add split: if_splits)

lemma all_put:
  "(\<forall>i q. get t i = Some q \<longrightarrow> P q) \<Longrightarrow> P r \<Longrightarrow> get (put k r t) i = Some q \<Longrightarrow> P q"
  by (auto simp: get_put split: if_splits)

lemma all_del: "(\<forall>i q. get t i = Some q \<longrightarrow> P q) \<Longrightarrow> get (del k t) i = Some q \<Longrightarrow> P q"
  by (auto simp: get_del split: if_splits)

end

lemma map_of_set_row: "map_of (map (\<lambda>(i, q). if i = k then (i, r) else (i, q)) xs) j
    = (if j = k \<and> map_of xs k \<noteq> None then Some r else map_of xs j)"
  by (induction xs) auto

lemma map_of_del_row: "map_of (filter (\<lambda>e. fst e \<noteq> k) xs) j = (if j = k then None else map_of xs j)"
  by (induction xs) auto

interpretation rows: row_store row_get row_add row_set row_del table_ok
proof unfold_locales
  fix t :: "'r table" and r k t' i
  show "row_get (row_set k r t) i = (if i = k \<and> row_get t k \<noteq> None then Some r else row_get t i)"
    by (simp add: row_get_def row_set_def map_of_set_row)
  show "row_get (row_del k t) i = (if i = k then None else row_get t i)"
    by (simp add: row_get_def row_del_def map_of_del_row)
  show "table_ok t \<Longrightarrow> table_ok (row_set k r t)"
    by (auto simp: table_ok_def row_set_def comp_def case_prod_beta if_distrib cong: if_cong)
  show "table_ok t \<Longrightarrow> table_ok (row_del k t)"
    by (auto simp: table_ok_def row_del_def distinct_map_filter)
  assume ok: "table_ok t" and a: "row_add r t = (k, t')"
  have fresh: "tb_next t \<notin> fst ` set (tb_rows t)" using ok by (auto simp: table_ok_def)
  then have none: "map_of (tb_rows t) (tb_next t) = None" by (simp add: map_of_eq_None_iff)
  show "row_get t k = None" using a none by (auto simp: row_add_def row_get_def)
  show "row_get t' i = (if i = k then Some r else row_get t i)"
    using a none by (auto simp: row_add_def row_get_def map_add_def split: option.splits)
  show "table_ok t'" using a ok fresh by (fastforce simp: row_add_def table_ok_def less_Suc_eq)
qed

lemma rows_where_get: "table_ok t \<Longrightarrow> (k, r) \<in> set (rows_where p t) \<longleftrightarrow> row_get t k = Some r \<and> p r"
  by (auto simp: rows_where_def row_get_def table_ok_def)

lemma empty_table_ok [simp]: "table_ok empty_table"
  by (simp add: table_ok_def empty_table_def)

section \<open>JSON bodies\<close>

datatype json = J_Null | J_Bool bool | J_Int int | J_Str string | J_List "json list" | J_Obj "(string \<times> json) list"

text \<open>\<open>_drop_none\<close> and \<open>dict.get\<close>.\<close>

definition drop_none :: "(string \<times> json) list \<Rightarrow> json" where
  "drop_none kvs = J_Obj (filter (\<lambda>f. snd f \<noteq> J_Null) kvs)"

fun key_of :: "json \<Rightarrow> string \<Rightarrow> json option" where
  "key_of (J_Obj kvs) k = map_of kvs k"
| "key_of _ k = None"

fun is_obj :: "json \<Rightarrow> bool" where
  "is_obj (J_Obj kvs) = True"
| "is_obj _ = False"

definition opt_str :: "string option \<Rightarrow> json" where
  "opt_str s = (case s of None \<Rightarrow> J_Null | Some t \<Rightarrow> J_Str t)"

definition opt_int :: "int option \<Rightarrow> json" where
  "opt_int i = (case i of None \<Rightarrow> J_Null | Some n \<Rightarrow> J_Int n)"

definition str_key :: "json \<Rightarrow> string \<Rightarrow> string option" where
  "str_key j k = (case key_of j k of Some (J_Str s) \<Rightarrow> Some s | _ \<Rightarrow> None)"

definition int_key :: "json \<Rightarrow> string \<Rightarrow> int option" where
  "int_key j k = (case key_of j k of Some (J_Int n) \<Rightarrow> Some n | _ \<Rightarrow> None)"

definition bool_key :: "json \<Rightarrow> string \<Rightarrow> bool option" where
  "bool_key j k = (case key_of j k of Some (J_Bool b) \<Rightarrow> Some b | _ \<Rightarrow> None)"

definition list_key :: "json \<Rightarrow> string \<Rightarrow> json list option" where
  "list_key j k = (case key_of j k of Some (J_List xs) \<Rightarrow> Some xs | _ \<Rightarrow> None)"

lemma opt_str_null [simp]: "opt_str s = J_Null \<longleftrightarrow> s = None" by (simp add: opt_str_def split: option.splits)
lemma opt_int_null [simp]: "opt_int i = J_Null \<longleftrightarrow> i = None" by (simp add: opt_int_def split: option.splits)

lemma key_drop_none:
  "distinct (map fst kvs) \<Longrightarrow> key_of (drop_none kvs) k =
     (case map_of kvs k of Some J_Null \<Rightarrow> None | v \<Rightarrow> v)"
proof (induction kvs)
  case (Cons f kvs)
  have "map_of (filter (\<lambda>f. snd f \<noteq> J_Null) kvs) (fst f) = None"
    using Cons.prems by (auto simp: map_of_eq_None_iff)
  with Cons show ?case by (cases f) (auto simp: drop_none_def split: json.splits option.splits)
qed (simp add: drop_none_def)

section \<open>Tokens\<close>

text \<open>A decoded token: its subject and role; \<open>None\<close> when decoding fails. The checks give the user id or
  the status code.\<close>

record token =
  tk_sub :: "nat option"
  tk_role :: "string option"

definition require_auth :: "token option \<Rightarrow> nat + nat" where
  "require_auth t =
     (case t of None \<Rightarrow> Inl 401 | Some p \<Rightarrow> (case tk_sub p of None \<Rightarrow> Inl 401 | Some u \<Rightarrow> Inr u))"

definition require_admin :: "token option \<Rightarrow> nat + nat" where
  "require_admin t =
     (case t of
        None \<Rightarrow> Inl 401
      | Some p \<Rightarrow>
          (case tk_sub p of
             None \<Rightarrow> Inl 401
           | Some u \<Rightarrow> if tk_role p \<in> {Some ''superadmin'', Some ''admin''} then Inr u else Inl 403))"

lemma require_admin_auth: "require_admin t = Inr u \<Longrightarrow> require_auth t = Inr u"
  by (auto simp: require_admin_def require_auth_def split: option.splits if_splits)

section \<open>Audit log\<close>

record audit_entry =
  au_user :: "nat option"
  au_action :: string
  au_type :: string
  au_resource :: "string option"
  au_instance :: "nat option"
  au_new :: "json option"

definition log_audit :: "nat option \<Rightarrow> string \<Rightarrow> string \<Rightarrow> string option \<Rightarrow> nat option \<Rightarrow> json option \<Rightarrow>
    audit_entry list \<Rightarrow> audit_entry list" where
  "log_audit user action rtype rid inst new au =
     au @ [\<lparr>au_user = user, au_action = action, au_type = rtype, au_resource = rid, au_instance = inst, au_new = new\<rparr>]"

definition log_agent_dispatch :: "nat \<Rightarrow> string \<Rightarrow> string \<Rightarrow> string \<Rightarrow> bool \<Rightarrow> string \<Rightarrow> nat option \<Rightarrow>
    audit_entry list \<Rightarrow> audit_entry list" where
  "log_agent_dispatch inst rtype action path ok detail user au =
     log_audit user action rtype (Some (string_of_nat inst)) (Some inst)
       (Some (J_Obj [(''path'', J_Str path), (''status'', J_Str (if ok then ''success'' else ''failed'')),
          (''detail'', if take 300 detail = [] then J_Null else J_Str (take 300 detail))])) au"

section \<open>Instances and agents\<close>

record instance_row =
  in_name :: string
  in_api_endpoint :: string
  in_api_key :: string
  in_endpoints :: "(string \<times> string) list"

record user_row =
  us_role :: string
  us_instances :: "nat list"

datatype agent_error = Connection_Error string | Response_Error nat string | Client_Error string

definition agent_error_text :: "agent_error \<Rightarrow> string" where
  "agent_error_text e =
     (case e of
        Connection_Error m \<Rightarrow> m
      | Response_Error code body \<Rightarrow> ''Agent returned error '' @ string_of_nat code @ '': '' @ body
      | Client_Error m \<Rightarrow> m)"

definition get_instance_endpoint :: "instance_row table \<Rightarrow> nat \<Rightarrow> string option \<Rightarrow> agent_error + string" where
  "get_instance_endpoint insts i service =
     (case row_get insts i of
        None \<Rightarrow> Inl (Client_Error (''Instance '' @ string_of_nat i @ '' not found''))
      | Some r \<Rightarrow>
          (let own = (case service of None \<Rightarrow> None | Some s \<Rightarrow> map_of (in_endpoints r) s) in
           if truthy_str service \<and> truthy_str own then Inr (rstrip_char CHR ''/'' (or_empty own))
           else if in_api_endpoint r = [] then
             Inl (Client_Error (''Instance '' @ string_of_nat i @ '' has no api_endpoint configured''))
           else Inr (rstrip_char CHR ''/'' (in_api_endpoint r))))"

text \<open>How the HTTP exchange ends: no connection, a time-out, an error status, another exception, or a
  JSON answer.\<close>

datatype 'a http_exchange = Http_No_Connection string | Http_Timeout | Http_Status nat string | Http_Other string | Http_Ok 'a

text \<open>\<open>agent_request\<close>: the exchange function gets the URL and the key; the second component of the
  result is the world after the call (unchanged when no request was sent).\<close>

definition agent_request :: "(string \<Rightarrow> string \<Rightarrow> 'w \<Rightarrow> 'a http_exchange \<times> 'w) \<Rightarrow> instance_row table \<Rightarrow> nat \<Rightarrow>
    string \<Rightarrow> string option \<Rightarrow> 'w \<Rightarrow> (agent_error + 'a) \<times> 'w" where
  "agent_request send insts i path service w =
     (case get_instance_endpoint insts i service of
        Inl e \<Rightarrow> (Inl e, w)
      | Inr endpoint \<Rightarrow>
          (let url = endpoint @ path in
           case send url (case row_get insts i of None \<Rightarrow> [] | Some r \<Rightarrow> in_api_key r) w of
             (Http_No_Connection m, w') \<Rightarrow> (Inl (Connection_Error (''Cannot connect to agent at '' @ url @ '': '' @ m)), w')
           | (Http_Timeout, w') \<Rightarrow> (Inl (Connection_Error (''Timeout connecting to agent at '' @ url)), w')
           | (Http_Status code body, w') \<Rightarrow> (Inl (Response_Error code body), w')
           | (Http_Other m, w') \<Rightarrow> (Inl (Client_Error (''Unexpected error calling agent: '' @ m)), w')
           | (Http_Ok a, w') \<Rightarrow> (Inr a, w')))"

end
