(* ===== verification/Gw_Payload.thy ===== *)
theory Gw_Payload
  imports Gw_Base Fw_Deploy
begin

text \<open>
  \<open>utils/firewall_dispatch.py\<close>: the rows of the firewall tables (\<open>shared/models.py\<close>), the JSON body of
  \<open>POST /firewall/apply\<close> built from them, and how the firewall agent reads that body back into the
  records its deployment works on. A column that may be null is an option.
\<close>

section \<open>Rows\<close>

record rule_row =
  ru_instance :: nat
  ru_name :: string
  ru_description :: "string option"
  ru_enabled :: "bool option"
  ru_source_type :: "string option"
  ru_source_value :: "string option"
  ru_dest_type :: "string option"
  ru_dest_value :: "string option"
  ru_protocol :: "string option"
  ru_ports :: "string option"
  ru_action :: "string option"
  ru_log :: "bool option"
  ru_limit :: "string option"
  ru_order :: int

record nat_row =
  na_instance :: nat
  na_name :: string
  na_description :: "string option"
  na_enabled :: "bool option"
  na_type :: "string option"
  na_interface :: "string option"
  na_source_network :: "string option"
  na_dest_network :: "string option"
  na_to_source :: "string option"
  na_to_destination :: "string option"
  na_protocol :: "string option"
  na_ports :: "string option"
  na_order :: int

record routing_row =
  rr_instance :: nat
  rr_name :: string
  rr_enabled :: "bool option"
  rr_source :: "string option"
  rr_dest :: "string option"
  rr_service :: "string option"
  rr_inbound :: "string option"
  rr_gateway :: "string option"
  rr_outbound :: "string option"
  rr_mark :: "int option"
  rr_order :: "int option"

record iface_route =
  it_to :: string
  it_via :: "string option"
  it_on_link :: bool

record iface_row =
  if_instance :: nat
  ir_name :: string
  ir_type :: "string option"
  ir_config_type :: "string option"
  ir_ip :: "string option"
  ir_netmask :: "string option"
  ir_gateway :: "string option"
  ir_mtu :: "int option"
  ir_ip6 :: "string option"
  ir_gateway6 :: "string option"
  ir_dns :: "string list option"
  ir_routes :: "iface_route list option"
  ir_bandwidth_in :: "int option"
  ir_bandwidth_out :: "int option"
  ir_description :: "string option"
  ir_enabled :: "bool option"

record qos_row =
  qo_instance :: nat
  qo_name :: string
  qo_description :: "string option"
  qo_enabled :: "bool option"
  qo_interface :: string
  qo_interface_id :: "nat option"
  qo_algorithm :: "string option"
  qo_download :: int
  qo_upload :: int

record qclass_row =
  cl_policy :: nat
  cl_name :: string
  cl_priority :: "int option"
  cl_min :: int
  cl_max :: int
  cl_ports :: "int list option"
  cl_dscp :: "string option"
  cl_protocol :: "string option"

section \<open>Serialising rows\<close>

definition opt_bool :: "bool option \<Rightarrow> json" where
  "opt_bool b = (case b of None \<Rightarrow> J_Null | Some v \<Rightarrow> J_Bool v)"

definition opt_list :: "('a \<Rightarrow> json) \<Rightarrow> 'a list option \<Rightarrow> json" where
  "opt_list f xs = (case xs of None \<Rightarrow> J_Null | Some ys \<Rightarrow> J_List (map f ys))"

definition route_json :: "iface_route \<Rightarrow> json" where
  "route_json r = J_Obj [(''to'', J_Str (it_to r)), (''via'', opt_str (it_via r)), (''on_link'', J_Bool (it_on_link r))]"

definition interface_payload :: "nat \<times> iface_row \<Rightarrow> json" where
  "interface_payload e = (let (k, i) = e in drop_none
     [(''id'', J_Int (int k)), (''name'', J_Str (ir_name i)), (''type'', opt_str (ir_type i)),
      (''config_type'', opt_str (ir_config_type i)), (''ip_address'', opt_str (ir_ip i)), (''netmask'', opt_str (ir_netmask i)),
      (''gateway'', opt_str (ir_gateway i)), (''mtu'', opt_int (ir_mtu i)), (''bandwidth_in'', opt_int (ir_bandwidth_in i)),
      (''bandwidth_out'', opt_int (ir_bandwidth_out i)), (''description'', opt_str (ir_description i)),
      (''ipv6_address'', opt_str (ir_ip6 i)), (''ipv6_gateway'', opt_str (ir_gateway6 i)),
      (''dns_servers'', opt_list J_Str (ir_dns i)), (''routes'', opt_list route_json (ir_routes i))])"

text \<open>The columns \<open>interface_in\<close> and \<open>interface_out\<close> do not exist, so the guarded reads give null.\<close>

definition rule_payload :: "nat \<times> rule_row \<Rightarrow> json" where
  "rule_payload e = (let (k, r) = e in drop_none
     [(''id'', J_Int (int k)), (''name'', J_Str (ru_name r)), (''source_type'', opt_str (ru_source_type r)),
      (''source_value'', opt_str (ru_source_value r)), (''dest_type'', opt_str (ru_dest_type r)),
      (''dest_value'', opt_str (ru_dest_value r)), (''service_protocol'', opt_str (ru_protocol r)),
      (''service_ports'', opt_str (ru_ports r)), (''action'', opt_str (ru_action r)),
      (''log_enabled'', opt_bool (ru_log r)), (''order_index'', J_Int (ru_order r)), (''limit'', opt_str (ru_limit r)),
      (''interface_in'', J_Null), (''interface_out'', J_Null)])"

definition nat_payload :: "nat \<times> nat_row \<Rightarrow> json" where
  "nat_payload e = (let (k, n) = e in drop_none
     [(''id'', J_Int (int k)), (''name'', J_Str (na_name n)), (''type'', opt_str (na_type n)), (''interface'', opt_str (na_interface n)),
      (''source_network'', opt_str (na_source_network n)), (''dest_network'', opt_str (na_dest_network n)),
      (''to_source'', opt_str (na_to_source n)), (''to_destination'', opt_str (na_to_destination n)),
      (''service_protocol'', opt_str (na_protocol n)), (''service_ports'', opt_str (na_ports n)), (''order_index'', J_Int (na_order n))])"

definition routing_payload :: "nat \<times> routing_row \<Rightarrow> json" where
  "routing_payload e = (let (k, r) = e in drop_none
     [(''id'', J_Int (int k)), (''name'', J_Str (rr_name r)), (''source_network'', opt_str (rr_source r)),
      (''dest_network'', opt_str (rr_dest r)), (''service'', opt_str (rr_service r)), (''inbound_interface'', opt_str (rr_inbound r)),
      (''gateway'', opt_str (rr_gateway r)), (''outbound_interface'', opt_str (rr_outbound r)), (''mark'', opt_int (rr_mark r)),
      (''order_index'', opt_int (rr_order r))])"

definition qos_class_payload :: "nat \<times> qclass_row \<Rightarrow> json" where
  "qos_class_payload e = (let (k, c) = e in drop_none
     [(''id'', J_Int (int k)), (''name'', J_Str (cl_name c)), (''priority'', opt_int (cl_priority c)),
      (''min_rate_kbps'', J_Int (cl_min c)), (''max_rate_kbps'', J_Int (cl_max c)), (''match_ports'', opt_list J_Int (cl_ports c)),
      (''match_dscp'', opt_str (cl_dscp c)), (''match_protocol'', opt_str (cl_protocol c))])"

definition qos_payload :: "(nat \<times> qos_row) \<times> (nat \<times> qclass_row) list \<Rightarrow> json" where
  "qos_payload e = (let ((k, p), cs) = e in drop_none
     [(''id'', J_Int (int k)), (''name'', J_Str (qo_name p)), (''interface'', J_Str (qo_interface p)),
      (''algorithm'', opt_str (qo_algorithm p)), (''download_kbps'', J_Int (qo_download p)), (''upload_kbps'', J_Int (qo_upload p)),
      (''classes'', J_List (map qos_class_payload cs))])"

definition compose_firewall_payload :: "(nat \<times> iface_row) list \<Rightarrow> (nat \<times> rule_row) list \<Rightarrow> (nat \<times> nat_row) list \<Rightarrow>
    (nat \<times> routing_row) list \<Rightarrow> ((nat \<times> qos_row) \<times> (nat \<times> qclass_row) list) list \<Rightarrow> json" where
  "compose_firewall_payload ifs rs ns ros qs = J_Obj
     [(''interfaces'', J_List (map interface_payload ifs)), (''rules'', J_List (map rule_payload rs)),
      (''nat_rules'', J_List (map nat_payload ns)), (''routing_rules'', J_List (map routing_payload ros)),
      (''qos'', J_List (map qos_payload qs))]"

section \<open>Loading the enabled rows\<close>

text \<open>The firewall part of the database.\<close>

record fw_db =
  fd_instances :: "instance_row table"
  fd_users :: "user_row table"
  fd_audit :: "audit_entry list"
  fd_rules :: "rule_row table"
  fd_nats :: "nat_row table"
  fd_routes :: "routing_row table"
  fd_qos :: "qos_row table"
  fd_classes :: "qclass_row table"
  fd_ifaces :: "iface_row table"

text \<open>\<open>ORDER BY\<close> a column that may be null: nulls come last.\<close>

definition null_last :: "int option \<Rightarrow> nat \<times> int" where
  "null_last v = (case v of None \<Rightarrow> (1, 0) | Some n \<Rightarrow> (0, n))"

definition load_enabled_rows :: "('r \<Rightarrow> nat) \<Rightarrow> ('r \<Rightarrow> bool option) \<Rightarrow> ('r \<Rightarrow> nat \<times> int) \<Rightarrow> nat \<Rightarrow> 'r table \<Rightarrow> (nat \<times> 'r) list" where
  "load_enabled_rows inst enabled order i t =
     sort_key (\<lambda>(k, r). (order r, k)) (rows_where (\<lambda>r. inst r = i \<and> enabled r = Some True) t)"

definition classes_of_policy :: "fw_db \<Rightarrow> nat \<Rightarrow> (nat \<times> qclass_row) list" where
  "classes_of_policy db p = sort_key (null_last \<circ> cl_priority \<circ> snd) (rows_where (\<lambda>c. cl_policy c = p) (fd_classes db))"

definition build_instance_firewall_payload :: "fw_db \<Rightarrow> nat \<Rightarrow> json" where
  "build_instance_firewall_payload db i =
     compose_firewall_payload
       (load_enabled_rows if_instance ir_enabled (\<lambda>r. (0, 0)) i (fd_ifaces db))
       (load_enabled_rows ru_instance ru_enabled (\<lambda>r. (0, ru_order r)) i (fd_rules db))
       (load_enabled_rows na_instance na_enabled (\<lambda>r. (0, na_order r)) i (fd_nats db))
       (load_enabled_rows rr_instance rr_enabled (null_last \<circ> rr_order) i (fd_routes db))
       (map (\<lambda>p. (p, classes_of_policy db (fst p))) (load_enabled_rows qo_instance qo_enabled (\<lambda>r. (0, 0)) i (fd_qos db)))"

section \<open>What the agent reads\<close>

text \<open>The keys the agent looks up in each entry (\<open>_rules_from_payload\<close>, \<open>_nat_from_payload\<close>, the interface loop
  of \<open>generate_ruleset\<close>, \<open>_desired\<close>, \<open>_normalize_classes\<close> and the QoS loop of the deployment).\<close>

definition name_key :: "json \<Rightarrow> string option option" where
  "name_key j = (case key_of j ''name'' of None \<Rightarrow> None | Some v \<Rightarrow> Some (case v of J_Str s \<Rightarrow> Some s | _ \<Rightarrow> None))"

definition read_interface :: "json \<Rightarrow> iface" where
  "read_interface j = \<lparr>if_name = str_key j ''name'', if_type = str_key j ''type''\<rparr>"

definition read_rule :: "json \<Rightarrow> fw_entry" where
  "read_rule j = \<lparr>fe_id = int_key j ''id'', fe_name = name_key j, fe_source_type = str_key j ''source_type'',
     fe_source_value = str_key j ''source_value'', fe_dest_type = str_key j ''dest_type'', fe_dest_value = str_key j ''dest_value'',
     fe_service_protocol = str_key j ''service_protocol'', fe_service_ports = str_key j ''service_ports'',
     fe_interface_in = str_key j ''interface_in'', fe_interface_out = str_key j ''interface_out'', fe_action = str_key j ''action'',
     fe_log_enabled = (bool_key j ''log_enabled'' = Some True), fe_limit = str_key j ''limit'',
     fe_order_index = int_key j ''order_index''\<rparr>"

definition read_nat :: "json \<Rightarrow> nat_entry" where
  "read_nat j = \<lparr>ne_id = int_key j ''id'', ne_name = name_key j, ne_type = str_key j ''type'',
     ne_source_network = str_key j ''source_network'', ne_dest_network = str_key j ''dest_network'',
     ne_to_source = str_key j ''to_source'', ne_to_destination = str_key j ''to_destination'',
     ne_service_protocol = str_key j ''service_protocol'', ne_service_ports = str_key j ''service_ports'',
     ne_interface = str_key j ''interface''\<rparr>"

fun jval_of :: "json \<Rightarrow> jval" where
  "jval_of (J_Int n) = JInt n"
| "jval_of (J_Str s) = JStr s"
| "jval_of _ = JNone"

definition scalar_key :: "json \<Rightarrow> string \<Rightarrow> jval" where
  "scalar_key j k = (case key_of j k of None \<Rightarrow> JNone | Some v \<Rightarrow> jval_of v)"

definition read_routing :: "json \<Rightarrow> rt_entry" where
  "read_routing j = \<lparr>re_enabled = bool_key j ''enabled'', re_kind = str_key j ''kind'',
     re_table = map_option jval_of (key_of j ''table''), re_priority = map_option jval_of (key_of j ''priority''),
     re_order_index = map_option jval_of (key_of j ''order_index''), re_source = map_option jval_of (key_of j ''source''),
     re_source_network = scalar_key j ''source_network'', re_destination = map_option jval_of (key_of j ''destination''),
     re_dest_network = scalar_key j ''dest_network'', re_inbound_interface = str_key j ''inbound_interface'',
     re_outbound_interface = str_key j ''outbound_interface'', re_iif = str_key j ''iif'', re_interface = str_key j ''interface'',
     re_mark = scalar_key j ''mark'', re_gateway = str_key j ''gateway'', re_metric = int_key j ''metric'',
     re_route_destination = str_key j ''route_destination'', re_route_source = str_key j ''route_source''\<rparr>"

fun qval_of :: "json \<Rightarrow> qval" where
  "qval_of J_Null = QNone"
| "qval_of (J_Bool b) = QBool b"
| "qval_of (J_Int n) = QInt n"
| "qval_of (J_Str s) = QStr s"
| "qval_of (J_List xs) = QList (map qval_of xs)"
| "qval_of (J_Obj kvs) = QNone"

definition read_class :: "json \<Rightarrow> qos_entry option" where
  "read_class j = (case j of
       J_Obj kvs \<Rightarrow> Some \<lparr>qe_name = str_key j ''name'', qe_priority = map_option qval_of (key_of j ''priority''),
         qe_min_rate_kbps = map_option qval_of (key_of j ''min_rate_kbps''), qe_min_rate = map_option qval_of (key_of j ''min_rate''),
         qe_max_rate_kbps = map_option qval_of (key_of j ''max_rate_kbps''), qe_max_rate = map_option qval_of (key_of j ''max_rate''),
         qe_match_ports = map_option qval_of (key_of j ''match_ports''),
         qe_match_protocol = map_option qval_of (key_of j ''match_protocol'')\<rparr>
     | _ \<Rightarrow> None)"

definition items :: "json list option \<Rightarrow> json list" where
  "items xs = (case xs of None \<Rightarrow> [] | Some ys \<Rightarrow> ys)"

definition read_qos :: "json \<Rightarrow> qos_policy" where
  "read_qos j = \<lparr>qp_interface = str_key j ''interface'', qp_download = int_key j ''download_kbps'',
     qp_upload = int_key j ''upload_kbps'', qp_algorithm = str_key j ''algorithm'',
     qp_classes = map read_class (items (list_key j ''classes''))\<rparr>"

definition read_request :: "json \<Rightarrow> apply_request" where
  "read_request j = \<lparr>rq_interfaces = map read_interface (items (list_key j ''interfaces'')),
     rq_rules = map read_rule (items (list_key j ''rules'')), rq_nat_rules = map read_nat (items (list_key j ''nat_rules'')),
     rq_routing_rules = map read_routing (items (list_key j ''routing_rules'')),
     rq_qos = map read_qos (items (list_key j ''qos''))\<rparr>"

end
