(* ===== verification/Gw_Firewall.thy ===== *)
theory Gw_Firewall
  imports Gw_Payload
begin

text \<open>
  \<open>routers/firewall.py\<close> of the gateway, with the request schemas of \<open>shared/schemas.py\<close>.

  A handler takes the token, the parameters and the gateway state and gives the reply (a body, or an
  error status) and the new state. The state is the database, the world outside (the agents, reached
  only through \<open>send\<close>) and the background tasks that are queued and not yet run. A request body
  that fails validation is a 422 after the token check.
\<close>

section \<open>State\<close>

datatype task = Reload_Firewall nat | Apply_Qos nat nat | Clear_Qos nat string

record 'w gw_state =
  gs_db :: fw_db
  gs_world :: 'w
  gs_tasks :: "task list"

text \<open>An exchange with an agent: URL, key, method, JSON body, world.\<close>

type_synonym 'w sender = "string \<Rightarrow> string \<Rightarrow> string \<Rightarrow> json \<Rightarrow> 'w \<Rightarrow> json http_exchange \<times> 'w"

definition set_db :: "(fw_db \<Rightarrow> fw_db) \<Rightarrow> 'w gw_state \<Rightarrow> 'w gw_state" where
  "set_db f st = st\<lparr>gs_db := f (gs_db st)\<rparr>"

definition audit :: "nat option \<Rightarrow> string \<Rightarrow> string \<Rightarrow> nat \<Rightarrow> nat \<Rightarrow> 'w gw_state \<Rightarrow> 'w gw_state" where
  "audit user action rtype rid inst =
     set_db (\<lambda>db. db\<lparr>fd_audit := log_audit user action rtype (Some (string_of_nat rid)) (Some inst) None (fd_audit db)\<rparr>)"

text \<open>A dispatch entry for an instance that does not exist violates the foreign key; the error is swallowed.\<close>

definition audit_dispatch :: "nat \<Rightarrow> string \<Rightarrow> string \<Rightarrow> string \<Rightarrow> bool \<Rightarrow> string \<Rightarrow> nat option \<Rightarrow> 'w gw_state \<Rightarrow> 'w gw_state" where
  "audit_dispatch inst rtype action path ok detail user =
     set_db (\<lambda>db. if row_get (fd_instances db) inst = None then db
       else db\<lparr>fd_audit := log_agent_dispatch inst rtype action path ok detail user (fd_audit db)\<rparr>)"

definition enqueue :: "task \<Rightarrow> 'w gw_state \<Rightarrow> 'w gw_state" where
  "enqueue t st = st\<lparr>gs_tasks := gs_tasks st @ [t]\<rparr>"

text \<open>One request to an agent of the instance.\<close>

definition ask :: "'w sender \<Rightarrow> nat \<Rightarrow> string \<Rightarrow> string \<Rightarrow> json \<Rightarrow> string option \<Rightarrow> 'w gw_state \<Rightarrow> (agent_error + json) \<times> 'w gw_state" where
  "ask send i meth path body service st =
     (case agent_request (\<lambda>url key. send url key meth body) (fd_instances (gs_db st)) i path service (gs_world st) of
        (r, w) \<Rightarrow> (r, st\<lparr>gs_world := w\<rparr>))"

section \<open>Dispatch\<close>

definition apply_firewall_config :: "'w sender \<Rightarrow> nat \<Rightarrow> nat option \<Rightarrow> 'w gw_state \<Rightarrow> (agent_error + json) \<times> 'w gw_state" where
  "apply_firewall_config send i user st =
     (case ask send i ''POST'' ''/firewall/apply'' (build_instance_firewall_payload (gs_db st) i) (Some ''firewall'') st of
        (Inl e, st1) \<Rightarrow>
          (Inl e, audit_dispatch i ''firewall_agent'' ''deploy'' ''/firewall/apply'' False (agent_error_text e) user st1)
      | (Inr r, st1) \<Rightarrow>
          (Inr r, audit_dispatch i ''firewall_agent'' ''deploy'' ''/firewall/apply'' True [] user st1))"

text \<open>The end of the handlers that dispatch before they answer: a failure is a 502.\<close>

definition dispatch_then :: "'w sender \<Rightarrow> nat \<Rightarrow> nat \<Rightarrow> (nat + 'a) \<Rightarrow> 'w gw_state \<Rightarrow> (nat + 'a) \<times> 'w gw_state" where
  "dispatch_then send i user reply st =
     (case apply_firewall_config send i (Some user) st of
        (Inl e, st1) \<Rightarrow> (Inl 502, st1)
      | (Inr r, st1) \<Rightarrow> (reply, st1))"

section \<open>Firewall rules\<close>

datatype gw_action = Gw_Accept | Gw_Drop | Gw_Reject

definition gw_action_value :: "gw_action \<Rightarrow> string" where
  "gw_action_value a = (case a of Gw_Accept \<Rightarrow> ''accept'' | Gw_Drop \<Rightarrow> ''drop'' | Gw_Reject \<Rightarrow> ''reject'')"

record rule_create =
  rc_name :: string
  rc_description :: "string option"
  rc_enabled :: bool
  rc_source_type :: string
  rc_source_value :: "string option"
  rc_dest_type :: string
  rc_dest_value :: "string option"
  rc_protocol :: string
  rc_ports :: "string option"
  rc_action :: gw_action
  rc_log :: bool
  rc_limit :: "string option"

definition name_ok :: "nat \<Rightarrow> string \<Rightarrow> bool" where
  "name_ok limit s \<longleftrightarrow> 1 \<le> length s \<and> length s \<le> limit"

definition valid_rule_create :: "rule_create \<Rightarrow> bool" where
  "valid_rule_create d \<longleftrightarrow> name_ok 100 (rc_name d)"

text \<open>A patch: an absent key is \<open>None\<close>, a null is \<open>Some None\<close>.\<close>

record rule_patch =
  rp_name :: "string option option"
  rp_description :: "string option option"
  rp_enabled :: "bool option option"
  rp_source_type :: "string option option"
  rp_source_value :: "string option option"
  rp_dest_type :: "string option option"
  rp_dest_value :: "string option option"
  rp_protocol :: "string option option"
  rp_ports :: "string option option"
  rp_action :: "gw_action option option"
  rp_log :: "bool option option"
  rp_limit :: "string option option"

definition patched :: "'a option \<Rightarrow> 'a \<Rightarrow> 'a" where
  "patched p old = (case p of None \<Rightarrow> old | Some v \<Rightarrow> v)"

text \<open>A null name violates the column's \<open>NOT NULL\<close>.\<close>

definition patch_rule :: "rule_patch \<Rightarrow> rule_row \<Rightarrow> rule_row option" where
  "patch_rule p r =
     (if rp_name p = Some None then None
      else Some (r\<lparr>ru_name := (case rp_name p of Some (Some n) \<Rightarrow> n | _ \<Rightarrow> ru_name r),
          ru_description := patched (rp_description p) (ru_description r), ru_enabled := patched (rp_enabled p) (ru_enabled r),
          ru_source_type := patched (rp_source_type p) (ru_source_type r), ru_source_value := patched (rp_source_value p) (ru_source_value r),
          ru_dest_type := patched (rp_dest_type p) (ru_dest_type r), ru_dest_value := patched (rp_dest_value p) (ru_dest_value r),
          ru_protocol := patched (rp_protocol p) (ru_protocol r), ru_ports := patched (rp_ports p) (ru_ports r),
          ru_action := patched (map_option (map_option gw_action_value) (rp_action p)) (ru_action r),
          ru_log := patched (rp_log p) (ru_log r), ru_limit := patched (rp_limit p) (ru_limit r)\<rparr>))"

text \<open>\<open>FirewallRuleResponse.model_validate\<close>: the response schema has the constraints of the create schema.\<close>

definition rule_response_ok :: "rule_row \<Rightarrow> bool" where
  "rule_response_ok r \<longleftrightarrow> name_ok 100 (ru_name r) \<and> ru_enabled r \<noteq> None \<and> ru_source_type r \<noteq> None \<and> ru_dest_type r \<noteq> None
     \<and> ru_protocol r \<noteq> None \<and> ru_action r \<in> {Some ''accept'', Some ''drop'', Some ''reject''} \<and> ru_log r \<noteq> None"

definition rule_reply :: "nat \<Rightarrow> rule_row \<Rightarrow> nat + (nat \<times> rule_row) list" where
  "rule_reply k r = (if rule_response_ok r then Inr [(k, r)] else Inl 500)"

definition rules_of :: "fw_db \<Rightarrow> nat \<Rightarrow> (nat \<times> rule_row) list" where
  "rules_of db i = rows_where (\<lambda>r. ru_instance r = i) (fd_rules db)"

definition list_firewall_rules :: "token option \<Rightarrow> nat \<Rightarrow> fw_db \<Rightarrow> nat + (nat \<times> rule_row) list" where
  "list_firewall_rules tok i db =
     (case require_auth tok of
        Inl c \<Rightarrow> Inl c
      | Inr u \<Rightarrow>
          (let rs = sort_key (ru_order \<circ> snd) (rules_of db i) in
           if list_all (\<lambda>e. rule_response_ok (snd e)) rs then Inr rs else Inl 500))"

definition get_firewall_rule :: "token option \<Rightarrow> nat \<Rightarrow> fw_db \<Rightarrow> nat + (nat \<times> rule_row) list" where
  "get_firewall_rule tok k db =
     (case require_auth tok of
        Inl c \<Rightarrow> Inl c
      | Inr u \<Rightarrow> (case row_get (fd_rules db) k of None \<Rightarrow> Inl 404 | Some r \<Rightarrow> rule_reply k r))"

definition max_order :: "(nat \<times> rule_row) list \<Rightarrow> int" where
  "max_order rs = Max (set (map (ru_order \<circ> snd) rs @ [0]))"

definition new_rule :: "nat \<Rightarrow> rule_create \<Rightarrow> int \<Rightarrow> rule_row" where
  "new_rule i d order =
     \<lparr>ru_instance = i, ru_name = rc_name d, ru_description = rc_description d, ru_enabled = Some (rc_enabled d),
      ru_source_type = Some (rc_source_type d), ru_source_value = rc_source_value d, ru_dest_type = Some (rc_dest_type d),
      ru_dest_value = rc_dest_value d, ru_protocol = Some (rc_protocol d), ru_ports = rc_ports d,
      ru_action = Some (gw_action_value (rc_action d)), ru_log = Some (rc_log d), ru_limit = None, ru_order = order\<rparr>"

definition create_firewall_rule :: "'w sender \<Rightarrow> token option \<Rightarrow> nat \<Rightarrow> rule_create \<Rightarrow> 'w gw_state \<Rightarrow>
    (nat + (nat \<times> rule_row) list) \<times> 'w gw_state" where
  "create_firewall_rule send tok i d st =
     (case require_admin tok of
        Inl c \<Rightarrow> (Inl c, st)
      | Inr u \<Rightarrow>
          (if \<not> valid_rule_create d then (Inl 422, st)
           else if row_get (fd_instances (gs_db st)) i = None then (Inl 404, st)
           else (let row = new_rule i d (max_order (rules_of (gs_db st) i) + 10);
                     (k, rules') = row_add row (fd_rules (gs_db st));
                     st1 = audit (Some u) ''create'' ''firewall_rule'' k i (set_db (\<lambda>db. db\<lparr>fd_rules := rules'\<rparr>) st) in
                 dispatch_then send i u (rule_reply k row) st1)))"

definition update_firewall_rule :: "'w sender \<Rightarrow> token option \<Rightarrow> nat \<Rightarrow> rule_patch \<Rightarrow> 'w gw_state \<Rightarrow>
    (nat + (nat \<times> rule_row) list) \<times> 'w gw_state" where
  "update_firewall_rule send tok k p st =
     (case require_admin tok of
        Inl c \<Rightarrow> (Inl c, st)
      | Inr u \<Rightarrow>
          (case row_get (fd_rules (gs_db st)) k of
             None \<Rightarrow> (Inl 404, st)
           | Some r \<Rightarrow>
               (case patch_rule p r of
                  None \<Rightarrow> (Inl 500, st)
                | Some row \<Rightarrow>
                    (let st1 = audit (Some u) ''update'' ''firewall_rule'' k (ru_instance row)
                                 (set_db (\<lambda>db. db\<lparr>fd_rules := row_set k row (fd_rules db)\<rparr>) st) in
                     dispatch_then send (ru_instance row) u (rule_reply k row) st1))))"

definition delete_firewall_rule :: "'w sender \<Rightarrow> token option \<Rightarrow> nat \<Rightarrow> 'w gw_state \<Rightarrow>
    (nat + (nat \<times> rule_row) list) \<times> 'w gw_state" where
  "delete_firewall_rule send tok k st =
     (case require_admin tok of
        Inl c \<Rightarrow> (Inl c, st)
      | Inr u \<Rightarrow>
          (case row_get (fd_rules (gs_db st)) k of
             None \<Rightarrow> (Inl 404, st)
           | Some r \<Rightarrow>
               (let st1 = audit (Some u) ''delete'' ''firewall_rule'' k (ru_instance r)
                            (set_db (\<lambda>db. db\<lparr>fd_rules := row_del k (fd_rules db)\<rparr>) st) in
                dispatch_then send (ru_instance r) u (Inr []) st1)))"

text \<open>The neighbour a rule is swapped with: the next one in that direction among the rules of the
  instance; no other direction moves anything.\<close>

definition neighbour :: "string \<Rightarrow> fw_db \<Rightarrow> rule_row \<Rightarrow> (nat \<times> rule_row) option" where
  "neighbour direction db r =
     (if direction = ''up'' then
        (case sort_key (\<lambda>e. - ru_order (snd e)) (filter (\<lambda>e. ru_order (snd e) < ru_order r) (rules_of db (ru_instance r))) of
           [] \<Rightarrow> None | e # es \<Rightarrow> Some e)
      else if direction = ''down'' then
        (case sort_key (\<lambda>e. ru_order (snd e)) (filter (\<lambda>e. ru_order r < ru_order (snd e)) (rules_of db (ru_instance r))) of
           [] \<Rightarrow> None | e # es \<Rightarrow> Some e)
      else None)"

definition move_rule :: "'w sender \<Rightarrow> token option \<Rightarrow> nat \<Rightarrow> string \<Rightarrow> 'w gw_state \<Rightarrow>
    (nat + (nat \<times> rule_row) list) \<times> 'w gw_state" where
  "move_rule send tok k direction st =
     (case require_admin tok of
        Inl c \<Rightarrow> (Inl c, st)
      | Inr u \<Rightarrow>
          (case row_get (fd_rules (gs_db st)) k of
             None \<Rightarrow> (Inl 404, st)
           | Some r \<Rightarrow>
               (let st1 = (case neighbour direction (gs_db st) r of
                       None \<Rightarrow> st
                     | Some (j, n) \<Rightarrow> set_db (\<lambda>db. db\<lparr>fd_rules :=
                         row_set j (n\<lparr>ru_order := ru_order r\<rparr>) (row_set k (r\<lparr>ru_order := ru_order n\<rparr>) (fd_rules db))\<rparr>) st) in
                dispatch_then send (ru_instance r) u (Inr []) st1)))"

definition apply_firewall :: "token option \<Rightarrow> nat \<Rightarrow> 'w gw_state \<Rightarrow> (nat + string) \<times> 'w gw_state" where
  "apply_firewall tok i st =
     (case require_admin tok of Inl c \<Rightarrow> (Inl c, st) | Inr u \<Rightarrow> (Inr ''queued'', enqueue (Reload_Firewall i) st))"

section \<open>NAT and routing rules\<close>

text \<open>\<open>validate_nat_to_addr\<close>: \<open>None\<close> inside is the rejected value; an absent target passes.\<close>

definition validate_nat_to_addr :: "string \<Rightarrow> string option" where
  "validate_nat_to_addr value =
     (if \<exists>c\<in>set value. c \<in> {newline, carriage, CHR ''=''} then None
      else if startswith value ''['' then
        (case split_bracketed value of
           None \<Rightarrow> None
         | Some (a, port) \<Rightarrow> (case ip6_of_string a of
             None \<Rightarrow> None
           | Some (v, sc) \<Rightarrow>
               (case port of
                  None \<Rightarrow> Some (''['' @ ip6_str v sc @ '']'')
                | Some t \<Rightarrow> if 1 \<le> digits_val 0 t \<and> digits_val 0 t \<le> 65535
                            then Some (''['' @ ip6_str v sc @ '']:'' @ t) else None)))
      else if CHR '':'' \<in> set value then
        (let (a, port) = rpartition_at CHR '':'' value in
         if \<not> (all_digits port \<and> length port \<le> 5) then None
         else if \<not> (1 \<le> digits_val 0 port \<and> digits_val 0 port \<le> 65535) then None
         else (case ip4_of_string a of None \<Rightarrow> None | Some v \<Rightarrow> Some (ip4_str v @ '':'' @ port)))
      else (case ip4_of_string value of None \<Rightarrow> None | Some v \<Rightarrow> Some (ip4_str v)))"

record nat_create =
  nc_name :: string
  nc_description :: "string option"
  nc_enabled :: bool
  nc_type :: string
  nc_interface :: "string option"
  nc_source_network :: "string option"
  nc_dest_network :: "string option"
  nc_to_source :: "string option"
  nc_to_destination :: "string option"
  nc_protocol :: "string option"
  nc_ports :: "string option"

text \<open>Validation replaces the targets by their canonical form.\<close>

definition checked_target :: "string option \<Rightarrow> string option option" where
  "checked_target t = (case t of None \<Rightarrow> Some None | Some v \<Rightarrow> map_option Some (validate_nat_to_addr v))"

text \<open>The response schema has the validators of the create schema, so a stored target is checked again.\<close>

definition nat_response_ok :: "nat_row \<Rightarrow> bool" where
  "nat_response_ok n \<longleftrightarrow> name_ok 100 (na_name n) \<and> na_enabled n \<noteq> None \<and> na_type n \<noteq> None
     \<and> checked_target (na_to_source n) \<noteq> None \<and> checked_target (na_to_destination n) \<noteq> None"

definition list_nat_rules :: "token option \<Rightarrow> nat \<Rightarrow> fw_db \<Rightarrow> nat + (nat \<times> nat_row) list" where
  "list_nat_rules tok i db =
     (case require_auth tok of
        Inl c \<Rightarrow> Inl c
      | Inr u \<Rightarrow>
          (let rs = rows_where (\<lambda>n. na_instance n = i) (fd_nats db) in
           if list_all (\<lambda>e. nat_response_ok (snd e)) rs then Inr rs else Inl 500))"

definition new_nat :: "nat \<Rightarrow> nat_create \<Rightarrow> string option \<Rightarrow> string option \<Rightarrow> nat_row" where
  "new_nat i d src dst =
     \<lparr>na_instance = i, na_name = nc_name d, na_description = nc_description d, na_enabled = Some (nc_enabled d),
      na_type = Some (nc_type d), na_interface = nc_interface d, na_source_network = nc_source_network d,
      na_dest_network = nc_dest_network d, na_to_source = src, na_to_destination = dst, na_protocol = nc_protocol d,
      na_ports = nc_ports d, na_order = 0\<rparr>"

text \<open>The instance is not looked up; an unknown one violates the foreign key (500). A failing response
  discards the background task.\<close>

definition create_nat_rule :: "token option \<Rightarrow> nat \<Rightarrow> nat_create \<Rightarrow> 'w gw_state \<Rightarrow> (nat + nat) \<times> 'w gw_state" where
  "create_nat_rule tok i d st =
     (case require_admin tok of
        Inl c \<Rightarrow> (Inl c, st)
      | Inr u \<Rightarrow>
          (case (name_ok 100 (nc_name d), checked_target (nc_to_source d), checked_target (nc_to_destination d)) of
             (True, Some src, Some dst) \<Rightarrow>
               (if row_get (fd_instances (gs_db st)) i = None then (Inl 500, st)
                else (let row = new_nat i d src dst; (k, nats') = row_add row (fd_nats (gs_db st));
                          st1 = set_db (\<lambda>db. db\<lparr>fd_nats := nats'\<rparr>) st in
                      if nat_response_ok row then (Inr k, enqueue (Reload_Firewall i) st1) else (Inl 500, st1)))
           | _ \<Rightarrow> (Inl 422, st)))"

record routing_create =
  ro_name :: string
  ro_enabled :: bool
  ro_source_network :: "string option"
  ro_dest_network :: "string option"
  ro_service :: "string option"
  ro_inbound :: "string option"
  ro_gateway_to :: "string option"
  ro_outbound :: "string option"
  ro_mark_to :: "int option"
  ro_order_index :: "int option"

definition routing_row_of :: "nat \<Rightarrow> routing_create \<Rightarrow> int \<Rightarrow> routing_row" where
  "routing_row_of i d order =
     \<lparr>rr_instance = i, rr_name = ro_name d, rr_enabled = Some (ro_enabled d), rr_source = ro_source_network d,
      rr_dest = ro_dest_network d, rr_service = ro_service d, rr_inbound = ro_inbound d, rr_gateway = ro_gateway_to d,
      rr_outbound = ro_outbound d, rr_mark = ro_mark_to d, rr_order = Some order\<rparr>"

definition routing_response_ok :: "routing_row \<Rightarrow> bool" where
  "routing_response_ok r \<longleftrightarrow> name_ok 100 (rr_name r) \<and> rr_enabled r \<noteq> None \<and> rr_order r \<noteq> None"

definition listed_routing :: "nat \<Rightarrow> fw_db \<Rightarrow> nat + (nat \<times> routing_row) list" where
  "listed_routing i db =
     (let rs = sort_key (null_last \<circ> rr_order \<circ> snd) (rows_where (\<lambda>r. rr_instance r = i) (fd_routes db)) in
      if list_all (\<lambda>e. routing_response_ok (snd e)) rs then Inr rs else Inl 500)"

definition list_routing_rules :: "token option \<Rightarrow> nat \<Rightarrow> fw_db \<Rightarrow> nat + (nat \<times> routing_row) list" where
  "list_routing_rules tok i db = (case require_auth tok of Inl c \<Rightarrow> Inl c | Inr u \<Rightarrow> listed_routing i db)"

definition create_routing_rule :: "token option \<Rightarrow> nat \<Rightarrow> routing_create \<Rightarrow> 'w gw_state \<Rightarrow> (nat + nat) \<times> 'w gw_state" where
  "create_routing_rule tok i d st =
     (case require_admin tok of
        Inl c \<Rightarrow> (Inl c, st)
      | Inr u \<Rightarrow>
          (if \<not> name_ok 100 (ro_name d) then (Inl 422, st)
           else if row_get (fd_instances (gs_db st)) i = None then (Inl 500, st)
           else (let order = (if truthy_int (ro_order_index d) then (case ro_order_index d of Some n \<Rightarrow> n | None \<Rightarrow> 100) else 100);
                     (k, routes') = row_add (routing_row_of i d order) (fd_routes (gs_db st)) in
                 (Inr k, enqueue (Reload_Firewall i) (set_db (\<lambda>db. db\<lparr>fd_routes := routes'\<rparr>) st)))))"

text \<open>\<open>NetworkInterfaceResponse.model_validate\<close>.\<close>

definition mtu_ok :: "int option \<Rightarrow> bool" where
  "mtu_ok m \<longleftrightarrow> (case m of None \<Rightarrow> True | Some n \<Rightarrow> 68 \<le> n \<and> n \<le> 65535)"

definition iface_response_ok :: "iface_row \<Rightarrow> bool" where
  "iface_response_ok r \<longleftrightarrow> length (ir_name r) \<le> 50 \<and> ir_type r \<noteq> None \<and> ir_config_type r \<noteq> None \<and> mtu_ok (ir_mtu r)
     \<and> length (or_empty (ir_description r)) \<le> 255 \<and> ir_enabled r \<noteq> None"

definition iface_rows_reply :: "(nat \<times> iface_row) list \<Rightarrow> nat + (nat \<times> iface_row) list" where
  "iface_rows_reply rs = (if list_all (\<lambda>e. iface_response_ok (snd e)) rs then Inr rs else Inl 500)"

definition list_network_interfaces :: "token option \<Rightarrow> nat \<Rightarrow> fw_db \<Rightarrow> nat + (nat \<times> iface_row) list" where
  "list_network_interfaces tok i db =
     (case require_auth tok of
        Inl c \<Rightarrow> Inl c
      | Inr u \<Rightarrow> iface_rows_reply (rows_where (\<lambda>n. if_instance n = i) (fd_ifaces db)))"

end
