(* ===== verification/Gw_Qos.thy ===== *)
theory Gw_Qos
  imports Gw_Firewall
begin

text \<open>
  The rest of \<open>routers/firewall.py\<close>: QoS policies and their traffic classes, the statistics pass-through,
  the block list, agent status and rollback, and the background tasks. One step of the gateway is a
  handler call or the run of one queued task.
\<close>

section \<open>Policies and classes\<close>

datatype qos_algorithm = Alg_Cake | Alg_Fq_Codel | Alg_Htb

definition algorithm_value :: "qos_algorithm \<Rightarrow> string" where
  "algorithm_value a = (case a of Alg_Cake \<Rightarrow> ''cake'' | Alg_Fq_Codel \<Rightarrow> ''fq_codel'' | Alg_Htb \<Rightarrow> ''htb'')"

record qclass_create =
  qn_name :: string
  qn_priority :: int
  qn_min :: int
  qn_max :: int
  qn_ports :: "int list"
  qn_dscp :: "string option"
  qn_protocol :: string

definition valid_qclass_create :: "qclass_create \<Rightarrow> bool" where
  "valid_qclass_create d \<longleftrightarrow> name_ok 50 (qn_name d) \<and> 1 \<le> qn_priority d \<and> qn_priority d \<le> 3 \<and> 0 < qn_min d \<and> 0 < qn_max d
     \<and> length (or_empty (qn_dscp d)) \<le> 10"

record qos_create =
  qc_name :: string
  qc_description :: "string option"
  qc_enabled :: bool
  qc_interface :: string
  qc_interface_id :: "nat option"
  qc_algorithm :: qos_algorithm
  qc_download :: int
  qc_upload :: int
  qc_classes :: "qclass_create list"

definition valid_qos_create :: "qos_create \<Rightarrow> bool" where
  "valid_qos_create d \<longleftrightarrow> name_ok 100 (qc_name d) \<and> name_ok 50 (qc_interface d) \<and> 0 < qc_download d \<and> 0 < qc_upload d
     \<and> list_all valid_qclass_create (qc_classes d)"

text \<open>The responses; a class list that contains an invalid row makes the whole answer a 500.\<close>

definition qclass_response_ok :: "qclass_row \<Rightarrow> bool" where
  "qclass_response_ok c \<longleftrightarrow> name_ok 50 (cl_name c) \<and> (\<exists>p. cl_priority c = Some p \<and> 1 \<le> p \<and> p \<le> 3) \<and> 0 < cl_min c \<and> 0 < cl_max c
     \<and> cl_ports c \<noteq> None \<and> length (or_empty (cl_dscp c)) \<le> 10 \<and> cl_protocol c \<noteq> None"

definition qos_response_ok :: "fw_db \<Rightarrow> nat \<times> qos_row \<Rightarrow> bool" where
  "qos_response_ok db e = (let (k, p) = e in
     name_ok 100 (qo_name p) \<and> qo_enabled p \<noteq> None \<and> name_ok 50 (qo_interface p)
     \<and> qo_algorithm p \<in> {Some ''cake'', Some ''fq_codel'', Some ''htb''} \<and> 0 < qo_download p \<and> 0 < qo_upload p
     \<and> list_all (\<lambda>c. qclass_response_ok (snd c)) (classes_of_policy db k))"

definition policies_of :: "fw_db \<Rightarrow> nat \<Rightarrow> (nat \<times> qos_row) list" where
  "policies_of db i = rows_where (\<lambda>p. qo_instance p = i) (fd_qos db)"

definition policy_of :: "fw_db \<Rightarrow> nat \<Rightarrow> nat \<Rightarrow> qos_row option" where
  "policy_of db i k = (case row_get (fd_qos db) k of Some p \<Rightarrow> if qo_instance p = i then Some p else None | None \<Rightarrow> None)"

text \<open>Text columns sort by byte order.\<close>

definition list_qos_policies :: "token option \<Rightarrow> nat \<Rightarrow> fw_db \<Rightarrow> nat + (nat \<times> qos_row) list" where
  "list_qos_policies tok i db =
     (case require_auth tok of
        Inl c \<Rightarrow> Inl c
      | Inr u \<Rightarrow>
          (let ps = sort_key (qo_interface \<circ> snd) (policies_of db i) in
           if list_all (qos_response_ok db) ps then Inr ps else Inl 500))"

text \<open>\<open>int(download_kbps * 0.30)\<close>: for rates below \<open>2 ^ 31\<close> the float product truncates to the exact quotient.\<close>

definition default_htb_classes :: "int \<Rightarrow> int \<Rightarrow> qclass_create list option" where
  "default_htb_classes download upload =
     (let cs = map (\<lambda>(n, prio, share, ports). \<lparr>qn_name = n, qn_priority = prio, qn_min = download * share div 100,
              qn_max = download, qn_ports = ports, qn_dscp = None, qn_protocol = ''any''\<rparr>)
           [(''High Priority (VoIP/SSH/DNS)'', 1, 30, [22, 53, 5060, 5061]), (''General Traffic'', 2, 40, []),
            (''Bulk/Background'', 3, 30, [])] in
      if list_all valid_qclass_create cs then Some cs else None)"

definition new_qclass :: "nat \<Rightarrow> qclass_create \<Rightarrow> qclass_row" where
  "new_qclass pid d = \<lparr>cl_policy = pid, cl_name = qn_name d, cl_priority = Some (qn_priority d), cl_min = qn_min d,
     cl_max = qn_max d, cl_ports = Some (qn_ports d), cl_dscp = qn_dscp d, cl_protocol = Some (qn_protocol d)\<rparr>"

definition add_classes :: "nat \<Rightarrow> qclass_create list \<Rightarrow> qclass_row table \<Rightarrow> qclass_row table" where
  "add_classes pid ds t = fold (\<lambda>d t. snd (row_add (new_qclass pid d) t)) ds t"

definition new_policy :: "nat \<Rightarrow> qos_create \<Rightarrow> qos_row" where
  "new_policy i d = \<lparr>qo_instance = i, qo_name = qc_name d, qo_description = qc_description d, qo_enabled = Some (qc_enabled d),
     qo_interface = qc_interface d, qo_interface_id = qc_interface_id d, qo_algorithm = Some (algorithm_value (qc_algorithm d)),
     qo_download = qc_download d, qo_upload = qc_upload d\<rparr>"

text \<open>The reply to a change of a policy: the task is queued only when the response is built.\<close>

definition policy_reply :: "nat \<Rightarrow> nat \<Rightarrow> 'w gw_state \<Rightarrow> (nat + nat) \<times> 'w gw_state" where
  "policy_reply i k st =
     (case row_get (fd_qos (gs_db st)) k of
        None \<Rightarrow> (Inl 500, st)
      | Some p \<Rightarrow>
          (if \<not> qos_response_ok (gs_db st) (k, p) then (Inl 500, st)
           else (Inr k, if qo_enabled p = Some True then enqueue (Apply_Qos i k) st else st)))"

definition create_qos_policy :: "token option \<Rightarrow> nat \<Rightarrow> qos_create \<Rightarrow> 'w gw_state \<Rightarrow> (nat + nat) \<times> 'w gw_state" where
  "create_qos_policy tok i d st =
     (case require_admin tok of
        Inl c \<Rightarrow> (Inl c, st)
      | Inr u \<Rightarrow>
          (if \<not> valid_qos_create d then (Inl 422, st)
           else if row_get (fd_instances (gs_db st)) i = None then (Inl 404, st)
           else (case rows_where (\<lambda>p. qo_instance p = i \<and> qo_interface p = qc_interface d) (fd_qos (gs_db st)) of
               [e] \<Rightarrow> (Inl 409, st)
             | e # f # es \<Rightarrow> (Inl 500, st)
             | [] \<Rightarrow>
                 (if (\<exists>n. qc_interface_id d = Some n \<and> row_get (fd_ifaces (gs_db st)) n = None) then (Inl 500, st)
                  else (case (if qc_algorithm d \<noteq> Alg_Htb then Some [] else if qc_classes d \<noteq> [] then Some (qc_classes d)
                              else default_htb_classes (qc_download d) (qc_upload d)) of
                      None \<Rightarrow> (Inl 500, st)
                    | Some cs \<Rightarrow>
                        (let (k, qos') = row_add (new_policy i d) (fd_qos (gs_db st)) in
                         policy_reply i k (set_db (\<lambda>db. db\<lparr>fd_qos := qos', fd_classes := add_classes k cs (fd_classes db)\<rparr>) st)))))))"

definition get_qos_policy :: "token option \<Rightarrow> nat \<Rightarrow> nat \<Rightarrow> fw_db \<Rightarrow> nat + qos_row" where
  "get_qos_policy tok i k db =
     (case require_auth tok of
        Inl c \<Rightarrow> Inl c
      | Inr u \<Rightarrow>
          (case policy_of db i k of
             None \<Rightarrow> Inl 404
           | Some p \<Rightarrow> if qos_response_ok db (k, p) then Inr p else Inl 500))"

record qos_patch =
  qp_to_name :: "string option option"
  qp_to_description :: "string option option"
  qp_to_enabled :: "bool option option"
  qp_to_algorithm :: "qos_algorithm option option"
  qp_to_download :: "int option option"
  qp_to_upload :: "int option option"

definition valid_qos_patch :: "qos_patch \<Rightarrow> bool" where
  "valid_qos_patch d \<longleftrightarrow> (case qp_to_download d of Some (Some n) \<Rightarrow> 0 < n | _ \<Rightarrow> True)
     \<and> (case qp_to_upload d of Some (Some n) \<Rightarrow> 0 < n | _ \<Rightarrow> True)"

text \<open>A null in a column that must not be null.\<close>

definition kept :: "'a option option \<Rightarrow> 'a \<Rightarrow> 'a option" where
  "kept p old = (case p of None \<Rightarrow> Some old | Some v \<Rightarrow> v)"

definition patch_qos :: "qos_patch \<Rightarrow> qos_row \<Rightarrow> qos_row option" where
  "patch_qos d p =
     (case (kept (qp_to_name d) (qo_name p), kept (qp_to_download d) (qo_download p), kept (qp_to_upload d) (qo_upload p)) of
        (Some n, Some dl, Some ul) \<Rightarrow>
          Some (p\<lparr>qo_name := n, qo_download := dl, qo_upload := ul,
             qo_description := patched (qp_to_description d) (qo_description p), qo_enabled := patched (qp_to_enabled d) (qo_enabled p),
             qo_algorithm := patched (map_option (map_option algorithm_value) (qp_to_algorithm d)) (qo_algorithm p)\<rparr>)
      | _ \<Rightarrow> None)"

definition update_qos_policy :: "token option \<Rightarrow> nat \<Rightarrow> nat \<Rightarrow> qos_patch \<Rightarrow> 'w gw_state \<Rightarrow> (nat + nat) \<times> 'w gw_state" where
  "update_qos_policy tok i k d st =
     (case require_admin tok of
        Inl c \<Rightarrow> (Inl c, st)
      | Inr u \<Rightarrow>
          (if \<not> valid_qos_patch d then (Inl 422, st)
           else (case policy_of (gs_db st) i k of
               None \<Rightarrow> (Inl 404, st)
             | Some p \<Rightarrow>
                 (case patch_qos d p of
                    None \<Rightarrow> (Inl 500, st)
                  | Some row \<Rightarrow> policy_reply i k (set_db (\<lambda>db. db\<lparr>fd_qos := row_set k row (fd_qos db)\<rparr>) st)))))"

text \<open>Deleting a policy deletes its classes.\<close>

definition del_where :: "('r \<Rightarrow> bool) \<Rightarrow> 'r table \<Rightarrow> 'r table" where
  "del_where p t = t\<lparr>tb_rows := filter (\<lambda>e. \<not> p (snd e)) (tb_rows t)\<rparr>"

definition delete_qos_policy :: "token option \<Rightarrow> nat \<Rightarrow> nat \<Rightarrow> 'w gw_state \<Rightarrow> (nat + nat) \<times> 'w gw_state" where
  "delete_qos_policy tok i k st =
     (case require_admin tok of
        Inl c \<Rightarrow> (Inl c, st)
      | Inr u \<Rightarrow>
          (case policy_of (gs_db st) i k of
             None \<Rightarrow> (Inl 404, st)
           | Some p \<Rightarrow> (Inr k, enqueue (Clear_Qos i (qo_interface p))
               (set_db (\<lambda>db. db\<lparr>fd_qos := row_del k (fd_qos db), fd_classes := del_where (\<lambda>c. cl_policy c = k) (fd_classes db)\<rparr>) st))))"

definition apply_qos_now :: "token option \<Rightarrow> nat \<Rightarrow> nat \<Rightarrow> 'w gw_state \<Rightarrow> (nat + nat) \<times> 'w gw_state" where
  "apply_qos_now tok i k st =
     (case require_admin tok of
        Inl c \<Rightarrow> (Inl c, st)
      | Inr u \<Rightarrow> (case policy_of (gs_db st) i k of None \<Rightarrow> (Inl 404, st) | Some p \<Rightarrow> (Inr k, enqueue (Apply_Qos i k) st)))"

text \<open>A class of the policy; the handlers below that use it do not look at the instance.\<close>

definition class_of :: "fw_db \<Rightarrow> nat \<Rightarrow> nat \<Rightarrow> qclass_row option" where
  "class_of db k c = (case row_get (fd_classes db) c of Some r \<Rightarrow> if cl_policy r = k then Some r else None | None \<Rightarrow> None)"

definition enqueue_if_enabled :: "nat \<Rightarrow> nat \<Rightarrow> 'w gw_state \<Rightarrow> 'w gw_state" where
  "enqueue_if_enabled i k st =
     (case row_get (fd_qos (gs_db st)) k of
        Some p \<Rightarrow> if qo_enabled p = Some True then enqueue (Apply_Qos i k) st else st
      | None \<Rightarrow> st)"

definition create_qos_class :: "token option \<Rightarrow> nat \<Rightarrow> nat \<Rightarrow> qclass_create \<Rightarrow> 'w gw_state \<Rightarrow> (nat + nat) \<times> 'w gw_state" where
  "create_qos_class tok i k d st =
     (case require_admin tok of
        Inl c \<Rightarrow> (Inl c, st)
      | Inr u \<Rightarrow>
          (if \<not> valid_qclass_create d then (Inl 422, st)
           else (case policy_of (gs_db st) i k of
               None \<Rightarrow> (Inl 404, st)
             | Some p \<Rightarrow>
                 (if qo_algorithm p \<noteq> Some ''htb'' then (Inl 400, st)
                  else (let (c, classes') = row_add (new_qclass k d) (fd_classes (gs_db st)) in
                        (Inr c, enqueue_if_enabled i k (set_db (\<lambda>db. db\<lparr>fd_classes := classes'\<rparr>) st)))))))"

record qclass_patch =
  qn_to_name :: "string option option"
  qn_to_priority :: "int option option"
  qn_to_min :: "int option option"
  qn_to_max :: "int option option"
  qn_to_ports :: "int list option option"
  qn_to_dscp :: "string option option"
  qn_to_protocol :: "string option option"

definition positive_or_absent :: "int option option \<Rightarrow> bool" where
  "positive_or_absent n = (case n of Some (Some v) \<Rightarrow> 0 < v | _ \<Rightarrow> True)"

definition valid_qclass_patch :: "qclass_patch \<Rightarrow> bool" where
  "valid_qclass_patch d \<longleftrightarrow> positive_or_absent (qn_to_min d) \<and> positive_or_absent (qn_to_max d)
     \<and> (case qn_to_priority d of Some (Some n) \<Rightarrow> 1 \<le> n \<and> n \<le> 3 | _ \<Rightarrow> True)"

definition patch_qclass :: "qclass_patch \<Rightarrow> qclass_row \<Rightarrow> qclass_row option" where
  "patch_qclass d c =
     (case (kept (qn_to_name d) (cl_name c), kept (qn_to_min d) (cl_min c), kept (qn_to_max d) (cl_max c)) of
        (Some n, Some lo, Some hi) \<Rightarrow>
          Some (c\<lparr>cl_name := n, cl_min := lo, cl_max := hi, cl_priority := patched (qn_to_priority d) (cl_priority c),
             cl_ports := patched (qn_to_ports d) (cl_ports c), cl_dscp := patched (qn_to_dscp d) (cl_dscp c),
             cl_protocol := patched (qn_to_protocol d) (cl_protocol c)\<rparr>)
      | _ \<Rightarrow> None)"

definition update_qos_class :: "token option \<Rightarrow> nat \<Rightarrow> nat \<Rightarrow> nat \<Rightarrow> qclass_patch \<Rightarrow> 'w gw_state \<Rightarrow> (nat + nat) \<times> 'w gw_state" where
  "update_qos_class tok i k c d st =
     (case require_admin tok of
        Inl e \<Rightarrow> (Inl e, st)
      | Inr u \<Rightarrow>
          (if \<not> valid_qclass_patch d then (Inl 422, st)
           else (case class_of (gs_db st) k c of
               None \<Rightarrow> (Inl 404, st)
             | Some r \<Rightarrow>
                 (case patch_qclass d r of
                    None \<Rightarrow> (Inl 500, st)
                  | Some row \<Rightarrow>
                      (let st1 = set_db (\<lambda>db. db\<lparr>fd_classes := row_set c row (fd_classes db)\<rparr>) st in
                       if qclass_response_ok row then (Inr c, enqueue_if_enabled i k st1) else (Inl 500, st1))))))"

definition delete_qos_class :: "token option \<Rightarrow> nat \<Rightarrow> nat \<Rightarrow> nat \<Rightarrow> 'w gw_state \<Rightarrow> (nat + nat) \<times> 'w gw_state" where
  "delete_qos_class tok i k c st =
     (case require_admin tok of
        Inl e \<Rightarrow> (Inl e, st)
      | Inr u \<Rightarrow>
          (case class_of (gs_db st) k c of
             None \<Rightarrow> (Inl 404, st)
           | Some r \<Rightarrow> (Inr c, enqueue_if_enabled i k (set_db (\<lambda>db. db\<lparr>fd_classes := row_del c (fd_classes db)\<rparr>) st))))"

end
