(* ===== verification/Gw_Tasks.thy ===== *)
theory Gw_Tasks
  imports Gw_Qos
begin

text \<open>
  \<open>routers/firewall.py\<close>, last part: the background tasks, the statistics and status pass-throughs, the
  block list and the rollback, and the steps of the gateway: a handler call, or the run of one queued
  task. An exception that leaves a background task is only logged.
\<close>

section \<open>Background tasks\<close>

definition qos_class_body :: "nat \<times> qclass_row \<Rightarrow> json" where
  "qos_class_body e = (let (k, c) = e in J_Obj
     [(''id'', J_Int (int k)), (''name'', J_Str (cl_name c)), (''priority'', opt_int (cl_priority c)),
      (''min_rate_kbps'', J_Int (cl_min c)), (''max_rate_kbps'', J_Int (cl_max c)), (''match_ports'', opt_list J_Int (cl_ports c)),
      (''match_dscp'', opt_str (cl_dscp c)), (''match_protocol'', opt_str (cl_protocol c))])"

definition qos_apply_body :: "qos_row \<Rightarrow> (nat \<times> qclass_row) list \<Rightarrow> json" where
  "qos_apply_body p cs = J_Obj
     [(''interface'', J_Str (qo_interface p)), (''algorithm'', opt_str (qo_algorithm p)), (''download_kbps'', J_Int (qo_download p)),
      (''upload_kbps'', J_Int (qo_upload p)), (''classes'', J_List (map qos_class_body cs))]"

text \<open>Sorting two or more classes of which one has no priority compares a number with \<open>None\<close>, a
  \<open>TypeError\<close>. The request goes to the default endpoint of the instance given by the caller.\<close>

definition apply_qos_policy :: "'w sender \<Rightarrow> nat \<Rightarrow> nat \<Rightarrow> 'w gw_state \<Rightarrow> 'w gw_state" where
  "apply_qos_policy send i k st =
     (case row_get (fd_qos (gs_db st)) k of
        None \<Rightarrow> st
      | Some p \<Rightarrow>
          (let cs = classes_of_policy (gs_db st) k in
           if 2 \<le> length cs \<and> list_ex (\<lambda>c. cl_priority (snd c) = None) cs then st
           else snd (ask send i ''POST'' ''/qos/apply'' (qos_apply_body p cs) None st)))"

definition clear_qos_on_interface :: "'w sender \<Rightarrow> nat \<Rightarrow> string \<Rightarrow> 'w gw_state \<Rightarrow> 'w gw_state" where
  "clear_qos_on_interface send i name st =
     snd (ask send i ''POST'' ''/qos/clear'' (J_Obj [(''interface'', J_Str name)]) None st)"

definition reload_firewall :: "'w sender \<Rightarrow> nat \<Rightarrow> 'w gw_state \<Rightarrow> 'w gw_state" where
  "reload_firewall send i st = snd (apply_firewall_config send i None st)"

definition run_task :: "'w sender \<Rightarrow> task \<Rightarrow> 'w gw_state \<Rightarrow> 'w gw_state" where
  "run_task send t st =
     (case t of
        Reload_Firewall i \<Rightarrow> reload_firewall send i st
      | Apply_Qos i k \<Rightarrow> apply_qos_policy send i k st
      | Clear_Qos i name \<Rightarrow> clear_qos_on_interface send i name st)"

section \<open>Statistics\<close>

text \<open>\<open>int(x or 0)\<close>: \<open>None\<close> is an exception.\<close>

definition as_count :: "json option \<Rightarrow> int option" where
  "as_count v =
     (case v of
        None \<Rightarrow> Some 0
      | Some J_Null \<Rightarrow> Some 0
      | Some (J_Bool b) \<Rightarrow> Some (if b then 1 else 0)
      | Some (J_Int n) \<Rightarrow> Some n
      | Some (J_Str s) \<Rightarrow> (if s = [] then Some 0 else py_int s)
      | Some (J_List xs) \<Rightarrow> (if xs = [] then Some 0 else None)
      | Some (J_Obj kvs) \<Rightarrow> (if kvs = [] then Some 0 else None))"

record agent_queue =
  aq_name :: string
  aq_bytes :: int
  aq_packets :: int
  aq_dropped :: int

definition queue_of :: "json \<Rightarrow> agent_queue option" where
  "queue_of e =
     (case (as_count (key_of e ''bytes''), as_count (key_of e ''packets''), as_count (key_of e ''dropped''),
            (case key_of e ''name'' of None \<Rightarrow> Some [] | Some (J_Str s) \<Rightarrow> Some s | _ \<Rightarrow> None)) of
        (Some b, Some p, Some d, Some n) \<Rightarrow> Some \<lparr>aq_name = n, aq_bytes = b, aq_packets = p, aq_dropped = d\<rparr>
      | _ \<Rightarrow> None)"

fun all_some :: "'a option list \<Rightarrow> 'a list option" where
  "all_some [] = Some []"
| "all_some (None # xs) = None"
| "all_some (Some x # xs) = map_option (Cons x) (all_some xs)"

definition queues_of :: "json option \<Rightarrow> agent_queue list option" where
  "queues_of v =
     (case v of
        None \<Rightarrow> Some []
      | Some (J_List xs) \<Rightarrow> all_some (map queue_of (filter is_obj xs))
      | Some (J_Str s) \<Rightarrow> Some []
      | Some (J_Obj kvs) \<Rightarrow> Some []
      | _ \<Rightarrow> None)"

definition raw_of :: "json option \<Rightarrow> json" where
  "raw_of v = (case v of Some (J_Str s) \<Rightarrow> J_Obj [(''output'', J_Str s)] | Some (J_Obj kvs) \<Rightarrow> J_Obj kvs | _ \<Rightarrow> J_Null)"

text \<open>An agent that cannot be asked gives empty statistics; a \<open>stats\<close> entry that is no object is an exception.\<close>

definition normalize_stats :: "agent_error + json \<Rightarrow> (agent_queue list \<times> json) option" where
  "normalize_stats r =
     (case r of
        Inl e \<Rightarrow> Some ([], J_Null)
      | Inr result \<Rightarrow>
          (case (if is_obj result then key_of result ''stats'' else None) of
             None \<Rightarrow> Some ([], J_Null)
           | Some stats \<Rightarrow>
               (if \<not> is_obj stats then None
                else map_option (\<lambda>qs. (qs, raw_of (key_of stats ''raw''))) (queues_of (key_of stats ''queues'')))))"

definition fetch_qos_stats_from_agent :: "'w sender \<Rightarrow> nat \<Rightarrow> string \<Rightarrow> 'w gw_state \<Rightarrow> (agent_queue list \<times> json) option \<times> 'w gw_state" where
  "fetch_qos_stats_from_agent send i name st =
     (case ask send i ''GET'' (''/qos/stats/'' @ name) J_Null None st of (r, st1) \<Rightarrow> (normalize_stats r, st1))"

definition get_qos_stats :: "'w sender \<Rightarrow> token option \<Rightarrow> nat \<Rightarrow> nat \<Rightarrow> 'w gw_state \<Rightarrow>
    (nat + qos_row \<times> agent_queue list \<times> json) \<times> 'w gw_state" where
  "get_qos_stats send tok i k st =
     (case require_auth tok of
        Inl c \<Rightarrow> (Inl c, st)
      | Inr u \<Rightarrow>
          (case policy_of (gs_db st) i k of
             None \<Rightarrow> (Inl 404, st)
           | Some p \<Rightarrow>
               (case fetch_qos_stats_from_agent send i (qo_interface p) st of
                  (Some (qs, raw), st1) \<Rightarrow> (if qo_algorithm p = None then Inl 500 else Inr (p, qs, raw), st1)
                | (None, st1) \<Rightarrow> (Inl 500, st1))))"

section \<open>Block list, status and rollback\<close>

text \<open>A call whose outcome is written to the audit log.\<close>

definition audited_ask :: "'w sender \<Rightarrow> nat \<Rightarrow> string \<Rightarrow> string \<Rightarrow> string \<Rightarrow> json \<Rightarrow> string option \<Rightarrow> nat \<Rightarrow> string \<Rightarrow> string \<Rightarrow>
    'w gw_state \<Rightarrow> (agent_error + json) \<times> 'w gw_state" where
  "audited_ask send i action meth path body service user done failed st =
     (case ask send i meth path body service st of
        (Inr r, st1) \<Rightarrow> (Inr r, audit_dispatch i ''firewall_agent'' action path True done (Some user) st1)
      | (Inl e, st1) \<Rightarrow>
          (Inl e, audit_dispatch i ''firewall_agent'' action path False (failed @ agent_error_text e) (Some user) st1))"

definition block_ip :: "'w sender \<Rightarrow> token option \<Rightarrow> nat \<Rightarrow> string \<Rightarrow> string \<Rightarrow> string \<Rightarrow> 'w gw_state \<Rightarrow> (nat + string) \<times> 'w gw_state" where
  "block_ip send tok i ip reason duration st =
     (case require_admin tok of
        Inl c \<Rightarrow> (Inl c, st)
      | Inr u \<Rightarrow>
          (case audited_ask send i ''deploy'' ''POST'' ''/block''
                  (J_Obj [(''ip'', J_Str ip), (''reason'', J_Str reason), (''timeout'', J_Str (if duration = [] then ''1h'' else duration))])
                  None u (''Blocked '' @ ip @ '' ('' @ reason @ '', duration '' @ duration @ '')'') (''Block '' @ ip @ '' failed: '') st of
             (Inr r, st1) \<Rightarrow> (Inr ip, st1)
           | (Inl e, st1) \<Rightarrow> (Inl 502, st1)))"

definition unblock_ip :: "'w sender \<Rightarrow> token option \<Rightarrow> nat \<Rightarrow> string \<Rightarrow> 'w gw_state \<Rightarrow> (nat + string) \<times> 'w gw_state" where
  "unblock_ip send tok i ip st =
     (case require_admin tok of
        Inl c \<Rightarrow> (Inl c, st)
      | Inr u \<Rightarrow>
          (case audited_ask send i ''deploy'' ''POST'' ''/unblock'' (J_Obj [(''ip'', J_Str ip)]) None u
                  (''Unblocked '' @ ip) (''Unblock '' @ ip @ '' failed: '') st of
             (Inr r, st1) \<Rightarrow> (Inr ip, st1)
           | (Inl e, st1) \<Rightarrow> (Inl 502, st1)))"

definition get_firewall_stats :: "'w sender \<Rightarrow> token option \<Rightarrow> nat \<Rightarrow> 'w gw_state \<Rightarrow> (nat + json) \<times> 'w gw_state" where
  "get_firewall_stats send tok i st =
     (case require_auth tok of
        Inl c \<Rightarrow> (Inl c, st)
      | Inr u \<Rightarrow>
          (case ask send i ''GET'' ''/stats'' J_Null None st of
             (Inr r, st1) \<Rightarrow> (Inr r, st1)
           | (Inl e, st1) \<Rightarrow> (Inr (J_Obj [(''instance_id'', J_Int (int i)), (''connections'', J_Int 0), (''packets_accepted'', J_Int 0),
                 (''packets_dropped'', J_Int 0), (''blacklist_size'', J_Int 0), (''top_blocked_ips'', J_List [])]), st1)))"

definition get_firewall_agent_status :: "'w sender \<Rightarrow> token option \<Rightarrow> nat \<Rightarrow> 'w gw_state \<Rightarrow> (nat + json) \<times> 'w gw_state" where
  "get_firewall_agent_status send tok i st =
     (case require_auth tok of
        Inl c \<Rightarrow> (Inl c, st)
      | Inr u \<Rightarrow>
          (case audited_ask send i ''read'' ''GET'' ''/firewall/status'' J_Null (Some ''firewall'') u
                  ''Read agent firewall status'' ''Read firewall status failed: '' st of
             (Inr r, st1) \<Rightarrow> (Inr r, st1)
           | (Inl e, st1) \<Rightarrow> (Inr (J_Obj [(''status'', J_Str ''unreachable'')]), st1)))"

definition rollback_firewall :: "'w sender \<Rightarrow> token option \<Rightarrow> nat \<Rightarrow> 'w gw_state \<Rightarrow> (nat + json) \<times> 'w gw_state" where
  "rollback_firewall send tok i st =
     (case require_admin tok of
        Inl c \<Rightarrow> (Inl c, st)
      | Inr u \<Rightarrow>
          (case audited_ask send i ''deploy'' ''POST'' ''/firewall/rollback'' (J_Obj []) (Some ''firewall'') u
                  ''Rolled back last firewall apply'' ''Firewall rollback failed: '' st of
             (Inr r, st1) \<Rightarrow> (Inr r, st1)
           | (Inl e, st1) \<Rightarrow> (Inl 502, st1)))"

section \<open>Steps\<close>

datatype fw_call =
    Create_Rule nat rule_create
  | Update_Rule nat rule_patch
  | Delete_Rule nat
  | Move_Rule nat string
  | Apply_Now nat
  | Create_Nat nat nat_create
  | Create_Routing nat routing_create
  | Create_Policy nat qos_create
  | Update_Policy nat nat qos_patch
  | Delete_Policy nat nat
  | Apply_Policy nat nat
  | Create_Class nat nat qclass_create
  | Update_Class nat nat nat qclass_patch
  | Delete_Class nat nat nat
  | Block nat string string string
  | Unblock nat string
  | Policy_Stats nat nat
  | Agent_Stats nat
  | Agent_Status nat
  | Rollback nat

definition fw_handle :: "'w sender \<Rightarrow> token option \<Rightarrow> fw_call \<Rightarrow> 'w gw_state \<Rightarrow> 'w gw_state" where
  "fw_handle send tok c st =
     (case c of
        Create_Rule i d \<Rightarrow> snd (create_firewall_rule send tok i d st)
      | Update_Rule k p \<Rightarrow> snd (update_firewall_rule send tok k p st)
      | Delete_Rule k \<Rightarrow> snd (delete_firewall_rule send tok k st)
      | Move_Rule k d \<Rightarrow> snd (move_rule send tok k d st)
      | Apply_Now i \<Rightarrow> snd (apply_firewall tok i st)
      | Create_Nat i d \<Rightarrow> snd (create_nat_rule tok i d st)
      | Create_Routing i d \<Rightarrow> snd (create_routing_rule tok i d st)
      | Create_Policy i d \<Rightarrow> snd (create_qos_policy tok i d st)
      | Update_Policy i k d \<Rightarrow> snd (update_qos_policy tok i k d st)
      | Delete_Policy i k \<Rightarrow> snd (delete_qos_policy tok i k st)
      | Apply_Policy i k \<Rightarrow> snd (apply_qos_now tok i k st)
      | Create_Class i k d \<Rightarrow> snd (create_qos_class tok i k d st)
      | Update_Class i k c d \<Rightarrow> snd (update_qos_class tok i k c d st)
      | Delete_Class i k c \<Rightarrow> snd (delete_qos_class tok i k c st)
      | Block i ip reason duration \<Rightarrow> snd (block_ip send tok i ip reason duration st)
      | Unblock i ip \<Rightarrow> snd (unblock_ip send tok i ip st)
      | Policy_Stats i k \<Rightarrow> snd (get_qos_stats send tok i k st)
      | Agent_Stats i \<Rightarrow> snd (get_firewall_stats send tok i st)
      | Agent_Status i \<Rightarrow> snd (get_firewall_agent_status send tok i st)
      | Rollback i \<Rightarrow> snd (rollback_firewall send tok i st))"

inductive fw_step :: "'w sender \<Rightarrow> 'w gw_state \<Rightarrow> 'w gw_state \<Rightarrow> bool" for send where
  handle: "fw_step send st (fw_handle send tok c st)"
| run: "gs_tasks st = ts @ t # ts' \<Longrightarrow> fw_step send st (run_task send t (st\<lparr>gs_tasks := ts @ ts'\<rparr>))"

inductive_cases fw_stepE: "fw_step send st st'"

end
