(* ===== verification/Py_Ip6_Roundtrip.thy ===== *)
theory Py_Ip6_Roundtrip
  imports Py_Ipaddress
begin

text \<open>
  Printing an IPv6 address and parsing the text gives the address back, for every position and
  length of the run of zeros that \<open>::\<close> stands for and with or without a scope id.
\<close>

section \<open>One hextet\<close>

lemma hex_val_char [simp]: "d < 16 \<Longrightarrow> hex_val (hex_char d) = d"
  by (auto simp: hex_val_def hex_char_def is_digit_def is_lower_def char_between_def digit_val_def)

lemma hex_of_nat_val: "foldl (\<lambda>a c. a * 16 + hex_val c) 0 (hex_of_nat n) = n"
proof (induction n rule: hex_of_nat.induct)
  case (1 n)
  then show ?case by (subst hex_of_nat.simps) (cases "n < 16"; simp)
qed

lemma hex_of_nat_length: "n < 16 ^ Suc k \<Longrightarrow> length (hex_of_nat n) \<le> Suc k"
proof (induction k arbitrary: n)
  case 0
  then show ?case by (subst hex_of_nat.simps) simp
next
  case (Suc k)
  show ?case
  proof (cases "n < 16")
    case True
    then show ?thesis by (subst hex_of_nat.simps) simp
  next
    case False
    from Suc.prems have "n div 16 < 16 ^ Suc k" by (simp add: div_less_iff_less_mult mult.commute)
    from Suc.IH[OF this] False show ?thesis by (subst hex_of_nat.simps) simp
  qed
qed

lemma hextet_of_hex [simp]: "n < 65536 \<Longrightarrow> hextet_of_string (hex_of_nat n) = Some n"
  using hex_of_nat_length[of n 3] hex_of_nat_val[of n] hex_of_nat_chars[of _ n]
  by (auto simp: hextet_of_string_def list_all_iff)

lemma hex_of_nat_zero: "hex_of_nat n = ''0'' \<longleftrightarrow> n = 0"
proof
  assume "hex_of_nat n = ''0''"
  then have "foldl (\<lambda>a c. a * 16 + hex_val c) 0 ''0'' = n" using hex_of_nat_val[of n] by simp
  then show "n = 0" by (simp add: hex_val_def is_digit_def char_between_def digit_val_def)
next
  assume "n = 0"
  then show "hex_of_nat n = ''0''" by (subst hex_of_nat.simps) (simp, code_simp)
qed

lemma hex_of_nat_seps [simp]:
  "CHR '':'' \<notin> set (hex_of_nat n)" "CHR ''.'' \<notin> set (hex_of_nat n)" "CHR ''%'' \<notin> set (hex_of_nat n)"
  "CHR ''/'' \<notin> set (hex_of_nat n)"
  by (auto dest!: hex_of_nat_chars simp: char_class_defs)

section \<open>Eight hextets\<close>

definition value_of :: "nat list \<Rightarrow> nat" where
  "value_of vs = foldl (\<lambda>a v. a * 65536 + v) 0 vs"

fun digits_of :: "nat \<Rightarrow> nat \<Rightarrow> nat list" where
  "digits_of 0 n = []"
| "digits_of (Suc k) n = digits_of k (n div 65536) @ [n mod 65536]"

lemma digits_of_length [simp]: "length (digits_of k n) = k"
  by (induction k arbitrary: n) auto

lemma digits_of_bound: "v \<in> set (digits_of k n) \<Longrightarrow> v < 65536"
  by (induction k arbitrary: n) auto

lemma hextets_of_digits: "hextets_of k n = map hex_of_nat (digits_of k n)"
  by (induction k arbitrary: n) auto

lemma value_of_digits: "n < 65536 ^ k \<Longrightarrow> value_of (digits_of k n) = n"
proof (induction k arbitrary: n)
  case (Suc k)
  then have "n div 65536 < 65536 ^ k" by (simp add: div_less_iff_less_mult mult.commute)
  with Suc.IH show ?case by (simp add: value_of_def)
qed (simp add: value_of_def)

lemma hextets_val_hex:
  "\<forall>v\<in>set vs. v < 65536 \<Longrightarrow> hextets_val a (map hex_of_nat vs) = Some (foldl (\<lambda>a v. a * 65536 + v) a vs)"
  by (induction vs arbitrary: a) auto

lemma foldl_zeros: "foldl (\<lambda>a v. a * 65536 + v) a (replicate m (0::nat)) = a * 65536 ^ m"
  by (induction m arbitrary: a) (auto simp: mult.assoc)

section \<open>The run of zeros\<close>

lemma zero_run_take: "m \<le> zero_run hs \<Longrightarrow> take m hs = replicate m ''0''"
proof (induction hs arbitrary: m)
  case (Cons h hs)
  then show ?case by (cases m) (auto split: if_splits)
qed simp

lemma zero_run_le: "zero_run hs \<le> length hs"
  by (induction hs) auto

lemma best_run_zeros:
  "best_run i hs = (j, m) \<Longrightarrow> i \<le> j \<and> j + m \<le> i + length hs \<and> take m (drop (j - i) hs) = replicate m ''0''"
proof (induction hs arbitrary: i j m)
  case (Cons h hs)
  obtain j' m' where r: "best_run (Suc i) hs = (j', m')" by (cases "best_run (Suc i) hs")
  note IH = Cons.IH[OF r]
  show ?case
  proof (cases "zero_run (h # hs) \<ge> m'")
    case True
    with Cons.prems r have "j = i" "m = zero_run (h # hs)" by (auto simp: Let_def split: if_splits)
    then show ?thesis using zero_run_le[of "h # hs"] zero_run_take[of m "h # hs"] by simp
  next
    case False
    with Cons.prems r have "j = j'" "m = m'" by (auto simp: Let_def split: if_splits)
    with IH show ?thesis by (simp add: Suc_diff_le[symmetric] Suc_diff_Suc drop_Cons')
  qed
qed simp

section \<open>Compressed addresses\<close>

lemma inner_empties_around:
  assumes "xs \<noteq> []" "ys \<noteq> []" "[] \<notin> set (tl xs)" "[] \<notin> set (butlast ys)"
  shows "inner_empties (xs @ [] # ys) = [length xs]"
proof -
  let ?ps = "xs @ [] # ys"
  have up: "[1..<length ?ps - 1] = [1..<length xs] @ length xs # [Suc (length xs)..<length xs + length ys]"
  proof -
    have "1 \<le> length xs" "length xs < length xs + length ys" using assms(1,2) by (simp_all add: Suc_le_eq)
    then show ?thesis by (simp add: upt_add_eq_append upt_conv_Cons)
  qed
  have before: "?ps ! i \<noteq> []" if "i \<in> set [1..<length xs]" for i
  proof -
    from that have "?ps ! i = tl xs ! (i - 1)" "i - 1 < length (tl xs)" by (auto simp: nth_append nth_tl)
    with assms(3) show ?thesis by (metis nth_mem)
  qed
  have after: "?ps ! i \<noteq> []" if i: "i \<in> set [Suc (length xs)..<length xs + length ys]" for i
  proof -
    obtain d where d: "i = Suc (length xs) + d" using i by (auto simp: le_iff_add)
    with i have "?ps ! i = butlast ys ! d" "d < length (butlast ys)" by (auto simp: nth_append nth_butlast)
    with assms(4) show ?thesis by (metis nth_mem)
  qed
  show ?thesis unfolding inner_empties_def up
    using before after by (simp add: filter_empty_conv nth_append)
qed

definition run_prefix :: "nat list \<Rightarrow> string list" where
  "run_prefix as = (if as = [] then [[]] else map hex_of_nat as)"

lemma run_prefix_simps [simp]:
  "run_prefix as \<noteq> []" "[] \<notin> set (tl (run_prefix as))" "[] \<notin> set (butlast (run_prefix as))"
  using hex_of_nat_not_Nil[symmetric]
  by (auto simp: run_prefix_def dest!: in_set_butlastD list.set_sel(2)[rotated])

lemma run_prefix_ends [simp]:
  "hd (run_prefix as) = [] \<longleftrightarrow> as = []" "last (run_prefix as) = [] \<longleftrightarrow> as = []"
  by (auto simp: run_prefix_def hd_map last_map)

lemma ip6_of_compressed:
  assumes m: "1 < m" and len: "length as + m + length bs = 8" and b: "\<forall>v\<in>set as. v < 65536" "\<forall>v\<in>set bs. v < 65536"
  shows "ip6_of_parts (run_prefix as @ [] # run_prefix bs) = Some (word_of_nat (value_of (as @ replicate m 0 @ bs)))"
proof -
  let ?ps = "run_prefix as @ [] # run_prefix bs"
  let ?k = "length (run_prefix as)"
  have la: "?k = (if as = [] then 1 else length as)" and lb: "length (run_prefix bs) = (if bs = [] then 1 else length bs)"
    by (auto simp: run_prefix_def)
  have n: "3 \<le> length ?ps" "length ?ps \<le> 9" using m len la lb
    by (cases as; cases bs; simp)+
  have inner: "inner_empties ?ps = [?k]" by (rule inner_empties_around) auto
  have hd: "hd ?ps = [] \<longleftrightarrow> as = []" and last: "last ?ps = [] \<longleftrightarrow> bs = []" by auto
  have hi: "(if hd ?ps = [] then ?k - 1 else ?k) = length as" unfolding hd by (simp add: run_prefix_def)
  have lo: "(if last ?ps = [] then length ?ps - ?k - 2 else length ?ps - ?k - 1) = length bs" using lb last by auto
  have t: "take (length as) ?ps = map hex_of_nat as" by (auto simp: run_prefix_def)
  have d: "drop (length ?ps - length bs) ?ps = map hex_of_nat bs" using lb by (auto simp: run_prefix_def)
  have e: "8 - (length as + length bs) = m" using len by simp
  have "ip6_fill (length as) (length bs) ?ps = Some (word_of_nat (value_of (as @ replicate m 0 @ bs)))"
    unfolding ip6_fill_def t d e by (simp add: hextets_val_hex b value_of_def foldl_zeros)
  then show ?thesis unfolding ip6_of_parts_def Let_def inner list.case hi lo using n m len hd last
    by simp
qed

lemma ip6_of_full:
  assumes "length vs = 8" "\<forall>v\<in>set vs. v < 65536"
  shows "ip6_of_parts (map hex_of_nat vs) = Some (word_of_nat (value_of vs))"
proof -
  have "inner_empties (map hex_of_nat vs) = []"
    using assms(1) by (auto simp: inner_empties_def filter_empty_conv)
  with assms show ?thesis by (simp add: ip6_of_parts_def hextets_val_hex value_of_def)
qed

text \<open>What \<open>compress_hextets\<close> yields, in the two forms the parser distinguishes.\<close>

lemma compress_hex:
  assumes "length vs = 8"
  obtains "compress_hextets (map hex_of_nat vs) = map hex_of_nat vs"
  | as m bs where "1 < m" "vs = as @ replicate m 0 @ bs"
      "compress_hextets (map hex_of_nat vs) = run_prefix as @ [] # run_prefix bs"
proof (cases "best_run 0 (map hex_of_nat vs)")
  case (Pair j m)
  show thesis
  proof (cases "m > 1")
    case False
    with Pair that(1) show thesis by (simp add: compress_hextets_def)
  next
    case True
    let ?as = "take j vs" and ?bs = "drop (j + m) vs"
    from best_run_zeros[OF Pair] have z: "j + m \<le> 8" "map hex_of_nat (take m (drop j vs)) = replicate m ''0''"
      using assms by (simp_all add: take_map drop_map)
    from z(2) have "\<forall>v\<in>set (take m (drop j vs)). v = 0"
      by (metis (no_types, lifting) hex_of_nat_zero image_eqI in_set_replicate list.set_map)
    moreover have "length (take m (drop j vs)) = m" using z(1) assms by simp
    ultimately have "take m (drop j vs) = replicate m 0" by (metis replicate_eqI)
    then have vs: "vs = ?as @ replicate m 0 @ ?bs"
      by (metis append_take_drop_id drop_drop add.commute)
    have "compress_hextets (map hex_of_nat vs) = run_prefix ?as @ [] # run_prefix ?bs"
      using Pair True z(1) assms by (auto simp: compress_hextets_def run_prefix_def take_map drop_map)
    with True vs that(2) show thesis by blast
  qed
qed

lemma ip6_value_str: "ip6_value (join '':'' (compress_hextets (hextets w))) = Some w"
proof -
  define vs where "vs = digits_of 8 (unat w)"
  have vs: "length vs = 8" "\<forall>v\<in>set vs. v < 65536" by (auto simp: vs_def dest: digits_of_bound)
  have "unat w < 65536 ^ 8" using unsigned_less[of w, where ?'a = nat] by simp
  then have val: "word_of_nat (value_of vs) = w" by (simp add: vs_def value_of_digits)
  have hs: "hextets w = map hex_of_nat vs" by (simp add: hextets_def vs_def hextets_of_digits)
  obtain ps where ps: "compress_hextets (hextets w) = ps" "ip6_of_parts ps = Some w" "3 \<le> length ps"
    "\<forall>p\<in>set ps. p = [] \<or> (\<exists>v. p = hex_of_nat v)"
    using vs(1)
  proof (cases rule: compress_hex)
    case 1
    with that[of "map hex_of_nat vs"] ip6_of_full[OF vs] val vs(1) hs show thesis by auto
  next
    case (2 as m bs)
    have "length as + m + length bs = 8" using vs(1) unfolding 2(2) by simp
    with 2 vs(2) have "ip6_of_parts (run_prefix as @ [] # run_prefix bs) = Some w"
      using ip6_of_compressed[of m as bs] val by auto
    moreover have "\<forall>p\<in>set (run_prefix as @ [] # run_prefix bs). p = [] \<or> (\<exists>v. p = hex_of_nat v)"
      by (auto simp: run_prefix_def)
    moreover have "3 \<le> length (run_prefix as @ [] # run_prefix bs)"
      by (cases as; cases bs; simp add: run_prefix_def)
    ultimately show thesis using that 2(3) hs by auto
  qed
  have "split_on CHR '':'' (join '':'' ps) = ps"
    using ps(3,4) by (intro split_on_join) auto
  moreover have "CHR ''.'' \<notin> set (last ps)" using ps(3,4) by (metis empty_iff hex_of_nat_seps(2) last_in_set list.set(1) list.size(3) not_numeral_le_zero)
  ultimately show ?thesis using ps by (simp add: ip6_value_def)
qed

section \<open>Addresses with a scope id\<close>

definition scope_ok :: "string option \<Rightarrow> bool" where
  "scope_ok sc \<longleftrightarrow> (case sc of None \<Rightarrow> True | Some t \<Rightarrow> t \<noteq> [] \<and> CHR ''%'' \<notin> set t \<and> CHR ''/'' \<notin> set t)"

lemma ip6_of_string_scope: "ip6_of_string s = Some (v, sc) \<Longrightarrow> scope_ok sc"
proof -
  assume a: "ip6_of_string s = Some (v, sc)"
  show ?thesis
  proof (cases "CHR ''%'' \<in> set s")
    case True
    obtain p q where pq: "partition_at CHR ''%'' s = (p, q)" by (cases "partition_at CHR ''%'' s")
    with partition_at_found[OF True] have "set q \<subseteq> set s" by auto
    with a True pq show ?thesis by (auto simp: ip6_of_string_def scope_ok_def split: if_splits)
  next
    case False
    with a show ?thesis by (auto simp: ip6_of_string_def scope_ok_def split: if_splits)
  qed
qed

lemma partition_at_append: "c \<notin> set a \<Longrightarrow> partition_at c (a @ c # b) = (a, b)"
  by (induction a) auto

lemma ip6_of_string_str: "scope_ok sc \<Longrightarrow> ip6_of_string (ip6_str w sc) = Some (w, sc)"
proof -
  let ?a = "join '':'' (compress_hextets (hextets w))"
  have a: "c \<in> set ?a \<Longrightarrow> is_hexdigit c \<or> c = CHR '':''" for c
    unfolding hextets_def by (auto dest!: join_chars compress_hextets_subset hextets_of_chars)
  then have n: "CHR ''%'' \<notin> set ?a" "CHR ''/'' \<notin> set ?a" by (force simp: char_class_defs)+
  assume "scope_ok sc"
  with n ip6_value_str[of w] show ?thesis
    by (cases sc) (auto simp: ip6_of_string_def ip6_str_def scope_ok_def partition_at_append)
qed

end
