(* ===== verification/Gw_Firewall_Props.thy ===== *)
theory Gw_Firewall_Props
  imports Gw_Payload Gw_Tasks Py_Ip6_Roundtrip
begin

text \<open>
  The contract between the gateway and the firewall agent: every field the agent reads is written by
  the gateway under the same name, what the conversion of such a body can refuse, and what the routing
  part of it can never ask for.
\<close>

section \<open>Reading what was written\<close>

lemma str_key_drop: "distinct (map fst kvs) \<Longrightarrow> str_key (drop_none kvs) k = (case map_of kvs k of Some (J_Str s) \<Rightarrow> Some s | _ \<Rightarrow> None)"
  by (simp add: str_key_def key_drop_none split: option.splits json.splits)

lemma int_key_drop: "distinct (map fst kvs) \<Longrightarrow> int_key (drop_none kvs) k = (case map_of kvs k of Some (J_Int n) \<Rightarrow> Some n | _ \<Rightarrow> None)"
  by (simp add: int_key_def key_drop_none split: option.splits json.splits)

lemma bool_key_drop: "distinct (map fst kvs) \<Longrightarrow> bool_key (drop_none kvs) k = (case map_of kvs k of Some (J_Bool b) \<Rightarrow> Some b | _ \<Rightarrow> None)"
  by (simp add: bool_key_def key_drop_none split: option.splits json.splits)

lemma list_key_drop: "distinct (map fst kvs) \<Longrightarrow> list_key (drop_none kvs) k = (case map_of kvs k of Some (J_List xs) \<Rightarrow> Some xs | _ \<Rightarrow> None)"
  by (simp add: list_key_def key_drop_none split: option.splits json.splits)

lemmas key_reads = str_key_drop int_key_drop bool_key_drop list_key_drop

lemma opt_str_read: "(case opt_str s of J_Str t \<Rightarrow> Some t | _ \<Rightarrow> None) = s"
  by (simp add: opt_str_def split: option.splits)

lemma opt_int_read: "(case opt_int i of J_Int t \<Rightarrow> Some t | _ \<Rightarrow> None) = i"
  by (simp add: opt_int_def split: option.splits)

lemma opt_bool_read: "(case opt_bool b of J_Bool t \<Rightarrow> Some t | _ \<Rightarrow> None) = b"
  by (simp add: opt_bool_def split: option.splits)

lemmas opt_reads = opt_str_read opt_int_read opt_bool_read

definition agent_rule :: "nat \<times> rule_row \<Rightarrow> fw_entry" where
  "agent_rule e = (let (k, r) = e in
     \<lparr>fe_id = Some (int k), fe_name = Some (Some (ru_name r)), fe_source_type = ru_source_type r,
      fe_source_value = ru_source_value r, fe_dest_type = ru_dest_type r, fe_dest_value = ru_dest_value r,
      fe_service_protocol = ru_protocol r, fe_service_ports = ru_ports r, fe_interface_in = None, fe_interface_out = None,
      fe_action = ru_action r, fe_log_enabled = (ru_log r = Some True), fe_limit = ru_limit r, fe_order_index = Some (ru_order r)\<rparr>)"

definition agent_nat :: "nat \<times> nat_row \<Rightarrow> nat_entry" where
  "agent_nat e = (let (k, n) = e in
     \<lparr>ne_id = Some (int k), ne_name = Some (Some (na_name n)), ne_type = na_type n, ne_source_network = na_source_network n,
      ne_dest_network = na_dest_network n, ne_to_source = na_to_source n, ne_to_destination = na_to_destination n,
      ne_service_protocol = na_protocol n, ne_service_ports = na_ports n, ne_interface = na_interface n\<rparr>)"

definition opt_jstr :: "string option \<Rightarrow> jval" where
  "opt_jstr s = (case s of None \<Rightarrow> JNone | Some t \<Rightarrow> JStr t)"

definition agent_routing :: "nat \<times> routing_row \<Rightarrow> rt_entry" where
  "agent_routing e = (let (k, r) = e in
     \<lparr>re_enabled = None, re_kind = None, re_table = None, re_priority = None, re_order_index = map_option JInt (rr_order r),
      re_source = None, re_source_network = opt_jstr (rr_source r), re_destination = None, re_dest_network = opt_jstr (rr_dest r),
      re_inbound_interface = rr_inbound r, re_outbound_interface = rr_outbound r, re_iif = None, re_interface = None,
      re_mark = (case rr_mark r of None \<Rightarrow> JNone | Some m \<Rightarrow> JInt m), re_gateway = rr_gateway r, re_metric = None,
      re_route_destination = None, re_route_source = None\<rparr>)"

definition agent_class :: "nat \<times> qclass_row \<Rightarrow> qos_entry" where
  "agent_class e = (let (k, c) = e in
     \<lparr>qe_name = Some (cl_name c), qe_priority = map_option QInt (cl_priority c), qe_min_rate_kbps = Some (QInt (cl_min c)),
      qe_min_rate = None, qe_max_rate_kbps = Some (QInt (cl_max c)), qe_max_rate = None,
      qe_match_ports = map_option (\<lambda>ps. QList (map QInt ps)) (cl_ports c), qe_match_protocol = map_option QStr (cl_protocol c)\<rparr>)"

definition agent_qos :: "(nat \<times> qos_row) \<times> (nat \<times> qclass_row) list \<Rightarrow> qos_policy" where
  "agent_qos e = (let ((k, p), cs) = e in
     \<lparr>qp_interface = Some (qo_interface p), qp_download = Some (qo_download p), qp_upload = Some (qo_upload p),
      qp_algorithm = qo_algorithm p, qp_classes = map (\<lambda>c. Some (agent_class c)) cs\<rparr>)"

lemma read_rule_payload: "read_rule (rule_payload e) = agent_rule e"
  by (cases e) (simp add: read_rule_def rule_payload_def agent_rule_def name_key_def key_reads key_drop_none opt_reads)

lemma read_nat_payload: "read_nat (nat_payload e) = agent_nat e"
  by (cases e) (simp add: read_nat_def nat_payload_def agent_nat_def name_key_def key_reads key_drop_none opt_reads)

lemma read_interface_payload: "read_interface (interface_payload (k, i)) = \<lparr>if_name = Some (ir_name i), if_type = ir_type i\<rparr>"
  by (simp add: read_interface_def interface_payload_def key_reads opt_reads)

lemma read_routing_payload: "read_routing (routing_payload e) = agent_routing e"
  by (cases e)
    (simp add: read_routing_def routing_payload_def agent_routing_def scalar_key_def key_reads key_drop_none opt_reads
      opt_jstr_def opt_str_def opt_int_def split: option.splits)

lemma drop_none_obj: "\<exists>kvs. drop_none fs = J_Obj kvs" by (simp add: drop_none_def)

lemma read_class_payload: "read_class (qos_class_payload e) = Some (agent_class e)"
proof -
  obtain k c where e: "e = (k, c)" by (cases e)
  obtain kvs where o: "qos_class_payload e = J_Obj kvs" using drop_none_obj by (auto simp: qos_class_payload_def e Let_def)
  show ?thesis unfolding read_class_def o json.case unfolding o[symmetric]
    by (simp add: qos_class_payload_def agent_class_def e key_reads key_drop_none opt_reads opt_list_def opt_str_def opt_int_def comp_def
        split: option.splits)
qed

lemma read_qos_payload: "read_qos (qos_payload e) = agent_qos e"
  by (cases e) (auto simp add: read_qos_def qos_payload_def agent_qos_def key_reads opt_reads items_def comp_def read_class_payload)

section \<open>The whole body\<close>

definition agent_interface :: "nat \<times> iface_row \<Rightarrow> iface" where
  "agent_interface e = \<lparr>if_name = Some (ir_name (snd e)), if_type = ir_type (snd e)\<rparr>"

lemma read_build:
  "read_request (build_instance_firewall_payload db i) =
     \<lparr>rq_interfaces = map agent_interface (load_enabled_rows if_instance ir_enabled (\<lambda>r. (0, 0)) i (fd_ifaces db)),
      rq_rules = map agent_rule (load_enabled_rows ru_instance ru_enabled (\<lambda>r. (0, ru_order r)) i (fd_rules db)),
      rq_nat_rules = map agent_nat (load_enabled_rows na_instance na_enabled (\<lambda>r. (0, na_order r)) i (fd_nats db)),
      rq_routing_rules = map agent_routing (load_enabled_rows rr_instance rr_enabled (null_last \<circ> rr_order) i (fd_routes db)),
      rq_qos = map (\<lambda>p. agent_qos (p, classes_of_policy db (fst p))) (load_enabled_rows qo_instance qo_enabled (\<lambda>r. (0, 0)) i (fd_qos db))\<rparr>"
proof -
  have "read_interface (interface_payload e) = agent_interface e" for e
    by (cases e) (simp add: read_interface_payload agent_interface_def)
  then show ?thesis
    by (simp add: read_request_def build_instance_firewall_payload_def compose_firewall_payload_def list_key_def items_def
        comp_def read_rule_payload read_nat_payload read_routing_payload read_qos_payload)
qed

text \<open>C16: The body the gateway sends for an instance reads, on the agent's side, as exactly its enabled
  rows in dispatch order: every field the agent looks up arrives under the name it looks for with
  the value stored (an absent key for a null), and rows of other instances and disabled rows do not
  appear.\<close>

theorem payload_roundtrip:
  "read_request (build_instance_firewall_payload db i) =
     \<lparr>rq_interfaces = map agent_interface (load_enabled_rows if_instance ir_enabled (\<lambda>r. (0, 0)) i (fd_ifaces db)),
      rq_rules = map agent_rule (load_enabled_rows ru_instance ru_enabled (\<lambda>r. (0, ru_order r)) i (fd_rules db)),
      rq_nat_rules = map agent_nat (load_enabled_rows na_instance na_enabled (\<lambda>r. (0, na_order r)) i (fd_nats db)),
      rq_routing_rules = map agent_routing (load_enabled_rows rr_instance rr_enabled (null_last \<circ> rr_order) i (fd_routes db)),
      rq_qos = map (\<lambda>p. agent_qos (p, classes_of_policy db (fst p))) (load_enabled_rows qo_instance qo_enabled (\<lambda>r. (0, 0)) i (fd_qos db))\<rparr>
   \<and> set (load_enabled_rows inst enabled order i t) = {e. e \<in> set (tb_rows t) \<and> inst (snd e) = i \<and> enabled (snd e) = Some True}
   \<and> sorted (map (\<lambda>(k, r). (order r, k)) (load_enabled_rows inst enabled order i t))"
  by (auto simp: read_build load_enabled_rows_def rows_where_def)

text \<open>
  Properties of the gateway's firewall router: what a dispatch can change, the invariant of the stored
  rows over every sequence of handler calls and task runs, and what it guarantees to the agent.
\<close>

section \<open>NAT targets: two copies of one parser\<close>

lemma validate_nat_to_addr_eq: "validate_nat_to_addr value = normalize_to_addr value"
proof -
  have h: "startswith value ''['' \<longleftrightarrow> value \<noteq> [] \<and> hd value = CHR ''[''"
    by (cases "value") (auto simp: startswith_def)
  have e: "ip4_of_string [] = None" by code_simp
  have p: "target_port_ok t \<longleftrightarrow> (all_digits t \<and> length t \<le> 5) \<and> 1 \<le> digits_val 0 t \<and> digits_val 0 t \<le> 65535" for t
    by (auto simp: target_port_ok_def)
  have b: "split_bracketed value = Some (a, Some t) \<Longrightarrow> all_digits t \<and> length t \<le> 5" for a t
    by (auto simp: split_bracketed_def Let_def split: prod.splits if_splits)
  show ?thesis
    unfolding validate_nat_to_addr_def normalize_to_addr_def h p using e b
    by (auto simp: map_option_case Let_def split: option.splits prod.splits)
qed

lemma bracket_chars_ip6: "scope_ok sc \<Longrightarrow> list_all bracket_char (or_empty sc) \<Longrightarrow> list_all bracket_char (ip6_str v sc)"
proof -
  assume s: "list_all bracket_char (or_empty sc)"
  have "bracket_char c" if "c \<in> set (join '':'' (compress_hextets (hextets v)))" for c
    using that unfolding hextets_def bracket_char_def
    by (auto dest!: join_chars compress_hextets_subset hextets_of_chars)
  with s show ?thesis by (cases sc) (auto simp: ip6_str_def list_all_iff bracket_char_def)
qed

lemma split_bracketed_join:
  assumes "s \<noteq> []" "list_all bracket_char s" "rest = [] \<or> (\<exists>q. rest = CHR '':'' # q \<and> target_port_ok q)"
  shows "split_bracketed (CHR ''['' # s @ CHR '']'' # rest)
      = Some (s, if rest = [] then None else Some (tl rest))"
proof -
  have "CHR '']'' \<notin> set s" using assms(2) by (auto simp: list_all_iff bracket_char_def char_class_defs)
  from partition_at_append[OF this, of rest] assms show ?thesis
    by (auto simp: split_bracketed_def target_port_ok_def)
qed

lemma rpartition_at_append: "c \<notin> set q \<Longrightarrow> rpartition_at c (a @ c # q) = (a, q)"
  using partition_at_append[of c "rev q" "rev a"] by (simp add: rpartition_at_def)

lemma ip4_str_not: "c \<in> {CHR ''['', CHR '':''} \<Longrightarrow> c \<notin> set (ip4_str v)"
  by (auto simp: ip4_str_def Let_def char_class_defs dest!: string_of_nat_digits)

lemma ip4_str_not_Nil [simp]: "ip4_str v \<noteq> []"
  by (simp add: ip4_str_def Let_def)

lemma normalize_fixed: "normalize_to_addr value = Some t \<Longrightarrow> normalize_to_addr t = Some t"
proof -
  assume n: "normalize_to_addr value = Some t"
  have clean: "\<not> (\<exists>c\<in>set t. c \<in> {newline, carriage, CHR ''=''})"
    using normalize_to_addr_chars[OF n] by auto
  from n consider
    (v6) a v sc rest where "ip6_of_string a = Some (v, sc)" "list_all bracket_char a"
      "t = CHR ''['' # ip6_str v sc @ CHR '']'' # rest" "rest = [] \<or> (\<exists>q. rest = CHR '':'' # q \<and> target_port_ok q)"
    | (v4_port) v q where "t = ip4_str v @ CHR '':'' # q" "target_port_ok q"
    | (v4) v where "t = ip4_str v"
    by (auto simp: normalize_to_addr_def dest: split_bracketed_chars split: if_splits option.splits prod.splits)
  then show ?thesis
  proof cases
    case v6
    let ?s = "ip6_str v sc"
    have sc: "scope_ok sc" by (rule ip6_of_string_scope[OF v6(1)])
    have parsed: "ip6_of_string ?s = Some (v, sc)" by (rule ip6_of_string_str[OF sc])
    have "ip6_of_string [] = None" by code_simp
    with parsed have ne: "?s \<noteq> []" by auto
    have "set (or_empty sc) \<subseteq> set a"
      using v6(1) partition_at_found[of "CHR ''%''" a]
      by (auto simp: ip6_of_string_def split: if_splits prod.splits)
    with v6(2) have "list_all bracket_char (or_empty sc)" by (auto simp: list_all_iff)
    then have bc: "list_all bracket_char ?s" by (rule bracket_chars_ip6[OF sc])
    have sb: "split_bracketed t = Some (?s, if rest = [] then None else Some (tl rest))"
      unfolding v6(3) by (rule split_bracketed_join[OF ne bc v6(4)])
    have hd: "t \<noteq> []" "hd t = CHR ''[''" by (simp_all add: v6(3))
    have "normalize_to_addr t = Some (''['' @ ?s @ '']'' @ rest)"
    proof (cases "rest = []")
      case True
      with sb show ?thesis
        by (simp only: normalize_to_addr_def[of t] clean hd sb parsed simp_thms if_True if_False option.case prod.case append.simps append_Nil2)
    next
      case False
      with v6(4) obtain q where "rest = CHR '':'' # q" "target_port_ok q" by blast
      with sb show ?thesis
        by (simp only: normalize_to_addr_def[of t] clean hd sb parsed list.sel list.distinct simp_thms if_True if_False option.case prod.case append.simps)
    qed
    then show ?thesis by (simp add: v6(3))
  next
    case v4_port
    have q: "CHR '':'' \<notin> set q" using v4_port(2) by (auto simp: target_port_ok_def all_digits_def list_all_iff char_class_defs)
    have "hd t \<noteq> CHR ''[''" using ip4_str_not[of "CHR ''[''" v] v4_port(1) by (cases "ip4_str v") auto
    with clean v4_port rpartition_at_append[OF q, of "ip4_str v"] show ?thesis
      by (auto simp: normalize_to_addr_def)
  next
    case v4
    have "hd t \<noteq> CHR ''[''" using ip4_str_not[of "CHR ''[''" v] v4 by (cases "ip4_str v") auto
    with clean v4 ip4_str_not[of "CHR '':''" v] show ?thesis by (auto simp: normalize_to_addr_def)
  qed
qed

text \<open>C23: The gateway's NAT target validator and the agent's are the same function, and what it returns is
  a fixed point of it, for IPv4 and IPv6 targets, with and without a port or a scope id. So a target
  the gateway stored is accepted unchanged by the agent and by the gateway's own response check.\<close>

theorem nat_target_agreement:
  "validate_nat_to_addr value = normalize_to_addr value
   \<and> (\<forall>t. validate_nat_to_addr value = Some t \<longrightarrow> validate_nat_to_addr t = Some t \<and> normalize_to_addr t = Some t)"
  using validate_nat_to_addr_eq normalize_fixed by auto

theorem nat_target_agreement_witness:
  "validate_nat_to_addr ''[2001:DB8:0:0::1]:0443'' = Some ''[2001:db8::1]:0443''
   \<and> normalize_to_addr ''[2001:db8::1]:0443'' = Some ''[2001:db8::1]:0443''"
proof -
  have v: "validate_nat_to_addr ''[2001:DB8:0:0::1]:0443'' = Some ''[2001:db8::1]:0443''" by code_simp
  with nat_target_agreement[of "''[2001:DB8:0:0::1]:0443''"] show ?thesis by blast
qed

end
