(* ===== verification/Gw_Invariant.thy ===== *)
theory Gw_Invariant
  imports Gw_Firewall_Props
begin

text \<open>
  What a request to an agent can change, and the invariant of the stored rows: it holds over every
  sequence of handler calls and task runs, whatever the agents answer.
\<close>

section \<open>Frames\<close>

text \<open>The same rows in every table, but perhaps another audit log.\<close>

definition same_rows :: "fw_db \<Rightarrow> fw_db \<Rightarrow> bool" where
  "same_rows db db' \<longleftrightarrow> db\<lparr>fd_audit := []\<rparr> = db'\<lparr>fd_audit := []\<rparr>"

lemma same_rows_refl [simp]: "same_rows db db" by (simp add: same_rows_def)

lemma same_rows_trans: "same_rows a b \<Longrightarrow> same_rows b c \<Longrightarrow> same_rows a c" by (simp add: same_rows_def)

lemma same_rows_audit [simp]: "same_rows db (db\<lparr>fd_audit := au\<rparr>)" by (simp add: same_rows_def)

lemma same_rows_fields:
  "same_rows db db' \<Longrightarrow> fd_rules db' = fd_rules db \<and> fd_nats db' = fd_nats db \<and> fd_routes db' = fd_routes db
     \<and> fd_qos db' = fd_qos db \<and> fd_classes db' = fd_classes db \<and> fd_ifaces db' = fd_ifaces db
     \<and> fd_instances db' = fd_instances db \<and> fd_users db' = fd_users db"
  by (cases db; cases db') (auto simp: same_rows_def)

lemma payload_same_rows: "same_rows db db' \<Longrightarrow> build_instance_firewall_payload db' i = build_instance_firewall_payload db i"
  using same_rows_fields[of db db'] by (simp add: build_instance_firewall_payload_def classes_of_policy_def)

definition quiet :: "'w gw_state \<Rightarrow> 'w gw_state \<Rightarrow> bool" where
  "quiet st st' \<longleftrightarrow> same_rows (gs_db st) (gs_db st') \<and> gs_tasks st' = gs_tasks st"

lemma quiet_refl [simp]: "quiet st st" by (simp add: quiet_def)
lemma quiet_trans: "quiet a b \<Longrightarrow> quiet b c \<Longrightarrow> quiet a c" by (auto simp: quiet_def intro: same_rows_trans)

lemma ask_quiet: "ask send i m p b s st = (r, st') \<Longrightarrow> quiet st st' \<and> gs_db st' = gs_db st"
  by (auto simp: ask_def quiet_def split: prod.splits)

lemma audit_dispatch_quiet [simp]: "quiet st (audit_dispatch i ty a p ok d u st)"
  by (simp add: audit_dispatch_def set_db_def quiet_def)

lemma audit_quiet [simp]: "quiet st (audit u a ty k i st)"
  by (simp add: audit_def set_db_def quiet_def)

lemma apply_firewall_config_quiet: "apply_firewall_config send i u st = (r, st') \<Longrightarrow> quiet st st'"
  by (auto simp: apply_firewall_config_def split: prod.splits sum.splits dest!: ask_quiet
      intro: quiet_trans[OF _ audit_dispatch_quiet])

lemma dispatch_then_quiet: "quiet st (snd (dispatch_then send i u reply st))"
  by (auto simp: dispatch_then_def split: prod.splits sum.splits dest: apply_firewall_config_quiet)

lemma audited_ask_quiet: "audited_ask send i a m p b s u d f st = (r, st') \<Longrightarrow> quiet st st'"
  by (auto simp: audited_ask_def split: prod.splits sum.splits dest!: ask_quiet
      intro: quiet_trans[OF _ audit_dispatch_quiet])

lemma ask_snd_quiet: "quiet st (snd (ask send i m p b s st))"
  by (cases "ask send i m p b s st") (auto dest: ask_quiet)

lemma run_task_quiet: "quiet st (run_task send t st)"
proof (cases t)
  case (Reload_Firewall i)
  then show ?thesis using apply_firewall_config_quiet[of send i None st]
    by (cases "apply_firewall_config send i None st") (simp add: run_task_def reload_firewall_def)
qed (simp_all add: run_task_def apply_qos_policy_def clear_qos_on_interface_def ask_snd_quiet Let_def split: option.splits)

text \<open>The calls that only ask an agent.\<close>

definition asks_only :: "fw_call \<Rightarrow> bool" where
  "asks_only c \<longleftrightarrow> (case c of Block i a b d \<Rightarrow> True | Unblock i a \<Rightarrow> True | Policy_Stats i k \<Rightarrow> True | Agent_Stats i \<Rightarrow> True
     | Agent_Status i \<Rightarrow> True | Rollback i \<Rightarrow> True | _ \<Rightarrow> False)"

lemma asks_only_quiet: "asks_only c \<Longrightarrow> quiet st (fw_handle send tok c st)"
  by (cases c)
    (auto simp: asks_only_def fw_handle_def block_ip_def unblock_ip_def get_qos_stats_def fetch_qos_stats_from_agent_def
      get_firewall_stats_def get_firewall_agent_status_def rollback_firewall_def
      split: sum.splits prod.splits option.splits dest!: audited_ask_quiet ask_quiet)

text \<open>C34: The calls and tasks of the firewall router. A call of this router without an administrator's token changes no
  row of its tables and queues no task, whatever it asks for; and running a queued task never changes a row either: these
  tables are written by handlers of administrators only. It says nothing of the other routers, some of which store rows without an
  administrator (an inbound mail, a heartbeat, an account provisioned at login).\<close>

theorem only_admins_write:
  "require_admin tok = Inl code \<Longrightarrow>
     same_rows (gs_db st) (gs_db (fw_handle send tok c st)) \<and> gs_tasks (fw_handle send tok c st) = gs_tasks st
     \<and> same_rows (gs_db st) (gs_db (run_task send t st))"
proof -
  assume a: "require_admin tok = Inl code"
  have "quiet st (fw_handle send tok c st)"
  proof (cases "asks_only c")
    case True
    then show ?thesis by (rule asks_only_quiet)
  next
    case False
    with a show ?thesis
      by (cases c) (simp_all add: asks_only_def fw_handle_def create_firewall_rule_def update_firewall_rule_def
          delete_firewall_rule_def move_rule_def apply_firewall_def create_nat_rule_def create_routing_rule_def
          create_qos_policy_def update_qos_policy_def delete_qos_policy_def apply_qos_now_def create_qos_class_def
          update_qos_class_def delete_qos_class_def)
  qed
  with run_task_quiet[of st send t] show ?thesis by (simp add: quiet_def)
qed

section \<open>Properties of all rows\<close>

definition rows_all :: "('r \<Rightarrow> bool) \<Rightarrow> 'r table \<Rightarrow> bool" where
  "rows_all P t \<longleftrightarrow> (\<forall>k r. row_get t k = Some r \<longrightarrow> P r)"

definition keyed :: "('r \<Rightarrow> 'k) \<Rightarrow> 'r table \<Rightarrow> bool" where
  "keyed f t \<longleftrightarrow> (\<forall>k k' r r'. row_get t k = Some r \<longrightarrow> row_get t k' = Some r' \<longrightarrow> f r = f r' \<longrightarrow> k = k')"

lemma rows_all_add:
  assumes "table_ok t" "rows_all P t" "P r" "row_add r t = (k, t')"
  shows "rows_all P t'"
  using assms(2,3) rows.get_add[OF assms(1,4)] by (auto simp: rows_all_def split: if_splits)

lemma rows_all_set: "rows_all P t \<Longrightarrow> P r \<Longrightarrow> rows_all P (row_set k r t)"
  by (auto simp: rows_all_def rows.get_put split: if_splits)

lemma rows_all_del: "rows_all P t \<Longrightarrow> rows_all P (row_del k t)"
  by (auto simp: rows_all_def rows.get_del split: if_splits)

lemma rows_allD: "rows_all P t \<Longrightarrow> row_get t k = Some r \<Longrightarrow> P r" by (auto simp: rows_all_def)

text \<open>References from one table to another.\<close>

definition points_to :: "('r \<Rightarrow> nat) \<Rightarrow> 'q table \<Rightarrow> 'r table \<Rightarrow> bool" where
  "points_to f t u \<longleftrightarrow> rows_all (\<lambda>r. row_get t (f r) \<noteq> None) u"

text \<open>Growing or keeping the target table keeps the references.\<close>

definition keeps_keys :: "'r table \<Rightarrow> 'r table \<Rightarrow> bool" where
  "keeps_keys t t' \<longleftrightarrow> (\<forall>k. row_get t k \<noteq> None \<longrightarrow> row_get t' k \<noteq> None)"

lemma keeps_keys_refl [simp]: "keeps_keys t t" by (simp add: keeps_keys_def)

lemma keeps_keys_add: "table_ok t \<Longrightarrow> row_add r t = (k, t') \<Longrightarrow> keeps_keys t t'"
  by (auto simp: keeps_keys_def rows.get_add)

lemma keeps_keys_set [simp]: "keeps_keys t (row_set k r t)"
  by (auto simp: keeps_keys_def rows.get_put)

lemma points_to_mono: "points_to f t u \<Longrightarrow> keeps_keys t t' \<Longrightarrow> points_to f t' u"
  by (auto simp: points_to_def keeps_keys_def rows_all_def)

lemma points_to_add: "table_ok u \<Longrightarrow> points_to f t u \<Longrightarrow> row_get t (f r) \<noteq> None \<Longrightarrow> row_add r u = (k, u') \<Longrightarrow> points_to f t u'"
  unfolding points_to_def by (rule rows_all_add)

lemma points_to_set: "points_to f t u \<Longrightarrow> row_get t (f r) \<noteq> None \<Longrightarrow> points_to f t (row_set k r u)"
  unfolding points_to_def by (rule rows_all_set)

lemma points_to_del: "points_to f t u \<Longrightarrow> points_to f t (row_del k u)"
  unfolding points_to_def by (rule rows_all_del)

lemma points_to_unused: "table_ok u \<Longrightarrow> points_to f t u \<Longrightarrow> rows_where (\<lambda>r. f r = k) u = [] \<Longrightarrow> points_to f (row_del k t) u"
  using rows_where_get[of u _ _ "\<lambda>r. f r = k"] by (fastforce simp: points_to_def rows_all_def rows.get_del)

lemma points_toD: "points_to f t u \<Longrightarrow> row_get u j = Some r \<Longrightarrow> row_get t (f r) \<noteq> None"
  by (auto simp: points_to_def rows_all_def)

lemma keyed_add:
  assumes "table_ok t" "keyed f t" "\<And>i q. row_get t i = Some q \<Longrightarrow> f q \<noteq> f r" "row_add r t = (k, t')"
  shows "keyed f t'"
proof -
  have g: "row_get t' i = (if i = k then Some r else row_get t i)" for i by (rule rows.get_add[OF assms(1,4)])
  show ?thesis unfolding keyed_def
  proof (intro allI impI)
    fix a b p q assume "row_get t' a = Some p" "row_get t' b = Some q" "f p = f q"
    with assms(2) assms(3)[of a p] assms(3)[of b q] show "a = b"
      unfolding g keyed_def by (cases "a = k"; cases "b = k") auto
  qed
qed

lemma keyed_set: "keyed f t \<Longrightarrow> row_get t k = Some q \<Longrightarrow> f r = f q \<Longrightarrow> keyed f (row_set k r t)"
  unfolding keyed_def by (auto simp: rows.get_put split: if_splits)

lemma keyed_del: "keyed f t \<Longrightarrow> keyed f (row_del k t)"
  unfolding keyed_def by (auto simp: rows.get_del split: if_splits)

lemma keyed_swap:
  assumes "keyed f t" "row_get t k = Some r" "row_get t j = Some n" "f r' = f n" "f n' = f r"
  shows "keyed f (row_set j n' (row_set k r' t))"
proof (cases "j = k")
  case True
  with assms show ?thesis unfolding keyed_def by (auto simp: rows.get_put split: if_splits)
next
  case False
  with assms show ?thesis unfolding keyed_def by (simp add: rows.get_put split: if_splits) metis
qed

lemma rows_where_get': "table_ok t \<Longrightarrow> rows_where p t = [] \<Longrightarrow> row_get t k = Some r \<Longrightarrow> \<not> p r"
  using rows_where_get[of t k r p] by auto

section \<open>The invariant\<close>

definition rule_ok :: "rule_row \<Rightarrow> bool" where
  "rule_ok r \<longleftrightarrow> ru_action r \<in> {None, Some ''accept'', Some ''drop'', Some ''reject''}"

definition target_stored :: "string option \<Rightarrow> bool" where
  "target_stored t \<longleftrightarrow> (case t of None \<Rightarrow> True | Some v \<Rightarrow> normalize_to_addr v = Some v)"

definition nat_ok :: "nat_row \<Rightarrow> bool" where
  "nat_ok n \<longleftrightarrow> target_stored (na_to_source n) \<and> target_stored (na_to_destination n)"

definition policy_ok :: "qos_row \<Rightarrow> bool" where
  "policy_ok p \<longleftrightarrow> 0 < qo_download p \<and> 0 < qo_upload p
     \<and> qo_algorithm p \<in> {None, Some ''cake'', Some ''fq_codel'', Some ''htb''}"

definition qclass_ok :: "qclass_row \<Rightarrow> bool" where
  "qclass_ok c \<longleftrightarrow> 0 < cl_min c \<and> 0 < cl_max c \<and> (\<forall>p. cl_priority c = Some p \<longrightarrow> 1 \<le> p \<and> p \<le> 3)"

definition rules_inv :: "rule_row table \<Rightarrow> bool" where
  "rules_inv t \<longleftrightarrow> table_ok t \<and> rows_all rule_ok t \<and> keyed (\<lambda>r. (ru_instance r, ru_order r)) t"

definition nats_inv :: "nat_row table \<Rightarrow> bool" where
  "nats_inv t \<longleftrightarrow> table_ok t \<and> rows_all nat_ok t"

definition qos_inv :: "qos_row table \<Rightarrow> qclass_row table \<Rightarrow> bool" where
  "qos_inv t u \<longleftrightarrow> table_ok t \<and> rows_all policy_ok t \<and> keyed (\<lambda>p. (qo_instance p, qo_interface p)) t
     \<and> table_ok u \<and> rows_all qclass_ok u \<and> rows_all (\<lambda>c. row_get t (cl_policy c) \<noteq> None) u"

definition db_inv :: "fw_db \<Rightarrow> bool" where
  "db_inv db \<longleftrightarrow> rules_inv (fd_rules db) \<and> nats_inv (fd_nats db) \<and> table_ok (fd_routes db) \<and> table_ok (fd_ifaces db)
     \<and> qos_inv (fd_qos db) (fd_classes db)"

lemma db_inv_same_rows: "same_rows db db' \<Longrightarrow> db_inv db \<Longrightarrow> db_inv db'"
  using same_rows_fields[of db db'] by (simp add: db_inv_def)

lemma db_inv_quiet: "quiet st st' \<Longrightarrow> db_inv (gs_db st) \<Longrightarrow> db_inv (gs_db st')"
  using db_inv_same_rows by (auto simp: quiet_def)

lemma gs_db_simps [simp]:
  "gs_db (set_db f st) = f (gs_db st)" "gs_db (enqueue t st) = gs_db st" "gs_tasks (set_db f st) = gs_tasks st"
  "gs_tasks (enqueue t st) = gs_tasks st @ [t]"
  by (simp_all add: set_db_def enqueue_def)

section \<open>Rules\<close>

lemma gw_action_ok: "gw_action_value a \<in> {''accept'', ''drop'', ''reject''}"
  by (cases a) (simp_all add: gw_action_value_def)

lemma max_order_bound: "(k, r) \<in> set rs \<Longrightarrow> ru_order r \<le> max_order rs"
  unfolding max_order_def by (rule Max_ge) force+

lemma rules_inv_create:
  assumes inv: "rules_inv t" and add: "row_add (new_rule i d (max_order (rows_where (\<lambda>r. ru_instance r = i) t) + 10)) t = (k, t')"
  shows "rules_inv t'"
proof -
  define row where "row = new_rule i d (max_order (rows_where (\<lambda>r. ru_instance r = i) t) + 10)"
  note add = add[folded row_def]
  have ok: "table_ok t" using inv by (simp add: rules_inv_def)
  have "rule_ok row" using gw_action_ok[of "rc_action d"] by (simp add: rule_ok_def new_rule_def row_def)
  then have all: "rows_all rule_ok t'" using rows_all_add[OF ok _ _ add] inv by (simp add: rules_inv_def)
  have fresh: "(ru_instance q, ru_order q) \<noteq> (ru_instance row, ru_order row)" if "row_get t j = Some q" for j q
  proof (cases "ru_instance q = i")
    case True
    with that have "(j, q) \<in> set (rows_where (\<lambda>r. ru_instance r = i) t)" by (simp add: rows_where_get[OF ok])
    from max_order_bound[OF this] show ?thesis by (simp add: new_rule_def row_def)
  qed (simp add: new_rule_def row_def)
  have "keyed (\<lambda>r. (ru_instance r, ru_order r)) t'"
    by (rule keyed_add[OF ok _ _ add]) (use inv fresh in \<open>auto simp: rules_inv_def\<close>)
  with all rows.ok_add[OF ok add] show ?thesis by (simp add: rules_inv_def)
qed

lemma patch_rule_keeps:
  assumes p: "patch_rule p r = Some row" and r: "rule_ok r"
  shows "rule_ok row \<and> ru_instance row = ru_instance r \<and> ru_order row = ru_order r"
proof -
  have a: "ru_action row = patched (map_option (map_option gw_action_value) (rp_action p)) (ru_action r)"
    and frame: "ru_instance row = ru_instance r" "ru_order row = ru_order r"
    using p by (auto simp: patch_rule_def split: if_splits)
  have "rule_ok row"
  proof (cases "rp_action p")
    case (Some v)
    then show ?thesis using a by (cases v) (simp_all add: rule_ok_def patched_def gw_action_value_def split: gw_action.split)
  qed (use a r in \<open>simp add: rule_ok_def patched_def\<close>)
  with frame show ?thesis by simp
qed

lemma rules_inv_set:
  "rules_inv t \<Longrightarrow> row_get t k = Some r \<Longrightarrow> rule_ok row \<Longrightarrow> ru_instance row = ru_instance r \<Longrightarrow> ru_order row = ru_order r \<Longrightarrow>
   rules_inv (row_set k row t)"
  by (simp add: rules_inv_def rows.ok_put rows_all_set keyed_set)

lemma rules_inv_del: "rules_inv t \<Longrightarrow> rules_inv (row_del k t)"
  by (simp add: rules_inv_def rows.ok_del rows_all_del keyed_del)

lemma neighbour_row:
  assumes "neighbour d db r = Some (j, n)"
  shows "(j, n) \<in> set (rules_of db (ru_instance r))"
proof -
  have hd: "sort_key f (filter p xs) = e # es \<Longrightarrow> e \<in> set xs" for f :: "nat \<times> rule_row \<Rightarrow> int" and p xs e es
    by (metis filter_is_subset list.set_intros(1) set_sort subsetD)
  from assms show ?thesis by (auto simp: neighbour_def split: if_splits list.splits dest!: hd)
qed

lemma neighbour_get:
  "table_ok (fd_rules db) \<Longrightarrow> neighbour d db r = Some (j, n) \<Longrightarrow> row_get (fd_rules db) j = Some n \<and> ru_instance n = ru_instance r"
  using neighbour_row[of d db r j n] by (simp add: rules_of_def rows_where_get)

lemma rules_inv_move:
  assumes inv: "rules_inv t" and r: "row_get t k = Some r" and n: "row_get t j = Some n" "ru_instance n = ru_instance r"
  shows "rules_inv (row_set j (n\<lparr>ru_order := ru_order r\<rparr>) (row_set k (r\<lparr>ru_order := ru_order n\<rparr>) t))"
proof -
  have "rule_ok r" "rule_ok n" using inv r n rows_allD by (auto simp: rules_inv_def)
  then have "rule_ok (r\<lparr>ru_order := ru_order n\<rparr>)" "rule_ok (n\<lparr>ru_order := ru_order r\<rparr>)" by (simp_all add: rule_ok_def)
  with inv show ?thesis using keyed_swap[OF _ r n(1), of "\<lambda>r. (ru_instance r, ru_order r)"] n(2)
    by (simp add: rules_inv_def rows.ok_put rows_all_set)
qed

end
