(* ===== verification/Gw_Reachable.thy ===== *)
theory Gw_Reachable
  imports Gw_Invariant
begin

text \<open>
  The invariant over every run of the gateway, and what it gives the agent: a dispatched body that it
  never refuses to convert.
\<close>

section \<open>NAT rules\<close>

lemma checked_target_stored: "checked_target t = Some t' \<Longrightarrow> target_stored t'"
  using normalize_fixed by (auto simp: checked_target_def target_stored_def validate_nat_to_addr_eq split: option.splits)

lemma target_stored_checked: "target_stored t \<Longrightarrow> checked_target t = Some t"
  by (auto simp: checked_target_def target_stored_def validate_nat_to_addr_eq split: option.splits)

lemma nats_inv_add: "nats_inv t \<Longrightarrow> nat_ok r \<Longrightarrow> row_add r t = (k, t') \<Longrightarrow> nats_inv t'"
  by (auto simp: nats_inv_def rows.ok_add intro: rows_all_add)

text \<open>A created NAT rule is never answered with a failed response: its stored targets pass the check again.\<close>

lemma new_nat_response: "name_ok 100 (nc_name d) \<Longrightarrow> checked_target (nc_to_source d) = Some a \<Longrightarrow>
    checked_target (nc_to_destination d) = Some b \<Longrightarrow> nat_response_ok (new_nat i d a b) \<and> nat_ok (new_nat i d a b)"
  using checked_target_stored target_stored_checked
  by (simp add: nat_response_ok_def nat_ok_def new_nat_def)

section \<open>Policies and classes\<close>

lemma new_qclass_ok: "valid_qclass_create d \<Longrightarrow> qclass_ok (new_qclass k d)"
  by (simp add: valid_qclass_create_def qclass_ok_def new_qclass_def)

lemma new_policy_ok: "valid_qos_create d \<Longrightarrow> policy_ok (new_policy i d)"
  by (simp add: valid_qos_create_def policy_ok_def new_policy_def algorithm_value_def split: qos_algorithm.split)

lemma default_htb_classes_valid: "default_htb_classes a b = Some cs \<Longrightarrow> list_all valid_qclass_create cs"
  by (auto simp: default_htb_classes_def Let_def split: if_splits)

lemma qos_inv_class: "qos_inv t u \<Longrightarrow> row_get t (cl_policy c) \<noteq> None \<Longrightarrow> qclass_ok c \<Longrightarrow> row_add c u = (k, u') \<Longrightarrow> qos_inv t u'"
  using rows_all_add[of u _ c k u'] rows.ok_add[of u c k u'] by (simp add: qos_inv_def)

lemma qos_inv_classes:
  "qos_inv t u \<Longrightarrow> row_get t k \<noteq> None \<Longrightarrow> list_all valid_qclass_create ds \<Longrightarrow> qos_inv t (add_classes k ds u)"
proof (induction ds arbitrary: u)
  case (Cons d ds)
  obtain c u1 where c: "row_add (new_qclass k d) u = (c, u1)" by (cases "row_add (new_qclass k d) u")
  have "qos_inv t u1"
    using Cons.prems by (intro qos_inv_class[OF _ _ _ c]) (simp_all add: new_qclass_ok, simp add: new_qclass_def)
  with Cons c show ?case by (simp add: add_classes_def)
qed (simp add: add_classes_def)

lemma qos_inv_policy:
  assumes inv: "qos_inv t u" and ok: "policy_ok p" and add: "row_add p t = (k, t')"
    and free: "rows_where (\<lambda>q. qo_instance q = qo_instance p \<and> qo_interface q = qo_interface p) t = []"
  shows "qos_inv t' u \<and> row_get t' k = Some p"
proof -
  have t: "table_ok t" using inv by (simp add: qos_inv_def)
  have g: "row_get t' j = (if j = k then Some p else row_get t j)" for j by (rule rows.get_add[OF t add])
  have "keyed (\<lambda>p. (qo_instance p, qo_interface p)) t'"
    by (rule keyed_add[OF t _ _ add]) (use inv rows_where_get'[OF t free] in \<open>auto simp: qos_inv_def\<close>)
  moreover have "rows_all policy_ok t'" using inv ok rows_all_add[OF t _ _ add] by (simp add: qos_inv_def)
  moreover have "rows_all (\<lambda>c. row_get t' (cl_policy c) \<noteq> None) u"
    using inv by (auto simp: qos_inv_def rows_all_def g)
  ultimately show ?thesis using inv rows.ok_add[OF t add] by (simp add: qos_inv_def g)
qed

lemma qos_inv_set:
  assumes inv: "qos_inv t u" and p: "row_get t k = Some p" and row: "policy_ok row" "qo_instance row = qo_instance p" "qo_interface row = qo_interface p"
  shows "qos_inv (row_set k row t) u"
proof -
  have "rows_all (\<lambda>c. row_get (row_set k row t) (cl_policy c) \<noteq> None) u"
    using inv by (auto simp: qos_inv_def rows_all_def rows.get_put)
  then show ?thesis using inv p row by (simp add: qos_inv_def rows.ok_put rows_all_set keyed_set)
qed

lemma qos_inv_class_set:
  "qos_inv t u \<Longrightarrow> qclass_ok c \<Longrightarrow> row_get t (cl_policy c) \<noteq> None \<Longrightarrow> qos_inv t (row_set k c u)"
  by (simp add: qos_inv_def rows.ok_put rows_all_set)

lemma qos_inv_class_del: "qos_inv t u \<Longrightarrow> qos_inv t (row_del k u)"
  by (simp add: qos_inv_def rows.ok_del rows_all_del)

lemma del_where_ok: "table_ok u \<Longrightarrow> table_ok (del_where p u)"
  by (auto simp: table_ok_def del_where_def distinct_map_filter)

lemma del_where_get: "table_ok u \<Longrightarrow> row_get (del_where p u) c = Some r \<Longrightarrow> row_get u c = Some r \<and> \<not> p r"
  using del_where_ok[of u p] rows_where_get[of "del_where p u" c r "\<lambda>_. True"] rows_where_get[of u c r "\<lambda>r. \<not> p r"]
  by (simp add: rows_where_def del_where_def)

lemma qos_inv_del:
  assumes inv: "qos_inv t u"
  shows "qos_inv (row_del k t) (del_where (\<lambda>c. cl_policy c = k) u)"
proof -
  let ?u = "del_where (\<lambda>c. cl_policy c = k) u"
  have u: "table_ok u" using inv by (simp add: qos_inv_def)
  have "rows_all qclass_ok ?u" "rows_all (\<lambda>c. row_get (row_del k t) (cl_policy c) \<noteq> None) ?u"
    using inv by (auto simp: rows_all_def qos_inv_def rows.get_del dest!: del_where_get[OF u])
  then show ?thesis using inv by (simp add: qos_inv_def rows.ok_del rows_all_del keyed_del del_where_ok)
qed

lemma patch_qos_keeps:
  assumes "patch_qos d p = Some row" "valid_qos_patch d" "policy_ok p"
  shows "policy_ok row \<and> qo_instance row = qo_instance p \<and> qo_interface row = qo_interface p"
proof -
  have alg: "qo_algorithm row = patched (map_option (map_option algorithm_value) (qp_to_algorithm d)) (qo_algorithm p)"
    and frame: "qo_instance row = qo_instance p" "qo_interface row = qo_interface p"
    and rates: "kept (qp_to_download d) (qo_download p) = Some (qo_download row)" "kept (qp_to_upload d) (qo_upload p) = Some (qo_upload row)"
    using assms(1) by (auto simp: patch_qos_def split: option.splits)
  have "0 < qo_download row" "0 < qo_upload row" using rates assms(2,3)
    by (auto simp: kept_def valid_qos_patch_def policy_ok_def split: option.splits)
  moreover have "qo_algorithm row \<in> {None, Some ''cake'', Some ''fq_codel'', Some ''htb''}"
  proof (cases "qp_to_algorithm d")
    case (Some v)
    then show ?thesis using alg by (cases v) (simp_all add: patched_def algorithm_value_def split: qos_algorithm.split)
  qed (use alg assms(3) in \<open>simp add: patched_def policy_ok_def\<close>)
  ultimately show ?thesis using frame by (simp add: policy_ok_def)
qed

lemma patch_qclass_keeps:
  assumes "patch_qclass d c = Some row" "valid_qclass_patch d" "qclass_ok c"
  shows "qclass_ok row \<and> cl_policy row = cl_policy c"
proof -
  have prio: "cl_priority row = patched (qn_to_priority d) (cl_priority c)" and frame: "cl_policy row = cl_policy c"
    and rates: "kept (qn_to_min d) (cl_min c) = Some (cl_min row)" "kept (qn_to_max d) (cl_max c) = Some (cl_max row)"
    using assms(1) by (auto simp: patch_qclass_def split: option.splits)
  have "0 < cl_min row" "0 < cl_max row" using rates assms(2,3)
    by (auto simp: kept_def valid_qclass_patch_def positive_or_absent_def qclass_ok_def split: option.splits)
  moreover have "\<forall>p. cl_priority row = Some p \<longrightarrow> 1 \<le> p \<and> p \<le> 3" using prio assms(2,3)
    by (auto simp: patched_def valid_qclass_patch_def qclass_ok_def split: option.splits)
  ultimately show ?thesis using frame by (simp add: qclass_ok_def)
qed

section \<open>Every handler keeps the invariant\<close>

lemma db_inv_rules: "db_inv db \<Longrightarrow> rules_inv t \<Longrightarrow> db_inv (db\<lparr>fd_rules := t\<rparr>)" by (simp add: db_inv_def)
lemma db_inv_nats: "db_inv db \<Longrightarrow> nats_inv t \<Longrightarrow> db_inv (db\<lparr>fd_nats := t\<rparr>)" by (simp add: db_inv_def)
lemma db_inv_routes: "db_inv db \<Longrightarrow> table_ok t \<Longrightarrow> db_inv (db\<lparr>fd_routes := t\<rparr>)" by (simp add: db_inv_def)
lemma db_inv_qos: "db_inv db \<Longrightarrow> qos_inv t u \<Longrightarrow> db_inv (db\<lparr>fd_qos := t, fd_classes := u\<rparr>)" by (simp add: db_inv_def)

lemma db_inv_parts: "db_inv db \<Longrightarrow> rules_inv (fd_rules db)" "db_inv db \<Longrightarrow> nats_inv (fd_nats db)"
  "db_inv db \<Longrightarrow> table_ok (fd_routes db)" "db_inv db \<Longrightarrow> qos_inv (fd_qos db) (fd_classes db)"
  by (simp_all add: db_inv_def)

lemma dispatch_inv: "db_inv (gs_db st) \<Longrightarrow> db_inv (gs_db (snd (dispatch_then send i u reply st)))"
  using db_inv_quiet[OF dispatch_then_quiet] by blast

lemma audit_inv: "db_inv (gs_db st) \<Longrightarrow> db_inv (gs_db (audit u a ty k i st))"
  using db_inv_quiet[OF audit_quiet] by blast

lemmas handler_intros = dispatch_inv audit_inv db_inv_rules db_inv_nats db_inv_routes db_inv_qos

lemma create_rule_inv: "db_inv (gs_db st) \<Longrightarrow> db_inv (gs_db (snd (create_firewall_rule send tok i d st)))"
  using rules_inv_create db_inv_parts(1)[of "gs_db st"]
  by (auto simp: create_firewall_rule_def rules_of_def Let_def split: sum.splits prod.splits intro!: handler_intros)

lemma update_rule_inv: "db_inv (gs_db st) \<Longrightarrow> db_inv (gs_db (snd (update_firewall_rule send tok k p st)))"
proof -
  assume inv: "db_inv (gs_db st)"
  have "rules_inv (row_set k row (fd_rules (gs_db st)))"
    if "row_get (fd_rules (gs_db st)) k = Some r" "patch_rule p r = Some row" for r row
  proof -
    have "rule_ok r" using inv that(1) rows_allD by (fastforce simp: db_inv_def rules_inv_def)
    with patch_rule_keeps[OF that(2)] that(1) inv show ?thesis by (intro rules_inv_set) (auto simp: db_inv_parts)
  qed
  with inv show ?thesis
    by (auto simp: update_firewall_rule_def Let_def split: sum.splits option.splits intro!: handler_intros)
qed

lemma delete_rule_inv: "db_inv (gs_db st) \<Longrightarrow> db_inv (gs_db (snd (delete_firewall_rule send tok k st)))"
  by (auto simp: delete_firewall_rule_def Let_def db_inv_parts split: sum.splits option.splits
      intro!: handler_intros rules_inv_del)

lemma move_rule_inv: "db_inv (gs_db st) \<Longrightarrow> db_inv (gs_db (snd (move_rule send tok k d st)))"
proof -
  assume inv: "db_inv (gs_db st)"
  have ok: "table_ok (fd_rules (gs_db st))" using inv by (simp add: db_inv_def rules_inv_def)
  have "rules_inv (row_set j (n\<lparr>ru_order := ru_order r\<rparr>) (row_set k (r\<lparr>ru_order := ru_order n\<rparr>) (fd_rules (gs_db st))))"
    if "row_get (fd_rules (gs_db st)) k = Some r" "neighbour d (gs_db st) r = Some (j, n)" for r j n
    using rules_inv_move[OF db_inv_parts(1)[OF inv] that(1)] neighbour_get[OF ok that(2)] by blast
  with inv show ?thesis
    by (auto simp: move_rule_def Let_def split: sum.splits option.splits intro!: handler_intros)
qed

lemma create_nat_inv: "db_inv (gs_db st) \<Longrightarrow> db_inv (gs_db (snd (create_nat_rule tok i d st)))"
proof -
  assume inv: "db_inv (gs_db st)"
  have "nats_inv t'" if "name_ok 100 (nc_name d)" "checked_target (nc_to_source d) = Some a"
    "checked_target (nc_to_destination d) = Some b" "row_add (new_nat i d a b) (fd_nats (gs_db st)) = (k, t')" for a b k t'
    using nats_inv_add[OF db_inv_parts(2)[OF inv] _ that(4)] new_nat_response[OF that(1-3)] by blast
  with inv show ?thesis
    by (auto simp: create_nat_rule_def Let_def split: sum.splits prod.splits option.splits bool.splits intro!: handler_intros)
qed

lemma create_routing_inv: "db_inv (gs_db st) \<Longrightarrow> db_inv (gs_db (snd (create_routing_rule tok i d st)))"
  by (auto simp: create_routing_rule_def Let_def db_inv_parts split: sum.splits prod.splits
      intro!: handler_intros dest: rows.ok_add[rotated])

lemma policy_reply_db: "gs_db (snd (policy_reply i k st)) = gs_db st"
  by (simp add: policy_reply_def split: option.splits)

lemma create_policy_inv: "db_inv (gs_db st) \<Longrightarrow> db_inv (gs_db (snd (create_qos_policy tok i d st)))"
proof -
  assume inv: "db_inv (gs_db st)"
  have "qos_inv t' (add_classes k cs (fd_classes (gs_db st)))"
    if "valid_qos_create d" "rows_where (\<lambda>p. qo_instance p = i \<and> qo_interface p = qc_interface d) (fd_qos (gs_db st)) = []"
      "row_add (new_policy i d) (fd_qos (gs_db st)) = (k, t')" "list_all valid_qclass_create cs" for t' k cs
  proof -
    have "qos_inv t' (fd_classes (gs_db st)) \<and> row_get t' k = Some (new_policy i d)"
      using that by (intro qos_inv_policy[OF db_inv_parts(4)[OF inv] _ that(3)]) (simp_all add: new_policy_ok, simp add: new_policy_def)
    with that(4) show ?thesis by (simp add: qos_inv_classes)
  qed
  with inv show ?thesis
    by (auto simp: create_qos_policy_def Let_def policy_reply_db valid_qos_create_def default_htb_classes_valid
        split: sum.splits prod.splits list.splits option.splits intro!: handler_intros)
qed

lemma policy_of_get: "policy_of db i k = Some p \<Longrightarrow> row_get (fd_qos db) k = Some p \<and> qo_instance p = i"
  by (auto simp: policy_of_def split: option.splits if_splits)

lemma class_of_get: "class_of db k c = Some r \<Longrightarrow> row_get (fd_classes db) c = Some r \<and> cl_policy r = k"
  by (auto simp: class_of_def split: option.splits if_splits)

lemma update_policy_inv: "db_inv (gs_db st) \<Longrightarrow> db_inv (gs_db (snd (update_qos_policy tok i k d st)))"
proof -
  assume inv: "db_inv (gs_db st)"
  have "db_inv ((gs_db st)\<lparr>fd_qos := row_set k row (fd_qos (gs_db st))\<rparr>)"
    if "policy_of (gs_db st) i k = Some p" "patch_qos d p = Some row" "valid_qos_patch d" for p row
  proof -
    have g: "row_get (fd_qos (gs_db st)) k = Some p" using policy_of_get[OF that(1)] by simp
    have "policy_ok p" using db_inv_parts(4)[OF inv] rows_allD[OF _ g] by (auto simp: qos_inv_def)
    with patch_qos_keeps[OF that(2,3)] qos_inv_set[OF db_inv_parts(4)[OF inv] g] inv show ?thesis by (simp add: db_inv_def)
  qed
  with inv show ?thesis
    by (auto simp: update_qos_policy_def policy_reply_db split: sum.splits option.splits)
qed

lemma enqueue_if_enabled_db [simp]: "gs_db (enqueue_if_enabled i k st) = gs_db st"
  by (simp add: enqueue_if_enabled_def split: option.splits)

lemma delete_policy_inv: "db_inv (gs_db st) \<Longrightarrow> db_inv (gs_db (snd (delete_qos_policy tok i k st)))"
  by (auto simp: delete_qos_policy_def db_inv_parts split: sum.splits option.splits intro!: handler_intros qos_inv_del)

lemma db_inv_classes: "db_inv db \<Longrightarrow> qos_inv (fd_qos db) u \<Longrightarrow> db_inv (db\<lparr>fd_classes := u\<rparr>)" by (simp add: db_inv_def)

lemma create_class_inv: "db_inv (gs_db st) \<Longrightarrow> db_inv (gs_db (snd (create_qos_class tok i k d st)))"
  by (auto simp: create_qos_class_def Let_def split: sum.splits prod.splits option.splits
      intro!: db_inv_classes intro: qos_inv_class[OF db_inv_parts(4)] dest!: policy_of_get)
    (auto intro!: qos_inv_class[OF db_inv_parts(4)] new_qclass_ok simp: new_qclass_def)

lemma update_class_inv: "db_inv (gs_db st) \<Longrightarrow> db_inv (gs_db (snd (update_qos_class tok i k c d st)))"
proof -
  assume inv: "db_inv (gs_db st)"
  have "qos_inv (fd_qos (gs_db st)) (row_set c row (fd_classes (gs_db st)))"
    if "class_of (gs_db st) k c = Some r" "patch_qclass d r = Some row" "valid_qclass_patch d" for r row
  proof -
    have g: "row_get (fd_classes (gs_db st)) c = Some r" using class_of_get[OF that(1)] by simp
    have "qclass_ok r" "row_get (fd_qos (gs_db st)) (cl_policy r) \<noteq> None"
      using db_inv_parts(4)[OF inv] rows_allD[OF _ g] by (auto simp: qos_inv_def)
    with patch_qclass_keeps[OF that(2,3)] qos_inv_class_set[OF db_inv_parts(4)[OF inv]] show ?thesis by simp
  qed
  with inv show ?thesis
    by (auto simp: update_qos_class_def Let_def split: sum.splits option.splits intro!: db_inv_classes)
qed

lemma delete_class_inv: "db_inv (gs_db st) \<Longrightarrow> db_inv (gs_db (snd (delete_qos_class tok i k c st)))"
  by (auto simp: delete_qos_class_def db_inv_parts split: sum.splits option.splits
      intro!: db_inv_classes qos_inv_class_del)

lemma fw_handle_inv: "db_inv (gs_db st) \<Longrightarrow> db_inv (gs_db (fw_handle send tok c st))"
proof (cases "asks_only c")
  case True
  assume "db_inv (gs_db st)"
  then show ?thesis using db_inv_quiet[OF asks_only_quiet[OF True]] by blast
next
  case False
  assume "db_inv (gs_db st)"
  with False show ?thesis
    by (cases c) (simp_all add: asks_only_def fw_handle_def create_rule_inv update_rule_inv delete_rule_inv move_rule_inv
        create_nat_inv create_routing_inv create_policy_inv update_policy_inv delete_policy_inv create_class_inv
        update_class_inv delete_class_inv, simp_all add: apply_firewall_def apply_qos_now_def split: sum.splits option.splits)
qed

lemma fw_step_inv: "fw_step send st st' \<Longrightarrow> db_inv (gs_db st) \<Longrightarrow> db_inv (gs_db st')"
proof (induction rule: fw_step.induct)
  case (handle st tok c)
  then show ?case by (rule fw_handle_inv)
next
  case (run st ts t ts')
  then show ?case using db_inv_quiet[OF run_task_quiet, of "st\<lparr>gs_tasks := ts @ ts'\<rparr>" send t] by simp
qed

section \<open>Every run\<close>

lemma fw_steps_inv: "(fw_step send)\<^sup>*\<^sup>* st st' \<Longrightarrow> db_inv (gs_db st) \<Longrightarrow> db_inv (gs_db st')"
  by (induction rule: rtranclp_induct) (auto intro: fw_step_inv)

text \<open>C5: From a good database, any sequence of handler calls by anybody and runs of queued tasks in any
  order, whatever the agents answer, leads to one where no two rules of an instance share an order
  index, no two QoS policies share an interface, every class belongs to a policy and has positive
  rates, every rule action is one the agent knows (or null), and every NAT target is in the form the
  agent prints.\<close>

theorem gateway_rows_invariant:
  "(fw_step send)\<^sup>*\<^sup>* st st' \<Longrightarrow> db_inv (gs_db st) \<Longrightarrow>
     (\<forall>k k' r r'. row_get (fd_rules (gs_db st')) k = Some r \<longrightarrow> row_get (fd_rules (gs_db st')) k' = Some r' \<longrightarrow>
        ru_instance r = ru_instance r' \<longrightarrow> ru_order r = ru_order r' \<longrightarrow> k = k')
   \<and> (\<forall>k k' p p'. row_get (fd_qos (gs_db st')) k = Some p \<longrightarrow> row_get (fd_qos (gs_db st')) k' = Some p' \<longrightarrow>
        qo_instance p = qo_instance p' \<longrightarrow> qo_interface p = qo_interface p' \<longrightarrow> k = k')
   \<and> (\<forall>k c. row_get (fd_classes (gs_db st')) k = Some c \<longrightarrow>
        0 < cl_min c \<and> 0 < cl_max c \<and> row_get (fd_qos (gs_db st')) (cl_policy c) \<noteq> None)
   \<and> (\<forall>k r. row_get (fd_rules (gs_db st')) k = Some r \<longrightarrow> ru_action r \<in> {None, Some ''accept'', Some ''drop'', Some ''reject''})
   \<and> (\<forall>k n t. row_get (fd_nats (gs_db st')) k = Some n \<longrightarrow> na_to_source n = Some t \<or> na_to_destination n = Some t \<longrightarrow>
        normalize_to_addr t = Some t)"
proof -
  assume steps: "(fw_step send)\<^sup>*\<^sup>* st st'" "db_inv (gs_db st)"
  note inv = fw_steps_inv[OF steps, unfolded db_inv_def rules_inv_def nats_inv_def qos_inv_def]
  have all: "rows_all nat_ok (fd_nats (gs_db st'))" "rows_all qclass_ok (fd_classes (gs_db st'))"
    "rows_all (\<lambda>c. row_get (fd_qos (gs_db st')) (cl_policy c) \<noteq> None) (fd_classes (gs_db st'))"
    "rows_all rule_ok (fd_rules (gs_db st'))" using inv by simp_all
  have nat: "nat_ok n" if "row_get (fd_nats (gs_db st')) k = Some n" for k n by (rule rows_allD[OF all(1) that])
  have cls: "qclass_ok c \<and> row_get (fd_qos (gs_db st')) (cl_policy c) \<noteq> None" if "row_get (fd_classes (gs_db st')) k = Some c" for k c
    using rows_allD[OF all(2) that] rows_allD[OF all(3) that] by simp
  have rule: "rule_ok r" if "row_get (fd_rules (gs_db st')) k = Some r" for k r by (rule rows_allD[OF all(4) that])
  show ?thesis
  proof (intro conjI)
    show "\<forall>k k' r r'. row_get (fd_rules (gs_db st')) k = Some r \<longrightarrow> row_get (fd_rules (gs_db st')) k' = Some r' \<longrightarrow>
        ru_instance r = ru_instance r' \<longrightarrow> ru_order r = ru_order r' \<longrightarrow> k = k'"
      using inv by (simp add: keyed_def)
    show "\<forall>k k' p p'. row_get (fd_qos (gs_db st')) k = Some p \<longrightarrow> row_get (fd_qos (gs_db st')) k' = Some p' \<longrightarrow>
        qo_instance p = qo_instance p' \<longrightarrow> qo_interface p = qo_interface p' \<longrightarrow> k = k'"
      using inv by (simp add: keyed_def)
    show "\<forall>k c. row_get (fd_classes (gs_db st')) k = Some c \<longrightarrow>
        0 < cl_min c \<and> 0 < cl_max c \<and> row_get (fd_qos (gs_db st')) (cl_policy c) \<noteq> None"
      using cls by (simp add: qclass_ok_def)
    show "\<forall>k r. row_get (fd_rules (gs_db st')) k = Some r \<longrightarrow> ru_action r \<in> {None, Some ''accept'', Some ''drop'', Some ''reject''}"
      using rule by (simp add: rule_ok_def)
    have "na_to_source n = Some t \<or> na_to_destination n = Some t \<Longrightarrow> normalize_to_addr t = Some t" if "nat_ok n" for n t
      using that by (auto simp: nat_ok_def target_stored_def)
    with nat show "\<forall>k n t. row_get (fd_nats (gs_db st')) k = Some n \<longrightarrow>
        na_to_source n = Some t \<or> na_to_destination n = Some t \<longrightarrow> normalize_to_addr t = Some t" by blast
  qed
qed

text \<open>A laboratory gateway with one instance, and a NAT rule for it.\<close>

definition lab_instance :: instance_row where
  "lab_instance = \<lparr>in_name = ''fw'', in_api_endpoint = ''http://agent'', in_api_key = ''k'', in_endpoints = []\<rparr>"

definition lab_db :: fw_db where
  "lab_db = \<lparr>fd_instances = \<lparr>tb_rows = [(1, lab_instance)], tb_next = 2\<rparr>, fd_users = empty_table, fd_audit = [],
     fd_rules = empty_table, fd_nats = empty_table, fd_routes = empty_table, fd_qos = empty_table, fd_classes = empty_table,
     fd_ifaces = empty_table\<rparr>"

definition lab_gw :: "'w \<Rightarrow> 'w gw_state" where
  "lab_gw w = \<lparr>gs_db = lab_db, gs_world = w, gs_tasks = []\<rparr>"

definition lab_admin :: "token option" where
  "lab_admin = Some \<lparr>tk_sub = Some 1, tk_role = Some ''admin''\<rparr>"

definition lab_nat :: nat_create where
  "lab_nat = \<lparr>nc_name = ''web'', nc_description = None, nc_enabled = True, nc_type = ''dnat'', nc_interface = Some ''eth0'',
     nc_source_network = None, nc_dest_network = None, nc_to_source = None, nc_to_destination = Some ''[2001:DB8:0:0::1]:80'',
     nc_protocol = Some ''tcp'', nc_ports = Some ''80''\<rparr>"

lemma empty_table_inv [simp]:
  "rows_all P empty_table" "keyed f empty_table" "row_get empty_table k = None"
  by (simp_all add: rows_all_def keyed_def row_get_def empty_table_def)

lemma lab_db_inv: "db_inv (gs_db (lab_gw w))"
  by (simp add: lab_gw_def lab_db_def db_inv_def rules_inv_def nats_inv_def qos_inv_def)

lemma lab_nat_created:
  "\<exists>n. row_get (fd_nats (gs_db (fw_handle send lab_admin (Create_Nat 1 lab_nat) (lab_gw w)))) 1 = Some n
     \<and> na_to_destination n = Some ''[2001:db8::1]:80''"
proof -
  have "checked_target (nc_to_destination lab_nat) = Some (Some ''[2001:db8::1]:80'')" "checked_target (nc_to_source lab_nat) = Some None"
    "name_ok 100 (nc_name lab_nat)" by code_simp+
  moreover from this have "nat_response_ok (new_nat 1 lab_nat None (Some ''[2001:db8::1]:80''))" using new_nat_response by blast
  ultimately show ?thesis
    by (simp add: fw_handle_def create_nat_rule_def require_admin_def lab_admin_def lab_gw_def lab_db_def row_get_def row_add_def
        empty_table_def set_db_def enqueue_def new_nat_def)
qed

theorem gateway_rows_invariant_witness:
  "\<exists>n. row_get (fd_nats (gs_db (fw_handle (\<lambda>u k m b w. (Http_Timeout, w)) lab_admin (Create_Nat 1 lab_nat) (lab_gw ())))) 1 = Some n
     \<and> na_to_destination n = Some ''[2001:db8::1]:80'' \<and> normalize_to_addr ''[2001:db8::1]:80'' = Some ''[2001:db8::1]:80''"
proof -
  let ?send = "\<lambda>u k m b w. (Http_Timeout, w)" and ?st = "lab_gw ()"
  from lab_nat_created[of ?send "()"] obtain n
    where n: "row_get (fd_nats (gs_db (fw_handle ?send lab_admin (Create_Nat 1 lab_nat) ?st))) 1 = Some n"
      "na_to_destination n = Some ''[2001:db8::1]:80''" by (elim exE conjE)
  have "(fw_step ?send)\<^sup>*\<^sup>* ?st (fw_handle ?send lab_admin (Create_Nat 1 lab_nat) ?st)"
    by (rule r_into_rtranclp) (rule fw_step.handle)
  from gateway_rows_invariant[OF this lab_db_inv, THEN conjunct2, THEN conjunct2, THEN conjunct2, THEN conjunct2, rule_format, OF n(1) disjI2[OF n(2)]]
  show ?thesis by (intro exI[of _ n] conjI n)
qed

text \<open>The same request with and without the administrator's token.\<close>

theorem only_admins_write_witness:
  "same_rows lab_db (gs_db (fw_handle (\<lambda>u k m b w. (Http_Timeout, w)) None (Create_Nat 1 lab_nat) (lab_gw ())))
   \<and> row_get (fd_nats (gs_db (fw_handle (\<lambda>u k m b w. (Http_Timeout, w)) lab_admin (Create_Nat 1 lab_nat) (lab_gw ())))) 1 \<noteq> None"
proof
  have "require_admin None = Inl 401" by (simp add: require_admin_def)
  from only_admins_write[OF this, THEN conjunct1]
  show "same_rows lab_db (gs_db (fw_handle (\<lambda>u k m b w. (Http_Timeout, w)) None (Create_Nat 1 lab_nat) (lab_gw ())))"
    by (metis lab_gw_def gw_state.select_convs(1))
  show "row_get (fd_nats (gs_db (fw_handle (\<lambda>u k m b w. (Http_Timeout, w)) lab_admin (Create_Nat 1 lab_nat) (lab_gw ())))) 1 \<noteq> None"
    using lab_nat_created by force
qed

section \<open>The agent can convert every dispatched body\<close>

lemma convert_rules_total:
  "(\<And>e. e \<in> set es \<Longrightarrow> fe_name e \<noteq> None \<and> fw_action_of (action_text e) \<noteq> None) \<Longrightarrow> \<exists>rs. convert_rules es i = Inr rs"
proof (induction es arbitrary: i)
  case (Cons e es)
  from Cons.prems[of e] have "\<exists>rs. rules_from_payload e i = Inr rs"
    by (auto simp: rules_from_payload_def Let_def)
  then obtain rs where "rules_from_payload e i = Inr rs" by blast
  with Cons.IH[of "Suc i"] Cons.prems show ?case by auto
qed simp

lemma convert_nats_total:
  "(\<And>e. e \<in> set es \<Longrightarrow> ne_name e \<noteq> None \<and> \<not> target_rejected (ne_to_source e) \<and> \<not> target_rejected (ne_to_destination e)) \<Longrightarrow>
   \<exists>rs. convert_nats es i = Inr rs"
proof (induction es arbitrary: i)
  case (Cons e es)
  from Cons.prems[of e] have "\<exists>r. nat_from_payload e i = Inr r"
    by (auto simp: nat_from_payload_def Let_def)
  then obtain r where "nat_from_payload e i = Inr r" by blast
  with Cons.IH[of "Suc i"] Cons.prems show ?case by auto
qed simp

lemma agent_rule_action: "rule_ok r \<Longrightarrow> fw_action_of (action_text (agent_rule (k, r))) \<noteq> None"
proof -
  assume "rule_ok r"
  then have "fe_action (agent_rule (k, r)) \<in> {None, Some ''accept'', Some ''drop'', Some ''reject''}"
    by (simp add: agent_rule_def rule_ok_def)
  moreover have "case fw_action_of (lower ''accept'') of None \<Rightarrow> False | Some a \<Rightarrow> True"
    "case fw_action_of (lower ''drop'') of None \<Rightarrow> False | Some a \<Rightarrow> True"
    "case fw_action_of (lower ''reject'') of None \<Rightarrow> False | Some a \<Rightarrow> True" by code_simp+
  ultimately show ?thesis by (elim insertE) (auto simp: action_text_def split: option.splits)
qed

lemma target_stored_accepted: "target_stored t \<Longrightarrow> \<not> target_rejected t"
  by (auto simp: target_stored_def target_rejected_def valid_to_addr_def split: option.splits)

lemma loaded_rows_get:
  "table_ok t \<Longrightarrow> (k, r) \<in> set (load_enabled_rows inst enabled order i t) \<Longrightarrow> row_get t k = Some r"
  by (simp add: load_enabled_rows_def rows_where_get)

lemma payload_rendered:
  assumes inv: "db_inv db"
  shows "\<exists>ruleset. rendered env (read_request (build_instance_firewall_payload db i)) = Inr ruleset"
proof -
  let ?rules = "load_enabled_rows ru_instance ru_enabled (\<lambda>r. (0, ru_order r)) i (fd_rules db)"
  let ?nats = "load_enabled_rows na_instance na_enabled (\<lambda>r. (0, na_order r)) i (fd_nats db)"
  have "fe_name e \<noteq> None \<and> fw_action_of (action_text e) \<noteq> None" if e: "e \<in> set (map agent_rule ?rules)" for e
  proof -
    obtain k r where kr: "(k, r) \<in> set ?rules" "e = agent_rule (k, r)" using e by auto
    have "row_get (fd_rules db) k = Some r" using inv loaded_rows_get[OF _ kr(1)] by (simp add: db_inv_def rules_inv_def)
    then have "rule_ok r" using inv rows_allD by (fastforce simp: db_inv_def rules_inv_def)
    with kr(2) agent_rule_action show ?thesis by (simp add: agent_rule_def)
  qed
  then obtain rs where rs: "convert_rules (map agent_rule ?rules) 0 = Inr rs" using convert_rules_total by blast
  have "ne_name e \<noteq> None \<and> \<not> target_rejected (ne_to_source e) \<and> \<not> target_rejected (ne_to_destination e)"
    if e: "e \<in> set (map agent_nat ?nats)" for e
  proof -
    obtain k n where kn: "(k, n) \<in> set ?nats" "e = agent_nat (k, n)" using e by auto
    have "row_get (fd_nats db) k = Some n" using inv loaded_rows_get[OF _ kn(1)] by (simp add: db_inv_def nats_inv_def)
    then have "nat_ok n" using inv rows_allD by (fastforce simp: db_inv_def nats_inv_def)
    with kn(2) show ?thesis by (simp add: agent_nat_def nat_ok_def target_stored_accepted)
  qed
  then obtain ns where ns: "convert_nats (map agent_nat ?nats) 0 = Inr ns" using convert_nats_total by blast
  from rs ns show ?thesis
    by (simp add: rendered_def read_build)
qed

text \<open>C18: At any point of any run from a good database, the body that would be dispatched for any instance
  passes the agent's conversion: the agent gets as far as generating a ruleset, it never refuses the
  gateway's rules or NAT rules as invalid.\<close>

theorem dispatched_payload_converts:
  "(fw_step send)\<^sup>*\<^sup>* st st' \<Longrightarrow> db_inv (gs_db st) \<Longrightarrow>
   \<exists>ruleset. rendered env (read_request (build_instance_firewall_payload (gs_db st') i)) = Inr ruleset"
  using fw_steps_inv payload_rendered by blast

theorem dispatched_payload_converts_witness:
  "\<exists>ruleset. rendered calm_env (read_request (build_instance_firewall_payload
     (gs_db (fw_handle (\<lambda>u k m b w. (Http_Timeout, w)) lab_admin (Create_Nat 1 lab_nat) (lab_gw ()))) 1)) = Inr ruleset"
  by (rule dispatched_payload_converts[OF r_into_rtranclp lab_db_inv]) (rule fw_step.handle)

end
