(* ===== verification/Gw_Order.thy ===== *)
theory Gw_Order
  imports Gw_Reachable
begin

text \<open>
  The order of an instance's rules: a created rule comes last, a move exchanges a rule with its
  neighbour and nothing else.
\<close>

section \<open>Sorting by a key without ties\<close>

lemma sort_key_unique:
  assumes "mset ys = mset xs" "distinct (map f ys)" "sorted (map f ys)"
  shows "sort_key f xs = ys"
proof -
  have s: "set ys = set xs" using assms(1) by (rule mset_eq_setD)
  have "mset (map f (sort_key f xs)) = mset (map f ys)" using assms(1) by simp
  then have "sort (map f ys) = map f (sort_key f xs)" by (rule properties_for_sort) simp
  then have "map f (sort_key f xs) = map f ys" using assms(3) by (simp add: sorted_sort_id)
  moreover have "inj_on f (set (sort_key f xs) \<union> set ys)"
    using assms(2) s by (simp add: distinct_map)
  ultimately show ?thesis using map_inj_on by blast
qed

lemma sort_key_last: "(\<And>e. e \<in> set xs \<Longrightarrow> f e \<le> f x) \<Longrightarrow> sort_key f (xs @ [x]) = sort_key f xs @ [x]"
proof -
  assume le: "\<And>e. e \<in> set xs \<Longrightarrow> f e \<le> f x"
  have "sort_key f (xs @ [x]) = foldr (insort_key f) xs [x]" by (simp add: sort_key_def)
  also have "\<dots> = sort_key f xs @ [x]" using le
  proof (induction xs)
    case (Cons y ys)
    have "insort_key f y (zs @ [x]) = insort_key f y zs @ [x]" for zs using Cons.prems[of y] by (induction zs) auto
    with Cons show ?case by (simp add: sort_key_def)
  qed (simp add: sort_key_def)
  finally show ?thesis .
qed

lemma sort_key_hd_least: "sort_key f xs = e # es \<Longrightarrow> e \<in> set xs \<and> (\<forall>x\<in>set xs. f e \<le> f x)"
proof -
  assume a: "sort_key f xs = e # es"
  then have "sorted (map f (e # es))" "set xs = set (e # es)" by (metis sorted_sort_key, metis set_sort)
  then show ?thesis by auto
qed

section \<open>The rules of an instance in order\<close>

definition ordered_rules :: "fw_db \<Rightarrow> nat \<Rightarrow> (nat \<times> rule_row) list" where
  "ordered_rules db i = sort_key (ru_order \<circ> snd) (rules_of db i)"

lemma ordered_set: "set (ordered_rules db i) = set (rules_of db i)"
  by (simp add: ordered_rules_def)

lemma rules_of_keys: "table_ok (fd_rules db) \<Longrightarrow> distinct (map fst (rules_of db i))"
  by (auto simp: table_ok_def rules_of_def rows_where_def distinct_map_filter)

lemma rules_of_get: "table_ok (fd_rules db) \<Longrightarrow> (k, r) \<in> set (rules_of db i) \<longleftrightarrow> row_get (fd_rules db) k = Some r \<and> ru_instance r = i"
  by (simp add: rules_of_def rows_where_get)

lemma rules_inv_orders:
  assumes inv: "rules_inv (fd_rules db)"
  shows "distinct (map (ru_order \<circ> snd) (rules_of db i))"
proof -
  have ok: "table_ok (fd_rules db)" using inv by (simp add: rules_inv_def)
  have "inj_on (ru_order \<circ> snd) (set (rules_of db i))"
  proof (rule inj_onI, clarsimp)
    fix a r b q assume e: "(a, r) \<in> set (rules_of db i)" "(b, q) \<in> set (rules_of db i)" "ru_order r = ru_order q"
    then have "row_get (fd_rules db) a = Some r" "row_get (fd_rules db) b = Some q" "ru_instance r = ru_instance q"
      using rules_of_get[OF ok] by auto
    moreover from this e(3) inv have "a = b" by (auto simp: rules_inv_def keyed_def)
    ultimately show "a = b \<and> r = q" by simp
  qed
  then show ?thesis using rules_of_keys[OF ok, of i] by (simp add: distinct_map)
qed

lemma ordered_sorted: "sorted (map (ru_order \<circ> snd) (ordered_rules db i))"
  by (simp add: ordered_rules_def)

lemma ordered_distinct: "rules_inv (fd_rules db) \<Longrightarrow> distinct (map (ru_order \<circ> snd) (ordered_rules db i))"
proof -
  assume "rules_inv (fd_rules db)"
  then have "distinct (map (ru_order \<circ> snd) (rules_of db i))" by (rule rules_inv_orders)
  moreover have "mset (map (ru_order \<circ> snd) (ordered_rules db i)) = mset (map (ru_order \<circ> snd) (rules_of db i))"
    by (simp add: ordered_rules_def)
  ultimately show ?thesis by (metis distinct_count_atmost_1 set_mset_mset)
qed

lemma ordered_same_rows: "same_rows db db' \<Longrightarrow> ordered_rules db' i = ordered_rules db i"
  using same_rows_fields[of db db'] by (simp add: ordered_rules_def rules_of_def)

section \<open>Creating\<close>

lemma ordered_append:
  assumes inv: "rules_inv (fd_rules db)" and add: "row_add row (fd_rules db) = (k, t')" and row: "ru_instance row = i"
    and last: "\<And>e. e \<in> set (rules_of db i) \<Longrightarrow> ru_order (snd e) < ru_order row"
  shows "ordered_rules (db\<lparr>fd_rules := t'\<rparr>) i = ordered_rules db i @ [(k, row)]"
proof -
  have "rules_of (db\<lparr>fd_rules := t'\<rparr>) i = rules_of db i @ [(k, row)]"
    using add row by (auto simp: rules_of_def rows_where_def row_add_def)
  then have "ordered_rules (db\<lparr>fd_rules := t'\<rparr>) i = sort_key (ru_order \<circ> snd) (rules_of db i @ [(k, row)])"
    by (simp add: ordered_rules_def)
  also have "\<dots> = ordered_rules db i @ [(k, row)]"
  proof (rule sort_key_unique)
    show "distinct (map (ru_order \<circ> snd) (ordered_rules db i @ [(k, row)]))"
      using ordered_distinct[OF inv, of i] last by (fastforce simp: ordered_set)
    show "sorted (map (ru_order \<circ> snd) (ordered_rules db i @ [(k, row)]))"
      using ordered_sorted[of db i] last by (fastforce simp: sorted_append ordered_set)
  qed (simp add: ordered_rules_def)
  finally show ?thesis .
qed

lemma max_order_last: "e \<in> set rs \<Longrightarrow> ru_order (snd e) < max_order rs + 10"
  using max_order_bound[of "fst e" "snd e" rs] by simp

section \<open>Exchanging two neighbours\<close>

definition exchange :: "nat \<Rightarrow> rule_row \<Rightarrow> nat \<Rightarrow> rule_row \<Rightarrow> fw_db \<Rightarrow> fw_db" where
  "exchange k r j n db = db\<lparr>fd_rules := row_set j (n\<lparr>ru_order := ru_order r\<rparr>) (row_set k (r\<lparr>ru_order := ru_order n\<rparr>) (fd_rules db))\<rparr>"

definition exchanged :: "nat \<Rightarrow> rule_row \<Rightarrow> nat \<Rightarrow> rule_row \<Rightarrow> nat \<times> rule_row \<Rightarrow> nat \<times> rule_row" where
  "exchanged k r j n e = (if fst e = j then (j, n\<lparr>ru_order := ru_order r\<rparr>) else if fst e = k then (k, r\<lparr>ru_order := ru_order n\<rparr>) else e)"

lemma rules_of_exchange:
  assumes ok: "table_ok (fd_rules db)" and r: "row_get (fd_rules db) k = Some r" and n: "row_get (fd_rules db) j = Some n"
    and i: "ru_instance n = ru_instance r" and ne: "j \<noteq> k"
  shows "rules_of (exchange k r j n db) i' = map (exchanged k r j n) (rules_of db i')"
proof -
  have rows: "tb_rows (fd_rules (exchange k r j n db)) = map (exchanged k r j n) (tb_rows (fd_rules db))"
    using ne by (auto simp: exchange_def row_set_def exchanged_def)
  have "ru_instance (snd (exchanged k r j n e)) = ru_instance (snd e)" if e: "e \<in> set (tb_rows (fd_rules db))" for e
  proof -
    have "row_get (fd_rules db) (fst e) = Some (snd e)" using ok e by (auto simp: row_get_def table_ok_def)
    with r n i show ?thesis by (auto simp: exchanged_def)
  qed
  then show ?thesis unfolding rules_of_def rows_where_def rows filter_map comp_def
    by (intro arg_cong[of _ _ "map (exchanged k r j n)"] filter_cong) auto
qed

lemma ordered_exchange:
  assumes inv: "rules_inv (fd_rules db)" and o: "ordered_rules db i = xs @ (a, ra) # (b, rb) # ys"
    and kj: "(k, r) = (a, ra) \<and> (j, n) = (b, rb) \<or> (k, r) = (b, rb) \<and> (j, n) = (a, ra)"
  shows "map fst (ordered_rules (exchange k r j n db) i) = map fst xs @ b # a # map fst ys"
proof -
  have ok: "table_ok (fd_rules db)" using inv by (simp add: rules_inv_def)
  have get: "row_get (fd_rules db) (fst e) = Some (snd e) \<and> ru_instance (snd e) = i" if "e \<in> set (ordered_rules db i)" for e
    using that rules_of_get[OF ok, of "fst e" "snd e" i] by (simp add: ordered_set)
  have "mset (map fst (ordered_rules db i)) = mset (map fst (rules_of db i))" by (simp add: ordered_rules_def)
  with rules_of_keys[OF ok, of i] have keys: "distinct (map fst (ordered_rules db i))"
    by (metis distinct_count_atmost_1 set_mset_mset)
  have ab: "row_get (fd_rules db) a = Some ra" "row_get (fd_rules db) b = Some rb" "ru_instance ra = i" "ru_instance rb = i"
    using get[of "(a, ra)"] get[of "(b, rb)"] o by auto
  have ne: "a \<noteq> b" using keys o by auto
  let ?f = "exchanged k r j n"
  have r_of: "rules_of (exchange k r j n db) i = map ?f (rules_of db i)"
    by (rule rules_of_exchange[OF ok]) (use kj ab ne in auto)
  have fa: "?f (a, ra) = (a, ra\<lparr>ru_order := ru_order rb\<rparr>)" and fb: "?f (b, rb) = (b, rb\<lparr>ru_order := ru_order ra\<rparr>)"
    using kj ne by (auto simp: exchanged_def)
  have other: "?f e = e" if "fst e \<noteq> a" "fst e \<noteq> b" for e using that kj by (auto simp: exchanged_def)
  have "a \<notin> fst ` (set xs \<union> set ys)" "b \<notin> fst ` (set xs \<union> set ys)" using keys o by auto
  then have "fst e \<noteq> a" "fst e \<noteq> b" if "e \<in> set xs \<union> set ys" for e using that by (metis image_eqI)+
  then have id: "map ?f xs = xs" "map ?f ys = ys" using other by (simp_all add: map_idI)
  let ?new = "xs @ (b, rb\<lparr>ru_order := ru_order ra\<rparr>) # (a, ra\<lparr>ru_order := ru_order rb\<rparr>) # ys"
  have orders: "map (ru_order \<circ> snd) ?new = map (ru_order \<circ> snd) (ordered_rules db i)" by (simp add: o)
  have "mset ?new = image_mset ?f (mset (ordered_rules db i))" by (simp add: o id fa fb flip: mset_map)
  also have "\<dots> = mset (rules_of (exchange k r j n db) i)" by (simp add: r_of ordered_rules_def)
  finally have "sort_key (ru_order \<circ> snd) (rules_of (exchange k r j n db) i) = ?new"
    using ordered_distinct[OF inv, of i] ordered_sorted[of db i] unfolding orders[symmetric] by (rule sort_key_unique)
  then show ?thesis by (simp add: ordered_rules_def)
qed

section \<open>The neighbour of a rule\<close>

lemma ordered_around:
  assumes "rules_inv (fd_rules db)" "ordered_rules db i = xs @ (k, r) # ys"
  shows "e \<in> set xs \<Longrightarrow> ru_order (snd e) < ru_order r" and "e \<in> set ys \<Longrightarrow> ru_order r < ru_order (snd e)"
    and "set (rules_of db i) = insert (k, r) (set xs \<union> set ys)"
proof -
  have "sorted_wrt (<) (map (ru_order \<circ> snd) (xs @ (k, r) # ys))"
    using ordered_sorted[of db i] ordered_distinct[OF assms(1), of i] by (simp add: strict_sorted_iff assms(2))
  then show "e \<in> set xs \<Longrightarrow> ru_order (snd e) < ru_order r" "e \<in> set ys \<Longrightarrow> ru_order r < ru_order (snd e)"
    unfolding sorted_wrt_map sorted_wrt_append by simp_all
  show "set (rules_of db i) = insert (k, r) (set xs \<union> set ys)"
    using ordered_set[of db i] by (simp add: assms(2))
qed

lemma sorted_last_greatest: "sorted (map f xs) \<Longrightarrow> e \<in> set xs \<Longrightarrow> f e \<le> f (last xs)"
proof (cases xs rule: rev_cases)
  case (snoc zs z)
  assume "sorted (map f xs)" "e \<in> set xs"
  then show ?thesis unfolding snoc by (fastforce simp: sorted_append)
qed simp

lemma neighbour_up:
  assumes inv: "rules_inv (fd_rules db)" and o: "ordered_rules db (ru_instance r) = xs @ (k, r) # ys"
  shows "neighbour ''up'' db r = (if xs = [] then None else Some (last xs))"
proof -
  note s = ordered_sorted[of db "ru_instance r", unfolded o] and d = ordered_distinct[OF inv, of "ru_instance r", unfolded o]
  let ?below = "filter (\<lambda>e. ru_order (snd e) < ru_order r) (rules_of db (ru_instance r))"
  have below: "set ?below = set xs"
  proof -
    have "ru_order (snd e) < ru_order r" if "e \<in> set xs" for e using ordered_around(1)[OF inv o that] .
    moreover have "\<not> ru_order (snd e) < ru_order r" if "e \<in> set ys" for e using ordered_around(2)[OF inv o that] by simp
    moreover note ordered_around(3)[OF inv o]
    ultimately show ?thesis unfolding set_filter by auto
  qed
  show ?thesis
  proof (cases "sort_key (\<lambda>e. - ru_order (snd e)) ?below")
    case Nil
    then have "set ?below = {}" by (metis list.set(1) set_sort)
    with below Nil show ?thesis by (simp add: neighbour_def)
  next
    case (Cons e es)
    from sort_key_hd_least[OF Cons, unfolded below] have e: "e \<in> set xs" "\<forall>x\<in>set xs. ru_order (snd x) \<le> ru_order (snd e)" by auto
    then have ne: "xs \<noteq> []" by auto
    then have "ru_order (snd (last xs)) \<le> ru_order (snd e)" using e(2) by simp
    moreover have "ru_order (snd e) \<le> ru_order (snd (last xs))"
      using sorted_last_greatest[of "ru_order \<circ> snd" xs e] s e(1) by (simp add: sorted_append)
    ultimately have "(ru_order \<circ> snd) e = (ru_order \<circ> snd) (last xs)" by simp
    moreover have "inj_on (ru_order \<circ> snd) (set xs)" using d by (simp add: distinct_map)
    ultimately have "e = last xs" using e(1) last_in_set[OF ne] by (metis inj_onD)
    with Cons ne show ?thesis by (simp add: neighbour_def)
  qed
qed

lemma neighbour_down:
  assumes inv: "rules_inv (fd_rules db)" and o: "ordered_rules db (ru_instance r) = xs @ (k, r) # ys"
  shows "neighbour ''down'' db r = (if ys = [] then None else Some (hd ys))"
proof -
  note s = ordered_sorted[of db "ru_instance r", unfolded o] and d = ordered_distinct[OF inv, of "ru_instance r", unfolded o]
  let ?above = "filter (\<lambda>e. ru_order r < ru_order (snd e)) (rules_of db (ru_instance r))"
  have above: "set ?above = set ys"
  proof -
    have "ru_order r < ru_order (snd e)" if "e \<in> set ys" for e using ordered_around(2)[OF inv o that] .
    moreover have "\<not> ru_order r < ru_order (snd e)" if "e \<in> set xs" for e using ordered_around(1)[OF inv o that] by simp
    moreover note ordered_around(3)[OF inv o]
    ultimately show ?thesis unfolding set_filter by auto
  qed
  show ?thesis
  proof (cases "sort_key (\<lambda>e. ru_order (snd e)) ?above")
    case Nil
    then have "set ?above = {}" by (metis list.set(1) set_sort)
    with above Nil show ?thesis by (simp add: neighbour_def)
  next
    case (Cons e es)
    from sort_key_hd_least[OF Cons, unfolded above] have e: "e \<in> set ys" "\<forall>x\<in>set ys. ru_order (snd e) \<le> ru_order (snd x)" by auto
    then obtain y zs where ys: "ys = y # zs" by (cases ys) auto
    have "(ru_order \<circ> snd) e = (ru_order \<circ> snd) y" using e s unfolding ys by (force simp: sorted_append)
    moreover have "inj_on (ru_order \<circ> snd) (set ys)" using d by (simp add: distinct_map)
    moreover have "y \<in> set ys" using ys by simp
    ultimately have "e = y" using e(1) by (metis inj_onD)
    with Cons ys show ?thesis by (simp add: neighbour_def)
  qed
qed

section \<open>The endpoints\<close>

lemma neighbour_other: "d \<noteq> ''up'' \<Longrightarrow> d \<noteq> ''down'' \<Longrightarrow> neighbour d db r = None"
  by (simp add: neighbour_def)

lemma move_rule_db:
  assumes "require_admin tok = Inr u" "row_get (fd_rules (gs_db st)) k = Some r" "move_rule send tok k d st = (rep, st')"
  shows "same_rows (case neighbour d (gs_db st) r of None \<Rightarrow> gs_db st | Some (j, n) \<Rightarrow> exchange k r j n (gs_db st)) (gs_db st')
    \<and> (rep = Inr [] \<or> rep = Inl 502)"
proof -
  let ?st1 = "case neighbour d (gs_db st) r of None \<Rightarrow> st | Some (j, n) \<Rightarrow> set_db (exchange k r j n) st"
  have "dispatch_then send (ru_instance r) u (Inr []) ?st1 = (rep, st')"
    using assms by (simp add: move_rule_def exchange_def set_db_def split: option.splits prod.splits)
  then have "quiet ?st1 st'" "rep = Inr [] \<or> rep = Inl 502" using dispatch_then_quiet[of ?st1 send "ru_instance r" u "Inr []"]
    by (auto simp: dispatch_then_def split: prod.splits sum.splits)
  then show ?thesis by (auto simp: quiet_def split: option.splits prod.splits)
qed

text \<open>Moving a rule up or down exchanges it with the rule before or after it in the evaluation order of
  its instance and leaves every other rule where it was; at the end of the list, and for any other
  direction (the documented \<open>top\<close> and \<open>bottom\<close> included), the order stays as it is. Either way the whole
  rule set is dispatched, and an agent failure is a 502 after the change was stored.\<close>

theorem move_rule_exchanges:
  "db_inv (gs_db st) \<Longrightarrow> require_admin tok = Inr u \<Longrightarrow> row_get (fd_rules (gs_db st)) k = Some r \<Longrightarrow>
   ordered_rules (gs_db st) (ru_instance r) = xs @ (k, r) # ys \<Longrightarrow> move_rule send tok k d st = (rep, st') \<Longrightarrow>
     map fst (ordered_rules (gs_db st') (ru_instance r)) =
       (if d = ''up'' \<and> xs \<noteq> [] then map fst (butlast xs) @ k # fst (last xs) # map fst ys
        else if d = ''down'' \<and> ys \<noteq> [] then map fst xs @ fst (hd ys) # k # map fst (tl ys)
        else map fst xs @ k # map fst ys)
     \<and> (rep = Inr [] \<or> rep = Inl 502)"
proof -
  assume inv: "db_inv (gs_db st)" and a: "require_admin tok = Inr u" "row_get (fd_rules (gs_db st)) k = Some r"
    and o: "ordered_rules (gs_db st) (ru_instance r) = xs @ (k, r) # ys" and m: "move_rule send tok k d st = (rep, st')"
  note rinv = db_inv_parts(1)[OF inv] and db = move_rule_db[OF a m]
  let ?o = "map fst (ordered_rules (gs_db st') (ru_instance r))"
  have stay: "neighbour d (gs_db st) r = None \<Longrightarrow> ?o = map fst xs @ k # map fst ys"
    using db ordered_same_rows[of "gs_db st" "gs_db st'"] o by simp
  have swap: "neighbour d (gs_db st) r = Some (j, n) \<Longrightarrow> ?o = map fst (ordered_rules (exchange k r j n (gs_db st)) (ru_instance r))" for j n
    using db ordered_same_rows[of "exchange k r j n (gs_db st)" "gs_db st'"] by simp
  consider (up) "d = ''up''" "xs \<noteq> []" | (down) "d = ''down''" "ys \<noteq> []" | (stay) "neighbour d (gs_db st) r = None"
      "\<not> (d = ''up'' \<and> xs \<noteq> [])" "\<not> (d = ''down'' \<and> ys \<noteq> [])"
    using neighbour_up[OF rinv o] neighbour_down[OF rinv o] neighbour_other[of d] by metis
  then show ?thesis
  proof cases
    case up
    obtain j n where jn: "last xs = (j, n)" by (cases "last xs")
    then have o': "ordered_rules (gs_db st) (ru_instance r) = butlast xs @ (j, n) # (k, r) # ys"
      using o up(2) append_butlast_last_id[of xs] by simp
    have "neighbour d (gs_db st) r = Some (j, n)" using neighbour_up[OF rinv o] up jn by simp
    from swap[OF this] ordered_exchange[OF rinv o', of k r j n] up jn db show ?thesis by simp
  next
    case down
    obtain j n where jn: "hd ys = (j, n)" by (cases "hd ys")
    then have o': "ordered_rules (gs_db st) (ru_instance r) = xs @ (k, r) # (j, n) # tl ys"
      using o down(2) by (metis list.collapse)
    have "neighbour d (gs_db st) r = Some (j, n)" using neighbour_down[OF rinv o] down jn by simp
    from swap[OF this] ordered_exchange[OF rinv o', of k r j n] down jn db show ?thesis by simp
  next
    case stay
    with stay(1) \<open>neighbour d (gs_db st) r = None \<Longrightarrow> ?o = map fst xs @ k # map fst ys\<close> db show ?thesis by simp
  qed
qed

text \<open>A rule that is created (answered with the rule, with a 502 after a failed dispatch, or with a failed
  response) is the last one in the evaluation order of its instance, with the stored fields of the
  request; the rules before it are unchanged, and no other table is. The requested rate limit is not
  stored.\<close>

theorem create_rule_appends:
  "db_inv (gs_db st) \<Longrightarrow> create_firewall_rule send tok i d st = (rep, st') \<Longrightarrow>
   rep \<notin> {Inl 401, Inl 403, Inl 404, Inl 422} \<Longrightarrow>
     \<exists>k row. ordered_rules (gs_db st') i = ordered_rules (gs_db st) i @ [(k, row)]
       \<and> row = new_rule i d (ru_order row) \<and> ru_limit row = None \<and> row_get (fd_rules (gs_db st)) k = None
       \<and> (rep = Inr [(k, row)] \<or> rep = Inl 502 \<or> rep = Inl 500)
       \<and> same_rows ((gs_db st)\<lparr>fd_rules := fd_rules (gs_db st')\<rparr>) (gs_db st')"
proof -
  assume inv: "db_inv (gs_db st)" and c: "create_firewall_rule send tok i d st = (rep, st')"
    and rep: "rep \<notin> {Inl 401, Inl 403, Inl 404, Inl 422}"
  have "require_admin tok = Inl code \<Longrightarrow> code = 401 \<or> code = 403" for code
    by (auto simp: require_admin_def split: option.splits if_splits)
  with c rep obtain u where u: "require_admin tok = Inr u" "valid_rule_create d" "row_get (fd_instances (gs_db st)) i \<noteq> None"
    by (fastforce simp: create_firewall_rule_def split: sum.splits if_splits)
  define row where "row = new_rule i d (max_order (rules_of (gs_db st) i) + 10)"
  obtain k t' where add: "row_add row (fd_rules (gs_db st)) = (k, t')" by (cases "row_add row (fd_rules (gs_db st))")
  define st1 where "st1 = audit (Some u) ''create'' ''firewall_rule'' k i (set_db (\<lambda>db. db\<lparr>fd_rules := t'\<rparr>) st)"
  have d: "dispatch_then send i u (rule_reply k row) st1 = (rep, st')"
    using c u add by (simp add: create_firewall_rule_def Let_def row_def st1_def)
  have "quiet (set_db (\<lambda>db. db\<lparr>fd_rules := t'\<rparr>) st) st'"
    using dispatch_then_quiet[of st1 send i u "rule_reply k row"] quiet_trans[OF audit_quiet] unfolding d by (simp add: st1_def)
  then have same: "same_rows ((gs_db st)\<lparr>fd_rules := t'\<rparr>) (gs_db st')" by (simp add: quiet_def)
  note rinv = db_inv_parts(1)[OF inv]
  have "ordered_rules ((gs_db st)\<lparr>fd_rules := t'\<rparr>) i = ordered_rules (gs_db st) i @ [(k, row)]"
    by (rule ordered_append[OF rinv add]) (simp_all add: row_def new_rule_def max_order_last)
  then have "ordered_rules (gs_db st') i = ordered_rules (gs_db st) i @ [(k, row)]" using ordered_same_rows[OF same] by simp
  moreover have "row_get (fd_rules (gs_db st)) k = None" using rows.add_fresh[OF _ add] rinv by (simp add: rules_inv_def)
  moreover have "fd_rules (gs_db st') = t'" using same_rows_fields[OF same] by simp
  moreover have "rep = Inr [(k, row)] \<or> rep = Inl 502 \<or> rep = Inl 500" using d
    by (auto simp: dispatch_then_def rule_reply_def split: prod.splits sum.splits if_splits)
  ultimately show ?thesis using same by (intro exI[of _ k] exI[of _ row]) (simp add: row_def new_rule_def)
qed

definition lab_rule :: "string \<Rightarrow> rule_create" where
  "lab_rule name = \<lparr>rc_name = name, rc_description = None, rc_enabled = True, rc_source_type = ''any'', rc_source_value = None,
     rc_dest_type = ''any'', rc_dest_value = None, rc_protocol = ''tcp'', rc_ports = Some ''22'', rc_action = Gw_Drop,
     rc_log = False, rc_limit = Some ''5/second''\<rparr>"

text \<open>The laboratory gateway with two rules, an agent that never answers.\<close>

definition mute :: "unit sender" where "mute = (\<lambda>u k m b w. (Http_Timeout, w))"

definition lab_two :: "unit gw_state" where
  "lab_two = fw_handle mute lab_admin (Create_Rule 1 (lab_rule ''b'')) (fw_handle mute lab_admin (Create_Rule 1 (lab_rule ''a'')) (lab_gw ()))"

lemma lab_two_inv: "db_inv (gs_db lab_two)"
  unfolding lab_two_def by (intro fw_handle_inv lab_db_inv)

lemma lab_two_rows: "tb_rows (fd_rules (gs_db lab_two)) = [(1, new_rule 1 (lab_rule ''a'') 10), (2, new_rule 1 (lab_rule ''b'') 20)]"
  by (simp add: lab_two_def fw_handle_def create_firewall_rule_def require_admin_def lab_admin_def lab_gw_def lab_db_def
      valid_rule_create_def name_ok_def lab_rule_def row_get_def row_add_def empty_table_def rules_of_def rows_where_def max_order_def
      audit_def set_db_def dispatch_then_def apply_firewall_config_def ask_def agent_request_def mute_def audit_dispatch_def
      lab_instance_def get_instance_endpoint_def new_rule_def truthy_str_def Let_def)

theorem create_rule_appends_witness:
  "\<exists>k row. ordered_rules (gs_db (snd (create_firewall_rule mute lab_admin 1 (lab_rule ''a'') (lab_gw ())))) 1 = [(k, row)]
     \<and> ru_name row = ''a'' \<and> ru_limit row = None"
proof -
  let ?c = "create_firewall_rule mute lab_admin 1 (lab_rule ''a'') (lab_gw ())"
  have f: "fst ?c = Inl 502"
    by (simp add: create_firewall_rule_def require_admin_def lab_admin_def lab_gw_def lab_db_def
      valid_rule_create_def name_ok_def lab_rule_def row_get_def row_add_def empty_table_def
      audit_def set_db_def dispatch_then_def apply_firewall_config_def ask_def agent_request_def mute_def
      lab_instance_def get_instance_endpoint_def truthy_str_def Let_def)
  have e: "ordered_rules (gs_db (lab_gw ())) 1 = []"
    by (simp add: ordered_rules_def rules_of_def rows_where_def lab_gw_def lab_db_def empty_table_def)
  have "?c = (fst ?c, snd ?c)" by simp
  from create_rule_appends[OF lab_db_inv this] f e show ?thesis
    by (auto simp: new_rule_def lab_rule_def) (metis rule_row.select_convs(2))
qed

theorem move_rule_exchanges_witness:
  "map fst (ordered_rules (gs_db (snd (move_rule mute lab_admin 2 ''up'' lab_two))) 1) = [2, 1]
   \<and> map fst (ordered_rules (gs_db (snd (move_rule mute lab_admin 2 ''top'' lab_two))) 1) = [1, 2]"
proof -
  let ?a = "new_rule 1 (lab_rule ''a'') 10" and ?b = "new_rule 1 (lab_rule ''b'') 20"
  have o: "ordered_rules (gs_db lab_two) (ru_instance ?b) = [(1, ?a)] @ (2, ?b) # []"
    by (simp add: ordered_rules_def rules_of_def rows_where_def lab_two_rows new_rule_def)
  have g: "row_get (fd_rules (gs_db lab_two)) 2 = Some ?b" by (simp add: row_get_def lab_two_rows)
  have u: "require_admin lab_admin = Inr 1" by (simp add: require_admin_def lab_admin_def)
  have "move_rule mute lab_admin 2 d lab_two = (fst (move_rule mute lab_admin 2 d lab_two), snd (move_rule mute lab_admin 2 d lab_two))" for d
    by simp
  from move_rule_exchanges[OF lab_two_inv u g o this[of "''up''"]] move_rule_exchanges[OF lab_two_inv u g o this[of "''top''"]]
  show ?thesis by (simp add: new_rule_def)
qed

text \<open>A patch that sets the action of a rule to null is accepted and stored, whatever the action was;
  the agent reads a rule without an action as \<open>accept\<close>, and from then on neither the rule nor the list
  of the instance's rules can be read through the API.\<close>

theorem null_action_accepts:
  "require_admin tok = Inr u \<Longrightarrow> row_get (fd_rules (gs_db st)) k = Some r \<Longrightarrow> table_ok (fd_rules (gs_db st)) \<Longrightarrow>
   rp_name p = None \<Longrightarrow> rp_action p = Some None \<Longrightarrow> update_firewall_rule send tok k p st = (rep, st') \<Longrightarrow>
     \<exists>row. row_get (fd_rules (gs_db st')) k = Some row \<and> (rep = Inl 502 \<or> rep = Inl 500)
       \<and> fw_action_of (action_text (agent_rule (k, row))) = Some A_ACCEPT
       \<and> list_firewall_rules tok (ru_instance r) (gs_db st') = Inl 500 \<and> get_firewall_rule tok k (gs_db st') = Inl 500"
proof -
  assume u: "require_admin tok = Inr u" and g: "row_get (fd_rules (gs_db st)) k = Some r" and ok: "table_ok (fd_rules (gs_db st))"
    and p: "rp_name p = None" "rp_action p = Some None" and c: "update_firewall_rule send tok k p st = (rep, st')"
  obtain row where row: "patch_rule p r = Some row" "ru_action row = None" "ru_instance row = ru_instance r"
    using p by (simp add: patch_rule_def patched_def)
  define st1 where "st1 = audit (Some u) ''update'' ''firewall_rule'' k (ru_instance row)
      (set_db (\<lambda>db. db\<lparr>fd_rules := row_set k row (fd_rules db)\<rparr>) st)"
  have d: "dispatch_then send (ru_instance row) u (rule_reply k row) st1 = (rep, st')"
    using c u g row(1) by (simp add: update_firewall_rule_def Let_def st1_def)
  have "quiet (set_db (\<lambda>db. db\<lparr>fd_rules := row_set k row (fd_rules db)\<rparr>) st) st'"
    using dispatch_then_quiet[of st1 send "ru_instance row" u "rule_reply k row"] quiet_trans[OF audit_quiet] unfolding d by (simp add: st1_def)
  then have rules: "fd_rules (gs_db st') = row_set k row (fd_rules (gs_db st))"
    using same_rows_fields by (fastforce simp: quiet_def)
  have get: "row_get (fd_rules (gs_db st')) k = Some row" using g by (simp add: rules rows.get_put)
  have bad: "\<not> rule_response_ok row" using row(2) by (simp add: rule_response_ok_def)
  have ok': "table_ok (fd_rules (gs_db st'))" using ok by (simp add: rules rows.ok_put)
  have "(k, row) \<in> set (rules_of (gs_db st') (ru_instance r))" using get row(3) by (simp add: rules_of_get[OF ok'])
  with bad have "list_firewall_rules tok (ru_instance r) (gs_db st') = Inl 500"
    using require_admin_auth[OF u] by (force simp: list_firewall_rules_def list_all_iff)
  moreover have "get_firewall_rule tok k (gs_db st') = Inl 500"
    using require_admin_auth[OF u] get bad by (simp add: get_firewall_rule_def rule_reply_def)
  moreover have "fw_action_of (action_text (agent_rule (k, row))) = Some A_ACCEPT"
  proof -
    have "action_text (agent_rule (k, row)) = lower ''accept''" using row(2) by (simp add: action_text_def agent_rule_def)
    moreover have "case fw_action_of (lower ''accept'') of Some A_ACCEPT \<Rightarrow> True | _ \<Rightarrow> False" by code_simp
    ultimately show ?thesis by (auto split: option.splits fw_action.splits)
  qed
  moreover have "rep = Inl 502 \<or> rep = Inl 500" using d bad
    by (auto simp: dispatch_then_def rule_reply_def split: prod.splits sum.splits)
  ultimately show ?thesis using get by blast
qed

theorem null_action_accepts_witness:
  "ru_action (new_rule 1 (lab_rule ''a'') 10) = Some ''drop''
   \<and> list_firewall_rules lab_admin 1 (gs_db (snd (update_firewall_rule mute lab_admin 1
       \<lparr>rp_name = None, rp_description = None, rp_enabled = None, rp_source_type = None, rp_source_value = None, rp_dest_type = None,
        rp_dest_value = None, rp_protocol = None, rp_ports = None, rp_action = Some None, rp_log = None, rp_limit = None\<rparr> lab_two))) = Inl 500"
proof -
  let ?p = "\<lparr>rp_name = None, rp_description = None, rp_enabled = None, rp_source_type = None, rp_source_value = None, rp_dest_type = None,
        rp_dest_value = None, rp_protocol = None, rp_ports = None, rp_action = Some None, rp_log = None, rp_limit = None\<rparr>"
  have g: "row_get (fd_rules (gs_db lab_two)) 1 = Some (new_rule 1 (lab_rule ''a'') 10)" by (simp add: row_get_def lab_two_rows)
  have u: "require_admin lab_admin = Inr 1" by (simp add: require_admin_def lab_admin_def)
  have ok: "table_ok (fd_rules (gs_db lab_two))" using lab_two_inv by (simp add: db_inv_def rules_inv_def)
  have e: "update_firewall_rule mute lab_admin 1 ?p lab_two
      = (fst (update_firewall_rule mute lab_admin 1 ?p lab_two), snd (update_firewall_rule mute lab_admin 1 ?p lab_two))" by simp
  from null_action_accepts[OF u g ok _ _ e] show ?thesis
    by (auto simp add: new_rule_def lab_rule_def gw_action_value_def)
qed

end
