(* ===== verification/Gw_System.thy ===== *)
theory Gw_System
  imports Gw_Order
begin

text \<open>
  The gateway and the firewall agent together: what is in force on the host after a successful call.

  The agent answers the gateway's requests as \<open>viswall_firewall_agent/api.py\<close> does: the key check of its
  middleware, then the deployment of the body it reads. The reply's body plays no role.
\<close>

section \<open>The agent as the other end\<close>

definition fw_agent :: "deploy_env \<Rightarrow> string \<Rightarrow> string \<Rightarrow> agent_state sender" where
  "fw_agent env key base url k meth body st =
     (if url \<noteq> base @ ''/firewall/apply'' \<or> meth \<noteq> ''POST'' then (Http_Status 404 [], st)
      else (case authorize (Some key) ''http'' ''/firewall/apply'' [(''x-instance-key'', k)] of
          Status c \<Rightarrow> (Http_Status c [], st)
        | Passed \<Rightarrow>
            (case api_firewall_apply env (read_request body) st of
               (code, st') \<Rightarrow> (if code = 200 then Http_Ok (J_Obj []) else Http_Status code [], st'))))"

definition base_of :: "fw_db \<Rightarrow> nat \<Rightarrow> string \<Rightarrow> bool" where
  "base_of db i base \<longleftrightarrow> get_instance_endpoint (fd_instances db) i (Some ''firewall'') = Inr base"

definition key_of_instance :: "fw_db \<Rightarrow> nat \<Rightarrow> string" where
  "key_of_instance db i = (case row_get (fd_instances db) i of None \<Rightarrow> [] | Some r \<Rightarrow> in_api_key r)"

lemma api_apply_200: "api_firewall_apply env rq st = (200, st') \<Longrightarrow> \<exists>rep. deploy_firewall_config env rq st = (Done rep, st')"
  by (auto simp: api_firewall_apply_def split: prod.splits deploy_result.splits)

text \<open>A dispatch that succeeds went through a deployment of exactly the stored rows.\<close>

lemma dispatch_deploys:
  assumes "apply_firewall_config (fw_agent env key base) i u st = (Inr r, st')"
  shows "key_of_instance (gs_db st) i = key
    \<and> (\<exists>rep. deploy_firewall_config env (read_request (build_instance_firewall_payload (gs_db st) i)) (gs_world st) = (Done rep, gs_world st'))"
proof -
  let ?body = "build_instance_firewall_payload (gs_db st) i"
  obtain st1 where a: "ask (fw_agent env key base) i ''POST'' ''/firewall/apply'' ?body (Some ''firewall'') st = (Inr r, st1)"
    and w: "gs_world st' = gs_world st1"
    using assms by (auto simp: apply_firewall_config_def audit_dispatch_def set_db_def split: prod.splits sum.splits)
  obtain endpoint where e: "get_instance_endpoint (fd_instances (gs_db st)) i (Some ''firewall'') = Inr endpoint"
    using a by (cases "get_instance_endpoint (fd_instances (gs_db st)) i (Some ''firewall'')") (auto simp: ask_def agent_request_def)
  let ?key = "key_of_instance (gs_db st) i"
  obtain w' where s: "fw_agent env key base (endpoint @ ''/firewall/apply'') ?key ''POST'' ?body (gs_world st) = (Http_Ok r, w')"
    "st1 = st\<lparr>gs_world := w'\<rparr>"
    using a e by (auto simp: ask_def agent_request_def Let_def key_of_instance_def split: prod.splits http_exchange.splits)
  then have "authorize (Some key) ''http'' ''/firewall/apply'' [(''x-instance-key'', ?key)] = Passed"
    and "api_firewall_apply env (read_request ?body) (gs_world st) = (200, w')"
    by (auto simp: fw_agent_def split: if_splits http_result.splits prod.splits)
  then have "?key = key" "\<exists>rep. deploy_firewall_config env (read_request ?body) (gs_world st) = (Done rep, w')"
    using api_apply_200 by (auto simp: authorize_def provided_key_def split: if_splits)
  with s(2) w show ?thesis by simp
qed

section \<open>From the API call to the live table\<close>

definition deployable :: "deploy_env \<Rightarrow> agent_state \<Rightarrow> bool" where
  "deployable env ag \<longleftrightarrow> distinct (map fst (ag_snapshots ag)) \<and> (\<forall>e\<in>set (ag_snapshots ag). fst e < en_stamp env)
     \<and> (delete_run (en_nft env) = Ran True \<or> live (ag_nft ag) = [])"

lemma dispatch_in_force:
  assumes "apply_firewall_config (fw_agent env key base) i u st = (Inr r, st')" "deployable env (gs_world st)"
  shows "\<exists>ruleset. rendered env (read_request (build_instance_firewall_payload (gs_db st') i)) = Inr ruleset
    \<and> live (ag_nft (gs_world st')) = [ruleset] \<and> conf (ag_nft (gs_world st')) = Some ruleset"
proof -
  have "same_rows (gs_db st) (gs_db st')" using apply_firewall_config_quiet[OF assms(1)] by (simp add: quiet_def)
  then have p: "build_instance_firewall_payload (gs_db st') i = build_instance_firewall_payload (gs_db st) i"
    by (rule payload_same_rows)
  obtain rep where "deploy_firewall_config env (read_request (build_instance_firewall_payload (gs_db st) i)) (gs_world st) = (Done rep, gs_world st')"
    using dispatch_deploys[OF assms(1)] by blast
  from deploy_installs[OF this] assms(2) show ?thesis unfolding p deployable_def by blast
qed

lemma dispatch_then_success:
  "dispatch_then send i u reply st = (rep, st') \<Longrightarrow> rep \<noteq> Inl 502 \<Longrightarrow> \<exists>r. apply_firewall_config send i (Some u) st = (Inr r, st') \<and> rep = reply"
  by (auto simp: dispatch_then_def split: prod.splits sum.splits)


definition lab_key_gw :: "agent_state gw_state" where
  "lab_key_gw = lab_gw calm_state"

lemma lab_deploy:
  assumes "\<exists>text. rendered calm_env rq = Inr text" "rq_routing_rules rq = []"
  shows "\<exists>rep. deploy_firewall_config calm_env rq calm_state = (Done rep, snd (deploy_firewall_config calm_env rq calm_state))"
proof -
  obtain ruleset where r: "rendered calm_env rq = Inr ruleset" using assms(1) by blast
  have "snapshot_state (\<lambda>argv. Captured '''') (Inr []) (\<lambda>d. True) ''20250101'' []
      = (Some ''20250101'', [(''20250101'', snapshot_files (\<lambda>argv. Captured '''') (Inr []))])"
    by (simp add: snapshot_state_def prune_old_snapshots_def stale_snapshots_def but_last_n_def keep_snapshots_def)
  moreover have "apply_ruleset healthy_env f running_host = (True, \<lparr>conf = Some f, last_good = Some ''old'', live = [f]\<rparr>)" for f
    by (simp add: apply_defs healthy_env_def running_host_def)
  moreover have "apply_routing False True (\<lambda>a. True) (Inr []) (Inr []) [] idle_state \<noteq> None" by code_simp
  ultimately have "\<exists>rep. fst (deploy_firewall_config calm_env rq calm_state) = Done rep"
    using r assms(2) by (auto simp: deploy_firewall_config_def calm_env_def calm_state_def finish_deploy_def
        write_last_applied_at_def Let_def split: prod.splits)
  then show ?thesis by (metis prod.collapse)
qed


end
