(* ===== verification/Gw_Network.thy ===== *)
theory Gw_Network
  imports Gw_Firewall
begin

text \<open>
  \<open>routers/network.py\<close>: the desired interface configuration of an instance, its refresh from the node
  agent's live discovery, and the apply that is dispatched to the node agent.

  The check of a relayed answer against its response schema is done by the validation library; it is
  the parameter \<open>valid\<close> of the two handlers that relay one.
\<close>

section \<open>Access\<close>

definition instance_for_user :: "fw_db \<Rightarrow> nat \<Rightarrow> nat \<Rightarrow> nat option" where
  "instance_for_user db i u =
     (case row_get (fd_users db) u of
        None \<Rightarrow> Some 403
      | Some usr \<Rightarrow>
          (if row_get (fd_instances db) i = None then Some 404
           else if us_role usr \<noteq> ''superadmin'' \<and> i \<notin> set (us_instances usr) then Some 403
           else None))"

section \<open>Live rows\<close>

record live_row =
  lv_name :: string
  lv_ip :: "string option"
  lv_netmask :: "string option"
  lv_gateway :: "string option"
  lv_mtu :: "int option"

text \<open>\<open>None\<close> stands for the \<open>ValueError\<close> of a number that is no IPv4 prefix length.\<close>

definition netmask_from_prefixlen :: "int \<Rightarrow> string option" where
  "netmask_from_prefixlen n = (if 0 \<le> n \<and> n \<le> 32 then Some (ip4_str (netmask4 (nat n))) else None)"

definition live_addr_of :: "json \<Rightarrow> (string \<times> string) option" where
  "live_addr_of a =
     (case a of
        J_Obj kvs \<Rightarrow>
          (if map_of kvs ''family'' \<notin> {None, Some (J_Str ''inet'')} then None
           else (case (map_of kvs ''address'', map_of kvs ''prefixlen'') of
               (Some (J_Str s), Some (J_Int n)) \<Rightarrow> map_option (\<lambda>m. (s, m)) (netmask_from_prefixlen n)
             | _ \<Rightarrow> None))
      | _ \<Rightarrow> None)"

fun first_addr :: "json list \<Rightarrow> (string \<times> string) option" where
  "first_addr [] = None"
| "first_addr (a # as) = (case live_addr_of a of None \<Rightarrow> first_addr as | Some r \<Rightarrow> Some r)"

text \<open>The address list: a falsy value counts as empty; text and objects iterate over their characters
  and keys, none of which is an address; a true flag or a number other than 0 cannot be iterated.\<close>

definition address_entries :: "json option \<Rightarrow> json list option" where
  "address_entries v =
     (case v of
        Some (J_List xs) \<Rightarrow> Some xs
      | Some (J_Bool True) \<Rightarrow> None
      | Some (J_Int n) \<Rightarrow> (if n = 0 then Some [] else None)
      | _ \<Rightarrow> Some [])"

definition live_mtu :: "json option \<Rightarrow> int option" where
  "live_mtu v = (case v of Some (J_Int n) \<Rightarrow> Some n | Some (J_Bool b) \<Rightarrow> Some (if b then 1 else 0) | _ \<Rightarrow> None)"

definition quoted :: "string \<Rightarrow> string" where
  "quoted s = [CHR 0x27] @ s @ [CHR 0x27]"

definition parse_live_row :: "json option \<Rightarrow> json \<Rightarrow> string + live_row" where
  "parse_live_row dflt raw =
     (case raw of
        J_Obj kvs \<Rightarrow>
          (case map_of kvs ''name'' of
             Some (J_Str name) \<Rightarrow>
               (if strip name = [] then Inl (''interface entry lacks a valid '' @ quoted ''name'')
                else (case address_entries (map_of kvs ''addresses'') of
                    None \<Rightarrow> Inl (quoted (if map_of kvs ''addresses'' = Some (J_Bool True) then ''bool'' else ''int'') @ '' object is not iterable'')
                  | Some as \<Rightarrow> Inr
                      \<lparr>lv_name = name, lv_ip = map_option fst (first_addr as), lv_netmask = map_option snd (first_addr as),
                       lv_gateway = (case dflt of Some (J_Str g) \<Rightarrow> if map_of kvs ''has_default_route'' = Some (J_Bool True) then Some g else None
                                     | _ \<Rightarrow> None),
                       lv_mtu = live_mtu (map_of kvs ''mtu'')\<rparr>))
           | _ \<Rightarrow> Inl (''interface entry lacks a valid '' @ quoted ''name''))
      | _ \<Rightarrow> Inl ''interface entry is not an object'')"

fun parse_rows :: "json option \<Rightarrow> json list \<Rightarrow> string + live_row list" where
  "parse_rows dflt [] = Inr []"
| "parse_rows dflt (r # rs) =
     (case parse_live_row dflt r of
        Inl e \<Rightarrow> Inl e
      | Inr row \<Rightarrow> (case parse_rows dflt rs of Inl e \<Rightarrow> Inl e | Inr rows \<Rightarrow> Inr (row # rows)))"

definition parse_live_rows :: "json \<Rightarrow> string + live_row list" where
  "parse_live_rows result =
     (if \<not> is_obj result then Inl ''agent response is not an object''
      else (case key_of result ''interfaces'' of
          Some (J_List rs) \<Rightarrow> parse_rows (key_of result ''default_gateway'') rs
        | _ \<Rightarrow> Inl (''agent response lacks an '' @ quoted ''interfaces'' @ '' list'')))"

section \<open>Refresh\<close>

text \<open>The rows known before the refresh, by name; of two with one name the later counts.\<close>

definition known_iface :: "nat \<Rightarrow> iface_row table \<Rightarrow> string \<Rightarrow> nat option" where
  "known_iface i t name = map_of (rev (map (\<lambda>(k, r). (ir_name r, k)) (rows_where (\<lambda>r. if_instance r = i) t))) name"

definition live_values :: "live_row \<Rightarrow> iface_row \<Rightarrow> iface_row" where
  "live_values v r = r\<lparr>ir_ip := lv_ip v, ir_netmask := lv_netmask v, ir_gateway := lv_gateway v, ir_mtu := lv_mtu v\<rparr>"

definition discovered :: "nat \<Rightarrow> live_row \<Rightarrow> iface_row" where
  "discovered i v = \<lparr>if_instance = i, ir_name = lv_name v, ir_type = Some ''other'', ir_config_type = Some ''dhcp'', ir_ip = lv_ip v,
     ir_netmask = lv_netmask v, ir_gateway = lv_gateway v, ir_mtu = lv_mtu v, ir_ip6 = None, ir_gateway6 = None, ir_dns = None,
     ir_routes = None, ir_bandwidth_in = None, ir_bandwidth_out = None, ir_description = None, ir_enabled = Some True\<rparr>"

fun upsert_loop :: "(string \<Rightarrow> nat option) \<Rightarrow> nat \<Rightarrow> live_row list \<Rightarrow> iface_row table \<Rightarrow> (nat \<times> nat) \<times> iface_row table" where
  "upsert_loop known i [] t = ((0, 0), t)"
| "upsert_loop known i (v # vs) t =
     (if lv_name v = ''lo'' then upsert_loop known i vs t
      else (case known (lv_name v) of
          None \<Rightarrow>
            (let ((c, u), t') = upsert_loop known i vs (snd (row_add (discovered i v) t)) in ((Suc c, u), t'))
        | Some k \<Rightarrow>
            (case row_get t k of
               None \<Rightarrow> upsert_loop known i vs t
             | Some r \<Rightarrow>
                 (if live_values v r = r then upsert_loop known i vs t
                  else (let ((c, u), t') = upsert_loop known i vs (row_set k (live_values v r) t) in ((c, Suc u), t'))))))"

definition upsert_live_interfaces :: "nat \<Rightarrow> live_row list \<Rightarrow> iface_row table \<Rightarrow> (nat \<times> nat) \<times> iface_row table" where
  "upsert_live_interfaces i vs t = upsert_loop (known_iface i t) i vs t"

section \<open>Desired configuration\<close>

definition list_interfaces :: "token option \<Rightarrow> nat \<Rightarrow> fw_db \<Rightarrow> nat + (nat \<times> iface_row) list" where
  "list_interfaces tok i db =
     (case require_auth tok of
        Inl c \<Rightarrow> Inl c
      | Inr u \<Rightarrow>
          (case instance_for_user db i u of
             Some c \<Rightarrow> Inl c
           | None \<Rightarrow> iface_rows_reply (sort_key (ir_name \<circ> snd) (rows_where (\<lambda>r. if_instance r = i) (fd_ifaces db)))))"

record iface_create =
  ifc_name :: string
  ifc_type :: string
  ifc_config_type :: string
  ifc_ip :: "string option"
  ifc_netmask :: "string option"
  ifc_gateway :: "string option"
  ifc_mtu :: "int option"
  ifc_ip6 :: "string option"
  ifc_gateway6 :: "string option"
  ifc_dns :: "string list option"
  ifc_routes :: "iface_route list option"
  ifc_bandwidth_in :: "int option"
  ifc_bandwidth_out :: "int option"
  ifc_description :: "string option"
  ifc_enabled :: bool

definition valid_iface_create :: "iface_create \<Rightarrow> bool" where
  "valid_iface_create d \<longleftrightarrow> length (ifc_name d) \<le> 50 \<and> mtu_ok (ifc_mtu d) \<and> length (or_empty (ifc_description d)) \<le> 255"

definition new_iface :: "nat \<Rightarrow> iface_create \<Rightarrow> iface_row" where
  "new_iface i d = \<lparr>if_instance = i, ir_name = ifc_name d, ir_type = Some (ifc_type d), ir_config_type = Some (ifc_config_type d),
     ir_ip = ifc_ip d, ir_netmask = ifc_netmask d, ir_gateway = ifc_gateway d, ir_mtu = ifc_mtu d, ir_ip6 = ifc_ip6 d,
     ir_gateway6 = ifc_gateway6 d, ir_dns = ifc_dns d, ir_routes = ifc_routes d, ir_bandwidth_in = ifc_bandwidth_in d,
     ir_bandwidth_out = ifc_bandwidth_out d, ir_description = ifc_description d, ir_enabled = Some (ifc_enabled d)\<rparr>"

definition audit_iface :: "nat \<Rightarrow> string \<Rightarrow> nat \<Rightarrow> nat \<Rightarrow> json option \<Rightarrow> 'w gw_state \<Rightarrow> 'w gw_state" where
  "audit_iface u action k i new = set_db (\<lambda>db. db\<lparr>fd_audit :=
     log_audit (Some u) action ''network_interface'' (Some (string_of_nat k)) (Some i) new (fd_audit db)\<rparr>)"

definition iface_named :: "fw_db \<Rightarrow> nat \<Rightarrow> string \<Rightarrow> bool" where
  "iface_named db i name \<longleftrightarrow> rows_where (\<lambda>r. if_instance r = i \<and> ir_name r = name) (fd_ifaces db) \<noteq> []"

definition create_interface :: "token option \<Rightarrow> nat \<Rightarrow> iface_create \<Rightarrow> 'w gw_state \<Rightarrow> (nat + nat \<times> iface_row) \<times> 'w gw_state" where
  "create_interface tok i d st =
     (case require_admin tok of
        Inl c \<Rightarrow> (Inl c, st)
      | Inr u \<Rightarrow>
          (if \<not> valid_iface_create d then (Inl 422, st)
           else (case instance_for_user (gs_db st) i u of
               Some c \<Rightarrow> (Inl c, st)
             | None \<Rightarrow>
                 (if iface_named (gs_db st) i (ifc_name d) then (Inl 409, st)
                  else (let row = new_iface i d; (k, t') = row_add row (fd_ifaces (gs_db st)) in
                        (Inr (k, row), audit_iface u ''create'' k i
                           (Some (J_Obj [(''name'', J_Str (ifc_name d)), (''config_type'', J_Str (ifc_config_type d))]))
                           (set_db (\<lambda>db. db\<lparr>fd_ifaces := t'\<rparr>) st)))))))"

record iface_patch =
  ifp_name :: "string option option"
  ifp_type :: "string option option"
  ifp_config_type :: "string option option"
  ifp_ip :: "string option option"
  ifp_netmask :: "string option option"
  ifp_gateway :: "string option option"
  ifp_mtu :: "int option option"
  ifp_ip6 :: "string option option"
  ifp_gateway6 :: "string option option"
  ifp_dns :: "string list option option"
  ifp_routes :: "iface_route list option option"
  ifp_bandwidth_in :: "int option option"
  ifp_bandwidth_out :: "int option option"
  ifp_description :: "string option option"
  ifp_enabled :: "bool option option"

definition valid_iface_patch :: "iface_patch \<Rightarrow> bool" where
  "valid_iface_patch d \<longleftrightarrow> (case ifp_name d of Some (Some n) \<Rightarrow> length n \<le> 50 | _ \<Rightarrow> True)
     \<and> (case ifp_mtu d of Some m \<Rightarrow> mtu_ok m | None \<Rightarrow> True)
     \<and> (case ifp_description d of Some s \<Rightarrow> length (or_empty s) \<le> 255 | None \<Rightarrow> True)"

definition patch_iface :: "iface_patch \<Rightarrow> iface_row \<Rightarrow> iface_row option" where
  "patch_iface d r =
     (if ifp_name d = Some None then None
      else Some (r\<lparr>ir_name := (case ifp_name d of Some (Some n) \<Rightarrow> n | _ \<Rightarrow> ir_name r),
          ir_type := patched (ifp_type d) (ir_type r), ir_config_type := patched (ifp_config_type d) (ir_config_type r),
          ir_ip := patched (ifp_ip d) (ir_ip r), ir_netmask := patched (ifp_netmask d) (ir_netmask r),
          ir_gateway := patched (ifp_gateway d) (ir_gateway r), ir_mtu := patched (ifp_mtu d) (ir_mtu r),
          ir_ip6 := patched (ifp_ip6 d) (ir_ip6 r), ir_gateway6 := patched (ifp_gateway6 d) (ir_gateway6 r),
          ir_dns := patched (ifp_dns d) (ir_dns r), ir_routes := patched (ifp_routes d) (ir_routes r),
          ir_bandwidth_in := patched (ifp_bandwidth_in d) (ir_bandwidth_in r),
          ir_bandwidth_out := patched (ifp_bandwidth_out d) (ir_bandwidth_out r),
          ir_description := patched (ifp_description d) (ir_description r), ir_enabled := patched (ifp_enabled d) (ir_enabled r)\<rparr>))"

text \<open>The audit entry holds the patch as given.\<close>

definition given :: "string \<Rightarrow> ('a \<Rightarrow> json) \<Rightarrow> 'a option option \<Rightarrow> (string \<times> json) list" where
  "given key f v = (case v of None \<Rightarrow> [] | Some None \<Rightarrow> [(key, J_Null)] | Some (Some x) \<Rightarrow> [(key, f x)])"

definition patch_json :: "iface_patch \<Rightarrow> json" where
  "patch_json d = J_Obj (given ''name'' J_Str (ifp_name d) @ given ''type'' J_Str (ifp_type d)
     @ given ''config_type'' J_Str (ifp_config_type d) @ given ''ip_address'' J_Str (ifp_ip d) @ given ''netmask'' J_Str (ifp_netmask d)
     @ given ''gateway'' J_Str (ifp_gateway d) @ given ''mtu'' J_Int (ifp_mtu d) @ given ''ipv6_address'' J_Str (ifp_ip6 d)
     @ given ''ipv6_gateway'' J_Str (ifp_gateway6 d) @ given ''dns_servers'' (\<lambda>xs. J_List (map J_Str xs)) (ifp_dns d)
     @ given ''routes'' (\<lambda>xs. J_List (map route_json xs)) (ifp_routes d) @ given ''bandwidth_in'' J_Int (ifp_bandwidth_in d)
     @ given ''bandwidth_out'' J_Int (ifp_bandwidth_out d) @ given ''description'' J_Str (ifp_description d)
     @ given ''enabled'' J_Bool (ifp_enabled d))"

definition renames_to :: "iface_patch \<Rightarrow> iface_row \<Rightarrow> string option" where
  "renames_to d r = (case ifp_name d of Some (Some n) \<Rightarrow> if n \<noteq> [] \<and> n \<noteq> ir_name r then Some n else None | _ \<Rightarrow> None)"

definition update_interface :: "token option \<Rightarrow> nat \<Rightarrow> iface_patch \<Rightarrow> 'w gw_state \<Rightarrow> (nat + nat \<times> iface_row) \<times> 'w gw_state" where
  "update_interface tok k d st =
     (case require_admin tok of
        Inl c \<Rightarrow> (Inl c, st)
      | Inr u \<Rightarrow>
          (if \<not> valid_iface_patch d then (Inl 422, st)
           else (case row_get (fd_ifaces (gs_db st)) k of
               None \<Rightarrow> (Inl 404, st)
             | Some r \<Rightarrow>
                 (case instance_for_user (gs_db st) (if_instance r) u of
                    Some c \<Rightarrow> (Inl c, st)
                  | None \<Rightarrow>
                      (if (case renames_to d r of None \<Rightarrow> False | Some n \<Rightarrow> iface_named (gs_db st) (if_instance r) n) then (Inl 409, st)
                       else (case patch_iface d r of
                           None \<Rightarrow> (Inl 500, st)
                         | Some row \<Rightarrow>
                             (let st1 = audit_iface u ''update'' k (if_instance r) (Some (patch_json d))
                                          (set_db (\<lambda>db. db\<lparr>fd_ifaces := row_set k row (fd_ifaces db)\<rparr>) st) in
                              (if iface_response_ok row then Inr (k, row) else Inl 500, st1))))))))"

definition delete_interface :: "token option \<Rightarrow> nat \<Rightarrow> 'w gw_state \<Rightarrow> (nat + nat) \<times> 'w gw_state" where
  "delete_interface tok k st =
     (case require_admin tok of
        Inl c \<Rightarrow> (Inl c, st)
      | Inr u \<Rightarrow>
          (case row_get (fd_ifaces (gs_db st)) k of
             None \<Rightarrow> (Inl 404, st)
           | Some r \<Rightarrow>
               (case instance_for_user (gs_db st) (if_instance r) u of
                  Some c \<Rightarrow> (Inl c, st)
                | None \<Rightarrow> (Inr k, audit_iface u ''delete'' k (if_instance r) None
                    (set_db (\<lambda>db. db\<lparr>fd_ifaces := row_del k (fd_ifaces db)\<rparr>) st)))))"

section \<open>The node agent\<close>

definition unreachable_or_bad :: "agent_error \<Rightarrow> nat" where
  "unreachable_or_bad e = (case e of Connection_Error m \<Rightarrow> 503 | _ \<Rightarrow> 502)"

definition live_interfaces :: "(json \<Rightarrow> bool) \<Rightarrow> 'w sender \<Rightarrow> token option \<Rightarrow> nat \<Rightarrow> 'w gw_state \<Rightarrow> (nat + json) \<times> 'w gw_state" where
  "live_interfaces valid send tok i st =
     (case require_auth tok of
        Inl c \<Rightarrow> (Inl c, st)
      | Inr u \<Rightarrow>
          (case instance_for_user (gs_db st) i u of
             Some c \<Rightarrow> (Inl c, st)
           | None \<Rightarrow>
               (case ask send i ''GET'' ''/interfaces'' J_Null (Some ''node'') st of
                  (Inl e, st1) \<Rightarrow> (Inl (unreachable_or_bad e), st1)
                | (Inr r, st1) \<Rightarrow> (if valid r then Inr r else Inl 500, st1))))"

definition audit_node :: "nat \<Rightarrow> string \<Rightarrow> string \<Rightarrow> bool \<Rightarrow> string \<Rightarrow> nat \<Rightarrow> 'w gw_state \<Rightarrow> 'w gw_state" where
  "audit_node i action path ok detail u = audit_dispatch i ''network_interface'' action path ok detail (Some u)"

definition unreachable_detail :: "agent_error \<Rightarrow> string" where
  "unreachable_detail e = (case e of Connection_Error m \<Rightarrow> ''node agent unreachable: '' @ m | _ \<Rightarrow> agent_error_text e)"

definition refresh_interfaces :: "'w sender \<Rightarrow> token option \<Rightarrow> nat \<Rightarrow> 'w gw_state \<Rightarrow> (nat + (nat \<times> nat) \<times> string list) \<times> 'w gw_state" where
  "refresh_interfaces send tok i st =
     (case require_admin tok of
        Inl c \<Rightarrow> (Inl c, st)
      | Inr u \<Rightarrow>
          (case instance_for_user (gs_db st) i u of
             Some c \<Rightarrow> (Inl c, st)
           | None \<Rightarrow>
               (case ask send i ''GET'' ''/interfaces'' J_Null (Some ''node'') st of
                  (Inl e, st1) \<Rightarrow> (Inl (unreachable_or_bad e), audit_node i ''refresh'' ''/interfaces'' False (unreachable_detail e) u st1)
                | (Inr r, st1) \<Rightarrow>
                    (case parse_live_rows r of
                       Inl e \<Rightarrow> (Inl 502, audit_node i ''refresh'' ''/interfaces'' False (''malformed agent response: '' @ e) u st1)
                     | Inr rows \<Rightarrow>
                         (let ((c, n), t') = upsert_live_interfaces i rows (fd_ifaces (gs_db st1)) in
                          (Inr ((c, n), map lv_name rows),
                           audit_node i ''refresh'' ''/interfaces'' True (string_of_nat c @ '' created, '' @ string_of_nat n @ '' updated'') u
                             (set_db (\<lambda>db. db\<lparr>fd_ifaces := t'\<rparr>) st1)))))))"

text \<open>The request schema has the one field \<open>force\<close>, so the guarded read of \<open>try_mode\<close> gives false.\<close>

definition apply_entry :: "nat \<times> iface_row \<Rightarrow> json" where
  "apply_entry e = (let (k, i) = e in J_Obj
     [(''name'', J_Str (ir_name i)), (''config_type'', opt_str (ir_config_type i)), (''ip_address'', opt_str (ir_ip i)),
      (''netmask'', opt_str (ir_netmask i)), (''gateway'', opt_str (ir_gateway i)), (''mtu'', opt_int (ir_mtu i)),
      (''enabled'', J_Bool (ir_enabled i = Some True)), (''ipv6_address'', opt_str (ir_ip6 i)), (''ipv6_gateway'', opt_str (ir_gateway6 i)),
      (''dns_servers'', J_List (map J_Str (case ir_dns i of None \<Rightarrow> [] | Some ds \<Rightarrow> ds))),
      (''routes'', J_List (map route_json (case ir_routes i of None \<Rightarrow> [] | Some rs \<Rightarrow> rs)))])"

definition apply_body :: "fw_db \<Rightarrow> nat \<Rightarrow> bool \<Rightarrow> json" where
  "apply_body db i force = J_Obj
     [(''interfaces'', J_List (map apply_entry (rows_where (\<lambda>r. if_instance r = i) (fd_ifaces db)))),
      (''force'', J_Bool force), (''try_mode'', J_Bool False)]"

definition apply_status :: "agent_error \<Rightarrow> nat" where
  "apply_status e =
     (case e of
        Connection_Error m \<Rightarrow> 503
      | Response_Error code body \<Rightarrow> (if code = 400 then 400 else if code = 409 then 409 else 502)
      | Client_Error m \<Rightarrow> 502)"

text \<open>\<open>bool\<close> of the answer's \<open>success\<close>.\<close>

definition truthy_json :: "json option \<Rightarrow> bool" where
  "truthy_json v = (case v of None \<Rightarrow> False | Some J_Null \<Rightarrow> False | Some (J_Bool b) \<Rightarrow> b | Some (J_Int n) \<Rightarrow> n \<noteq> 0
     | Some (J_Str s) \<Rightarrow> s \<noteq> [] | Some (J_List xs) \<Rightarrow> xs \<noteq> [] | Some (J_Obj kvs) \<Rightarrow> kvs \<noteq> [])"

definition apply_interfaces_gw :: "'w sender \<Rightarrow> token option \<Rightarrow> nat \<Rightarrow> bool \<Rightarrow> 'w gw_state \<Rightarrow> (nat + json) \<times> 'w gw_state" where
  "apply_interfaces_gw send tok i force st =
     (case require_admin tok of
        Inl c \<Rightarrow> (Inl c, st)
      | Inr u \<Rightarrow>
          (case instance_for_user (gs_db st) i u of
             Some c \<Rightarrow> (Inl c, st)
           | None \<Rightarrow>
               (case ask send i ''POST'' ''/interfaces/apply'' (apply_body (gs_db st) i force) (Some ''node'') st of
                  (Inl e, st1) \<Rightarrow> (Inl (apply_status e), audit_node i ''apply'' ''/interfaces/apply'' False (unreachable_detail e) u st1)
                | (Inr r, st1) \<Rightarrow>
                    (if \<not> is_obj r then (Inl 500, st1)
                     else (Inr r, audit_node i ''apply'' ''/interfaces/apply'' (truthy_json (key_of r ''success''))
                       (or_empty (str_key r ''message'')) u st1)))))"

end
