(* ===== verification/Gw_Routing.thy ===== *)
theory Gw_Routing
  imports Gw_Tasks
begin

text \<open>
  \<open>routers/routing.py\<close>: the second way to the routing rules of an instance, next to the two endpoints of
  the firewall router.

  The apply endpoint opens its session from a name the module imported when it was loaded. The parameter
  \<open>bound\<close> says whether that name was already bound to a session factory then; \<open>shared/database.py\<close> binds
  its own name later, at the first use of the database.
\<close>

section \<open>Handlers\<close>

definition get_routing_rules :: "token option \<Rightarrow> nat \<Rightarrow> fw_db \<Rightarrow> nat + (nat \<times> routing_row) list" where
  "get_routing_rules tok i db = (case require_auth tok of Inl c \<Rightarrow> Inl c | Inr u \<Rightarrow> listed_routing i db)"

text \<open>The order index of a new rule: as given, unless it is absent or 0.\<close>

definition next_order :: "fw_db \<Rightarrow> nat \<Rightarrow> int option \<Rightarrow> int" where
  "next_order db i given =
     (case given of
        Some n \<Rightarrow> if n \<noteq> 0 then n else int (length (rows_where (\<lambda>r. rr_instance r = i) (fd_routes db))) * 10
      | None \<Rightarrow> int (length (rows_where (\<lambda>r. rr_instance r = i) (fd_routes db))) * 10)"

text \<open>The reply to a change: the task is queued only when the response is built.\<close>

definition routing_reply :: "nat \<Rightarrow> routing_row \<Rightarrow> 'w gw_state \<Rightarrow> (nat + nat \<times> routing_row) \<times> 'w gw_state" where
  "routing_reply k r st =
     (if routing_response_ok r then (Inr (k, r), enqueue (Reload_Firewall (rr_instance r)) st) else (Inl 500, st))"

definition create_routing_rule2 :: "token option \<Rightarrow> nat \<Rightarrow> routing_create \<Rightarrow> 'w gw_state \<Rightarrow>
    (nat + nat \<times> routing_row) \<times> 'w gw_state" where
  "create_routing_rule2 tok i d st =
     (case require_admin tok of
        Inl c \<Rightarrow> (Inl c, st)
      | Inr u \<Rightarrow>
          (if \<not> name_ok 100 (ro_name d) then (Inl 422, st)
           else if row_get (fd_instances (gs_db st)) i = None then (Inl 500, st)
           else (let row = routing_row_of i d (next_order (gs_db st) i (ro_order_index d));
                     (k, routes') = row_add row (fd_routes (gs_db st)) in
                 routing_reply k row (audit (Some u) ''create'' ''routing_rule'' k i
                   (set_db (\<lambda>db. db\<lparr>fd_routes := routes'\<rparr>) st)))))"

definition get_routing_rule :: "token option \<Rightarrow> nat \<Rightarrow> fw_db \<Rightarrow> nat + routing_row" where
  "get_routing_rule tok k db =
     (case require_auth tok of
        Inl c \<Rightarrow> Inl c
      | Inr u \<Rightarrow>
          (case row_get (fd_routes db) k of
             None \<Rightarrow> Inl 404
           | Some r \<Rightarrow> if routing_response_ok r then Inr r else Inl 500))"

record routing_patch =
  rtp_name :: "string option option"
  rtp_enabled :: "bool option option"
  rtp_source :: "string option option"
  rtp_dest :: "string option option"
  rtp_service :: "string option option"
  rtp_inbound :: "string option option"
  rtp_gateway :: "string option option"
  rtp_outbound :: "string option option"
  rtp_mark :: "int option option"
  rtp_order :: "int option option"

text \<open>\<open>None\<close>: a null name violates the column's constraint.\<close>

definition patch_routing :: "routing_patch \<Rightarrow> routing_row \<Rightarrow> routing_row option" where
  "patch_routing d r =
     (case kept (rtp_name d) (rr_name r) of
        None \<Rightarrow> None
      | Some n \<Rightarrow> Some (r\<lparr>rr_name := n, rr_enabled := patched (rtp_enabled d) (rr_enabled r),
          rr_source := patched (rtp_source d) (rr_source r), rr_dest := patched (rtp_dest d) (rr_dest r),
          rr_service := patched (rtp_service d) (rr_service r), rr_inbound := patched (rtp_inbound d) (rr_inbound r),
          rr_gateway := patched (rtp_gateway d) (rr_gateway r), rr_outbound := patched (rtp_outbound d) (rr_outbound r),
          rr_mark := patched (rtp_mark d) (rr_mark r), rr_order := patched (rtp_order d) (rr_order r)\<rparr>))"

definition update_routing_rule :: "token option \<Rightarrow> nat \<Rightarrow> routing_patch \<Rightarrow> 'w gw_state \<Rightarrow>
    (nat + nat \<times> routing_row) \<times> 'w gw_state" where
  "update_routing_rule tok k d st =
     (case require_admin tok of
        Inl c \<Rightarrow> (Inl c, st)
      | Inr u \<Rightarrow>
          (case row_get (fd_routes (gs_db st)) k of
             None \<Rightarrow> (Inl 404, st)
           | Some r \<Rightarrow>
               (case patch_routing d r of
                  None \<Rightarrow> (Inl 500, st)
                | Some row \<Rightarrow> routing_reply k row (audit (Some u) ''update'' ''routing_rule'' k (rr_instance r)
                    (set_db (\<lambda>db. db\<lparr>fd_routes := row_set k row (fd_routes db)\<rparr>) st)))))"

definition delete_routing_rule :: "token option \<Rightarrow> nat \<Rightarrow> 'w gw_state \<Rightarrow> (nat + nat) \<times> 'w gw_state" where
  "delete_routing_rule tok k st =
     (case require_admin tok of
        Inl c \<Rightarrow> (Inl c, st)
      | Inr u \<Rightarrow>
          (case row_get (fd_routes (gs_db st)) k of
             None \<Rightarrow> (Inl 404, st)
           | Some r \<Rightarrow> (Inr k, enqueue (Reload_Firewall (rr_instance r))
               (audit (Some u) ''delete'' ''routing_rule'' k (rr_instance r)
                 (set_db (\<lambda>db. db\<lparr>fd_routes := row_del k (fd_routes db)\<rparr>) st)))))"

definition apply_routing_rules :: "bool \<Rightarrow> 'w sender \<Rightarrow> token option \<Rightarrow> nat \<Rightarrow> 'w gw_state \<Rightarrow> (nat + nat) \<times> 'w gw_state" where
  "apply_routing_rules bound send tok i st =
     (case require_admin tok of
        Inl c \<Rightarrow> (Inl c, st)
      | Inr u \<Rightarrow>
          (if \<not> bound then (Inl 500, st)
           else (case apply_firewall_config send i (Some u) st of
               (Inl e, st1) \<Rightarrow> (Inl 502, st1)
             | (Inr r, st1) \<Rightarrow> (Inr i, st1))))"

end
