(* ===== verification/Wg_Client.thy ===== *)
theory Wg_Client
  imports Nft_Rule Fw_Deploy Gw_Base
begin

text \<open>
  \<open>viswall_vpn_agent/wg_client.py\<close>: the validators of every value that lands in the WireGuard client
  configuration, its rendering, and the manager that writes the file and restarts the unit.

  The host is the configuration file, its backup copy and the unit; what \<open>systemctl\<close> and the file system
  answer are fields of an environment record. The live status (\<open>wg show\<close>) is in \<open>Wg_Status\<close>.
\<close>

section \<open>Validators\<close>

definition wg_forbidden :: "string \<Rightarrow> bool" where
  "wg_forbidden s \<longleftrightarrow> list_ex (\<lambda>c. c = newline \<or> c = carriage \<or> c = CHR ''='') s"

definition key_char :: "char \<Rightarrow> bool" where
  "key_char c \<longleftrightarrow> is_alnum c \<or> c = CHR ''+'' \<or> c = CHR ''/''"

definition wg_key_match :: "string \<Rightarrow> bool" where
  "wg_key_match s \<longleftrightarrow> length s = 44 \<and> list_all key_char (take 43 s) \<and> s ! 43 = CHR ''=''"

definition valid_wg_key :: "string option \<Rightarrow> bool" where
  "valid_wg_key v = (case v of None \<Rightarrow> True | Some s \<Rightarrow> wg_key_match s)"

definition valid_local_address :: "string \<Rightarrow> bool" where
  "valid_local_address s \<longleftrightarrow> \<not> wg_forbidden s \<and> ip_interface s \<noteq> None"

text \<open>The tokens are stripped before they are checked; the value itself is kept.\<close>

definition cidr_tokens :: "string \<Rightarrow> string list" where
  "cidr_tokens s = filter (\<lambda>t. t \<noteq> []) (map strip (split_on CHR '','' s))"

definition valid_allowed_ips :: "string \<Rightarrow> bool" where
  "valid_allowed_ips s \<longleftrightarrow> cidr_tokens s \<noteq> [] \<and> list_all (\<lambda>t. \<not> wg_forbidden t \<and> ip_network False t \<noteq> None) (cidr_tokens s)"

text \<open>The port part of an endpoint: \<open>None\<close> when the endpoint has neither of the two forms.\<close>

definition host_char :: "char \<Rightarrow> bool" where
  "host_char c \<longleftrightarrow> is_alnum c \<or> c = CHR ''.'' \<or> c = CHR ''-''"

definition literal_char :: "char \<Rightarrow> bool" where
  "literal_char c \<longleftrightarrow> is_hexdigit c \<or> c = CHR '':'' \<or> c = CHR ''.''"

definition bracket_endpoint :: "string \<Rightarrow> string option option" where
  "bracket_endpoint s =
     (if CHR '']'' \<notin> set s then None
      else (case partition_at CHR '']'' (tl s) of (a, rest) \<Rightarrow>
        if a = [] \<or> \<not> list_all literal_char a then None
        else if rest = [] then Some None
        else if hd rest = CHR '':'' \<and> tl rest \<noteq> [] \<and> list_all is_digit (tl rest) then Some (Some (tl rest))
        else None))"

definition endpoint_port :: "string \<Rightarrow> string option option" where
  "endpoint_port s =
     (if startswith s ''['' then bracket_endpoint s
      else (case split_on CHR '':'' s of
          [h] \<Rightarrow> if h \<noteq> [] \<and> list_all host_char h then Some None else None
        | [h, p] \<Rightarrow> if h \<noteq> [] \<and> list_all host_char h then Some (Some p) else None
        | _ \<Rightarrow> None))"

definition port_in_bounds :: "string option \<Rightarrow> bool" where
  "port_in_bounds p = (case p of None \<Rightarrow> True | Some t \<Rightarrow> (case py_int t of None \<Rightarrow> False | Some n \<Rightarrow> 1 \<le> n \<and> n \<le> 65535))"

definition endpoint_form :: "string \<Rightarrow> bool" where
  "endpoint_form s = (case endpoint_port s of None \<Rightarrow> False | Some p \<Rightarrow> port_in_bounds p)"

definition valid_endpoint :: "string \<Rightarrow> bool" where
  "valid_endpoint s \<longleftrightarrow> \<not> wg_forbidden s \<and> endpoint_form s"

section \<open>The configuration file\<close>

record wg_config =
  wm_address :: string
  wm_endpoint :: string
  wm_peer_key :: string
  wm_allowed :: string
  wm_private_key :: "string option"
  wm_dns :: "string option"
  wm_keepalive :: int

definition valid_wg_config :: "wg_config \<Rightarrow> bool" where
  "valid_wg_config m \<longleftrightarrow> valid_local_address (wm_address m) \<and> valid_endpoint (wm_endpoint m) \<and> wg_key_match (wm_peer_key m)
     \<and> valid_wg_key (wm_private_key m) \<and> valid_allowed_ips (wm_allowed m) \<and> 0 \<le> wm_keepalive m \<and> wm_keepalive m \<le> 65535"

definition wg_lines :: "wg_config \<Rightarrow> string list" where
  "wg_lines m =
     [''[Interface]'',
      (if truthy_str (wm_private_key m) then ''PrivateKey = '' @ or_empty (wm_private_key m)
       else ''#PrivateKey = (not provided - supply on next apply)''),
      ''Address = '' @ wm_address m @ ''  # Must match AllowedIPs on the server'']
     @ (if truthy_str (wm_dns m) then [''DNS = '' @ or_empty (wm_dns m) @ ''  # Optional: Set DNS servers''] else [])
     @ [[], ''[Peer]'', ''PublicKey = '' @ wm_peer_key m, ''Endpoint = '' @ wm_endpoint m,
        ''AllowedIPs = '' @ wm_allowed m @ ''  # Route all traffic through VPN (or use 10.0.0.0/24 for VPN-only)'',
        ''PersistentKeepalive = '' @ string_of_int (wm_keepalive m)]"

definition render_wg_config :: "wg_config \<Rightarrow> string option" where
  "render_wg_config m = (if valid_wg_config m then Some (join nl (wg_lines m) @ nl) else None)"

section \<open>The manager\<close>

text \<open>How a \<open>systemctl\<close> call ends: an exit code with its error text, or an exception (no such tool, time-out).\<close>

datatype ctl_outcome = Ctl_Exit int string | Ctl_Raised

datatype unit_state = Unit_Down | Unit_Failed | Unit_Unknown | Unit_Running "string option"

record wg_host =
  wh_conf :: "string option"
  wh_backup :: "string option"
  wh_enabled :: bool
  wh_unit :: unit_state

text \<open>The restart may depend on the configuration and on whether it is the second of a call.\<close>

record wg_env =
  we_backup_ok :: bool
  we_write_ok :: bool
  we_restore_ok :: bool
  we_restart :: "bool \<Rightarrow> string option \<Rightarrow> ctl_outcome"
  we_start :: "string option \<Rightarrow> ctl_outcome"
  we_stop :: ctl_outcome
  we_enable :: ctl_outcome
  we_disable :: ctl_outcome

datatype wg_error = Wg_Invalid | Wg_Os | Wg_Raised | Wg_Apply int string | Wg_Unit string int string

definition write_config :: "wg_env \<Rightarrow> wg_config \<Rightarrow> wg_host \<Rightarrow> wg_error option \<times> wg_host" where
  "write_config env m h =
     (if wh_conf h \<noteq> None \<and> \<not> we_backup_ok env then (Some Wg_Os, h)
      else (let h1 = (if wh_conf h = None then h else h\<lparr>wh_backup := wh_conf h\<rparr>) in
            case render_wg_config m of
              None \<Rightarrow> (Some Wg_Invalid, h1)
            | Some text \<Rightarrow> if we_write_ok env then (None, h1\<lparr>wh_conf := Some text\<rparr>) else (Some Wg_Os, h1)))"

definition restore_backup :: "wg_env \<Rightarrow> wg_host \<Rightarrow> wg_error option \<times> wg_host" where
  "restore_backup env h =
     (case wh_backup h of
        None \<Rightarrow> (None, h)
      | Some old \<Rightarrow> if we_restore_ok env then (None, h\<lparr>wh_conf := Some old\<rparr>) else (Some Wg_Os, h))"

definition restarted :: "wg_env \<Rightarrow> bool \<Rightarrow> wg_host \<Rightarrow> wg_host" where
  "restarted env again h = h\<lparr>wh_unit := (case we_restart env again (wh_conf h) of
       Ctl_Raised \<Rightarrow> Unit_Unknown
     | Ctl_Exit code err \<Rightarrow> if code = 0 then Unit_Running (wh_conf h) else Unit_Failed)\<rparr>"

definition wg_apply :: "wg_env \<Rightarrow> wg_config \<Rightarrow> wg_host \<Rightarrow> wg_error option \<times> wg_host" where
  "wg_apply env m h =
     (case write_config env m h of
        (Some e, h1) \<Rightarrow> (Some e, h1)
      | (None, h1) \<Rightarrow>
          (case we_restart env False (wh_conf h1) of
             Ctl_Raised \<Rightarrow> (Some Wg_Raised, restarted env False h1)
           | Ctl_Exit code err \<Rightarrow>
               (if code = 0 then (None, restarted env False h1)
                else (case restore_backup env (restarted env False h1) of
                    (Some e, h2) \<Rightarrow> (Some e, h2)
                  | (None, h2) \<Rightarrow>
                      (case we_restart env True (wh_conf h2) of
                         Ctl_Raised \<Rightarrow> (Some Wg_Raised, restarted env True h2)
                       | Ctl_Exit c2 e2 \<Rightarrow> (Some (Wg_Apply code err), restarted env True h2))))))"

text \<open>Start and stop: the exit code of \<open>enable\<close> and \<open>disable\<close> is ignored.\<close>

definition wg_start :: "wg_env \<Rightarrow> wg_host \<Rightarrow> wg_error option \<times> wg_host" where
  "wg_start env h =
     (case we_enable env of
        Ctl_Raised \<Rightarrow> (Some Wg_Raised, h)
      | Ctl_Exit c e \<Rightarrow>
          (let h1 = (if c = 0 then h\<lparr>wh_enabled := True\<rparr> else h) in
           case we_start env (wh_conf h) of
             Ctl_Raised \<Rightarrow> (Some Wg_Raised, h1\<lparr>wh_unit := Unit_Unknown\<rparr>)
           | Ctl_Exit code err \<Rightarrow>
               (if code = 0 then (None, (case wh_unit h1 of Unit_Running c \<Rightarrow> h1 | _ \<Rightarrow> h1\<lparr>wh_unit := Unit_Running (wh_conf h1)\<rparr>))
                else (Some (Wg_Unit ''start'' code err), h1\<lparr>wh_unit := Unit_Failed\<rparr>))))"

definition wg_stop :: "wg_env \<Rightarrow> wg_host \<Rightarrow> wg_error option \<times> wg_host" where
  "wg_stop env h =
     (case we_disable env of
        Ctl_Raised \<Rightarrow> (Some Wg_Raised, h)
      | Ctl_Exit c e \<Rightarrow>
          (let h1 = (if c = 0 then h\<lparr>wh_enabled := False\<rparr> else h) in
           case we_stop env of
             Ctl_Raised \<Rightarrow> (Some Wg_Raised, h1\<lparr>wh_unit := Unit_Unknown\<rparr>)
           | Ctl_Exit code err \<Rightarrow>
               (if code = 0 then (None, h1\<lparr>wh_unit := Unit_Down\<rparr>) else (Some (Wg_Unit ''stop'' code err), h1))))"

text \<open>
  \<open>viswall_vpn_agent/api.py\<close>: the endpoints of the VPN agent over its manager. A request that fails its
  schema is a 422; the key check in front of every endpoint is the function of the firewall agent.
\<close>

section \<open>Requests\<close>

record vpn_apply_request =
  va_protocol :: string
  va_name :: string
  va_address :: string
  va_private_key :: "string option"
  va_endpoint :: string
  va_peer_key :: string
  va_allowed :: string
  va_keepalive :: int

definition valid_vpn_apply :: "vpn_apply_request \<Rightarrow> bool" where
  "valid_vpn_apply r \<longleftrightarrow> valid_local_address (va_address r) \<and> valid_endpoint (va_endpoint r) \<and> valid_allowed_ips (va_allowed r)
     \<and> wg_key_match (va_peer_key r) \<and> valid_wg_key (va_private_key r) \<and> 0 \<le> va_keepalive r \<and> va_keepalive r \<le> 65535"

definition config_of_request :: "vpn_apply_request \<Rightarrow> wg_config" where
  "config_of_request r = \<lparr>wm_address = va_address r, wm_endpoint = va_endpoint r, wm_peer_key = va_peer_key r, wm_allowed = va_allowed r,
     wm_private_key = va_private_key r, wm_dns = None, wm_keepalive = va_keepalive r\<rparr>"

section \<open>Endpoints\<close>

definition vpn_apply :: "wg_env \<Rightarrow> vpn_apply_request \<Rightarrow> wg_host \<Rightarrow> nat \<times> wg_host" where
  "vpn_apply env r h =
     (if \<not> valid_vpn_apply r then (422, h)
      else if va_protocol r \<noteq> ''wireguard'' then (400, h)
      else (case wg_apply env (config_of_request r) h of
          (None, h1) \<Rightarrow> (200, h1)
        | (Some e, h1) \<Rightarrow> (500, h1)))"

definition vpn_start :: "wg_env \<Rightarrow> string \<Rightarrow> wg_host \<Rightarrow> nat \<times> wg_host" where
  "vpn_start env protocol h =
     (if protocol \<noteq> ''wireguard'' then (400, h)
      else (case wg_start env h of (None, h1) \<Rightarrow> (200, h1) | (Some e, h1) \<Rightarrow> (500, h1)))"

definition vpn_stop :: "wg_env \<Rightarrow> string \<Rightarrow> wg_host \<Rightarrow> nat \<times> wg_host" where
  "vpn_stop env protocol h =
     (if protocol \<noteq> ''wireguard'' then (400, h)
      else (case wg_stop env h of (None, h1) \<Rightarrow> (200, h1) | (Some e, h1) \<Rightarrow> (500, h1)))"

text \<open>Key generation: what \<open>wg genkey\<close> and \<open>wg pubkey\<close> print, or \<open>None\<close> when a tool fails.\<close>

definition generate_keys :: "string option \<Rightarrow> (string \<Rightarrow> string option) \<Rightarrow> (string \<times> string) option" where
  "generate_keys gen pub =
     (case map_option strip gen of
        None \<Rightarrow> None
      | Some private \<Rightarrow>
          (case map_option strip (pub private) of
             None \<Rightarrow> None
           | Some public \<Rightarrow> if wg_key_match private \<and> wg_key_match public then Some (private, public) else None))"

definition vpn_generate_keys :: "string option \<Rightarrow> (string \<Rightarrow> string option) \<Rightarrow> nat \<times> (string \<times> string) option" where
  "vpn_generate_keys gen pub = (case generate_keys gen pub of None \<Rightarrow> (500, None) | Some ks \<Rightarrow> (200, Some ks))"

section \<open>Reading a body\<close>

text \<open>The request as the schema reads it: required texts, an optional key, and a keepalive of 25 by default.\<close>

definition read_vpn_apply :: "json \<Rightarrow> vpn_apply_request option" where
  "read_vpn_apply b =
     (case (str_key b ''protocol'', str_key b ''name'', str_key b ''address'', str_key b ''endpoint'', str_key b ''peer_public_key'',
            str_key b ''allowed_ips'') of
        (Some p, Some n, Some a, Some e, Some k, Some ips) \<Rightarrow>
          (case (key_of b ''private_key'', key_of b ''persistent_keepalive'') of
             (pk, ka) \<Rightarrow>
               (if pk \<notin> {None, Some J_Null} \<and> str_key b ''private_key'' = None then None
                else if ka \<noteq> None \<and> int_key b ''persistent_keepalive'' = None then None
                else Some \<lparr>va_protocol = p, va_name = n, va_address = a, va_private_key = str_key b ''private_key'', va_endpoint = e,
                       va_peer_key = k, va_allowed = ips,
                       va_keepalive = (case int_key b ''persistent_keepalive'' of None \<Rightarrow> 25 | Some x \<Rightarrow> x)\<rparr>))
      | _ \<Rightarrow> None)"

end
