(* ===== verification/Gw_Vpn.thy ===== *)
theory Gw_Vpn
  imports Gw_Tasks Wg_Client
begin

text \<open>
  \<open>routers/vpn.py\<close>, first part: the rows of the VPN tables, the request and response schemas, and the
  server endpoints. The state is the gateway state with the four VPN tables. The columns a response needs
  are checked as the response schema does; a failed check is a 500 after the change was stored.
\<close>

section \<open>Rows\<close>

record vpn_server =
  vs_instance :: nat
  vs_name :: string
  vs_description :: "string option"
  vs_enabled :: "bool option"
  vs_protocol :: string
  vs_listen_address :: "string option"
  vs_listen_port :: "int option"
  vs_network :: "string option"
  vs_dns :: "string list option"
  vs_push_routes :: "string list option"
  vs_redirect :: "bool option"
  vs_tunnel :: "string option"
  vs_endpoint :: "string option"
  vs_peer_key :: "string option"
  vs_allowed :: "string option"
  vs_keepalive :: "int option"
  vs_local :: "string option"
  vs_private_key :: "string option"
  vs_config :: "(string \<times> json) list option"
  vs_status :: "string option"
  vs_connected :: "int option"
  vs_received :: "int option"
  vs_sent :: "int option"

record vpn_client =
  vc_server :: nat
  vc_name :: string
  vc_description :: "string option"
  vc_enabled :: "bool option"
  vc_type :: "string option"
  vc_auth :: "string option"
  vc_public_key :: "string option"
  vc_assigned_ip :: "string option"
  vc_allowed :: "string list option"
  vc_push_routes :: "string list option"
  vc_user :: "nat option"
  vc_config_file :: "string option"

record vpn_conn =
  vx_server :: nat
  vx_client :: nat
  vx_protocol :: "string option"
  vx_client_ip :: "string option"
  vx_virtual_ip :: "string option"
  vx_connected_at :: nat
  vx_received :: "int option"
  vx_sent :: "int option"
  vx_status :: "string option"
  vx_reason :: "string option"

record vpn_route =
  vr_server :: nat
  vr_destination :: string
  vr_gateway :: "string option"
  vr_metric :: int
  vr_all :: bool
  vr_clients :: "int list"
  vr_description :: "string option"
  vr_order :: int

record 'w vpn_state =
  vn_gw :: "'w gw_state"
  vn_servers :: "vpn_server table"
  vn_clients :: "vpn_client table"
  vn_conns :: "vpn_conn table"
  vn_routes :: "vpn_route table"

definition on_gw :: "('w gw_state \<Rightarrow> 'w gw_state) \<Rightarrow> 'w vpn_state \<Rightarrow> 'w vpn_state" where
  "on_gw f st = st\<lparr>vn_gw := f (vn_gw st)\<rparr>"

definition vpn_ask :: "'w sender \<Rightarrow> nat \<Rightarrow> string \<Rightarrow> string \<Rightarrow> json \<Rightarrow> 'w vpn_state \<Rightarrow> (agent_error + json) \<times> 'w vpn_state" where
  "vpn_ask send i meth path body st =
     (case ask send i meth path body (Some ''vpn'') (vn_gw st) of (r, g) \<Rightarrow> (r, st\<lparr>vn_gw := g\<rparr>))"

definition audit_vpn :: "nat \<Rightarrow> string \<Rightarrow> string \<Rightarrow> bool \<Rightarrow> string \<Rightarrow> nat \<Rightarrow> 'w vpn_state \<Rightarrow> 'w vpn_state" where
  "audit_vpn i action path ok detail u = on_gw (audit_dispatch i ''vpn_agent'' action path ok detail (Some u))"

section \<open>Schemas\<close>

datatype vpn_protocol = Wireguard | Ipsec | Openvpn | Pptp | L2tp

definition vpn_protocol_text :: "vpn_protocol \<Rightarrow> string" where
  "vpn_protocol_text p = (case p of Wireguard \<Rightarrow> ''wireguard'' | Ipsec \<Rightarrow> ''ipsec'' | Openvpn \<Rightarrow> ''openvpn'' | Pptp \<Rightarrow> ''pptp'' | L2tp \<Rightarrow> ''l2tp'')"

definition protocol_texts :: "string list" where
  "protocol_texts = [''wireguard'', ''ipsec'', ''openvpn'', ''pptp'', ''l2tp'']"

definition status_texts :: "string list" where
  "status_texts = [''running'', ''stopped'', ''error'', ''restarting'']"

text \<open>The validators of the WireGuard values in \<open>shared/schemas.py\<close>; an absent value passes.\<close>

definition schema_wg_key :: "string option \<Rightarrow> bool" where
  "schema_wg_key v = (case v of None \<Rightarrow> True | Some s \<Rightarrow> wg_key_match s)"

definition schema_cidr_list :: "string option \<Rightarrow> bool" where
  "schema_cidr_list v = (case v of None \<Rightarrow> True | Some s \<Rightarrow>
     (let ts = filter (\<lambda>t. t \<noteq> []) (map strip (split_on CHR '','' s)) in
      ts \<noteq> [] \<and> list_all (\<lambda>t. \<not> wg_forbidden t \<and> ip_network False t \<noteq> None) ts))"

definition schema_local_address :: "string option \<Rightarrow> bool" where
  "schema_local_address v = (case v of None \<Rightarrow> True | Some s \<Rightarrow> \<not> wg_forbidden s \<and> ip_interface s \<noteq> None)"

definition schema_endpoint :: "string option \<Rightarrow> bool" where
  "schema_endpoint v = (case v of None \<Rightarrow> True | Some s \<Rightarrow> \<not> wg_forbidden s \<and> strip s \<noteq> [] \<and> endpoint_form (strip s))"

definition keepalive_ok :: "int option \<Rightarrow> bool" where
  "keepalive_ok v = (case v of None \<Rightarrow> True | Some n \<Rightarrow> 0 \<le> n \<and> n \<le> 65535)"

definition tunnel_ok :: "string option \<Rightarrow> bool" where
  "tunnel_ok v \<longleftrightarrow> v \<in> {None, Some ''server'', Some ''client'', Some ''site-to-site''}"

record wireguard_config =
  wgc_private_key :: "string option"
  wgc_public_key :: "string option"
  wgc_listen_port :: int
  wgc_network :: string
  wgc_ipv6_network :: "string option"
  wgc_ipv6_nat :: bool
  wgc_post_up :: "string option"
  wgc_post_down :: "string option"
  wgc_mtu :: int

definition dump_wireguard :: "wireguard_config \<Rightarrow> (string \<times> json) list" where
  "dump_wireguard c = [(''private_key'', opt_str (wgc_private_key c)), (''public_key'', opt_str (wgc_public_key c)),
     (''listen_port'', J_Int (wgc_listen_port c)), (''network_cidr'', J_Str (wgc_network c)),
     (''ipv6_tunnel_network'', opt_str (wgc_ipv6_network c)), (''ipv6_nat_enabled'', J_Bool (wgc_ipv6_nat c)),
     (''post_up'', opt_str (wgc_post_up c)), (''post_down'', opt_str (wgc_post_down c)), (''mtu'', J_Int (wgc_mtu c))]"

text \<open>The other four protocol configurations have no constraints; they are given as they are stored.\<close>

record server_create =
  sc_name :: string
  sc_description :: "string option"
  sc_enabled :: bool
  sc_protocol :: vpn_protocol
  sc_listen_address :: string
  sc_listen_port :: "int option"
  sc_network :: string
  sc_dns :: "string list"
  sc_push_routes :: "string list"
  sc_redirect :: bool
  sc_tunnel :: "string option"
  sc_endpoint :: "string option"
  sc_peer_key :: "string option"
  sc_allowed :: "string option"
  sc_keepalive :: "int option"
  sc_local :: "string option"
  sc_private_key :: "string option"
  sc_wireguard :: "wireguard_config option"
  sc_ipsec :: "(string \<times> json) list option"
  sc_openvpn :: "(string \<times> json) list option"
  sc_l2tp :: "(string \<times> json) list option"
  sc_pptp :: "(string \<times> json) list option"

definition valid_server_create :: "server_create \<Rightarrow> bool" where
  "valid_server_create d \<longleftrightarrow> name_ok 100 (sc_name d) \<and> tunnel_ok (sc_tunnel d) \<and> keepalive_ok (sc_keepalive d)
     \<and> schema_cidr_list (sc_allowed d) \<and> schema_local_address (sc_local d) \<and> schema_endpoint (sc_endpoint d)
     \<and> schema_wg_key (sc_peer_key d) \<and> schema_wg_key (sc_private_key d)
     \<and> (case sc_wireguard d of None \<Rightarrow> True | Some c \<Rightarrow> 1 \<le> wgc_listen_port c \<and> wgc_listen_port c \<le> 65535)"

definition server_response_ok :: "vpn_server \<Rightarrow> bool" where
  "server_response_ok r \<longleftrightarrow> name_ok 100 (vs_name r) \<and> vs_enabled r \<noteq> None \<and> vs_protocol r \<in> set protocol_texts
     \<and> vs_listen_address r \<noteq> None \<and> vs_network r \<noteq> None \<and> vs_dns r \<noteq> None \<and> vs_push_routes r \<noteq> None \<and> vs_redirect r \<noteq> None
     \<and> tunnel_ok (vs_tunnel r) \<and> keepalive_ok (vs_keepalive r) \<and> vs_config r \<noteq> None
     \<and> (case vs_status r of None \<Rightarrow> False | Some s \<Rightarrow> s \<in> set status_texts)
     \<and> vs_connected r \<noteq> None \<and> vs_received r \<noteq> None \<and> vs_sent r \<noteq> None"

text \<open>The two response shapes: without and with the tunnel's private key.\<close>

record server_view =
  sv_id :: nat
  sv_row :: vpn_server
  sv_private_key :: "string option"

definition server_response :: "nat \<Rightarrow> vpn_server \<Rightarrow> nat + server_view" where
  "server_response k r = (if server_response_ok r then Inr \<lparr>sv_id = k, sv_row = r\<lparr>vs_private_key := None\<rparr>, sv_private_key = None\<rparr> else Inl 500)"

definition server_admin_response :: "nat \<Rightarrow> vpn_server \<Rightarrow> nat + server_view" where
  "server_admin_response k r = (if server_response_ok r then Inr \<lparr>sv_id = k, sv_row = r\<lparr>vs_private_key := None\<rparr>, sv_private_key = vs_private_key r\<rparr> else Inl 500)"

section \<open>Server endpoints\<close>

definition servers_of :: "'w vpn_state \<Rightarrow> nat \<Rightarrow> (nat \<times> vpn_server) list" where
  "servers_of st i = rows_where (\<lambda>s. vs_instance s = i) (vn_servers st)"

fun all_right :: "(nat + 'a) list \<Rightarrow> nat + 'a list" where
  "all_right [] = Inr []"
| "all_right (Inl c # xs) = Inl c"
| "all_right (Inr x # xs) = (case all_right xs of Inl c \<Rightarrow> Inl c | Inr ys \<Rightarrow> Inr (x # ys))"

definition list_servers :: "token option \<Rightarrow> nat \<Rightarrow> 'w vpn_state \<Rightarrow> nat + server_view list" where
  "list_servers tok i st =
     (case require_auth tok of Inl c \<Rightarrow> Inl c | Inr u \<Rightarrow> all_right (map (\<lambda>(k, r). server_response k r) (servers_of st i)))"

definition default_port :: "vpn_protocol \<Rightarrow> int" where
  "default_port p = (case p of Wireguard \<Rightarrow> 51820 | Ipsec \<Rightarrow> 500 | Openvpn \<Rightarrow> 1194 | L2tp \<Rightarrow> 1701 | Pptp \<Rightarrow> 1723)"

definition stored_config :: "server_create \<Rightarrow> (string \<times> json) list" where
  "stored_config d =
     (case (case sc_protocol d of Wireguard \<Rightarrow> map_option dump_wireguard (sc_wireguard d) | Ipsec \<Rightarrow> sc_ipsec d
            | Openvpn \<Rightarrow> sc_openvpn d | L2tp \<Rightarrow> sc_l2tp d | Pptp \<Rightarrow> sc_pptp d) of
        None \<Rightarrow> [] | Some c \<Rightarrow> c)"

text \<open>The tunnel fields of the request are not stored; the row gets the defaults of the columns.\<close>

definition new_server :: "nat \<Rightarrow> server_create \<Rightarrow> vpn_server" where
  "new_server i d =
     \<lparr>vs_instance = i, vs_name = sc_name d, vs_description = sc_description d, vs_enabled = Some (sc_enabled d),
      vs_protocol = vpn_protocol_text (sc_protocol d), vs_listen_address = Some (sc_listen_address d),
      vs_listen_port = Some (if truthy_int (sc_listen_port d) then (case sc_listen_port d of Some n \<Rightarrow> n | None \<Rightarrow> 0)
                             else default_port (sc_protocol d)),
      vs_network = Some (sc_network d), vs_dns = Some (sc_dns d), vs_push_routes = Some (sc_push_routes d),
      vs_redirect = Some (sc_redirect d), vs_tunnel = Some ''server'', vs_endpoint = None, vs_peer_key = None, vs_allowed = None,
      vs_keepalive = Some 25, vs_local = None, vs_private_key = None, vs_config = Some (stored_config d), vs_status = Some ''stopped'',
      vs_connected = Some 0, vs_received = Some 0, vs_sent = Some 0\<rparr>"

definition create_server :: "token option \<Rightarrow> nat \<Rightarrow> server_create \<Rightarrow> 'w vpn_state \<Rightarrow> (nat + server_view) \<times> 'w vpn_state" where
  "create_server tok i d st =
     (case require_admin tok of
        Inl c \<Rightarrow> (Inl c, st)
      | Inr u \<Rightarrow>
          (if \<not> valid_server_create d then (Inl 422, st)
           else if row_get (fd_instances (gs_db (vn_gw st))) i = None then (Inl 500, st)
           else (let row = new_server i d; (k, t') = row_add row (vn_servers st) in
                 (server_admin_response k row, on_gw (audit (Some u) ''create'' ''vpn_server'' k i) (st\<lparr>vn_servers := t'\<rparr>)))))"

definition get_server :: "token option \<Rightarrow> nat \<Rightarrow> 'w vpn_state \<Rightarrow> nat + server_view" where
  "get_server tok k st =
     (case require_auth tok of
        Inl c \<Rightarrow> Inl c
      | Inr u \<Rightarrow> (case row_get (vn_servers st) k of None \<Rightarrow> Inl 404 | Some r \<Rightarrow> server_response k r))"

record server_patch =
  sp_name :: "string option option"
  sp_description :: "string option option"
  sp_enabled :: "bool option option"
  sp_listen_address :: "string option option"
  sp_listen_port :: "int option option"
  sp_network :: "string option option"
  sp_dns :: "string list option option"
  sp_push_routes :: "string list option option"
  sp_redirect :: "bool option option"
  sp_config :: "(string \<times> json) list option option"
  sp_tunnel :: "string option option"
  sp_endpoint :: "string option option"
  sp_peer_key :: "string option option"
  sp_allowed :: "string option option"
  sp_keepalive :: "int option option"
  sp_local :: "string option option"
  sp_private_key :: "string option option"

definition given_ok :: "('a option \<Rightarrow> bool) \<Rightarrow> 'a option option \<Rightarrow> bool" where
  "given_ok p v = (case v of None \<Rightarrow> True | Some x \<Rightarrow> p x)"

definition valid_server_patch :: "server_patch \<Rightarrow> bool" where
  "valid_server_patch d \<longleftrightarrow> given_ok tunnel_ok (sp_tunnel d) \<and> given_ok keepalive_ok (sp_keepalive d) \<and> given_ok schema_cidr_list (sp_allowed d)
     \<and> given_ok schema_local_address (sp_local d) \<and> given_ok schema_endpoint (sp_endpoint d) \<and> given_ok schema_wg_key (sp_peer_key d)
     \<and> given_ok schema_wg_key (sp_private_key d)"

definition patch_server :: "server_patch \<Rightarrow> vpn_server \<Rightarrow> vpn_server option" where
  "patch_server d r =
     (case kept (sp_name d) (vs_name r) of
        None \<Rightarrow> None
      | Some n \<Rightarrow> Some (r\<lparr>vs_name := n, vs_description := patched (sp_description d) (vs_description r),
          vs_enabled := patched (sp_enabled d) (vs_enabled r), vs_listen_address := patched (sp_listen_address d) (vs_listen_address r),
          vs_listen_port := patched (sp_listen_port d) (vs_listen_port r), vs_network := patched (sp_network d) (vs_network r),
          vs_dns := patched (sp_dns d) (vs_dns r), vs_push_routes := patched (sp_push_routes d) (vs_push_routes r),
          vs_redirect := patched (sp_redirect d) (vs_redirect r), vs_config := patched (sp_config d) (vs_config r),
          vs_tunnel := patched (sp_tunnel d) (vs_tunnel r), vs_endpoint := patched (sp_endpoint d) (vs_endpoint r),
          vs_peer_key := patched (sp_peer_key d) (vs_peer_key r), vs_allowed := patched (sp_allowed d) (vs_allowed r),
          vs_keepalive := patched (sp_keepalive d) (vs_keepalive r), vs_local := patched (sp_local d) (vs_local r),
          vs_private_key := patched (sp_private_key d) (vs_private_key r)\<rparr>))"

definition update_server :: "token option \<Rightarrow> nat \<Rightarrow> server_patch \<Rightarrow> 'w vpn_state \<Rightarrow> (nat + server_view) \<times> 'w vpn_state" where
  "update_server tok k d st =
     (case require_admin tok of
        Inl c \<Rightarrow> (Inl c, st)
      | Inr u \<Rightarrow>
          (if \<not> valid_server_patch d then (Inl 422, st)
           else (case row_get (vn_servers st) k of
               None \<Rightarrow> (Inl 404, st)
             | Some r \<Rightarrow>
                 (case patch_server d r of
                    None \<Rightarrow> (Inl 500, st)
                  | Some row \<Rightarrow> (server_admin_response k row,
                      on_gw (audit (Some u) ''update'' ''vpn_server'' k (vs_instance r)) (st\<lparr>vn_servers := row_set k row (vn_servers st)\<rparr>))))))"

text \<open>A server with clients, connections or routes cannot be deleted: the foreign keys have no cascade.\<close>

definition server_used :: "'w vpn_state \<Rightarrow> nat \<Rightarrow> bool" where
  "server_used st k \<longleftrightarrow> rows_where (\<lambda>c. vc_server c = k) (vn_clients st) \<noteq> [] \<or> rows_where (\<lambda>x. vx_server x = k) (vn_conns st) \<noteq> []
     \<or> rows_where (\<lambda>r. vr_server r = k) (vn_routes st) \<noteq> []"

definition delete_server :: "token option \<Rightarrow> nat \<Rightarrow> 'w vpn_state \<Rightarrow> (nat + nat) \<times> 'w vpn_state" where
  "delete_server tok k st =
     (case require_admin tok of
        Inl c \<Rightarrow> (Inl c, st)
      | Inr u \<Rightarrow>
          (case row_get (vn_servers st) k of
             None \<Rightarrow> (Inl 404, st)
           | Some r \<Rightarrow>
               (if server_used st k then (Inl 500, st)
                else (Inr k, on_gw (audit (Some u) ''delete'' ''vpn_server'' k (vs_instance r))
                  (st\<lparr>vn_servers := row_del k (vn_servers st)\<rparr>)))))"

section \<open>Start, stop, restart\<close>

definition unit_body :: "vpn_server \<Rightarrow> json" where
  "unit_body r = J_Obj [(''protocol'', J_Str (vs_protocol r)), (''name'', J_Str (vs_name r))]"

definition set_status :: "nat \<Rightarrow> string \<Rightarrow> 'w vpn_state \<Rightarrow> 'w vpn_state" where
  "set_status k s st = (case row_get (vn_servers st) k of
       None \<Rightarrow> st
     | Some r \<Rightarrow> st\<lparr>vn_servers := row_set k (r\<lparr>vs_status := Some s\<rparr>) (vn_servers st)\<rparr>)"

definition unit_action :: "string \<Rightarrow> string \<Rightarrow> 'w sender \<Rightarrow> token option \<Rightarrow> nat \<Rightarrow> 'w vpn_state \<Rightarrow> (nat + nat) \<times> 'w vpn_state" where
  "unit_action action done send tok k st =
     (case require_admin tok of
        Inl c \<Rightarrow> (Inl c, st)
      | Inr u \<Rightarrow>
          (case row_get (vn_servers st) k of
             None \<Rightarrow> (Inl 404, st)
           | Some r \<Rightarrow>
               (case vpn_ask send (vs_instance r) ''POST'' (''/vpn/'' @ action) (unit_body r) st of
                  (Inr a, st1) \<Rightarrow> (Inr k, audit_vpn (vs_instance r) action (''/vpn/'' @ action) True [] u (set_status k done st1))
                | (Inl e, st1) \<Rightarrow> (Inl 502, audit_vpn (vs_instance r) action (''/vpn/'' @ action) False (agent_error_text e) u st1))))"

definition start_server :: "'w sender \<Rightarrow> token option \<Rightarrow> nat \<Rightarrow> 'w vpn_state \<Rightarrow> (nat + nat) \<times> 'w vpn_state" where
  "start_server = unit_action ''start'' ''running''"

definition stop_server :: "'w sender \<Rightarrow> token option \<Rightarrow> nat \<Rightarrow> 'w vpn_state \<Rightarrow> (nat + nat) \<times> 'w vpn_state" where
  "stop_server = unit_action ''stop'' ''stopped''"

definition restart_server :: "'w sender \<Rightarrow> token option \<Rightarrow> nat \<Rightarrow> 'w vpn_state \<Rightarrow> (nat + nat) \<times> 'w vpn_state" where
  "restart_server send tok k st =
     (case require_admin tok of
        Inl c \<Rightarrow> (Inl c, st)
      | Inr u \<Rightarrow>
          (case row_get (vn_servers st) k of
             None \<Rightarrow> (Inl 404, st)
           | Some r \<Rightarrow>
               (let i = vs_instance r; failed = (\<lambda>e s. (Inl 502, audit_vpn i ''restart'' ''/vpn/stop+/vpn/start'' False (agent_error_text e) u s)) in
                case vpn_ask send i ''POST'' ''/vpn/stop'' (unit_body r) (set_status k ''restarting'' st) of
                  (Inl e, st1) \<Rightarrow> failed e st1
                | (Inr a, st1) \<Rightarrow>
                    (case vpn_ask send i ''POST'' ''/vpn/start'' (unit_body r) st1 of
                       (Inl e, st2) \<Rightarrow> failed e st2
                     | (Inr b, st2) \<Rightarrow> (Inr k, audit_vpn i ''restart'' ''/vpn/stop+/vpn/start'' True [] u (set_status k ''running'' st2))))))"

section \<open>Statistics\<close>

definition active_conns :: "'w vpn_state \<Rightarrow> nat \<Rightarrow> (nat \<times> vpn_conn) list" where
  "active_conns st k = rows_where (\<lambda>x. vx_server x = k \<and> vx_status x = Some ''active'') (vn_conns st)"

definition client_name :: "'w vpn_state \<Rightarrow> nat \<Rightarrow> string" where
  "client_name st c = (case row_get (vn_clients st) c of None \<Rightarrow> ''Unknown'' | Some r \<Rightarrow> vc_name r)"

record server_stats =
  st_status :: string
  st_clients :: nat
  st_received :: int
  st_sent :: int
  st_list :: "(nat \<times> string \<times> vpn_conn) list"

definition get_server_stats :: "token option \<Rightarrow> nat \<Rightarrow> 'w vpn_state \<Rightarrow> nat + server_stats" where
  "get_server_stats tok k st =
     (case require_auth tok of
        Inl c \<Rightarrow> Inl c
      | Inr u \<Rightarrow>
          (case row_get (vn_servers st) k of
             None \<Rightarrow> Inl 404
           | Some r \<Rightarrow>
               (case (vs_status r, vs_received r, vs_sent r) of
                  (Some s, Some rx, Some tx) \<Rightarrow>
                    (if s \<notin> set status_texts then Inl 500
                     else Inr \<lparr>st_status = s, st_clients = length (active_conns st k), st_received = rx, st_sent = tx,
                        st_list = map (\<lambda>(j, x). (vx_client x, client_name st (vx_client x), x)) (active_conns st k)\<rparr>)
                | _ \<Rightarrow> Inl 500)))"

end
