(* ===== verification/Py_Base64.thy ===== *)
theory Py_Base64
  imports Py_Base
begin

text \<open>
  \<open>base64.b64encode\<close> and \<open>base64.b64decode\<close> of the Python library, on bytes: the encoder works on groups of
  three, the decoder is the scanner of \<open>binascii\<close> in its lenient mode (characters outside the alphabet are
  skipped, a complete padding ends the input). The theorem is that decoding gives the encoded bytes back.
\<close>

section \<open>The alphabet\<close>

definition b64_char :: "nat \<Rightarrow> char" where
  "b64_char n = (if n < 26 then char_of (65 + n) else if n < 52 then char_of (71 + n) else if n < 62 then char_of (n - 4)
     else if n = 62 then CHR ''+'' else CHR ''/'')"

definition b64_val :: "char \<Rightarrow> nat option" where
  "b64_val c = (if is_upper c then Some (of_char c - 65) else if is_lower c then Some (of_char c - 71)
     else if is_digit c then Some (of_char c + 4) else if c = CHR ''+'' then Some 62 else if c = CHR ''/'' then Some 63 else None)"

lemma b64_char_cases: "n < 64 \<Longrightarrow> b64_val (b64_char n) = Some n \<and> b64_char n \<noteq> CHR ''=''"
proof -
  have "list_all (\<lambda>n. b64_val (b64_char n) = Some n \<and> b64_char n \<noteq> CHR ''='') [0..<64]" by code_simp
  then show "n < 64 \<Longrightarrow> ?thesis" by (simp add: list_all_iff)
qed

section \<open>Encoding and decoding\<close>

fun b64encode :: "string \<Rightarrow> string" where
  "b64encode [] = []"
| "b64encode [a] = (let x = of_char a in [b64_char (x div 4), b64_char (x mod 4 * 16), CHR ''='', CHR ''=''])"
| "b64encode [a, b] = (let x = of_char a; y = of_char b in
     [b64_char (x div 4), b64_char (x mod 4 * 16 + y div 16), b64_char (y mod 16 * 4), CHR ''=''])"
| "b64encode (a # b # c # rest) = (let x = of_char a; y = of_char b; z = of_char c in
     [b64_char (x div 4), b64_char (x mod 4 * 16 + y div 16), b64_char (y mod 16 * 4 + z div 64), b64_char (z mod 64)] @ b64encode rest)"

text \<open>The scanner's state: position in the group of four, padding seen, and the bits left over.\<close>

fun a2b_base64 :: "nat \<Rightarrow> nat \<Rightarrow> nat \<Rightarrow> string \<Rightarrow> string option" where
  "a2b_base64 pos pads left [] = (if pos = 0 then Some [] else None)"
| "a2b_base64 pos pads left (c # cs) =
     (if c = CHR ''='' then
        (if pos < 2 then a2b_base64 pos pads left cs
         else if 4 \<le> pos + (pads + 1) then Some [] else a2b_base64 pos (pads + 1) left cs)
      else (case b64_val c of
          None \<Rightarrow> a2b_base64 pos pads left cs
        | Some v \<Rightarrow>
            (if pos = 0 then a2b_base64 1 0 v cs
             else if pos = 1 then map_option (Cons (char_of (left * 4 + v div 16))) (a2b_base64 2 0 (v mod 16) cs)
             else if pos = 2 then map_option (Cons (char_of (left * 16 + v div 4))) (a2b_base64 3 0 (v mod 4) cs)
             else map_option (Cons (char_of (left * 64 + v))) (a2b_base64 0 0 0 cs))))"

definition b64decode :: "string \<Rightarrow> string option" where
  "b64decode s = a2b_base64 0 0 0 s"

section \<open>Round trip\<close>

lemma byte_bound: "(of_char c :: nat) < 256" by simp

lemma scan_char:
  "n < 64 \<Longrightarrow> a2b_base64 pos pads left (b64_char n # cs) =
     (if pos = 0 then a2b_base64 1 0 n cs
      else if pos = 1 then map_option (Cons (char_of (left * 4 + n div 16))) (a2b_base64 2 0 (n mod 16) cs)
      else if pos = 2 then map_option (Cons (char_of (left * 16 + n div 4))) (a2b_base64 3 0 (n mod 4) cs)
      else map_option (Cons (char_of (left * 64 + n))) (a2b_base64 0 0 0 cs))"
  using b64_char_cases[of n] by simp

lemma scan_pad:
  "a2b_base64 pos pads left (CHR ''='' # cs) = (if pos < 2 then a2b_base64 pos pads left cs
     else if 4 \<le> pos + (pads + 1) then Some [] else a2b_base64 pos (pads + 1) left cs)"
  by simp

lemma scan_four:
  assumes "p < 64" "q < 64" "r < 64" "s < 64"
  shows "a2b_base64 0 0 left (b64_char p # b64_char q # b64_char r # b64_char s # rest) =
      map_option (\<lambda>t. char_of (p * 4 + q div 16) # char_of (q mod 16 * 16 + r div 4) # char_of (r mod 4 * 64 + s) # t) (a2b_base64 0 0 0 rest)"
  using assms by (simp add: scan_char option.map_comp comp_def del: a2b_base64.simps(2))

lemma scan_three:
  assumes "p < 64" "q < 64" "r < 64"
  shows "a2b_base64 0 0 left [b64_char p, b64_char q, b64_char r, CHR ''=''] = Some [char_of (p * 4 + q div 16), char_of (q mod 16 * 16 + r div 4)]"
  using assms by (simp add: scan_char scan_pad del: a2b_base64.simps(2))

lemma scan_two:
  assumes "p < 64" "q < 64"
  shows "a2b_base64 0 0 left [b64_char p, b64_char q, CHR ''='', CHR ''=''] = Some [char_of (p * 4 + q div 16)]"
  using assms by (simp add: scan_char scan_pad del: a2b_base64.simps(2))

lemma six_bits:
  "(x::nat) < 256 \<Longrightarrow> x div 4 < 64" "x mod 4 * 16 < (64::nat)" "y mod 16 * 4 < (64::nat)" "z mod 64 < (64::nat)"
  "y < 256 \<Longrightarrow> x mod 4 * 16 + y div 16 < (64::nat)" "z < 256 \<Longrightarrow> y mod 16 * 4 + z div 64 < (64::nat)"
  by arith+

lemma join_bits: "w < 16 \<Longrightarrow> (v * 16 + w) div 16 = v \<and> (v * 16 + w) mod 16 = (w::nat)"
  "w < 4 \<Longrightarrow> (v * 4 + w) div 4 = v \<and> (v * 4 + w) mod 4 = (w::nat)" by simp_all

lemma high_bits: "(y::nat) < 256 \<Longrightarrow> y div 16 < 16" "(z::nat) < 256 \<Longrightarrow> z div 64 < 4" by arith+

lemma byte_parts:
  "(x::nat) div 4 * 4 + x mod 4 * 16 div 16 = x"
  "y < 256 \<Longrightarrow> (x::nat) div 4 * 4 + (x mod 4 * 16 + y div 16) div 16 = x"
  "y < 256 \<Longrightarrow> (x mod 4 * 16 + y div 16) mod 16 * 16 + y mod 16 * 4 div 4 = (y::nat)"
  "y < 256 \<Longrightarrow> z < 256 \<Longrightarrow> (x mod 4 * 16 + y div 16) mod 16 * 16 + (y mod 16 * 4 + z div 64) div 4 = (y::nat)"
  "z < 256 \<Longrightarrow> (y mod 16 * 4 + z div 64) mod 4 * 64 + z mod 64 = (z::nat)"
  using div_mult_mod_eq[of x 4] div_mult_mod_eq[of y 16] div_mult_mod_eq[of z 64]
  by (simp_all only: join_bits high_bits nonzero_mult_div_cancel_right zero_neq_numeral not_False_eq_True)

lemma decode_encode: "a2b_base64 0 0 left (b64encode s) = Some s"
proof (induction s arbitrary: left rule: b64encode.induct)
  case (2 a)
  show ?case by (simp only: b64encode.simps Let_def scan_two six_bits byte_bound byte_parts char_of_char)
next
  case (3 a b)
  show ?case by (simp only: b64encode.simps Let_def scan_three six_bits byte_bound byte_parts char_of_char)
next
  case (4 a b c rest)
  show ?case by (simp only: b64encode.simps Let_def append.simps scan_four six_bits byte_bound byte_parts char_of_char 4[OF refl refl refl] option.map)
qed simp

lemma b64decode_encode [simp]: "b64decode (b64encode s) = Some s"
  by (simp add: b64decode_def decode_encode)

end
