(* ===== verification/Gw_Vpn_Clients.thy ===== *)
theory Gw_Vpn_Clients
  imports Gw_Vpn Py_Base64
begin

text \<open>
  \<open>routers/vpn.py\<close>, second part: clients with their generated configurations, connections and routes.

  The texts of a configuration are Python format strings; a value of the free-form server configuration may
  be of any JSON type, and the text of a list or an object is the parameter \<open>rep\<close> (Python's \<open>repr\<close>).
  A network object bound to a text column is the driver's business: \<open>bind\<close> gives the stored text, or
  \<open>None\<close> when the driver refuses the object.
\<close>

section \<open>Client configurations\<close>

definition py_str :: "(json \<Rightarrow> string) \<Rightarrow> json \<Rightarrow> string" where
  "py_str rep j =
     (case j of
        J_Null \<Rightarrow> ''None'' | J_Bool b \<Rightarrow> (if b then ''True'' else ''False'') | J_Int n \<Rightarrow> string_of_int n | J_Str s \<Rightarrow> s
      | _ \<Rightarrow> rep j)"

definition opt_text :: "string option \<Rightarrow> string" where
  "opt_text s = (case s of None \<Rightarrow> ''None'' | Some t \<Rightarrow> t)"

text \<open>\<open>server.config.get(key, default)\<close>: a key that is present with a null gives \<open>None\<close>.\<close>

definition config_get :: "(json \<Rightarrow> string) \<Rightarrow> vpn_server \<Rightarrow> string \<Rightarrow> string \<Rightarrow> string" where
  "config_get rep s key dflt =
     (case vs_config s of
        None \<Rightarrow> dflt
      | Some kvs \<Rightarrow> (case map_of kvs key of None \<Rightarrow> dflt | Some v \<Rightarrow> py_str rep v))"

datatype client_type = Type_User | Type_Site | Type_Service

definition client_type_text :: "client_type \<Rightarrow> string" where
  "client_type_text t = (case t of Type_User \<Rightarrow> ''user'' | Type_Site \<Rightarrow> ''site'' | Type_Service \<Rightarrow> ''service'')"

datatype auth_type = Auth_Cert | Auth_Password | Auth_Sso | Auth_Psk | Auth_Public_Key

definition auth_type_text :: "auth_type \<Rightarrow> string" where
  "auth_type_text t = (case t of Auth_Cert \<Rightarrow> ''cert'' | Auth_Password \<Rightarrow> ''password'' | Auth_Sso \<Rightarrow> ''sso'' | Auth_Psk \<Rightarrow> ''psk''
     | Auth_Public_Key \<Rightarrow> ''public_key'')"

record client_create =
  vcc_name :: string
  vcc_description :: "string option"
  vcc_enabled :: bool
  vcc_type :: client_type
  vcc_auth :: auth_type
  vcc_assigned_ip :: "string option"
  vcc_allowed :: "string list"
  vcc_push_routes :: "string list"
  vcc_user :: "nat option"

definition plain_client :: "string \<Rightarrow> client_create" where
  "plain_client n = \<lparr>vcc_name = n, vcc_description = None, vcc_enabled = True, vcc_type = Type_User, vcc_auth = Auth_Cert,
     vcc_assigned_ip = None, vcc_allowed = [], vcc_push_routes = [], vcc_user = None\<rparr>"

definition client_config_lines :: "(json \<Rightarrow> string) \<Rightarrow> vpn_server \<Rightarrow> client_create \<Rightarrow> string option \<Rightarrow> string list" where
  "client_config_lines rep s d private_key =
     [''# VPN Client Configuration'', ''# Server: '' @ vs_name s, ''# Protocol: '' @ vs_protocol s, ''# Client: '' @ vcc_name d, []]
     @ (if vs_protocol s = ''wireguard'' then
          [''[Interface]'',
           (if truthy_str private_key then ''PrivateKey = '' @ or_empty private_key else ''# PrivateKey = <generated>''),
           ''Address = '' @ (if truthy_str (vcc_assigned_ip d) then or_empty (vcc_assigned_ip d) else ''10.200.0.x/24''),
           ''DNS = '' @ (case vs_dns s of None \<Rightarrow> ''1.1.1.1'' | Some ds \<Rightarrow> if ds = [] then ''1.1.1.1'' else join '', '' ds),
           [], ''[Peer]'', ''PublicKey = '' @ config_get rep s ''public_key'' ''<server-public-key>'',
           ''Endpoint = '' @ opt_text (vs_listen_address s) @ '':'' @ opt_text (map_option string_of_int (vs_listen_port s)),
           ''AllowedIPs = '' @ (if vcc_allowed d = [] then ''0.0.0.0/0'' else join '', '' (vcc_allowed d)),
           ''PersistentKeepalive = 25'']
        else if vs_protocol s = ''openvpn'' then
          [''client'', ''dev tun'', ''proto '' @ config_get rep s ''protocol'' ''udp'',
           ''remote '' @ opt_text (vs_listen_address s) @ '' '' @ opt_text (map_option string_of_int (vs_listen_port s)),
           ''resolv-retry infinite'', ''nobind'', ''persist-key'', ''persist-tun'', ''remote-cert-tls server'',
           ''cipher '' @ config_get rep s ''cipher'' ''AES-256-GCM'', ''verb 3'']
        else
          [''Protocol: '' @ vs_protocol s,
           ''Server: '' @ opt_text (vs_listen_address s) @ '':'' @ opt_text (map_option string_of_int (vs_listen_port s)),
           ''Network: '' @ opt_text (vs_network s)])"

definition generate_client_config :: "(json \<Rightarrow> string) \<Rightarrow> vpn_server \<Rightarrow> client_create \<Rightarrow> string option \<Rightarrow> string" where
  "generate_client_config rep s d private_key = join nl (client_config_lines rep s d private_key)"

text \<open>For a download the request object is rebuilt from the row; its name must pass the schema again.\<close>

definition config_for_download :: "(json \<Rightarrow> string) \<Rightarrow> vpn_server \<Rightarrow> vpn_client \<Rightarrow> string option \<Rightarrow> string option" where
  "config_for_download rep s c private_key =
     (if \<not> name_ok 100 (vc_name c) then None
      else Some (generate_client_config rep s
        ((plain_client (vc_name c))\<lparr>vcc_assigned_ip := vc_assigned_ip c, vcc_allowed := (case vc_allowed c of None \<Rightarrow> [] | Some xs \<Rightarrow> xs)\<rparr>)
        private_key))"

section \<open>Keys\<close>

definition truthy_key :: "json option \<Rightarrow> bool" where
  "truthy_key v = (case v of None \<Rightarrow> False | Some J_Null \<Rightarrow> False | Some (J_Bool b) \<Rightarrow> b | Some (J_Int n) \<Rightarrow> n \<noteq> 0
     | Some (J_Str s) \<Rightarrow> s \<noteq> [] | Some (J_List xs) \<Rightarrow> xs \<noteq> [] | Some (J_Obj kvs) \<Rightarrow> kvs \<noteq> [])"

text \<open>The reply is (public key, private key); a failure is a 502, and a key that is no text fails later.\<close>

definition generate_wireguard_keys :: "'w sender \<Rightarrow> nat \<Rightarrow> nat \<Rightarrow> string \<Rightarrow> 'w vpn_state \<Rightarrow> (nat + string \<times> string) \<times> 'w vpn_state" where
  "generate_wireguard_keys send i u action st =
     (case vpn_ask send i ''POST'' ''/vpn/generate-keys'' J_Null st of
        (Inl e, st1) \<Rightarrow> (Inl 502, audit_vpn i action ''/vpn/generate-keys'' False (agent_error_text e) u st1)
      | (Inr r, st1) \<Rightarrow>
          (let st2 = audit_vpn i action ''/vpn/generate-keys'' True [] u st1 in
           if \<not> truthy_key (key_of r ''public_key'') \<or> \<not> truthy_key (key_of r ''private_key'') then (Inl 502, st2)
           else (case (str_key r ''public_key'', str_key r ''private_key'') of
               (Some pub, Some priv) \<Rightarrow> (Inr (pub, priv), st2)
             | _ \<Rightarrow> (Inl 500, st2))))"

section \<open>Client endpoints\<close>

text \<open>The response shapes: without and with the generated configuration.\<close>

record client_view =
  cv_id :: nat
  cv_row :: vpn_client
  cv_config :: "string option"

definition client_response_ok :: "vpn_client \<Rightarrow> bool" where
  "client_response_ok c \<longleftrightarrow> name_ok 100 (vc_name c) \<and> vc_enabled c \<noteq> None
     \<and> vc_type c \<in> {Some ''user'', Some ''site'', Some ''service''}
     \<and> vc_auth c \<in> {Some ''cert'', Some ''password'', Some ''sso'', Some ''psk'', Some ''public_key''}
     \<and> vc_allowed c \<noteq> None \<and> vc_push_routes c \<noteq> None"

definition client_response :: "nat \<Rightarrow> vpn_client \<Rightarrow> nat + client_view" where
  "client_response k c = (if client_response_ok c then Inr \<lparr>cv_id = k, cv_row = c\<lparr>vc_config_file := None\<rparr>, cv_config = None\<rparr> else Inl 500)"

definition client_admin_response :: "nat \<Rightarrow> vpn_client \<Rightarrow> nat + client_view" where
  "client_admin_response k c =
     (if client_response_ok c then Inr \<lparr>cv_id = k, cv_row = c\<lparr>vc_config_file := None\<rparr>, cv_config = vc_config_file c\<rparr> else Inl 500)"

definition list_clients :: "token option \<Rightarrow> nat \<Rightarrow> 'w vpn_state \<Rightarrow> nat + client_view list" where
  "list_clients tok k st =
     (case require_auth tok of
        Inl c \<Rightarrow> Inl c
      | Inr u \<Rightarrow> all_right (map (\<lambda>(j, c). client_response j c) (rows_where (\<lambda>c. vc_server c = k) (vn_clients st))))"

definition new_client :: "nat \<Rightarrow> client_create \<Rightarrow> string option \<Rightarrow> string \<Rightarrow> vpn_client" where
  "new_client k d public config_text = \<lparr>vc_server = k, vc_name = vcc_name d, vc_description = vcc_description d, vc_enabled = Some (vcc_enabled d),
     vc_type = Some (client_type_text (vcc_type d)), vc_auth = Some (auth_type_text (vcc_auth d)), vc_public_key = public,
     vc_assigned_ip = vcc_assigned_ip d, vc_allowed = Some (vcc_allowed d), vc_push_routes = Some (vcc_push_routes d), vc_user = vcc_user d,
     vc_config_file = Some (b64encode config_text)\<rparr>"

definition store_client :: "nat \<Rightarrow> client_create \<Rightarrow> string option \<Rightarrow> string \<Rightarrow> 'w vpn_state \<Rightarrow> (nat + client_view) \<times> 'w vpn_state" where
  "store_client k d public config_text st =
     (if \<exists>u. vcc_user d = Some u \<and> row_get (fd_users (gs_db (vn_gw st))) u = None then (Inl 500, st)
      else (let row = new_client k d public config_text; (j, t') = row_add row (vn_clients st) in
            (client_admin_response j row, st\<lparr>vn_clients := t'\<rparr>)))"

definition create_client :: "(json \<Rightarrow> string) \<Rightarrow> 'w sender \<Rightarrow> token option \<Rightarrow> nat \<Rightarrow> client_create \<Rightarrow> 'w vpn_state \<Rightarrow>
    (nat + client_view) \<times> 'w vpn_state" where
  "create_client rep send tok k d st =
     (case require_admin tok of
        Inl c \<Rightarrow> (Inl c, st)
      | Inr u \<Rightarrow>
          (if \<not> name_ok 100 (vcc_name d) then (Inl 422, st)
           else (case row_get (vn_servers st) k of
               None \<Rightarrow> (Inl 404, st)
             | Some s \<Rightarrow>
                 (if vs_protocol s = ''wireguard'' then
                    (case generate_wireguard_keys send (vs_instance s) u ''generate_keys_client'' st of
                       (Inl c, st1) \<Rightarrow> (Inl c, st1)
                     | (Inr (pub, priv), st1) \<Rightarrow> store_client k d (Some pub) (generate_client_config rep s d (Some priv)) st1)
                  else store_client k d None (generate_client_config rep s d None) st))))"

record bulk_request =
  bk_count :: int
  bk_prefix :: string
  bk_auth :: auth_type

definition bulk_name :: "string \<Rightarrow> nat \<Rightarrow> string" where
  "bulk_name pre i = pre @ ''_'' @ string_of_nat (i + 1)"

definition bulk_client :: "(json \<Rightarrow> string) \<Rightarrow> nat \<Rightarrow> vpn_server \<Rightarrow> bulk_request \<Rightarrow> nat \<Rightarrow> vpn_client" where
  "bulk_client rep k s d i =
     (let n = bulk_name (bk_prefix d) i; c = (plain_client n)\<lparr>vcc_auth := bk_auth d\<rparr> in
      (new_client k c (Some (''placeholder_'' @ string_of_nat k @ ''_'' @ n)) (generate_client_config rep s c None)))"

definition add_clients :: "vpn_client list \<Rightarrow> vpn_client table \<Rightarrow> (nat \<times> vpn_client) list \<times> vpn_client table" where
  "add_clients cs t = fold (\<lambda>c (ks, t). case row_add c t of (k, t') \<Rightarrow> (ks @ [(k, c)], t')) cs ([], t)"

definition bulk_create_clients :: "(json \<Rightarrow> string) \<Rightarrow> token option \<Rightarrow> nat \<Rightarrow> bulk_request \<Rightarrow> 'w vpn_state \<Rightarrow>
    (nat + client_view list) \<times> 'w vpn_state" where
  "bulk_create_clients rep tok k d st =
     (case require_admin tok of
        Inl c \<Rightarrow> (Inl c, st)
      | Inr u \<Rightarrow>
          (if bk_count d < 1 \<or> 100 < bk_count d then (Inl 422, st)
           else (case row_get (vn_servers st) k of
               None \<Rightarrow> (Inl 404, st)
             | Some s \<Rightarrow>
                 (let cs = map (bulk_client rep k s d) [0..<nat (bk_count d)] in
                  if \<exists>c\<in>set cs. \<not> name_ok 100 (vc_name c) then (Inl 500, st)
                  else (let (added, t') = add_clients cs (vn_clients st) in
                        (all_right (map (\<lambda>(j, c). client_response j c) added), st\<lparr>vn_clients := t'\<rparr>))))))"

definition get_client :: "token option \<Rightarrow> nat \<Rightarrow> 'w vpn_state \<Rightarrow> nat + client_view" where
  "get_client tok j st =
     (case require_auth tok of
        Inl c \<Rightarrow> Inl c
      | Inr u \<Rightarrow> (case row_get (vn_clients st) j of None \<Rightarrow> Inl 404 | Some c \<Rightarrow> client_response j c))"

record client_patch =
  vcp_name :: "string option option"
  vcp_description :: "string option option"
  vcp_enabled :: "bool option option"
  vcp_assigned_ip :: "string option option"
  vcp_allowed :: "string list option option"
  vcp_push_routes :: "string list option option"

definition patch_client :: "client_patch \<Rightarrow> vpn_client \<Rightarrow> vpn_client option" where
  "patch_client d c =
     (case kept (vcp_name d) (vc_name c) of
        None \<Rightarrow> None
      | Some n \<Rightarrow> Some (c\<lparr>vc_name := n, vc_description := patched (vcp_description d) (vc_description c),
          vc_enabled := patched (vcp_enabled d) (vc_enabled c), vc_assigned_ip := patched (vcp_assigned_ip d) (vc_assigned_ip c),
          vc_allowed := patched (vcp_allowed d) (vc_allowed c), vc_push_routes := patched (vcp_push_routes d) (vc_push_routes c)\<rparr>))"

definition update_client :: "token option \<Rightarrow> nat \<Rightarrow> client_patch \<Rightarrow> 'w vpn_state \<Rightarrow> (nat + client_view) \<times> 'w vpn_state" where
  "update_client tok j d st =
     (case require_admin tok of
        Inl c \<Rightarrow> (Inl c, st)
      | Inr u \<Rightarrow>
          (case row_get (vn_clients st) j of
             None \<Rightarrow> (Inl 404, st)
           | Some c \<Rightarrow>
               (case patch_client d c of
                  None \<Rightarrow> (Inl 500, st)
                | Some row \<Rightarrow> (client_response j row, st\<lparr>vn_clients := row_set j row (vn_clients st)\<rparr>))))"

text \<open>A client with connections cannot be deleted: the foreign key has no cascade.\<close>

definition delete_client :: "token option \<Rightarrow> nat \<Rightarrow> 'w vpn_state \<Rightarrow> (nat + nat) \<times> 'w vpn_state" where
  "delete_client tok j st =
     (case require_admin tok of
        Inl c \<Rightarrow> (Inl c, st)
      | Inr u \<Rightarrow>
          (case row_get (vn_clients st) j of
             None \<Rightarrow> (Inl 404, st)
           | Some c \<Rightarrow>
               (if rows_where (\<lambda>x. vx_client x = j) (vn_conns st) \<noteq> [] then (Inl 500, st)
                else (Inr j, st\<lparr>vn_clients := row_del j (vn_clients st)\<rparr>))))"

record client_download =
  dl_format :: string
  dl_data :: string
  dl_filename :: string

definition download_format :: "string \<Rightarrow> vpn_server \<Rightarrow> string" where
  "download_format format s =
     (if format \<noteq> ''auto'' then format
      else if vs_protocol s = ''wireguard'' then ''wg-quick'' else if vs_protocol s = ''openvpn'' then ''ovpn'' else ''txt'')"

definition download_client_config :: "(json \<Rightarrow> string) \<Rightarrow> token option \<Rightarrow> nat \<Rightarrow> string \<Rightarrow> 'w vpn_state \<Rightarrow> nat + client_download" where
  "download_client_config rep tok j format st =
     (case require_admin tok of
        Inl c \<Rightarrow> Inl c
      | Inr u \<Rightarrow>
          (case row_get (vn_clients st) j of
             None \<Rightarrow> Inl 404
           | Some c \<Rightarrow>
               (case row_get (vn_servers st) (vc_server c) of
                  None \<Rightarrow> Inl 404
                | Some s \<Rightarrow>
                    (case (if truthy_str (vc_config_file c) then
                             (case b64decode (or_empty (vc_config_file c)) of
                                Some t \<Rightarrow> Some t | None \<Rightarrow> config_for_download rep s c None)
                           else config_for_download rep s c None) of
                       None \<Rightarrow> Inl 500
                     | Some t \<Rightarrow>
                         (if vs_protocol s \<notin> set protocol_texts then Inl 500
                          else Inr \<lparr>dl_format = download_format format s, dl_data = b64encode t,
                             dl_filename = replace_char CHR '' '' ''_'' (vc_name c) @ ''.'' @ download_format format s\<rparr>)))))"

text \<open>The keys of a client are replaced by new ones; without the agent's help for the other protocols.\<close>

definition regenerate_client_credentials :: "(json \<Rightarrow> string) \<Rightarrow> nat \<Rightarrow> 'w sender \<Rightarrow> token option \<Rightarrow> nat \<Rightarrow> 'w vpn_state \<Rightarrow>
    (nat + string) \<times> 'w vpn_state" where
  "regenerate_client_credentials rep now send tok j st =
     (case require_admin tok of
        Inl c \<Rightarrow> (Inl c, st)
      | Inr u \<Rightarrow>
          (case row_get (vn_clients st) j of
             None \<Rightarrow> (Inl 404, st)
           | Some c \<Rightarrow>
               (case row_get (vn_servers st) (vc_server c) of
                  None \<Rightarrow> (Inl 404, st)
                | Some s \<Rightarrow>
                    (let store = (\<lambda>pub priv st1.
                        (let c1 = c\<lparr>vc_public_key := Some pub\<rparr> in
                         case config_for_download rep s c1 priv of
                           None \<Rightarrow> (Inl 500, st1)
                         | Some t \<Rightarrow> (Inr pub, st1\<lparr>vn_clients := row_set j (c1\<lparr>vc_config_file := Some (b64encode t)\<rparr>) (vn_clients st1)\<rparr>))) in
                     if vs_protocol s = ''wireguard'' then
                       (case generate_wireguard_keys send (vs_instance s) u ''generate_keys_regenerate'' st of
                          (Inl e, st1) \<Rightarrow> (Inl e, st1)
                        | (Inr (pub, priv), st1) \<Rightarrow> store pub (Some priv) st1)
                     else store (''regenerated_'' @ string_of_nat j @ ''_'' @ string_of_nat now) None st))))"

section \<open>Connections\<close>

record conn_view =
  xv_id :: nat
  xv_client_name :: string
  xv_protocol :: string
  xv_client_ip :: string
  xv_virtual_ip :: string
  xv_row :: vpn_conn

definition conn_response :: "'w vpn_state \<Rightarrow> nat \<times> vpn_conn \<Rightarrow> nat + conn_view" where
  "conn_response st e = (let (k, x) = e; p = (if truthy_str (vx_protocol x) then or_empty (vx_protocol x) else ''wireguard'') in
     if p \<in> set protocol_texts \<and> vx_received x \<noteq> None \<and> vx_sent x \<noteq> None \<and> vx_status x \<noteq> None
     then Inr \<lparr>xv_id = k, xv_client_name = client_name st (vx_client x), xv_protocol = p, xv_client_ip = or_empty (vx_client_ip x),
            xv_virtual_ip = or_empty (vx_virtual_ip x), xv_row = x\<rparr>
     else Inl 500)"

definition list_connections :: "token option \<Rightarrow> nat \<Rightarrow> 'w vpn_state \<Rightarrow> nat + conn_view list" where
  "list_connections tok k st =
     (case require_auth tok of Inl c \<Rightarrow> Inl c | Inr u \<Rightarrow> all_right (map (conn_response st) (active_conns st k)))"

text \<open>The newest first; a negative limit is refused by the database.\<close>

definition list_connection_history :: "token option \<Rightarrow> nat \<Rightarrow> int \<Rightarrow> 'w vpn_state \<Rightarrow> nat + conn_view list" where
  "list_connection_history tok k limit st =
     (case require_auth tok of
        Inl c \<Rightarrow> Inl c
      | Inr u \<Rightarrow>
          (if limit < 0 then Inl 500
           else all_right (map (conn_response st) (take (nat limit)
             (sort_key (\<lambda>(k, x). - int (vx_connected_at x)) (rows_where (\<lambda>x. vx_server x = k) (vn_conns st)))))))"

definition disconnect_client :: "token option \<Rightarrow> nat \<Rightarrow> 'w vpn_state \<Rightarrow> (nat + nat) \<times> 'w vpn_state" where
  "disconnect_client tok j st =
     (case require_admin tok of
        Inl c \<Rightarrow> (Inl c, st)
      | Inr u \<Rightarrow>
          (case row_get (vn_conns st) j of
             None \<Rightarrow> (Inl 404, st)
           | Some x \<Rightarrow> (Inr j, st\<lparr>vn_conns := row_set j (x\<lparr>vx_status := Some ''disconnected'', vx_reason := Some ''admin_disconnect''\<rparr>) (vn_conns st)\<rparr>)))"

section \<open>Routes\<close>

definition vpn_route_ok :: "vpn_route \<Rightarrow> bool" where
  "vpn_route_ok r \<longleftrightarrow> ip_network True (vr_destination r) \<noteq> None"

definition list_vpn_routes :: "token option \<Rightarrow> nat \<Rightarrow> 'w vpn_state \<Rightarrow> nat + (nat \<times> vpn_route) list" where
  "list_vpn_routes tok k st =
     (case require_auth tok of
        Inl c \<Rightarrow> Inl c
      | Inr u \<Rightarrow>
          (let rs = sort_key (vr_order \<circ> snd) (rows_where (\<lambda>r. vr_server r = k) (vn_routes st)) in
           if list_all (vpn_route_ok \<circ> snd) rs then Inr rs else Inl 500))"

record route_create =
  vrc_destination :: string
  vrc_gateway :: "string option"
  vrc_metric :: int
  vrc_all :: bool
  vrc_clients :: "int list"
  vrc_description :: "string option"

definition create_vpn_route :: "(ip_net \<Rightarrow> string option) \<Rightarrow> token option \<Rightarrow> nat \<Rightarrow> route_create \<Rightarrow> 'w vpn_state \<Rightarrow>
    (nat + nat \<times> vpn_route) \<times> 'w vpn_state" where
  "create_vpn_route bind tok k d st =
     (case require_admin tok of
        Inl c \<Rightarrow> (Inl c, st)
      | Inr u \<Rightarrow>
          (case ip_network True (vrc_destination d) of
             None \<Rightarrow> (Inl 422, st)
           | Some net \<Rightarrow>
               (if row_get (vn_servers st) k = None then (Inl 500, st)
                else (case bind net of
                    None \<Rightarrow> (Inl 500, st)
                  | Some t \<Rightarrow>
                      (let row = \<lparr>vr_server = k, vr_destination = t, vr_gateway = vrc_gateway d, vr_metric = vrc_metric d, vr_all = vrc_all d,
                             vr_clients = vrc_clients d, vr_description = vrc_description d,
                             vr_order = int (length (rows_where (\<lambda>r. vr_server r = k) (vn_routes st))) * 10\<rparr>;
                           (j, t') = row_add row (vn_routes st) in
                       (if vpn_route_ok row then Inr (j, row) else Inl 500, st\<lparr>vn_routes := t'\<rparr>))))))"

definition delete_vpn_route :: "token option \<Rightarrow> nat \<Rightarrow> 'w vpn_state \<Rightarrow> (nat + nat) \<times> 'w vpn_state" where
  "delete_vpn_route tok j st =
     (case require_admin tok of
        Inl c \<Rightarrow> (Inl c, st)
      | Inr u \<Rightarrow>
          (case row_get (vn_routes st) j of
             None \<Rightarrow> (Inl 404, st)
           | Some r \<Rightarrow> (Inr j, st\<lparr>vn_routes := row_del j (vn_routes st)\<rparr>)))"

end
