(* ===== verification/Gw_Vpn_Site.thy ===== *)
theory Gw_Vpn_Site
  imports Gw_Vpn_Clients
begin

text \<open>
  \<open>routers/vpn.py\<close>, third part: site-to-site tunnels, and the tunnel body of \<open>utils/firewall_dispatch.py\<close>.

  The router imports the name \<open>AsyncSessionLocal\<close> when it is loaded; the parameter \<open>bound\<close> says whether
  it was bound to a session factory then (\<open>shared/database.py\<close> binds it at the first use of the database).
\<close>

section \<open>The tunnel body\<close>

definition tunnel_payload :: "vpn_server \<Rightarrow> json" where
  "tunnel_payload s = drop_none
     [(''protocol'', J_Str (vs_protocol s)), (''name'', J_Str (vs_name s)), (''address'', opt_str (vs_local s)),
      (''private_key'', opt_str (vs_private_key s)), (''endpoint'', opt_str (vs_endpoint s)),
      (''peer_public_key'', opt_str (vs_peer_key s)), (''allowed_ips'', opt_str (vs_allowed s)),
      (''persistent_keepalive'', opt_int (vs_keepalive s))]"

text \<open>The enabled servers of an instance by id; the first outgoing tunnel counts.\<close>

definition enabled_servers :: "vpn_server table \<Rightarrow> nat \<Rightarrow> (nat \<times> vpn_server) list" where
  "enabled_servers t i = sort_key fst (rows_where (\<lambda>s. vs_instance s = i \<and> vs_enabled s = Some True) t)"

definition outgoing :: "vpn_server \<Rightarrow> bool" where
  "outgoing s \<longleftrightarrow> vs_tunnel s = Some ''client'' \<or> vs_tunnel s = Some ''site-to-site''"

definition build_instance_vpn_payload :: "vpn_server table \<Rightarrow> nat \<Rightarrow> json" where
  "build_instance_vpn_payload t i =
     (case find (\<lambda>e. outgoing (snd e)) (enabled_servers t i) of None \<Rightarrow> J_Obj [] | Some (k, s) \<Rightarrow> tunnel_payload s)"

definition apply_vpn_config :: "'w sender \<Rightarrow> nat \<Rightarrow> nat \<Rightarrow> 'w vpn_state \<Rightarrow> (agent_error + json) \<times> 'w vpn_state" where
  "apply_vpn_config send i u st =
     (case vpn_ask send i ''POST'' ''/vpn/apply'' (build_instance_vpn_payload (vn_servers st) i) st of
        (Inl e, st1) \<Rightarrow> (Inl e, audit_vpn i ''deploy'' ''/vpn/apply'' False (agent_error_text e) u st1)
      | (Inr r, st1) \<Rightarrow> (Inr r, audit_vpn i ''deploy'' ''/vpn/apply'' True [] u st1))"

section \<open>Initialization\<close>

record site_request =
  sr_endpoint :: string
  sr_key :: string
  sr_protocol :: vpn_protocol
  sr_local :: "string option"
  sr_allowed :: "string option"
  sr_keepalive :: "int option"

definition valid_remote_endpoint :: "string \<Rightarrow> bool" where
  "valid_remote_endpoint s \<longleftrightarrow> strip s \<noteq> [] \<and> endpoint_form (strip s)"

definition valid_site_request :: "site_request \<Rightarrow> bool" where
  "valid_site_request q \<longleftrightarrow> valid_remote_endpoint (sr_endpoint q) \<and> wg_key_match (sr_key q) \<and> schema_cidr_list (sr_allowed q)
     \<and> schema_local_address (sr_local q)"

definition site_name :: "string \<Rightarrow> string" where
  "site_name e = ''site-to-site-'' @ replace_char CHR '':'' ''-'' e"

definition default_allowed_ips :: string where "default_allowed_ips = ''10.80.0.0/16''"
definition default_local_address :: string where "default_local_address = ''10.200.0.2/24''"

definition site_row :: "nat \<Rightarrow> site_request \<Rightarrow> vpn_server" where
  "site_row i q =
     \<lparr>vs_instance = i, vs_name = site_name (sr_endpoint q), vs_description = Some (''Site-to-site tunnel to '' @ sr_endpoint q),
      vs_enabled = Some True, vs_protocol = vpn_protocol_text (sr_protocol q), vs_listen_address = Some ''0.0.0.0'', vs_listen_port = Some 51820,
      vs_network = Some ''10.200.0.0/24'', vs_dns = Some [], vs_push_routes = Some [], vs_redirect = Some False,
      vs_tunnel = Some ''site-to-site'', vs_endpoint = Some (sr_endpoint q), vs_peer_key = Some (sr_key q),
      vs_allowed = Some (if truthy_str (sr_allowed q) then or_empty (sr_allowed q) else default_allowed_ips),
      vs_keepalive = Some (case sr_keepalive q of None \<Rightarrow> 25 | Some n \<Rightarrow> n),
      vs_local = Some (if truthy_str (sr_local q) then or_empty (sr_local q) else default_local_address), vs_private_key = None,
      vs_config = Some [(''remote_endpoint'', J_Str (sr_endpoint q)), (''remote_public_key'', J_Str (sr_key q)),
        (''tunnel_type'', J_Str ''site-to-site'')],
      vs_status = Some ''stopped'', vs_connected = Some 0, vs_received = Some 0, vs_sent = Some 0\<rparr>"

definition site_clashes :: "vpn_server table \<Rightarrow> nat \<Rightarrow> string \<Rightarrow> (nat \<times> vpn_server) list" where
  "site_clashes t i n = rows_where (\<lambda>s. vs_instance s = i \<and> (vs_name s = n \<or> vs_tunnel s = Some ''site-to-site'')) t"

definition initialize_site_to_site :: "bool \<Rightarrow> 'w sender \<Rightarrow> token option \<Rightarrow> nat \<Rightarrow> site_request \<Rightarrow> 'w vpn_state \<Rightarrow>
    (nat + nat \<times> json) \<times> 'w vpn_state" where
  "initialize_site_to_site bound send tok i q st =
     (case require_admin tok of
        Inl c \<Rightarrow> (Inl c, st)
      | Inr u \<Rightarrow>
          (if row_get (fd_instances (gs_db (vn_gw st))) i = None then (Inl 404, st)
           else if \<not> valid_site_request q then (Inl 422, st)
           else if sr_protocol q \<noteq> Wireguard then (Inl 400, st)
           else (case site_clashes (vn_servers st) i (site_name (sr_endpoint q)) of
               [e] \<Rightarrow> (Inl 409, st)
             | e # f # es \<Rightarrow> (Inl 500, st)
             | [] \<Rightarrow>
                 (let (k, t') = row_add (site_row i q) (vn_servers st);
                      st1 = on_gw (audit (Some u) ''create'' ''vpn_server'' k i) (st\<lparr>vn_servers := t'\<rparr>) in
                  if \<not> bound then (Inl 500, st1)
                  else (case apply_vpn_config send i u st1 of
                      (Inl e, st2) \<Rightarrow> (Inl 502, st2)
                    | (Inr r, st2) \<Rightarrow> (Inr (k, r), st2))))))"

section \<open>Status\<close>

record site_view =
  tv_id :: nat
  tv_row :: vpn_server
  tv_status :: "string option"
  tv_remote :: "json"
  tv_online :: bool
  tv_live :: "(string \<times> json) list option"

definition site_servers :: "vpn_server table \<Rightarrow> nat \<Rightarrow> (nat \<times> vpn_server) list" where
  "site_servers t i = rows_where (\<lambda>s. vs_instance s = i \<and> (vs_tunnel s = Some ''site-to-site'' \<or> startswith (vs_name s) ''site-to-site-'')) t"

definition remote_of :: "vpn_server \<Rightarrow> json" where
  "remote_of s = (if truthy_str (vs_endpoint s) then J_Str (or_empty (vs_endpoint s))
     else (case vs_config s of None \<Rightarrow> J_Null | Some kvs \<Rightarrow> (case map_of kvs ''remote_endpoint'' of None \<Rightarrow> J_Null | Some v \<Rightarrow> v)))"

definition live_keys :: "string list" where
  "live_keys = [''up'', ''interface'', ''address'', ''endpoint'', ''latest_handshake_sec'', ''transfer_rx'', ''transfer_tx'']"

definition live_part :: "json \<Rightarrow> (string \<times> json) list" where
  "live_part j = map (\<lambda>k. (k, case key_of j k of None \<Rightarrow> J_Null | Some v \<Rightarrow> v)) live_keys"

text \<open>An agent that cannot be asked, or answers null, degrades every row; an answer that is no object is an
  exception as soon as there is a row.\<close>

definition get_site_to_site_status :: "'w sender \<Rightarrow> token option \<Rightarrow> nat \<Rightarrow> 'w vpn_state \<Rightarrow> (nat + site_view list) \<times> 'w vpn_state" where
  "get_site_to_site_status send tok i st =
     (case require_auth tok of
        Inl c \<Rightarrow> (Inl c, st)
      | Inr u \<Rightarrow>
          (case vpn_ask send i ''GET'' ''/vpn/status'' J_Null st of
             (r, st1) \<Rightarrow>
               (let live = (case r of Inl e \<Rightarrow> None | Inr J_Null \<Rightarrow> None | Inr j \<Rightarrow> Some j); rows = site_servers (vn_servers st) i in
                (if (case live of None \<Rightarrow> False | Some j \<Rightarrow> \<not> is_obj j) \<and> rows \<noteq> [] then Inl 500
                 else Inr (map (\<lambda>(k, s). \<lparr>tv_id = k, tv_row = s,
                     tv_status = (if live = None then Some ''unknown'' else vs_status s), tv_remote = remote_of s,
                     tv_online = (live \<noteq> None), tv_live = map_option live_part live\<rparr>) rows), st1))))"

end
