(* ===== verification/Gw_Vpn_Props.thy ===== *)
theory Gw_Vpn_Props
  imports Gw_Vpn_Site Gw_Invariant
begin

text \<open>
  The VPN router as a transition system: any sequence of calls by anybody, whatever the agents answer. The
  invariant says which values the rows can hold and that every client, connection and route belongs to a
  server that exists.
\<close>

section \<open>Steps\<close>

text \<open>What the handlers take from outside: Python's \<open>repr\<close>, the driver's text of a network, the clock, and
  whether the session name was bound.\<close>

record vpn_env =
  ve_rep :: "json \<Rightarrow> string"
  ve_bind :: "ip_net \<Rightarrow> string option"
  ve_now :: nat
  ve_bound :: bool

datatype vpn_call =
    Create_Server nat server_create
  | Update_Server nat server_patch
  | Delete_Server nat
  | Start_Server nat
  | Stop_Server nat
  | Restart_Server nat
  | Create_Client nat client_create
  | Bulk_Clients nat bulk_request
  | Update_Client nat client_patch
  | Delete_Client nat
  | Regenerate_Client nat
  | Disconnect nat
  | Create_Route nat route_create
  | Delete_Route nat
  | Initialize_Site nat site_request
  | Site_Status nat

definition vpn_handle :: "vpn_env \<Rightarrow> 'w sender \<Rightarrow> token option \<Rightarrow> vpn_call \<Rightarrow> 'w vpn_state \<Rightarrow> 'w vpn_state" where
  "vpn_handle e send tok c st =
     (case c of
        Create_Server i d \<Rightarrow> snd (create_server tok i d st)
      | Update_Server k d \<Rightarrow> snd (update_server tok k d st)
      | Delete_Server k \<Rightarrow> snd (delete_server tok k st)
      | Start_Server k \<Rightarrow> snd (start_server send tok k st)
      | Stop_Server k \<Rightarrow> snd (stop_server send tok k st)
      | Restart_Server k \<Rightarrow> snd (restart_server send tok k st)
      | Create_Client k d \<Rightarrow> snd (create_client (ve_rep e) send tok k d st)
      | Bulk_Clients k d \<Rightarrow> snd (bulk_create_clients (ve_rep e) tok k d st)
      | Update_Client j d \<Rightarrow> snd (update_client tok j d st)
      | Delete_Client j \<Rightarrow> snd (delete_client tok j st)
      | Regenerate_Client j \<Rightarrow> snd (regenerate_client_credentials (ve_rep e) (ve_now e) send tok j st)
      | Disconnect j \<Rightarrow> snd (disconnect_client tok j st)
      | Create_Route k d \<Rightarrow> snd (create_vpn_route (ve_bind e) tok k d st)
      | Delete_Route j \<Rightarrow> snd (delete_vpn_route tok j st)
      | Initialize_Site i q \<Rightarrow> snd (initialize_site_to_site (ve_bound e) send tok i q st)
      | Site_Status i \<Rightarrow> snd (get_site_to_site_status send tok i st))"

inductive vpn_step :: "'w sender \<Rightarrow> 'w vpn_state \<Rightarrow> 'w vpn_state \<Rightarrow> bool" for send where
  handle: "vpn_step send st (vpn_handle e send tok c st)"

inductive_cases vpn_stepE: "vpn_step send st st'"

section \<open>The invariant\<close>

definition server_ok :: "vpn_server \<Rightarrow> bool" where
  "server_ok r \<longleftrightarrow> vs_protocol r \<in> set protocol_texts \<and> (\<exists>s\<in>set status_texts. vs_status r = Some s)
     \<and> schema_cidr_list (vs_allowed r) \<and> schema_local_address (vs_local r)
     \<and> (case vs_endpoint r of None \<Rightarrow> True | Some e \<Rightarrow> endpoint_form (strip e))
     \<and> schema_wg_key (vs_peer_key r) \<and> schema_wg_key (vs_private_key r)"

definition vpn_inv :: "'w vpn_state \<Rightarrow> bool" where
  "vpn_inv st \<longleftrightarrow> table_ok (vn_servers st) \<and> table_ok (vn_clients st) \<and> table_ok (vn_conns st) \<and> table_ok (vn_routes st)
     \<and> rows_all server_ok (vn_servers st)
     \<and> points_to vc_server (vn_servers st) (vn_clients st) \<and> points_to vr_server (vn_servers st) (vn_routes st)
     \<and> points_to vx_server (vn_servers st) (vn_conns st) \<and> points_to vx_client (vn_clients st) (vn_conns st)"

text \<open>The parts of the state a call can leave alone.\<close>

lemma vpn_inv_gw [simp]: "vpn_inv (st\<lparr>vn_gw := g\<rparr>) = vpn_inv st" by (simp add: vpn_inv_def)
lemma vpn_inv_on_gw [simp]: "vpn_inv (on_gw f st) = vpn_inv st" by (simp add: on_gw_def)
lemma vpn_inv_audit [simp]: "vpn_inv (audit_vpn i a p ok d u st) = vpn_inv st" by (simp add: audit_vpn_def)

lemma vpn_ask_inv: "vpn_ask send i m p b st = (r, st') \<Longrightarrow> vpn_inv st' = vpn_inv st \<and> vn_servers st' = vn_servers st
    \<and> vn_clients st' = vn_clients st \<and> vn_conns st' = vn_conns st \<and> vn_routes st' = vn_routes st"
  by (auto simp: vpn_ask_def split: prod.splits)

lemma vpn_inv_server_add:
  assumes "vpn_inv st" "server_ok r" "row_add r (vn_servers st) = (k, t')"
  shows "vpn_inv (st\<lparr>vn_servers := t'\<rparr>)"
  using assms rows.ok_add[OF _ assms(3)] keeps_keys_add[OF _ assms(3)]
  by (auto simp: vpn_inv_def intro: points_to_mono rows_all_add)

lemma vpn_inv_server_set:
  assumes "vpn_inv st" "server_ok r"
  shows "vpn_inv (st\<lparr>vn_servers := row_set k r (vn_servers st)\<rparr>)"
  using assms by (auto simp: vpn_inv_def rows.ok_put intro: points_to_mono rows_all_set)

lemma vpn_inv_server_del:
  assumes "vpn_inv st" "\<not> server_used st k"
  shows "vpn_inv (st\<lparr>vn_servers := row_del k (vn_servers st)\<rparr>)"
  using assms by (auto simp: vpn_inv_def server_used_def rows.ok_del intro: points_to_unused rows_all_del)

lemma vpn_inv_client_add:
  assumes "vpn_inv st" "row_get (vn_servers st) (vc_server c) \<noteq> None" "row_add c (vn_clients st) = (k, t')"
  shows "vpn_inv (st\<lparr>vn_clients := t'\<rparr>)"
  using assms rows.ok_add[OF _ assms(3)] keeps_keys_add[OF _ assms(3)]
  by (auto simp: vpn_inv_def intro: points_to_mono points_to_add)

lemma vpn_inv_client_set:
  assumes "vpn_inv st" "row_get (vn_servers st) (vc_server c) \<noteq> None"
  shows "vpn_inv (st\<lparr>vn_clients := row_set k c (vn_clients st)\<rparr>)"
  using assms by (auto simp: vpn_inv_def rows.ok_put intro: points_to_mono points_to_set)

lemma vpn_inv_client_del:
  assumes "vpn_inv st" "rows_where (\<lambda>x. vx_client x = k) (vn_conns st) = []"
  shows "vpn_inv (st\<lparr>vn_clients := row_del k (vn_clients st)\<rparr>)"
  using assms by (auto simp: vpn_inv_def rows.ok_del intro: points_to_unused points_to_del)

section \<open>Every handler keeps it\<close>

lemma vpn_protocol_known [simp]: "vpn_protocol_text p \<in> set protocol_texts"
  by (cases p) (simp_all add: vpn_protocol_text_def protocol_texts_def)

lemma new_server_ok: "server_ok (new_server i d)"
  by (simp add: server_ok_def new_server_def status_texts_def schema_cidr_list_def schema_local_address_def schema_wg_key_def)

lemma default_site_values: "schema_cidr_list (Some default_allowed_ips)" "schema_local_address (Some default_local_address)"
  by code_simp+

lemma site_row_ok: "valid_site_request q \<Longrightarrow> server_ok (site_row i q)"
  using default_site_values
  by (auto simp: server_ok_def site_row_def valid_site_request_def valid_remote_endpoint_def status_texts_def schema_wg_key_def
      truthy_str_def or_empty_def split: option.splits)

lemma patched_keeps: "given_ok P v \<Longrightarrow> P old \<Longrightarrow> P (patched v old)"
  by (cases v) (simp_all add: given_ok_def patched_def)

definition endpoint_ok :: "string option \<Rightarrow> bool" where
  "endpoint_ok v \<longleftrightarrow> (case v of None \<Rightarrow> True | Some e \<Rightarrow> endpoint_form (strip e))"

lemma given_endpoint: "given_ok schema_endpoint v \<Longrightarrow> given_ok endpoint_ok v"
  by (auto simp: given_ok_def schema_endpoint_def endpoint_ok_def split: option.splits)

lemma patch_server_keeps:
  assumes "valid_server_patch d" "patch_server d r = Some row" "server_ok r"
  shows "server_ok row"
proof -
  have row: "vs_protocol row = vs_protocol r" "vs_status row = vs_status r" "vs_allowed row = patched (sp_allowed d) (vs_allowed r)"
    "vs_local row = patched (sp_local d) (vs_local r)" "vs_endpoint row = patched (sp_endpoint d) (vs_endpoint r)"
    "vs_peer_key row = patched (sp_peer_key d) (vs_peer_key r)" "vs_private_key row = patched (sp_private_key d) (vs_private_key r)"
    using assms(2) by (auto simp: patch_server_def split: option.splits)
  have old: "vs_protocol r \<in> set protocol_texts" "\<exists>s\<in>set status_texts. vs_status r = Some s" "schema_cidr_list (vs_allowed r)"
    "schema_local_address (vs_local r)" "endpoint_ok (vs_endpoint r)" "schema_wg_key (vs_peer_key r)" "schema_wg_key (vs_private_key r)"
    using assms(3) by (simp_all only: server_ok_def endpoint_ok_def)
  have given: "given_ok schema_cidr_list (sp_allowed d)" "given_ok schema_local_address (sp_local d)" "given_ok schema_endpoint (sp_endpoint d)"
    "given_ok schema_wg_key (sp_peer_key d)" "given_ok schema_wg_key (sp_private_key d)"
    using assms(1) by (simp_all only: valid_server_patch_def)
  have new: "schema_cidr_list (vs_allowed row)" "schema_local_address (vs_local row)" "endpoint_ok (vs_endpoint row)"
    "schema_wg_key (vs_peer_key row)" "schema_wg_key (vs_private_key row)"
    unfolding row
    by (rule patched_keeps[OF given(1) old(3)] patched_keeps[OF given(2) old(4)] patched_keeps[OF given_endpoint[OF given(3)] old(5)]
        patched_keeps[OF given(4) old(6)] patched_keeps[OF given(5) old(7)])+
  show ?thesis
    using old(1,2) new row(1,2) by (simp add: server_ok_def endpoint_ok_def)
qed

lemma vpn_inv_server_ok: "vpn_inv st \<Longrightarrow> row_get (vn_servers st) k = Some r \<Longrightarrow> server_ok r"
  unfolding vpn_inv_def by (blast dest: rows_allD)

lemma server_ok_status: "server_ok r \<Longrightarrow> s \<in> set status_texts \<Longrightarrow> server_ok (r\<lparr>vs_status := Some s\<rparr>)"
  by (simp add: server_ok_def)

lemma set_status_inv:
  assumes "vpn_inv st" "s \<in> set status_texts"
  shows "vpn_inv (set_status k s st)"
proof (cases "row_get (vn_servers st) k")
  case None
  with assms show ?thesis by (simp add: set_status_def)
next
  case (Some r)
  with assms show ?thesis
    by (simp add: set_status_def vpn_inv_server_set server_ok_status vpn_inv_server_ok[OF assms(1) Some])
qed

lemma create_server_inv: "vpn_inv st \<Longrightarrow> vpn_inv (snd (create_server tok i d st))"
  by (auto simp: create_server_def Let_def split: sum.splits prod.splits intro: vpn_inv_server_add[OF _ new_server_ok])

lemma update_server_inv:
  assumes "vpn_inv st"
  shows "vpn_inv (snd (update_server tok k p st))"
  using assms patch_server_keeps[of p _ _, OF _ _ vpn_inv_server_ok[OF assms, of k]]
  by (simp add: update_server_def vpn_inv_server_set split: sum.splits option.splits)

lemma delete_server_inv: "vpn_inv st \<Longrightarrow> vpn_inv (snd (delete_server tok k st))"
  by (simp add: delete_server_def vpn_inv_server_del split: sum.splits option.splits)

lemma unit_calls_inv:
  assumes "vpn_inv st"
  shows "vpn_inv (snd (start_server send tok k st))" "vpn_inv (snd (stop_server send tok k st))" "vpn_inv (snd (restart_server send tok k st))"
proof -
  have s: "''running'' \<in> set status_texts" "''stopped'' \<in> set status_texts" "''restarting'' \<in> set status_texts"
    by (simp_all add: status_texts_def)
  then show "vpn_inv (snd (start_server send tok k st))" "vpn_inv (snd (stop_server send tok k st))"
    using assms by (auto simp: start_server_def stop_server_def unit_action_def split: sum.splits prod.splits option.splits
        dest!: vpn_ask_inv intro!: set_status_inv)
  show "vpn_inv (snd (restart_server send tok k st))"
    using set_status_inv[OF assms s(3), of k] s assms
    by (auto simp: restart_server_def Let_def split: sum.splits prod.splits option.splits dest!: vpn_ask_inv intro!: set_status_inv)
qed

lemma audit_vpn_rows [simp]: "vn_servers (audit_vpn i a p ok d u st) = vn_servers st" "vn_clients (audit_vpn i a p ok d u st) = vn_clients st"
  "vn_conns (audit_vpn i a p ok d u st) = vn_conns st" "vn_routes (audit_vpn i a p ok d u st) = vn_routes st"
  by (simp_all add: audit_vpn_def on_gw_def)

lemma generate_keys_asks:
  assumes "vpn_ask send i ''POST'' ''/vpn/generate-keys'' J_Null st = (q, st1)" "generate_wireguard_keys send i u a st = (r, st')"
  shows "\<exists>ok d. st' = audit_vpn i a ''/vpn/generate-keys'' ok d u st1"
  using assms by (cases q) (auto simp: generate_wireguard_keys_def Let_def split: if_splits option.splits)

lemma generate_keys_inv:
  assumes "generate_wireguard_keys send i u a st = (r, st')"
  shows "vpn_inv st' = vpn_inv st \<and> vn_servers st' = vn_servers st \<and> vn_clients st' = vn_clients st"
proof -
  obtain q st1 where q: "vpn_ask send i ''POST'' ''/vpn/generate-keys'' J_Null st = (q, st1)"
    by (cases "vpn_ask send i ''POST'' ''/vpn/generate-keys'' J_Null st")
  show ?thesis using vpn_ask_inv[OF q] generate_keys_asks[OF q assms] by auto
qed

lemma store_client_inv:
  assumes "vpn_inv st" "row_get (vn_servers st) k \<noteq> None"
  shows "vpn_inv (snd (store_client k d p t st))"
proof -
  obtain j t' where a: "row_add (new_client k d p t) (vn_clients st) = (j, t')" by (cases "row_add (new_client k d p t) (vn_clients st)")
  have "vpn_inv (st\<lparr>vn_clients := t'\<rparr>)" using assms(2) by (intro vpn_inv_client_add[OF assms(1) _ a]) (simp add: new_client_def)
  with assms(1) a show ?thesis by (simp add: store_client_def)
qed

lemma create_client_inv: "vpn_inv st \<Longrightarrow> vpn_inv (snd (create_client rep send tok k d st))"
  by (auto simp: create_client_def split: sum.splits option.splits prod.splits dest!: generate_keys_inv intro!: store_client_inv)

lemma add_clients_inv:
  "vpn_inv st \<Longrightarrow> \<forall>c\<in>set cs. row_get (vn_servers st) (vc_server c) \<noteq> None \<Longrightarrow>
     fold (\<lambda>c (ks, t). case row_add c t of (k, t') \<Rightarrow> (ks @ [(k, c)], t')) cs (ks, vn_clients st) = (added, t') \<Longrightarrow>
     vpn_inv (st\<lparr>vn_clients := t'\<rparr>)"
proof (induction cs arbitrary: st ks)
  case (Cons c cs)
  obtain k t1 where a: "row_add c (vn_clients st) = (k, t1)" by (cases "row_add c (vn_clients st)")
  have "vpn_inv (st\<lparr>vn_clients := t1\<rparr>)" using Cons.prems(1,2) a by (intro vpn_inv_client_add) auto
  from Cons.IH[OF this, of "ks @ [(k, c)]"] Cons.prems(2,3) a show ?case by simp
qed (auto simp: vpn_inv_def)

lemma bulk_inv: "vpn_inv st \<Longrightarrow> vpn_inv (snd (bulk_create_clients rep tok k d st))"
  by (auto simp: bulk_create_clients_def Let_def add_clients_def bulk_client_def new_client_def
      split: sum.splits option.splits prod.splits intro!: add_clients_inv)

lemma vpn_inv_client_server: "vpn_inv st \<Longrightarrow> row_get (vn_clients st) j = Some c \<Longrightarrow> row_get (vn_servers st) (vc_server c) \<noteq> None"
  using points_toD by (fastforce simp: vpn_inv_def)

lemma patch_client_server: "patch_client d c = Some row \<Longrightarrow> vc_server row = vc_server c"
  by (auto simp: patch_client_def split: option.splits)

lemma client_changes_inv:
  assumes "vpn_inv st"
  shows "vpn_inv (snd (update_client tok j p st))" "vpn_inv (snd (delete_client tok j st))"
  using assms vpn_inv_client_server patch_client_server
  by (auto simp: update_client_def delete_client_def split: sum.splits option.splits intro!: vpn_inv_client_set vpn_inv_client_del)

lemma regenerate_inv: "vpn_inv st \<Longrightarrow> vpn_inv (snd (regenerate_client_credentials rep now send tok j st))"
  using vpn_inv_client_server[of st j]
  by (auto simp: regenerate_client_credentials_def Let_def split: sum.splits option.splits prod.splits
      dest!: generate_keys_inv intro!: vpn_inv_client_set)

lemma vpn_inv_conn_set:
  assumes "vpn_inv st" "row_get (vn_conns st) j = Some x" "vx_server y = vx_server x" "vx_client y = vx_client x"
  shows "vpn_inv (st\<lparr>vn_conns := row_set j y (vn_conns st)\<rparr>)"
proof -
  have "row_get (vn_servers st) (vx_server y) \<noteq> None" "row_get (vn_clients st) (vx_client y) \<noteq> None"
    using assms(1) points_toD[OF _ assms(2)] unfolding vpn_inv_def assms(3,4) by blast+
  with assms(1) show ?thesis by (simp add: vpn_inv_def rows.ok_put points_to_set)
qed

lemma disconnect_inv: "vpn_inv st \<Longrightarrow> vpn_inv (snd (disconnect_client tok j st))"
  by (auto simp: disconnect_client_def vpn_inv_conn_set split: sum.splits option.splits)

lemma vpn_inv_route_add:
  assumes "vpn_inv st" "row_get (vn_servers st) (vr_server r) \<noteq> None" "row_add r (vn_routes st) = (k, t')"
  shows "vpn_inv (st\<lparr>vn_routes := t'\<rparr>)"
  using assms rows.ok_add[OF _ assms(3)] by (auto simp: vpn_inv_def intro: points_to_add)

lemma route_calls_inv:
  assumes "vpn_inv st"
  shows "vpn_inv (snd (create_vpn_route bind tok k d st))" "vpn_inv (snd (delete_vpn_route tok j st))"
proof -
  show "vpn_inv (snd (create_vpn_route bind tok k d st))"
    using assms
    by (auto simp: create_vpn_route_def Let_def split: sum.splits option.splits prod.splits elim!: vpn_inv_route_add[rotated 2])
  show "vpn_inv (snd (delete_vpn_route tok j st))"
    using assms
    by (auto simp: delete_vpn_route_def vpn_inv_def rows.ok_del split: sum.splits option.splits intro: points_to_del)
qed

lemma apply_vpn_config_inv: "apply_vpn_config send i u st = (r, st') \<Longrightarrow> vpn_inv st' = vpn_inv st \<and> vn_servers st' = vn_servers st"
  by (auto simp: apply_vpn_config_def split: prod.splits sum.splits dest!: vpn_ask_inv)

lemma initialize_inv:
  assumes "vpn_inv st"
  shows "vpn_inv (snd (initialize_site_to_site bound send tok i q st))"
proof (cases "valid_site_request q")
  case True
  obtain k t' where a: "row_add (site_row i q) (vn_servers st) = (k, t')" by (cases "row_add (site_row i q) (vn_servers st)")
  have "vpn_inv (st\<lparr>vn_servers := t'\<rparr>)" by (rule vpn_inv_server_add[OF assms site_row_ok[OF True] a])
  with assms a show ?thesis
    by (auto simp: initialize_site_to_site_def Let_def split: sum.splits list.splits prod.splits dest!: apply_vpn_config_inv)
qed (simp add: initialize_site_to_site_def assms split: sum.splits)

lemma vpn_handle_inv: "vpn_inv st \<Longrightarrow> vpn_inv (vpn_handle e send tok c st)"
  by (cases c) (auto simp: vpn_handle_def create_server_inv update_server_inv delete_server_inv unit_calls_inv create_client_inv bulk_inv client_changes_inv regenerate_inv
      disconnect_inv route_calls_inv initialize_inv get_site_to_site_status_def Let_def split: sum.splits prod.splits dest!: vpn_ask_inv)

lemma vpn_steps_inv: "(vpn_step send)\<^sup>*\<^sup>* st st' \<Longrightarrow> vpn_inv st \<Longrightarrow> vpn_inv st'"
  by (induction rule: rtranclp_induct) (auto elim!: vpn_stepE intro: vpn_handle_inv)

end
