(* ===== verification/Wg_Props.thy ===== *)
theory Wg_Props
  imports Wg_Client
begin

text \<open>
  What an accepted request can put into the WireGuard client configuration, and what an apply leaves on
  the host in every outcome.
\<close>

section \<open>Assignments of a configuration text\<close>

text \<open>The keys of the lines that assign something, in order.\<close>

definition assignments :: "string \<Rightarrow> string list" where
  "assignments text = map (\<lambda>l. fst (partition_at CHR ''='' l)) (filter (\<lambda>l. CHR ''='' \<in> set l) (split_on newline text))"

lemma split_on_glue: "split_on c (a @ c # b) = split_on c a @ split_on c b"
proof (induction a)
  case (Cons x a)
  then show ?case by (cases "split_on c a") auto
qed simp

lemma assignments_glue: "assignments (a @ newline # b) = assignments a @ assignments b"
  by (simp add: assignments_def split_on_glue)

lemma assignments_lines: "ls \<noteq> [] \<Longrightarrow> assignments (join nl ls @ nl) = concat (map assignments ls)"
proof (induction ls rule: induct_list012)
  case (2 x)
  have "assignments [] = []" by (simp add: assignments_def)
  then show ?case using assignments_glue[of x "[]"] by simp
next
  case (3 x y zs)
  then show ?case using assignments_glue[of x "join nl (y # zs) @ nl"] by simp
qed simp

lemma split_on_prefix: "c \<notin> set k \<Longrightarrow> split_on c (k @ v) = (k @ hd (split_on c v)) # tl (split_on c v)"
proof (induction k)
  case Nil
  then show ?case by (cases "split_on c v") auto
qed (auto split: list.splits)

lemma partition_at_key: "c \<notin> set k \<Longrightarrow> partition_at c (k @ c # v) = (k, v)"
  by (induction k) auto

text \<open>A key, the sign, and a value without the sign: one assignment, however many lines the value has.\<close>

lemma assignments_key:
  assumes "newline \<notin> set k" "CHR ''='' \<notin> set k" "newline \<notin> set v \<or> CHR ''='' \<notin> set v"
  shows "assignments (k @ CHR ''='' # v) = [k]"
proof -
  have "newline \<noteq> CHR ''=''" by (simp add: char_defs)
  with assms(1) have s: "split_on newline (k @ CHR ''='' # v) = (k @ CHR ''='' # hd (split_on newline v)) # tl (split_on newline v)"
    using split_on_prefix[of newline "k @ [CHR ''='']" v] by simp
  have "\<forall>l\<in>set (tl (split_on newline v)). CHR ''='' \<notin> set l"
  proof (cases "newline \<in> set v")
    case True
    with assms(3) have "CHR ''='' \<notin> set v" by simp
    moreover have "set (tl (split_on newline v)) \<subseteq> set (split_on newline v)" by (cases "split_on newline v") auto
    ultimately show ?thesis using split_on_chars by fastforce
  qed simp
  then have "filter (\<lambda>l. CHR ''='' \<in> set l) (tl (split_on newline v)) = []" by (simp add: filter_empty_conv)
  with s assms(2) show ?thesis by (simp add: assignments_def partition_at_key)
qed

lemma assignments_none: "CHR ''='' \<notin> set v \<Longrightarrow> assignments v = []"
  using split_on_chars by (fastforce simp: assignments_def filter_empty_conv)

section \<open>Characters of accepted values\<close>

lemma not_forbidden: "\<not> wg_forbidden s \<longleftrightarrow> newline \<notin> set s \<and> carriage \<notin> set s \<and> CHR ''='' \<notin> set s"
  by (auto simp: wg_forbidden_def list_ex_iff)

interpretation wg_address: line_validator valid_local_address
  by unfold_locales (simp add: valid_local_address_def not_forbidden)

interpretation wg_endpoint: line_validator valid_endpoint
  by unfold_locales (simp add: valid_endpoint_def not_forbidden)

lemma key_char_not_special: "key_char c \<Longrightarrow> c \<noteq> newline \<and> c \<noteq> carriage"
  by (auto simp: key_char_def char_class_defs char_defs)

interpretation wg_key: line_validator wg_key_match
proof
  fix s assume a: "wg_key_match s"
  then have "length s = 44" "s ! 43 = CHR ''=''" "list_all key_char (take 43 s)" by (simp_all add: wg_key_match_def)
  then have s: "s = take 43 s @ [CHR ''='']"
    using append_take_drop_id[of 43 s] Cons_nth_drop_Suc[of 43 s] by simp
  have n: "newline \<notin> set (take 43 s)" using \<open>list_all key_char (take 43 s)\<close> key_char_not_special by (auto simp: list_all_iff)
  then have "newline \<notin> set (take 43 s @ [CHR ''=''])" by (simp add: char_defs)
  then show "newline \<notin> set s" by (simp only: s[symmetric] not_False_eq_True)
qed

lemma strip_keeps: "c \<in> set s \<Longrightarrow> \<not> is_space c \<Longrightarrow> c \<in> set (strip s)"
proof -
  have "c \<in> set (dropWhile is_space t)" if "c \<in> set t" "\<not> is_space c" for t using that by (induction t) auto
  then show "c \<in> set s \<Longrightarrow> \<not> is_space c \<Longrightarrow> c \<in> set (strip s)" by (simp add: strip_def lstrip_def rstrip_def)
qed

lemma join_member: "x \<in> set (join [c] ws) \<Longrightarrow> x \<noteq> c \<Longrightarrow> \<exists>w\<in>set ws. x \<in> set w"
  using set_join_subset[of "[c]" ws] by auto

lemma cidr_token_with: "c \<in> set s \<Longrightarrow> c \<noteq> CHR '','' \<Longrightarrow> \<not> is_space c \<Longrightarrow> \<exists>t\<in>set (cidr_tokens s). c \<in> set t"
proof -
  assume a: "c \<in> set s" "c \<noteq> CHR '',''" "\<not> is_space c"
  from a(1) have "c \<in> set (join [CHR '',''] (split_on CHR '','' s))" by (simp add: join_split_on)
  with a(2) obtain w where w: "w \<in> set (split_on CHR '','' s)" "c \<in> set w" using join_member by blast
  with a(3) have "c \<in> set (strip w)" by (simp add: strip_keeps)
  moreover from this have "strip w \<noteq> []" by auto
  ultimately show ?thesis using w(1) by (intro bexI[of _ "strip w"]) (simp_all add: cidr_tokens_def)
qed

lemma allowed_ips_no_sign: "valid_allowed_ips s \<Longrightarrow> CHR ''='' \<notin> set s"
proof
  assume v: "valid_allowed_ips s" and "CHR ''='' \<in> set s"
  moreover have "\<not> is_space CHR ''=''" by code_simp
  ultimately obtain t where "t \<in> set (cidr_tokens s)" "CHR ''='' \<in> set t" using cidr_token_with by blast
  with v show False by (auto simp: valid_allowed_ips_def list_all_iff not_forbidden)
qed

lemma assignments_allowed: "valid_allowed_ips s \<Longrightarrow> CHR ''='' \<notin> set post \<Longrightarrow> assignments (''AllowedIPs = '' @ s @ post) = [''AllowedIPs '']"
  using assignments_key[of "''AllowedIPs ''" "'' '' @ s @ post"] allowed_ips_no_sign[of s] by (simp add: char_defs)

lemma assignments_plain:
  assumes "newline \<notin> set v" "newline \<notin> set post"
  shows "assignments (''Address = '' @ v @ post) = [''Address '']" "assignments (''PrivateKey = '' @ v) = [''PrivateKey '']"
    "assignments (''PublicKey = '' @ v) = [''PublicKey '']" "assignments (''Endpoint = '' @ v) = [''Endpoint '']"
    "assignments (''PersistentKeepalive = '' @ v) = [''PersistentKeepalive '']"
    "assignments (''DNS = '' @ v @ post) = [''DNS '']"
  using assms assignments_key[of "''Address ''" "'' '' @ v @ post"] assignments_key[of "''PrivateKey ''" "'' '' @ v"]
    assignments_key[of "''PublicKey ''" "'' '' @ v"] assignments_key[of "''Endpoint ''" "'' '' @ v"]
    assignments_key[of "''PersistentKeepalive ''" "'' '' @ v"] assignments_key[of "''DNS ''" "'' '' @ v @ post"]
  by (simp_all add: char_defs)

lemma assignments_fixed:
  "assignments ''[Interface]'' = []" "assignments ''[Peer]'' = []" "assignments [] = []"
  "assignments ''#PrivateKey = (not provided - supply on next apply)'' = [''#PrivateKey '']"
  by code_simp+

section \<open>Properties\<close>

text \<open>C15: The only assignments in a rendered client configuration are the known keys, each once and in order: no value of the
  configuration adds a line such as \<open>PostUp\<close>, provided the DNS value has no line break. That value is the only unchecked one, and
  a request of the agent's endpoint has none.\<close>

theorem wg_config_assignments:
  assumes "render_wg_config m = Some text" "\<forall>d. wm_dns m = Some d \<longrightarrow> newline \<notin> set d"
  shows "assignments text = [if truthy_str (wm_private_key m) then ''PrivateKey '' else ''#PrivateKey '', ''Address '']
     @ (if truthy_str (wm_dns m) then [''DNS ''] else []) @ [''PublicKey '', ''Endpoint '', ''AllowedIPs '', ''PersistentKeepalive '']"
proof -
  have v: "valid_wg_config m" and t: "text = join nl (wg_lines m) @ nl"
    using assms(1) by (simp_all add: render_wg_config_def split: if_splits)
  have "assignments text = concat (map assignments (wg_lines m))"
    unfolding t by (rule assignments_lines) (simp add: wg_lines_def)
  moreover have "newline \<notin> set (wm_address m)" "newline \<notin> set (wm_endpoint m)" "newline \<notin> set (wm_peer_key m)"
    using v wg_address.ok_no_newline wg_endpoint.ok_no_newline wg_key.ok_no_newline by (auto simp: valid_wg_config_def)
  moreover have "newline \<notin> set (or_empty (wm_private_key m))"
    using v wg_key.ok_no_newline by (auto simp: valid_wg_config_def valid_wg_key_def or_empty_def split: option.splits)
  moreover have "newline \<notin> set (or_empty (wm_dns m))" using assms(2) by (simp add: or_empty_def split: option.splits)
  moreover have "newline \<notin> set ''  # Must match AllowedIPs on the server''" "newline \<notin> set ''  # Optional: Set DNS servers''"
    "CHR ''='' \<notin> set ''  # Route all traffic through VPN (or use 10.0.0.0/24 for VPN-only)''" by code_simp+
  moreover have "valid_allowed_ips (wm_allowed m)" using v by (simp add: valid_wg_config_def)
  ultimately show ?thesis
    by (simp add: wg_lines_def assignments_fixed assignments_plain assignments_allowed string_of_int_no_newline del: append_Cons)
qed

definition lab_wg :: wg_config where
  "lab_wg = \<lparr>wm_address = ''10.80.0.2/32'', wm_endpoint = ''vpn.example.org:51820'',
     wm_peer_key = replicate 43 CHR ''A'' @ ''='', wm_allowed = ''10.80.0.0/16, 10.81.0.0/16'', wm_private_key = None, wm_dns = None,
     wm_keepalive = 25\<rparr>"

lemma lab_wg_valid: "valid_wg_config lab_wg" by code_simp

theorem wg_config_assignments_witness:
  "\<exists>text. render_wg_config (lab_wg\<lparr>wm_dns := Some ''1.1.1.1''\<rparr>) = Some text \<and> assignments text =
     [''#PrivateKey '', ''Address '', ''DNS '', ''PublicKey '', ''Endpoint '', ''AllowedIPs '', ''PersistentKeepalive '']"
proof -
  let ?m = "lab_wg\<lparr>wm_dns := Some ''1.1.1.1''\<rparr>"
  have "valid_wg_config ?m" by code_simp
  then obtain t0 where t: "render_wg_config ?m = Some t0" by (simp add: render_wg_config_def)
  have "\<forall>d. wm_dns ?m = Some d \<longrightarrow> newline \<notin> set d" "truthy_str (wm_dns ?m)" "\<not> truthy_str (wm_private_key ?m)"
    by (simp_all add: lab_wg_def char_defs)
  with wg_config_assignments[OF t] t show ?thesis by simp
qed

text \<open>A DNS value with a line break does add a line.\<close>

theorem dns_value_adds_line:
  "case render_wg_config (lab_wg\<lparr>wm_dns := Some (''1.1.1.1'' @ nl @ ''PostUp = reboot'')\<rparr>) of
     None \<Rightarrow> False | Some text \<Rightarrow> ''PostUp '' \<in> set (assignments text)"
  by code_simp

definition unit_after :: "wg_env \<Rightarrow> string option \<Rightarrow> unit_state" where
  "unit_after env text = (case we_restart env True text of Ctl_Raised \<Rightarrow> Unit_Unknown | Ctl_Exit code err \<Rightarrow> if code = 0 then Unit_Running text else Unit_Failed)"

lemma write_config_refused:
  assumes "\<not> ((wh_conf h = None \<or> we_backup_ok env) \<and> render_wg_config m \<noteq> None \<and> we_write_ok env)"
  shows "\<exists>e h1. write_config env m h = (Some e, h1) \<and> wh_conf h1 = wh_conf h \<and> wh_unit h1 = wh_unit h \<and> wh_enabled h1 = wh_enabled h"
  using assms by (cases "write_config env m h") (auto simp: write_config_def Let_def split: option.splits if_splits)

lemma write_config_written:
  assumes "(wh_conf h = None \<or> we_backup_ok env) \<and> render_wg_config m \<noteq> None \<and> we_write_ok env"
  shows "write_config env m h = (None, h\<lparr>wh_backup := if wh_conf h = None then wh_backup h else wh_conf h, wh_conf := render_wg_config m\<rparr>)"
  using assms by (auto simp: write_config_def Let_def)

lemma restarted_again:
  "wh_unit (restarted env True h) = unit_after env (wh_conf h)" "wh_conf (restarted env True h) = wh_conf h"
  "wh_backup (restarted env True h) = wh_backup h" "wh_enabled (restarted env True h) = wh_enabled h"
  by (simp_all add: restarted_def unit_after_def)

text \<open>What follows a restart that exits with an error.\<close>

lemma wg_apply_goes_back:
  assumes "write_config env m h = (None, h1)" "we_restart env False (wh_conf h1) = Ctl_Exit code err" "code \<noteq> 0" "wg_apply env m h = (r, h')"
  shows "r \<noteq> None \<and> wh_backup h' = wh_backup h1 \<and> wh_enabled h' = wh_enabled h1
    \<and> (if wh_backup h1 = None then wh_conf h' = wh_conf h1 \<and> wh_unit h' = unit_after env (wh_conf h1)
       else if we_restore_ok env then wh_conf h' = wh_backup h1 \<and> wh_unit h' = unit_after env (wh_backup h1)
       else wh_conf h' = wh_conf h1 \<and> wh_unit h' = Unit_Failed)"
proof -
  let ?h2 = "h1\<lparr>wh_unit := Unit_Failed\<rparr>"
  have run: "(r, h') = (case restore_backup env ?h2 of (Some e, h2) \<Rightarrow> (Some e, h2)
      | (None, h2) \<Rightarrow> (case we_restart env True (wh_conf h2) of Ctl_Raised \<Rightarrow> (Some Wg_Raised, restarted env True h2)
          | Ctl_Exit c2 e2 \<Rightarrow> (Some (Wg_Apply code err), restarted env True h2)))"
    using assms by (simp add: wg_apply_def restarted_def)
  have fin: "\<exists>e. r = Some e" "h' = restarted env True h2" if "restore_backup env ?h2 = (None, h2)" for h2
    using run that by (auto split: ctl_outcome.splits)
  show ?thesis
  proof (cases "wh_backup h1")
    case None
    then have "restore_backup env ?h2 = (None, ?h2)" by (simp add: restore_backup_def)
    from fin[OF this] None show ?thesis by (auto simp: restarted_again)
  next
    case (Some old)
    then have "restore_backup env ?h2 = (if we_restore_ok env then (None, ?h2\<lparr>wh_conf := Some old\<rparr>) else (Some Wg_Os, ?h2))"
      by (simp add: restore_backup_def)
    with fin[of "?h2\<lparr>wh_conf := Some old\<rparr>"] run Some show ?thesis by (cases "we_restore_ok env") (auto simp: restarted_again)
  qed
qed

text \<open>C33: An apply that cannot back up the file from before, render its values or write the file fails and changes neither the file
  nor the unit. Otherwise the file from before is the backup. If the restart exits with 0, the apply succeeds with the unit running the rendered
  file. If it exits with an error, the apply fails with the backup in the file and the unit restarted with it, when there is a backup
  that can be copied; without one the refused file stays and is started once more. If it raises, as by a time-out, the apply
  fails and the new file stays. The enabled state is never touched.\<close>

theorem wg_apply_outcome:
  assumes "wg_apply env m h = (r, h')"
  shows "let new = render_wg_config m; written = ((wh_conf h = None \<or> we_backup_ok env) \<and> new \<noteq> None \<and> we_write_ok env);
           backup = (if wh_conf h = None then wh_backup h else wh_conf h) in
     wh_enabled h' = wh_enabled h
     \<and> (\<not> written \<longrightarrow> r \<noteq> None \<and> wh_conf h' = wh_conf h \<and> wh_unit h' = wh_unit h)
     \<and> (written \<longrightarrow> wh_backup h' = backup
          \<and> (case we_restart env False new of
               Ctl_Raised \<Rightarrow> r = Some Wg_Raised \<and> wh_conf h' = new \<and> wh_unit h' = Unit_Unknown
             | Ctl_Exit code err \<Rightarrow>
                 if code = 0 then r = None \<and> wh_conf h' = new \<and> wh_unit h' = Unit_Running new
                 else r \<noteq> None
                   \<and> (if backup = None then wh_conf h' = new \<and> wh_unit h' = unit_after env new
                      else if we_restore_ok env then wh_conf h' = backup \<and> wh_unit h' = unit_after env backup
                      else wh_conf h' = new \<and> wh_unit h' = Unit_Failed)))"
proof (cases "(wh_conf h = None \<or> we_backup_ok env) \<and> render_wg_config m \<noteq> None \<and> we_write_ok env")
  case False
  then obtain e h1 where "write_config env m h = (Some e, h1)" "wh_conf h1 = wh_conf h" "wh_unit h1 = wh_unit h" "wh_enabled h1 = wh_enabled h"
    using write_config_refused by blast
  moreover from this assms have "r = Some e" "h' = h1" by (simp_all add: wg_apply_def)
  ultimately have "wh_enabled h' = wh_enabled h" "r \<noteq> None \<and> wh_conf h' = wh_conf h \<and> wh_unit h' = wh_unit h" by simp_all
  with False show ?thesis unfolding Let_def by blast
next
  case True
  then obtain new where t: "render_wg_config m = Some new" "wh_conf h = None \<or> we_backup_ok env" "we_write_ok env" by auto
  note w = write_config_written[OF True, unfolded t(1)]
  show ?thesis
  proof (cases "we_restart env False (Some new)")
    case Ctl_Raised
    with t w assms show ?thesis by (auto simp: wg_apply_def restarted_def Let_def)
  next
    case (Ctl_Exit code err)
    show ?thesis
    proof (cases "code = 0")
      case c: True
      with w assms Ctl_Exit t show ?thesis by (auto simp: wg_apply_def restarted_def Let_def)
    next
      case False
      from wg_apply_goes_back[OF w _ False assms] Ctl_Exit t False show ?thesis by (simp add: Let_def)
    qed
  qed
qed

definition lab_wg_env :: wg_env where
  "lab_wg_env = \<lparr>we_backup_ok = True, we_write_ok = True, we_restore_ok = True,
     we_restart = (\<lambda>again conf. if again then Ctl_Exit 0 [] else Ctl_Exit 1 ''no handshake''), we_start = (\<lambda>c. Ctl_Exit 0 []),
     we_stop = Ctl_Exit 0 [], we_enable = Ctl_Exit 0 [], we_disable = Ctl_Exit 0 []\<rparr>"

definition lab_wg_host :: wg_host where
  "lab_wg_host = \<lparr>wh_conf = Some ''old'', wh_backup = None, wh_enabled = True, wh_unit = Unit_Running (Some ''old'')\<rparr>"

theorem wg_apply_outcome_witness:
  "wh_conf (snd (wg_apply lab_wg_env lab_wg lab_wg_host)) = Some ''old''
   \<and> wh_unit (snd (wg_apply lab_wg_env lab_wg lab_wg_host)) = Unit_Running (Some ''old'')"
proof -
  have "render_wg_config lab_wg \<noteq> None" by (simp add: render_wg_config_def lab_wg_valid)
  with wg_apply_outcome[of lab_wg_env lab_wg lab_wg_host "fst (wg_apply lab_wg_env lab_wg lab_wg_host)" "snd (wg_apply lab_wg_env lab_wg lab_wg_host)", OF surjective_pairing]
  show ?thesis by (simp add: Let_def lab_wg_env_def lab_wg_host_def unit_after_def)
qed

text \<open>The promise to restore after any failed apply is not kept in two cases: the first configuration of
  a host, which has nothing to go back to, and a restart that ends in an exception such as a time-out. The
  refused configuration stays in the file.\<close>

theorem wg_failed_apply_stays:
  "render_wg_config m = Some text \<Longrightarrow> we_write_ok env \<Longrightarrow>
   (wh_conf h = None \<and> wh_backup h = None \<and> we_restart env False (Some text) = Ctl_Exit 1 err)
     \<or> (we_backup_ok env \<and> we_restart env False (Some text) = Ctl_Raised) \<Longrightarrow>
   fst (wg_apply env m h) \<noteq> None \<and> wh_conf (snd (wg_apply env m h)) = Some text
     \<and> wh_unit (snd (wg_apply env m h)) \<noteq> Unit_Running (wh_conf h)"
  by (auto simp: wg_apply_def write_config_def restore_backup_def restarted_def Let_def split: ctl_outcome.splits if_splits)

end
