(* ===== verification/Gw_Vpn_System.thy ===== *)
theory Gw_Vpn_System
  imports Gw_Vpn_Props Gw_System Wg_Props
begin

text \<open>
  The gateway's VPN router and the VPN agent together: what runs on the host after a successful call, and
  which stored tunnels the agent can accept at all.
\<close>

section \<open>The agent as the other end\<close>

text \<open>The body of a start or stop: a protocol and an optional name.\<close>

definition read_unit_request :: "json \<Rightarrow> string option" where
  "read_unit_request b = (if key_of b ''name'' \<notin> {None, Some J_Null} \<and> str_key b ''name'' = None then None else str_key b ''protocol'')"

text \<open>The endpoints that leave the host alone (status, key generation, health) are the argument \<open>rest\<close>.\<close>

definition vpn_agent :: "wg_env \<Rightarrow> (string \<Rightarrow> json http_exchange) \<Rightarrow> string \<Rightarrow> string \<Rightarrow> wg_host sender" where
  "vpn_agent env rest key base url k meth body h =
     (case authorize (Some key) ''http'' ''/vpn'' [(''x-instance-key'', k)] of
        Status c \<Rightarrow> (Http_Status c [], h)
      | Passed \<Rightarrow>
          (let answer = (\<lambda>(code, h'). (if code = 200 then Http_Ok (J_Obj []) else Http_Status code [], h'));
               unit_call = (\<lambda>f. case read_unit_request body of None \<Rightarrow> (Http_Status 422 [], h) | Some p \<Rightarrow> answer (f p h)) in
           if meth = ''POST'' \<and> url = base @ ''/vpn/apply'' then
             (case read_vpn_apply body of None \<Rightarrow> (Http_Status 422 [], h) | Some r \<Rightarrow> answer (vpn_apply env r h))
           else if meth = ''POST'' \<and> url = base @ ''/vpn/start'' then unit_call (vpn_start env)
           else if meth = ''POST'' \<and> url = base @ ''/vpn/stop'' then unit_call (vpn_stop env)
           else (rest url, h)))"

lemma authorized: "authorize (Some key) ''http'' ''/vpn'' [(''x-instance-key'', k)] = (if k = key then Passed else Status 401)"
  by (simp add: authorize_def provided_key_def or_empty_def)

text \<open>A request that got an answer reached the agent under the instance's key.\<close>

lemma vpn_ask_answered:
  assumes "vpn_ask send i meth path body st = (Inr r, st')"
  obtains endpoint w where "get_instance_endpoint (fd_instances (gs_db (vn_gw st))) i (Some ''vpn'') = Inr endpoint"
    "send (endpoint @ path) (key_of_instance (gs_db (vn_gw st)) i) meth body (gs_world (vn_gw st)) = (Http_Ok r, w)"
    "gs_world (vn_gw st') = w" "vn_servers st' = vn_servers st" "gs_db (vn_gw st') = gs_db (vn_gw st)"
proof -
  obtain endpoint where e: "get_instance_endpoint (fd_instances (gs_db (vn_gw st))) i (Some ''vpn'') = Inr endpoint"
    using assms by (cases "get_instance_endpoint (fd_instances (gs_db (vn_gw st))) i (Some ''vpn'')")
      (auto simp: vpn_ask_def ask_def agent_request_def)
  with assms have "\<exists>w. send (endpoint @ path) (key_of_instance (gs_db (vn_gw st)) i) meth body (gs_world (vn_gw st)) = (Http_Ok r, w)
      \<and> st' = st\<lparr>vn_gw := (vn_gw st)\<lparr>gs_world := w\<rparr>\<rparr>"
    by (auto simp: vpn_ask_def ask_def agent_request_def Let_def key_of_instance_def split: prod.splits http_exchange.splits)
  with e that show ?thesis by auto
qed

text \<open>The three paths cannot be confused, whatever the endpoint of the instance is.\<close>

lemma paths_differ:
  "a @ ''/vpn/start'' \<noteq> b @ ''/vpn/apply''" "a @ ''/vpn/stop'' \<noteq> b @ ''/vpn/apply''" "a @ ''/vpn/stop'' \<noteq> b @ ''/vpn/start''"
  "a @ ''/vpn/apply'' \<noteq> b @ ''/vpn/start''"
  by (auto dest: arg_cong[of _ _ last])

text \<open>The instance's VPN requests go to this address under this key.\<close>

definition agent_at :: "'w vpn_state \<Rightarrow> nat \<Rightarrow> string \<Rightarrow> string \<Rightarrow> bool" where
  "agent_at st i base key \<longleftrightarrow> get_instance_endpoint (fd_instances (gs_db (vn_gw st))) i (Some ''vpn'') = Inr base
     \<and> key_of_instance (gs_db (vn_gw st)) i = key"

section \<open>The tunnel that runs\<close>

definition tunnel_config :: "vpn_server \<Rightarrow> wg_config" where
  "tunnel_config s = \<lparr>wm_address = or_empty (vs_local s), wm_endpoint = or_empty (vs_endpoint s), wm_peer_key = or_empty (vs_peer_key s),
     wm_allowed = or_empty (vs_allowed s), wm_private_key = vs_private_key s, wm_dns = None,
     wm_keepalive = (case vs_keepalive s of None \<Rightarrow> 25 | Some n \<Rightarrow> n)\<rparr>"

definition tunnel_request :: "vpn_server \<Rightarrow> vpn_apply_request" where
  "tunnel_request s = \<lparr>va_protocol = vs_protocol s, va_name = vs_name s, va_address = or_empty (vs_local s),
     va_private_key = vs_private_key s, va_endpoint = or_empty (vs_endpoint s), va_peer_key = or_empty (vs_peer_key s),
     va_allowed = or_empty (vs_allowed s), va_keepalive = (case vs_keepalive s of None \<Rightarrow> 25 | Some n \<Rightarrow> n)\<rparr>"

definition tunnel_complete :: "vpn_server \<Rightarrow> bool" where
  "tunnel_complete s \<longleftrightarrow> vs_local s \<noteq> None \<and> vs_endpoint s \<noteq> None \<and> vs_peer_key s \<noteq> None \<and> vs_allowed s \<noteq> None"

lemma tunnel_keys:
  "str_key (tunnel_payload s) ''protocol'' = Some (vs_protocol s)" "str_key (tunnel_payload s) ''name'' = Some (vs_name s)"
  "str_key (tunnel_payload s) ''address'' = vs_local s" "str_key (tunnel_payload s) ''endpoint'' = vs_endpoint s"
  "str_key (tunnel_payload s) ''peer_public_key'' = vs_peer_key s" "str_key (tunnel_payload s) ''allowed_ips'' = vs_allowed s"
  "str_key (tunnel_payload s) ''private_key'' = vs_private_key s" "int_key (tunnel_payload s) ''persistent_keepalive'' = vs_keepalive s"
  "key_of (tunnel_payload s) ''private_key'' = map_option J_Str (vs_private_key s)"
  "key_of (tunnel_payload s) ''persistent_keepalive'' = map_option J_Int (vs_keepalive s)"
  by (simp_all add: tunnel_payload_def str_key_def int_key_def key_drop_none opt_str_def opt_int_def split: option.splits)

lemma read_tunnel: "read_vpn_apply (tunnel_payload s) = (if tunnel_complete s then Some (tunnel_request s) else None)"
  by (auto simp: read_vpn_apply_def tunnel_keys tunnel_complete_def tunnel_request_def or_empty_def split: option.splits)

lemma tunnel_config_of_request: "config_of_request (tunnel_request s) = tunnel_config s"
  by (simp add: config_of_request_def tunnel_request_def tunnel_config_def)

lemma read_empty: "read_vpn_apply (J_Obj []) = None"
  by (simp add: read_vpn_apply_def str_key_def)

lemma vpn_apply_ok: "vpn_apply env r h = (200, h') \<Longrightarrow>
    valid_vpn_apply r \<and> wg_apply env (config_of_request r) h = (None, h')"
  by (auto simp: vpn_apply_def split: if_splits prod.splits option.splits)

lemma wg_apply_ok: "wg_apply env m h = (None, h') \<Longrightarrow>
    render_wg_config m \<noteq> None \<and> wh_conf h' = render_wg_config m \<and> wh_unit h' = Unit_Running (wh_conf h')"
  by (auto simp: wg_apply_def write_config_def restore_backup_def restarted_def Let_def
      split: prod.splits option.splits ctl_outcome.splits if_splits)

text \<open>A dispatch that succeeds runs the first outgoing tunnel of the instance.\<close>

definition active_tunnel :: "vpn_server table \<Rightarrow> nat \<Rightarrow> (nat \<times> vpn_server) option" where
  "active_tunnel t i = find (\<lambda>e. outgoing (snd e)) (enabled_servers t i)"

lemma dispatched_tunnel_runs:
  assumes "apply_vpn_config (vpn_agent env rest key base) i u st = (Inr r, st')" "agent_at st i base key"
  shows "\<exists>k s. active_tunnel (vn_servers st) i = Some (k, s) \<and> vn_servers st' = vn_servers st
     \<and> render_wg_config (tunnel_config s) \<noteq> None \<and> wh_conf (gs_world (vn_gw st')) = render_wg_config (tunnel_config s)
     \<and> wh_unit (gs_world (vn_gw st')) = Unit_Running (wh_conf (gs_world (vn_gw st')))"
proof -
  let ?body = "build_instance_vpn_payload (vn_servers st) i" and ?h = "gs_world (vn_gw st)"
  obtain st1 where a: "vpn_ask (vpn_agent env rest key base) i ''POST'' ''/vpn/apply'' ?body st = (Inr r, st1)"
    and st': "gs_world (vn_gw st') = gs_world (vn_gw st1)" "vn_servers st' = vn_servers st1"
    using assms(1) by (auto simp: apply_vpn_config_def audit_vpn_def on_gw_def audit_dispatch_def set_db_def split: prod.splits sum.splits)
  obtain e w where s: "get_instance_endpoint (fd_instances (gs_db (vn_gw st))) i (Some ''vpn'') = Inr e"
      "vpn_agent env rest key base (e @ ''/vpn/apply'') (key_of_instance (gs_db (vn_gw st)) i) ''POST'' ?body ?h = (Http_Ok r, w)"
    and w: "gs_world (vn_gw st1) = w" "vn_servers st1 = vn_servers st"
    using vpn_ask_answered[OF a] by metis
  with assms(2) obtain q where q: "read_vpn_apply ?body = Some q" "vpn_apply env q ?h = (200, w)"
    by (auto simp: agent_at_def vpn_agent_def authorized split: option.splits prod.splits if_splits)
  obtain k t where act: "active_tunnel (vn_servers st) i = Some (k, t)" "?body = tunnel_payload t"
    using q(1) by (auto simp: build_instance_vpn_payload_def active_tunnel_def read_empty split: option.splits)
  with q(1) have "q = tunnel_request t" by (simp add: read_tunnel split: if_splits)
  with q(2) have "wg_apply env (tunnel_config t) ?h = (None, w)" using vpn_apply_ok tunnel_config_of_request by metis
  from wg_apply_ok[OF this] show ?thesis using act(1) w st' by auto
qed

lemma initialize_dispatches:
  assumes "initialize_site_to_site bound send tok i q st = (Inr (k, r), st')"
  obtains u t' st1 where "require_admin tok = Inr u" "valid_site_request q" "row_get (fd_instances (gs_db (vn_gw st))) i \<noteq> None"
    "site_clashes (vn_servers st) i (site_name (sr_endpoint q)) = []" "row_add (site_row i q) (vn_servers st) = (k, t')"
    "st1 = on_gw (audit (Some u) ''create'' ''vpn_server'' k i) (st\<lparr>vn_servers := t'\<rparr>)"
    "apply_vpn_config send i u st1 = (Inr r, st')" "bound"
  using assms
  by (auto simp: initialize_site_to_site_def Let_def split: sum.splits if_splits list.splits prod.splits)

lemma agent_at_audit [simp]: "agent_at (on_gw (audit u a ty k j) (st\<lparr>vn_servers := t\<rparr>)) i base key = agent_at st i base key"
  by (simp add: agent_at_def on_gw_def audit_def set_db_def key_of_instance_def)

text \<open>The new row is the last of its instance, so it is the active tunnel unless another one is enabled.\<close>

lemma enabled_added:
  assumes "table_ok t" "row_add r t = (k, t')" "vs_instance r = i" "vs_enabled r = Some True"
  shows "enabled_servers t' i = enabled_servers t i @ [(k, r)]"
proof -
  let ?p = "\<lambda>s. vs_instance s = i \<and> vs_enabled s = Some True"
  have "rows_where ?p t' = rows_where ?p t @ [(k, r)]" using assms(2-4) by (auto simp: rows_where_def row_add_def)
  moreover have "fst e \<le> k" if "e \<in> set (rows_where ?p t)" for e
    using that assms(1,2) by (auto simp: rows_where_def table_ok_def row_add_def intro: less_imp_le)
  ultimately show ?thesis unfolding enabled_servers_def using sort_key_last[of "rows_where ?p t" fst "(k, r)"] by simp
qed

lemma find_append: "find p (xs @ ys) = (case find p xs of None \<Rightarrow> find p ys | Some x \<Rightarrow> Some x)"
  by (induction xs) auto

lemma active_added:
  assumes "table_ok t" "row_add (site_row i q) t = (k, t')"
  shows "active_tunnel t' i = (case active_tunnel t i of None \<Rightarrow> Some (k, site_row i q) | Some e \<Rightarrow> Some e)"
proof -
  have r: "vs_instance (site_row i q) = i" "vs_enabled (site_row i q) = Some True" "outgoing (site_row i q)"
    by (simp_all add: site_row_def outgoing_def)
  show ?thesis unfolding active_tunnel_def enabled_added[OF assms r(1,2)] by (simp add: find_append r(3) split: option.splits)
qed

text \<open>What an answer with a row would mean. The deployed gateway never gives one, because the session name is unbound
  there (\<open>unbound_session_strands_tunnel\<close>); with the name bound, the row is stored as requested, the host's client
  configuration is the rendering of the first outgoing tunnel of the instance that is enabled, the new one exactly when the
  instance had no outgoing tunnel enabled before, and the unit runs with it.\<close>

theorem initialized_tunnel_is_up:
  "initialize_site_to_site bound (vpn_agent env rest key base) tok i q st = (Inr (k, r), st') \<Longrightarrow> agent_at st i base key \<Longrightarrow>
   table_ok (vn_servers st) \<Longrightarrow>
     row_get (vn_servers st) k = None \<and> row_get (vn_servers st') k = Some (site_row i q)
     \<and> (let s = (case active_tunnel (vn_servers st) i of None \<Rightarrow> site_row i q | Some (j, s) \<Rightarrow> s); h = gs_world (vn_gw st') in
        active_tunnel (vn_servers st') i = Some (case active_tunnel (vn_servers st) i of None \<Rightarrow> (k, site_row i q) | Some e \<Rightarrow> e)
        \<and> render_wg_config (tunnel_config s) \<noteq> None \<and> wh_conf h = render_wg_config (tunnel_config s)
        \<and> wh_unit h = Unit_Running (wh_conf h))"
proof -
  assume c: "initialize_site_to_site bound (vpn_agent env rest key base) tok i q st = (Inr (k, r), st')"
    and at: "agent_at st i base key" and ok: "table_ok (vn_servers st)"
  obtain u t' st1 where add: "row_add (site_row i q) (vn_servers st) = (k, t')"
    and st1: "st1 = on_gw (audit (Some u) ''create'' ''vpn_server'' k i) (st\<lparr>vn_servers := t'\<rparr>)"
    and ap: "apply_vpn_config (vpn_agent env rest key base) i u st1 = (Inr r, st')"
    using c by (rule initialize_dispatches)
  have t1: "vn_servers st1 = t'" by (simp add: st1 on_gw_def)
  have "agent_at st1 i base key" using at by (simp add: st1)
  from dispatched_tunnel_runs[OF ap this] active_added[OF ok add]
  show ?thesis using rows.add_fresh[OF ok add] rows.get_add[OF ok add, of k] unfolding t1
    by (auto simp: Let_def split: option.splits)
qed

section \<open>A concrete run\<close>

definition lab_vpn :: "'w \<Rightarrow> 'w vpn_state" where
  "lab_vpn w = \<lparr>vn_gw = lab_gw w, vn_servers = empty_table, vn_clients = empty_table, vn_conns = empty_table, vn_routes = empty_table\<rparr>"

definition lab_site :: site_request where
  "lab_site = \<lparr>sr_endpoint = ''vpn.example.org:51820'', sr_key = replicate 43 CHR ''A'' @ ''='', sr_protocol = Wireguard,
     sr_local = None, sr_allowed = None, sr_keepalive = None\<rparr>"

definition calm_wg_env :: wg_env where
  "calm_wg_env = lab_wg_env\<lparr>we_restart := (\<lambda>again conf. Ctl_Exit 0 [])\<rparr>"

definition lab_wg_agent :: "wg_host sender" where
  "lab_wg_agent = vpn_agent calm_wg_env (\<lambda>url. Http_Status 404 []) ''k'' ''http://agent''"

lemma lab_site_valid: "valid_site_request lab_site" by code_simp

lemma lab_site_protocol: "sr_protocol lab_site = Wireguard" by (simp add: lab_site_def)

lemma lab_site_config: "valid_vpn_apply (tunnel_request (site_row 1 lab_site))" "valid_wg_config (tunnel_config (site_row 1 lab_site))"
  by code_simp+

lemma lab_admin_ok: "require_admin lab_admin = Inr 1" by (simp add: require_admin_def lab_admin_def)

lemma lab_vpn_facts: "vn_servers (lab_vpn w) = empty_table" "row_get (fd_instances (gs_db (vn_gw (lab_vpn w)))) 1 = Some lab_instance"
  "gs_world (vn_gw (lab_vpn w)) = w"
  by (simp_all add: lab_vpn_def lab_gw_def lab_db_def row_get_def)

lemma lab_vpn_inv: "vpn_inv (lab_vpn w)"
  by (simp add: lab_vpn_def vpn_inv_def points_to_def)

lemma lab_agent_at: "agent_at (lab_vpn w) 1 ''http://agent'' ''k''"
proof -
  have "rstrip_char CHR ''/'' ''http://agent'' = ''http://agent''" by code_simp
  then show ?thesis
    by (simp add: agent_at_def lab_vpn_facts key_of_instance_def get_instance_endpoint_def lab_instance_def truthy_str_def
        del: One_nat_def)
qed

lemma lab_site_row: "row_add (site_row 1 lab_site) empty_table = (1, \<lparr>tb_rows = [(1, site_row 1 lab_site)], tb_next = 2\<rparr>)"
  by (simp add: row_add_def empty_table_def)

lemma agent_applies:
  assumes "agent_at st i base key" "active_tunnel (vn_servers st) i = Some (k, s)" "tunnel_complete s"
    "vpn_apply env (tunnel_request s) (gs_world (vn_gw st)) = (200, h)"
  shows "\<exists>st'. apply_vpn_config (vpn_agent env rest key base) i u st = (Inr (J_Obj []), st')"
proof -
  have "build_instance_vpn_payload (vn_servers st) i = tunnel_payload s"
    using assms(2) by (simp add: build_instance_vpn_payload_def active_tunnel_def)
  then have "vpn_agent env rest key base (base @ ''/vpn/apply'') (key_of_instance (gs_db (vn_gw st)) i) ''POST''
      (build_instance_vpn_payload (vn_servers st) i) (gs_world (vn_gw st)) = (Http_Ok (J_Obj []), h)"
    using assms by (simp add: vpn_agent_def authorized agent_at_def read_tunnel)
  then have "\<exists>st1. vpn_ask (vpn_agent env rest key base) i ''POST'' ''/vpn/apply'' (build_instance_vpn_payload (vn_servers st) i) st
      = (Inr (J_Obj []), st1)"
    using assms(1) by (simp add: vpn_ask_def ask_def agent_request_def agent_at_def key_of_instance_def Let_def)
  then show ?thesis by (auto simp: apply_vpn_config_def)
qed

lemma lab_initialize: "\<exists>r st'. initialize_site_to_site True lab_wg_agent lab_admin 1 lab_site (lab_vpn lab_wg_host) = (Inr (1, r), st')"
proof -
  let ?t = "\<lparr>tb_rows = [(1, site_row 1 lab_site)], tb_next = 2\<rparr>"
  let ?st = "on_gw (audit (Some 1) ''create'' ''vpn_server'' 1 1) ((lab_vpn lab_wg_host)\<lparr>vn_servers := ?t\<rparr>)"
  have w: "gs_world (vn_gw ?st) = lab_wg_host" by (simp add: on_gw_def audit_def set_db_def lab_vpn_facts)
  have none: "site_clashes empty_table 1 n = []" "active_tunnel empty_table 1 = None" for n
    by (simp_all add: site_clashes_def active_tunnel_def enabled_servers_def rows_where_def empty_table_def)
  have act: "active_tunnel (vn_servers ?st) 1 = Some (1, site_row 1 lab_site)"
    using active_added[OF empty_table_ok lab_site_row] none by (simp add: on_gw_def)
  have complete: "tunnel_complete (site_row 1 lab_site)" by (simp add: tunnel_complete_def site_row_def)
  have p: "va_protocol (tunnel_request (site_row 1 lab_site)) = ''wireguard''"
    by (simp add: tunnel_request_def site_row_def lab_site_def vpn_protocol_text_def)
  have "\<exists>h. vpn_apply calm_wg_env (tunnel_request (site_row 1 lab_site)) lab_wg_host = (200, h)"
    using lab_site_config(1) p
    by (simp add: vpn_apply_def tunnel_config_of_request wg_apply_def write_config_def calm_wg_env_def lab_wg_env_def lab_wg_host_def
        render_wg_config_def lab_site_config(2) Let_def del: One_nat_def)
  then obtain h where h: "vpn_apply calm_wg_env (tunnel_request (site_row 1 lab_site)) (gs_world (vn_gw ?st)) = (200, h)"
    unfolding w by blast
  have "agent_at ?st 1 ''http://agent'' ''k''" using lab_agent_at by simp
  from agent_applies[OF this act complete h] obtain st'
    where "apply_vpn_config lab_wg_agent 1 1 ?st = (Inr (J_Obj []), st')"
    unfolding lab_wg_agent_def by blast
  then show ?thesis
    by (simp add: initialize_site_to_site_def Let_def lab_admin_ok lab_vpn_facts lab_site_valid none lab_site_row lab_site_protocol
        del: One_nat_def)
qed

theorem initialized_tunnel_is_up_witness:
  "\<exists>h. h = gs_world (vn_gw (snd (initialize_site_to_site True lab_wg_agent lab_admin 1 lab_site (lab_vpn lab_wg_host))))
     \<and> wh_conf h = render_wg_config (tunnel_config (site_row 1 lab_site)) \<and> wh_unit h = Unit_Running (wh_conf h)"
proof -
  obtain r st' where c: "initialize_site_to_site True lab_wg_agent lab_admin 1 lab_site (lab_vpn lab_wg_host) = (Inr (1, r), st')"
    using lab_initialize by blast
  have none: "active_tunnel empty_table 1 = None"
    by (simp add: active_tunnel_def enabled_servers_def rows_where_def empty_table_def)
  have "table_ok (vn_servers (lab_vpn lab_wg_host))" by (simp add: lab_vpn_facts)
  from initialized_tunnel_is_up[OF c[unfolded lab_wg_agent_def] lab_agent_at this] show ?thesis
    by (simp add: c lab_vpn_facts none Let_def del: One_nat_def)
qed

end
