(* ===== verification/Gw_Vpn_Claims.thy ===== *)
theory Gw_Vpn_Claims
  imports Gw_Vpn_System
begin

text \<open>
  Properties of the VPN router over all runs, of the unit calls, of the client configurations, and the two
  ways in which a tunnel or a key ends up where it should not.
\<close>

section \<open>Rows in every run\<close>

text \<open>C6: Whatever is called by whomever, and whatever the agents answer: every stored server keeps a known
  protocol and status, allowed networks, a local address and keys that the schema accepts, and an endpoint that has the
  schema's form once the blanks around it are stripped; and every client, connection and route belongs to
  rows that exist. Nothing is claimed of the keepalive, which an initialization stores without a bound.\<close>

theorem vpn_rows_invariant: "(vpn_step send)\<^sup>*\<^sup>* st st' \<Longrightarrow> vpn_inv st \<Longrightarrow> vpn_inv st'"
  by (rule vpn_steps_inv)

definition lab_vpn_env :: "bool \<Rightarrow> vpn_env" where
  "lab_vpn_env b = \<lparr>ve_rep = (\<lambda>j. []), ve_bind = (\<lambda>n. None), ve_now = 0, ve_bound = b\<rparr>"

definition lab_vpn_after :: "wg_host vpn_state" where
  "lab_vpn_after = vpn_handle (lab_vpn_env False) lab_wg_agent lab_admin (Initialize_Site 1 lab_site) (lab_vpn lab_wg_host)"

lemma lab_vpn_run: "(vpn_step lab_wg_agent)\<^sup>*\<^sup>* (lab_vpn lab_wg_host) lab_vpn_after"
  unfolding lab_vpn_after_def by (rule r_into_rtranclp) (rule vpn_step.handle)

theorem vpn_rows_invariant_witness: "vpn_inv lab_vpn_after"
  by (rule vpn_rows_invariant[OF lab_vpn_run lab_vpn_inv])

lemma schema_values:
  "schema_cidr_list (Some s) = valid_allowed_ips s" "schema_local_address (Some a) = valid_local_address a"
  "schema_wg_key v = valid_wg_key v"
  by (simp_all add: schema_cidr_list_def valid_allowed_ips_def cidr_tokens_def Let_def schema_local_address_def valid_local_address_def
      schema_wg_key_def valid_wg_key_def)

text \<open>C19: In every reachable state, the body of a tunnel with all its values is read by the agent. Its apply then answers 422 exactly
  when the endpoint as stored fails the agent's own check (the gateway checked it without the blanks around it) or the keepalive is out of
  bounds, and 400 exactly when these are right but the protocol is another one than WireGuard; in both cases the host is
  unchanged. Any other body gets to the manager.\<close>

theorem reachable_tunnel_accepted:
  assumes run: "(vpn_step send)\<^sup>*\<^sup>* st st'" and inv: "vpn_inv st" and s: "row_get (vn_servers st') k = Some s" and c: "tunnel_complete s"
  shows "\<exists>r. read_vpn_apply (tunnel_payload s) = Some r \<and> endpoint_form (strip (va_endpoint r))
       \<and> (let right = (valid_endpoint (va_endpoint r) \<and> (\<forall>n. vs_keepalive s = Some n \<longrightarrow> 0 \<le> n \<and> n \<le> 65535)) in
          vpn_apply env r h =
            (if \<not> right then (422, h)
             else if vs_protocol s \<noteq> ''wireguard'' then (400, h)
             else (case wg_apply env (tunnel_config s) h of (None, h1) \<Rightarrow> (200, h1) | (Some e, h1) \<Rightarrow> (500, h1))))"
proof -
  have ok: "server_ok s" using vpn_inv_server_ok[OF vpn_steps_inv[OF run inv] s] .
  from c obtain a e p ips where v: "vs_local s = Some a" "vs_endpoint s = Some e" "vs_peer_key s = Some p" "vs_allowed s = Some ips"
    by (auto simp: tunnel_complete_def)
  have good: "valid_local_address a" "endpoint_form (strip e)" "wg_key_match p" "valid_allowed_ips ips" "valid_wg_key (vs_private_key s)"
    using ok by (simp_all add: server_ok_def v schema_values) (simp add: valid_wg_key_def)
  then have "valid_vpn_apply (tunnel_request s) \<longleftrightarrow> valid_endpoint e \<and> (\<forall>n. vs_keepalive s = Some n \<longrightarrow> 0 \<le> n \<and> n \<le> 65535)"
    by (auto simp: valid_vpn_apply_def tunnel_request_def v or_empty_def split: option.splits)
  moreover have "va_endpoint (tunnel_request s) = e" "va_protocol (tunnel_request s) = vs_protocol s"
    by (simp_all add: tunnel_request_def v or_empty_def)
  ultimately show ?thesis using c good(2)
    by (auto simp: read_tunnel vpn_apply_def tunnel_config_of_request Let_def)
qed

section \<open>A tunnel that is never built\<close>

text \<open>C2: The gateway binds the session name when its router is imported, before the database is set up, so in the deployed
  program it stays unbound. Then the first accepted initialization of a tunnel stores its row as requested, asks no agent and answers
  500. In the state it leaves no initialization for that instance gets through: the same request is a 409, any other
  of anybody an error too, and none changes anything, even with the name bound.\<close>

theorem unbound_session_strands_tunnel:
  "require_admin tok = Inr u \<Longrightarrow> row_get (fd_instances (gs_db (vn_gw st))) i \<noteq> None \<Longrightarrow> valid_site_request q \<Longrightarrow> sr_protocol q = Wireguard \<Longrightarrow>
   table_ok (vn_servers st) \<Longrightarrow> site_clashes (vn_servers st) i (site_name (sr_endpoint q)) = [] \<Longrightarrow>
   initialize_site_to_site False send tok i q st = (r, st') \<Longrightarrow>
     r = Inl 500 \<and> (\<exists>k. row_get (vn_servers st) k = None \<and> row_get (vn_servers st') k = Some (site_row i q))
     \<and> gs_world (vn_gw st') = gs_world (vn_gw st)
     \<and> initialize_site_to_site b send tok i q st' = (Inl 409, st')
     \<and> (\<exists>c. initialize_site_to_site b send tok2 i q2 st' = (Inl c, st'))"
proof -
  assume u: "require_admin tok = Inr u" and i: "row_get (fd_instances (gs_db (vn_gw st))) i \<noteq> None" and q: "valid_site_request q"
    "sr_protocol q = Wireguard" and ok: "table_ok (vn_servers st)" and free: "site_clashes (vn_servers st) i (site_name (sr_endpoint q)) = []"
    and c: "initialize_site_to_site False send tok i q st = (r, st')"
  obtain k t' where add: "row_add (site_row i q) (vn_servers st) = (k, t')" by (cases "row_add (site_row i q) (vn_servers st)")
  have st': "r = Inl 500" "vn_servers st' = t'" "gs_world (vn_gw st') = gs_world (vn_gw st)"
    "row_get (fd_instances (gs_db (vn_gw st'))) i \<noteq> None"
    using c u i q free add by (auto simp: initialize_site_to_site_def Let_def on_gw_def audit_def set_db_def)
  have row: "vs_instance (site_row i q) = i" "vs_tunnel (site_row i q) = Some ''site-to-site''"
    by (simp_all add: site_row_def)
  have clash: "site_clashes t' i n = site_clashes (vn_servers st) i n @ [(k, site_row i q)]" for n
    using add row by (auto simp: site_clashes_def rows_where_def row_add_def)
  have "initialize_site_to_site b send tok i q st' = (Inl 409, st')"
    using u i q free st' clash by (simp add: initialize_site_to_site_def)
  moreover have "\<exists>c. initialize_site_to_site b send tok2 i q2 st' = (Inl c, st')"
    using st' clash[of "site_name (sr_endpoint q2)"]
    by (cases "site_clashes (vn_servers st) i (site_name (sr_endpoint q2))")
      (auto simp: initialize_site_to_site_def split: sum.splits list.splits)
  ultimately show ?thesis using st' rows.add_fresh[OF ok add] rows.get_add[OF ok add, of k] by auto
qed

lemma lab_no_clash: "site_clashes empty_table i n = []"
  by (simp add: site_clashes_def rows_where_def empty_table_def)

theorem unbound_session_strands_tunnel_witness:
  "fst (initialize_site_to_site True lab_wg_agent lab_admin 1 lab_site
     (snd (initialize_site_to_site False lab_wg_agent lab_admin 1 lab_site (lab_vpn lab_wg_host)))) = Inl 409"
proof -
  let ?c = "initialize_site_to_site False lab_wg_agent lab_admin 1 lab_site (lab_vpn lab_wg_host)"
  have h: "row_get (fd_instances (gs_db (vn_gw (lab_vpn lab_wg_host)))) 1 \<noteq> None" "sr_protocol lab_site = Wireguard"
    "table_ok (vn_servers (lab_vpn lab_wg_host))" "site_clashes (vn_servers (lab_vpn lab_wg_host)) 1 (site_name (sr_endpoint lab_site)) = []"
    by (simp_all add: lab_vpn_facts lab_site_protocol lab_no_clash del: One_nat_def)
  have e: "?c = (fst ?c, snd ?c)" by simp
  from unbound_session_strands_tunnel[OF lab_admin_ok h(1) lab_site_valid h(2-4) e] show ?thesis by simp
qed

lemma lab_single: "row_get \<lparr>tb_rows = [(k, r)], tb_next = n\<rparr> k = Some r"
  by (simp add: row_get_def)

lemma lab_vpn_after_row: "row_get (vn_servers lab_vpn_after) 1 = Some (site_row 1 lab_site)"
  unfolding lab_vpn_after_def vpn_handle_def initialize_site_to_site_def Let_def
  by (simp add: lab_vpn_env_def lab_admin_ok lab_vpn_facts lab_site_valid lab_site_row lab_site_protocol lab_no_clash
      on_gw_def lab_single del: One_nat_def)

lemma lab_site_form: "valid_endpoint (va_endpoint (tunnel_request (site_row 1 lab_site)))" "vs_keepalive (site_row 1 lab_site) = Some 25"
  "vs_protocol (site_row 1 lab_site) = ''wireguard''"
  by code_simp+

theorem reachable_tunnel_accepted_witness:
  "\<exists>r. read_vpn_apply (tunnel_payload (site_row 1 lab_site)) = Some r \<and> fst (vpn_apply lab_wg_env r lab_wg_host) \<notin> {400, 422}"
proof -
  have c: "tunnel_complete (site_row 1 lab_site)" by (simp add: tunnel_complete_def site_row_def)
  from reachable_tunnel_accepted[OF lab_vpn_run lab_vpn_inv lab_vpn_after_row c, of lab_wg_env lab_wg_host]
  show ?thesis using lab_site_form by (auto simp: read_tunnel c Let_def split: prod.splits option.splits simp del: One_nat_def)
qed

section \<open>Start, stop and restart\<close>

lemma read_unit_body: "read_unit_request (unit_body r) = Some (vs_protocol r)"
  by (simp add: read_unit_request_def unit_body_def str_key_def)

lemma agent_unit_calls:
  "vpn_agent env rest key base (base @ ''/vpn/start'') key ''POST'' (unit_body r) h =
     (case vpn_start env (vs_protocol r) h of (code, h') \<Rightarrow> (if code = 200 then Http_Ok (J_Obj []) else Http_Status code [], h'))"
  "vpn_agent env rest key base (base @ ''/vpn/stop'') key ''POST'' (unit_body r) h =
     (case vpn_stop env (vs_protocol r) h of (code, h') \<Rightarrow> (if code = 200 then Http_Ok (J_Obj []) else Http_Status code [], h'))"
  by (simp_all add: vpn_agent_def authorized read_unit_body)

lemma unit_ask:
  assumes "vpn_ask (vpn_agent env rest key base) i ''POST'' path (unit_body r) st = (Inr a, st')" "agent_at st i base key"
  shows "path = ''/vpn/start'' \<Longrightarrow> vpn_start env (vs_protocol r) (gs_world (vn_gw st)) = (200, gs_world (vn_gw st'))"
    "path = ''/vpn/stop'' \<Longrightarrow> vpn_stop env (vs_protocol r) (gs_world (vn_gw st)) = (200, gs_world (vn_gw st'))"
    "vn_servers st' = vn_servers st \<and> agent_at st' i base key"
proof -
  obtain e w where e: "get_instance_endpoint (fd_instances (gs_db (vn_gw st))) i (Some ''vpn'') = Inr e"
    and w0: "vpn_agent env rest key base (e @ path) (key_of_instance (gs_db (vn_gw st)) i) ''POST'' (unit_body r) (gs_world (vn_gw st)) = (Http_Ok a, w)"
    and st': "gs_world (vn_gw st') = w" "vn_servers st' = vn_servers st" "gs_db (vn_gw st') = gs_db (vn_gw st)"
    by (rule vpn_ask_answered[OF assms(1)])
  have "e = base" "key_of_instance (gs_db (vn_gw st)) i = key" using e assms(2) by (simp_all add: agent_at_def)
  with w0 st' have w: "vpn_agent env rest key base (base @ path) key ''POST'' (unit_body r) (gs_world (vn_gw st)) = (Http_Ok a, w)"
    "gs_world (vn_gw st') = w" "vn_servers st' = vn_servers st" "gs_db (vn_gw st') = gs_db (vn_gw st)"
    by (simp_all only:)
  show "path = ''/vpn/start'' \<Longrightarrow> vpn_start env (vs_protocol r) (gs_world (vn_gw st)) = (200, gs_world (vn_gw st'))"
    "path = ''/vpn/stop'' \<Longrightarrow> vpn_stop env (vs_protocol r) (gs_world (vn_gw st)) = (200, gs_world (vn_gw st'))"
    using w by (auto simp only: agent_unit_calls split: prod.splits if_splits)
  show "vn_servers st' = vn_servers st \<and> agent_at st' i base key" using w assms(2) by (simp add: agent_at_def)
qed

lemma vpn_start_ok: "vpn_start env p h = (200, h') \<Longrightarrow> p = ''wireguard'' \<and> (\<exists>c. wh_unit h' = Unit_Running c) \<and> wh_conf h' = wh_conf h"
  by (auto simp: vpn_start_def wg_start_def Let_def split: if_splits prod.splits option.splits ctl_outcome.splits unit_state.splits)

lemma vpn_stop_ok: "vpn_stop env p h = (200, h') \<Longrightarrow> p = ''wireguard'' \<and> wh_unit h' = Unit_Down \<and> wh_conf h' = wh_conf h"
  by (auto simp: vpn_stop_def wg_stop_def Let_def split: if_splits prod.splits option.splits ctl_outcome.splits)

lemma started_after_stop: "vpn_start env p h = (200, h') \<Longrightarrow> wh_unit h = Unit_Down \<Longrightarrow> wh_unit h' = Unit_Running (wh_conf h)"
  by (auto simp: vpn_start_def wg_start_def Let_def split: if_splits prod.splits option.splits ctl_outcome.splits)

definition status_of :: "'w vpn_state \<Rightarrow> nat \<Rightarrow> string option" where
  "status_of st k = (case row_get (vn_servers st) k of None \<Rightarrow> None | Some r \<Rightarrow> vs_status r)"

definition unit_of :: "wg_host vpn_state \<Rightarrow> unit_state" where
  "unit_of st = wh_unit (gs_world (vn_gw st))"

lemma status_set: "row_get (vn_servers st) k \<noteq> None \<Longrightarrow> status_of (set_status k s st) k = Some s"
  by (auto simp: status_of_def set_status_def rows.get_put)

lemma set_status_frame [simp]: "vn_gw (set_status k s st) = vn_gw st" "agent_at (set_status k s st) i base key = agent_at st i base key"
  by (auto simp: set_status_def agent_at_def split: option.splits)

lemma audit_vpn_frame [simp]: "status_of (audit_vpn i a p ok d u st) k = status_of st k" "unit_of (audit_vpn i a p ok d u st) = unit_of st"
  "unit_of (set_status k s st) = unit_of st"
  by (simp_all add: status_of_def unit_of_def) (simp add: audit_vpn_def on_gw_def audit_dispatch_def set_db_def)

lemma unit_action_answered:
  assumes "unit_action action done send tok k st = (Inr x, st')" "row_get (vn_servers st) k = Some r"
  obtains u a st1 where "vpn_ask send (vs_instance r) ''POST'' (''/vpn/'' @ action) (unit_body r) st = (Inr a, st1)"
    "st' = audit_vpn (vs_instance r) action (''/vpn/'' @ action) True [] u (set_status k done st1)"
  using assms by (auto simp: unit_action_def split: sum.splits prod.splits)

lemma answered_calls:
  "row_get (vn_servers st) k = Some r \<Longrightarrow> agent_at st (vs_instance r) base key \<Longrightarrow> send = vpn_agent env rest key base \<Longrightarrow>
     (start_server send tok k st = (Inr x, st') \<longrightarrow> status_of st' k = Some ''running'' \<and> (\<exists>c. unit_of st' = Unit_Running c))
   \<and> (stop_server send tok k st = (Inr x, st') \<longrightarrow> status_of st' k = Some ''stopped'' \<and> unit_of st' = Unit_Down)
   \<and> (restart_server send tok k st = (Inr x, st') \<longrightarrow> status_of st' k = Some ''running''
        \<and> unit_of st' = Unit_Running (wh_conf (gs_world (vn_gw st))))"
proof -
  assume r: "row_get (vn_servers st) k = Some r" and at: "agent_at st (vs_instance r) base key" and send: "send = vpn_agent env rest key base"
  have "status_of st' k = Some ''running'' \<and> (\<exists>c. unit_of st' = Unit_Running c)" if c: "start_server send tok k st = (Inr x, st')"
  proof -
    obtain u a st1 where a: "vpn_ask send (vs_instance r) ''POST'' ''/vpn/start'' (unit_body r) st = (Inr a, st1)"
      and st': "st' = audit_vpn (vs_instance r) ''start'' ''/vpn/start'' True [] u (set_status k ''running'' st1)"
      by (rule unit_action_answered[OF c[unfolded start_server_def] r]) auto
    from unit_ask[OF a[unfolded send] at] r show ?thesis unfolding st' using vpn_start_ok by (auto simp: status_set) (auto simp: unit_of_def)
  qed
  moreover have "status_of st' k = Some ''stopped'' \<and> unit_of st' = Unit_Down" if c: "stop_server send tok k st = (Inr x, st')"
  proof -
    obtain u a st1 where a: "vpn_ask send (vs_instance r) ''POST'' ''/vpn/stop'' (unit_body r) st = (Inr a, st1)"
      and st': "st' = audit_vpn (vs_instance r) ''stop'' ''/vpn/stop'' True [] u (set_status k ''stopped'' st1)"
      by (rule unit_action_answered[OF c[unfolded stop_server_def] r]) auto
    from unit_ask[OF a[unfolded send] at] r show ?thesis unfolding st' using vpn_stop_ok by (auto simp: status_set) (auto simp: unit_of_def)
  qed
  moreover have "status_of st' k = Some ''running'' \<and> unit_of st' = Unit_Running (wh_conf (gs_world (vn_gw st)))"
    if c: "restart_server send tok k st = (Inr x, st')"
  proof -
    let ?st0 = "set_status k ''restarting'' st"
    obtain u a b st1 st2 where a: "vpn_ask send (vs_instance r) ''POST'' ''/vpn/stop'' (unit_body r) ?st0 = (Inr a, st1)"
      and b: "vpn_ask send (vs_instance r) ''POST'' ''/vpn/start'' (unit_body r) st1 = (Inr b, st2)"
      and st': "st' = audit_vpn (vs_instance r) ''restart'' ''/vpn/stop+/vpn/start'' True [] u (set_status k ''running'' st2)"
      using c r by (auto simp: restart_server_def Let_def split: sum.splits prod.splits)
    have at0: "agent_at ?st0 (vs_instance r) base key" using at by simp
    note stop = unit_ask[OF a[unfolded send] at0]
    have at1: "agent_at st1 (vs_instance r) base key" using stop by simp
    note start = unit_ask[OF b[unfolded send] at1]
    have down: "wh_unit (gs_world (vn_gw st1)) = Unit_Down" "wh_conf (gs_world (vn_gw st1)) = wh_conf (gs_world (vn_gw st))"
      using vpn_stop_ok[OF stop(2)] by simp_all
    have "row_get (vn_servers st2) k \<noteq> None" using start stop r by (auto simp: set_status_def rows.get_put)
    then have "status_of st' k = Some ''running''" by (simp add: st' status_set)
    moreover have "unit_of st' = Unit_Running (wh_conf (gs_world (vn_gw st)))"
      using started_after_stop[OF start(1) down(1)] down(2) by (simp add: st') (simp add: unit_of_def)
    ultimately show ?thesis by simp
  qed
  ultimately show ?thesis by blast
qed

text \<open>A start, stop or restart that is answered with success leaves the stored status and the unit in
  agreement: running and running, stopped and down. After a restart the unit runs with the configuration
  file as it is on the host; after a start it may still run with an older one.\<close>

theorem answered_unit_calls_agree:
  "row_get (vn_servers st) k = Some r \<Longrightarrow> agent_at st (vs_instance r) base key \<Longrightarrow> send = vpn_agent env rest key base \<Longrightarrow>
     (start_server send tok k st = (Inr x, st') \<longrightarrow> status_of st' k = Some ''running'' \<and> (\<exists>c. unit_of st' = Unit_Running c))
   \<and> (stop_server send tok k st = (Inr x, st') \<longrightarrow> status_of st' k = Some ''stopped'' \<and> unit_of st' = Unit_Down)
   \<and> (restart_server send tok k st = (Inr x, st') \<longrightarrow> status_of st' k = Some ''running''
        \<and> unit_of st' = Unit_Running (wh_conf (gs_world (vn_gw st))))"
  by (rule answered_calls)

definition healthy_wg :: "wg_env \<Rightarrow> bool" where
  "healthy_wg env \<longleftrightarrow> we_enable env \<noteq> Ctl_Raised \<and> we_disable env \<noteq> Ctl_Raised \<and> (\<exists>e. we_stop env = Ctl_Exit 0 e)
     \<and> (\<forall>c. \<exists>e. we_start env c = Ctl_Exit 0 e)"

lemma healthy_calls:
  assumes "healthy_wg env"
  shows "\<exists>h'. vpn_stop env ''wireguard'' h = (200, h')" "\<exists>h'. vpn_start env ''wireguard'' h = (200, h')"
  using assms by (auto simp: healthy_wg_def vpn_stop_def vpn_start_def wg_stop_def wg_start_def Let_def split: ctl_outcome.splits)
    (metis ctl_outcome.distinct(1) ctl_outcome.inject)+

lemma unit_ask_ok:
  assumes "agent_at st i base key" "vs_protocol r = ''wireguard''" "healthy_wg env" "path = ''/vpn/stop'' \<or> path = ''/vpn/start''"
  shows "\<exists>a st'. vpn_ask (vpn_agent env rest key base) i ''POST'' path (unit_body r) st = (Inr a, st')"
proof -
  have "\<exists>w. vpn_agent env rest key base (base @ path) key ''POST'' (unit_body r) (gs_world (vn_gw st)) = (Http_Ok (J_Obj []), w)"
    using assms healthy_calls[OF assms(3), of "gs_world (vn_gw st)"]
    by (auto simp: vpn_agent_def authorized read_unit_body)
  then show ?thesis using assms(1)
    by (auto simp: vpn_ask_def ask_def agent_request_def agent_at_def key_of_instance_def Let_def)
qed

text \<open>C25: When the tools of the host work and the instance is configured, an administrator's restart of a
  WireGuard server always succeeds, whatever the unit was doing before: it is answered with the server,
  the row says running, and the unit runs with the configuration file on the host.\<close>

theorem restart_gets_running:
  "require_admin tok = Inr u \<Longrightarrow> row_get (vn_servers st) k = Some r \<Longrightarrow> vs_protocol r = ''wireguard'' \<Longrightarrow>
   agent_at st (vs_instance r) base key \<Longrightarrow> healthy_wg env \<Longrightarrow>
     \<exists>st'. restart_server (vpn_agent env rest key base) tok k st = (Inr k, st') \<and> status_of st' k = Some ''running''
       \<and> unit_of st' = Unit_Running (wh_conf (gs_world (vn_gw st)))"
proof -
  assume u: "require_admin tok = Inr u" and r: "row_get (vn_servers st) k = Some r" "vs_protocol r = ''wireguard''"
    and at: "agent_at st (vs_instance r) base key" and env: "healthy_wg env"
  let ?send = "vpn_agent env rest key base" and ?st0 = "set_status k ''restarting'' st"
  have at0: "agent_at ?st0 (vs_instance r) base key" using at by simp
  obtain a st1 where a: "vpn_ask ?send (vs_instance r) ''POST'' ''/vpn/stop'' (unit_body r) ?st0 = (Inr a, st1)"
    using unit_ask_ok[OF at0 r(2) env, of "''/vpn/stop''"] by blast
  have at1: "agent_at st1 (vs_instance r) base key" using unit_ask(3)[OF a at0] by simp
  obtain b st2 where b: "vpn_ask ?send (vs_instance r) ''POST'' ''/vpn/start'' (unit_body r) st1 = (Inr b, st2)"
    using unit_ask_ok[OF at1 r(2) env, of "''/vpn/start''"] by blast
  have "\<exists>st'. restart_server ?send tok k st = (Inr k, st')" using u r(1) a b by (simp add: restart_server_def Let_def)
  then show ?thesis using answered_calls[OF r(1) at refl] by blast
qed

definition lab_tunnel :: "wg_host vpn_state" where
  "lab_tunnel = (lab_vpn lab_wg_host)\<lparr>vn_servers := \<lparr>tb_rows = [(1, site_row 1 lab_site)], tb_next = 2\<rparr>\<rparr>"

lemma lab_tunnel_facts: "row_get (vn_servers lab_tunnel) 1 = Some (site_row 1 lab_site)" "vs_protocol (site_row 1 lab_site) = ''wireguard''"
  "agent_at lab_tunnel (vs_instance (site_row 1 lab_site)) ''http://agent'' ''k''" "gs_world (vn_gw lab_tunnel) = lab_wg_host"
  "healthy_wg calm_wg_env"
proof -
  show "agent_at lab_tunnel (vs_instance (site_row 1 lab_site)) ''http://agent'' ''k''"
    using lab_agent_at[of lab_wg_host] by (simp add: agent_at_def lab_tunnel_def site_row_def)
qed (simp_all add: lab_tunnel_def lab_single site_row_def lab_site_protocol vpn_protocol_text_def lab_vpn_facts healthy_wg_def calm_wg_env_def
    lab_wg_env_def del: One_nat_def)

theorem restart_gets_running_witness:
  "\<exists>st'. restart_server (vpn_agent calm_wg_env (\<lambda>url. Http_Status 404 []) ''k'' ''http://agent'') lab_admin 1 lab_tunnel = (Inr 1, st')
     \<and> status_of st' 1 = Some ''running'' \<and> unit_of st' = Unit_Running (Some ''old'')"
  using restart_gets_running[OF lab_admin_ok lab_tunnel_facts(1-3,5), of "\<lambda>url. Http_Status 404 []"] by (simp add: lab_tunnel_facts(4) lab_wg_host_def)

theorem answered_unit_calls_agree_witness:
  "fst (stop_server lab_wg_agent lab_admin 1 lab_tunnel) = Inr 1 \<and> unit_of (snd (stop_server lab_wg_agent lab_admin 1 lab_tunnel)) = Unit_Down"
proof -
  have at: "agent_at lab_tunnel 1 ''http://agent'' ''k''" using lab_tunnel_facts(3) by (simp add: site_row_def)
  obtain a st1 where "vpn_ask lab_wg_agent 1 ''POST'' ''/vpn/stop'' (unit_body (site_row 1 lab_site)) lab_tunnel = (Inr a, st1)"
    using unit_ask_ok[OF at lab_tunnel_facts(2,5), of "''/vpn/stop''"] unfolding lab_wg_agent_def by blast
  moreover have "vs_instance (site_row 1 lab_site) = 1" by (simp add: site_row_def)
  ultimately obtain st' where c: "stop_server lab_wg_agent lab_admin 1 lab_tunnel = (Inr 1, st')"
    by (simp add: stop_server_def unit_action_def lab_admin_ok lab_tunnel_facts(1) del: One_nat_def)
  from answered_unit_calls_agree[OF lab_tunnel_facts(1,3) lab_wg_agent_def, of lab_admin 1 st'] c show ?thesis by simp
qed

section \<open>Client configurations\<close>

lemma client_added:
  assumes "store_client k d p t st = (Inr v, st')" "table_ok (vn_clients st)"
  shows "row_get (vn_clients st') (cv_id v) = Some (new_client k d p t) \<and> vn_servers st' = vn_servers st
    \<and> cv_config v = Some (b64encode t)"
proof -
  obtain j t' where a: "row_add (new_client k d p t) (vn_clients st) = (j, t')" by (cases "row_add (new_client k d p t) (vn_clients st)")
  have "vc_config_file (new_client k d p t) = Some (b64encode t)" by (simp add: new_client_def)
  with assms(1) a rows.get_add[OF assms(2) a, of j] show ?thesis
    by (auto simp: store_client_def client_admin_response_def Let_def split: if_splits)
qed

lemma b64encode_nonempty: "s \<noteq> [] \<Longrightarrow> b64encode s \<noteq> []"
  using b64decode_encode[of s] b64decode_encode[of "[]"] by force

lemma config_nonempty: "generate_client_config rep s d p \<noteq> []"
  by (simp add: generate_client_config_def client_config_lines_def)

lemma created_client_download:
  "create_client rep send tok k d st = (Inr v, st') \<Longrightarrow> vpn_inv st \<Longrightarrow> require_admin tok2 = Inr u2 \<Longrightarrow>
     \<exists>s priv dl. row_get (vn_servers st) k = Some s \<and> download_client_config rep2 tok2 (cv_id v) format st' = Inr dl
       \<and> cv_config v = Some (dl_data dl) \<and> b64decode (dl_data dl) = Some (generate_client_config rep s d priv)
       \<and> (priv \<noteq> None \<longleftrightarrow> vs_protocol s = ''wireguard'')"
proof -
  assume c: "create_client rep send tok k d st = (Inr v, st')" and inv: "vpn_inv st" and u2: "require_admin tok2 = Inr u2"
  then obtain s where s: "row_get (vn_servers st) k = Some s"
    by (auto simp: create_client_def split: sum.splits if_splits option.splits)
  have known: "vs_protocol s \<in> set protocol_texts" using vpn_inv_server_ok[OF inv s] by (simp add: server_ok_def)
  obtain pub priv st1 where store: "store_client k d pub (generate_client_config rep s d priv) st1 = (Inr v, st')"
    and p: "priv \<noteq> None \<longleftrightarrow> vs_protocol s = ''wireguard''"
    and st1: "vn_servers st1 = vn_servers st" "vn_clients st1 = vn_clients st"
    using c s generate_keys_inv
    by (auto simp: create_client_def split: sum.splits if_splits prod.splits) (blast | metis option.distinct(1))+
  have t: "table_ok (vn_clients st1)" using inv by (simp add: st1 vpn_inv_def)
  let ?t = "generate_client_config rep s d priv"
  let ?c = "new_client k d pub ?t"
  have "truthy_str (vc_config_file ?c)" "b64decode (or_empty (vc_config_file ?c)) = Some ?t" "vc_server ?c = k"
    using b64encode_nonempty[OF config_nonempty, of rep s d priv] by (simp_all add: new_client_def truthy_str_def or_empty_def b64decode_encode)
  with client_added[OF store t] s st1 u2 known p show ?thesis
    by (simp add: download_client_config_def) (metis b64decode_encode)
qed

text \<open>The configuration returned when a client is created can be downloaded later, by any administrator
  and in any format, unchanged: the same encoded text, which decodes to the configuration generated for the
  server's row, with the generated private key exactly for WireGuard.\<close>

theorem client_config_roundtrip:
  "create_client rep send tok k d st = (Inr v, st') \<Longrightarrow> vpn_inv st \<Longrightarrow> require_admin tok2 = Inr u2 \<Longrightarrow>
     \<exists>s priv dl. row_get (vn_servers st) k = Some s \<and> download_client_config rep2 tok2 (cv_id v) format st' = Inr dl
       \<and> cv_config v = Some (dl_data dl) \<and> b64decode (dl_data dl) = Some (generate_client_config rep s d priv)
       \<and> (priv \<noteq> None \<longleftrightarrow> vs_protocol s = ''wireguard'')"
  by (rule created_client_download)

definition lab_keys :: "'w sender" where
  "lab_keys url key meth body w = (Http_Ok (J_Obj [(''public_key'', J_Str ''P''), (''private_key'', J_Str ''S'')]), w)"

lemma lab_create_client: "\<exists>v st'. create_client rep lab_keys lab_admin 1 (plain_client ''laptop'') lab_tunnel = (Inr v, st')"
proof -
  let ?ask = "vpn_ask lab_keys 1 ''POST'' ''/vpn/generate-keys'' J_Null lab_tunnel"
  have "get_instance_endpoint (fd_instances (gs_db (vn_gw lab_tunnel))) 1 (Some ''vpn'') = Inr ''http://agent''"
    using lab_tunnel_facts(3) by (simp add: agent_at_def site_row_def)
  then obtain st1 where "?ask = (Inr (J_Obj [(''public_key'', J_Str ''P''), (''private_key'', J_Str ''S'')]), st1)"
    by (simp add: vpn_ask_def ask_def agent_request_def lab_keys_def Let_def)
  then obtain st2 where k: "generate_wireguard_keys lab_keys 1 1 ''generate_keys_client'' lab_tunnel = (Inr (''P'', ''S''), st2)"
    by (simp add: generate_wireguard_keys_def truthy_key_def str_key_def Let_def)
  have i: "vs_instance (site_row 1 lab_site) = 1" by (simp add: site_row_def)
  have "\<exists>v st'. store_client 1 (plain_client ''laptop'') (Some ''P'') t st2 = (Inr v, st')" for t
    by (auto simp: store_client_def plain_client_def new_client_def client_admin_response_def client_response_ok_def name_ok_def
        client_type_text_def auth_type_text_def Let_def split: prod.splits)
  moreover have "name_ok 100 (vcc_name (plain_client ''laptop''))" by (simp add: plain_client_def name_ok_def)
  ultimately show ?thesis using lab_tunnel_facts(1,2) k i lab_admin_ok by (simp add: create_client_def del: One_nat_def)
qed

lemma lab_tunnel_inv: "vpn_inv lab_tunnel"
proof -
  have "row_add (site_row 1 lab_site) (vn_servers (lab_vpn lab_wg_host)) = (1, \<lparr>tb_rows = [(1, site_row 1 lab_site)], tb_next = 2\<rparr>)"
    unfolding lab_vpn_facts by (rule lab_site_row)
  from vpn_inv_server_add[OF lab_vpn_inv site_row_ok[OF lab_site_valid] this] show ?thesis unfolding lab_tunnel_def .
qed

theorem client_config_roundtrip_witness:
  "\<exists>v st' dl. create_client (\<lambda>j. []) lab_keys lab_admin 1 (plain_client ''laptop'') lab_tunnel = (Inr v, st')
     \<and> download_client_config (\<lambda>j. []) lab_admin (cv_id v) ''auto'' st' = Inr dl \<and> cv_config v = Some (dl_data dl)"
proof -
  obtain v st' where c: "create_client (\<lambda>j. []) lab_keys lab_admin 1 (plain_client ''laptop'') lab_tunnel = (Inr v, st')"
    using lab_create_client by blast
  from client_config_roundtrip[OF this lab_tunnel_inv lab_admin_ok, of "\<lambda>j. []" "''auto''"] c show ?thesis by blast
qed

text \<open>A private key given with the configuration of a WireGuard server is kept out of the field of the
  response that holds private keys, but any logged-in user who asks for the server finds it in the
  configuration it was given in.\<close>

theorem server_view_shows_config_key:
  "create_server tok i d st = (Inr v, st') \<Longrightarrow> table_ok (vn_servers st) \<Longrightarrow> sc_protocol d = Wireguard \<Longrightarrow>
   sc_wireguard d = Some c \<Longrightarrow> wgc_private_key c = Some key \<Longrightarrow> require_auth tok2 = Inr u \<Longrightarrow>
     \<exists>w cfg. get_server tok2 (sv_id v) st' = Inr w \<and> sv_private_key w = None \<and> vs_private_key (sv_row w) = None
       \<and> vs_config (sv_row w) = Some cfg \<and> map_of cfg ''private_key'' = Some (J_Str key)"
proof -
  assume c: "create_server tok i d st = (Inr v, st')" and ok: "table_ok (vn_servers st)" and d: "sc_protocol d = Wireguard"
    "sc_wireguard d = Some c" "wgc_private_key c = Some key" and u: "require_auth tok2 = Inr u"
  obtain k t' where add: "row_add (new_server i d) (vn_servers st) = (k, t')" by (cases "row_add (new_server i d) (vn_servers st)")
  have st': "vn_servers st' = t'" "server_admin_response k (new_server i d) = Inr v"
    using c add by (auto simp: create_server_def Let_def on_gw_def split: sum.splits if_splits)
  then have r: "server_response_ok (new_server i d)" "sv_id v = k" by (auto simp: server_admin_response_def split: if_splits)
  have "vs_config (new_server i d) = Some (dump_wireguard c)" by (simp add: new_server_def stored_config_def d)
  moreover have "map_of (dump_wireguard c) ''private_key'' = Some (J_Str key)" by (simp add: dump_wireguard_def d opt_str_def)
  ultimately show ?thesis using rows.get_add[OF ok add, of k] u st'(1) r by (simp add: get_server_def server_response_def)
qed

definition lab_server :: server_create where
  "lab_server = \<lparr>sc_name = ''vpn'', sc_description = None, sc_enabled = True, sc_protocol = Wireguard, sc_listen_address = ''0.0.0.0'',
     sc_listen_port = None, sc_network = ''10.200.0.0/24'', sc_dns = [], sc_push_routes = [], sc_redirect = False, sc_tunnel = None,
     sc_endpoint = None, sc_peer_key = None, sc_allowed = None, sc_keepalive = None, sc_local = None, sc_private_key = None,
     sc_wireguard = Some \<lparr>wgc_private_key = Some ''secret'', wgc_public_key = None, wgc_listen_port = 51820, wgc_network = ''10.200.0.0/24'',
       wgc_ipv6_network = None, wgc_ipv6_nat = False, wgc_post_up = None, wgc_post_down = None, wgc_mtu = 1420\<rparr>,
     sc_ipsec = None, sc_openvpn = None, sc_l2tp = None, sc_pptp = None\<rparr>"

theorem server_view_shows_config_key_witness:
  "\<exists>v st' w cfg. create_server lab_admin 1 lab_server (lab_vpn lab_wg_host) = (Inr v, st')
     \<and> get_server (Some \<lparr>tk_sub = Some 7, tk_role = Some ''viewer''\<rparr>) (sv_id v) st' = Inr w
     \<and> vs_config (sv_row w) = Some cfg \<and> map_of cfg ''private_key'' = Some (J_Str ''secret'')"
proof -
  have "valid_server_create lab_server" "server_response_ok (new_server 1 lab_server)"
    by (simp_all add: lab_server_def valid_server_create_def server_response_ok_def new_server_def name_ok_def tunnel_ok_def keepalive_ok_def
        schema_cidr_list_def schema_local_address_def schema_endpoint_def schema_wg_key_def vpn_protocol_text_def protocol_texts_def
        status_texts_def stored_config_def)
  then have "\<exists>v st'. create_server lab_admin 1 lab_server (lab_vpn lab_wg_host) = (Inr v, st')"
    by (cases "row_add (new_server 1 lab_server) empty_table")
      (simp add: create_server_def lab_admin_ok lab_vpn_facts server_admin_response_def Let_def del: One_nat_def)
  then obtain v st' where c: "create_server lab_admin 1 lab_server (lab_vpn lab_wg_host) = (Inr v, st')" by blast
  have t: "table_ok (vn_servers (lab_vpn lab_wg_host))" by (simp add: lab_vpn_facts)
  have s: "sc_protocol lab_server = Wireguard" by (simp add: lab_server_def)
  have a: "require_auth (Some \<lparr>tk_sub = Some 7, tk_role = Some ''viewer''\<rparr>) = Inr 7" by (simp add: require_auth_def)
  have w: "sc_wireguard lab_server = Some (the (sc_wireguard lab_server))" "wgc_private_key (the (sc_wireguard lab_server)) = Some ''secret''"
    by (simp_all add: lab_server_def)
  from server_view_shows_config_key[OF c t s w a] c show ?thesis by blast
qed

end
