(* ===== verification/Dns_Render.thy ===== *)
theory Dns_Render
  imports Nft_Render
begin

text \<open>
  \<open>viswall_dns_agent/payloads.py\<close> and \<open>render.py\<close>: the body of an apply as the agent holds it, and the
  texts of the zone files and of the two configuration files of BIND.
\<close>

section \<open>Payloads\<close>

record tsig_payload =
  dt_id :: int
  dt_name :: string
  dt_algorithm :: string
  dt_secret :: string
  dt_active :: bool

record dnssec_payload =
  dk_id :: int
  dk_type :: string
  dk_algorithm :: string
  dk_size :: int
  dk_tag :: "int option"
  dk_dnskey :: "string option"
  dk_ds :: "string option"
  dk_active :: bool

record rr_payload =
  dr_name :: string
  dr_type :: string
  dr_content :: string
  dr_ttl :: int
  dr_priority :: int
  dr_weight :: int
  dr_port :: int

record zone_payload =
  dz_id :: int
  dz_name :: string
  dz_type :: string
  dz_enabled :: bool
  dz_serial :: int
  dz_refresh :: int
  dz_retry :: int
  dz_expire :: int
  dz_minimum :: int
  dz_master :: "string option"
  dz_tsig :: "int option"
  dz_dnssec :: bool
  dz_records :: "rr_payload list"
  dz_keys :: "dnssec_payload list"

record dns_payload =
  dp_server :: int
  dp_listen :: "string list"
  dp_recursive :: bool
  dp_forwarders :: "string list"
  dp_query :: "string list"
  dp_transfer :: "string list"
  dp_notify :: "string list"
  dp_tsig :: "tsig_payload list"
  dp_zones :: "zone_payload list"

definition dquoted :: "string \<Rightarrow> string" where
  "dquoted s = dquote # s @ [dquote]"

section \<open>Zone files\<close>

definition record_line :: "rr_payload \<Rightarrow> string" where
  "record_line r =
     (let base = dr_name r @ '' '' @ string_of_int (dr_ttl r) @ '' IN '' @ dr_type r; t = upper (dr_type r) in
      if t = ''MX'' then base @ '' '' @ string_of_int (dr_priority r) @ '' '' @ dr_content r
      else if t = ''SRV'' then base @ '' '' @ string_of_int (dr_priority r) @ '' '' @ string_of_int (dr_weight r) @ '' ''
        @ string_of_int (dr_port r) @ '' '' @ dr_content r
      else base @ '' '' @ dr_content r)"

definition soa_lines :: "zone_payload \<Rightarrow> string list" where
  "soa_lines z =
     [''@ IN SOA ns1.'' @ dz_name z @ ''. admin.'' @ dz_name z @ ''. ('', ''    '' @ string_of_int (dz_serial z) @ '' ; serial'',
      ''    '' @ string_of_int (dz_refresh z) @ '' ; refresh'', ''    '' @ string_of_int (dz_retry z) @ '' ; retry'',
      ''    '' @ string_of_int (dz_expire z) @ '' ; expire'', ''    '' @ string_of_int (dz_minimum z) @ '' ; minimum ttl'', '')'']"

definition default_soa :: "zone_payload \<Rightarrow> string" where
  "default_soa z = join nl (soa_lines z)"

definition has_soa :: "zone_payload \<Rightarrow> bool" where
  "has_soa z \<longleftrightarrow> list_ex (\<lambda>r. upper (dr_type r) = ''SOA'') (dz_records z)"

definition dnssec_lines :: "zone_payload \<Rightarrow> string list" where
  "dnssec_lines z = concat (map (\<lambda>k.
      (if dk_active k \<and> truthy_str (dk_dnskey k) then [or_empty (dk_dnskey k)] else [])
      @ (if dk_active k \<and> truthy_str (dk_ds k) then [or_empty (dk_ds k)] else [])) (dz_keys z))"

definition zone_parts :: "zone_payload \<Rightarrow> bool \<Rightarrow> string list" where
  "zone_parts z include_dnssec =
     (''$TTL '' @ string_of_int (dz_minimum z)) # (if has_soa z then [] else [default_soa z]) @ map record_line (dz_records z)
     @ (if include_dnssec then dnssec_lines z else [])"

definition render_zone_text :: "zone_payload \<Rightarrow> bool \<Rightarrow> string" where
  "render_zone_text z include_dnssec = join nl (zone_parts z include_dnssec) @ nl"

section \<open>Options\<close>

definition acl :: "string list \<Rightarrow> string" where
  "acl entries = (if entries = [] then [] else ''{ '' @ join ''; '' entries @ ''; }'')"

definition listen_acl :: "string list \<Rightarrow> string" where
  "listen_acl addrs =
     (if addrs = [] \<or> list_ex (\<lambda>a. a = ''0.0.0.0'' \<or> a = ''::'' \<or> a = ''*'') addrs then ''{ any; }'' else acl addrs)"

text \<open>The listening addresses of one version; an address that does not parse is left out.\<close>

definition listen_on :: "bool \<Rightarrow> dns_payload \<Rightarrow> string list" where
  "listen_on v6 p = filter (\<lambda>a. case ip_address (fst (partition_at CHR ''%'' a)) of None \<Rightarrow> False | Some ip \<Rightarrow> is_v6_addr ip = v6) (dp_listen p)"

definition options_lines :: "dns_payload \<Rightarrow> string list" where
  "options_lines p =
     [''// Generated by Viswall DNS agent '' @ emdash @ '' options + rndc controls'', ''include '' @ dquoted ''/etc/bind/rndc.key'' @ '';'',
      ''controls { inet 127.0.0.1 port 953 allow { 127.0.0.1; } keys { rndc-key; }; };'', ''options {'',
      ''    directory '' @ dquoted ''/var/cache/bind'' @ '';'']
     @ (if listen_on False p = [] then [] else [''    listen-on '' @ listen_acl (listen_on False p) @ '';''])
     @ (if listen_on True p = [] then [] else [''    listen-on-v6 '' @ listen_acl (listen_on True p) @ '';''])
     @ [''    recursion '' @ (if dp_recursive p then ''yes'' else ''no'') @ '';'',
        ''    dnssec-validation '' @ (if dp_recursive p then ''auto'' else ''no'') @ '';'',
        ''    allow-query '' @ acl (dp_query p) @ '';'', ''    allow-transfer '' @ acl (dp_transfer p) @ '';'']
     @ (if dp_notify p = [] then [] else [''    also-notify '' @ acl (dp_notify p) @ '';''])
     @ (if dp_forwarders p = [] then [] else [''    forwarders '' @ acl (dp_forwarders p) @ '';''])
     @ [''};'']"

definition render_options_text :: "dns_payload \<Rightarrow> string" where
  "render_options_text p = join nl (options_lines p) @ nl"

section \<open>Zone statements\<close>

text \<open>A slave zone without a master address is a \<open>ValueError\<close>, here \<open>None\<close>.\<close>

definition block_lines :: "zone_payload \<Rightarrow> string \<Rightarrow> string option \<Rightarrow> string list option" where
  "block_lines z zone_file key =
     (let head = ''zone '' @ dquoted (dz_name z) @ '' {''; file_line = ''    file '' @ dquoted zone_file @ '';'' in
      if dz_type z = ''master'' then
        Some ([head, ''    type master;'', file_line]
          @ (if truthy_str key then [''    allow-transfer { key '' @ dquoted (or_empty key) @ ''; };'',
               ''    also-notify { key '' @ dquoted (or_empty key) @ ''; };''] else [])
          @ [''};''])
      else if dz_type z = ''slave'' then
        (if \<not> truthy_str (dz_master z) then None
         else Some [head, ''    type slave;'',
           ''    masters { '' @ or_empty (dz_master z) @ (if truthy_str key then '' key '' @ or_empty key else []) @ ''; };'', file_line, ''};''])
      else Some [head, ''    type '' @ dz_type z @ '';'', file_line, ''};''])"

definition render_zone_block :: "zone_payload \<Rightarrow> string \<Rightarrow> string option \<Rightarrow> string option" where
  "render_zone_block z zone_file key = map_option (\<lambda>ls. join nl ls @ nl) (block_lines z zone_file key)"

definition tsig_block :: "tsig_payload \<Rightarrow> string" where
  "tsig_block k = join nl [''key '' @ dquoted (dt_name k) @ '' {'', ''    algorithm '' @ dt_algorithm k @ '';'',
     ''    secret '' @ dquoted (dt_secret k) @ '';'', ''};''] @ nl"

definition render_local_text :: "dns_payload \<Rightarrow> string list \<Rightarrow> string" where
  "render_local_text p blocks =
     join nl ([''// Generated by Viswall DNS agent '' @ emdash @ '' zones + TSIG keys'', ''// server_id='' @ string_of_int (dp_server p), []]
       @ map tsig_block (filter dt_active (dp_tsig p)) @ blocks) @ nl"

end
