(* ===== verification/Gw_Dns.thy ===== *)
theory Gw_Dns
  imports Gw_Tasks Dns_Render
begin

text \<open>
  The rows of the DNS tables, the body of an apply and its dispatch (\<open>utils/dns_dispatch.py\<close>).

  Deleting a row deletes its children as the relationships of \<open>shared/models.py\<close> say; a foreign key from
  elsewhere refuses the deletion.
\<close>

section \<open>Rows\<close>

record dns_server =
  ds_instance :: nat
  ds_name :: string
  ds_description :: "string option"
  ds_enabled :: "bool option"
  ds_status :: "string option"
  ds_listen :: "string list option"
  ds_port :: "int option"
  ds_recursive :: "bool option"
  ds_authoritative :: "bool option"
  ds_forwarders :: "string list option"
  ds_query :: "string list option"
  ds_transfer :: "string list option"
  ds_notify :: "string list option"
  ds_dnssec :: "bool option"

record dns_zone =
  dn_server :: nat
  dn_name :: string
  dn_description :: "string option"
  dn_type :: string
  dn_reverse :: "bool option"
  dn_network :: "string option"
  dn_serial :: int
  dn_refresh :: "int option"
  dn_retry :: "int option"
  dn_expire :: "int option"
  dn_minimum :: "int option"
  dn_master :: "string option"
  dn_dnssec :: "bool option"
  dn_algorithm :: string
  dn_ksk :: int
  dn_zsk :: int
  dn_ds :: "string option"
  dn_enabled :: "bool option"
  dn_tsig :: "nat option"

record dns_record =
  re_zone :: nat
  re_name :: string
  re_type :: string
  re_content :: string
  re_ttl :: "int option"
  re_priority :: "int option"
  re_weight :: "int option"
  re_port :: "int option"
  re_flags :: "string option"
  re_tag :: "string option"
  re_system :: bool
  re_comment :: "string option"

record dns_tsig =
  tk_server :: nat
  tk_name :: string
  tk_algorithm :: string
  tk_secret :: string
  tk_active :: bool
  tk_rotated :: bool

record dnssec_key =
  dy_zone :: nat
  dy_type :: string
  dy_algorithm :: string
  dy_size :: int
  dy_tag :: int
  dy_dnskey :: string
  dy_ds :: "string option"
  dy_active :: bool
  dy_rotated :: bool

text \<open>Rows about transfers are only read; nothing in the gateway writes them.\<close>

record zone_slave =
  zs_zone :: nat
  zs_master :: string
  zs_key :: "nat option"

text \<open>The tasks are the instances whose configuration is to be applied, in order.\<close>

record 'w dns_state =
  dn_gw :: "'w gw_state"
  dn_servers :: "dns_server table"
  dn_zones :: "dns_zone table"
  dn_records :: "dns_record table"
  dn_tsigs :: "dns_tsig table"
  dn_keys :: "dnssec_key table"
  dn_slaves :: "zone_slave table"
  dn_tasks :: "nat list"

definition dns_on_gw :: "('w gw_state \<Rightarrow> 'w gw_state) \<Rightarrow> 'w dns_state \<Rightarrow> 'w dns_state" where
  "dns_on_gw f st = st\<lparr>dn_gw := f (dn_gw st)\<rparr>"

section \<open>The body of an apply\<close>

definition opt_bool :: "bool option \<Rightarrow> json" where
  "opt_bool b = (case b of None \<Rightarrow> J_Null | Some x \<Rightarrow> J_Bool x)"

definition str_list :: "string list \<Rightarrow> json" where
  "str_list xs = J_List (map J_Str xs)"

definition record_payload :: "dns_record \<Rightarrow> json" where
  "record_payload r = J_Obj
     [(''name'', J_Str (re_name r)), (''record_type'', J_Str (re_type r)), (''content'', J_Str (re_content r)), (''ttl'', opt_int (re_ttl r)),
      (''priority'', opt_int (re_priority r)), (''weight'', opt_int (re_weight r)), (''port'', opt_int (re_port r))]"

definition key_payload :: "nat \<times> dnssec_key \<Rightarrow> json" where
  "key_payload e = (let (k, y) = e in J_Obj
     [(''id'', J_Int (int k)), (''key_type'', J_Str (dy_type y)), (''algorithm'', J_Str (dy_algorithm y)), (''key_size'', J_Int (dy_size y)),
      (''key_tag'', J_Int (dy_tag y)), (''public_key_path'', J_Null), (''private_key_path'', J_Null), (''public_dnskey'', J_Str (dy_dnskey y)),
      (''ds_record'', opt_str (dy_ds y)), (''is_active'', J_Bool (dy_active y))])"

definition zone_payload_of :: "'w dns_state \<Rightarrow> nat \<times> dns_zone \<Rightarrow> json" where
  "zone_payload_of st e = (let (k, z) = e in J_Obj
     [(''id'', J_Int (int k)), (''name'', J_Str (dn_name z)), (''zone_type'', J_Str (dn_type z)), (''enabled'', opt_bool (dn_enabled z)),
      (''is_reverse'', opt_bool (dn_reverse z)), (''serial'', J_Int (dn_serial z)), (''refresh'', opt_int (dn_refresh z)),
      (''retry'', opt_int (dn_retry z)), (''expire'', opt_int (dn_expire z)), (''minimum_ttl'', opt_int (dn_minimum z)),
      (''master_server_address'', opt_str (dn_master z)), (''transfer_tsig_key_id'', opt_int (map_option int (dn_tsig z))),
      (''dnssec_enabled'', opt_bool (dn_dnssec z)), (''dnssec_algorithm'', J_Str (dn_algorithm z)), (''dnssec_ksk_size'', J_Int (dn_ksk z)),
      (''dnssec_zsk_size'', J_Int (dn_zsk z)),
      (''records'', J_List (map (record_payload \<circ> snd) (rows_where (\<lambda>r. re_zone r = k) (dn_records st)))),
      (''dnssec_keys'', J_List (map key_payload (rows_where (\<lambda>y. dy_zone y = k) (dn_keys st))))])"

definition tsig_payload_of :: "nat \<times> dns_tsig \<Rightarrow> json" where
  "tsig_payload_of e = (let (k, t) = e in J_Obj
     [(''id'', J_Int (int k)), (''name'', J_Str (tk_name t)), (''algorithm'', J_Str (tk_algorithm t)), (''secret'', J_Str (tk_secret t)),
      (''is_active'', J_Bool (tk_active t))])"

definition load_instance_servers :: "'w dns_state \<Rightarrow> nat \<Rightarrow> (nat \<times> dns_server) list" where
  "load_instance_servers st i = sort_key fst (rows_where (\<lambda>s. ds_instance s = i \<and> ds_enabled s = Some True) (dn_servers st))"

definition or_list :: "string list option \<Rightarrow> string list \<Rightarrow> string list" where
  "or_list v dflt = (case v of None \<Rightarrow> dflt | Some xs \<Rightarrow> if xs = [] then dflt else xs)"

definition dns_body :: "nat \<Rightarrow> string \<Rightarrow> string list \<Rightarrow> json \<Rightarrow> json \<Rightarrow> json \<Rightarrow> string list \<Rightarrow> string list \<Rightarrow> string list \<Rightarrow> string list \<Rightarrow>
    json list \<Rightarrow> json list \<Rightarrow> json" where
  "dns_body k name listen port recursive authoritative forwarders query transfer notify tsigs zones = J_Obj
     [(''server_id'', J_Int (int k)), (''name'', J_Str name), (''listening_addresses'', str_list listen), (''port'', port),
      (''is_recursive'', recursive), (''is_authoritative'', authoritative), (''forwarders'', str_list forwarders), (''allow_query'', str_list query),
      (''allow_transfer'', str_list transfer), (''also_notify'', str_list notify), (''tsig_keys'', J_List tsigs), (''zones'', J_List zones)]"

definition empty_dns_body :: json where
  "empty_dns_body = dns_body 0 ''none'' [''0.0.0.0'', ''::''] (J_Int 53) (J_Bool False) (J_Bool True) [] [''0.0.0.0/0'', ''::/0'']
     [''127.0.0.1'', ''::1''] [] [] []"

definition build_instance_dns_payload :: "'w dns_state \<Rightarrow> nat \<Rightarrow> json" where
  "build_instance_dns_payload st i =
     (case load_instance_servers st i of
        [] \<Rightarrow> empty_dns_body
      | (k, p) # rest \<Rightarrow>
          (let servers = map fst ((k, p) # rest) in
           dns_body k (ds_name p) (or_list (ds_listen p) [''0.0.0.0'', ''::'']) (opt_int (ds_port p)) (opt_bool (ds_recursive p))
             (opt_bool (ds_authoritative p)) (or_list (ds_forwarders p) []) (or_list (ds_query p) [''0.0.0.0/0'', ''::/0''])
             (or_list (ds_transfer p) [''127.0.0.1'', ''::1'']) (or_list (ds_notify p) [])
             (concat (map (\<lambda>s. map tsig_payload_of (rows_where (\<lambda>t. tk_server t = s) (dn_tsigs st))) servers))
             (concat (map (\<lambda>s. map (zone_payload_of st) (rows_where (\<lambda>z. dn_server z = s) (dn_zones st))) servers))))"

section \<open>Dispatch\<close>

definition set_statuses :: "nat \<Rightarrow> string \<Rightarrow> 'w dns_state \<Rightarrow> 'w dns_state" where
  "set_statuses i s st = st\<lparr>dn_servers := (dn_servers st)\<lparr>tb_rows :=
     map (\<lambda>(k, r). (k, if ds_instance r = i then r\<lparr>ds_status := Some s\<rparr> else r)) (tb_rows (dn_servers st))\<rparr>\<rparr>"

definition audit_dns :: "nat \<Rightarrow> string \<Rightarrow> bool \<Rightarrow> string \<Rightarrow> nat option \<Rightarrow> 'w dns_state \<Rightarrow> 'w dns_state" where
  "audit_dns i path ok detail u = dns_on_gw (audit_dispatch i ''dns_agent'' ''deploy'' path ok detail u)"

definition dns_ask :: "'w sender \<Rightarrow> nat \<Rightarrow> string \<Rightarrow> json \<Rightarrow> 'w dns_state \<Rightarrow> (agent_error + json) \<times> 'w dns_state" where
  "dns_ask send i path body st =
     (case ask send i ''POST'' path body (Some ''dns'') (dn_gw st) of (r, g) \<Rightarrow> (r, st\<lparr>dn_gw := g\<rparr>))"

definition apply_dns_config :: "'w sender \<Rightarrow> nat \<Rightarrow> nat option \<Rightarrow> 'w dns_state \<Rightarrow> (agent_error + json) \<times> 'w dns_state" where
  "apply_dns_config send i u st =
     (case dns_ask send i ''/dns/apply'' (build_instance_dns_payload st i) st of
        (Inl e, st1) \<Rightarrow> (Inl e, audit_dns i ''/dns/apply'' False (agent_error_text e) u st1)
      | (Inr r, st1) \<Rightarrow> (Inr r, audit_dns i ''/dns/apply'' True [] u (set_statuses i ''running'' st1)))"

definition reload_dns_agent :: "'w sender \<Rightarrow> nat \<Rightarrow> nat option \<Rightarrow> 'w dns_state \<Rightarrow> (agent_error + json) \<times> 'w dns_state" where
  "reload_dns_agent send i u st =
     (case dns_ask send i ''/dns/reload'' J_Null st of
        (Inl e, st1) \<Rightarrow> (Inl e, audit_dns i ''/dns/reload'' False (agent_error_text e) u st1)
      | (Inr r, st1) \<Rightarrow> (Inr r, audit_dns i ''/dns/reload'' True [] u st1))"

text \<open>The task needs a session of its own; \<open>bound\<close> says whether the name of the session factory was bound when
  the module was imported. When it was not, the exception ends the task before anything is asked.\<close>

definition apply_dns_config_task :: "bool \<Rightarrow> 'w sender \<Rightarrow> nat \<Rightarrow> 'w dns_state \<Rightarrow> 'w dns_state" where
  "apply_dns_config_task bound send i st =
     (if \<not> bound then st else case apply_dns_config send i None st of (Inl e, st1) \<Rightarrow> set_statuses i ''error'' st1 | (Inr r, st1) \<Rightarrow> st1)"

end
