(* ===== verification/Gw_Dns_Zones.thy ===== *)
theory Gw_Dns_Zones
  imports Gw_Dns
begin

text \<open>
  \<open>routers/dns.py\<close>, first part: servers and zones. What a handler takes from outside is one record: the hour,
  the random secret for an algorithm, key tags, and the hashes in the synthetic DNSSEC lines.
\<close>

section \<open>Helpers\<close>

record dns_ctx =
  dx_year :: nat
  dx_month :: nat
  dx_day :: nat
  dx_hour :: nat
  dx_secret :: "string \<Rightarrow> string"
  dx_tag :: "string \<Rightarrow> string \<Rightarrow> int \<Rightarrow> int"
  dx_blob :: "string \<Rightarrow> int \<Rightarrow> string \<Rightarrow> string"
  dx_digest :: "string \<Rightarrow> string"

definition serial_from_now :: "dns_ctx \<Rightarrow> int" where
  "serial_from_now x = int (((dx_year x * 100 + dx_month x) * 100 + dx_day x) * 100 + dx_hour x)"

definition ensure_fqdn :: "string \<Rightarrow> string" where
  "ensure_fqdn v = (if endswith v ''.'' then v else v @ ''.'')"

text \<open>The name of a reverse zone: \<open>None\<close> for text that is no network (a \<open>ValueError\<close>, 500), \<open>Some None\<close> for a prefix
  off the boundaries (400). A scope id is gone after masking; with a network that keeps one the
  expansion fails, a \<open>ValueError\<close> too.\<close>

definition v4_labels :: "32 word \<Rightarrow> string list" where
  "v4_labels w = (let n = unat w in
     [string_of_nat (n div 16777216), string_of_nat (n div 65536 mod 256), string_of_nat (n div 256 mod 256), string_of_nat (n mod 256)])"

fun nibbles_of :: "nat \<Rightarrow> nat \<Rightarrow> string" where
  "nibbles_of 0 n = []"
| "nibbles_of (Suc k) n = nibbles_of k (n div 16) @ [hex_char (n mod 16)]"

definition v6_labels :: "128 word \<Rightarrow> string list" where
  "v6_labels w = map (\<lambda>c. [c]) (nibbles_of 32 (unat w))"

definition reverse_zone_name :: "string \<Rightarrow> string option option" where
  "reverse_zone_name network =
     (case ip_network False network of
        None \<Rightarrow> None
      | Some (Net4 w p) \<Rightarrow>
          Some (if p mod 8 \<noteq> 0 then None else Some (join ''.'' (rev (take (p div 8) (v4_labels w))) @ ''.in-addr.arpa''))
      | Some (Net6 w sc p) \<Rightarrow>
          (if p mod 4 \<noteq> 0 then Some None
           else if sc \<noteq> None then None
           else Some (Some (join ''.'' (rev (take (p div 4) (v6_labels w))) @ ''.ip6.arpa''))))"

definition reverse_pointer :: "ip_addr \<Rightarrow> string option" where
  "reverse_pointer a =
     (case a of
        IPv4 w \<Rightarrow> Some (join ''.'' (rev (v4_labels w)) @ ''.in-addr.arpa'')
      | IPv6 w sc \<Rightarrow> if sc = None then Some (join ''.'' (rev (v6_labels w)) @ ''.ip6.arpa'') else None)"

text \<open>The relative name, or the status of the refusal. With an empty suffix the slice is empty.\<close>

definition ptr_name_for_zone :: "string \<Rightarrow> string \<Rightarrow> nat + string" where
  "ptr_name_for_zone ip zone_name =
     (case (case ip_address ip of None \<Rightarrow> None | Some a \<Rightarrow> reverse_pointer a) of
        None \<Rightarrow> Inl 500
      | Some pointer \<Rightarrow>
          (let suffix = rstrip_char CHR ''.'' zone_name in
           if \<not> endswith pointer suffix then Inl 400
           else (let relative = rstrip_char CHR ''.'' (if suffix = [] then [] else take (length pointer - length suffix) pointer) in
                 Inr (if relative = [] then ''@'' else relative))))"

section \<open>Frames of the handlers\<close>

type_synonym ('a, 'w) dns_reply = "(nat + 'a) \<times> 'w dns_state"

definition as_admin :: "token option \<Rightarrow> 'w dns_state \<Rightarrow> (nat \<Rightarrow> ('a, 'w) dns_reply) \<Rightarrow> ('a, 'w) dns_reply" where
  "as_admin tok st f = (case require_admin tok of Inl c \<Rightarrow> (Inl c, st) | Inr u \<Rightarrow> f u)"

definition with_row :: "'r table \<Rightarrow> nat \<Rightarrow> 'w dns_state \<Rightarrow> ('r \<Rightarrow> ('a, 'w) dns_reply) \<Rightarrow> ('a, 'w) dns_reply" where
  "with_row t k st f = (case row_get t k of None \<Rightarrow> (Inl 404, st) | Some r \<Rightarrow> f r)"

definition schedule_apply :: "nat option \<Rightarrow> 'w dns_state \<Rightarrow> 'w dns_state" where
  "schedule_apply i st = (case i of None \<Rightarrow> st | Some n \<Rightarrow> st\<lparr>dn_tasks := dn_tasks st @ [n]\<rparr>)"

text \<open>A response that fails its schema is a 500 after the commit, and the tasks queued so far are never run.\<close>

definition answered :: "nat + 'a \<Rightarrow> nat option \<Rightarrow> 'w dns_state \<Rightarrow> ('a, 'w) dns_reply" where
  "answered r i st = (r, case r of Inl c \<Rightarrow> st | Inr v \<Rightarrow> schedule_apply i st)"

definition server_instance :: "'w dns_state \<Rightarrow> nat \<Rightarrow> nat option" where
  "server_instance st k = map_option ds_instance (row_get (dn_servers st) k)"

definition zone_instance :: "'w dns_state \<Rightarrow> nat \<Rightarrow> nat option" where
  "zone_instance st k = (case row_get (dn_zones st) k of None \<Rightarrow> None | Some z \<Rightarrow> server_instance st (dn_server z))"

definition log_dns :: "nat \<Rightarrow> string \<Rightarrow> string \<Rightarrow> nat \<Rightarrow> nat option \<Rightarrow> json option \<Rightarrow> 'w dns_state \<Rightarrow> 'w dns_state" where
  "log_dns u action rtype rid inst new = dns_on_gw (set_db (\<lambda>db. db\<lparr>fd_audit :=
     log_audit (Some u) action rtype (Some (string_of_nat rid)) inst new (fd_audit db)\<rparr>))"

definition set_zone :: "nat \<Rightarrow> dns_zone \<Rightarrow> 'w dns_state \<Rightarrow> 'w dns_state" where
  "set_zone k z st = st\<lparr>dn_zones := row_set k z (dn_zones st)\<rparr>"

section \<open>Servers\<close>

definition dns_server_ok :: "dns_server \<Rightarrow> bool" where
  "dns_server_ok s \<longleftrightarrow> name_ok 100 (ds_name s) \<and> ds_enabled s \<noteq> None \<and> ds_listen s \<noteq> None
     \<and> (case ds_port s of None \<Rightarrow> False | Some p \<Rightarrow> 1 \<le> p \<and> p \<le> 65535) \<and> ds_recursive s \<noteq> None \<and> ds_authoritative s \<noteq> None
     \<and> ds_forwarders s \<noteq> None \<and> ds_query s \<noteq> None \<and> ds_transfer s \<noteq> None \<and> ds_notify s \<noteq> None \<and> ds_dnssec s \<noteq> None \<and> ds_status s \<noteq> None"

record dns_server_view =
  dv_id :: nat
  dv_row :: dns_server
  dv_zones :: nat

definition dns_server_response :: "nat \<Rightarrow> dns_server \<Rightarrow> nat \<Rightarrow> nat + dns_server_view" where
  "dns_server_response k s n = (if dns_server_ok s then Inr \<lparr>dv_id = k, dv_row = s, dv_zones = n\<rparr> else Inl 500)"

definition zones_of :: "'w dns_state \<Rightarrow> nat \<Rightarrow> (nat \<times> dns_zone) list" where
  "zones_of st k = rows_where (\<lambda>z. dn_server z = k) (dn_zones st)"

definition records_of :: "'w dns_state \<Rightarrow> nat \<Rightarrow> (nat \<times> dns_record) list" where
  "records_of st k = rows_where (\<lambda>r. re_zone r = k) (dn_records st)"

fun sequence_replies :: "(nat + 'a) list \<Rightarrow> nat + 'a list" where
  "sequence_replies [] = Inr []"
| "sequence_replies (Inl c # xs) = Inl c"
| "sequence_replies (Inr x # xs) = (case sequence_replies xs of Inl c \<Rightarrow> Inl c | Inr ys \<Rightarrow> Inr (x # ys))"

definition list_dns_servers :: "token option \<Rightarrow> nat \<Rightarrow> 'w dns_state \<Rightarrow> nat + dns_server_view list" where
  "list_dns_servers tok i st =
     (case require_auth tok of
        Inl c \<Rightarrow> Inl c
      | Inr u \<Rightarrow> sequence_replies (map (\<lambda>(k, s). dns_server_response k s (length (zones_of st k)))
          (sort_key fst (rows_where (\<lambda>s. ds_instance s = i) (dn_servers st)))))"

definition get_dns_server :: "token option \<Rightarrow> nat \<Rightarrow> 'w dns_state \<Rightarrow> nat + dns_server_view" where
  "get_dns_server tok k st =
     (case require_auth tok of
        Inl c \<Rightarrow> Inl c
      | Inr u \<Rightarrow> (case row_get (dn_servers st) k of None \<Rightarrow> Inl 404 | Some s \<Rightarrow> dns_server_response k s (length (zones_of st k))))"

record dns_server_create =
  dsc_name :: string
  dsc_description :: "string option"
  dsc_enabled :: bool
  dsc_listen :: "string list"
  dsc_port :: int
  dsc_recursive :: bool
  dsc_authoritative :: bool
  dsc_forwarders :: "string list"
  dsc_query :: "string list"
  dsc_transfer :: "string list"
  dsc_notify :: "string list"
  dsc_dnssec :: bool

definition new_dns_server :: "nat \<Rightarrow> dns_server_create \<Rightarrow> dns_server" where
  "new_dns_server i d = \<lparr>ds_instance = i, ds_name = dsc_name d, ds_description = dsc_description d, ds_enabled = Some (dsc_enabled d),
     ds_status = Some ''stopped'', ds_listen = Some (dsc_listen d), ds_port = Some (dsc_port d), ds_recursive = Some (dsc_recursive d),
     ds_authoritative = Some (dsc_authoritative d), ds_forwarders = Some (dsc_forwarders d), ds_query = Some (dsc_query d),
     ds_transfer = Some (dsc_transfer d), ds_notify = Some (dsc_notify d), ds_dnssec = Some (dsc_dnssec d)\<rparr>"

definition create_dns_server :: "token option \<Rightarrow> nat \<Rightarrow> dns_server_create \<Rightarrow> 'w dns_state \<Rightarrow> (dns_server_view, 'w) dns_reply" where
  "create_dns_server tok i d st = as_admin tok st (\<lambda>u.
     if \<not> name_ok 100 (dsc_name d) \<or> dsc_port d < 1 \<or> 65535 < dsc_port d then (Inl 422, st)
     else if row_get (fd_instances (gs_db (dn_gw st))) i = None then (Inl 404, st)
     else (let s = new_dns_server i d; (k, t') = row_add s (dn_servers st) in
           answered (dns_server_response k s 0) (Some i) (log_dns u ''create'' ''dns_server'' k (Some i) None (st\<lparr>dn_servers := t'\<rparr>))))"

record dns_server_patch =
  dsp_name :: "string option option"
  dsp_description :: "string option option"
  dsp_enabled :: "bool option option"
  dsp_listen :: "string list option option"
  dsp_port :: "int option option"
  dsp_recursive :: "bool option option"
  dsp_authoritative :: "bool option option"
  dsp_forwarders :: "string list option option"
  dsp_query :: "string list option option"
  dsp_transfer :: "string list option option"
  dsp_notify :: "string list option option"
  dsp_dnssec :: "bool option option"

definition valid_dns_server_patch :: "dns_server_patch \<Rightarrow> bool" where
  "valid_dns_server_patch d \<longleftrightarrow> (case dsp_port d of Some (Some p) \<Rightarrow> 1 \<le> p \<and> p \<le> 65535 | _ \<Rightarrow> True)"

definition patch_dns_server :: "dns_server_patch \<Rightarrow> dns_server \<Rightarrow> dns_server option" where
  "patch_dns_server d s =
     (case kept (dsp_name d) (ds_name s) of
        None \<Rightarrow> None
      | Some n \<Rightarrow> Some (s\<lparr>ds_name := n, ds_description := patched (dsp_description d) (ds_description s),
          ds_enabled := patched (dsp_enabled d) (ds_enabled s), ds_listen := patched (dsp_listen d) (ds_listen s),
          ds_port := patched (dsp_port d) (ds_port s), ds_recursive := patched (dsp_recursive d) (ds_recursive s),
          ds_authoritative := patched (dsp_authoritative d) (ds_authoritative s), ds_forwarders := patched (dsp_forwarders d) (ds_forwarders s),
          ds_query := patched (dsp_query d) (ds_query s), ds_transfer := patched (dsp_transfer d) (ds_transfer s),
          ds_notify := patched (dsp_notify d) (ds_notify s), ds_dnssec := patched (dsp_dnssec d) (ds_dnssec s)\<rparr>))"

definition update_dns_server :: "token option \<Rightarrow> nat \<Rightarrow> dns_server_patch \<Rightarrow> 'w dns_state \<Rightarrow> (dns_server_view, 'w) dns_reply" where
  "update_dns_server tok k d st = as_admin tok st (\<lambda>u.
     if \<not> valid_dns_server_patch d then (Inl 422, st)
     else with_row (dn_servers st) k st (\<lambda>s.
       case patch_dns_server d s of
         None \<Rightarrow> (Inl 500, st)
       | Some s' \<Rightarrow>
           answered (dns_server_response k s' 0) (Some (ds_instance s')) (log_dns u ''update'' ''dns_server'' k (Some (ds_instance s')) None
             (st\<lparr>dn_servers := row_set k s' (dn_servers st)\<rparr>))))"

text \<open>What a deletion takes along, and what refuses it.\<close>

definition drop_rows :: "('r \<Rightarrow> bool) \<Rightarrow> 'r table \<Rightarrow> 'r table" where
  "drop_rows p t = t\<lparr>tb_rows := filter (\<lambda>e. \<not> p (snd e)) (tb_rows t)\<rparr>"

definition drop_keys :: "(nat \<Rightarrow> bool) \<Rightarrow> 'r table \<Rightarrow> 'r table" where
  "drop_keys p t = t\<lparr>tb_rows := filter (\<lambda>e. \<not> p (fst e)) (tb_rows t)\<rparr>"

definition drop_zones :: "(nat \<Rightarrow> bool) \<Rightarrow> 'w dns_state \<Rightarrow> 'w dns_state" where
  "drop_zones p st = st\<lparr>dn_zones := drop_keys p (dn_zones st), dn_records := drop_rows (p \<circ> re_zone) (dn_records st),
     dn_keys := drop_rows (p \<circ> dy_zone) (dn_keys st)\<rparr>"

definition zone_held :: "'w dns_state \<Rightarrow> nat \<Rightarrow> bool" where
  "zone_held st k \<longleftrightarrow> rows_where (\<lambda>s. zs_zone s = k) (dn_slaves st) \<noteq> []"

definition tsig_held :: "'w dns_state \<Rightarrow> nat \<Rightarrow> nat \<Rightarrow> bool" where
  "tsig_held st server k \<longleftrightarrow> rows_where (\<lambda>z. dn_tsig z = Some k \<and> dn_server z \<noteq> server) (dn_zones st) \<noteq> []
     \<or> rows_where (\<lambda>s. zs_key s = Some k) (dn_slaves st) \<noteq> []"

definition delete_dns_server :: "token option \<Rightarrow> nat \<Rightarrow> 'w dns_state \<Rightarrow> (nat, 'w) dns_reply" where
  "delete_dns_server tok k st = as_admin tok st (\<lambda>u. with_row (dn_servers st) k st (\<lambda>s.
     if list_ex (\<lambda>(j, z). zone_held st j) (zones_of st k) \<or> list_ex (\<lambda>(j, t). tsig_held st k j) (rows_where (\<lambda>t. tk_server t = k) (dn_tsigs st))
     then (Inl 500, st)
     else (Inr k, log_dns u ''delete'' ''dns_server'' k (Some (ds_instance s)) None (schedule_apply (Some (ds_instance s))
       ((drop_zones (\<lambda>j. j \<in> fst ` set (zones_of st k)) st)\<lparr>dn_servers := row_del k (dn_servers st),
          dn_tsigs := drop_rows (\<lambda>t. tk_server t = k) (dn_tsigs st)\<rparr>)))))"

definition set_server_status :: "nat \<Rightarrow> string \<Rightarrow> 'w dns_state \<Rightarrow> 'w dns_state" where
  "set_server_status k s st = (case row_get (dn_servers st) k of
     None \<Rightarrow> st | Some r \<Rightarrow> st\<lparr>dn_servers := row_set k (r\<lparr>ds_status := Some s\<rparr>) (dn_servers st)\<rparr>)"

definition dns_server_action :: "'w sender \<Rightarrow> token option \<Rightarrow> nat \<Rightarrow> string \<Rightarrow> 'w dns_state \<Rightarrow> (json, 'w) dns_reply" where
  "dns_server_action send tok k action st = as_admin tok st (\<lambda>u. with_row (dn_servers st) k st (\<lambda>s.
     (let i = ds_instance s;
          answer = (\<lambda>r st. (Inr r, log_dns u ''deploy'' ''dns_server'' k (Some i)
            (Some (J_Obj [(''operation'', J_Str action), (''agent_result'', r)])) st)) in
      if action = ''start'' then answer J_Null (schedule_apply (Some i) (set_server_status k ''running'' st))
      else if action = ''stop'' then answer J_Null (set_server_status k ''stopped'' st)
      else if action = ''apply'' then
        (case apply_dns_config send i (Some u) st of
           (Inl e, st1) \<Rightarrow> (Inl 502, set_server_status k ''error'' st1)
         | (Inr r, st1) \<Rightarrow> answer r (set_server_status k ''running'' st1))
      else if action = ''reload'' then
        (case reload_dns_agent send i (Some u) st of (Inl e, st1) \<Rightarrow> (Inl 502, st1) | (Inr r, st1) \<Rightarrow> answer r st1)
      else (Inl 400, st))))"

section \<open>Zones\<close>

datatype zone_kind = Zone_Master | Zone_Slave | Zone_Forward | Zone_Stub

definition zone_kind_text :: "zone_kind \<Rightarrow> string" where
  "zone_kind_text t = (case t of Zone_Master \<Rightarrow> ''master'' | Zone_Slave \<Rightarrow> ''slave'' | Zone_Forward \<Rightarrow> ''forward'' | Zone_Stub \<Rightarrow> ''stub'')"

definition zone_texts :: "string list" where
  "zone_texts = [''master'', ''slave'', ''forward'', ''stub'']"

definition at_least :: "int \<Rightarrow> int option \<Rightarrow> bool" where
  "at_least b v = (case v of None \<Rightarrow> False | Some n \<Rightarrow> b \<le> n)"

definition zone_response_ok :: "dns_zone \<Rightarrow> bool" where
  "zone_response_ok z \<longleftrightarrow> length (dn_name z) \<le> 255 \<and> dn_type z \<in> set zone_texts \<and> dn_reverse z \<noteq> None \<and> at_least 60 (dn_refresh z)
     \<and> at_least 60 (dn_retry z) \<and> at_least 60 (dn_expire z) \<and> at_least 0 (dn_minimum z) \<and> dn_enabled z \<noteq> None \<and> dn_dnssec z \<noteq> None"

record zone_view =
  zv_id :: nat
  zv_row :: dns_zone
  zv_records :: nat

definition zone_response :: "nat \<Rightarrow> dns_zone \<Rightarrow> nat \<Rightarrow> nat + zone_view" where
  "zone_response k z n = (if zone_response_ok z then Inr \<lparr>zv_id = k, zv_row = z, zv_records = n\<rparr> else Inl 500)"

definition list_zones :: "token option \<Rightarrow> nat \<Rightarrow> 'w dns_state \<Rightarrow> nat + zone_view list" where
  "list_zones tok k st =
     (case require_auth tok of
        Inl c \<Rightarrow> Inl c
      | Inr u \<Rightarrow> sequence_replies (map (\<lambda>(j, z). zone_response j z (length (records_of st j))) (sort_key fst (zones_of st k))))"

definition get_zone :: "token option \<Rightarrow> nat \<Rightarrow> 'w dns_state \<Rightarrow> nat + zone_view" where
  "get_zone tok k st =
     (case require_auth tok of
        Inl c \<Rightarrow> Inl c
      | Inr u \<Rightarrow> (case row_get (dn_zones st) k of None \<Rightarrow> Inl 404 | Some z \<Rightarrow> zone_response k z (length (records_of st k))))"

record zone_create =
  zc_name :: string
  zc_description :: "string option"
  zc_kind :: zone_kind
  zc_reverse :: bool
  zc_network :: "string option"
  zc_refresh :: int
  zc_retry :: int
  zc_expire :: int
  zc_minimum :: int
  zc_enabled :: bool
  zc_dnssec :: bool

definition valid_zone_create :: "zone_create \<Rightarrow> bool" where
  "valid_zone_create d \<longleftrightarrow> length (zc_name d) \<le> 255 \<and> 60 \<le> zc_refresh d \<and> 60 \<le> zc_retry d \<and> 60 \<le> zc_expire d \<and> 0 \<le> zc_minimum d"

definition new_zone :: "dns_ctx \<Rightarrow> nat \<Rightarrow> zone_create \<Rightarrow> dns_zone" where
  "new_zone x k d = \<lparr>dn_server = k, dn_name = rstrip_char CHR ''.'' (zc_name d), dn_description = zc_description d,
     dn_type = zone_kind_text (zc_kind d), dn_reverse = Some (zc_reverse d), dn_network = zc_network d, dn_serial = serial_from_now x,
     dn_refresh = Some (zc_refresh d), dn_retry = Some (zc_retry d), dn_expire = Some (zc_expire d), dn_minimum = Some (zc_minimum d),
     dn_master = None, dn_dnssec = Some (zc_dnssec d), dn_algorithm = ''ECDSAP256SHA256'', dn_ksk = 256, dn_zsk = 256, dn_ds = None,
     dn_enabled = Some (zc_enabled d), dn_tsig = None\<rparr>"

definition system_record :: "nat \<Rightarrow> string \<Rightarrow> string \<Rightarrow> int \<Rightarrow> dns_record" where
  "system_record k ty content ttl = \<lparr>re_zone = k, re_name = ''@'', re_type = ty, re_content = content, re_ttl = Some ttl, re_priority = Some 0,
     re_weight = Some 0, re_port = Some 0, re_flags = Some ''0'', re_tag = None, re_system = True, re_comment = None\<rparr>"

definition add_record :: "dns_record \<Rightarrow> 'w dns_state \<Rightarrow> 'w dns_state" where
  "add_record r st = st\<lparr>dn_records := snd (row_add r (dn_records st))\<rparr>"

definition store_zone :: "dns_ctx \<Rightarrow> nat \<Rightarrow> nat \<Rightarrow> zone_create \<Rightarrow> 'w dns_state \<Rightarrow> (zone_view, 'w) dns_reply" where
  "store_zone x u k d st = with_row (dn_servers st) k st (\<lambda>s.
     let z = new_zone x k d; (j, t') = row_add z (dn_zones st); st1 = st\<lparr>dn_zones := t'\<rparr>; own = zc_kind d \<in> {Zone_Master, Zone_Slave};
         st2 = (if own then add_record (system_record j ''NS'' (ensure_fqdn (ds_name s)) (zc_minimum d)) st1 else st1) in
     answered (zone_response j z (if own then 1 else 0)) (Some (ds_instance s))
       (log_dns u ''create'' ''dns_zone'' j (Some (ds_instance s)) None st2))"

definition create_zone :: "dns_ctx \<Rightarrow> token option \<Rightarrow> nat \<Rightarrow> zone_create \<Rightarrow> 'w dns_state \<Rightarrow> (zone_view, 'w) dns_reply" where
  "create_zone x tok k d st = as_admin tok st (\<lambda>u. if \<not> valid_zone_create d then (Inl 422, st) else store_zone x u k d st)"

record reverse_request =
  rv_network :: string
  rv_nameserver :: string
  rv_email :: string

definition reverse_zone :: "reverse_request \<Rightarrow> string \<Rightarrow> zone_create" where
  "reverse_zone d n = \<lparr>zc_name = n, zc_description = None, zc_kind = Zone_Master, zc_reverse = True, zc_network = Some (rv_network d),
     zc_refresh = 3600, zc_retry = 1800, zc_expire = 604800, zc_minimum = 86400, zc_enabled = True, zc_dnssec = False\<rparr>"

definition int_text :: "int option \<Rightarrow> string" where
  "int_text v = (case v of None \<Rightarrow> ''None'' | Some n \<Rightarrow> string_of_int n)"

definition soa_content :: "reverse_request \<Rightarrow> dns_zone \<Rightarrow> string" where
  "soa_content d z = ensure_fqdn (rv_nameserver d) @ '' '' @ ensure_fqdn (replace_char CHR ''@'' ''.'' (rv_email d)) @ '' ''
     @ join '' '' (map int_text [Some (dn_serial z), dn_refresh z, dn_retry z, dn_expire z, dn_minimum z])"

definition create_reverse_zone :: "dns_ctx \<Rightarrow> token option \<Rightarrow> nat \<Rightarrow> reverse_request \<Rightarrow> 'w dns_state \<Rightarrow> (zone_view, 'w) dns_reply" where
  "create_reverse_zone x tok k d st = as_admin tok st (\<lambda>u.
     case reverse_zone_name (rv_network d) of
       None \<Rightarrow> (Inl 500, st)
     | Some None \<Rightarrow> (Inl 400, st)
     | Some (Some n) \<Rightarrow>
         (case store_zone x u k (reverse_zone d n) st of
            (Inl c, st1) \<Rightarrow> (Inl c, st1)
          | (Inr v, st1) \<Rightarrow>
              (let st2 = add_record (system_record (zv_id v) ''SOA'' (soa_content d (zv_row v)) 86400) st1 in
               (zone_response (zv_id v) (zv_row v) (length (records_of st2 (zv_id v))), st2))))"

record zone_patch =
  zp_description :: "string option option"
  zp_reverse :: "bool option option"
  zp_network :: "string option option"
  zp_refresh :: "int option option"
  zp_retry :: "int option option"
  zp_expire :: "int option option"
  zp_minimum :: "int option option"
  zp_enabled :: "bool option option"
  zp_dnssec :: "bool option option"
  zp_tsig :: "nat option option"

definition given_at_least :: "int \<Rightarrow> int option option \<Rightarrow> bool" where
  "given_at_least b v = (case v of Some (Some n) \<Rightarrow> b \<le> n | _ \<Rightarrow> True)"

definition valid_zone_patch :: "zone_patch \<Rightarrow> bool" where
  "valid_zone_patch d \<longleftrightarrow> given_at_least 60 (zp_refresh d) \<and> given_at_least 60 (zp_retry d) \<and> given_at_least 60 (zp_expire d)
     \<and> given_at_least 0 (zp_minimum d)"

definition patch_zone :: "dns_ctx \<Rightarrow> zone_patch \<Rightarrow> dns_zone \<Rightarrow> dns_zone" where
  "patch_zone x d z = z\<lparr>dn_description := patched (zp_description d) (dn_description z), dn_reverse := patched (zp_reverse d) (dn_reverse z),
     dn_network := patched (zp_network d) (dn_network z), dn_refresh := patched (zp_refresh d) (dn_refresh z),
     dn_retry := patched (zp_retry d) (dn_retry z), dn_expire := patched (zp_expire d) (dn_expire z),
     dn_minimum := patched (zp_minimum d) (dn_minimum z), dn_enabled := patched (zp_enabled d) (dn_enabled z),
     dn_dnssec := patched (zp_dnssec d) (dn_dnssec z), dn_tsig := patched (zp_tsig d) (dn_tsig z), dn_serial := serial_from_now x\<rparr>"

text \<open>A key that does not exist violates the foreign key.\<close>

definition update_zone :: "dns_ctx \<Rightarrow> token option \<Rightarrow> nat \<Rightarrow> zone_patch \<Rightarrow> 'w dns_state \<Rightarrow> (zone_view, 'w) dns_reply" where
  "update_zone x tok k d st = as_admin tok st (\<lambda>u.
     if \<not> valid_zone_patch d then (Inl 422, st)
     else with_row (dn_zones st) k st (\<lambda>z.
       let z' = patch_zone x d z in
       if \<exists>t. dn_tsig z' = Some t \<and> row_get (dn_tsigs st) t = None then (Inl 500, st)
       else answered (zone_response k z' 0) (zone_instance st k) (log_dns u ''update'' ''dns_zone'' k None None (set_zone k z' st))))"

definition delete_zone :: "token option \<Rightarrow> nat \<Rightarrow> 'w dns_state \<Rightarrow> (nat, 'w) dns_reply" where
  "delete_zone tok k st = as_admin tok st (\<lambda>u. with_row (dn_zones st) k st (\<lambda>z.
     if zone_held st k then (Inl 500, st)
     else (Inr k, log_dns u ''delete'' ''dns_zone'' k None None (schedule_apply (zone_instance st k) (drop_zones (\<lambda>j. j = k) st)))))"

end
