(* ===== verification/Gw_Dns_Records.thy ===== *)
theory Gw_Dns_Records
  imports Gw_Dns_Zones
begin

text \<open>
  \<open>routers/dns.py\<close>, second part: DNSSEC keys, records, transfer rows and TSIG keys, and the steps of the
  router: a handler call, or the run of one queued task.
\<close>

section \<open>DNSSEC\<close>

definition retire :: "(dnssec_key \<Rightarrow> bool) \<Rightarrow> dnssec_key table \<Rightarrow> dnssec_key table" where
  "retire p t = t\<lparr>tb_rows := map (\<lambda>(k, y). (k, if dy_active y \<and> p y then y\<lparr>dy_active := False, dy_rotated := True\<rparr> else y)) (tb_rows t)\<rparr>"

definition dnskey_line :: "dns_ctx \<Rightarrow> string \<Rightarrow> int \<Rightarrow> string \<Rightarrow> string" where
  "dnskey_line x zone tag algorithm = zone @ ''. 3600 IN DNSKEY 257 3 13 '' @ dx_blob x zone tag algorithm"

definition ds_line :: "dns_ctx \<Rightarrow> string \<Rightarrow> int \<Rightarrow> string \<Rightarrow> string" where
  "ds_line x zone tag dnskey = zone @ ''. IN DS '' @ string_of_int tag @ '' 13 2 '' @ dx_digest x dnskey"

definition new_key :: "dns_ctx \<Rightarrow> nat \<Rightarrow> dns_zone \<Rightarrow> string \<Rightarrow> string \<Rightarrow> int \<Rightarrow> dnssec_key" where
  "new_key x k z ty algorithm bits =
     (let tag = dx_tag x (dn_name z) ty bits; line = dnskey_line x (dn_name z) tag algorithm in
      \<lparr>dy_zone = k, dy_type = ty, dy_algorithm = algorithm, dy_size = bits, dy_tag = tag, dy_dnskey = line,
       dy_ds = (if ty = ''KSK'' then Some (ds_line x (dn_name z) tag line) else None), dy_active = True, dy_rotated = False\<rparr>)"

definition add_key :: "dnssec_key \<Rightarrow> 'w dns_state \<Rightarrow> 'w dns_state" where
  "add_key y st = st\<lparr>dn_keys := snd (row_add y (dn_keys st))\<rparr>"

definition sign_zone :: "dns_ctx \<Rightarrow> token option \<Rightarrow> nat \<Rightarrow> 'w dns_state \<Rightarrow> (nat, 'w) dns_reply" where
  "sign_zone x tok k st = as_admin tok st (\<lambda>u. with_row (dn_zones st) k st (\<lambda>z.
     let ksk = new_key x k z ''KSK'' (dn_algorithm z) (dn_ksk z); zsk = new_key x k z ''ZSK'' (dn_algorithm z) (dn_zsk z);
         st1 = st\<lparr>dn_keys := retire (\<lambda>y. dy_zone y = k) (dn_keys st)\<rparr>;
         st2 = add_key zsk (add_key ksk st1);
         st3 = set_zone k (z\<lparr>dn_dnssec := Some True, dn_ds := dy_ds ksk, dn_serial := serial_from_now x\<rparr>) st2 in
     (Inr k, log_dns u ''deploy'' ''dns_zone_dnssec'' k None
        (Some (J_Obj [(''dnssec_enabled'', J_Bool True), (''ksk_tag'', J_Int (dy_tag ksk)), (''zsk_tag'', J_Int (dy_tag zsk))]))
        (schedule_apply (zone_instance st k) st3))))"

definition unsign_zone :: "dns_ctx \<Rightarrow> token option \<Rightarrow> nat \<Rightarrow> 'w dns_state \<Rightarrow> (nat, 'w) dns_reply" where
  "unsign_zone x tok k st = as_admin tok st (\<lambda>u. with_row (dn_zones st) k st (\<lambda>z.
     let st1 = st\<lparr>dn_keys := retire (\<lambda>y. dy_zone y = k) (dn_keys st)\<rparr>;
         st2 = set_zone k (z\<lparr>dn_dnssec := Some False, dn_ds := None, dn_serial := serial_from_now x\<rparr>) st1 in
     (Inr k, log_dns u ''deploy'' ''dns_zone_dnssec'' k None (Some (J_Obj [(''dnssec_enabled'', J_Bool False)]))
        (schedule_apply (zone_instance st k) st2))))"

definition list_dnssec_keys :: "token option \<Rightarrow> nat \<Rightarrow> 'w dns_state \<Rightarrow> nat + (nat \<times> dnssec_key) list" where
  "list_dnssec_keys tok k st =
     (case require_auth tok of
        Inl c \<Rightarrow> Inl c
      | Inr u \<Rightarrow> Inr (rev (sort_key fst (rows_where (\<lambda>y. dy_zone y = k) (dn_keys st)))))"

record rollover_request =
  ro_type :: string
  ro_algorithm :: string
  ro_size :: int

definition valid_rollover :: "rollover_request \<Rightarrow> bool" where
  "valid_rollover d \<longleftrightarrow> ro_type d \<in> {''KSK'', ''ZSK''} \<and> 128 \<le> ro_size d \<and> ro_size d \<le> 8192"

definition dnssec_rollover :: "dns_ctx \<Rightarrow> token option \<Rightarrow> nat \<Rightarrow> rollover_request \<Rightarrow> 'w dns_state \<Rightarrow> (nat \<times> dnssec_key, 'w) dns_reply" where
  "dnssec_rollover x tok k d st = as_admin tok st (\<lambda>u.
     if \<not> valid_rollover d then (Inl 422, st)
     else with_row (dn_zones st) k st (\<lambda>z.
       let y = new_key x k z (ro_type d) (ro_algorithm d) (ro_size d);
           st1 = st\<lparr>dn_keys := retire (\<lambda>q. dy_zone q = k \<and> dy_type q = ro_type d) (dn_keys st)\<rparr>;
           st2 = set_zone k (z\<lparr>dn_dnssec := Some True, dn_ds := (if ro_type d = ''KSK'' then dy_ds y else dn_ds z),
             dn_serial := serial_from_now x\<rparr>) (add_key y st1) in
       (Inr (tb_next (dn_keys st), y), log_dns u ''update'' ''dns_zone_dnssec_rollover'' k None
          (Some (J_Obj [(''key_type'', J_Str (ro_type d)), (''key_tag'', J_Int (dy_tag y))]))
          (schedule_apply (zone_instance st k) st2))))"

section \<open>Records\<close>

datatype record_kind = R_A | R_AAAA | R_CNAME | R_MX | R_NS | R_PTR | R_TXT | R_SRV | R_CAA | R_SOA | R_DNSKEY | R_DS

definition record_kind_text :: "record_kind \<Rightarrow> string" where
  "record_kind_text t = (case t of R_A \<Rightarrow> ''A'' | R_AAAA \<Rightarrow> ''AAAA'' | R_CNAME \<Rightarrow> ''CNAME'' | R_MX \<Rightarrow> ''MX'' | R_NS \<Rightarrow> ''NS'' | R_PTR \<Rightarrow> ''PTR''
     | R_TXT \<Rightarrow> ''TXT'' | R_SRV \<Rightarrow> ''SRV'' | R_CAA \<Rightarrow> ''CAA'' | R_SOA \<Rightarrow> ''SOA'' | R_DNSKEY \<Rightarrow> ''DNSKEY'' | R_DS \<Rightarrow> ''DS'')"

definition record_texts :: "string list" where
  "record_texts = [''A'', ''AAAA'', ''CNAME'', ''MX'', ''NS'', ''PTR'', ''TXT'', ''SRV'', ''CAA'', ''SOA'', ''DNSKEY'', ''DS'']"

definition record_ok :: "dns_record \<Rightarrow> bool" where
  "record_ok r \<longleftrightarrow> length (re_name r) \<le> 255 \<and> re_type r \<in> set record_texts \<and> length (re_content r) \<le> 2000
     \<and> (case re_ttl r of None \<Rightarrow> False | Some n \<Rightarrow> 0 \<le> n \<and> n \<le> 2147483647) \<and> at_least 0 (re_priority r) \<and> at_least 0 (re_weight r)
     \<and> at_least 0 (re_port r) \<and> (case re_flags r of None \<Rightarrow> False | Some f \<Rightarrow> length f \<le> 10)
     \<and> (case re_tag r of None \<Rightarrow> True | Some t \<Rightarrow> length t \<le> 50)"

definition record_response :: "nat \<times> dns_record \<Rightarrow> nat + nat \<times> dns_record" where
  "record_response e = (if record_ok (snd e) then Inr e else Inl 500)"

definition list_records :: "token option \<Rightarrow> nat \<Rightarrow> 'w dns_state \<Rightarrow> nat + (nat \<times> dns_record) list" where
  "list_records tok k st =
     (case require_auth tok of
        Inl c \<Rightarrow> Inl c
      | Inr u \<Rightarrow> sequence_replies (map record_response (sort_key fst (records_of st k))))"

record record_create =
  rrc_name :: string
  rrc_kind :: record_kind
  rrc_content :: string
  rrc_ttl :: int
  rrc_priority :: int
  rrc_weight :: int
  rrc_port :: int
  rrc_flags :: string
  rrc_tag :: "string option"
  rrc_comment :: "string option"

definition new_record :: "nat \<Rightarrow> record_create \<Rightarrow> dns_record" where
  "new_record k d = \<lparr>re_zone = k, re_name = rrc_name d, re_type = record_kind_text (rrc_kind d), re_content = rrc_content d,
     re_ttl = Some (rrc_ttl d), re_priority = Some (rrc_priority d), re_weight = Some (rrc_weight d), re_port = Some (rrc_port d),
     re_flags = Some (rrc_flags d), re_tag = rrc_tag d, re_system = False, re_comment = rrc_comment d\<rparr>"

text \<open>The request schema and the response schema have the same bounds.\<close>

definition valid_record_create :: "record_create \<Rightarrow> bool" where
  "valid_record_create d \<longleftrightarrow> length (rrc_name d) \<le> 255 \<and> length (rrc_content d) \<le> 2000 \<and> 0 \<le> rrc_ttl d \<and> rrc_ttl d \<le> 2147483647
     \<and> 0 \<le> rrc_priority d \<and> 0 \<le> rrc_weight d \<and> 0 \<le> rrc_port d \<and> length (rrc_flags d) \<le> 10
     \<and> (case rrc_tag d of None \<Rightarrow> True | Some t \<Rightarrow> length t \<le> 50)"

definition bump_serial :: "dns_ctx \<Rightarrow> nat \<Rightarrow> 'w dns_state \<Rightarrow> 'w dns_state" where
  "bump_serial x k st = (case row_get (dn_zones st) k of None \<Rightarrow> st | Some z \<Rightarrow> set_zone k (z\<lparr>dn_serial := serial_from_now x\<rparr>) st)"

definition store_record :: "dns_ctx \<Rightarrow> nat \<Rightarrow> dns_record \<Rightarrow> 'w dns_state \<Rightarrow> (nat \<times> dns_record, 'w) dns_reply" where
  "store_record x k r st =
     answered (record_response (tb_next (dn_records st), r)) (zone_instance st k) (bump_serial x k (add_record r st))"

definition create_record :: "dns_ctx \<Rightarrow> token option \<Rightarrow> nat \<Rightarrow> record_create \<Rightarrow> 'w dns_state \<Rightarrow> (nat \<times> dns_record, 'w) dns_reply" where
  "create_record x tok k d st = as_admin tok st (\<lambda>u.
     if \<not> valid_record_create d then (Inl 422, st)
     else with_row (dn_zones st) k st (\<lambda>z. store_record x k (new_record k d) st))"

definition bulk_import_records :: "dns_ctx \<Rightarrow> token option \<Rightarrow> nat \<Rightarrow> record_create list \<Rightarrow> 'w dns_state \<Rightarrow> ((nat \<times> dns_record) list, 'w) dns_reply" where
  "bulk_import_records x tok k ds st = as_admin tok st (\<lambda>u.
     if 500 < length ds \<or> \<not> list_all valid_record_create ds then (Inl 422, st)
     else with_row (dn_zones st) k st (\<lambda>z.
       let rs = map (new_record k) ds; keys = map (\<lambda>n. tb_next (dn_records st) + n) [0..<length ds] in
       answered (sequence_replies (map record_response (zip keys rs))) (zone_instance st k) (bump_serial x k (fold add_record rs st))))"

record ptr_request =
  pq_address :: string
  pq_host :: string
  pq_ttl :: int

text \<open>Whether the address lies in the network of the zone; \<open>None\<close> when one of the two does not parse.\<close>

definition in_reverse_network :: "dns_zone \<Rightarrow> string \<Rightarrow> bool option" where
  "in_reverse_network z a =
     (if \<not> truthy_str (dn_network z) then Some True
      else (case (ip_address a, ip_network False (or_empty (dn_network z))) of
          (Some ip, Some net) \<Rightarrow> Some (ip_in ip net)
        | _ \<Rightarrow> None))"

definition create_ptr_record :: "dns_ctx \<Rightarrow> token option \<Rightarrow> nat \<Rightarrow> ptr_request \<Rightarrow> 'w dns_state \<Rightarrow> (nat \<times> dns_record, 'w) dns_reply" where
  "create_ptr_record x tok k d st = as_admin tok st (\<lambda>u.
     if pq_ttl d < 0 then (Inl 422, st)
     else with_row (dn_zones st) k st (\<lambda>z.
       if dn_reverse z \<noteq> Some True then (Inl 400, st)
       else (case in_reverse_network z (pq_address d) of
           None \<Rightarrow> (Inl 500, st)
         | Some False \<Rightarrow> (Inl 400, st)
         | Some True \<Rightarrow>
             (case ptr_name_for_zone (pq_address d) (dn_name z) of
                Inl c \<Rightarrow> (Inl c, st)
              | Inr n \<Rightarrow> store_record x k ((system_record k ''PTR'' (ensure_fqdn (pq_host d)) (pq_ttl d))\<lparr>re_name := n, re_system := False\<rparr>) st))))"

record record_patch =
  rrp_name :: "string option option"
  rrp_kind :: "record_kind option option"
  rrp_content :: "string option option"
  rrp_ttl :: "int option option"
  rrp_priority :: "int option option"
  rrp_weight :: "int option option"
  rrp_port :: "int option option"
  rrp_flags :: "string option option"
  rrp_tag :: "string option option"
  rrp_comment :: "string option option"

definition valid_record_patch :: "record_patch \<Rightarrow> bool" where
  "valid_record_patch d \<longleftrightarrow> given_at_least 0 (rrp_ttl d) \<and> given_at_least 0 (rrp_priority d) \<and> given_at_least 0 (rrp_weight d)
     \<and> given_at_least 0 (rrp_port d)"

text \<open>A null name, type or content violates the column's \<open>NOT NULL\<close>.\<close>

definition patch_record :: "record_patch \<Rightarrow> dns_record \<Rightarrow> dns_record option" where
  "patch_record d r =
     (case (kept (rrp_name d) (re_name r), kept (map_option (map_option record_kind_text) (rrp_kind d)) (re_type r),
            kept (rrp_content d) (re_content r)) of
        (Some n, Some t, Some c) \<Rightarrow> Some (r\<lparr>re_name := n, re_type := t, re_content := c, re_ttl := patched (rrp_ttl d) (re_ttl r),
          re_priority := patched (rrp_priority d) (re_priority r), re_weight := patched (rrp_weight d) (re_weight r),
          re_port := patched (rrp_port d) (re_port r), re_flags := patched (rrp_flags d) (re_flags r), re_tag := patched (rrp_tag d) (re_tag r),
          re_comment := patched (rrp_comment d) (re_comment r)\<rparr>)
      | _ \<Rightarrow> None)"

definition update_record :: "dns_ctx \<Rightarrow> token option \<Rightarrow> nat \<Rightarrow> record_patch \<Rightarrow> 'w dns_state \<Rightarrow> (nat \<times> dns_record, 'w) dns_reply" where
  "update_record x tok j d st = as_admin tok st (\<lambda>u.
     if \<not> valid_record_patch d then (Inl 422, st)
     else with_row (dn_records st) j st (\<lambda>r.
       if re_system r then (Inl 400, st)
       else (case patch_record d r of
           None \<Rightarrow> (Inl 500, st)
         | Some r' \<Rightarrow> answered (record_response (j, r')) (zone_instance st (re_zone r))
             (bump_serial x (re_zone r) (st\<lparr>dn_records := row_set j r' (dn_records st)\<rparr>)))))"

definition delete_record :: "dns_ctx \<Rightarrow> token option \<Rightarrow> nat \<Rightarrow> 'w dns_state \<Rightarrow> (nat, 'w) dns_reply" where
  "delete_record x tok j st = as_admin tok st (\<lambda>u. with_row (dn_records st) j st (\<lambda>r.
     if re_system r then (Inl 400, st)
     else (Inr j, schedule_apply (zone_instance st (re_zone r)) (bump_serial x (re_zone r) (st\<lparr>dn_records := row_del j (dn_records st)\<rparr>)))))"

definition list_zone_slaves :: "token option \<Rightarrow> nat \<Rightarrow> 'w dns_state \<Rightarrow> nat + (nat \<times> zone_slave) list" where
  "list_zone_slaves tok k st =
     (case require_auth tok of
        Inl c \<Rightarrow> Inl c
      | Inr u \<Rightarrow> Inr (sort_key fst (rows_where (\<lambda>s. zs_zone s = k) (dn_slaves st))))"

section \<open>TSIG keys\<close>

datatype tsig_algorithm = Hmac_Sha256 | Hmac_Sha512

definition tsig_algorithm_text :: "tsig_algorithm \<Rightarrow> string" where
  "tsig_algorithm_text a = (case a of Hmac_Sha256 \<Rightarrow> ''hmac-sha256'' | Hmac_Sha512 \<Rightarrow> ''hmac-sha512'')"

text \<open>The response carries the secret.\<close>

definition tsig_response :: "nat \<times> dns_tsig \<Rightarrow> nat + nat \<times> dns_tsig" where
  "tsig_response e = (if name_ok 100 (tk_name (snd e)) \<and> tk_algorithm (snd e) \<in> {''hmac-sha256'', ''hmac-sha512''} then Inr e else Inl 500)"

definition list_tsig_keys :: "token option \<Rightarrow> nat \<Rightarrow> 'w dns_state \<Rightarrow> nat + (nat \<times> dns_tsig) list" where
  "list_tsig_keys tok k st =
     (case require_auth tok of
        Inl c \<Rightarrow> Inl c
      | Inr u \<Rightarrow> sequence_replies (map tsig_response (sort_key fst (rows_where (\<lambda>t. tk_server t = k) (dn_tsigs st)))))"

record tsig_create =
  tsc_name :: string
  tsc_algorithm :: tsig_algorithm
  tsc_active :: bool
  tsc_secret :: "string option"

definition create_tsig_key :: "dns_ctx \<Rightarrow> token option \<Rightarrow> nat \<Rightarrow> tsig_create \<Rightarrow> 'w dns_state \<Rightarrow> (nat \<times> dns_tsig, 'w) dns_reply" where
  "create_tsig_key x tok k d st = as_admin tok st (\<lambda>u.
     if \<not> name_ok 100 (tsc_name d) then (Inl 422, st)
     else with_row (dn_servers st) k st (\<lambda>s.
       let t = \<lparr>tk_server = k, tk_name = tsc_name d, tk_algorithm = tsig_algorithm_text (tsc_algorithm d),
             tk_secret = (if truthy_str (tsc_secret d) then or_empty (tsc_secret d) else dx_secret x (tsig_algorithm_text (tsc_algorithm d))),
             tk_active = tsc_active d, tk_rotated = False\<rparr>;
           (j, t') = row_add t (dn_tsigs st) in
       answered (tsig_response (j, t)) (Some (ds_instance s)) (log_dns u ''create'' ''dns_tsig_key'' j (Some (ds_instance s)) None
         (st\<lparr>dn_tsigs := t'\<rparr>))))"

definition rotate_tsig_key :: "dns_ctx \<Rightarrow> token option \<Rightarrow> nat \<Rightarrow> tsig_algorithm \<Rightarrow> 'w dns_state \<Rightarrow> (nat \<times> dns_tsig, 'w) dns_reply" where
  "rotate_tsig_key x tok j a st = as_admin tok st (\<lambda>u. with_row (dn_tsigs st) j st (\<lambda>t.
     let t' = t\<lparr>tk_algorithm := tsig_algorithm_text a, tk_secret := dx_secret x (tsig_algorithm_text a), tk_rotated := True, tk_active := True\<rparr> in
     answered (tsig_response (j, t')) (server_instance st (tk_server t)) (log_dns u ''update'' ''dns_tsig_key'' j (server_instance st (tk_server t))
       (Some (J_Obj [(''rotated'', J_Bool True), (''algorithm'', J_Str (tk_algorithm t'))]))
       (st\<lparr>dn_tsigs := row_set j t' (dn_tsigs st)\<rparr>))))"

definition delete_tsig_key :: "token option \<Rightarrow> nat \<Rightarrow> 'w dns_state \<Rightarrow> (nat, 'w) dns_reply" where
  "delete_tsig_key tok j st = as_admin tok st (\<lambda>u. with_row (dn_tsigs st) j st (\<lambda>t.
     (Inr j, log_dns u ''delete'' ''dns_tsig_key'' j (server_instance st (tk_server t)) None
        (schedule_apply (server_instance st (tk_server t))
          (st\<lparr>dn_tsigs := row_set j (t\<lparr>tk_active := False, tk_rotated := True\<rparr>) (dn_tsigs st)\<rparr>)))))"

section \<open>Steps\<close>

datatype dns_call =
    New_Server nat dns_server_create
  | Patch_Server nat dns_server_patch
  | Drop_Server nat
  | Server_Action nat string
  | New_Zone nat zone_create
  | New_Reverse nat reverse_request
  | Patch_Zone nat zone_patch
  | Drop_Zone nat
  | Sign nat
  | Unsign nat
  | Rollover nat rollover_request
  | New_Record nat record_create
  | Import nat "record_create list"
  | New_Ptr nat ptr_request
  | Patch_Record nat record_patch
  | Drop_Record nat
  | New_Tsig nat tsig_create
  | Rotate_Tsig nat tsig_algorithm
  | Drop_Tsig nat

definition dns_handle :: "dns_ctx \<Rightarrow> 'w sender \<Rightarrow> token option \<Rightarrow> dns_call \<Rightarrow> 'w dns_state \<Rightarrow> 'w dns_state" where
  "dns_handle x send tok c st =
     (case c of
        New_Server i d \<Rightarrow> snd (create_dns_server tok i d st)
      | Patch_Server k d \<Rightarrow> snd (update_dns_server tok k d st)
      | Drop_Server k \<Rightarrow> snd (delete_dns_server tok k st)
      | Server_Action k a \<Rightarrow> snd (dns_server_action send tok k a st)
      | New_Zone k d \<Rightarrow> snd (create_zone x tok k d st)
      | New_Reverse k d \<Rightarrow> snd (create_reverse_zone x tok k d st)
      | Patch_Zone k d \<Rightarrow> snd (update_zone x tok k d st)
      | Drop_Zone k \<Rightarrow> snd (delete_zone tok k st)
      | Sign k \<Rightarrow> snd (sign_zone x tok k st)
      | Unsign k \<Rightarrow> snd (unsign_zone x tok k st)
      | Rollover k d \<Rightarrow> snd (dnssec_rollover x tok k d st)
      | New_Record k d \<Rightarrow> snd (create_record x tok k d st)
      | Import k ds \<Rightarrow> snd (bulk_import_records x tok k ds st)
      | New_Ptr k d \<Rightarrow> snd (create_ptr_record x tok k d st)
      | Patch_Record j d \<Rightarrow> snd (update_record x tok j d st)
      | Drop_Record j \<Rightarrow> snd (delete_record x tok j st)
      | New_Tsig k d \<Rightarrow> snd (create_tsig_key x tok k d st)
      | Rotate_Tsig j a \<Rightarrow> snd (rotate_tsig_key x tok j a st)
      | Drop_Tsig j \<Rightarrow> snd (delete_tsig_key tok j st))"

inductive dns_step :: "bool \<Rightarrow> 'w sender \<Rightarrow> 'w dns_state \<Rightarrow> 'w dns_state \<Rightarrow> bool" for bound send where
  handle: "dns_step bound send st (dns_handle x send tok c st)"
| run: "dn_tasks st = ts @ i # ts' \<Longrightarrow> dns_step bound send st (apply_dns_config_task bound send i (st\<lparr>dn_tasks := ts @ ts'\<rparr>))"

inductive_cases dns_stepE: "dns_step bound send st st'"

end
