(* ===== verification/Gw_Dns_Props.thy ===== *)
theory Gw_Dns_Props
  imports Gw_Dns_Records Gw_Invariant
begin

text \<open>
  The DNS router over all runs: an invariant of the rows, and what happens to system records.
\<close>

section \<open>Tables after bulk changes\<close>

lemma get_drop_keys:
  fixes t :: "'r table"
  shows "row_get (drop_keys p t) k = (if p k then None else row_get t k)"
proof -
  have "map_of (filter (\<lambda>e. \<not> p (fst e)) xs) k = (if p k then None else map_of xs k)" for xs :: "(nat \<times> 'r) list"
    by (induction xs) auto
  then show ?thesis by (simp add: row_get_def drop_keys_def)
qed

lemma ok_drop_keys: "table_ok t \<Longrightarrow> table_ok (drop_keys p t)"
  by (auto simp: table_ok_def drop_keys_def distinct_map_filter)

lemma ok_drop_rows: "table_ok t \<Longrightarrow> table_ok (drop_rows p t)"
  by (auto simp: table_ok_def drop_rows_def distinct_map_filter)

lemma get_drop_rows:
  assumes "table_ok t"
  shows "row_get (drop_rows p t) k = (case row_get t k of None \<Rightarrow> None | Some r \<Rightarrow> if p r then None else Some r)"
proof -
  have d: "distinct (map fst (tb_rows t))" using assms by (simp add: table_ok_def)
  have "map_of (filter (\<lambda>e. \<not> p (snd e)) xs) k = (case map_of xs k of None \<Rightarrow> None | Some r \<Rightarrow> if p r then None else Some r)"
    if "distinct (map fst xs)" for xs
    using that
  proof (induction xs)
    case (Cons e xs)
    have "map_of xs (fst e) = None" using Cons.prems by (simp add: map_of_eq_None_iff)
    then have "map_of (filter (\<lambda>e. \<not> p (snd e)) xs) (fst e) = None" by (auto simp: map_of_eq_None_iff)
    with Cons show ?case by (auto split: option.splits)
  qed simp
  from this[OF d] show ?thesis by (simp add: row_get_def drop_rows_def)
qed

lemma map_rows_get: "row_get (t\<lparr>tb_rows := map (\<lambda>(k, r). (k, f r)) (tb_rows t)\<rparr>) k = map_option f (row_get t k)"
proof -
  have "map_of (map (\<lambda>(k, r). (k, f r)) xs) k = map_option f (map_of xs k)" for xs :: "(nat \<times> 'a) list"
    by (induction xs) auto
  then show ?thesis by (simp add: row_get_def)
qed

lemma map_rows_ok: "table_ok t \<Longrightarrow> table_ok (t\<lparr>tb_rows := map (\<lambda>(k, r). (k, f r)) (tb_rows t)\<rparr>)"
  by (auto simp: table_ok_def comp_def case_prod_beta)

lemma get_retire: "row_get (retire p t) k = map_option (\<lambda>y. if dy_active y \<and> p y then y\<lparr>dy_active := False, dy_rotated := True\<rparr> else y) (row_get t k)"
  unfolding retire_def by (rule map_rows_get)

lemma ok_retire: "table_ok t \<Longrightarrow> table_ok (retire p t)"
  unfolding retire_def by (rule map_rows_ok)

section \<open>The invariant\<close>

definition zone_ok :: "dns_zone \<Rightarrow> bool" where
  "zone_ok z \<longleftrightarrow> dn_master z = None \<and> dn_type z \<in> set zone_texts"

definition dns_inv :: "'w dns_state \<Rightarrow> bool" where
  "dns_inv st \<longleftrightarrow> table_ok (dn_servers st) \<and> table_ok (dn_zones st) \<and> table_ok (dn_records st) \<and> table_ok (dn_tsigs st) \<and> table_ok (dn_keys st)
     \<and> rows_all zone_ok (dn_zones st) \<and> points_to dn_server (dn_servers st) (dn_zones st) \<and> points_to re_zone (dn_zones st) (dn_records st)
     \<and> points_to dy_zone (dn_zones st) (dn_keys st) \<and> points_to tk_server (dn_servers st) (dn_tsigs st)"

lemma dns_inv_frame [simp]:
  "dns_inv (st\<lparr>dn_gw := g\<rparr>) = dns_inv st" "dns_inv (st\<lparr>dn_tasks := ts\<rparr>) = dns_inv st"
  "dns_inv (dns_on_gw f st) = dns_inv st" "dns_inv (schedule_apply i st) = dns_inv st" "dns_inv (log_dns u a ty k i n st) = dns_inv st"
  "dns_inv (audit_dns h p ok d v st) = dns_inv st"
  by (simp_all add: dns_inv_def dns_on_gw_def schedule_apply_def log_dns_def audit_dns_def split: option.split)

lemma dns_tables_frame [simp]:
  "dn_servers (dns_on_gw f st) = dn_servers st" "dn_zones (dns_on_gw f st) = dn_zones st" "dn_records (dns_on_gw f st) = dn_records st"
  "dn_servers (schedule_apply i st) = dn_servers st" "dn_zones (schedule_apply i st) = dn_zones st" "dn_records (schedule_apply i st) = dn_records st"
  "dn_servers (log_dns u a ty k j n st) = dn_servers st" "dn_zones (log_dns u a ty k j n st) = dn_zones st"
  "dn_records (log_dns u a ty k j n st) = dn_records st"
  "dn_servers (audit_dns h p ok d v st) = dn_servers st" "dn_zones (audit_dns h p ok d v st) = dn_zones st"
  "dn_records (audit_dns h p ok d v st) = dn_records st"
  by (simp_all add: dns_on_gw_def schedule_apply_def log_dns_def audit_dns_def split: option.split)

lemma set_statuses_rows: "dn_servers (set_statuses i s st) = (dn_servers st)\<lparr>tb_rows :=
    map (\<lambda>(k, r). (k, if ds_instance r = i then r\<lparr>ds_status := Some s\<rparr> else r)) (tb_rows (dn_servers st))\<rparr>"
  by (simp add: set_statuses_def)

lemma keeps_keys_map: "keeps_keys t (t\<lparr>tb_rows := map (\<lambda>(k, r). (k, f r)) (tb_rows t)\<rparr>)"
  by (auto simp: keeps_keys_def map_rows_get)

lemma dns_inv_servers:
  assumes "dns_inv st" "table_ok t'" "keeps_keys (dn_servers st) t'"
  shows "dns_inv (st\<lparr>dn_servers := t'\<rparr>)"
  using assms by (auto simp: dns_inv_def intro: points_to_mono)

lemma set_statuses_inv: "dns_inv st \<Longrightarrow> dns_inv (set_statuses i s st)"
  unfolding set_statuses_def by (rule dns_inv_servers) (auto simp: dns_inv_def intro!: map_rows_ok keeps_keys_map)

lemma server_set_inv: "dns_inv st \<Longrightarrow> dns_inv (st\<lparr>dn_servers := row_set k r (dn_servers st)\<rparr>)"
  by (rule dns_inv_servers) (auto simp: dns_inv_def rows.ok_put)

lemma server_add_inv: "dns_inv st \<Longrightarrow> row_add r (dn_servers st) = (k, t') \<Longrightarrow> dns_inv (st\<lparr>dn_servers := t'\<rparr>)"
  by (rule dns_inv_servers) (auto simp: dns_inv_def intro: rows.ok_add keeps_keys_add)

lemma set_server_status_inv: "dns_inv st \<Longrightarrow> dns_inv (set_server_status k s st)"
  by (auto simp: set_server_status_def server_set_inv split: option.splits)

lemma dns_ask_tables: "dns_ask send i p b st = (r, st') \<Longrightarrow> dns_inv st' = dns_inv st \<and> dn_servers st' = dn_servers st \<and> dn_zones st' = dn_zones st
    \<and> dn_records st' = dn_records st \<and> dn_tsigs st' = dn_tsigs st \<and> dn_keys st' = dn_keys st \<and> dn_slaves st' = dn_slaves st \<and> dn_tasks st' = dn_tasks st"
  by (auto simp: dns_ask_def split: prod.splits)

lemma set_statuses_tables [simp]: "dn_zones (set_statuses i s st) = dn_zones st" "dn_records (set_statuses i s st) = dn_records st"
  by (simp_all add: set_statuses_def)

lemma apply_dns_config_cases:
  assumes "apply_dns_config send i u st = (r, st')"
  obtains st1 p ok d b where "dns_ask send i ''/dns/apply'' (build_instance_dns_payload st i) st = (r, st1)"
    "st' = audit_dns i p ok d u (if b then set_statuses i ''running'' st1 else st1)" "b \<longleftrightarrow> (\<exists>a. r = Inr a)"
proof -
  obtain q st1 where q: "dns_ask send i ''/dns/apply'' (build_instance_dns_payload st i) st = (q, st1)"
    by (cases "dns_ask send i ''/dns/apply'' (build_instance_dns_payload st i) st")
  show ?thesis
  proof (cases q)
    case (Inl e)
    with assms q have "r = q" "st' = audit_dns i ''/dns/apply'' False (agent_error_text e) u (if False then set_statuses i ''running'' st1 else st1)"
      by (simp_all add: apply_dns_config_def)
    with q that[of st1 _ _ _ False] Inl show ?thesis by simp
  next
    case (Inr a)
    with assms q have "r = q" "st' = audit_dns i ''/dns/apply'' True [] u (if True then set_statuses i ''running'' st1 else st1)"
      by (simp_all add: apply_dns_config_def)
    with q that[of st1 _ _ _ True] Inr show ?thesis by simp
  qed
qed

lemma apply_dns_config_tables:
  assumes "apply_dns_config send i u st = (r, st')"
  shows "dn_zones st' = dn_zones st" "dn_records st' = dn_records st" "dns_inv st \<Longrightarrow> dns_inv st'"
proof -
  obtain st1 p ok d b where q: "dns_ask send i ''/dns/apply'' (build_instance_dns_payload st i) st = (r, st1)"
    and st': "st' = audit_dns i p ok d u (if b then set_statuses i ''running'' st1 else st1)"
    using assms by (rule apply_dns_config_cases)
  note f = dns_ask_tables[OF q]
  show "dn_zones st' = dn_zones st" "dn_records st' = dn_records st" "dns_inv st \<Longrightarrow> dns_inv st'"
    using f set_statuses_inv[of st1] by (simp_all add: st')
qed

lemma reload_dns_agent_tables:
  assumes "reload_dns_agent send i u st = (r, st')"
  shows "dn_zones st' = dn_zones st" "dn_records st' = dn_records st" "dns_inv st \<Longrightarrow> dns_inv st'"
proof -
  obtain q st1 where q: "dns_ask send i ''/dns/reload'' J_Null st = (q, st1)" by (cases "dns_ask send i ''/dns/reload'' J_Null st")
  note f = dns_ask_tables[OF q]
  show "dn_zones st' = dn_zones st" "dn_records st' = dn_records st" "dns_inv st \<Longrightarrow> dns_inv st'"
    using assms f by (cases q; auto simp: reload_dns_agent_def q)+
qed

lemma record_add_inv:
  assumes "dns_inv st" "row_get (dn_zones st) (re_zone r) \<noteq> None"
  shows "dns_inv (add_record r st)"
proof -
  obtain k t' where a: "row_add r (dn_records st) = (k, t')" by (cases "row_add r (dn_records st)")
  with assms rows.ok_add[OF _ a] show ?thesis by (auto simp: add_record_def dns_inv_def intro: points_to_add)
qed

lemma key_add_inv:
  assumes "dns_inv st" "row_get (dn_zones st) (dy_zone y) \<noteq> None"
  shows "dns_inv (add_key y st)"
proof -
  obtain k t' where a: "row_add y (dn_keys st) = (k, t')" by (cases "row_add y (dn_keys st)")
  with assms rows.ok_add[OF _ a] show ?thesis by (auto simp: add_key_def dns_inv_def intro: points_to_add)
qed

lemma retire_inv: "dns_inv st \<Longrightarrow> dns_inv (st\<lparr>dn_keys := retire p (dn_keys st)\<rparr>)"
  by (auto simp: dns_inv_def ok_retire points_to_def rows_all_def get_retire)

lemma zone_add_inv:
  assumes "dns_inv st" "zone_ok z" "row_get (dn_servers st) (dn_server z) \<noteq> None" "row_add z (dn_zones st) = (k, t')"
  shows "dns_inv (st\<lparr>dn_zones := t'\<rparr>)"
  using assms rows.ok_add[OF _ assms(4)] keeps_keys_add[OF _ assms(4)]
  by (auto simp: dns_inv_def intro: points_to_mono points_to_add rows_all_add)

lemma set_zone_inv:
  assumes "dns_inv st" "row_get (dn_zones st) k = Some z" "dn_master z' = dn_master z" "dn_type z' = dn_type z" "dn_server z' = dn_server z"
  shows "dns_inv (set_zone k z' st)"
proof -
  have "zone_ok z'" using assms rows_allD[of zone_ok "dn_zones st" k z] by (simp add: zone_ok_def dns_inv_def)
  moreover have "row_get (dn_servers st) (dn_server z') \<noteq> None"
    using assms points_toD[of dn_server "dn_servers st" "dn_zones st" k z] by (simp add: dns_inv_def)
  ultimately show ?thesis using assms(1)
    by (auto simp: set_zone_def dns_inv_def rows.ok_put intro: points_to_mono points_to_set rows_all_set)
qed

lemma bump_serial_inv: "dns_inv st \<Longrightarrow> dns_inv (bump_serial x k st)"
  by (auto simp: bump_serial_def set_zone_inv split: option.splits)

lemma drop_zones_inv: "dns_inv st \<Longrightarrow> dns_inv (drop_zones p st)"
  by (auto simp: dns_inv_def drop_zones_def ok_drop_keys ok_drop_rows points_to_def rows_all_def get_drop_keys get_drop_rows
      split: option.splits if_splits)

section \<open>Every step keeps it\<close>

lemma as_admin_keeps: "P st \<Longrightarrow> (\<And>u. P (snd (f u))) \<Longrightarrow> P (snd (as_admin tok st f))"
  by (simp add: as_admin_def split: sum.splits)

lemma with_row_keeps: "P st \<Longrightarrow> (\<And>r. row_get t k = Some r \<Longrightarrow> P (snd (f r))) \<Longrightarrow> P (snd (with_row t k st f))"
  by (simp add: with_row_def split: option.splits)

text \<open>A key that is gone is never given out again; a system record stays as it is until its zone is gone.\<close>

definition gone_stays :: "'r table \<Rightarrow> 'r table \<Rightarrow> bool" where
  "gone_stays t t' \<longleftrightarrow> tb_next t \<le> tb_next t' \<and> (\<forall>k < tb_next t. row_get t k = None \<longrightarrow> row_get t' k = None)"

definition system_kept :: "'w dns_state \<Rightarrow> 'w dns_state \<Rightarrow> bool" where
  "system_kept st st' \<longleftrightarrow> gone_stays (dn_zones st) (dn_zones st') \<and> gone_stays (dn_records st) (dn_records st')
     \<and> (\<forall>j r. row_get (dn_records st) j = Some r \<longrightarrow> re_system r \<longrightarrow>
          row_get (dn_records st') j = Some r \<or> row_get (dn_records st') j = None \<and> row_get (dn_zones st') (re_zone r) = None)"

definition good_change :: "'w dns_state \<Rightarrow> 'w dns_state \<Rightarrow> bool" where
  "good_change st st' \<longleftrightarrow> (dns_inv st \<longrightarrow> dns_inv st' \<and> system_kept st st')"

lemma row_below: "table_ok t \<Longrightarrow> row_get t k \<noteq> None \<Longrightarrow> k < tb_next t"
  by (auto simp: table_ok_def row_get_def dest!: map_of_SomeD)

lemma gone_trans: "gone_stays t t1 \<Longrightarrow> gone_stays t1 t2 \<Longrightarrow> gone_stays t t2"
  by (auto simp: gone_stays_def)

lemma gone_refl [simp]: "gone_stays t t" by (simp add: gone_stays_def)

lemma gone_add: "table_ok t \<Longrightarrow> row_add r t = (k, t') \<Longrightarrow> gone_stays t t'"
  using rows.get_add[of t r k t'] by (auto simp: gone_stays_def row_add_def)

lemma gone_set [simp]: "gone_stays t (row_set k r t)"
  by (simp add: gone_stays_def rows.get_put) (simp add: row_set_def)

lemma gone_del [simp]: "gone_stays t (row_del k t)"
  by (simp add: gone_stays_def rows.get_del) (simp add: row_del_def)

lemma gone_drop_keys [simp]: "gone_stays t (drop_keys p t)"
  by (simp add: gone_stays_def get_drop_keys) (simp add: drop_keys_def)

lemma gone_drop_rows: "table_ok t \<Longrightarrow> gone_stays t (drop_rows p t)"
  by (simp add: gone_stays_def get_drop_rows) (simp add: drop_rows_def)

lemma system_kept_refl [simp]: "system_kept st st" by (simp add: system_kept_def)

lemma system_kept_trans:
  assumes "dns_inv st" "system_kept st s1" "system_kept s1 s2"
  shows "system_kept st s2"
proof -
  have g: "gone_stays (dn_zones st) (dn_zones s1)" "gone_stays (dn_zones s1) (dn_zones s2)"
    "gone_stays (dn_records st) (dn_records s1)" "gone_stays (dn_records s1) (dn_records s2)"
    using assms(2,3) by (simp_all add: system_kept_def)
  have "row_get (dn_records s2) j = Some r \<or> row_get (dn_records s2) j = None \<and> row_get (dn_zones s2) (re_zone r) = None"
    if r: "row_get (dn_records st) j = Some r" "re_system r" for j r
  proof -
    from assms(2) r have "row_get (dn_records s1) j = Some r \<or> row_get (dn_records s1) j = None \<and> row_get (dn_zones s1) (re_zone r) = None"
      by (simp add: system_kept_def)
    then show ?thesis
    proof
      assume "row_get (dn_records s1) j = Some r"
      with assms(3) r(2) show ?thesis by (simp add: system_kept_def)
    next
      assume none: "row_get (dn_records s1) j = None \<and> row_get (dn_zones s1) (re_zone r) = None"
      have "j < tb_next (dn_records st)" using r(1) assms(1) row_below by (fastforce simp: dns_inv_def)
      moreover have "re_zone r < tb_next (dn_zones st)"
        using points_toD[of re_zone "dn_zones st" "dn_records st" j r] r(1) assms(1) row_below by (fastforce simp: dns_inv_def)
      ultimately show ?thesis using none g by (simp add: gone_stays_def)
    qed
  qed
  then show ?thesis using gone_trans[OF g(1,2)] gone_trans[OF g(3,4)] by (auto simp: system_kept_def)
qed

lemma good_refl [simp]: "good_change st st" by (simp add: good_change_def)

lemma good_trans: "good_change st s1 \<Longrightarrow> good_change s1 s2 \<Longrightarrow> good_change st s2"
  using system_kept_trans by (auto simp: good_change_def)

lemma system_kept_tables: "dn_zones s1 = dn_zones st' \<Longrightarrow> dn_records s1 = dn_records st' \<Longrightarrow> system_kept st s1 = system_kept st st'"
  by (simp add: system_kept_def)

lemma good_frame [simp]:
  "good_change st (schedule_apply i s1) = good_change st s1" "good_change st (log_dns u a ty k j n s1) = good_change st s1"
  "good_change st (s1\<lparr>dn_tasks := ts\<rparr>) = good_change st s1"
  by (simp_all add: good_change_def system_kept_def)

lemma good_answered [simp]: "good_change st (snd (answered r i s1)) = good_change st s1"
  by (simp add: answered_def split: sum.split)

lemma good_by_inv: "(dns_inv s1 \<Longrightarrow> dns_inv s2) \<Longrightarrow> dn_zones s2 = dn_zones s1 \<Longrightarrow> dn_records s2 = dn_records s1 \<Longrightarrow> good_change st s1 \<Longrightarrow>
    good_change st s2"
  by (auto simp: good_change_def system_kept_def)

lemma good_record_add:
  assumes "good_change st s1" "row_get (dn_zones s1) (re_zone r) \<noteq> None"
  shows "good_change st (add_record r s1)"
proof (rule good_trans[OF assms(1)])
  obtain k t' where a: "row_add r (dn_records s1) = (k, t')" by (cases "row_add r (dn_records s1)")
  show "good_change s1 (add_record r s1)"
    using record_add_inv[OF _ assms(2)] gone_add[OF _ a] rows.get_add[OF _ a] rows.add_fresh[OF _ a] a
    by (auto simp: good_change_def system_kept_def add_record_def dns_inv_def)
qed

lemma good_record_set:
  assumes "good_change st s1" "row_get (dn_records s1) j = Some r" "\<not> re_system r" "re_zone r' = re_zone r"
  shows "good_change st (s1\<lparr>dn_records := row_set j r' (dn_records s1)\<rparr>)"
proof (rule good_trans[OF assms(1)])
  have "dns_inv (s1\<lparr>dn_records := row_set j r' (dn_records s1)\<rparr>)" if "dns_inv s1"
    using that points_toD[of re_zone "dn_zones s1" "dn_records s1" j r] assms(2,4) by (simp add: dns_inv_def rows.ok_put points_to_set)
  then show "good_change s1 (s1\<lparr>dn_records := row_set j r' (dn_records s1)\<rparr>)"
    using assms(2,3) by (auto simp: good_change_def system_kept_def rows.get_put)
qed

lemma good_record_del:
  assumes "good_change st s1" "row_get (dn_records s1) j = Some r" "\<not> re_system r"
  shows "good_change st (s1\<lparr>dn_records := row_del j (dn_records s1)\<rparr>)"
proof (rule good_trans[OF assms(1)])
  show "good_change s1 (s1\<lparr>dn_records := row_del j (dn_records s1)\<rparr>)"
    using assms(2,3) by (auto simp: good_change_def system_kept_def rows.get_del dns_inv_def rows.ok_del intro: points_to_del)
qed

lemma good_set_zone:
  assumes "good_change st s1" "row_get (dn_zones s1) k = Some z" "dn_master z' = dn_master z" "dn_type z' = dn_type z" "dn_server z' = dn_server z"
  shows "good_change st (set_zone k z' s1)"
proof (rule good_trans[OF assms(1)])
  show "good_change s1 (set_zone k z' s1)"
    using set_zone_inv[OF _ assms(2-5)] by (simp add: good_change_def system_kept_def) (simp add: set_zone_def)
qed

lemma good_bump: "good_change st s1 \<Longrightarrow> good_change st (bump_serial x k s1)"
  by (auto simp: bump_serial_def good_set_zone split: option.splits)

lemma good_zone_add:
  assumes "good_change st s1" "zone_ok z" "row_get (dn_servers s1) (dn_server z) \<noteq> None" "row_add z (dn_zones s1) = (k, t')"
  shows "good_change st (s1\<lparr>dn_zones := t'\<rparr>)"
proof (rule good_trans[OF assms(1)])
  show "good_change s1 (s1\<lparr>dn_zones := t'\<rparr>)"
    using zone_add_inv[OF _ assms(2-4)] gone_add[OF _ assms(4)] by (auto simp: good_change_def system_kept_def dns_inv_def)
qed

lemma good_drop_zones:
  assumes "good_change st s1"
  shows "good_change st (drop_zones p s1)"
proof (rule good_trans[OF assms])
  have "system_kept s1 (drop_zones p s1)" if "dns_inv s1"
    using that gone_drop_rows
    by (auto simp: system_kept_def drop_zones_def dns_inv_def get_drop_rows get_drop_keys split: option.splits)
  then show "good_change s1 (drop_zones p s1)" using drop_zones_inv[of s1 p] by (simp add: good_change_def)
qed

lemmas good_intros = good_record_add good_record_set good_record_del good_set_zone good_bump good_zone_add good_drop_zones

section \<open>Every handler is such a change\<close>

lemma as_admin_good: "(\<And>u. good_change st (snd (f u))) \<Longrightarrow> good_change st (snd (as_admin tok st f))"
  by (simp add: as_admin_def split: sum.splits)

lemma with_row_good: "(\<And>r. row_get t k = Some r \<Longrightarrow> good_change st (snd (f r))) \<Longrightarrow> good_change st (snd (with_row t k st f))"
  by (simp add: with_row_def split: option.splits)

lemma good_server_add: "row_add r (dn_servers st) = (k, t') \<Longrightarrow> good_change st (st\<lparr>dn_servers := t'\<rparr>)"
  by (rule good_by_inv[OF _ _ _ good_refl]) (simp_all add: server_add_inv)

lemma good_server_set: "good_change st s1 \<Longrightarrow> good_change st (s1\<lparr>dn_servers := row_set k r (dn_servers s1)\<rparr>)"
  by (rule good_by_inv[of s1]) (simp_all add: server_set_inv)

lemma good_server_status: "good_change st s1 \<Longrightarrow> good_change st (set_server_status k s s1)"
  by (auto simp: set_server_status_def good_server_set split: option.splits)

lemma good_statuses: "good_change st s1 \<Longrightarrow> good_change st (set_statuses i s s1)"
  by (rule good_by_inv[of s1]) (simp_all add: set_statuses_inv)

lemma good_apply: "apply_dns_config send i u s1 = (r, s2) \<Longrightarrow> good_change st s1 \<Longrightarrow> good_change st s2"
  by (rule good_by_inv[of s1]) (simp_all add: apply_dns_config_tables)

lemma good_reload: "reload_dns_agent send i u s1 = (r, s2) \<Longrightarrow> good_change st s1 \<Longrightarrow> good_change st s2"
  by (rule good_by_inv[of s1]) (simp_all add: reload_dns_agent_tables)

lemma good_tsigs:
  assumes "\<And>u. dns_inv s1 \<Longrightarrow> table_ok t' \<and> points_to tk_server (dn_servers s1) t'" "good_change st s1"
  shows "good_change st (s1\<lparr>dn_tsigs := t'\<rparr>)"
  using assms(1) by (intro good_by_inv[OF _ _ _ assms(2)]) (auto simp: dns_inv_def)

lemma good_tsig_add:
  assumes "row_add t (dn_tsigs st) = (j, t')" "row_get (dn_servers st) (tk_server t) \<noteq> None"
  shows "good_change st (st\<lparr>dn_tsigs := t'\<rparr>)"
  using assms(2) rows.ok_add[OF _ assms(1)] points_to_add[OF _ _ _ assms(1)] by (intro good_tsigs good_refl) (auto simp: dns_inv_def)

lemma good_retire: "good_change st s1 \<Longrightarrow> good_change st (s1\<lparr>dn_keys := retire p (dn_keys s1)\<rparr>)"
  by (rule good_by_inv[of s1]) (simp_all add: retire_inv)

lemma good_add_key:
  assumes "good_change st s1" "row_get (dn_zones s1) (dy_zone y) \<noteq> None"
  shows "good_change st (add_key y s1)"
  by (rule good_by_inv[OF _ _ _ assms(1)]) (simp_all add: key_add_inv assms(2), simp_all add: add_key_def)

lemma create_server_good: "good_change st (snd (create_dns_server tok i d st))"
  unfolding create_dns_server_def
  by (intro as_admin_good) (simp add: Let_def good_server_add split: prod.splits)

lemma update_server_good: "good_change st (snd (update_dns_server tok k p st))"
  unfolding update_dns_server_def
  by (intro as_admin_good) (simp add: with_row_def good_server_set split: option.splits)

lemma server_action_good: "good_change st (snd (dns_server_action send tok k a st))"
proof -
  have ap: "good_change st (snd (case apply_dns_config send i (Some u) st of (Inl e, st1) \<Rightarrow> (Inl 502, set_server_status k ''error'' st1)
      | (Inr r, st1) \<Rightarrow> (Inr r, log_dns u b c k (Some i) (n r) (set_server_status k ''running'' st1))))" for i u b c n
  proof (cases "apply_dns_config send i (Some u) st")
    case (Pair r s1)
    have "good_change st s1" by (rule good_apply[OF Pair good_refl])
    then show ?thesis by (simp add: Pair good_server_status split: sum.splits)
  qed
  have re: "good_change st (snd (case reload_dns_agent send i (Some u) st of (Inl e, st1) \<Rightarrow> (Inl 502, st1)
      | (Inr r, st1) \<Rightarrow> (Inr r, log_dns u b c k (Some i) (n r) st1)))" for i u b c n
  proof (cases "reload_dns_agent send i (Some u) st")
    case (Pair r s1)
    have "good_change st s1" by (rule good_reload[OF Pair good_refl])
    then show ?thesis by (simp add: Pair split: sum.splits)
  qed
  show ?thesis
    unfolding dns_server_action_def
    by (intro as_admin_good with_row_good) (simp add: Let_def good_server_status ap re)
qed

lemma drop_server_inv:
  assumes "dns_inv st"
  shows "dns_inv ((drop_zones (\<lambda>j. j \<in> fst ` set (zones_of st k)) st)\<lparr>dn_servers := row_del k (dn_servers st),
    dn_tsigs := drop_rows (\<lambda>t. tk_server t = k) (dn_tsigs st)\<rparr>)"
proof -
  let ?p = "\<lambda>j. j \<in> fst ` set (zones_of st k)"
  have o: "table_ok (dn_servers st)" "table_ok (dn_tsigs st)" "table_ok (dn_zones st)" using assms by (simp_all add: dns_inv_def)
  have z: "?p j" if "row_get (dn_zones st) j = Some z" "dn_server z = k" for j z
  proof -
    have "(j, z) \<in> set (zones_of st k)" using that rows_where_get[OF o(3), of j z] by (simp add: zones_of_def)
    then show ?thesis by (rule image_eqI[rotated]) simp
  qed
  have "points_to dn_server (row_del k (dn_servers st)) (drop_keys ?p (dn_zones st))"
    using assms z by (auto simp: dns_inv_def points_to_def rows_all_def rows.get_del get_drop_keys split: if_splits)
  moreover have "points_to tk_server (row_del k (dn_servers st)) (drop_rows (\<lambda>t. tk_server t = k) (dn_tsigs st))"
    using assms by (auto simp: dns_inv_def points_to_def rows_all_def rows.get_del get_drop_rows[OF o(2)] split: option.splits if_splits)
  ultimately show ?thesis
    using drop_zones_inv[OF assms, of ?p] o by (simp add: dns_inv_def rows.ok_del ok_drop_rows) (simp add: drop_zones_def)
qed

lemma delete_server_good: "good_change st (snd (delete_dns_server tok k st))"
proof -
  let ?p = "\<lambda>j. j \<in> fst ` set (zones_of st k)"
  have "good_change st (drop_zones ?p st)" by (rule good_drop_zones) simp
  then have "good_change st ((drop_zones ?p st)\<lparr>dn_servers := row_del k (dn_servers st), dn_tsigs := drop_rows (\<lambda>t. tk_server t = k) (dn_tsigs st)\<rparr>)"
    using drop_server_inv[of st k] by (simp add: good_change_def system_kept_def)
  then show ?thesis unfolding delete_dns_server_def by (intro as_admin_good) (simp add: with_row_def split: option.splits)
qed

lemma new_zone_ok: "zone_ok (new_zone x k d)"
  by (cases "zc_kind d") (simp_all add: zone_ok_def new_zone_def zone_kind_text_def zone_texts_def)

lemma store_zone_facts:
  assumes "table_ok (dn_zones st)"
  shows "good_change st (snd (store_zone x u k d st))
    \<and> (\<forall>v. fst (store_zone x u k d st) = Inr v \<longrightarrow> row_get (dn_zones (snd (store_zone x u k d st))) (zv_id v) \<noteq> None)"
proof (cases "row_get (dn_servers st) k")
  case (Some s)
  define z where "z = new_zone x k d"
  obtain j t' where a: "row_add z (dn_zones st) = (j, t')" by (cases "row_add z (dn_zones st)")
  define own where "own \<longleftrightarrow> zc_kind d \<in> {Zone_Master, Zone_Slave}"
  define st2 where "st2 = (if own then add_record (system_record j ''NS'' (ensure_fqdn (ds_name s)) (zc_minimum d)) (st\<lparr>dn_zones := t'\<rparr>) else st\<lparr>dn_zones := t'\<rparr>)"
  have e: "store_zone x u k d st = answered (zone_response j z (if own then 1 else 0)) (Some (ds_instance s))
      (log_dns u ''create'' ''dns_zone'' j (Some (ds_instance s)) None st2)"
    using Some a by (simp add: store_zone_def with_row_def Let_def z_def own_def st2_def)
  have g: "good_change st (st\<lparr>dn_zones := t'\<rparr>)"
    by (rule good_zone_add[OF good_refl _ _ a]) (simp_all add: z_def new_zone_ok, simp add: new_zone_def Some)
  have j: "row_get t' j \<noteq> None" using rows.get_add[OF assms a] by simp
  then have "good_change st (add_record (system_record j ''NS'' (ensure_fqdn (ds_name s)) (zc_minimum d)) (st\<lparr>dn_zones := t'\<rparr>))"
    by (intro good_record_add g) (simp add: system_record_def)
  with g have "good_change st st2" by (simp add: st2_def)
  moreover have "dn_zones st2 = t'" by (simp add: st2_def add_record_def)
  ultimately show ?thesis using j by (auto simp: e zone_response_def answered_def)
qed (simp add: store_zone_def with_row_def)

lemma good_by_table: "(table_ok (dn_zones st) \<Longrightarrow> good_change st st') \<Longrightarrow> good_change st st'"
  by (auto simp: good_change_def dns_inv_def)

lemma create_zone_good: "good_change st (snd (create_zone x tok k d st))"
  unfolding create_zone_def by (rule good_by_table, rule as_admin_good) (simp add: store_zone_facts)

lemma reverse_zone_good: "good_change st (snd (create_reverse_zone x tok k q st))"
  unfolding create_reverse_zone_def
proof (rule good_by_table, rule as_admin_good)
  fix u assume t: "table_ok (dn_zones st)"
  have "good_change st (snd (case store_zone x u k (reverse_zone q n) st of (Inl c, st1) \<Rightarrow> (Inl c, st1)
      | (Inr v, st1) \<Rightarrow> (let st2 = add_record (system_record (zv_id v) ''SOA'' (soa_content q (zv_row v)) 86400) st1 in
           (zone_response (zv_id v) (zv_row v) (length (records_of st2 (zv_id v))), st2))))" for n
  proof (cases "store_zone x u k (reverse_zone q n) st")
    case (Pair v st1)
    then show ?thesis using store_zone_facts[OF t, of x u k "reverse_zone q n"]
      by (auto simp: Let_def system_record_def split: sum.splits intro!: good_record_add)
  qed
  then show "good_change st (snd (case reverse_zone_name (rv_network q) of None \<Rightarrow> (Inl 500, st) | Some None \<Rightarrow> (Inl 400, st)
      | Some (Some n) \<Rightarrow> (case store_zone x u k (reverse_zone q n) st of (Inl c, st1) \<Rightarrow> (Inl c, st1)
          | (Inr v, st1) \<Rightarrow> (let st2 = add_record (system_record (zv_id v) ''SOA'' (soa_content q (zv_row v)) 86400) st1 in
               (zone_response (zv_id v) (zv_row v) (length (records_of st2 (zv_id v))), st2)))))"
    by (cases "reverse_zone_name (rv_network q)") (auto split: option.split)
qed

lemma update_zone_good: "good_change st (snd (update_zone x tok k p st))"
  unfolding update_zone_def
  by (intro as_admin_good) (auto simp: with_row_def Let_def patch_zone_def split: option.splits intro!: good_set_zone)

lemma delete_zone_good: "good_change st (snd (delete_zone tok k st))"
  unfolding delete_zone_def by (intro as_admin_good) (simp add: with_row_def good_drop_zones split: option.splits)

lemma add_key_zones [simp]: "dn_zones (add_key y st) = dn_zones st" by (simp add: add_key_def)

lemma new_key_zone [simp]: "dy_zone (new_key x k z ty a n) = k" by (simp add: new_key_def Let_def)

lemma dnssec_good:
  "good_change st (snd (sign_zone x tok k st))" "good_change st (snd (unsign_zone x tok k st))" "good_change st (snd (dnssec_rollover x tok k q st))"
proof -
  show "good_change st (snd (sign_zone x tok k st))" unfolding sign_zone_def
    by (intro as_admin_good with_row_good) (simp add: Let_def good_set_zone good_add_key good_retire)
  show "good_change st (snd (unsign_zone x tok k st))" unfolding unsign_zone_def
    by (intro as_admin_good with_row_good) (simp add: Let_def good_set_zone good_retire)
  show "good_change st (snd (dnssec_rollover x tok k q st))" unfolding dnssec_rollover_def
    by (intro as_admin_good) (auto simp: with_row_def Let_def split: option.splits intro!: good_set_zone good_add_key good_retire)
qed

lemma fold_records_good:
  "good_change st s1 \<Longrightarrow> row_get (dn_zones s1) k \<noteq> None \<Longrightarrow> good_change st (fold add_record (map (new_record k) ds) s1)"
proof (induction ds arbitrary: s1)
  case (Cons d ds)
  have "good_change st (add_record (new_record k d) s1)" using Cons.prems by (intro good_record_add) (simp_all add: new_record_def)
  moreover have "row_get (dn_zones (add_record (new_record k d) s1)) k \<noteq> None" using Cons.prems by (simp add: add_record_def)
  ultimately show ?case using Cons.IH by simp
qed simp

lemma store_record_good: "row_get (dn_zones st) k \<noteq> None \<Longrightarrow> re_zone r = k \<Longrightarrow> good_change st (snd (store_record x k r st))"
  by (simp add: store_record_def good_bump good_record_add)

lemma record_creations_good:
  "good_change st (snd (create_record x tok k d st))" "good_change st (snd (bulk_import_records x tok k ds st))"
  "good_change st (snd (create_ptr_record x tok k q st))"
proof -
  show "good_change st (snd (create_record x tok k d st))" unfolding create_record_def
    by (intro as_admin_good) (simp add: with_row_def store_record_good new_record_def split: option.splits)
  show "good_change st (snd (bulk_import_records x tok k ds st))" unfolding bulk_import_records_def
    by (intro as_admin_good) (simp add: with_row_def good_bump fold_records_good Let_def split: option.splits)
  show "good_change st (snd (create_ptr_record x tok k q st))" unfolding create_ptr_record_def
    by (intro as_admin_good) (simp add: with_row_def store_record_good system_record_def split: option.splits bool.splits sum.splits)
qed

lemma patch_record_zone: "patch_record d r = Some r' \<Longrightarrow> re_zone r' = re_zone r"
  by (auto simp: patch_record_def split: option.splits)

lemma record_changes_good: "good_change st (snd (update_record x tok j d st))" "good_change st (snd (delete_record x tok j st))"
proof -
  show "good_change st (snd (update_record x tok j d st))" unfolding update_record_def
    by (intro as_admin_good) (auto simp: with_row_def split: option.splits intro!: good_bump good_record_set patch_record_zone)
  show "good_change st (snd (delete_record x tok j st))" unfolding delete_record_def
    by (intro as_admin_good) (auto simp: with_row_def split: option.splits intro!: good_bump good_record_del)
qed

lemma tsig_calls_good:
  "good_change st (snd (create_tsig_key x tok k d st))" "good_change st (snd (rotate_tsig_key x tok j a st))"
  "good_change st (snd (delete_tsig_key tok j st))"
proof -
  show "good_change st (snd (create_tsig_key x tok k d st))" unfolding create_tsig_key_def
  proof (rule as_admin_good)
    fix u
    have "good_change st (snd (case row_add t (dn_tsigs st) of (j, t') \<Rightarrow> answered (tsig_response (j, t)) i (log_dns u c b j i n
        (st\<lparr>dn_tsigs := t'\<rparr>))))" if "row_get (dn_servers st) (tk_server t) \<noteq> None" for t c b i n
      using good_tsig_add[OF _ that] by (simp split: prod.splits)
    then show "good_change st (snd (if \<not> name_ok 100 (tsc_name d) then (Inl 422, st) else with_row (dn_servers st) k st (\<lambda>s.
       let t = \<lparr>tk_server = k, tk_name = tsc_name d, tk_algorithm = tsig_algorithm_text (tsc_algorithm d),
             tk_secret = (if truthy_str (tsc_secret d) then or_empty (tsc_secret d) else dx_secret x (tsig_algorithm_text (tsc_algorithm d))),
             tk_active = tsc_active d, tk_rotated = False\<rparr>;
           (j, t') = row_add t (dn_tsigs st) in
       answered (tsig_response (j, t)) (Some (ds_instance s)) (log_dns u ''create'' ''dns_tsig_key'' j (Some (ds_instance s)) None
         (st\<lparr>dn_tsigs := t'\<rparr>)))))"
      by (simp add: with_row_def Let_def split: option.split)
  qed
  show "good_change st (snd (rotate_tsig_key x tok j a st))" "good_change st (snd (delete_tsig_key tok j st))"
    unfolding rotate_tsig_key_def delete_tsig_key_def
    by (intro as_admin_good with_row_good; auto simp: Let_def dns_inv_def rows.ok_put dest: points_toD intro!: good_tsigs points_to_set)+
qed

lemma handle_good: "good_change st (dns_handle x send tok c st)"
  by (cases c) (simp_all add: dns_handle_def create_server_good update_server_good delete_server_good server_action_good create_zone_good
      reverse_zone_good update_zone_good delete_zone_good dnssec_good record_creations_good record_changes_good tsig_calls_good)

lemma task_good: "good_change st (apply_dns_config_task bound send i (st\<lparr>dn_tasks := ts\<rparr>))"
proof (cases "apply_dns_config send i None (st\<lparr>dn_tasks := ts\<rparr>)")
  case (Pair r s1)
  have "good_change st s1" using good_apply[OF Pair, of st] by simp
  then show ?thesis by (simp add: apply_dns_config_task_def Pair good_statuses split: sum.splits)
qed

lemma dns_steps_good: "(dns_step bound send)\<^sup>*\<^sup>* st st' \<Longrightarrow> good_change st st'"
proof (induction rule: rtranclp_induct)
  case (step s1 s2)
  have "good_change s1 s2" using step.hyps(2) by (cases rule: dns_stepE) (auto simp: handle_good task_good)
  with step.IH show ?case by (rule good_trans)
qed simp

end
