(* ===== verification/Dns_Agent.thy ===== *)
theory Dns_Agent
  imports Dns_Render
begin

text \<open>
  \<open>viswall_dns_agent/agent.py\<close> and \<open>api.py\<close>: writing the files of an apply in the order of the code, the
  reload, and the endpoints. The host is the zone files by path, the two configuration files, and the files as they
  were at the last reload that \<open>rndc\<close> reported as done. What BIND makes of these files (it may refuse one zone of them) is not modelled.

  Whether a write succeeds, how \<open>rndc\<close> ends, and the comment that marks a signed file (a hash and the time)
  are fields of an environment. The synthetic DNSSEC key material of the agent is not modelled.
\<close>

section \<open>The host\<close>

type_synonym dns_files = "string \<Rightarrow> string option"

record dns_host =
  dh_zones :: dns_files
  dh_options :: "string option"
  dh_local :: "string option"
  dh_reloaded :: "(dns_files \<times> string option \<times> string option) option"

text \<open>How the control tool ends: an exit code, or an exception because it cannot be started.\<close>

datatype rndc_outcome = Rndc_Exit int | Rndc_Missing

record dns_env =
  de_zones_dir :: string
  de_options_path :: string
  de_local_path :: string
  de_commands :: bool
  de_write_ok :: "string \<Rightarrow> bool"
  de_signature :: "string \<Rightarrow> string"
  de_rndc :: "dns_host \<Rightarrow> rndc_outcome"

section \<open>Files\<close>

fun replace_dots :: "string \<Rightarrow> string" where
  "replace_dots (a # b # s) = (if a = CHR ''.'' \<and> b = CHR ''.'' then CHR ''_'' # replace_dots s else a # replace_dots (b # s))"
| "replace_dots s = s"

definition zone_stem :: "dns_env \<Rightarrow> zone_payload \<Rightarrow> string" where
  "zone_stem env z = de_zones_dir env @ ''/zone-'' @ string_of_int (dz_id z) @ ''-'' @ replace_dots (replace_char CHR ''/'' ''_'' (dz_name z))"

definition zone_file_path :: "dns_env \<Rightarrow> zone_payload \<Rightarrow> string" where
  "zone_file_path env z = zone_stem env z @ ''.db''"

definition signed_zone_file_path :: "dns_env \<Rightarrow> zone_payload \<Rightarrow> string" where
  "signed_zone_file_path env z = zone_stem env z @ ''.signed''"

text \<open>Errors of an apply: a \<open>ValueError\<close> (400) or an \<open>OSError\<close> (500).\<close>

datatype dns_error = Dns_Value | Dns_Os

definition put_zone :: "dns_env \<Rightarrow> string \<Rightarrow> string \<Rightarrow> dns_host \<Rightarrow> dns_error option \<times> dns_host" where
  "put_zone env path content h = (if de_write_ok env path then (None, h\<lparr>dh_zones := (dh_zones h)(path \<mapsto> content)\<rparr>) else (Some Dns_Os, h))"

definition write_zone_file :: "dns_env \<Rightarrow> zone_payload \<Rightarrow> dns_host \<Rightarrow> dns_error option \<times> dns_host" where
  "write_zone_file env z = put_zone env (zone_file_path env z) (render_zone_text z False)"

definition signed_text :: "dns_env \<Rightarrow> zone_payload \<Rightarrow> string" where
  "signed_text env z = render_zone_text z True @ ''; signed-by-viswall '' @ de_signature env (render_zone_text z True) @ nl"

definition write_signed_zone_file :: "dns_env \<Rightarrow> zone_payload \<Rightarrow> dns_host \<Rightarrow> dns_error option \<times> dns_host" where
  "write_signed_zone_file env z = put_zone env (signed_zone_file_path env z) (signed_text env z)"

section \<open>Writing a configuration\<close>

definition key_name :: "dns_payload \<Rightarrow> int \<Rightarrow> string option" where
  "key_name p k = map_of (rev (map (\<lambda>t. (dt_id t, dt_name t)) (filter dt_active (dp_tsig p)))) k"

definition zone_key :: "dns_payload \<Rightarrow> zone_payload \<Rightarrow> string option" where
  "zone_key p z = (case dz_tsig z of None \<Rightarrow> None | Some k \<Rightarrow> key_name p k)"

definition served_file :: "dns_env \<Rightarrow> zone_payload \<Rightarrow> string" where
  "served_file env z = (if dz_dnssec z then signed_zone_file_path env z else zone_file_path env z)"

text \<open>The files of one zone: a slave zone has none of its own.\<close>

definition write_zone :: "dns_env \<Rightarrow> zone_payload \<Rightarrow> dns_host \<Rightarrow> dns_error option \<times> dns_host" where
  "write_zone env z h =
     (if dz_type z = ''slave'' then (None, h)
      else (case write_zone_file env z h of
          (Some e, h1) \<Rightarrow> (Some e, h1)
        | (None, h1) \<Rightarrow> if dz_dnssec z then write_signed_zone_file env z h1 else (None, h1)))"

fun write_zones :: "dns_env \<Rightarrow> dns_payload \<Rightarrow> zone_payload list \<Rightarrow> string list \<Rightarrow> dns_host \<Rightarrow> (dns_error + string list) \<times> dns_host" where
  "write_zones env p [] blocks h = (Inr blocks, h)"
| "write_zones env p (z # zs) blocks h =
     (if \<not> dz_enabled z then write_zones env p zs blocks h
      else (case write_zone env z h of
          (Some e, h1) \<Rightarrow> (Inl e, h1)
        | (None, h1) \<Rightarrow>
            (case render_zone_block z (served_file env z) (zone_key p z) of
               None \<Rightarrow> (Inl Dns_Value, h1)
             | Some b \<Rightarrow> write_zones env p zs (blocks @ [b]) h1)))"

definition write_configs :: "dns_env \<Rightarrow> dns_payload \<Rightarrow> dns_host \<Rightarrow> dns_error option \<times> dns_host" where
  "write_configs env p h =
     (case write_zones env p (dp_zones p) [] h of
        (Inl e, h1) \<Rightarrow> (Some e, h1)
      | (Inr blocks, h1) \<Rightarrow>
          (if \<not> de_write_ok env (de_options_path env) then (Some Dns_Os, h1)
           else (let h2 = h1\<lparr>dh_options := Some (render_options_text p)\<rparr> in
                 if \<not> de_write_ok env (de_local_path env) then (Some Dns_Os, h2)
                 else (None, h2\<lparr>dh_local := Some (render_local_text p blocks)\<rparr>))))"

section \<open>Endpoints\<close>

text \<open>The key check: 503 when the agent has no key.\<close>

definition dns_key_check :: "string option \<Rightarrow> string option \<Rightarrow> nat option" where
  "dns_key_check own given = (case own of None \<Rightarrow> Some 503 | Some k \<Rightarrow> if or_empty given = k then None else Some 401)"

definition reload_bind :: "dns_env \<Rightarrow> dns_host \<Rightarrow> nat \<times> dns_host" where
  "reload_bind env h =
     (if \<not> de_commands env then (200, h)
      else (case de_rndc env h of
          Rndc_Missing \<Rightarrow> (500, h)
        | Rndc_Exit c \<Rightarrow> if c = 0 then (200, h\<lparr>dh_reloaded := Some (dh_zones h, dh_options h, dh_local h)\<rparr>) else (500, h)))"

definition dns_apply :: "dns_env \<Rightarrow> string option \<Rightarrow> string option \<Rightarrow> dns_payload \<Rightarrow> dns_host \<Rightarrow> nat \<times> dns_host" where
  "dns_apply env own given p h =
     (case dns_key_check own given of
        Some c \<Rightarrow> (c, h)
      | None \<Rightarrow>
          (case write_configs env p h of
             (Some Dns_Value, h1) \<Rightarrow> (400, h1)
           | (Some Dns_Os, h1) \<Rightarrow> (500, h1)
           | (None, h1) \<Rightarrow> reload_bind env h1))"

definition dns_reload :: "dns_env \<Rightarrow> string option \<Rightarrow> string option \<Rightarrow> dns_host \<Rightarrow> nat \<times> dns_host" where
  "dns_reload env own given h = (case dns_key_check own given of Some c \<Rightarrow> (c, h) | None \<Rightarrow> reload_bind env h)"

text \<open>A fresh transfer secret: the random bytes are the argument.\<close>

definition generate_tsig_secret :: "string \<Rightarrow> (nat \<Rightarrow> string) \<Rightarrow> string option" where
  "generate_tsig_secret algorithm bytes =
     (if algorithm = ''hmac-sha256'' then Some (bytes 32) else if algorithm = ''hmac-sha512'' then Some (bytes 64) else None)"

section \<open>Outcomes\<close>

text \<open>Zone files only change at the paths of the enabled zones of the body.\<close>

lemma write_zone_frame: "write_zone env z h = (r, h') \<Longrightarrow> dh_options h' = dh_options h \<and> dh_local h' = dh_local h \<and> dh_reloaded h' = dh_reloaded h"
  by (auto simp: write_zone_def write_zone_file_def write_signed_zone_file_def put_zone_def split: if_splits)

lemma write_zones_frame:
  "write_zones env p zs bs h = (r, h') \<Longrightarrow> dh_options h' = dh_options h \<and> dh_local h' = dh_local h \<and> dh_reloaded h' = dh_reloaded h"
proof (induction zs arbitrary: bs h)
  case (Cons z zs)
  then show ?case using write_zone_frame[of env z h] by (fastforce split: if_splits prod.splits option.splits)
qed simp

end
