(* ===== verification/Dns_Body.thy ===== *)
theory Dns_Body
  imports Dns_Agent Gw_Dns "HOL-Library.Monad_Syntax"
begin

text \<open>
  The body of a DNS apply on both sides: how the agent's schema (\<open>viswall_dns_agent/payloads.py\<close>) reads it,
  and that it reads the gateway's body as exactly the rows, or refuses it when a column is null.
\<close>

section \<open>Fields\<close>

text \<open>A field with a default may be absent but not null; an optional one may be both.\<close>

definition dflt_int :: "json \<Rightarrow> string \<Rightarrow> int \<Rightarrow> int option" where
  "dflt_int b k d = (if key_of b k = None then Some d else int_key b k)"

definition dflt_bool :: "json \<Rightarrow> string \<Rightarrow> bool \<Rightarrow> bool option" where
  "dflt_bool b k d = (if key_of b k = None then Some d else bool_key b k)"

definition dflt_str :: "json \<Rightarrow> string \<Rightarrow> string \<Rightarrow> string option" where
  "dflt_str b k d = (if key_of b k = None then Some d else str_key b k)"

definition maybe_str :: "json \<Rightarrow> string \<Rightarrow> string option option" where
  "maybe_str b k = (case key_of b k of None \<Rightarrow> Some None | Some J_Null \<Rightarrow> Some None | Some (J_Str s) \<Rightarrow> Some (Some s) | _ \<Rightarrow> None)"

definition maybe_int :: "json \<Rightarrow> string \<Rightarrow> int option option" where
  "maybe_int b k = (case key_of b k of None \<Rightarrow> Some None | Some J_Null \<Rightarrow> Some None | Some (J_Int n) \<Rightarrow> Some (Some n) | _ \<Rightarrow> None)"

fun read_list :: "(json \<Rightarrow> 'a option) \<Rightarrow> json list \<Rightarrow> 'a list option" where
  "read_list f [] = Some []"
| "read_list f (x # xs) = (case (f x, read_list f xs) of (Some y, Some ys) \<Rightarrow> Some (y # ys) | _ \<Rightarrow> None)"

definition dflt_list :: "(json \<Rightarrow> 'a option) \<Rightarrow> json \<Rightarrow> string \<Rightarrow> 'a list \<Rightarrow> 'a list option" where
  "dflt_list f b k d = (case key_of b k of None \<Rightarrow> Some d | Some (J_List xs) \<Rightarrow> read_list f xs | _ \<Rightarrow> None)"

fun as_str :: "json \<Rightarrow> string option" where
  "as_str (J_Str s) = Some s"
| "as_str _ = None"

section \<open>The schema\<close>

definition read_rr :: "json \<Rightarrow> rr_payload option" where
  "read_rr b = do {
     n \<leftarrow> str_key b ''name''; t \<leftarrow> str_key b ''record_type''; c \<leftarrow> str_key b ''content''; ttl \<leftarrow> dflt_int b ''ttl'' 3600;
     pr \<leftarrow> dflt_int b ''priority'' 0; w \<leftarrow> dflt_int b ''weight'' 0; po \<leftarrow> dflt_int b ''port'' 0;
     Some \<lparr>dr_name = n, dr_type = t, dr_content = c, dr_ttl = ttl, dr_priority = pr, dr_weight = w, dr_port = po\<rparr> }"

definition read_dnssec :: "json \<Rightarrow> dnssec_payload option" where
  "read_dnssec b = do {
     k \<leftarrow> int_key b ''id''; t \<leftarrow> str_key b ''key_type''; a \<leftarrow> str_key b ''algorithm''; s \<leftarrow> int_key b ''key_size'';
     tag \<leftarrow> maybe_int b ''key_tag''; p1 \<leftarrow> maybe_str b ''public_key_path''; p2 \<leftarrow> maybe_str b ''private_key_path'';
     d \<leftarrow> maybe_str b ''public_dnskey''; ds \<leftarrow> maybe_str b ''ds_record''; act \<leftarrow> dflt_bool b ''is_active'' True;
     Some \<lparr>dk_id = k, dk_type = t, dk_algorithm = a, dk_size = s, dk_tag = tag, dk_dnskey = d, dk_ds = ds, dk_active = act\<rparr> }"

definition read_zone :: "json \<Rightarrow> zone_payload option" where
  "read_zone b = do {
     k \<leftarrow> int_key b ''id''; n \<leftarrow> str_key b ''name''; t \<leftarrow> str_key b ''zone_type''; en \<leftarrow> dflt_bool b ''enabled'' True;
     rev \<leftarrow> dflt_bool b ''is_reverse'' False; s \<leftarrow> int_key b ''serial''; r1 \<leftarrow> int_key b ''refresh''; r2 \<leftarrow> int_key b ''retry'';
     ex \<leftarrow> int_key b ''expire''; mi \<leftarrow> int_key b ''minimum_ttl''; ma \<leftarrow> maybe_str b ''master_server_address'';
     tk \<leftarrow> maybe_int b ''transfer_tsig_key_id''; sec \<leftarrow> dflt_bool b ''dnssec_enabled'' False;
     al \<leftarrow> dflt_str b ''dnssec_algorithm'' ''ECDSAP256SHA256''; k1 \<leftarrow> dflt_int b ''dnssec_ksk_size'' 256; k2 \<leftarrow> dflt_int b ''dnssec_zsk_size'' 256;
     rs \<leftarrow> dflt_list read_rr b ''records'' []; ks \<leftarrow> dflt_list read_dnssec b ''dnssec_keys'' [];
     Some \<lparr>dz_id = k, dz_name = n, dz_type = t, dz_enabled = en, dz_serial = s, dz_refresh = r1, dz_retry = r2, dz_expire = ex,
       dz_minimum = mi, dz_master = ma, dz_tsig = tk, dz_dnssec = sec, dz_records = rs, dz_keys = ks\<rparr> }"

definition read_tsig :: "json \<Rightarrow> tsig_payload option" where
  "read_tsig b = do {
     k \<leftarrow> int_key b ''id''; n \<leftarrow> str_key b ''name''; a \<leftarrow> dflt_str b ''algorithm'' ''hmac-sha256''; s \<leftarrow> str_key b ''secret'';
     act \<leftarrow> dflt_bool b ''is_active'' True;
     Some \<lparr>dt_id = k, dt_name = n, dt_algorithm = a, dt_secret = s, dt_active = act\<rparr> }"

definition read_dns_payload :: "json \<Rightarrow> dns_payload option" where
  "read_dns_payload b = do {
     k \<leftarrow> int_key b ''server_id''; n \<leftarrow> str_key b ''name''; li \<leftarrow> dflt_list as_str b ''listening_addresses'' [''0.0.0.0'', ''::''];
     po \<leftarrow> dflt_int b ''port'' 53; re \<leftarrow> dflt_bool b ''is_recursive'' True; au \<leftarrow> dflt_bool b ''is_authoritative'' True;
     fo \<leftarrow> dflt_list as_str b ''forwarders'' []; qu \<leftarrow> dflt_list as_str b ''allow_query'' [''0.0.0.0/0'', ''::/0''];
     tr \<leftarrow> dflt_list as_str b ''allow_transfer'' [''127.0.0.1'', ''::1'']; no \<leftarrow> dflt_list as_str b ''also_notify'' [];
     ts \<leftarrow> dflt_list read_tsig b ''tsig_keys'' []; zs \<leftarrow> dflt_list read_zone b ''zones'' [];
     Some \<lparr>dp_server = k, dp_listen = li, dp_recursive = re, dp_forwarders = fo, dp_query = qu, dp_transfer = tr, dp_notify = no,
       dp_tsig = ts, dp_zones = zs\<rparr> }"

section \<open>The rows as the agent can see them\<close>

text \<open>The body and the schema have no field for the flags and the tag of a record, so these are not part of what can arrive.\<close>

definition rr_of :: "dns_record \<Rightarrow> rr_payload option" where
  "rr_of r = do {
     ttl \<leftarrow> re_ttl r; pr \<leftarrow> re_priority r; w \<leftarrow> re_weight r; po \<leftarrow> re_port r;
     Some \<lparr>dr_name = re_name r, dr_type = re_type r, dr_content = re_content r, dr_ttl = ttl, dr_priority = pr, dr_weight = w, dr_port = po\<rparr> }"

definition dnssec_of :: "nat \<times> dnssec_key \<Rightarrow> dnssec_payload" where
  "dnssec_of e = (case e of (k, y) \<Rightarrow> \<lparr>dk_id = int k, dk_type = dy_type y, dk_algorithm = dy_algorithm y, dk_size = dy_size y, dk_tag = Some (dy_tag y),
     dk_dnskey = Some (dy_dnskey y), dk_ds = dy_ds y, dk_active = dy_active y\<rparr>)"

definition zone_of :: "'w dns_state \<Rightarrow> nat \<times> dns_zone \<Rightarrow> zone_payload option" where
  "zone_of st e = (case e of (k, z) \<Rightarrow> do {
     en \<leftarrow> dn_enabled z; rev \<leftarrow> dn_reverse z; r1 \<leftarrow> dn_refresh z; r2 \<leftarrow> dn_retry z; ex \<leftarrow> dn_expire z; mi \<leftarrow> dn_minimum z; sec \<leftarrow> dn_dnssec z;
     rs \<leftarrow> those (map (rr_of \<circ> snd) (rows_where (\<lambda>r. re_zone r = k) (dn_records st)));
     Some \<lparr>dz_id = int k, dz_name = dn_name z, dz_type = dn_type z, dz_enabled = en, dz_serial = dn_serial z, dz_refresh = r1, dz_retry = r2,
       dz_expire = ex, dz_minimum = mi, dz_master = dn_master z, dz_tsig = map_option int (dn_tsig z), dz_dnssec = sec, dz_records = rs,
       dz_keys = map dnssec_of (rows_where (\<lambda>y. dy_zone y = k) (dn_keys st))\<rparr> })"

definition tsig_of :: "nat \<times> dns_tsig \<Rightarrow> tsig_payload" where
  "tsig_of e = (case e of (k, t) \<Rightarrow> \<lparr>dt_id = int k, dt_name = tk_name t, dt_algorithm = tk_algorithm t, dt_secret = tk_secret t, dt_active = tk_active t\<rparr>)"

definition desired_dns :: "'w dns_state \<Rightarrow> nat \<Rightarrow> dns_payload option" where
  "desired_dns st i =
     (case load_instance_servers st i of
        [] \<Rightarrow> Some \<lparr>dp_server = 0, dp_listen = [''0.0.0.0'', ''::''], dp_recursive = False, dp_forwarders = [],
          dp_query = [''0.0.0.0/0'', ''::/0''], dp_transfer = [''127.0.0.1'', ''::1''], dp_notify = [], dp_tsig = [], dp_zones = []\<rparr>
      | (k, p) # rest \<Rightarrow> do {
          port \<leftarrow> ds_port p; re \<leftarrow> ds_recursive p; au \<leftarrow> ds_authoritative p;
          zs \<leftarrow> those (concat (map (\<lambda>s. map (zone_of st) (rows_where (\<lambda>z. dn_server z = s) (dn_zones st))) (map fst ((k, p) # rest))));
          Some \<lparr>dp_server = int k, dp_listen = or_list (ds_listen p) [''0.0.0.0'', ''::''], dp_recursive = re,
            dp_forwarders = or_list (ds_forwarders p) [], dp_query = or_list (ds_query p) [''0.0.0.0/0'', ''::/0''],
            dp_transfer = or_list (ds_transfer p) [''127.0.0.1'', ''::1''], dp_notify = or_list (ds_notify p) [],
            dp_tsig = concat (map (\<lambda>s. map tsig_of (rows_where (\<lambda>t. tk_server t = s) (dn_tsigs st))) (map fst ((k, p) # rest))),
            dp_zones = zs\<rparr> })"

section \<open>Reading undoes building\<close>

named_theorems json_fields

lemmas [json_fields] = str_key_def int_key_def bool_key_def dflt_int_def dflt_bool_def dflt_str_def maybe_str_def maybe_int_def opt_str_def
  opt_int_def opt_bool_def

lemma read_list_map: "(\<And>x. x \<in> set xs \<Longrightarrow> f (g x) = h x) \<Longrightarrow> read_list f (map g xs) = those (map h xs)"
  by (induction xs) (auto split: option.splits)

lemma read_list_total: "(\<And>x. f (g x) = Some (h x)) \<Longrightarrow> read_list f (map g xs) = Some (map h xs)"
  by (induction xs) auto

lemma read_strs [simp]: "dflt_list as_str (J_Obj kvs) k d = (case map_of kvs k of None \<Rightarrow> Some d | Some (J_List xs) \<Rightarrow> read_list as_str xs | _ \<Rightarrow> None)"
  by (simp add: dflt_list_def)

lemma read_str_list [simp]: "read_list as_str (map J_Str xs) = Some xs"
  using read_list_total[of as_str J_Str id] by simp

lemma read_record: "read_rr (record_payload r) = rr_of r"
  by (simp add: read_rr_def record_payload_def rr_of_def json_fields split: option.splits)

lemma read_key: "read_dnssec (key_payload e) = Some (dnssec_of e)"
  by (cases e) (simp add: read_dnssec_def key_payload_def dnssec_of_def json_fields split: option.splits)

lemma read_tsig_row: "read_tsig (tsig_payload_of e) = Some (tsig_of e)"
  by (cases e) (simp add: read_tsig_def tsig_payload_of_def tsig_of_def json_fields split: option.splits)

lemma read_zone_row: "read_zone (zone_payload_of st e) = zone_of st e"
proof (cases e)
  case (Pair k z)
  have rs: "read_list read_rr (map (record_payload \<circ> snd) xs) = those (map (rr_of \<circ> snd) xs)" for xs :: "(nat \<times> dns_record) list"
    by (rule read_list_map) (simp add: read_record)
  have ks: "read_list read_dnssec (map key_payload ys) = Some (map dnssec_of ys)" for ys
    by (rule read_list_total) (rule read_key)
  show ?thesis
    by (simp add: Pair read_zone_def zone_payload_of_def zone_of_def dflt_list_def rs ks json_fields split: option.splits bind_splits)
qed

lemma concat_map_map: "concat (map (\<lambda>s. map f (g s)) xs) = map f (concat (map g xs))"
  by (induction xs) auto

lemma read_tsigs: "read_list read_tsig (concat (map (\<lambda>s. map tsig_payload_of (g s)) xs)) = Some (concat (map (\<lambda>s. map tsig_of (g s)) xs))"
  unfolding concat_map_map by (rule read_list_total) (rule read_tsig_row)

lemma read_zones: "read_list read_zone (concat (map (\<lambda>s. map (zone_payload_of st) (g s)) xs)) = those (concat (map (\<lambda>s. map (zone_of st) (g s)) xs))"
  unfolding concat_map_map by (rule read_list_map) (rule read_zone_row)

lemma read_dns_rows: "read_dns_payload (build_instance_dns_payload st i) = desired_dns st i"
proof (cases "load_instance_servers st i")
  case Nil
  then show ?thesis
    by (simp add: build_instance_dns_payload_def desired_dns_def empty_dns_body_def dns_body_def read_dns_payload_def str_list_def json_fields)
      (simp add: dflt_list_def)
next
  case (Cons e rest)
  obtain k p where e: "e = (k, p)" by (cases e)
  let ?g = "\<lambda>s. rows_where (\<lambda>t. tk_server t = s) (dn_tsigs st)" and ?h = "\<lambda>s. rows_where (\<lambda>z. dn_server z = s) (dn_zones st)"
  note rt = read_tsigs[where g = ?g and xs = "map fst (e # rest)"] and rz = read_zones[where st = st and g = ?h and xs = "map fst (e # rest)"]
  show ?thesis
    unfolding build_instance_dns_payload_def desired_dns_def Cons e list.case prod.case Let_def dns_body_def read_dns_payload_def
    using rt[unfolded e] rz[unfolded e]
    by (simp add: str_list_def json_fields dflt_list_def del: concat.simps list.map split: option.splits bind_splits)
qed

end
