(* ===== verification/Dns_Files.thy ===== *)
theory Dns_Files
  imports Dns_Agent
begin

text \<open>
  What a successful write of the DNS agent leaves on the host: the file of every enabled zone, none of them
  overwritten by a later zone of the same body, and the two configuration files.
\<close>

section \<open>Paths\<close>

lemma split_unique: "a @ c # x = b @ c # y \<Longrightarrow> c \<notin> set a \<Longrightarrow> c \<notin> set b \<Longrightarrow> a = b"
proof (induction a arbitrary: b)
  case Nil
  then show ?case by (cases b) auto
next
  case (Cons d a)
  then show ?case by (cases b) auto
qed

lemma no_dash: "CHR ''-'' \<notin> set (string_of_nat n)"
  using string_of_nat_digits[of "CHR ''-''" n] by (auto simp: is_digit_def char_between_def)

definition ids_ok :: "zone_payload list \<Rightarrow> bool" where
  "ids_ok zs \<longleftrightarrow> distinct (map dz_id zs) \<and> (\<forall>z\<in>set zs. 0 \<le> dz_id z)"

lemma stem_id:
  assumes "zone_stem env z @ t = zone_stem env y @ t" "0 \<le> dz_id z" "0 \<le> dz_id y"
  shows "dz_id z = dz_id y"
proof -
  obtain a b where "string_of_nat (nat (dz_id z)) @ CHR ''-'' # a = string_of_nat (nat (dz_id y)) @ CHR ''-'' # b"
    using assms by (simp add: zone_stem_def string_of_int_def)
  then have "string_of_nat (nat (dz_id z)) = string_of_nat (nat (dz_id y))" by (rule split_unique) (rule no_dash)+
  then show ?thesis using assms(2,3) by (simp add: string_of_nat_inj)
qed

lemma path_kinds: "zone_file_path env z \<noteq> signed_zone_file_path env y" "signed_zone_file_path env y \<noteq> zone_file_path env z"
  by (auto simp: zone_file_path_def signed_zone_file_path_def dest: arg_cong[of _ _ last])

lemma path_ids:
  assumes "dz_id z \<noteq> dz_id y" "0 \<le> dz_id z" "0 \<le> dz_id y"
  shows "zone_file_path env z \<noteq> zone_file_path env y" "signed_zone_file_path env z \<noteq> signed_zone_file_path env y"
  using stem_id[of env z _ y] assms by (auto simp: zone_file_path_def signed_zone_file_path_def)

section \<open>Files\<close>

text \<open>The files of one zone hold its text.\<close>

definition zone_written :: "dns_env \<Rightarrow> dns_files \<Rightarrow> zone_payload \<Rightarrow> bool" where
  "zone_written env fs z \<longleftrightarrow> dz_enabled z \<and> dz_type z \<noteq> ''slave'' \<longrightarrow>
     fs (zone_file_path env z) = Some (render_zone_text z False) \<and> (dz_dnssec z \<longrightarrow> fs (signed_zone_file_path env z) = Some (signed_text env z))"

lemma write_zone_files:
  assumes "write_zone env z h = (None, h')"
  shows "dz_type z \<noteq> ''slave'' \<Longrightarrow> zone_written env (dh_zones h') z"
    "dz_id y \<noteq> dz_id z \<Longrightarrow> 0 \<le> dz_id y \<Longrightarrow> 0 \<le> dz_id z \<Longrightarrow> zone_written env (dh_zones h) y \<Longrightarrow> zone_written env (dh_zones h') y"
proof -
  show "dz_type z \<noteq> ''slave'' \<Longrightarrow> zone_written env (dh_zones h') z"
    using assms path_kinds[of env z z] by (auto simp: zone_written_def write_zone_def write_zone_file_def write_signed_zone_file_def put_zone_def split: if_splits)
  assume a: "dz_id y \<noteq> dz_id z" "0 \<le> dz_id y" "0 \<le> dz_id z" and w: "zone_written env (dh_zones h) y"
  show "zone_written env (dh_zones h') y"
    using assms w path_ids[OF a] path_kinds[of env]
    by (auto simp: zone_written_def write_zone_def write_zone_file_def write_signed_zone_file_def put_zone_def split: if_splits)
qed

definition blocks_of :: "dns_env \<Rightarrow> dns_payload \<Rightarrow> zone_payload list \<Rightarrow> string list option" where
  "blocks_of env p zs = those (map (\<lambda>z. render_zone_block z (served_file env z) (zone_key p z)) (filter dz_enabled zs))"

lemma ids_okD: "ids_ok (z # zs) \<Longrightarrow> ids_ok zs \<and> 0 \<le> dz_id z \<and> (\<forall>y\<in>set zs. dz_id y \<noteq> dz_id z \<and> 0 \<le> dz_id y)"
  by (auto simp: ids_ok_def image_iff)

lemma write_zones_blocks:
  "write_zones env p zs bs h = (Inr out, h') \<Longrightarrow> \<exists>new. blocks_of env p zs = Some new \<and> out = bs @ new"
proof (induction zs arbitrary: bs h)
  case (Cons z zs)
  then show ?case by (fastforce simp: blocks_of_def split: if_splits prod.splits option.splits)
qed (simp add: blocks_of_def)

lemma write_zones_keep:
  assumes "write_zones env p zs bs h = (Inr out, h')" "\<forall>z\<in>set zs. dz_id y \<noteq> dz_id z \<and> 0 \<le> dz_id z" "0 \<le> dz_id y"
    "zone_written env (dh_zones h) y"
  shows "zone_written env (dh_zones h') y"
  using assms
proof (induction zs arbitrary: bs h)
  case (Cons z zs)
  show ?case
  proof (cases "dz_enabled z")
    case False
    with Cons show ?thesis by simp
  next
    case True
    with Cons.prems(1) obtain h1 b where w: "write_zone env z h = (None, h1)" "write_zones env p zs (bs @ [b]) h1 = (Inr out, h')"
      by (auto split: prod.splits option.splits)
    have "zone_written env (dh_zones h1) y" using write_zone_files(2)[OF w(1)] Cons.prems by simp
    with Cons.IH[OF w(2)] Cons.prems show ?thesis by simp
  qed
qed simp

lemma write_zones_files:
  "write_zones env p zs bs h = (Inr out, h') \<Longrightarrow> ids_ok zs \<Longrightarrow> z \<in> set zs \<Longrightarrow> zone_written env (dh_zones h') z"
proof (induction zs arbitrary: bs h)
  case (Cons y zs)
  note ids = ids_okD[OF Cons.prems(2)]
  show ?case
  proof (cases "dz_enabled y")
    case False
    with Cons ids show ?thesis by (auto simp: zone_written_def)
  next
    case True
    with Cons.prems(1) obtain h1 b where w: "write_zone env y h = (None, h1)" "write_zones env p zs (bs @ [b]) h1 = (Inr out, h')"
      by (auto split: prod.splits option.splits)
    show ?thesis
    proof (cases "z = y")
      case True
      show ?thesis
      proof (cases "dz_type y = ''slave''")
        case False
        show ?thesis unfolding True by (rule write_zones_keep[OF w(2)]) (use ids write_zone_files(1)[OF w(1) False] in auto)
      qed (simp add: True zone_written_def)
    next
      case False
      with Cons.IH[OF w(2)] Cons.prems ids show ?thesis by simp
    qed
  qed
qed simp

text \<open>A slave zone without a master address stops the write.\<close>

lemma write_zones_blocked:
  "z \<in> set zs \<Longrightarrow> dz_enabled z \<Longrightarrow> dz_type z = ''slave'' \<Longrightarrow> dz_master z = None \<Longrightarrow> \<exists>e h'. write_zones env p zs bs h = (Inl e, h')"
proof (induction zs arbitrary: bs h)
  case (Cons y zs)
  then show ?case
    by (auto simp: render_zone_block_def block_lines_def truthy_str_def or_empty_def Let_def write_zone_def split: prod.split option.split)
qed simp

section \<open>An apply that succeeds\<close>

lemma write_configs_ok:
  assumes "write_configs env p h = (None, h')"
  obtains blocks where "blocks_of env p (dp_zones p) = Some blocks" "dh_options h' = Some (render_options_text p)"
    "dh_local h' = Some (render_local_text p blocks)" "ids_ok (dp_zones p) \<longrightarrow> (\<forall>z\<in>set (dp_zones p). zone_written env (dh_zones h') z)"
proof -
  obtain blocks h1 where w: "write_zones env p (dp_zones p) [] h = (Inr blocks, h1)"
    and h': "h' = h1\<lparr>dh_options := Some (render_options_text p), dh_local := Some (render_local_text p blocks)\<rparr>"
    using assms by (auto simp: write_configs_def Let_def split: prod.splits sum.splits if_splits)
  show ?thesis
    by (rule that[of blocks]) (use write_zones_blocks[OF w] write_zones_files[OF w] in \<open>auto simp: h'\<close>)
qed

lemma write_configs_serves: "write_configs env p h = (r, h') \<Longrightarrow> dh_reloaded h' = dh_reloaded h"
  using write_zones_frame[of env p "dp_zones p" "[]" h] by (fastforce simp: write_configs_def Let_def split: prod.splits sum.splits if_splits)

lemma dns_apply_ok:
  assumes "dns_apply env own given p h = (200, h')" "de_commands env"
  obtains h1 where "write_configs env p h = (None, h1)" "h' = h1\<lparr>dh_reloaded := Some (dh_zones h1, dh_options h1, dh_local h1)\<rparr>"
  using assms
  by (auto simp: dns_apply_def reload_bind_def dns_key_check_def split: option.splits prod.splits dns_error.splits rndc_outcome.splits if_splits)

lemma dns_apply_answered:
  assumes "dns_apply env own given p h = (200, h')"
  obtains h1 where "write_configs env p h = (None, h1)"
    "h' = (if de_commands env then h1\<lparr>dh_reloaded := Some (dh_zones h1, dh_options h1, dh_local h1)\<rparr> else h1)"
  using assms
  by (auto simp: dns_apply_def reload_bind_def dns_key_check_def split: option.splits prod.splits dns_error.splits rndc_outcome.splits if_splits)

lemma dns_apply_refused:
  assumes "dns_apply env own given p h = (c, h')" "c \<noteq> 200"
  shows "dh_reloaded h' = dh_reloaded h"
  using assms write_configs_serves[of env p h]
  by (auto simp: dns_apply_def reload_bind_def split: option.splits prod.splits dns_error.splits rndc_outcome.splits if_splits)

end
