(* ===== verification/Gw_Dns_System.thy ===== *)
theory Gw_Dns_System
  imports Gw_Dns_Props Gw_Vpn_System Dns_Body Dns_Files
begin

text \<open>
  The DNS router and the DNS agent together: what BIND serves after an apply that is answered.
\<close>

section \<open>The agent as the other end\<close>

text \<open>The other endpoints (status, health, signing) leave the host alone and are the argument \<open>rest\<close>.\<close>

definition dns_agent :: "dns_env \<Rightarrow> (string \<Rightarrow> json http_exchange) \<Rightarrow> string \<Rightarrow> string \<Rightarrow> dns_host sender" where
  "dns_agent env rest key base url k meth body h =
     (case dns_key_check (Some key) (Some k) of
        Some c \<Rightarrow> (Http_Status c [], h)
      | None \<Rightarrow>
          (let answer = (\<lambda>(code, h'). (if code = 200 then Http_Ok (J_Obj []) else Http_Status code [], h')) in
           if meth = ''POST'' \<and> url = base @ ''/dns/apply'' then
             (case read_dns_payload body of None \<Rightarrow> (Http_Status 422 [], h) | Some p \<Rightarrow> answer (dns_apply env (Some key) (Some k) p h))
           else if meth = ''POST'' \<and> url = base @ ''/dns/reload'' then answer (dns_reload env (Some key) (Some k) h)
           else (rest url, h)))"

definition dns_at :: "'w dns_state \<Rightarrow> nat \<Rightarrow> string \<Rightarrow> string \<Rightarrow> bool" where
  "dns_at st i base key \<longleftrightarrow> get_instance_endpoint (fd_instances (gs_db (dn_gw st))) i (Some ''dns'') = Inr base
     \<and> key_of_instance (gs_db (dn_gw st)) i = key"

lemma dns_key_ok [simp]: "dns_key_check (Some k) (Some k) = None"
  by (simp add: dns_key_check_def or_empty_def)

text \<open>The exchange behind an apply.\<close>

lemma dns_ask_at:
  assumes "dns_at st i base key" "dns_ask (dns_agent env rest key base) i ''/dns/apply'' body st = (r, st1)"
  shows "gs_world (dn_gw st1) = snd (dns_agent env rest key base (base @ ''/dns/apply'') key ''POST'' body (gs_world (dn_gw st)))"
    "(\<exists>a. r = Inr a) = (\<exists>a. fst (dns_agent env rest key base (base @ ''/dns/apply'') key ''POST'' body (gs_world (dn_gw st))) = Http_Ok a)"
    "dn_servers st1 = dn_servers st"
  using assms
  by (auto simp: dns_at_def dns_ask_def ask_def agent_request_def Let_def key_of_instance_def split: prod.splits http_exchange.splits)

lemma apply_dns_world:
  assumes "dns_at st i base key" "apply_dns_config (dns_agent env rest key base) i u st = (r, st')"
  shows "(case desired_dns st i of
       None \<Rightarrow> (\<exists>e. r = Inl e) \<and> gs_world (dn_gw st') = gs_world (dn_gw st)
     | Some p \<Rightarrow> \<exists>code. dns_apply env (Some key) (Some key) p (gs_world (dn_gw st)) = (code, gs_world (dn_gw st')) \<and> ((\<exists>a. r = Inr a) \<longleftrightarrow> code = 200))"
proof -
  let ?body = "build_instance_dns_payload st i"
  obtain q st1 where q: "dns_ask (dns_agent env rest key base) i ''/dns/apply'' ?body st = (q, st1)"
    by (cases "dns_ask (dns_agent env rest key base) i ''/dns/apply'' ?body st")
  have w: "gs_world (dn_gw st') = gs_world (dn_gw st1)" "(\<exists>a. r = Inr a) = (\<exists>a. q = Inr a)"
    using assms(2) q by (auto simp: apply_dns_config_def audit_dns_def dns_on_gw_def audit_dispatch_def set_db_def set_statuses_def split: sum.splits)
  note a = dns_ask_at[OF assms(1) q]
  have e: "dns_agent env rest key base (base @ ''/dns/apply'') key ''POST'' ?body h = (case desired_dns st i of
      None \<Rightarrow> (Http_Status 422 [], h) | Some p \<Rightarrow> (case dns_apply env (Some key) (Some key) p h of
        (code, h') \<Rightarrow> (if code = 200 then Http_Ok (J_Obj []) else Http_Status code [], h')))" for h
    by (simp add: dns_agent_def read_dns_rows Let_def split: option.split)
  have l: "(\<exists>e. r = Inl e) = (\<not> (\<exists>a. r = Inr a))" by (cases r) auto
  show ?thesis using a(1,2) unfolding w(1) l w(2) e by (auto split: option.splits prod.splits if_splits)
qed

section \<open>The identifiers of a body\<close>

lemma those_ids: "those (map f xs) = Some ys \<Longrightarrow> (\<And>x y. f x = Some y \<Longrightarrow> g y = h x) \<Longrightarrow> map g ys = map h xs"
proof (induction xs arbitrary: ys)
  case (Cons x xs)
  then show ?case by (auto split: option.splits)
qed simp

lemma zone_of_id: "zone_of st e = Some z \<Longrightarrow> dz_id z = int (fst e)"
  by (cases e) (auto simp: zone_of_def split: bind_splits)

lemma zone_of_fields: "zone_of st (k, z) = Some y \<Longrightarrow> dz_type y = dn_type z \<and> dz_master y = dn_master z \<and> Some (dz_enabled y) = dn_enabled z"
  by (auto simp: zone_of_def split: bind_splits)

lemma grouped_keys_distinct:
  assumes "table_ok t" "distinct ks"
  shows "distinct (map fst (concat (map (\<lambda>s. rows_where (\<lambda>z. f z = s) t) ks)))"
  using assms(2)
proof (induction ks)
  case (Cons k ks)
  have "distinct (map fst (rows_where (\<lambda>z. f z = k) t))" using assms(1) by (simp add: rows_where_def table_ok_def distinct_map_filter)
  moreover have False if "(j, z) \<in> set (rows_where (\<lambda>z. f z = k) t)" "s \<in> set ks" "(j, z') \<in> set (rows_where (\<lambda>z. f z = s) t)" for j z s z'
    using that rows_where_get[OF assms(1)] Cons.prems by auto
  ultimately show ?case using Cons by fastforce
qed simp

lemma servers_distinct:
  assumes "table_ok (dn_servers st)"
  shows "distinct (map fst (load_instance_servers st i))"
proof -
  have "distinct (map fst (rows_where p (dn_servers st)))" for p using assms by (simp add: rows_where_def table_ok_def distinct_map_filter)
  then show ?thesis unfolding load_instance_servers_def by (simp add: distinct_map inj_on_def)
qed

lemma desired_zones:
  assumes "desired_dns st i = Some p"
  shows "those (map (zone_of st) (concat (map (\<lambda>s. rows_where (\<lambda>z. dn_server z = s) (dn_zones st)) (map fst (load_instance_servers st i)))))
    = Some (dp_zones p)"
  using assms unfolding concat_map_map[symmetric] by (auto simp: desired_dns_def split: list.splits bind_splits)

lemma desired_ids:
  assumes "desired_dns st i = Some p" "table_ok (dn_zones st)" "table_ok (dn_servers st)"
  shows "ids_ok (dp_zones p)"
proof -
  let ?xs = "concat (map (\<lambda>s. rows_where (\<lambda>z. dn_server z = s) (dn_zones st)) (map fst (load_instance_servers st i)))"
  have ids: "map dz_id (dp_zones p) = map (int \<circ> fst) ?xs"
    by (rule those_ids[OF desired_zones[OF assms(1)]]) (simp add: zone_of_id)
  have "distinct (map fst ?xs)" by (rule grouped_keys_distinct[OF assms(2) servers_distinct[OF assms(3)]])
  then have "distinct (map int (map fst ?xs))" by (subst distinct_map) simp
  then have d: "distinct (map dz_id (dp_zones p))" using ids by simp
  have "\<exists>x. dz_id z = int x" if "z \<in> set (dp_zones p)" for z
  proof -
    have "dz_id z \<in> set (map (int \<circ> fst) ?xs)" using that unfolding ids[symmetric] by simp
    then show ?thesis by (auto simp del: set_concat)
  qed
  with d show ?thesis by (force simp: ids_ok_def)
qed

section \<open>After an apply\<close>

lemma set_statuses_get: "row_get (dn_servers (set_statuses i s st)) k = map_option (\<lambda>r. if ds_instance r = i then r\<lparr>ds_status := Some s\<rparr> else r)
    (row_get (dn_servers st) k)"
  by (simp add: set_statuses_rows map_rows_get)

lemma applied_statuses:
  assumes "apply_dns_config send i u st = (Inr r, st')" "row_get (dn_servers st') k = Some s" "ds_instance s = i"
  shows "ds_status s = Some ''running''"
proof -
  obtain st1 p ok d b where "st' = audit_dns i p ok d u (if b then set_statuses i ''running'' st1 else st1)"
      "b \<longleftrightarrow> (\<exists>a. (Inr r :: agent_error + json) = Inr a)"
    using assms(1) by (rule apply_dns_config_cases)
  then have "row_get (dn_servers (set_statuses i ''running'' st1)) k = Some s" using assms(2) by simp
  then obtain r0 where "s = (if ds_instance r0 = i then r0\<lparr>ds_status := Some ''running''\<rparr> else r0)"
    unfolding set_statuses_get by blast
  with assms(3) show ?thesis by (simp split: if_splits)
qed

text \<open>C3: After an apply that the agent answers, the files of BIND are those of the body the agent read: the options and zone
  statements are the renderings of the servers and zones of the instance, every enabled zone that is not a
  slave has its own file with the text of its records (and a signed file when it is signed), and no two zones
  share a file. If the agent may run commands, these are the files of a reload that \<open>rndc\<close> reported as done; if not, which is the default,
  nothing was reloaded. In both cases the servers of the instance are marked running.\<close>

theorem applied_dns_is_loaded:
  assumes a: "apply_dns_config (dns_agent env rest key base) i u st = (Inr r, st')" and at: "dns_at st i base key" and inv: "dns_inv st"
  shows "(\<exists>p blocks h. desired_dns st i = Some p \<and> blocks_of env p (dp_zones p) = Some blocks \<and> h = gs_world (dn_gw st')
        \<and> dh_options h = Some (render_options_text p) \<and> dh_local h = Some (render_local_text p blocks) \<and> (\<forall>z\<in>set (dp_zones p). zone_written env (dh_zones h) z)
        \<and> dh_reloaded h = (if de_commands env then Some (dh_zones h, dh_options h, dh_local h) else dh_reloaded (gs_world (dn_gw st))))
     \<and> (\<forall>k s. row_get (dn_servers st') k = Some s \<and> ds_instance s = i \<longrightarrow> ds_status s = Some ''running'')"
proof -
  obtain p where p: "desired_dns st i = Some p" and ok: "dns_apply env (Some key) (Some key) p (gs_world (dn_gw st)) = (200, gs_world (dn_gw st'))"
    using apply_dns_world[OF at a] by (auto split: option.splits)
  have ids: "ids_ok (dp_zones p)" using desired_ids[OF p] inv by (simp add: dns_inv_def)
  obtain h1 where w: "write_configs env p (gs_world (dn_gw st)) = (None, h1)"
    and h: "gs_world (dn_gw st') = (if de_commands env then h1\<lparr>dh_reloaded := Some (dh_zones h1, dh_options h1, dh_local h1)\<rparr> else h1)"
    by (rule dns_apply_answered[OF ok])
  obtain blocks where b: "blocks_of env p (dp_zones p) = Some blocks" "dh_options h1 = Some (render_options_text p)"
      "dh_local h1 = Some (render_local_text p blocks)" "ids_ok (dp_zones p) \<longrightarrow> (\<forall>z\<in>set (dp_zones p). zone_written env (dh_zones h1) z)"
    by (rule write_configs_ok[OF w])
  have "dh_options (gs_world (dn_gw st')) = dh_options h1" "dh_local (gs_world (dn_gw st')) = dh_local h1" "dh_zones (gs_world (dn_gw st')) = dh_zones h1"
    "dh_reloaded (gs_world (dn_gw st')) = (if de_commands env then Some (dh_zones h1, dh_options h1, dh_local h1) else dh_reloaded (gs_world (dn_gw st)))"
    using write_configs_serves[OF w] by (simp_all add: h)
  with p ids b have "\<exists>p blocks h. desired_dns st i = Some p \<and> blocks_of env p (dp_zones p) = Some blocks \<and> h = gs_world (dn_gw st')
        \<and> dh_options h = Some (render_options_text p) \<and> dh_local h = Some (render_local_text p blocks) \<and> (\<forall>z\<in>set (dp_zones p). zone_written env (dh_zones h) z)
        \<and> dh_reloaded h = (if de_commands env then Some (dh_zones h, dh_options h, dh_local h) else dh_reloaded (gs_world (dn_gw st)))"
    by simp
  with applied_statuses[OF a] show ?thesis by blast
qed

section \<open>Slave zones\<close>

lemma those_member: "those (map f xs) = Some ys \<Longrightarrow> x \<in> set xs \<Longrightarrow> \<exists>y\<in>set ys. f x = Some y"
  by (induction xs arbitrary: ys) (auto split: option.splits)

lemma in_group: "s \<in> set ks \<Longrightarrow> x \<in> set (f s) \<Longrightarrow> x \<in> set (concat (map f ks))" by auto

lemma slave_in_body:
  assumes "desired_dns st i = Some p" "dns_inv st" "row_get (dn_zones st) k = Some z" "row_get (dn_servers st) (dn_server z) = Some s"
    "ds_instance s = i" "ds_enabled s = Some True" "dn_enabled z = Some True" "dn_type z = ''slave''"
  shows "\<exists>y\<in>set (dp_zones p). dz_enabled y \<and> dz_type y = ''slave'' \<and> dz_master y = None"
proof -
  have ok: "table_ok (dn_servers st)" "table_ok (dn_zones st)" and m: "dn_master z = None"
    using assms(2,3) rows_allD[of zone_ok "dn_zones st" k z] by (simp_all add: dns_inv_def zone_ok_def)
  have "(dn_server z, s) \<in> set (load_instance_servers st i)" using rows_where_get[OF ok(1)] assms(4-6) by (simp add: load_instance_servers_def)
  then have "dn_server z \<in> set (map fst (load_instance_servers st i))" by force
  moreover have "(k, z) \<in> set (rows_where (\<lambda>y. dn_server y = dn_server z) (dn_zones st))" using rows_where_get[OF ok(2)] assms(3) by simp
  ultimately have "(k, z) \<in> set (concat (map (\<lambda>s. rows_where (\<lambda>z. dn_server z = s) (dn_zones st)) (map fst (load_instance_servers st i))))"
    by (rule in_group)
  from those_member[OF desired_zones[OF assms(1)] this] obtain y where "y \<in> set (dp_zones p)" "zone_of st (k, z) = Some y" ..
  with zone_of_fields[OF this(2)] assms(7,8) m show ?thesis by auto
qed

lemma apply_blocked:
  assumes "z \<in> set (dp_zones p)" "dz_enabled z" "dz_type z = ''slave''" "dz_master z = None"
  shows "\<exists>c h'. dns_apply env own given p h = (c, h') \<and> c \<noteq> 200"
proof -
  obtain e h' where w: "write_zones env p (dp_zones p) [] h = (Inl e, h')" using write_zones_blocked[OF assms, of env p "[]" h] by auto
  then have "write_configs env p h = (Some e, h')" by (simp add: write_configs_def)
  then show ?thesis by (cases e) (auto simp: dns_apply_def dns_key_check_def split: option.split)
qed

text \<open>C35: An enabled slave zone of an enabled server blocks its whole instance: no call of the gateway can
  store the master's address the renderer demands, so in every reachable state every apply to that instance
  is refused and BIND keeps serving what it served, all other zones included.\<close>

theorem slave_zone_blocks_apply:
  "(dns_step bound send)\<^sup>*\<^sup>* st0 st \<Longrightarrow> dns_inv st0 \<Longrightarrow> row_get (dn_zones st) k = Some z \<Longrightarrow>
   row_get (dn_servers st) (dn_server z) = Some s \<Longrightarrow> ds_enabled s = Some True \<Longrightarrow> dn_enabled z = Some True \<Longrightarrow> dn_type z = ''slave'' \<Longrightarrow>
   dns_at st (ds_instance s) base key \<Longrightarrow>
     (\<exists>e st'. apply_dns_config (dns_agent env rest key base) (ds_instance s) u st = (Inl e, st')
        \<and> dh_reloaded (gs_world (dn_gw st')) = dh_reloaded (gs_world (dn_gw st)))"
proof -
  assume run: "(dns_step bound send)\<^sup>*\<^sup>* st0 st" and i0: "dns_inv st0"
    and z: "row_get (dn_zones st) k = Some z" and s: "row_get (dn_servers st) (dn_server z) = Some s" "ds_enabled s = Some True"
    and e: "dn_enabled z = Some True" "dn_type z = ''slave''" and at: "dns_at st (ds_instance s) base key"
  have inv: "dns_inv st" using dns_steps_good[OF run] i0 by (simp add: good_change_def)
  obtain r st' where a: "apply_dns_config (dns_agent env rest key base) (ds_instance s) u st = (r, st')"
    by (cases "apply_dns_config (dns_agent env rest key base) (ds_instance s) u st")
  note w = apply_dns_world[OF at a]
  have "(\<exists>e. r = Inl e) \<and> dh_reloaded (gs_world (dn_gw st')) = dh_reloaded (gs_world (dn_gw st))"
  proof (cases "desired_dns st (ds_instance s)")
    case None
    with w show ?thesis by simp
  next
    case (Some p)
    obtain y where y: "y \<in> set (dp_zones p)" "dz_enabled y" "dz_type y = ''slave''" "dz_master y = None"
      using slave_in_body[OF Some inv z s(1) refl s(2) e] by auto
    obtain c h' where c: "dns_apply env (Some key) (Some key) p (gs_world (dn_gw st)) = (c, h')" "c \<noteq> 200"
      using apply_blocked[OF y] by blast
    with w Some have "\<not> (\<exists>a. r = Inr a)" "gs_world (dn_gw st') = h'" by auto
    moreover have "dh_reloaded h' = dh_reloaded (gs_world (dn_gw st))" by (rule dns_apply_refused[OF c])
    ultimately show ?thesis by (cases r) auto
  qed
  with a show ?thesis by auto
qed

end
