(* ===== verification/Gw_Dns_Ptr.thy ===== *)
theory Gw_Dns_Ptr
  imports Gw_Dns_Records
begin

text \<open>
  Reverse zones and pointer records: the name a pointer record gets inside a reverse zone completes, with the
  name of the zone, to the reverse pointer of its address.
\<close>

section \<open>Labels of a masked address\<close>

lemma div_masked: "k \<le> j \<Longrightarrow> (n div 2 ^ k * 2 ^ k) div 2 ^ j = n div (2::nat) ^ j"
proof -
  assume "k \<le> j"
  then have j: "(2::nat) ^ j = 2 ^ k * 2 ^ (j - k)" by (simp add: power_add[symmetric])
  show ?thesis unfolding j by (simp add: div_mult2_eq)
qed

lemma unat_masked: "unat (w AND NOT (mask k) :: 'a::len word) = unat w div 2 ^ k * 2 ^ k"
proof -
  have w: "w AND NOT (mask k) = push_bit k (drop_bit k w)"
    by (rule bit_word_eqI) (auto simp: bit_simps)
  have "push_bit k (drop_bit k (unat w)) < 2 ^ LENGTH('a)"
    using le_less_trans[OF div_times_less_eq_dividend[of "unat w" "2 ^ k"] unsigned_less[of w]] by (simp add: push_bit_eq_mult drop_bit_eq_div)
  then have "unat (push_bit k (drop_bit k w)) = push_bit k (drop_bit k (unat w))"
    by (simp only: unsigned_push_bit_eq unsigned_drop_bit_eq take_bit_nat_eq_self)
      (simp add: take_bit_nat_eq_self)
  then show ?thesis unfolding w by (simp add: push_bit_eq_mult drop_bit_eq_div)
qed

lemma masked_v4_labels:
  assumes "v AND netmask4 p = w"
  shows "take (p div 8) (v4_labels w) = take (p div 8) (v4_labels v)"
proof -
  have d: "unat w div 2 ^ j = unat v div 2 ^ j" if "32 - p \<le> j" for j
    using div_masked[OF that] unat_masked[of v "32 - p"] assms by (simp add: netmask4_def)
  have "p div 8 = 0 \<or> p div 8 = 1 \<or> p div 8 = 2 \<or> p div 8 = 3 \<or> 32 \<le> p" by linarith
  then consider "p div 8 = 0" | "p div 8 = 1" "8 \<le> p" | "p div 8 = 2" "16 \<le> p" | "p div 8 = 3" "24 \<le> p" | "32 \<le> p" by linarith
  then show ?thesis
    using d[of 24] d[of 16] d[of 8] d[of 0] by cases (simp_all add: v4_labels_def Let_def)
qed

lemma nibbles_length [simp]: "length (nibbles_of k n) = k"
  by (induction k arbitrary: n) simp_all

lemma nibbles_take: "m \<le> k \<Longrightarrow> take m (nibbles_of k n) = nibbles_of m (n div 16 ^ (k - m))"
proof (induction k arbitrary: n)
  case (Suc k)
  show ?case
  proof (cases "m = Suc k")
    case False
    with Suc.prems have "m \<le> k" by simp

    then show ?thesis using Suc.IH[of "n div 16"] by (simp add: div_mult2_eq[symmetric] Suc_diff_le)
  qed simp
qed simp

lemma masked_v6_labels:
  assumes "v AND netmask6 p = w"
  shows "take (p div 4) (v6_labels w) = take (p div 4) (v6_labels v)"
proof (cases "p div 4 \<le> 32")
  case True
  have "(16::nat) ^ (32 - p div 4) = (2 ^ 4) ^ (32 - p div 4)" by simp
  then have e: "(16::nat) ^ (32 - p div 4) = 2 ^ (4 * (32 - p div 4))" by (simp only: power_mult)
  have "128 - p \<le> 4 * (32 - p div 4)" using True by linarith
  then have "unat w div 16 ^ (32 - p div 4) = unat v div 16 ^ (32 - p div 4)"
    using div_masked[of "128 - p" "4 * (32 - p div 4)" "unat v"] unat_masked[of v "128 - p"] assms unfolding e by (simp add: netmask6_def)
  then show ?thesis using True by (simp add: v6_labels_def take_map nibbles_take)
next
  case False
  then have "128 - p = 0" by linarith
  then show ?thesis using assms by (simp add: netmask6_def)
qed

section \<open>Suffixes\<close>

lemma endswith_append [simp]: "endswith (a @ b) b"
  by (simp add: endswith_def startswith_def)

text \<open>A list of labels read backwards is what stands before the zone, a dot, and the zone.\<close>

definition label_ok :: "string \<Rightarrow> bool" where
  "label_ok l \<longleftrightarrow> l \<noteq> [] \<and> CHR ''.'' \<notin> set l \<and> CHR ''@'' \<notin> set l"

lemma join_last: "ws \<noteq> [] \<Longrightarrow> \<forall>w\<in>set ws. label_ok w \<Longrightarrow> join ''.'' ws \<noteq> [] \<and> last (join ''.'' ws) \<noteq> CHR ''.'' \<and> join ''.'' ws \<noteq> ''@''"
proof (induction ws)
  case (Cons w ws)
  show ?case
  proof (cases ws)
    case Nil
    with Cons.prems show ?thesis by (auto simp: label_ok_def dest: last_in_set)
  next
    case (Cons x xs)
    have "join ''.'' ws \<noteq> [] \<and> last (join ''.'' ws) \<noteq> CHR ''.''" using Cons.IH Cons.prems Cons by simp
    moreover have "w \<noteq> []" using Cons.prems by (simp add: label_ok_def)
    ultimately show ?thesis using Cons by (auto simp: join_Cons dest: arg_cong[of _ _ length])
  qed
qed simp

lemma rstrip_one: "x = [] \<or> last x \<noteq> c \<Longrightarrow> rstrip_char c (x @ [c]) = x"
  by (cases x rule: rev_cases) (auto simp: rstrip_char_def)

lemma relative_name:
  assumes "ip_address a = Some ip" "reverse_pointer ip = Some (join ''.'' (rev ls) @ tail_text)" "\<forall>l\<in>set ls. label_ok l" "ls \<noteq> []" "0 < q"
    "tail_text \<noteq> []" "last tail_text \<noteq> CHR ''.''"
  defines "zone \<equiv> join ''.'' (rev (take q ls)) @ tail_text"
  shows "\<exists>name. ptr_name_for_zone a zone = Inr name
     \<and> join ''.'' (rev ls) @ tail_text = (if name = ''@'' then zone else name @ ''.'' @ zone)"
proof (cases "q < length ls")
  case True
  let ?x = "join ''.'' (rev (drop q ls))" and ?t = "join ''.'' (rev (take q ls))"
  have x: "?x \<noteq> [] \<and> last ?x \<noteq> CHR ''.'' \<and> ?x \<noteq> ''@''" using True assms(3) by (intro join_last) (auto dest: in_set_dropD)
  have "rev ls = rev (drop q ls) @ rev (take q ls)" by (simp add: rev_append[symmetric])
  moreover have "rev (take q ls) \<noteq> []" "rev (drop q ls) \<noteq> []" using assms(4,5) True by auto
  ultimately have p: "join ''.'' (rev ls) @ tail_text = (?x @ ''.'') @ zone" by (simp add: join_append zone_def)
  have z: "rstrip_char CHR ''.'' zone = zone" "zone \<noteq> []" using assms(6,7) by (auto simp: zone_def intro: rstrip_char_id)
  have "ptr_name_for_zone a zone = Inr ?x"
    using x rstrip_one[of ?x "CHR ''.''"] endswith_append[of "?x @ ''.''" zone] unfolding ptr_name_for_zone_def assms(1) option.case assms(2) p by (simp add: Let_def z)
  then show ?thesis unfolding p using x by (intro exI[of _ ?x]) simp
next
  case False
  then have p: "join ''.'' (rev ls) @ tail_text = zone" by (simp add: zone_def)
  have z: "rstrip_char CHR ''.'' zone = zone" "zone \<noteq> []" using assms(6,7) by (auto simp: zone_def intro: rstrip_char_id)
  have "ptr_name_for_zone a zone = Inr ''@''"
    using endswith_append[of "[]" zone] rstrip_char_id[of "[]"] unfolding ptr_name_for_zone_def assms(1) option.case assms(2) p
    by (simp add: Let_def z)
  then show ?thesis unfolding p by (intro exI[of _ "''@''"]) simp
qed

end
