(* ===== verification/Gw_Dns_Claims.thy ===== *)
theory Gw_Dns_Claims
  imports Gw_Dns_System Gw_Dns_Ptr Node_Netplan_Props
begin

text \<open>
  Properties of the DNS router over its handlers and runs: rows, serials, system records, pointer names,
  signing keys, record text, and when the agent is called at all.
\<close>

section \<open>Rows and the body\<close>

text \<open>C7: The rows stay well formed: from well-formed tables every run of handler calls and background tasks
  keeps unique keys, keeps every zone, record, DNSSEC key and TSIG key attached to a row that exists, keeps
  the type of a zone one of the four, and never stores a master address.\<close>

theorem dns_rows_invariant: "(dns_step bound send)\<^sup>*\<^sup>* st st' \<Longrightarrow> dns_inv st \<Longrightarrow> dns_inv st'"
  using dns_steps_good by (auto simp: good_change_def)

text \<open>The text a row stands for in a zone file: name, time to live, class and type, and the columns of its type, which for a CAA record are its
  flags and its tag.\<close>

definition row_line :: "dns_record \<Rightarrow> string option" where
  "row_line r = do {
     ttl \<leftarrow> re_ttl r; priority \<leftarrow> re_priority r; weight \<leftarrow> re_weight r; port \<leftarrow> re_port r;
     Some (join '' '' ([re_name r, string_of_int ttl, ''IN'', re_type r]
       @ (if upper (re_type r) = ''MX'' then [string_of_int priority]
          else if upper (re_type r) = ''SRV'' then [string_of_int priority, string_of_int weight, string_of_int port]
          else if upper (re_type r) = ''CAA'' then [or_empty (re_flags r), or_empty (re_tag r)] else [])
       @ [re_content r])) }"

lemma row_line_of: "rr_of r = Some q \<Longrightarrow> row_line r = Some (record_line q) \<longleftrightarrow> upper (re_type r) \<noteq> ''CAA''"
proof -
  assume q: "rr_of r = Some q"
  show ?thesis
  proof (cases "upper (re_type r) = ''CAA''")
    case True
    with q have "row_line r \<noteq> Some (record_line q)"
      by (auto simp: rr_of_def row_line_def record_line_def Let_def split: option.splits bind_splits)
    with True show ?thesis by simp
  next
    case False
    with q show ?thesis by (auto simp: rr_of_def row_line_def record_line_def Let_def split: bind_splits)
  qed
qed

text \<open>C17: The agent's schema reads the body of an apply back as the rows of the enabled servers of the instance, field by
  field, and refuses it exactly when a column the schema needs is null. Nothing that a zone file needs is lost on the way but the flags and the
  tag of CAA records: the line that the agent writes for what it reads of a row is the text of the row exactly if the row is of
  another type.\<close>

theorem dns_payload_roundtrip:
  "read_dns_payload (build_instance_dns_payload st i) = desired_dns st i
   \<and> (\<forall>r q. read_rr (record_payload r) = Some q \<longrightarrow> (row_line r = Some (record_line q) \<longleftrightarrow> upper (re_type r) \<noteq> ''CAA''))"
  using row_line_of by (simp add: read_dns_rows read_record)

definition lab_caa :: dns_record where
  "lab_caa = \<lparr>re_zone = 1, re_name = ''@'', re_type = ''CAA'', re_content = ''ca.example'', re_ttl = Some 60, re_priority = Some 0, re_weight = Some 0,
     re_port = Some 0, re_flags = Some ''0'', re_tag = Some ''issue'', re_system = False, re_comment = None\<rparr>"

theorem dns_payload_roundtrip_witness:
  "row_line lab_caa = Some ''@ 60 IN CAA 0 issue ca.example''
   \<and> (\<exists>q. read_rr (record_payload lab_caa) = Some q \<and> row_line lab_caa \<noteq> Some (record_line q))
   \<and> (\<exists>q. read_rr (record_payload (lab_caa\<lparr>re_type := ''TXT''\<rparr>)) = Some q \<and> row_line (lab_caa\<lparr>re_type := ''TXT''\<rparr>) = Some (record_line q))"
proof -
  have l: "row_line lab_caa = Some ''@ 60 IN CAA 0 issue ca.example''" by code_simp
  have "read_rr (record_payload lab_caa) \<noteq> None" "read_rr (record_payload (lab_caa\<lparr>re_type := ''TXT''\<rparr>)) \<noteq> None"
    "upper (re_type lab_caa) = ''CAA''" "upper (re_type (lab_caa\<lparr>re_type := ''TXT''\<rparr>)) \<noteq> ''CAA''" by code_simp+
  with l conjunct2[OF dns_payload_roundtrip] show ?thesis by blast
qed

section \<open>Serials\<close>

definition real_hour :: "dns_ctx \<Rightarrow> bool" where
  "real_hour x \<longleftrightarrow> 1 \<le> dx_year x \<and> dx_month x \<le> 12 \<and> dx_day x \<le> 31 \<and> dx_hour x \<le> 23"

definition hour_of :: "dns_ctx \<Rightarrow> nat \<times> nat \<times> nat \<times> nat" where
  "hour_of x = (dx_year x, dx_month x, dx_day x, dx_hour x)"

fun hour_before :: "nat \<times> nat \<times> nat \<times> nat \<Rightarrow> nat \<times> nat \<times> nat \<times> nat \<Rightarrow> bool" where
  "hour_before (a, b, c, d) (a', b', c', d') = (a < a' \<or> a = a' \<and> (b < b' \<or> b = b' \<and> (c < c' \<or> c = c' \<and> d < d')))"

lemma two_digits: "b < 100 \<Longrightarrow> b' < 100 \<Longrightarrow> a * 100 + b < a' * 100 + (b'::nat) \<longleftrightarrow> a < a' \<or> a = a' \<and> b < b'"
  by auto

lemma two_digits_eq: "b < 100 \<Longrightarrow> b' < 100 \<Longrightarrow> a * 100 + b = a' * 100 + (b'::nat) \<longleftrightarrow> a = a' \<and> b = b'"
  using two_digits[of b b' a a'] two_digits[of b' b a' a] by auto

lemma serial_order: "real_hour x \<Longrightarrow> real_hour y \<Longrightarrow> serial_from_now x < serial_from_now y \<longleftrightarrow> hour_before (hour_of x) (hour_of y)"
proof -
  assume "real_hour x" "real_hour y"
  then have b: "dx_month x < 100" "dx_month y < 100" "dx_day x < 100" "dx_day y < 100" "dx_hour x < 100" "dx_hour y < 100"
    by (simp_all add: real_hour_def)
  show ?thesis
    unfolding serial_from_now_def of_nat_less_iff hour_of_def hour_before.simps two_digits[OF b(5,6)] two_digits_eq[OF b(3,4)]
      two_digits[OF b(3,4)] two_digits_eq[OF b(1,2)] two_digits[OF b(1,2)]
    by blast
qed

lemma serial_same:
  assumes "real_hour x" "real_hour y"
  shows "serial_from_now x = serial_from_now y \<longleftrightarrow> hour_of x = hour_of y"
proof
  assume e: "serial_from_now x = serial_from_now y"
  have "\<not> hour_before (hour_of x) (hour_of y)" "\<not> hour_before (hour_of y) (hour_of x)"
    using serial_order[OF assms] serial_order[OF assms(2,1)] e by simp_all
  then show "hour_of x = hour_of y" by (auto simp: hour_of_def)
qed (simp add: hour_of_def serial_from_now_def)

lemma serial_bound: "real_hour x \<Longrightarrow> dx_year x \<le> 2147 \<Longrightarrow> 0 < serial_from_now x \<and> serial_from_now x < 2 ^ 31"
  by (simp add: real_hour_def serial_from_now_def)

lemma create_record_effect:
  assumes "create_record x tok k d st = (Inr r, st')"
  obtains z where "row_get (dn_zones st) k = Some z" "row_get (dn_zones st') k = Some (z\<lparr>dn_serial := serial_from_now x\<rparr>)"
    "dn_records st' = dn_records (add_record (new_record k d) st)" "valid_record_create d"
proof -
  obtain z where z: "row_get (dn_zones st) k = Some z" and v: "valid_record_create d"
    and st': "st' = schedule_apply (zone_instance st k) (bump_serial x k (add_record (new_record k d) st))"
    using assms by (auto simp: create_record_def as_admin_def with_row_def store_record_def answered_def split: sum.splits if_splits option.splits)
  have "dn_zones st' = row_set k (z\<lparr>dn_serial := serial_from_now x\<rparr>) (dn_zones st)"
    "dn_records st' = dn_records (add_record (new_record k d) st)"
    using z by (simp_all add: st' bump_serial_def add_record_def set_zone_def)
  with that[OF z] v z show ?thesis by (simp add: rows.get_put)
qed

text \<open>C30: Adding a record sets the serial of its zone to the hour of the call: a 31-bit number that grows with
  time, so a later hour gives a larger serial; but within the hour of the previous change the serial stays
  as it was although the records differ, so no secondary server fetches the change.\<close>

theorem record_change_serial:
  "create_record x tok k d st = (Inr r, st') \<Longrightarrow> row_get (dn_zones st) k = Some z \<Longrightarrow> dn_serial z = serial_from_now y \<Longrightarrow>
   real_hour x \<Longrightarrow> real_hour y \<Longrightarrow> dx_year x \<le> 2147 \<Longrightarrow> table_ok (dn_records st) \<Longrightarrow>
     \<exists>z'. row_get (dn_zones st') k = Some z' \<and> 0 < dn_serial z' \<and> dn_serial z' < 2 ^ 31
       \<and> (dn_serial z < dn_serial z' \<longleftrightarrow> hour_before (hour_of y) (hour_of x))
       \<and> (dn_serial z' = dn_serial z \<longleftrightarrow> hour_of x = hour_of y)
       \<and> records_of st' k = records_of st k @ [(tb_next (dn_records st), new_record k d)]"
proof -
  assume c: "create_record x tok k d st = (Inr r, st')" and z: "row_get (dn_zones st) k = Some z" "dn_serial z = serial_from_now y"
    and h: "real_hour x" "real_hour y" "dx_year x \<le> 2147" and ok: "table_ok (dn_records st)"
  obtain z0 where z0: "row_get (dn_zones st) k = Some z0" "row_get (dn_zones st') k = Some (z0\<lparr>dn_serial := serial_from_now x\<rparr>)"
    "dn_records st' = dn_records (add_record (new_record k d) st)"
    using c by (rule create_record_effect)
  have "records_of st' k = records_of st k @ [(tb_next (dn_records st), new_record k d)]"
    by (simp add: records_of_def z0(3) add_record_def row_add_def rows_where_def new_record_def)
  with z0 z serial_bound[OF h(1,3)] serial_order[OF h(2,1)] serial_same[OF h(1,2)] show ?thesis by auto
qed

section \<open>System records\<close>

lemma soa_record_text: "has_soa z \<Longrightarrow> render_zone_text (z\<lparr>dz_serial := n\<rparr>) b = render_zone_text z b"
  by (simp add: render_zone_text_def zone_parts_def has_soa_def dnssec_lines_def)

lemma those_in: "those (map f xs) = Some ys \<Longrightarrow> x \<in> set xs \<Longrightarrow> f x = Some y \<Longrightarrow> y \<in> set ys"
  using those_member[of f xs ys x] by auto

lemma record_in_zone:
  assumes "dns_inv st" "row_get (dn_records st) j = Some r" "zone_of st (re_zone r, z) = Some y" "rr_of r = Some p"
  shows "p \<in> set (dz_records y)"
proof -
  have ok: "table_ok (dn_records st)" using assms(1) by (simp add: dns_inv_def)
  have "(j, r) \<in> set (rows_where (\<lambda>q. re_zone q = re_zone r) (dn_records st))" using rows_where_get[OF ok] assms(2) by simp
  moreover have "those (map (rr_of \<circ> snd) (rows_where (\<lambda>q. re_zone q = re_zone r) (dn_records st))) = Some (dz_records y)"
    using assms(3) by (auto simp: zone_of_def split: bind_splits)
  ultimately show ?thesis using those_in assms(4) by fastforce
qed

lemma reverse_zone_effect:
  assumes "create_reverse_zone x tok k q st = (Inr v, st')" "dns_inv st"
  obtains j where "row_get (dn_records st') j = Some (system_record (zv_id v) ''SOA'' (soa_content q (zv_row v)) 86400)"
proof -
  obtain u n st1 w where s: "store_zone x u k (reverse_zone q n) st = (Inr w, st1)"
    and st': "st' = add_record (system_record (zv_id w) ''SOA'' (soa_content q (zv_row w)) 86400) st1" "zv_id w = zv_id v" "zv_row w = zv_row v"
    using assms(1)
    by (auto simp: create_reverse_zone_def as_admin_def zone_response_def Let_def split: sum.splits option.splits prod.splits if_splits)
  have "good_change st st1" using store_zone_facts[of st x u k "reverse_zone q n"] assms(2) s by (simp add: dns_inv_def)
  then have ok: "table_ok (dn_records st1)" using assms(2) by (simp add: good_change_def dns_inv_def)
  obtain j t' where a: "row_add (system_record (zv_id v) ''SOA'' (soa_content q (zv_row v)) 86400) (dn_records st1) = (j, t')"
    by (cases "row_add (system_record (zv_id v) ''SOA'' (soa_content q (zv_row v)) 86400) (dn_records st1)")
  have "row_get (dn_records st') j = Some (system_record (zv_id v) ''SOA'' (soa_content q (zv_row v)) 86400)"
    using rows.get_add[OF ok a, of j] a st' by (simp add: add_record_def)
  with that show ?thesis .
qed

text \<open>The start-of-authority record that comes with a reverse zone is a system record: no later call can
  change or remove it while its zone exists. So the zone file carries the serial of the day the zone was
  created, whatever the serial of the row is by then, and changes never reach a secondary server.\<close>

theorem reverse_zone_serial_frozen:
  "create_reverse_zone x tok k q st = (Inr v, st1) \<Longrightarrow> dns_inv st \<Longrightarrow> (dns_step bound send)\<^sup>*\<^sup>* st1 st2 \<Longrightarrow>
   row_get (dn_zones st2) (zv_id v) = Some z \<Longrightarrow> zone_of st2 (zv_id v, z) = Some y \<Longrightarrow>
     \<lparr>dr_name = ''@'', dr_type = ''SOA'', dr_content = soa_content q (zv_row v), dr_ttl = 86400, dr_priority = 0, dr_weight = 0, dr_port = 0\<rparr>
       \<in> set (dz_records y)
     \<and> (\<forall>n b. render_zone_text (y\<lparr>dz_serial := n\<rparr>) b = render_zone_text y b)"
proof -
  assume c: "create_reverse_zone x tok k q st = (Inr v, st1)" and i0: "dns_inv st" and run: "(dns_step bound send)\<^sup>*\<^sup>* st1 st2"
    and z: "row_get (dn_zones st2) (zv_id v) = Some z" and y: "zone_of st2 (zv_id v, z) = Some y"
  let ?r = "system_record (zv_id v) ''SOA'' (soa_content q (zv_row v)) 86400"
  let ?p = "\<lparr>dr_name = ''@'', dr_type = ''SOA'', dr_content = soa_content q (zv_row v), dr_ttl = 86400, dr_priority = 0, dr_weight = 0, dr_port = 0\<rparr>"
  obtain j where j: "row_get (dn_records st1) j = Some ?r" using c i0 by (rule reverse_zone_effect)
  have i1: "dns_inv st1" using reverse_zone_good[of st x tok k q] c i0 by (simp add: good_change_def)
  with dns_steps_good[OF run] have i2: "dns_inv st2" and kept: "system_kept st1 st2" by (simp_all add: good_change_def)
  have "re_system ?r" "re_zone ?r = zv_id v" by (simp_all add: system_record_def)
  with kept j z have "row_get (dn_records st2) j = Some ?r" unfolding system_kept_def by fastforce
  from record_in_zone[OF i2 this, of z y ?p] y have p: "?p \<in> set (dz_records y)"
    by (simp add: system_record_def rr_of_def)
  moreover have "upper ''SOA'' = ''SOA''" by code_simp
  ultimately have "has_soa y" by (auto simp: has_soa_def list_ex_iff intro!: bexI[of _ ?p])
  with p soa_record_text show ?thesis by blast
qed

section \<open>Pointer names\<close>

fun net_len :: "ip_net \<Rightarrow> nat" where
  "net_len (Net4 w p) = p"
| "net_len (Net6 w s p) = p"

lemma v4_labels_ok: "\<forall>l\<in>set (v4_labels w). label_ok l"
  by (auto simp: v4_labels_def Let_def label_ok_def dest: string_of_nat_digits simp: is_digit_def char_between_def)

lemma nibbles_hex: "c \<in> set (nibbles_of k n) \<Longrightarrow> is_hexdigit c"
  by (induction k arbitrary: n) (auto intro: hex_char_hexdigit)

lemma v6_labels_ok: "\<forall>l\<in>set (v6_labels w). label_ok l"
  by (auto simp: v6_labels_def label_ok_def is_hexdigit_def is_digit_def char_between_def dest!: nibbles_hex)

text \<open>C29: An address inside the network a reverse zone was made for gets a name in that zone, and the name
  completed with the zone is exactly the reverse pointer of the address, for IPv4 and IPv6 and every
  prefix length but zero.\<close>

theorem ptr_names_address:
  "reverse_zone_name n = Some (Some (dn_name z)) \<Longrightarrow> ip_network False n = Some net \<Longrightarrow> net_len net \<noteq> 0 \<Longrightarrow> dn_network z = Some n \<Longrightarrow>
   in_reverse_network z a = Some True \<Longrightarrow> ip_address a = Some ip \<Longrightarrow> reverse_pointer ip = Some pointer \<Longrightarrow>
     \<exists>name. ptr_name_for_zone a (dn_name z) = Inr name \<and> pointer = (if name = ''@'' then dn_name z else name @ ''.'' @ dn_name z)"
proof -
  assume zn: "reverse_zone_name n = Some (Some (dn_name z))" and net: "ip_network False n = Some net" and len: "net_len net \<noteq> 0"
    and nz: "dn_network z = Some n" and inside: "in_reverse_network z a = Some True" and ip: "ip_address a = Some ip"
    and pointer: "reverse_pointer ip = Some pointer"
  have "ip_network False [] = None" by code_simp
  then have "n \<noteq> []" using net by auto
  then have m: "ip_in ip net" using inside nz ip net by (simp add: in_reverse_network_def truthy_str_def or_empty_def)
  have tails: "''.in-addr.arpa'' \<noteq> []" "last ''.in-addr.arpa'' \<noteq> CHR ''.''" "''.ip6.arpa'' \<noteq> []" "last ''.ip6.arpa'' \<noteq> CHR ''.''" by simp_all
  show ?thesis
  proof (cases net)
    case (Net4 w p)
    then obtain v where v: "ip = IPv4 v" "v AND netmask4 p = w" using m by (cases ip) auto
    have p8: "p mod 8 = 0" and name: "dn_name z = join ''.'' (rev (take (p div 8) (v4_labels v))) @ ''.in-addr.arpa''"
      using zn net Net4 masked_v4_labels[OF v(2)] by (auto simp: reverse_zone_name_def split: if_splits)
    have q: "0 < p div 8" using p8 len Net4 by auto
    have ne: "v4_labels v \<noteq> []" by (simp add: v4_labels_def Let_def)
    have ptr: "reverse_pointer ip = Some (join ''.'' (rev (v4_labels v)) @ ''.in-addr.arpa'')" by (simp add: v(1) reverse_pointer_def)
    then have pe: "pointer = join ''.'' (rev (v4_labels v)) @ ''.in-addr.arpa''" using pointer by simp
    show ?thesis unfolding name pe by (rule relative_name[OF ip ptr v4_labels_ok ne q tails(1,2)])
  next
    case (Net6 w sc p)
    then obtain v sc' where v: "ip = IPv6 v sc'" "v AND netmask6 p = w" using m by (cases ip) auto
    have p4: "p mod 4 = 0" and name: "dn_name z = join ''.'' (rev (take (p div 4) (v6_labels v))) @ ''.ip6.arpa''"
      using zn net Net6 masked_v6_labels[OF v(2)] by (auto simp: reverse_zone_name_def split: if_splits)
    have q: "0 < p div 4" using p4 len Net6 by auto
    have ne: "v6_labels v \<noteq> []" by (simp add: v6_labels_def length_0_conv[symmetric] del: length_0_conv)
    have ptr: "reverse_pointer ip = Some (join ''.'' (rev (v6_labels v)) @ ''.ip6.arpa'')"
      and pe: "pointer = join ''.'' (rev (v6_labels v)) @ ''.ip6.arpa''"
      using pointer v(1) by (auto simp: reverse_pointer_def split: if_splits)
    show ?thesis unfolding name pe by (rule relative_name[OF ip ptr v6_labels_ok ne q tails(3,4)])
  qed
qed

section \<open>Signing keys\<close>

definition active_keys :: "'w dns_state \<Rightarrow> nat \<Rightarrow> dnssec_key list" where
  "active_keys st k = filter dy_active (map snd (rows_where (\<lambda>y. dy_zone y = k) (dn_keys st)))"

lemma retired_key:
  "dy_zone (if c then y\<lparr>dy_active := False, dy_rotated := True\<rparr> else y) = dy_zone y"
  "dy_active (if dy_active y \<and> p then y\<lparr>dy_active := False, dy_rotated := True\<rparr> else y) = (dy_active y \<and> \<not> p)"
  by auto

lemma rows_where_retire: "rows_where (\<lambda>y. dy_zone y = k) (retire q t)
    = map (\<lambda>(j, y). (j, if dy_active y \<and> q y then y\<lparr>dy_active := False, dy_rotated := True\<rparr> else y)) (rows_where (\<lambda>y. dy_zone y = k) t)"
proof -
  have "filter (\<lambda>e. dy_zone (snd e) = k) (map (\<lambda>(j, y). (j, if dy_active y \<and> q y then y\<lparr>dy_active := False, dy_rotated := True\<rparr> else y)) xs)
      = map (\<lambda>(j, y). (j, if dy_active y \<and> q y then y\<lparr>dy_active := False, dy_rotated := True\<rparr> else y)) (filter (\<lambda>e. dy_zone (snd e) = k) xs)"
    for xs :: "(nat \<times> dnssec_key) list"
    by (induction xs) (auto simp: retired_key)
  then show ?thesis by (simp add: rows_where_def retire_def)
qed

lemma active_retired: "active_keys (st\<lparr>dn_keys := retire q (dn_keys st)\<rparr>) k = filter (\<lambda>y. \<not> q y) (active_keys st k)"
proof -
  have "filter dy_active (map snd (map (\<lambda>(j, y). (j, if dy_active y \<and> q y then y\<lparr>dy_active := False, dy_rotated := True\<rparr> else y)) xs))
      = filter (\<lambda>y. \<not> q y) (filter dy_active (map snd xs))" for xs :: "(nat \<times> dnssec_key) list"
  proof (induction xs)
    case (Cons e xs)
    then show ?case by (cases e; cases "q (snd e)"; cases "dy_active (snd e)") auto
  qed simp
  then show ?thesis by (simp add: active_keys_def rows_where_retire)
qed

lemma active_added_key [simp]: "active_keys (add_key y st) k = active_keys st k @ (if dy_zone y = k \<and> dy_active y then [y] else [])"
  by (simp add: active_keys_def add_key_def row_add_def rows_where_def)

lemma active_frame [simp]: "active_keys (set_zone j z st) k = active_keys st k" "active_keys (schedule_apply i st) k = active_keys st k"
  "active_keys (log_dns u a ty r i' n st) k = active_keys st k"
  by (simp_all add: active_keys_def set_zone_def schedule_apply_def log_dns_def dns_on_gw_def split: option.split)

lemma new_key_active [simp]: "dy_active (new_key x k z ty a n)" by (simp add: new_key_def Let_def)

lemma active_zone: "y \<in> set (active_keys st k) \<Longrightarrow> dy_zone y = k"
  by (auto simp: active_keys_def rows_where_def)

lemma retired_others: "k' \<noteq> k \<Longrightarrow> filter (\<lambda>y. \<not> (dy_zone y = k \<and> P y)) (active_keys st k') = active_keys st k'"
  by (rule filter_True) (auto dest: active_zone)

lemma retired_own: "filter (\<lambda>y. \<not> (dy_zone y = k \<and> P y)) (active_keys st k) = filter (\<lambda>y. \<not> P y) (active_keys st k)"
  by (rule filter_cong) (auto dest: active_zone)

text \<open>A rollover retires exactly the active keys of its type in its zone and puts one new key of that type
  in their place; keys of the other type and keys of other zones stay active.\<close>

theorem rollover_replaces_one_type:
  "dnssec_rollover x tok k d st = (Inr (j, y), st') \<Longrightarrow>
     active_keys st' k = filter (\<lambda>q. dy_type q \<noteq> ro_type d) (active_keys st k) @ [y] \<and> dy_type y = ro_type d \<and> dy_zone y = k
     \<and> (\<forall>k'. k' \<noteq> k \<longrightarrow> active_keys st' k' = active_keys st k')"
proof -
  assume "dnssec_rollover x tok k d st = (Inr (j, y), st')"
  then obtain z where y: "y = new_key x k z (ro_type d) (ro_algorithm d) (ro_size d)"
    and st': "\<And>k'. active_keys st' k' = active_keys (add_key y (st\<lparr>dn_keys := retire (\<lambda>q. dy_zone q = k \<and> dy_type q = ro_type d) (dn_keys st)\<rparr>)) k'"
    by (auto simp: dnssec_rollover_def as_admin_def with_row_def Let_def split: sum.splits if_splits option.splits)
  have own: "filter (\<lambda>q. \<not> (dy_zone q = k \<and> dy_type q = ro_type d)) (active_keys st k) = filter (\<lambda>q. dy_type q \<noteq> ro_type d) (active_keys st k)"
    using retired_own[of k "\<lambda>q. dy_type q = ro_type d" st] by simp
  have "dy_type y = ro_type d" by (simp add: y new_key_def Let_def)
  moreover have "active_keys st' k' = active_keys st k'" if "k' \<noteq> k" for k'
    using retired_others[OF that, of "\<lambda>q. dy_type q = ro_type d" st] that by (simp add: st' active_retired y)
  ultimately show ?thesis using own by (simp add: st' active_retired y)
qed

text \<open>Signing a zone leaves it with exactly two active keys, a new key-signing key and a new zone-signing
  key, and leaves the keys of other zones alone; the zone is marked signed and carries the new key's
  delegation record.\<close>

theorem signing_leaves_two_keys:
  "sign_zone x tok k st = (Inr j, st') \<Longrightarrow>
     (\<exists>z. row_get (dn_zones st) k = Some z
       \<and> active_keys st' k = [new_key x k z ''KSK'' (dn_algorithm z) (dn_ksk z), new_key x k z ''ZSK'' (dn_algorithm z) (dn_zsk z)]
       \<and> row_get (dn_zones st') k = Some (z\<lparr>dn_dnssec := Some True, dn_ds := dy_ds (new_key x k z ''KSK'' (dn_algorithm z) (dn_ksk z)),
           dn_serial := serial_from_now x\<rparr>))
     \<and> (\<forall>k'. k' \<noteq> k \<longrightarrow> active_keys st' k' = active_keys st k')"
proof -
  assume "sign_zone x tok k st = (Inr j, st')"
  then obtain z u a b c i n m where z: "row_get (dn_zones st) k = Some z"
    and st': "st' = log_dns u a b c i n (schedule_apply m (set_zone k (z\<lparr>dn_dnssec := Some True,
        dn_ds := dy_ds (new_key x k z ''KSK'' (dn_algorithm z) (dn_ksk z)), dn_serial := serial_from_now x\<rparr>)
      (add_key (new_key x k z ''ZSK'' (dn_algorithm z) (dn_zsk z)) (add_key (new_key x k z ''KSK'' (dn_algorithm z) (dn_ksk z))
        (st\<lparr>dn_keys := retire (\<lambda>y. dy_zone y = k) (dn_keys st)\<rparr>)))))"
    by (auto simp: sign_zone_def as_admin_def with_row_def Let_def split: sum.splits option.splits)
  have zs: "dn_zones st' = row_set k (z\<lparr>dn_dnssec := Some True, dn_ds := dy_ds (new_key x k z ''KSK'' (dn_algorithm z) (dn_ksk z)),
      dn_serial := serial_from_now x\<rparr>) (dn_zones st)"
    by (simp add: st' set_zone_def)
  have own: "filter (\<lambda>y. dy_zone y \<noteq> k) (active_keys st k) = []" by (auto simp: filter_empty_conv dest: active_zone)
  have others: "filter (\<lambda>y. dy_zone y \<noteq> k) (active_keys st k') = active_keys st k'" if "k' \<noteq> k" for k'
    using retired_others[OF that, of "\<lambda>_. True" st] by simp
  have "row_get (dn_zones st') k = Some (z\<lparr>dn_dnssec := Some True, dn_ds := dy_ds (new_key x k z ''KSK'' (dn_algorithm z) (dn_ksk z)),
      dn_serial := serial_from_now x\<rparr>)"
    using z by (simp add: zs rows.get_put)
  then show ?thesis using z own others by (auto simp: st' active_retired)
qed

section \<open>Text of records\<close>

lemma injected_line:
  assumes "p \<in> set (dz_records y)" "dr_content p = a @ nl @ l" "newline \<notin> set l"
  shows "l \<in> set (split_on newline (render_zone_text y b))"
proof -
  have "suffix (dr_content p) (record_line p)"
    by (simp add: record_line_def Let_def suffix_appendI suffix_ConsI)
  then obtain pre where line: "record_line p = pre @ newline # l"
    using assms(2) by (auto simp: suffix_def)
  have "record_line p \<in> set (zone_parts y b)" using assms(1) by (simp add: zone_parts_def)
  then obtain us vs where parts: "zone_parts y b = us @ record_line p # vs" by (meson split_list)
  have "render_zone_text y b = concat (map (\<lambda>l. l @ nl) (zone_parts y b))"
    using join_nl_concat[of "zone_parts y b"] by (simp add: render_zone_text_def zone_parts_def)
  then have "render_zone_text y b = (concat (map (\<lambda>l. l @ nl) us) @ pre) @ newline # (l @ newline # concat (map (\<lambda>l. l @ nl) vs))"
    by (simp add: parts line)
  then show ?thesis using assms(3) by (simp add: split_on_glue del: append_assoc)
qed

text \<open>The content of a record goes into the zone file as it is. A content with a line break is accepted, and
  what follows the break is a line of its own in the file BIND reads, a directive such as an include among
  others.\<close>

theorem record_injects_line:
  "create_record x tok k d st = (Inr r, st') \<Longrightarrow> dns_inv st \<Longrightarrow> rrc_content d = a @ nl @ l \<Longrightarrow> newline \<notin> set l \<Longrightarrow>
   row_get (dn_zones st') k = Some z \<Longrightarrow> zone_of st' (k, z) = Some y \<Longrightarrow>
     l \<in> set (split_on newline (render_zone_text y b))"
proof -
  assume c: "create_record x tok k d st = (Inr r, st')" and inv: "dns_inv st" and content: "rrc_content d = a @ nl @ l" and l: "newline \<notin> set l"
    and y: "zone_of st' (k, z) = Some y"
  obtain z0 where recs: "dn_records st' = dn_records (add_record (new_record k d) st)" using c by (rule create_record_effect)
  have inv': "dns_inv st'" using record_creations_good(1)[of st x tok k d] c inv by (simp add: good_change_def)
  obtain j t' where add: "row_add (new_record k d) (dn_records st) = (j, t')" by (cases "row_add (new_record k d) (dn_records st)")
  have "table_ok (dn_records st)" using inv by (simp add: dns_inv_def)
  from rows.get_add[OF this add, of j] have "row_get (dn_records st') j = Some (new_record k d)" by (simp add: recs add_record_def add)
  from record_in_zone[OF inv' this, of z y] y obtain p where "p \<in> set (dz_records y)" "dr_content p = a @ nl @ l"
    by (force simp: new_record_def rr_of_def content)
  then show ?thesis using l by (rule injected_line)
qed

section \<open>When the agent is called\<close>

definition world_of :: "'w dns_state \<Rightarrow> 'w" where
  "world_of st = gs_world (dn_gw st)"

lemma world_frame [simp]:
  "world_of (schedule_apply i st) = world_of st" "world_of (log_dns u a ty k j n st) = world_of st" "world_of (set_zone k z st) = world_of st"
  "world_of (add_record r st) = world_of st" "world_of (add_key y st) = world_of st" "world_of (bump_serial x k st) = world_of st"
  "world_of (drop_zones p st) = world_of st" "world_of (set_server_status k s st) = world_of st"
  "world_of (st\<lparr>dn_servers := ts\<rparr>) = world_of st" "world_of (st\<lparr>dn_zones := tz\<rparr>) = world_of st"
  "world_of (st\<lparr>dn_records := tr\<rparr>) = world_of st" "world_of (st\<lparr>dn_tsigs := tt\<rparr>) = world_of st"
  "world_of (st\<lparr>dn_keys := tk\<rparr>) = world_of st" "world_of (st\<lparr>dn_tasks := tq\<rparr>) = world_of st"
  by (simp_all add: world_of_def schedule_apply_def log_dns_def dns_on_gw_def set_db_def set_zone_def add_record_def add_key_def
      bump_serial_def drop_zones_def set_server_status_def split: option.split)

lemma world_answered [simp]: "world_of (snd (answered r i st)) = world_of st"
  by (simp add: answered_def split: sum.split)

lemma world_admin: "(\<And>u. world_of (snd (f u)) = world_of st) \<Longrightarrow> world_of (snd (as_admin tok st f)) = world_of st"
  by (simp add: as_admin_def split: sum.splits)

lemma world_row: "(\<And>r. world_of (snd (f r)) = world_of st) \<Longrightarrow> world_of (snd (with_row t k st f)) = world_of st"
  by (simp add: with_row_def split: option.splits)

lemma world_fold [simp]: "world_of (fold add_record rs st) = world_of st"
  by (induction rs arbitrary: st) simp_all

lemma world_store_zone [simp]: "world_of (snd (store_zone x u k d st)) = world_of st"
  by (simp add: store_zone_def with_row_def Let_def split: option.split prod.split)

lemmas world_calls = create_dns_server_def update_dns_server_def delete_dns_server_def create_zone_def update_zone_def delete_zone_def
  sign_zone_def unsign_zone_def dnssec_rollover_def create_record_def bulk_import_records_def create_ptr_record_def update_record_def
  delete_record_def create_tsig_key_def rotate_tsig_key_def delete_tsig_key_def

lemma world_reverse: "world_of (snd (create_reverse_zone x tok k q st)) = world_of st"
  unfolding create_reverse_zone_def
proof (rule world_admin)
  fix u
  have "world_of (snd (case store_zone x u k (reverse_zone q n) st of (Inl c, st1) \<Rightarrow> (Inl c, st1)
      | (Inr v, st1) \<Rightarrow> (let st2 = add_record (system_record (zv_id v) ''SOA'' (soa_content q (zv_row v)) 86400) st1 in
           (zone_response (zv_id v) (zv_row v) (length (records_of st2 (zv_id v))), st2)))) = world_of st" for n
    using world_store_zone[of x u k "reverse_zone q n" st] by (auto simp: Let_def split: prod.splits sum.splits simp del: world_store_zone)
  then show "world_of (snd (case reverse_zone_name (rv_network q) of None \<Rightarrow> (Inl 500, st) | Some None \<Rightarrow> (Inl 400, st)
      | Some (Some n) \<Rightarrow> (case store_zone x u k (reverse_zone q n) st of (Inl c, st1) \<Rightarrow> (Inl c, st1)
          | (Inr v, st1) \<Rightarrow> (let st2 = add_record (system_record (zv_id v) ''SOA'' (soa_content q (zv_row v)) 86400) st1 in
               (zone_response (zv_id v) (zv_row v) (length (records_of st2 (zv_id v))), st2))))) = world_of st"
    by (simp split: option.split)
qed

lemma world_handle: "(\<forall>k a. c \<noteq> Server_Action k a) \<Longrightarrow> world_of (dns_handle x send tok c st) = world_of st"
  by (cases c) (auto simp: dns_handle_def world_calls world_reverse Let_def store_record_def
      split: option.split prod.split sum.split bool.split intro!: world_admin world_row)

lemma world_action: "a \<notin> {''apply'', ''reload''} \<Longrightarrow> world_of (snd (dns_server_action send tok k a st)) = world_of st"
  by (auto simp: dns_server_action_def Let_def intro!: world_admin world_row)

text \<open>When the background tasks have no database session (the case that arises from the import order of the
  gateway), nothing but an administrator's apply or reload ever reaches the DNS agent: a step that changes
  the agent's host is such a call. All other changes of zones and records stay in the database.\<close>

theorem only_actions_reach_the_agent:
  "dns_step False send st st' \<Longrightarrow> gs_world (dn_gw st') \<noteq> gs_world (dn_gw st) \<Longrightarrow>
     \<exists>x tok k a u. st' = dns_handle x send tok (Server_Action k a) st \<and> a \<in> {''apply'', ''reload''} \<and> require_admin tok = Inr u"
proof -
  assume s: "dns_step False send st st'" and w: "gs_world (dn_gw st') \<noteq> gs_world (dn_gw st)"
  have w': "world_of st' \<noteq> world_of st" using w by (simp add: world_of_def)
  from s show ?thesis
  proof (cases rule: dns_step.cases)
    case (handle x tok c)
    with handle w' world_handle[of c x send tok st] obtain k a where c: "c = Server_Action k a" by auto
    with handle w' have eff: "world_of (snd (dns_server_action send tok k a st)) \<noteq> world_of st" by (simp add: dns_handle_def)
    then have "a \<in> {''apply'', ''reload''}" using world_action by blast
    moreover obtain u where "require_admin tok = Inr u"
      using eff by (cases "require_admin tok") (auto simp: dns_server_action_def as_admin_def)
    ultimately show ?thesis using handle c by blast
  next
    case (run ts i ts')
    with w' show ?thesis by (simp add: apply_dns_config_task_def)
  qed
qed

end
