(* ===== verification/Gw_Dns_Lab.thy ===== *)
theory Gw_Dns_Lab
  imports Gw_Dns_Claims
begin

text \<open>
  A concrete DNS server with one zone, its agent and its calls, at which the properties of the DNS router are applied.
\<close>

section \<open>A server and its host\<close>

definition lab_hour :: dns_ctx where
  "lab_hour = \<lparr>dx_year = 2026, dx_month = 3, dx_day = 9, dx_hour = 14, dx_secret = (\<lambda>a. ''c2VjcmV0''), dx_tag = (\<lambda>z t n. 4711),
     dx_blob = (\<lambda>z t a. ''blob''), dx_digest = (\<lambda>l. ''ABCD'')\<rparr>"

definition lab_dns_server :: dns_server where
  "lab_dns_server = new_dns_server 1 \<lparr>dsc_name = ''ns1.example.org'', dsc_description = None, dsc_enabled = True, dsc_listen = [''0.0.0.0''],
     dsc_port = 53, dsc_recursive = False, dsc_authoritative = True, dsc_forwarders = [], dsc_query = [''any''], dsc_transfer = [''127.0.0.1''],
     dsc_notify = [], dsc_dnssec = False\<rparr>"

definition lab_zone :: "zone_kind \<Rightarrow> dns_zone" where
  "lab_zone t = new_zone lab_hour 1 \<lparr>zc_name = ''example.org'', zc_description = None, zc_kind = t, zc_reverse = False, zc_network = None,
     zc_refresh = 3600, zc_retry = 1800, zc_expire = 604800, zc_minimum = 86400, zc_enabled = True, zc_dnssec = False\<rparr>"

definition lab_dns :: "zone_kind \<Rightarrow> 'w \<Rightarrow> 'w dns_state" where
  "lab_dns t w = \<lparr>dn_gw = lab_gw w, dn_servers = \<lparr>tb_rows = [(1, lab_dns_server)], tb_next = 2\<rparr>,
     dn_zones = \<lparr>tb_rows = [(1, lab_zone t)], tb_next = 2\<rparr>, dn_records = empty_table, dn_tsigs = empty_table, dn_keys = empty_table,
     dn_slaves = empty_table, dn_tasks = []\<rparr>"

definition lab_dns_host :: dns_host where
  "lab_dns_host = \<lparr>dh_zones = (\<lambda>p. None), dh_options = None, dh_local = None, dh_reloaded = None\<rparr>"

definition lab_dns_env :: dns_env where
  "lab_dns_env = \<lparr>de_zones_dir = ''/z'', de_options_path = ''/o'', de_local_path = ''/l'', de_commands = True, de_write_ok = (\<lambda>p. True),
     de_signature = (\<lambda>t. ''s''), de_rndc = (\<lambda>h. Rndc_Exit 0)\<rparr>"

definition lab_dns_agent :: "dns_host sender" where
  "lab_dns_agent = dns_agent lab_dns_env (\<lambda>url. Http_Status 404 []) ''k'' ''http://agent''"

lemma lab_zone_ok: "zone_ok (lab_zone t)" by (simp add: lab_zone_def new_zone_ok)

lemma lab_dns_inv: "dns_inv (lab_dns t w)"
  using lab_zone_ok[of t]
  by (auto simp: lab_dns_def dns_inv_def table_ok_def points_to_def rows_all_def row_get_def empty_table_def)
    (auto simp: lab_zone_def new_zone_def)

lemma lab_dns_at: "dns_at (lab_dns t w) 1 ''http://agent'' ''k''"
proof -
  have "rstrip_char CHR ''/'' ''http://agent'' = ''http://agent''" by code_simp
  then show ?thesis
    by (simp add: dns_at_def lab_dns_def lab_gw_def lab_db_def row_get_def key_of_instance_def get_instance_endpoint_def lab_instance_def
        truthy_str_def del: One_nat_def)
qed

lemma lab_dns_ready: "(case desired_dns (lab_dns Zone_Master lab_dns_host) 1 of None \<Rightarrow> False
    | Some p \<Rightarrow> fst (dns_apply lab_dns_env (Some ''k'') (Some ''k'') p lab_dns_host) = 200)"
  by code_simp

section \<open>The properties applied\<close>

lemma lab_applies: "\<exists>r st'. apply_dns_config lab_dns_agent 1 None (lab_dns Zone_Master lab_dns_host) = (Inr r, st')"
proof -
  obtain r st' where a: "apply_dns_config lab_dns_agent 1 None (lab_dns Zone_Master lab_dns_host) = (r, st')"
    by (cases "apply_dns_config lab_dns_agent 1 None (lab_dns Zone_Master lab_dns_host)")
  have w: "gs_world (dn_gw (lab_dns Zone_Master lab_dns_host)) = lab_dns_host" by (simp add: lab_dns_def lab_gw_def)
  obtain p where "desired_dns (lab_dns Zone_Master lab_dns_host) 1 = Some p" "fst (dns_apply lab_dns_env (Some ''k'') (Some ''k'') p lab_dns_host) = 200"
    using lab_dns_ready by (auto split: option.splits)
  with apply_dns_world[OF lab_dns_at a[unfolded lab_dns_agent_def]] w have "\<exists>a. r = Inr a" by (auto simp: prod_eq_iff)
  with a show ?thesis by auto
qed

theorem applied_dns_is_loaded_witness:
  "\<exists>r st'. apply_dns_config lab_dns_agent 1 None (lab_dns Zone_Master lab_dns_host) = (Inr r, st')
     \<and> (\<exists>p blocks h. desired_dns (lab_dns Zone_Master lab_dns_host) 1 = Some p \<and> blocks_of lab_dns_env p (dp_zones p) = Some blocks
        \<and> h = gs_world (dn_gw st') \<and> dh_reloaded h = Some (dh_zones h, Some (render_options_text p), Some (render_local_text p blocks))
        \<and> (\<forall>z\<in>set (dp_zones p). zone_written lab_dns_env (dh_zones h) z))"
proof -
  obtain r st' where a: "apply_dns_config lab_dns_agent 1 None (lab_dns Zone_Master lab_dns_host) = (Inr r, st')" using lab_applies by blast
  have "de_commands lab_dns_env" by (simp add: lab_dns_env_def)
  with applied_dns_is_loaded[OF a[unfolded lab_dns_agent_def] lab_dns_at lab_dns_inv] a show ?thesis by fastforce
qed

lemma lab_dns_rows: "row_get (dn_zones (lab_dns t w)) 1 = Some (lab_zone t)" "row_get (dn_servers (lab_dns t w)) 1 = Some lab_dns_server"
  "dn_server (lab_zone t) = 1" "dn_enabled (lab_zone t) = Some True" "dn_type (lab_zone Zone_Slave) = ''slave''"
  "ds_enabled lab_dns_server = Some True" "ds_instance lab_dns_server = 1"
  by (simp_all add: lab_dns_def row_get_def lab_zone_def new_zone_def lab_dns_server_def new_dns_server_def zone_kind_text_def)

theorem slave_zone_blocks_apply_witness:
  "\<exists>e st'. apply_dns_config lab_dns_agent 1 None (lab_dns Zone_Slave lab_dns_host) = (Inl e, st') \<and> dh_reloaded (gs_world (dn_gw st')) = None"
proof -
  let ?st = "lab_dns Zone_Slave lab_dns_host"
  have run: "(dns_step False lab_dns_agent)\<^sup>*\<^sup>* ?st ?st" by simp
  have s: "row_get (dn_servers ?st) (dn_server (lab_zone Zone_Slave)) = Some lab_dns_server" by (simp add: lab_dns_rows del: One_nat_def)
  have at: "dns_at ?st (ds_instance lab_dns_server) ''http://agent'' ''k''" using lab_dns_at by (simp add: lab_dns_rows)
  have w: "dh_reloaded (gs_world (dn_gw ?st)) = None" by (simp add: lab_dns_def lab_gw_def lab_dns_host_def)
  from slave_zone_blocks_apply[OF run lab_dns_inv lab_dns_rows(1) s lab_dns_rows(6,4,5) at, of lab_dns_env "\<lambda>url. Http_Status 404 []" None]
  show ?thesis unfolding w lab_dns_rows(7) lab_dns_agent_def .
qed

definition lab_record :: record_create where
  "lab_record = \<lparr>rrc_name = ''www'', rrc_kind = R_TXT, rrc_content = dquote # ''v'' @ [dquote] @ nl @ ''$INCLUDE /etc/bind/rndc.key'', rrc_ttl = 60,
     rrc_priority = 0, rrc_weight = 0, rrc_port = 0, rrc_flags = ''0'', rrc_tag = None, rrc_comment = None\<rparr>"

definition lab_later :: dns_ctx where
  "lab_later = lab_hour\<lparr>dx_hour := 15\<rparr>"

lemma lab_record_created: "\<exists>r st'. create_record lab_later lab_admin 1 lab_record (lab_dns Zone_Master w) = (Inr r, st')"
proof -
  have "valid_record_create lab_record" "record_ok (new_record 1 lab_record)" by code_simp+
  then show ?thesis
    by (simp add: create_record_def as_admin_def lab_admin_ok with_row_def lab_dns_rows store_record_def record_response_def answered_def del: One_nat_def)
qed

theorem dns_rows_invariant_witness:
  "dns_inv (dns_handle lab_later lab_dns_agent lab_admin (New_Record 1 lab_record) (lab_dns Zone_Master lab_dns_host))"
proof -
  have "(dns_step True lab_dns_agent)\<^sup>*\<^sup>* (lab_dns Zone_Master lab_dns_host)
      (dns_handle lab_later lab_dns_agent lab_admin (New_Record 1 lab_record) (lab_dns Zone_Master lab_dns_host))"
    by (rule r_into_rtranclp) (rule dns_step.handle)
  then show ?thesis by (rule dns_rows_invariant) (rule lab_dns_inv)
qed

theorem record_change_serial_witness:
  "\<exists>r st' z'. create_record lab_later lab_admin 1 lab_record (lab_dns Zone_Master ()) = (Inr r, st') \<and> row_get (dn_zones st') 1 = Some z'
     \<and> dn_serial (lab_zone Zone_Master) < dn_serial z' \<and> records_of st' 1 = [(1, new_record 1 lab_record)]"
proof -
  obtain r st' where c: "create_record lab_later lab_admin 1 lab_record (lab_dns Zone_Master ()) = (Inr r, st')" using lab_record_created[of "()"] by blast
  have h: "dn_serial (lab_zone Zone_Master) = serial_from_now lab_hour" "real_hour lab_later" "real_hour lab_hour" "dx_year lab_later \<le> 2147"
    "table_ok (dn_records (lab_dns Zone_Master ()))"
    by (simp_all add: lab_zone_def new_zone_def real_hour_def lab_later_def lab_hour_def lab_dns_def)
  have b: "hour_before (hour_of lab_hour) (hour_of lab_later)" by (simp add: hour_of_def lab_later_def lab_hour_def)
  have e: "records_of (lab_dns Zone_Master ()) 1 = []" "tb_next (dn_records (lab_dns Zone_Master ())) = 1"
    by (simp_all add: records_of_def rows_where_def lab_dns_def empty_table_def)
  from record_change_serial[OF c lab_dns_rows(1) h] b e c show ?thesis by auto
qed

theorem record_injects_line_witness:
  "\<exists>r st' y. create_record lab_later lab_admin 1 lab_record (lab_dns Zone_Master ()) = (Inr r, st')
     \<and> ''$INCLUDE /etc/bind/rndc.key'' \<in> set (split_on newline (render_zone_text y False))
     \<and> (\<exists>z. row_get (dn_zones st') 1 = Some z \<and> zone_of st' (1, z) = Some y)"
proof -
  obtain r st' where c: "create_record lab_later lab_admin 1 lab_record (lab_dns Zone_Master ()) = (Inr r, st')" using lab_record_created[of "()"] by blast
  have content: "rrc_content lab_record = (dquote # ''v'' @ [dquote]) @ nl @ ''$INCLUDE /etc/bind/rndc.key''"
    "newline \<notin> set ''$INCLUDE /etc/bind/rndc.key''"
    by (simp_all add: lab_record_def char_defs)
  have "(case snd (create_record lab_later lab_admin 1 lab_record (lab_dns Zone_Master ())) of st' \<Rightarrow>
      (case row_get (dn_zones st') 1 of None \<Rightarrow> False | Some z \<Rightarrow> zone_of st' (1, z) \<noteq> None))"
    by code_simp
  then obtain z y where z: "row_get (dn_zones st') 1 = Some z" "zone_of st' (1, z) = Some y"
    unfolding c by (auto split: option.splits)
  from record_injects_line[OF c lab_dns_inv content z] c z show ?thesis by blast
qed

definition lab_reverse :: reverse_request where
  "lab_reverse = \<lparr>rv_network = ''10.1.0.0/16'', rv_nameserver = ''ns1.example.org'', rv_email = ''root@example.org''\<rparr>"

theorem reverse_zone_serial_frozen_witness:
  "\<exists>v st1 y. create_reverse_zone lab_hour lab_admin 1 lab_reverse (lab_dns Zone_Master ()) = (Inr v, st1) \<and> dz_records y \<noteq> []
     \<and> (\<forall>n b. render_zone_text (y\<lparr>dz_serial := n\<rparr>) b = render_zone_text y b)"
proof -
  have "(case create_reverse_zone lab_hour lab_admin 1 lab_reverse (lab_dns Zone_Master ()) of
      (Inl c, st1) \<Rightarrow> False
    | (Inr v, st1) \<Rightarrow> (case row_get (dn_zones st1) (zv_id v) of None \<Rightarrow> False | Some z \<Rightarrow> zone_of st1 (zv_id v, z) \<noteq> None))"
    by code_simp
  moreover obtain s st1 where e: "create_reverse_zone lab_hour lab_admin 1 lab_reverse (lab_dns Zone_Master ()) = (s, st1)"
    by (cases "create_reverse_zone lab_hour lab_admin 1 lab_reverse (lab_dns Zone_Master ())")
  ultimately obtain v z y where s: "s = Inr v" and z: "row_get (dn_zones st1) (zv_id v) = Some z" "zone_of st1 (zv_id v, z) = Some y"
    by (cases s) (auto split: option.splits)
  have c: "create_reverse_zone lab_hour lab_admin 1 lab_reverse (lab_dns Zone_Master ()) = (Inr v, st1)" using e s by simp
  have run: "(dns_step True (\<lambda>url k m b w. (Http_Timeout, w)))\<^sup>*\<^sup>* st1 st1" by simp
  note frozen = reverse_zone_serial_frozen[OF c lab_dns_inv run z]
  then have "dz_records y \<noteq> []" by auto
  with frozen c show ?thesis by (intro exI[of _ v] exI[of _ st1] exI[of _ y]) simp
qed

theorem ptr_names_address_witness:
  "\<exists>name. ptr_name_for_zone ''10.1.2.3'' ''1.10.in-addr.arpa'' = Inr name \<and> name \<noteq> ''@'' \<and> ''3.2.1.10.in-addr.arpa'' = name @ ''.1.10.in-addr.arpa''"
proof -
  define z where "z = (lab_zone Zone_Master)\<lparr>dn_name := ''1.10.in-addr.arpa'', dn_network := Some ''10.1.0.0/16''\<rparr>"
  have rz: "reverse_zone_name ''10.1.0.0/16'' = Some (Some (dn_name z))" unfolding z_def by code_simp
  have net: "ip_network False ''10.1.0.0/16'' = Some (Net4 167837696 16)" by code_simp
  have len: "net_len (Net4 167837696 16) \<noteq> 0" by simp
  have nz: "dn_network z = Some ''10.1.0.0/16''" by (simp add: z_def)
  have inn: "in_reverse_network z ''10.1.2.3'' = Some True" unfolding z_def by code_simp
  have ip: "ip_address ''10.1.2.3'' = Some (IPv4 167838211)" by code_simp
  have ptr: "reverse_pointer (IPv4 167838211) = Some ''3.2.1.10.in-addr.arpa''" by code_simp
  have n: "dn_name z = ''1.10.in-addr.arpa''" by (simp add: z_def)
  from ptr_names_address[OF rz net len nz inn ip ptr] show ?thesis unfolding n by (auto split: if_splits)
qed

theorem rollover_replaces_one_type_witness:
  "\<exists>j y st'. dnssec_rollover lab_later lab_admin 1 \<lparr>ro_type = ''KSK'', ro_algorithm = ''ECDSAP256SHA256'', ro_size = 256\<rparr> (lab_dns Zone_Master ())
      = (Inr (j, y), st') \<and> active_keys st' 1 = [y]"
proof -
  let ?d = "\<lparr>ro_type = ''KSK'', ro_algorithm = ''ECDSAP256SHA256'', ro_size = 256\<rparr>"
  have "valid_rollover ?d" by code_simp
  then obtain j y st' where c: "dnssec_rollover lab_later lab_admin 1 ?d (lab_dns Zone_Master ()) = (Inr (j, y), st')"
    by (simp add: dnssec_rollover_def as_admin_def lab_admin_ok with_row_def lab_dns_rows Let_def del: One_nat_def)
  have "active_keys (lab_dns Zone_Master ()) 1 = []" by (simp add: active_keys_def rows_where_def lab_dns_def empty_table_def)
  with rollover_replaces_one_type[OF c] c show ?thesis by auto
qed

theorem signing_leaves_two_keys_witness:
  "\<exists>j st'. sign_zone lab_later lab_admin 1 (lab_dns Zone_Master ()) = (Inr j, st') \<and> map dy_type (active_keys st' 1) = [''KSK'', ''ZSK'']"
proof -
  obtain j st' where c: "sign_zone lab_later lab_admin 1 (lab_dns Zone_Master ()) = (Inr j, st')"
    by (simp add: sign_zone_def as_admin_def lab_admin_ok with_row_def lab_dns_rows Let_def del: One_nat_def)
  from signing_leaves_two_keys[OF c] have "map dy_type (active_keys st' 1) = [''KSK'', ''ZSK'']" by (auto simp: new_key_def Let_def)
  then show ?thesis by (intro exI conjI) (rule c)
qed

theorem only_actions_reach_the_agent_witness:
  "\<exists>x tok k a u. dns_handle lab_later lab_dns_agent lab_admin (Server_Action 1 ''apply'') (lab_dns Zone_Master lab_dns_host)
     = dns_handle x lab_dns_agent tok (Server_Action k a) (lab_dns Zone_Master lab_dns_host)
     \<and> a \<in> {''apply'', ''reload''} \<and> require_admin tok = Inr u"
proof -
  let ?st = "lab_dns Zone_Master lab_dns_host"
  obtain r st' where a: "apply_dns_config lab_dns_agent 1 (Some 1) ?st = (r, st')" by (cases "apply_dns_config lab_dns_agent 1 (Some 1) ?st")
  have w: "gs_world (dn_gw ?st) = lab_dns_host" by (simp add: lab_dns_def lab_gw_def)
  obtain p where p: "desired_dns ?st 1 = Some p" "fst (dns_apply lab_dns_env (Some ''k'') (Some ''k'') p lab_dns_host) = 200"
    using lab_dns_ready by (auto split: option.splits)
  with apply_dns_world[OF lab_dns_at a[unfolded lab_dns_agent_def]] w
  have ok: "dns_apply lab_dns_env (Some ''k'') (Some ''k'') p lab_dns_host = (200, gs_world (dn_gw st'))" "\<exists>b. r = Inr b"
    by (auto simp: prod_eq_iff)
  have "de_commands lab_dns_env" by (simp add: lab_dns_env_def)
  from dns_apply_ok[OF ok(1) this] have served: "dh_reloaded (gs_world (dn_gw st')) \<noteq> None" by fastforce
  have none: "dh_reloaded lab_dns_host = None" by (simp add: lab_dns_host_def)
  obtain b where b: "r = Inr b" using ok(2) by blast
  have "world_of (dns_handle lab_later lab_dns_agent lab_admin (Server_Action 1 ''apply'') ?st) = world_of st'"
    using a b by (simp add: dns_handle_def dns_server_action_def as_admin_def lab_admin_ok with_row_def lab_dns_rows Let_def del: One_nat_def)
  then have "gs_world (dn_gw (dns_handle lab_later lab_dns_agent lab_admin (Server_Action 1 ''apply'') ?st)) \<noteq> gs_world (dn_gw ?st)"
    using served none unfolding world_of_def w by metis
  from only_actions_reach_the_agent[OF dns_step.handle this] show ?thesis by blast
qed

end
