(* ===== verification/Gw_Dhcp.thy ===== *)
theory Gw_Dhcp
  imports Gw_Dns_Zones
begin

text \<open>
  \<open>routers/dhcp.py\<close>, first part: rows, schemas, servers and subnets. The router only edits rows: none of its
  handlers sends anything to an agent, so its state is the database alone.

  The generic table operations and response helpers of the DNS router are used here too.
\<close>

section \<open>Rows\<close>

record dhcp_server =
  hs_instance :: nat
  hs_name :: string
  hs_description :: "string option"
  hs_enabled :: "bool option"
  hs_status :: "string option"
  hs_address :: "string option"
  hs_port :: "int option"
  hs_ha :: "bool option"
  hs_mode :: "string option"
  hs_peer :: "string option"
  hs_v4 :: "bool option"
  hs_v6 :: "bool option"

record dhcp_subnet =
  hn_server :: nat
  hn_name :: string
  hn_description :: "string option"
  hn_subnet :: string
  hn_type :: string
  hn_interface :: "string option"
  hn_relays :: "string list option"
  hn_domain :: "string option"
  hn_dns :: "string list option"
  hn_ntp :: "string list option"
  hn_routers :: "string list option"
  hn_default :: "int option"
  hn_max :: "int option"
  hn_min :: "int option"
  hn_delegated :: "int option"
  hn_enabled :: "bool option"

record dhcp_pool =
  hp_subnet :: nat
  hp_start :: string
  hp_end :: string
  hp_type :: string
  hp_enabled :: "bool option"

record dhcp_reservation =
  hr_subnet :: nat
  hr_hostname :: "string option"
  hr_ip :: string
  hr_hw :: string
  hr_type :: string
  hr_description :: "string option"

record dhcp_option =
  ho_subnet :: nat
  ho_code :: int
  ho_name :: string
  ho_value :: string
  ho_type :: string

record dhcp_lease =
  hl_subnet :: nat
  hl_pool :: "nat option"
  hl_ip :: string
  hl_hw :: "string option"
  hl_hostname :: "string option"
  hl_client :: "string option"
  hl_released :: bool
  hl_state :: "string option"

record dhcp_state =
  hc_db :: fw_db
  hc_servers :: "dhcp_server table"
  hc_subnets :: "dhcp_subnet table"
  hc_pools :: "dhcp_pool table"
  hc_reservs :: "dhcp_reservation table"
  hc_options :: "dhcp_option table"
  hc_leases :: "dhcp_lease table"

section \<open>Frames\<close>

type_synonym 'a dhcp_reply = "(nat + 'a) \<times> dhcp_state"

definition by_admin :: "token option \<Rightarrow> dhcp_state \<Rightarrow> (nat \<Rightarrow> 'a dhcp_reply) \<Rightarrow> 'a dhcp_reply" where
  "by_admin tok st f = (case require_admin tok of Inl c \<Rightarrow> (Inl c, st) | Inr u \<Rightarrow> f u)"

definition on_row :: "'r table \<Rightarrow> nat \<Rightarrow> dhcp_state \<Rightarrow> ('r \<Rightarrow> 'a dhcp_reply) \<Rightarrow> 'a dhcp_reply" where
  "on_row t k st f = (case row_get t k of None \<Rightarrow> (Inl 404, st) | Some r \<Rightarrow> f r)"

definition log_dhcp :: "nat \<Rightarrow> string \<Rightarrow> string \<Rightarrow> nat \<Rightarrow> nat \<Rightarrow> json option \<Rightarrow> dhcp_state \<Rightarrow> dhcp_state" where
  "log_dhcp u action rtype rid inst new st = st\<lparr>hc_db := (hc_db st)\<lparr>fd_audit :=
     log_audit (Some u) action rtype (Some (string_of_nat rid)) (Some inst) new (fd_audit (hc_db st))\<rparr>\<rparr>"

text \<open>\<open>scalar_one\<close> on the subnet and its server: a row that is gone is an exception.\<close>

definition subnet_instance :: "dhcp_state \<Rightarrow> nat \<Rightarrow> nat option" where
  "subnet_instance st k = (case row_get (hc_subnets st) k of None \<Rightarrow> None | Some n \<Rightarrow> map_option hs_instance (row_get (hc_servers st) (hn_server n)))"

text \<open>What follows a commit: the owner for the audit entry, then the response.\<close>

definition logged :: "nat option \<Rightarrow> nat \<Rightarrow> string \<Rightarrow> string \<Rightarrow> nat \<Rightarrow> (nat + 'a) \<Rightarrow> dhcp_state \<Rightarrow> 'a dhcp_reply" where
  "logged owner u action rtype k r st = (case owner of None \<Rightarrow> (Inl 500, st) | Some i \<Rightarrow> (r, log_dhcp u action rtype k i None st))"

section \<open>Schemas\<close>

datatype dhcp_family = Family_V4 | Family_V6

definition family_text :: "dhcp_family \<Rightarrow> string" where
  "family_text f = (case f of Family_V4 \<Rightarrow> ''v4'' | Family_V6 \<Rightarrow> ''v6'')"

definition family_texts :: "string list" where
  "family_texts = [''v4'', ''v6'']"

datatype ha_mode = Hot_Standby | Load_Balancing

definition ha_mode_text :: "ha_mode \<Rightarrow> string" where
  "ha_mode_text m = (case m of Hot_Standby \<Rightarrow> ''hot-standby'' | Load_Balancing \<Rightarrow> ''load-balancing'')"

definition opt_len :: "nat \<Rightarrow> string option \<Rightarrow> bool" where
  "opt_len b v = (case v of None \<Rightarrow> True | Some s \<Rightarrow> length s \<le> b)"

definition req_len :: "nat \<Rightarrow> nat \<Rightarrow> string \<Rightarrow> bool" where
  "req_len lo hi s \<longleftrightarrow> lo \<le> length s \<and> length s \<le> hi"

definition between :: "int \<Rightarrow> int \<Rightarrow> int \<Rightarrow> bool" where
  "between lo hi n \<longleftrightarrow> lo \<le> n \<and> n \<le> hi"

definition dhcp_server_ok :: "dhcp_server \<Rightarrow> bool" where
  "dhcp_server_ok s \<longleftrightarrow> name_ok 100 (hs_name s) \<and> hs_enabled s \<noteq> None \<and> (case hs_address s of None \<Rightarrow> False | Some a \<Rightarrow> length a \<le> 255)
     \<and> (case hs_port s of None \<Rightarrow> False | Some p \<Rightarrow> between 1 65535 p) \<and> hs_ha s \<noteq> None
     \<and> hs_mode s \<in> {Some ''hot-standby'', Some ''load-balancing''} \<and> opt_len 255 (hs_peer s) \<and> hs_v4 s \<noteq> None \<and> hs_v6 s \<noteq> None
     \<and> hs_status s \<in> {Some ''running'', Some ''stopped'', Some ''error''}"

record dhcp_server_view =
  hsv_id :: nat
  hsv_row :: dhcp_server
  hsv_subnets :: nat

definition dhcp_server_response :: "nat \<Rightarrow> dhcp_server \<Rightarrow> nat \<Rightarrow> nat + dhcp_server_view" where
  "dhcp_server_response k s n = (if dhcp_server_ok s then Inr \<lparr>hsv_id = k, hsv_row = s, hsv_subnets = n\<rparr> else Inl 500)"

definition subnets_of :: "dhcp_state \<Rightarrow> nat \<Rightarrow> (nat \<times> dhcp_subnet) list" where
  "subnets_of st k = rows_where (\<lambda>n. hn_server n = k) (hc_subnets st)"

section \<open>Servers\<close>

text \<open>\<open>not v\<close> of a nullable flag.\<close>

definition off :: "bool option \<Rightarrow> bool" where
  "off b \<longleftrightarrow> b \<noteq> Some True"

definition families_ok :: "bool option \<Rightarrow> bool option \<Rightarrow> bool" where
  "families_ok v4 v6 \<longleftrightarrow> \<not> (off v4 \<and> off v6)"

definition ha_ok :: "bool option \<Rightarrow> string option \<Rightarrow> bool" where
  "ha_ok ha peer \<longleftrightarrow> off ha \<or> truthy_str peer"

definition list_dhcp_servers :: "token option \<Rightarrow> nat \<Rightarrow> dhcp_state \<Rightarrow> nat + dhcp_server_view list" where
  "list_dhcp_servers tok i st =
     (case require_auth tok of
        Inl c \<Rightarrow> Inl c
      | Inr u \<Rightarrow> sequence_replies (map (\<lambda>(k, s). dhcp_server_response k s (length (subnets_of st k)))
          (sort_key fst (rows_where (\<lambda>s. hs_instance s = i) (hc_servers st)))))"

definition get_dhcp_server :: "token option \<Rightarrow> nat \<Rightarrow> dhcp_state \<Rightarrow> nat + dhcp_server_view" where
  "get_dhcp_server tok k st =
     (case require_auth tok of
        Inl c \<Rightarrow> Inl c
      | Inr u \<Rightarrow> (case row_get (hc_servers st) k of None \<Rightarrow> Inl 404 | Some s \<Rightarrow> dhcp_server_response k s (length (subnets_of st k))))"

record dhcp_server_create =
  hsc_name :: string
  hsc_description :: "string option"
  hsc_enabled :: bool
  hsc_address :: string
  hsc_port :: int
  hsc_ha :: bool
  hsc_mode :: ha_mode
  hsc_peer :: "string option"
  hsc_v4 :: bool
  hsc_v6 :: bool

definition valid_dhcp_server_create :: "dhcp_server_create \<Rightarrow> bool" where
  "valid_dhcp_server_create d \<longleftrightarrow> name_ok 100 (hsc_name d) \<and> length (hsc_address d) \<le> 255 \<and> between 1 65535 (hsc_port d) \<and> opt_len 255 (hsc_peer d)"

definition new_dhcp_server :: "nat \<Rightarrow> dhcp_server_create \<Rightarrow> dhcp_server" where
  "new_dhcp_server i d = \<lparr>hs_instance = i, hs_name = hsc_name d, hs_description = hsc_description d, hs_enabled = Some (hsc_enabled d),
     hs_status = Some ''stopped'', hs_address = Some (hsc_address d), hs_port = Some (hsc_port d), hs_ha = Some (hsc_ha d),
     hs_mode = Some (ha_mode_text (hsc_mode d)), hs_peer = hsc_peer d, hs_v4 = Some (hsc_v4 d), hs_v6 = Some (hsc_v6 d)\<rparr>"

definition create_dhcp_server :: "token option \<Rightarrow> nat \<Rightarrow> dhcp_server_create \<Rightarrow> dhcp_state \<Rightarrow> dhcp_server_view dhcp_reply" where
  "create_dhcp_server tok i d st = by_admin tok st (\<lambda>u.
     if \<not> valid_dhcp_server_create d then (Inl 422, st)
     else if row_get (fd_instances (hc_db st)) i = None then (Inl 404, st)
     else if \<not> families_ok (Some (hsc_v4 d)) (Some (hsc_v6 d)) \<or> \<not> ha_ok (Some (hsc_ha d)) (hsc_peer d) then (Inl 400, st)
     else (let s = new_dhcp_server i d; (k, t') = row_add s (hc_servers st) in
           (dhcp_server_response k s 0, log_dhcp u ''create'' ''dhcp_server'' k i None (st\<lparr>hc_servers := t'\<rparr>))))"

record dhcp_server_patch =
  hsp_name :: "string option option"
  hsp_description :: "string option option"
  hsp_enabled :: "bool option option"
  hsp_address :: "string option option"
  hsp_port :: "int option option"
  hsp_ha :: "bool option option"
  hsp_mode :: "ha_mode option option"
  hsp_peer :: "string option option"
  hsp_v4 :: "bool option option"
  hsp_v6 :: "bool option option"

definition given_between :: "int \<Rightarrow> int \<Rightarrow> int option option \<Rightarrow> bool" where
  "given_between lo hi v = (case v of Some (Some n) \<Rightarrow> between lo hi n | _ \<Rightarrow> True)"

definition patch_dhcp_server :: "dhcp_server_patch \<Rightarrow> dhcp_server \<Rightarrow> dhcp_server option" where
  "patch_dhcp_server d s =
     (case kept (hsp_name d) (hs_name s) of
        None \<Rightarrow> None
      | Some n \<Rightarrow> Some (s\<lparr>hs_name := n, hs_description := patched (hsp_description d) (hs_description s),
          hs_enabled := patched (hsp_enabled d) (hs_enabled s), hs_address := patched (hsp_address d) (hs_address s),
          hs_port := patched (hsp_port d) (hs_port s), hs_ha := patched (hsp_ha d) (hs_ha s),
          hs_mode := patched (map_option (map_option ha_mode_text) (hsp_mode d)) (hs_mode s), hs_peer := patched (hsp_peer d) (hs_peer s),
          hs_v4 := patched (hsp_v4 d) (hs_v4 s), hs_v6 := patched (hsp_v6 d) (hs_v6 s)\<rparr>))"

text \<open>Switching a family off is refused while the server has a subnet of it.\<close>

definition family_in_use :: "dhcp_state \<Rightarrow> nat \<Rightarrow> dhcp_server \<Rightarrow> bool option \<Rightarrow> bool option \<Rightarrow> bool" where
  "family_in_use st k s v4 v6 \<longleftrightarrow>
     (off v4 \<and> \<not> off (hs_v4 s) \<or> off v6 \<and> \<not> off (hs_v6 s))
     \<and> list_ex (\<lambda>(j, n). hn_type n = ''v4'' \<and> off v4 \<or> hn_type n = ''v6'' \<and> off v6) (subnets_of st k)"

definition update_dhcp_server :: "token option \<Rightarrow> nat \<Rightarrow> dhcp_server_patch \<Rightarrow> dhcp_state \<Rightarrow> dhcp_server_view dhcp_reply" where
  "update_dhcp_server tok k d st = by_admin tok st (\<lambda>u.
     if \<not> given_between 1 65535 (hsp_port d) then (Inl 422, st)
     else on_row (hc_servers st) k st (\<lambda>s.
       let v4 = patched (hsp_v4 d) (hs_v4 s); v6 = patched (hsp_v6 d) (hs_v6 s) in
       if \<not> families_ok v4 v6 \<or> \<not> ha_ok (patched (hsp_ha d) (hs_ha s)) (patched (hsp_peer d) (hs_peer s)) \<or> family_in_use st k s v4 v6 then (Inl 400, st)
       else (case patch_dhcp_server d s of
           None \<Rightarrow> (Inl 500, st)
         | Some s' \<Rightarrow> (dhcp_server_response k s' 0,
             log_dhcp u ''update'' ''dhcp_server'' k (hs_instance s') None (st\<lparr>hc_servers := row_set k s' (hc_servers st)\<rparr>)))))"

text \<open>Deleting subnets deletes their pools, reservations, options and leases. A lease names its pool; the leases of
  a subnet are taken to go before its pools, and a lease of another subnet that names one of the pools refuses the deletion.\<close>

definition drop_subnets :: "(nat \<Rightarrow> bool) \<Rightarrow> dhcp_state \<Rightarrow> dhcp_state" where
  "drop_subnets p st = st\<lparr>hc_subnets := drop_keys p (hc_subnets st), hc_pools := drop_rows (p \<circ> hp_subnet) (hc_pools st),
     hc_reservs := drop_rows (p \<circ> hr_subnet) (hc_reservs st), hc_options := drop_rows (p \<circ> ho_subnet) (hc_options st),
     hc_leases := drop_rows (p \<circ> hl_subnet) (hc_leases st)\<rparr>"

definition pools_held :: "dhcp_state \<Rightarrow> (nat \<Rightarrow> bool) \<Rightarrow> bool" where
  "pools_held st p \<longleftrightarrow> list_ex (\<lambda>(j, l). \<not> p (hl_subnet l) \<and> (case hl_pool l of None \<Rightarrow> False | Some q \<Rightarrow>
     (case row_get (hc_pools st) q of None \<Rightarrow> False | Some r \<Rightarrow> p (hp_subnet r)))) (tb_rows (hc_leases st))"

definition delete_dhcp_server :: "token option \<Rightarrow> nat \<Rightarrow> dhcp_state \<Rightarrow> nat dhcp_reply" where
  "delete_dhcp_server tok k st = by_admin tok st (\<lambda>u. on_row (hc_servers st) k st (\<lambda>s.
     let mine = (\<lambda>j. j \<in> fst ` set (subnets_of st k)) in
     if pools_held st mine then (Inl 500, st)
     else (Inr k, log_dhcp u ''delete'' ''dhcp_server'' k (hs_instance s) None
       ((drop_subnets mine st)\<lparr>hc_servers := row_del k (hc_servers st)\<rparr>))))"

definition dhcp_server_action :: "token option \<Rightarrow> nat \<Rightarrow> string \<Rightarrow> dhcp_state \<Rightarrow> string dhcp_reply" where
  "dhcp_server_action tok k action st = by_admin tok st (\<lambda>u. on_row (hc_servers st) k st (\<lambda>s.
     if action \<notin> {''start'', ''stop'', ''reload''} then (Inl 400, st)
     else (let s' = (if action = ''start'' then s\<lparr>hs_status := Some ''running''\<rparr>
               else if action = ''stop'' then s\<lparr>hs_status := Some ''stopped''\<rparr> else s) in
           (Inr action, log_dhcp u ''deploy'' ''dhcp_server'' k (hs_instance s) (Some (J_Obj [(''operation'', J_Str action)]))
             (st\<lparr>hc_servers := row_set k s' (hc_servers st)\<rparr>)))))"

section \<open>Subnets\<close>

definition dhcp_subnet_ok :: "dhcp_subnet \<Rightarrow> bool" where
  "dhcp_subnet_ok n \<longleftrightarrow> name_ok 100 (hn_name n) \<and> req_len 3 100 (hn_subnet n) \<and> hn_type n \<in> set family_texts \<and> opt_len 50 (hn_interface n)
     \<and> hn_relays n \<noteq> None \<and> opt_len 255 (hn_domain n) \<and> hn_dns n \<noteq> None \<and> hn_ntp n \<noteq> None \<and> hn_routers n \<noteq> None
     \<and> at_least 60 (hn_default n) \<and> at_least 60 (hn_max n) \<and> at_least 60 (hn_min n)
     \<and> (case hn_delegated n of None \<Rightarrow> True | Some p \<Rightarrow> between 1 128 p) \<and> hn_enabled n \<noteq> None"

record dhcp_subnet_view =
  hnv_id :: nat
  hnv_row :: dhcp_subnet
  hnv_pools :: nat
  hnv_reservs :: nat
  hnv_leases :: nat

text \<open>The responses of a creation and an update have counts of zero.\<close>

definition dhcp_subnet_response :: "nat \<Rightarrow> dhcp_subnet \<Rightarrow> nat + dhcp_subnet_view" where
  "dhcp_subnet_response k n = (if dhcp_subnet_ok n then Inr \<lparr>hnv_id = k, hnv_row = n, hnv_pools = 0, hnv_reservs = 0, hnv_leases = 0\<rparr> else Inl 500)"

definition counted :: "dhcp_state \<Rightarrow> nat \<times> dhcp_subnet \<Rightarrow> nat + dhcp_subnet_view" where
  "counted st e = (case e of (k, n) \<Rightarrow> map_sum id (\<lambda>v. v\<lparr>hnv_pools := length (rows_where (\<lambda>p. hp_subnet p = k) (hc_pools st)),
     hnv_reservs := length (rows_where (\<lambda>r. hr_subnet r = k) (hc_reservs st)),
     hnv_leases := length (rows_where (\<lambda>l. hl_subnet l = k) (hc_leases st))\<rparr>) (dhcp_subnet_response k n))"

definition list_dhcp_subnets :: "token option \<Rightarrow> nat \<Rightarrow> dhcp_state \<Rightarrow> nat + dhcp_subnet_view list" where
  "list_dhcp_subnets tok k st =
     (case require_auth tok of Inl c \<Rightarrow> Inl c | Inr u \<Rightarrow> sequence_replies (map (counted st) (sort_key fst (subnets_of st k))))"

definition get_dhcp_subnet :: "token option \<Rightarrow> nat \<Rightarrow> dhcp_state \<Rightarrow> nat + dhcp_subnet_view" where
  "get_dhcp_subnet tok k st =
     (case require_auth tok of
        Inl c \<Rightarrow> Inl c
      | Inr u \<Rightarrow> (case row_get (hc_subnets st) k of None \<Rightarrow> Inl 404 | Some n \<Rightarrow> counted st (k, n)))"

record dhcp_subnet_create =
  hnc_name :: string
  hnc_description :: "string option"
  hnc_subnet :: string
  hnc_family :: dhcp_family
  hnc_interface :: "string option"
  hnc_relays :: "string list"
  hnc_domain :: "string option"
  hnc_dns :: "string list"
  hnc_ntp :: "string list"
  hnc_routers :: "string list"
  hnc_default :: int
  hnc_max :: int
  hnc_min :: int
  hnc_delegated :: "int option"
  hnc_enabled :: bool

definition new_dhcp_subnet :: "nat \<Rightarrow> dhcp_subnet_create \<Rightarrow> dhcp_subnet" where
  "new_dhcp_subnet k d = \<lparr>hn_server = k, hn_name = hnc_name d, hn_description = hnc_description d, hn_subnet = hnc_subnet d,
     hn_type = family_text (hnc_family d), hn_interface = hnc_interface d, hn_relays = Some (hnc_relays d), hn_domain = hnc_domain d,
     hn_dns = Some (hnc_dns d), hn_ntp = Some (hnc_ntp d), hn_routers = Some (hnc_routers d), hn_default = Some (hnc_default d),
     hn_max = Some (hnc_max d), hn_min = Some (hnc_min d), hn_delegated = hnc_delegated d, hn_enabled = Some (hnc_enabled d)\<rparr>"

text \<open>The request schema has the bounds of the response.\<close>

definition valid_dhcp_subnet_create :: "dhcp_subnet_create \<Rightarrow> bool" where
  "valid_dhcp_subnet_create d \<longleftrightarrow> dhcp_subnet_ok (new_dhcp_subnet 0 d)"

definition family_allowed :: "dhcp_server \<Rightarrow> string \<Rightarrow> bool" where
  "family_allowed s t \<longleftrightarrow> \<not> (t = ''v4'' \<and> off (hs_v4 s)) \<and> \<not> (t = ''v6'' \<and> off (hs_v6 s))"

text \<open>The lease windows: \<open>None\<close> when one of them is null, a \<open>TypeError\<close>. The comparison of the first two comes first.\<close>

definition windows_ok :: "int option \<Rightarrow> int option \<Rightarrow> int option \<Rightarrow> bool option" where
  "windows_ok lo dflt hi =
     (case (lo, dflt) of
        (Some a, Some b) \<Rightarrow> if b < a then Some False else (case hi of None \<Rightarrow> None | Some c \<Rightarrow> Some (b \<le> c))
      | _ \<Rightarrow> None)"

definition create_dhcp_subnet :: "token option \<Rightarrow> nat \<Rightarrow> dhcp_subnet_create \<Rightarrow> dhcp_state \<Rightarrow> dhcp_subnet_view dhcp_reply" where
  "create_dhcp_subnet tok k d st = by_admin tok st (\<lambda>u.
     if \<not> valid_dhcp_subnet_create d then (Inl 422, st)
     else on_row (hc_servers st) k st (\<lambda>s.
       if \<not> family_allowed s (family_text (hnc_family d)) then (Inl 400, st)
       else if windows_ok (Some (hnc_min d)) (Some (hnc_default d)) (Some (hnc_max d)) \<noteq> Some True then (Inl 400, st)
       else (let n = new_dhcp_subnet k d; (j, t') = row_add n (hc_subnets st) in
             (dhcp_subnet_response j n, log_dhcp u ''create'' ''dhcp_subnet'' j (hs_instance s) None (st\<lparr>hc_subnets := t'\<rparr>)))))"

record dhcp_subnet_patch =
  hnp_name :: "string option option"
  hnp_description :: "string option option"
  hnp_subnet :: "string option option"
  hnp_interface :: "string option option"
  hnp_relays :: "string list option option"
  hnp_domain :: "string option option"
  hnp_dns :: "string list option option"
  hnp_ntp :: "string list option option"
  hnp_routers :: "string list option option"
  hnp_default :: "int option option"
  hnp_max :: "int option option"
  hnp_min :: "int option option"
  hnp_delegated :: "int option option"
  hnp_enabled :: "bool option option"

definition valid_dhcp_subnet_patch :: "dhcp_subnet_patch \<Rightarrow> bool" where
  "valid_dhcp_subnet_patch d \<longleftrightarrow> given_at_least 60 (hnp_default d) \<and> given_at_least 60 (hnp_max d) \<and> given_at_least 60 (hnp_min d)
     \<and> given_between 1 128 (hnp_delegated d)"

definition patch_dhcp_subnet :: "dhcp_subnet_patch \<Rightarrow> dhcp_subnet \<Rightarrow> dhcp_subnet option" where
  "patch_dhcp_subnet d n =
     (case (kept (hnp_name d) (hn_name n), kept (hnp_subnet d) (hn_subnet n)) of
        (Some nm, Some sn) \<Rightarrow> Some (n\<lparr>hn_name := nm, hn_description := patched (hnp_description d) (hn_description n), hn_subnet := sn,
          hn_interface := patched (hnp_interface d) (hn_interface n), hn_relays := patched (hnp_relays d) (hn_relays n),
          hn_domain := patched (hnp_domain d) (hn_domain n), hn_dns := patched (hnp_dns d) (hn_dns n), hn_ntp := patched (hnp_ntp d) (hn_ntp n),
          hn_routers := patched (hnp_routers d) (hn_routers n), hn_default := patched (hnp_default d) (hn_default n),
          hn_max := patched (hnp_max d) (hn_max n), hn_min := patched (hnp_min d) (hn_min n),
          hn_delegated := patched (hnp_delegated d) (hn_delegated n), hn_enabled := patched (hnp_enabled d) (hn_enabled n)\<rparr>)
      | _ \<Rightarrow> None)"

definition update_dhcp_subnet :: "token option \<Rightarrow> nat \<Rightarrow> dhcp_subnet_patch \<Rightarrow> dhcp_state \<Rightarrow> dhcp_subnet_view dhcp_reply" where
  "update_dhcp_subnet tok k d st = by_admin tok st (\<lambda>u.
     if \<not> valid_dhcp_subnet_patch d then (Inl 422, st)
     else on_row (hc_subnets st) k st (\<lambda>n.
       case windows_ok (patched (hnp_min d) (hn_min n)) (patched (hnp_default d) (hn_default n)) (patched (hnp_max d) (hn_max n)) of
         None \<Rightarrow> (Inl 500, st)
       | Some False \<Rightarrow> (Inl 400, st)
       | Some True \<Rightarrow>
           (case patch_dhcp_subnet d n of
              None \<Rightarrow> (Inl 500, st)
            | Some n' \<Rightarrow> logged (subnet_instance st k) u ''update'' ''dhcp_subnet'' k (dhcp_subnet_response k n')
                (st\<lparr>hc_subnets := row_set k n' (hc_subnets st)\<rparr>))))"

definition delete_dhcp_subnet :: "token option \<Rightarrow> nat \<Rightarrow> dhcp_state \<Rightarrow> nat dhcp_reply" where
  "delete_dhcp_subnet tok k st = by_admin tok st (\<lambda>u. on_row (hc_subnets st) k st (\<lambda>n.
     if subnet_instance st k = None \<or> pools_held st (\<lambda>j. j = k) then (Inl 500, st)
     else logged (subnet_instance st k) u ''delete'' ''dhcp_subnet'' k (Inr k) (drop_subnets (\<lambda>j. j = k) st)))"

end
