(* ===== verification/Gw_Dhcp_Pools.thy ===== *)
theory Gw_Dhcp_Pools
  imports Gw_Dhcp
begin

text \<open>
  \<open>routers/dhcp.py\<close>, second part: pools, reservations, options and leases, and the calls of the router.
\<close>

section \<open>Pools\<close>

definition pool_ok :: "dhcp_pool \<Rightarrow> bool" where
  "pool_ok p \<longleftrightarrow> req_len 2 45 (hp_start p) \<and> req_len 2 45 (hp_end p) \<and> hp_type p \<in> set family_texts \<and> hp_enabled p \<noteq> None"

definition checked :: "('r \<Rightarrow> bool) \<Rightarrow> nat \<times> 'r \<Rightarrow> nat + nat \<times> 'r" where
  "checked ok e = (if ok (snd e) then Inr e else Inl 500)"

definition list_children :: "('r \<Rightarrow> bool) \<Rightarrow> ('r \<Rightarrow> nat) \<Rightarrow> 'r table \<Rightarrow> token option \<Rightarrow> nat \<Rightarrow> nat + (nat \<times> 'r) list" where
  "list_children ok parent t tok k =
     (case require_auth tok of
        Inl c \<Rightarrow> Inl c
      | Inr u \<Rightarrow> sequence_replies (map (checked ok) (sort_key fst (rows_where (\<lambda>r. parent r = k) t))))"

definition list_pools :: "token option \<Rightarrow> nat \<Rightarrow> dhcp_state \<Rightarrow> nat + (nat \<times> dhcp_pool) list" where
  "list_pools tok k st = list_children pool_ok hp_subnet (hc_pools st) tok k"

record pool_create =
  hpc_start :: string
  hpc_end :: string
  hpc_family :: dhcp_family
  hpc_enabled :: bool

definition new_pool :: "nat \<Rightarrow> pool_create \<Rightarrow> dhcp_pool" where
  "new_pool k d = \<lparr>hp_subnet = k, hp_start = hpc_start d, hp_end = hpc_end d, hp_type = family_text (hpc_family d), hp_enabled = Some (hpc_enabled d)\<rparr>"

text \<open>Adding a row below a subnet of the same family; the commit comes before the owner is looked up.\<close>

definition add_child :: "token option \<Rightarrow> nat \<Rightarrow> string \<Rightarrow> string \<Rightarrow> ('r \<Rightarrow> bool) \<Rightarrow> 'r \<Rightarrow> (dhcp_state \<Rightarrow> 'r table) \<Rightarrow>
    ('r table \<Rightarrow> dhcp_state \<Rightarrow> dhcp_state) \<Rightarrow> dhcp_state \<Rightarrow> (nat \<times> 'r) dhcp_reply" where
  "add_child tok k family rtype ok r get put st = by_admin tok st (\<lambda>u.
     if \<not> ok r then (Inl 422, st)
     else on_row (hc_subnets st) k st (\<lambda>n.
       if family \<noteq> hn_type n then (Inl 400, st)
       else (let (j, t') = row_add r (get st) in logged (subnet_instance st k) u ''create'' rtype j (checked ok (j, r)) (put t' st))))"

definition create_pool :: "token option \<Rightarrow> nat \<Rightarrow> pool_create \<Rightarrow> dhcp_state \<Rightarrow> (nat \<times> dhcp_pool) dhcp_reply" where
  "create_pool tok k d st =
     add_child tok k (family_text (hpc_family d)) ''dhcp_pool'' pool_ok (new_pool k d) hc_pools (\<lambda>t st. st\<lparr>hc_pools := t\<rparr>) st"

record pool_patch =
  hpp_start :: "string option option"
  hpp_end :: "string option option"
  hpp_enabled :: "bool option option"

definition patch_pool :: "pool_patch \<Rightarrow> dhcp_pool \<Rightarrow> dhcp_pool option" where
  "patch_pool d p =
     (case (kept (hpp_start d) (hp_start p), kept (hpp_end d) (hp_end p)) of
        (Some a, Some b) \<Rightarrow> Some (p\<lparr>hp_start := a, hp_end := b, hp_enabled := patched (hpp_enabled d) (hp_enabled p)\<rparr>)
      | _ \<Rightarrow> None)"

text \<open>Replacing a row: a null in a column that must not be null is an exception at the commit.\<close>

definition set_child :: "nat \<Rightarrow> nat \<Rightarrow> string \<Rightarrow> ('r \<Rightarrow> bool) \<Rightarrow> ('r \<Rightarrow> nat) \<Rightarrow> 'r option \<Rightarrow> (dhcp_state \<Rightarrow> 'r table) \<Rightarrow>
    ('r table \<Rightarrow> dhcp_state \<Rightarrow> dhcp_state) \<Rightarrow> dhcp_state \<Rightarrow> (nat \<times> 'r) dhcp_reply" where
  "set_child u j rtype ok parent row get put st =
     (case row of
        None \<Rightarrow> (Inl 500, st)
      | Some r \<Rightarrow> logged (subnet_instance st (parent r)) u ''update'' rtype j (checked ok (j, r)) (put (row_set j r (get st)) st))"

definition update_pool :: "token option \<Rightarrow> nat \<Rightarrow> pool_patch \<Rightarrow> dhcp_state \<Rightarrow> (nat \<times> dhcp_pool) dhcp_reply" where
  "update_pool tok j d st = by_admin tok st (\<lambda>u. on_row (hc_pools st) j st (\<lambda>p.
     set_child u j ''dhcp_pool'' pool_ok hp_subnet (patch_pool d p) hc_pools (\<lambda>t st. st\<lparr>hc_pools := t\<rparr>) st))"

text \<open>A pool that a lease names cannot be deleted.\<close>

definition pool_leased :: "dhcp_state \<Rightarrow> nat \<Rightarrow> bool" where
  "pool_leased st j \<longleftrightarrow> rows_where (\<lambda>l. hl_pool l = Some j) (hc_leases st) \<noteq> []"

definition drop_child :: "nat \<Rightarrow> nat \<Rightarrow> string \<Rightarrow> nat \<Rightarrow> bool \<Rightarrow> (dhcp_state \<Rightarrow> 'r table) \<Rightarrow>
    ('r table \<Rightarrow> dhcp_state \<Rightarrow> dhcp_state) \<Rightarrow> dhcp_state \<Rightarrow> nat dhcp_reply" where
  "drop_child u j rtype parent held get put st =
     (if subnet_instance st parent = None \<or> held then (Inl 500, st)
      else logged (subnet_instance st parent) u ''delete'' rtype j (Inr j) (put (row_del j (get st)) st))"

definition delete_pool :: "token option \<Rightarrow> nat \<Rightarrow> dhcp_state \<Rightarrow> nat dhcp_reply" where
  "delete_pool tok j st = by_admin tok st (\<lambda>u. on_row (hc_pools st) j st (\<lambda>p.
     drop_child u j ''dhcp_pool'' (hp_subnet p) (pool_leased st j) hc_pools (\<lambda>t st. st\<lparr>hc_pools := t\<rparr>) st))"

section \<open>Reservations\<close>

definition reservation_ok :: "dhcp_reservation \<Rightarrow> bool" where
  "reservation_ok r \<longleftrightarrow> opt_len 255 (hr_hostname r) \<and> req_len 2 45 (hr_ip r) \<and> req_len 2 255 (hr_hw r) \<and> hr_type r \<in> set family_texts"

definition list_reservations :: "token option \<Rightarrow> nat \<Rightarrow> dhcp_state \<Rightarrow> nat + (nat \<times> dhcp_reservation) list" where
  "list_reservations tok k st = list_children reservation_ok hr_subnet (hc_reservs st) tok k"

record reservation_create =
  hrc_hostname :: "string option"
  hrc_ip :: string
  hrc_hw :: string
  hrc_family :: dhcp_family
  hrc_description :: "string option"

definition new_reservation :: "nat \<Rightarrow> reservation_create \<Rightarrow> dhcp_reservation" where
  "new_reservation k d = \<lparr>hr_subnet = k, hr_hostname = hrc_hostname d, hr_ip = hrc_ip d, hr_hw = hrc_hw d,
     hr_type = family_text (hrc_family d), hr_description = hrc_description d\<rparr>"

definition create_reservation :: "token option \<Rightarrow> nat \<Rightarrow> reservation_create \<Rightarrow> dhcp_state \<Rightarrow> (nat \<times> dhcp_reservation) dhcp_reply" where
  "create_reservation tok k d st =
     add_child tok k (family_text (hrc_family d)) ''dhcp_reservation'' reservation_ok (new_reservation k d) hc_reservs
       (\<lambda>t st. st\<lparr>hc_reservs := t\<rparr>) st"

record reservation_patch =
  hrp_hostname :: "string option option"
  hrp_ip :: "string option option"
  hrp_hw :: "string option option"
  hrp_description :: "string option option"

definition patch_reservation :: "reservation_patch \<Rightarrow> dhcp_reservation \<Rightarrow> dhcp_reservation option" where
  "patch_reservation d r =
     (case (kept (hrp_ip d) (hr_ip r), kept (hrp_hw d) (hr_hw r)) of
        (Some a, Some b) \<Rightarrow> Some (r\<lparr>hr_hostname := patched (hrp_hostname d) (hr_hostname r), hr_ip := a, hr_hw := b,
          hr_description := patched (hrp_description d) (hr_description r)\<rparr>)
      | _ \<Rightarrow> None)"

definition update_reservation :: "token option \<Rightarrow> nat \<Rightarrow> reservation_patch \<Rightarrow> dhcp_state \<Rightarrow> (nat \<times> dhcp_reservation) dhcp_reply" where
  "update_reservation tok j d st = by_admin tok st (\<lambda>u. on_row (hc_reservs st) j st (\<lambda>r.
     set_child u j ''dhcp_reservation'' reservation_ok hr_subnet (patch_reservation d r) hc_reservs (\<lambda>t st. st\<lparr>hc_reservs := t\<rparr>) st))"

definition delete_reservation :: "token option \<Rightarrow> nat \<Rightarrow> dhcp_state \<Rightarrow> nat dhcp_reply" where
  "delete_reservation tok j st = by_admin tok st (\<lambda>u. on_row (hc_reservs st) j st (\<lambda>r.
     drop_child u j ''dhcp_reservation'' (hr_subnet r) False hc_reservs (\<lambda>t st. st\<lparr>hc_reservs := t\<rparr>) st))"

section \<open>Options\<close>

definition option_ok :: "dhcp_option \<Rightarrow> bool" where
  "option_ok p \<longleftrightarrow> between 1 65535 (ho_code p) \<and> name_ok 100 (ho_name p) \<and> 1 \<le> length (ho_value p) \<and> ho_type p \<in> set family_texts"

definition list_options :: "token option \<Rightarrow> nat \<Rightarrow> dhcp_state \<Rightarrow> nat + (nat \<times> dhcp_option) list" where
  "list_options tok k st = list_children option_ok ho_subnet (hc_options st) tok k"

record option_create =
  hoc_code :: int
  hoc_name :: string
  hoc_value :: string
  hoc_family :: dhcp_family

definition new_option :: "nat \<Rightarrow> option_create \<Rightarrow> dhcp_option" where
  "new_option k d = \<lparr>ho_subnet = k, ho_code = hoc_code d, ho_name = hoc_name d, ho_value = hoc_value d, ho_type = family_text (hoc_family d)\<rparr>"

definition create_option :: "token option \<Rightarrow> nat \<Rightarrow> option_create \<Rightarrow> dhcp_state \<Rightarrow> (nat \<times> dhcp_option) dhcp_reply" where
  "create_option tok k d st =
     add_child tok k (family_text (hoc_family d)) ''dhcp_option'' option_ok (new_option k d) hc_options (\<lambda>t st. st\<lparr>hc_options := t\<rparr>) st"

record option_patch =
  hop_code :: "int option option"
  hop_name :: "string option option"
  hop_value :: "string option option"

definition patch_option :: "option_patch \<Rightarrow> dhcp_option \<Rightarrow> dhcp_option option" where
  "patch_option d p =
     (case (kept (hop_code d) (ho_code p), kept (hop_name d) (ho_name p), kept (hop_value d) (ho_value p)) of
        (Some c, Some n, Some v) \<Rightarrow> Some (p\<lparr>ho_code := c, ho_name := n, ho_value := v\<rparr>)
      | _ \<Rightarrow> None)"

definition update_option :: "token option \<Rightarrow> nat \<Rightarrow> option_patch \<Rightarrow> dhcp_state \<Rightarrow> (nat \<times> dhcp_option) dhcp_reply" where
  "update_option tok j d st = by_admin tok st (\<lambda>u.
     if \<not> given_between 1 65535 (hop_code d) then (Inl 422, st)
     else on_row (hc_options st) j st (\<lambda>p.
       set_child u j ''dhcp_option'' option_ok ho_subnet (patch_option d p) hc_options (\<lambda>t st. st\<lparr>hc_options := t\<rparr>) st))"

definition delete_option :: "token option \<Rightarrow> nat \<Rightarrow> dhcp_state \<Rightarrow> nat dhcp_reply" where
  "delete_option tok j st = by_admin tok st (\<lambda>u. on_row (hc_options st) j st (\<lambda>p.
     drop_child u j ''dhcp_option'' (ho_subnet p) False hc_options (\<lambda>t st. st\<lparr>hc_options := t\<rparr>) st))"

section \<open>Leases\<close>

definition lease_state_texts :: "string list" where
  "lease_state_texts = [''active'', ''expired'', ''released'']"

definition lease_ok :: "dhcp_lease \<Rightarrow> bool" where
  "lease_ok l \<longleftrightarrow> hl_state l \<in> Some ` set lease_state_texts"

definition list_subnet_leases :: "token option \<Rightarrow> nat \<Rightarrow> dhcp_state \<Rightarrow> nat + (nat \<times> dhcp_lease) list" where
  "list_subnet_leases tok k st =
     (case require_auth tok of
        Inl c \<Rightarrow> Inl c
      | Inr u \<Rightarrow> sequence_replies (map (checked lease_ok) (sort_key (hl_ip \<circ> snd) (rows_where (\<lambda>l. hl_subnet l = k) (hc_leases st)))))"

definition list_active_leases :: "token option \<Rightarrow> dhcp_state \<Rightarrow> nat + (nat \<times> dhcp_lease) list" where
  "list_active_leases tok st =
     (case require_auth tok of
        Inl c \<Rightarrow> Inl c
      | Inr u \<Rightarrow> sequence_replies (map (checked lease_ok) (rev (sort_key fst (rows_where (\<lambda>l. hl_state l = Some ''active'') (hc_leases st))))))"

text \<open>The release touches the row only.\<close>

definition release_lease :: "token option \<Rightarrow> nat \<Rightarrow> dhcp_state \<Rightarrow> nat dhcp_reply" where
  "release_lease tok j st = by_admin tok st (\<lambda>u. on_row (hc_leases st) j st (\<lambda>l.
     let st1 = st\<lparr>hc_leases := row_set j (l\<lparr>hl_state := Some ''released'', hl_released := True\<rparr>) (hc_leases st)\<rparr> in
     case subnet_instance st (hl_subnet l) of
       None \<Rightarrow> (Inl 500, st1)
     | Some i \<Rightarrow> (Inr j, log_dhcp u ''update'' ''dhcp_lease'' j i (Some (J_Obj [(''state'', J_Str ''released'')])) st1)))"

section \<open>Calls\<close>

datatype dhcp_call =
    New_Dhcp_Server nat dhcp_server_create
  | Patch_Dhcp_Server nat dhcp_server_patch
  | Drop_Dhcp_Server nat
  | Dhcp_Action nat string
  | New_Subnet nat dhcp_subnet_create
  | Patch_Subnet nat dhcp_subnet_patch
  | Drop_Subnet nat
  | New_Pool nat pool_create
  | Patch_Pool nat pool_patch
  | Drop_Pool nat
  | New_Reservation nat reservation_create
  | Patch_Reservation nat reservation_patch
  | Drop_Reservation nat
  | New_Option nat option_create
  | Patch_Option nat option_patch
  | Drop_Option nat
  | Release_Lease nat

definition dhcp_handle :: "token option \<Rightarrow> dhcp_call \<Rightarrow> dhcp_state \<Rightarrow> dhcp_state" where
  "dhcp_handle tok c st =
     (case c of
        New_Dhcp_Server i d \<Rightarrow> snd (create_dhcp_server tok i d st)
      | Patch_Dhcp_Server k d \<Rightarrow> snd (update_dhcp_server tok k d st)
      | Drop_Dhcp_Server k \<Rightarrow> snd (delete_dhcp_server tok k st)
      | Dhcp_Action k a \<Rightarrow> snd (dhcp_server_action tok k a st)
      | New_Subnet k d \<Rightarrow> snd (create_dhcp_subnet tok k d st)
      | Patch_Subnet k d \<Rightarrow> snd (update_dhcp_subnet tok k d st)
      | Drop_Subnet k \<Rightarrow> snd (delete_dhcp_subnet tok k st)
      | New_Pool k d \<Rightarrow> snd (create_pool tok k d st)
      | Patch_Pool j d \<Rightarrow> snd (update_pool tok j d st)
      | Drop_Pool j \<Rightarrow> snd (delete_pool tok j st)
      | New_Reservation k d \<Rightarrow> snd (create_reservation tok k d st)
      | Patch_Reservation j d \<Rightarrow> snd (update_reservation tok j d st)
      | Drop_Reservation j \<Rightarrow> snd (delete_reservation tok j st)
      | New_Option k d \<Rightarrow> snd (create_option tok k d st)
      | Patch_Option j d \<Rightarrow> snd (update_option tok j d st)
      | Drop_Option j \<Rightarrow> snd (delete_option tok j st)
      | Release_Lease j \<Rightarrow> snd (release_lease tok j st))"

text \<open>A run is a list of calls with their tokens.\<close>

definition dhcp_run :: "(token option \<times> dhcp_call) list \<Rightarrow> dhcp_state \<Rightarrow> dhcp_state" where
  "dhcp_run = fold (\<lambda>(tok, c). dhcp_handle tok c)"

end
