(* ===== verification/Gw_Dhcp_Props.thy ===== *)
theory Gw_Dhcp_Props
  imports Gw_Dhcp_Pools Gw_Dns_Props
begin

text \<open>
  The DHCP router over all runs: an invariant of the rows.
\<close>

section \<open>Children and parents\<close>

text \<open>Every child has a parent row it fits.\<close>

definition related :: "('c \<Rightarrow> nat) \<Rightarrow> ('p \<Rightarrow> 'c \<Rightarrow> bool) \<Rightarrow> 'p table \<Rightarrow> 'c table \<Rightarrow> bool" where
  "related f R ps cs \<longleftrightarrow> (\<forall>j c. row_get cs j = Some c \<longrightarrow> (\<exists>p. row_get ps (f c) = Some p \<and> R p c))"

lemma relatedD: "related f R ps cs \<Longrightarrow> row_get cs j = Some c \<Longrightarrow> \<exists>p. row_get ps (f c) = Some p \<and> R p c"
  by (simp add: related_def)

lemma related_add_child:
  "related f R ps cs \<Longrightarrow> table_ok cs \<Longrightarrow> row_add c cs = (k, cs') \<Longrightarrow> row_get ps (f c) = Some p \<Longrightarrow> R p c \<Longrightarrow> related f R ps cs'"
  using rows.get_add[of cs c k cs'] by (auto simp: related_def)

lemma related_set_child: "related f R ps cs \<Longrightarrow> row_get ps (f c) = Some p \<Longrightarrow> R p c \<Longrightarrow> related f R ps (row_set k c cs)"
  by (auto simp: related_def rows.get_put)

lemma related_replace:
  "related f R ps cs \<Longrightarrow> row_get cs k = Some c0 \<Longrightarrow> f c = f c0 \<Longrightarrow> (\<And>p. R p c0 \<Longrightarrow> R p c) \<Longrightarrow> related f R ps (row_set k c cs)"
  using relatedD[of f R ps cs k c0] by (auto intro: related_set_child)

lemma related_del_child: "related f R ps cs \<Longrightarrow> related f R ps (row_del k cs)"
  by (auto simp: related_def rows.get_del)

lemma related_add_parent: "related f R ps cs \<Longrightarrow> table_ok ps \<Longrightarrow> row_add p ps = (k, ps') \<Longrightarrow> related f R ps' cs"
  using rows.get_add[of ps p k ps'] rows.add_fresh[of ps p k ps'] by (fastforce simp: related_def)

lemma related_set_parent:
  "related f R ps cs \<Longrightarrow> row_get ps k = Some p \<Longrightarrow> (\<And>j c. row_get cs j = Some c \<Longrightarrow> f c = k \<Longrightarrow> R p c \<Longrightarrow> R p' c) \<Longrightarrow> related f R (row_set k p' ps) cs"
  by (fastforce simp: related_def rows.get_put)

lemma related_set_same:
  "related f R ps cs \<Longrightarrow> row_get ps k = Some p \<Longrightarrow> (\<And>c. R p c \<Longrightarrow> R p' c) \<Longrightarrow> related f R (row_set k p' ps) cs"
  by (erule (1) related_set_parent) blast

lemma related_drop: "related f R ps cs \<Longrightarrow> table_ok cs \<Longrightarrow> related f R (drop_keys q ps) (drop_rows (q \<circ> f) cs)"
  by (auto simp: related_def get_drop_keys get_drop_rows split: option.splits if_splits)

lemma related_drop_children: "related f R ps cs \<Longrightarrow> table_ok cs \<Longrightarrow> related f R ps (drop_rows q cs)"
  by (auto simp: related_def get_drop_rows split: option.splits if_splits)

section \<open>The invariant\<close>

definition server_good :: "dhcp_server \<Rightarrow> bool" where
  "server_good s \<longleftrightarrow> families_ok (hs_v4 s) (hs_v6 s) \<and> ha_ok (hs_ha s) (hs_peer s)"

definition subnet_good :: "dhcp_subnet \<Rightarrow> bool" where
  "subnet_good n \<longleftrightarrow> hn_type n \<in> set family_texts \<and> windows_ok (hn_min n) (hn_default n) (hn_max n) = Some True"

definition dhcp_inv :: "dhcp_state \<Rightarrow> bool" where
  "dhcp_inv st \<longleftrightarrow> table_ok (hc_servers st) \<and> table_ok (hc_subnets st) \<and> table_ok (hc_pools st) \<and> table_ok (hc_reservs st)
     \<and> table_ok (hc_options st) \<and> table_ok (hc_leases st) \<and> rows_all server_good (hc_servers st) \<and> rows_all subnet_good (hc_subnets st)
     \<and> related hn_server (\<lambda>s n. family_allowed s (hn_type n)) (hc_servers st) (hc_subnets st)
     \<and> related hp_subnet (\<lambda>n p. hp_type p = hn_type n) (hc_subnets st) (hc_pools st)
     \<and> related hr_subnet (\<lambda>n r. hr_type r = hn_type n) (hc_subnets st) (hc_reservs st)
     \<and> related ho_subnet (\<lambda>n p. ho_type p = hn_type n) (hc_subnets st) (hc_options st)
     \<and> related hl_subnet (\<lambda>n l. True) (hc_subnets st) (hc_leases st)"

lemma dhcp_inv_log [simp]: "dhcp_inv (log_dhcp u a ty k i n st) = dhcp_inv st"
  by (simp add: dhcp_inv_def log_dhcp_def)

lemma dhcp_inv_logged [simp]: "dhcp_inv (snd (logged own u a ty k r st)) = dhcp_inv st"
  by (simp add: logged_def split: option.split)

lemma by_admin_inv: "dhcp_inv st \<Longrightarrow> (\<And>u. dhcp_inv (snd (f u))) \<Longrightarrow> dhcp_inv (snd (by_admin tok st f))"
  by (simp add: by_admin_def split: sum.split)

lemma on_row_inv: "dhcp_inv st \<Longrightarrow> (\<And>r. row_get t k = Some r \<Longrightarrow> dhcp_inv (snd (f r))) \<Longrightarrow> dhcp_inv (snd (on_row t k st f))"
  by (simp add: on_row_def split: option.split)

lemmas tables_keep = rows.ok_put rows.ok_del ok_drop_keys ok_drop_rows

lemma add_dhcp_server_inv:
  assumes "dhcp_inv st" "row_add s (hc_servers st) = (k, t')" "server_good s"
  shows "dhcp_inv (st\<lparr>hc_servers := t'\<rparr>)"
proof -
  have ok: "table_ok (hc_servers st)" using assms(1) by (simp add: dhcp_inv_def)
  show ?thesis using assms rows.ok_add[OF ok assms(2)] by (auto simp: dhcp_inv_def intro: rows_all_add related_add_parent)
qed

lemma set_dhcp_server_inv:
  assumes "dhcp_inv st" "row_get (hc_servers st) k = Some s" "server_good s'"
    "\<And>j n. row_get (hc_subnets st) j = Some n \<Longrightarrow> hn_server n = k \<Longrightarrow> family_allowed s (hn_type n) \<Longrightarrow> family_allowed s' (hn_type n)"
  shows "dhcp_inv (st\<lparr>hc_servers := row_set k s' (hc_servers st)\<rparr>)"
proof -
  have "related hn_server (\<lambda>s n. family_allowed s (hn_type n)) (row_set k s' (hc_servers st)) (hc_subnets st)"
    by (rule related_set_parent[OF _ assms(2)]) (use assms(1,4) in \<open>auto simp: dhcp_inv_def\<close>)
  with assms(1,3) show ?thesis by (auto simp: dhcp_inv_def tables_keep intro: rows_all_set)
qed

lemma add_dhcp_subnet_inv:
  assumes "dhcp_inv st" "row_add n (hc_subnets st) = (k, t')" "subnet_good n" "row_get (hc_servers st) (hn_server n) = Some s"
    "family_allowed s (hn_type n)"
  shows "dhcp_inv (st\<lparr>hc_subnets := t'\<rparr>)"
proof -
  have ok: "table_ok (hc_subnets st)" using assms(1) by (simp add: dhcp_inv_def)
  show ?thesis using assms rows.ok_add[OF ok assms(2)]
    by (auto simp: dhcp_inv_def intro: rows_all_add related_add_parent related_add_child)
qed

lemma set_dhcp_subnet_inv:
  assumes "dhcp_inv st" "row_get (hc_subnets st) k = Some n" "subnet_good n'" "hn_type n' = hn_type n" "hn_server n' = hn_server n"
  shows "dhcp_inv (st\<lparr>hc_subnets := row_set k n' (hc_subnets st)\<rparr>)"
proof -
  obtain s where "row_get (hc_servers st) (hn_server n) = Some s" "family_allowed s (hn_type n)"
    using relatedD[OF _ assms(2)] assms(1) by (fastforce simp: dhcp_inv_def)
  then have "related hn_server (\<lambda>s n. family_allowed s (hn_type n)) (hc_servers st) (row_set k n' (hc_subnets st))"
    using assms(1,4,5) by (intro related_set_child[of _ _ _ _ _ s]) (auto simp: dhcp_inv_def)
  with assms(1,3,4) show ?thesis
    by (auto simp: dhcp_inv_def tables_keep intro: rows_all_set related_set_same[OF _ assms(2)])
qed

lemma drop_subnets_inv:
  assumes "dhcp_inv st"
  shows "dhcp_inv (drop_subnets q st)"
proof -
  have "rows_all subnet_good (drop_keys q (hc_subnets st))"
    using assms by (auto simp: dhcp_inv_def rows_all_def get_drop_keys split: if_splits)
  moreover have "related hn_server (\<lambda>s n. family_allowed s (hn_type n)) (hc_servers st) (drop_keys q (hc_subnets st))"
    using assms by (auto simp: dhcp_inv_def related_def get_drop_keys split: if_splits)
  ultimately show ?thesis using assms by (auto simp: dhcp_inv_def drop_subnets_def tables_keep intro: related_drop)
qed

lemma drop_server_inv2:
  assumes "dhcp_inv st"
  shows "dhcp_inv ((drop_subnets (\<lambda>j. j \<in> fst ` set (subnets_of st k)) st)\<lparr>hc_servers := row_del k (hc_servers st)\<rparr>)"
proof -
  let ?q = "\<lambda>j. j \<in> fst ` set (subnets_of st k)"
  have ok: "table_ok (hc_subnets st)" using assms by (simp add: dhcp_inv_def)
  have q: "?q j" if "row_get (hc_subnets st) j = Some n" "hn_server n = k" for j n
  proof -
    have "(j, n) \<in> set (subnets_of st k)" using that rows_where_get[OF ok] by (simp add: subnets_of_def)
    then show ?thesis by (rule image_eqI[rotated]) simp
  qed
  have "related hn_server (\<lambda>s n. family_allowed s (hn_type n)) (row_del k (hc_servers st)) (drop_keys ?q (hc_subnets st))"
    using assms q by (auto simp: dhcp_inv_def related_def get_drop_keys rows.get_del split: if_splits)
  moreover have "rows_all server_good (row_del k (hc_servers st))" using assms by (auto simp: dhcp_inv_def rows_all_def rows.get_del split: if_splits)
  ultimately show ?thesis using drop_subnets_inv[OF assms, of ?q] assms by (simp add: dhcp_inv_def drop_subnets_def tables_keep)
qed

section \<open>Every call keeps it\<close>

lemma dhcp_server_calls_inv:
  assumes "dhcp_inv st"
  shows "dhcp_inv (snd (create_dhcp_server tok i d st))" "dhcp_inv (snd (update_dhcp_server tok k p st))"
    "dhcp_inv (snd (delete_dhcp_server tok k st))" "dhcp_inv (snd (dhcp_server_action tok k a st))"
proof -
  show "dhcp_inv (snd (create_dhcp_server tok i d st))" unfolding create_dhcp_server_def
    by (intro by_admin_inv assms)
      (auto simp: Let_def assms server_good_def new_dhcp_server_def split: prod.splits intro!: add_dhcp_server_inv)
  show "dhcp_inv (snd (delete_dhcp_server tok k st))" unfolding delete_dhcp_server_def
    by (intro by_admin_inv on_row_inv assms) (simp add: Let_def assms drop_server_inv2)
  have good: "server_good s" if "row_get (hc_servers st) k = Some s" for s
    using assms that rows_allD[of server_good "hc_servers st" k s] by (simp add: dhcp_inv_def)
  have status: "dhcp_inv (st\<lparr>hc_servers := row_set k (s\<lparr>hs_status := v\<rparr>) (hc_servers st)\<rparr>)"
    "dhcp_inv (st\<lparr>hc_servers := row_set k s (hc_servers st)\<rparr>)" if "row_get (hc_servers st) k = Some s" for s v
    using good[OF that] by (auto intro!: set_dhcp_server_inv[OF assms that] simp: server_good_def family_allowed_def)
  show "dhcp_inv (snd (dhcp_server_action tok k a st))" unfolding dhcp_server_action_def
    by (intro by_admin_inv on_row_inv assms) (simp add: Let_def assms status)
  have ok: "table_ok (hc_subnets st)" using assms by (simp add: dhcp_inv_def)
  show "dhcp_inv (snd (update_dhcp_server tok k p st))" unfolding update_dhcp_server_def
  proof (intro by_admin_inv assms)
    fix u
    have "dhcp_inv (st\<lparr>hc_servers := row_set k s' (hc_servers st)\<rparr>)"
      if s: "row_get (hc_servers st) k = Some s" and f: "families_ok (patched (hsp_v4 p) (hs_v4 s)) (patched (hsp_v6 p) (hs_v6 s))"
        "ha_ok (patched (hsp_ha p) (hs_ha s)) (patched (hsp_peer p) (hs_peer s))"
        "\<not> family_in_use st k s (patched (hsp_v4 p) (hs_v4 s)) (patched (hsp_v6 p) (hs_v6 s))" and s': "patch_dhcp_server p s = Some s'" for s s'
    proof (rule set_dhcp_server_inv[OF assms s])
      have e: "hs_v4 s' = patched (hsp_v4 p) (hs_v4 s)" "hs_v6 s' = patched (hsp_v6 p) (hs_v6 s)" "hs_ha s' = patched (hsp_ha p) (hs_ha s)"
        "hs_peer s' = patched (hsp_peer p) (hs_peer s)"
        using s' by (auto simp: patch_dhcp_server_def split: option.splits)
      then show "server_good s'" using f by (simp add: server_good_def)
      fix j n assume n: "row_get (hc_subnets st) j = Some n" "hn_server n = k" and al: "family_allowed s (hn_type n)"
      then have "(j, n) \<in> set (subnets_of st k)" using rows_where_get[OF ok] by (simp add: subnets_of_def)
      with f(3) al show "family_allowed s' (hn_type n)"
        by (auto simp: family_in_use_def family_allowed_def e list_ex_iff)
    qed
    then show "dhcp_inv (snd (if \<not> given_between 1 65535 (hsp_port p) then (Inl 422, st) else on_row (hc_servers st) k st (\<lambda>s.
       let v4 = patched (hsp_v4 p) (hs_v4 s); v6 = patched (hsp_v6 p) (hs_v6 s) in
       if \<not> families_ok v4 v6 \<or> \<not> ha_ok (patched (hsp_ha p) (hs_ha s)) (patched (hsp_peer p) (hs_peer s)) \<or> family_in_use st k s v4 v6 then (Inl 400, st)
       else (case patch_dhcp_server p s of
           None \<Rightarrow> (Inl 500, st)
         | Some s' \<Rightarrow> (dhcp_server_response k s' 0,
             log_dhcp u ''update'' ''dhcp_server'' k (hs_instance s') None (st\<lparr>hc_servers := row_set k s' (hc_servers st)\<rparr>))))))"
      using assms by (auto simp: on_row_def Let_def split: option.splits)
  qed
qed

lemma dhcp_subnet_calls_inv:
  assumes "dhcp_inv st"
  shows "dhcp_inv (snd (create_dhcp_subnet tok k d st))" "dhcp_inv (snd (update_dhcp_subnet tok k p st))"
    "dhcp_inv (snd (delete_dhcp_subnet tok k st))"
proof -
  have t: "family_text f \<in> set family_texts" for f by (cases f) (simp_all add: family_text_def family_texts_def)
  show "dhcp_inv (snd (create_dhcp_subnet tok k d st))" unfolding create_dhcp_subnet_def
    by (intro by_admin_inv assms)
      (auto simp: on_row_def Let_def assms subnet_good_def new_dhcp_subnet_def t split: prod.splits option.splits intro!: add_dhcp_subnet_inv)
  show "dhcp_inv (snd (delete_dhcp_subnet tok k st))" unfolding delete_dhcp_subnet_def
    by (intro by_admin_inv on_row_inv assms) (simp add: assms drop_subnets_inv)
  have good: "hn_type n \<in> set family_texts" if "row_get (hc_subnets st) k = Some n" for n
    using assms that rows_allD[of subnet_good "hc_subnets st" k n] by (simp add: dhcp_inv_def subnet_good_def)
  have patch: "dhcp_inv (st\<lparr>hc_subnets := row_set k n' (hc_subnets st)\<rparr>)" if "row_get (hc_subnets st) k = Some n"
    "patch_dhcp_subnet p n = Some n'"
    "windows_ok (patched (hnp_min p) (hn_min n)) (patched (hnp_default p) (hn_default n)) (patched (hnp_max p) (hn_max n)) = Some True" for n n'
    by (rule set_dhcp_subnet_inv[OF assms that(1)])
      (use that good in \<open>auto simp: patch_dhcp_subnet_def subnet_good_def split: option.splits\<close>)
  show "dhcp_inv (snd (update_dhcp_subnet tok k p st))" unfolding update_dhcp_subnet_def
    by (intro by_admin_inv assms) (auto simp: on_row_def assms patch split: option.splits bool.splits)
qed

text \<open>The calls on the rows below a subnet, for the three kinds alike.\<close>

lemma add_child_inv:
  assumes "dhcp_inv st"
    "\<And>n j t'. row_get (hc_subnets st) k = Some n \<Longrightarrow> family = hn_type n \<Longrightarrow> row_add r (get st) = (j, t') \<Longrightarrow> dhcp_inv (put t' st)"
  shows "dhcp_inv (snd (add_child tok k family rtype ok r get put st))"
  unfolding add_child_def by (intro by_admin_inv assms(1)) (auto simp: on_row_def Let_def assms split: option.splits prod.splits)

lemma set_child_inv:
  assumes "dhcp_inv st" "\<And>r. row = Some r \<Longrightarrow> dhcp_inv (put (row_set j r (get st)) st)"
  shows "dhcp_inv (snd (set_child u j rtype ok parent row get put st))"
  by (simp add: set_child_def assms split: option.split)

lemma drop_child_inv:
  assumes "dhcp_inv st" "dhcp_inv (put (row_del j (get st)) st)"
  shows "dhcp_inv (snd (drop_child u j rtype parent held get put st))"
  by (simp add: drop_child_def assms)

lemma pool_table_inv:
  assumes "dhcp_inv st"
  shows "row_get (hc_subnets st) (hp_subnet p) = Some n \<Longrightarrow> hp_type p = hn_type n \<Longrightarrow> row_add p (hc_pools st) = (j, t) \<Longrightarrow> dhcp_inv (st\<lparr>hc_pools := t\<rparr>)"
    "row_get (hc_pools st) k = Some p0 \<Longrightarrow> hp_subnet p = hp_subnet p0 \<Longrightarrow> hp_type p = hp_type p0 \<Longrightarrow> dhcp_inv (st\<lparr>hc_pools := row_set k p (hc_pools st)\<rparr>)"
    "dhcp_inv (st\<lparr>hc_pools := row_del k (hc_pools st)\<rparr>)"
  using assms
  by (auto simp: dhcp_inv_def tables_keep intro: rows.ok_add related_add_child related_del_child related_replace)

lemma reservation_table_inv:
  assumes "dhcp_inv st"
  shows "row_get (hc_subnets st) (hr_subnet p) = Some n \<Longrightarrow> hr_type p = hn_type n \<Longrightarrow> row_add p (hc_reservs st) = (j, t) \<Longrightarrow> dhcp_inv (st\<lparr>hc_reservs := t\<rparr>)"
    "row_get (hc_reservs st) k = Some p0 \<Longrightarrow> hr_subnet p = hr_subnet p0 \<Longrightarrow> hr_type p = hr_type p0 \<Longrightarrow> dhcp_inv (st\<lparr>hc_reservs := row_set k p (hc_reservs st)\<rparr>)"
    "dhcp_inv (st\<lparr>hc_reservs := row_del k (hc_reservs st)\<rparr>)"
  using assms
  by (auto simp: dhcp_inv_def tables_keep intro: rows.ok_add related_add_child related_del_child related_replace)

lemma option_table_inv:
  assumes "dhcp_inv st"
  shows "row_get (hc_subnets st) (ho_subnet p) = Some n \<Longrightarrow> ho_type p = hn_type n \<Longrightarrow> row_add p (hc_options st) = (j, t) \<Longrightarrow> dhcp_inv (st\<lparr>hc_options := t\<rparr>)"
    "row_get (hc_options st) k = Some p0 \<Longrightarrow> ho_subnet p = ho_subnet p0 \<Longrightarrow> ho_type p = ho_type p0 \<Longrightarrow> dhcp_inv (st\<lparr>hc_options := row_set k p (hc_options st)\<rparr>)"
    "dhcp_inv (st\<lparr>hc_options := row_del k (hc_options st)\<rparr>)"
  using assms
  by (auto simp: dhcp_inv_def tables_keep intro: rows.ok_add related_add_child related_del_child related_replace)

lemma lease_set_inv:
  assumes "dhcp_inv st" "row_get (hc_leases st) k = Some l0" "hl_subnet l = hl_subnet l0"
  shows "dhcp_inv (st\<lparr>hc_leases := row_set k l (hc_leases st)\<rparr>)"
  using assms by (auto simp: dhcp_inv_def tables_keep intro: related_replace)

lemma patched_children:
  "patch_pool d p = Some p' \<Longrightarrow> hp_subnet p' = hp_subnet p \<and> hp_type p' = hp_type p"
  "patch_reservation e r = Some r' \<Longrightarrow> hr_subnet r' = hr_subnet r \<and> hr_type r' = hr_type r"
  "patch_option g q = Some q' \<Longrightarrow> ho_subnet q' = ho_subnet q \<and> ho_type q' = ho_type q"
  by (auto simp: patch_pool_def patch_reservation_def patch_option_def split: option.splits)

lemma dhcp_child_calls_inv:
  assumes "dhcp_inv st"
  shows "dhcp_inv (snd (create_pool tok k d st))" "dhcp_inv (snd (update_pool tok k p st))" "dhcp_inv (snd (delete_pool tok k st))"
    "dhcp_inv (snd (create_reservation tok k e st))" "dhcp_inv (snd (update_reservation tok k q st))" "dhcp_inv (snd (delete_reservation tok k st))"
    "dhcp_inv (snd (create_option tok k g st))" "dhcp_inv (snd (update_option tok k h st))" "dhcp_inv (snd (delete_option tok k st))"
    "dhcp_inv (snd (release_lease tok k st))"
proof -
  note t = pool_table_inv[OF assms] reservation_table_inv[OF assms] option_table_inv[OF assms]
  show "dhcp_inv (snd (create_pool tok k d st))" "dhcp_inv (snd (create_reservation tok k e st))" "dhcp_inv (snd (create_option tok k g st))"
    unfolding create_pool_def create_reservation_def create_option_def
    by (rule add_child_inv[OF assms]; rule t; simp add: new_pool_def new_reservation_def new_option_def)+
  show "dhcp_inv (snd (update_pool tok k p st))" unfolding update_pool_def
    by (auto intro!: by_admin_inv on_row_inv set_child_inv assms t(2) dest: patched_children(1))
  show "dhcp_inv (snd (update_reservation tok k q st))" unfolding update_reservation_def
    by (auto intro!: by_admin_inv on_row_inv set_child_inv assms t(5) dest: patched_children(2))
  show "dhcp_inv (snd (update_option tok k h st))" unfolding update_option_def
    by (intro by_admin_inv assms) (auto intro!: on_row_inv set_child_inv assms t(8) dest: patched_children(3))
  show "dhcp_inv (snd (delete_pool tok k st))" "dhcp_inv (snd (delete_reservation tok k st))" "dhcp_inv (snd (delete_option tok k st))"
    unfolding delete_pool_def delete_reservation_def delete_option_def
    by (intro by_admin_inv on_row_inv drop_child_inv assms t)+
  show "dhcp_inv (snd (release_lease tok k st))" unfolding release_lease_def
    by (intro by_admin_inv on_row_inv assms) (auto simp: Let_def split: option.split intro!: lease_set_inv[OF assms])
qed

lemma dhcp_handle_inv: "dhcp_inv st \<Longrightarrow> dhcp_inv (dhcp_handle tok c st)"
  by (cases c) (simp_all add: dhcp_handle_def dhcp_server_calls_inv dhcp_subnet_calls_inv dhcp_child_calls_inv)

lemma dhcp_run_inv: "dhcp_inv st \<Longrightarrow> dhcp_inv (dhcp_run cs st)"
  unfolding dhcp_run_def by (induction cs arbitrary: st) (auto simp: dhcp_handle_inv)

end
