(* ===== verification/Dhcp_Agent.thy ===== *)
theory Dhcp_Agent
  imports Node_Netplan Gw_Base
begin

text \<open>
  \<open>services/dhcp-service/dhcp_agent.py\<close>: rendering the two Kea configurations, applying them, and the lease files.

  A configuration file is its JSON value; the text of \<open>json.dumps\<close> is not modelled. Every endpoint is open:
  the agent checks no key.
\<close>

section \<open>Payload\<close>

record kea_option =
  ko_code :: int
  ko_name :: string
  ko_value :: string
  ko_type :: string

record kea_reservation =
  kr_hostname :: "string option"
  kr_ip :: string
  kr_hw :: string
  kr_type :: string
  kr_enabled :: bool

record kea_pool =
  kp_start :: string
  kp_end :: string
  kp_type :: string
  kp_enabled :: bool

record kea_subnet =
  kn_id :: int
  kn_subnet :: string
  kn_type :: string
  kn_interface :: "string option"
  kn_relays :: "string list"
  kn_domain :: "string option"
  kn_dns :: "string list"
  kn_ntp :: "string list"
  kn_routers :: "string list"
  kn_default :: int
  kn_max :: int
  kn_min :: int
  kn_delegated :: "int option"
  kn_enabled :: bool
  kn_pools :: "kea_pool list"
  kn_reservs :: "kea_reservation list"
  kn_options :: "kea_option list"

record kea_payload =
  ky_name :: string
  ky_address :: string
  ky_port :: int
  ky_ha :: bool
  ky_mode :: string
  ky_peer :: "string option"
  ky_v4 :: bool
  ky_v6 :: bool
  ky_subnets :: "kea_subnet list"

section \<open>Rendering\<close>

definition name_data :: "string \<Rightarrow> string \<Rightarrow> json" where
  "name_data n d = J_Obj [(''name'', J_Str n), (''data'', J_Str d)]"

definition listed_data :: "string \<Rightarrow> string list \<Rightarrow> json list" where
  "listed_data n xs = (if xs = [] then [] else [name_data n (join '', '' xs)])"

definition stated_data :: "string \<Rightarrow> string option \<Rightarrow> json list" where
  "stated_data n v = (if truthy_str v then [name_data n (or_empty v)] else [])"

definition own_options :: "string \<Rightarrow> kea_subnet \<Rightarrow> json list" where
  "own_options t n = map (\<lambda>p. J_Obj [(''name'', J_Str (ko_name p)), (''code'', J_Int (ko_code p)), (''data'', J_Str (ko_value p))])
     (filter (\<lambda>p. ko_type p = t) (kn_options n))"

definition option_data_v4 :: "kea_subnet \<Rightarrow> json list" where
  "option_data_v4 n = listed_data ''routers'' (kn_routers n) @ listed_data ''domain-name-servers'' (kn_dns n) @ stated_data ''domain-name'' (kn_domain n)
     @ listed_data ''ntp-servers'' (kn_ntp n) @ own_options ''v4'' n"

definition option_data_v6 :: "kea_subnet \<Rightarrow> json list" where
  "option_data_v6 n = listed_data ''dns-servers'' (kn_dns n) @ stated_data ''domain-search'' (kn_domain n) @ listed_data ''sntp-servers'' (kn_ntp n)
     @ own_options ''v6'' n"

definition hostname_part :: "kea_reservation \<Rightarrow> (string \<times> json) list" where
  "hostname_part r = (if truthy_str (kr_hostname r) then [(''hostname'', J_Str (or_empty (kr_hostname r)))] else [])"

definition reservations_v4 :: "kea_subnet \<Rightarrow> json list" where
  "reservations_v4 n = map (\<lambda>r. J_Obj ([(''hw-address'', J_Str (kr_hw r)), (''ip-address'', J_Str (kr_ip r))] @ hostname_part r))
     (filter (\<lambda>r. kr_enabled r \<and> kr_type r = ''v4'') (kn_reservs n))"

definition reservations_v6 :: "kea_subnet \<Rightarrow> json list" where
  "reservations_v6 n = map (\<lambda>r. J_Obj ([(''duid'', J_Str (kr_hw r)), (''ip-addresses'', J_List [J_Str (kr_ip r)])] @ hostname_part r))
     (filter (\<lambda>r. kr_enabled r \<and> kr_type r = ''v6'') (kn_reservs n))"

definition pool_entries :: "string \<Rightarrow> kea_subnet \<Rightarrow> json list" where
  "pool_entries t n = map (\<lambda>p. J_Obj [(''pool'', J_Str (kp_start p @ '' - '' @ kp_end p))])
     (filter (\<lambda>p. kp_enabled p \<and> kp_type p = t) (kn_pools n))"

definition relay_part :: "kea_subnet \<Rightarrow> (string \<times> json) list" where
  "relay_part n = (if kn_relays n = [] then [] else [(''relay'', J_Obj [(''ip-addresses'', J_List (map J_Str (kn_relays n)))])])
     @ (if truthy_str (kn_interface n) then [(''interface'', J_Str (or_empty (kn_interface n)))] else [])"

text \<open>A subnet that does not parse is a \<open>ValueError\<close>, here \<open>None\<close>.\<close>

definition pd_pools :: "kea_subnet \<Rightarrow> json list option" where
  "pd_pools n =
     (case (if kn_type n = ''v6'' then kn_delegated n else None) of
        None \<Rightarrow> Some []
      | Some len \<Rightarrow>
          (case ip_network False (kn_subnet n) of
             None \<Rightarrow> None
           | Some (Net4 w p) \<Rightarrow> Some []
           | Some (Net6 w sc p) \<Rightarrow>
               Some (if len < int p then [] else [J_Obj [(''prefix'', J_Str (ip6_str w sc)), (''prefix-len'', J_Int (int p)), (''delegated-len'', J_Int len)]])))"

definition subnet4 :: "kea_subnet \<Rightarrow> json" where
  "subnet4 n = J_Obj ([(''id'', J_Int (kn_id n)), (''subnet'', J_Str (kn_subnet n)), (''valid-lifetime'', J_Int (kn_default n)),
     (''min-valid-lifetime'', J_Int (kn_min n)), (''max-valid-lifetime'', J_Int (kn_max n)), (''option-data'', J_List (option_data_v4 n)),
     (''pools'', J_List (pool_entries ''v4'' n)), (''reservations'', J_List (reservations_v4 n))] @ relay_part n)"

definition subnet6 :: "kea_subnet \<Rightarrow> json option" where
  "subnet6 n = map_option (\<lambda>pd. J_Obj ([(''id'', J_Int (kn_id n)), (''subnet'', J_Str (kn_subnet n)), (''preferred-lifetime'', J_Int (kn_default n)),
     (''valid-lifetime'', J_Int (kn_max n)), (''renew-timer'', J_Int (kn_min n)), (''rebind-timer'', J_Int (kn_default n)),
     (''option-data'', J_List (option_data_v6 n)), (''pools'', J_List (pool_entries ''v6'' n)), (''reservations'', J_List (reservations_v6 n))]
     @ (if pd = [] then [] else [(''pd-pools'', J_List pd)]) @ relay_part n)) (pd_pools n)"

definition ha_hooks :: "kea_payload \<Rightarrow> json list" where
  "ha_hooks p =
     (if \<not> ky_ha p \<or> \<not> truthy_str (ky_peer p) then []
      else [J_Obj [(''name'', J_Str ''high-availability''), (''library'', J_Str ''/usr/lib/x86_64-linux-gnu/kea/hooks/libdhcp_ha.so''),
        (''parameters'', J_Obj [(''high-availability'', J_List [J_Obj [(''this-server-name'', J_Str (ky_name p)), (''mode'', J_Str (ky_mode p)),
          (''heartbeat-delay'', J_Int 10000), (''max-response-delay'', J_Int 60000), (''max-ack-delay'', J_Int 5000),
          (''peers'', J_List
            [J_Obj [(''name'', J_Str (ky_name p)), (''url'', J_Str (''http://'' @ ky_address p @ '':'' @ string_of_int (ky_port p) @ ''/'')), (''role'', J_Str ''primary'')],
             J_Obj [(''name'', J_Str (ky_name p @ ''-peer'')), (''url'', J_Str (''http://'' @ or_empty (ky_peer p) @ '':'' @ string_of_int (ky_port p) @ ''/'')),
               (''role'', J_Str ''standby'')]])]])])]])"

text \<open>The interfaces of all subnets of the family, the disabled ones too; without one the server listens everywhere.\<close>

definition kea_interfaces :: "string \<Rightarrow> kea_payload \<Rightarrow> string list" where
  "kea_interfaces t p =
     (let names = sort (remdups (map (or_empty \<circ> kn_interface) (filter (\<lambda>n. truthy_str (kn_interface n) \<and> kn_type n = t) (ky_subnets p)))) in
      if names = [] then [''*''] else names)"

definition served_subnets :: "string \<Rightarrow> kea_payload \<Rightarrow> kea_subnet list" where
  "served_subnets t p = filter (\<lambda>n. kn_enabled n \<and> kn_type n = t) (ky_subnets p)"

definition kea_common :: "string \<Rightarrow> string \<Rightarrow> string list \<Rightarrow> (string \<times> json) list" where
  "kea_common leases socket interfaces =
     [(''interfaces-config'', J_Obj [(''interfaces'', J_List (map J_Str interfaces))]),
      (''lease-database'', J_Obj [(''type'', J_Str ''memfile''), (''name'', J_Str leases), (''persist'', J_Bool True)]),
      (''control-socket'', J_Obj [(''socket-type'', J_Str ''unix''), (''socket-name'', J_Str socket)])]"

definition kea_logger :: "string \<Rightarrow> (string \<times> json)" where
  "kea_logger n = (''loggers'', J_List [J_Obj [(''name'', J_Str n), (''severity'', J_Str ''INFO''),
     (''output-options'', J_List [J_Obj [(''output'', J_Str ''stdout'')]])]])"

definition render_dhcp4 :: "string \<Rightarrow> kea_payload \<Rightarrow> json" where
  "render_dhcp4 leases p = J_Obj [(''Dhcp4'', J_Obj (kea_common leases ''/tmp/kea4-ctrl-socket'' (kea_interfaces ''v4'' p)
     @ [(''renew-timer'', J_Int 900), (''rebind-timer'', J_Int 1800), (''valid-lifetime'', J_Int 3600),
        (''subnet4'', J_List (map subnet4 (served_subnets ''v4'' p))), (''hooks-libraries'', J_List (ha_hooks p)), kea_logger ''kea-dhcp4'']))]"

definition render_dhcp6 :: "string \<Rightarrow> kea_payload \<Rightarrow> json option" where
  "render_dhcp6 leases p = map_option (\<lambda>ns. J_Obj [(''Dhcp6'', J_Obj (kea_common leases ''/tmp/kea6-ctrl-socket'' (kea_interfaces ''v6'' p)
     @ [(''preferred-lifetime'', J_Int 1800), (''valid-lifetime'', J_Int 3600), (''renew-timer'', J_Int 900), (''rebind-timer'', J_Int 1800),
        (''subnet6'', J_List ns), (''hooks-libraries'', J_List (ha_hooks p)), kea_logger ''kea-dhcp6'']))])
     (those (map subnet6 (served_subnets ''v6'' p)))"

section \<open>Applying\<close>

datatype kea_daemon = Kea4 | Kea6

text \<open>The host: the two files, the lease files, what each daemon runs with, and the commands run so far.\<close>

record kea_host =
  kh_conf :: "kea_daemon \<Rightarrow> json option"
  kh_leases :: "kea_daemon \<Rightarrow> string option"
  kh_running :: "kea_daemon \<Rightarrow> json option"
  kh_log :: "string list list"

datatype kea_outcome = Kea_Exit int | Kea_Missing

text \<open>What the tools answer, and what a daemon runs with after a restart that failed.\<close>

record kea_env =
  ke_commands :: bool
  ke_conf_path :: "kea_daemon \<Rightarrow> string"
  ke_lease_path :: "kea_daemon \<Rightarrow> string"
  ke_write_ok :: "kea_daemon \<Rightarrow> bool"
  ke_test :: "kea_daemon \<Rightarrow> json \<Rightarrow> kea_outcome"
  ke_restart :: "kea_daemon \<Rightarrow> json option \<Rightarrow> kea_outcome"
  ke_left :: "kea_daemon \<Rightarrow> json option \<Rightarrow> json option"
  ke_restart_ctrl :: kea_outcome

definition daemon_name :: "kea_daemon \<Rightarrow> string" where
  "daemon_name d = (case d of Kea4 \<Rightarrow> ''kea-dhcp4'' | Kea6 \<Rightarrow> ''kea-dhcp6'')"

definition kea_rendered :: "kea_env \<Rightarrow> kea_payload \<Rightarrow> kea_daemon \<Rightarrow> json option" where
  "kea_rendered env p d = (case d of Kea4 \<Rightarrow> Some (render_dhcp4 (ke_lease_path env Kea4) p) | Kea6 \<Rightarrow> render_dhcp6 (ke_lease_path env Kea6) p)"

datatype kea_step = Write_Conf kea_daemon | Test_Conf kea_daemon | Restart_Daemon kea_daemon | Restart_Ctrl

text \<open>A step passes, fails with an exit code, or ends the request with an exception.\<close>

datatype kea_result = Step_Passed | Step_Failed | Step_Raised

definition ran :: "kea_outcome \<Rightarrow> kea_result" where
  "ran r = (case r of Kea_Missing \<Rightarrow> Step_Raised | Kea_Exit c \<Rightarrow> if c = 0 then Step_Passed else Step_Failed)"

definition kea_exec :: "kea_env \<Rightarrow> kea_payload \<Rightarrow> kea_step \<Rightarrow> kea_host \<Rightarrow> kea_result \<times> kea_host" where
  "kea_exec env p s h =
     (case s of
        Write_Conf d \<Rightarrow>
          (case kea_rendered env p d of
             None \<Rightarrow> (Step_Raised, h)
           | Some j \<Rightarrow> if ke_write_ok env d then (Step_Passed, h\<lparr>kh_conf := (kh_conf h)(d \<mapsto> j)\<rparr>) else (Step_Raised, h))
      | Test_Conf d \<Rightarrow>
          (if \<not> ke_commands env then (Step_Passed, h)
           else (ran (case kh_conf h d of None \<Rightarrow> Kea_Exit 1 | Some j \<Rightarrow> ke_test env d j),
                 h\<lparr>kh_log := kh_log h @ [[daemon_name d, ''-t'', ''-c'', ke_conf_path env d]]\<rparr>))
      | Restart_Daemon d \<Rightarrow>
          (let r = ke_restart env d (kh_conf h d) in
           (ran r, h\<lparr>kh_log := kh_log h @ [[''service'', daemon_name d @ ''-server'', ''restart'']],
              kh_running := (if r = Kea_Missing then kh_running h
                else (kh_running h)(d := if r = Kea_Exit 0 then kh_conf h d else ke_left env d (kh_conf h d)))\<rparr>))
      | Restart_Ctrl \<Rightarrow> (ran (ke_restart_ctrl env), h\<lparr>kh_log := kh_log h @ [[''service'', ''kea-ctrl-agent'', ''restart'']]\<rparr>))"

definition kea_steps :: "kea_env \<Rightarrow> kea_payload \<Rightarrow> kea_step list" where
  "kea_steps env p =
     (if ky_v4 p then [Write_Conf Kea4, Test_Conf Kea4] else []) @ (if ky_v6 p then [Write_Conf Kea6, Test_Conf Kea6] else [])
     @ (if ke_commands env then (if ky_v4 p then [Restart_Daemon Kea4] else []) @ (if ky_v6 p then [Restart_Daemon Kea6] else []) @ [Restart_Ctrl]
        else [])"

text \<open>A step that fails does not stop the later ones.\<close>

fun run_kea :: "kea_env \<Rightarrow> kea_payload \<Rightarrow> kea_step list \<Rightarrow> bool \<Rightarrow> kea_host \<Rightarrow> nat \<times> kea_host" where
  "run_kea env p [] failed h = (if failed then 500 else 200, h)"
| "run_kea env p (s # ss) failed h =
     (case kea_exec env p s h of
        (Step_Raised, h1) \<Rightarrow> (500, h1)
      | (Step_Passed, h1) \<Rightarrow> run_kea env p ss failed h1
      | (Step_Failed, h1) \<Rightarrow> run_kea env p ss True h1)"

definition apply_kea :: "kea_env \<Rightarrow> kea_payload \<Rightarrow> kea_host \<Rightarrow> nat \<times> kea_host" where
  "apply_kea env p = run_kea env p (kea_steps env p) False"

end
