(* ===== verification/Dhcp_Leases.thy ===== *)
theory Dhcp_Leases
  imports Dhcp_Agent
begin

text \<open>
  \<open>services/dhcp-service/dhcp_agent.py\<close>: reading the lease files and releasing a lease. The reader of Python's
  \<open>csv\<close> module is written out as the automaton it is, for lines without line ends.
\<close>

section \<open>csv\<close>

text \<open>\<open>START_FIELD\<close>, \<open>IN_FIELD\<close>, \<open>IN_QUOTED_FIELD\<close> and \<open>QUOTE_IN_QUOTED_FIELD\<close>.\<close>

datatype csv_mode = Csv_Start | Csv_Plain | Csv_Quoted | Csv_Quote_Seen

type_synonym csv_state = "csv_mode \<times> string \<times> string list"

definition csv_char :: "char \<Rightarrow> csv_state \<Rightarrow> csv_state" where
  "csv_char c s =
     (let (m, f, fs) = s in
      if m = Csv_Quoted then (if c = dquote then (Csv_Quote_Seen, f, fs) else (Csv_Quoted, f @ [c], fs))
      else if c = CHR '','' then (Csv_Start, [], fs @ [f])
      else if c = dquote \<and> m = Csv_Start then (Csv_Quoted, f, fs)
      else if c = dquote \<and> m = Csv_Quote_Seen then (Csv_Quoted, f @ [c], fs)
      else (Csv_Plain, f @ [c], fs))"

definition csv_done :: "csv_state \<Rightarrow> string list" where
  "csv_done s = (let (m, f, fs) = s in fs @ [f])"

text \<open>An empty line is an empty row. A quoted field that is open at the end of a line goes on in the next one, and
  what is pending at the end of the file is a row.\<close>

fun csv_from :: "csv_state option \<Rightarrow> string list \<Rightarrow> string list list" where
  "csv_from None [] = []"
| "csv_from (Some s) [] = [csv_done s]"
| "csv_from st (l # ls) =
     (if st = None \<and> l = [] then [] # csv_from None ls
      else (let s = fold csv_char l (case st of None \<Rightarrow> (Csv_Start, [], []) | Some s \<Rightarrow> s) in
            if fst s = Csv_Quoted then csv_from (Some s) ls else csv_done s # csv_from None ls))"

definition csv_rows :: "string list \<Rightarrow> string list list" where
  "csv_rows = csv_from None"

section \<open>Reading\<close>

record lease_entry =
  le_ip :: string
  le_hw :: "string option"
  le_client :: "string option"
  le_hostname :: "string option"
  le_expires :: "string option"
  le_state :: string
  le_subnet :: "string option"
  le_pool :: "string option"
  le_type :: string

definition lease_columns :: "kea_daemon \<Rightarrow> string list" where
  "lease_columns d =
     (case d of
        Kea4 \<Rightarrow> [''address'', ''hwaddr'', ''client_id'', ''valid_lifetime'', ''expire'', ''subnet_id'', ''fqdn_fwd'', ''fqdn_rev'', ''hostname'',
          ''state'', ''user_context'', ''pool_id'']
      | Kea6 \<Rightarrow> [''address'', ''duid'', ''valid_lifetime'', ''expire'', ''subnet_id'', ''pref_lifetime'', ''lease_type'', ''iaid'', ''prefix_len'',
          ''fqdn_fwd'', ''fqdn_rev'', ''hostname'', ''state'', ''user_context'', ''pool_id''])"

definition lease_type :: "kea_daemon \<Rightarrow> string" where
  "lease_type d = (case d of Kea4 \<Rightarrow> ''v4'' | Kea6 \<Rightarrow> ''v6'')"

text \<open>A row as a dictionary: of equal names the last one counts, and a name without a field has no value.\<close>

definition lease_field :: "string list \<Rightarrow> string list \<Rightarrow> string \<Rightarrow> string option" where
  "lease_field names row k =
     (case map_of (rev (zip names (map Some row @ replicate (length names - length row) None))) k of None \<Rightarrow> None | Some v \<Rightarrow> v)"

definition or_none :: "string option \<Rightarrow> string option" where
  "or_none v = (if truthy_str v then v else None)"

definition either_field :: "string option \<Rightarrow> string option \<Rightarrow> string option" where
  "either_field a b = (if truthy_str a then a else or_none b)"

definition lease_of_row :: "string \<Rightarrow> (string \<Rightarrow> string option) \<Rightarrow> lease_entry option" where
  "lease_of_row ty get =
     (let ip = strip (or_empty (get ''address'')) in
      if ip = [] then None
      else Some \<lparr>le_ip = ip, le_hw = either_field (get ''hwaddr'') (get ''duid''), le_client = either_field (get ''client_id'') (get ''iaid''),
        le_hostname = or_none (get ''hostname''), le_expires = or_none (get ''expire''),
        le_state = (if truthy_str (get ''state'') then or_empty (get ''state'') else ''active''),
        le_subnet = or_none (get ''subnet_id''), le_pool = or_none (get ''pool_id''), le_type = ty\<rparr>)"

text \<open>The first row is a header when one of its fields is \<open>address\<close>; \<open>DictReader\<close> skips empty rows.\<close>

definition lease_dicts :: "kea_daemon \<Rightarrow> string list list \<Rightarrow> (string \<Rightarrow> string option) list" where
  "lease_dicts d rs =
     (if ''address'' \<in> set (hd rs) then map (lease_field (hd rs)) (filter (\<lambda>r. r \<noteq> []) (tl rs)) else map (lease_field (lease_columns d)) rs)"

definition parse_leases :: "kea_daemon \<Rightarrow> string option \<Rightarrow> lease_entry list" where
  "parse_leases d file =
     (case file of
        None \<Rightarrow> []
      | Some text \<Rightarrow>
          (if strip text = [] then []
           else List.map_filter (lease_of_row (lease_type d)) (lease_dicts d (csv_rows (py_splitlines (strip text))))))"

definition list_leases :: "kea_host \<Rightarrow> lease_entry list" where
  "list_leases h = sort_key le_ip (parse_leases Kea4 (kh_leases h Kea4) @ parse_leases Kea6 (kh_leases h Kea6))"

section \<open>Releasing\<close>

definition line_address :: "string \<Rightarrow> string option" where
  "line_address l = (case csv_rows [l] of (c # cs) # rs \<Rightarrow> Some (strip c) | _ \<Rightarrow> None)"

text \<open>The lines that stay: the first one when it holds the text \<open>address\<close> anywhere, and of the others those with a
  different first column.\<close>

definition kept_lines :: "string \<Rightarrow> string list \<Rightarrow> string list" where
  "kept_lines ip ls =
     (let other = filter (\<lambda>l. line_address l \<noteq> None \<and> line_address l \<noteq> Some ip) in
      if contains ''address'' (hd ls) then hd ls # other (tl ls) else other ls)"

definition names_address :: "string \<Rightarrow> string list \<Rightarrow> bool" where
  "names_address ip ls = list_ex (\<lambda>l. line_address l = Some ip) (if contains ''address'' (hd ls) then tl ls else ls)"

definition release_address :: "kea_daemon \<Rightarrow> string \<Rightarrow> kea_host \<Rightarrow> nat \<times> kea_host" where
  "release_address d ip h =
     (case kh_leases h d of
        None \<Rightarrow> (404, h)
      | Some text \<Rightarrow>
          (let ls = py_splitlines text; ls' = kept_lines ip ls in
           if ls = [] \<or> \<not> names_address ip ls then (404, h)
           else (200, h\<lparr>kh_leases := (kh_leases h)(d \<mapsto> join nl ls' @ (if ls' = [] then [] else nl))\<rparr>)))"

definition release_request :: "string \<Rightarrow> string \<Rightarrow> kea_host \<Rightarrow> nat \<times> kea_host" where
  "release_request ty ip h = (if ty \<notin> {''v4'', ''v6''} then (422, h) else release_address (if ty = ''v4'' then Kea4 else Kea6) ip h)"

end
