(* ===== verification/Dhcp_Lease_Props.thy ===== *)
theory Dhcp_Lease_Props
  imports Dhcp_Leases Node_Netplan_Props
begin

text \<open>
  Reading back what a release leaves: lemmas on lease files whose lines have no blanks and no quotes.
\<close>

definition plain_line :: "string \<Rightarrow> bool" where
  "plain_line l \<longleftrightarrow> l \<noteq> [] \<and> (\<forall>c\<in>set l. \<not> is_space c \<and> c \<noteq> dquote)"

definition unlines :: "string list \<Rightarrow> string" where
  "unlines ls = concat (map (\<lambda>l. l @ nl) ls)"

text \<open>A header that starts with the only \<open>address\<close> column, or no line with the text \<open>address\<close>.\<close>

definition headed :: "string list \<Rightarrow> bool" where
  "headed ls \<longleftrightarrow> (case split_on CHR '','' (hd ls) of [] \<Rightarrow> False | a # names \<Rightarrow> a = ''address'' \<and> ''address'' \<notin> set names)"

definition lease_lines :: "string list \<Rightarrow> bool" where
  "lease_lines ls \<longleftrightarrow> ls \<noteq> [] \<and> (\<forall>l\<in>set ls. plain_line l) \<and> (headed ls \<or> (\<forall>l\<in>set ls. \<not> contains ''address'' l))"

section \<open>Lines\<close>

lemma line_break_space: "line_break c \<Longrightarrow> is_space c"
  by (auto simp: line_break_def is_space_def char_between_def)

lemma plain_no_break: "plain_line l \<Longrightarrow> \<forall>c\<in>set l. \<not> line_break c"
  by (auto simp: plain_line_def dest: line_break_space)

lemma lines_of_unlines: "\<forall>l\<in>set ls. plain_line l \<Longrightarrow> py_splitlines (unlines ls) = ls"
  unfolding unlines_def by (rule py_splitlines_lines) (use plain_no_break in blast)

lemma unlines_join: "ls \<noteq> [] \<Longrightarrow> unlines ls = join nl ls @ nl"
  by (induction nl ls rule: join.induct) (simp_all add: unlines_def)

lemma no_break_line: "\<forall>c\<in>set l. \<not> line_break c \<Longrightarrow> l \<noteq> [] \<Longrightarrow> py_splitlines l = [l]"
proof (induction l)
  case (Cons c l)
  then show ?case by (cases "l = []") (simp_all add: py_splitlines.simps(2))
qed simp

lemma lines_of_join: "\<forall>l\<in>set ls. plain_line l \<Longrightarrow> py_splitlines (join nl ls) = ls"
proof (induction ls rule: induct_list012)
  case (2 l)
  then show ?case using plain_no_break no_break_line by (auto simp: plain_line_def)
next
  case (3 x y zs)
  then show ?case using plain_no_break by (auto simp: py_splitlines_line)
qed simp

lemma strip_bare_ends: "s \<noteq> [] \<Longrightarrow> \<not> is_space (hd s) \<Longrightarrow> \<not> is_space (last s) \<Longrightarrow> strip s = s"
proof -
  assume s: "s \<noteq> []" "\<not> is_space (hd s)" "\<not> is_space (last s)"
  have l: "lstrip s = s" using s(1,2) by (cases s) (simp_all add: lstrip_def)
  obtain c r where r: "rev s = c # r" using s(1) by (cases "rev s") auto
  have "c = last s" using r s(1) by (metis hd_rev list.sel(1))
  then have "dropWhile is_space (rev s) = rev s" unfolding r using s(3) by simp
  then have "rstrip s = s" by (simp add: rstrip_def)
  then show ?thesis by (simp add: strip_def l)
qed

lemma strip_newline: "s \<noteq> [] \<Longrightarrow> \<not> is_space (hd s) \<Longrightarrow> strip (s @ nl) = strip s"
  by (cases s) (auto simp: strip_def lstrip_def rstrip_def)

lemma join_ends:
  assumes "ls \<noteq> []" "\<forall>l\<in>set ls. plain_line l"
  shows "join nl ls \<noteq> [] \<and> \<not> is_space (hd (join nl ls)) \<and> \<not> is_space (last (join nl ls))"
  using assms
proof (induction ls rule: induct_list012)
  case (2 l)
  then show ?case by (auto simp: plain_line_def)
next
  case (3 x y zs)
  then show ?case by (auto simp: plain_line_def)
qed simp

lemma strip_unlines: "ls \<noteq> [] \<Longrightarrow> \<forall>l\<in>set ls. plain_line l \<Longrightarrow> strip (unlines ls) = join nl ls"
  using join_ends[of ls] by (simp add: unlines_join strip_newline strip_bare_ends)

section \<open>Rows\<close>

lemma csv_plain_run:
  "dquote \<notin> set l \<Longrightarrow> m \<noteq> Csv_Quoted \<Longrightarrow> m \<noteq> Csv_Quote_Seen \<Longrightarrow>
     csv_done (fold csv_char l (m, f, fs)) = fs @ (f @ hd (split_on CHR '','' l)) # tl (split_on CHR '','' l)
     \<and> fst (fold csv_char l (m, f, fs)) \<notin> {Csv_Quoted, Csv_Quote_Seen}"
proof (induction l arbitrary: m f fs)
  case Nil
  then show ?case by (cases m) (simp_all add: csv_done_def)
next
  case (Cons c l)
  show ?case
  proof (cases "c = CHR '',''")
    case True
    then have "csv_char c (m, f, fs) = (Csv_Start, [], fs @ [f])" using Cons.prems by (simp add: csv_char_def)
    then show ?thesis using Cons.IH[of Csv_Start "[]" "fs @ [f]"] Cons.prems True by simp
  next
    case False
    then have "csv_char c (m, f, fs) = (Csv_Plain, f @ [c], fs)" using Cons.prems by (auto simp: csv_char_def)
    then show ?thesis using Cons.IH[of Csv_Plain "f @ [c]" fs] Cons.prems False
      by (auto split: list.splits)
  qed
qed

lemma csv_plain_rows: "\<forall>l\<in>set ls. plain_line l \<Longrightarrow> csv_rows ls = map (split_on CHR '','') ls"
proof (induction ls)
  case (Cons l ls)
  then have q: "dquote \<notin> set l" "l \<noteq> []" by (auto simp: plain_line_def)
  from csv_plain_run[OF q(1), of Csv_Start "[]" "[]"] q(2) Cons show ?case
    by (auto simp: csv_rows_def Let_def)
qed (simp add: csv_rows_def)

lemma strip_field: "plain_line l \<Longrightarrow> w \<in> set (split_on CHR '','' l) \<Longrightarrow> strip w = w"
proof -
  assume l: "plain_line l" "w \<in> set (split_on CHR '','' l)"
  then have "\<forall>c\<in>set w. \<not> is_space c" using split_on_chars[OF l(2)] by (auto simp: plain_line_def)
  then show ?thesis by (cases "w = []") (auto simp: strip_bare_ends, simp add: strip_def lstrip_def rstrip_def)
qed

lemma plain_address: "plain_line l \<Longrightarrow> line_address l = Some (hd (split_on CHR '','' l))"
  using strip_field[of l "hd (split_on CHR '','' l)"] csv_plain_rows[of "[l]"]
  by (cases "split_on CHR '','' l") (auto simp: line_address_def)

lemma headed_contains: "headed ls \<Longrightarrow> contains ''address'' (hd ls)"
proof -
  assume h: "headed ls"
  then obtain names where n: "split_on CHR '','' (hd ls) = ''address'' # names" by (auto simp: headed_def split: list.splits)
  have "\<exists>r. hd ls = ''address'' @ r"
  proof (cases names)
    case Nil
    then show ?thesis using n join_split_on[of "CHR '',''" "hd ls"] by simp
  next
    case (Cons b bs)
    then show ?thesis using n join_split_on[of "CHR '',''" "hd ls"] by (intro exI[of _ "CHR '','' # join '','' names"]) simp
  qed
  then show ?thesis unfolding contains_iff by (metis append_Nil)
qed

lemma split_on_contains: "w \<in> set (split_on c s) \<Longrightarrow> contains w s"
proof -
  assume "w \<in> set (split_on c s)"
  then obtain a b where "split_on c s = a @ w # b" by (meson split_list)
  then have j: "s = join [c] (a @ w # b)" by (metis join_split_on)
  obtain r where r: "join [c] (w # b) = w @ r" by (cases b) auto
  show ?thesis
  proof (cases "a = []")
    case True
    then show ?thesis using j r unfolding contains_iff by (metis append_Nil)
  next
    case False
    then have "s = (join [c] a @ [c]) @ w @ r" using j r by (simp add: join_append)
    then show ?thesis unfolding contains_iff by blast
  qed
qed

section \<open>Entries\<close>

definition line_names :: "kea_daemon \<Rightarrow> string list \<Rightarrow> string list" where
  "line_names d ls = (if headed ls then split_on CHR '','' (hd ls) else lease_columns d)"

definition line_entry :: "kea_daemon \<Rightarrow> string list \<Rightarrow> string \<Rightarrow> lease_entry option" where
  "line_entry d names l = lease_of_row (lease_type d) (lease_field names (split_on CHR '','' l))"

definition body_lines :: "string list \<Rightarrow> string list" where
  "body_lines ls = (if headed ls then tl ls else ls)"

lemma parse_unlines:
  assumes "lease_lines ls"
  shows "parse_leases d (Some (unlines ls)) = List.map_filter (line_entry d (line_names d ls)) (body_lines ls)"
proof -
  let ?rs = "map (split_on CHR '','') ls"
  have ls: "ls \<noteq> []" "\<forall>l\<in>set ls. plain_line l" using assms by (auto simp: lease_lines_def)
  have s: "strip (unlines ls) = join nl ls" "join nl ls \<noteq> []" using ls strip_unlines join_ends by blast+
  have h: "hd ?rs = split_on CHR '','' (hd ls)" "tl ?rs = map (split_on CHR '','') (tl ls)" using ls(1) by (simp_all add: hd_map map_tl)
  have "lease_dicts d ?rs = map (\<lambda>l. lease_field (line_names d ls) (split_on CHR '','' l)) (body_lines ls)"
  proof (cases "headed ls")
    case True
    then have "''address'' \<in> set (hd ?rs)" by (auto simp: h headed_def split: list.splits)
    then show ?thesis using True by (simp add: lease_dicts_def h line_names_def body_lines_def filter_map o_def)
  next
    case False
    then have "\<not> contains ''address'' (hd ls)" using assms ls(1) by (auto simp: lease_lines_def)
    then have "''address'' \<notin> set (hd ?rs)" using split_on_contains h(1) by metis
    then show ?thesis using False by (simp add: lease_dicts_def line_names_def body_lines_def)
  qed
  then show ?thesis using s ls(2)
    by (simp add: parse_leases_def lines_of_join csv_plain_rows map_filter_def filter_map o_def line_entry_def)
qed

lemma first_field:
  assumes "''address'' \<notin> set names" "row \<noteq> []"
  shows "lease_field (''address'' # names) row ''address'' = Some (hd row)"
proof -
  obtain x xs where row: "row = x # xs" using assms(2) by (cases row) auto
  let ?z = "rev (zip names (map Some xs @ replicate (length names - length xs) None))"
  have "''address'' \<notin> fst ` set ?z" using assms(1) by (auto dest: set_zip_leftD)
  then have "map_of ?z ''address'' = None" by (simp add: map_of_eq_None_iff)
  then show ?thesis by (simp add: lease_field_def row map_add_def)
qed

lemma line_names_address: "\<exists>names. line_names d ls = ''address'' # names \<and> ''address'' \<notin> set names"
  by (cases d) (auto simp: line_names_def headed_def lease_columns_def split: list.splits)

lemma line_entry_ip:
  assumes "plain_line l"
  shows "line_entry d (line_names d ls) l = None \<longleftrightarrow> line_address l = Some []"
    "line_entry d (line_names d ls) l = Some e \<Longrightarrow> line_address l = Some (le_ip e)"
proof -
  obtain names where "line_names d ls = ''address'' # names" "''address'' \<notin> set names" using line_names_address by blast
  then have f: "lease_field (line_names d ls) (split_on CHR '','' l) ''address'' = Some (hd (split_on CHR '','' l))"
    by (simp add: first_field)
  have s: "strip (hd (split_on CHR '','' l)) = hd (split_on CHR '','' l)" by (rule strip_field[OF assms]) simp
  show "line_entry d (line_names d ls) l = None \<longleftrightarrow> line_address l = Some []"
    by (simp add: line_entry_def lease_of_row_def f s plain_address[OF assms] Let_def)
  show "line_entry d (line_names d ls) l = Some e \<Longrightarrow> line_address l = Some (le_ip e)"
    by (auto simp: line_entry_def lease_of_row_def f s plain_address[OF assms] Let_def split: if_splits)
qed

lemma entries_filter:
  assumes "\<forall>l\<in>set ls. plain_line l"
  shows "List.map_filter (line_entry d (line_names d hs)) (filter (\<lambda>l. line_address l \<noteq> None \<and> line_address l \<noteq> Some ip) ls)
    = filter (\<lambda>e. le_ip e \<noteq> ip) (List.map_filter (line_entry d (line_names d hs)) ls)"
  using assms
proof (induction ls)
  case (Cons l ls)
  then have p: "plain_line l" by simp
  then have a: "line_address l \<noteq> None" by (simp add: plain_address)
  show ?case
  proof (cases "line_entry d (line_names d hs) l")
    case None
    then show ?thesis using Cons by (simp add: map_filter_simps)
  next
    case (Some e)
    then show ?thesis using Cons line_entry_ip(2)[OF p Some] by (auto simp: map_filter_simps)
  qed
qed (simp add: map_filter_simps)

lemma names_entry:
  assumes "\<forall>l\<in>set ls. plain_line l" "ip \<noteq> []"
  shows "list_ex (\<lambda>l. line_address l = Some ip) ls \<longleftrightarrow> ip \<in> le_ip ` set (List.map_filter (line_entry d (line_names d hs)) ls)"
  using assms(1)
proof (induction ls)
  case (Cons l ls)
  then have p: "plain_line l" by simp
  show ?case
  proof (cases "line_entry d (line_names d hs) l")
    case None
    then show ?thesis using Cons line_entry_ip(1)[OF p] assms(2) by (simp add: map_filter_simps)
  next
    case (Some e)
    then show ?thesis using Cons line_entry_ip(2)[OF p Some] by (auto simp: map_filter_simps)
  qed
qed (simp add: map_filter_simps)

section \<open>Release\<close>

lemma contains_headed: "lease_lines ls \<Longrightarrow> contains ''address'' (hd ls) \<longleftrightarrow> headed ls"
  using headed_contains by (auto simp: lease_lines_def)

lemma kept_lines_body:
  assumes "lease_lines ls"
  shows "kept_lines ip ls = (if headed ls then [hd ls] else []) @ filter (\<lambda>l. line_address l \<noteq> None \<and> line_address l \<noteq> Some ip) (body_lines ls)"
  by (simp add: kept_lines_def contains_headed[OF assms] body_lines_def)

lemma headed_body:
  "headed (hd ls # b) = headed ls"
  "headed ls \<Longrightarrow> body_lines (hd ls # b) = b \<and> line_names d (hd ls # b) = line_names d ls"
  "\<not> headed b \<Longrightarrow> \<not> headed ls \<Longrightarrow> body_lines b = b \<and> line_names d b = line_names d ls"
  by (simp_all add: headed_def body_lines_def line_names_def)

lemma parse_kept:
  assumes "lease_lines ls"
  shows "parse_leases d (Some (unlines (kept_lines ip ls))) = filter (\<lambda>e. le_ip e \<noteq> ip) (parse_leases d (Some (unlines ls)))"
proof -
  let ?b = "filter (\<lambda>l. line_address l \<noteq> None \<and> line_address l \<noteq> Some ip) (body_lines ls)"
  have ls: "ls \<noteq> []" "\<forall>l\<in>set ls. plain_line l" using assms by (auto simp: lease_lines_def)
  have pb: "\<forall>l\<in>set (body_lines ls). plain_line l" using ls by (auto simp: body_lines_def dest: list.set_sel(2))
  have body: "parse_leases d (Some (unlines ls)) = List.map_filter (line_entry d (line_names d ls)) (body_lines ls)"
    by (rule parse_unlines[OF assms])
  show ?thesis
  proof (cases "headed ls")
    case True
    have k: "kept_lines ip ls = hd ls # ?b" by (simp add: kept_lines_body[OF assms] True)
    have h: "headed (hd ls # ?b)" using True by (simp add: headed_def)
    then have l: "lease_lines (hd ls # ?b)" using ls pb by (auto simp: lease_lines_def)
    note e = headed_body(2)[OF True, of ?b d, THEN conjunct1] headed_body(2)[OF True, of ?b d, THEN conjunct2]
    show ?thesis unfolding k parse_unlines[OF l] e body by (rule entries_filter[OF pb])
  next
    case False
    have k: "kept_lines ip ls = ?b" by (simp add: kept_lines_body[OF assms] False)
    show ?thesis
    proof (cases "?b = []")
      case True
      then have "filter (\<lambda>e. le_ip e \<noteq> ip) (List.map_filter (line_entry d (line_names d ls)) (body_lines ls)) = []"
        using entries_filter[OF pb, of d ls ip] by (simp add: map_filter_simps)
      moreover have "parse_leases d (Some (unlines [])) = []" by (simp add: parse_leases_def unlines_def strip_def lstrip_def rstrip_def)
      ultimately show ?thesis unfolding k True body by simp
    next
      case b: False
      have c: "\<forall>l\<in>set ?b. \<not> contains ''address'' l" using False assms by (auto simp: lease_lines_def body_lines_def)
      then have l: "lease_lines ?b" using b pb by (auto simp: lease_lines_def)
      have nh: "\<not> headed ?b" using c b headed_contains[of ?b] by (meson hd_in_set)
      note e = headed_body(3)[OF nh False, of d, THEN conjunct1] headed_body(3)[OF nh False, of d, THEN conjunct2]
      show ?thesis unfolding k parse_unlines[OF l] e body by (rule entries_filter[OF pb])
    qed
  qed
qed

lemma release_plain:
  assumes "lease_lines ls" "kh_leases h d = Some (unlines ls)"
  shows "release_address d ip h = (if list_ex (\<lambda>l. line_address l = Some ip) (body_lines ls)
    then (200, h\<lparr>kh_leases := (kh_leases h)(d \<mapsto> unlines (kept_lines ip ls))\<rparr>) else (404, h))"
proof -
  have ls: "ls \<noteq> []" "\<forall>l\<in>set ls. plain_line l" using assms by (auto simp: lease_lines_def)
  have "join nl ls' @ (if ls' = [] then [] else nl) = unlines ls'" for ls' by (simp add: unlines_join) (simp add: unlines_def)
  then show ?thesis
    using ls by (simp add: release_address_def assms(2) lines_of_unlines names_address_def contains_headed[OF assms(1)] body_lines_def Let_def)
qed

end
