(* ===== verification/Dhcp_Claims.thy ===== *)
theory Dhcp_Claims
  imports Gw_Dhcp_Props Dhcp_Lease_Props Gw_Reachable
begin

text \<open>
  The properties of the DHCP router and of its agent, each with a concrete instance.
\<close>

section \<open>A server with one subnet\<close>

definition lab_dhcp_server :: dhcp_server_create where
  "lab_dhcp_server = \<lparr>hsc_name = ''dhcp1'', hsc_description = None, hsc_enabled = True, hsc_address = ''127.0.0.1'', hsc_port = 8000, hsc_ha = False,
     hsc_mode = Hot_Standby, hsc_peer = None, hsc_v4 = True, hsc_v6 = False\<rparr>"

definition lab_dhcp_subnet :: dhcp_subnet_create where
  "lab_dhcp_subnet = \<lparr>hnc_name = ''office'', hnc_description = None, hnc_subnet = ''10.0.0.0/24'', hnc_family = Family_V4, hnc_interface = None,
     hnc_relays = [], hnc_domain = None, hnc_dns = [], hnc_ntp = [], hnc_routers = [''10.0.0.1''], hnc_default = 3600, hnc_max = 7200, hnc_min = 300,
     hnc_delegated = None, hnc_enabled = True\<rparr>"

definition lab_dhcp :: dhcp_state where
  "lab_dhcp = \<lparr>hc_db = lab_db, hc_servers = \<lparr>tb_rows = [(1, new_dhcp_server 1 lab_dhcp_server)], tb_next = 2\<rparr>,
     hc_subnets = \<lparr>tb_rows = [(1, new_dhcp_subnet 1 lab_dhcp_subnet)], tb_next = 2\<rparr>, hc_pools = empty_table, hc_reservs = empty_table,
     hc_options = empty_table, hc_leases = empty_table\<rparr>"

lemma lab_dhcp_rows:
  "row_get (hc_servers lab_dhcp) k = (if k = 1 then Some (new_dhcp_server 1 lab_dhcp_server) else None)"
  "row_get (hc_subnets lab_dhcp) k = (if k = 1 then Some (new_dhcp_subnet 1 lab_dhcp_subnet) else None)"
  "row_get (hc_pools lab_dhcp) k = None" "row_get (hc_reservs lab_dhcp) k = None" "row_get (hc_options lab_dhcp) k = None"
  "row_get (hc_leases lab_dhcp) k = None"
  by (simp_all add: lab_dhcp_def row_get_def empty_table_def)

lemma lab_dhcp_inv: "dhcp_inv lab_dhcp"
  by (simp add: dhcp_inv_def related_def rows_all_def lab_dhcp_rows server_good_def subnet_good_def family_allowed_def del: One_nat_def)
    (simp add: lab_dhcp_def table_ok_def empty_table_def new_dhcp_server_def new_dhcp_subnet_def lab_dhcp_server_def lab_dhcp_subnet_def
      families_ok_def ha_ok_def off_def windows_ok_def family_text_def family_texts_def)

section \<open>Rows\<close>

text \<open>A subnet of a family its server serves, with lease times in order.\<close>

definition subnet_served :: "dhcp_state \<Rightarrow> nat \<Rightarrow> string \<Rightarrow> bool" where
  "subnet_served st k t =
     (case row_get (hc_subnets st) k of
        None \<Rightarrow> False
      | Some n \<Rightarrow> hn_type n = t \<and> t \<in> set family_texts \<and> windows_ok (hn_min n) (hn_default n) (hn_max n) = Some True
          \<and> (case row_get (hc_servers st) (hn_server n) of
               None \<Rightarrow> False
             | Some s \<Rightarrow> (if t = ''v4'' then hs_v4 s else hs_v6 s) = Some True \<and> ha_ok (hs_ha s) (hs_peer s)))"

lemma subnet_servedI:
  assumes "dhcp_inv st" "row_get (hc_subnets st) k = Some n"
  shows "subnet_served st k (hn_type n)"
proof -
  obtain s where s: "row_get (hc_servers st) (hn_server n) = Some s" "family_allowed s (hn_type n)"
    using relatedD[OF _ assms(2)] assms(1) by (fastforce simp: dhcp_inv_def)
  moreover have "server_good s" "subnet_good n"
    using assms s(1) rows_allD[of server_good "hc_servers st" "hn_server n" s] rows_allD[of subnet_good "hc_subnets st" k n] by (simp_all add: dhcp_inv_def)
  ultimately show ?thesis using assms(2)
    by (auto simp: subnet_served_def server_good_def subnet_good_def family_allowed_def off_def family_texts_def)
qed

lemma child_served:
  "dhcp_inv st \<Longrightarrow> related f (\<lambda>n c. ty c = hn_type n) (hc_subnets st) t \<Longrightarrow> row_get t j = Some c \<Longrightarrow> subnet_served st (f c) (ty c)"
  using relatedD[of f "\<lambda>n c. ty c = hn_type n" "hc_subnets st" t j c] subnet_servedI[of st "f c"] by auto

text \<open>C8: Over every run of the DHCP router, by any callers: each pool, reservation and option stands below a subnet of its own family, whose
  server has that family on and, with high availability, a peer, and whose lease times are ordered; the handlers may refuse and fail in between.\<close>

theorem dhcp_rows_invariant:
  assumes "dhcp_inv st"
  shows "dhcp_inv (dhcp_run cs st)
    \<and> (\<forall>j p. row_get (hc_pools (dhcp_run cs st)) j = Some p \<longrightarrow> subnet_served (dhcp_run cs st) (hp_subnet p) (hp_type p))
    \<and> (\<forall>j r. row_get (hc_reservs (dhcp_run cs st)) j = Some r \<longrightarrow> subnet_served (dhcp_run cs st) (hr_subnet r) (hr_type r))
    \<and> (\<forall>j q. row_get (hc_options (dhcp_run cs st)) j = Some q \<longrightarrow> subnet_served (dhcp_run cs st) (ho_subnet q) (ho_type q))"
proof -
  have inv: "dhcp_inv (dhcp_run cs st)" by (rule dhcp_run_inv[OF assms])
  then have "related hp_subnet (\<lambda>n p. hp_type p = hn_type n) (hc_subnets (dhcp_run cs st)) (hc_pools (dhcp_run cs st))"
    "related hr_subnet (\<lambda>n r. hr_type r = hn_type n) (hc_subnets (dhcp_run cs st)) (hc_reservs (dhcp_run cs st))"
    "related ho_subnet (\<lambda>n q. ho_type q = hn_type n) (hc_subnets (dhcp_run cs st)) (hc_options (dhcp_run cs st))"
    by (simp_all add: dhcp_inv_def)
  note r = this
  show ?thesis using inv child_served[OF inv r(1)] child_served[OF inv r(2)] child_served[OF inv r(3)] by simp
qed

theorem dhcp_rows_invariant_witness:
  "subnet_served (dhcp_run [(lab_admin, New_Pool 1 \<lparr>hpc_start = ''10.0.0.10'', hpc_end = ''10.0.0.99'', hpc_family = Family_V4, hpc_enabled = True\<rparr>)] lab_dhcp) 1 ''v4''"
proof -
  let ?p = "\<lparr>hpc_start = ''10.0.0.10'', hpc_end = ''10.0.0.99'', hpc_family = Family_V4, hpc_enabled = True\<rparr>"
  let ?st = "dhcp_run [(lab_admin, New_Pool 1 ?p)] lab_dhcp"
  have "map_option (\<lambda>p. (hp_subnet p, hp_type p)) (row_get (hc_pools ?st) 1) = Some (1, ''v4'')" by code_simp
  then obtain p where "row_get (hc_pools ?st) 1 = Some p" "hp_subnet p = 1" "hp_type p = ''v4''" by auto
  then show ?thesis using dhcp_rows_invariant[OF lab_dhcp_inv, of "[(lab_admin, New_Pool 1 ?p)]"] by metis
qed

section \<open>Pools\<close>

text \<open>The bounds of a pool are not read as addresses: any two texts of 2 to 45 characters are stored as a pool of the subnet,
  and the caller is told so.\<close>

theorem pool_range_unchecked:
  assumes "require_admin tok = Inr u" "row_get (hc_subnets st) k = Some n" "hn_type n = family_text (hpc_family d)" "subnet_instance st k \<noteq> None"
    "table_ok (hc_pools st)" "req_len 2 45 (hpc_start d)" "req_len 2 45 (hpc_end d)"
  shows "\<exists>j st'. create_pool tok k d st = (Inr (j, new_pool k d), st') \<and> row_get (hc_pools st') j = Some (new_pool k d) \<and> row_get (hc_pools st) j = None"
proof -
  obtain i where i: "subnet_instance st k = Some i" using assms(4) by auto
  have ok: "pool_ok (new_pool k d)"
    using assms(6,7) by (cases "hpc_family d") (simp_all add: pool_ok_def new_pool_def family_text_def family_texts_def)
  obtain j t' where a: "row_add (new_pool k d) (hc_pools st) = (j, t')" by fastforce
  have "create_pool tok k d st = (Inr (j, new_pool k d), log_dhcp u ''create'' ''dhcp_pool'' j i None (st\<lparr>hc_pools := t'\<rparr>))"
    using assms(1-3) i ok by (simp add: create_pool_def add_child_def by_admin_def on_row_def a logged_def checked_def)
  moreover have "row_get t' j = Some (new_pool k d)" "row_get (hc_pools st) j = None"
    using rows.get_add[OF assms(5) a] rows.add_fresh[OF assms(5) a] by auto
  ultimately show ?thesis by (simp add: log_dhcp_def)
qed

theorem pool_range_unchecked_witness:
  "\<exists>j st'. create_pool lab_admin 1 \<lparr>hpc_start = ''zz'', hpc_end = ''10.0.0.1'', hpc_family = Family_V4, hpc_enabled = True\<rparr> lab_dhcp
    = (Inr (j, new_pool 1 \<lparr>hpc_start = ''zz'', hpc_end = ''10.0.0.1'', hpc_family = Family_V4, hpc_enabled = True\<rparr>), st')"
proof -
  have "require_admin lab_admin = Inr 1 \<and> subnet_instance lab_dhcp 1 = Some 1" by code_simp
  moreover have "hn_type (new_dhcp_subnet 1 lab_dhcp_subnet) = ''v4''" "table_ok (hc_pools lab_dhcp)"
    using lab_dhcp_inv by (simp_all add: dhcp_inv_def new_dhcp_subnet_def lab_dhcp_subnet_def family_text_def)
  ultimately show ?thesis
    using pool_range_unchecked[of lab_admin 1 lab_dhcp 1 "new_dhcp_subnet 1 lab_dhcp_subnet"
        "\<lparr>hpc_start = ''zz'', hpc_end = ''10.0.0.1'', hpc_family = Family_V4, hpc_enabled = True\<rparr>"] lab_dhcp_rows(2)[of 1]
    by (auto simp: family_text_def req_len_def simp del: One_nat_def)
qed

section \<open>Applying\<close>

definition family_on :: "kea_payload \<Rightarrow> kea_daemon \<Rightarrow> bool" where
  "family_on p d = (case d of Kea4 \<Rightarrow> ky_v4 p | Kea6 \<Rightarrow> ky_v6 p)"

lemma failed_stays: "fst (run_kea env p ss True h) = 500"
  by (induction ss arbitrary: h) (auto split: prod.split kea_result.split)

lemma run_passed:
  "run_kea env p (s # ss) False h = (200, h') \<longleftrightarrow> (\<exists>h1. kea_exec env p s h = (Step_Passed, h1) \<and> run_kea env p ss False h1 = (200, h'))"
proof -
  have "run_kea env p ss True h1 \<noteq> (200, h')" for h1 using failed_stays[of env p ss h1] by auto
  then show ?thesis by (auto split: prod.split kea_result.split)
qed

lemma ran_passed: "ran r = Step_Passed \<longleftrightarrow> r = Kea_Exit 0"
  by (simp add: ran_def split: kea_outcome.split)

lemma write_passed: "kea_exec env p (Write_Conf d) h = (Step_Passed, h1) \<longleftrightarrow>
    (\<exists>j. kea_rendered env p d = Some j \<and> ke_write_ok env d \<and> h1 = h\<lparr>kh_conf := (kh_conf h)(d \<mapsto> j)\<rparr>)"
  by (auto simp: kea_exec_def split: option.split)

lemma test_passed: "ke_commands env \<Longrightarrow> kea_exec env p (Test_Conf d) h = (Step_Passed, h1) \<longleftrightarrow>
    (\<exists>j. kh_conf h d = Some j \<and> ke_test env d j = Kea_Exit 0 \<and> h1 = h\<lparr>kh_log := kh_log h @ [[daemon_name d, ''-t'', ''-c'', ke_conf_path env d]]\<rparr>)"
  by (auto simp: kea_exec_def ran_passed split: option.split)

lemma restart_passed: "kea_exec env p (Restart_Daemon d) h = (Step_Passed, h1) \<longleftrightarrow> ke_restart env d (kh_conf h d) = Kea_Exit 0
    \<and> h1 = h\<lparr>kh_log := kh_log h @ [[''service'', daemon_name d @ ''-server'', ''restart'']], kh_running := (kh_running h)(d := kh_conf h d)\<rparr>"
  by (auto simp: kea_exec_def ran_passed Let_def)

lemma ctrl_passed: "kea_exec env p Restart_Ctrl h = (Step_Passed, h1) \<longleftrightarrow>
    ke_restart_ctrl env = Kea_Exit 0 \<and> h1 = h\<lparr>kh_log := kh_log h @ [[''service'', ''kea-ctrl-agent'', ''restart'']]\<rparr>"
  by (auto simp: kea_exec_def ran_passed)

lemmas kea_passed = run_passed write_passed test_passed restart_passed ctrl_passed

lemma test_skipped: "\<not> ke_commands env \<Longrightarrow> kea_exec env p (Test_Conf d) h = (Step_Passed, h)"
  by (simp add: kea_exec_def)

text \<open>C27: What an apply that answers 200 left on the host. A family that is off keeps its file and what it runs. The file of a family
  that is on is the rendering of the payload, in both cases. When the agent runs commands, its test exited with 0 and the daemon runs with
  exactly that file; when it does not, which is the default of \<open>DHCP_AGENT_ALLOW_COMMANDS\<close>, nothing was tested or restarted: no
  command ran and each daemon runs what it ran before.\<close>

theorem kea_apply_running:
  assumes "apply_kea env p h = (200, h')"
  shows "if \<not> family_on p d then kh_conf h' d = kh_conf h d \<and> kh_running h' d = kh_running h d
    else \<exists>j. kea_rendered env p d = Some j \<and> kh_conf h' d = Some j
      \<and> (if ke_commands env then ke_test env d j = Kea_Exit 0 \<and> kh_running h' d = Some j
         else kh_running h' d = kh_running h d \<and> kh_log h' = kh_log h)"
  using assms
  by (cases "ke_commands env"; cases "ky_v4 p"; cases "ky_v6 p"; cases d)
    (auto simp: apply_kea_def kea_steps_def family_on_def kea_passed test_skipped simp del: run_kea.simps(2))

definition lab_kea_payload :: kea_payload where
  "lab_kea_payload = \<lparr>ky_name = ''dhcp1'', ky_address = ''127.0.0.1'', ky_port = 8000, ky_ha = False, ky_mode = ''hot-standby'', ky_peer = None,
     ky_v4 = True, ky_v6 = False, ky_subnets = [\<lparr>kn_id = 1, kn_subnet = ''10.0.0.0/24'', kn_type = ''v4'', kn_interface = None, kn_relays = [],
       kn_domain = None, kn_dns = [], kn_ntp = [], kn_routers = [''10.0.0.1''], kn_default = 3600, kn_max = 7200, kn_min = 300, kn_delegated = None,
       kn_enabled = True, kn_pools = [\<lparr>kp_start = ''10.0.0.10'', kp_end = ''10.0.0.99'', kp_type = ''v4'', kp_enabled = True\<rparr>], kn_reservs = [],
       kn_options = []\<rparr>]\<rparr>"

definition lab_kea_env :: "kea_outcome \<Rightarrow> kea_env" where
  "lab_kea_env r = \<lparr>ke_commands = True, ke_conf_path = (\<lambda>d. ''/etc/kea/'' @ daemon_name d @ ''.conf''), ke_lease_path = (\<lambda>d. ''/leases.csv''),
     ke_write_ok = (\<lambda>d. True), ke_test = (\<lambda>d j. r), ke_restart = (\<lambda>d j. Kea_Exit 0), ke_left = (\<lambda>d j. None), ke_restart_ctrl = Kea_Exit 0\<rparr>"

definition lab_kea_host :: kea_host where
  "lab_kea_host = \<lparr>kh_conf = (\<lambda>d. None), kh_leases = (\<lambda>d. Some ([]::string)), kh_running = (\<lambda>d. None), kh_log = []\<rparr>"

lemma lab_kea_render: "kea_rendered (lab_kea_env r) lab_kea_payload Kea4 = Some (render_dhcp4 ''/leases.csv'' lab_kea_payload)"
  by (simp add: kea_rendered_def lab_kea_env_def)

theorem kea_apply_running_witness:
  "kh_running (snd (apply_kea (lab_kea_env (Kea_Exit 0)) lab_kea_payload lab_kea_host)) Kea4 = Some (render_dhcp4 ''/leases.csv'' lab_kea_payload)"
proof -
  obtain c h' where a: "apply_kea (lab_kea_env (Kea_Exit 0)) lab_kea_payload lab_kea_host = (c, h')" by fastforce
  have "fst (apply_kea (lab_kea_env (Kea_Exit 0)) lab_kea_payload lab_kea_host) = 200" by code_simp
  then have "c = 200" using a by simp
  then show ?thesis
    using kea_apply_running[of "lab_kea_env (Kea_Exit 0)" lab_kea_payload lab_kea_host h' Kea4] a lab_kea_render
    by (auto simp: family_on_def lab_kea_payload_def lab_kea_env_def)
qed

text \<open>The test of the new configuration guards nothing: when it fails the request answers 500, but the file stays replaced and the daemon
  has been restarted with it; with a restart that reports success the daemon runs the rejected configuration.\<close>

theorem failed_test_is_installed:
  assumes "ke_commands env" "ky_v4 p" "\<not> ky_v6 p" "ke_write_ok env Kea4" "ke_test env Kea4 (render_dhcp4 (ke_lease_path env Kea4) p) = Kea_Exit c" "c \<noteq> 0"
    "ke_restart env Kea4 (Some (render_dhcp4 (ke_lease_path env Kea4) p)) = Kea_Exit 0" "ke_restart_ctrl env = Kea_Exit e"
  shows "\<exists>h'. apply_kea env p h = (500, h') \<and> kh_conf h' Kea4 = Some (render_dhcp4 (ke_lease_path env Kea4) p)
    \<and> kh_running h' Kea4 = Some (render_dhcp4 (ke_lease_path env Kea4) p)"
  using assms by (cases "e = 0") (simp_all add: apply_kea_def kea_steps_def kea_exec_def kea_rendered_def ran_def Let_def)

theorem failed_test_is_installed_witness:
  "\<exists>h'. apply_kea (lab_kea_env (Kea_Exit 1)) lab_kea_payload lab_kea_host = (500, h')
    \<and> kh_running h' Kea4 = Some (render_dhcp4 ''/leases.csv'' lab_kea_payload)"
  using failed_test_is_installed[of "lab_kea_env (Kea_Exit 1)" lab_kea_payload 1 0 lab_kea_host]
  by (auto simp: lab_kea_env_def lab_kea_payload_def)

section \<open>Leases\<close>

text \<open>C28: On a lease file whose lines carry no blanks and no quotes, a release answers 200 exactly when the file has a lease of the address,
  and then reading the file again gives the leases it had without those of the address; otherwise it answers 404 and changes nothing.
  The other family's file is never touched.\<close>

theorem release_removes_address:
  assumes "kh_leases h d = Some (unlines ls)" "lease_lines ls" "ip \<noteq> []" "release_address d ip h = (c, h')"
  shows "c = (if ip \<in> le_ip ` set (parse_leases d (kh_leases h d)) then 200 else 404)
    \<and> parse_leases d (kh_leases h' d) = filter (\<lambda>e. le_ip e \<noteq> ip) (parse_leases d (kh_leases h d))
    \<and> (\<forall>d'. d' \<noteq> d \<longrightarrow> kh_leases h' d' = kh_leases h d') \<and> (c = 404 \<longrightarrow> h' = h)"
proof -
  have pb: "\<forall>l\<in>set (body_lines ls). plain_line l" using assms(2) by (auto simp: lease_lines_def body_lines_def dest: list.set_sel(2))
  have n: "list_ex (\<lambda>l. line_address l = Some ip) (body_lines ls) \<longleftrightarrow> ip \<in> le_ip ` set (parse_leases d (kh_leases h d))"
    by (simp add: assms(1) parse_unlines[OF assms(2)] names_entry[OF pb assms(3)])
  show ?thesis
  proof (cases "list_ex (\<lambda>l. line_address l = Some ip) (body_lines ls)")
    case True
    then have "c = 200" "h' = h\<lparr>kh_leases := (kh_leases h)(d \<mapsto> unlines (kept_lines ip ls))\<rparr>"
      using assms(4) by (simp_all add: release_plain[OF assms(2,1)])
    then show ?thesis using True n parse_kept[OF assms(2), of d ip] by (simp add: assms(1))
  next
    case False
    then have r: "c = 404" "h' = h" using assms(4) by (simp_all add: release_plain[OF assms(2,1)])
    have "filter (\<lambda>e. le_ip e \<noteq> ip) (parse_leases d (kh_leases h d)) = parse_leases d (kh_leases h d)"
      using False n by (auto simp: filter_id_conv)
    then show ?thesis using False n r by simp
  qed
qed

definition lab_lease_lines :: "string list" where
  "lab_lease_lines = [''address,hwaddr,hostname,state'', ''10.0.0.7,aa:bb,pc7,0'', ''10.0.0.8,aa:cc,pc8,0'']"

definition lab_lease_host :: kea_host where
  "lab_lease_host = lab_kea_host\<lparr>kh_leases := (\<lambda>d. Some (unlines lab_lease_lines))\<rparr>"

lemma lab_lease_ok: "lease_lines lab_lease_lines"
proof -
  have "lab_lease_lines \<noteq> [] \<and> list_all plain_line lab_lease_lines \<and> headed lab_lease_lines" by code_simp
  then show ?thesis by (simp add: lease_lines_def list_all_iff)
qed

theorem release_removes_address_witness:
  "map le_ip (parse_leases Kea4 (kh_leases (snd (release_address Kea4 ''10.0.0.7'' lab_lease_host)) Kea4)) = [''10.0.0.8'']"
proof -
  have l: "map le_ip (parse_leases Kea4 (Some (unlines lab_lease_lines))) = [''10.0.0.7'', ''10.0.0.8'']" by code_simp
  obtain c h' where r: "release_address Kea4 ''10.0.0.7'' lab_lease_host = (c, h')" by fastforce
  have k: "kh_leases lab_lease_host Kea4 = Some (unlines lab_lease_lines)" by (simp add: lab_lease_host_def)
  have "parse_leases Kea4 (kh_leases h' Kea4) = filter (\<lambda>e. le_ip e \<noteq> ''10.0.0.7'') (parse_leases Kea4 (Some (unlines lab_lease_lines)))"
    using release_removes_address[OF k lab_lease_ok _ r] by (simp add: k)
  moreover have "map le_ip (filter (\<lambda>e. le_ip e \<noteq> ip) es) = filter (\<lambda>a. a \<noteq> ip) (map le_ip es)" for ip and es :: "lease_entry list"
    by (simp add: filter_map o_def)
  ultimately show ?thesis using l by (simp add: r)
qed

end
