(* ===== verification/Gw_Mail.thy ===== *)
theory Gw_Mail
  imports Gw_Dns_Zones Gw_Network
begin

text \<open>
  \<open>routers/mail.py\<close>, first part: rows, validators of \<open>shared/schemas.py\<close>, the background tasks, and the mail domains.

  A query without an order gives the rows as they were inserted.
\<close>

section \<open>Rows\<close>

record mail_domain =
  md_instance :: nat
  md_domain :: string
  md_enabled :: "bool option"
  md_spam :: "bool option"
  md_virus :: "bool option"
  md_dkim :: "bool option"
  md_dmarc :: "bool option"
  md_spf :: "bool option"
  md_llm :: "bool option"
  md_config :: "json option"
  md_groupware :: "bool option"
  md_forward :: bool
  md_host :: "string option"
  md_port :: int

record mail_user =
  mu_domain :: nat
  mu_username :: string
  mu_hash :: "string option"
  mu_full :: "string option"
  mu_quota :: "int option"
  mu_used :: "int option"
  mu_enabled :: "bool option"
  mu_forward :: "string list option"
  mu_vacation :: "bool option"
  mu_message :: "string option"

record mail_alias =
  ma_domain :: nat
  ma_source :: string
  ma_dest :: string
  ma_enabled :: "bool option"

text \<open>The confidence of a classification is kept as the number the client of the language model returns.\<close>

record mail_message =
  mm_domain :: nat
  mm_ident :: string
  mm_sender :: string
  mm_recipients :: "string list"
  mm_subject :: "string option"
  mm_size :: "int option"
  mm_preview :: "string option"
  mm_category :: "string option"
  mm_confidence :: "rat option"
  mm_reason :: "string option"
  mm_provider :: "string option"
  mm_model :: "string option"
  mm_classified :: bool
  mm_action :: string
  mm_action_reason :: "string option"
  mm_action_by :: "nat option"
  mm_status :: string

datatype mail_task = Task_Dkim nat string | Task_Reload nat | Task_Maildir string string

record 'w mail_state =
  ml_gw :: "'w gw_state"
  ml_domains :: "mail_domain table"
  ml_users :: "mail_user table"
  ml_aliases :: "mail_alias table"
  ml_messages :: "mail_message table"
  ml_tasks :: "mail_task list"

section \<open>Validators\<close>

text \<open>An octet of the address pattern, one label of the host-name pattern, and the four forms of a forwarding host.\<close>

definition octet_text :: "string \<Rightarrow> bool" where
  "octet_text s \<longleftrightarrow> s \<noteq> [] \<and> list_all is_digit s \<and> (length s = 1 \<or> hd s \<noteq> CHR ''0'') \<and> digits_val 0 s \<le> 255"

definition host_label :: "string \<Rightarrow> bool" where
  "host_label s \<longleftrightarrow> s \<noteq> [] \<and> length s \<le> 63 \<and> is_alnum (hd s) \<and> is_alnum (last s) \<and> list_all (\<lambda>c. is_alnum c \<or> c = CHR ''-'') s"

definition mta_host_form :: "string \<Rightarrow> bool" where
  "mta_host_form s \<longleftrightarrow>
     (let ps = split_on CHR ''.'' s in length ps = 4 \<and> list_all octet_text ps)
     \<or> (2 < length s \<and> hd s = CHR ''['' \<and> last s = CHR '']'' \<and> list_all (\<lambda>c. is_hexdigit c \<or> c = CHR '':'' \<or> c = CHR ''.'') (butlast (tl s)))
     \<or> (CHR '':'' \<in> set s \<and> is_hexdigit (last s) \<and> list_all (\<lambda>c. is_hexdigit c \<or> c = CHR '':'') s)
     \<or> list_all host_label (split_on CHR ''.'' s)"

definition mta_host_ok :: "string option \<Rightarrow> bool" where
  "mta_host_ok v = (case v of None \<Rightarrow> True | Some s \<Rightarrow> strip s = s \<and> s \<noteq> [] \<and> mta_host_form s)"

definition alias_char :: "char \<Rightarrow> bool" where
  "alias_char c \<longleftrightarrow> is_alnum c \<or> c \<in> set ''.!#$%&*+/=?^_`{|}~-'' \<or> c = CHR 0x27"

definition alias_source_ok :: "string \<Rightarrow> bool" where
  "alias_source_ok s \<longleftrightarrow> s = ''*'' \<or> s \<noteq> [] \<and> list_all alias_char s"

text \<open>One sign between two parts without blanks; the second one has a dot inside.\<close>

definition alias_dest_ok :: "string \<Rightarrow> bool" where
  "alias_dest_ok s \<longleftrightarrow> (let (l, d) = partition_at CHR ''@'' s in
     CHR ''@'' \<in> set s \<and> l \<noteq> [] \<and> CHR ''@'' \<notin> set d \<and> list_all (\<lambda>c. \<not> is_space c) s \<and> CHR ''.'' \<in> set (butlast (tl d)))"

section \<open>Frames\<close>

type_synonym ('a, 'w) mail_reply = "(nat + 'a) \<times> 'w mail_state"

definition mail_admin :: "token option \<Rightarrow> 'w mail_state \<Rightarrow> (nat \<Rightarrow> ('a, 'w) mail_reply) \<Rightarrow> ('a, 'w) mail_reply" where
  "mail_admin tok st f = (case require_admin tok of Inl c \<Rightarrow> (Inl c, st) | Inr u \<Rightarrow> f u)"

definition mail_row :: "'r table \<Rightarrow> nat \<Rightarrow> 'w mail_state \<Rightarrow> ('r \<Rightarrow> ('a, 'w) mail_reply) \<Rightarrow> ('a, 'w) mail_reply" where
  "mail_row t k st f = (case row_get t k of None \<Rightarrow> (Inl 404, st) | Some r \<Rightarrow> f r)"

definition mail_on_gw :: "('w gw_state \<Rightarrow> 'w gw_state) \<Rightarrow> 'w mail_state \<Rightarrow> 'w mail_state" where
  "mail_on_gw f st = st\<lparr>ml_gw := f (ml_gw st)\<rparr>"

definition log_mail :: "nat \<Rightarrow> string \<Rightarrow> string \<Rightarrow> nat \<Rightarrow> nat \<Rightarrow> 'w mail_state \<Rightarrow> 'w mail_state" where
  "log_mail u action rtype rid inst = mail_on_gw (audit (Some u) action rtype rid inst)"

text \<open>A response that fails its schema is a 500 after the commit, and the tasks are dropped with it.\<close>

definition mail_answer :: "nat + 'a \<Rightarrow> mail_task list \<Rightarrow> 'w mail_state \<Rightarrow> ('a, 'w) mail_reply" where
  "mail_answer r ts st = (r, case r of Inl c \<Rightarrow> st | Inr v \<Rightarrow> st\<lparr>ml_tasks := ml_tasks st @ ts\<rparr>)"

text \<open>\<open>scalar_one_or_none\<close> of a duplicate check: one row is a 400, more are an exception.\<close>

definition duplicates :: "'e list \<Rightarrow> nat option" where
  "duplicates es = (case es of [] \<Rightarrow> None | [e] \<Rightarrow> Some 400 | _ \<Rightarrow> Some 500)"

text \<open>The access of a caller to an instance; the stored user decides, and a missing one is an exception.\<close>

definition mail_access :: "'w mail_state \<Rightarrow> nat \<Rightarrow> nat \<Rightarrow> nat option" where
  "mail_access st u i =
     (case row_get (fd_users (gs_db (ml_gw st))) u of
        None \<Rightarrow> Some 500
      | Some usr \<Rightarrow> if us_role usr \<noteq> ''superadmin'' \<and> i \<notin> set (us_instances usr) then Some 403 else None)"

definition mail_read :: "token option \<Rightarrow> 'w mail_state \<Rightarrow> nat \<Rightarrow> nat + 'a \<Rightarrow> nat + 'a" where
  "mail_read tok st i r = (case require_auth tok of Inl c \<Rightarrow> Inl c | Inr u \<Rightarrow> (case mail_access st u i of Some c \<Rightarrow> Inl c | None \<Rightarrow> r))"

text \<open>Reading below a domain: the domain is looked up before the access is checked.\<close>

definition domain_read :: "token option \<Rightarrow> 'w mail_state \<Rightarrow> nat \<Rightarrow> nat + 'a \<Rightarrow> nat + 'a" where
  "domain_read tok st k r =
     (case require_auth tok of
        Inl c \<Rightarrow> Inl c
      | Inr u \<Rightarrow> (case row_get (ml_domains st) k of None \<Rightarrow> Inl 404 | Some d \<Rightarrow> mail_read tok st (md_instance d) r))"

section \<open>Tasks\<close>

definition mail_ask :: "'w sender \<Rightarrow> nat \<Rightarrow> string \<Rightarrow> json \<Rightarrow> 'w mail_state \<Rightarrow> (agent_error + json) \<times> 'w mail_state" where
  "mail_ask send i path body st = (case ask send i ''POST'' path body None (ml_gw st) of (r, g) \<Rightarrow> (r, st\<lparr>ml_gw := g\<rparr>))"

definition log_mail_agent :: "nat \<Rightarrow> string \<Rightarrow> bool \<Rightarrow> string \<Rightarrow> 'w mail_state \<Rightarrow> 'w mail_state" where
  "log_mail_agent i path ok detail = mail_on_gw (audit_dispatch i ''mail_agent'' ''deploy'' path ok detail None)"

definition generate_dkim_keys :: "'w sender \<Rightarrow> nat \<Rightarrow> string \<Rightarrow> 'w mail_state \<Rightarrow> 'w mail_state" where
  "generate_dkim_keys send k name st =
     (case row_get (ml_domains st) k of
        None \<Rightarrow> st
      | Some d \<Rightarrow>
          (case mail_ask send (md_instance d) ''/dkim/generate'' (J_Obj [(''domain'', J_Str name)]) st of
             (Inr r, st1) \<Rightarrow> log_mail_agent (md_instance d) ''/dkim/generate'' True (''DKIM keys generated for '' @ name) st1
           | (Inl e, st1) \<Rightarrow> log_mail_agent (md_instance d) ''/dkim/generate'' False (''DKIM generation for '' @ name @ '' failed: '' @ agent_error_text e) st1))"

definition reload_mail_config :: "'w sender \<Rightarrow> nat \<Rightarrow> 'w mail_state \<Rightarrow> 'w mail_state" where
  "reload_mail_config send i st =
     (case mail_ask send i ''/reload'' J_Null st of
        (Inr r, st1) \<Rightarrow> log_mail_agent i ''/reload'' True ''Mail (Exim) configuration reloaded'' st1
      | (Inl e, st1) \<Rightarrow> log_mail_agent i ''/reload'' False (''Mail config reload failed: '' @ agent_error_text e) st1)"

text \<open>The creation of a mail directory only writes a line to the log.\<close>

definition run_mail_task :: "'w sender \<Rightarrow> mail_task \<Rightarrow> 'w mail_state \<Rightarrow> 'w mail_state" where
  "run_mail_task send t st =
     (case t of Task_Dkim k n \<Rightarrow> generate_dkim_keys send k n st | Task_Reload i \<Rightarrow> reload_mail_config send i st | Task_Maildir d u \<Rightarrow> st)"

text \<open>
  \<open>routers/mail.py\<close>, second part: the mail domains and the records they need in the name service.
\<close>

section \<open>Schemas\<close>

definition domain_ok :: "mail_domain \<Rightarrow> bool" where
  "domain_ok d \<longleftrightarrow> length (md_domain d) \<le> 255 \<and> md_enabled d \<noteq> None \<and> md_spam d \<noteq> None \<and> md_virus d \<noteq> None \<and> md_dkim d \<noteq> None
     \<and> md_dmarc d \<noteq> None \<and> md_spf d \<noteq> None \<and> md_llm d \<noteq> None \<and> (case md_config d of None \<Rightarrow> False | Some c \<Rightarrow> is_obj c)
     \<and> md_groupware d \<noteq> None \<and> mta_host_ok (md_host d) \<and> 1 \<le> md_port d \<and> md_port d \<le> 65535"

definition domain_response :: "nat \<Rightarrow> mail_domain \<Rightarrow> nat + nat \<times> mail_domain" where
  "domain_response k d = (if domain_ok d then Inr (k, d) else Inl 500)"

record domain_create =
  mdc_domain :: string
  mdc_enabled :: bool
  mdc_spam :: bool
  mdc_virus :: bool
  mdc_dkim :: bool
  mdc_dmarc :: bool
  mdc_spf :: bool
  mdc_llm :: bool
  mdc_groupware :: bool
  mdc_forward :: bool
  mdc_host :: "string option"
  mdc_port :: int
  mdc_config :: "(string \<times> json) list option"

text \<open>The host is validated already, so a present one is not empty.\<close>

definition valid_domain_create :: "domain_create \<Rightarrow> bool" where
  "valid_domain_create d \<longleftrightarrow> length (mdc_domain d) \<le> 255 \<and> 1 \<le> mdc_port d \<and> mdc_port d \<le> 65535 \<and> mta_host_ok (mdc_host d)
     \<and> (mdc_forward d \<longrightarrow> truthy_str (mdc_host d))"

record domain_patch =
  mdp_enabled :: "bool option option"
  mdp_spam :: "bool option option"
  mdp_virus :: "bool option option"
  mdp_dkim :: "bool option option"
  mdp_dmarc :: "bool option option"
  mdp_spf :: "bool option option"
  mdp_llm :: "bool option option"
  mdp_groupware :: "bool option option"
  mdp_config :: "(string \<times> json) list option option"
  mdp_forward :: "bool option option"
  mdp_host :: "string option option"
  mdp_port :: "int option option"

definition valid_domain_patch :: "domain_patch \<Rightarrow> bool" where
  "valid_domain_patch d \<longleftrightarrow> (case mdp_port d of Some (Some n) \<Rightarrow> 1 \<le> n \<and> n \<le> 65535 | _ \<Rightarrow> True)
     \<and> (case mdp_host d of Some v \<Rightarrow> mta_host_ok v | None \<Rightarrow> True)"

section \<open>Reading\<close>

definition mail_domains_of :: "'w mail_state \<Rightarrow> nat \<Rightarrow> (nat \<times> mail_domain) list" where
  "mail_domains_of st i = rows_where (\<lambda>d. md_instance d = i) (ml_domains st)"

definition get_domains :: "token option \<Rightarrow> nat \<Rightarrow> 'w mail_state \<Rightarrow> nat + (nat \<times> mail_domain) list" where
  "get_domains tok i st = mail_read tok st i (sequence_replies (map (\<lambda>(k, d). domain_response k d) (mail_domains_of st i)))"

definition get_domain :: "token option \<Rightarrow> nat \<Rightarrow> 'w mail_state \<Rightarrow> nat + nat \<times> mail_domain" where
  "get_domain tok k st = domain_read tok st k (case row_get (ml_domains st) k of None \<Rightarrow> Inl 404 | Some d \<Rightarrow> domain_response k d)"

section \<open>Categories\<close>

definition category_json :: "string \<times> string \<times> string \<Rightarrow> json" where
  "category_json c = (case c of (n, col, act) \<Rightarrow> J_Obj [(''name'', J_Str n), (''color'', J_Str col), (''default_action'', J_Str act)])"

definition default_categories :: "(string \<times> string \<times> string) list" where
  "default_categories = [(''important'', ''#10b981'', ''deliver''), (''newsletter'', ''#3b82f6'', ''deliver''), (''promotional'', ''#f59e0b'', ''deliver''),
     (''social'', ''#8b5cf6'', ''deliver''), (''spam'', ''#ef4444'', ''quarantine''), (''phishing'', ''#dc2626'', ''reject''),
     (''legitimate'', ''#6b7280'', ''deliver'')]"

definition with_categories :: "bool \<Rightarrow> (string \<times> json) list \<Rightarrow> (string \<times> json) list" where
  "with_categories llm c = (if llm \<and> \<not> truthy_json (map_of c ''categories'')
     then dict_put ''categories'' (J_List (map category_json default_categories)) c else c)"

section \<open>Writing\<close>

text \<open>The groupware flag of the request is not passed on; the column's default applies.\<close>

definition new_domain :: "nat \<Rightarrow> domain_create \<Rightarrow> mail_domain" where
  "new_domain i d = \<lparr>md_instance = i, md_domain = mdc_domain d, md_enabled = Some (mdc_enabled d), md_spam = Some (mdc_spam d),
     md_virus = Some (mdc_virus d), md_dkim = Some (mdc_dkim d), md_dmarc = Some (mdc_dmarc d), md_spf = Some (mdc_spf d), md_llm = Some (mdc_llm d),
     md_config = Some (J_Obj (with_categories (mdc_llm d) (case mdc_config d of None \<Rightarrow> [] | Some c \<Rightarrow> c))), md_groupware = Some False,
     md_forward = mdc_forward d, md_host = mdc_host d, md_port = mdc_port d\<rparr>"

definition same_domain :: "'w mail_state \<Rightarrow> nat \<Rightarrow> string \<Rightarrow> (nat \<times> mail_domain) list" where
  "same_domain st i n = rows_where (\<lambda>d. md_instance d = i \<and> md_domain d = n) (ml_domains st)"

definition create_domain :: "token option \<Rightarrow> nat \<Rightarrow> domain_create \<Rightarrow> 'w mail_state \<Rightarrow> (nat \<times> mail_domain, 'w) mail_reply" where
  "create_domain tok i d st = mail_admin tok st (\<lambda>u.
     if \<not> valid_domain_create d then (Inl 422, st)
     else if row_get (fd_instances (gs_db (ml_gw st))) i = None then (Inl 404, st)
     else (case duplicates (same_domain st i (mdc_domain d)) of
         Some c \<Rightarrow> (Inl c, st)
       | None \<Rightarrow>
           (let r = new_domain i d; (k, t') = row_add r (ml_domains st) in
            mail_answer (domain_response k r) ((if mdc_dkim d then [Task_Dkim k (mdc_domain d)] else []) @ [Task_Reload i])
              (log_mail u ''create'' ''mail_domain'' k i (st\<lparr>ml_domains := t'\<rparr>)))))"

text \<open>The patch without the classifier settings; \<open>None\<close> for a null in a column that must not be null.\<close>

definition patch_domain :: "domain_patch \<Rightarrow> mail_domain \<Rightarrow> mail_domain option" where
  "patch_domain d r =
     (case (kept (mdp_forward d) (md_forward r), kept (mdp_port d) (md_port r)) of
        (Some f, Some p) \<Rightarrow> Some (r\<lparr>md_enabled := patched (mdp_enabled d) (md_enabled r), md_spam := patched (mdp_spam d) (md_spam r),
          md_virus := patched (mdp_virus d) (md_virus r), md_dkim := patched (mdp_dkim d) (md_dkim r), md_dmarc := patched (mdp_dmarc d) (md_dmarc r),
          md_spf := patched (mdp_spf d) (md_spf r), md_llm := patched (mdp_llm d) (md_llm r), md_groupware := patched (mdp_groupware d) (md_groupware r),
          md_forward := f, md_host := patched (mdp_host d) (md_host r), md_port := p\<rparr>)
      | _ \<Rightarrow> None)"

text \<open>The settings are updated in place, which the session does not see: the column is not written, and the refresh
  after the commit brings the stored value back. Updating with null, or a value that is no dictionary, is an exception.\<close>

definition config_update_fails :: "domain_patch \<Rightarrow> mail_domain \<Rightarrow> bool" where
  "config_update_fails d r \<longleftrightarrow> (case mdp_config d of
     None \<Rightarrow> False | Some None \<Rightarrow> True | Some (Some c) \<Rightarrow> (case md_config r of None \<Rightarrow> True | Some j \<Rightarrow> \<not> is_obj j))"

definition forward_without_host :: "domain_patch \<Rightarrow> mail_domain \<Rightarrow> bool" where
  "forward_without_host d r \<longleftrightarrow> kept (mdp_forward d) (md_forward r) = Some True \<and> \<not> truthy_str (patched (mdp_host d) (md_host r))"

definition update_domain :: "token option \<Rightarrow> nat \<Rightarrow> domain_patch \<Rightarrow> 'w mail_state \<Rightarrow> (nat \<times> mail_domain, 'w) mail_reply" where
  "update_domain tok k d st = mail_admin tok st (\<lambda>u.
     if \<not> valid_domain_patch d then (Inl 422, st)
     else mail_row (ml_domains st) k st (\<lambda>r.
       if config_update_fails d r then (Inl 500, st)
       else if forward_without_host d r then (Inl 422, st)
       else (case patch_domain d r of
           None \<Rightarrow> (Inl 500, st)
         | Some r' \<Rightarrow> mail_answer (domain_response k r') [Task_Reload (md_instance r')]
             (log_mail u ''update'' ''mail_domain'' k (md_instance r') (st\<lparr>ml_domains := row_set k r' (ml_domains st)\<rparr>)))))"

text \<open>The database deletes the users, aliases and messages with the domain.\<close>

definition delete_domain :: "token option \<Rightarrow> nat \<Rightarrow> 'w mail_state \<Rightarrow> (nat, 'w) mail_reply" where
  "delete_domain tok k st = mail_admin tok st (\<lambda>u. mail_row (ml_domains st) k st (\<lambda>r.
     mail_answer (Inr k) [Task_Reload (md_instance r)] (log_mail u ''delete'' ''mail_domain'' k (md_instance r)
       (st\<lparr>ml_domains := row_del k (ml_domains st), ml_users := drop_rows (\<lambda>m. mu_domain m = k) (ml_users st),
           ml_aliases := drop_rows (\<lambda>m. ma_domain m = k) (ml_aliases st), ml_messages := drop_rows (\<lambda>m. mm_domain m = k) (ml_messages st)\<rparr>))))"

definition regenerate_dkim :: "token option \<Rightarrow> nat \<Rightarrow> 'w mail_state \<Rightarrow> (nat, 'w) mail_reply" where
  "regenerate_dkim tok k st = mail_admin tok st (\<lambda>u. mail_row (ml_domains st) k st (\<lambda>r.
     if md_dkim r \<noteq> Some True then (Inl 400, st) else mail_answer (Inr k) [Task_Dkim k (md_domain r)] st))"

section \<open>Name service\<close>

definition txt_record :: "string \<Rightarrow> string \<Rightarrow> (string \<times> json) list" where
  "txt_record n v = [(''type'', J_Str ''TXT''), (''name'', J_Str n), (''value'', J_Str v)]"

definition domain_dns_records :: "mail_domain \<Rightarrow> json" where
  "domain_dns_records r = (let n = md_domain r in J_Obj
     [(''mx'', J_Obj [(''type'', J_Str ''MX''), (''name'', J_Str n), (''value'', J_Str (''10 mail.'' @ n @ ''.'')), (''priority'', J_Int 10)]),
      (''spf'', if md_spf r = Some True then J_Obj (txt_record n (dq @ ''v=spf1 mx a:mail.'' @ n @ '' ~all'' @ dq)) else J_Null),
      (''dkim'', if md_dkim r = Some True then J_Obj (txt_record (''default._domainkey.'' @ n) ''[DKIM key - generate to see actual value]''
          @ [(''note'', J_Str ''Use POST /dkim/regenerate to create keys'')]) else J_Null),
      (''dmarc'', if md_dmarc r = Some True then J_Obj (txt_record (''_dmarc.'' @ n) (dq @ ''v=DMARC1; p=quarantine; rua=mailto:dmarc@'' @ n @ dq)) else J_Null)])"

definition get_dns_records :: "token option \<Rightarrow> nat \<Rightarrow> 'w mail_state \<Rightarrow> nat + json" where
  "get_dns_records tok k st =
     (case require_admin tok of
        Inl c \<Rightarrow> Inl c
      | Inr u \<Rightarrow> (case row_get (ml_domains st) k of None \<Rightarrow> Inl 404 | Some r \<Rightarrow> Inr (domain_dns_records r)))"

end
