(* ===== verification/Gw_Mail_Boxes.thy ===== *)
theory Gw_Mail_Boxes
  imports Gw_Mail
begin

text \<open>
  \<open>routers/mail.py\<close>, third part: mail users and aliases. The hash of a password is an argument; it may fail.
\<close>

section \<open>Users\<close>

definition mail_user_ok :: "mail_user \<Rightarrow> bool" where
  "mail_user_ok m \<longleftrightarrow> length (mu_username m) \<le> 100 \<and> mu_quota m \<noteq> None \<and> mu_enabled m \<noteq> None \<and> mu_used m \<noteq> None \<and> mu_forward m \<noteq> None
     \<and> mu_vacation m \<noteq> None"

definition user_response :: "nat \<Rightarrow> mail_user \<Rightarrow> nat + nat \<times> mail_user" where
  "user_response k m = (if mail_user_ok m then Inr (k, m) else Inl 500)"

definition get_users :: "token option \<Rightarrow> nat \<Rightarrow> 'w mail_state \<Rightarrow> nat + (nat \<times> mail_user) list" where
  "get_users tok k st = domain_read tok st k (sequence_replies (map (\<lambda>(j, m). user_response j m) (rows_where (\<lambda>m. mu_domain m = k) (ml_users st))))"

text \<open>A user joined with its domain: without the domain there is no row.\<close>

definition owner_of :: "'w mail_state \<Rightarrow> nat \<Rightarrow> nat option" where
  "owner_of st k = map_option md_instance (row_get (ml_domains st) k)"

definition joined :: "('r \<Rightarrow> nat) \<Rightarrow> 'r table \<Rightarrow> 'w mail_state \<Rightarrow> nat \<Rightarrow> ('r \<times> nat) option" where
  "joined parent t st j = (case row_get t j of None \<Rightarrow> None | Some r \<Rightarrow> map_option (\<lambda>i. (r, i)) (owner_of st (parent r)))"

definition get_user :: "token option \<Rightarrow> nat \<Rightarrow> 'w mail_state \<Rightarrow> nat + nat \<times> mail_user" where
  "get_user tok j st =
     (case require_auth tok of
        Inl c \<Rightarrow> Inl c
      | Inr u \<Rightarrow> (case joined mu_domain (ml_users st) st j of None \<Rightarrow> Inl 404 | Some (m, i) \<Rightarrow> mail_read tok st i (user_response j m)))"

record mail_user_create =
  muc_username :: string
  muc_full :: "string option"
  muc_quota :: int
  muc_enabled :: bool
  muc_password :: "string option"
  muc_forward :: "string list"

definition hashed :: "(string \<Rightarrow> string option) \<Rightarrow> string option \<Rightarrow> string option option" where
  "hashed hash p = (if truthy_str p then map_option Some (hash (or_empty p)) else Some None)"

definition new_user :: "nat \<Rightarrow> string option \<Rightarrow> mail_user_create \<Rightarrow> mail_user" where
  "new_user k h d = \<lparr>mu_domain = k, mu_username = muc_username d, mu_hash = h, mu_full = muc_full d, mu_quota = Some (muc_quota d), mu_used = Some 0,
     mu_enabled = Some (muc_enabled d), mu_forward = Some (muc_forward d), mu_vacation = Some False, mu_message = None\<rparr>"

definition same_user :: "'w mail_state \<Rightarrow> nat \<Rightarrow> string \<Rightarrow> (nat \<times> mail_user) list" where
  "same_user st k n = rows_where (\<lambda>m. mu_domain m = k \<and> mu_username m = n) (ml_users st)"

text \<open>Nothing is written to the audit log.\<close>

definition create_user :: "(string \<Rightarrow> string option) \<Rightarrow> token option \<Rightarrow> nat \<Rightarrow> mail_user_create \<Rightarrow> 'w mail_state \<Rightarrow> (nat \<times> mail_user, 'w) mail_reply" where
  "create_user hash tok k d st = mail_admin tok st (\<lambda>u.
     if \<not> length (muc_username d) \<le> 100 then (Inl 422, st)
     else mail_row (ml_domains st) k st (\<lambda>r.
       case duplicates (same_user st k (muc_username d)) of
         Some c \<Rightarrow> (Inl c, st)
       | None \<Rightarrow>
           (case hashed hash (muc_password d) of
              None \<Rightarrow> (Inl 500, st)
            | Some h \<Rightarrow>
                (let m = new_user k h d; (j, t') = row_add m (ml_users st) in
                 mail_answer (user_response j m) [Task_Maildir (md_domain r) (muc_username d)] (st\<lparr>ml_users := t'\<rparr>)))))"

record mail_user_patch =
  mup_full :: "string option option"
  mup_password :: "string option option"
  mup_quota :: "int option option"
  mup_enabled :: "bool option option"
  mup_forward :: "string list option option"
  mup_vacation :: "bool option option"
  mup_message :: "string option option"

definition patch_user :: "mail_user_patch \<Rightarrow> mail_user \<Rightarrow> mail_user" where
  "patch_user d m = m\<lparr>mu_full := patched (mup_full d) (mu_full m), mu_quota := patched (mup_quota d) (mu_quota m),
     mu_enabled := patched (mup_enabled d) (mu_enabled m), mu_forward := patched (mup_forward d) (mu_forward m),
     mu_vacation := patched (mup_vacation d) (mu_vacation m), mu_message := patched (mup_message d) (mu_message m)\<rparr>"

text \<open>A null or empty password leaves the stored one.\<close>

definition new_hash :: "(string \<Rightarrow> string option) \<Rightarrow> string option option \<Rightarrow> string option \<Rightarrow> string option option" where
  "new_hash hash p old = (case p of None \<Rightarrow> Some old | Some v \<Rightarrow> if truthy_str v then map_option Some (hash (or_empty v)) else Some old)"

definition update_user :: "(string \<Rightarrow> string option) \<Rightarrow> token option \<Rightarrow> nat \<Rightarrow> mail_user_patch \<Rightarrow> 'w mail_state \<Rightarrow> (nat \<times> mail_user, 'w) mail_reply" where
  "update_user hash tok j d st = mail_admin tok st (\<lambda>u. mail_row (ml_users st) j st (\<lambda>m.
     case new_hash hash (mup_password d) (mu_hash m) of
       None \<Rightarrow> (Inl 500, st)
     | Some h \<Rightarrow> (let m' = (patch_user d m)\<lparr>mu_hash := h\<rparr> in mail_answer (user_response j m') [] (st\<lparr>ml_users := row_set j m' (ml_users st)\<rparr>))))"

definition delete_user :: "token option \<Rightarrow> nat \<Rightarrow> 'w mail_state \<Rightarrow> (nat, 'w) mail_reply" where
  "delete_user tok j st = mail_admin tok st (\<lambda>u. mail_row (ml_users st) j st (\<lambda>m. (Inr j, st\<lparr>ml_users := row_del j (ml_users st)\<rparr>)))"

section \<open>Aliases\<close>

definition alias_texts_ok :: "string \<Rightarrow> string \<Rightarrow> bool" where
  "alias_texts_ok s d \<longleftrightarrow> length s \<le> 255 \<and> length d \<le> 255 \<and> alias_source_ok s \<and> alias_dest_ok d"

definition alias_ok :: "mail_alias \<Rightarrow> bool" where
  "alias_ok a \<longleftrightarrow> alias_texts_ok (ma_source a) (ma_dest a) \<and> ma_enabled a \<noteq> None"

definition alias_response :: "nat \<Rightarrow> mail_alias \<Rightarrow> nat + nat \<times> mail_alias" where
  "alias_response k a = (if alias_ok a then Inr (k, a) else Inl 500)"

definition get_aliases :: "token option \<Rightarrow> nat \<Rightarrow> 'w mail_state \<Rightarrow> nat + (nat \<times> mail_alias) list" where
  "get_aliases tok k st =
     domain_read tok st k (sequence_replies (map (\<lambda>(j, a). alias_response j a) (rows_where (\<lambda>a. ma_domain a = k) (ml_aliases st))))"

record alias_create =
  mac_source :: string
  mac_dest :: string
  mac_enabled :: bool

definition new_alias :: "nat \<Rightarrow> alias_create \<Rightarrow> mail_alias" where
  "new_alias k d = \<lparr>ma_domain = k, ma_source = mac_source d, ma_dest = mac_dest d, ma_enabled = Some (mac_enabled d)\<rparr>"

definition same_alias :: "'w mail_state \<Rightarrow> (nat \<Rightarrow> bool) \<Rightarrow> nat \<Rightarrow> string \<Rightarrow> string \<Rightarrow> (nat \<times> mail_alias) list" where
  "same_alias st keep k s d = filter (keep \<circ> fst) (rows_where (\<lambda>a. ma_domain a = k \<and> ma_source a = s \<and> ma_dest a = d) (ml_aliases st))"

definition create_alias :: "token option \<Rightarrow> nat \<Rightarrow> alias_create \<Rightarrow> 'w mail_state \<Rightarrow> (nat \<times> mail_alias, 'w) mail_reply" where
  "create_alias tok k d st = mail_admin tok st (\<lambda>u.
     if \<not> alias_texts_ok (mac_source d) (mac_dest d) then (Inl 422, st)
     else mail_row (ml_domains st) k st (\<lambda>r.
       case duplicates (same_alias st (\<lambda>j. True) k (mac_source d) (mac_dest d)) of
         Some c \<Rightarrow> (Inl c, st)
       | None \<Rightarrow>
           (let a = new_alias k d; (j, t') = row_add a (ml_aliases st) in
            mail_answer (alias_response j a) [Task_Reload (md_instance r)]
              (log_mail u ''create'' ''mail_alias'' j (md_instance r) (st\<lparr>ml_aliases := t'\<rparr>)))))"

record alias_patch =
  map_source :: "string option option"
  map_dest :: "string option option"
  map_enabled :: "bool option option"

text \<open>An explicit null reaches the pattern of the validator, a \<open>TypeError\<close> that is no validation error.\<close>

definition alias_patch_status :: "alias_patch \<Rightarrow> nat option" where
  "alias_patch_status d =
     (if map_source d = Some None \<or> map_dest d = Some None then Some 500
      else if (case map_source d of Some (Some s) \<Rightarrow> \<not> (length s \<le> 255 \<and> alias_source_ok s) | _ \<Rightarrow> False)
        \<or> (case map_dest d of Some (Some s) \<Rightarrow> \<not> (length s \<le> 255 \<and> alias_dest_ok s) | _ \<Rightarrow> False) then Some 422 else None)"

definition given_text :: "string option option \<Rightarrow> string \<Rightarrow> string" where
  "given_text p old = (case p of Some (Some s) \<Rightarrow> s | _ \<Rightarrow> old)"

definition patch_alias :: "alias_patch \<Rightarrow> mail_alias \<Rightarrow> mail_alias" where
  "patch_alias d a = a\<lparr>ma_source := given_text (map_source d) (ma_source a), ma_dest := given_text (map_dest d) (ma_dest a),
     ma_enabled := patched (map_enabled d) (ma_enabled a)\<rparr>"

definition update_alias :: "token option \<Rightarrow> nat \<Rightarrow> alias_patch \<Rightarrow> 'w mail_state \<Rightarrow> (nat \<times> mail_alias, 'w) mail_reply" where
  "update_alias tok j d st = mail_admin tok st (\<lambda>u.
     case alias_patch_status d of
       Some c \<Rightarrow> (Inl c, st)
     | None \<Rightarrow>
         (case joined ma_domain (ml_aliases st) st j of
            None \<Rightarrow> (Inl 404, st)
          | Some (a, i) \<Rightarrow>
              (let a' = patch_alias d a in
               case (if map_source d = None \<and> map_dest d = None then None
                     else duplicates (same_alias st (\<lambda>k. k \<noteq> j) (ma_domain a) (ma_source a') (ma_dest a'))) of
                 Some c \<Rightarrow> (Inl c, st)
               | None \<Rightarrow> mail_answer (alias_response j a') [Task_Reload i]
                   (log_mail u ''update'' ''mail_alias'' j i (st\<lparr>ml_aliases := row_set j a' (ml_aliases st)\<rparr>)))))"

definition delete_alias :: "token option \<Rightarrow> nat \<Rightarrow> 'w mail_state \<Rightarrow> (nat, 'w) mail_reply" where
  "delete_alias tok j st = mail_admin tok st (\<lambda>u.
     case joined ma_domain (ml_aliases st) st j of
       None \<Rightarrow> (Inl 404, st)
     | Some (a, i) \<Rightarrow> mail_answer (Inr j) [Task_Reload i] (log_mail u ''delete'' ''mail_alias'' j i (st\<lparr>ml_aliases := row_del j (ml_aliases st)\<rparr>)))"

end
