(* ===== verification/Gw_Mail_Messages.thy ===== *)
theory Gw_Mail_Messages
  imports Gw_Mail_Boxes
begin

text \<open>
  \<open>mail_classifier.py\<close> and the last part of \<open>routers/mail.py\<close>: messages, their classification, and the calls of the
  router. The client of the language model is an argument: from a prompt to an error, another exception, or an answer.

  Messages are listed newest first, in the reverse order of their insertion.
\<close>

section \<open>Classification\<close>

record llm_answer =
  la_category :: string
  la_confidence :: rat
  la_reason :: string
  la_provider :: string
  la_model :: string

datatype llm_outcome = Llm_Error string | Llm_Raised | Llm_Answer llm_answer

text \<open>The override of the categories is a list of dictionaries of strings.\<close>

definition valid_category :: "(string \<times> string) list \<Rightarrow> (string \<times> string \<times> string) option" where
  "valid_category c = (case map_of c ''name'' of
     None \<Rightarrow> None
   | Some n \<Rightarrow> Some (take 50 n, take 20 (case map_of c ''color'' of None \<Rightarrow> ''#6b7280'' | Some v \<Rightarrow> v),
       take 20 (case map_of c ''default_action'' of None \<Rightarrow> ''deliver'' | Some v \<Rightarrow> v)))"

definition get_categories :: "(string \<times> string) list list option \<Rightarrow> (string \<times> string \<times> string) list" where
  "get_categories cs =
     (case cs of
        None \<Rightarrow> default_categories
      | Some xs \<Rightarrow>
          (if length xs < 2 then default_categories
           else (let vs = List.map_filter valid_category (take 10 xs) in if length vs < 2 then default_categories else vs)))"

definition build_prompt :: "string \<Rightarrow> string \<Rightarrow> string option \<Rightarrow> (string \<times> string \<times> string) list \<Rightarrow> string" where
  "build_prompt subject sender preview cs =
     (let names = join '', '' (map fst cs) in
      ''Analyze this email and classify it into exactly one of the following categories: '' @ names @ ''.'' @ nl @ nl
      @ ''Email details:'' @ nl @ ''- From: '' @ sender @ nl @ ''- Subject: '' @ subject @ nl
      @ (if truthy_str preview then ''- Body preview: '' @ take 1500 (or_empty preview) @ nl else [])
      @ nl @ ''Respond ONLY with a JSON object in this exact format:'' @ nl @ ''{'' @ nl
      @ ''    '' @ dq @ ''category'' @ dq @ '': '' @ dq @ ''one_of_the_categories'' @ dq @ '','' @ nl
      @ ''    '' @ dq @ ''confidence'' @ dq @ '': 0.95,'' @ nl
      @ ''    '' @ dq @ ''reason'' @ dq @ '': '' @ dq @ ''Brief explanation of why this category was chosen'' @ dq @ nl @ ''}'' @ nl @ nl
      @ ''Rules:'' @ nl @ ''- The category MUST be exactly one of: '' @ names @ nl
      @ ''- Confidence must be a float between 0.0 and 1.0'' @ nl @ ''- Keep the reason under 200 characters'' @ nl)"

text \<open>An answer outside the list becomes the first category. The second component is the default action; of equal names the last counts.\<close>

definition settle_category :: "(string \<times> string \<times> string) list \<Rightarrow> llm_answer \<Rightarrow> llm_answer \<times> string" where
  "settle_category cs a =
     (let a' = (if la_category a \<in> fst ` set cs then a else a\<lparr>la_category := fst (hd cs)\<rparr>) in
      (a', case map_of (rev cs) (la_category a') of None \<Rightarrow> ''deliver'' | Some (col, act) \<Rightarrow> act))"

datatype classification = Not_Classified string | Classify_Raised | Classified llm_answer string

definition classify_email :: "(string \<Rightarrow> llm_outcome) \<Rightarrow> string \<Rightarrow> string \<Rightarrow> string option \<Rightarrow> (string \<times> string) list list option \<Rightarrow> classification" where
  "classify_email llm subject sender preview cs =
     (let cats = get_categories cs in
      case llm (build_prompt subject sender preview cats) of
        Llm_Error m \<Rightarrow> Not_Classified m
      | Llm_Raised \<Rightarrow> Classify_Raised
      | Llm_Answer a \<Rightarrow> (case settle_category cats a of (a', act) \<Rightarrow> Classified a' act))"

section \<open>Messages\<close>

record message_create =
  mmc_domain :: nat
  mmc_ident :: string
  mmc_sender :: string
  mmc_recipients :: "string list"
  mmc_subject :: "string option"
  mmc_size :: "int option"
  mmc_preview :: "string option"

definition valid_message_create :: "message_create \<Rightarrow> bool" where
  "valid_message_create d \<longleftrightarrow> length (mmc_ident d) \<le> 255 \<and> length (mmc_sender d) \<le> 255 \<and> (case mmc_subject d of None \<Rightarrow> True | Some s \<Rightarrow> length s \<le> 500)"

definition pending_message :: "message_create \<Rightarrow> mail_message" where
  "pending_message d = \<lparr>mm_domain = mmc_domain d, mm_ident = mmc_ident d, mm_sender = mmc_sender d, mm_recipients = mmc_recipients d,
     mm_subject = mmc_subject d, mm_size = mmc_size d, mm_preview = mmc_preview d, mm_category = None, mm_confidence = None, mm_reason = None,
     mm_provider = None, mm_model = None, mm_classified = False, mm_action = ''pending'', mm_action_reason = None, mm_action_by = None,
     mm_status = ''pending''\<rparr>"

definition set_classification :: "llm_answer \<Rightarrow> string \<Rightarrow> mail_message \<Rightarrow> mail_message" where
  "set_classification a act m = m\<lparr>mm_category := Some (la_category a), mm_confidence := Some (la_confidence a), mm_reason := Some (la_reason a),
     mm_provider := Some (la_provider a), mm_model := Some (la_model a), mm_classified := True, mm_action := act, mm_status := ''classified''\<rparr>"

text \<open>The identifier of a message is unique over all domains, and its domain must exist; a violation is an exception.\<close>

definition store_message :: "'a \<Rightarrow> mail_message \<Rightarrow> 'w mail_state \<Rightarrow> ('a, 'w) mail_reply" where
  "store_message r m st =
     (if row_get (ml_domains st) (mm_domain m) = None \<or> rows_where (\<lambda>q. mm_ident q = mm_ident m) (ml_messages st) \<noteq> [] then (Inl 500, st)
      else (Inr r, st\<lparr>ml_messages := snd (row_add m (ml_messages st))\<rparr>))"

text \<open>No token is asked for. The answer is the category and action, or the reason for none.\<close>

definition classify_inbound_email :: "(string \<Rightarrow> llm_outcome) \<Rightarrow> message_create \<Rightarrow> 'w mail_state \<Rightarrow> (string + llm_answer \<times> string, 'w) mail_reply" where
  "classify_inbound_email llm d st =
     (if \<not> valid_message_create d then (Inl 422, st)
      else if (case row_get (ml_domains st) (mmc_domain d) of None \<Rightarrow> True | Some r \<Rightarrow> md_llm r \<noteq> Some True)
        then store_message (Inl ''LLM not enabled'') (pending_message d) st
      else (case classify_email llm (or_empty (mmc_subject d)) (mmc_sender d) (mmc_preview d) None of
          Classify_Raised \<Rightarrow> (Inl 500, st)
        | Not_Classified m \<Rightarrow> store_message (Inl m) (pending_message d) st
        | Classified a act \<Rightarrow> store_message (Inr (a, act)) (set_classification a act (pending_message d)) st))"

definition test_classify_email :: "(string \<Rightarrow> llm_outcome) \<Rightarrow> token option \<Rightarrow> nat \<Rightarrow> string option \<Rightarrow> string option \<Rightarrow> string option \<Rightarrow> 'w mail_state \<Rightarrow>
    nat + llm_answer \<times> string" where
  "test_classify_email llm tok k subject sender preview st =
     (case require_admin tok of
        Inl c \<Rightarrow> Inl c
      | Inr u \<Rightarrow> (case row_get (ml_domains st) k of
          None \<Rightarrow> Inl 404
        | Some r \<Rightarrow>
            (if md_llm r \<noteq> Some True then Inl 400
             else (case classify_email llm (case subject of None \<Rightarrow> ''Test email'' | Some s \<Rightarrow> s)
                 (case sender of None \<Rightarrow> ''test@example.com'' | Some s \<Rightarrow> s) preview None of
                 Classify_Raised \<Rightarrow> Inl 500 | Not_Classified m \<Rightarrow> Inl 502 | Classified a act \<Rightarrow> Inr (a, act)))))"

definition list_mail_messages :: "token option \<Rightarrow> nat \<Rightarrow> string option \<Rightarrow> string option \<Rightarrow> int \<Rightarrow> int \<Rightarrow> 'w mail_state \<Rightarrow> nat + (nat \<times> mail_message) list" where
  "list_mail_messages tok k category state limit offset st = domain_read tok st k
     (if limit < 0 \<or> offset < 0 then Inl 500
      else Inr (take (nat limit) (drop (nat offset) (rev (rows_where (\<lambda>m. mm_domain m = k
        \<and> (truthy_str category \<longrightarrow> mm_category m = category) \<and> (truthy_str state \<longrightarrow> Some (mm_status m) = state)) (ml_messages st))))))"

definition get_mail_message :: "token option \<Rightarrow> nat \<Rightarrow> 'w mail_state \<Rightarrow> nat + nat \<times> mail_message" where
  "get_mail_message tok j st =
     (case require_auth tok of
        Inl c \<Rightarrow> Inl c
      | Inr u \<Rightarrow> (case joined mm_domain (ml_messages st) st j of None \<Rightarrow> Inl 404 | Some (m, i) \<Rightarrow> mail_read tok st i (Inr (j, m))))"

definition reclassify_message :: "(string \<Rightarrow> llm_outcome) \<Rightarrow> token option \<Rightarrow> nat \<Rightarrow> 'w mail_state \<Rightarrow> (nat \<times> mail_message, 'w) mail_reply" where
  "reclassify_message llm tok j st = mail_admin tok st (\<lambda>u. mail_row (ml_messages st) j st (\<lambda>m. mail_row (ml_domains st) (mm_domain m) st (\<lambda>r.
     if md_llm r \<noteq> Some True then (Inl 400, st)
     else (case classify_email llm (or_empty (mm_subject m)) (mm_sender m) (mm_preview m) None of
         Classify_Raised \<Rightarrow> (Inl 500, st)
       | Not_Classified e \<Rightarrow> (Inl 502, st)
       | Classified a act \<Rightarrow> (let m' = set_classification a act m in (Inr (j, m'), st\<lparr>ml_messages := row_set j m' (ml_messages st)\<rparr>))))))"

text \<open>The action is any text of at most 20 characters and becomes the status too.\<close>

definition message_action :: "token option \<Rightarrow> nat \<Rightarrow> string \<Rightarrow> string option \<Rightarrow> 'w mail_state \<Rightarrow> (nat \<times> mail_message, 'w) mail_reply" where
  "message_action tok j action reason st = mail_admin tok st (\<lambda>u.
     if 20 < length action then (Inl 422, st)
     else mail_row (ml_messages st) j st (\<lambda>m.
       let m' = m\<lparr>mm_action := action, mm_action_reason := reason, mm_action_by := Some u, mm_status := action\<rparr> in
       (Inr (j, m'), st\<lparr>ml_messages := row_set j m' (ml_messages st)\<rparr>)))"

section \<open>Placeholders\<close>

definition get_mail_queue :: "token option \<Rightarrow> nat \<Rightarrow> nat + json" where
  "get_mail_queue tok i = map_sum id (\<lambda>u. J_Obj [(''instance_id'', J_Int (int i)), (''queue_size'', J_Int 0), (''deferred'', J_Int 0), (''frozen'', J_Int 0),
     (''recent_activity'', J_List [])]) (require_auth tok)"

definition flush_mail_queue :: "token option \<Rightarrow> nat \<Rightarrow> nat + json" where
  "flush_mail_queue tok i = map_sum id (\<lambda>u. J_Obj [(''status'', J_Str ''queued''), (''action'', J_Str ''flush_queue'')]) (require_admin tok)"

definition get_mail_stats :: "token option \<Rightarrow> nat \<Rightarrow> nat + json" where
  "get_mail_stats tok i = map_sum id (\<lambda>u. J_Obj [(''instance_id'', J_Int (int i)), (''domains'', J_Int 0), (''users'', J_Int 0), (''messages_today'', J_Int 0),
     (''spam_blocked'', J_Int 0), (''viruses_blocked'', J_Int 0), (''queue_size'', J_Int 0), (''storage_used'', J_Int 0)]) (require_auth tok)"

section \<open>Calls\<close>

text \<open>What the handlers take from outside: the password hash and the language model.\<close>

record mail_ctx =
  mx_hash :: "string \<Rightarrow> string option"
  mx_llm :: "string \<Rightarrow> llm_outcome"

datatype mail_call =
    New_Domain nat domain_create
  | Patch_Domain nat domain_patch
  | Drop_Domain nat
  | Renew_Dkim nat
  | New_Mail_User nat mail_user_create
  | Patch_Mail_User nat mail_user_patch
  | Drop_Mail_User nat
  | New_Alias nat alias_create
  | Patch_Alias nat alias_patch
  | Drop_Alias nat
  | Inbound message_create
  | Reclassify nat
  | Act_On nat string "string option"

definition mail_handle :: "mail_ctx \<Rightarrow> token option \<Rightarrow> mail_call \<Rightarrow> 'w mail_state \<Rightarrow> 'w mail_state" where
  "mail_handle x tok c st =
     (case c of
        New_Domain i d \<Rightarrow> snd (create_domain tok i d st)
      | Patch_Domain k d \<Rightarrow> snd (update_domain tok k d st)
      | Drop_Domain k \<Rightarrow> snd (delete_domain tok k st)
      | Renew_Dkim k \<Rightarrow> snd (regenerate_dkim tok k st)
      | New_Mail_User k d \<Rightarrow> snd (create_user (mx_hash x) tok k d st)
      | Patch_Mail_User j d \<Rightarrow> snd (update_user (mx_hash x) tok j d st)
      | Drop_Mail_User j \<Rightarrow> snd (delete_user tok j st)
      | New_Alias k d \<Rightarrow> snd (create_alias tok k d st)
      | Patch_Alias j d \<Rightarrow> snd (update_alias tok j d st)
      | Drop_Alias j \<Rightarrow> snd (delete_alias tok j st)
      | Inbound d \<Rightarrow> snd (classify_inbound_email (mx_llm x) d st)
      | Reclassify j \<Rightarrow> snd (reclassify_message (mx_llm x) tok j st)
      | Act_On j a r \<Rightarrow> snd (message_action tok j a r st))"

inductive mail_step :: "'w sender \<Rightarrow> 'w mail_state \<Rightarrow> 'w mail_state \<Rightarrow> bool" for send where
  mail_call: "mail_step send st (mail_handle x tok c st)"
| mail_task: "ml_tasks st = ts @ t # ts' \<Longrightarrow> mail_step send st (run_mail_task send t (st\<lparr>ml_tasks := ts @ ts'\<rparr>))"

inductive_cases mail_stepE: "mail_step send st st'"

text \<open>
  \<open>services/mail-service/mail_agent.py\<close>. Exim and Dovecot read the database themselves; the agent checks the
  configuration and sends signals. It asks for no key. A command that cannot be started counts as exit code 1.
\<close>

record mail_env =
  mv_run :: "string list \<Rightarrow> int \<times> string"

record mail_host =
  mh_signals :: "string list list"

definition exim_check :: "string list" where
  "exim_check = [''exim4'', ''-C'', ''/etc/exim4/exim4.conf'', ''-bV'']"

definition queue_length :: "mail_env \<Rightarrow> int option" where
  "queue_length env = (case mv_run env [''exim4'', ''-C'', ''/etc/exim4/exim4.conf'', ''-bpc''] of (rc, out) \<Rightarrow> if rc = 0 then py_int out else None)"

definition mail_health :: "mail_env \<Rightarrow> json" where
  "mail_health env = (let exim = (fst (mv_run env exim_check) = 0); dovecot = (fst (mv_run env [''doveconf'', ''-n'']) = 0) in
     J_Obj [(''status'', J_Str (if exim \<and> dovecot then ''ok'' else ''degraded'')),
       (''checks'', J_Obj [(''exim_config'', J_Bool exim), (''dovecot_config'', J_Bool dovecot)]), (''queue_length'', opt_int (queue_length env))])"

definition mail_stats :: "mail_env \<Rightarrow> json" where
  "mail_stats env = J_Obj [(''queue_length'', opt_int (queue_length env))]"

definition mail_reload :: "mail_env \<Rightarrow> mail_host \<Rightarrow> json \<times> mail_host" where
  "mail_reload env h =
     (case mv_run env exim_check of (rc, out) \<Rightarrow>
        if rc \<noteq> 0 then (J_Obj [(''reloaded'', J_Bool False), (''error'', J_Str ''exim config invalid''), (''detail'', J_Str out)], h)
        else (J_Obj [(''reloaded'', J_Bool True)], h\<lparr>mh_signals := mh_signals h @ [[''pkill'', ''-HUP'', ''-x'', ''exim4''], [''doveadm'', ''reload'']]\<rparr>))"

definition mail_classify :: json where
  "mail_classify = J_Obj [(''enabled'', J_Bool False), (''detail'', J_Str ''LLM classification not configured in this build'')]"

text \<open>The agent as the peer of the gateway's client, under one base address. A path it does not have is a 404.\<close>

definition mail_agent :: "mail_env \<Rightarrow> string \<Rightarrow> mail_host sender" where
  "mail_agent env base url k meth body h =
     (if url = base @ ''/reload'' then (if meth = ''POST'' then (case mail_reload env h of (j, h') \<Rightarrow> (Http_Ok j, h')) else (Http_Status 405 [], h))
      else if url = base @ ''/classify'' then (if meth = ''POST'' then Http_Ok mail_classify else Http_Status 405 [], h)
      else if url = base @ ''/health'' then (if meth = ''GET'' then Http_Ok (mail_health env) else Http_Status 405 [], h)
      else if url = base @ ''/stats'' then (if meth = ''GET'' then Http_Ok (mail_stats env) else Http_Status 405 [], h)
      else (Http_Status 404 [], h))"

end
