(* ===== verification/Gw_Mail_Props.thy ===== *)
theory Gw_Mail_Props
  imports Gw_Mail_Messages Gw_Dhcp_Props Gw_Invariant
begin

text \<open>
  The rows of the mail router over all runs: keys the code checks for duplicates stay unique, children keep their domain,
  and what a validator accepted stays valid.
\<close>

section \<open>Unique keys\<close>

lemma keyedD: "keyed f t \<Longrightarrow> row_get t i = Some r \<Longrightarrow> row_get t j = Some q \<Longrightarrow> f r = f q \<Longrightarrow> i = j"
  unfolding keyed_def by blast

lemma keyed_put:
  assumes "keyed f t" "\<And>j q. row_get t j = Some q \<Longrightarrow> f q = f r \<Longrightarrow> j = k"
  shows "keyed f (row_set k r t)"
  using assms unfolding keyed_def by (auto simp: rows.get_put split: if_splits)

lemma keyed_drop: "keyed f t \<Longrightarrow> table_ok t \<Longrightarrow> keyed f (drop_rows q t)"
  unfolding keyed_def by (auto simp: get_drop_rows split: option.splits if_splits)

text \<open>With unique keys the duplicate check of the code never meets two rows.\<close>

lemma keyed_find:
  assumes "keyed f t" "table_ok t" "\<And>r. p r \<Longrightarrow> f r = v"
  shows "duplicates (filter Q (rows_where p t)) \<noteq> Some 500"
proof -
  let ?es = "filter Q (rows_where p t)"
  have "distinct (map fst (rows_where p t))" using assms(2) by (auto simp: rows_where_def table_ok_def distinct_map_filter)
  then have d: "distinct ?es" by (simp add: distinct_map)
  have same: "e = e'" if e: "e \<in> set ?es" "e' \<in> set ?es" for e e'
  proof -
    obtain i r j q where n: "e = (i, r)" "e' = (j, q)" by fastforce
    then have g: "row_get t i = Some r" "p r" "row_get t j = Some q" "p q" using e rows_where_get[OF assms(2)] by auto
    then have "f r = f q" using assms(3) by metis
    then have "i = j" by (rule keyedD[OF assms(1) g(1,3)])
    then show ?thesis using n g by simp
  qed
  show ?thesis
  proof (cases ?es rule: remdups_adj.cases)
    case (3 a b es)
    then have "a = b" by (intro same) simp_all
    then show ?thesis using d 3 by simp
  qed (simp_all add: duplicates_def)
qed

lemma duplicates_none: "duplicates es = None \<longleftrightarrow> es = []"
  by (simp add: duplicates_def split: list.split)

lemma related_del_parent: "related f R ps cs \<Longrightarrow> table_ok cs \<Longrightarrow> related f R (row_del k ps) (drop_rows (\<lambda>c. f c = k) cs)"
  by (auto simp: related_def rows.get_del get_drop_rows split: option.splits if_splits)

section \<open>The invariant\<close>

definition domain_good :: "mail_domain \<Rightarrow> bool" where
  "domain_good d \<longleftrightarrow> mta_host_ok (md_host d) \<and> (md_forward d \<longrightarrow> truthy_str (md_host d)) \<and> 1 \<le> md_port d \<and> md_port d \<le> 65535"

definition mail_inv :: "'w mail_state \<Rightarrow> bool" where
  "mail_inv st \<longleftrightarrow> table_ok (ml_domains st) \<and> table_ok (ml_users st) \<and> table_ok (ml_aliases st) \<and> table_ok (ml_messages st)
     \<and> keyed (\<lambda>d. (md_instance d, md_domain d)) (ml_domains st) \<and> keyed (\<lambda>m. (mu_domain m, mu_username m)) (ml_users st)
     \<and> keyed (\<lambda>a. (ma_domain a, ma_source a, ma_dest a)) (ml_aliases st) \<and> keyed mm_ident (ml_messages st)
     \<and> related mu_domain (\<lambda>d m. True) (ml_domains st) (ml_users st) \<and> related ma_domain (\<lambda>d a. True) (ml_domains st) (ml_aliases st)
     \<and> related mm_domain (\<lambda>d m. True) (ml_domains st) (ml_messages st)
     \<and> rows_all domain_good (ml_domains st) \<and> rows_all (\<lambda>a. alias_texts_ok (ma_source a) (ma_dest a)) (ml_aliases st)"

lemma mail_inv_frame [simp]:
  "mail_inv (mail_on_gw f st) = mail_inv st" "mail_inv (st\<lparr>ml_tasks := ts\<rparr>) = mail_inv st" "mail_inv (st\<lparr>ml_gw := g\<rparr>) = mail_inv st"
  "mail_inv (snd (mail_answer r ts st)) = mail_inv st" "mail_inv (log_mail u a ty k i st) = mail_inv st"
  by (simp_all add: mail_inv_def mail_on_gw_def mail_answer_def log_mail_def split: sum.split)

lemma mail_admin_inv: "mail_inv st \<Longrightarrow> (\<And>u. mail_inv (snd (f u))) \<Longrightarrow> mail_inv (snd (mail_admin tok st f))"
  by (simp add: mail_admin_def split: sum.split)

lemma mail_row_inv: "mail_inv st \<Longrightarrow> (\<And>r. row_get t k = Some r \<Longrightarrow> mail_inv (snd (f r))) \<Longrightarrow> mail_inv (snd (mail_row t k st f))"
  by (simp add: mail_row_def split: option.split)

lemma no_rows_where: "table_ok t \<Longrightarrow> rows_where p t = [] \<Longrightarrow> row_get t k = Some r \<Longrightarrow> \<not> p r"
  using rows_where_get[of t k r p] by auto

lemma add_domain_inv:
  assumes "mail_inv st" "row_add d (ml_domains st) = (k, t')" "domain_good d" "same_domain st (md_instance d) (md_domain d) = []"
  shows "mail_inv (st\<lparr>ml_domains := t'\<rparr>)"
proof -
  have ok: "table_ok (ml_domains st)" using assms(1) by (simp add: mail_inv_def)
  have "keyed (\<lambda>d. (md_instance d, md_domain d)) t'"
    using assms(1) no_rows_where[OF ok assms(4)[unfolded same_domain_def]] by (intro keyed_add[OF ok _ _ assms(2)]) (auto simp: mail_inv_def)
  with assms rows.ok_add[OF ok assms(2)] show ?thesis by (auto simp: mail_inv_def intro: rows_all_add related_add_parent)
qed

lemma set_domain_inv:
  assumes "mail_inv st" "row_get (ml_domains st) k = Some d" "domain_good d'" "md_instance d' = md_instance d" "md_domain d' = md_domain d"
  shows "mail_inv (st\<lparr>ml_domains := row_set k d' (ml_domains st)\<rparr>)"
proof -
  have "keyed (\<lambda>d. (md_instance d, md_domain d)) (row_set k d' (ml_domains st))"
    using assms by (intro keyed_set[OF _ assms(2)]) (auto simp: mail_inv_def)
  with assms show ?thesis by (auto simp: mail_inv_def tables_keep intro: rows_all_set related_set_same[OF _ assms(2)])
qed

lemma drop_domain_inv:
  assumes "mail_inv st"
  shows "mail_inv (st\<lparr>ml_domains := row_del k (ml_domains st), ml_users := drop_rows (\<lambda>m. mu_domain m = k) (ml_users st),
    ml_aliases := drop_rows (\<lambda>m. ma_domain m = k) (ml_aliases st), ml_messages := drop_rows (\<lambda>m. mm_domain m = k) (ml_messages st)\<rparr>)"
proof -
  have "rows_all domain_good (row_del k (ml_domains st))" using assms by (auto simp: mail_inv_def rows_all_def rows.get_del split: if_splits)
  moreover have "rows_all (\<lambda>a. alias_texts_ok (ma_source a) (ma_dest a)) (drop_rows (\<lambda>m. ma_domain m = k) (ml_aliases st))"
    using assms by (auto simp: mail_inv_def rows_all_def get_drop_rows split: option.splits if_splits)
  ultimately show ?thesis using assms by (simp add: mail_inv_def tables_keep keyed_del keyed_drop related_del_parent)
qed

lemma user_table_inv:
  assumes "mail_inv st"
  shows "row_get (ml_domains st) (mu_domain m) = Some d \<Longrightarrow> same_user st (mu_domain m) (mu_username m) = [] \<Longrightarrow> row_add m (ml_users st) = (j, t)
      \<Longrightarrow> mail_inv (st\<lparr>ml_users := t\<rparr>)"
    "row_get (ml_users st) j = Some m0 \<Longrightarrow> mu_domain m = mu_domain m0 \<Longrightarrow> mu_username m = mu_username m0 \<Longrightarrow> mail_inv (st\<lparr>ml_users := row_set j m (ml_users st)\<rparr>)"
    "mail_inv (st\<lparr>ml_users := row_del j (ml_users st)\<rparr>)"
proof -
  have ok: "table_ok (ml_users st)" using assms by (simp add: mail_inv_def)
  show "mail_inv (st\<lparr>ml_users := t\<rparr>)" if "row_get (ml_domains st) (mu_domain m) = Some d" "same_user st (mu_domain m) (mu_username m) = []"
    "row_add m (ml_users st) = (j, t)"
  proof -
    have "keyed (\<lambda>m. (mu_domain m, mu_username m)) t"
      using assms no_rows_where[OF ok that(2)[unfolded same_user_def]] by (intro keyed_add[OF ok _ _ that(3)]) (auto simp: mail_inv_def)
    with assms that rows.ok_add[OF ok that(3)] show ?thesis by (auto simp: mail_inv_def intro: related_add_child)
  qed
  show "row_get (ml_users st) j = Some m0 \<Longrightarrow> mu_domain m = mu_domain m0 \<Longrightarrow> mu_username m = mu_username m0 \<Longrightarrow> mail_inv (st\<lparr>ml_users := row_set j m (ml_users st)\<rparr>)"
    using assms by (auto simp: mail_inv_def tables_keep intro: related_replace keyed_set)
  show "mail_inv (st\<lparr>ml_users := row_del j (ml_users st)\<rparr>)" using assms by (simp add: mail_inv_def tables_keep keyed_del related_del_child)
qed

lemma no_same_alias:
  assumes "table_ok (ml_aliases st)" "same_alias st keep k s d = []" "row_get (ml_aliases st) j = Some a" "keep j"
  shows "(ma_domain a, ma_source a, ma_dest a) \<noteq> (k, s, d)"
proof
  assume "(ma_domain a, ma_source a, ma_dest a) = (k, s, d)"
  then have "(j, a) \<in> set (rows_where (\<lambda>a. ma_domain a = k \<and> ma_source a = s \<and> ma_dest a = d) (ml_aliases st))"
    using assms(3) rows_where_get[OF assms(1)] by simp
  then have "(j, a) \<in> set (same_alias st keep k s d)" using assms(4) unfolding same_alias_def by simp
  then show False using assms(2) by simp
qed

lemma alias_table_inv:
  assumes "mail_inv st"
  shows "row_get (ml_domains st) (ma_domain a) = Some d \<Longrightarrow> same_alias st (\<lambda>j. True) (ma_domain a) (ma_source a) (ma_dest a) = [] \<Longrightarrow>
      alias_texts_ok (ma_source a) (ma_dest a) \<Longrightarrow> row_add a (ml_aliases st) = (j, t) \<Longrightarrow> mail_inv (st\<lparr>ml_aliases := t\<rparr>)"
    "row_get (ml_aliases st) j = Some a0 \<Longrightarrow> ma_domain a = ma_domain a0 \<Longrightarrow> alias_texts_ok (ma_source a) (ma_dest a) \<Longrightarrow>
      (ma_source a = ma_source a0 \<and> ma_dest a = ma_dest a0) \<or> same_alias st (\<lambda>k. k \<noteq> j) (ma_domain a) (ma_source a) (ma_dest a) = [] \<Longrightarrow>
      mail_inv (st\<lparr>ml_aliases := row_set j a (ml_aliases st)\<rparr>)"
    "mail_inv (st\<lparr>ml_aliases := row_del j (ml_aliases st)\<rparr>)"
proof -
  have ok: "table_ok (ml_aliases st)" using assms by (simp add: mail_inv_def)
  show "mail_inv (st\<lparr>ml_aliases := t\<rparr>)" if h: "row_get (ml_domains st) (ma_domain a) = Some d"
    "same_alias st (\<lambda>j. True) (ma_domain a) (ma_source a) (ma_dest a) = []" "alias_texts_ok (ma_source a) (ma_dest a)" "row_add a (ml_aliases st) = (j, t)"
  proof -
    have "keyed (\<lambda>a. (ma_domain a, ma_source a, ma_dest a)) t"
      using assms no_same_alias[OF ok h(2)] by (intro keyed_add[OF ok _ _ h(4)]) (auto simp: mail_inv_def)
    with assms h rows.ok_add[OF ok h(4)] show ?thesis by (auto simp: mail_inv_def intro: related_add_child rows_all_add)
  qed
  show "mail_inv (st\<lparr>ml_aliases := row_set j a (ml_aliases st)\<rparr>)" if h: "row_get (ml_aliases st) j = Some a0" "ma_domain a = ma_domain a0"
    "alias_texts_ok (ma_source a) (ma_dest a)"
    "(ma_source a = ma_source a0 \<and> ma_dest a = ma_dest a0) \<or> same_alias st (\<lambda>k. k \<noteq> j) (ma_domain a) (ma_source a) (ma_dest a) = []"
  proof -
    have k: "keyed (\<lambda>a. (ma_domain a, ma_source a, ma_dest a)) (ml_aliases st)" using assms by (simp add: mail_inv_def)
    have "keyed (\<lambda>a. (ma_domain a, ma_source a, ma_dest a)) (row_set j a (ml_aliases st))"
    proof (rule keyed_put[OF k])
      fix i q assume q: "row_get (ml_aliases st) i = Some q" "(ma_domain q, ma_source q, ma_dest q) = (ma_domain a, ma_source a, ma_dest a)"
      show "i = j"
      proof (rule ccontr)
        assume n: "i \<noteq> j"
        then have "ma_source a = ma_source a0 \<and> ma_dest a = ma_dest a0" using h(4) no_same_alias[OF ok _ q(1)] q(2) by auto
        then have "i = j" using q h(2) by (intro keyedD[OF k q(1) h(1)]) simp
        with n show False ..
      qed
    qed
    with assms h(1-3) show ?thesis by (auto simp: mail_inv_def tables_keep intro: related_replace rows_all_set)
  qed
  have "rows_all (\<lambda>a. alias_texts_ok (ma_source a) (ma_dest a)) (row_del j (ml_aliases st))"
    using assms by (auto simp: mail_inv_def rows_all_def rows.get_del split: if_splits)
  then show "mail_inv (st\<lparr>ml_aliases := row_del j (ml_aliases st)\<rparr>)" using assms by (simp add: mail_inv_def tables_keep keyed_del related_del_child)
qed

lemma store_message_inv: "mail_inv st \<Longrightarrow> mail_inv (snd (store_message r m st))"
proof -
  assume inv: "mail_inv st"
  then have ok: "table_ok (ml_messages st)" by (simp add: mail_inv_def)
  have "mail_inv (st\<lparr>ml_messages := t\<rparr>)" if d: "row_get (ml_domains st) (mm_domain m) = Some d" and n: "rows_where (\<lambda>q. mm_ident q = mm_ident m) (ml_messages st) = []"
    and a: "row_add m (ml_messages st) = (k, t)" for d k t
  proof -
    have "keyed mm_ident t" using inv no_rows_where[OF ok n] by (intro keyed_add[OF ok _ _ a]) (auto simp: mail_inv_def)
    with inv d a rows.ok_add[OF ok a] show ?thesis by (auto simp: mail_inv_def intro: related_add_child)
  qed
  then show ?thesis using inv by (cases "row_add m (ml_messages st)") (auto simp: store_message_def)
qed

lemma set_message_inv:
  assumes "mail_inv st" "row_get (ml_messages st) k = Some m0" "mm_domain m = mm_domain m0" "mm_ident m = mm_ident m0"
  shows "mail_inv (st\<lparr>ml_messages := row_set k m (ml_messages st)\<rparr>)"
  using assms by (auto simp: mail_inv_def tables_keep intro: related_replace keyed_set)

section \<open>Every call keeps it\<close>

lemma joined_row: "joined f t st j = Some (r, i) \<Longrightarrow> row_get t j = Some r"
  by (auto simp: joined_def split: option.splits)

lemma kept_given: "kept p old = Some v \<Longrightarrow> p = None \<and> v = old \<or> p = Some (Some v)"
  by (auto simp: kept_def split: option.splits)

lemma patch_domain_good:
  assumes "domain_good r" "valid_domain_patch d" "\<not> forward_without_host d r" "patch_domain d r = Some r'"
  shows "domain_good r' \<and> md_instance r' = md_instance r \<and> md_domain r' = md_domain r"
proof -
  obtain f p where fp: "kept (mdp_forward d) (md_forward r) = Some f" "kept (mdp_port d) (md_port r) = Some p"
    using assms(4) by (auto simp: patch_domain_def split: option.splits)
  have r': "md_host r' = patched (mdp_host d) (md_host r)" "md_forward r' = f" "md_port r' = p" "md_instance r' = md_instance r" "md_domain r' = md_domain r"
    using assms(4) fp by (auto simp: patch_domain_def)
  have "mta_host_ok (patched (mdp_host d) (md_host r))"
    using assms(1,2) by (auto simp: valid_domain_patch_def domain_good_def patched_def split: option.splits)
  moreover have "f \<longrightarrow> truthy_str (patched (mdp_host d) (md_host r))" using assms(3) fp by (auto simp: forward_without_host_def)
  moreover have "1 \<le> p \<and> p \<le> 65535" using kept_given[OF fp(2)] assms(1,2) by (auto simp: valid_domain_patch_def domain_good_def)
  ultimately show ?thesis by (simp add: r' domain_good_def)
qed

lemma mail_domain_calls_inv:
  assumes "mail_inv st"
  shows "mail_inv (snd (create_domain tok i d st))" "mail_inv (snd (update_domain tok k p st))" "mail_inv (snd (delete_domain tok k st))"
    "mail_inv (snd (regenerate_dkim tok k st))"
proof -
  have "mail_inv (st\<lparr>ml_domains := t\<rparr>)" if "row_add (new_domain i d) (ml_domains st) = (j, t)" "valid_domain_create d" "same_domain st i (mdc_domain d) = []" for j t
    using that by (intro add_domain_inv[OF assms that(1)]) (auto simp: domain_good_def new_domain_def valid_domain_create_def)
  then show "mail_inv (snd (create_domain tok i d st))" unfolding create_domain_def
    by (intro mail_admin_inv assms) (auto simp: Let_def assms duplicates_none split: prod.splits option.splits)
  have good: "domain_good r" if "row_get (ml_domains st) k = Some r" for r
    using assms that rows_allD[of domain_good "ml_domains st" k r] by (simp add: mail_inv_def)
  have "mail_inv (st\<lparr>ml_domains := row_set k r' (ml_domains st)\<rparr>)"
    if "row_get (ml_domains st) k = Some r" "valid_domain_patch p" "\<not> forward_without_host p r" "patch_domain p r = Some r'" for r r'
    using patch_domain_good[OF good[OF that(1)] that(2-4)] set_domain_inv[OF assms that(1)] by blast
  then show "mail_inv (snd (update_domain tok k p st))" unfolding update_domain_def
    by (intro mail_admin_inv assms) (auto simp: mail_row_def assms split: option.splits)
  show "mail_inv (snd (delete_domain tok k st))" unfolding delete_domain_def
    by (intro mail_admin_inv mail_row_inv assms) (simp add: drop_domain_inv[OF assms])
  show "mail_inv (snd (regenerate_dkim tok k st))" unfolding regenerate_dkim_def
    by (intro mail_admin_inv mail_row_inv assms) (simp add: assms)
qed

lemma mail_user_calls_inv:
  assumes "mail_inv st"
  shows "mail_inv (snd (create_user hash tok k d st))" "mail_inv (snd (update_user hash tok j p st))" "mail_inv (snd (delete_user tok j st))"
proof -
  note t = user_table_inv[OF assms]
  have "mail_inv (st\<lparr>ml_users := t'\<rparr>)" if "row_get (ml_domains st) k = Some r" "same_user st k (muc_username d) = []"
    "row_add (new_user k h d) (ml_users st) = (j, t')" for r h j t'
    by (rule t(1)[OF _ _ that(3), of r]) (use that in \<open>simp_all add: new_user_def\<close>)
  then show "mail_inv (snd (create_user hash tok k d st))" unfolding create_user_def
    by (intro mail_admin_inv assms) (auto simp: Let_def assms duplicates_none mail_row_def split: prod.splits option.splits)
  have "mail_inv (st\<lparr>ml_users := row_set j ((patch_user p m)\<lparr>mu_hash := h\<rparr>) (ml_users st)\<rparr>)" if "row_get (ml_users st) j = Some m" for m h
    by (rule t(2)[OF that]) (simp_all add: patch_user_def)
  then show "mail_inv (snd (update_user hash tok j p st))" unfolding update_user_def
    by (intro mail_admin_inv mail_row_inv assms) (auto simp: Let_def assms split: option.splits)
  show "mail_inv (snd (delete_user tok j st))" unfolding delete_user_def
    by (intro mail_admin_inv mail_row_inv assms) (simp add: t(3))
qed

lemma alias_patch_texts:
  "alias_patch_status d = None \<Longrightarrow> alias_texts_ok (ma_source a) (ma_dest a) \<Longrightarrow> alias_texts_ok (ma_source (patch_alias d a)) (ma_dest (patch_alias d a))"
  by (auto simp: alias_patch_status_def alias_texts_ok_def patch_alias_def given_text_def split: option.splits if_splits)

lemma mail_alias_calls_inv:
  assumes "mail_inv st"
  shows "mail_inv (snd (create_alias tok k d st))" "mail_inv (snd (update_alias tok j p st))" "mail_inv (snd (delete_alias tok j st))"
proof -
  note t = alias_table_inv[OF assms]
  have "mail_inv (st\<lparr>ml_aliases := t'\<rparr>)" if "row_get (ml_domains st) k = Some r" "same_alias st (\<lambda>j. True) k (mac_source d) (mac_dest d) = []"
    "alias_texts_ok (mac_source d) (mac_dest d)" "row_add (new_alias k d) (ml_aliases st) = (j, t')" for r j t'
    by (rule t(1)[OF _ _ _ that(4), of r]) (use that in \<open>simp_all add: new_alias_def\<close>)
  then show "mail_inv (snd (create_alias tok k d st))" unfolding create_alias_def
    by (intro mail_admin_inv assms) (auto simp: Let_def assms duplicates_none mail_row_def split: prod.splits option.splits)
  have upd: "mail_inv (st\<lparr>ml_aliases := row_set j (patch_alias p a) (ml_aliases st)\<rparr>)" if h: "joined ma_domain (ml_aliases st) st j = Some (a, i)"
    "alias_patch_status p = None" "map_source p = None \<and> map_dest p = None
      \<or> same_alias st (\<lambda>k. k \<noteq> j) (ma_domain a) (ma_source (patch_alias p a)) (ma_dest (patch_alias p a)) = []" for a i
  proof -
    have a: "row_get (ml_aliases st) j = Some a" by (rule joined_row[OF h(1)])
    then have "alias_texts_ok (ma_source a) (ma_dest a)"
      using assms rows_allD[of "\<lambda>a. alias_texts_ok (ma_source a) (ma_dest a)" "ml_aliases st" j a] by (simp add: mail_inv_def)
    moreover have "ma_domain (patch_alias p a) = ma_domain a" by (simp add: patch_alias_def)
    moreover have "map_source p = None \<and> map_dest p = None \<Longrightarrow> ma_source (patch_alias p a) = ma_source a \<and> ma_dest (patch_alias p a) = ma_dest a"
      by (simp add: patch_alias_def given_text_def)
    ultimately show ?thesis using h(3) alias_patch_texts[OF h(2)] by (intro t(2)[OF a]) auto
  qed
  then show "mail_inv (snd (update_alias tok j p st))" unfolding update_alias_def
    by (intro mail_admin_inv assms) (auto simp: Let_def assms duplicates_none split: prod.splits option.splits)
  show "mail_inv (snd (delete_alias tok j st))" unfolding delete_alias_def
    by (intro mail_admin_inv assms) (auto simp: assms t(3) split: prod.splits option.splits)
qed

lemma mail_message_calls_inv:
  assumes "mail_inv st"
  shows "mail_inv (snd (classify_inbound_email llm d st))" "mail_inv (snd (reclassify_message llm tok j st))" "mail_inv (snd (message_action tok j act why st))"
proof -
  show "mail_inv (snd (classify_inbound_email llm d st))"
    by (simp add: classify_inbound_email_def assms store_message_inv split: classification.split)
  show "mail_inv (snd (reclassify_message llm tok j st))" unfolding reclassify_message_def
    by (intro mail_admin_inv mail_row_inv assms)
      (auto simp: Let_def assms set_classification_def split: classification.split intro!: set_message_inv[OF assms])
  show "mail_inv (snd (message_action tok j act why st))" unfolding message_action_def
    by (intro mail_admin_inv assms) (auto simp: Let_def assms mail_row_def split: option.split intro!: set_message_inv[OF assms])
qed

lemma mail_ask_rows: "mail_inv (snd (mail_ask send i path body st)) = mail_inv st"
  by (simp add: mail_ask_def split: prod.split)

lemma run_mail_task_inv: "mail_inv (run_mail_task send t st) = mail_inv st"
  using mail_ask_rows[of send _ _ _ st]
  by (auto simp: run_mail_task_def generate_dkim_keys_def reload_mail_config_def log_mail_agent_def split: mail_task.split option.split prod.split sum.split)
    (metis snd_conv)+

lemma mail_handle_inv: "mail_inv st \<Longrightarrow> mail_inv (mail_handle x tok c st)"
  by (cases c) (simp_all add: mail_handle_def mail_domain_calls_inv mail_user_calls_inv mail_alias_calls_inv mail_message_calls_inv)

lemma mail_steps_inv: "(mail_step send)\<^sup>*\<^sup>* st st' \<Longrightarrow> mail_inv st \<Longrightarrow> mail_inv st'"
proof (induction rule: rtranclp_induct)
  case (step st1 st2)
  from step.hyps(2) step.IH[OF step.prems] show ?case
    by (auto elim!: mail_stepE simp: mail_handle_inv run_mail_task_inv)
qed simp

end
