(* ===== verification/Gw_Mail_Claims.thy ===== *)
theory Gw_Mail_Claims
  imports Gw_Mail_Props Gw_Vpn_Claims
begin

text \<open>
  The properties of the mail router, its classifier and its agent, each with a concrete instance.
\<close>

section \<open>A domain\<close>

definition lab_mail_create :: domain_create where
  "lab_mail_create = \<lparr>mdc_domain = ''example.org'', mdc_enabled = True, mdc_spam = True, mdc_virus = True, mdc_dkim = True, mdc_dmarc = True,
     mdc_spf = True, mdc_llm = True, mdc_groupware = False, mdc_forward = False, mdc_host = None, mdc_port = 25, mdc_config = None\<rparr>"

definition lab_mail_alias :: alias_create where
  "lab_mail_alias = \<lparr>mac_source = ''info'', mac_dest = ''kim@example.org'', mac_enabled = True\<rparr>"

definition lab_mail :: "'w \<Rightarrow> 'w mail_state" where
  "lab_mail w = \<lparr>ml_gw = lab_gw w, ml_domains = \<lparr>tb_rows = [(1, new_domain 1 lab_mail_create)], tb_next = 2\<rparr>, ml_users = empty_table,
     ml_aliases = empty_table, ml_messages = empty_table, ml_tasks = []\<rparr>"

definition lab_mail_ctx :: mail_ctx where
  "lab_mail_ctx = \<lparr>mx_hash = (\<lambda>p. Some ''hash''), mx_llm = (\<lambda>p. Llm_Error ''down'')\<rparr>"

lemma lab_mail_rows:
  "row_get (ml_domains (lab_mail w)) k = (if k = 1 then Some (new_domain 1 lab_mail_create) else None)"
  "row_get (ml_users (lab_mail w)) k = None" "row_get (ml_aliases (lab_mail w)) k = None" "row_get (ml_messages (lab_mail w)) k = None"
  by (simp_all add: lab_mail_def row_get_def empty_table_def)

lemma lab_mail_inv: "mail_inv (lab_mail w)"
  by (simp add: mail_inv_def related_def rows_all_def keyed_def lab_mail_rows del: One_nat_def)
    (simp add: lab_mail_def table_ok_def empty_table_def domain_good_def new_domain_def lab_mail_create_def mta_host_ok_def)

section \<open>Rows\<close>

text \<open>C9: Whatever calls, by whom and with which answers of agents and language model, in whatever order with the background tasks, each call and
  task running as a whole: domain names stay
  unique per instance, user names and aliases per domain and message identifiers everywhere, so no duplicate check meets two rows; children keep
  their domain; a forwarding domain has a host of an accepted form; every alias has accepted texts.\<close>

theorem mail_rows_invariant:
  assumes "(mail_step send)\<^sup>*\<^sup>* st st'" "mail_inv st"
  shows "mail_inv st'
    \<and> (\<forall>i n. duplicates (same_domain st' i n) \<noteq> Some 500) \<and> (\<forall>k n. duplicates (same_user st' k n) \<noteq> Some 500)
    \<and> (\<forall>p k s d. duplicates (same_alias st' p k s d) \<noteq> Some 500)
    \<and> (\<forall>k d. row_get (ml_domains st') k = Some d \<longrightarrow> mta_host_ok (md_host d) \<and> (md_forward d \<longrightarrow> truthy_str (md_host d)))
    \<and> (\<forall>j a. row_get (ml_aliases st') j = Some a \<longrightarrow> alias_source_ok (ma_source a) \<and> alias_dest_ok (ma_dest a) \<and> row_get (ml_domains st') (ma_domain a) \<noteq> None)"
proof -
  have inv: "mail_inv st'" by (rule mail_steps_inv[OF assms])
  then have k: "keyed (\<lambda>d. (md_instance d, md_domain d)) (ml_domains st')" "table_ok (ml_domains st')"
    "keyed (\<lambda>m. (mu_domain m, mu_username m)) (ml_users st')" "table_ok (ml_users st')"
    "keyed (\<lambda>a. (ma_domain a, ma_source a, ma_dest a)) (ml_aliases st')" "table_ok (ml_aliases st')" by (simp_all add: mail_inv_def)
  have "duplicates (same_domain st' i n) \<noteq> Some 500" for i n
    using keyed_find[OF k(1,2), of "\<lambda>d. md_instance d = i \<and> md_domain d = n" "(i, n)" "\<lambda>e. True"] by (simp add: same_domain_def)
  moreover have "duplicates (same_user st' j n) \<noteq> Some 500" for j n
    using keyed_find[OF k(3,4), of "\<lambda>m. mu_domain m = j \<and> mu_username m = n" "(j, n)" "\<lambda>e. True"] by (simp add: same_user_def)
  moreover have "duplicates (same_alias st' p j s d) \<noteq> Some 500" for p j s d
    unfolding same_alias_def by (rule keyed_find[OF k(5,6), where v = "(j, s, d)"]) simp
  moreover have "\<forall>k d. row_get (ml_domains st') k = Some d \<longrightarrow> mta_host_ok (md_host d) \<and> (md_forward d \<longrightarrow> truthy_str (md_host d))"
    using inv by (auto simp: mail_inv_def rows_all_def domain_good_def)
  moreover have "\<forall>j a. row_get (ml_aliases st') j = Some a \<longrightarrow> alias_source_ok (ma_source a) \<and> alias_dest_ok (ma_dest a) \<and> row_get (ml_domains st') (ma_domain a) \<noteq> None"
    using inv by (auto simp: mail_inv_def rows_all_def alias_texts_ok_def related_def)
  ultimately show ?thesis using inv by blast
qed

theorem mail_rows_invariant_witness:
  "mail_inv (mail_handle lab_mail_ctx lab_admin (New_Alias 1 lab_mail_alias) (lab_mail (0::nat)))
    \<and> duplicates (same_alias (mail_handle lab_mail_ctx lab_admin (New_Alias 1 lab_mail_alias) (lab_mail (0::nat))) (\<lambda>i. True) 1 ''info'' ''kim@example.org'') \<noteq> Some 500"
proof -
  have "(mail_step (\<lambda>u k m b w. (Http_Timeout, w)))\<^sup>*\<^sup>* (lab_mail (0::nat)) (mail_handle lab_mail_ctx lab_admin (New_Alias 1 lab_mail_alias) (lab_mail 0))"
    by (rule r_into_rtranclp) (rule mail_call)
  from mail_rows_invariant[OF this lab_mail_inv] show ?thesis by blast
qed

section \<open>Settings of the classifier\<close>

text \<open>A patch of the classifier settings of a domain is answered with success, but neither the stored row nor the row in the response has them;
  everything else in the patch is stored.\<close>

theorem config_patch_lost:
  assumes "update_domain tok k d st = (Inr (j, r'), st')" "mdp_config d = Some (Some c)"
  shows "\<exists>r. row_get (ml_domains st) k = Some r \<and> row_get (ml_domains st') k = Some r' \<and> md_config r' = md_config r
    \<and> (\<forall>f. mdp_forward d = Some (Some f) \<longrightarrow> md_forward r' = f)"
proof -
  obtain u where "require_admin tok = Inr u"
    using assms(1) by (auto simp: update_domain_def mail_admin_def split: sum.splits)
  moreover obtain r where r: "row_get (ml_domains st) k = Some r"
    using assms(1) calculation by (auto simp: update_domain_def mail_admin_def mail_row_def split: if_splits option.splits)
  ultimately obtain q where p: "patch_domain d r = Some q" and "domain_response k q = Inr (j, r')"
    and st': "ml_domains st' = row_set k q (ml_domains st)"
    using assms(1)
    by (auto simp: update_domain_def mail_admin_def mail_row_def mail_answer_def log_mail_def mail_on_gw_def split: if_splits option.splits sum.splits)
  then have "q = r'" by (auto simp: domain_response_def split: if_splits)
  moreover have "md_config q = md_config r" "\<forall>f. mdp_forward d = Some (Some f) \<longrightarrow> md_forward q = f"
    using p by (auto simp: patch_domain_def kept_def split: option.splits)
  ultimately show ?thesis using r st' by (simp add: rows.get_put)
qed

definition lab_config_patch :: domain_patch where
  "lab_config_patch = \<lparr>mdp_enabled = None, mdp_spam = None, mdp_virus = None, mdp_dkim = None, mdp_dmarc = None, mdp_spf = None, mdp_llm = None,
     mdp_groupware = None, mdp_config = Some (Some [(''categories'', J_List [])]), mdp_forward = None, mdp_host = None, mdp_port = None\<rparr>"

theorem config_patch_lost_witness:
  "\<exists>r st'. update_domain lab_admin 1 lab_config_patch (lab_mail (0::nat)) = (Inr (1, r), st') \<and> md_config r = md_config (new_domain 1 lab_mail_create)"
proof -
  have "case fst (update_domain lab_admin 1 lab_config_patch (lab_mail (0::nat))) of Inl c \<Rightarrow> False | Inr (j, r) \<Rightarrow> j = 1" by code_simp
  then obtain r st' where u: "update_domain lab_admin 1 lab_config_patch (lab_mail (0::nat)) = (Inr (1, r), st')"
    by (cases "update_domain lab_admin 1 lab_config_patch (lab_mail (0::nat))") (auto split: sum.splits prod.splits)
  have "mdp_config lab_config_patch = Some (Some [(''categories'', J_List [])])" by (simp add: lab_config_patch_def)
  from config_patch_lost[OF u this] lab_mail_rows(1)[of "0::nat" 1] u show ?thesis by (auto simp del: One_nat_def)
qed

section \<open>The agent\<close>

text \<open>The gateway's request to the agent of an instance that is reached at one base address.\<close>

lemma mail_agent_ask:
  assumes "get_instance_endpoint (fd_instances (gs_db (ml_gw st))) i None = Inr base"
  shows "mail_ask (mail_agent env base) i ''/dkim/generate'' body st = (Inl (Response_Error 404 []), st)"
    "mail_ask (mail_agent env base) i ''/reload'' body st =
      (case mail_reload env (gs_world (ml_gw st)) of (j, h) \<Rightarrow> (Inr j, st\<lparr>ml_gw := (ml_gw st)\<lparr>gs_world := h\<rparr>\<rparr>))"
  using assms by (simp_all add: mail_ask_def ask_def agent_request_def mail_agent_def split: prod.split)

text \<open>With the mail agent as the peer no key for signing is ever made: every generation of DKIM keys the gateway queues ends in a refusal, the host
  stays as it is and the audit log records a failure.\<close>

theorem dkim_generation_fails:
  assumes "row_get (ml_domains st) k = Some d" "get_instance_endpoint (fd_instances (gs_db (ml_gw st))) (md_instance d) None = Inr base"
  shows "generate_dkim_keys (mail_agent env base) k name st = log_mail_agent (md_instance d) ''/dkim/generate'' False
      (''DKIM generation for '' @ name @ '' failed: Agent returned error 404: '') st"
  using assms by (simp add: generate_dkim_keys_def mail_agent_ask(1) agent_error_text_def, code_simp)

theorem dkim_generation_fails_witness:
  "gs_world (ml_gw (generate_dkim_keys (mail_agent \<lparr>mv_run = (\<lambda>a. (0, []))\<rparr> ''http://agent'') 1 ''example.org'' (lab_mail \<lparr>mh_signals = []\<rparr>))) = \<lparr>mh_signals = []\<rparr>"
proof -
  have "rstrip_char CHR ''/'' ''http://agent'' = ''http://agent''" by code_simp
  then have e: "get_instance_endpoint (fd_instances (gs_db (ml_gw (lab_mail \<lparr>mh_signals = []\<rparr>)))) (md_instance (new_domain 1 lab_mail_create)) None = Inr ''http://agent''"
    by (simp add: get_instance_endpoint_def lab_mail_def lab_gw_def lab_db_def row_get_def new_domain_def lab_instance_def)
  have r: "row_get (ml_domains (lab_mail \<lparr>mh_signals = []\<rparr>)) 1 = Some (new_domain 1 lab_mail_create)" by (simp add: lab_mail_rows)
  show ?thesis
    by (simp only: dkim_generation_fails[OF r e]) (simp add: log_mail_agent_def mail_on_gw_def audit_dispatch_def set_db_def lab_mail_def lab_gw_def)
qed

text \<open>When Exim refuses its configuration the agent reloads nothing and says so in an answer with status 200; the gateway does not read the answer and
  records a successful reload.\<close>

theorem refused_reload_logged:
  assumes "get_instance_endpoint (fd_instances (gs_db (ml_gw st))) i None = Inr base" "fst (mv_run env exim_check) \<noteq> 0"
  shows "reload_mail_config (mail_agent env base) i st = log_mail_agent i ''/reload'' True ''Mail (Exim) configuration reloaded'' st"
proof -
  obtain rc out where r: "mv_run env exim_check = (rc, out)" "rc \<noteq> 0" using assms(2) by (cases "mv_run env exim_check") auto
  then show ?thesis by (simp add: reload_mail_config_def mail_agent_ask(2)[OF assms(1)] mail_reload_def)
qed

theorem refused_reload_logged_witness:
  "length (fd_audit (gs_db (ml_gw (reload_mail_config (mail_agent \<lparr>mv_run = (\<lambda>a. (1, ''bad''))\<rparr> ''http://agent'') 1 (lab_mail \<lparr>mh_signals = []\<rparr>))))) = 1"
proof -
  have "rstrip_char CHR ''/'' ''http://agent'' = ''http://agent''" by code_simp
  then have e: "get_instance_endpoint (fd_instances (gs_db (ml_gw (lab_mail \<lparr>mh_signals = []\<rparr>)))) 1 None = Inr ''http://agent''"
    by (simp add: get_instance_endpoint_def lab_mail_def lab_gw_def lab_db_def row_get_def lab_instance_def)
  show ?thesis
    by (subst refused_reload_logged[OF e]) (simp_all add: log_mail_agent_def mail_on_gw_def audit_dispatch_def set_db_def lab_mail_def lab_gw_def lab_db_def row_get_def log_agent_dispatch_def log_audit_def)
qed

section \<open>Classification\<close>

text \<open>Whatever the language model answers, a classification names a category of the list and carries the default action of that category; an answer
  from the list is kept.\<close>

theorem classification_from_list:
  assumes "classify_email llm subject sender preview cs = Classified a act"
  shows "\<exists>col. (la_category a, col, act) \<in> set (get_categories cs)
    \<and> (\<exists>b. llm (build_prompt subject sender preview (get_categories cs)) = Llm_Answer b \<and> (la_category b \<in> fst ` set (get_categories cs) \<longrightarrow> a = b))"
proof -
  obtain b where b: "llm (build_prompt subject sender preview (get_categories cs)) = Llm_Answer b" "settle_category (get_categories cs) b = (a, act)"
    using assms by (auto simp: classify_email_def Let_def split: llm_outcome.splits prod.splits)
  have "get_categories cs \<noteq> []" by (auto simp: get_categories_def default_categories_def Let_def split: option.splits)
  then have "la_category a \<in> fst ` set (get_categories cs)" using b(2) by (auto simp: settle_category_def Let_def split: if_splits)
  then obtain col act' where m: "map_of (rev (get_categories cs)) (la_category a) = Some (col, act')"
    by (metis domD dom_map_of_conv_image_fst set_rev surj_pair)
  then have "act' = act" using b(2) by (auto simp: settle_category_def Let_def split: if_splits)
  then have "(la_category a, col, act) \<in> set (get_categories cs)" using map_of_SomeD[OF m] by simp
  moreover have "a = b" if "la_category b \<in> fst ` set (get_categories cs)" using b(2) that unfolding settle_category_def Let_def by (simp only: if_True prod.inject)
  ultimately show ?thesis using b(1) by blast
qed

theorem classification_from_list_witness:
  "\<exists>col. (''important'', col, ''deliver'') \<in> set default_categories"
proof -
  let ?a = "\<lparr>la_category = ''nonsense'', la_confidence = 1, la_reason = [], la_provider = ''ollama'', la_model = ''m''\<rparr>"
  have "classify_email (\<lambda>p. Llm_Answer ?a) ''s'' ''x@y.z'' None None = Classified (?a\<lparr>la_category := ''important''\<rparr>) ''deliver''"
    by (simp add: classify_email_def get_categories_def settle_category_def default_categories_def)
  from classification_from_list[OF this] show ?thesis by (auto simp: get_categories_def)
qed

end
