(* ===== verification/Gw_Accounts.thy ===== *)
theory Gw_Accounts
  imports Gw_Mail
begin

text \<open>
  \<open>routers/auth.py\<close>, \<open>routers/users.py\<close>, \<open>routers/instances.py\<close> and the token functions of \<open>shared/security.py\<close>.

  A token stands for its decoded claims; signing, encoding and expiry are not modelled. The password functions and the
  directory server are arguments, and the library that talks to it is taken to be installed; the time of the last login is
  left out. Here the foreign keys to users and instances count: an audit entry that names a row
  that is gone cannot be stored, and a row that others name cannot be deleted.
\<close>

section \<open>Rows\<close>

record account =
  ac_username :: string
  ac_email :: string
  ac_hash :: "string option"
  ac_backend :: "string option"
  ac_role :: "string option"
  ac_active :: "bool option"
  ac_instances :: "int list option"
  ac_prefs :: "json option"

record host_instance =
  hi_name :: string
  hi_hostname :: string
  hi_endpoint :: string
  hi_key :: string
  hi_status :: "string option"
  hi_caps :: "string list option"
  hi_config :: "json option"

record ldap_config =
  lc_url :: string
  lc_bind_dn :: string
  lc_bind_password :: string
  lc_base :: string
  lc_filter :: string
  lc_group :: "string option"

text \<open>\<open>as_users\<close> and \<open>as_hosts\<close> say which users and instances are named by rows outside of these tables.\<close>

record acct_state =
  as_accounts :: "account table"
  as_instances :: "host_instance table"
  as_audit :: "audit_entry list"
  as_ldap :: "ldap_config option"
  as_users :: "nat set"
  as_hosts :: "nat set"

text \<open>What the handlers take from outside. The directory search gets the filter text; it gives the mail address of the entry
  it finds, and only if the password is accepted for that entry.\<close>

record acct_ctx =
  ax_hash :: "string \<Rightarrow> string option"
  ax_verify :: "string \<Rightarrow> string option \<Rightarrow> bool"
  ax_ldap :: "ldap_config \<Rightarrow> string \<Rightarrow> string \<Rightarrow> string option option"
  ax_key :: string

section \<open>Frames\<close>

type_synonym 'a acct_reply = "(nat + 'a) \<times> acct_state"

definition acct_admin :: "token option \<Rightarrow> acct_state \<Rightarrow> (nat \<Rightarrow> 'a acct_reply) \<Rightarrow> 'a acct_reply" where
  "acct_admin tok st f = (case require_admin tok of Inl c \<Rightarrow> (Inl c, st) | Inr u \<Rightarrow> f u)"

definition acct_row :: "'r table \<Rightarrow> nat \<Rightarrow> acct_state \<Rightarrow> ('r \<Rightarrow> 'a acct_reply) \<Rightarrow> 'a acct_reply" where
  "acct_row t k st f = (case row_get t k of None \<Rightarrow> (Inl 404, st) | Some r \<Rightarrow> f r)"

text \<open>An audit entry about an instance or none, then the response; a foreign key that fails is a 500.\<close>

definition audited :: "nat \<Rightarrow> string \<Rightarrow> string \<Rightarrow> nat \<Rightarrow> nat option \<Rightarrow> nat + 'a \<Rightarrow> acct_state \<Rightarrow> 'a acct_reply" where
  "audited u action rtype rid inst r st =
     (if row_get (as_accounts st) u = None \<or> (case inst of None \<Rightarrow> False | Some i \<Rightarrow> row_get (as_instances st) i = None) then (Inl 500, st)
      else (r, st\<lparr>as_audit := log_audit (Some u) action rtype (Some (string_of_nat rid)) inst None (as_audit st)\<rparr>))"

section \<open>Accounts\<close>

definition backend_texts :: "string list" where
  "backend_texts = [''local'', ''ldap'', ''ad'']"

datatype user_role = Role_Superadmin | Role_Admin | Role_User | Role_Readonly

definition role_text :: "user_role \<Rightarrow> string" where
  "role_text r = (case r of Role_Superadmin \<Rightarrow> ''superadmin'' | Role_Admin \<Rightarrow> ''admin'' | Role_User \<Rightarrow> ''user'' | Role_Readonly \<Rightarrow> ''readonly'')"

definition role_texts :: "string list" where
  "role_texts = [''superadmin'', ''admin'', ''user'', ''readonly'']"

datatype auth_backend = Backend_Local | Backend_Ldap | Backend_Ad

definition backend_text :: "auth_backend \<Rightarrow> string" where
  "backend_text b = (case b of Backend_Local \<Rightarrow> ''local'' | Backend_Ldap \<Rightarrow> ''ldap'' | Backend_Ad \<Rightarrow> ''ad'')"

definition account_ok :: "account \<Rightarrow> bool" where
  "account_ok a \<longleftrightarrow> 3 \<le> length (ac_username a) \<and> length (ac_username a) \<le> 100 \<and> length (ac_email a) \<le> 255
     \<and> ac_backend a \<in> Some ` set backend_texts \<and> ac_role a \<in> Some ` set role_texts \<and> ac_active a \<noteq> None \<and> ac_instances a \<noteq> None
     \<and> (case ac_prefs a of None \<Rightarrow> False | Some p \<Rightarrow> is_obj p)"

definition account_response :: "nat \<Rightarrow> account \<Rightarrow> nat + nat \<times> account" where
  "account_response k a = (if account_ok a then Inr (k, a) else Inl 500)"

definition named_account :: "acct_state \<Rightarrow> string \<Rightarrow> (nat \<times> account) list" where
  "named_account st n = rows_where (\<lambda>a. ac_username a = n) (as_accounts st)"

definition mailed_account :: "acct_state \<Rightarrow> string \<Rightarrow> (nat \<times> account) list" where
  "mailed_account st m = rows_where (\<lambda>a. ac_email a = m) (as_accounts st)"

definition list_accounts :: "token option \<Rightarrow> acct_state \<Rightarrow> nat + (nat \<times> account) list" where
  "list_accounts tok st =
     (case require_admin tok of Inl c \<Rightarrow> Inl c | Inr u \<Rightarrow> sequence_replies (map (\<lambda>(k, a). account_response k a) (tb_rows (as_accounts st))))"

definition get_account :: "token option \<Rightarrow> nat \<Rightarrow> acct_state \<Rightarrow> nat + nat \<times> account" where
  "get_account tok k st =
     (case require_admin tok of
        Inl c \<Rightarrow> Inl c
      | Inr u \<Rightarrow> (case row_get (as_accounts st) k of None \<Rightarrow> Inl 404 | Some a \<Rightarrow> account_response k a))"

record account_create =
  acc_username :: string
  acc_email :: string
  acc_backend :: auth_backend
  acc_role :: user_role
  acc_password :: "string option"
  acc_instances :: "int list"

definition valid_account_create :: "account_create \<Rightarrow> bool" where
  "valid_account_create d \<longleftrightarrow> 3 \<le> length (acc_username d) \<and> length (acc_username d) \<le> 100 \<and> length (acc_email d) \<le> 255
     \<and> (case acc_password d of None \<Rightarrow> True | Some p \<Rightarrow> 8 \<le> length p)"

definition new_account :: "string option \<Rightarrow> account_create \<Rightarrow> account" where
  "new_account h d = \<lparr>ac_username = acc_username d, ac_email = acc_email d, ac_hash = h, ac_backend = Some (backend_text (acc_backend d)),
     ac_role = Some (role_text (acc_role d)), ac_active = Some True, ac_instances = Some (acc_instances d), ac_prefs = Some (J_Obj [])\<rparr>"

definition account_hash :: "acct_ctx \<Rightarrow> string option \<Rightarrow> string option option" where
  "account_hash x p = (if truthy_str p then map_option Some (ax_hash x (or_empty p)) else Some None)"

text \<open>After the commit the handler reads two names the module does not define, so every answer is a 500.\<close>

definition name_error :: "acct_state \<Rightarrow> 'a acct_reply" where
  "name_error st = (Inl 500, st)"

definition create_account :: "acct_ctx \<Rightarrow> token option \<Rightarrow> account_create \<Rightarrow> acct_state \<Rightarrow> (nat \<times> account) acct_reply" where
  "create_account x tok d st = acct_admin tok st (\<lambda>u.
     if \<not> valid_account_create d then (Inl 422, st)
     else (case duplicates (named_account st (acc_username d)) of
         Some c \<Rightarrow> (Inl c, st)
       | None \<Rightarrow>
           (case duplicates (mailed_account st (acc_email d)) of
              Some c \<Rightarrow> (Inl c, st)
            | None \<Rightarrow>
                (case account_hash x (acc_password d) of
                   None \<Rightarrow> (Inl 500, st)
                 | Some h \<Rightarrow> name_error (st\<lparr>as_accounts := snd (row_add (new_account h d) (as_accounts st))\<rparr>)))))"

record account_patch =
  acp_email :: "string option option"
  acp_role :: "user_role option option"
  acp_active :: "bool option option"
  acp_instances :: "int list option option"
  acp_prefs :: "(string \<times> json) list option option"

definition patch_account :: "account_patch \<Rightarrow> account \<Rightarrow> account option" where
  "patch_account d a = map_option (\<lambda>m. a\<lparr>ac_email := m, ac_role := patched (map_option (map_option role_text) (acp_role d)) (ac_role a),
     ac_active := patched (acp_active d) (ac_active a), ac_instances := patched (acp_instances d) (ac_instances a),
     ac_prefs := patched (map_option (map_option J_Obj) (acp_prefs d)) (ac_prefs a)\<rparr>) (kept (acp_email d) (ac_email a))"

text \<open>A mail address another account has violates the unique column.\<close>

definition email_taken :: "acct_state \<Rightarrow> nat \<Rightarrow> string \<Rightarrow> bool" where
  "email_taken st k m \<longleftrightarrow> filter (\<lambda>e. fst e \<noteq> k) (mailed_account st m) \<noteq> []"

definition update_account :: "token option \<Rightarrow> nat \<Rightarrow> account_patch \<Rightarrow> acct_state \<Rightarrow> (nat \<times> account) acct_reply" where
  "update_account tok k d st = acct_admin tok st (\<lambda>u. acct_row (as_accounts st) k st (\<lambda>a.
     case patch_account d a of
       None \<Rightarrow> (Inl 500, st)
     | Some a' \<Rightarrow> if email_taken st k (ac_email a') then (Inl 500, st) else name_error (st\<lparr>as_accounts := row_set k a' (as_accounts st)\<rparr>)))"

definition user_held :: "acct_state \<Rightarrow> nat \<Rightarrow> bool" where
  "user_held st k \<longleftrightarrow> k \<in> as_users st \<or> list_ex (\<lambda>e. au_user e = Some k) (as_audit st)"

definition delete_account :: "token option \<Rightarrow> nat \<Rightarrow> acct_state \<Rightarrow> nat acct_reply" where
  "delete_account tok k st = acct_admin tok st (\<lambda>u. acct_row (as_accounts st) k st (\<lambda>a.
     if user_held st k then (Inl 500, st) else name_error (st\<lparr>as_accounts := row_del k (as_accounts st)\<rparr>)))"

definition change_password :: "acct_ctx \<Rightarrow> token option \<Rightarrow> nat \<Rightarrow> string \<Rightarrow> string \<Rightarrow> acct_state \<Rightarrow> nat acct_reply" where
  "change_password x tok k old new st =
     (case require_auth tok of
        Inl c \<Rightarrow> (Inl c, st)
      | Inr u \<Rightarrow>
          (if length new < 8 then (Inl 422, st)
           else (case (if u = k then None else (case row_get (as_accounts st) u of
               None \<Rightarrow> Some 500 | Some a \<Rightarrow> if ac_role a \<in> {Some ''superadmin'', Some ''admin''} then None else Some 403)) of
               Some c \<Rightarrow> (Inl c, st)
             | None \<Rightarrow> acct_row (as_accounts st) k st (\<lambda>a.
                 if ac_backend a \<noteq> Some ''local'' then (Inl 400, st)
                 else if \<not> ax_verify x old (ac_hash a) then (Inl 400, st)
                 else (case ax_hash x new of
                     None \<Rightarrow> (Inl 500, st)
                   | Some h \<Rightarrow> (Inr k, st\<lparr>as_accounts := row_set k (a\<lparr>ac_hash := Some h\<rparr>) (as_accounts st)\<rparr>))))))"

section \<open>Login\<close>

definition search_filter :: "ldap_config \<Rightarrow> string \<Rightarrow> string" where
  "search_filter c n = ''(&'' @ lc_filter c @ ''(cn='' @ n @ ''))''"

text \<open>503 without a configuration, 401 for every other failure; otherwise the mail address.\<close>

definition authenticate_ldap :: "acct_ctx \<Rightarrow> acct_state \<Rightarrow> string \<Rightarrow> string \<Rightarrow> nat + string" where
  "authenticate_ldap x st n pw =
     (case as_ldap st of
        None \<Rightarrow> Inl 503
      | Some c \<Rightarrow> (case ax_ldap x c (search_filter c n) pw of
          None \<Rightarrow> Inl 401
        | Some m \<Rightarrow> Inr (if truthy_str m then or_empty m else n @ ''@localhost'')))"

definition ldap_account :: "string \<Rightarrow> string \<Rightarrow> account" where
  "ldap_account n m = \<lparr>ac_username = n, ac_email = m, ac_hash = None, ac_backend = Some ''ldap'', ac_role = Some ''user'', ac_active = Some True,
     ac_instances = Some [], ac_prefs = Some (J_Obj [])\<rparr>"

text \<open>A user that is not known is made from the directory; a taken mail address is an exception.\<close>

definition provision :: "acct_ctx \<Rightarrow> acct_state \<Rightarrow> string \<Rightarrow> string \<Rightarrow> (nat \<times> account) acct_reply" where
  "provision x st n pw =
     (if as_ldap st = None then (Inl 401, st)
      else (case authenticate_ldap x st n pw of
          Inl c \<Rightarrow> (Inl 401, st)
        | Inr m \<Rightarrow>
            (if mailed_account st m \<noteq> [] then (Inl 500, st)
             else (let a = ldap_account n m; (k, t') = row_add a (as_accounts st) in (Inr (k, a), st\<lparr>as_accounts := t'\<rparr>)))))"

definition access_token :: "nat \<Rightarrow> account \<Rightarrow> token" where
  "access_token k a = \<lparr>tk_sub = Some k, tk_role = ac_role a\<rparr>"

text \<open>The check of the credential: a status, or nothing. A backend the code does not know is not checked at all.\<close>

definition credential :: "acct_ctx \<Rightarrow> acct_state \<Rightarrow> account \<Rightarrow> string \<Rightarrow> string \<Rightarrow> nat option" where
  "credential x st a n pw =
     (if ac_backend a = Some ''local'' then (if \<not> truthy_str (ac_hash a) \<or> \<not> ax_verify x pw (ac_hash a) then Some 401 else None)
      else if ac_backend a \<in> {Some ''ldap'', Some ''ad''} then (case authenticate_ldap x st n pw of Inl c \<Rightarrow> Some c | Inr m \<Rightarrow> None)
      else None)"

definition login :: "acct_ctx \<Rightarrow> string \<Rightarrow> string \<Rightarrow> acct_state \<Rightarrow> (token \<times> nat \<times> account) acct_reply" where
  "login x n pw st =
     (case (case named_account st n of [] \<Rightarrow> provision x st n pw | [e] \<Rightarrow> (Inr e, st) | _ \<Rightarrow> (Inl 500, st)) of
        (Inl c, st1) \<Rightarrow> (Inl c, st1)
      | (Inr (k, a), st1) \<Rightarrow>
          (if ac_active a \<noteq> Some True then (Inl 403, st1)
           else (case credential x st1 a n pw of
               Some c \<Rightarrow> (Inl c, st1)
             | None \<Rightarrow> (map_sum id (\<lambda>r. (access_token k a, r)) (account_response k a), st1))))"

definition me :: "token option \<Rightarrow> acct_state \<Rightarrow> nat + nat \<times> account" where
  "me tok st =
     (case require_auth tok of
        Inl c \<Rightarrow> Inl c
      | Inr u \<Rightarrow> (case row_get (as_accounts st) u of None \<Rightarrow> Inl 404 | Some a \<Rightarrow> account_response u a))"

definition get_ldap_config :: "token option \<Rightarrow> acct_state \<Rightarrow> nat + ldap_config option" where
  "get_ldap_config tok st = map_sum id (\<lambda>u. map_option (\<lambda>c. c\<lparr>lc_bind_password := []\<rparr>) (as_ldap st)) (require_admin tok)"

definition set_ldap_config :: "token option \<Rightarrow> ldap_config \<Rightarrow> acct_state \<Rightarrow> ldap_config acct_reply" where
  "set_ldap_config tok c st = acct_admin tok st (\<lambda>u. (Inr c, st\<lparr>as_ldap := Some c\<rparr>))"

definition delete_ldap_config :: "token option \<Rightarrow> acct_state \<Rightarrow> nat acct_reply" where
  "delete_ldap_config tok st = acct_admin tok st (\<lambda>u. (Inr 200, st\<lparr>as_ldap := None\<rparr>))"

text \<open>The connection test asks for no token; \<open>reach\<close> is the outcome of the bind and search.\<close>

definition test_ldap_connection :: "(ldap_config \<Rightarrow> bool) \<Rightarrow> ldap_config \<Rightarrow> nat + string" where
  "test_ldap_connection reach c = (if reach c then Inr ''success'' else Inl 400)"

end
