(* ===== verification/Gw_Instances.thy ===== *)
theory Gw_Instances
  imports Gw_Accounts
begin

text \<open>
  \<open>routers/instances.py\<close> and \<open>routers/audit.py\<close>, the calls of the account and instance routers, and how the agent client
  sees an instance.
\<close>

section \<open>Instances\<close>

definition instance_texts :: "string list" where
  "instance_texts = [''active'', ''inactive'', ''error'', ''maintenance'']"

datatype instance_status = Inst_Active | Inst_Inactive | Inst_Error | Inst_Maintenance

definition status_text :: "instance_status \<Rightarrow> string" where
  "status_text s = (case s of Inst_Active \<Rightarrow> ''active'' | Inst_Inactive \<Rightarrow> ''inactive'' | Inst_Error \<Rightarrow> ''error'' | Inst_Maintenance \<Rightarrow> ''maintenance'')"

definition instance_ok :: "host_instance \<Rightarrow> bool" where
  "instance_ok r \<longleftrightarrow> name_ok 100 (hi_name r) \<and> name_ok 255 (hi_hostname r) \<and> hi_caps r \<noteq> None \<and> hi_status r \<in> Some ` set instance_texts
     \<and> (case hi_config r of None \<Rightarrow> False | Some c \<Rightarrow> is_obj c)"

definition instance_response :: "nat \<Rightarrow> host_instance \<Rightarrow> nat + nat \<times> host_instance" where
  "instance_response k r = (if instance_ok r then Inr (k, r) else Inl 500)"

text \<open>The instances of a stored user; a superadmin has all of them.\<close>

definition may_see :: "account \<Rightarrow> nat \<Rightarrow> bool" where
  "may_see a i \<longleftrightarrow> ac_role a = Some ''superadmin'' \<or> int i \<in> set (case ac_instances a of None \<Rightarrow> [] | Some is \<Rightarrow> is)"

definition list_instances :: "token option \<Rightarrow> acct_state \<Rightarrow> nat + (nat \<times> host_instance) list" where
  "list_instances tok st =
     (case require_auth tok of
        Inl c \<Rightarrow> Inl c
      | Inr u \<Rightarrow> (case row_get (as_accounts st) u of
          None \<Rightarrow> Inl 500
        | Some a \<Rightarrow> sequence_replies (map (\<lambda>(k, r). instance_response k r) (filter (\<lambda>(k, r). may_see a k) (tb_rows (as_instances st))))))"

record instance_create =
  inc_name :: string
  inc_hostname :: string
  inc_caps :: "string list"

definition valid_instance_create :: "instance_create \<Rightarrow> bool" where
  "valid_instance_create d \<longleftrightarrow> name_ok 100 (inc_name d) \<and> name_ok 255 (inc_hostname d)"

definition new_instance :: "string \<Rightarrow> instance_create \<Rightarrow> host_instance" where
  "new_instance key d = \<lparr>hi_name = inc_name d, hi_hostname = inc_hostname d, hi_endpoint = ''https://'' @ inc_hostname d @ ''/api/v1'', hi_key = ''vis_'' @ key,
     hi_status = Some ''inactive'', hi_caps = Some (inc_caps d), hi_config = Some (J_Obj [])\<rparr>"

definition create_instance :: "acct_ctx \<Rightarrow> token option \<Rightarrow> instance_create \<Rightarrow> acct_state \<Rightarrow> (nat \<times> host_instance) acct_reply" where
  "create_instance x tok d st = acct_admin tok st (\<lambda>u.
     if \<not> valid_instance_create d then (Inl 422, st)
     else (let r = new_instance (ax_key x) d; (k, t') = row_add r (as_instances st) in
           audited u ''create'' ''instance'' k None (instance_response k r) (st\<lparr>as_instances := t'\<rparr>)))"

definition get_instance :: "token option \<Rightarrow> nat \<Rightarrow> acct_state \<Rightarrow> nat + nat \<times> host_instance" where
  "get_instance tok i st =
     (case require_auth tok of
        Inl c \<Rightarrow> Inl c
      | Inr u \<Rightarrow> (case row_get (as_accounts st) u of
          None \<Rightarrow> Inl 500
        | Some a \<Rightarrow> if \<not> may_see a i then Inl 403
            else (case row_get (as_instances st) i of None \<Rightarrow> Inl 404 | Some r \<Rightarrow> instance_response i r)))"

record instance_patch =
  inp_name :: "string option option"
  inp_hostname :: "string option option"
  inp_status :: "instance_status option option"
  inp_caps :: "string list option option"
  inp_config :: "(string \<times> json) list option option"

definition patch_instance :: "instance_patch \<Rightarrow> host_instance \<Rightarrow> host_instance option" where
  "patch_instance d r =
     (case (kept (inp_name d) (hi_name r), kept (inp_hostname d) (hi_hostname r)) of
        (Some n, Some h) \<Rightarrow> Some (r\<lparr>hi_name := n, hi_hostname := h, hi_status := patched (map_option (map_option status_text) (inp_status d)) (hi_status r),
          hi_caps := patched (inp_caps d) (hi_caps r), hi_config := patched (map_option (map_option J_Obj) (inp_config d)) (hi_config r)\<rparr>)
      | _ \<Rightarrow> None)"

text \<open>Any administrator may patch any instance.\<close>

definition update_instance :: "token option \<Rightarrow> nat \<Rightarrow> instance_patch \<Rightarrow> acct_state \<Rightarrow> (nat \<times> host_instance) acct_reply" where
  "update_instance tok i d st = acct_admin tok st (\<lambda>u. acct_row (as_instances st) i st (\<lambda>r.
     case patch_instance d r of
       None \<Rightarrow> (Inl 500, st)
     | Some r' \<Rightarrow> audited u ''update'' ''instance'' i (Some i) (instance_response i r') (st\<lparr>as_instances := row_set i r' (as_instances st)\<rparr>)))"

definition host_held :: "acct_state \<Rightarrow> nat \<Rightarrow> bool" where
  "host_held st i \<longleftrightarrow> i \<in> as_hosts st \<or> list_ex (\<lambda>e. au_instance e = Some i) (as_audit st)"

text \<open>The audit entry names the instance that was just deleted.\<close>

definition delete_instance :: "token option \<Rightarrow> nat \<Rightarrow> acct_state \<Rightarrow> nat acct_reply" where
  "delete_instance tok i st = acct_admin tok st (\<lambda>u. acct_row (as_instances st) i st (\<lambda>r.
     if host_held st i then (Inl 500, st)
     else audited u ''delete'' ''instance'' i (Some i) (Inr i) (st\<lparr>as_instances := row_del i (as_instances st)\<rparr>)))"

definition reveal_instance_api_key :: "token option \<Rightarrow> nat \<Rightarrow> acct_state \<Rightarrow> (nat \<times> string) acct_reply" where
  "reveal_instance_api_key tok i st = acct_admin tok st (\<lambda>u. acct_row (as_instances st) i st (\<lambda>r.
     if (case row_get (as_accounts st) u of None \<Rightarrow> False | Some a \<Rightarrow> \<not> may_see a i) then (Inl 403, st)
     else audited u ''reveal_api_key'' ''instance'' i (Some i) (Inr (i, hi_key r)) st))"

text \<open>The body's key and status are texts or missing; the answer reads the version of the configuration after the commit.\<close>

definition instance_heartbeat :: "nat \<Rightarrow> string option \<Rightarrow> string option option \<Rightarrow> acct_state \<Rightarrow> json acct_reply" where
  "instance_heartbeat i key status st =
     (case row_get (as_instances st) i of
        None \<Rightarrow> (Inl 401, st)
      | Some r \<Rightarrow>
          (if key \<noteq> Some (hi_key r) then (Inl 401, st)
           else (case hi_config r of
               None \<Rightarrow> Inl 500
             | Some c \<Rightarrow> if is_obj c then Inr (J_Obj [(''status'', J_Str ''ok''), (''config_version'', case key_of c ''version'' of None \<Rightarrow> J_Int 1 | Some v \<Rightarrow> v)]) else Inl 500,
             st\<lparr>as_instances := row_set i (r\<lparr>hi_status := (case status of None \<Rightarrow> Some ''active'' | Some s \<Rightarrow> s)\<rparr>) (as_instances st)\<rparr>)))"

section \<open>The agent client's view\<close>

definition own_endpoints :: "json option \<Rightarrow> (string \<times> string) list" where
  "own_endpoints c = (case c of None \<Rightarrow> [] | Some j \<Rightarrow> (case key_of j ''agent_endpoints'' of
     Some (J_Obj kvs) \<Rightarrow> List.map_filter (\<lambda>(k, v). case v of J_Str s \<Rightarrow> Some (k, s) | _ \<Rightarrow> None) kvs | _ \<Rightarrow> []))"

definition client_row :: "host_instance \<Rightarrow> instance_row" where
  "client_row r = \<lparr>in_name = hi_name r, in_api_endpoint = hi_endpoint r, in_api_key = hi_key r, in_endpoints = own_endpoints (hi_config r)\<rparr>"

definition client_rows :: "host_instance table \<Rightarrow> instance_row table" where
  "client_rows t = \<lparr>tb_rows = map (\<lambda>(k, r). (k, client_row r)) (tb_rows t), tb_next = tb_next t\<rparr>"

lemma client_rows_get: "row_get (client_rows t) k = map_option client_row (row_get t k)"
proof -
  have "map_of (map (\<lambda>(k, r). (k, client_row r)) xs) k = map_option client_row (map_of xs k)" for xs by (induction xs) auto
  then show ?thesis by (simp add: row_get_def client_rows_def)
qed

section \<open>Calls\<close>

datatype acct_call =
    New_Account account_create
  | Patch_Account nat account_patch
  | Drop_Account nat
  | New_Password nat string string
  | Log_In string string
  | Set_Ldap ldap_config
  | Drop_Ldap
  | New_Instance instance_create
  | Patch_Instance nat instance_patch
  | Drop_Instance nat
  | Reveal_Key nat
  | Heartbeat nat "string option" "string option option"

definition acct_handle :: "acct_ctx \<Rightarrow> token option \<Rightarrow> acct_call \<Rightarrow> acct_state \<Rightarrow> acct_state" where
  "acct_handle x tok c st =
     (case c of
        New_Account d \<Rightarrow> snd (create_account x tok d st)
      | Patch_Account k d \<Rightarrow> snd (update_account tok k d st)
      | Drop_Account k \<Rightarrow> snd (delete_account tok k st)
      | New_Password k old new \<Rightarrow> snd (change_password x tok k old new st)
      | Log_In n pw \<Rightarrow> snd (login x n pw st)
      | Set_Ldap c \<Rightarrow> snd (set_ldap_config tok c st)
      | Drop_Ldap \<Rightarrow> snd (delete_ldap_config tok st)
      | New_Instance d \<Rightarrow> snd (create_instance x tok d st)
      | Patch_Instance i d \<Rightarrow> snd (update_instance tok i d st)
      | Drop_Instance i \<Rightarrow> snd (delete_instance tok i st)
      | Reveal_Key i \<Rightarrow> snd (reveal_instance_api_key tok i st)
      | Heartbeat i k s \<Rightarrow> snd (instance_heartbeat i k s st))"

text \<open>Other routers add and drop references to users and instances in between.\<close>

inductive acct_step :: "acct_state \<Rightarrow> acct_state \<Rightarrow> bool" where
  acct_call: "acct_step st (acct_handle x tok c st)"
| acct_refs: "acct_step st (st\<lparr>as_users := us, as_hosts := hs\<rparr>)"

inductive_cases acct_stepE: "acct_step st st'"

section \<open>Audit log\<close>

text \<open>A stored entry with its key, its address and its time in seconds; listed newest first.\<close>

record log_row = audit_entry +
  lr_id :: nat
  lr_time :: int

definition newest :: "log_row list \<Rightarrow> log_row list" where
  "newest = rev \<circ> sort_key lr_time"

definition page :: "int \<Rightarrow> int \<Rightarrow> log_row list \<Rightarrow> nat + log_row list" where
  "page limit offset ls = (if limit < 0 \<or> offset < 0 then Inl 500 else Inr (take (nat limit) (drop (nat offset) ls)))"

definition in_period :: "int option \<Rightarrow> int option \<Rightarrow> log_row \<Rightarrow> bool" where
  "in_period lo hi e \<longleftrightarrow> (case lo of None \<Rightarrow> True | Some t \<Rightarrow> t \<le> lr_time e) \<and> (case hi of None \<Rightarrow> True | Some t \<Rightarrow> lr_time e \<le> t)"

record log_query =
  lq_user :: "nat option"
  lq_instance :: "nat option"
  lq_action :: "string option"
  lq_type :: "string option"
  lq_resource :: "string option"
  lq_from :: "int option"
  lq_to :: "int option"

text \<open>A filter that is zero or empty does not filter.\<close>

definition log_matches :: "log_query \<Rightarrow> log_row \<Rightarrow> bool" where
  "log_matches q e \<longleftrightarrow> (lq_user q \<notin> {None, Some 0} \<longrightarrow> au_user e = lq_user q) \<and> (lq_instance q \<notin> {None, Some 0} \<longrightarrow> au_instance e = lq_instance q)
     \<and> (truthy_str (lq_action q) \<longrightarrow> Some (au_action e) = lq_action q) \<and> (truthy_str (lq_type q) \<longrightarrow> Some (au_type e) = lq_type q)
     \<and> (truthy_str (lq_resource q) \<longrightarrow> au_resource e = lq_resource q) \<and> in_period (lq_from q) (lq_to q) e"

definition list_audit_logs :: "token option \<Rightarrow> log_query \<Rightarrow> int \<Rightarrow> int \<Rightarrow> log_row list \<Rightarrow> nat + log_row list" where
  "list_audit_logs tok q limit offset ls =
     (case require_admin tok of Inl c \<Rightarrow> Inl c | Inr u \<Rightarrow> page limit offset (newest (filter (log_matches q) ls)))"

text \<open>These two need a login only, and no access to the instance.\<close>

definition get_instance_logs :: "token option \<Rightarrow> nat \<Rightarrow> log_query \<Rightarrow> int \<Rightarrow> int \<Rightarrow> log_row list \<Rightarrow> nat + log_row list" where
  "get_instance_logs tok i q limit offset ls =
     (case require_auth tok of
        Inl c \<Rightarrow> Inl c
      | Inr u \<Rightarrow> page limit offset (newest (filter (\<lambda>e. au_instance e = Some i
          \<and> log_matches \<lparr>lq_user = None, lq_instance = None, lq_action = lq_action q, lq_type = lq_type q, lq_resource = None, lq_from = lq_from q, lq_to = lq_to q\<rparr> e) ls)))"

definition get_resource_logs :: "token option \<Rightarrow> string \<Rightarrow> string \<Rightarrow> int \<Rightarrow> int \<Rightarrow> log_row list \<Rightarrow> nat + log_row list" where
  "get_resource_logs tok ty rid limit offset ls =
     (case require_auth tok of
        Inl c \<Rightarrow> Inl c
      | Inr u \<Rightarrow> page limit offset (newest (filter (\<lambda>e. au_type e = ty \<and> au_resource e = Some rid) ls)))"

text \<open>Counts by action and by type since a number of days (few enough for a date), as dictionaries.\<close>

definition counts :: "(log_row \<Rightarrow> string) \<Rightarrow> log_row list \<Rightarrow> (string \<times> json) list" where
  "counts f ls = map (\<lambda>k. (k, J_Int (int (length (filter (\<lambda>e. f e = k) ls))))) (remdups (map f ls))"

definition get_audit_summary :: "token option \<Rightarrow> int \<Rightarrow> int \<Rightarrow> log_row list \<Rightarrow> nat + json" where
  "get_audit_summary tok now days ls =
     (case require_admin tok of
        Inl c \<Rightarrow> Inl c
      | Inr u \<Rightarrow> (let es = filter (\<lambda>e. now - days * 86400 \<le> lr_time e) ls in
          Inr (J_Obj [(''period_days'', J_Int days), (''total_logs'', J_Int (int (length es))), (''actions_by_type'', J_Obj (counts au_action es)),
            (''resources_by_type'', J_Obj (counts au_type es))])))"

end
