(* ===== verification/Gw_Account_Claims.thy ===== *)
theory Gw_Account_Claims
  imports Gw_Instances Gw_Mail_Props Gw_Reachable
begin

text \<open>
  Accounts, tokens and instances: the invariant of the rows and the properties, each with a concrete instance.
\<close>

section \<open>The invariant\<close>

definition backend_known :: "account \<Rightarrow> bool" where
  "backend_known a \<longleftrightarrow> ac_backend a \<in> Some ` set backend_texts"

definition acct_inv :: "acct_state \<Rightarrow> bool" where
  "acct_inv st \<longleftrightarrow> table_ok (as_accounts st) \<and> table_ok (as_instances st) \<and> keyed ac_username (as_accounts st) \<and> keyed ac_email (as_accounts st)
     \<and> rows_all backend_known (as_accounts st)"

lemma acct_inv_frame [simp]:
  "acct_inv (st\<lparr>as_audit := l\<rparr>) = acct_inv st" "acct_inv (st\<lparr>as_ldap := c\<rparr>) = acct_inv st" "acct_inv (st\<lparr>as_users := us, as_hosts := hs\<rparr>) = acct_inv st"
  "acct_inv (snd (name_error st)) = acct_inv st" "acct_inv (snd (audited u a ty k i r st)) = acct_inv st"
  by (simp_all add: acct_inv_def name_error_def audited_def)

lemma acct_admin_inv: "acct_inv st \<Longrightarrow> (\<And>u. acct_inv (snd (f u))) \<Longrightarrow> acct_inv (snd (acct_admin tok st f))"
  by (simp add: acct_admin_def split: sum.split)

lemma acct_row_inv: "acct_inv st \<Longrightarrow> (\<And>r. row_get t k = Some r \<Longrightarrow> acct_inv (snd (f r))) \<Longrightarrow> acct_inv (snd (acct_row t k st f))"
  by (simp add: acct_row_def split: option.split)

lemma add_account_inv:
  assumes "acct_inv st" "row_add a (as_accounts st) = (k, t)" "named_account st (ac_username a) = []" "mailed_account st (ac_email a) = []" "backend_known a"
  shows "acct_inv (st\<lparr>as_accounts := t\<rparr>)"
proof -
  have ok: "table_ok (as_accounts st)" using assms(1) by (simp add: acct_inv_def)
  have "keyed ac_username t" using assms(1) no_rows_where[OF ok assms(3)[unfolded named_account_def]]
    by (intro keyed_add[OF ok _ _ assms(2)]) (auto simp: acct_inv_def)
  moreover have "keyed ac_email t" using assms(1) no_rows_where[OF ok assms(4)[unfolded mailed_account_def]]
    by (intro keyed_add[OF ok _ _ assms(2)]) (auto simp: acct_inv_def)
  ultimately show ?thesis using assms rows.ok_add[OF ok assms(2)] by (auto simp: acct_inv_def intro: rows_all_add)
qed

lemma set_account_inv:
  assumes "acct_inv st" "row_get (as_accounts st) k = Some a" "ac_username a' = ac_username a" "ac_backend a' = ac_backend a" "\<not> email_taken st k (ac_email a')"
  shows "acct_inv (st\<lparr>as_accounts := row_set k a' (as_accounts st)\<rparr>)"
proof -
  have ok: "table_ok (as_accounts st)" using assms(1) by (simp add: acct_inv_def)
  have "keyed ac_email (row_set k a' (as_accounts st))"
  proof (rule keyed_put)
    show "keyed ac_email (as_accounts st)" using assms(1) by (simp add: acct_inv_def)
    fix j q assume q: "row_get (as_accounts st) j = Some q" "ac_email q = ac_email a'"
    then have "(j, q) \<in> set (mailed_account st (ac_email a'))" using rows_where_get[OF ok] by (simp add: mailed_account_def)
    then show "j = k" using assms(5) by (auto simp: email_taken_def filter_empty_conv)
  qed
  moreover have "keyed ac_username (row_set k a' (as_accounts st))"
    using assms by (intro keyed_set[OF _ assms(2)]) (auto simp: acct_inv_def)
  moreover have "backend_known a'" using assms(1,2,4) rows_allD[of backend_known "as_accounts st" k a] by (simp add: acct_inv_def backend_known_def)
  ultimately show ?thesis using assms(1) by (auto simp: acct_inv_def tables_keep intro: rows_all_set)
qed

lemma same_email_free:
  assumes "acct_inv st" "row_get (as_accounts st) k = Some a"
  shows "\<not> email_taken st k (ac_email a)"
proof -
  have ok: "table_ok (as_accounts st)" and u: "keyed ac_email (as_accounts st)" using assms(1) by (simp_all add: acct_inv_def)
  have "j = k" if "(j, q) \<in> set (mailed_account st (ac_email a))" for j q
  proof -
    have "row_get (as_accounts st) j = Some q" "ac_email q = ac_email a" using that rows_where_get[OF ok] by (auto simp: mailed_account_def)
    then show ?thesis using keyedD[OF u _ assms(2)] by blast
  qed
  then show ?thesis by (auto simp: email_taken_def filter_empty_conv)
qed

lemma drop_account_inv: "acct_inv st \<Longrightarrow> acct_inv (st\<lparr>as_accounts := row_del k (as_accounts st)\<rparr>)"
  by (auto simp: acct_inv_def tables_keep keyed_del rows_all_def rows.get_del split: if_splits)

lemma account_calls_inv:
  assumes "acct_inv st"
  shows "acct_inv (snd (create_account x tok d st))" "acct_inv (snd (update_account tok k p st))" "acct_inv (snd (delete_account tok k st))"
    "acct_inv (snd (change_password x tok k old new st))"
proof -
  have b: "backend_known (new_account h d)" for h
    by (cases "acc_backend d") (simp_all add: backend_known_def new_account_def backend_text_def backend_texts_def)
  have "acct_inv (st\<lparr>as_accounts := snd (row_add (new_account h d) (as_accounts st))\<rparr>)"
    if "named_account st (acc_username d) = []" "mailed_account st (acc_email d) = []" for h
    by (rule add_account_inv[OF assms surjective_pairing]) (use that b in \<open>simp_all add: new_account_def\<close>)
  then show "acct_inv (snd (create_account x tok d st))" unfolding create_account_def
    by (intro acct_admin_inv assms) (auto simp: assms duplicates_none split: option.splits)
  have "acct_inv (st\<lparr>as_accounts := row_set k a' (as_accounts st)\<rparr>)"
    if "row_get (as_accounts st) k = Some a" "patch_account p a = Some a'" "\<not> email_taken st k (ac_email a')" for a a'
    by (rule set_account_inv[OF assms that(1) _ _ that(3)]) (use that in \<open>auto simp: patch_account_def\<close>)
  then show "acct_inv (snd (update_account tok k p st))" unfolding update_account_def
    by (intro acct_admin_inv acct_row_inv assms) (auto simp: assms split: option.splits)
  show "acct_inv (snd (delete_account tok k st))" unfolding delete_account_def
    by (intro acct_admin_inv acct_row_inv assms) (auto simp: assms drop_account_inv)
  have "acct_inv (st\<lparr>as_accounts := row_set k (a\<lparr>ac_hash := h\<rparr>) (as_accounts st)\<rparr>)" if "row_get (as_accounts st) k = Some a" for a h
    by (rule set_account_inv[OF assms that]) (use same_email_free[OF assms that] in simp_all)
  then show "acct_inv (snd (change_password x tok k old new st))"
    by (auto simp: change_password_def assms acct_row_def split: sum.split option.split)
qed

lemma provision_inv: "acct_inv st \<Longrightarrow> named_account st n = [] \<Longrightarrow> acct_inv (snd (provision x st n pw))"
proof -
  assume st: "acct_inv st" "named_account st n = []"
  have "acct_inv (st\<lparr>as_accounts := t\<rparr>)" if "row_add (ldap_account n m) (as_accounts st) = (k, t)" "mailed_account st m = []" for m k t
    by (rule add_account_inv[OF st(1) that(1)]) (use st(2) that(2) in \<open>simp_all add: ldap_account_def backend_known_def backend_texts_def\<close>)
  then show ?thesis using st(1) by (auto simp: provision_def Let_def split: sum.split prod.split)
qed

lemma login_state: "snd (login x n pw st) = (if named_account st n = [] then snd (provision x st n pw) else st)"
  by (auto simp: login_def split: list.split sum.split prod.split option.split)

lemma instance_calls_inv:
  assumes "acct_inv st"
  shows "acct_inv (snd (create_instance x tok d st))" "acct_inv (snd (update_instance tok i p st))" "acct_inv (snd (delete_instance tok i st))"
    "acct_inv (snd (reveal_instance_api_key tok i st))" "acct_inv (snd (instance_heartbeat i key s st))"
proof -
  have ok: "table_ok (as_instances st)" using assms by (simp add: acct_inv_def)
  have t: "acct_inv (st\<lparr>as_instances := t\<rparr>)" if "table_ok t" for t using assms that by (simp add: acct_inv_def)
  show "acct_inv (snd (create_instance x tok d st))" unfolding create_instance_def
    by (intro acct_admin_inv assms) (auto simp: Let_def assms t rows.ok_add[OF ok] split: prod.split)
  show "acct_inv (snd (update_instance tok i p st))" unfolding update_instance_def
    by (intro acct_admin_inv acct_row_inv assms) (auto simp: assms t tables_keep ok split: option.split)
  show "acct_inv (snd (delete_instance tok i st))" unfolding delete_instance_def
    by (intro acct_admin_inv acct_row_inv assms) (auto simp: assms t tables_keep ok)
  show "acct_inv (snd (reveal_instance_api_key tok i st))" unfolding reveal_instance_api_key_def
    by (intro acct_admin_inv acct_row_inv assms) (auto simp: assms split: option.split)
  show "acct_inv (snd (instance_heartbeat i key s st))"
    by (auto simp: instance_heartbeat_def assms t tables_keep ok split: option.split)
qed

lemma acct_handle_inv: "acct_inv st \<Longrightarrow> acct_inv (acct_handle x tok c st)"
  by (cases c) (auto simp: acct_handle_def account_calls_inv instance_calls_inv login_state provision_inv set_ldap_config_def delete_ldap_config_def
      intro!: acct_admin_inv)

lemma acct_steps_inv: "acct_step\<^sup>*\<^sup>* st st' \<Longrightarrow> acct_inv st \<Longrightarrow> acct_inv st'"
proof (induction rule: rtranclp_induct)
  case (step st1 st2)
  from step.hyps(2) step.IH[OF step.prems] show ?case by (auto elim!: acct_stepE simp: acct_handle_inv)
qed simp

text \<open>
  The properties of logins, tokens, accounts and instances, each with a concrete instance.
\<close>

section \<open>A gateway with one administrator\<close>

definition lab_account :: account where
  "lab_account = \<lparr>ac_username = ''kim'', ac_email = ''kim@example.org'', ac_hash = Some ''h:secret99'', ac_backend = Some ''local'', ac_role = Some ''admin'',
     ac_active = Some True, ac_instances = Some [], ac_prefs = Some (J_Obj [])\<rparr>"

definition lab_host :: host_instance where
  "lab_host = \<lparr>hi_name = ''fw'', hi_hostname = ''fw.example.org'', hi_endpoint = ''https://fw.example.org/api/v1'', hi_key = ''vis_k'', hi_status = Some ''active'',
     hi_caps = Some [], hi_config = Some (J_Obj [])\<rparr>"

definition lab_acct :: acct_state where
  "lab_acct = \<lparr>as_accounts = \<lparr>tb_rows = [(1, lab_account)], tb_next = 2\<rparr>, as_instances = \<lparr>tb_rows = [(1, lab_host)], tb_next = 2\<rparr>, as_audit = [],
     as_ldap = None, as_users = {}, as_hosts = {}\<rparr>"

definition lab_acct_ctx :: acct_ctx where
  "lab_acct_ctx = \<lparr>ax_hash = (\<lambda>p. Some (''h:'' @ p)), ax_verify = (\<lambda>p h. h = Some (''h:'' @ p)), ax_ldap = (\<lambda>c f p. None), ax_key = ''new''\<rparr>"

lemma lab_acct_rows:
  "row_get (as_accounts lab_acct) k = (if k = 1 then Some lab_account else None)" "row_get (as_instances lab_acct) k = (if k = 1 then Some lab_host else None)"
  by (simp_all add: lab_acct_def row_get_def)

lemma lab_acct_inv: "acct_inv lab_acct"
  by (simp add: acct_inv_def keyed_def rows_all_def lab_acct_rows del: One_nat_def)
    (simp add: lab_acct_def table_ok_def backend_known_def backend_texts_def lab_account_def)

section \<open>Logins\<close>

text \<open>C10: Whatever calls came before: a login answers with a token only for a stored, active account of the given name, and only if the password matches the
  stored hash, or, for an account of the directory, if the configured directory accepted it; the token carries the key and role of that account.\<close>

theorem login_needs_credential:
  assumes "acct_step\<^sup>*\<^sup>* st0 st" "acct_inv st0" "login x n pw st = (Inr (t, k, a), st1)"
  shows "row_get (as_accounts st1) k = Some a \<and> ac_username a = n \<and> ac_active a = Some True \<and> t = \<lparr>tk_sub = Some k, tk_role = ac_role a\<rparr>
    \<and> (if ac_backend a = Some ''local'' then truthy_str (ac_hash a) \<and> ax_verify x pw (ac_hash a)
       else \<exists>c m. as_ldap st = Some c \<and> ax_ldap x c (search_filter c n) pw = Some m)"
proof -
  have inv: "acct_inv st" by (rule acct_steps_inv[OF assms(1,2)])
  then have ok: "table_ok (as_accounts st)" by (simp add: acct_inv_def)
  let ?found = "case named_account st n of [] \<Rightarrow> provision x st n pw | [e] \<Rightarrow> (Inr e, st) | _ \<Rightarrow> (Inl 500, st)"
  obtain q st2 where q: "?found = (q, st2)" by (rule prod.exhaust)
  obtain j b where f': "q = Inr (j, b)" using assms(3) unfolding login_def q by (cases q) auto
  then have l: "(if ac_active b \<noteq> Some True then (Inl 403, st2)
      else (case credential x st2 b n pw of Some c \<Rightarrow> (Inl c, st2)
        | None \<Rightarrow> (map_sum id (\<lambda>r. (access_token j b, r)) (account_response j b), st2))) = (Inr (t, k, a), st1)"
    using assms(3) unfolding login_def q by simp
  have rest: "ac_active a = Some True" "credential x st2 a n pw = None" "t = access_token k a" "st1 = st2" "j = k" "b = a"
    using l by (auto simp: account_response_def split: if_splits option.splits)
  have f: "?found = (Inr (k, a), st2)" using q f' rest(5,6) by simp
  have row: "row_get (as_accounts st2) k = Some a \<and> ac_username a = n \<and> as_ldap st2 = as_ldap st"
  proof (cases "named_account st n")
    case Nil
    then have "provision x st n pw = (Inr (k, a), st2)" using f by simp
    then show ?thesis using rows.get_add[OF ok]
      by (auto simp: provision_def Let_def ldap_account_def split: if_splits sum.splits prod.splits)
  next
    case (Cons e es)
    then have "e = (k, a)" "es = []" "st2 = st" using f by (auto split: list.splits)
    then have "(k, a) \<in> set (named_account st n)" using Cons by simp
    then show ?thesis using rows_where_get[OF ok] \<open>st2 = st\<close> by (simp add: named_account_def)
  qed
  have "acct_inv st2" using acct_handle_inv[OF inv, of x None "Log_In n pw"] assms(3) rest(4) by (simp add: acct_handle_def)
  then have "backend_known a" using row rows_allD[of backend_known "as_accounts st2" k a] by (simp add: acct_inv_def)
  then have "if ac_backend a = Some ''local'' then truthy_str (ac_hash a) \<and> ax_verify x pw (ac_hash a)
    else \<exists>c m. as_ldap st = Some c \<and> ax_ldap x c (search_filter c n) pw = Some m"
    using rest(2) row
    by (auto simp: backend_known_def backend_texts_def credential_def authenticate_ldap_def split: if_splits option.splits sum.splits)
  then show ?thesis using row rest by (simp add: access_token_def)
qed

lemma lab_login: "login lab_acct_ctx ''kim'' ''secret99'' lab_acct = (Inr (\<lparr>tk_sub = Some 1, tk_role = Some ''admin''\<rparr>, 1, lab_account), lab_acct)"
proof -
  have "named_account lab_acct ''kim'' = [(1, lab_account)]" by (simp add: named_account_def lab_acct_def rows_where_def lab_account_def)
  moreover have "credential lab_acct_ctx lab_acct lab_account ''kim'' ''secret99'' = None" "account_ok lab_account" by code_simp+
  moreover have "ac_active lab_account = Some True" "ac_role lab_account = Some ''admin''" by (simp_all add: lab_account_def)
  ultimately show ?thesis by (simp add: login_def account_response_def access_token_def)
qed

theorem login_needs_credential_witness:
  "row_get (as_accounts lab_acct) 1 = Some lab_account \<and> ac_active lab_account = Some True"
  using login_needs_credential[OF rtranclp.rtrancl_refl lab_acct_inv lab_login] by simp

text \<open>A token keeps its power whatever happens to the account: with the token of an administrator's login an instance is still created in every later
  state, also when the account is switched off, has lost its role, or is gone.\<close>

theorem token_outlives_account:
  assumes "login x n pw st = (Inr (t, k, a), st1)" "ac_role a \<in> {Some ''admin'', Some ''superadmin''}" "valid_instance_create d" "table_ok (as_instances st2)"
  shows "\<exists>i. row_get (as_instances st2) i = None \<and> row_get (as_instances (snd (create_instance x (Some t) d st2))) i = Some (new_instance (ax_key x) d)"
proof -
  have t: "t = \<lparr>tk_sub = Some k, tk_role = ac_role a\<rparr>"
    using assms(1) by (auto simp: login_def account_response_def access_token_def split: prod.splits sum.splits if_splits option.splits)
  obtain i t' where r: "row_add (new_instance (ax_key x) d) (as_instances st2) = (i, t')" by fastforce
  have "require_admin (Some t) = Inr k" using assms(2) by (auto simp: t require_admin_def)
  then have "as_instances (snd (create_instance x (Some t) d st2)) = t'"
    using assms(3) r by (simp add: create_instance_def acct_admin_def audited_def)
  then show ?thesis using rows.get_add[OF assms(4) r] rows.add_fresh[OF assms(4) r] by auto
qed

theorem token_outlives_account_witness:
  "\<exists>i. row_get (as_instances (snd (create_instance lab_acct_ctx (Some \<lparr>tk_sub = Some 1, tk_role = Some ''admin''\<rparr>)
      \<lparr>inc_name = ''x'', inc_hostname = ''h'', inc_caps = []\<rparr> (lab_acct\<lparr>as_accounts := empty_table\<rparr>)))) i
    = Some (new_instance ''new'' \<lparr>inc_name = ''x'', inc_hostname = ''h'', inc_caps = []\<rparr>)"
proof -
  have "ac_role lab_account \<in> {Some ''admin'', Some ''superadmin''}" by (simp add: lab_account_def)
  moreover have "valid_instance_create \<lparr>inc_name = ''x'', inc_hostname = ''h'', inc_caps = []\<rparr>" by (simp add: valid_instance_create_def name_ok_def)
  moreover have "table_ok (as_instances (lab_acct\<lparr>as_accounts := empty_table\<rparr>))" using lab_acct_inv by (simp add: acct_inv_def)
  ultimately show ?thesis using token_outlives_account[OF lab_login] by (fastforce simp: lab_acct_ctx_def)
qed

section \<open>Accounts\<close>

text \<open>No creation, change or deletion of an account is ever answered with success, because the handlers end in an undefined name; but the change is stored
  before: switching an account off takes effect behind an answer of 500.\<close>

theorem account_changes_answer_500:
  assumes "acct_inv st" "require_admin tok = Inr u" "row_get (as_accounts st) k = Some a"
  shows "(\<forall>v. fst (create_account x tok c st) \<noteq> Inr v) \<and> (\<forall>d v. fst (update_account tok k d st) \<noteq> Inr v) \<and> (\<forall>v. fst (delete_account tok k st) \<noteq> Inr v)
    \<and> (\<forall>b. update_account tok k \<lparr>acp_email = None, acp_role = None, acp_active = Some (Some b), acp_instances = None, acp_prefs = None\<rparr> st
        = (Inl 500, st\<lparr>as_accounts := row_set k (a\<lparr>ac_active := Some b\<rparr>) (as_accounts st)\<rparr>))"
proof -
  have "fst (create_account x tok c st) \<noteq> Inr v" for v
    by (auto simp: create_account_def acct_admin_def name_error_def split: sum.split option.split)
  moreover have "fst (update_account tok k d st) \<noteq> Inr v" for d v
    by (auto simp: update_account_def acct_admin_def acct_row_def name_error_def split: sum.split option.split)
  moreover have "fst (delete_account tok k st) \<noteq> Inr v" for v
    by (auto simp: delete_account_def acct_admin_def acct_row_def name_error_def split: sum.split option.split)
  moreover have "update_account tok k \<lparr>acp_email = None, acp_role = None, acp_active = Some (Some b), acp_instances = None, acp_prefs = None\<rparr> st
      = (Inl 500, st\<lparr>as_accounts := row_set k (a\<lparr>ac_active := Some b\<rparr>) (as_accounts st)\<rparr>)" for b
    using assms(2,3) same_email_free[OF assms(1,3)]
    by (simp add: update_account_def acct_admin_def acct_row_def patch_account_def kept_def patched_def name_error_def)
  ultimately show ?thesis by blast
qed

theorem account_changes_answer_500_witness:
  "fst (delete_account lab_admin 1 lab_acct) \<noteq> Inr 1 \<and> row_get (as_accounts lab_acct) 1 = Some lab_account"
proof -
  have "require_admin lab_admin = Inr 1" by code_simp
  moreover have "row_get (as_accounts lab_acct) 1 = Some lab_account" by (simp add: lab_acct_rows)
  ultimately show ?thesis using account_changes_answer_500[OF lab_acct_inv] by blast
qed

section \<open>Instances\<close>

definition redirect :: "string \<Rightarrow> string \<Rightarrow> instance_patch" where
  "redirect service url = \<lparr>inp_name = None, inp_hostname = None, inp_status = None, inp_caps = None,
     inp_config = Some (Some [(''agent_endpoints'', J_Obj [(service, J_Str url)])])\<rparr>"

text \<open>C36: An administrator who may not see an instance is refused its key, but may patch its configuration; a service address of his own there makes the
  gateway's next request for that service send the key of the instance to him.\<close>

theorem refused_admin_gets_key:
  assumes "require_admin tok = Inr u" "row_get (as_accounts st) u = Some a" "\<not> may_see a i" "row_get (as_instances st) i = Some r" "service \<noteq> []" "url \<noteq> []"
  shows "fst (reveal_instance_api_key tok i st) = Inl 403
    \<and> snd (agent_request (\<lambda>target key w. (Http_Timeout, w @ [(target, key)])) (client_rows (as_instances (snd (update_instance tok i (redirect service url) st))))
        i path (Some service) []) = [(rstrip_char CHR ''/'' url @ path, hi_key r)]"
proof -
  let ?r = "r\<lparr>hi_config := Some (J_Obj [(''agent_endpoints'', J_Obj [(service, J_Str url)])])\<rparr>"
  have "patch_instance (redirect service url) r = Some ?r" by (simp add: patch_instance_def redirect_def kept_def patched_def)
  then have "as_instances (snd (update_instance tok i (redirect service url) st)) = row_set i ?r (as_instances st)"
    using assms(1,2,4) by (simp add: update_instance_def acct_admin_def acct_row_def audited_def)
  then have row: "row_get (client_rows (as_instances (snd (update_instance tok i (redirect service url) st)))) i = Some (client_row ?r)"
    using assms(4) by (simp add: client_rows_get rows.get_put)
  have fields: "in_endpoints (client_row ?r) = [(service, url)]" "in_api_key (client_row ?r) = hi_key r"
    by (simp_all add: client_row_def own_endpoints_def map_filter_simps)
  have "get_instance_endpoint (client_rows (as_instances (snd (update_instance tok i (redirect service url) st)))) i (Some service) = Inr (rstrip_char CHR ''/'' url)"
    using assms(5,6) by (simp add: get_instance_endpoint_def row fields(1))
  then have "snd (agent_request (\<lambda>target key w. (Http_Timeout, w @ [(target, key)])) (client_rows (as_instances (snd (update_instance tok i (redirect service url) st))))
      i path (Some service) []) = [(rstrip_char CHR ''/'' url @ path, hi_key r)]"
    by (simp only: agent_request_def row Let_def fields(2) option.case sum.case prod.case http_exchange.case append.simps snd_conv)
  then show ?thesis using assms(1-4) by (simp add: reveal_instance_api_key_def acct_admin_def acct_row_def)
qed

theorem refused_admin_gets_key_witness:
  "fst (reveal_instance_api_key lab_admin 1 lab_acct) = Inl 403
    \<and> snd (agent_request (\<lambda>target key w. (Http_Timeout, w @ [(target, key)])) (client_rows (as_instances (snd (update_instance lab_admin 1 (redirect ''firewall'' ''http://evil'') lab_acct))))
        1 ''/firewall/apply'' (Some ''firewall'') []) = [(''http://evil/firewall/apply'', ''vis_k'')]"
proof -
  have "require_admin lab_admin = Inr 1" "\<not> may_see lab_account 1" by code_simp+
  moreover have "row_get (as_accounts lab_acct) 1 = Some lab_account" "row_get (as_instances lab_acct) 1 = Some lab_host" by (simp_all add: lab_acct_rows)
  moreover have "rstrip_char CHR ''/'' ''http://evil'' @ ''/firewall/apply'' = ''http://evil/firewall/apply''" "hi_key lab_host = ''vis_k''" by code_simp+
  ultimately show ?thesis using refused_admin_gets_key[of lab_admin 1 lab_acct lab_account 1 lab_host "''firewall''" "''http://evil''" "''/firewall/apply''"]
    by simp
qed

text \<open>No deletion of an instance is ever answered with success: rows that name the instance forbid it, and without any the audit entry of the deletion
  itself names the instance that is gone, so the row goes and the answer is an error.\<close>

theorem instance_deletion_never_answers:
  assumes "table_ok (as_instances st)"
  shows "fst (delete_instance tok i st) \<noteq> Inr j
    \<and> as_instances (snd (delete_instance tok i st)) =
        (if (\<exists>u. require_admin tok = Inr u) \<and> \<not> host_held st i then row_del i (as_instances st) else as_instances st)"
proof -
  have "row_del i (as_instances st) = as_instances st" if "row_get (as_instances st) i = None"
    using that by (cases "as_instances st") (force simp: row_del_def row_get_def map_of_eq_None_iff filter_id_conv)
  then show ?thesis by (auto simp: delete_instance_def acct_admin_def acct_row_def audited_def rows.get_del split: sum.split option.split)
qed

theorem instance_deletion_never_answers_witness:
  "fst (delete_instance lab_admin 1 lab_acct) \<noteq> Inr 1 \<and> row_get (as_instances (snd (delete_instance lab_admin 1 lab_acct))) 1 = None"
proof -
  have "require_admin lab_admin = Inr 1" "\<not> host_held lab_acct 1" by code_simp+
  then show ?thesis using instance_deletion_never_answers[of lab_acct lab_admin 1] lab_acct_inv
    by (simp add: acct_inv_def rows.get_del del: One_nat_def)
qed

end
