(* ===== verification/Routing_Single.thy ===== *)
theory Routing_Single
  imports Routing_Props Node_Netplan
begin

text \<open>
  The single-object calls of \<open>routing.py\<close>: tables by name, one route, one policy rule, load balancing over several uplinks,
  and the listings as raw lines.

  The host is a parameter with a state \<open>'w\<close>: its listings and its answer to a command. A call that raises gives \<open>None\<close>.
\<close>

section \<open>Calls\<close>

record 'w ip_host =
  ih_rules :: "'w \<Rightarrow> string + live_rule list"
  ih_routes :: "'w \<Rightarrow> string + live_route list"
  ih_run :: "string list \<Rightarrow> 'w \<Rightarrow> bool \<times> 'w"
  ih_write :: bool
  ih_dry :: bool

type_synonym 'w ip_result = "bool option \<times> rt_state \<times> 'w"

definition add_routing_table :: "bool \<Rightarrow> string \<Rightarrow> int \<Rightarrow> rt_state \<Rightarrow> bool \<times> rt_state" where
  "add_routing_table write_ok name number st =
     (let line = string_of_int number @ '' '' @ name in
      if list_ex (\<lambda>f. 2 \<le> length f \<and> f ! 1 = name) (map words (rt_lines st)) then (True, st)
      else if \<not> write_ok then (False, st\<lparr>errors := errors st @ [''could not register '' @ name]\<rparr>)
      else (True, st\<lparr>rt_lines := rt_lines st @ [line], rt_names := dict_put number name (rt_names st), file_mutations := file_mutations st @ [line]\<rparr>))"

text \<open>One mutation on the host; a dry run asks nothing.\<close>

definition mutate_host :: "'w ip_host \<Rightarrow> string list \<Rightarrow> rt_state \<Rightarrow> 'w \<Rightarrow> 'w ip_result" where
  "mutate_host h args st w =
     (let (ok, w') = (if ih_dry h then (True, w) else ih_run h args w); (ok', st') = mutate (ih_dry h) (\<lambda>a. ok) args st in (Some ok', st', w'))"

text \<open>Add an object unless its key is live; \<open>None\<close> for a listing that does not parse.\<close>

definition add_unless_live :: "'w ip_host \<Rightarrow> ('o \<Rightarrow> 'k) \<Rightarrow> string + 'e list \<Rightarrow> ('e \<Rightarrow> 'o option) \<Rightarrow> (rt_state \<Rightarrow> string list) \<Rightarrow> 'o \<Rightarrow> rt_state \<Rightarrow> 'w \<Rightarrow> 'w ip_result" where
  "add_unless_live h key live obj args x st w =
     (let st' = st\<lparr>errors := errors st @ listing_error live\<rparr> in
      case parse_live (\<lambda>e. True) obj (listed live) of
        None \<Rightarrow> (None, st', w)
      | Some ls \<Rightarrow> if key x \<in> key ` snd ` set ls then (Some True, st', w) else mutate_host h (args st') st' w)"

definition add_route :: "'w ip_host \<Rightarrow> string \<Rightarrow> string option \<Rightarrow> string option \<Rightarrow> string \<Rightarrow> string option \<Rightarrow> int option \<Rightarrow> rt_state \<Rightarrow> 'w \<Rightarrow> 'w ip_result" where
  "add_route h destination gateway iface table source metric st w =
     (let t = table_of (JStr table); st1 = snd (ensure_table (ih_write h) t st) in
      case route_prefix (Some destination) of
        None \<Rightarrow> (None, st1, w)
      | Some d \<Rightarrow>
          (let r = \<lparr>ro_destination = d, ro_table = t, ro_gateway = gateway, ro_interface = iface, ro_source = source, ro_metric = metric\<rparr> in
           add_unless_live h route_key (ih_routes h w) live_route_obj (\<lambda>st2. route_args st2 r ''add'') r st1 w))"

definition opt_val :: "string option \<Rightarrow> jval" where
  "opt_val v = (case v of None \<Rightarrow> JNone | Some s \<Rightarrow> JStr s)"

definition add_policy_rule :: "'w ip_host \<Rightarrow> int \<Rightarrow> int \<Rightarrow> string option \<Rightarrow> string option \<Rightarrow> int option \<Rightarrow> string option \<Rightarrow> rt_state \<Rightarrow> 'w \<Rightarrow> 'w ip_result" where
  "add_policy_rule h table priority source destination mark iface st w =
     (let st1 = snd (ensure_table (ih_write h) (Tab_Num table) st) in
      case (prefix_of (opt_val source), prefix_of (opt_val destination)) of
        (Some s, Some d) \<Rightarrow>
          (let r = \<lparr>rr_priority = priority, rr_table = Tab_Num table, rr_source = s, rr_destination = d,
                    rr_mark = (if mark = Some 0 then None else mark), rr_interface = iface\<rparr> in
           add_unless_live h rule_key (ih_rules h w) live_rule_obj (\<lambda>st2. rule_args st2 r ''add'') r st1 w)
      | _ \<Rightarrow> (None, st1, w))"

text \<open>An uplink; \<open>None\<close> is an absent key.\<close>

record uplink =
  ul_gateway :: "string option"
  ul_interface :: "string option"

fun uplink_tables :: "'w ip_host \<Rightarrow> nat \<Rightarrow> uplink list \<Rightarrow> rt_state \<Rightarrow> 'w \<Rightarrow> 'w ip_result" where
  "uplink_tables h i [] st w = (Some True, st, w)"
| "uplink_tables h i (u # us) st w =
     (let name = ''wan'' @ string_of_nat (i + 1); st1 = snd (add_routing_table (ih_write h) name (100 + int i) st) in
      if ul_gateway u = None \<or> ul_interface u = None then (None, st1, w)
      else (case add_route h ''default'' (ul_gateway u) (ul_interface u) name None None st1 w of
          (None, st2, w') \<Rightarrow> (None, st2, w')
        | (Some ok, st2, w') \<Rightarrow> uplink_tables h (Suc i) us st2 w'))"

text \<open>Policy rules (table, priority, mark) in order until one raises.\<close>

fun policy_rules :: "'w ip_host \<Rightarrow> (int \<times> int \<times> int option) list \<Rightarrow> rt_state \<Rightarrow> 'w \<Rightarrow> 'w ip_result" where
  "policy_rules h [] st w = (Some True, st, w)"
| "policy_rules h ((t, p, m) # rs) st w =
     (case add_policy_rule h t p None None m None st w of
        (None, st', w') \<Rightarrow> (None, st', w')
      | (Some ok, st', w') \<Rightarrow> policy_rules h rs st' w')"

definition balancing_rules :: "nat \<Rightarrow> string \<Rightarrow> (int \<times> int \<times> int option) list" where
  "balancing_rules n meth =
     (if meth = ''round_robin'' then map (\<lambda>i. (100 + int i, 100 + int i, Some (int i + 1))) [0..<n]
      else if meth = ''failover'' then [(100, 100, None), (101, 200, None)] else [])"

text \<open>An exception is caught and answered with False; the answers of the calls are not read.\<close>

definition setup_load_balancing :: "'w ip_host \<Rightarrow> uplink list \<Rightarrow> string \<Rightarrow> rt_state \<Rightarrow> 'w \<Rightarrow> bool \<times> rt_state \<times> 'w" where
  "setup_load_balancing h us meth st w =
     (case uplink_tables h 0 us st w of
        (None, st1, w1) \<Rightarrow> (False, st1, w1)
      | (Some ok, st1, w1) \<Rightarrow>
          (case policy_rules h (balancing_rules (length us) meth) st1 w1 of (r, st2, w2) \<Rightarrow> (r \<noteq> None, st2, w2)))"

section \<open>Listings\<close>

text \<open>The output of a listing that succeeds, as lines.\<close>

definition raw_lines :: "string option \<Rightarrow> string list" where
  "raw_lines out = (case out of None \<Rightarrow> [] | Some s \<Rightarrow> filter (\<lambda>l. l \<noteq> []) (py_splitlines (strip s)))"

definition get_routes_args :: "string \<Rightarrow> string list" where
  "get_routes_args table = [''route'', ''show''] @ (if table \<noteq> ''all'' then [''table'', table] else [])"

definition get_routes :: "(string list \<Rightarrow> string option) \<Rightarrow> string \<Rightarrow> string list" where
  "get_routes run table = filter (\<lambda>l. \<not> startswith l ''broadcast'') (raw_lines (run (get_routes_args table)))"

definition get_rules :: "(string list \<Rightarrow> string option) \<Rightarrow> string list" where
  "get_rules run = raw_lines (run [''rule'', ''show''])"

section \<open>Properties\<close>

lemma ensure_table_frame:
  "mutations (snd (ensure_table b t st)) = mutations st"
  "registered_name (rt_lines st) n = Some s \<Longrightarrow> rt_lines (snd (ensure_table b (Tab_Num n) st)) = rt_lines st"
  by (auto simp: ensure_table_def Let_def split: table_id.split option.split)

lemma mutate_host_logs: "mutations (fst (snd (mutate_host h args st w))) = mutations st @ [''ip'' # args]"
  by (simp add: mutate_host_def mutate_def Let_def split: prod.split)

text \<open>\<open>ip\<close> shows a table that has a name in \<open>rt_tables\<close> by this name.\<close>

definition shown_by_name :: "string list \<Rightarrow> jval \<Rightarrow> bool" where
  "shown_by_name ls t \<longleftrightarrow> (case table_of t of Tab_Name s \<Rightarrow> True
     | Tab_Num n \<Rightarrow> (case registered_name ls n of None \<Rightarrow> True | Some s \<Rightarrow> t = JStr s))"

text \<open>A policy rule is added only if it is not live, the code says; for a table that has another name than the agent's own, as the
  tables of the load balancing have, it is never found live, and every call adds it again.\<close>

theorem named_table_rule_repeats:
  assumes "registered_name (rt_lines st) n = Some name" "table_of (JStr name) \<noteq> Tab_Num n"
    and "prefix_of (opt_val source) = Some s" "prefix_of (opt_val destination) = Some d"
    and "list_all (\<lambda>e. shown_by_name (rt_lines st) (lr_table e) \<and> live_rule_obj e \<noteq> None) (listed (ih_rules h w))"
  shows "\<exists>args. mutations (fst (snd (add_policy_rule h n p source destination m iface st w))) = mutations st @ [''ip'' # ''rule'' # ''add'' # args]"
proof -
  define st1 where "st1 = snd (ensure_table (ih_write h) (Tab_Num n) st)"
  define r where "r = \<lparr>rr_priority = p, rr_table = Tab_Num n, rr_source = s, rr_destination = d, rr_mark = (if m = Some 0 then None else m), rr_interface = iface\<rparr>"
  let ?ls = "map (\<lambda>e. (True, the (live_rule_obj e))) (listed (ih_rules h w))"
  have "parse_live (\<lambda>e. True) live_rule_obj (listed (ih_rules h w)) = Some ?ls" using assms(5) by (auto simp: parse_live_def list_all_iff)
  moreover have "rule_key r \<notin> rule_key ` snd ` set ?ls"
  proof
    assume "rule_key r \<in> rule_key ` snd ` set ?ls"
    then obtain e where e: "e \<in> set (listed (ih_rules h w))" "rule_key (the (live_rule_obj e)) = rule_key r" by auto
    then obtain q where q: "live_rule_obj e = Some q" using assms(5) by (auto simp: list_all_iff)
    then have "table_of (lr_table e) = Tab_Num n" using e(2)
      by (auto simp: live_rule_obj_def rule_key_def r_def split: option.splits)
    moreover have "shown_by_name (rt_lines st) (lr_table e)" using assms(5) e(1) by (auto simp: list_all_iff)
    ultimately have "lr_table e = JStr name" using assms(1) by (simp add: shown_by_name_def)
    then show False using assms(2) \<open>table_of (lr_table e) = Tab_Num n\<close> by simp
  qed
  ultimately have "mutations (fst (snd (add_policy_rule h n p source destination m iface st w)))
      = mutations st1 @ [''ip'' # rule_args (st1\<lparr>errors := errors st1 @ listing_error (ih_rules h w)\<rparr>) r ''add'']"
    by (simp add: add_policy_rule_def assms(3,4) Let_def add_unless_live_def mutate_host_logs flip: st1_def r_def)
  then show ?thesis by (simp add: st1_def ensure_table_frame rule_args_def)
qed

text \<open>A host that runs every command and lists the rules given to it.\<close>

definition lab_host_ip :: "live_rule list ip_host" where
  "lab_host_ip = \<lparr>ih_rules = Inr, ih_routes = (\<lambda>w. Inr []), ih_run = (\<lambda>a w. (True, w)), ih_write = True, ih_dry = False\<rparr>"

definition wan_rule :: live_rule where
  "wan_rule = \<lparr>lr_priority = Some 100, lr_table = JStr ''wan1'', lr_src = Some ''all'', lr_srclen = None, lr_dst = None, lr_dstlen = None,
     lr_fwmark = JStr ''0x1'', lr_iif = None, lr_protocol = JStr ''30''\<rparr>"

theorem named_table_rule_repeats_witness:
  "\<exists>args. mutations (fst (snd (add_policy_rule lab_host_ip 100 100 None None (Some 1) None (idle_state\<lparr>rt_lines := [''100 wan1'']\<rparr>) [wan_rule])))
     = [''ip'' # ''rule'' # ''add'' # args]"
proof -
  have "registered_name (rt_lines (idle_state\<lparr>rt_lines := [''100 wan1'']\<rparr>)) 100 = Some ''wan1''" by code_simp
  moreover have "table_of (JStr ''wan1'') \<noteq> Tab_Num 100" by code_simp
  moreover have "prefix_of (opt_val None) = Some None" by code_simp
  moreover have "list_all (\<lambda>e. shown_by_name (rt_lines (idle_state\<lparr>rt_lines := [''100 wan1'']\<rparr>)) (lr_table e) \<and> live_rule_obj e \<noteq> None)
      (listed (ih_rules lab_host_ip [wan_rule]))" by code_simp
  ultimately show ?thesis
    using named_table_rule_repeats[of "idle_state\<lparr>rt_lines := [''100 wan1'']\<rparr>" 100 "''wan1''" None None None None lab_host_ip "[wan_rule]"]
    by (simp add: idle_state_def)
qed

text \<open>Load balancing is answered with success even when every command fails.\<close>

theorem load_balancing_ignores_failures:
  "fst (setup_load_balancing (lab_host_ip\<lparr>ih_run := \<lambda>a w. (False, w)\<rparr>) [\<lparr>ul_gateway = Some ''192.0.2.1'', ul_interface = Some ''wan0''\<rparr>] ''round_robin'' idle_state [])"
  by code_simp

end
