(* ===== verification/Gw_Simulation.thy ===== *)
theory Gw_Simulation
  imports Gw_Base Fw_Test_Library Multi_Fw
begin

text \<open>
  \<open>routers/firewall_simulation.py\<close>: the endpoints of the simulator.

  The endpoints for one firewall take rules and packets the schemas have checked. Those for several firewalls take plain
  dictionaries and hand their texts to the simulator, which expects members of its enumerations: \<open>raw_simulate\<close> is the
  simulator on such values. The dictionaries have the keys and the value types the data classes name; the clock readings
  are left out as in \<open>Fw_Simulator\<close>.
\<close>

section \<open>Requests\<close>

datatype action_enum = Act_Accept | Act_Drop | Act_Reject | Act_Log

definition member :: "action_enum \<Rightarrow> action" where
  "member a = (case a of Act_Accept \<Rightarrow> ACCEPT | Act_Drop \<Rightarrow> DROP | Act_Reject \<Rightarrow> REJECT | Act_Log \<Rightarrow> LOG)"

record packet_spec =
  ps_src_ip :: string
  ps_dst_ip :: string
  ps_protocol :: protocol
  ps_src_port :: "int option"
  ps_dst_port :: "int option"
  ps_in :: string
  ps_out :: string
  ps_flags :: "string list"
  ps_state :: string

definition to_packet :: "packet_spec \<Rightarrow> network_packet" where
  "to_packet s = \<lparr>pk_src_ip = ps_src_ip s, pk_dst_ip = Some (ps_dst_ip s), pk_protocol = ps_protocol s, pk_src_port = ps_src_port s,
     pk_dst_port = ps_dst_port s, pk_interface_in = ps_in s, pk_interface_out = ps_out s, pk_flags = ps_flags s, pk_payload_size = 64,
     pk_connection_state = ps_state s\<rparr>"

record rule_spec =
  sp_id :: int
  sp_name :: string
  sp_chain :: string
  sp_action :: action_enum
  sp_src_ip :: "string option"
  sp_dst_ip :: "string option"
  sp_protocol :: "protocol option"
  sp_src_port :: "int option"
  sp_dst_port :: "int option"
  sp_in :: "string option"
  sp_out :: "string option"
  sp_state :: "string option"
  sp_log :: bool
  sp_order :: int
  sp_enabled :: bool

definition to_rule :: "rule_spec \<Rightarrow> firewall_rule" where
  "to_rule s = \<lparr>r_id = sp_id s, r_name = sp_name s, r_chain = sp_chain s, r_action = member (sp_action s), r_src_ip = sp_src_ip s,
     r_dst_ip = sp_dst_ip s, r_protocol = sp_protocol s, r_src_port = sp_src_port s, r_dst_port = sp_dst_port s, r_interface_in = sp_in s,
     r_interface_out = sp_out s, r_state = sp_state s, r_log = sp_log s, r_order = sp_order s, r_enabled = sp_enabled s\<rparr>"

record simulation_request =
  sq_instance :: int
  sq_rules :: "rule_spec list"
  sq_interfaces :: "(string \<times> string) list"
  sq_packet :: packet_spec

definition request_firewall :: "int \<Rightarrow> (string \<times> string) list \<Rightarrow> rule_spec list \<Rightarrow> firewall" where
  "request_firewall i ifs rs =
     fold (\<lambda>s fw. add_rule (to_rule s) fw) (sort_key sp_order rs)
       (set_interfaces ifs (new_firewall (''instance-'' @ string_of_int i) (''Instance '' @ string_of_int i)))"

section \<open>Answers\<close>

definition packet_dict :: "network_packet \<Rightarrow> json" where
  "packet_dict p = J_Obj [(''src_ip'', J_Str (pk_src_ip p)), (''dst_ip'', opt_str (pk_dst_ip p)), (''protocol'', J_Str (protocol_value (pk_protocol p))),
     (''src_port'', opt_int (pk_src_port p)), (''dst_port'', opt_int (pk_dst_port p)), (''interface_in'', J_Str (pk_interface_in p)),
     (''interface_out'', J_Str (pk_interface_out p)), (''flags'', J_List (map J_Str (pk_flags p))), (''payload_size'', J_Int (pk_payload_size p)),
     (''connection_state'', J_Str (pk_connection_state p))]"

definition rule_dict :: "firewall_rule option \<Rightarrow> json" where
  "rule_dict r = (case r of None \<Rightarrow> J_Null
     | Some r \<Rightarrow> J_Obj [(''id'', J_Int (r_id r)), (''name'', J_Str (r_name r)), (''action'', J_Str (action_value (r_action r)))])"

definition nat_dict :: "nat_translation option \<Rightarrow> json" where
  "nat_dict t = (case t of None \<Rightarrow> J_Null
     | Some t \<Rightarrow> J_Obj ((case nt_pre t of None \<Rightarrow> []
           | Some (ty, a, b) \<Rightarrow> [(''type'', J_Str ty), (''original_dst'', opt_str a), (''translated_dst'', opt_str b)])
         @ (case nt_post t of None \<Rightarrow> [] | Some n \<Rightarrow> [(''postrouting'', J_Str n)])))"

definition result_dict :: "simulation_result \<Rightarrow> json" where
  "result_dict r = J_Obj [(''packet'', packet_dict (res_packet r)), (''matched_rule'', rule_dict (res_matched_rule r)),
     (''final_action'', J_Str (action_value (res_action r))), (''chain_traversed'', J_List (map J_Str (res_chain_traversed r))),
     (''rules_evaluated'', J_Int (int (res_rules_evaluated r))), (''logs'', J_List (map J_Str (res_logs r))),
     (''nat_translation'', nat_dict (res_nat_translation r))]"

definition simulate_single_firewall :: "token option \<Rightarrow> simulation_request \<Rightarrow> nat + json" where
  "simulate_single_firewall tok q =
     map_sum id (\<lambda>u. result_dict (simulate_packet (request_firewall (sq_instance q) (sq_interfaces q) (sq_rules q)) (to_packet (sq_packet q))))
       (require_auth tok)"

section \<open>Test suites\<close>

record test_spec =
  ts_id :: "string option"
  ts_name :: string
  ts_description :: "string option"
  ts_packet :: packet_spec
  ts_expected :: action_enum
  ts_chain :: "string option"
  ts_critical :: bool
  ts_tags :: "string list"

text \<open>A missing identifier is the number of tests before; a null description stays null in the answer.\<close>

definition to_test :: "nat \<Rightarrow> test_spec \<Rightarrow> test_case" where
  "to_test n s = \<lparr>tc_id = (if truthy_str (ts_id s) then or_empty (ts_id s) else ''test-'' @ string_of_nat n), tc_name = ts_name s,
     tc_description = or_empty (ts_description s), tc_packet = to_packet (ts_packet s), tc_expected_action = member (ts_expected s),
     tc_expected_chain = ts_chain s, tc_critical = ts_critical s, tc_tags = ts_tags s\<rparr>"

definition test_dict :: "json \<Rightarrow> test_case \<Rightarrow> json" where
  "test_dict descr t = J_Obj [(''id'', J_Str (tc_id t)), (''name'', J_Str (tc_name t)), (''description'', descr), (''packet'', packet_dict (tc_packet t)),
     (''expected_action'', J_Str (action_value (tc_expected_action t))), (''expected_chain'', opt_str (tc_expected_chain t)),
     (''critical'', J_Bool (tc_critical t)), (''tags'', J_List (map J_Str (tc_tags t)))]"

definition test_result_dict :: "test_spec \<Rightarrow> test_result \<Rightarrow> json" where
  "test_result_dict s r = J_Obj [(''test_case'', test_dict (opt_str (ts_description s)) (tr_test_case r)), (''passed'', J_Bool (tr_passed r)),
     (''actual_action'', J_Str (action_value (tr_actual_action r))),
     (''actual_rule'', case tr_actual_rule r of None \<Rightarrow> J_Null | Some q \<Rightarrow> J_Obj [(''id'', J_Int (r_id q)), (''name'', J_Str (r_name q))]),
     (''error_message'', opt_str (tr_error_message r))]"

record suite_request =
  uq_instance :: int
  uq_rules :: "rule_spec list"
  uq_interfaces :: "(string \<times> string) list"
  uq_tests :: "test_spec list"

definition run_suite :: "token option \<Rightarrow> suite_request \<Rightarrow> nat + suite_summary \<times> json list" where
  "run_suite tok q =
     map_sum id (\<lambda>u. let fw = request_firewall (uq_instance q) (uq_interfaces q) (uq_rules q);
         (results, s) = run_test_suite fw (map (\<lambda>(n, t). to_test n t) (enumerate 0 (uq_tests q))) in
         (s, map (\<lambda>(t, r). test_result_dict t r) (zip (uq_tests q) results)))
       (require_auth tok)"

definition library_answer :: "token option \<Rightarrow> string \<Rightarrow> string \<Rightarrow> test_case list \<Rightarrow> nat + json" where
  "library_answer tok name descr ts =
     map_sum id (\<lambda>u. J_Obj [(''name'', J_Str name), (''description'', J_Str descr), (''tests'', J_List (map (\<lambda>t. test_dict (J_Str (tc_description t)) t) ts))])
       (require_auth tok)"

definition get_basic_test_suite :: "token option \<Rightarrow> nat + json" where
  "get_basic_test_suite tok = library_answer tok ''Basic Connectivity'' ''Essential tests for basic firewall functionality'' basic_connectivity_tests"

definition get_security_test_suite :: "token option \<Rightarrow> nat + json" where
  "get_security_test_suite tok = library_answer tok ''Security'' ''Tests for security-related rules and protections'' security_tests"

definition get_application_test_suite :: "token option \<Rightarrow> nat + json" where
  "get_application_test_suite tok = library_answer tok ''Applications'' ''Tests for specific applications (DNS, VoIP, Mail)'' application_tests"

definition suite_entry :: "string \<Rightarrow> string \<Rightarrow> string \<Rightarrow> int \<Rightarrow> json" where
  "suite_entry i n d c = J_Obj [(''id'', J_Str i), (''name'', J_Str n), (''description'', J_Str d), (''test_count'', J_Int c)]"

definition get_all_test_suites :: "token option \<Rightarrow> nat + json" where
  "get_all_test_suites tok = map_sum id (\<lambda>u. J_Obj [(''suites'', J_List [suite_entry ''basic'' ''Basic Connectivity'' ''Essential connectivity tests'' 5,
     suite_entry ''security'' ''Security'' ''Security-focused tests'' 3, suite_entry ''application'' ''Applications'' ''Application-specific tests'' 3])])
     (require_auth tok)"

section \<open>The animation\<close>

datatype visual_step =
    Enter string
  | Choose_Chain string
  | Show_Rule rule_spec "bool option" int
  | Conclude string

text \<open>The rules of the chain in the order of the request, until one has the identifier of the matched rule; without one the
  mark is null.\<close>

fun rule_steps :: "string \<Rightarrow> int option \<Rightarrow> int \<Rightarrow> rule_spec list \<Rightarrow> visual_step list" where
  "rule_steps chain m y [] = []"
| "rule_steps chain m y (r # rs) =
     (if sp_chain r \<noteq> chain then rule_steps chain m y rs
      else if m = Some (sp_id r) then [Show_Rule r (Some True) y] else Show_Rule r (if m = None then None else Some False) y # rule_steps chain m (y + 60) rs)"

definition visual_steps :: "simulation_request \<Rightarrow> simulation_result \<Rightarrow> visual_step list" where
  "visual_steps q r =
     (let chain = (case res_chain_traversed r of [] \<Rightarrow> ''unknown'' | c # cs \<Rightarrow> c) in
      [Enter (ps_in (sq_packet q)), Choose_Chain chain] @ rule_steps chain (map_option r_id (res_matched_rule r)) 100 (sq_rules q)
      @ [Conclude (action_value (res_action r))])"

definition get_visual_simulation_data :: "token option \<Rightarrow> simulation_request \<Rightarrow> nat + json \<times> visual_step list \<times> json" where
  "get_visual_simulation_data tok q =
     map_sum id (\<lambda>u. let r = simulate_packet (request_firewall (sq_instance q) (sq_interfaces q) (sq_rules q)) (to_packet (sq_packet q)) in
         (packet_dict (to_packet (sq_packet q)), visual_steps q r, result_dict r))
       (require_auth tok)"

section \<open>Several firewalls\<close>

text \<open>A rule made from a dictionary: action and protocol are texts.\<close>

record raw_rule =
  rw_id :: int
  rw_name :: string
  rw_chain :: string
  rw_action :: string
  rw_src_ip :: "string option"
  rw_dst_ip :: "string option"
  rw_protocol :: "string option"
  rw_src_port :: "int option"
  rw_dst_port :: "int option"
  rw_in :: "string option"
  rw_out :: "string option"
  rw_state :: "string option"
  rw_log :: bool
  rw_order :: int
  rw_enabled :: bool

text \<open>A packet with the protocol it carries: a member, or the text of a dictionary (then its own field means nothing). A text
  is never equal to a member.\<close>

type_synonym raw_packet = "(protocol + string) \<times> network_packet"

definition raw_matches :: "raw_rule \<Rightarrow> raw_packet \<Rightarrow> bool" where
  "raw_matches r = (\<lambda>(proto, p).
     rw_enabled r \<and> addr_matches (rw_src_ip r) (Some (pk_src_ip p)) \<and> addr_matches (rw_dst_ip r) (pk_dst_ip p)
     \<and> \<not> (truthy_str (rw_protocol r) \<and> proto \<noteq> Inr (or_empty (rw_protocol r)))
     \<and> port_matches (rw_src_port r) (pk_src_port p) \<and> port_matches (rw_dst_port r) (pk_dst_port p)
     \<and> text_matches (rw_in r) (pk_interface_in p) \<and> text_matches (rw_out r) (pk_interface_out p) \<and> text_matches (rw_state r) (pk_connection_state p))"

text \<open>\<open>action in [DROP, REJECT]\<close> and \<open>action.value\<close> for a member or a text.\<close>

definition raw_stops :: "action + string \<Rightarrow> bool" where
  "raw_stops a = (case a of Inl m \<Rightarrow> terminal m | Inr t \<Rightarrow> False)"

definition text_value :: "action + string \<Rightarrow> string option" where
  "text_value a = (case a of Inl m \<Rightarrow> Some (action_value m) | Inr t \<Rightarrow> None)"

text \<open>The loop over the rules; \<open>None\<close> is the exception of a log line that asks a text for its value.\<close>

fun raw_eval :: "string \<Rightarrow> raw_packet \<Rightarrow> raw_rule list \<Rightarrow> raw_rule option \<Rightarrow> action + string \<Rightarrow> nat \<Rightarrow> (raw_rule option \<times> (action + string) \<times> nat) option" where
  "raw_eval chain p [] m a n = Some (m, a, n)"
| "raw_eval chain p (r # rs) m a n =
     (if rw_chain r \<noteq> chain then raw_eval chain p rs m a n
      else if raw_matches r p then
        (if rw_log r \<and> text_value (Inr (rw_action r)) = None then None
         else if raw_stops (Inr (rw_action r)) then Some (Some r, Inr (rw_action r), Suc n)
         else raw_eval chain p rs (Some r) (Inr (rw_action r)) (Suc n))
      else raw_eval chain p rs m a (Suc n))"

record raw_firewall =
  rf_name :: string
  rf_rules :: "raw_rule list"
  rf_interfaces :: "(string \<times> string) list"

text \<open>One simulation with its \<open>to_dict\<close>, which asks the packet's protocol, the matched rule's action and the final action for
  their values. No endpoint adds NAT rules. The firewall is one with the same interfaces.\<close>

definition raw_simulate :: "raw_firewall \<Rightarrow> raw_packet \<Rightarrow> simulation_result option" where
  "raw_simulate f p =
     (let chain = determine_chain (set_interfaces (rf_interfaces f) (new_firewall [] (rf_name f))) (snd p) in
      case raw_eval chain p (sort_key rw_order (rf_rules f)) None (Inl ACCEPT) 0 of
        None \<Rightarrow> None
      | Some (m, a, n) \<Rightarrow>
          (case (fst p, m, a) of
             (Inl proto, None, Inl act) \<Rightarrow> Some \<lparr>res_packet = (snd p)\<lparr>pk_protocol := proto\<rparr>, res_matched_rule = None, res_action = act,
                 res_chain_traversed = [chain], res_rules_evaluated = n, res_logs = [], res_nat_translation = None\<rparr>
           | _ \<Rightarrow> None))"

fun raw_hops :: "(string \<times> raw_firewall) list \<Rightarrow> string list \<Rightarrow> raw_packet \<Rightarrow> hop list option" where
  "raw_hops fws [] p = Some []"
| "raw_hops fws (i # is) p =
     (case map_of fws i of
        None \<Rightarrow> raw_hops fws is p
      | Some f \<Rightarrow>
          (case raw_simulate f p of
             None \<Rightarrow> None
           | Some res \<Rightarrow>
               (let h = \<lparr>hop_firewall_id = i, hop_firewall_name = rf_name f, hop_result = res\<rparr> in
                if terminal (res_action res) then Some [h] else map_option (Cons h) (raw_hops fws is p))))"

text \<open>The request's firewalls in order; a later one with the same identifier replaces an earlier one.\<close>

definition raw_firewalls :: "(string \<times> raw_firewall) list \<Rightarrow> (string \<times> raw_firewall) list" where
  "raw_firewalls fs = fold (\<lambda>(i, f). dict_put i f) fs []"

definition raw_end_to_end :: "(string \<times> raw_firewall) list \<Rightarrow> topology \<Rightarrow> string \<Rightarrow> string \<Rightarrow> raw_packet \<Rightarrow> end_to_end option" where
  "raw_end_to_end fws topo source dest p =
     (let path = calculate_path topo source dest in
      if path = [] then Some (No_Path source dest)
      else map_option (\<lambda>hops. Traversed path (length hops)
             (if hops \<noteq> [] then action_value (res_action (hop_result (last hops))) else ''unknown'') hops) (raw_hops fws path p))"

record multi_request =
  mq_firewalls :: "(string \<times> raw_firewall) list"
  mq_topology :: topology
  mq_source :: string
  mq_dest :: string
  mq_packet :: packet_spec

definition simulate_multi_firewall :: "token option \<Rightarrow> multi_request \<Rightarrow> nat + end_to_end" where
  "simulate_multi_firewall tok q =
     (case require_auth tok of
        Inl c \<Rightarrow> Inl c
      | Inr u \<Rightarrow> (case raw_end_to_end (raw_firewalls (mq_firewalls q)) (mq_topology q) (mq_source q) (mq_dest q)
            (Inl (ps_protocol (mq_packet q)), to_packet (mq_packet q)) of
          None \<Rightarrow> Inl 500
        | Some e \<Rightarrow> Inr e))"

text \<open>A test of the request: its packet has the text \<open>rt_protocol\<close> for a protocol.\<close>

record raw_test =
  rt_name :: "string option"
  rt_source :: string
  rt_dest :: string
  rt_protocol :: string
  rt_packet :: network_packet
  rt_expected :: "string option"

fun raw_tests :: "(string \<times> raw_firewall) list \<Rightarrow> topology \<Rightarrow> raw_test list \<Rightarrow> multi_test_result list option" where
  "raw_tests fws topo [] = Some []"
| "raw_tests fws topo (t # ts) =
     (case raw_end_to_end fws topo (rt_source t) (rt_dest t) (Inr (rt_protocol t), rt_packet t) of
        None \<Rightarrow> None
      | Some e \<Rightarrow> map_option (Cons \<lparr>mr_name = rt_name t, mr_source = rt_source t, mr_destination = rt_dest t,
          mr_passed = (final_action e = rt_expected t), mr_result = e\<rparr>) (raw_tests fws topo ts))"

definition run_multi_tests :: "token option \<Rightarrow> (string \<times> raw_firewall) list \<Rightarrow> topology \<Rightarrow> raw_test list \<Rightarrow> nat + bool \<times> multi_test_result list" where
  "run_multi_tests tok fs topo ts =
     (case require_auth tok of
        Inl c \<Rightarrow> Inl c
      | Inr u \<Rightarrow> (case raw_tests (raw_firewalls fs) topo ts of None \<Rightarrow> Inl 500 | Some rs \<Rightarrow> Inr (list_all mr_passed rs, rs)))"

end
