(* ===== verification/Gw_Simulation_Props.thy ===== *)
theory Gw_Simulation_Props
  imports Gw_Simulation
begin

text \<open>
  The properties of the simulator's endpoints, each with a concrete instance.
\<close>

section \<open>One firewall\<close>

lemma request_firewall_fields:
  "fw_rules (request_firewall i ifs rs) = map to_rule (sort_key sp_order rs)"
  "fw_interfaces (request_firewall i ifs rs) = ifs"
proof -
  have f: "fold (\<lambda>s fw. add_rule (to_rule s) fw) xs fw = fw\<lparr>fw_rules := sort_key r_order (ys @ map to_rule xs)\<rparr>" if "fw_rules fw = sort_key r_order ys" for xs ys fw
    using that
  proof (induction xs arbitrary: ys fw)
    case (Cons x xs)
    have "fw_rules (add_rule (to_rule x) fw) = sort_key r_order (ys @ [to_rule x])" by (simp add: add_rule_def Cons.prems sort_key_snoc)
    from Cons.IH[OF this] show ?case by (simp add: add_rule_def)
  qed simp
  have ins: "insort_key r_order (to_rule x) (map to_rule xs) = map to_rule (insort_key sp_order x xs)" for x xs
    by (induction xs) (simp_all add: to_rule_def)
  have k: "sort_key r_order (map to_rule xs) = map to_rule (sort_key sp_order xs)" for xs
    by (induction xs) (simp_all add: ins)
  show "fw_rules (request_firewall i ifs rs) = map to_rule (sort_key sp_order rs)" "fw_interfaces (request_firewall i ifs rs) = ifs"
    by (simp_all add: request_firewall_def f[where ys = "[]"] set_interfaces_def new_firewall_def k sort_key_idem)
qed

text \<open>The verdict of the endpoint for one firewall: it answers that the packet is blocked exactly when an enabled rule of the request blocks it, in
  whatever order the rules are given.\<close>

theorem single_answer_blocks:
  assumes "simulate_single_firewall tok q = Inr j"
  shows "key_of j ''final_action'' \<in> {Some (J_Str ''drop''), Some (J_Str ''reject'')} \<longleftrightarrow>
    (\<exists>s\<in>set (sq_rules q). sp_chain s = determine_chain (request_firewall (sq_instance q) (sq_interfaces q) []) (to_packet (sq_packet q))
       \<and> matches (to_rule s) (to_packet (sq_packet q)) \<and> sp_action s \<in> {Act_Drop, Act_Reject})"
proof -
  let ?fw = "request_firewall (sq_instance q) (sq_interfaces q) (sq_rules q)"
  let ?p = "to_packet (sq_packet q)"
  have "j = result_dict (simulate_packet ?fw ?p)" using assms by (cases "require_auth tok") (auto simp: simulate_single_firewall_def)
  then have "key_of j ''final_action'' = Some (J_Str (action_value (res_action (simulate_packet ?fw ?p))))" by (simp add: result_dict_def)
  moreover have "action_value a \<in> {''drop'', ''reject''} \<longleftrightarrow> terminal a" for a by (cases a) (simp_all add: terminal_def)
  ultimately have "key_of j ''final_action'' \<in> {Some (J_Str ''drop''), Some (J_Str ''reject'')} \<longleftrightarrow> terminal (res_action (simulate_packet ?fw ?p))"
    by auto
  also have "\<dots> \<longleftrightarrow> (\<exists>r\<in>set (fw_rules ?fw). blocks (determine_chain ?fw ?p) ?p r)"
    using verdict_rule_terminal[of "determine_chain ?fw ?p" ?p "fw_rules ?fw"]
    by (auto simp: simulate_packet_fields terminal_def split: option.splits)
  moreover have "terminal (member a) \<longleftrightarrow> a \<in> {Act_Drop, Act_Reject}" for a by (cases a) (simp_all add: terminal_def member_def)
  moreover have "determine_chain ?fw ?p = determine_chain (request_firewall (sq_instance q) (sq_interfaces q) []) ?p"
    by (simp add: determine_chain_def interface_type_def request_firewall_fields)
  moreover have "r_chain (to_rule s) = sp_chain s" "r_action (to_rule s) = member (sp_action s)" for s by (simp_all add: to_rule_def)
  ultimately show ?thesis by (simp add: request_firewall_fields blocks_def hits_def conj_assoc)
qed

section \<open>The animation\<close>

definition shown :: "visual_step list \<Rightarrow> (rule_spec \<times> bool) list" where
  "shown vs = List.map_filter (\<lambda>v. case v of Show_Rule r m y \<Rightarrow> Some (r, m = Some True) | _ \<Rightarrow> None) vs"

lemma shown_simps [simp]: "shown (a @ b) = shown a @ shown b" "shown [] = []" "shown (Enter i # vs) = shown vs" "shown (Choose_Chain c # vs) = shown vs"
  "shown (Conclude t # vs) = shown vs" "shown (Show_Rule r m y # vs) = (r, m = Some True) # shown vs"
  by (simp_all add: shown_def List.map_filter_def)

lemma shown_steps:
  assumes "distinct (map sp_id rs)" "List.find (blocks chain p) (map to_rule rs) = Some b"
  shows "\<exists>s. to_rule s = b \<and> shown (rule_steps chain (Some (r_id b)) y rs) =
      map (\<lambda>r. (r, False)) (filter (\<lambda>r. sp_chain r = chain) (takeWhile (\<lambda>r. \<not> blocks chain p (to_rule r)) rs)) @ [(s, True)]"
  using assms
proof (induction rs arbitrary: y)
  case (Cons r rs)
  have id: "r_id (to_rule x) = sp_id x" "r_chain (to_rule x) = sp_chain x" for x by (simp_all add: to_rule_def)
  show ?case
  proof (cases "blocks chain p (to_rule r)")
    case True
    then have "b = to_rule r" "sp_chain r = chain" using Cons.prems(2) by (simp_all add: blocks_def hits_def id)
    then show ?thesis using True by (auto simp: id)
  next
    case False
    then have f: "List.find (blocks chain p) (map to_rule rs) = Some b" using Cons.prems(2) by simp
    then obtain s where "s \<in> set rs" "b = to_rule s" using find_SomeE[OF f] by auto
    then have "sp_id s \<noteq> sp_id r" using Cons.prems(1) by (metis distinct.simps(2) image_eqI list.map(2) list.set_map)
    then have "r_id b \<noteq> sp_id r" by (simp add: \<open>b = to_rule s\<close> id)
    then show ?thesis using Cons.IH[OF _ f] Cons.prems(1) False by (auto)
  qed
qed simp

text \<open>For rules given in their order, with distinct identifiers, and a blocked packet, the animation shows exactly the rules the simulator evaluated, the
  last of them as the match, as many as the answer counts.\<close>

theorem visual_shows_evaluation:
  assumes "get_visual_simulation_data tok q = Inr (pd, vs, j)" "sorted (map sp_order (sq_rules q))" "distinct (map sp_id (sq_rules q))"
    and "simulate_packet (request_firewall (sq_instance q) (sq_interfaces q) (sq_rules q)) (to_packet (sq_packet q)) = r" "terminal (res_action r)"
  shows "length (shown vs) = res_rules_evaluated r \<and> res_matched_rule r = Some (to_rule (fst (last (shown vs)))) \<and> snd (last (shown vs))
    \<and> list_all (\<lambda>e. \<not> snd e) (butlast (shown vs))"
proof -
  let ?fw = "request_firewall (sq_instance q) (sq_interfaces q) (sq_rules q)" and ?p = "to_packet (sq_packet q)" and ?rs = "sq_rules q"
  define c where "c = determine_chain ?fw ?p"
  have rules: "fw_rules ?fw = map to_rule ?rs" using assms(2) by (simp add: request_firewall_fields sort_key_id_if_sorted)
  have r: "res_matched_rule r = verdict_rule c ?p (map to_rule ?rs)" "res_rules_evaluated r = evaluated c ?p (map to_rule ?rs)" "res_chain_traversed r = [c]"
    "res_action r = (case verdict_rule c ?p (map to_rule ?rs) of None \<Rightarrow> ACCEPT | Some q \<Rightarrow> r_action q)"
    by (simp_all add: assms(4)[symmetric] simulate_packet_fields rules c_def)
  have b: "\<exists>q\<in>set (map to_rule ?rs). blocks c ?p q" using assms(5) verdict_rule_terminal[of c ?p "map to_rule ?rs"]
    by (auto simp: r(4) terminal_def split: option.splits)
  then obtain m where m: "List.find (blocks c ?p) (map to_rule ?rs) = Some m" by (metis find_None option.exhaust)
  then have v: "verdict_rule c ?p (map to_rule ?rs) = Some m" by (simp add: verdict_rule_def)
  obtain s where s: "to_rule s = m" "shown (rule_steps c (Some (r_id m)) 100 ?rs) =
      map (\<lambda>r. (r, False)) (filter (\<lambda>r. sp_chain r = c) (takeWhile (\<lambda>r. \<not> blocks c ?p (to_rule r)) ?rs)) @ [(s, True)]"
    using shown_steps[OF assms(3) m, of 100] by blast
  have "vs = visual_steps q r" using assms(1,4) by (cases "require_auth tok") (auto simp: get_visual_simulation_data_def Let_def)
  then have vs: "shown vs = shown (rule_steps c (Some (r_id m)) 100 ?rs)"
    by (simp add: visual_steps_def r(1,3) v)
  have "evaluated c ?p (map to_rule ?rs) = Suc (length (filter (\<lambda>r. sp_chain r = c) (takeWhile (\<lambda>r. \<not> blocks c ?p (to_rule r)) ?rs)))"
    using b by (simp add: evaluated_def takeWhile_map filter_map comp_def to_rule_def)
  then show ?thesis using s by (simp add: vs r(1,2) v butlast_append list_all_iff)
qed

section \<open>Several firewalls\<close>

definition raw_hit :: "raw_firewall \<Rightarrow> raw_packet \<Rightarrow> bool" where
  "raw_hit f p \<longleftrightarrow> (\<exists>r\<in>set (rf_rules f). rw_chain r = determine_chain (set_interfaces (rf_interfaces f) (new_firewall [] (rf_name f))) (snd p) \<and> raw_matches r p)"

lemma raw_eval_hit:
  "m \<noteq> None \<or> (\<exists>r\<in>set rs. rw_chain r = chain \<and> raw_matches r p) \<Longrightarrow> raw_eval chain p rs m a n = Some (m', a', n') \<Longrightarrow> m' \<noteq> None"
  by (induction chain p rs m a n rule: raw_eval.induct) (auto split: if_splits)

lemma raw_eval_miss: "\<not> (\<exists>r\<in>set rs. rw_chain r = chain \<and> raw_matches r p) \<Longrightarrow> \<exists>n'. raw_eval chain p rs m a n = Some (m, a, n')"
  by (induction chain p rs m a n rule: raw_eval.induct) auto

lemma raw_simulate_None: "raw_simulate f (Inl t, p) = None \<longleftrightarrow> raw_hit f (Inl t, p)"
proof (cases "raw_hit f (Inl t, p)")
  case True
  then show ?thesis
    by (auto simp: raw_simulate_def raw_hit_def Let_def split: option.split sum.split dest!: raw_eval_hit[rotated])
next
  case False
  then have "\<exists>n. raw_eval (determine_chain (set_interfaces (rf_interfaces f) (new_firewall [] (rf_name f))) p) (Inl t, p)
      (sort_key rw_order (rf_rules f)) None (Inl ACCEPT) 0 = Some (None, Inl ACCEPT, n)"
    by (intro raw_eval_miss) (auto simp: raw_hit_def)
  then show ?thesis using False by (auto simp: raw_simulate_def Let_def)
qed

lemma raw_simulate_text: "raw_simulate f (Inr t, p) = None"
  by (simp add: raw_simulate_def Let_def split: option.split)

lemma raw_simulate_accepts: "raw_simulate f p = Some res \<Longrightarrow> res_action res = ACCEPT"
proof -
  assume s: "raw_simulate f p = Some res"
  then obtain t where t: "fst p = Inl t" by (auto simp: raw_simulate_def Let_def split: option.splits sum.splits prod.splits)
  then have "\<not> raw_hit f p" using s raw_simulate_None[of f t "snd p"] by (cases p) auto
  then obtain n where "raw_eval (determine_chain (set_interfaces (rf_interfaces f) (new_firewall [] (rf_name f))) (snd p)) p
      (sort_key rw_order (rf_rules f)) None (Inl ACCEPT) 0 = Some (None, Inl ACCEPT, n)"
    using raw_eval_miss[of "sort_key rw_order (rf_rules f)" _ p] by (fastforce simp: raw_hit_def)
  then show ?thesis using s t by (auto simp: raw_simulate_def Let_def)
qed

lemma raw_hops_outcome:
  "raw_hops fws path (Inl t, p) = None \<longleftrightarrow> (\<exists>i\<in>set path. \<exists>f. map_of fws i = Some f \<and> raw_hit f (Inl t, p))"
  "raw_hops fws path q = Some hops \<Longrightarrow> h \<in> set hops \<Longrightarrow> res_action (hop_result h) = ACCEPT"
proof -
  show "raw_hops fws path (Inl t, p) = None \<longleftrightarrow> (\<exists>i\<in>set path. \<exists>f. map_of fws i = Some f \<and> raw_hit f (Inl t, p))"
  proof (induction path)
    case (Cons i ps)
    show ?case
    proof (cases "map_of fws i")
      case (Some f)
      show ?thesis
      proof (cases "raw_simulate f (Inl t, p)")
        case (Some res)
        then show ?thesis using \<open>map_of fws i = Some f\<close> Cons.IH raw_simulate_accepts[OF Some] raw_simulate_None[of f t p]
          by (simp add: Let_def terminal_def)
      qed (use Some raw_simulate_None[of f t p] in auto)
    qed (use Cons.IH in simp)
  qed simp
  show "raw_hops fws path q = Some hops \<Longrightarrow> h \<in> set hops \<Longrightarrow> res_action (hop_result h) = ACCEPT"
    by (induction path arbitrary: hops) (auto simp: Let_def raw_simulate_accepts split: option.splits if_splits)
qed

text \<open>C37: The endpoint for several firewalls never reports a block: it fails exactly when some rule of a firewall on the path matches, whatever its action, and
  otherwise says accept, or unknown where the path has no known firewall, or that there is no path.\<close>

theorem multi_endpoint_never_blocks:
  assumes "require_auth tok = Inr u"
  shows "(simulate_multi_firewall tok q = Inl 500 \<longleftrightarrow>
      (\<exists>i\<in>set (calculate_path (mq_topology q) (mq_source q) (mq_dest q)). \<exists>f. map_of (raw_firewalls (mq_firewalls q)) i = Some f
         \<and> raw_hit f (Inl (ps_protocol (mq_packet q)), to_packet (mq_packet q))))
    \<and> (\<forall>e. simulate_multi_firewall tok q = Inr e \<longrightarrow> final_action e \<in> {None, Some ''accept'', Some ''unknown''})"
proof -
  define path where "path = calculate_path (mq_topology q) (mq_source q) (mq_dest q)"
  define hops where "hops = raw_hops (raw_firewalls (mq_firewalls q)) path (Inl (ps_protocol (mq_packet q)), to_packet (mq_packet q))"
  have e: "simulate_multi_firewall tok q = (if path = [] then Inr (No_Path (mq_source q) (mq_dest q))
      else (case hops of None \<Rightarrow> Inl 500 | Some hs \<Rightarrow> Inr (Traversed path (length hs) (if hs \<noteq> [] then action_value (res_action (hop_result (last hs))) else ''unknown'') hs)))"
    by (simp add: simulate_multi_firewall_def assms raw_end_to_end_def Let_def path_def hops_def split: option.split)
  have "res_action (hop_result (last hs)) = ACCEPT" if "hops = Some hs" "hs \<noteq> []" for hs
    using raw_hops_outcome(2)[OF that(1)[unfolded hops_def] last_in_set[OF that(2)]] .
  then have "\<forall>e. simulate_multi_firewall tok q = Inr e \<longrightarrow> final_action e \<in> {None, Some ''accept'', Some ''unknown''}"
    by (auto simp: e split: option.splits if_splits)
  moreover have "simulate_multi_firewall tok q = Inl 500 \<longleftrightarrow> path \<noteq> [] \<and> hops = None" by (simp add: e split: option.split)
  ultimately show ?thesis unfolding hops_def raw_hops_outcome(1) path_def[symmetric] by auto
qed

text \<open>The endpoint for tests over several firewalls answers 500 as soon as one test has a known firewall on its path: the packet of a test carries a text
  for its protocol, which the result cannot print.\<close>

theorem multi_tests_answer_500:
  assumes "require_auth tok = Inr u" "t \<in> set ts" "i \<in> set (calculate_path topo (rt_source t) (rt_dest t))" "map_of (raw_firewalls fs) i = Some f"
  shows "run_multi_tests tok fs topo ts = Inl 500"
proof -
  have "raw_hops fws path (Inr x, p) = None" if "i \<in> set path" "map_of fws i = Some f" for fws path x p
    using that by (induction path) (auto simp: raw_simulate_text split: option.split)
  then have n: "raw_end_to_end (raw_firewalls fs) topo (rt_source t) (rt_dest t) (Inr (rt_protocol t), rt_packet t) = None"
    using assms(3,4) by (auto simp: raw_end_to_end_def Let_def)
  have "raw_tests (raw_firewalls fs) topo ts = None"
    using assms(2) by (induction ts) (auto simp: n split: option.split)
  then show ?thesis by (simp add: run_multi_tests_def assms(1))
qed

text \<open>The counts of the overview are those of the suites.\<close>

lemma suite_counts: "length basic_connectivity_tests = 5" "length security_tests = 3" "length application_tests = 3"
  by (simp_all add: basic_connectivity_tests_def security_tests_def application_tests_def)

section \<open>A concrete instance\<close>

definition lab_drop :: rule_spec where
  "lab_drop = \<lparr>sp_id = 2, sp_name = ''no telnet'', sp_chain = ''forward'', sp_action = Act_Drop, sp_src_ip = None, sp_dst_ip = None, sp_protocol = Some TCP,
     sp_src_port = None, sp_dst_port = Some 23, sp_in = None, sp_out = None, sp_state = None, sp_log = False, sp_order = 20, sp_enabled = True\<rparr>"

definition lab_telnet :: packet_spec where
  "lab_telnet = \<lparr>ps_src_ip = ''192.168.1.5'', ps_dst_ip = ''203.0.113.5'', ps_protocol = TCP, ps_src_port = Some 40000, ps_dst_port = Some 23, ps_in = ''eth1'',
     ps_out = ''eth0'', ps_flags = [], ps_state = ''NEW''\<rparr>"

definition lab_simulation :: simulation_request where
  "lab_simulation = \<lparr>sq_instance = 1, sq_rules = [lab_drop\<lparr>sp_id := 1, sp_action := Act_Accept, sp_order := 10\<rparr>, lab_drop],
     sq_interfaces = [(''eth0'', ''wan''), (''eth1'', ''lan'')], sq_packet = lab_telnet\<rparr>"

definition lab_user :: "token option" where
  "lab_user = Some \<lparr>tk_sub = Some 1, tk_role = Some ''user''\<rparr>"

theorem single_answer_blocks_witness:
  "\<exists>j. simulate_single_firewall lab_user lab_simulation = Inr j \<and> key_of j ''final_action'' \<in> {Some (J_Str ''drop''), Some (J_Str ''reject'')}"
proof -
  obtain j where j: "simulate_single_firewall lab_user lab_simulation = Inr j" by (auto simp: simulate_single_firewall_def lab_user_def require_auth_def)
  have "lab_drop \<in> set (sq_rules lab_simulation)" "sp_action lab_drop \<in> {Act_Drop, Act_Reject}" by (simp_all add: lab_simulation_def lab_drop_def)
  moreover have "sp_chain lab_drop = determine_chain (request_firewall (sq_instance lab_simulation) (sq_interfaces lab_simulation) []) (to_packet (sq_packet lab_simulation))"
    "matches (to_rule lab_drop) (to_packet (sq_packet lab_simulation))" by code_simp+
  ultimately show ?thesis using single_answer_blocks[OF j] j by blast
qed

theorem visual_shows_evaluation_witness:
  "\<exists>pd vs j. get_visual_simulation_data lab_user lab_simulation = Inr (pd, vs, j) \<and> length (shown vs) = 2"
proof -
  obtain pd vs j where v: "get_visual_simulation_data lab_user lab_simulation = Inr (pd, vs, j)"
    by (auto simp: get_visual_simulation_data_def lab_user_def require_auth_def Let_def)
  let ?r = "simulate_packet (request_firewall (sq_instance lab_simulation) (sq_interfaces lab_simulation) (sq_rules lab_simulation)) (to_packet (sq_packet lab_simulation))"
  have "sorted (map sp_order (sq_rules lab_simulation))" "distinct (map sp_id (sq_rules lab_simulation))" by (simp_all add: lab_simulation_def lab_drop_def)
  moreover have "terminal (res_action ?r)" "res_rules_evaluated ?r = 2" by code_simp+
  ultimately show ?thesis using visual_shows_evaluation[OF v _ _ refl] v by auto
qed

definition lab_raw :: raw_firewall where
  "lab_raw = \<lparr>rf_name = ''site'', rf_rules = [\<lparr>rw_id = 1, rw_name = ''no telnet'', rw_chain = ''forward'', rw_action = ''drop'', rw_src_ip = None, rw_dst_ip = None,
       rw_protocol = None, rw_src_port = None, rw_dst_port = Some 23, rw_in = None, rw_out = None, rw_state = None, rw_log = False, rw_order = 0, rw_enabled = True\<rparr>],
     rf_interfaces = [(''eth0'', ''wan''), (''eth1'', ''lan'')]\<rparr>"

definition lab_multi :: multi_request where
  "lab_multi = \<lparr>mq_firewalls = [(''a'', lab_raw)], mq_topology = [], mq_source = ''a'', mq_dest = ''a'', mq_packet = lab_telnet\<rparr>"

text \<open>A rule that drops the packet makes the endpoint fail.\<close>

theorem multi_endpoint_never_blocks_witness: "simulate_multi_firewall lab_user lab_multi = Inl 500"
proof -
  have "require_auth lab_user = Inr 1" by code_simp
  moreover have "''a'' \<in> set (calculate_path (mq_topology lab_multi) (mq_source lab_multi) (mq_dest lab_multi))" by (simp add: lab_multi_def calculate_path_def)
  moreover have "map_of (raw_firewalls (mq_firewalls lab_multi)) ''a'' = Some lab_raw" by (simp add: lab_multi_def raw_firewalls_def)
  moreover have "raw_hit lab_raw (Inl (ps_protocol (mq_packet lab_multi)), to_packet (mq_packet lab_multi))"
    by (simp add: raw_hit_def lab_raw_def lab_multi_def) code_simp
  ultimately show ?thesis using multi_endpoint_never_blocks by blast
qed

definition lab_raw_test :: raw_test where
  "lab_raw_test = \<lparr>rt_name = None, rt_source = ''a'', rt_dest = ''a'', rt_protocol = ''tcp'', rt_packet = to_packet lab_telnet, rt_expected = Some ''drop''\<rparr>"

theorem multi_tests_answer_500_witness: "run_multi_tests lab_user [(''a'', lab_raw)] [] [lab_raw_test] = Inl 500"
proof -
  have "require_auth lab_user = Inr 1" by code_simp
  then show ?thesis
    by (rule multi_tests_answer_500[where t = lab_raw_test and i = "''a''" and f = lab_raw])
      (simp_all add: calculate_path_def raw_firewalls_def lab_raw_test_def)
qed

end
