(* ===== verification/Wg_Status.thy ===== *)
theory Wg_Status
  imports Wg_Client Qos
begin

text \<open>
  The live status of the WireGuard agent (\<open>wg_client.py\<close>): the patterns that read \<open>wg show\<close>, the age of the last
  handshake, the amounts transferred, and the address from \<open>ip -j addr show\<close>.

  An amount is the floor of the exact product where the code has a float; the two agree for the two decimals that
  \<open>wg\<close> prints and amounts below 64 TiB. A text that is not digits with at most one point is no number.
\<close>

section \<open>Patterns\<close>

text \<open>\<open>([^\n]*?)\s+ago\<close>: the shortest text before white space and \<open>ago\<close>.\<close>

definition ago_at :: "string \<Rightarrow> bool" where
  "ago_at s \<longleftrightarrow> (case eat_spaces1 s of None \<Rightarrow> False | Some r \<Rightarrow> startswith r ''ago'')"

fun until_ago :: "string \<Rightarrow> string option" where
  "until_ago [] = None"
| "until_ago (c # cs) = (if ago_at (c # cs) then Some [] else if c = newline then None else map_option (Cons c) (until_ago cs))"

text \<open>The white space before may give one character back when the phrase is empty.\<close>

definition handshake_at :: "string \<Rightarrow> string option" where
  "handshake_at s =
     (case eat_word ''latest handshake:'' s of
        None \<Rightarrow> None
      | Some r \<Rightarrow>
          (case eat_spaces1 r of
             None \<Rightarrow> None
           | Some r2 \<Rightarrow>
               (case until_ago r2 of
                  Some g \<Rightarrow> Some g
                | None \<Rightarrow> if 2 \<le> length (takeWhile is_space r) \<and> startswith r2 ''ago'' then Some [] else None)))"

definition age_units :: "(string \<times> nat) list" where
  "age_units = [(''hour'', 3600), (''minute'', 60), (''second'', 1)]"

definition unit_at :: "string \<Rightarrow> (nat \<times> string) option" where
  "unit_at s = (case List.find (\<lambda>(w, k). startswith s w) age_units of
     None \<Rightarrow> None
   | Some (w, k) \<Rightarrow> (let r = drop (length w) s in Some (k, if startswith r ''s'' then tl r else r)))"

text \<open>\<open>(\d+)\s+(hour|minute|second)s?\<close>: the seconds and the rest.\<close>

definition token_at :: "string \<Rightarrow> (nat \<times> string) option" where
  "token_at s =
     (case Option.bind (eat_digits s) eat_spaces1 of
        None \<Rightarrow> None
      | Some r \<Rightarrow> map_option (\<lambda>(k, rest). (digits_val 0 (takeWhile is_digit s) * k, rest)) (unit_at r))"

lemma token_at_shorter: "token_at s = Some (v, r) \<Longrightarrow> length r < length s"
proof -
  assume t: "token_at s = Some (v, r)"
  then obtain a b where ab: "eat_digits s = Some a" "eat_spaces1 a = Some b" and u: "map_option (\<lambda>(k, rest). (digits_val 0 (takeWhile is_digit s) * k, rest)) (unit_at b) = Some (v, r)"
    by (auto simp: token_at_def bind_eq_Some_conv split: option.splits)
  have "length a < length s" using ab(1) by (cases s) (auto simp: eat_digits_def length_dropWhile_le le_imp_less_Suc split: if_splits)
  moreover have "length b \<le> length a" using ab(2) by (auto simp: eat_spaces1_def length_dropWhile_le split: if_splits)
  moreover have "length r \<le> length b" using u by (auto simp: unit_at_def Let_def split: option.splits if_splits)
  ultimately show ?thesis by simp
qed

text \<open>\<open>findall\<close>: the matches from left to right.\<close>

function age_tokens :: "string \<Rightarrow> nat list" where
  "age_tokens s = (case token_at s of
     Some (v, r) \<Rightarrow> v # age_tokens r
   | None \<Rightarrow> (case s of [] \<Rightarrow> [] | c # cs \<Rightarrow> age_tokens cs))"
  by pat_completeness auto
termination by (relation "measure length") (auto dest: token_at_shorter)

declare age_tokens.simps [simp del]

definition age_of :: "string \<Rightarrow> nat option" where
  "age_of phrase = (if phrase = ''N/A'' \<or> age_tokens phrase = [] then None else Some (sum_list (age_tokens phrase)))"

definition parse_handshake_sec :: "string \<Rightarrow> nat option" where
  "parse_handshake_sec output = Option.bind (search_from handshake_at output) age_of"

section \<open>Amounts\<close>

definition size_units :: "(string \<times> int) list" where
  "size_units = [(''B'', 1), (''KiB'', 1024), (''MiB'', 1024 ^ 2), (''GiB'', 1024 ^ 3), (''TiB'', 1024 ^ 4)]"

definition decimal_of :: "string \<Rightarrow> rat option" where
  "decimal_of s =
     (let a = takeWhile is_digit s; r = drop (length a) s; b = tl r in
      if r = [] then (if a = [] then None else Some (of_nat (digits_val 0 a)))
      else if hd r = CHR ''.'' \<and> list_all is_digit b \<and> (a \<noteq> [] \<or> b \<noteq> []) then Some (of_nat (digits_val 0 (a @ b)) / 10 ^ length b)
      else None)"

definition parse_size :: "string \<Rightarrow> string \<Rightarrow> int option" where
  "parse_size v u = (case map_of size_units u of None \<Rightarrow> None | Some k \<Rightarrow> map_option (\<lambda>q. \<lfloor>q * of_int k\<rfloor>) (decimal_of v))"

definition next_word :: "string \<Rightarrow> (string \<times> string) option" where
  "next_word s = (case eat_spaces1 s of None \<Rightarrow> None
     | Some r \<Rightarrow> if takeWhile non_space r = [] then None else Some (takeWhile non_space r, dropWhile non_space r))"

text \<open>\<open>transfer:\s+(\S+)\s+(\S+)\s+received,\s+(\S+)\s+(\S+)\s+sent\<close>\<close>

definition transfer_at :: "string \<Rightarrow> ((string \<times> string) \<times> string \<times> string) option" where
  "transfer_at s =
     Option.bind (eat_word ''transfer:'' s) (\<lambda>a. Option.bind (next_word a) (\<lambda>(v1, b). Option.bind (next_word b) (\<lambda>(u1, c).
     Option.bind (eat_spaces1 c) (\<lambda>d. Option.bind (eat_word ''received,'' d) (\<lambda>e. Option.bind (next_word e) (\<lambda>(v2, f).
     Option.bind (next_word f) (\<lambda>(u2, g). Option.bind (eat_spaces1 g) (\<lambda>h. if startswith h ''sent'' then Some ((v1, u1), (v2, u2)) else None))))))))"

definition endpoint_at :: "string \<Rightarrow> string option" where
  "endpoint_at s = map_option fst (Option.bind (eat_word ''endpoint:'' s) next_word)"

definition allowed_at :: "string \<Rightarrow> string option" where
  "allowed_at s = (case Option.bind (eat_word ''allowed ips:'' s) eat_spaces1 of None \<Rightarrow> None
     | Some r \<Rightarrow> if r = [] then None else Some (takeWhile (\<lambda>c. c \<noteq> newline) r))"

definition parse_wg_show :: "string \<Rightarrow> nat option \<times> int option \<times> int option \<times> string option \<times> string option" where
  "parse_wg_show out =
     (case search_from transfer_at out of
        None \<Rightarrow> (parse_handshake_sec out, None, None, search_from endpoint_at out, search_from allowed_at out)
      | Some ((v1, u1), (v2, u2)) \<Rightarrow>
          (parse_handshake_sec out, parse_size v1 u1, parse_size v2 u2, search_from endpoint_at out, search_from allowed_at out))"

section \<open>Status\<close>

record wg_live =
  wl_up :: bool
  wl_interface :: string
  wl_address :: "string option"
  wl_endpoint :: "string option"
  wl_handshake :: "nat option"
  wl_rx :: "int option"
  wl_tx :: "int option"
  wl_allowed :: "string option"

text \<open>An address entry; \<open>None\<close> is an absent key.\<close>

record addr_entry =
  ae_family :: "string option"
  ae_local :: "string option"
  ae_prefix :: "int option"

text \<open>The first IPv4 address of the last interface that has one. A missing key of such an entry is an exception (\<open>None\<close>) that
  leaves no address.\<close>

fun listed_address :: "addr_entry list list \<Rightarrow> string option \<Rightarrow> string option option" where
  "listed_address [] found = Some found"
| "listed_address (es # is) found =
     (case List.find (\<lambda>e. ae_family e = Some ''inet'') es of
        None \<Rightarrow> listed_address is found
      | Some e \<Rightarrow> (case (ae_local e, ae_prefix e) of
          (Some a, Some n) \<Rightarrow> listed_address is (Some (a @ ''/'' @ string_of_int n))
        | _ \<Rightarrow> None))"

text \<open>The exit code and text of the first command with the listing its text stands for (\<open>None\<close> if it is no JSON), and the
  text of the second.\<close>

definition wg_status :: "string \<Rightarrow> int \<Rightarrow> string \<Rightarrow> addr_entry list list option \<Rightarrow> string \<Rightarrow> wg_live" where
  "wg_status iface code text listing shown =
     (if code \<noteq> 0 \<or> strip text = []
      then \<lparr>wl_up = False, wl_interface = iface, wl_address = None, wl_endpoint = None, wl_handshake = None, wl_rx = None, wl_tx = None, wl_allowed = None\<rparr>
      else (case parse_wg_show shown of (age, rx, tx, ep, al) \<Rightarrow>
        \<lparr>wl_up = True, wl_interface = iface, wl_address = Option.bind (Option.bind listing (\<lambda>is. listed_address is None)) id, wl_endpoint = ep, wl_handshake = age,
         wl_rx = rx, wl_tx = tx, wl_allowed = al\<rparr>))"

text \<open>
  Reading the age of a handshake: the forms the parser documents are read back, and whole days are lost.
\<close>

section \<open>The documented form\<close>

text \<open>\<open>58 seconds\<close>, \<open>1 minute, 15 seconds\<close>, \<open>2 hours, 3 minutes\<close>: the parts that are not zero.\<close>

definition age_part :: "nat \<times> string \<Rightarrow> string" where
  "age_part = (\<lambda>(v, u). string_of_nat v @ '' '' @ u @ (if v = 1 then [] else ''s''))"

definition age_phrase :: "nat \<Rightarrow> nat \<Rightarrow> nat \<Rightarrow> string" where
  "age_phrase h m s = join '', '' (map age_part (filter (\<lambda>e. fst e \<noteq> 0) [(h, ''hour''), (m, ''minute''), (s, ''second'')]))"

section \<open>Tokens\<close>

lemma digits_of_nat:
  assumes "s = [] \<or> \<not> is_digit (hd s)"
  shows "takeWhile is_digit (string_of_nat v @ s) = string_of_nat v" "dropWhile is_digit (string_of_nat v @ s) = s" "eat_digits (string_of_nat v @ s) = Some s"
proof -
  have d: "list_all is_digit (string_of_nat v)" using string_of_nat_digits by (auto simp: list_all_iff)
  show t: "takeWhile is_digit (string_of_nat v @ s) = string_of_nat v" "dropWhile is_digit (string_of_nat v @ s) = s"
    using d assms by (cases s; simp add: list_all_iff takeWhile_append dropWhile_append)+
  show "eat_digits (string_of_nat v @ s) = Some s"
    using d string_of_nat_not_Nil[of v] t(2) by (cases "string_of_nat v") (simp_all add: eat_digits_def)
qed

lemma unit_read:
  "unit_at (''hour'' @ x) = Some (3600, if startswith x ''s'' then tl x else x)"
  "unit_at (''minute'' @ x) = Some (60, if startswith x ''s'' then tl x else x)"
  "unit_at (''second'' @ x) = Some (1, if startswith x ''s'' then tl x else x)"
  by (simp_all add: unit_at_def age_units_def Let_def startswith_code)

lemma unit_space:
  "eat_spaces1 ('' '' @ ''hour'' @ x) = Some (''hour'' @ x)" "eat_spaces1 ('' '' @ ''minute'' @ x) = Some (''minute'' @ x)"
  "eat_spaces1 ('' '' @ ''second'' @ x) = Some (''second'' @ x)"
  by (simp_all add: eat_spaces1_def char_class_defs)

lemma unit_pick:
  assumes "(u, k) \<in> set age_units"
  shows "unit_at (u @ x) = Some (k, if startswith x ''s'' then tl x else x)" "eat_spaces1 ('' '' @ u @ x) = Some (u @ x)"
proof -
  have "u = ''hour'' \<and> k = 3600 \<or> u = ''minute'' \<and> k = 60 \<or> u = ''second'' \<and> k = 1" using assms by (auto simp: age_units_def)
  then show "unit_at (u @ x) = Some (k, if startswith x ''s'' then tl x else x)" "eat_spaces1 ('' '' @ u @ x) = Some (u @ x)"
    using unit_read unit_space by metis+
qed

lemma unit_token:
  assumes "(u, k) \<in> set age_units" "v = 1 \<longrightarrow> \<not> startswith rest ''s''"
  shows "token_at (age_part (v, u) @ rest) = Some (v * k, rest)"
proof -
  let ?x = "(if v = 1 then [] else ''s'') @ rest"
  have x: "(if startswith ?x ''s'' then tl ?x else ?x) = rest" using assms(2) by (simp add: startswith_code)
  have "age_part (v, u) @ rest = string_of_nat v @ '' '' @ u @ ?x" by (simp add: age_part_def)
  moreover have "\<not> is_digit (hd ('' '' @ u @ ?x))" by (simp add: char_class_defs)
  ultimately show ?thesis using unit_pick[OF assms(1), of ?x] by (simp only: x) (simp add: token_at_def digits_of_nat)
qed

lemma skip_token: "\<not> is_digit c \<Longrightarrow> age_tokens (c # cs) = age_tokens cs"
  by (subst age_tokens.simps) (simp add: token_at_def eat_digits_def)

lemma tokens_part:
  "(u, k) \<in> set age_units \<Longrightarrow> v = 1 \<longrightarrow> \<not> startswith rest ''s'' \<Longrightarrow> age_tokens (age_part (v, u) @ rest) = v * k # age_tokens rest"
  by (subst age_tokens.simps) (simp add: unit_token)

lemma tokens_parts:
  "\<forall>e\<in>set ps. (snd e, w (snd e)) \<in> set age_units \<Longrightarrow> age_tokens (join '', '' (map age_part ps)) = map (\<lambda>(v, u). v * w u) ps"
proof (induction ps)
  case Nil
  show ?case by (subst age_tokens.simps) (simp add: token_at_def eat_digits_def)
next
  case (Cons e ps)
  obtain v u where e: "e = (v, u)" by fastforce
  show ?case
  proof (cases ps)
    case Nil
    have "age_tokens (age_part (v, u) @ []) = v * w u # age_tokens []" by (rule tokens_part) (use Cons.prems e in \<open>auto simp: startswith_code\<close>)
    moreover have "age_tokens [] = []" by (subst age_tokens.simps) (simp add: token_at_def eat_digits_def)
    ultimately show ?thesis by (simp add: e Nil)
  next
    case (Cons f fs)
    have "age_tokens (age_part (v, u) @ '', '' @ join '', '' (map age_part ps)) = v * w u # age_tokens ('', '' @ join '', '' (map age_part ps))"
      by (rule tokens_part) (use Cons.prems e in \<open>auto simp: startswith_code\<close>)
    then show ?thesis using Cons.IH Cons.prems e Cons by (simp add: skip_token char_class_defs)
  qed
qed

lemma age_phrase_tokens:
  "age_tokens (age_phrase h m s) = map (\<lambda>(v, u). v * (if u = ''hour'' then 3600 else if u = ''minute'' then 60 else 1))
     (filter (\<lambda>e. fst e \<noteq> 0) [(h, ''hour''), (m, ''minute''), (s, ''second'')])"
  unfolding age_phrase_def by (rule tokens_parts) (auto simp: age_units_def)

lemma age_of_phrase: "h \<noteq> 0 \<or> m \<noteq> 0 \<or> s \<noteq> 0 \<Longrightarrow> age_tokens p = age_tokens (age_phrase h m s) \<Longrightarrow> age_of p = Some (h * 3600 + m * 60 + s)"
proof -
  assume a: "h \<noteq> 0 \<or> m \<noteq> 0 \<or> s \<noteq> 0" "age_tokens p = age_tokens (age_phrase h m s)"
  have "age_tokens ''N/A'' = []" by (simp add: skip_token char_class_defs) (subst age_tokens.simps, simp add: token_at_def eat_digits_def)
  moreover have "age_tokens p \<noteq> []" "sum_list (age_tokens p) = h * 3600 + m * 60 + s" unfolding a(2) age_phrase_tokens using a(1) by auto
  ultimately show ?thesis by (auto simp: age_of_def)
qed

lemma days_tokens: "list_all is_digit ds \<Longrightarrow> age_tokens (ds @ '' days, '' @ p) = age_tokens p"
proof (induction ds)
  case Nil
  show ?case by (simp add: skip_token char_class_defs)
next
  case (Cons c ds)
  have "dropWhile is_digit ((c # ds) @ '' days, '' @ p) = '' days, '' @ p" using Cons.prems
    by (simp add: dropWhile_append list_all_iff) (simp add: char_class_defs)
  then have "eat_digits ((c # ds) @ '' days, '' @ p) = Some ('' days, '' @ p)" using Cons.prems by (simp add: eat_digits_def)
  moreover have "eat_spaces1 ('' days, '' @ p) = Some (''days, '' @ p)" by (simp add: eat_spaces1_def char_class_defs)
  moreover have "unit_at (''days, '' @ p) = None" by (simp add: unit_at_def age_units_def startswith_code)
  ultimately have "token_at ((c # ds) @ '' days, '' @ p) = None" by (simp add: token_at_def)
  then show ?case using Cons by (subst age_tokens.simps) simp
qed

section \<open>The line\<close>

lemma until_ago_word: "list_all (\<lambda>c. \<not> is_space c) q \<Longrightarrow> until_ago (q @ x) = map_option (\<lambda>g. q @ g) (until_ago x)"
proof (induction q)
  case Nil
  show ?case by (cases "until_ago x") simp_all
next
  case (Cons c q)
  then have "\<not> is_space c" "c \<noteq> newline" by (auto simp: newline_is_space)
  then show ?case using Cons by (cases "until_ago x") (simp_all add: ago_at_def eat_spaces1_def)
qed

lemma until_ago_phrase: "CHR ''a'' \<notin> set p \<Longrightarrow> newline \<notin> set p \<Longrightarrow> p = [] \<or> \<not> is_space (last p) \<Longrightarrow> until_ago (p @ '' ago'' @ post) = Some p"
proof (induction p)
  case Nil
  show ?case by (simp add: ago_at_def eat_spaces1_def char_class_defs startswith_code)
next
  case (Cons c p)
  have "\<exists>d\<in>set (c # p). \<not> is_space d" using Cons.prems(3) by (metis last_in_set list.distinct(1))
  then have "dropWhile is_space ((c # p) @ '' ago'' @ post) = dropWhile is_space (c # p) @ '' ago'' @ post" "dropWhile is_space (c # p) \<noteq> []"
    by (simp_all only: dropWhile_append1 dropWhile_eq_Nil_conv) auto
  moreover obtain d r where d: "dropWhile is_space (c # p) = d # r" using calculation(2) by (cases "dropWhile is_space (c # p)") auto
  moreover have "d \<in> set (c # p)" using d by (metis list.set_intros(1) set_dropWhileD)
  ultimately have "dropWhile is_space ((c # p) @ '' ago'' @ post) = d # r @ '' ago'' @ post" "d \<in> set (c # p)" by simp_all
  then have "\<not> ago_at ((c # p) @ '' ago'' @ post)" using Cons.prems(1) by (auto simp: ago_at_def eat_spaces1_def startswith_code)
  moreover have "p = [] \<or> \<not> is_space (last p)" using Cons.prems(3) by auto
  ultimately show ?case using Cons by auto
qed

definition calm :: "string \<Rightarrow> bool" where
  "calm p \<longleftrightarrow> CHR ''a'' \<notin> set p \<and> newline \<notin> set p \<and> p \<noteq> [] \<and> \<not> is_space (hd p) \<and> \<not> is_space (last p)"

lemma calm_part: "u \<in> {''hour'', ''minute'', ''second''} \<Longrightarrow> calm (age_part (v, u))"
proof -
  assume u: "u \<in> {''hour'', ''minute'', ''second''}"
  have d: "is_digit c" if "c \<in> set (string_of_nat v)" for c using that by (rule string_of_nat_digits)
  have "CHR ''a'' \<notin> set (string_of_nat v)" using d[of "CHR ''a''"] by (auto simp: char_class_defs)
  moreover have "\<not> is_space (hd (string_of_nat v @ x))" for x
    using d[of "hd (string_of_nat v)"] by (auto simp: char_class_defs)
  moreover have "newline \<notin> set u \<and> newline \<notin> set ''s'' \<and> newline \<noteq> CHR '' '' \<and> CHR ''a'' \<notin> set u \<and> u \<noteq> [] \<and> \<not> is_space (last u) \<and> \<not> is_space (CHR ''s'')"
    using u by (auto simp: char_class_defs char_defs)
  ultimately show ?thesis by (auto simp: calm_def age_part_def)
qed

lemma calm_join: "ps \<noteq> [] \<Longrightarrow> list_all calm ps \<Longrightarrow> calm (join '', '' ps)"
proof (induction ps)
  case (Cons p ps)
  have c: "newline \<notin> set '', ''" by (simp add: char_defs)
  show ?case
  proof (cases ps)
    case Nil
    then show ?thesis using Cons.prems by simp
  next
    case (Cons r rs)
    then have "calm (join '', '' ps)" "calm p" using Cons.IH Cons.prems by simp_all
    then show ?thesis using Cons c by (auto simp: calm_def)
  qed
qed simp

lemma calm_phrase: "h \<noteq> 0 \<or> m \<noteq> 0 \<or> s \<noteq> 0 \<Longrightarrow> calm (age_phrase h m s)"
  unfolding age_phrase_def by (rule calm_join) (auto simp: list_all_iff calm_part)

lemma search_from_skip: "(\<And>i. i < length p \<Longrightarrow> f (drop i p @ x) = None) \<Longrightarrow> search_from f (p @ x) = search_from f x"
proof (induction p)
  case (Cons c p)
  have "f ((c # p) @ x) = None" using Cons.prems[of 0] by simp
  moreover have "f (drop i p @ x) = None" if "i < length p" for i using Cons.prems[of "Suc i"] that by simp
  ultimately show ?case using Cons.IH by simp
qed simp

lemma last_of_word: "n \<in> {1, 2, 3, 4, 5} \<Longrightarrow> last (take n (''latest handshake:'' @ r)) \<in> set ''lates''"
  by (auto simp: numeral_eq_Suc)

text \<open>The first place where the line starts, after lines without the word.\<close>

lemma line_found:
  assumes "pre = [] \<or> is_space (last pre)" "\<not> contains ''latest'' pre" "handshake_at x = Some g"
  shows "search_from handshake_at (pre @ x) = Some g"
proof -
  have "handshake_at (drop i pre @ x) = None" if i: "i < length pre" for i
  proof (rule ccontr)
    let ?d = "drop i pre"
    assume "handshake_at (?d @ x) \<noteq> None"
    then have "startswith (?d @ x) ''latest handshake:''" by (auto simp: handshake_at_def eat_word_def split: option.splits if_splits)
    then obtain r where r: "?d @ x = ''latest handshake:'' @ r" by (auto simp: startswith_iff)
    have "?d \<noteq> []" "is_space (last ?d)" using assms(1) i by auto
    show False
    proof (cases "length ?d < 6")
      case True
      have "?d = take (length ?d) (''latest handshake:'' @ r)" using r by (metis append_eq_conv_conj)
      moreover have small: "n \<in> {1, 2, 3, 4, 5}" if "0 < n" "n < 6" for n :: nat using that by auto
      have "length ?d \<in> {1, 2, 3, 4, 5}" by (rule small) (use True \<open>?d \<noteq> []\<close> in blast)+
      then have "last (take (length ?d) (''latest handshake:'' @ r)) \<in> set ''lates''" by (rule last_of_word)
      ultimately have "last ?d \<in> set ''lates''" by metis
      then show False using \<open>is_space (last ?d)\<close> by (auto simp: char_class_defs)
    next
      case False
      then have "take 6 (?d @ x) = take 6 ?d" by simp
      moreover have "take 6 (''latest handshake:'' @ r) = ''latest''" by simp
      ultimately have "?d = ''latest'' @ drop 6 ?d" using r by (metis append_take_drop_id)
      then show False using assms(2) by (metis append_take_drop_id contains_iff)
    qed
  qed
  then have "search_from handshake_at (pre @ x) = search_from handshake_at x" by (rule search_from_skip)
  also have "search_from handshake_at x = Some g" using assms(3) by (cases x) simp_all
  finally show ?thesis .
qed

lemma eat_blank: "x \<noteq> [] \<Longrightarrow> \<not> is_space (hd x) \<Longrightarrow> eat_spaces1 (CHR '' '' # x) = Some x"
proof -
  assume "x \<noteq> []" "\<not> is_space (hd x)"
  moreover have "is_space (CHR '' '')" by (simp add: char_class_defs)
  ultimately show ?thesis by (cases x) (simp_all add: eat_spaces1_def)
qed

lemma until_ago_blank:
  assumes "x \<noteq> []" "\<not> is_space (hd x)" "hd x \<noteq> CHR ''a''"
  shows "until_ago (CHR '' '' # x) = map_option (Cons (CHR '' '')) (until_ago x)"
  using assms eat_blank[OF assms(1,2)] by (cases x) (auto simp: ago_at_def startswith_code char_defs)

lemma read_line:
  assumes "pre = [] \<or> is_space (last pre)" "\<not> contains ''latest'' pre" "until_ago x = Some g" "\<not> is_space (hd x)"
  shows "parse_handshake_sec (pre @ ''latest handshake: '' @ x) = age_of g"
proof -
  have "x \<noteq> []" using assms(3) by auto
  then have "eat_spaces1 ('' '' @ x) = Some x" using assms(4) eat_blank by simp
  moreover have "eat_word ''latest handshake:'' (''latest handshake: '' @ x) = Some ('' '' @ x)" by (simp add: eat_word_def startswith_code)
  ultimately have "handshake_at (''latest handshake: '' @ x) = Some g" using assms(3) by (simp add: handshake_at_def)
  then show ?thesis by (simp add: parse_handshake_sec_def line_found[OF assms(1,2)])
qed

text \<open>The age of a handshake in the documented form, of hours, minutes and seconds, is read back in seconds, whatever comes before and after the line; but
  whole days in front of it are lost, so that a handshake of two days and an hour ago reads as one of an hour ago.\<close>

theorem handshake_read_back:
  assumes "h \<noteq> 0 \<or> m \<noteq> 0 \<or> s \<noteq> 0" "pre = [] \<or> is_space (last pre)" "\<not> contains ''latest'' pre"
  shows "parse_handshake_sec (pre @ ''latest handshake: '' @ age_phrase h m s @ '' ago'' @ post) = Some (h * 3600 + m * 60 + s)
    \<and> parse_handshake_sec (pre @ ''latest handshake: '' @ string_of_nat d @ '' days, '' @ age_phrase h m s @ '' ago'' @ post) = Some (h * 3600 + m * 60 + s)"
proof
  let ?p = "age_phrase h m s"
  have c: "calm ?p" by (rule calm_phrase[OF assms(1)])
  have u: "until_ago (?p @ '' ago'' @ post) = Some ?p" using c by (intro until_ago_phrase) (auto simp: calm_def)
  have "\<not> is_space (hd (?p @ '' ago'' @ post))" using c by (simp add: calm_def)
  from read_line[OF assms(2,3) u this] age_of_phrase[OF assms(1) refl]
  show "parse_handshake_sec (pre @ ''latest handshake: '' @ ?p @ '' ago'' @ post) = Some (h * 3600 + m * 60 + s)" by simp
  have "?p \<noteq> []" "\<not> is_space (hd ?p)" "hd ?p \<noteq> CHR ''a''" using c by (simp_all add: calm_def) (metis hd_in_set)
  then have "until_ago ('' '' @ ?p @ '' ago'' @ post) = Some ('' '' @ ?p)" using u until_ago_blank[of "?p @ '' ago'' @ post"] by simp
  moreover have "list_all (\<lambda>c. \<not> is_space c) ''days,''" by (simp add: char_class_defs)
  ultimately have "until_ago (''days,'' @ '' '' @ ?p @ '' ago'' @ post) = Some (''days, '' @ ?p)" by (subst until_ago_word) simp_all
  moreover have "\<not> is_space (CHR ''d'')" by (simp add: char_class_defs)
  ultimately have "until_ago ('' days, '' @ ?p @ '' ago'' @ post) = Some ('' days, '' @ ?p)"
    using until_ago_blank[of "''days, '' @ ?p @ '' ago'' @ post"] by simp
  moreover have "list_all (\<lambda>c. \<not> is_space c) (string_of_nat d)" "list_all is_digit (string_of_nat d)"
    using string_of_nat_digits[of _ d] by (force simp: list_all_iff char_class_defs)+
  ultimately have x: "until_ago (string_of_nat d @ '' days, '' @ ?p @ '' ago'' @ post) = Some (string_of_nat d @ '' days, '' @ ?p)"
    and t: "age_tokens (string_of_nat d @ '' days, '' @ ?p) = age_tokens ?p"
    by (simp_all only: until_ago_word option.map days_tokens)
  have "\<not> is_space (hd (string_of_nat d @ '' days, '' @ ?p @ '' ago'' @ post))"
    using \<open>list_all (\<lambda>c. \<not> is_space c) (string_of_nat d)\<close> by (cases "string_of_nat d") auto
  from read_line[OF assms(2,3) x this] age_of_phrase[OF assms(1) t]
  show "parse_handshake_sec (pre @ ''latest handshake: '' @ string_of_nat d @ '' days, '' @ ?p @ '' ago'' @ post) = Some (h * 3600 + m * 60 + s)" by simp
qed

theorem handshake_read_back_witness:
  "parse_handshake_sec (''  '' @ ''latest handshake: '' @ string_of_nat 2 @ '' days, '' @ age_phrase 1 0 0 @ '' ago'' @ []) = Some 3600"
proof -
  have "is_space (last ''  '')" "\<not> contains ''latest'' ''  ''" by code_simp+
  then show ?thesis using handshake_read_back[of 1 0 0 "''  ''" "[]" 2] by simp
qed

text \<open>The text of the documentation.\<close>

lemma status_example:
  "parse_wg_show (''  endpoint: 192.0.2.1:51820'' @ nl @ ''  allowed ips: 10.0.0.0/24, fd00::/64'' @ nl @ ''  latest handshake: 1 minute, 15 seconds ago'' @ nl @
     ''  transfer: 15.50 GiB received, 2 KiB sent'' @ nl)
   = (Some 75, Some 16642998272, Some 2048, Some ''192.0.2.1:51820'', Some ''10.0.0.0/24, fd00::/64'')"
  by code_simp

end
