(* ===== verification/Llm_Client.thy ===== *)
theory Llm_Client
  imports Gw_Mail_Messages
begin

text \<open>
  \<open>shared/llm_client.py\<close>: the three providers of language models, their requests and how their replies are read, the
  reader of a classification, and the factory that serves a use case from the rows of the registry.

  The peer is a function from requests to replies. The decoder of JSON, the text of a float or container, and \<open>float\<close> of
  a text are arguments. Numbers with a point are exact.
\<close>

section \<open>Values, requests, replies\<close>

datatype llm_json = L_Null | L_Bool bool | L_Int int | L_Float rat | L_Str string | L_List "llm_json list" | L_Obj "(string \<times> llm_json) list"

record llm_request =
  lr_get :: bool
  lr_url :: string
  lr_headers :: "(string \<times> string) list"
  lr_body :: "llm_json option"

text \<open>An error of the HTTP client (refusals by status included) with its text, any other exception (no JSON, a malformed address), or the decoded body.\<close>

datatype llm_reply = Http_Failed string | Reply_Broken | Reply llm_json

record llm_env =
  le_http :: "llm_request \<Rightarrow> llm_reply"
  le_loads :: "string \<Rightarrow> string + llm_json"
  le_text :: "llm_json \<Rightarrow> string"
  le_float :: "string \<Rightarrow> rat option"

text \<open>The two errors of the module with their texts, and every exception that is not its own.\<close>

datatype llm_exn = Provider_Error string | Config_Error string | Other_Error

type_synonym 'a llm_result = "llm_exn + 'a"

fun py_text :: "llm_env \<Rightarrow> llm_json \<Rightarrow> string" where
  "py_text e L_Null = ''None''"
| "py_text e (L_Bool b) = (if b then ''True'' else ''False'')"
| "py_text e (L_Int n) = string_of_int n"
| "py_text e (L_Str s) = s"
| "py_text e v = le_text e v"

fun py_float :: "llm_env \<Rightarrow> llm_json \<Rightarrow> rat option" where
  "py_float e (L_Bool b) = Some (if b then 1 else 0)"
| "py_float e (L_Int n) = Some (of_int n)"
| "py_float e (L_Float q) = Some q"
| "py_float e (L_Str s) = le_float e s"
| "py_float e _ = None"

fun py_truthy :: "llm_json option \<Rightarrow> bool" where
  "py_truthy None = False"
| "py_truthy (Some L_Null) = False"
| "py_truthy (Some (L_Bool b)) = b"
| "py_truthy (Some (L_Int n)) = (n \<noteq> 0)"
| "py_truthy (Some (L_Float q)) = (q \<noteq> 0)"
| "py_truthy (Some (L_Str s)) = (s \<noteq> [])"
| "py_truthy (Some (L_List xs)) = (xs \<noteq> [])"
| "py_truthy (Some (L_Obj kvs)) = (kvs \<noteq> [])"

definition l_opt :: "('a \<Rightarrow> llm_json) \<Rightarrow> 'a option \<Rightarrow> llm_json" where
  "l_opt f v = (case v of None \<Rightarrow> L_Null | Some x \<Rightarrow> f x)"

text \<open>Indexing: the error of a missing key or index has a text; a value that cannot be indexed is a fault without one.\<close>

datatype step = Key string | First

datatype fault = Missing string | Wrong_Type string | No_Attribute

fun take_step :: "step \<Rightarrow> llm_json \<Rightarrow> fault + llm_json" where
  "take_step (Key k) (L_Obj kvs) = (case map_of kvs k of None \<Rightarrow> Inl (Missing (squoted k)) | Some v \<Rightarrow> Inr v)"
| "take_step (Key k) v = Inl (Wrong_Type [])"
| "take_step First (L_List xs) = (case xs of [] \<Rightarrow> Inl (Missing ''list index out of range'') | x # _ \<Rightarrow> Inr x)"
| "take_step First (L_Str s) = (case s of [] \<Rightarrow> Inl (Missing ''string index out of range'') | c # _ \<Rightarrow> Inr (L_Str [c]))"
| "take_step First (L_Obj kvs) = Inl (Missing ''0'')"
| "take_step First v = Inl (Wrong_Type [])"

fun walk_steps :: "step list \<Rightarrow> llm_json \<Rightarrow> fault + llm_json" where
  "walk_steps [] v = Inr v"
| "walk_steps (s # ss) v = (case take_step s v of Inl f \<Rightarrow> Inl f | Inr w \<Rightarrow> walk_steps ss w)"

section \<open>Rows\<close>

record provider_row =
  pv_name :: string
  pv_type :: string
  pv_base :: "string option"
  pv_key :: "string option"
  pv_enabled :: "bool option"
  pv_default :: "bool option"

record model_row =
  lm_provider :: nat
  lm_name :: string
  lm_display :: "string option"
  lm_about :: "string option"
  lm_max :: "int option"
  lm_vision :: bool
  lm_enabled :: bool

record use_row =
  uc_use :: string
  uc_provider :: "nat option"
  uc_model :: "nat option"
  uc_temperature :: "rat option"
  uc_max :: "int option"
  uc_top :: "rat option"
  uc_prompt :: "string option"
  uc_timeout :: "int option"
  uc_enabled :: "bool option"

record llm_state =
  ll_providers :: "provider_row table"
  ll_models :: "model_row table"
  ll_uses :: "use_row table"

section \<open>Providers\<close>

datatype provider_kind = OpenAIProvider | AnthropicProvider | OllamaProvider

definition provider_registry :: "(string \<times> provider_kind) list" where
  "provider_registry = [(''openai'', OpenAIProvider), (''anthropic'', AnthropicProvider), (''ollama'', OllamaProvider)]"

text \<open>The address of Ollama is the default, without \<open>OLLAMA_URL\<close> in the environment.\<close>

definition default_base_url :: "provider_kind \<Rightarrow> string" where
  "default_base_url k = (case k of OpenAIProvider \<Rightarrow> ''https://api.openai.com/v1'' | AnthropicProvider \<Rightarrow> ''https://api.anthropic.com/v1''
     | OllamaProvider \<Rightarrow> ''http://localhost:11434'')"

definition provider_label :: "provider_kind \<Rightarrow> string" where
  "provider_label k = (case k of OpenAIProvider \<Rightarrow> ''OpenAI'' | AnthropicProvider \<Rightarrow> ''Anthropic'' | OllamaProvider \<Rightarrow> ''Ollama'')"

definition service_url :: "provider_kind \<Rightarrow> provider_row \<Rightarrow> string" where
  "service_url k p = (if truthy_str (pv_base p) then or_empty (pv_base p) else default_base_url k)"

definition create_provider :: "string \<Rightarrow> provider_kind llm_result" where
  "create_provider t = (case map_of provider_registry t of None \<Rightarrow> Inl (Config_Error (''Unsupported provider type: '' @ t)) | Some k \<Rightarrow> Inr k)"

record chat_args =
  ca_messages :: "(string \<times> string) list"
  ca_model :: llm_json
  ca_temperature :: "rat option"
  ca_max :: "int option"

definition message_json :: "string \<times> string \<Rightarrow> llm_json" where
  "message_json m = L_Obj [(''role'', L_Str (fst m)), (''content'', L_Str (snd m))]"

definition openai_chat_request :: "provider_row \<Rightarrow> chat_args \<Rightarrow> llm_request" where
  "openai_chat_request p a = \<lparr>lr_get = False, lr_url = service_url OpenAIProvider p @ ''/chat/completions'',
     lr_headers = [(''Authorization'', ''Bearer '' @ or_empty (pv_key p)), (''Content-Type'', ''application/json'')],
     lr_body = Some (L_Obj [(''model'', ca_model a), (''messages'', L_List (map message_json (ca_messages a))), (''temperature'', l_opt L_Float (ca_temperature a)),
       (''max_tokens'', l_opt L_Int (ca_max a))])\<rparr>"

definition anthropic_chat_request :: "provider_row \<Rightarrow> chat_args \<Rightarrow> llm_request" where
  "anthropic_chat_request p a = \<lparr>lr_get = False, lr_url = service_url AnthropicProvider p @ ''/messages'',
     lr_headers = [(''x-api-key'', or_empty (pv_key p)), (''Content-Type'', ''application/json''), (''anthropic-version'', ''2023-06-01'')],
     lr_body = Some (L_Obj [(''model'', ca_model a), (''max_tokens'', l_opt L_Int (ca_max a)), (''messages'', L_List (map message_json (ca_messages a)))])\<rparr>"

definition ollama_chat_request :: "provider_row \<Rightarrow> chat_args \<Rightarrow> llm_request" where
  "ollama_chat_request p a = \<lparr>lr_get = False, lr_url = service_url OllamaProvider p @ ''/api/chat'', lr_headers = [],
     lr_body = Some (L_Obj [(''model'', ca_model a), (''messages'', L_List (map message_json (ca_messages a))), (''stream'', L_Bool False),
       (''options'', L_Obj [(''temperature'', l_opt L_Float (ca_temperature a)), (''num_predict'', l_opt L_Int (ca_max a))])])\<rparr>"

definition chat_request :: "provider_kind \<Rightarrow> provider_row \<Rightarrow> chat_args \<Rightarrow> llm_request" where
  "chat_request k p a = (case k of OpenAIProvider \<Rightarrow> openai_chat_request p a | AnthropicProvider \<Rightarrow> anthropic_chat_request p a | OllamaProvider \<Rightarrow> ollama_chat_request p a)"

definition chat_path :: "provider_kind \<Rightarrow> step list" where
  "chat_path k = (case k of OpenAIProvider \<Rightarrow> [Key ''choices'', First, Key ''message'', Key ''content'']
     | AnthropicProvider \<Rightarrow> [Key ''content'', First, Key ''text''] | OllamaProvider \<Rightarrow> [Key ''message'', Key ''content''])"

definition key_required :: "provider_kind \<Rightarrow> string" where
  "key_required k = provider_label k @ '' API key is required''"

definition api_error :: "provider_kind \<Rightarrow> string \<Rightarrow> llm_exn" where
  "api_error k m = Provider_Error (provider_label k @ '' API error: '' @ m)"

definition invalid_response :: "provider_kind \<Rightarrow> string \<Rightarrow> llm_exn" where
  "invalid_response k m = Provider_Error (''Invalid '' @ provider_label k @ '' response: '' @ m)"

definition chat :: "llm_env \<Rightarrow> provider_kind \<Rightarrow> provider_row \<Rightarrow> chat_args \<Rightarrow> llm_json llm_result" where
  "chat e k p a =
     (if k \<noteq> OllamaProvider \<and> \<not> truthy_str (pv_key p) then Inl (Provider_Error (key_required k))
      else (case le_http e (chat_request k p a) of
          Http_Failed m \<Rightarrow> Inl (api_error k m)
        | Reply_Broken \<Rightarrow> Inl Other_Error
        | Reply j \<Rightarrow> (case walk_steps (chat_path k) j of
            Inl (Missing m) \<Rightarrow> Inl (invalid_response k m)
          | Inl _ \<Rightarrow> Inl Other_Error
          | Inr v \<Rightarrow> Inr v)))"

section \<open>Discovery\<close>

definition openai_models_request :: "provider_row \<Rightarrow> llm_request" where
  "openai_models_request p = \<lparr>lr_get = True, lr_url = service_url OpenAIProvider p @ ''/models'',
     lr_headers = (''Content-Type'', ''application/json'') # (if truthy_str (pv_key p) then [(''Authorization'', ''Bearer '' @ or_empty (pv_key p))] else []), lr_body = None\<rparr>"

definition anthropic_models_request :: "provider_row \<Rightarrow> llm_request" where
  "anthropic_models_request p = \<lparr>lr_get = True, lr_url = service_url AnthropicProvider p @ ''/models'',
     lr_headers = [(''x-api-key'', or_empty (pv_key p)), (''anthropic-version'', ''2023-06-01'')], lr_body = None\<rparr>"

definition ollama_models_request :: "provider_row \<Rightarrow> llm_request" where
  "ollama_models_request p = \<lparr>lr_get = True, lr_url = service_url OllamaProvider p @ ''/api/tags'', lr_headers = [], lr_body = None\<rparr>"

definition models_request :: "provider_kind \<Rightarrow> provider_row \<Rightarrow> llm_request" where
  "models_request k p = (case k of OpenAIProvider \<Rightarrow> openai_models_request p | AnthropicProvider \<Rightarrow> anthropic_models_request p | OllamaProvider \<Rightarrow> ollama_models_request p)"

text \<open>A model as advertised; \<open>L_Null\<close> is an absent or null value.\<close>

record found_model =
  fm_id :: llm_json
  fm_display :: llm_json
  fm_size :: llm_json
  fm_owner :: llm_json

definition got :: "(string \<times> llm_json) list \<Rightarrow> string \<Rightarrow> llm_json" where
  "got kvs k = (case map_of kvs k of None \<Rightarrow> L_Null | Some v \<Rightarrow> v)"

text \<open>One entry of the list: skipped without a name.\<close>

definition openai_entry :: "(string \<times> llm_json) list \<Rightarrow> found_model list" where
  "openai_entry kvs = (if py_truthy (map_of kvs ''id'') then [\<lparr>fm_id = got kvs ''id'', fm_display = L_Null, fm_size = L_Null, fm_owner = got kvs ''owned_by''\<rparr>] else [])"

definition anthropic_entry :: "(string \<times> llm_json) list \<Rightarrow> found_model list" where
  "anthropic_entry kvs = (if py_truthy (map_of kvs ''id'') then [\<lparr>fm_id = got kvs ''id'', fm_display = got kvs ''display_name'', fm_size = L_Null, fm_owner = L_Null\<rparr>] else [])"

definition ollama_entry :: "(string \<times> llm_json) list \<Rightarrow> found_model list" where
  "ollama_entry kvs = (if py_truthy (map_of kvs ''name'')
     then [\<lparr>fm_id = got kvs ''name'', fm_display = (if py_truthy (map_of kvs ''model'') then got kvs ''model'' else got kvs ''name''), fm_size = got kvs ''size'', fm_owner = L_Null\<rparr>]
     else [])"

fun found_entry :: "provider_kind \<Rightarrow> llm_json \<Rightarrow> fault + found_model list" where
  "found_entry k (L_Obj kvs) = Inr (case k of OpenAIProvider \<Rightarrow> openai_entry kvs | AnthropicProvider \<Rightarrow> anthropic_entry kvs | OllamaProvider \<Rightarrow> ollama_entry kvs)"
| "found_entry k v = Inl No_Attribute"

fun found_entries :: "provider_kind \<Rightarrow> llm_json list \<Rightarrow> fault + found_model list" where
  "found_entries k [] = Inr []"
| "found_entries k (v # vs) = (case found_entry k v of Inl f \<Rightarrow> Inl f | Inr m \<Rightarrow> map_sum id ((@) m) (found_entries k vs))"

text \<open>What a loop over a value visits.\<close>

fun iterated :: "llm_json \<Rightarrow> fault + llm_json list" where
  "iterated (L_List xs) = Inr xs"
| "iterated (L_Str s) = Inr (map (\<lambda>c. L_Str [c]) s)"
| "iterated (L_Obj kvs) = Inr (map (L_Str \<circ> fst) kvs)"
| "iterated L_Null = Inl (Wrong_Type (squoted ''NoneType'' @ '' object is not iterable''))"
| "iterated (L_Bool b) = Inl (Wrong_Type (squoted ''bool'' @ '' object is not iterable''))"
| "iterated (L_Int n) = Inl (Wrong_Type (squoted ''int'' @ '' object is not iterable''))"
| "iterated (L_Float q) = Inl (Wrong_Type (squoted ''float'' @ '' object is not iterable''))"

fun advertised :: "provider_kind \<Rightarrow> llm_json \<Rightarrow> fault + found_model list" where
  "advertised k (L_Obj kvs) =
     (case map_of kvs (if k = OllamaProvider then ''models'' else ''data'') of
        None \<Rightarrow> Inr []
      | Some v \<Rightarrow> (case iterated v of Inl f \<Rightarrow> Inl f | Inr xs \<Rightarrow> found_entries k xs))"
| "advertised k v = Inl No_Attribute"

definition provider_models :: "llm_env \<Rightarrow> provider_kind \<Rightarrow> provider_row \<Rightarrow> found_model list llm_result" where
  "provider_models e k p =
     (if k = AnthropicProvider \<and> \<not> truthy_str (pv_key p) then Inl (Provider_Error (key_required k))
      else (case le_http e (models_request k p) of
          Http_Failed m \<Rightarrow> Inl (api_error k m)
        | Reply_Broken \<Rightarrow> Inl Other_Error
        | Reply j \<Rightarrow> (case advertised k j of
            Inl No_Attribute \<Rightarrow> Inl Other_Error
          | Inl (Missing m) \<Rightarrow> Inl (invalid_response k m)
          | Inl (Wrong_Type m) \<Rightarrow> Inl (invalid_response k m)
          | Inr ms \<Rightarrow> Inr ms)))"

section \<open>Classification\<close>

text \<open>The text before the first occurrence, and the rest after it if there is one.\<close>

fun split_first :: "string \<Rightarrow> string \<Rightarrow> string \<times> string option" where
  "split_first p [] = ([], None)"
| "split_first p (c # cs) = (if startswith (c # cs) p then ([], Some (drop (length p) (c # cs))) else (case split_first p cs of (a, r) \<Rightarrow> (c # a, r)))"

text \<open>\<open>split(p)[1]\<close> of a text that contains \<open>p\<close>.\<close>

definition second_piece :: "string \<Rightarrow> string \<Rightarrow> string" where
  "second_piece p s = (case snd (split_first p s) of None \<Rightarrow> [] | Some r \<Rightarrow> fst (split_first p r))"

definition unfenced :: "string \<Rightarrow> string" where
  "unfenced s =
     (if contains ''```json'' s then strip (fst (split_first ''```'' (second_piece ''```json'' s)))
      else if contains ''```'' s then strip (fst (split_first ''```'' (second_piece ''```'' s)))
      else s)"

definition clamped :: "rat \<Rightarrow> rat" where
  "clamped q = max 0 (min 1 q)"

fun has_category :: "llm_json \<Rightarrow> bool option" where
  "has_category (L_Obj kvs) = Some (map_of kvs ''category'' \<noteq> None)"
| "has_category (L_List xs) = Some (L_Str ''category'' \<in> set xs)"
| "has_category (L_Str s) = Some (contains ''category'' s)"
| "has_category _ = None"

definition parse_json_response :: "llm_env \<Rightarrow> llm_json \<Rightarrow> (string \<times> rat \<times> string) llm_result" where
  "parse_json_response e content =
     (case content of
        L_Str s \<Rightarrow>
          (case le_loads e (unfenced s) of
             Inl m \<Rightarrow> Inl (Provider_Error (''Invalid JSON response: '' @ m))
           | Inr parsed \<Rightarrow>
               (case has_category parsed of
                  None \<Rightarrow> Inl Other_Error
                | Some False \<Rightarrow> Inl (Provider_Error (''Missing '' @ squoted ''category'' @ '' field in response''))
                | Some True \<Rightarrow>
                    (case parsed of
                       L_Obj kvs \<Rightarrow>
                         (case py_float e (case map_of kvs ''confidence'' of None \<Rightarrow> L_Float (1 / 2) | Some v \<Rightarrow> v) of
                            None \<Rightarrow> Inl Other_Error
                          | Some q \<Rightarrow> Inr (strip (lower (py_text e (got kvs ''category''))), clamped q,
                              take 200 (case map_of kvs ''reason'' of None \<Rightarrow> ''No reason provided'' | Some v \<Rightarrow> py_text e v)))
                     | _ \<Rightarrow> Inl Other_Error)))
      | _ \<Rightarrow> Inl Other_Error)"

definition classify :: "llm_env \<Rightarrow> provider_kind \<Rightarrow> provider_row \<Rightarrow> string \<Rightarrow> llm_json \<Rightarrow> rat option \<Rightarrow> int option \<Rightarrow> (string \<times> rat \<times> string) llm_result" where
  "classify e k p prompt model t mx =
     (case chat e k p \<lparr>ca_messages = [(''system'', ''You are an email classification assistant. Respond only with valid JSON.''), (''user'', prompt)],
        ca_model = model, ca_temperature = t, ca_max = mx\<rparr> of
        Inl x \<Rightarrow> Inl x
      | Inr v \<Rightarrow> parse_json_response e v)"

section \<open>Use cases\<close>

definition get_use_case_config :: "llm_state \<Rightarrow> string \<Rightarrow> use_row option llm_result" where
  "get_use_case_config st u =
     (case rows_where (\<lambda>c. uc_use c = u \<and> uc_enabled c = Some True) (ll_uses st) of
        [] \<Rightarrow> Inr None | [(k, c)] \<Rightarrow> Inr (Some c) | _ \<Rightarrow> Inl Other_Error)"

text \<open>The rows a database session already holds. A related row is read without a query only when it is among them; reading
  it from the database is refused outside of an awaited call, which is an exception of the library.\<close>

record llm_session =
  ls_providers :: "nat list"
  ls_models :: "nat list"

definition related_row :: "nat list \<Rightarrow> 'r table \<Rightarrow> nat option \<Rightarrow> 'r option llm_result" where
  "related_row held t k = (case k of None \<Rightarrow> Inr None | Some i \<Rightarrow> if i \<in> set held then Inr (row_get t i) else Inl Other_Error)"

text \<open>The common part of the two calls: the provider, its class, the model and the configuration.\<close>

definition use_case_target :: "llm_session \<Rightarrow> llm_state \<Rightarrow> string \<Rightarrow> (provider_kind \<times> provider_row \<times> model_row \<times> use_row) llm_result" where
  "use_case_target s st u =
     (case get_use_case_config st u of
        Inl x \<Rightarrow> Inl x
      | Inr None \<Rightarrow> Inl (Config_Error (''No enabled LLM configuration found for use case: '' @ u))
      | Inr (Some c) \<Rightarrow>
          (case related_row (ls_providers s) (ll_providers st) (uc_provider c) of
             Inl x \<Rightarrow> Inl x
           | Inr None \<Rightarrow> Inl (Config_Error (''Incomplete LLM configuration for use case: '' @ u))
           | Inr (Some p) \<Rightarrow>
               (case related_row (ls_models s) (ll_models st) (uc_model c) of
                  Inl x \<Rightarrow> Inl x
                | Inr None \<Rightarrow> Inl (Config_Error (''Incomplete LLM configuration for use case: '' @ u))
                | Inr (Some m) \<Rightarrow> map_sum id (\<lambda>k. (k, p, m, c)) (create_provider (pv_type p)))))"

definition classify_for_use_case :: "llm_env \<Rightarrow> llm_session \<Rightarrow> llm_state \<Rightarrow> string \<Rightarrow> string \<Rightarrow> llm_answer llm_result" where
  "classify_for_use_case e s st u prompt =
     (case use_case_target s st u of
        Inl x \<Rightarrow> Inl x
      | Inr (k, p, m, c) \<Rightarrow>
          map_sum id (\<lambda>(cat, q, why). \<lparr>la_category = cat, la_confidence = q, la_reason = why, la_provider = pv_type p, la_model = lm_name m\<rparr>)
            (classify e k p prompt (L_Str (lm_name m)) (uc_temperature c) (uc_max c)))"

definition chat_for_use_case :: "llm_env \<Rightarrow> llm_session \<Rightarrow> llm_state \<Rightarrow> string \<Rightarrow> (string \<times> string) list \<Rightarrow> llm_json llm_result" where
  "chat_for_use_case e s st u ms =
     (case use_case_target s st u of
        Inl x \<Rightarrow> Inl x
      | Inr (k, p, m, c) \<Rightarrow> chat e k p \<lparr>ca_messages = ms, ca_model = L_Str (lm_name m), ca_temperature = uc_temperature c, ca_max = uc_max c\<rparr>)"

end
