(* ===== verification/Gw_Llm.thy ===== *)
theory Gw_Llm
  imports Llm_Client
begin

text \<open>
  \<open>routers/llm_admin.py\<close>: the registry of providers, models and use cases, the connection test, discovery and import, and
  the two configuration calls of \<open>routers/assistant.py\<close> on the same rows.

  Deleting a provider deletes its models, and a use case that names a deleted row names none afterwards.
\<close>

section \<open>Frames\<close>

type_synonym 'a llm_call_reply = "(nat + 'a) \<times> llm_state"

definition llm_read :: "token option \<Rightarrow> nat + 'a \<Rightarrow> nat + 'a" where
  "llm_read tok r = (case require_admin tok of Inl c \<Rightarrow> Inl c | Inr u \<Rightarrow> r)"

definition llm_admin :: "token option \<Rightarrow> llm_state \<Rightarrow> 'a llm_call_reply \<Rightarrow> 'a llm_call_reply" where
  "llm_admin tok st r = (case require_admin tok of Inl c \<Rightarrow> (Inl c, st) | Inr u \<Rightarrow> r)"

definition llm_row :: "'r table \<Rightarrow> nat \<Rightarrow> llm_state \<Rightarrow> ('r \<Rightarrow> 'a llm_call_reply) \<Rightarrow> 'a llm_call_reply" where
  "llm_row t k st f = (case row_get t k of None \<Rightarrow> (Inl 404, st) | Some r \<Rightarrow> f r)"

definition each_row :: "('r \<Rightarrow> 'r) \<Rightarrow> 'r table \<Rightarrow> 'r table" where
  "each_row f t = t\<lparr>tb_rows := map (\<lambda>(k, r). (k, f r)) (tb_rows t)\<rparr>"

section \<open>Providers\<close>

datatype provider_type = Type_Openai | Type_Anthropic | Type_Ollama | Type_Custom

definition provider_type_text :: "provider_type \<Rightarrow> string" where
  "provider_type_text t = (case t of Type_Openai \<Rightarrow> ''openai'' | Type_Anthropic \<Rightarrow> ''anthropic'' | Type_Ollama \<Rightarrow> ''ollama'' | Type_Custom \<Rightarrow> ''custom'')"

definition provider_type_texts :: "string list" where
  "provider_type_texts = [''openai'', ''anthropic'', ''ollama'', ''custom'']"

definition provider_response :: "nat \<Rightarrow> provider_row \<Rightarrow> nat + nat \<times> provider_row" where
  "provider_response k p = (if pv_type p \<in> set provider_type_texts \<and> pv_enabled p \<noteq> None \<and> pv_default p \<noteq> None then Inr (k, p) else Inl 500)"

record provider_create =
  pvc_name :: string
  pvc_type :: provider_type
  pvc_base :: "string option"
  pvc_key :: "string option"
  pvc_enabled :: bool
  pvc_default :: bool

definition list_llm_providers :: "token option \<Rightarrow> llm_state \<Rightarrow> nat + (nat \<times> provider_row) list" where
  "list_llm_providers tok st =
     llm_read tok (sequence_replies (map (\<lambda>(k, p). provider_response k p) (sort_key fst (tb_rows (ll_providers st)))))"

definition create_llm_provider :: "token option \<Rightarrow> provider_create \<Rightarrow> llm_state \<Rightarrow> (nat \<times> provider_row) llm_call_reply" where
  "create_llm_provider tok d st = llm_admin tok st
     (let p = \<lparr>pv_name = pvc_name d, pv_type = provider_type_text (pvc_type d), pv_base = pvc_base d, pv_key = pvc_key d, pv_enabled = Some (pvc_enabled d),
        pv_default = Some (pvc_default d)\<rparr>; (k, t) = row_add p (ll_providers st) in
      (provider_response k p, st\<lparr>ll_providers := t\<rparr>))"

definition get_llm_provider :: "token option \<Rightarrow> nat \<Rightarrow> llm_state \<Rightarrow> nat + nat \<times> provider_row" where
  "get_llm_provider tok k st = llm_read tok (case row_get (ll_providers st) k of None \<Rightarrow> Inl 404 | Some p \<Rightarrow> provider_response k p)"

record provider_patch =
  pvp_name :: "string option option"
  pvp_type :: "provider_type option option"
  pvp_base :: "string option option"
  pvp_key :: "string option option"
  pvp_enabled :: "bool option option"
  pvp_default :: "bool option option"

text \<open>A null name or type is refused by the column.\<close>

definition patch_provider :: "provider_patch \<Rightarrow> provider_row \<Rightarrow> provider_row option" where
  "patch_provider d p =
     (case (kept (pvp_name d) (pv_name p), kept (map_option (map_option provider_type_text) (pvp_type d)) (pv_type p)) of
        (Some n, Some t) \<Rightarrow> Some (p\<lparr>pv_name := n, pv_type := t, pv_base := patched (pvp_base d) (pv_base p), pv_key := patched (pvp_key d) (pv_key p),
          pv_enabled := patched (pvp_enabled d) (pv_enabled p), pv_default := patched (pvp_default d) (pv_default p)\<rparr>)
      | _ \<Rightarrow> None)"

definition update_llm_provider :: "token option \<Rightarrow> nat \<Rightarrow> provider_patch \<Rightarrow> llm_state \<Rightarrow> (nat \<times> provider_row) llm_call_reply" where
  "update_llm_provider tok k d st = llm_admin tok st (llm_row (ll_providers st) k st (\<lambda>p.
     case patch_provider d p of
       None \<Rightarrow> (Inl 500, st)
     | Some p' \<Rightarrow> (provider_response k p', st\<lparr>ll_providers := row_set k p' (ll_providers st)\<rparr>)))"

definition unnamed_models :: "(nat \<Rightarrow> bool) \<Rightarrow> use_row \<Rightarrow> use_row" where
  "unnamed_models gone c = (case uc_model c of None \<Rightarrow> c | Some m \<Rightarrow> if gone m then c\<lparr>uc_model := None\<rparr> else c)"

definition model_of :: "llm_state \<Rightarrow> nat \<Rightarrow> nat \<Rightarrow> bool" where
  "model_of st k j \<longleftrightarrow> (case row_get (ll_models st) j of None \<Rightarrow> False | Some m \<Rightarrow> lm_provider m = k)"

definition delete_llm_provider :: "token option \<Rightarrow> nat \<Rightarrow> llm_state \<Rightarrow> nat llm_call_reply" where
  "delete_llm_provider tok k st = llm_admin tok st (llm_row (ll_providers st) k st (\<lambda>p.
     (Inr k, st\<lparr>ll_providers := row_del k (ll_providers st), ll_models := drop_rows (\<lambda>m. lm_provider m = k) (ll_models st),
        ll_uses := each_row (\<lambda>c. unnamed_models (model_of st k) (if uc_provider c = Some k then c\<lparr>uc_provider := None\<rparr> else c)) (ll_uses st)\<rparr>)))"

section \<open>Connection test\<close>

text \<open>The model to test with: the given one, the first enabled one, the first discovered one; otherwise 400. The second kind of
  failure is an exception, which the handler answers with 502.\<close>

definition first_enabled :: "llm_state \<Rightarrow> nat \<Rightarrow> model_row option" where
  "first_enabled st k =
     (case sort_key fst (rows_where (\<lambda>m. lm_provider m = k \<and> lm_enabled m) (ll_models st)) of [] \<Rightarrow> None | (j, m) # _ \<Rightarrow> Some m)"

definition resolve_test_model :: "llm_env \<Rightarrow> llm_state \<Rightarrow> nat \<Rightarrow> provider_row \<Rightarrow> string option \<Rightarrow> provider_kind \<Rightarrow> nat + llm_json" where
  "resolve_test_model e st k p asked kind =
     (if truthy_str asked then Inr (L_Str (or_empty asked))
      else (case first_enabled st k of
          Some m \<Rightarrow> Inr (L_Str (lm_name m))
        | None \<Rightarrow> (case provider_models e kind p of
            Inl Other_Error \<Rightarrow> Inl 502
          | Inl _ \<Rightarrow> Inl 400
          | Inr [] \<Rightarrow> Inl 400
          | Inr (m # _) \<Rightarrow> Inr (fm_id m))))"

text \<open>The first hundred characters or elements.\<close>

fun sliced :: "llm_json \<Rightarrow> llm_json option" where
  "sliced (L_Str s) = Some (L_Str (take 100 s))"
| "sliced (L_List xs) = Some (L_List (take 100 xs))"
| "sliced _ = None"

definition test_llm_provider :: "llm_env \<Rightarrow> token option \<Rightarrow> nat \<Rightarrow> string option \<Rightarrow> llm_state \<Rightarrow> nat + llm_json \<times> llm_json" where
  "test_llm_provider e tok k asked st = llm_read tok
     (case row_get (ll_providers st) k of
        None \<Rightarrow> Inl 404
      | Some p \<Rightarrow>
          (case create_provider (if pv_type p = ''custom'' then ''openai'' else pv_type p) of
             Inl x \<Rightarrow> Inl 502
           | Inr kind \<Rightarrow>
               (case resolve_test_model e st k p asked kind of
                  Inl c \<Rightarrow> Inl c
                | Inr m \<Rightarrow>
                    (case chat e kind p \<lparr>ca_messages = [(''user'', ''Say '' @ squoted ''ok'')], ca_model = m, ca_temperature = Some (3 / 10), ca_max = Some 10\<rparr> of
                       Inl x \<Rightarrow> Inl 502
                     | Inr v \<Rightarrow> (case sliced v of None \<Rightarrow> Inl 502 | Some r \<Rightarrow> Inr (r, m))))))"

section \<open>Discovery\<close>

text \<open>The provider and what it advertises.\<close>

definition discovered_models :: "llm_env \<Rightarrow> nat \<Rightarrow> llm_state \<Rightarrow> nat + found_model list" where
  "discovered_models e k st =
     (case row_get (ll_providers st) k of
        None \<Rightarrow> Inl 404
      | Some p \<Rightarrow>
          (if pv_type p = ''custom'' then Inl 400
           else (case create_provider (pv_type p) of
               Inl x \<Rightarrow> Inl 500
             | Inr kind \<Rightarrow> (case provider_models e kind p of Inl Other_Error \<Rightarrow> Inl 500 | Inl _ \<Rightarrow> Inl 502 | Inr ms \<Rightarrow> Inr ms))))"

fun text_or_null :: "llm_json \<Rightarrow> string option option" where
  "text_or_null L_Null = Some None"
| "text_or_null (L_Str s) = Some (Some s)"
| "text_or_null _ = None"

text \<open>A whole number as the schema reads it.\<close>

fun size_field :: "llm_json \<Rightarrow> int option option" where
  "size_field L_Null = Some None"
| "size_field (L_Bool b) = Some (Some (if b then 1 else 0))"
| "size_field (L_Int n) = Some (Some n)"
| "size_field (L_Float q) = (if of_int \<lfloor>q\<rfloor> = q then Some (Some \<lfloor>q\<rfloor>) else None)"
| "size_field (L_Str s) = map_option Some (py_int s)"
| "size_field _ = None"

record model_discovery =
  mdi_id :: string
  mdi_display :: "string option"
  mdi_size :: "int option"
  mdi_owner :: "string option"

definition to_discovery :: "found_model \<Rightarrow> nat + model_discovery" where
  "to_discovery m =
     (case (text_or_null (fm_id m), text_or_null (fm_display m), size_field (fm_size m), text_or_null (fm_owner m)) of
        (Some (Some i), Some d, Some s, Some w) \<Rightarrow> Inr \<lparr>mdi_id = i, mdi_display = d, mdi_size = s, mdi_owner = w\<rparr>
      | _ \<Rightarrow> Inl 500)"

definition discover_provider_models :: "llm_env \<Rightarrow> token option \<Rightarrow> nat \<Rightarrow> llm_state \<Rightarrow> nat + model_discovery list" where
  "discover_provider_models e tok k st = llm_read tok
     (case discovered_models e k st of Inl c \<Rightarrow> Inl c | Inr ms \<Rightarrow> sequence_replies (map to_discovery ms))"

text \<open>The new rows, or \<open>None\<close> when a name is no text, which the set of names or the column refuses.\<close>

definition imported_model :: "nat \<Rightarrow> found_model \<Rightarrow> model_row option" where
  "imported_model k m =
     (case (fm_id m, if py_truthy (Some (fm_display m)) then fm_display m else fm_id m) of
        (L_Str i, L_Str d) \<Rightarrow> Some \<lparr>lm_provider = k, lm_name = i, lm_display = Some d, lm_about = None, lm_max = None, lm_vision = False, lm_enabled = False\<rparr>
      | _ \<Rightarrow> None)"

fun imported_models :: "nat \<Rightarrow> string list \<Rightarrow> found_model list \<Rightarrow> model_row list option" where
  "imported_models k names [] = Some []"
| "imported_models k names (m # ms) =
     (if fm_id m \<in> L_Str ` set names then imported_models k names ms
      else (case (imported_model k m, imported_models k names ms) of (Some r, Some rs) \<Rightarrow> Some (r # rs) | _ \<Rightarrow> None))"

definition model_names :: "llm_state \<Rightarrow> nat \<Rightarrow> string list" where
  "model_names st k = map (lm_name \<circ> snd) (rows_where (\<lambda>m. lm_provider m = k) (ll_models st))"

definition sync_provider_models :: "llm_env \<Rightarrow> token option \<Rightarrow> nat \<Rightarrow> llm_state \<Rightarrow> (nat \<times> nat) llm_call_reply" where
  "sync_provider_models e tok k st = llm_admin tok st
     (case discovered_models e k st of
        Inl c \<Rightarrow> (Inl c, st)
      | Inr ms \<Rightarrow>
          (case imported_models k (model_names st k) ms of
             None \<Rightarrow> (Inl 500, st)
           | Some rs \<Rightarrow> (Inr (length ms, length rs), st\<lparr>ll_models := fold (\<lambda>r t. snd (row_add r t)) rs (ll_models st)\<rparr>)))"

section \<open>Models\<close>

definition list_llm_models :: "token option \<Rightarrow> nat option \<Rightarrow> llm_state \<Rightarrow> nat + (nat \<times> model_row) list" where
  "list_llm_models tok k st = llm_read tok
     (Inr (sort_key fst (rows_where (\<lambda>m. k = None \<or> k = Some 0 \<or> k = Some (lm_provider m)) (ll_models st))))"

record model_create =
  lmc_provider :: nat
  lmc_name :: string
  lmc_display :: "string option"
  lmc_about :: "string option"
  lmc_max :: "int option"
  lmc_vision :: bool
  lmc_enabled :: bool

definition create_llm_model :: "token option \<Rightarrow> model_create \<Rightarrow> llm_state \<Rightarrow> (nat \<times> model_row) llm_call_reply" where
  "create_llm_model tok d st = llm_admin tok st (llm_row (ll_providers st) (lmc_provider d) st (\<lambda>p.
     let m = \<lparr>lm_provider = lmc_provider d, lm_name = lmc_name d, lm_display = lmc_display d, lm_about = lmc_about d, lm_max = lmc_max d, lm_vision = lmc_vision d,
       lm_enabled = lmc_enabled d\<rparr>; (j, t) = row_add m (ll_models st) in
     (Inr (j, m), st\<lparr>ll_models := t\<rparr>)))"

definition get_llm_model :: "token option \<Rightarrow> nat \<Rightarrow> llm_state \<Rightarrow> nat + nat \<times> model_row" where
  "get_llm_model tok j st = llm_read tok (case row_get (ll_models st) j of None \<Rightarrow> Inl 404 | Some m \<Rightarrow> Inr (j, m))"

record model_patch =
  lmp_name :: "string option option"
  lmp_display :: "string option option"
  lmp_about :: "string option option"
  lmp_max :: "int option option"
  lmp_vision :: "bool option option"
  lmp_enabled :: "bool option option"

definition patch_model :: "model_patch \<Rightarrow> model_row \<Rightarrow> model_row option" where
  "patch_model d m =
     (case (kept (lmp_name d) (lm_name m), kept (lmp_vision d) (lm_vision m), kept (lmp_enabled d) (lm_enabled m)) of
        (Some n, Some v, Some b) \<Rightarrow> Some (m\<lparr>lm_name := n, lm_display := patched (lmp_display d) (lm_display m), lm_about := patched (lmp_about d) (lm_about m),
          lm_max := patched (lmp_max d) (lm_max m), lm_vision := v, lm_enabled := b\<rparr>)
      | _ \<Rightarrow> None)"

definition update_llm_model :: "token option \<Rightarrow> nat \<Rightarrow> model_patch \<Rightarrow> llm_state \<Rightarrow> (nat \<times> model_row) llm_call_reply" where
  "update_llm_model tok j d st = llm_admin tok st (llm_row (ll_models st) j st (\<lambda>m.
     case patch_model d m of None \<Rightarrow> (Inl 500, st) | Some m' \<Rightarrow> (Inr (j, m'), st\<lparr>ll_models := row_set j m' (ll_models st)\<rparr>)))"

definition delete_llm_model :: "token option \<Rightarrow> nat \<Rightarrow> llm_state \<Rightarrow> nat llm_call_reply" where
  "delete_llm_model tok j st = llm_admin tok st (llm_row (ll_models st) j st (\<lambda>m.
     (Inr j, st\<lparr>ll_models := row_del j (ll_models st), ll_uses := each_row (unnamed_models ((=) j)) (ll_uses st)\<rparr>)))"

section \<open>Use cases\<close>

datatype llm_use_case = Email_Classification | Assistant_Chat | Security_Audit

definition use_case_text :: "llm_use_case \<Rightarrow> string" where
  "use_case_text u = (case u of Email_Classification \<Rightarrow> ''email_classification'' | Assistant_Chat \<Rightarrow> ''assistant_chat'' | Security_Audit \<Rightarrow> ''security_audit'')"

definition use_case_texts :: "string list" where
  "use_case_texts = [''email_classification'', ''assistant_chat'', ''security_audit'']"

definition use_response :: "nat \<Rightarrow> use_row \<Rightarrow> nat + nat \<times> use_row" where
  "use_response k c =
     (if uc_use c \<in> set use_case_texts \<and> uc_temperature c \<noteq> None \<and> uc_max c \<noteq> None \<and> uc_top c \<noteq> None \<and> uc_timeout c \<noteq> None \<and> uc_enabled c \<noteq> None
      then Inr (k, c) else Inl 500)"

definition list_llm_use_case_configs :: "token option \<Rightarrow> llm_state \<Rightarrow> nat + (nat \<times> use_row) list" where
  "list_llm_use_case_configs tok st = llm_read tok (sequence_replies (map (\<lambda>(k, c). use_response k c) (sort_key fst (tb_rows (ll_uses st)))))"

text \<open>The commit refuses a use case that another row has, and a provider or model that is not there.\<close>

definition use_refused :: "llm_state \<Rightarrow> nat option \<Rightarrow> use_row \<Rightarrow> bool" where
  "use_refused st self c \<longleftrightarrow> list_ex (\<lambda>(k, q). Some k \<noteq> self \<and> uc_use q = uc_use c) (tb_rows (ll_uses st))
     \<or> (case uc_provider c of None \<Rightarrow> False | Some k \<Rightarrow> row_get (ll_providers st) k = None)
     \<or> (case uc_model c of None \<Rightarrow> False | Some j \<Rightarrow> row_get (ll_models st) j = None)"

record use_create =
  ucc_use :: llm_use_case
  ucc_provider :: "nat option"
  ucc_model :: "nat option"
  ucc_temperature :: rat
  ucc_max :: int
  ucc_top :: rat
  ucc_prompt :: "string option"
  ucc_timeout :: int
  ucc_enabled :: bool

definition new_use :: "use_create \<Rightarrow> use_row" where
  "new_use d = \<lparr>uc_use = use_case_text (ucc_use d), uc_provider = ucc_provider d, uc_model = ucc_model d, uc_temperature = Some (ucc_temperature d),
     uc_max = Some (ucc_max d), uc_top = Some (ucc_top d), uc_prompt = ucc_prompt d, uc_timeout = Some (ucc_timeout d), uc_enabled = Some (ucc_enabled d)\<rparr>"

definition create_llm_use_case_config :: "token option \<Rightarrow> use_create \<Rightarrow> llm_state \<Rightarrow> (nat \<times> use_row) llm_call_reply" where
  "create_llm_use_case_config tok d st = llm_admin tok st
     (if use_refused st None (new_use d) then (Inl 500, st)
      else (let (k, t) = row_add (new_use d) (ll_uses st) in (use_response k (new_use d), st\<lparr>ll_uses := t\<rparr>)))"

definition get_llm_use_case_config :: "token option \<Rightarrow> nat \<Rightarrow> llm_state \<Rightarrow> nat + nat \<times> use_row" where
  "get_llm_use_case_config tok k st = llm_read tok (case row_get (ll_uses st) k of None \<Rightarrow> Inl 404 | Some c \<Rightarrow> use_response k c)"

record use_patch =
  ucp_use :: "llm_use_case option option"
  ucp_provider :: "nat option option"
  ucp_model :: "nat option option"
  ucp_temperature :: "rat option option"
  ucp_max :: "int option option"
  ucp_top :: "rat option option"
  ucp_prompt :: "string option option"
  ucp_timeout :: "int option option"
  ucp_enabled :: "bool option option"

definition patch_use :: "use_patch \<Rightarrow> use_row \<Rightarrow> use_row option" where
  "patch_use d c = map_option (\<lambda>u. c\<lparr>uc_use := u, uc_provider := patched (ucp_provider d) (uc_provider c), uc_model := patched (ucp_model d) (uc_model c),
     uc_temperature := patched (ucp_temperature d) (uc_temperature c), uc_max := patched (ucp_max d) (uc_max c), uc_top := patched (ucp_top d) (uc_top c),
     uc_prompt := patched (ucp_prompt d) (uc_prompt c), uc_timeout := patched (ucp_timeout d) (uc_timeout c), uc_enabled := patched (ucp_enabled d) (uc_enabled c)\<rparr>)
     (kept (map_option (map_option use_case_text) (ucp_use d)) (uc_use c))"

definition update_llm_use_case_config :: "token option \<Rightarrow> nat \<Rightarrow> use_patch \<Rightarrow> llm_state \<Rightarrow> (nat \<times> use_row) llm_call_reply" where
  "update_llm_use_case_config tok k d st = llm_admin tok st (llm_row (ll_uses st) k st (\<lambda>c.
     case patch_use d c of
       None \<Rightarrow> (Inl 500, st)
     | Some c' \<Rightarrow> if use_refused st (Some k) c' then (Inl 500, st) else (use_response k c', st\<lparr>ll_uses := row_set k c' (ll_uses st)\<rparr>)))"

definition delete_llm_use_case_config :: "token option \<Rightarrow> nat \<Rightarrow> llm_state \<Rightarrow> nat llm_call_reply" where
  "delete_llm_use_case_config tok k st = llm_admin tok st (llm_row (ll_uses st) k st (\<lambda>c. (Inr k, st\<lparr>ll_uses := row_del k (ll_uses st)\<rparr>)))"

section \<open>The configuration of the assistant\<close>

record llm_config =
  cf_provider :: string
  cf_model :: string
  cf_key :: "string option"
  cf_base :: "string option"
  cf_temperature :: rat
  cf_max :: int
  cf_prompt :: string

definition chat_use :: "llm_state \<Rightarrow> (nat \<times> use_row) list" where
  "chat_use st = rows_where (\<lambda>c. uc_use c = ''assistant_chat'') (ll_uses st)"

text \<open>The view of a row, which reads the related rows through the session; a null number is refused by the schema.\<close>

definition config_view :: "llm_session \<Rightarrow> llm_state \<Rightarrow> string \<Rightarrow> use_row \<Rightarrow> nat + llm_config" where
  "config_view s st prompt c =
     (case (related_row (ls_providers s) (ll_providers st) (uc_provider c), related_row (ls_models s) (ll_models st) (uc_model c), uc_temperature c, uc_max c) of
        (Inr p, Inr m, Some t, Some n) \<Rightarrow>
          Inr \<lparr>cf_provider = (case p of None \<Rightarrow> ''openai'' | Some q \<Rightarrow> pv_type q), cf_model = (case m of None \<Rightarrow> ''gpt-4'' | Some r \<Rightarrow> lm_name r),
            cf_key = Option.bind p pv_key, cf_base = Option.bind p pv_base, cf_temperature = t, cf_max = n,
            cf_prompt = (if truthy_str (uc_prompt c) then or_empty (uc_prompt c) else prompt)\<rparr>
      | _ \<Rightarrow> Inl 500)"

definition get_llm_config :: "llm_session \<Rightarrow> token option \<Rightarrow> llm_state \<Rightarrow> nat + llm_config" where
  "get_llm_config s tok st =
     (case require_auth tok of
        Inl c \<Rightarrow> Inl c
      | Inr u \<Rightarrow> (case chat_use st of [] \<Rightarrow> Inl 404 | [(k, c)] \<Rightarrow> config_view s st ''You are a helpful network security assistant.'' c | _ \<Rightarrow> Inl 500))"

definition update_llm_config :: "llm_session \<Rightarrow> token option \<Rightarrow> llm_config \<Rightarrow> llm_state \<Rightarrow> llm_config llm_call_reply" where
  "update_llm_config s tok d st = llm_admin tok st
     (case chat_use st of
        [] \<Rightarrow> (Inl 404, st)
      | [(k, c)] \<Rightarrow>
          (let c' = c\<lparr>uc_temperature := Some (cf_temperature d), uc_max := Some (cf_max d), uc_prompt := Some (cf_prompt d)\<rparr>;
               st' = st\<lparr>ll_uses := row_set k c' (ll_uses st)\<rparr> in (config_view s st' [] c', st'))
      | _ \<Rightarrow> (Inl 500, st))"

section \<open>Calls\<close>

datatype llm_call =
    New_Provider provider_create
  | Patch_Provider nat provider_patch
  | Drop_Provider nat
  | Sync_Models llm_env nat
  | New_Model model_create
  | Patch_Model nat model_patch
  | Drop_Model nat
  | New_Use use_create
  | Patch_Use nat use_patch
  | Drop_Use nat
  | Set_Chat llm_session llm_config

definition llm_handle :: "token option \<Rightarrow> llm_call \<Rightarrow> llm_state \<Rightarrow> llm_state" where
  "llm_handle tok c st =
     (case c of
        New_Provider d \<Rightarrow> snd (create_llm_provider tok d st)
      | Patch_Provider k d \<Rightarrow> snd (update_llm_provider tok k d st)
      | Drop_Provider k \<Rightarrow> snd (delete_llm_provider tok k st)
      | Sync_Models e k \<Rightarrow> snd (sync_provider_models e tok k st)
      | New_Model d \<Rightarrow> snd (create_llm_model tok d st)
      | Patch_Model j d \<Rightarrow> snd (update_llm_model tok j d st)
      | Drop_Model j \<Rightarrow> snd (delete_llm_model tok j st)
      | New_Use d \<Rightarrow> snd (create_llm_use_case_config tok d st)
      | Patch_Use k d \<Rightarrow> snd (update_llm_use_case_config tok k d st)
      | Drop_Use k \<Rightarrow> snd (delete_llm_use_case_config tok k st)
      | Set_Chat s d \<Rightarrow> snd (update_llm_config s tok d st))"

text \<open>A run is a list of calls with their tokens.\<close>

definition llm_run :: "(token option \<times> llm_call) list \<Rightarrow> llm_state \<Rightarrow> llm_state" where
  "llm_run = fold (\<lambda>(tok, c). llm_handle tok c)"

end
