(* ===== verification/Llm_Props.thy ===== *)
theory Llm_Props
  imports Gw_Llm Gw_Mail_Props
begin

text \<open>
  The registry of language models: the invariant of its rows over any run of calls, what an import adds, and which rows a use
  case reads.
\<close>

section \<open>The invariant\<close>

definition provider_known :: "provider_row \<Rightarrow> bool" where
  "provider_known p \<longleftrightarrow> pv_type p \<in> set provider_type_texts"

definition use_known :: "use_row \<Rightarrow> bool" where
  "use_known c \<longleftrightarrow> uc_use c \<in> set use_case_texts"

text \<open>Every row of \<open>u\<close> that names a row of \<open>t\<close> names one that is there.\<close>

definition named_in :: "('r \<Rightarrow> nat option) \<Rightarrow> 'q table \<Rightarrow> 'r table \<Rightarrow> bool" where
  "named_in f t u \<longleftrightarrow> rows_all (\<lambda>r. \<forall>k. f r = Some k \<longrightarrow> row_get t k \<noteq> None) u"

definition llm_inv :: "llm_state \<Rightarrow> bool" where
  "llm_inv st \<longleftrightarrow> table_ok (ll_providers st) \<and> table_ok (ll_models st) \<and> table_ok (ll_uses st) \<and> rows_all provider_known (ll_providers st)
     \<and> points_to lm_provider (ll_providers st) (ll_models st) \<and> keyed uc_use (ll_uses st) \<and> rows_all use_known (ll_uses st)
     \<and> named_in uc_provider (ll_providers st) (ll_uses st) \<and> named_in uc_model (ll_models st) (ll_uses st)"

lemma llm_invD:
  assumes "llm_inv st"
  shows "table_ok (ll_providers st)" "table_ok (ll_models st)" "table_ok (ll_uses st)" "rows_all provider_known (ll_providers st)"
    "points_to lm_provider (ll_providers st) (ll_models st)" "keyed uc_use (ll_uses st)" "rows_all use_known (ll_uses st)"
    "named_in uc_provider (ll_providers st) (ll_uses st)" "named_in uc_model (ll_models st) (ll_uses st)"
  using assms by (simp_all add: llm_inv_def)

lemma named_in_mono: "named_in f t u \<Longrightarrow> keeps_keys t t' \<Longrightarrow> named_in f t' u"
  by (auto simp: named_in_def keeps_keys_def rows_all_def)

lemma named_in_add: "table_ok u \<Longrightarrow> named_in f t u \<Longrightarrow> (\<And>k. f r = Some k \<Longrightarrow> row_get t k \<noteq> None) \<Longrightarrow> row_add r u = (j, u') \<Longrightarrow> named_in f t u'"
  unfolding named_in_def by (rule rows_all_add) auto

lemma named_in_set: "named_in f t u \<Longrightarrow> (\<And>k. f r = Some k \<Longrightarrow> row_get t k \<noteq> None) \<Longrightarrow> named_in f t (row_set j r u)"
  unfolding named_in_def by (rule rows_all_set) auto

lemma named_in_del: "named_in f t u \<Longrightarrow> named_in f t (row_del k u)"
  unfolding named_in_def by (rule rows_all_del)

lemma each_row_get: "row_get (each_row f t) k = map_option f (row_get t k)"
  unfolding each_row_def by (rule map_rows_get)

lemma each_row_ok: "table_ok t \<Longrightarrow> table_ok (each_row f t)"
  unfolding each_row_def by (rule map_rows_ok)

lemma named_in_each: "(\<And>k r i. row_get u k = Some r \<Longrightarrow> f (g r) = Some i \<Longrightarrow> row_get t i \<noteq> None) \<Longrightarrow> named_in f t (each_row g u)"
  by (auto simp: named_in_def rows_all_def each_row_get)

lemma keyed_each: "keyed f u \<Longrightarrow> (\<And>r. f (g r) = f r) \<Longrightarrow> keyed f (each_row g u)"
  unfolding keyed_def each_row_get by (auto simp: map_option_case split: option.splits)

lemma rows_all_each: "rows_all P u \<Longrightarrow> (\<And>r. P r \<Longrightarrow> P (g r)) \<Longrightarrow> rows_all P (each_row g u)"
  by (auto simp: rows_all_def each_row_get)

lemma llm_admin_inv: "llm_inv st \<Longrightarrow> llm_inv (snd r) \<Longrightarrow> llm_inv (snd (llm_admin tok st r))"
  by (simp add: llm_admin_def split: sum.split)

lemma llm_row_inv: "llm_inv st \<Longrightarrow> (\<And>r. row_get t k = Some r \<Longrightarrow> llm_inv (snd (f r))) \<Longrightarrow> llm_inv (snd (llm_row t k st f))"
  by (simp add: llm_row_def split: option.split)

section \<open>Providers and models\<close>

lemma providers_inv:
  assumes "llm_inv st" "table_ok t" "rows_all provider_known t" "keeps_keys (ll_providers st) t"
  shows "llm_inv (st\<lparr>ll_providers := t\<rparr>)"
  using llm_invD[OF assms(1)] assms(2,3) points_to_mono[OF llm_invD(5)[OF assms(1)] assms(4)] named_in_mono[OF llm_invD(8)[OF assms(1)] assms(4)]
  by (simp add: llm_inv_def)

lemma models_inv:
  assumes "llm_inv st" "table_ok t" "points_to lm_provider (ll_providers st) t" "keeps_keys (ll_models st) t"
  shows "llm_inv (st\<lparr>ll_models := t\<rparr>)"
  using llm_invD[OF assms(1)] assms(2,3) named_in_mono[OF llm_invD(9)[OF assms(1)] assms(4)] by (simp add: llm_inv_def)

lemma uses_inv:
  assumes "llm_inv st" "table_ok t" "keyed uc_use t" "rows_all use_known t" "named_in uc_provider (ll_providers st) t" "named_in uc_model (ll_models st) t"
  shows "llm_inv (st\<lparr>ll_uses := t\<rparr>)"
  using llm_invD[OF assms(1)] assms(2-) by (simp add: llm_inv_def)

lemma add_provider_inv:
  assumes "llm_inv st" "provider_known p" "row_add p (ll_providers st) = (k, t)"
  shows "llm_inv (st\<lparr>ll_providers := t\<rparr>)"
  using llm_invD(1,4)[OF assms(1)] assms(2,3) by (intro providers_inv[OF assms(1)]) (rule rows.ok_add rows_all_add keeps_keys_add; assumption)+

lemma set_provider_inv: "llm_inv st \<Longrightarrow> provider_known p \<Longrightarrow> llm_inv (st\<lparr>ll_providers := row_set k p (ll_providers st)\<rparr>)"
  by (intro providers_inv) (simp_all add: llm_invD tables_keep rows_all_set)

lemma type_known: "provider_type_text t \<in> set provider_type_texts"
  by (cases t) (simp_all add: provider_type_text_def provider_type_texts_def)

lemma patch_provider_known: "patch_provider d p = Some p' \<Longrightarrow> provider_known p \<Longrightarrow> provider_known p'"
  by (auto simp: patch_provider_def provider_known_def kept_def type_known split: option.splits)

lemma unnamed_simps [simp]:
  "uc_use (unnamed_models g c) = uc_use c" "uc_provider (unnamed_models g c) = uc_provider c"
  "uc_model (unnamed_models g c) = Some m \<longleftrightarrow> uc_model c = Some m \<and> \<not> g m"
  by (auto simp: unnamed_models_def split: option.splits)

lemma drop_provider_inv:
  assumes "llm_inv st"
  shows "llm_inv (snd (delete_llm_provider tok k st))"
proof -
  note d = llm_invD[OF assms]
  let ?g = "\<lambda>c. unnamed_models (model_of st k) (if uc_provider c = Some k then c\<lparr>uc_provider := None\<rparr> else c)"
  have "points_to lm_provider (row_del k (ll_providers st)) (drop_rows (\<lambda>m. lm_provider m = k) (ll_models st))"
    using d(5) by (auto simp: points_to_def rows_all_def get_drop_rows[OF d(2)] rows.get_del split: option.splits if_splits)
  moreover have "named_in uc_provider (row_del k (ll_providers st)) (each_row ?g (ll_uses st))"
    using d(8) by (intro named_in_each) (auto simp: named_in_def rows_all_def rows.get_del split: if_splits)
  moreover have "named_in uc_model (drop_rows (\<lambda>m. lm_provider m = k) (ll_models st)) (each_row ?g (ll_uses st))"
    using d(9) by (intro named_in_each) (fastforce simp: named_in_def rows_all_def get_drop_rows[OF d(2)] model_of_def split: option.splits if_splits)
  moreover have "keyed uc_use (each_row ?g (ll_uses st))" by (rule keyed_each[OF d(6)]) simp
  moreover have "rows_all use_known (each_row ?g (ll_uses st))" by (rule rows_all_each[OF d(7)]) (simp add: use_known_def)
  ultimately show ?thesis unfolding delete_llm_provider_def
    by (intro llm_admin_inv llm_row_inv assms) (simp add: llm_inv_def tables_keep each_row_ok d rows_all_del)
qed

lemma add_model_inv:
  assumes "llm_inv st" "row_get (ll_providers st) (lm_provider m) \<noteq> None" "row_add m (ll_models st) = (j, t)"
  shows "llm_inv (st\<lparr>ll_models := t\<rparr>)"
  using llm_invD(2,5)[OF assms(1)] assms(2,3) by (intro models_inv[OF assms(1)]) (rule rows.ok_add points_to_add keeps_keys_add; assumption)+

lemma set_model_inv:
  assumes "llm_inv st" "row_get (ll_models st) j = Some m" "lm_provider m' = lm_provider m"
  shows "llm_inv (st\<lparr>ll_models := row_set j m' (ll_models st)\<rparr>)"
  using points_toD[OF llm_invD(5)[OF assms(1)] assms(2)] assms(3)
  by (intro models_inv[OF assms(1)]) (simp_all add: llm_invD[OF assms(1)] tables_keep points_to_set)

lemma drop_model_inv:
  assumes "llm_inv st"
  shows "llm_inv (snd (delete_llm_model tok j st))"
proof -
  note d = llm_invD[OF assms]
  let ?g = "unnamed_models ((=) j)"
  have "named_in uc_provider (ll_providers st) (each_row ?g (ll_uses st))"
    using d(8) by (intro named_in_each) (auto simp: named_in_def rows_all_def)
  moreover have "named_in uc_model (row_del j (ll_models st)) (each_row ?g (ll_uses st))"
    using d(9) by (intro named_in_each) (auto simp: named_in_def rows_all_def rows.get_del)
  moreover have "keyed uc_use (each_row ?g (ll_uses st))" by (rule keyed_each[OF d(6)]) simp
  moreover have "rows_all use_known (each_row ?g (ll_uses st))" by (rule rows_all_each[OF d(7)]) (simp add: use_known_def)
  ultimately show ?thesis unfolding delete_llm_model_def
    by (intro llm_admin_inv llm_row_inv assms) (simp add: llm_inv_def tables_keep each_row_ok d points_to_del)
qed

section \<open>Import\<close>

abbreviation add_rows :: "'r list \<Rightarrow> 'r table \<Rightarrow> 'r table" where
  "add_rows \<equiv> fold (\<lambda>r t. snd (row_add r t))"

lemma add_rows_ok: "table_ok t \<Longrightarrow> table_ok (add_rows rs t)"
proof (induction rs arbitrary: t)
  case (Cons r rs)
  then show ?case using rows.ok_add[OF Cons.prems surjective_pairing] by simp
qed simp

lemma add_rows_keep: "table_ok t \<Longrightarrow> row_get t k = Some q \<Longrightarrow> row_get (add_rows rs t) k = Some q"
proof (induction rs arbitrary: t)
  case (Cons r rs)
  then show ?case using rows.ok_add[OF Cons.prems(1) surjective_pairing] rows.added_keeps[OF Cons.prems(1) surjective_pairing Cons.prems(2)] by simp
qed simp

lemma add_rows_new: "table_ok t \<Longrightarrow> row_get (add_rows rs t) k = Some q \<Longrightarrow> row_get t k = Some q \<or> row_get t k = None \<and> q \<in> set rs"
proof (induction rs arbitrary: t)
  case (Cons r rs)
  let ?t = "snd (row_add r t)"
  have "row_get ?t k = Some q \<or> row_get ?t k = None \<and> q \<in> set rs"
    using Cons.IH[OF rows.ok_add[OF Cons.prems(1) surjective_pairing]] Cons.prems(2) by simp
  then show ?case using rows.get_add[OF Cons.prems(1) surjective_pairing, of r k] rows.add_fresh[OF Cons.prems(1) surjective_pairing, of r]
    by (auto split: if_splits)
qed simp

lemma add_rows_all: "table_ok t \<Longrightarrow> r \<in> set rs \<Longrightarrow> \<exists>k. row_get (add_rows rs t) k = Some r"
proof (induction rs arbitrary: t)
  case (Cons q rs)
  have ok: "table_ok (snd (row_add q t))" by (rule rows.ok_add[OF Cons.prems(1) surjective_pairing])
  show ?case
  proof (cases "r = q")
    case True
    then have "row_get (snd (row_add q t)) (fst (row_add q t)) = Some r" using rows.get_add[OF Cons.prems(1) surjective_pairing, of q] by simp
    then show ?thesis using add_rows_keep[OF ok] by auto
  next
    case False
    then show ?thesis using Cons.IH[OF ok] Cons.prems(2) by simp
  qed
qed simp

lemma imported_model_row: "imported_model k m = Some r \<Longrightarrow> lm_provider r = k \<and> \<not> lm_enabled r \<and> fm_id m = L_Str (lm_name r)"
  by (auto simp: imported_model_def split: llm_json.splits if_splits)

lemma imported_models_rows:
  "imported_models k names ms = Some rs \<Longrightarrow> r \<in> set rs \<Longrightarrow> lm_provider r = k \<and> \<not> lm_enabled r \<and> lm_name r \<notin> set names"
  by (induction k names ms arbitrary: rs rule: imported_models.induct)
    (use imported_model_row in \<open>fastforce split: if_splits option.splits\<close>)+

lemma imported_models_cover: "imported_models k names ms = Some rs \<Longrightarrow> m \<in> set ms \<Longrightarrow> fm_id m \<in> L_Str ` (set names \<union> lm_name ` set rs)"
  by (induction k names ms arbitrary: rs rule: imported_models.induct)
    (use imported_model_row in \<open>fastforce split: if_splits option.splits\<close>)+

lemma imported_models_none: "(\<And>m. m \<in> set ms \<Longrightarrow> fm_id m \<in> L_Str ` set names) \<Longrightarrow> imported_models k names ms = Some []"
  by (induction ms) auto

lemma model_names_get: "table_ok (ll_models st) \<Longrightarrow> set (model_names st k) = {lm_name m |m j. row_get (ll_models st) j = Some m \<and> lm_provider m = k}"
  using rows_where_get[of "ll_models st" _ _ "\<lambda>m. lm_provider m = k"] by (force simp: model_names_def)

lemma discovered_models_frame: "discovered_models e k (st\<lparr>ll_models := t\<rparr>) = discovered_models e k st"
  by (simp add: discovered_models_def)

lemma discovered_known: "discovered_models e k st = Inr ms \<Longrightarrow> row_get (ll_providers st) k \<noteq> None"
  by (auto simp: discovered_models_def split: option.splits)

lemma sync_cases:
  assumes "sync_provider_models e tok k st = (Inr (n, c), st')"
  obtains ms rs u where "require_admin tok = Inr u" "discovered_models e k st = Inr ms" "imported_models k (model_names st k) ms = Some rs" "n = length ms"
    "c = length rs" "st' = st\<lparr>ll_models := add_rows rs (ll_models st)\<rparr>"
  using assms by (auto simp: sync_provider_models_def llm_admin_def split: sum.splits option.splits)

lemma sync_inv:
  assumes "llm_inv st"
  shows "llm_inv (snd (sync_provider_models e tok k st))"
proof -
  note d = llm_invD[OF assms]
  have "llm_inv (st\<lparr>ll_models := add_rows rs (ll_models st)\<rparr>)"
    if m: "discovered_models e k st = Inr ms" "imported_models k (model_names st k) ms = Some rs" for ms rs
  proof -
    have "keeps_keys (ll_models st) (add_rows rs (ll_models st))" using add_rows_keep[OF d(2)] by (auto simp: keeps_keys_def)
    moreover have "points_to lm_provider (ll_providers st) (add_rows rs (ll_models st))"
      using add_rows_new[OF d(2), of rs] d(5) discovered_known[OF m(1)] imported_models_rows[OF m(2)] by (fastforce simp: points_to_def rows_all_def)
    ultimately show ?thesis by (intro models_inv[OF assms]) (simp_all add: add_rows_ok d)
  qed
  then show ?thesis using assms by (auto simp: sync_provider_models_def llm_admin_def split: sum.split option.split)
qed

section \<open>Use cases\<close>

lemma use_not_refused:
  assumes "\<not> use_refused st self c"
  shows "\<And>k. uc_provider c = Some k \<Longrightarrow> row_get (ll_providers st) k \<noteq> None" "\<And>j. uc_model c = Some j \<Longrightarrow> row_get (ll_models st) j \<noteq> None"
    "\<And>k q. row_get (ll_uses st) k = Some q \<Longrightarrow> uc_use q = uc_use c \<Longrightarrow> Some k = self"
  using assms map_of_SomeD unfolding use_refused_def row_get_def list_ex_iff by (fastforce split: option.splits)+

lemma use_text_known: "use_case_text u \<in> set use_case_texts"
  by (cases u) (simp_all add: use_case_text_def use_case_texts_def)

lemma add_use_inv:
  assumes "llm_inv st" "\<not> use_refused st None c" "use_known c" "row_add c (ll_uses st) = (k, t)"
  shows "llm_inv (st\<lparr>ll_uses := t\<rparr>)"
proof -
  note d = llm_invD[OF assms(1)] and u = use_not_refused[OF assms(2)]
  have "keyed uc_use t" by (rule keyed_add[OF d(3,6) _ assms(4)]) (use u(3) in blast)
  then show ?thesis using rows_all_add[OF d(3,7) assms(3,4)] named_in_add[OF d(3,8) u(1) assms(4)] named_in_add[OF d(3,9) u(2) assms(4)]
    by (intro uses_inv[OF assms(1) rows.ok_add[OF d(3) assms(4)]])
qed

lemma set_use_inv:
  assumes "llm_inv st" "\<not> use_refused st (Some k) c" "use_known c"
  shows "llm_inv (st\<lparr>ll_uses := row_set k c (ll_uses st)\<rparr>)"
proof -
  note d = llm_invD[OF assms(1)] and u = use_not_refused[OF assms(2)]
  have "keyed uc_use (row_set k c (ll_uses st))" by (rule keyed_put[OF d(6)]) (use u(3) in blast)
  then show ?thesis using rows_all_set[OF d(7) assms(3)] named_in_set[OF d(8) u(1)] named_in_set[OF d(9) u(2)]
    by (intro uses_inv[OF assms(1) rows.ok_put[OF d(3)]])
qed

lemma patch_use_known: "patch_use d c = Some c' \<Longrightarrow> use_known c \<Longrightarrow> use_known c'"
  by (auto simp: patch_use_def use_known_def kept_def use_text_known split: option.splits)

lemma set_numbers_inv:
  assumes "llm_inv st" "row_get (ll_uses st) k = Some c" "uc_use c' = uc_use c" "uc_provider c' = uc_provider c" "uc_model c' = uc_model c"
  shows "llm_inv (st\<lparr>ll_uses := row_set k c' (ll_uses st)\<rparr>)"
proof -
  note d = llm_invD[OF assms(1)]
  have "use_known c'" using rows_allD[OF d(7) assms(2)] assms(3) by (simp add: use_known_def)
  moreover have "row_get (ll_providers st) i \<noteq> None" if "uc_provider c' = Some i" for i using d(8) assms(2,4) that by (auto simp: named_in_def rows_all_def)
  moreover have "row_get (ll_models st) i \<noteq> None" if "uc_model c' = Some i" for i using d(9) assms(2,5) that by (auto simp: named_in_def rows_all_def)
  ultimately show ?thesis by (intro uses_inv[OF assms(1)] rows.ok_put keyed_set[OF d(6) assms(2,3)] rows_all_set named_in_set d)
qed

lemma llm_calls_inv:
  assumes "llm_inv st"
  shows "llm_inv (snd (create_llm_provider tok pd st))" "llm_inv (snd (update_llm_provider tok k pp st))" "llm_inv (snd (create_llm_model tok md st))"
    "llm_inv (snd (update_llm_model tok k mp st))" "llm_inv (snd (create_llm_use_case_config tok ud st))" "llm_inv (snd (update_llm_use_case_config tok k up st))"
    "llm_inv (snd (delete_llm_use_case_config tok k st))" "llm_inv (snd (update_llm_config s tok cd st))"
proof -
  note d = llm_invD[OF assms]
  show "llm_inv (snd (create_llm_provider tok pd st))" unfolding create_llm_provider_def
    by (intro llm_admin_inv assms) (auto simp: Let_def provider_known_def type_known intro!: add_provider_inv[OF assms] split: prod.split)
  have "llm_inv (st\<lparr>ll_providers := row_set k p' (ll_providers st)\<rparr>)" if "row_get (ll_providers st) k = Some p" "patch_provider pp p = Some p'" for p p'
    by (rule set_provider_inv[OF assms patch_provider_known[OF that(2) rows_allD[OF d(4) that(1)]]])
  then show "llm_inv (snd (update_llm_provider tok k pp st))" unfolding update_llm_provider_def
    by (intro llm_admin_inv llm_row_inv assms) (simp add: assms split: option.split)
  show "llm_inv (snd (create_llm_model tok md st))" unfolding create_llm_model_def
    by (intro llm_admin_inv llm_row_inv assms) (auto simp: Let_def intro!: add_model_inv[OF assms] split: prod.split)
  show "llm_inv (snd (update_llm_model tok k mp st))" unfolding update_llm_model_def
    by (intro llm_admin_inv llm_row_inv assms) (auto simp: assms patch_model_def intro!: set_model_inv[OF assms] split: option.splits)
  have "use_known (new_use ud)" by (simp add: new_use_def use_known_def use_text_known)
  then show "llm_inv (snd (create_llm_use_case_config tok ud st))" unfolding create_llm_use_case_config_def
    by (intro llm_admin_inv assms) (auto simp: assms Let_def intro!: add_use_inv[OF assms] split: prod.split)
  have "llm_inv (st\<lparr>ll_uses := row_set k c' (ll_uses st)\<rparr>)"
    if "row_get (ll_uses st) k = Some c" "patch_use up c = Some c'" "\<not> use_refused st (Some k) c'" for c c'
    by (rule set_use_inv[OF assms that(3) patch_use_known[OF that(2) rows_allD[OF d(7) that(1)]]])
  then show "llm_inv (snd (update_llm_use_case_config tok k up st))" unfolding update_llm_use_case_config_def
    by (intro llm_admin_inv llm_row_inv assms) (simp add: assms split: option.split)
  show "llm_inv (snd (delete_llm_use_case_config tok k st))" unfolding delete_llm_use_case_config_def
    by (intro llm_admin_inv llm_row_inv assms) (auto simp: llm_inv_def tables_keep d keyed_del rows_all_del named_in_del)
  have "row_get (ll_uses st) j = Some c" if "chat_use st = [(j, c)]" for j c
    using that rows_where_get[OF d(3), of j c "\<lambda>c. uc_use c = ''assistant_chat''"] by (simp add: chat_use_def)
  then show "llm_inv (snd (update_llm_config s tok cd st))" unfolding update_llm_config_def
    by (intro llm_admin_inv assms) (auto simp: assms Let_def intro!: set_numbers_inv[OF assms] split: list.split)
qed

lemma llm_handle_inv: "llm_inv st \<Longrightarrow> llm_inv (llm_handle tok c st)"
  by (cases c) (simp_all add: llm_handle_def llm_calls_inv drop_provider_inv drop_model_inv sync_inv)

lemma llm_run_inv: "llm_inv st \<Longrightarrow> llm_inv (llm_run cs st)"
  unfolding llm_run_def by (induction cs arbitrary: st) (auto simp: llm_handle_inv)

text \<open>The enabled row of a use case, which is unique.\<close>

lemma use_config_cases:
  assumes "llm_inv st"
  obtains "get_use_case_config st u = Inr None" "\<And>k c. row_get (ll_uses st) k = Some c \<Longrightarrow> uc_use c = u \<Longrightarrow> uc_enabled c \<noteq> Some True"
  | k c where "get_use_case_config st u = Inr (Some c)" "row_get (ll_uses st) k = Some c" "uc_use c = u" "uc_enabled c = Some True"
proof -
  note d = llm_invD[OF assms]
  let ?p = "\<lambda>c. uc_use c = u \<and> uc_enabled c = Some True"
  let ?es = "rows_where ?p (ll_uses st)"
  note g = rows_where_get[OF d(3), of _ _ ?p]
  show thesis
  proof (cases ?es)
    case Nil
    then show thesis using that(1) no_rows_where[OF d(3) Nil] by (auto simp: get_use_case_config_def)
  next
    case (Cons e es)
    obtain k c where e: "e = (k, c)" by fastforce
    then have c: "row_get (ll_uses st) k = Some c" "?p c" using g[of k c] Cons by auto
    have "es = []"
    proof (cases es)
      case (Cons e2 es2)
      obtain j q where q: "e2 = (j, q)" by fastforce
      then have "row_get (ll_uses st) j = Some q" "?p q" using g[of j q] Cons \<open>?es = e # es\<close> by auto
      then have "j = k" using keyedD[OF d(6) _ c(1)] c(2) by metis
      moreover have "distinct (map fst ?es)" using d(3) by (auto simp: rows_where_def table_ok_def distinct_map_filter)
      ultimately show ?thesis using Cons \<open>?es = e # es\<close> e q by simp
    qed simp
    then have "get_use_case_config st u = Inr (Some c)" using Cons e by (simp add: get_use_case_config_def)
    then show thesis using that(2) c by blast
  qed
qed

end
