(* ===== verification/Llm_Assistant.thy ===== *)
theory Llm_Assistant
  imports Llm_Client
begin

text \<open>
  \<open>shared/llm_assistant.py\<close> and the calls of \<open>routers/assistant.py\<close> that use it: the intent of a message, one handler per
  intent, and what the endpoints make of a handler's reply.

  The wording of the prompts is an argument, as a function of the template, the message and the configuration. A reply is a JSON
  object; \<open>None\<close> is an exception, which the gateway answers with 500. The calls that return stored conversations or fixed
  capabilities have no logic and are left out.
\<close>

section \<open>Intents\<close>

datatype assistant_intent = Create_Firewall_Rule | Generate_Test_Case | Create_Vpn_Config | Setup_Mail_Domain | Explain_Configuration | Troubleshoot
  | Optimize_Rules | Generate_Report | Unknown_Intent

definition intent_words :: "(assistant_intent \<times> string list) list" where
  "intent_words =
     [(Create_Firewall_Rule, [''firewall rule'', ''block'', ''allow'', ''permit'', ''deny'', ''port'', ''open port'']),
      (Generate_Test_Case, [''test'', ''check if'', ''verify'', ''simulation'']),
      (Create_Vpn_Config, [''vpn'', ''wireguard'', ''ipsec'', ''openvpn'', ''tunnel'']),
      (Setup_Mail_Domain, [''mail'', ''email'', ''domain'', ''mx'', ''smtp'']),
      (Explain_Configuration, [''explain'', ''how does'', ''what is'', ''why'']),
      (Troubleshoot, [''problem'', ''issue'', ''error'', ''not working'', ''broken'']),
      (Optimize_Rules, [''optimize'', ''improve'', ''better'', ''clean up'']),
      (Generate_Report, [''report'', ''summary'', ''overview'', ''status''])]"

definition classify_intent :: "string \<Rightarrow> assistant_intent" where
  "classify_intent message =
     (case List.find (\<lambda>(i, ws). list_ex (\<lambda>w. contains w (lower message)) ws) intent_words of None \<Rightarrow> Unknown_Intent | Some (i, ws) \<Rightarrow> i)"

section \<open>The model behind it\<close>

datatype template = Rule_Prompt | Tests_Prompt | Vpn_Prompt | Mail_Prompt | Explain_Prompt | Trouble_Prompt | Optimize_Prompt | Summary_Prompt | Rule_Tests_Prompt

record assistant_env = llm_env +
  ae_wording :: "template \<Rightarrow> string \<Rightarrow> llm_json \<Rightarrow> string"

type_synonym assistant_db = "(llm_session \<times> llm_state) option"

text \<open>The reply to an error of the client: a text that is meant to be JSON.\<close>

definition error_text :: "string \<Rightarrow> string" where
  "error_text m = ''{'' @ dq @ ''error'' @ dq @ '': '' @ dq @ m @ dq @ ''}''"

definition call_llm :: "assistant_env \<Rightarrow> assistant_db \<Rightarrow> string \<Rightarrow> llm_json option" where
  "call_llm e db prompt =
     (case db of
        None \<Rightarrow> Some (L_Str ''{}'')
      | Some (s, st) \<Rightarrow>
          (case chat_for_use_case (llm_env.truncate e) s st ''assistant_chat'' [(''system'', ''You are a helpful network security assistant.''), (''user'', prompt)] of
             Inr v \<Rightarrow> Some v
           | Inl (Provider_Error m) \<Rightarrow> Some (L_Str (error_text m))
           | Inl (Config_Error m) \<Rightarrow> Some (L_Str (error_text m))
           | Inl Other_Error \<Rightarrow> None))"

text \<open>Decoding an answer: no JSON, an object, or an exception (the answer is no text, or \<open>get\<close> of something that is no object).\<close>

datatype decoded = No_Json | Object "(string \<times> llm_json) list" | Bad_Answer

definition decode_answer :: "assistant_env \<Rightarrow> llm_json \<Rightarrow> decoded" where
  "decode_answer e v = (case v of
     L_Str s \<Rightarrow> (case le_loads e s of Inl m \<Rightarrow> No_Json | Inr (L_Obj kvs) \<Rightarrow> Object kvs | Inr _ \<Rightarrow> Bad_Answer)
   | _ \<Rightarrow> Bad_Answer)"

definition got_or :: "(string \<times> llm_json) list \<Rightarrow> string \<Rightarrow> llm_json \<Rightarrow> llm_json" where
  "got_or kvs k d = (case map_of kvs k of None \<Rightarrow> d | Some v \<Rightarrow> v)"

fun json_len :: "llm_json \<Rightarrow> nat option" where
  "json_len (L_Str s) = Some (length s)"
| "json_len (L_List xs) = Some (length xs)"
| "json_len (L_Obj kvs) = Some (length kvs)"
| "json_len _ = None"

abbreviation apos :: string where "apos \<equiv> [CHR 0x27]"

type_synonym reply_obj = "(string \<times> llm_json) list"

text \<open>The common shape of the handlers that decode an answer.\<close>

definition ask_model :: "assistant_env \<Rightarrow> assistant_db \<Rightarrow> string \<Rightarrow> reply_obj option \<Rightarrow> (reply_obj \<Rightarrow> reply_obj option) \<Rightarrow> reply_obj option" where
  "ask_model e db prompt otherwise f =
     (case call_llm e db prompt of
        None \<Rightarrow> None
      | Some v \<Rightarrow> (case decode_answer e v of No_Json \<Rightarrow> otherwise | Object kvs \<Rightarrow> f kvs | Bad_Answer \<Rightarrow> None))"

section \<open>Handlers\<close>

definition suggested_rule :: "reply_obj \<Rightarrow> llm_json" where
  "suggested_rule d = L_Obj
     [(''id'', L_Int (- 1)), (''name'', got_or d ''rule_name'' (L_Str ''New Rule'')), (''chain'', got_or d ''chain'' (L_Str ''forward'')),
      (''action'', got_or d ''action'' (L_Str ''accept'')), (''protocol'', got d ''protocol''), (''src_ip'', got d ''src_ip''), (''dst_ip'', got d ''dst_ip''),
      (''src_port'', got d ''src_port''), (''dst_port'', got d ''dst_port''), (''interface_in'', got d ''interface_in''), (''interface_out'', got d ''interface_out''),
      (''log'', got_or d ''log'' (L_Bool False)), (''enabled'', L_Bool True), (''order'', L_Int 100)]"

definition rule_suggested :: "assistant_env \<Rightarrow> reply_obj \<Rightarrow> reply_obj" where
  "rule_suggested e d =
     (if py_truthy (map_of d ''needs_clarification'')
      then [(''type'', L_Str ''clarification_needed''), (''message'', L_Str ''I need some clarification to create this rule:''),
        (''questions'', got_or d ''clarification_questions'' (L_List [])), (''suggested_rule'', L_Null)]
      else [(''type'', L_Str ''firewall_rule_suggestion''),
        (''message'', L_Str (''I'' @ apos @ ''ve created a firewall rule based on your request: '' @ py_text (llm_env.truncate e) (got d ''explanation''))),
        (''rule'', suggested_rule d), (''explanation'', got d ''explanation''), (''security_notes'', got d ''security_notes''), (''can_apply'', L_Bool True)])"

definition handle_firewall_rule_creation :: "assistant_env \<Rightarrow> assistant_db \<Rightarrow> string \<Rightarrow> llm_json \<Rightarrow> reply_obj option" where
  "handle_firewall_rule_creation e db message config = ask_model e db (ae_wording e Rule_Prompt message config)
     (Some [(''type'', L_Str ''error''), (''message'', L_Str ''I had trouble understanding your request. Could you rephrase it?''), (''suggested_rule'', L_Null)])
     (\<lambda>d. Some (rule_suggested e d))"

definition handle_test_case_generation :: "assistant_env \<Rightarrow> assistant_db \<Rightarrow> string \<Rightarrow> llm_json \<Rightarrow> reply_obj option" where
  "handle_test_case_generation e db message config = ask_model e db (ae_wording e Tests_Prompt message config)
     (Some [(''type'', L_Str ''error''), (''message'', L_Str (''I couldn'' @ apos @ ''t generate test cases from that request. Try being more specific about what you want to test.'')),
        (''test_cases'', L_List [])])
     (\<lambda>d. let tests = got_or d ''test_cases'' (L_List []) in map_option (\<lambda>n.
        [(''type'', L_Str ''test_cases_generated''), (''message'', L_Str (''I'' @ apos @ ''ve generated '' @ string_of_nat n @ '' test cases for you.'')),
         (''test_cases'', tests), (''explanation'', got d ''explanation''), (''coverage_assessment'', got d ''coverage_assessment''), (''can_run'', L_Bool True)])
        (json_len tests))"

definition handle_vpn_config :: "assistant_env \<Rightarrow> assistant_db \<Rightarrow> string \<Rightarrow> llm_json \<Rightarrow> reply_obj option" where
  "handle_vpn_config e db message config = ask_model e db (ae_wording e Vpn_Prompt message config)
     (Some [(''type'', L_Str ''error''), (''message'', L_Str (''I couldn'' @ apos @ ''t parse the VPN configuration. Please provide more details about your use case.'')),
        (''recommendation'', L_Null)])
     (\<lambda>d. Some
        [(''type'', L_Str ''vpn_config_suggestion''),
         (''message'', L_Str (''I'' @ apos @ ''ve prepared a VPN configuration for you: '' @ py_text (llm_env.truncate e) (got d ''explanation''))),
         (''recommendation'', got d ''recommendation''), (''configuration'', got d ''configuration''), (''security_settings'', got d ''security_settings''),
         (''can_apply'', L_Bool True)])"

definition handle_mail_setup :: "assistant_env \<Rightarrow> assistant_db \<Rightarrow> string \<Rightarrow> llm_json \<Rightarrow> reply_obj option" where
  "handle_mail_setup e db message config = ask_model e db (ae_wording e Mail_Prompt message config)
     (Some [(''type'', L_Str ''error''),
        (''message'', L_Str (''I couldn'' @ apos @ ''t parse the mail configuration. Please provide the domain name and any specific requirements.'')), (''domain_config'', L_Null)])
     (\<lambda>d. case got_or d ''domain_config'' (L_Obj []) of
        L_Obj c \<Rightarrow> Some
          [(''type'', L_Str ''mail_setup_suggestion''),
           (''message'', L_Str (''I'' @ apos @ ''ve prepared a mail domain configuration for '' @ py_text (llm_env.truncate e) (got c ''domain''))),
           (''domain_config'', got d ''domain_config''), (''dns_records'', got d ''dns_records''), (''explanation'', got d ''explanation''),
           (''deliverability_tips'', got_or d ''deliverability_tips'' (L_List [])), (''can_apply'', L_Bool True)]
      | _ \<Rightarrow> None)"

definition handle_explanation :: "assistant_env \<Rightarrow> assistant_db \<Rightarrow> string \<Rightarrow> llm_json \<Rightarrow> reply_obj option" where
  "handle_explanation e db message config =
     map_option (\<lambda>v. [(''type'', L_Str ''explanation''), (''message'', L_Str (''Here'' @ apos @ ''s an explanation of the configuration:'')),
       (''explanation'', v), (''can_apply'', L_Bool False)]) (call_llm e db (ae_wording e Explain_Prompt message config))"

definition cause :: "string \<Rightarrow> string \<Rightarrow> string \<Rightarrow> llm_json" where
  "cause c l k = L_Obj [(''cause'', L_Str c), (''likelihood'', L_Str l), (''check'', L_Str k)]"

definition general_steps :: "string \<Rightarrow> reply_obj" where
  "general_steps message =
     [(''type'', L_Str ''troubleshooting_guide''), (''message'', L_Str ''Here are some general troubleshooting steps:''),
      (''likely_causes'', L_List
        [cause ''Rule ordering issue'' ''medium'' ''Check if more specific rules are before general rules'',
         cause ''Interface misconfiguration'' ''medium'' ''Verify interface assignments'',
         cause ''NAT not configured'' (if contains ''internet'' (lower message) then ''high'' else ''low'') ''Check NAT rules for outbound traffic'']),
      (''diagnostic_commands'', L_List [L_Str ''nft list ruleset'', L_Str ''ip route show'', L_Str ''ping 8.8.8.8'']),
      (''suggested_fixes'', L_List []), (''can_apply'', L_Bool False)]"

definition handle_troubleshooting :: "assistant_env \<Rightarrow> assistant_db \<Rightarrow> string \<Rightarrow> llm_json \<Rightarrow> reply_obj option" where
  "handle_troubleshooting e db message config = ask_model e db (ae_wording e Trouble_Prompt message config)
     (Some (general_steps message))
     (\<lambda>d. Some
        [(''type'', L_Str ''troubleshooting_guide''),
         (''message'', L_Str (''I'' @ apos @ ''ve analyzed the issue: '' @ py_text (llm_env.truncate e) (got d ''explanation''))),
         (''likely_causes'', got_or d ''likely_causes'' (L_List [])), (''diagnostic_commands'', got_or d ''diagnostic_commands'' (L_List [])),
         (''suggested_fixes'', got_or d ''suggested_fixes'' (L_List [])), (''can_apply'', L_Bool False)])"

definition tip :: "string \<Rightarrow> string \<Rightarrow> string \<Rightarrow> llm_json" where
  "tip t d b = L_Obj [(''type'', L_Str t), (''description'', L_Str d), (''benefit'', L_Str b)]"

definition general_tips :: reply_obj where
  "general_tips =
     [(''type'', L_Str ''optimization_suggestions''), (''message'', L_Str ''Here are some general optimization tips:''),
      (''optimizations'', L_List [tip ''reorder'' ''Move most frequently matched rules to the top'' ''performance'',
         tip ''consolidate'' ''Combine rules with same action and similar criteria'' ''maintainability'']),
      (''security_gaps'', L_List [L_Str ''Consider adding rate limiting for SYN floods'']), (''performance_impact'', L_Str ''minor''), (''can_apply'', L_Bool False)]"

definition handle_optimization :: "assistant_env \<Rightarrow> assistant_db \<Rightarrow> string \<Rightarrow> llm_json \<Rightarrow> reply_obj option" where
  "handle_optimization e db message config = ask_model e db (ae_wording e Optimize_Prompt message config)
     (Some general_tips)
     (\<lambda>d. let found = got_or d ''optimizations'' (L_List []) in map_option (\<lambda>n.
        [(''type'', L_Str ''optimization_suggestions''),
         (''message'', L_Str (''I'' @ apos @ ''ve analyzed your configuration and found '' @ string_of_nat n @ '' potential improvements.'')),
         (''optimizations'', found), (''security_gaps'', got_or d ''security_gaps'' (L_List [])), (''performance_impact'', got d ''performance_impact''),
         (''can_apply'', L_Bool True)]) (json_len found))"

definition report_type :: "string \<Rightarrow> string \<Rightarrow> string \<Rightarrow> llm_json" where
  "report_type i n d = L_Obj [(''id'', L_Str i), (''name'', L_Str n), (''description'', L_Str d)]"

definition handle_report_generation :: "reply_obj" where
  "handle_report_generation =
     [(''type'', L_Str ''report_generated''), (''message'', L_Str ''I can generate reports for your configuration. What type of report would you like?''),
      (''report_types'', L_List [report_type ''security_audit'' ''Security Audit'' ''Analyze rules for security issues'',
         report_type ''performance_analysis'' ''Performance Analysis'' ''Identify performance bottlenecks'',
         report_type ''compliance_check'' ''Compliance Check'' ''Check against common standards (PCI-DSS, etc.)'',
         report_type ''change_summary'' ''Change Summary'' ''Summary of recent configuration changes'']),
      (''can_apply'', L_Bool False)]"

text \<open>The capabilities, each with the bytes of its symbol.\<close>

definition bytes :: "nat list \<Rightarrow> string" where
  "bytes = map char_of"

definition capabilities :: "string list" where
  "capabilities =
     [bytes [240, 159, 155, 161, 239, 184, 143] @ '' Create firewall rules (e.g., '' @ squoted ''Block SSH from the internet'' @ '')'',
      bytes [240, 159, 167, 170] @ '' Generate test cases (e.g., '' @ squoted ''Create tests for web server access'' @ '')'',
      bytes [240, 159, 148, 144] @ '' Set up VPN (e.g., '' @ squoted ''Create a VPN for remote workers'' @ '')'',
      bytes [240, 159, 147, 167] @ '' Configure mail (e.g., '' @ squoted ''Set up mail for example.com'' @ '')'',
      bytes [240, 159, 147, 138] @ '' Explain configurations (e.g., '' @ squoted ''Why is port 22 blocked?'' @ '')'',
      bytes [240, 159, 148, 167] @ '' Troubleshoot issues (e.g., '' @ squoted ''Users cant access the internet'' @ '')'',
      bytes [226, 154, 161] @ '' Optimize rules (e.g., '' @ squoted ''Clean up my firewall rules'' @ '')'']"

definition handle_unknown :: "reply_obj" where
  "handle_unknown = [(''type'', L_Str ''clarification_needed''), (''message'', L_Str (''I'' @ apos @ ''m not sure what you'' @ apos @ ''d like to do. I can help you with:'')),
     (''capabilities'', L_List (map L_Str capabilities)), (''can_apply'', L_Bool False)]"

definition process_request :: "assistant_env \<Rightarrow> assistant_db \<Rightarrow> string \<Rightarrow> llm_json \<Rightarrow> reply_obj option" where
  "process_request e db message config =
     (case classify_intent message of
        Create_Firewall_Rule \<Rightarrow> handle_firewall_rule_creation e db message config
      | Generate_Test_Case \<Rightarrow> handle_test_case_generation e db message config
      | Create_Vpn_Config \<Rightarrow> handle_vpn_config e db message config
      | Setup_Mail_Domain \<Rightarrow> handle_mail_setup e db message config
      | Explain_Configuration \<Rightarrow> handle_explanation e db message config
      | Troubleshoot \<Rightarrow> handle_troubleshooting e db message config
      | Optimize_Rules \<Rightarrow> handle_optimization e db message config
      | Generate_Report \<Rightarrow> Some handle_report_generation
      | Unknown_Intent \<Rightarrow> Some handle_unknown)"

definition generate_natural_language_summary :: "assistant_env \<Rightarrow> assistant_db \<Rightarrow> string \<Rightarrow> llm_json \<Rightarrow> llm_json option" where
  "generate_natural_language_summary e db config_type config = call_llm e db (ae_wording e Summary_Prompt config_type config)"

text \<open>Any failure to decode gives no tests.\<close>

definition suggest_tests_for_rule :: "assistant_env \<Rightarrow> assistant_db \<Rightarrow> llm_json \<Rightarrow> llm_json option" where
  "suggest_tests_for_rule e db rule =
     map_option (\<lambda>v. case decode_answer e v of Object d \<Rightarrow> got_or d ''test_cases'' (L_List []) | _ \<Rightarrow> L_List [])
       (call_llm e db (ae_wording e Rule_Tests_Prompt [] rule))"

section \<open>Endpoints\<close>

record chat_response =
  cr_type :: string
  cr_message :: string
  cr_data :: "reply_obj option"
  cr_can_apply :: bool
  cr_follow_up :: "string list option"

definition reply_text :: "reply_obj \<Rightarrow> string \<Rightarrow> string" where
  "reply_text r k = (case map_of r k of Some (L_Str s) \<Rightarrow> s | _ \<Rightarrow> [])"

definition reply_flag :: "reply_obj \<Rightarrow> string \<Rightarrow> bool" where
  "reply_flag r k = (map_of r k = Some (L_Bool True))"

definition picked :: "reply_obj \<Rightarrow> string list \<Rightarrow> reply_obj" where
  "picked r ks = map (\<lambda>k. (k, got r k)) ks"

text \<open>The keys of a reply that become the data of the response.\<close>

definition data_keys :: "(string \<times> string list) list" where
  "data_keys =
     [(''test_cases_generated'', [''test_cases'', ''explanation'', ''coverage_assessment'']),
      (''vpn_config_suggestion'', [''recommendation'', ''configuration'', ''security_settings'']),
      (''mail_setup_suggestion'', [''domain_config'', ''dns_records'', ''deliverability_tips'']),
      (''explanation'', [''explanation'']),
      (''troubleshooting_guide'', [''likely_causes'', ''diagnostic_commands'', ''suggested_fixes'']),
      (''optimization_suggestions'', [''optimizations'', ''security_gaps'', ''performance_impact''])]"

text \<open>A list of texts, as the schema requires.\<close>

fun texts_of :: "llm_json \<Rightarrow> string list option" where
  "texts_of (L_List xs) = those (map (\<lambda>v. case v of L_Str s \<Rightarrow> Some s | _ \<Rightarrow> None) xs)"
| "texts_of _ = None"

definition to_chat_response :: "assistant_env \<Rightarrow> assistant_db \<Rightarrow> reply_obj \<Rightarrow> nat + chat_response" where
  "to_chat_response e db r =
     (let base = \<lparr>cr_type = reply_text r ''type'', cr_message = reply_text r ''message'', cr_data = None, cr_can_apply = reply_flag r ''can_apply'', cr_follow_up = None\<rparr> in
      if cr_type base = ''firewall_rule_suggestion''
      then (case suggest_tests_for_rule e db (got_or r ''rule'' (L_Obj [])) of
          None \<Rightarrow> Inl 500
        | Some ts \<Rightarrow> Inr (base\<lparr>cr_data := Some (picked r [''rule'', ''explanation'', ''security_notes''] @ [(''suggested_tests'', ts)])\<rparr>))
      else if cr_type base = ''clarification_needed''
      then (case texts_of (if py_truthy (map_of r ''questions'') then got r ''questions'' else got_or r ''capabilities'' (L_List [])) of
          None \<Rightarrow> Inl 500
        | Some qs \<Rightarrow> Inr (base\<lparr>cr_follow_up := Some qs\<rparr>))
      else (case map_of data_keys (cr_type base) of
          None \<Rightarrow> Inr base
        | Some ks \<Rightarrow> Inr (base\<lparr>cr_data := Some (picked r ks)\<rparr>)))"

definition replied :: "token option \<Rightarrow> reply_obj option \<Rightarrow> (reply_obj \<Rightarrow> nat + 'a) \<Rightarrow> nat + 'a" where
  "replied tok r f = (case require_auth tok of Inl c \<Rightarrow> Inl c | Inr u \<Rightarrow> (case r of None \<Rightarrow> Inl 500 | Some d \<Rightarrow> f d))"

definition chat_with_assistant :: "assistant_env \<Rightarrow> token option \<Rightarrow> llm_session \<times> llm_state \<Rightarrow> string \<Rightarrow> llm_json \<Rightarrow> nat + chat_response" where
  "chat_with_assistant e tok db message config = replied tok (process_request e (Some db) message config) (to_chat_response e (Some db))"

text \<open>A field that must be a text, and one that must be a list of objects.\<close>

definition text_field :: "reply_obj \<Rightarrow> string \<Rightarrow> string option" where
  "text_field r k = (case got_or r k (L_Str []) of L_Str s \<Rightarrow> Some s | _ \<Rightarrow> None)"

fun objects_of :: "llm_json \<Rightarrow> reply_obj list option" where
  "objects_of (L_List xs) = those (map (\<lambda>v. case v of L_Obj kvs \<Rightarrow> Some kvs | _ \<Rightarrow> None) xs)"
| "objects_of _ = None"

record rule_suggestion =
  rs_rule :: reply_obj
  rs_explanation :: string
  rs_notes :: string
  rs_tests :: "reply_obj list"

text \<open>These endpoints give the assistant no database.\<close>

definition suggest_firewall_rule :: "assistant_env \<Rightarrow> token option \<Rightarrow> string \<Rightarrow> nat + rule_suggestion" where
  "suggest_firewall_rule e tok description =
     replied tok (process_request e None (''Create firewall rule: '' @ description) L_Null) (\<lambda>r.
       if reply_text r ''type'' \<noteq> ''firewall_rule_suggestion'' then Inl 400
       else (case suggest_tests_for_rule e None (got_or r ''rule'' (L_Obj [])) of
           None \<Rightarrow> Inl 500
         | Some ts \<Rightarrow>
             (case (got_or r ''rule'' (L_Obj []), text_field r ''explanation'', text_field r ''security_notes'', objects_of ts) of
                (L_Obj rule, Some x, Some n, Some os) \<Rightarrow> Inr \<lparr>rs_rule = rule, rs_explanation = x, rs_notes = n, rs_tests = os\<rparr>
              | _ \<Rightarrow> Inl 500)))"

record test_generation =
  tg_tests :: "reply_obj list"
  tg_explanation :: string
  tg_coverage :: string

definition generate_tests :: "assistant_env \<Rightarrow> token option \<Rightarrow> string \<Rightarrow> llm_json \<Rightarrow> nat + test_generation" where
  "generate_tests e tok description config =
     replied tok (process_request e None (''Generate test cases: '' @ description) config) (\<lambda>r.
       if reply_text r ''type'' \<noteq> ''test_cases_generated'' then Inl 400
       else (case (objects_of (got_or r ''test_cases'' (L_List [])), text_field r ''explanation'', text_field r ''coverage_assessment'') of
           (Some ts, Some x, Some c) \<Rightarrow> Inr \<lparr>tg_tests = ts, tg_explanation = x, tg_coverage = c\<rparr>
         | _ \<Rightarrow> Inl 500))"

definition explain_configuration :: "assistant_env \<Rightarrow> token option \<Rightarrow> string \<Rightarrow> llm_json \<Rightarrow> string option \<Rightarrow> nat + llm_json \<times> llm_json" where
  "explain_configuration e tok config_type config question =
     replied tok (process_request e None (if truthy_str question then or_empty question else ''Explain this configuration'') config) (\<lambda>r.
       case generate_natural_language_summary e None config_type config of
         None \<Rightarrow> Inl 500
       | Some s \<Rightarrow> Inr (got_or r ''explanation'' (L_Str []), s))"

record security_audit =
  sa_findings :: "(string \<times> string) list"
  sa_score :: int
  sa_recommendations :: "string list"
  sa_status :: "string \<times> string"

text \<open>A finding is its severity and description; the other fields are fixed.\<close>

definition audit_findings :: "llm_json \<Rightarrow> (string \<times> string) list option" where
  "audit_findings gaps = (case iterated gaps of
     Inl f \<Rightarrow> None
   | Inr gs \<Rightarrow> those (map (\<lambda>g. case g of L_Str s \<Rightarrow> Some (if contains ''critical'' (lower s) then ''high'' else ''medium'', s) | _ \<Rightarrow> None) gs))"

definition perform_security_audit :: "assistant_env \<Rightarrow> token option \<Rightarrow> llm_json \<Rightarrow> string option \<Rightarrow> nat + security_audit" where
  "perform_security_audit e tok config standard =
     (case require_admin tok of
        Inl c \<Rightarrow> Inl c
      | Inr u \<Rightarrow>
          (let name = (if truthy_str standard then or_empty standard else ''general'') in
           case handle_optimization e None (''Security audit for '' @ name @ '' compliance'') config of
             None \<Rightarrow> Inl 500
           | Some r \<Rightarrow>
               (let gaps = got_or r ''security_gaps'' (L_List []) in
                case (json_len gaps, audit_findings gaps, texts_of (got_or r ''optimizations'' (L_List []))) of
                  (Some n, Some fs, Some os) \<Rightarrow>
                    (let score = max 0 (100 - int n * 10) in
                     Inr \<lparr>sa_findings = fs, sa_score = score, sa_recommendations = os, sa_status = (name, if 80 < score then ''compliant'' else ''needs_improvement'')\<rparr>)
                | _ \<Rightarrow> Inl 500)))"

definition troubleshoot_issue :: "assistant_env \<Rightarrow> token option \<Rightarrow> string \<Rightarrow> llm_json \<Rightarrow> nat + reply_obj" where
  "troubleshoot_issue e tok description config = replied tok (process_request e None (''Troubleshoot: '' @ description) config) Inr"

end
