(* ===== verification/Llm_Claims.thy ===== *)
theory Llm_Claims
  imports Llm_Props Llm_Assistant Gw_Mail_Claims
begin

text \<open>
  The properties of the registry of language models, of classification by it, and of the assistant, each with a concrete instance.
\<close>

section \<open>A registry\<close>

definition empty_registry :: llm_state where
  "empty_registry = \<lparr>ll_providers = empty_table, ll_models = empty_table, ll_uses = empty_table\<rparr>"

lemma empty_registry_inv: "llm_inv empty_registry"
proof -
  have "row_get empty_table k = None" for k by (simp add: row_get_def empty_table_def)
  then show ?thesis by (simp add: llm_inv_def empty_registry_def rows_all_def points_to_def keyed_def named_in_def)
qed

definition lab_provider :: provider_create where
  "lab_provider = \<lparr>pvc_name = ''local'', pvc_type = Type_Ollama, pvc_base = None, pvc_key = None, pvc_enabled = True, pvc_default = True\<rparr>"

definition lab_model :: model_create where
  "lab_model = \<lparr>lmc_provider = 1, lmc_name = ''llama3.2'', lmc_display = None, lmc_about = None, lmc_max = None, lmc_vision = False, lmc_enabled = True\<rparr>"

definition lab_use :: "llm_use_case \<Rightarrow> use_create" where
  "lab_use u = \<lparr>ucc_use = u, ucc_provider = Some 1, ucc_model = Some 1, ucc_temperature = 3 / 10, ucc_max = 500, ucc_top = 1, ucc_prompt = None, ucc_timeout = 30,
     ucc_enabled = True\<rparr>"

definition lab_registry :: "llm_use_case \<Rightarrow> llm_state" where
  "lab_registry u = llm_run [(lab_admin, New_Provider lab_provider), (lab_admin, New_Model lab_model), (lab_admin, New_Use (lab_use u))] empty_registry"

lemma lab_registry_inv: "llm_inv (lab_registry u)"
  unfolding lab_registry_def by (rule llm_run_inv[OF empty_registry_inv])

text \<open>A peer that lists two models and answers every chat with one classification.\<close>

definition lab_llm_env :: llm_env where
  "lab_llm_env = \<lparr>le_http = (\<lambda>r. if lr_get r then Reply (L_Obj [(''models'', L_List [L_Obj [(''name'', L_Str ''llama3.2'')], L_Obj [(''name'', L_Str ''qwen3'')]])])
       else Reply (L_Obj [(''message'', L_Obj [(''content'', L_Str ''answer'')])])),
     le_loads = (\<lambda>s. if s = ''{}'' then Inr (L_Obj []) else if s = ''answer'' then Inr (L_Obj [(''category'', L_Str ''Spam''), (''confidence'', L_Int 7)])
       else if contains ''Incomplete'' s then Inr (L_Obj [(''error'', L_Str ''Incomplete LLM configuration for use case: assistant_chat'')])
       else Inr (L_Obj [(''error'', L_Str ''No enabled LLM configuration found for use case: assistant_chat'')])),
     le_text = (\<lambda>v. []), le_float = (\<lambda>s. None)\<rparr>"

definition lab_assistant :: assistant_env where
  "lab_assistant = llm_env.extend lab_llm_env \<lparr>ae_wording = (\<lambda>t m c. m)\<rparr>"

abbreviation fresh :: llm_session where
  "fresh \<equiv> \<lparr>ls_providers = [], ls_models = []\<rparr>"

section \<open>The registry\<close>

text \<open>Whatever calls were made from the empty registry: a model belongs to a stored provider, a use case names only stored providers and models, no two rows are
  for the same use case, and every provider is of one of the four types.\<close>

theorem llm_rows_invariant:
  assumes "st = llm_run cs empty_registry"
  shows "(\<forall>j m. row_get (ll_models st) j = Some m \<longrightarrow> row_get (ll_providers st) (lm_provider m) \<noteq> None)
    \<and> (\<forall>k c i. row_get (ll_uses st) k = Some c \<longrightarrow> (uc_provider c = Some i \<longrightarrow> row_get (ll_providers st) i \<noteq> None) \<and> (uc_model c = Some i \<longrightarrow> row_get (ll_models st) i \<noteq> None))
    \<and> (\<forall>i j c q. row_get (ll_uses st) i = Some c \<longrightarrow> row_get (ll_uses st) j = Some q \<longrightarrow> uc_use c = uc_use q \<longrightarrow> i = j)
    \<and> (\<forall>k p. row_get (ll_providers st) k = Some p \<longrightarrow> pv_type p \<in> set provider_type_texts)"
proof -
  have "llm_inv st" unfolding assms by (rule llm_run_inv[OF empty_registry_inv])
  note d = llm_invD[OF this]
  show ?thesis
    using points_toD[OF d(5)] d(4,8,9) keyedD[OF d(6)] unfolding named_in_def rows_all_def provider_known_def by blast
qed

theorem llm_rows_invariant_witness:
  "\<not> (\<exists>i. uc_provider (snd (hd (tb_rows (ll_uses (llm_handle lab_admin (Drop_Provider 1) (lab_registry Assistant_Chat)))))) = Some i)"
proof -
  let ?cs = "[(lab_admin, New_Provider lab_provider), (lab_admin, New_Model lab_model), (lab_admin, New_Use (lab_use Assistant_Chat)), (lab_admin, Drop_Provider 1)]"
  let ?st = "llm_run ?cs empty_registry"
  have st: "llm_handle lab_admin (Drop_Provider 1) (lab_registry Assistant_Chat) = ?st" by (simp add: lab_registry_def llm_run_def)
  have "map fst (tb_rows (ll_uses ?st)) = [1]" "tb_rows (ll_providers ?st) = []" by code_simp+
  then obtain c where c: "tb_rows (ll_uses ?st) = [(1, c)]" and p: "row_get (ll_providers ?st) k = None" for k by (auto simp: row_get_def)
  have "row_get (ll_uses ?st) 1 = Some c" using c by (simp add: row_get_def)
  then have "uc_provider c \<noteq> Some i" for i using conjunct1[OF conjunct2[OF llm_rows_invariant[OF refl, of ?cs]], rule_format] p by blast
  then show ?thesis unfolding st c by simp
qed

text \<open>C26: An answered import leaves every stored model as it is, adds only disabled models of that provider with names it did not have, and makes the same import add
  nothing when it is repeated.\<close>

theorem sync_imports_once:
  assumes "llm_inv st" "sync_provider_models e tok k st = (Inr (n, c), st')"
  shows "(\<forall>j m. row_get (ll_models st) j = Some m \<longrightarrow> row_get (ll_models st') j = Some m)
    \<and> (\<forall>j m. row_get (ll_models st') j = Some m \<longrightarrow> row_get (ll_models st) j = None \<longrightarrow> lm_provider m = k \<and> \<not> lm_enabled m \<and> lm_name m \<notin> set (model_names st k))
    \<and> sync_provider_models e tok k st' = (Inr (n, 0), st')"
proof -
  from assms(2) obtain ms rs u where m: "require_admin tok = Inr u" "discovered_models e k st = Inr ms" "imported_models k (model_names st k) ms = Some rs" "n = length ms"
    "st' = st\<lparr>ll_models := add_rows rs (ll_models st)\<rparr>" by (rule sync_cases)
  note ok = llm_invD(2)[OF assms(1)]
  have "set (model_names st k) \<union> lm_name ` set rs \<subseteq> set (model_names st' k)"
    unfolding m(5) using add_rows_keep[OF ok] add_rows_all[OF ok] imported_models_rows[OF m(3)] model_names_get[OF ok] add_rows_ok[OF ok, of rs]
    by (subst model_names_get) (auto simp: image_iff, blast+)
  then have "fm_id x \<in> L_Str ` set (model_names st' k)" if "x \<in> set ms" for x using imported_models_cover[OF m(3) that] by blast
  then have "imported_models k (model_names st' k) ms = Some []" by (rule imported_models_none)
  then have "sync_provider_models e tok k st' = (Inr (n, 0), st')"
    using m(1,2,4) by (simp add: sync_provider_models_def llm_admin_def m(5) discovered_models_frame)
  moreover have "\<forall>j q. row_get (ll_models st) j = Some q \<longrightarrow> row_get (ll_models st') j = Some q" using add_rows_keep[OF ok] by (simp add: m(5))
  moreover have "\<forall>j q. row_get (ll_models st') j = Some q \<longrightarrow> row_get (ll_models st) j = None \<longrightarrow>
      lm_provider q = k \<and> \<not> lm_enabled q \<and> lm_name q \<notin> set (model_names st k)"
    using add_rows_new[OF ok, of rs] imported_models_rows[OF m(3)] by (fastforce simp: m(5))
  ultimately show ?thesis by blast
qed

theorem sync_imports_once_witness:
  "fst (sync_provider_models lab_llm_env lab_admin 1 (lab_registry Assistant_Chat)) = Inr (2, 1)
   \<and> fst (sync_provider_models lab_llm_env lab_admin 1 (snd (sync_provider_models lab_llm_env lab_admin 1 (lab_registry Assistant_Chat)))) = Inr (2, 0)"
proof -
  have "fst (sync_provider_models lab_llm_env lab_admin 1 (lab_registry Assistant_Chat)) = Inr (2, 1)" by code_simp
  then show ?thesis using sync_imports_once[OF lab_registry_inv] by (metis fst_conv prod.collapse)
qed

section \<open>Use cases\<close>

text \<open>The switches of providers and models are not read by the use cases: any change of them leaves every classification and chat as it was.\<close>

theorem switched_off_still_serves:
  "classify_for_use_case e s (st\<lparr>ll_providers := each_row (\<lambda>p. p\<lparr>pv_enabled := switch p\<rparr>) (ll_providers st), ll_models := each_row (\<lambda>m. m\<lparr>lm_enabled := flag m\<rparr>) (ll_models st)\<rparr>) u prompt
     = classify_for_use_case e s st u prompt
   \<and> chat_for_use_case e s (st\<lparr>ll_providers := each_row (\<lambda>p. p\<lparr>pv_enabled := switch p\<rparr>) (ll_providers st), ll_models := each_row (\<lambda>m. m\<lparr>lm_enabled := flag m\<rparr>) (ll_models st)\<rparr>) u ms
     = chat_for_use_case e s st u ms"
proof -
  let ?st = "st\<lparr>ll_providers := each_row (\<lambda>p. p\<lparr>pv_enabled := switch p\<rparr>) (ll_providers st), ll_models := each_row (\<lambda>m. m\<lparr>lm_enabled := flag m\<rparr>) (ll_models st)\<rparr>"
  let ?f = "map_sum id (\<lambda>(k, p, m, c). (k, p\<lparr>pv_enabled := switch p\<rparr>, m\<lparr>lm_enabled := flag m\<rparr>, c))"
  have r: "related_row held (each_row g t) i = map_sum id (map_option g) (related_row held t i)" for held i and g :: "'r \<Rightarrow> 'r" and t
    by (simp add: related_row_def each_row_get split: option.split)
  have "use_case_target s ?st u = ?f (use_case_target s st u)"
    by (auto simp: use_case_target_def get_use_case_config_def r sum.map_comp comp_def id_def split: sum.split option.split)
  moreover have "service_url k (p\<lparr>pv_enabled := b\<rparr>) = service_url k p" for k p b by (simp add: service_url_def)
  then have "chat_request k (p\<lparr>pv_enabled := b\<rparr>) a = chat_request k p a" for k p b a by (simp add: chat_request_def openai_chat_request_def anthropic_chat_request_def ollama_chat_request_def split: provider_kind.split)
  then have c: "chat e k (p\<lparr>pv_enabled := b\<rparr>) a = chat e k p a" for k p b a by (simp add: chat_def)
  then have "classify e k (p\<lparr>pv_enabled := b\<rparr>) q n t x = classify e k p q n t x" for k p b q n t x by (simp add: classify_def)
  ultimately show ?thesis using c by (cases "use_case_target s st u") (auto simp: classify_for_use_case_def chat_for_use_case_def)
qed

text \<open>A classification has a confidence between 0 and 1 and a reason of at most 200 characters, whatever the peer answers, and names the type and
  model of stored rows; the provider is never a custom one.\<close>

theorem classification_bounded:
  assumes "classify_for_use_case e s st u prompt = Inr a"
  shows "0 \<le> la_confidence a \<and> la_confidence a \<le> 1 \<and> length (la_reason a) \<le> 200 \<and> la_provider a \<in> {''openai'', ''anthropic'', ''ollama''}
    \<and> (\<exists>k p. row_get (ll_providers st) k = Some p \<and> pv_type p = la_provider a) \<and> (\<exists>j m. row_get (ll_models st) j = Some m \<and> lm_name m = la_model a)"
proof -
  obtain k p m c r where t: "use_case_target s st u = Inr (k, p, m, c)" and r: "classify e k p prompt (L_Str (lm_name m)) (uc_temperature c) (uc_max c) = Inr r"
    using assms by (auto simp: classify_for_use_case_def map_sum_def split: sum.splits prod.splits)
  have a: "la_confidence a = fst (snd r)" "la_reason a = snd (snd r)" "la_provider a = pv_type p" "la_model a = lm_name m"
    using assms by (auto simp: classify_for_use_case_def t r split: prod.splits)
  obtain v where "parse_json_response e v = Inr r" using r by (auto simp: classify_def split: sum.splits)
  then have "0 \<le> fst (snd r) \<and> fst (snd r) \<le> 1 \<and> length (snd (snd r)) \<le> 200"
    by (auto simp: parse_json_response_def clamped_def split: llm_json.splits sum.splits option.splits bool.splits)
  moreover have "create_provider (pv_type p) = Inr k" "\<exists>i. row_get (ll_providers st) i = Some p" "\<exists>j. row_get (ll_models st) j = Some m"
    using t by (auto simp: use_case_target_def related_row_def map_sum_def split: sum.splits option.splits if_splits)
  moreover from this(1) have "pv_type p \<in> {''openai'', ''anthropic'', ''ollama''}" by (auto simp: create_provider_def provider_registry_def split: option.splits if_splits)
  ultimately show ?thesis using a by auto
qed

theorem classification_bounded_witness:
  "\<exists>a. classify_for_use_case lab_llm_env \<lparr>ls_providers = [1], ls_models = [1]\<rparr> (lab_registry Email_Classification) ''email_classification'' ''p'' = Inr a
     \<and> la_category a = ''spam'' \<and> la_confidence a \<le> 1"
proof -
  let ?r = "classify_for_use_case lab_llm_env \<lparr>ls_providers = [1], ls_models = [1]\<rparr> (lab_registry Email_Classification) ''email_classification'' ''p''"
  have "map_sum (\<lambda>x. ()) la_category ?r = Inr ''spam''" by code_simp
  then obtain a where "?r = Inr a" "la_category a = ''spam''" by (cases ?r) auto
  then show ?thesis using classification_bounded by blast
qed

text \<open>A session that holds no rows, as every request has: nothing is served.\<close>

definition names_provider :: "llm_state \<Rightarrow> string \<Rightarrow> bool" where
  "names_provider st u \<longleftrightarrow> (\<exists>k c. row_get (ll_uses st) k = Some c \<and> uc_use c = u \<and> uc_enabled c = Some True \<and> uc_provider c \<noteq> None)"

lemma fresh_target:
  assumes "llm_inv st"
  shows "use_case_target fresh st u =
    (if names_provider st u then Inl Other_Error
     else if get_use_case_config st u = Inr None then Inl (Config_Error (''No enabled LLM configuration found for use case: '' @ u))
     else Inl (Config_Error (''Incomplete LLM configuration for use case: '' @ u)))"
proof (rule use_config_cases[OF assms, of u])
  assume g: "get_use_case_config st u = Inr None" "\<And>k c. row_get (ll_uses st) k = Some c \<Longrightarrow> uc_use c = u \<Longrightarrow> uc_enabled c \<noteq> Some True"
  then have "\<not> names_provider st u" by (auto simp: names_provider_def)
  then show ?thesis using g(1) by (simp add: use_case_target_def)
next
  fix k c assume g: "get_use_case_config st u = Inr (Some c)" "row_get (ll_uses st) k = Some c" "uc_use c = u" "uc_enabled c = Some True"
  then have "c' = c" if "row_get (ll_uses st) j = Some c'" "uc_use c' = u" for j c'
    using keyedD[OF llm_invD(6)[OF assms] that(1) g(2)] that by simp
  then have "names_provider st u \<longleftrightarrow> uc_provider c \<noteq> None" unfolding names_provider_def using g(2-4) by metis
  then show ?thesis using g(1) by (auto simp: use_case_target_def related_row_def)
qed

text \<open>The model of the mail classifier: its client is the use case \<open>email_classification\<close> of the registry.\<close>

definition registry_llm :: "llm_env \<Rightarrow> llm_session \<Rightarrow> llm_state \<Rightarrow> string \<Rightarrow> llm_outcome" where
  "registry_llm e s st prompt = (case classify_for_use_case e s st ''email_classification'' prompt of
     Inl (Provider_Error m) \<Rightarrow> Llm_Error m | Inl (Config_Error m) \<Rightarrow> Llm_Error m | Inl Other_Error \<Rightarrow> Llm_Raised | Inr a \<Rightarrow> Llm_Answer a)"

text \<open>C39: In a session that holds no rows of the registry, as each request has, no mail is ever classified: with a configuration that names a provider the classifier
  ends in an exception it does not handle, and without one it reports an error.\<close>

theorem mail_never_classified:
  assumes "llm_inv st"
  shows "\<exists>m. classify_email (registry_llm e fresh st) subject sender preview cs = (if names_provider st ''email_classification'' then Classify_Raised else Not_Classified m)"
  by (simp add: classify_email_def Let_def registry_llm_def classify_for_use_case_def fresh_target[OF assms])

theorem mail_never_classified_witness:
  "classify_email (registry_llm lab_llm_env fresh (lab_registry Email_Classification)) ''s'' ''x@y.z'' None None = Classify_Raised"
proof -
  let ?st = "lab_registry Email_Classification"
  have "map_option (\<lambda>c. (uc_use c, uc_enabled c, uc_provider c)) (row_get (ll_uses ?st) 1) = Some (''email_classification'', Some True, Some 1)" by code_simp
  then have "names_provider ?st ''email_classification''" by (auto simp: names_provider_def)
  then show ?thesis using mail_never_classified[OF lab_registry_inv, of lab_llm_env Email_Classification "''s''" "''x@y.z''" None None] by simp
qed

section \<open>The assistant\<close>

text \<open>A rule that accepts every forwarded packet.\<close>

definition accept_all :: chat_response where
  "accept_all = \<lparr>cr_type = ''firewall_rule_suggestion'', cr_message = ''I'' @ apos @ ''ve created a firewall rule based on your request: None'',
     cr_data = Some [(''rule'', suggested_rule []), (''explanation'', L_Null), (''security_notes'', L_Null), (''suggested_tests'', L_List [])],
     cr_can_apply = True, cr_follow_up = None\<rparr>"

lemma fresh_call:
  assumes "llm_inv st"
  shows "call_llm e (Some (fresh, st)) p = (if names_provider st ''assistant_chat'' then None
    else if get_use_case_config st ''assistant_chat'' = Inr None then Some (L_Str (error_text ''No enabled LLM configuration found for use case: assistant_chat''))
    else Some (L_Str (error_text ''Incomplete LLM configuration for use case: assistant_chat'')))"
  by (simp add: call_llm_def chat_for_use_case_def fresh_target[OF assms])

text \<open>C40: When the assistant has no usable configuration, a request for a firewall rule, also one to block something, is answered with a rule that accepts all forwarded
  traffic and is marked as ready to apply; with a configuration that names a provider the request is always a 500.\<close>

theorem unserved_assistant_accepts_all:
  assumes "llm_inv st" "require_auth tok = Inr u" "classify_intent message = Create_Firewall_Rule"
    "\<And>m. m \<in> {''No enabled LLM configuration found for use case: assistant_chat'', ''Incomplete LLM configuration for use case: assistant_chat''}
       \<Longrightarrow> le_loads e (error_text m) = Inr (L_Obj [(''error'', L_Str m)])"
  shows "chat_with_assistant e tok (fresh, st) message config = (if names_provider st ''assistant_chat'' then Inl 500 else Inr accept_all)"
proof (cases "names_provider st ''assistant_chat''")
  case True
  then show ?thesis using assms(2,3) by (simp add: chat_with_assistant_def replied_def process_request_def handle_firewall_rule_creation_def ask_model_def fresh_call[OF assms(1)])
next
  case False
  then obtain m where c: "call_llm e (Some (fresh, st)) p = Some (L_Str (error_text m))" "le_loads e (error_text m) = Inr (L_Obj [(''error'', L_Str m)])" for p
    using assms(4) fresh_call[OF assms(1), of e] by (cases "get_use_case_config st ''assistant_chat'' = Inr None") auto
  have d: "decode_answer e (L_Str (error_text m)) = Object [(''error'', L_Str m)]" by (simp add: decode_answer_def c(2))
  have "process_request e (Some (fresh, st)) message config = Some (rule_suggested e [(''error'', L_Str m)])"
    using assms(3) by (simp add: process_request_def handle_firewall_rule_creation_def ask_model_def c(1) d)
  moreover have "suggest_tests_for_rule e (Some (fresh, st)) r = Some (L_List [])" for r by (simp add: suggest_tests_for_rule_def c(1) d got_or_def)
  moreover have "suggested_rule [(''error'', L_Str m)] = suggested_rule []" by (simp add: suggested_rule_def got_or_def got_def)
  ultimately show ?thesis using False assms(2)
    by (simp add: chat_with_assistant_def replied_def to_chat_response_def rule_suggested_def reply_text_def reply_flag_def picked_def got_def got_or_def accept_all_def)
qed

theorem unserved_assistant_accepts_all_witness:
  "chat_with_assistant lab_assistant lab_admin (fresh, empty_registry) ''Block SSH from the internet'' L_Null = Inr accept_all"
proof -
  have "classify_intent ''Block SSH from the internet'' = Create_Firewall_Rule" "require_auth lab_admin = Inr 1" by code_simp+
  moreover have "\<not> names_provider empty_registry ''assistant_chat''" by (simp add: names_provider_def empty_registry_def row_get_def empty_table_def)
  moreover have "le_loads lab_assistant (error_text ''No enabled LLM configuration found for use case: assistant_chat'')
      = Inr (L_Obj [(''error'', L_Str ''No enabled LLM configuration found for use case: assistant_chat'')])"
    "le_loads lab_assistant (error_text ''Incomplete LLM configuration for use case: assistant_chat'')
      = Inr (L_Obj [(''error'', L_Str ''Incomplete LLM configuration for use case: assistant_chat'')])" by code_simp+
  ultimately show ?thesis using unserved_assistant_accepts_all[OF empty_registry_inv, of lab_admin 1 "''Block SSH from the internet''" lab_assistant L_Null] by auto
qed

text \<open>The endpoints without a database get the answer \<open>{}\<close> to every prompt.\<close>

lemma no_db_answer: "le_loads e ''{}'' = Inr (L_Obj []) \<Longrightarrow> ask_model e None p x f = f []"
  by (simp add: ask_model_def call_llm_def decode_answer_def)

text \<open>The security audit looks at no rule: every audit by an administrator answers the score 100, no findings, and that the rules comply.\<close>

theorem audit_always_compliant:
  assumes "require_admin tok = Inr u" "le_loads e ''{}'' = Inr (L_Obj [])"
  shows "perform_security_audit e tok rules standard = Inr \<lparr>sa_findings = [], sa_score = 100, sa_recommendations = [],
     sa_status = (if truthy_str standard then or_empty standard else ''general'', ''compliant'')\<rparr>"
  using assms(1) no_db_answer[OF assms(2)]
  by (simp add: perform_security_audit_def Let_def handle_optimization_def got_or_def audit_findings_def)

theorem audit_always_compliant_witness:
  "perform_security_audit lab_assistant lab_admin (L_List [L_Str ''accept any any'']) (Some ''pci-dss'')
   = Inr \<lparr>sa_findings = [], sa_score = 100, sa_recommendations = [], sa_status = (''pci-dss'', ''compliant'')\<rparr>"
proof -
  have "require_admin lab_admin = Inr 1" "le_loads lab_assistant ''{}'' = Inr (L_Obj [])" by code_simp+
  then show ?thesis using audit_always_compliant[of lab_admin 1 lab_assistant "L_List [L_Str ''accept any any'']" "Some ''pci-dss''"] by (simp add: truthy_str_def or_empty_def)
qed

lemma find_first: "list_ex (\<lambda>w. contains w (lower m)) [''firewall rule'', ''block'', ''allow'', ''permit'', ''deny'', ''port'', ''open port''] \<Longrightarrow> classify_intent m = Create_Firewall_Rule"
  by (simp add: classify_intent_def intent_words_def)

lemma lower_append: "lower (a @ b) = lower a @ lower b"
  by (simp add: lower_def)

lemma rule_request: "classify_intent (''Create firewall rule: '' @ d) = Create_Firewall_Rule"
proof -
  have "lower ''Create firewall rule: '' = ''create '' @ ''firewall rule'' @ '': ''" by code_simp
  then have "lower (''Create firewall rule: '' @ d) = ''create '' @ ''firewall rule'' @ '': '' @ lower d" by (simp only: lower_append append_assoc)
  then have "contains ''firewall rule'' (lower (''Create firewall rule: '' @ d))" by (metis contains_iff)
  then show ?thesis by (intro find_first) simp
qed

lemma known_intent:
  assumes "(i, ws) \<in> set intent_words" "w \<in> set ws" "contains w (lower m)"
  shows "classify_intent m \<noteq> Unknown_Intent"
proof -
  let ?P = "\<lambda>(i, ws). list_ex (\<lambda>w. contains w (lower m)) ws"
  have "?P (i, ws)" using assms(2,3) by (auto simp: list_ex_iff)
  then have "List.find ?P intent_words \<noteq> None" using assms(1) unfolding find_None_iff by blast
  then obtain e where e: "List.find ?P intent_words = Some e" by blast
  then have "e \<in> set intent_words" by (metis find_Some_iff nth_mem)
  moreover have "Unknown_Intent \<notin> fst ` set intent_words" by (simp add: intent_words_def)
  ultimately have "fst e \<noteq> Unknown_Intent" by force
  then show ?thesis using e by (cases e) (simp add: classify_intent_def)
qed

lemma tests_request: "classify_intent (''Generate test cases: '' @ d) \<noteq> Unknown_Intent"
proof -
  have "lower ''Generate test cases: '' = ''generate '' @ ''test'' @ '' cases: ''" by code_simp
  then have "lower (''Generate test cases: '' @ d) = ''generate '' @ ''test'' @ '' cases: '' @ lower d" by (simp only: lower_append append_assoc)
  then have t: "contains ''test'' (lower (''Generate test cases: '' @ d))" by (metis contains_iff)
  have i: "(Generate_Test_Case, [''test'', ''check if'', ''verify'', ''simulation'']) \<in> set intent_words" by (simp add: intent_words_def)
  show ?thesis by (rule known_intent[OF i _ t]) simp
qed

text \<open>Every message with the word report is taken for a request for a firewall rule, because it contains the word port.\<close>

lemma report_is_rule_request: "contains ''report'' (lower m) \<Longrightarrow> classify_intent m = Create_Firewall_Rule"
proof -
  assume "contains ''report'' (lower m)"
  then obtain a b where "lower m = (a @ ''re'') @ ''port'' @ b" by (auto simp: contains_iff)
  then have "contains ''port'' (lower m)" by (metis contains_iff)
  then show ?thesis by (intro find_first) simp
qed

lemma no_db_reply:
  assumes "le_loads e ''{}'' = Inr (L_Obj [])"
  shows "\<exists>r. process_request e None m c = Some r \<and> (reply_text r ''type'' = ''test_cases_generated'' \<longleftrightarrow> classify_intent m = Generate_Test_Case)
    \<and> (reply_text r ''type'' = ''test_cases_generated'' \<longrightarrow> text_field r ''explanation'' = None)"
proof -
  note n = no_db_answer[OF assms] and g = reply_text_def text_field_def got_or_def got_def
  show ?thesis
    by (cases "classify_intent m")
      (simp_all add: process_request_def handle_firewall_rule_creation_def handle_test_case_generation_def handle_vpn_config_def handle_mail_setup_def
        handle_explanation_def handle_troubleshooting_def handle_optimization_def handle_report_generation_def handle_unknown_def call_llm_def
        rule_suggested_def n g Let_def)
qed

text \<open>A rule suggestion is always a 500, and test generation is always a 400 or a 500; it is a 400 when the description has a word of a firewall rule, as the
  documented example has.\<close>

theorem suggestions_never_answer:
  assumes "require_auth tok = Inr u" "le_loads e ''{}'' = Inr (L_Obj [])"
  shows "suggest_firewall_rule e tok d = Inl 500
    \<and> generate_tests e tok d config = Inl (if classify_intent (''Generate test cases: '' @ d) = Generate_Test_Case then 500 else 400)"
proof
  note n = no_db_answer[OF assms(2)]
  have "process_request e None (''Create firewall rule: '' @ d) L_Null = Some (rule_suggested e [])"
    unfolding process_request_def rule_request handle_firewall_rule_creation_def by (simp add: n)
  moreover have "text_field (rule_suggested e []) ''explanation'' = None" by (simp add: text_field_def rule_suggested_def got_or_def got_def)
  moreover have "reply_text (rule_suggested e []) ''type'' = ''firewall_rule_suggestion''" by (simp add: reply_text_def rule_suggested_def)
  ultimately show "suggest_firewall_rule e tok d = Inl 500"
    using assms(1) by (simp add: suggest_firewall_rule_def replied_def split: option.split llm_json.split)
  obtain r where r: "process_request e None (''Generate test cases: '' @ d) config = Some r"
    "reply_text r ''type'' = ''test_cases_generated'' \<longleftrightarrow> classify_intent (''Generate test cases: '' @ d) = Generate_Test_Case"
    "reply_text r ''type'' = ''test_cases_generated'' \<Longrightarrow> text_field r ''explanation'' = None"
    using no_db_reply[OF assms(2)] by blast
  then show "generate_tests e tok d config = Inl (if classify_intent (''Generate test cases: '' @ d) = Generate_Test_Case then 500 else 400)"
    using assms(1) r by (simp add: generate_tests_def replied_def split: option.split)
qed

theorem suggestions_never_answer_witness:
  "generate_tests lab_assistant lab_admin ''Test that web traffic works but SSH is blocked from outside'' L_Null = Inl 400"
proof -
  let ?d = "''Test that web traffic works but SSH is blocked from outside''"
  have a: "require_auth lab_admin = Inr 1" "le_loads lab_assistant ''{}'' = Inr (L_Obj [])" by code_simp+
  have i: "classify_intent (''Generate test cases: '' @ ?d) \<noteq> Generate_Test_Case" by code_simp
  show ?thesis using conjunct2[OF suggestions_never_answer[OF a, of ?d L_Null]] unfolding if_not_P[OF i] .
qed

end
