(* ===== verification/Heartbeat.thy ===== *)
theory Heartbeat
  imports Gw_Account_Claims
begin

text \<open>
  The heartbeats of the agents (\<open>heartbeat.py\<close> of the firewall, VPN, node and DNS agents) with the configurations they start
  from, and the gateway as their peer (\<open>instance_heartbeat\<close>).

  A loop is a function of the outcomes of its rounds. Times are seconds of a monotonic clock. The loops of the firewall and the VPN
  agent are the same text; so are those of the node and the DNS agent.
\<close>

section \<open>Configuration\<close>

type_synonym environment = "string \<Rightarrow> string option"

definition env_or :: "environment \<Rightarrow> string \<Rightarrow> string \<Rightarrow> string" where
  "env_or e k d = (case e k of None \<Rightarrow> d | Some v \<Rightarrow> v)"

record fw_agent_config =
  fa_key :: string
  fa_gateway :: string
  fa_instance :: int
  fa_port :: int
  fa_state_dir :: string
  fa_host :: string

datatype 'c loaded = Exit_Code nat | Value_Error | Config 'c

definition fw_load_config :: "environment \<Rightarrow> fw_agent_config loaded" where
  "fw_load_config e =
     (if \<not> truthy_str (e ''INSTANCE_API_KEY'') then Exit_Code 1
      else (case (py_int (env_or e ''INSTANCE_ID'' ''1''), py_int (env_or e ''FIREWALL_AGENT_PORT'' ''8081'')) of
          (Some i, Some p) \<Rightarrow> Config \<lparr>fa_key = or_empty (e ''INSTANCE_API_KEY''), fa_gateway = env_or e ''GATEWAY_URL'' ''http://127.0.0.1:8010'', fa_instance = i,
            fa_port = p, fa_state_dir = env_or e ''STATE_DIR'' ''/var/lib/viswall-firewall'', fa_host = env_or e ''AGENT_HOST'' ''127.0.0.1''\<rparr>
        | _ \<Rightarrow> Value_Error))"

record vpn_agent_config =
  va_key :: string
  va_gateway :: string
  va_instance :: int
  va_port :: int
  va_state_dir :: string
  va_service :: string
  va_host :: string

definition vpn_load_config :: "environment \<Rightarrow> vpn_agent_config loaded" where
  "vpn_load_config e =
     (if \<not> truthy_str (e ''INSTANCE_API_KEY'') then Exit_Code 1
      else (case (py_int (env_or e ''INSTANCE_ID'' ''1''), py_int (env_or e ''VPN_AGENT_PORT'' ''8083'')) of
          (Some i, Some p) \<Rightarrow> Config \<lparr>va_key = or_empty (e ''INSTANCE_API_KEY''), va_gateway = env_or e ''GATEWAY_URL'' ''http://127.0.0.1:8010'', va_instance = i,
            va_port = p, va_state_dir = env_or e ''STATE_DIR'' ''/var/lib/viswall-vpn'', va_service = env_or e ''WG_SERVICE'' ''wg-quick@client'',
            va_host = env_or e ''AGENT_HOST'' ''127.0.0.1''\<rparr>
        | _ \<Rightarrow> Value_Error))"

section \<open>Firewall and VPN agent\<close>

definition heartbeat_url :: "string \<Rightarrow> int \<Rightarrow> string" where
  "heartbeat_url gateway i = rstrip_char (CHR ''/'') gateway @ ''/api/v1/instances/'' @ string_of_int i @ ''/heartbeat''"

definition fw_heartbeat_body :: "string \<Rightarrow> json" where
  "fw_heartbeat_body key = J_Obj [(''api_key'', J_Str key), (''status'', J_Str ''ok'')]"

text \<open>A round: the status of a success, or a network error (a refusal by status included) at a time with its text.\<close>

datatype beat = Beat_Ok nat | Beat_Failed rat string

record beat_state =
  bs_failures :: nat
  bs_warned :: rat

datatype beat_log = Log_Ok nat | Log_Recovered nat | Log_Warned rat nat string

definition beat_start :: beat_state where
  "beat_start = \<lparr>bs_failures = 0, bs_warned = 0\<rparr>"

definition beat_round :: "beat \<Rightarrow> beat_state \<Rightarrow> beat_log list \<times> beat_state" where
  "beat_round b s =
     (case b of
        Beat_Ok c \<Rightarrow> (Log_Ok c # (if bs_failures s \<noteq> 0 then [Log_Recovered (bs_failures s)] else []), s\<lparr>bs_failures := 0\<rparr>)
      | Beat_Failed now m \<Rightarrow>
          (let n = Suc (bs_failures s) in
           if 3 \<le> n \<and> 60 \<le> now - bs_warned s then ([Log_Warned now n m], \<lparr>bs_failures = n, bs_warned = now\<rparr>) else ([], s\<lparr>bs_failures := n\<rparr>)))"

fun beat_rounds :: "beat list \<Rightarrow> beat_state \<Rightarrow> beat_log list" where
  "beat_rounds [] s = []"
| "beat_rounds (b # bs) s = (case beat_round b s of (l, s') \<Rightarrow> l @ beat_rounds bs s')"

section \<open>Node and DNS agent\<close>

record node_beat_config =
  nb_key :: "string option"
  nb_gateway :: "string option"
  nb_instance :: "int option"

definition heartbeat_enabled :: "node_beat_config \<Rightarrow> bool" where
  "heartbeat_enabled c \<longleftrightarrow> nb_gateway c \<noteq> None \<and> nb_instance c \<noteq> None \<and> nb_key c \<noteq> None"

definition node_heartbeat_body :: "string \<Rightarrow> json" where
  "node_heartbeat_body key = J_Obj [(''api_key'', J_Str key)]"

datatype node_log = Disabled | Log_Returned nat | Log_Failed string

text \<open>The outcome of a round here is a status or an error of the client.\<close>

definition node_round :: "nat + string \<Rightarrow> node_log list" where
  "node_round r = (case r of Inl c \<Rightarrow> if c \<noteq> 200 then [Log_Returned c] else [] | Inr m \<Rightarrow> [Log_Failed m])"

definition node_heartbeat_loop :: "node_beat_config \<Rightarrow> (nat + string) list \<Rightarrow> node_log list" where
  "node_heartbeat_loop c rs = (if heartbeat_enabled c then concat (map node_round rs) else [Disabled])"

section \<open>The gateway as the peer\<close>

definition receive_heartbeat :: "nat \<Rightarrow> json \<Rightarrow> acct_state \<Rightarrow> json acct_reply" where
  "receive_heartbeat i body =
     instance_heartbeat i (str_key body ''api_key'') (case key_of body ''status'' of None \<Rightarrow> None | Some v \<Rightarrow> Some (str_key body ''status''))"

section \<open>Properties\<close>

text \<open>The warnings of a run: their times and failure counts.\<close>

definition warnings :: "beat_log list \<Rightarrow> (rat \<times> nat) list" where
  "warnings ls = List.map_filter (\<lambda>l. case l of Log_Warned t n m \<Rightarrow> Some (t, n) | _ \<Rightarrow> None) ls"

lemma warnings_append [simp]: "warnings (a @ b) = warnings a @ warnings b"
  by (simp add: warnings_def map_filter_def)

lemma warnings_round:
  "warnings (fst (beat_round b s)) = (case b of Beat_Failed now m \<Rightarrow> if 3 \<le> Suc (bs_failures s) \<and> 60 \<le> now - bs_warned s then [(now, Suc (bs_failures s))] else [] | _ \<Rightarrow> [])"
  by (simp add: beat_round_def warnings_def map_filter_def Let_def split: beat.split)

lemma spaced_from:
  "successively (\<lambda>a b. fst a + 60 \<le> fst b) (warnings (beat_rounds bs s)) \<and> (warnings (beat_rounds bs s) \<noteq> [] \<longrightarrow> bs_warned s + 60 \<le> fst (hd (warnings (beat_rounds bs s))))"
proof (induction bs arbitrary: s)
  case Nil
  show ?case by (simp add: warnings_def map_filter_def)
next
  case (Cons b bs)
  obtain l s' where r: "beat_round b s = (l, s')" by fastforce
  have "warnings l = [] \<and> bs_warned s' = bs_warned s \<or> (\<exists>t n. warnings l = [(t, n)] \<and> bs_warned s' = t \<and> bs_warned s + 60 \<le> t)"
    using r warnings_round[of b s] by (auto simp: beat_round_def Let_def split: beat.splits if_splits)
  then show ?case using Cons.IH[of s'] r by (cases "warnings (beat_rounds bs s')") (auto simp: successively_Cons)
qed

text \<open>The length of the run of failures that ends a list of rounds.\<close>

definition failing :: "beat list \<Rightarrow> nat" where
  "failing bs = length (takeWhile (\<lambda>b. \<exists>t m. b = Beat_Failed t m) (rev bs))"

definition beat_after :: "beat list \<Rightarrow> beat_state \<Rightarrow> beat_state" where
  "beat_after = fold (\<lambda>b s. snd (beat_round b s))"

lemma failing_snoc: "failing (bs @ [b]) = (case b of Beat_Ok c \<Rightarrow> 0 | Beat_Failed t m \<Rightarrow> Suc (failing bs))"
  by (simp add: failing_def split: beat.split)

lemma failures_after: "bs_failures (beat_after bs beat_start) = failing bs"
proof (induction bs rule: rev_induct)
  case Nil
  show ?case by (simp add: beat_after_def beat_start_def failing_def)
next
  case (snoc b bs)
  have "beat_after (bs @ [b]) beat_start = snd (beat_round b (beat_after bs beat_start))" by (simp add: beat_after_def)
  then show ?case using snoc by (simp add: failing_snoc beat_round_def Let_def split: beat.split)
qed

lemma warned_after_failures:
  "(t, n) \<in> set (warnings (beat_rounds bs s)) \<Longrightarrow> \<exists>as m cs. bs = as @ Beat_Failed t m # cs \<and> 3 \<le> n \<and> n = Suc (bs_failures (beat_after as s))"
proof (induction bs arbitrary: s)
  case Nil
  then show ?case by (simp add: warnings_def map_filter_def)
next
  case (Cons b bs)
  obtain l s' where r: "beat_round b s = (l, s')" by fastforce
  show ?case
  proof (cases "(t, n) \<in> set (warnings l)")
    case True
    then obtain m where "b = Beat_Failed t m" "n = Suc (bs_failures s)" "3 \<le> n"
      using r warnings_round[of b s] by (auto split: beat.splits if_splits)
    then have "b # bs = [] @ Beat_Failed t m # bs \<and> 3 \<le> n \<and> n = Suc (bs_failures (beat_after [] s))" by (simp add: beat_after_def)
    then show ?thesis by blast
  next
    case False
    then have "(t, n) \<in> set (warnings (beat_rounds bs s'))" using Cons.prems r by simp
    then obtain as m cs where h: "bs = as @ Beat_Failed t m # cs" "3 \<le> n" "n = Suc (bs_failures (beat_after as s'))" using Cons.IH by blast
    then have "b # bs = (b # as) @ Beat_Failed t m # cs \<and> 3 \<le> n \<and> n = Suc (bs_failures (beat_after (b # as) s))" using r by (simp add: beat_after_def)
    then show ?thesis by blast
  qed
qed

text \<open>Whatever the rounds of a heartbeat bring: its warnings are at least a minute apart, and each counts the failures in a row that end with it, at least
  three.\<close>

theorem heartbeat_warnings:
  "successively (\<lambda>a b. fst a + 60 \<le> fst b) (warnings (beat_rounds bs beat_start))
   \<and> (\<forall>(t, n)\<in>set (warnings (beat_rounds bs beat_start)). 3 \<le> n \<and> (\<exists>as m cs. bs = as @ Beat_Failed t m # cs \<and> n = failing (as @ [Beat_Failed t m])))"
proof
  show "successively (\<lambda>a b. fst a + 60 \<le> fst b) (warnings (beat_rounds bs beat_start))" using spaced_from by blast
  have "3 \<le> n \<and> (\<exists>as m cs. bs = as @ Beat_Failed t m # cs \<and> n = failing (as @ [Beat_Failed t m]))" if w: "(t, n) \<in> set (warnings (beat_rounds bs beat_start))" for t n
  proof -
    obtain as m cs where h: "bs = as @ Beat_Failed t m # cs" "3 \<le> n" "n = Suc (bs_failures (beat_after as beat_start))" using warned_after_failures[OF w] by blast
    then have "n = failing (as @ [Beat_Failed t m])" by (simp add: failing_snoc failures_after)
    then show ?thesis using h(1,2) by blast
  qed
  then show "\<forall>(t, n)\<in>set (warnings (beat_rounds bs beat_start)). 3 \<le> n \<and> (\<exists>as m cs. bs = as @ Beat_Failed t m # cs \<and> n = failing (as @ [Beat_Failed t m]))"
    by blast
qed

theorem heartbeat_warnings_witness:
  "warnings (beat_rounds [Beat_Failed 100 ''down'', Beat_Failed 130 ''down'', Beat_Failed 160 ''down'', Beat_Failed 190 ''down'', Beat_Failed 220 ''down''] beat_start) = [(160, 3), (220, 5)]
   \<and> (\<exists>as m cs. [Beat_Failed 100 ''down'', Beat_Failed 130 ''down'', Beat_Failed 160 ''down'', Beat_Failed 190 ''down'', Beat_Failed 220 ''down''] = as @ Beat_Failed 220 m # cs)"
proof -
  let ?bs = "[Beat_Failed 100 ''down'', Beat_Failed 130 ''down'', Beat_Failed 160 ''down'', Beat_Failed 190 ''down'', Beat_Failed 220 ''down'']"
  have w: "warnings (beat_rounds ?bs beat_start) = [(160, 3), (220, 5)]"
    by (simp add: beat_round_def beat_start_def warnings_def map_filter_def Let_def)
  have "case (220, 5) of (t, n) \<Rightarrow> 3 \<le> n \<and> (\<exists>as m cs. ?bs = as @ Beat_Failed t m # cs \<and> n = failing (as @ [Beat_Failed t m]))"
    by (rule bspec[OF conjunct2[OF heartbeat_warnings[of ?bs]]], unfold w) simp
  then have "\<exists>as m cs. ?bs = as @ Beat_Failed 220 m # cs" unfolding case_prod_conv by blast
  then show ?thesis using w by (rule conjI[rotated])
qed

section \<open>What a heartbeat does to the gateway\<close>

lemma sequence_500: "\<exists>r\<in>set rs. r = Inl 500 \<Longrightarrow> \<forall>r\<in>set rs. r = Inl 500 \<or> (\<exists>x. r = Inr x) \<Longrightarrow> sequence_replies rs = Inl 500"
  by (induction rs rule: sequence_replies.induct) (auto split: sum.split)

lemma listed_instances_fail:
  assumes "table_ok (as_instances st)" "require_auth tok = Inr u" "row_get (as_accounts st) u = Some a" "may_see a i" "row_get (as_instances st) i = Some r" "\<not> instance_ok r"
  shows "list_instances tok st = Inl 500" "get_instance tok i st = Inl 500"
proof -
  let ?rs = "map (\<lambda>(k, r). instance_response k r) (filter (\<lambda>(k, r). may_see a k) (tb_rows (as_instances st)))"
  have "(i, r) \<in> set (tb_rows (as_instances st))" using assms(5) by (auto simp: row_get_def dest: map_of_SomeD)
  then have "instance_response i r \<in> set ?rs" using assms(4) by force
  then have "\<exists>q\<in>set ?rs. q = Inl 500" using assms(6) by (auto simp: instance_response_def)
  moreover have "\<forall>q\<in>set ?rs. q = Inl 500 \<or> (\<exists>x. q = Inr x)" by (auto simp: instance_response_def)
  ultimately have "sequence_replies ?rs = Inl 500" by (rule sequence_500)
  then show "list_instances tok st = Inl 500" using assms(2,3) by (simp add: list_instances_def)
  show "get_instance tok i st = Inl 500" using assms by (simp add: get_instance_def instance_response_def)
qed

text \<open>C38: An accepted heartbeat of the firewall or VPN agent stores the status \<open>ok\<close>, which is none of the known ones: from then on the instance, and every list that
  contains it, is a 500, until the status changes, as by a heartbeat of the node or DNS agent, which sends no status and so makes it active.\<close>

theorem firewall_heartbeat_breaks_listing:
  assumes "table_ok (as_instances st)" "row_get (as_instances st) i = Some r" "instance_ok r"
    "require_auth tok = Inr u" "row_get (as_accounts st) u = Some a" "may_see a i"
    "st1 = snd (receive_heartbeat i (fw_heartbeat_body (hi_key r)) st)" "st2 = snd (receive_heartbeat i (node_heartbeat_body (hi_key r)) st1)"
  shows "(\<exists>v. fst (receive_heartbeat i (fw_heartbeat_body (hi_key r)) st) = Inr v) \<and> list_instances tok st1 = Inl 500 \<and> get_instance tok i st1 = Inl 500
    \<and> get_instance tok i st2 = Inr (i, r\<lparr>hi_status := Some ''active''\<rparr>)"
proof -
  let ?r = "r\<lparr>hi_status := Some ''ok''\<rparr>"
  have c: "\<exists>c. hi_config r = Some c \<and> is_obj c" using assms(3) by (auto simp: instance_ok_def split: option.splits)
  have st1: "st1 = st\<lparr>as_instances := row_set i ?r (as_instances st)\<rparr>" and r1: "row_get (as_instances st1) i = Some ?r"
    using assms(2) by (simp_all add: assms(7) receive_heartbeat_def fw_heartbeat_body_def str_key_def instance_heartbeat_def rows.get_put)
  have "\<not> instance_ok ?r" by (simp add: instance_ok_def instance_texts_def)
  from listed_instances_fail[OF _ assms(4) _ assms(6) r1 this] have "list_instances tok st1 = Inl 500" "get_instance tok i st1 = Inl 500"
    using assms(1,5) by (simp_all add: st1 rows.ok_put)
  moreover have "row_get (as_instances st2) i = Some (r\<lparr>hi_status := Some ''active''\<rparr>)" "as_accounts st2 = as_accounts st"
    using r1 by (simp_all add: assms(8) receive_heartbeat_def node_heartbeat_body_def str_key_def instance_heartbeat_def rows.get_put st1)
  moreover have "instance_ok (r\<lparr>hi_status := Some ''active''\<rparr>)" using assms(3) by (simp add: instance_ok_def instance_texts_def)
  moreover have "\<exists>v. fst (receive_heartbeat i (fw_heartbeat_body (hi_key r)) st) = Inr v"
    using assms(2) c by (auto simp: receive_heartbeat_def fw_heartbeat_body_def str_key_def instance_heartbeat_def)
  ultimately show ?thesis using assms(4,5,6) by (simp add: get_instance_def instance_response_def)
qed

definition lab_watched :: acct_state where
  "lab_watched = lab_acct\<lparr>as_accounts := \<lparr>tb_rows = [(1, lab_account\<lparr>ac_instances := Some [1]\<rparr>)], tb_next = 2\<rparr>\<rparr>"

theorem firewall_heartbeat_breaks_listing_witness:
  "list_instances lab_admin (snd (receive_heartbeat 1 (fw_heartbeat_body ''vis_k'') lab_watched)) = Inl 500"
proof -
  have a: "table_ok (as_instances lab_watched)" "row_get (as_instances lab_watched) 1 = Some lab_host" "instance_ok lab_host" "require_auth lab_admin = Inr 1"
    "row_get (as_accounts lab_watched) 1 = Some (lab_account\<lparr>ac_instances := Some [1]\<rparr>)" "may_see (lab_account\<lparr>ac_instances := Some [1]\<rparr>) 1" "hi_key lab_host = ''vis_k''"
    by code_simp+
  show ?thesis using firewall_heartbeat_breaks_listing[OF a(1-6) refl refl] unfolding a(7) by blast
qed

end
