(* ===== verification/Gw_Metrics.thy ===== *)
theory Gw_Metrics
  imports Heartbeat Dhcp_Lease_Props Gw_Vpn
begin

text \<open>
  \<open>routers/metrics.py\<close>, \<open>metrics_collector.py\<close> and \<open>metrics_retention.py\<close>: the snapshots of an instance, their summary, the dashboards, the collector
  with its retention; and \<open>routers/groupware.py\<close>, whose state is a flag of a mail domain.

  Times are in seconds; those of a query are already without a zone. The values that \<open>psutil\<close> gives are arguments, percentages already rounded, and averages are exact. Of snapshots with the same time the one
  stored first counts as the newest, and the rows a limited deletion takes are the first of the table.
\<close>

section \<open>Snapshots\<close>

record net_stat =
  ns_name :: string
  ns_rx :: int
  ns_tx :: int

record snapshot_row =
  sn_instance :: nat
  sn_time :: int
  sn_cpu :: "rat option"
  sn_memory :: "rat option"
  sn_memory_used :: "int option"
  sn_memory_total :: "int option"
  sn_disk :: "rat option"
  sn_disk_used :: "int option"
  sn_disk_total :: "int option"
  sn_ifaces :: "net_stat list option"
  sn_queue :: "int option"
  sn_inbound :: "int option"
  sn_outbound :: "int option"
  sn_spam :: "int option"
  sn_virus :: "int option"

record metrics_state =
  mt_snapshots :: "snapshot_row table"
  mt_instances :: "host_instance table"
  mt_rules :: "rule_row table"
  mt_domains :: "mail_domain table"
  mt_servers :: "vpn_server table"

definition empty_snapshot :: "nat \<Rightarrow> int \<Rightarrow> snapshot_row" where
  "empty_snapshot i now = \<lparr>sn_instance = i, sn_time = now, sn_cpu = None, sn_memory = None, sn_memory_used = None, sn_memory_total = None, sn_disk = None,
     sn_disk_used = None, sn_disk_total = None, sn_ifaces = None, sn_queue = None, sn_inbound = None, sn_outbound = None, sn_spam = None, sn_virus = None\<rparr>"

definition newest_first :: "(nat \<times> snapshot_row) list \<Rightarrow> (nat \<times> snapshot_row) list" where
  "newest_first = sort_key (\<lambda>e. - sn_time (snd e))"

definition latest_snapshot :: "metrics_state \<Rightarrow> nat \<Rightarrow> (nat \<times> snapshot_row) option" where
  "latest_snapshot st i = (case newest_first (rows_where (\<lambda>s. sn_instance s = i) (mt_snapshots st)) of [] \<Rightarrow> None | e # es \<Rightarrow> Some e)"

definition metrics_read :: "token option \<Rightarrow> 'a \<Rightarrow> nat + 'a" where
  "metrics_read tok r = (case require_auth tok of Inl c \<Rightarrow> Inl c | Inr u \<Rightarrow> Inr r)"

definition get_latest_metrics :: "int \<Rightarrow> token option \<Rightarrow> nat \<Rightarrow> metrics_state \<Rightarrow> nat + nat \<times> snapshot_row" where
  "get_latest_metrics now tok i st = metrics_read tok (case latest_snapshot st i of None \<Rightarrow> (0, empty_snapshot i now) | Some e \<Rightarrow> e)"

record metrics_query =
  mq_instances :: "nat list option"
  mq_from :: "int option"
  mq_to :: "int option"

definition in_window :: "metrics_query \<Rightarrow> snapshot_row \<Rightarrow> bool" where
  "in_window q s \<longleftrightarrow> (case mq_from q of None \<Rightarrow> True | Some t \<Rightarrow> t \<le> sn_time s) \<and> (case mq_to q of None \<Rightarrow> True | Some t \<Rightarrow> sn_time s \<le> t)"

definition asked_instances :: "metrics_query \<Rightarrow> nat list" where
  "asked_instances q = (case mq_instances q of None \<Rightarrow> [] | Some is \<Rightarrow> is)"

definition query_metrics :: "token option \<Rightarrow> metrics_query \<Rightarrow> metrics_state \<Rightarrow> nat + (nat \<times> snapshot_row) list" where
  "query_metrics tok q st = metrics_read tok
     (newest_first (rows_where (\<lambda>s. (asked_instances q = [] \<or> sn_instance s \<in> set (asked_instances q)) \<and> in_window q s) (mt_snapshots st)))"

section \<open>Summary\<close>

record metrics_summary =
  su_instance :: nat
  su_cpu :: "rat \<times> rat"
  su_memory :: "rat \<times> rat"
  su_disk :: "rat \<times> rat"
  su_network :: "int \<times> int"
  su_mail :: "int \<times> int"
  su_period :: "int \<times> int"

text \<open>The mean and the greatest of the values that are there; zero without any.\<close>

definition mean_peak :: "rat option list \<Rightarrow> rat \<times> rat" where
  "mean_peak vs = (let xs = List.map_filter id vs in if xs = [] then (0, 0) else (sum_list xs / of_nat (length xs), Max (set xs)))"

definition ifaces_of :: "snapshot_row \<Rightarrow> net_stat list" where
  "ifaces_of s = (case sn_ifaces s of None \<Rightarrow> [] | Some is \<Rightarrow> is)"

definition or_zero :: "int option \<Rightarrow> int" where
  "or_zero v = (case v of None \<Rightarrow> 0 | Some n \<Rightarrow> n)"

definition summary_of :: "int \<Rightarrow> metrics_query \<Rightarrow> nat \<Rightarrow> snapshot_row list \<Rightarrow> metrics_summary" where
  "summary_of now q i ss =
     (if ss = []
      then \<lparr>su_instance = i, su_cpu = (0, 0), su_memory = (0, 0), su_disk = (0, 0), su_network = (0, 0), su_mail = (0, 0),
        su_period = (case mq_from q of None \<Rightarrow> now - 86400 | Some t \<Rightarrow> t, case mq_to q of None \<Rightarrow> now | Some t \<Rightarrow> t)\<rparr>
      else \<lparr>su_instance = i, su_cpu = mean_peak (map sn_cpu ss), su_memory = mean_peak (map sn_memory ss), su_disk = mean_peak (map sn_disk ss),
        su_network = (sum_list (map ns_rx (concat (map ifaces_of ss))), sum_list (map ns_tx (concat (map ifaces_of ss)))),
        su_mail = (sum_list (map (or_zero \<circ> sn_inbound) ss), sum_list (map (or_zero \<circ> sn_outbound) ss)),
        su_period = (Min (set (map sn_time ss)), Max (set (map sn_time ss)))\<rparr>)"

definition get_metrics_summary :: "int \<Rightarrow> token option \<Rightarrow> metrics_query \<Rightarrow> metrics_state \<Rightarrow> nat + metrics_summary list" where
  "get_metrics_summary now tok q st = metrics_read tok
     (map (\<lambda>i. summary_of now q i (map snd (rows_where (\<lambda>s. sn_instance s = i \<and> in_window q s) (mt_snapshots st))))
        (if asked_instances q = [] then map fst (tb_rows (mt_instances st)) else asked_instances q))"

section \<open>Dashboards\<close>

record dashboard =
  db_rules :: nat
  db_domains :: nat
  db_servers :: nat
  db_latest :: "snapshot_row option"
  db_ifaces :: "net_stat list option"

text \<open>The system and mail parts are those of the latest snapshot; the interfaces only if there are any.\<close>

definition get_dashboard_data :: "token option \<Rightarrow> nat \<Rightarrow> metrics_state \<Rightarrow> nat + dashboard" where
  "get_dashboard_data tok i st = metrics_read tok
     (let l = map_option snd (latest_snapshot st i) in
      \<lparr>db_rules = length (rows_where (\<lambda>r. ru_instance r = i) (mt_rules st)), db_domains = length (rows_where (\<lambda>d. md_instance d = i) (mt_domains st)),
        db_servers = length (rows_where (\<lambda>s. vs_instance s = i) (mt_servers st)), db_latest = l,
        db_ifaces = (case l of None \<Rightarrow> None | Some s \<Rightarrow> if ifaces_of s = [] then None else Some (ifaces_of s))\<rparr>)"

record overview =
  ov_instances :: nat
  ov_active :: nat
  ov_rules :: nat
  ov_domains :: nat
  ov_servers :: nat

definition get_global_overview :: "token option \<Rightarrow> metrics_state \<Rightarrow> nat + overview" where
  "get_global_overview tok st = metrics_read tok
     \<lparr>ov_instances = length (tb_rows (mt_instances st)), ov_active = length (rows_where (\<lambda>r. hi_status r = Some ''active'') (mt_instances st)),
      ov_rules = length (tb_rows (mt_rules st)), ov_domains = length (tb_rows (mt_domains st)), ov_servers = length (tb_rows (mt_servers st))\<rparr>"

section \<open>Collector\<close>

definition virtual_prefixes :: "string list" where
  "virtual_prefixes = [''veth'', ''br-'', ''docker'', ''virbr'', ''lxcbr'', ''podman'', ''cni'']"

definition is_reported_interface :: "string \<Rightarrow> bool" where
  "is_reported_interface n \<longleftrightarrow> n \<noteq> ''lo'' \<and> \<not> list_ex (startswith n) virtual_prefixes"

text \<open>\<open>str.split()\<close>.\<close>

definition fields_of :: "string \<Rightarrow> string list" where
  "fields_of s = filter (\<lambda>w. w \<noteq> []) (split_on (CHR '' '') (map (\<lambda>c. if is_space c then CHR '' '' else c) s))"

text \<open>A line of \<open>/proc/net/dev\<close>: skipped, a number that is none (\<open>None\<close>), or the counters.\<close>

definition net_dev_line :: "string \<Rightarrow> net_stat list option" where
  "net_dev_line line =
     (if CHR '':'' \<notin> set line then Some []
      else (case partition_at (CHR '':'') line of (name, raw) \<Rightarrow>
        let fs = fields_of raw in
        if length fs < 9 then Some []
        else (case (py_int (fs ! 0), py_int (fs ! 8)) of (Some r, Some t) \<Rightarrow> Some [\<lparr>ns_name = strip name, ns_rx = r, ns_tx = t\<rparr>] | _ \<Rightarrow> None)))"

definition parse_proc_net_dev :: "string \<Rightarrow> net_stat list option" where
  "parse_proc_net_dev text = map_option concat (those (map net_dev_line (drop 2 (py_splitlines text))))"

text \<open>The text of the host's file if it is mounted, otherwise the counters of the library; any exception gives no interfaces.\<close>

definition interface_stats :: "string option \<Rightarrow> net_stat list option \<Rightarrow> net_stat list" where
  "interface_stats host counters =
     (case (case host of Some text \<Rightarrow> parse_proc_net_dev text | None \<Rightarrow> counters) of
        None \<Rightarrow> []
      | Some ss \<Rightarrow> filter (\<lambda>s. is_reported_interface (ns_name s)) ss)"

text \<open>What the host gives when one instance is collected; a missing disk is one that both paths refuse.\<close>

record host_sample =
  hs_cpu :: rat
  hs_memory :: "rat \<times> int \<times> int"
  hs_disk :: "(rat \<times> int \<times> int) option"
  hs_net_dev :: "string option"
  hs_counters :: "net_stat list option"

definition sampled :: "nat \<Rightarrow> int \<Rightarrow> host_sample \<Rightarrow> snapshot_row" where
  "sampled i now h = (empty_snapshot i now)\<lparr>sn_cpu := Some (hs_cpu h), sn_memory := Some (fst (hs_memory h)), sn_memory_used := Some (fst (snd (hs_memory h))),
     sn_memory_total := Some (snd (snd (hs_memory h))), sn_disk := map_option fst (hs_disk h), sn_disk_used := map_option (fst \<circ> snd) (hs_disk h),
     sn_disk_total := map_option (snd \<circ> snd) (hs_disk h), sn_ifaces := Some (interface_stats (hs_net_dev h) (hs_counters h))\<rparr>"

text \<open>One cycle: the time and sample at each instance; a sample that is an exception is skipped.\<close>

definition run_metrics_collection_cycle :: "(nat \<Rightarrow> int \<times> host_sample option) \<Rightarrow> metrics_state \<Rightarrow> nat \<times> metrics_state" where
  "run_metrics_collection_cycle probe st =
     (let rows = List.map_filter (\<lambda>i. case probe i of (now, h) \<Rightarrow> map_option (sampled i now) h) (map fst (tb_rows (mt_instances st))) in
      (length rows, st\<lparr>mt_snapshots := fold (\<lambda>r t. snd (row_add r t)) rows (mt_snapshots st)\<rparr>))"

definition expired_keys :: "int \<Rightarrow> metrics_state \<Rightarrow> nat list" where
  "expired_keys cutoff st = map fst (rows_where (\<lambda>s. sn_time s < cutoff) (mt_snapshots st))"

definition prune_expired_snapshots :: "int \<Rightarrow> int \<Rightarrow> metrics_state \<Rightarrow> nat \<times> metrics_state" where
  "prune_expired_snapshots days now st =
     (if days \<le> 0 then (0, st)
      else (let ks = take 1000 (expired_keys (now - days * 86400) st) in (length ks, st\<lparr>mt_snapshots := fold row_del ks (mt_snapshots st)\<rparr>)))"

text \<open>The answer of the lock: taken or not, or unreachable. One round of the loop.\<close>

definition try_acquire_cycle_lock :: "bool option \<Rightarrow> bool" where
  "try_acquire_cycle_lock r = (case r of None \<Rightarrow> True | Some b \<Rightarrow> b)"

definition collector_round :: "bool option \<Rightarrow> (nat \<Rightarrow> int \<times> host_sample option) \<Rightarrow> int \<Rightarrow> int \<Rightarrow> metrics_state \<Rightarrow> metrics_state" where
  "collector_round lock probe days now st =
     (if try_acquire_cycle_lock lock then snd (prune_expired_snapshots days now (snd (run_metrics_collection_cycle probe st))) else st)"

section \<open>Groupware\<close>

definition get_groupware_status :: "token option \<Rightarrow> nat \<Rightarrow> 'w mail_state \<Rightarrow> nat + nat \<times> string \<times> bool option \<times> string option" where
  "get_groupware_status tok k st =
     (case require_auth tok of
        Inl c \<Rightarrow> Inl c
      | Inr u \<Rightarrow> (case row_get (ml_domains st) k of
          None \<Rightarrow> Inl 404
        | Some d \<Rightarrow> Inr (k, md_domain d, md_groupware d, if md_groupware d = Some True then Some ''/sogo'' else None)))"

definition set_groupware :: "bool \<Rightarrow> string \<Rightarrow> token option \<Rightarrow> nat \<Rightarrow> 'w mail_state \<Rightarrow> (nat \<times> mail_domain, 'w) mail_reply" where
  "set_groupware on action tok k st = mail_admin tok st (\<lambda>u. mail_row (ml_domains st) k st (\<lambda>d.
     let d' = d\<lparr>md_groupware := Some on\<rparr> in
     (domain_response k d', log_mail u action ''mail_domain'' k (md_instance d) (st\<lparr>ml_domains := row_set k d' (ml_domains st)\<rparr>))))"

definition enable_groupware :: "token option \<Rightarrow> nat \<Rightarrow> 'w mail_state \<Rightarrow> (nat \<times> mail_domain, 'w) mail_reply" where
  "enable_groupware = set_groupware True ''enable_groupware''"

definition disable_groupware :: "token option \<Rightarrow> nat \<Rightarrow> 'w mail_state \<Rightarrow> (nat \<times> mail_domain, 'w) mail_reply" where
  "disable_groupware = set_groupware False ''disable_groupware''"

definition get_groupware_stats :: "token option \<Rightarrow> nat \<Rightarrow> 'w mail_state \<Rightarrow> nat + json" where
  "get_groupware_stats tok k st =
     (case require_admin tok of
        Inl c \<Rightarrow> Inl c
      | Inr u \<Rightarrow> (case row_get (ml_domains st) k of
          None \<Rightarrow> Inl 404
        | Some d \<Rightarrow> Inr (if md_groupware d = Some True
            then J_Obj [(''domain_id'', J_Int (int k)), (''domain'', J_Str (md_domain d)), (''groupware_enabled'', J_Bool True), (''sogo_url'', J_Str ''/sogo''),
              (''calendars'', J_Int 0), (''contacts'', J_Int 0), (''active_users'', J_Int 0)]
            else J_Obj [(''domain_id'', J_Int (int k)), (''groupware_enabled'', J_Bool False), (''message'', J_Str ''Groupware is not enabled for this domain'')])))"

text \<open>The flag keeps the invariant of the mail rows.\<close>

lemma groupware_keeps_inv:
  assumes "mail_inv st"
  shows "mail_inv (snd (enable_groupware tok k st))" "mail_inv (snd (disable_groupware tok k st))"
proof -
  have "mail_inv (st\<lparr>ml_domains := row_set k (d\<lparr>md_groupware := g\<rparr>) (ml_domains st)\<rparr>)" if "row_get (ml_domains st) k = Some d" for d g
    by (rule set_domain_inv[OF assms that]) (use rows_allD[of domain_good "ml_domains st" k d] assms that in \<open>auto simp: mail_inv_def domain_good_def\<close>)
  then show "mail_inv (snd (enable_groupware tok k st))" "mail_inv (snd (disable_groupware tok k st))"
    unfolding enable_groupware_def disable_groupware_def set_groupware_def
    by (intro mail_admin_inv mail_row_inv assms; simp add: Let_def)+
qed

section \<open>Properties\<close>

lemma mean_below_peak: "fst (mean_peak vs) \<le> snd (mean_peak vs)"
proof (cases "List.map_filter id vs")
  case (Cons a as)
  let ?xs = "List.map_filter id vs"
  have "sum_list ys \<le> of_nat (length ys) * m" if "\<forall>y\<in>set ys. y \<le> m" for ys and m :: rat
    using that by (induction ys) (auto simp: algebra_simps add_mono)
  from this[of ?xs "Max (set ?xs)"] have "sum_list ?xs \<le> of_nat (length ?xs) * Max (set ?xs)" by simp
  moreover have "(0 :: rat) < of_nat (length ?xs)" using Cons by simp
  ultimately have "sum_list ?xs / of_nat (length ?xs) \<le> Max (set ?xs)" by (simp add: pos_divide_le_eq mult.commute)
  then show ?thesis using Cons by (simp add: mean_peak_def Let_def)
qed (simp add: mean_peak_def)

text \<open>A summary has exactly one entry per instance asked for, in that order, and every average in it is at most the maximum beside it (over exact numbers: rounding is not modelled).\<close>

theorem summary_averages:
  assumes "get_metrics_summary now tok q st = Inr ss"
  shows "map su_instance ss = (if asked_instances q = [] then map fst (tb_rows (mt_instances st)) else asked_instances q)
    \<and> (\<forall>s\<in>set ss. fst (su_cpu s) \<le> snd (su_cpu s) \<and> fst (su_memory s) \<le> snd (su_memory s) \<and> fst (su_disk s) \<le> snd (su_disk s))"
proof -
  let ?is = "if asked_instances q = [] then map fst (tb_rows (mt_instances st)) else asked_instances q"
  have ss: "ss = map (\<lambda>i. summary_of now q i (map snd (rows_where (\<lambda>s. sn_instance s = i \<and> in_window q s) (mt_snapshots st)))) ?is"
    using assms by (auto simp: get_metrics_summary_def metrics_read_def split: sum.splits)
  have i: "su_instance (summary_of now q i ss) = i" for i ss by (simp add: summary_of_def)
  have b: "fst (su_cpu (summary_of now q i ss)) \<le> snd (su_cpu (summary_of now q i ss)) \<and> fst (su_memory (summary_of now q i ss)) \<le> snd (su_memory (summary_of now q i ss))
      \<and> fst (su_disk (summary_of now q i ss)) \<le> snd (su_disk (summary_of now q i ss))" for i ss
    by (simp add: summary_of_def mean_below_peak)
  have "map su_instance ss = map (\<lambda>i. i) ?is" unfolding ss by (simp add: comp_def i)
  moreover have "\<forall>s\<in>set ss. fst (su_cpu s) \<le> snd (su_cpu s) \<and> fst (su_memory s) \<le> snd (su_memory s) \<and> fst (su_disk s) \<le> snd (su_disk s)"
    unfolding ss using b by auto
  ultimately show ?thesis by simp
qed

definition lab_snapshot :: "int \<Rightarrow> snapshot_row" where
  "lab_snapshot t = (empty_snapshot 1 t)\<lparr>sn_cpu := Some (of_int t)\<rparr>"

definition lab_metrics :: metrics_state where
  "lab_metrics = \<lparr>mt_snapshots = \<lparr>tb_rows = [(1, lab_snapshot 10), (2, lab_snapshot 40)], tb_next = 3\<rparr>, mt_instances = \<lparr>tb_rows = [(1, lab_host)], tb_next = 2\<rparr>,
     mt_rules = empty_table, mt_domains = empty_table, mt_servers = empty_table\<rparr>"

theorem summary_averages_witness:
  "\<exists>ss. get_metrics_summary 50 lab_admin \<lparr>mq_instances = None, mq_from = None, mq_to = None\<rparr> lab_metrics = Inr ss \<and> map su_instance ss = [1]"
proof -
  let ?r = "get_metrics_summary 50 lab_admin \<lparr>mq_instances = None, mq_from = None, mq_to = None\<rparr> lab_metrics"
  have "require_auth lab_admin = Inr 1" by code_simp
  then obtain ss where "?r = Inr ss" by (auto simp: get_metrics_summary_def metrics_read_def)
  then show ?thesis using summary_averages[of 50 lab_admin "\<lparr>mq_instances = None, mq_from = None, mq_to = None\<rparr>" lab_metrics ss]
    by (auto simp: asked_instances_def lab_metrics_def)
qed

lemma fold_row_del: "row_get (fold row_del ks t) i = (if i \<in> set ks then None else row_get t i)"
  by (induction ks arbitrary: t) (simp_all add: rows.get_del)

lemma fold_row_del_ok: "table_ok t \<Longrightarrow> table_ok (fold row_del ks t)"
  by (induction ks arbitrary: t) (simp_all add: rows.ok_del)

lemma expired_key: "table_ok (mt_snapshots st) \<Longrightarrow> k \<in> set (expired_keys c st) \<longleftrightarrow> (\<exists>s. row_get (mt_snapshots st) k = Some s \<and> sn_time s < c)"
  using rows_where_get[of "mt_snapshots st" k _ "\<lambda>s. sn_time s < c"] by (force simp: expired_keys_def)

text \<open>Pruning removes only snapshots older than the window, at most 1000 at a time and as many as there are below that; without a window it removes nothing.\<close>

theorem prune_removes_expired:
  assumes "table_ok (mt_snapshots st)" "prune_expired_snapshots days now st = (n, st')"
  shows "n = (if days \<le> 0 then 0 else min 1000 (length (expired_keys (now - days * 86400) st)))
    \<and> (\<forall>k s. row_get (mt_snapshots st) k = Some s \<longrightarrow> days \<le> 0 \<or> now - days * 86400 \<le> sn_time s \<longrightarrow> row_get (mt_snapshots st') k = Some s)
    \<and> (\<forall>k s. row_get (mt_snapshots st') k = Some s \<longrightarrow> row_get (mt_snapshots st) k = Some s \<and> (0 < days \<and> n < 1000 \<longrightarrow> now - days * 86400 \<le> sn_time s))"
proof (cases "days \<le> 0")
  case True
  then show ?thesis using assms(2) by (auto simp: prune_expired_snapshots_def)
next
  case False
  let ?c = "now - days * 86400"
  let ?ks = "take 1000 (expired_keys ?c st)"
  have n: "n = length ?ks" and st': "st' = st\<lparr>mt_snapshots := fold row_del ?ks (mt_snapshots st)\<rparr>"
    using assms(2) False by (auto simp: prune_expired_snapshots_def Let_def)
  have k: "\<exists>s. row_get (mt_snapshots st) k = Some s \<and> sn_time s < ?c" if "k \<in> set ?ks" for k
    using that expired_key[OF assms(1)] by (blast dest: in_set_takeD)
  have all: "?c \<le> sn_time s" if "n < 1000" "row_get (mt_snapshots st) j = Some s" "j \<notin> set ?ks" for j s
  proof -
    have "?ks = expired_keys ?c st" using that(1) n by simp
    then have "\<not> sn_time s < ?c" using that(2,3) expired_key[OF assms(1), of j ?c] by auto
    then show ?thesis by simp
  qed
  have g: "row_get (mt_snapshots st') j = (if j \<in> set ?ks then None else row_get (mt_snapshots st) j)" for j by (simp add: st' fold_row_del)
  have c: "n = (if days \<le> 0 then 0 else min 1000 (length (expired_keys ?c st)))" using False by (simp add: n min.commute)
  have keep: "row_get (mt_snapshots st') j = Some s" if "row_get (mt_snapshots st) j = Some s" "?c \<le> sn_time s" for j s
    using k[of j] that by (auto simp: g)
  have old: "row_get (mt_snapshots st) j = Some s \<and> (n < 1000 \<longrightarrow> ?c \<le> sn_time s)" if "row_get (mt_snapshots st') j = Some s" for j s
    using that all[of j s] by (simp add: g split: if_splits)
  show ?thesis
  proof (intro conjI allI impI)
    fix j s assume "row_get (mt_snapshots st) j = Some s" "days \<le> 0 \<or> ?c \<le> sn_time s"
    then show "row_get (mt_snapshots st') j = Some s" using keep False by blast
  next
    fix j s assume "row_get (mt_snapshots st') j = Some s"
    then show "row_get (mt_snapshots st) j = Some s" using old by blast
  next
    fix j s assume "row_get (mt_snapshots st') j = Some s" "0 < days \<and> n < 1000"
    then show "?c \<le> sn_time s" using old by blast
  qed (rule c)
qed

theorem prune_removes_expired_witness:
  "fst (prune_expired_snapshots 1 (86400 + 20) lab_metrics) = 1 \<and> row_get (mt_snapshots (snd (prune_expired_snapshots 1 (86400 + 20) lab_metrics))) 2 = Some (lab_snapshot 40)"
proof -
  let ?p = "prune_expired_snapshots 1 (86400 + 20) lab_metrics"
  have ok: "table_ok (mt_snapshots lab_metrics)" by (simp add: lab_metrics_def table_ok_def)
  have r: "row_get (mt_snapshots lab_metrics) 2 = Some (lab_snapshot 40)" "length (expired_keys 20 lab_metrics) = 1" "sn_time (lab_snapshot 40) = 40" by code_simp+
  note p = prune_removes_expired[OF ok, of 1 "86400 + 20" "fst ?p" "snd ?p", OF surjective_pairing]
  have "fst ?p = 1" using conjunct1[OF p] r(2) by simp
  moreover have "row_get (mt_snapshots (snd ?p)) 2 = Some (lab_snapshot 40)"
    by (rule conjunct1[OF conjunct2[OF p], rule_format, OF r(1)]) (simp add: r(3))
  ultimately show ?thesis by (rule conjI)
qed

section \<open>The file of the kernel\<close>

text \<open>A line as the kernel writes it: a padded name, a colon, and counters, each after at least one blank.\<close>

definition counters_text :: "(nat \<times> nat) list \<Rightarrow> string" where
  "counters_text vs = concat (map (\<lambda>(k, v). replicate (Suc k) (CHR '' '') @ string_of_nat v) vs)"

definition net_dev_text :: "nat \<times> string \<times> (nat \<times> nat) list \<Rightarrow> string" where
  "net_dev_text = (\<lambda>(k, n, vs). replicate k (CHR '' '') @ n @ '':'' @ counters_text vs)"

lemma fields_blank: "fields_of (CHR '' '' # s) = fields_of s"
  by (simp add: fields_of_def char_class_defs)

lemma split_on_word: "c \<notin> set w \<Longrightarrow> split_on c (w @ c # r) = w # split_on c r" "c \<notin> set w \<Longrightarrow> split_on c w = [w]"
  by (induction w) auto

lemma fields_word:
  assumes "w \<noteq> []" "\<forall>c\<in>set w. \<not> is_space c" "r = [] \<or> hd r = CHR '' ''"
  shows "fields_of (w @ r) = w # fields_of r"
proof -
  let ?f = "\<lambda>c. if is_space c then CHR '' '' else c"
  have w: "map ?f w = w" using assms(2) by (simp add: map_idI)
  have b: "CHR '' '' \<notin> set w" using assms(2) by (auto simp: char_class_defs)
  show ?thesis
  proof (cases r)
    case Nil
    then show ?thesis using assms(1) b by (simp add: fields_of_def w split_on_word(2))
  next
    case (Cons c r')
    then have "r = CHR '' '' # r'" using assms(3) by simp
    moreover have "is_space (CHR '' '')" by (simp add: char_class_defs)
    ultimately show ?thesis using assms(1) b by (simp add: fields_of_def w split_on_word(1))
  qed
qed

lemma fields_pad: "fields_of (replicate k (CHR '' '') @ s) = fields_of s"
  by (induction k) (simp_all add: fields_blank)

lemma digit_no_space: "\<forall>c\<in>set (string_of_nat v). \<not> is_space c"
proof
  fix c assume "c \<in> set (string_of_nat v)"
  then have "is_digit c" by (rule string_of_nat_digits)
  then show "\<not> is_space c" by (auto simp: char_class_defs)
qed

lemma fields_counters: "fields_of (counters_text vs) = map (string_of_nat \<circ> snd) vs"
proof (induction vs)
  case (Cons e vs)
  obtain k v where e: "e = (k, v)" by fastforce
  have "counters_text vs = [] \<or> hd (counters_text vs) = CHR '' ''" by (cases vs) (auto simp: counters_text_def)
  then have "fields_of (string_of_nat v @ counters_text vs) = string_of_nat v # fields_of (counters_text vs)"
    by (intro fields_word) (simp_all add: digit_no_space)
  then show ?case using Cons.IH fields_pad[of "Suc k"] by (simp add: counters_text_def e)
qed (simp add: counters_text_def fields_of_def)

lemma partition_word: "c \<notin> set w \<Longrightarrow> partition_at c (w @ c # r) = (w, r)"
  by (induction w) auto

lemma strip_pad: "n \<noteq> [] \<Longrightarrow> \<forall>c\<in>set n. \<not> is_space c \<Longrightarrow> strip (replicate k (CHR '' '') @ n) = n"
proof -
  assume n: "n \<noteq> []" "\<forall>c\<in>set n. \<not> is_space c"
  have "is_space (CHR '' '')" by (simp add: char_class_defs)
  then have "lstrip (replicate k (CHR '' '') @ n) = lstrip n" by (induction k) (simp_all add: lstrip_def)
  moreover have "strip n = n" using n by (intro strip_bare_ends) auto
  ultimately show ?thesis by (simp add: strip_def)
qed

definition plain_iface :: "nat \<times> string \<times> (nat \<times> nat) list \<Rightarrow> bool" where
  "plain_iface = (\<lambda>(k, n, vs). n \<noteq> [] \<and> (\<forall>c\<in>set n. \<not> is_space c \<and> c \<noteq> CHR '':'') \<and> 9 \<le> length vs)"

definition iface_counters :: "nat \<times> string \<times> (nat \<times> nat) list \<Rightarrow> net_stat" where
  "iface_counters = (\<lambda>(k, n, vs). \<lparr>ns_name = n, ns_rx = int (snd (vs ! 0)), ns_tx = int (snd (vs ! 8))\<rparr>)"

lemma net_dev_line_text: "plain_iface i \<Longrightarrow> net_dev_line (net_dev_text i) = Some [iface_counters i]"
proof -
  assume p: "plain_iface i"
  obtain k n vs where i: "i = (k, n, vs)" by (cases i)
  have c: "CHR '':'' \<notin> set (replicate k (CHR '' '') @ n)" using p by (auto simp: plain_iface_def i)
  have t: "net_dev_text i = (replicate k (CHR '' '') @ n) @ CHR '':'' # counters_text vs" by (simp add: net_dev_text_def i)
  have "partition_at (CHR '':'') (net_dev_text i) = (replicate k (CHR '' '') @ n, counters_text vs)" unfolding t by (rule partition_word[OF c])
  moreover have "CHR '':'' \<in> set (net_dev_text i)" by (simp add: t)
  moreover have "strip (replicate k (CHR '' '') @ n) = n" using p by (intro strip_pad) (auto simp: plain_iface_def i)
  moreover have l: "9 \<le> length vs" using p by (simp add: plain_iface_def i)
  moreover have "(map (string_of_nat \<circ> snd) vs) ! 0 = string_of_nat (snd (vs ! 0))" "(map (string_of_nat \<circ> snd) vs) ! 8 = string_of_nat (snd (vs ! 8))"
    using l by (cases vs; simp)+
  ultimately show ?thesis by (simp add: net_dev_line_def fields_counters iface_counters_def i)
qed

lemma net_dev_text_lines: "plain_iface i \<Longrightarrow> \<forall>c\<in>set (net_dev_text i). \<not> line_break c"
proof
  fix c assume p: "plain_iface i" and c: "c \<in> set (net_dev_text i)"
  obtain k n vs where i: "i = (k, n, vs)" by (cases i)
  have "c = CHR '' '' \<or> c = CHR '':'' \<or> \<not> is_space c"
    using c p digit_no_space by (fastforce simp: i net_dev_text_def counters_text_def plain_iface_def)
  moreover have "\<not> line_break (CHR '' '')" "\<not> line_break (CHR '':'')" by code_simp+
  ultimately show "\<not> line_break c" using line_break_space by blast
qed

text \<open>The collector reads the kernel's table of interfaces back: every interface with its received and sent bytes, in order, after two header lines.\<close>

theorem net_dev_read_back:
  assumes "\<forall>i\<in>set is. plain_iface i" "\<forall>h\<in>set [h1, h2]. \<forall>c\<in>set h. \<not> line_break c"
  shows "parse_proc_net_dev (concat (map (\<lambda>l. l @ nl) (h1 # h2 # map net_dev_text is))) = Some (map iface_counters is)"
proof -
  have "py_splitlines (concat (map (\<lambda>l. l @ nl) (h1 # h2 # map net_dev_text is))) = h1 # h2 # map net_dev_text is"
    by (rule py_splitlines_lines) (use assms net_dev_text_lines in auto)
  moreover have "map net_dev_line (map net_dev_text is) = map (\<lambda>i. Some [iface_counters i]) is" using assms(1) by (simp add: net_dev_line_text)
  moreover have "those (map (\<lambda>i. Some [iface_counters i]) is) = Some (map (\<lambda>i. [iface_counters i]) is)" by (induction "is") simp_all
  ultimately show ?thesis by (simp add: parse_proc_net_dev_def concat_map_singleton del: map_map)
qed

theorem net_dev_read_back_witness:
  "parse_proc_net_dev (concat (map (\<lambda>l. l @ nl) (''Inter-|'' # '' face |'' # map net_dev_text [(2, ''eth0'', replicate 16 (3, 7))])))
   = Some [\<lparr>ns_name = ''eth0'', ns_rx = 7, ns_tx = 7\<rparr>]"
proof -
  have "list_all plain_iface [(2, ''eth0'', replicate 16 (3, 7))]" "list_all (\<lambda>h. list_all (\<lambda>c. \<not> line_break c) h) [''Inter-|'', '' face |'']"
    "map iface_counters [(2, ''eth0'', replicate 16 (3, 7))] = [\<lparr>ns_name = ''eth0'', ns_rx = 7, ns_tx = 7\<rparr>]" by code_simp+
  then show ?thesis using net_dev_read_back[of "[(2, ''eth0'', replicate 16 (3, 7))]" "''Inter-|''" "'' face |''"] by (simp add: list_all_iff)
qed

end
