(* ===== verification/Spec2Isabelle.thy ===== *)
theory Spec2Isabelle
  imports Nft_Render_Props Fw_Test_Library Multi_Fw Fw_Deploy Node_Netplan_Props Node_Apply Gw_System Gw_Network Gw_Routing Gw_Vpn_Claims Gw_Dns_Lab Dhcp_Claims Gw_Mail_Claims Gw_Account_Claims Routing_Single Gw_Simulation_Props Wg_Status Llm_Claims Gw_Metrics
begin

text \<open>
  Verification of Viswall, a firewall manager: an API gateway that keeps the desired configuration of
  many hosts in a database, and agents on the hosts that put it in force.

  \<^bold>\<open>How the program works.\<close> Administrators edit firewall rules, NAT rules, routing rules, QoS policies and
  interfaces through the gateway (\<open>services/api-gateway/routers\<close>). The handlers store rows and then send
  the agent of the instance one body with all enabled rows (\<open>utils/firewall_dispatch.py\<close>), either within
  the request or as a background task. The firewall agent (\<open>services/firewall-service\<close>) converts the body,
  renders a ruleset for nftables, loads it with a way back, and applies policy routing and traffic
  control. The node agent (\<open>services/node-agent\<close>) plans idempotent \<open>ip\<close> commands for the interfaces,
  refuses plans that would cut the host off, and writes a netplan file. The VPN agent
  (\<open>services/vpn-service/viswall_vpn_agent\<close>) writes one WireGuard client configuration and steers its unit. The DNS agent
  (\<open>services/dns-service/viswall_dns_agent\<close>) writes zone files and the configuration of BIND and reloads it. The DHCP agent
  (\<open>services/dhcp-service\<close>) does the same for Kea. The mail agent only reloads servers that read the database themselves. A simulator
  (\<open>shared/firewall_simulator.py\<close>) predicts what a rule set does to test packets.

  \<^bold>\<open>The theories.\<close>

  \<^item> \<open>Py_Base\<close>, \<open>Py_Ipaddress\<close>, \<open>Py_Ip6_Roundtrip\<close>: the parts of Python the code relies on: string methods,
    \<open>int\<close>, ordered dictionaries, and the \<open>ipaddress\<close> module (parsing, printing, networks, membership), with
    the theorem that a printed IPv6 address parses back.
  \<^item> \<open>Fw_Simulator\<close>, \<open>Fw_Test_Library\<close>, \<open>Multi_Fw\<close>: \<open>shared/firewall_simulator.py\<close>: rule matching, chain
    choice, verdicts, test suites; the breadth-first path search and the simulation over several firewalls.
  \<^item> \<open>Nft_Rule\<close>, \<open>Nft_Render\<close>, \<open>Nft_Render_Props\<close>: \<open>nft.py\<close>: validators, quoting, NAT targets, the translation
    of one rule and the rendering of all chains.
  \<^item> \<open>Nft_Apply\<close>: \<open>NFTablesManager.apply_ruleset\<close> and the block list. The host is a record: configuration
    file, last-good file, and the list of files whose rules are live. What a tool answers is a field of an
    environment record; theorems hold for every environment.
  \<^item> \<open>Fw_Payload\<close>, \<open>Snapshots\<close>, \<open>Routing\<close>, \<open>Routing_Props\<close>, \<open>Qos\<close>, \<open>Fw_Deploy\<close>: the rest of the firewall agent:
    conversion of a body, snapshots, policy routing, traffic control, the deploy pipeline, rollback, and the
    endpoints with the key check.
  \<^item> \<open>Node_Plan\<close>, \<open>Node_Netplan\<close>, \<open>Node_Netplan_Props\<close>, \<open>Node_Apply\<close>: \<open>netcfg.py\<close> and
    \<open>payloads.py\<close>: validators, discovery, the plan, the guards, the netplan file, live apply and try mode.
  \<^item> \<open>Gw_Base\<close>: database tables (a locale \<open>row_store\<close> states what handlers rely on, interpreted on the
    tables of the model), JSON bodies, tokens, audit log, and \<open>agent_client.py\<close>.
  \<^item> \<open>Gw_Payload\<close>: rows, and the bodies of \<open>firewall_dispatch.py\<close>.
  \<^item> \<open>Gw_Firewall\<close>, \<open>Gw_Qos\<close>, \<open>Gw_Tasks\<close>: all of \<open>routers/firewall.py\<close>: every handler as a function of the state
    (database, world of the agents, queued tasks), and the step relation \<open>fw_step\<close>: a handler call with any
    token and arguments, or the run of any queued task.
  \<^item> \<open>Gw_Firewall_Props\<close>, \<open>Gw_Invariant\<close>, \<open>Gw_Reachable\<close>, \<open>Gw_Order\<close>: how the agents read the bodies, the invariant of the rows and its
    preservation by every step, the rule order, who may write.
  \<^item> \<open>Gw_System\<close>: the gateway and the firewall agent together: the agent model is the peer of the gateway's
    HTTP client.
  \<^item> \<open>Gw_Network\<close>, \<open>Gw_Routing\<close>: all of \<open>routers/network.py\<close> and \<open>routers/routing.py\<close>.
  \<^item> \<open>Wg_Client\<close>, \<open>Wg_Props\<close>: \<open>wg_client.py\<close> and \<open>api.py\<close> of the VPN agent: validators, the rendered
    configuration, and the manager over a host of a file, its backup and a unit.
  \<^item> \<open>Py_Base64\<close>: the standard encoding, with the theorem that decoding undoes it.
  \<^item> \<open>Gw_Vpn\<close>, \<open>Gw_Vpn_Clients\<close>, \<open>Gw_Vpn_Site\<close>: \<open>routers/vpn.py\<close>: servers, clients with their generated
    configurations, connections, routes, site-to-site tunnels, and the tunnel body of \<open>firewall_dispatch.py\<close>.
  \<^item> \<open>Gw_Vpn_Props\<close>, \<open>Gw_Vpn_System\<close>, \<open>Gw_Vpn_Claims\<close>: the step relation \<open>vpn_step\<close> with its invariant, the
    gateway and the VPN agent together, and the properties of both.
  \<^item> \<open>Dns_Render\<close>, \<open>Dns_Agent\<close>, \<open>Dns_Files\<close>: the DNS agent: zone files, options and zone statements as text, the
    order of the writes, the reload, the endpoints, and what a successful write leaves on the host.
  \<^item> \<open>Gw_Dns\<close>, \<open>Gw_Dns_Zones\<close>, \<open>Gw_Dns_Records\<close>: \<open>utils/dns_dispatch.py\<close> and all of \<open>routers/dns.py\<close>, with the step
    relation \<open>dns_step\<close> of handler calls and queued tasks. \<open>Dns_Body\<close>: the agent's schema reads the body back.
  \<^item> \<open>Gw_Dns_Props\<close>, \<open>Gw_Dns_System\<close>, \<open>Gw_Dns_Ptr\<close>, \<open>Gw_Dns_Claims\<close>, \<open>Gw_Dns_Lab\<close>: the invariant of the rows and the
    fate of system records, the router and the agent together, pointer names, the properties, and a concrete
    server at which they are applied.
  \<^item> \<open>Gw_Dhcp\<close>, \<open>Gw_Dhcp_Pools\<close>, \<open>Gw_Dhcp_Props\<close>: all of \<open>routers/dhcp.py\<close>, a run of it as a list of calls, and the
    invariant of its rows. \<open>Dhcp_Agent\<close>, \<open>Dhcp_Leases\<close>, \<open>Dhcp_Lease_Props\<close>: \<open>dhcp_agent.py\<close>: the rendered configurations
    of Kea as JSON values, the steps of an apply, the reader of \<open>csv\<close> as an automaton, and the lease files.
    \<open>Dhcp_Claims\<close>: the properties of both. Nothing connects them: the router sends nothing.
  \<^item> \<open>Gw_Mail\<close>, \<open>Gw_Mail_Boxes\<close>, \<open>Gw_Mail_Messages\<close>: all of \<open>routers/mail.py\<close> and
    \<open>mail_classifier.py\<close>, with the step relation \<open>mail_step\<close> of handler calls and background tasks, and with
    \<open>services/mail-service/mail_agent.py\<close> as the peer of the gateway. \<open>Gw_Mail_Props\<close>, \<open>Gw_Mail_Claims\<close>: the invariant
    of the rows and the properties.
  \<^item> \<open>Gw_Accounts\<close>, \<open>Gw_Instances\<close>: \<open>routers/auth.py\<close>, \<open>users.py\<close>, \<open>instances.py\<close> and \<open>audit.py\<close> with the token
    functions of \<open>shared/security.py\<close>, the step relation \<open>acct_step\<close>, and how the agent client sees a stored instance.
    \<open>Gw_Account_Claims\<close>: the invariant of the rows and the properties.
  \<^item> \<open>Gw_Simulation\<close>, \<open>Gw_Simulation_Props\<close>: all of \<open>routers/firewall_simulation.py\<close>, with the simulator once more on the
    texts that two of its endpoints hand it. \<open>Routing_Single\<close>: the single-object calls of \<open>routing.py\<close>.
  \<^item> \<open>Wg_Status\<close>: the live status of the VPN agent, read from \<open>wg show\<close> by patterns.
  \<^item> \<open>Llm_Client\<close>: \<open>shared/llm_client.py\<close>: the three providers of language models, the reader of a classification and the
    use cases. \<open>Gw_Llm\<close>, \<open>Llm_Props\<close>: \<open>routers/llm_admin.py\<close>: the registry, its invariant and the import of models.
    \<open>Llm_Assistant\<close>: \<open>shared/llm_assistant.py\<close> and \<open>routers/assistant.py\<close>. \<open>Llm_Claims\<close>: the properties, with the registry
    as the client of the mail classifier.
  \<^item> \<open>Heartbeat\<close>: \<open>heartbeat.py\<close> of the four agents, with the gateway as their peer. \<open>Gw_Metrics\<close>: \<open>routers/metrics.py\<close>,
    \<open>metrics_collector.py\<close>, \<open>metrics_retention.py\<close> and \<open>routers/groupware.py\<close>.

  \<^bold>\<open>What the lemmas show.\<close> Rendering: user rules cannot come before the mandatory lines, text without line
  breaks cannot add lines, addresses and targets are in printed form. Applying: the live table mixes two
  files only when the tool refuses to delete an existing table, a success means exactly the new ruleset, a refusal is early,
  a rollback restores both files or fails in one of the stated ways. Routing and planning: no command exactly when the live
  state is as desired, deletes only what is owned, and exactly what the guards of an interface apply let through: they do not
  protect the default route from another interface's gateway. Gateway: an invariant of the rows over all runs, the body
  reads back as the rows, and an answered creation is in force on the host; calls of the firewall router without an administrator
  change no row. VPN: no value adds an assignment to the configuration, unless it were the DNS value, which no caller sets; the outcome of an
  apply in every case; a restart gets the unit running; and the initialization of a tunnel, which never reaches the agent because a
  name is unbound, strands its row. DNS: an answered apply has written exactly the rows (but the flags and tags of CAA
  records) and, when the agent may run commands, had them reloaded; pointer names complete to the reverse pointer, key rollovers
  replace one type of key. DHCP: every stored range belongs to a subnet its server serves; an answered apply is tested and running when
  the agent may run commands and only written otherwise; a release removes exactly the leases of an address from a plain lease
  file. Mail: names stay unique in every order of calls, a classification is always from the list. Language models: an import is
  idempotent and enables nothing. Accounts: a login needs the stored password or the directory. Errors: theorems that show
  where the code breaks a promise.

  \<^bold>\<open>Bounds.\<close> No fuel is used: every recursion is structural or has a termination proof (the path search by the
  number of firewalls not yet visited). Integers
  are unbounded as in Python. Characters are bytes.

  \<^bold>\<open>Parameters.\<close> The answers of host tools, the clock, the outcome of HTTP exchanges, and the validation of
  relayed answers are arguments. A commit succeeds unless a column that must not be null would be null or an
  instance is missing; column widths are not modelled. A handler runs without interleaving with another.
  Numbers in JSON are integers. Text columns sort by byte order. Foreign keys to users count in the account
  theories only.
  The leases of a subnet are deleted before its pools, a lease file can be written, and its fields stay below the limit of \<open>csv\<close>.

  \<^bold>\<open>Not modelled.\<close> Process start, registration and timers, the read-only endpoints of the agents, the
  replaced VPN agent \<open>vpn_agent.py\<close>, the signing endpoint of the DNS agent, the encoding and expiry of tokens, password
  hashing and the directory server (arguments of the account theories), the peers of the language models and the wording of
  the prompts (arguments), migrations, the SDK, the command line and the web interface.
\<close>

end
